(* ===== verification/Prelude.thy ===== *)
theory Prelude
  imports Complex_Main "HOL-Library.Word" "HOL-Library.Monad_Syntax"
begin

text \<open>
  Shared vocabulary of the development: the machine types of the C sources, memory
  accesses that can leave their allocation, the byte representation of integers, and the
  small statement language in which the marshalling routines are written.

  An execution that leaves the behaviour the C standard defines (a read or write past the
  end of an allocation, a conversion of an unrepresentable floating value) is the value
  \<^term>\<open>None\<close> of the type \<open>'a exec\<close>; a property that a routine returns \<^term>\<open>Some\<close> is
  therefore a memory-safety statement.
\<close>

unbundle bit_operations_syntax

type_synonym u8 = "8 word"
type_synonym u16 = "16 word"
type_synonym u32 = "32 word"
type_synonym u64 = "64 word"
type_synonym bytes = "u8 list"
type_synonym 'a exec = "'a option"

named_theorems mem_simps "facts about reads and writes of a byte buffer"
named_theorems codec_simps "facts that run the marshalling statements symbolically"

lemma unat_of_nat_lt: "n < 2 ^ LENGTH('a) \<Longrightarrow> unat (of_nat n :: 'a::len word) = n"
  by (simp add: unsigned_of_nat take_bit_nat_eq_self)

lemma bit_lt: "w < 2 ^ k \<Longrightarrow> k < LENGTH('a) \<Longrightarrow> bit (w :: 'a::len word) n \<Longrightarrow> n < k"
proof -
  assume k: "w < 2 ^ k" "k < LENGTH('a)" and "bit w n"
  from k have "uint w < uint (2 ^ k :: 'a word)" by (simp add: word_less_def)
  also have "\<dots> = 2 ^ k" using k(2) by (intro uint_2p) (simp add: word_greater_zero_iff)
  finally have "take_bit k (uint w) = uint w" by (simp add: take_bit_int_eq_self)
  with \<open>bit w n\<close> show "n < k" by (metis bit_take_bit_iff bit_uint_iff bit_imp_le_length)
qed

lemma u32_bound: "unat (n :: u32) < 2 ^ 32"
  by (rule order.strict_trans2 [OF unsigned_less]) simp

text \<open>The result of an operation on a 32-bit \<open>int\<close>: overflow is undefined.\<close>

definition cInt :: "int \<Rightarrow> int exec" where
  "cInt x = (if - 2147483648 \<le> x \<and> x \<le> 2147483647 then Some x else None)"

section \<open>Searching lists\<close>

text \<open>The position of the first element with a property, and the list without that element.\<close>

fun firstIdx :: "('a \<Rightarrow> bool) \<Rightarrow> 'a list \<Rightarrow> nat option" where
  "firstIdx P [] = None"
| "firstIdx P (x # xs) = (if P x then Some 0 else map_option Suc (firstIdx P xs))"

fun removeFirst :: "('a \<Rightarrow> bool) \<Rightarrow> 'a list \<Rightarrow> 'a list" where
  "removeFirst P [] = []"
| "removeFirst P (x # xs) = (if P x then xs else x # removeFirst P xs)"

lemma firstIdx_None: "firstIdx P xs = None \<longleftrightarrow> (\<forall>x \<in> set xs. \<not> P x)"
  by (induction xs) auto

lemma firstIdx_cong: "\<forall>x \<in> set l. P x = Q x \<Longrightarrow> firstIdx P l = firstIdx Q l"
  by (induction l) auto

lemma firstIdx_Some:
  "firstIdx P xs = Some i \<Longrightarrow> i < length xs \<and> P (xs ! i) \<and> (\<forall>j < i. \<not> P (xs ! j))"
proof (induction xs arbitrary: i)
  case Nil
  then show ?case by simp
next
  case (Cons x xs)
  then show ?case by (auto split: if_splits simp: nth_Cons split: nat.splits)
qed

lemma firstIdx_find: "map_option (\<lambda>i. xs ! i) (firstIdx P xs) = find P xs"
  by (induction xs) (auto simp: option.map_comp comp_def)

lemma removeFirst_firstIdx:
  "removeFirst P xs = (case firstIdx P xs of None \<Rightarrow> xs | Some i \<Rightarrow> take i xs @ drop (Suc i) xs)"
  by (induction xs) (auto split: option.splits)

lemma set_removeFirst: "set (removeFirst P xs) \<subseteq> set xs"
  by (induction xs) auto

lemma removeFirst_keeps: "x \<in> set xs \<Longrightarrow> \<not> P x \<Longrightarrow> x \<in> set (removeFirst P xs)"
  by (induction xs) auto

lemma removeFirst_id: "\<forall>x \<in> set xs. \<not> P x \<Longrightarrow> removeFirst P xs = xs"
  by (induction xs) auto

lemma distinct_removeFirst: "distinct (map f xs) \<Longrightarrow> distinct (map f (removeFirst P xs))"
  by (induction xs) (auto dest!: subsetD [OF set_removeFirst])

lemma length_removeFirst:
  "length (removeFirst P xs) = (if \<exists>x \<in> set xs. P x then length xs - 1 else length xs)"
proof (induction xs)
  case Nil
  then show ?case by simp
next
  case (Cons x xs)
  then show ?case by (cases xs) auto
qed

section \<open>Memory\<close>

text \<open>\<open>memRead buf off n\<close> reads \<open>n\<close> bytes at \<open>buf + off\<close>; \<open>memWrite\<close> stores bytes there.\<close>

definition memRead :: "bytes \<Rightarrow> nat \<Rightarrow> nat \<Rightarrow> bytes exec" where
  "memRead buf off n = (if off + n \<le> length buf then Some (take n (drop off buf)) else None)"

definition memWrite :: "bytes \<Rightarrow> nat \<Rightarrow> bytes \<Rightarrow> bytes exec" where
  "memWrite buf off bs =
     (if off + length bs \<le> length buf
      then Some (take off buf @ bs @ drop (off + length bs) buf) else None)"

lemma memRead_Some_iff: "memRead buf off n = Some bs \<longleftrightarrow>
    off + n \<le> length buf \<and> bs = take n (drop off buf)"
  by (auto simp: memRead_def)

lemma memRead_length: "memRead buf off n = Some bs \<Longrightarrow> length bs = n"
  by (auto simp: memRead_def split: if_splits)

lemma memWrite_length [mem_simps]: "memWrite buf off bs = Some buf' \<Longrightarrow> length buf' = length buf"
  by (auto simp: memWrite_def split: if_splits)

lemma memRead_memWrite:
  "memWrite buf off bs = Some buf' \<Longrightarrow> memRead buf' off (length bs) = Some bs"
  by (auto simp: memWrite_def memRead_def split: if_splits)

lemma memWrite_at_end [mem_simps]:
  "length bs \<le> length post \<Longrightarrow> off = length pre \<Longrightarrow>
   memWrite (pre @ post) off bs = Some ((pre @ bs) @ drop (length bs) post)"
  by (simp add: memWrite_def)

lemma memRead_suffix [mem_simps]:
  "off = length pre \<Longrightarrow> n = length bs \<Longrightarrow> memRead (pre @ bs @ post) off n = Some bs"
  by (simp add: memRead_def)

section \<open>Byte representation of integers\<close>

text \<open>Least significant byte first, and back.\<close>

definition bytesOfWord :: "nat \<Rightarrow> 'a::len word \<Rightarrow> bytes" where
  "bytesOfWord n w = map (\<lambda>i. ucast (drop_bit (8 * i) w)) [0..<n]"

primrec wordOfBytes :: "bytes \<Rightarrow> 'a::len word" where
  "wordOfBytes [] = 0"
| "wordOfBytes (b # bs) = ucast b OR push_bit 8 (wordOfBytes bs)"

lemma length_bytesOfWord [simp]: "length (bytesOfWord n w) = n"
  by (simp add: bytesOfWord_def)

lemma bit_wordOfBytes:
  "bit (wordOfBytes bs :: 'a::len word) k \<longleftrightarrow>
     k < LENGTH('a) \<and> k < 8 * length bs \<and> bit (bs ! (k div 8)) (k mod 8)"
proof (induction bs arbitrary: k)
  case Nil
  then show ?case by simp
next
  case (Cons b bs)
  show ?case
  proof (cases "k < 8")
    case True
    then show ?thesis
      by (auto simp: bit_simps)
  next
    case False
    then have "k div 8 = Suc ((k - 8) div 8)" "k mod 8 = (k - 8) mod 8"
      by (simp_all add: le_div_geq le_mod_geq)
    moreover have "\<not> bit b k"
      using False by (auto dest: bit_imp_le_length)
    ultimately show ?thesis
      using False Cons.IH[of "k - 8"] by (auto simp: bit_simps)
  qed
qed

lemma wordOfBytes_bytesOfWord:
  assumes "8 * n = LENGTH('a)"
  shows "wordOfBytes (bytesOfWord n w) = (w :: 'a::len word)"
proof (rule bit_word_eqI)
  fix k assume "k < LENGTH('a)"
  then have "k div 8 < n" using assms by linarith
  moreover have "8 * (k div 8) + k mod 8 = k" by simp
  ultimately show "bit (wordOfBytes (bytesOfWord n w) :: 'a word) k = bit w k"
    using assms \<open>k < LENGTH('a)\<close>
    by (simp add: bit_wordOfBytes bytesOfWord_def bit_simps)
qed

lemma bytesOfWord_wordOfBytes:
  assumes "length bs = n" and "8 * n = LENGTH('a)"
  shows "bytesOfWord n (wordOfBytes bs :: 'a::len word) = bs"
proof (rule nth_equalityI)
  show "length (bytesOfWord n (wordOfBytes bs :: 'a word)) = length bs"
    using assms by simp
next
  fix i assume "i < length (bytesOfWord n (wordOfBytes bs :: 'a word))"
  then have i: "i < n" by simp
  show "bytesOfWord n (wordOfBytes bs :: 'a word) ! i = bs ! i"
  proof (rule bit_word_eqI)
    fix k assume k: "k < LENGTH(8)"
    then have "(8 * i + k) div 8 = i" "(8 * i + k) mod 8 = k" "8 * i + k < LENGTH('a)"
      using i assms(2) by auto
    then show "bit (bytesOfWord n (wordOfBytes bs :: 'a word) ! i) k = bit (bs ! i) k"
      using i k assms by (simp add: bytesOfWord_def bit_simps bit_wordOfBytes)
  qed
qed

section \<open>Statements with early return\<close>

text \<open>
  The body of a marshalling routine is a sequence of statements over a cursor and an object.
  A statement falls through (\<open>Next\<close>), executes an early \<open>return JAUS_FALSE\<close> (\<open>Return\<close>,
  with the state it leaves behind) or has undefined behaviour (\<open>Fault\<close>).
\<close>

datatype 's flow = Fault | Return 's | Next 's

type_synonym 's stmt = "'s \<Rightarrow> 's flow"

fun runStmts :: "'s stmt list \<Rightarrow> 's stmt" where
  "runStmts [] s = Next s"
| "runStmts (c # cs) s =
     (case c s of Fault \<Rightarrow> Fault | Return t \<Rightarrow> Return t | Next t \<Rightarrow> runStmts cs t)"

text \<open>A guarded block: the guard may itself have undefined behaviour.\<close>

definition whenS :: "('s \<Rightarrow> bool exec) \<Rightarrow> 's stmt list \<Rightarrow> 's stmt" where
  "whenS g cs s = (case g s of None \<Rightarrow> Fault | Some b \<Rightarrow> if b then runStmts cs s else Next s)"

lemma runStmts_append:
  "runStmts (cs @ ds) s =
     (case runStmts cs s of Fault \<Rightarrow> Fault | Return t \<Rightarrow> Return t | Next t \<Rightarrow> runStmts ds t)"
  by (induction cs arbitrary: s) (auto split: flow.splits)

text \<open>
  Two statement sequences simulate each other along an abstraction of their states: the
  tool that replaces a cursor into a buffer by the list of the bytes that remain.
\<close>

definition simS :: "('s \<Rightarrow> 't \<Rightarrow> bool) \<Rightarrow> 's stmt \<Rightarrow> 't stmt \<Rightarrow> bool" where
  "simS R c d \<longleftrightarrow> (\<forall>s t. R s t \<longrightarrow> rel_flow R (c s) (d t))"

lemma simSD: "simS R c d \<Longrightarrow> R s t \<Longrightarrow> rel_flow R (c s) (d t)"
  by (simp add: simS_def)

lemma simS_runStmts:
  "list_all2 (simS R) cs ds \<Longrightarrow> simS R (runStmts cs) (runStmts ds)"
proof (induction cs ds rule: list_all2_induct)
  case Nil
  then show ?case by (simp add: simS_def)
next
  case (Cons c cs d ds)
  show ?case
    unfolding simS_def
  proof (intro allI impI)
    fix s t assume "R s t"
    with Cons.hyps(1) have "rel_flow R (c s) (d t)" by (rule simSD)
    then show "rel_flow R (runStmts (c # cs) s) (runStmts (d # ds) t)"
      by (cases rule: flow.rel_cases) (simp_all add: simSD [OF Cons.IH])
  qed
qed

lemma simS_whenS:
  assumes "\<And>s t. R s t \<Longrightarrow> g s = h t" and "list_all2 (simS R) cs ds"
  shows "simS R (whenS g cs) (whenS h ds)"
  using simS_runStmts [OF assms(2)] assms(1)
  by (auto simp: simS_def whenS_def split: option.split)

end
