(* ===== verification/JausTypes.thy ===== *)
theory JausTypes
  imports Prelude
begin

text \<open>
  The JAUS base types of \<open>openjaus/src/libjaus/type\<close>: byte order detection and
  the endian-safe copy (\<open>jausEndianness.c\<close>), buffer conversion of the integer types, their
  scaled conversion to and from \<open>double\<close>, and the bit operations that the presence vectors
  use.

  A pointer \<open>buf + off\<close> with the space that follows it is a byte list and an offset. The
  machine the code runs on is a parameter (\<open>host\<close>), so that the wire format can be proved
  independent of it. A \<open>double\<close> is a real number: the conversions are modelled in exact
  arithmetic, without floating-point rounding. A cast of a value that the integer
  type cannot represent, and a division by a zero scale factor, are undefined (\<^term>\<open>None\<close>).
\<close>

section \<open>Byte order\<close>

datatype host = LittleHost | BigHost

datatype JausEndianness = JAUS_UNKNOWN_ENDIAN | JAUS_BIG_ENDIAN | JAUS_LITTLE_ENDIAN

text \<open>How an \<open>n\<close>-byte integer lies in the memory of a host.\<close>

definition hostBytes :: "host \<Rightarrow> nat \<Rightarrow> 'a::len word \<Rightarrow> bytes" where
  "hostBytes h n w = (case h of LittleHost \<Rightarrow> bytesOfWord n w | BigHost \<Rightarrow> rev (bytesOfWord n w))"

definition hostWord :: "host \<Rightarrow> bytes \<Rightarrow> 'a::len word" where
  "hostWord h bs = (case h of LittleHost \<Rightarrow> wordOfBytes bs | BigHost \<Rightarrow> wordOfBytes (rev bs))"

definition jausDetectEndianness :: "host \<Rightarrow> JausEndianness" where
  "jausDetectEndianness h =
     (let testShort = hostWord h [1, 0] :: u16
      in if testShort = 0x100 then JAUS_BIG_ENDIAN
         else if testShort = 0x01 then JAUS_LITTLE_ENDIAN
         else JAUS_UNKNOWN_ENDIAN)"

definition jausEndianSafeCopy :: "host \<Rightarrow> bytes \<Rightarrow> nat \<Rightarrow> bytes" where
  "jausEndianSafeCopy h source len =
     (if jausDetectEndianness h = JAUS_BIG_ENDIAN
      then map (\<lambda>i. source ! (len - i - 1)) [0..<len]
      else take len source)"

lemma jausDetectEndianness_simps [simp]:
  "jausDetectEndianness LittleHost = JAUS_LITTLE_ENDIAN"
  "jausDetectEndianness BigHost = JAUS_BIG_ENDIAN"
  by (simp_all add: jausDetectEndianness_def hostWord_def)

lemma map_nth_rev: "map (\<lambda>i. xs ! (length xs - Suc i)) [0..<length xs] = rev xs"
  by (rule nth_equalityI) (simp_all add: rev_nth)

lemma jausEndianSafeCopy_eq:
  "length bs = n \<Longrightarrow> jausEndianSafeCopy h bs n = (case h of LittleHost \<Rightarrow> bs | BigHost \<Rightarrow> rev bs)"
  by (cases h) (auto simp: jausEndianSafeCopy_def map_nth_rev)

lemma hostWord_copy [simp]:
  "length bs = n \<Longrightarrow> hostWord h (jausEndianSafeCopy h bs n) = wordOfBytes bs"
  by (cases h) (simp_all add: jausEndianSafeCopy_eq hostWord_def)

lemma copy_hostBytes [simp]:
  "jausEndianSafeCopy h (hostBytes h n w) n = bytesOfWord n w"
  by (cases h) (simp_all add: jausEndianSafeCopy_eq hostBytes_def)

section \<open>Buffer conversion\<close>

definition newJausByte :: "u8 \<Rightarrow> u8" where "newJausByte value = value"
definition newJausUnsignedShort :: "u16 \<Rightarrow> u16" where "newJausUnsignedShort val = val"
definition newJausUnsignedInteger :: "u32 \<Rightarrow> u32" where "newJausUnsignedInteger val = val"
definition newJausUnsignedLong :: "u64 \<Rightarrow> u64" where "newJausUnsignedLong val = val"
definition newJausShort :: "u16 \<Rightarrow> u16" where "newJausShort val = val"
definition newJausInteger :: "u32 \<Rightarrow> u32" where "newJausInteger val = val"

lemmas newJaus_defs [simp] = newJausByte_def newJausUnsignedShort_def newJausUnsignedInteger_def
  newJausUnsignedLong_def newJausShort_def newJausInteger_def

text \<open>
  \<^term>\<open>Some None\<close> is the return value \<open>JAUS_FALSE\<close> (the out parameter is not written),
  \<^term>\<open>Some (Some v)\<close> is \<open>JAUS_TRUE\<close> with the value stored.
\<close>

definition jausByteFromBuffer :: "bytes \<Rightarrow> nat \<Rightarrow> u32 \<Rightarrow> u8 option exec" where
  "jausByteFromBuffer buf off bufferSizeBytes =
     (if bufferSizeBytes < 1 then Some None
      else do { b \<leftarrow> memRead buf off 1; Some (Some (newJausByte (b ! 0))) })"

definition jausByteToBuffer :: "u8 \<Rightarrow> bytes \<Rightarrow> nat \<Rightarrow> u32 \<Rightarrow> (bool \<times> bytes) exec" where
  "jausByteToBuffer input buf off bufferSizeBytes =
     (if bufferSizeBytes < 1 then Some (False, buf)
      else do { buf' \<leftarrow> memWrite buf off [input]; Some (True, buf') })"

definition jausUnsignedShortFromBuffer :: "host \<Rightarrow> bytes \<Rightarrow> nat \<Rightarrow> u32 \<Rightarrow> u16 option exec" where
  "jausUnsignedShortFromBuffer h buf off bufferSizeBytes =
     (if bufferSizeBytes < 2 then Some None
      else do { src \<leftarrow> memRead buf off 2;
                Some (Some (newJausUnsignedShort (hostWord h (jausEndianSafeCopy h src 2)))) })"

definition jausUnsignedShortToBuffer :: "host \<Rightarrow> u16 \<Rightarrow> bytes \<Rightarrow> nat \<Rightarrow> u32 \<Rightarrow> (bool \<times> bytes) exec" where
  "jausUnsignedShortToBuffer h input buf off bufferSizeBytes =
     (if bufferSizeBytes < 2 then Some (False, buf)
      else do { buf' \<leftarrow> memWrite buf off (jausEndianSafeCopy h (hostBytes h 2 input) 2);
                Some (True, buf') })"

definition jausUnsignedIntegerFromBuffer :: "host \<Rightarrow> bytes \<Rightarrow> nat \<Rightarrow> u32 \<Rightarrow> u32 option exec" where
  "jausUnsignedIntegerFromBuffer h buf off bufferSizeBytes =
     (if bufferSizeBytes < 4 then Some None
      else do { src \<leftarrow> memRead buf off 4;
                Some (Some (newJausUnsignedInteger (hostWord h (jausEndianSafeCopy h src 4)))) })"

definition jausUnsignedIntegerToBuffer :: "host \<Rightarrow> u32 \<Rightarrow> bytes \<Rightarrow> nat \<Rightarrow> u32 \<Rightarrow> (bool \<times> bytes) exec" where
  "jausUnsignedIntegerToBuffer h input buf off bufferSizeBytes =
     (if bufferSizeBytes < 4 then Some (False, buf)
      else do { buf' \<leftarrow> memWrite buf off (jausEndianSafeCopy h (hostBytes h 4 input) 4);
                Some (True, buf') })"

definition jausUnsignedLongFromBuffer :: "host \<Rightarrow> bytes \<Rightarrow> nat \<Rightarrow> u32 \<Rightarrow> u64 option exec" where
  "jausUnsignedLongFromBuffer h buf off bufferSizeBytes =
     (if bufferSizeBytes < 8 then Some None
      else do { src \<leftarrow> memRead buf off 8;
                Some (Some (newJausUnsignedLong (hostWord h (jausEndianSafeCopy h src 8)))) })"

definition jausUnsignedLongToBuffer :: "host \<Rightarrow> u64 \<Rightarrow> bytes \<Rightarrow> nat \<Rightarrow> u32 \<Rightarrow> (bool \<times> bytes) exec" where
  "jausUnsignedLongToBuffer h input buf off bufferSizeBytes =
     (if bufferSizeBytes < 8 then Some (False, buf)
      else do { buf' \<leftarrow> memWrite buf off (jausEndianSafeCopy h (hostBytes h 8 input) 8);
                Some (True, buf') })"

text \<open>The signed types are two's complement words, read with \<^const>\<open>sint\<close>.\<close>

definition jausShortFromBuffer :: "host \<Rightarrow> bytes \<Rightarrow> nat \<Rightarrow> u32 \<Rightarrow> u16 option exec" where
  "jausShortFromBuffer h buf off bufferSizeBytes =
     (if bufferSizeBytes < 2 then Some None
      else do { src \<leftarrow> memRead buf off 2;
                Some (Some (newJausShort (hostWord h (jausEndianSafeCopy h src 2)))) })"

definition jausShortToBuffer :: "host \<Rightarrow> u16 \<Rightarrow> bytes \<Rightarrow> nat \<Rightarrow> u32 \<Rightarrow> (bool \<times> bytes) exec" where
  "jausShortToBuffer h input buf off bufferSizeBytes =
     (if bufferSizeBytes < 2 then Some (False, buf)
      else do { buf' \<leftarrow> memWrite buf off (jausEndianSafeCopy h (hostBytes h 2 input) 2);
                Some (True, buf') })"

definition jausIntegerFromBuffer :: "host \<Rightarrow> bytes \<Rightarrow> nat \<Rightarrow> u32 \<Rightarrow> u32 option exec" where
  "jausIntegerFromBuffer h buf off bufferSizeBytes =
     (if bufferSizeBytes < 4 then Some None
      else do { src \<leftarrow> memRead buf off 4;
                Some (Some (newJausInteger (hostWord h (jausEndianSafeCopy h src 4)))) })"

definition jausIntegerToBuffer :: "host \<Rightarrow> u32 \<Rightarrow> bytes \<Rightarrow> nat \<Rightarrow> u32 \<Rightarrow> (bool \<times> bytes) exec" where
  "jausIntegerToBuffer h input buf off bufferSizeBytes =
     (if bufferSizeBytes < 4 then Some (False, buf)
      else do { buf' \<leftarrow> memWrite buf off (jausEndianSafeCopy h (hostBytes h 4 input) 4);
                Some (True, buf') })"

section \<open>The contract of a buffer codec\<close>

text \<open>
  Every base type keeps the same contract: a fixed width, a byte encoding that is a
  bijection with the byte strings of that width, and the two buffer operations that move it.
\<close>

locale wire_codec =
  fixes width :: nat
    and enc :: "'v \<Rightarrow> bytes"
    and dec :: "bytes \<Rightarrow> 'v"
    and fromBuffer :: "host \<Rightarrow> bytes \<Rightarrow> nat \<Rightarrow> u32 \<Rightarrow> 'v option exec"
    and toBuffer :: "host \<Rightarrow> 'v \<Rightarrow> bytes \<Rightarrow> nat \<Rightarrow> u32 \<Rightarrow> (bool \<times> bytes) exec"
  assumes width_small: "width < 2 ^ 32"
    and enc_length: "length (enc v) = width"
    and dec_enc: "dec (enc v) = v"
    and enc_dec: "length bs = width \<Longrightarrow> enc (dec bs) = bs"
    and from_spec: "fromBuffer h buf off n =
          (if unat n < width then Some None else map_option (\<lambda>bs. Some (dec bs)) (memRead buf off width))"
    and to_spec: "toBuffer h v buf off n =
          (if unat n < width then Some (False, buf) else map_option (Pair True) (memWrite buf off (enc v)))"
begin

lemma roundtrip:
  assumes "toBuffer h v buf off n = Some (True, buf')"
  shows "fromBuffer h' buf' off n = Some (Some v)"
proof -
  from assms have n: "\<not> unat n < width" and w: "memWrite buf off (enc v) = Some buf'"
    by (auto simp: to_spec split: if_splits)
  from memRead_memWrite [OF w] have "memRead buf' off width = Some (enc v)"
    by (simp add: enc_length)
  with n show ?thesis by (simp add: from_spec dec_enc)
qed

lemma from_to:
  assumes "fromBuffer h buf off n = Some (Some v)"
  shows "toBuffer h' v buf off n = Some (True, buf)"
proof -
  from assms obtain bs where n: "\<not> unat n < width"
    and bs: "memRead buf off width = Some bs" and v: "v = dec bs"
    by (auto simp: from_spec split: if_splits)
  from bs have le: "off + width \<le> length buf" and tk: "bs = take width (drop off buf)"
    by (auto simp: memRead_Some_iff)
  have "enc v = bs" using enc_dec [OF memRead_length [OF bs]] v by simp
  moreover have "take off buf @ take width (drop off buf) @ drop (off + width) buf = buf"
    by (metis append_take_drop_id drop_drop add.commute)
  ultimately have "memWrite buf off (enc v) = Some buf"
    using le enc_length [of v] tk by (simp add: memWrite_def)
  with n show ?thesis by (simp add: to_spec)
qed

lemma safe:
  "off + unat n \<le> length buf \<Longrightarrow> fromBuffer h buf off n \<noteq> None"
  "off + unat n \<le> length buf \<Longrightarrow> toBuffer h v buf off n \<noteq> None"
  by (auto simp: from_spec to_spec memRead_def memWrite_def enc_length)

lemma accepted:
  assumes "off + width \<le> length buf" "width \<le> unat n"
  shows "\<exists>buf'. toBuffer h v buf off n = Some (True, buf') \<and>
     memRead buf' off width = Some (enc v) \<and> fromBuffer h' buf' off n = Some (Some v)"
proof -
  from assms(1) obtain buf' where w: "memWrite buf off (enc v) = Some buf'"
    by (simp add: memWrite_def enc_length)
  then have "toBuffer h v buf off n = Some (True, buf')" using assms(2) by (simp add: to_spec)
  then show ?thesis using roundtrip memRead_memWrite [OF w] by (simp add: enc_length)
qed

lemma refused:
  "unat n < width \<Longrightarrow> fromBuffer h buf off n = Some None \<and> toBuffer h v buf off n = Some (False, buf)"
  by (simp add: from_spec to_spec)

end

lemma bind_memRead: "(memRead buf off n \<bind> (\<lambda>bs. Some (f bs))) = map_option f (memRead buf off n)"
  by (cases "memRead buf off n") auto

lemma bind_memWrite: "(memWrite buf off bs \<bind> (\<lambda>b. Some (True, b))) = map_option (Pair True) (memWrite buf off bs)"
  by (cases "memWrite buf off bs") auto

lemma map_option_memRead_cong:
  "(\<And>bs. length bs = n \<Longrightarrow> f bs = g bs) \<Longrightarrow>
   map_option f (memRead buf off n) = map_option g (memRead buf off n)"
  by (simp add: memRead_def)

lemmas wire_defs = bind_memRead bind_memWrite word_less_nat_alt

interpretation byte: wire_codec 1 "\<lambda>v. [v]" "\<lambda>bs. bs ! 0"
  "\<lambda>_. jausByteFromBuffer" "\<lambda>_. jausByteToBuffer"
  by unfold_locales
    (auto simp: jausByteFromBuffer_def jausByteToBuffer_def wire_defs length_Suc_conv)

interpretation ushort: wire_codec 2 "bytesOfWord 2" wordOfBytes
  jausUnsignedShortFromBuffer jausUnsignedShortToBuffer
  by unfold_locales
    (auto simp: jausUnsignedShortFromBuffer_def jausUnsignedShortToBuffer_def wire_defs
      wordOfBytes_bytesOfWord bytesOfWord_wordOfBytes intro!: map_option_memRead_cong)

interpretation uinteger: wire_codec 4 "bytesOfWord 4" wordOfBytes
  jausUnsignedIntegerFromBuffer jausUnsignedIntegerToBuffer
  by unfold_locales
    (auto simp: jausUnsignedIntegerFromBuffer_def jausUnsignedIntegerToBuffer_def wire_defs
      wordOfBytes_bytesOfWord bytesOfWord_wordOfBytes intro!: map_option_memRead_cong)

interpretation ulong: wire_codec 8 "bytesOfWord 8" wordOfBytes
  jausUnsignedLongFromBuffer jausUnsignedLongToBuffer
  by unfold_locales
    (auto simp: jausUnsignedLongFromBuffer_def jausUnsignedLongToBuffer_def wire_defs
      wordOfBytes_bytesOfWord bytesOfWord_wordOfBytes intro!: map_option_memRead_cong)

interpretation short: wire_codec 2 "bytesOfWord 2" wordOfBytes
  jausShortFromBuffer jausShortToBuffer
  by unfold_locales
    (auto simp: jausShortFromBuffer_def jausShortToBuffer_def wire_defs
      wordOfBytes_bytesOfWord bytesOfWord_wordOfBytes intro!: map_option_memRead_cong)

interpretation integer: wire_codec 4 "bytesOfWord 4" wordOfBytes
  jausIntegerFromBuffer jausIntegerToBuffer
  by unfold_locales
    (auto simp: jausIntegerFromBuffer_def jausIntegerToBuffer_def wire_defs
      wordOfBytes_bytesOfWord bytesOfWord_wordOfBytes intro!: map_option_memRead_cong)

section \<open>Scaled conversion to and from double\<close>

text \<open>The C conversion from \<open>double\<close> to an integer type truncates towards zero.\<close>

definition cTrunc :: "real \<Rightarrow> int" where
  "cTrunc x = (if 0 \<le> x then \<lfloor>x\<rfloor> else \<lceil>x\<rceil>)"

definition castInt :: "int \<Rightarrow> int \<Rightarrow> real \<Rightarrow> 'a::len word exec" where
  "castInt lo hi x = (let t = cTrunc x in if lo \<le> t \<and> t \<le> hi then Some (word_of_int t) else None)"

text \<open>The two limiting statements at the head of every \<open>FromDouble\<close>.\<close>

definition limitValue :: "real \<Rightarrow> real \<Rightarrow> real \<Rightarrow> real" where
  "limitValue value mn mx =
     (let value = (if value < mn then mn else value) in if value > mx then mx else value)"

definition jausByteToDouble :: "u8 \<Rightarrow> real \<Rightarrow> real \<Rightarrow> real" where
  "jausByteToDouble input mn mx =
     (let scaleFactor = (mx - mn) / 255; bias = mn in real_of_int (uint input) * scaleFactor + bias)"

definition jausByteFromDouble :: "real \<Rightarrow> real \<Rightarrow> real \<Rightarrow> u8 exec" where
  "jausByteFromDouble value mn mx =
     (let scaleFactor = (mx - mn) / 255; bias = mn; value = limitValue value mn mx
      in if scaleFactor = 0 then None else castInt 0 255 ((value - bias) / scaleFactor + 1 / 2))"

definition jausUnsignedShortToDouble :: "u16 \<Rightarrow> real \<Rightarrow> real \<Rightarrow> real" where
  "jausUnsignedShortToDouble input mn mx =
     (let scaleFactor = (mx - mn) / 65535; bias = mn in real_of_int (uint input) * scaleFactor + bias)"

definition jausUnsignedShortFromDouble :: "real \<Rightarrow> real \<Rightarrow> real \<Rightarrow> u16 exec" where
  "jausUnsignedShortFromDouble value mn mx =
     (let scaleFactor = (mx - mn) / 65535; bias = mn; value = limitValue value mn mx
      in if scaleFactor = 0 then None else castInt 0 65535 ((value - bias) / scaleFactor + 1 / 2))"

definition jausUnsignedIntegerToDouble :: "u32 \<Rightarrow> real \<Rightarrow> real \<Rightarrow> real" where
  "jausUnsignedIntegerToDouble input mn mx =
     (let scaleFactor = (mx - mn) / 4294967294; bias = mn
      in real_of_int (uint input) * scaleFactor + bias)"

definition jausUnsignedIntegerFromDouble :: "real \<Rightarrow> real \<Rightarrow> real \<Rightarrow> u32 exec" where
  "jausUnsignedIntegerFromDouble value mn mx =
     (let scaleFactor = (mx - mn) / 4294967294; bias = mn; value = limitValue value mn mx
      in if scaleFactor = 0 then None
         else castInt 0 4294967295 ((value - bias) / scaleFactor + 1 / 2))"

definition jausShortToDouble :: "u16 \<Rightarrow> real \<Rightarrow> real \<Rightarrow> real" where
  "jausShortToDouble input mn mx =
     (let scaleFactor = (mx - mn) / 65534; bias = (mx + mn) / 2
      in real_of_int (sint input) * scaleFactor + bias)"

definition jausShortFromDouble :: "real \<Rightarrow> real \<Rightarrow> real \<Rightarrow> u16 exec" where
  "jausShortFromDouble value mn mx =
     (let scaleFactor = (mx - mn) / 65534; bias = (mx + mn) / 2; value = limitValue value mn mx
      in if scaleFactor = 0 then None
         else castInt (-32768) 32767 ((value - bias) / scaleFactor + 1 / 2))"

definition jausIntegerToDouble :: "u32 \<Rightarrow> real \<Rightarrow> real \<Rightarrow> real" where
  "jausIntegerToDouble input mn mx =
     (let scaleFactor = (mx - mn) / 4294967294; bias = (mx + mn) / 2
      in real_of_int (sint input) * scaleFactor + bias)"

definition jausIntegerFromDouble :: "real \<Rightarrow> real \<Rightarrow> real \<Rightarrow> u32 exec" where
  "jausIntegerFromDouble value mn mx =
     (let scaleFactor = (mx - mn) / 4294967294; bias = (mx + mn) / 2; value = limitValue value mn mx
      in if scaleFactor = 0 then None
         else castInt (-2147483648) 2147483647 ((value - bias) / scaleFactor + 1 / 2))"

lemma limitValue_id [simp]: "mn \<le> v \<Longrightarrow> v \<le> mx \<Longrightarrow> limitValue v mn mx = v"
  by (simp add: limitValue_def)

lemma limitValue_range: "mn \<le> mx \<Longrightarrow> mn \<le> limitValue v mn mx \<and> limitValue v mn mx \<le> mx"
  by (auto simp: limitValue_def Let_def)

lemma cTrunc_half_nonneg: "0 \<le> k \<Longrightarrow> cTrunc (real_of_int k + 1 / 2) = k"
  by (simp add: cTrunc_def floor_eq_iff)

lemma cTrunc_half_neg: "k < 0 \<Longrightarrow> cTrunc (real_of_int k + 1 / 2) = k + 1"
proof -
  assume "k < 0"
  then have "k \<le> - 1" by simp
  then have "real_of_int k \<le> - 1" by (metis of_int_le_iff of_int_minus of_int_1)
  then show ?thesis by (simp add: cTrunc_def ceiling_eq_iff)
qed

lemma scaled_range:
  fixes mn mx r :: real
  assumes "mn < mx" "0 < r" "0 \<le> k" "k \<le> r"
  shows "mn \<le> k * ((mx - mn) / r) + mn" "k * ((mx - mn) / r) + mn \<le> mx"
proof -
  have "k * ((mx - mn) / r) = (mx - mn) * (k / r)" by simp
  moreover have "0 \<le> k / r" "k / r \<le> 1" using assms by auto
  ultimately show "mn \<le> k * ((mx - mn) / r) + mn" "k * ((mx - mn) / r) + mn \<le> mx"
    using assms mult_left_le [of "k / r" "mx - mn"] by (auto simp: mult.commute)
qed

lemma scaled_cancel:
  fixes mn mx r b :: real
  assumes "mn < mx" "0 < r"
  shows "(k * ((mx - mn) / r) + b - b) / ((mx - mn) / r) = k"
  using assms by simp

lemma scaled_range_signed:
  fixes mn mx r k :: real
  assumes "mn < mx" "0 < r" "- r \<le> k" "k \<le> r"
  shows "mn \<le> k * ((mx - mn) / (2 * r)) + (mx + mn) / 2"
    and "k * ((mx - mn) / (2 * r)) + (mx + mn) / 2 \<le> mx"
proof -
  have eq: "k * ((mx - mn) / (2 * r)) + (mx + mn) / 2 = (k + r) * ((mx - mn) / (2 * r)) + mn"
    using assms(2) by (simp add: field_simps)
  have "0 < 2 * r" "0 \<le> k + r" "k + r \<le> 2 * r" using assms by auto
  from scaled_range [OF assms(1) this]
  show "mn \<le> k * ((mx - mn) / (2 * r)) + (mx + mn) / 2"
    and "k * ((mx - mn) / (2 * r)) + (mx + mn) / 2 \<le> mx"
    unfolding eq by simp_all
qed

text \<open>The value that a scaled field carries is reproduced up to half a step.\<close>

lemma rounding_error:
  fixes v mn mx r :: real and t :: int
  assumes "mn < mx" "0 < r" "mn \<le> v" "v \<le> mx"
    and t: "t = cTrunc ((v - mn) / ((mx - mn) / r) + 1 / 2)"
  shows "0 \<le> t" "real_of_int t < r + 1"
    and "\<bar>real_of_int t * ((mx - mn) / r) + mn - v\<bar> \<le> (mx - mn) / r / 2"
proof -
  define s where "s = (mx - mn) / r"
  define q where "q = (v - mn) / s"
  have s: "0 < s" using assms by (simp add: s_def)
  have q: "0 \<le> q" "q \<le> r" using assms s by (auto simp: q_def s_def field_simps)
  have te: "t = \<lfloor>q + 1 / 2\<rfloor>" using t q by (simp add: cTrunc_def q_def s_def)
  show "0 \<le> t" using te q by simp
  have b: "real_of_int t \<le> q + 1 / 2" "q + 1 / 2 < real_of_int t + 1"
    using te by linarith+
  show "real_of_int t < r + 1" using b q by linarith
  have "\<bar>real_of_int t - q\<bar> \<le> 1 / 2" using b by linarith
  then have "\<bar>real_of_int t - q\<bar> * s \<le> 1 / 2 * s" using s by (intro mult_right_mono) auto
  moreover have "real_of_int t * s + mn - v = (real_of_int t - q) * s"
    using s by (simp add: q_def field_simps)
  ultimately have "\<bar>real_of_int t * s + mn - v\<bar> \<le> s / 2"
    using s by (simp add: abs_mult)
  then show "\<bar>real_of_int t * ((mx - mn) / r) + mn - v\<bar> \<le> (mx - mn) / r / 2"
    by (simp only: s_def)
qed

lemma uint_bounds: "0 \<le> real_of_int (uint (w :: 'a::len word))"
  "real_of_int (uint (w :: 'a::len word)) \<le> 2 ^ LENGTH('a) - 1"
proof -
  show "0 \<le> real_of_int (uint w)" using uint_ge_0 [of w] by (simp only: of_int_0_le_iff)
  have "uint w < 2 ^ LENGTH('a)" by (rule uint_lt2p)
  then have "uint w \<le> 2 ^ LENGTH('a) - 1" by simp
  then have "real_of_int (uint w) \<le> real_of_int (2 ^ LENGTH('a) - 1)" by (simp only: of_int_le_iff)
  then show "real_of_int (uint w) \<le> 2 ^ LENGTH('a) - 1" by simp
qed

lemma castInt_Some: "lo \<le> cTrunc x \<Longrightarrow> cTrunc x \<le> hi \<Longrightarrow> castInt lo hi x = Some (word_of_int (cTrunc x))"
  by (simp add: castInt_def Let_def)

lemma scaled_cast:
  fixes mn mx r :: real
  assumes "mn < mx" "0 < r" "0 \<le> k" "real_of_int k \<le> r" "lo \<le> k" "k \<le> hi"
  shows "castInt lo hi ((limitValue (real_of_int k * ((mx - mn) / r) + mn) mn mx - mn) / ((mx - mn) / r) + 1 / 2)
         = Some (word_of_int k)"
proof -
  have "0 \<le> real_of_int k" using assms(3) by simp
  note rng = scaled_range [OF assms(1,2) this assms(4)]
  have "limitValue (real_of_int k * ((mx - mn) / r) + mn) mn mx = real_of_int k * ((mx - mn) / r) + mn"
    by (rule limitValue_id [OF rng])
  then show ?thesis
    using cTrunc_half_nonneg [OF assms(3)] assms(5,6)
    by (simp only: scaled_cancel [OF assms(1,2)]) (simp add: castInt_def)
qed

lemma scaled_cast_signed:
  fixes mn mx r :: real
  assumes "mn < mx" "0 < r" "- r \<le> real_of_int k" "real_of_int k \<le> r" "lo \<le> k" "k \<le> hi" "0 \<le> hi"
  shows "castInt lo hi ((limitValue (real_of_int k * ((mx - mn) / (2 * r)) + (mx + mn) / 2) mn mx
            - (mx + mn) / 2) / ((mx - mn) / (2 * r)) + 1 / 2)
         = Some (word_of_int (if 0 \<le> k then k else k + 1))"
proof -
  have r2: "0 < 2 * r" using assms(2) by simp
  have "limitValue (real_of_int k * ((mx - mn) / (2 * r)) + (mx + mn) / 2) mn mx
      = real_of_int k * ((mx - mn) / (2 * r)) + (mx + mn) / 2"
    by (rule limitValue_id [OF scaled_range_signed [OF assms(1-4)]])
  then show ?thesis
    using cTrunc_half_nonneg [of k] cTrunc_half_neg [of k] assms(5-7)
    by (simp only: scaled_cancel [OF assms(1) r2]) (auto simp add: castInt_def Let_def)
qed

text \<open>
  The unsigned types: the value read back from a scaled field is the one stored, and a
  value of the range comes back within half a step.
\<close>

lemma byte_scaled_roundtrip:
  "mn < mx \<Longrightarrow> jausByteFromDouble (jausByteToDouble b mn mx) mn mx = Some b"
  using scaled_cast [where 'a = 8, of mn mx 255 "uint b" 0 255] uint_lt2p [of b] uint_bounds(2) [of b]
  by (simp add: jausByteFromDouble_def jausByteToDouble_def Let_def)

lemma ushort_scaled_roundtrip:
  "mn < mx \<Longrightarrow> jausUnsignedShortFromDouble (jausUnsignedShortToDouble v mn mx) mn mx = Some v"
  using scaled_cast [where 'a = 16, of mn mx 65535 "uint v" 0 65535] uint_lt2p [of v] uint_bounds(2) [of v]
  by (simp add: jausUnsignedShortFromDouble_def jausUnsignedShortToDouble_def Let_def)

lemma uinteger_scaled_roundtrip:
  assumes "mn < mx" "v \<noteq> 0xFFFFFFFF"
  shows "jausUnsignedIntegerFromDouble (jausUnsignedIntegerToDouble v mn mx) mn mx = Some v"
proof -
  have "uint v \<noteq> 4294967295" using assms(2) by (simp add: word_uint_eq_iff)
  then have "uint v \<le> 4294967294" using uint_lt2p [of v] by simp
  then have "real_of_int (uint v) \<le> real_of_int 4294967294" by (simp only: of_int_le_iff)
  then show ?thesis
    using scaled_cast [where 'a = 32, of mn mx 4294967294 "uint v" 0 4294967295] assms(1)
      \<open>uint v \<le> 4294967294\<close>
    by (simp add: jausUnsignedIntegerFromDouble_def jausUnsignedIntegerToDouble_def Let_def)
qed

lemma ushort_quantised:
  assumes "mn < mx" "mn \<le> v" "v \<le> mx"
  shows "\<exists>w. jausUnsignedShortFromDouble v mn mx = Some w \<and>
             \<bar>jausUnsignedShortToDouble w mn mx - v\<bar> \<le> (mx - mn) / 65535 / 2"
proof -
  define t where "t = cTrunc ((v - mn) / ((mx - mn) / 65535) + 1 / 2)"
  note r = rounding_error [OF assms(1) _ assms(2,3) t_def]
  have t: "0 \<le> t" "real_of_int t < 65536" using r by simp_all
  have "t < 65536" using t(2) by linarith
  with t have "uint (word_of_int t :: u16) = t" by (simp add: unsigned_of_int take_bit_int_eq_self)
  moreover have "jausUnsignedShortFromDouble v mn mx = Some (word_of_int t)"
    using assms t \<open>t < 65536\<close>
    unfolding jausUnsignedShortFromDouble_def Let_def castInt_def limitValue_id [OF assms(2,3)]
      t_def [symmetric]
    by simp
  ultimately show ?thesis
    using r(3) unfolding jausUnsignedShortToDouble_def Let_def
    by (metis zero_less_numeral)
qed

text \<open>Storing a value is defined for every real number and every proper range.\<close>

lemma cast_total:
  fixes mn mx r :: real
  assumes "mn < mx" "0 < r" "r \<le> real_of_int hi"
  shows "castInt 0 hi ((limitValue v mn mx - mn) / ((mx - mn) / r) + 1 / 2) \<noteq> None"
proof -
  have rng: "mn \<le> limitValue v mn mx" "limitValue v mn mx \<le> mx"
    using limitValue_range [of mn mx v] assms(1) by simp_all
  note e = rounding_error [OF assms(1,2) rng refl]
  have "cTrunc ((limitValue v mn mx - mn) / ((mx - mn) / r) + 1 / 2) \<le> hi"
    using e(2) assms(3) by linarith
  then show ?thesis using e(1) by (simp add: castInt_def Let_def)
qed

lemma cTrunc_bounds:
  assumes "- c \<le> x" "x < real_of_int k + 1" "0 \<le> k" "0 \<le> c"
  shows "- c \<le> real_of_int (cTrunc x) \<and> cTrunc x \<le> k"
proof (cases "0 \<le> x")
  case True
  then have "0 \<le> \<lfloor>x\<rfloor>" by simp
  then have "- c \<le> real_of_int \<lfloor>x\<rfloor>" using assms(4) by linarith
  moreover have "\<lfloor>x\<rfloor> \<le> k" using assms(2) by linarith
  ultimately show ?thesis using True by (simp add: cTrunc_def)
next
  case False
  then have "\<lceil>x\<rceil> \<le> 0" by simp
  then have "\<lceil>x\<rceil> \<le> k" using assms(3) by linarith
  moreover have "- c \<le> real_of_int \<lceil>x\<rceil>" using assms(1) by linarith
  ultimately show ?thesis using False by (simp add: cTrunc_def)
qed

lemma cast_total_signed:
  fixes mn mx r :: real
  assumes "mn < mx" "0 < r" "r = real_of_int hi" "lo = - hi - 1" "r2 = 2 * r"
  shows "castInt lo hi ((limitValue v mn mx - (mx + mn) / 2) / ((mx - mn) / r2) + 1 / 2) \<noteq> None"
proof -
  have rng: "mn \<le> limitValue v mn mx" "limitValue v mn mx \<le> mx"
    using limitValue_range [of mn mx v] assms(1) by simp_all
  define q where "q = (limitValue v mn mx - (mx + mn) / 2) / ((mx - mn) / (2 * r))"
  have "- r \<le> q" "q \<le> r"
    using rng assms(1,2) by (auto simp: q_def field_simps)
  then have "- r \<le> real_of_int (cTrunc (q + 1 / 2)) \<and> cTrunc (q + 1 / 2) \<le> hi"
    using assms(2,3) by (intro cTrunc_bounds) auto
  then show ?thesis
    using assms(3,4) unfolding assms(5) q_def [symmetric] by (simp add: castInt_def Let_def)
qed

lemma FromDouble_defined:
  assumes "mn < mx"
  shows "jausByteFromDouble v mn mx \<noteq> None" "jausUnsignedShortFromDouble v mn mx \<noteq> None"
    "jausUnsignedIntegerFromDouble v mn mx \<noteq> None"
    "jausShortFromDouble v mn mx \<noteq> None" "jausIntegerFromDouble v mn mx \<noteq> None"
proof -
  have nz: "(mx - mn) / 65534 \<noteq> 0" "(mx - mn) / 4294967294 \<noteq> 0" using assms by simp_all
  show "jausByteFromDouble v mn mx \<noteq> None"
    using cast_total [where 'a = 8, OF assms, of 255 255 v] assms
    by (simp add: jausByteFromDouble_def Let_def)
  show "jausUnsignedShortFromDouble v mn mx \<noteq> None"
    using cast_total [where 'a = 16, OF assms, of 65535 65535 v] assms
    by (simp add: jausUnsignedShortFromDouble_def Let_def)
  show "jausUnsignedIntegerFromDouble v mn mx \<noteq> None"
    using cast_total [where 'a = 32, OF assms, of 4294967294 4294967295 v] assms
    by (simp add: jausUnsignedIntegerFromDouble_def Let_def)
  show "jausShortFromDouble v mn mx \<noteq> None"
    unfolding jausShortFromDouble_def Let_def if_not_P [OF nz(1)]
    by (rule cast_total_signed [OF assms, of 32767]) simp_all
  show "jausIntegerFromDouble v mn mx \<noteq> None"
    unfolding jausIntegerFromDouble_def Let_def if_not_P [OF nz(2)]
    by (rule cast_total_signed [OF assms, of 2147483647]) simp_all
qed

lemma FromDouble_total:
  assumes "mn < mx"
  shows "jausByteFromDouble v mn mx = Some (the (jausByteFromDouble v mn mx))"
    "jausUnsignedShortFromDouble v mn mx = Some (the (jausUnsignedShortFromDouble v mn mx))"
    "jausUnsignedIntegerFromDouble v mn mx = Some (the (jausUnsignedIntegerFromDouble v mn mx))"
    "jausShortFromDouble v mn mx = Some (the (jausShortFromDouble v mn mx))"
    "jausIntegerFromDouble v mn mx = Some (the (jausIntegerFromDouble v mn mx))"
  by (simp_all only: option.collapse FromDouble_defined [OF assms] not_False_eq_True)

lemma short_scaled_roundtrip:
  assumes "mn < mx" "sint v \<noteq> - 32768"
  shows "jausShortFromDouble (jausShortToDouble v mn mx) mn mx = Some (if sint v < 0 then v + 1 else v)"
proof -
  have k: "- 32767 \<le> sint v" "sint v \<le> 32767"
    using sint_greater_eq [of v] sint_less [of v] assms(2) by simp_all
  then have "- 32767 \<le> real_of_int (sint v)" "real_of_int (sint v) \<le> 32767"
    by linarith+
  from scaled_cast_signed [where 'a = 16, OF assms(1) _ this, of "- 32768" 32767] assms(1) k
  show ?thesis
    by (simp add: jausShortFromDouble_def jausShortToDouble_def Let_def)
qed

lemma integer_scaled_roundtrip:
  assumes "mn < mx" "sint v \<noteq> - 2147483648"
  shows "jausIntegerFromDouble (jausIntegerToDouble v mn mx) mn mx = Some (if sint v < 0 then v + 1 else v)"
proof -
  have k: "- 2147483647 \<le> sint v" "sint v \<le> 2147483647"
    using sint_greater_eq [of v] sint_less [of v] assms(2) by simp_all
  then have "- 2147483647 \<le> real_of_int (sint v)" "real_of_int (sint v) \<le> 2147483647"
    by linarith+
  from scaled_cast_signed [where 'a = 32, OF assms(1) _ this, of "- 2147483648" 2147483647] assms(1) k
  show ?thesis
    by (simp add: jausIntegerFromDouble_def jausIntegerToDouble_def Let_def)
qed

section \<open>Bit operations\<close>

text \<open>\<open>0x01 << bit\<close> on \<open>int\<close>: a count outside 0..31 is undefined.\<close>

definition shl1 :: "int \<Rightarrow> u32 exec" where
  "shl1 b = (if 0 \<le> b \<and> b < 32 then Some (push_bit (nat b) 1) else None)"

definition jausByteIsBitSet :: "u8 \<Rightarrow> int \<Rightarrow> bool exec" where
  "jausByteIsBitSet input b = do { m \<leftarrow> shl1 b; Some (0 < ucast input AND m) }"

definition jausByteSetBit :: "u8 \<Rightarrow> int \<Rightarrow> (bool \<times> u8) exec" where
  "jausByteSetBit input b =
     (if 1 * 8 < b then Some (False, input)
      else do { m \<leftarrow> shl1 b; Some (True, ucast (ucast input OR m)) })"

definition jausByteClearBit :: "u8 \<Rightarrow> int \<Rightarrow> (bool \<times> u8) exec" where
  "jausByteClearBit input b =
     (if 1 * 8 < b then Some (False, input)
      else do { m \<leftarrow> shl1 b; Some (True, ucast (ucast input AND NOT m)) })"

definition jausUnsignedShortIsBitSet :: "u16 \<Rightarrow> int \<Rightarrow> bool exec" where
  "jausUnsignedShortIsBitSet input b = do { m \<leftarrow> shl1 b; Some (0 < ucast input AND m) }"

definition jausUnsignedShortSetBit :: "u16 \<Rightarrow> int \<Rightarrow> (bool \<times> u16) exec" where
  "jausUnsignedShortSetBit input b =
     (if 2 * 8 < b then Some (False, input)
      else do { m \<leftarrow> shl1 b; Some (True, ucast (ucast input OR m)) })"

definition jausUnsignedShortClearBit :: "u16 \<Rightarrow> int \<Rightarrow> (bool \<times> u16) exec" where
  "jausUnsignedShortClearBit input b =
     (if 2 * 8 < b then Some (False, input)
      else do { m \<leftarrow> shl1 b; Some (True, ucast (ucast input AND NOT m)) })"

definition jausUnsignedIntegerIsBitSet :: "u32 \<Rightarrow> int \<Rightarrow> bool exec" where
  "jausUnsignedIntegerIsBitSet input b = do { m \<leftarrow> shl1 b; Some (0 < input AND m) }"

definition jausUnsignedIntegerSetBit :: "u32 \<Rightarrow> int \<Rightarrow> (bool \<times> u32) exec" where
  "jausUnsignedIntegerSetBit input b =
     (if 4 * 8 < b then Some (False, input)
      else do { m \<leftarrow> shl1 b; Some (True, input OR m) })"

definition jausUnsignedIntegerClearBit :: "u32 \<Rightarrow> int \<Rightarrow> (bool \<times> u32) exec" where
  "jausUnsignedIntegerClearBit input b =
     (if 4 * 8 < b then Some (False, input)
      else do { m \<leftarrow> shl1 b; Some (True, input AND NOT m) })"

lemma and_exp_pos: "0 < x AND 2 ^ k \<longleftrightarrow> bit (x :: 'a::len word) k"
  by (simp add: word_greater_zero_iff and_exp_eq_0_iff_not_bit)

lemma byteIsBitSet [codec_simps]:
  "0 \<le> b \<Longrightarrow> b < 32 \<Longrightarrow> jausByteIsBitSet x b = Some (bit x (nat b))"
  by (auto simp: jausByteIsBitSet_def shl1_def and_exp_pos bit_simps dest: bit_imp_le_length)

lemma ushortIsBitSet [codec_simps]:
  "0 \<le> b \<Longrightarrow> b < 32 \<Longrightarrow> jausUnsignedShortIsBitSet x b = Some (bit x (nat b))"
  by (auto simp: jausUnsignedShortIsBitSet_def shl1_def and_exp_pos bit_simps
      dest: bit_imp_le_length)

lemma uintegerIsBitSet [codec_simps]:
  "0 \<le> b \<Longrightarrow> b < 32 \<Longrightarrow> jausUnsignedIntegerIsBitSet x b = Some (bit x (nat b))"
  by (auto simp: jausUnsignedIntegerIsBitSet_def shl1_def and_exp_pos)

lemma byteSetBit_spec:
  assumes "0 \<le> b" "b \<le> 8"
  shows "\<exists>x'. jausByteSetBit x b = Some (True, x') \<and> (\<forall>k. bit x' k \<longleftrightarrow> bit x k \<or> (k = nat b \<and> k < 8))"
  using assms by (auto simp: jausByteSetBit_def shl1_def bit_simps dest: bit_imp_le_length)

lemma byteClearBit_spec:
  assumes "0 \<le> b" "b \<le> 8"
  shows "\<exists>x'. jausByteClearBit x b = Some (True, x') \<and> (\<forall>k. bit x' k \<longleftrightarrow> bit x k \<and> k \<noteq> nat b)"
  using assms by (auto simp: jausByteClearBit_def shl1_def bit_simps dest: bit_imp_le_length)

section \<open>Properties\<close>

text \<open>
  The wire format does not depend on the machine: a value of any base type written by a host
  of either byte order into a buffer with room for it is accepted, the bytes written are the
  least significant byte first, and a host of either byte order reads the same value back.
\<close>

theorem wire_host_independent:
  fixes h h' :: host
  assumes "off + 8 \<le> length buf" "8 \<le> n"
  shows "(\<exists>buf'. jausByteToBuffer b buf off n = Some (True, buf') \<and>
            memRead buf' off 1 = Some [b] \<and> jausByteFromBuffer buf' off n = Some (Some b)) \<and>
     (\<exists>buf'. jausUnsignedShortToBuffer h s buf off n = Some (True, buf') \<and>
            memRead buf' off 2 = Some (bytesOfWord 2 s) \<and>
            jausUnsignedShortFromBuffer h' buf' off n = Some (Some s)) \<and>
     (\<exists>buf'. jausUnsignedIntegerToBuffer h i buf off n = Some (True, buf') \<and>
            memRead buf' off 4 = Some (bytesOfWord 4 i) \<and>
            jausUnsignedIntegerFromBuffer h' buf' off n = Some (Some i)) \<and>
     (\<exists>buf'. jausUnsignedLongToBuffer h l buf off n = Some (True, buf') \<and>
            memRead buf' off 8 = Some (bytesOfWord 8 l) \<and>
            jausUnsignedLongFromBuffer h' buf' off n = Some (Some l)) \<and>
     (\<exists>buf'. jausShortToBuffer h s buf off n = Some (True, buf') \<and>
            memRead buf' off 2 = Some (bytesOfWord 2 s) \<and>
            jausShortFromBuffer h' buf' off n = Some (Some s)) \<and>
     (\<exists>buf'. jausIntegerToBuffer h i buf off n = Some (True, buf') \<and>
            memRead buf' off 4 = Some (bytesOfWord 4 i) \<and>
            jausIntegerFromBuffer h' buf' off n = Some (Some i))"
proof -
  have n: "8 \<le> unat n" using assms(2) by (simp add: word_le_nat_alt)
  show ?thesis
    using assms(1) n
    by (intro conjI byte.accepted ushort.accepted uinteger.accepted ulong.accepted short.accepted
        integer.accepted) linarith+
qed

theorem wire_host_independent_witness:
  "\<exists>buf'. jausUnsignedIntegerToBuffer BigHost 0x12345678 (replicate 8 0) 0 8 = Some (True, buf') \<and>
     memRead buf' 0 4 = Some (bytesOfWord 4 (0x12345678 :: u32)) \<and>
     jausUnsignedIntegerFromBuffer LittleHost buf' 0 8 = Some (Some 0x12345678)"
  using wire_host_independent [where h = BigHost and h' = LittleHost and i = "0x12345678",
      of 0 "replicate 8 0" 8] by simp

text \<open>
  The unsigned scaled integers are faithful carriers: turning the integer of a message field
  into a physical value of its range and back gives the same integer, for every byte, every
  unsigned short and every unsigned integer but the largest one, which the scale factor of
  \<open>jausUnsignedInteger.c\<close> places outside the range.
\<close>

theorem scaled_roundtrip_unsigned:
  assumes "mn < mx" "v \<noteq> 0xFFFFFFFF"
  shows "jausByteFromDouble (jausByteToDouble b mn mx) mn mx = Some b \<and>
     jausUnsignedShortFromDouble (jausUnsignedShortToDouble s mn mx) mn mx = Some s \<and>
     jausUnsignedIntegerFromDouble (jausUnsignedIntegerToDouble v mn mx) mn mx = Some v"
  using assms by (simp add: byte_scaled_roundtrip ushort_scaled_roundtrip uinteger_scaled_roundtrip)

theorem scaled_roundtrip_unsigned_witness:
  "jausUnsignedShortFromDouble (jausUnsignedShortToDouble 513 (- 200) 200) (- 200) 200 = Some 513"
  using scaled_roundtrip_unsigned [of "- 200" 200 0 0 513] by simp

text \<open>
  Storing any physical value in a scaled unsigned short never has undefined behaviour, limits
  the value to the range first, and reading the field back is at most half a quantisation step
  away from the limited value.
\<close>

theorem scaled_quantisation_error:
  assumes "mn < mx"
  shows "\<exists>w. jausUnsignedShortFromDouble v mn mx = Some w \<and>
     \<bar>jausUnsignedShortToDouble w mn mx - limitValue v mn mx\<bar> \<le> (mx - mn) / 65535 / 2"
  using ushort_quantised [of mn mx "limitValue v mn mx"] limitValue_range [of mn mx v] assms
  by (simp add: jausUnsignedShortFromDouble_def)

theorem scaled_quantisation_error_witness:
  "\<exists>w. jausUnsignedShortFromDouble 7 (- 1) 1 = Some w \<and>
     \<bar>jausUnsignedShortToDouble w (- 1) 1 - limitValue 7 (- 1) 1\<bar> \<le> (1 - (- 1)) / 65535 / 2"
  by (rule scaled_quantisation_error) simp

text \<open>
  The signed scaled integers do not round: adding one half and truncating towards zero moves
  every negative field value one step up, while the others are kept.
\<close>

theorem scaled_roundtrip_signed_drifts:
  assumes "mn < mx" "sint s \<noteq> - 32768" "sint i \<noteq> - 2147483648"
  shows "jausShortFromDouble (jausShortToDouble s mn mx) mn mx = Some (if sint s < 0 then s + 1 else s) \<and>
     jausIntegerFromDouble (jausIntegerToDouble i mn mx) mn mx = Some (if sint i < 0 then i + 1 else i)"
  using assms by (simp add: short_scaled_roundtrip integer_scaled_roundtrip)

theorem scaled_roundtrip_signed_drifts_witness:
  "jausShortFromDouble (jausShortToDouble (- 5) 0 1) 0 1 = Some (- 4)"
  using scaled_roundtrip_signed_drifts [of 0 1 "- 5" 0] by simp

text \<open>
  The presence vector operations: after a set, exactly the named bit is added; after a clear,
  exactly the named bit is gone; a test reads the bit; a bit number above the width is refused
  without a change.
\<close>

theorem presence_vector_bits:
  assumes "0 \<le> b" "0 \<le> k" "k < 8"
  shows "(b < 8 \<longrightarrow> (\<exists>x'. jausByteSetBit x b = Some (True, x') \<and>
            jausByteIsBitSet x' k = Some (k = b \<or> bit x (nat k)))) \<and>
     (b < 8 \<longrightarrow> (\<exists>x'. jausByteClearBit x b = Some (True, x') \<and>
            jausByteIsBitSet x' k = Some (k \<noteq> b \<and> bit x (nat k)))) \<and>
     (8 < b \<longrightarrow> jausByteSetBit x b = Some (False, x) \<and> jausByteClearBit x b = Some (False, x))"
proof (intro conjI impI)
  assume "b < 8"
  with byteSetBit_spec [OF assms(1), of x] obtain x' where
    x': "jausByteSetBit x b = Some (True, x')" "bit x' (nat k) \<longleftrightarrow> bit x (nat k) \<or> (nat k = nat b \<and> nat k < 8)"
    by auto
  then show "\<exists>x'. jausByteSetBit x b = Some (True, x') \<and>
            jausByteIsBitSet x' k = Some (k = b \<or> bit x (nat k))"
    using assms by (intro exI [of _ x']) (auto simp: byteIsBitSet eq_nat_nat_iff nat_less_iff)
next
  assume "b < 8"
  with byteClearBit_spec [OF assms(1), of x] obtain x' where
    x': "jausByteClearBit x b = Some (True, x')" "bit x' (nat k) \<longleftrightarrow> bit x (nat k) \<and> nat k \<noteq> nat b"
    by auto
  then show "\<exists>x'. jausByteClearBit x b = Some (True, x') \<and>
            jausByteIsBitSet x' k = Some (k \<noteq> b \<and> bit x (nat k))"
    using assms by (intro exI [of _ x']) (auto simp: byteIsBitSet eq_nat_nat_iff)
qed (simp_all add: jausByteSetBit_def jausByteClearBit_def)

theorem presence_vector_bits_witness:
  "\<exists>x'. jausByteSetBit 0x80 1 = Some (True, x') \<and> jausByteIsBitSet x' 1 = Some True"
  using presence_vector_bits [of 1 1 "0x80"] by simp

end
