(* ===== verification/Messages.thy ===== *)
theory Messages
  imports JausTypes
begin

text \<open>
  Addresses (\<open>openjaus/src/libjaus/jausAddress.c\<close>) and the generic message with its
  16-byte header (\<open>openjaus/src/libjaus/message/jausMessage.c\<close>).

  The bit fields of the C struct are words of their width. The typed messages of the other
  theories extend the same header record, as their C structs repeat its members. A buffer
  pointer is a byte list with an offset; \<open>bufferSizeBytes\<close> is the size the caller claims,
  which need not be the size of the allocation.
\<close>

section \<open>Addresses\<close>

record JausAddress =
  addrSubsystem :: u8
  addrNode :: u8
  addrComponent :: u8
  addrInstance :: u8

definition jausAddressCreate :: JausAddress where
  "jausAddressCreate = \<lparr>addrSubsystem = 0, addrNode = 0, addrComponent = 0, addrInstance = 0\<rparr>"

text \<open>\<open>jausAddressCopy dst src\<close> returns the flag and the new value of \<open>*dst\<close>.\<close>

definition jausAddressCopy :: "JausAddress option \<Rightarrow> JausAddress option \<Rightarrow> bool \<times> JausAddress option" where
  "jausAddressCopy dst src =
     (case (dst, src) of
        (Some d, Some s) \<Rightarrow>
          (True, Some (d\<lparr>addrSubsystem := addrSubsystem s, addrNode := addrNode s,
                         addrComponent := addrComponent s, addrInstance := addrInstance s\<rparr>))
      | _ \<Rightarrow> (False, dst))"

definition jausAddressClone :: "JausAddress \<Rightarrow> JausAddress" where
  "jausAddressClone input =
     \<lparr>addrSubsystem = addrSubsystem input, addrNode = addrNode input,
      addrComponent = addrComponent input, addrInstance = addrInstance input\<rparr>"

definition jausAddressEqual :: "JausAddress \<Rightarrow> JausAddress \<Rightarrow> bool" where
  "jausAddressEqual a b \<longleftrightarrow>
     addrSubsystem a = addrSubsystem b \<and> addrNode a = addrNode b \<and>
     addrComponent a = addrComponent b \<and> addrInstance a = addrInstance b"

definition jausAddressIsValid :: "JausAddress option \<Rightarrow> bool" where
  "jausAddressIsValid address =
     (case address of None \<Rightarrow> False
      | Some a \<Rightarrow> addrSubsystem a \<noteq> 0 \<and> addrNode a \<noteq> 0 \<and> addrComponent a \<noteq> 0 \<and> addrInstance a \<noteq> 0)"

definition jausAddressHash :: "JausAddress \<Rightarrow> u32" where
  "jausAddressHash a =
     push_bit 24 (ucast (addrSubsystem a)) OR push_bit 16 (ucast (addrNode a)) OR
     push_bit 8 (ucast (addrComponent a)) OR ucast (addrInstance a)"

lemma jausAddressEqual_iff [simp]: "jausAddressEqual a b \<longleftrightarrow> a = b"
  by (cases a; cases b) (simp add: jausAddressEqual_def)

lemma jausAddressCopy_simp [simp]: "jausAddressCopy (Some d) (Some s) = (True, Some s)"
  by (cases d; cases s) (simp add: jausAddressCopy_def)

lemma jausAddressClone_id [simp]: "jausAddressClone a = a"
  by (cases a) (simp add: jausAddressClone_def)

lemma hash_bytes:
  "bytesOfWord 4 (jausAddressHash a) =
     [addrInstance a, addrComponent a, addrNode a, addrSubsystem a]"
proof -
  have "jausAddressHash a = wordOfBytes [addrInstance a, addrComponent a, addrNode a, addrSubsystem a]"
    by (rule bit_word_eqI) (auto simp: jausAddressHash_def bit_simps)
  then show ?thesis by (simp only:) (rule bytesOfWord_wordOfBytes; simp)
qed

lemma jausAddressHash_inj: "jausAddressHash a = jausAddressHash b \<Longrightarrow> a = b"
  using hash_bytes [of a] hash_bytes [of b] by (cases a; cases b) simp

section \<open>Message header\<close>

record JausProperties =
  priority :: "4 word"
  ackNak :: "2 word"
  scFlag :: "1 word"
  expFlag :: "1 word"
  version :: "6 word"
  reserved :: "2 word"

record JausHeader =
  properties :: JausProperties
  commandCode :: u16
  destination :: JausAddress
  source :: JausAddress
  dataSize :: u32
  dataFlag :: u32
  sequenceNumber :: u16

record JausMessage = JausHeader +
  data :: "bytes option"

abbreviation (input) JAUS_HEADER_SIZE_BYTES :: u32 where "JAUS_HEADER_SIZE_BYTES \<equiv> 16"
abbreviation (input) JAUS_MAX_DATA_SIZE_BYTES :: u32 where "JAUS_MAX_DATA_SIZE_BYTES \<equiv> 4080"
abbreviation (input) JAUS_SINGLE_DATA_PACKET :: u32 where "JAUS_SINGLE_DATA_PACKET \<equiv> 0"
abbreviation (input) JAUS_FIRST_DATA_PACKET :: u32 where "JAUS_FIRST_DATA_PACKET \<equiv> 1"
abbreviation (input) JAUS_NORMAL_DATA_PACKET :: u32 where "JAUS_NORMAL_DATA_PACKET \<equiv> 2"
abbreviation (input) JAUS_RETRANSMITTED_DATA_PACKET :: u32 where "JAUS_RETRANSMITTED_DATA_PACKET \<equiv> 4"
abbreviation (input) JAUS_LAST_DATA_PACKET :: u32 where "JAUS_LAST_DATA_PACKET \<equiv> 8"

definition defaultProperties :: JausProperties where
  "defaultProperties = \<lparr>priority = 6, ackNak = 0, scFlag = 0, expFlag = 0, version = 2, reserved = 0\<rparr>"

definition jausMessageCreate :: JausMessage where
  "jausMessageCreate =
     \<lparr>properties = defaultProperties, commandCode = 0,
      destination = jausAddressCreate, source = jausAddressCreate,
      dataSize = 0, dataFlag = JAUS_SINGLE_DATA_PACKET, sequenceNumber = 0, data = None\<rparr>"

text \<open>The two bytes of the bit-field struct, read through \<open>JausUnsignedShort *propertiesPtr\<close>.\<close>

definition propertiesWord :: "JausProperties \<Rightarrow> u16" where
  "propertiesWord p =
     ucast (priority p) OR push_bit 4 (ucast (ackNak p)) OR push_bit 6 (ucast (scFlag p)) OR
     push_bit 7 (ucast (expFlag p)) OR push_bit 8 (ucast (version p)) OR push_bit 14 (ucast (reserved p))"

definition headerBytes :: "'a JausHeader_scheme \<Rightarrow> bytes" where
  "headerBytes m =
     [ucast (propertiesWord (properties m) AND 0xFF),
      ucast (drop_bit 8 (propertiesWord (properties m) AND 0xFF00)),
      ucast (commandCode m AND 0xFF),
      ucast (drop_bit 8 (commandCode m AND 0xFF00)),
      addrInstance (destination m) AND 0xFF,
      addrComponent (destination m) AND 0xFF,
      addrNode (destination m) AND 0xFF,
      addrSubsystem (destination m) AND 0xFF,
      addrInstance (source m) AND 0xFF,
      addrComponent (source m) AND 0xFF,
      addrNode (source m) AND 0xFF,
      addrSubsystem (source m) AND 0xFF,
      ucast (dataSize m AND 0xFF),
      ucast (push_bit 4 (dataFlag m AND 0xFF)) OR ucast (drop_bit 8 (dataSize m AND 0x0F00)),
      ucast (sequenceNumber m AND 0xFF),
      ucast (drop_bit 8 (sequenceNumber m AND 0xFF00))]"

definition headerToBuffer :: "'a JausHeader_scheme \<Rightarrow> bytes \<Rightarrow> nat \<Rightarrow> u32 \<Rightarrow> (bool \<times> bytes) exec" where
  "headerToBuffer m buffer off bufferSizeBytes =
     (if bufferSizeBytes < JAUS_HEADER_SIZE_BYTES then Some (False, buffer)
      else do { buffer' \<leftarrow> memWrite buffer off (headerBytes m); Some (True, buffer') })"

text \<open>The assignments of \<open>headerFromBuffer\<close>; the bytes are \<open>buffer[0..15]\<close>.\<close>

definition unpackHeader :: "'a JausHeader_scheme \<Rightarrow> bytes \<Rightarrow> 'a JausHeader_scheme" where
  "unpackHeader m b =
     m\<lparr>properties :=
         \<lparr>priority = ucast (b ! 0 AND 0x0F),
          ackNak = ucast (drop_bit 4 (b ! 0) AND 0x03),
          scFlag = ucast (drop_bit 6 (b ! 0) AND 0x01),
          expFlag = ucast (drop_bit 7 (b ! 0) AND 0x01),
          version = ucast (b ! 1 AND 0x3F),
          reserved = ucast (drop_bit 6 (b ! 1) AND 0x03)\<rparr>,
       commandCode := ucast (b ! 2) + push_bit 8 (ucast (b ! 3)),
       destination := \<lparr>addrSubsystem = b ! 7, addrNode = b ! 6, addrComponent = b ! 5,
                       addrInstance = b ! 4\<rparr>,
       source := \<lparr>addrSubsystem = b ! 11, addrNode = b ! 10, addrComponent = b ! 9,
                  addrInstance = b ! 8\<rparr>,
       dataSize := ucast (b ! 12) OR push_bit 8 (ucast (b ! 13 AND 0x0F)),
       dataFlag := drop_bit 4 (ucast (b ! 13 AND 0xF0)),
       sequenceNumber := ucast (b ! 14) + push_bit 8 (ucast (b ! 15))\<rparr>"

definition headerFromBuffer ::
    "'a JausHeader_scheme \<Rightarrow> bytes \<Rightarrow> nat \<Rightarrow> u32 \<Rightarrow> (bool \<times> 'a JausHeader_scheme) exec" where
  "headerFromBuffer m buffer off bufferSizeBytes =
     (if bufferSizeBytes < JAUS_HEADER_SIZE_BYTES then Some (False, m)
      else do { b \<leftarrow> memRead buffer off 16; Some (True, unpackHeader m b) })"

section \<open>Messages\<close>

definition jausMessageSize :: "JausMessage \<Rightarrow> u32" where
  "jausMessageSize m = dataSize m + JAUS_HEADER_SIZE_BYTES"

text \<open>The bytes behind the \<open>data\<close> pointer; a NULL pointer has none.\<close>

definition dataBytes :: "JausMessage \<Rightarrow> bytes" where
  "dataBytes m = (case data m of None \<Rightarrow> [] | Some d \<Rightarrow> d)"

definition jausMessageToBuffer :: "JausMessage \<Rightarrow> bytes \<Rightarrow> u32 \<Rightarrow> (bool \<times> bytes) exec" where
  "jausMessageToBuffer m buffer bufferSizeBytes =
     (if bufferSizeBytes < jausMessageSize m then Some (False, buffer)
      else do { (ok, buffer') \<leftarrow> headerToBuffer m buffer 0 bufferSizeBytes;
                if ok
                then do { d \<leftarrow> memRead (dataBytes m) 0 (unat (dataSize m));
                          buffer'' \<leftarrow> memWrite buffer' 16 d;
                          Some (True, buffer'') }
                else Some (False, buffer') })"

definition jausMessageFromBuffer ::
    "JausMessage \<Rightarrow> bytes \<Rightarrow> nat \<Rightarrow> u32 \<Rightarrow> (bool \<times> JausMessage) exec" where
  "jausMessageFromBuffer m buffer off bufferSizeBytes =
     do { (ok, m1) \<leftarrow> headerFromBuffer m buffer off bufferSizeBytes;
          if ok
          then (if bufferSizeBytes - JAUS_HEADER_SIZE_BYTES < dataSize m1 then Some (False, m1)
                else do { d \<leftarrow> memRead buffer (off + 16) (unat (dataSize m1));
                          Some (True, m1\<lparr>data := Some d\<rparr>) })
          else Some (False, m1) }"

definition jausMessageClone :: "JausMessage \<Rightarrow> JausMessage exec" where
  "jausMessageClone m =
     (let m' = \<lparr>properties = properties m, commandCode = commandCode m,
                destination = destination m, source = source m, dataSize = dataSize m,
                dataFlag = dataFlag m, sequenceNumber = sequenceNumber m, data = None\<rparr>
      in if dataSize m \<noteq> 0
         then do { d \<leftarrow> memRead (dataBytes m) 0 (unat (dataSize m)); Some (m'\<lparr>data := Some d\<rparr>) }
         else Some m')"

section \<open>Header round trip\<close>

lemma length_headerBytes [simp]: "length (headerBytes m) = 16"
  by (simp add: headerBytes_def)

text \<open>A header the sixteen bytes can carry: 12 bits of size and 4 bits of flag.\<close>

definition headerFits :: "'a JausHeader_scheme \<Rightarrow> bool" where
  "headerFits m \<longleftrightarrow> dataSize m < 0x1000 \<and> dataFlag m < 0x10"

lemma disjoint_add: "ucast (a :: u8) + push_bit 8 (ucast (b :: u8)) = (ucast a OR push_bit 8 (ucast b) :: u16)"
proof (rule disjunctive_add)
  fix n show "\<not> bit (ucast a :: u16) n \<or> \<not> bit (push_bit 8 (ucast b) :: u16) n"
    by (auto simp: bit_simps dest: bit_imp_le_length)
qed

lemma and_masks:
  "x AND 0xFF = take_bit 8 (x :: 'a::len word)"
  "x AND 0x0F = take_bit 4 (x :: 'a::len word)"
  "x AND 0x03 = take_bit 2 (x :: 'a::len word)"
  "x AND 0x01 = take_bit 1 (x :: 'a::len word)"
  "x AND 0x3F = take_bit 6 (x :: 'a::len word)"
  by (simp_all add: take_bit_eq_mask mask_eq_exp_minus_1)

lemma high_masks:
  "x AND 0xFF00 = push_bit 8 (take_bit 8 (drop_bit 8 (x :: 'a::len word)))"
  "x AND 0x0F00 = push_bit 8 (take_bit 4 (drop_bit 8 (x :: 'a::len word)))"
  "x AND 0xF0 = push_bit 4 (take_bit 4 (drop_bit 4 (x :: 'a::len word)))"
proof -
  have eqs: "(0xFF00 :: 'a word) = push_bit 8 (mask 8)" "(0x0F00 :: 'a word) = push_bit 8 (mask 4)"
    "(0xF0 :: 'a word) = push_bit 4 (mask 4)"
    by (simp_all add: mask_eq_exp_minus_1)
  show "x AND 0xFF00 = push_bit 8 (take_bit 8 (drop_bit 8 x))"
    unfolding eqs by (rule bit_word_eqI) (auto simp: bit_simps)
  show "x AND 0x0F00 = push_bit 8 (take_bit 4 (drop_bit 8 x))"
    unfolding eqs by (rule bit_word_eqI) (auto simp: bit_simps)
  show "x AND 0xF0 = push_bit 4 (take_bit 4 (drop_bit 4 x))"
    unfolding eqs by (rule bit_word_eqI) (auto simp: bit_simps)
qed

lemmas masks = and_masks high_masks

lemma unpack_ushort:
  "ucast (ucast (c AND 0xFF) :: u8) + push_bit 8 (ucast (ucast (drop_bit 8 (c AND 0xFF00)) :: u8)) = (c :: u16)"
  unfolding disjoint_add masks by (rule bit_word_eqI) (auto simp: bit_simps)

lemma unpack_dataSize:
  assumes "s < 0x1000"
  shows "ucast (ucast (s AND 0xFF) :: u8) OR
     push_bit 8 (ucast ((ucast (push_bit 4 (f AND 0xFF)) OR ucast (drop_bit 8 (s AND 0x0F00)) :: u8) AND 0x0F))
     = (s :: u32)"
proof -
  have "bit s n \<Longrightarrow> n < 12" for n
    using assms by (intro bit_lt [of s 12 n]) simp_all
  then show ?thesis
    unfolding masks by (intro bit_word_eqI) (force simp: bit_simps)
qed

lemma unpack_dataFlag:
  assumes "f < 0x10"
  shows "drop_bit 4 (ucast ((ucast (push_bit 4 (f AND 0xFF)) OR ucast (drop_bit 8 (s AND 0x0F00)) :: u8) AND 0xF0))
     = (f :: u32)"
proof -
  have "bit f n \<Longrightarrow> n < 4" for n
    using assms by (intro bit_lt [of f 4 n]) simp_all
  then show ?thesis
    unfolding masks by (intro bit_word_eqI) (force simp: bit_simps)
qed

lemma unpack_properties:
  fixes p :: JausProperties
  defines "b0 \<equiv> ucast (propertiesWord p AND 0xFF) :: u8"
    and "b1 \<equiv> ucast (drop_bit 8 (propertiesWord p AND 0xFF00)) :: u8"
  shows "ucast (b0 AND 0x0F) = priority p" "ucast (drop_bit 4 b0 AND 0x03) = ackNak p"
    "ucast (drop_bit 6 b0 AND 0x01) = scFlag p" "ucast (drop_bit 7 b0 AND 0x01) = expFlag p"
    "ucast (b1 AND 0x3F) = version p" "ucast (drop_bit 6 b1 AND 0x03) = reserved p"
proof -
  note bits = b0_def b1_def masks propertiesWord_def
  have one: "x = y" if "bit x 0 = bit y 0" for x y :: "1 word"
    using that by (intro bit_word_eqI) simp
  show "ucast (b0 AND 0x0F) = priority p" "ucast (drop_bit 4 b0 AND 0x03) = ackNak p"
    "ucast (b1 AND 0x3F) = version p" "ucast (drop_bit 6 b1 AND 0x03) = reserved p"
    unfolding bits by (intro bit_word_eqI; auto simp: bit_simps dest: bit_imp_le_length)+
  show "ucast (drop_bit 6 b0 AND 0x01) = scFlag p" "ucast (drop_bit 7 b0 AND 0x01) = expFlag p"
    unfolding bits by (intro one; auto simp: bit_simps simp del: bit_0 take_bit_Suc_0 dest: bit_imp_le_length)+
qed

lemma unpack_headerBytes:
  assumes "headerFits m"
  shows "unpackHeader m0 (headerBytes m) =
     m0\<lparr>properties := properties m, commandCode := commandCode m, destination := destination m,
        source := source m, dataSize := dataSize m, dataFlag := dataFlag m,
        sequenceNumber := sequenceNumber m\<rparr>"
proof -
  have b: "b AND 0xFF = b" for b :: u8
    unfolding masks by (rule bit_word_eqI) (simp add: bit_simps)
  show ?thesis
    using assms unfolding unpackHeader_def headerBytes_def headerFits_def
    by (simp add: nth_Cons_numeral unpack_ushort unpack_dataSize unpack_dataFlag unpack_properties b
        del: drop_bit_and push_bit_and)
qed

section \<open>Message round trip\<close>

text \<open>The bytes of a message on the wire.\<close>

definition messageBytes :: "JausMessage \<Rightarrow> bytes" where
  "messageBytes m = headerBytes m @ dataBytes m"

text \<open>A message whose data buffer has the size the header announces, and whose header fits.\<close>

definition messageOk :: "JausMessage \<Rightarrow> bool" where
  "messageOk m \<longleftrightarrow> headerFits m \<and> length (dataBytes m) = unat (dataSize m)"

lemma headerToBuffer_at:
  "16 \<le> n \<Longrightarrow> 16 \<le> length post \<Longrightarrow> off = length pre \<Longrightarrow>
   headerToBuffer m (pre @ post) off n = Some (True, pre @ headerBytes m @ drop 16 post)"
  by (simp add: headerToBuffer_def memWrite_at_end)

lemma headerFromBuffer_at:
  "16 \<le> n \<Longrightarrow> headerFits m \<Longrightarrow> off = length pre \<Longrightarrow>
   headerFromBuffer m0 (pre @ headerBytes m @ post) off n =
     Some (True, m0\<lparr>properties := properties m, commandCode := commandCode m,
        destination := destination m, source := source m, dataSize := dataSize m,
        dataFlag := dataFlag m, sequenceNumber := sequenceNumber m\<rparr>)"
  by (simp add: headerFromBuffer_def memRead_suffix unpack_headerBytes)

lemma messageOk_sizes:
  assumes "messageOk m"
  shows "unat (dataSize m) < 4096" "unat (jausMessageSize m) = unat (dataSize m) + 16"
    "length (messageBytes m) = unat (dataSize m) + 16"
proof -
  have "dataSize m < 0x1000" using assms by (simp add: messageOk_def headerFits_def)
  then show lt: "unat (dataSize m) < 4096" by (simp add: word_less_nat_alt)
  then show "unat (jausMessageSize m) = unat (dataSize m) + 16"
    by (simp add: jausMessageSize_def unat_word_ariths)
  show "length (messageBytes m) = unat (dataSize m) + 16"
    using assms by (simp add: messageOk_def messageBytes_def)
qed

lemma jausMessageToBuffer_spec:
  assumes "messageOk m" "unat (dataSize m) + 16 \<le> unat n" "unat n \<le> length buf"
  shows "jausMessageToBuffer m buf n =
           Some (True, messageBytes m @ drop (unat (dataSize m) + 16) buf)"
proof -
  note sz = messageOk_sizes [OF assms(1)]
  have n: "\<not> n < jausMessageSize m" "16 \<le> n"
    using assms(2) sz(2) by (simp_all add: word_less_nat_alt word_le_nat_alt)
  have hdr: "headerToBuffer m buf 0 n = Some (True, headerBytes m @ drop 16 buf)"
    using headerToBuffer_at [of n buf 0 "[]" m] n assms(2,3) by simp
  have rd: "memRead (dataBytes m) 0 (unat (dataSize m)) = Some (dataBytes m)"
    using assms(1) by (simp add: memRead_def messageOk_def)
  have wr: "memWrite (headerBytes m @ drop 16 buf) 16 (dataBytes m) =
      Some ((headerBytes m @ dataBytes m) @ drop (length (dataBytes m)) (drop 16 buf))"
    using assms by (intro memWrite_at_end) (auto simp: messageOk_def)
  show ?thesis
    using n assms(1) by (simp add: jausMessageToBuffer_def hdr rd wr messageBytes_def messageOk_def add.commute)
qed

lemma jausMessageFromBuffer_spec:
  assumes "messageOk m" "unat (dataSize m) + 16 \<le> unat n"
  shows "jausMessageFromBuffer m0 (messageBytes m @ rest) 0 n = Some (True, m\<lparr>data := Some (dataBytes m)\<rparr>)"
proof -
  have n: "16 \<le> n" using assms(2) by (simp add: word_le_nat_alt)
  then have "unat (n - 16) = unat n - 16" by (simp add: unat_sub_if' word_le_nat_alt)
  then have d: "\<not> n - 16 < dataSize m" using assms(2) by (simp add: word_less_nat_alt)
  have hdr: "headerFromBuffer m0 (headerBytes m @ dataBytes m @ rest) 0 n =
      Some (True, m0\<lparr>properties := properties m, commandCode := commandCode m,
        destination := destination m, source := source m, dataSize := dataSize m,
        dataFlag := dataFlag m, sequenceNumber := sequenceNumber m\<rparr>)"
    using headerFromBuffer_at [of n m 0 "[]" m0] n assms(1) by (simp add: messageOk_def)
  have rd: "memRead (headerBytes m @ dataBytes m @ rest) 16 (unat (dataSize m)) = Some (dataBytes m)"
    using assms(1) by (intro memRead_suffix) (simp_all add: messageOk_def)
  show ?thesis
    by (simp add: jausMessageFromBuffer_def messageBytes_def hdr rd d)
qed

lemma jausMessageFromBuffer_safe:
  assumes "off + unat n \<le> length buf"
  shows "jausMessageFromBuffer m buf off n \<noteq> None"
proof (cases "n < 16")
  case True
  then show ?thesis by (simp add: jausMessageFromBuffer_def headerFromBuffer_def)
next
  case False
  then have n: "unat (n - 16) = unat n - 16" "16 \<le> unat n"
    by (simp_all add: unat_sub_if' word_le_nat_alt word_less_nat_alt)
  define b where "b = take 16 (drop off buf)"
  have hdr: "headerFromBuffer m buf off n = Some (True, unpackHeader m b)"
    using False n assms by (simp add: headerFromBuffer_def memRead_def b_def)
  show ?thesis
  proof (cases "n - 16 < dataSize (unpackHeader m b)")
    case True
    then show ?thesis by (simp add: jausMessageFromBuffer_def hdr)
  next
    case False
    then have "off + 16 + unat (dataSize (unpackHeader m b)) \<le> length buf"
      using n assms by (simp add: word_less_nat_alt)
    then show ?thesis using False by (simp add: jausMessageFromBuffer_def hdr memRead_def)
  qed
qed

lemma jausMessageClone_ok:
  assumes "length (dataBytes m) = unat (dataSize m)" "dataSize m \<noteq> 0"
  shows "jausMessageClone m = Some m"
  using assms
  by (cases "data m"; cases m)
    (auto simp: jausMessageClone_def memRead_def dataBytes_def unat_eq_0)

text \<open>
  Marshalling a message into a buffer and parsing the result, into any message object and
  behind any trailing bytes, gives back every header field, address, property bit and data byte,
  for every message whose data size fits the 12-bit field (up to 4095) and whose data flag fits
  4 bits. The buffer beyond the message is left alone.
\<close>

theorem message_roundtrip:
  assumes "messageOk m" "unat (dataSize m) + 16 \<le> unat n" "unat n \<le> length buf"
  shows "\<exists>buf'. jausMessageToBuffer m buf n = Some (True, buf') \<and> length buf' = length buf \<and>
           drop (unat (dataSize m) + 16) buf' = drop (unat (dataSize m) + 16) buf \<and>
           jausMessageFromBuffer m0 buf' 0 n = Some (True, m\<lparr>data := Some (dataBytes m)\<rparr>)"
  using jausMessageToBuffer_spec [OF assms] jausMessageFromBuffer_spec [OF assms(1,2), of m0]
    messageOk_sizes [OF assms(1)] assms(2,3)
  by simp

theorem message_roundtrip_witness:
  "\<exists>m buf buf'. jausMessageToBuffer m buf 32 = Some (True, buf') \<and>
     jausMessageFromBuffer jausMessageCreate buf' 0 32 = Some (True, m) \<and> data m = Some [7, 9]"
proof -
  let ?m = "jausMessageCreate\<lparr>commandCode := 0xD605, dataSize := 2, data := Some [7, 9]\<rparr>"
  have "messageOk ?m" by (simp add: messageOk_def headerFits_def dataBytes_def jausMessageCreate_def)
  from message_roundtrip [OF this, of 32 "replicate 32 0" jausMessageCreate]
  show ?thesis by (force simp: jausMessageCreate_def dataBytes_def)
qed

text \<open>
  Parsing never reads outside the buffer, whatever its bytes are, as long as the size the
  caller claims is really there: the data size the header announces is checked first.
\<close>

theorem message_parse_safe:
  assumes "off + unat n \<le> length buf"
  shows "jausMessageFromBuffer m buf off n \<noteq> None"
  by (rule jausMessageFromBuffer_safe [OF assms])

theorem message_parse_safe_witness:
  "jausMessageFromBuffer jausMessageCreate (replicate 20 255) 0 20 \<noteq> None"
  by (rule message_parse_safe) simp

text \<open>
  The 32-bit address hash is collision free, so that equal hashes mean equal addresses; the
  comparison function decides equality of addresses.
\<close>

lemma address_hash_injective:
  assumes "jausAddressHash a = jausAddressHash b"
  shows "jausAddressEqual a b"
  using jausAddressHash_inj [OF assms] by simp

end
