(* ===== verification/MessageCodec.thy ===== *)
theory MessageCodec
  imports Messages
begin

text \<open>
  The shape every typed message of \<open>libjaus\<close> and of the XGV client has. The message-specific
  routines (\<open>dataInitialize\<close>, \<open>dataFromBuffer\<close>, \<open>dataToBuffer\<close>, \<open>dataSize\<close>) are sequences of the
  statements defined here; the routines that are the same text in every file
  (\<open>...Create\<close>, \<open>...FromBuffer\<close>, \<open>...ToBuffer\<close>, \<open>...FromJausMessage\<close>, \<open>...ToJausMessage\<close>,
  \<open>...Size\<close>) are the functions below, applied to the message-specific ones.

  The locale \<open>typed_message\<close> is the contract between the two: from the laws of the
  message-specific routines it derives the round trips of the others once.

  The messages run on a little-endian host, the one the header bit fields are laid out for.
\<close>

section \<open>Statements of the marshalling routines\<close>

text \<open>
  \<open>if(!xFromBuffer(&field, buffer+index, bufferSizeBytes-index)) return JAUS_FALSE; index += width;\<close>
\<close>

definition getF :: "(bytes \<Rightarrow> nat \<Rightarrow> u32 \<Rightarrow> 'v option exec) \<Rightarrow> nat \<Rightarrow> ('v \<Rightarrow> 'm \<Rightarrow> 'm) \<Rightarrow>
    bytes \<Rightarrow> nat \<Rightarrow> u32 \<Rightarrow> (nat \<times> 'm) stmt" where
  "getF from w upd buf off n =
     (\<lambda>(i, m). case from buf (off + i) (n - of_nat i) of
                 None \<Rightarrow> Fault
               | Some None \<Rightarrow> Return (i, m)
               | Some (Some v) \<Rightarrow> Next (i + w, upd v m))"

text \<open>\<open>if(!xToBuffer(value, buffer+index, bufferSizeBytes-index)) return JAUS_FALSE; index += width;\<close>\<close>

definition putF :: "('v \<Rightarrow> bytes \<Rightarrow> nat \<Rightarrow> u32 \<Rightarrow> (bool \<times> bytes) exec) \<Rightarrow> nat \<Rightarrow> 'v exec \<Rightarrow>
    nat \<Rightarrow> u32 \<Rightarrow> (nat \<times> bytes) stmt" where
  "putF to w v off n =
     (\<lambda>(i, buf). case v of
                   None \<Rightarrow> Fault
                 | Some x \<Rightarrow> (case to x buf (off + i) (n - of_nat i) of
                               None \<Rightarrow> Fault
                             | Some (ok, buf') \<Rightarrow> if ok then Next (i + w, buf') else Return (i, buf')))"

abbreviation (input) "getByte \<equiv> getF jausByteFromBuffer 1"
abbreviation (input) "getUShort \<equiv> getF (jausUnsignedShortFromBuffer LittleHost) 2"
abbreviation (input) "getUInteger \<equiv> getF (jausUnsignedIntegerFromBuffer LittleHost) 4"
abbreviation (input) "getShort \<equiv> getF (jausShortFromBuffer LittleHost) 2"
abbreviation (input) "getInteger \<equiv> getF (jausIntegerFromBuffer LittleHost) 4"
abbreviation (input) "putByte \<equiv> putF jausByteToBuffer 1"
abbreviation (input) "putUShort \<equiv> putF (jausUnsignedShortToBuffer LittleHost) 2"
abbreviation (input) "putUInteger \<equiv> putF (jausUnsignedIntegerToBuffer LittleHost) 4"
abbreviation (input) "putShort \<equiv> putF (jausShortToBuffer LittleHost) 2"
abbreviation (input) "putInteger \<equiv> putF (jausIntegerToBuffer LittleHost) 4"

text \<open>The value of the routine: the flag and the object, or the number of bytes and the buffer.\<close>

definition finishR :: "(nat \<times> 'm) flow \<Rightarrow> (bool \<times> 'm) exec" where
  "finishR f = (case f of Fault \<Rightarrow> None | Return (i, m) \<Rightarrow> Some (False, m) | Next (i, m) \<Rightarrow> Some (True, m))"

definition finishW :: "(nat \<times> bytes) flow \<Rightarrow> (nat \<times> bytes) exec" where
  "finishW f = (case f of Fault \<Rightarrow> None | Return (i, b) \<Rightarrow> Some (0, b) | Next (i, b) \<Rightarrow> Some (i, b))"

section \<open>Reading and writing along a wire image\<close>

text \<open>
  \<open>parses pre D post cs rest m rest' m'\<close>: with the cursor at the suffix \<open>rest\<close> of the data
  region \<open>D\<close> of the buffer \<open>pre @ D @ post\<close>, the statements turn \<open>m\<close> into \<open>m'\<close> and leave the
  cursor at \<open>rest'\<close>.
\<close>

definition parses :: "bytes \<Rightarrow> (nat \<times> 'm) stmt list \<Rightarrow> bytes \<Rightarrow> 'm \<Rightarrow> bytes \<Rightarrow> 'm \<Rightarrow> bool" where
  "parses D cs rest m rest' m' \<longleftrightarrow>
     (\<forall>i \<le> length D. drop i D = rest \<longrightarrow>
        (\<exists>j \<le> length D. drop j D = rest' \<and> runStmts cs (i, m) = Next (j, m')))"

lemma parses_Nil: "parses D [] rest m rest m"
  by (simp add: parses_def)

lemma parsesD:
  assumes "parses D cs (drop i D) m rest' m'" "i \<le> length D"
  obtains j where "j \<le> length D" "drop j D = rest'" "runStmts cs (i, m) = Next (j, m')"
  using assms unfolding parses_def by blast

lemma runStmts_single: "runStmts [c] s = c s"
  by (simp split: flow.split)

lemma parses_Cons:
  assumes "parses D [c] rest m rest1 m1" "parses D cs rest1 m1 rest2 m2"
  shows "parses D (c # cs) rest m rest2 m2"
  unfolding parses_def
proof (intro allI impI)
  fix i assume i: "i \<le> length D" "drop i D = rest"
  then obtain j where j: "j \<le> length D" "drop j D = rest1" "runStmts [c] (i, m) = Next (j, m1)"
    using assms(1) by (metis parsesD)
  then obtain k where k: "k \<le> length D" "drop k D = rest2" "runStmts cs (j, m1) = Next (k, m2)"
    using assms(2) by (metis parsesD)
  from j(3) have "c (i, m) = Next (j, m1)" by (simp only: runStmts_single)
  with k show "\<exists>j \<le> length D. drop j D = rest2 \<and> runStmts (c # cs) (i, m) = Next (j, m2)" by auto
qed

lemma parses_when:
  assumes "\<And>i. g (i, m) = Some b" "b \<Longrightarrow> parses D cs (bs @ rest) m rest m1"
  shows "parses D [whenS g cs] ((if b then bs else []) @ rest) m rest (if b then m1 else m)"
proof -
  have "runStmts [whenS g cs] (i, m) = (if b then runStmts cs (i, m) else Next (i, m))" for i
    using assms(1) [of i] by (simp only: runStmts_single whenS_def option.case)
  then show ?thesis
    using assms(2) by (cases b) (auto simp only: parses_def if_True if_False append_Nil)
qed

lemma parses_finishR:
  "parses D cs D m [] m' \<Longrightarrow> finishR (runStmts cs (0, m)) = Some (True, m')"
  by (auto simp: parses_def finishR_def dest!: spec [of _ 0])

text \<open>\<open>writes off n cs bs\<close>: the statements append \<open>bs\<close> at the cursor of a buffer with room for it.\<close>

definition writes :: "nat \<Rightarrow> u32 \<Rightarrow> (nat \<times> bytes) stmt list \<Rightarrow> bytes \<Rightarrow> bool" where
  "writes off n cs bs \<longleftrightarrow>
     (\<forall>i pre post. length pre = off + i \<longrightarrow> length bs \<le> length post \<longrightarrow> i + length bs \<le> unat n \<longrightarrow>
        runStmts cs (i, pre @ post) = Next (i + length bs, pre @ bs @ drop (length bs) post))"

lemma writesD:
  "writes off n cs bs \<Longrightarrow> length pre = off + i \<Longrightarrow> length bs \<le> length post \<Longrightarrow> i + length bs \<le> unat n \<Longrightarrow>
   runStmts cs (i, pre @ post) = Next (i + length bs, pre @ bs @ drop (length bs) post)"
  unfolding writes_def by blast

lemma writes_Nil: "writes off n [] []"
  by (simp add: writes_def)

lemma writes_Cons:
  assumes "writes off n [c] bs" "writes off n cs cs'"
  shows "writes off n (c # cs) (bs @ cs')"
  unfolding writes_def
proof (intro allI impI)
  fix i and pre post :: bytes
  assume len: "length pre = off + i" "length (bs @ cs') \<le> length post" "i + length (bs @ cs') \<le> unat n"
  have "runStmts [c] (i, pre @ post) = Next (i + length bs, pre @ bs @ drop (length bs) post)"
    by (rule writesD [OF assms(1)]) (use len in auto)
  then have "c (i, pre @ post) = Next (i + length bs, (pre @ bs) @ drop (length bs) post)"
    by (simp only: runStmts_single append_assoc)
  moreover have "runStmts cs (i + length bs, (pre @ bs) @ drop (length bs) post) =
      Next (i + length bs + length cs', (pre @ bs) @ cs' @ drop (length cs') (drop (length bs) post))"
    by (rule writesD [OF assms(2)]) (use len in auto)
  ultimately show "runStmts (c # cs) (i, pre @ post) =
      Next (i + length (bs @ cs'), pre @ (bs @ cs') @ drop (length (bs @ cs')) post)"
    by (simp add: add.assoc add.commute)
qed

lemma writes_when:
  "(\<And>s. g s = Some b) \<Longrightarrow> writes off n cs bs \<Longrightarrow> writes off n [whenS g cs] (if b then bs else [])"
  by (cases b) (simp_all add: writes_def whenS_def runStmts_single del: runStmts.simps(2))

lemma writes_finishW:
  assumes "writes off n cs bs" "off + length bs \<le> length buf" "length bs \<le> unat n"
  shows "finishW (runStmts cs (0, buf)) = Some (length bs, take off buf @ bs @ drop (off + length bs) buf)"
proof -
  have "runStmts cs (0, take off buf @ drop off buf) =
      Next (length bs, take off buf @ bs @ drop (length bs) (drop off buf))"
    using writesD [OF assms(1), of "take off buf" 0 "drop off buf"] assms(2,3) by simp
  then show ?thesis by (simp add: finishW_def add.commute)
qed

context wire_codec
begin

lemma parses_get:
  assumes "off = length pre" "unat n = length D"
  shows "parses D [getF (fromBuffer h) width upd (pre @ D @ post) off n] (enc v @ rest) m rest (upd v m)"
  unfolding parses_def
proof (intro allI impI)
  fix i assume i: "i \<le> length D" and d: "drop i D = enc v @ rest"
  have len: "i + width + length rest = length D"
    using arg_cong [OF d, of length] i by (simp add: enc_length)
  have "unat (of_nat i :: u32) = i"
    using len assms(2) u32_bound [of n] by (intro unat_of_nat_lt) simp
  then have n: "unat (n - of_nat i) = length D - i"
    using i assms(2) by (simp add: unat_sub_if' word_le_nat_alt)
  have "memRead (pre @ D @ post) (off + i) width = Some (enc v)"
    using d len assms(1) i by (simp add: memRead_def enc_length)
  then have "fromBuffer h (pre @ D @ post) (off + i) (n - of_nat i) = Some (Some v)"
    using n len by (simp add: from_spec dec_enc)
  then have "runStmts [getF (fromBuffer h) width upd (pre @ D @ post) off n] (i, m) =
      Next (i + width, upd v m)"
    by (simp add: getF_def)
  moreover have "drop (i + width) D = rest"
    using d by (metis append_eq_conv_conj drop_drop enc_length add.commute)
  ultimately show "\<exists>j \<le> length D. drop j D = rest \<and>
      runStmts [getF (fromBuffer h) width upd (pre @ D @ post) off n] (i, m) = Next (j, upd v m)"
    using len by (intro exI [of _ "i + width"]) simp
qed

lemma writes_put:
  assumes "x = Some v"
  shows "writes off n [putF (toBuffer h) width x off n] (enc v)"
  unfolding writes_def assms
proof (intro allI impI)
  fix i and pre post :: bytes
  assume len: "length pre = off + i" "length (enc v) \<le> length post" "i + length (enc v) \<le> unat n"
  have "unat (of_nat i :: u32) = i"
    using len(3) u32_bound [of n] by (intro unat_of_nat_lt) simp
  then have "unat (n - of_nat i) = unat n - i"
    using len(3) by (simp add: unat_sub_if' word_le_nat_alt)
  then have "toBuffer h v (pre @ post) (off + i) (n - of_nat i) =
      Some (True, pre @ enc v @ drop (length (enc v)) post)"
    using len by (simp add: to_spec memWrite_def enc_length)
  then show "runStmts [putF (toBuffer h) width (Some v) off n] (i, pre @ post) =
      Next (i + length (enc v), pre @ enc v @ drop (length (enc v)) post)"
    by (simp add: putF_def enc_length)
qed

end

text \<open>A block that is skipped unless a presence bit is set changes nothing.\<close>

definition onlyIf :: "bool \<Rightarrow> ('m \<Rightarrow> 'm) \<Rightarrow> 'm \<Rightarrow> 'm" where
  "onlyIf b f m = (if b then f m else m)"

lemma parses_optional:
  assumes "\<And>i. g (i, m) = Some b" "\<And>x. parses D cs (bs @ rest) x rest (f x)"
  shows "parses D [whenS g cs] ((if b then bs else []) @ rest) m rest (onlyIf b f m)"
  using parses_when [of g m b D cs bs rest "f m"] assms by (simp add: onlyIf_def)

lemma parses_optional_last:
  assumes "\<And>i. g (i, m) = Some b" "\<And>x. parses D cs bs x [] (f x)"
  shows "parses D [whenS g cs] (if b then bs else []) m [] (onlyIf b f m)"
  using parses_optional [of g m b D cs bs "[]" f] assms by simp

lemma parses_assoc: "parses D cs (b1 @ b2 @ rest) m rest' m' \<Longrightarrow> parses D cs ((b1 @ b2) @ rest) m rest' m'"
  by simp

lemmas parses_get_last =
  byte.parses_get [where rest = "[]", unfolded append_Nil2]
  ushort.parses_get [where rest = "[]", unfolded append_Nil2]
  uinteger.parses_get [where rest = "[]", unfolded append_Nil2]
  short.parses_get [where rest = "[]", unfolded append_Nil2]
  integer.parses_get [where rest = "[]", unfolded append_Nil2]

lemmas parses_intros = byte.parses_get ushort.parses_get uinteger.parses_get short.parses_get
  integer.parses_get parses_get_last parses_optional parses_optional_last parses_assoc parses_Nil

lemmas writes_intros = byte.writes_put ushort.writes_put uinteger.writes_put short.writes_put
  integer.writes_put writes_when

text \<open>The two bodies with their guard, along a wire image.\<close>

lemma from_lawI:
  "parses D cs D m [] m' \<Longrightarrow> m' = m'' \<Longrightarrow> n = k \<Longrightarrow>
   (if n = k then finishR (runStmts cs (0, m)) else Some (False, m)) = Some (True, m'')"
  by (simp add: parses_finishR)

lemma to_lawI:
  assumes "writes off n cs bs" "k = of_nat (length bs)" "off + length bs \<le> length buf"
    "length bs \<le> unat n"
  shows "(if k \<le> n then finishW (runStmts cs (0, buf)) else Some (0, buf)) =
    Some (length bs, take off buf @ bs @ drop (off + length bs) buf)"
proof -
  have "unat (of_nat (length bs) :: u32) = length bs"
    using assms(4) u32_bound [of n] by (intro unat_of_nat_lt) simp
  then have "k \<le> n" using assms(2,4) by (simp add: word_le_nat_alt)
  then show ?thesis using writes_finishW [OF assms(1,3,4)] by simp
qed

lemma enc_small: "length bs \<le> k \<Longrightarrow> k < 4096 \<Longrightarrow> length bs < 4096"
  by simp

lemma length_bounds:
  "length (xs :: bytes) \<le> a \<Longrightarrow> length ys \<le> c \<Longrightarrow> length (xs @ ys) \<le> a + c"
  "length xs \<le> a \<Longrightarrow> length (if b then xs else []) \<le> a"
  "length (bytesOfWord n (w :: 'w::len word)) \<le> n" "length [v :: u8] \<le> 1" "length ([] :: bytes) \<le> 0"
  by auto

lemma length_if: "length (if b then xs else []) = (if b then length xs else 0)"
  by simp

lemma of_nat_if: "of_nat (if b then k else 0) = (if b then of_nat k else 0)"
  by simp

section \<open>The routines every typed message repeats\<close>

text \<open>The header a \<open>...Create\<close> function fills in, before \<open>dataInitialize\<close>.\<close>

definition blankHeader :: "u16 \<Rightarrow> u32 \<Rightarrow> JausHeader" where
  "blankHeader code maxDataSizeBytes =
     \<lparr>properties = defaultProperties, commandCode = code,
      destination = jausAddressCreate, source = jausAddressCreate,
      dataSize = maxDataSizeBytes, dataFlag = JAUS_SINGLE_DATA_PACKET, sequenceNumber = 0\<rparr>"

definition copyHeader :: "'a JausHeader_scheme \<Rightarrow> 'b JausHeader_scheme \<Rightarrow> 'b JausHeader_scheme" where
  "copyHeader src dst =
     dst\<lparr>properties := properties src, commandCode := commandCode src, destination := destination src,
         source := source src, dataSize := dataSize src, dataFlag := dataFlag src,
         sequenceNumber := sequenceNumber src\<rparr>"

definition messageFromBuffer ::
    "('a JausHeader_scheme \<Rightarrow> bytes \<Rightarrow> nat \<Rightarrow> u32 \<Rightarrow> (bool \<times> 'a JausHeader_scheme) exec) \<Rightarrow>
     'a JausHeader_scheme \<Rightarrow> bytes \<Rightarrow> u32 \<Rightarrow> (bool \<times> 'a JausHeader_scheme) exec" where
  "messageFromBuffer dataFromBuffer m buffer bufferSizeBytes =
     do { (ok, m1) \<leftarrow> headerFromBuffer m buffer 0 bufferSizeBytes;
          if ok then dataFromBuffer m1 buffer 16 (bufferSizeBytes - 16) else Some (False, m1) }"

definition messageSize :: "('a JausHeader_scheme \<Rightarrow> u32) \<Rightarrow> 'a JausHeader_scheme \<Rightarrow> u32" where
  "messageSize dSize m = dSize m + JAUS_HEADER_SIZE_BYTES"

definition messageToBuffer ::
    "('a JausHeader_scheme \<Rightarrow> u32) \<Rightarrow>
     ('a JausHeader_scheme \<Rightarrow> bytes \<Rightarrow> nat \<Rightarrow> u32 \<Rightarrow> (nat \<times> bytes) exec) \<Rightarrow>
     'a JausHeader_scheme \<Rightarrow> bytes \<Rightarrow> u32 \<Rightarrow> (bool \<times> 'a JausHeader_scheme \<times> bytes) exec" where
  "messageToBuffer dSize dataToBuffer m buffer bufferSizeBytes =
     (if bufferSizeBytes < messageSize dSize m then Some (False, m, buffer)
      else do { (k, buffer1) \<leftarrow> dataToBuffer m buffer 16 (bufferSizeBytes - 16);
                let m1 = m\<lparr>dataSize := of_nat k\<rparr>;
                (ok, buffer2) \<leftarrow> headerToBuffer m1 buffer1 0 bufferSizeBytes;
                Some (ok, m1, buffer2) })"

text \<open>
  Three of the query messages write the header before they store the number of data bytes in
  it.
\<close>

definition messageToBufferHeaderFirst ::
    "('a JausHeader_scheme \<Rightarrow> u32) \<Rightarrow>
     ('a JausHeader_scheme \<Rightarrow> bytes \<Rightarrow> nat \<Rightarrow> u32 \<Rightarrow> (nat \<times> bytes) exec) \<Rightarrow>
     'a JausHeader_scheme \<Rightarrow> bytes \<Rightarrow> u32 \<Rightarrow> (bool \<times> 'a JausHeader_scheme \<times> bytes) exec" where
  "messageToBufferHeaderFirst dSize dataToBuffer m buffer bufferSizeBytes =
     (if bufferSizeBytes < messageSize dSize m then Some (False, m, buffer)
      else do { (ok, buffer1) \<leftarrow> headerToBuffer m buffer 0 bufferSizeBytes;
                if ok
                then do { (k, buffer2) \<leftarrow> dataToBuffer m buffer1 16 (bufferSizeBytes - 16);
                          Some (True, m\<lparr>dataSize := of_nat k\<rparr>, buffer2) }
                else Some (False, m, buffer1) })"

text \<open>
  The object a \<open>...FromJausMessage\<close> function fills is fresh from \<open>malloc\<close>: its former contents
  are the argument \<open>junk\<close>. \<^term>\<open>Some None\<close> is the return value NULL.
\<close>

definition messageFromJausMessage ::
    "u16 \<Rightarrow> ('a JausHeader_scheme \<Rightarrow> bytes \<Rightarrow> nat \<Rightarrow> u32 \<Rightarrow> (bool \<times> 'a JausHeader_scheme) exec) \<Rightarrow>
     'a JausHeader_scheme \<Rightarrow> JausMessage \<Rightarrow> 'a JausHeader_scheme option exec" where
  "messageFromJausMessage code dataFromBuffer junk jausMessage =
     (if commandCode jausMessage \<noteq> code then Some None
      else do { (ok, m) \<leftarrow> dataFromBuffer (copyHeader jausMessage junk)
                            (dataBytes jausMessage) 0 (dataSize jausMessage);
                Some (if ok then Some m else None) })"

definition messageToJausMessage ::
    "('a JausHeader_scheme \<Rightarrow> u32) \<Rightarrow>
     ('a JausHeader_scheme \<Rightarrow> bytes \<Rightarrow> nat \<Rightarrow> u32 \<Rightarrow> (nat \<times> bytes) exec) \<Rightarrow>
     'a JausHeader_scheme \<Rightarrow> JausMessage exec" where
  "messageToJausMessage dSize dataToBuffer m =
     do { (k, d) \<leftarrow> dataToBuffer m (replicate (unat (dSize m)) 0) 0 (dSize m);
          Some ((copyHeader m jausMessageCreate)\<lparr>dataSize := of_nat k, data := Some d\<rparr>) }"

lemma copyHeader_simps [simp]:
  "properties (copyHeader s d) = properties s" "commandCode (copyHeader s d) = commandCode s"
  "destination (copyHeader s d) = destination s" "source (copyHeader s d) = source s"
  "dataSize (copyHeader s d) = dataSize s" "dataFlag (copyHeader s d) = dataFlag s"
  "sequenceNumber (copyHeader s d) = sequenceNumber s"
  "JausHeader.more (copyHeader s d) = JausHeader.more d"
  by (simp_all add: copyHeader_def)

lemma copyHeader_copyHeader [simp]: "copyHeader (copyHeader a b) c = copyHeader a c"
  by (simp add: copyHeader_def)

lemma copyHeader_data [simp]: "copyHeader (s\<lparr>data := d\<rparr>) t = copyHeader s t"
  by (simp add: copyHeader_def)

lemma copyHeader_dataSize [simp]:
  "copyHeader ((copyHeader a b)\<lparr>dataSize := k\<rparr>) c = copyHeader (a\<lparr>dataSize := k\<rparr>) c"
  by (simp add: copyHeader_def)

lemma data_copyHeader [simp]: "data (copyHeader s d) = data d"
  by (simp add: copyHeader_def)

lemma dataBytes_data [simp]: "data m = Some d \<Longrightarrow> dataBytes m = d"
  by (simp add: dataBytes_def)

section \<open>The contract of a typed message\<close>

text \<open>
  \<open>enc\<close> is the wire image of the data part, \<open>withData m0 m\<close> is \<open>m0\<close> with the data fields a
  receiver reconstructs from the image of \<open>m\<close>.
\<close>

locale typed_message =
  fixes dSize :: "'a JausHeader_scheme \<Rightarrow> u32"
    and dataFrom :: "'a JausHeader_scheme \<Rightarrow> bytes \<Rightarrow> nat \<Rightarrow> u32 \<Rightarrow> (bool \<times> 'a JausHeader_scheme) exec"
    and dataTo :: "'a JausHeader_scheme \<Rightarrow> bytes \<Rightarrow> nat \<Rightarrow> u32 \<Rightarrow> (nat \<times> bytes) exec"
    and enc :: "'a JausHeader_scheme \<Rightarrow> bytes"
    and withData :: "'a JausHeader_scheme \<Rightarrow> 'a JausHeader_scheme \<Rightarrow> 'a JausHeader_scheme"
  assumes dSize_enc: "dSize m = of_nat (length (enc m))"
    and enc_bound: "length (enc m) < 4096"
    and to_law: "off + length (enc m) \<le> length buf \<Longrightarrow> length (enc m) \<le> unat n \<Longrightarrow>
          dataTo m buf off n = Some (length (enc m), take off buf @ enc m @ drop (off + length (enc m)) buf)"
    and from_law: "dataSize m0 = dSize m \<Longrightarrow>
          dataFrom m0 (pre @ enc m @ post) (length pre) (dSize m) = Some (True, withData m0 m)"
begin

lemma enc_size: "length (enc m) = unat (dSize m)"
  using enc_bound [of m] by (simp add: dSize_enc unat_of_nat_lt)

lemma size_bound: "unat (dSize m) < 4096"
  using enc_bound [of m] enc_size [of m] by simp

lemma toJausMessage:
  "messageToJausMessage dSize dataTo m =
     Some ((copyHeader m jausMessageCreate)\<lparr>dataSize := dSize m, data := Some (enc m)\<rparr>)"
  using to_law [of 0 m "replicate (unat (dSize m)) 0" "dSize m"] enc_size [of m]
  by (simp add: messageToJausMessage_def)

lemma toJausMessage_ok:
  assumes "dataFlag m < 0x10" "messageToJausMessage dSize dataTo m = Some jm"
  shows "messageOk jm" "dataSize jm = dSize m" "dataBytes jm = enc m"
  using assms enc_size [of m] size_bound [of m]
  by (auto simp: toJausMessage messageOk_def headerFits_def word_less_nat_alt)

lemma jaus_roundtrip:
  assumes "commandCode m = code"
  shows "\<exists>jm. messageToJausMessage dSize dataTo m = Some jm \<and> commandCode jm = code \<and>
     messageFromJausMessage code dataFrom junk jm =
       Some (Some (withData (copyHeader (m\<lparr>dataSize := dSize m\<rparr>) junk) m))"
  using from_law [of "copyHeader (m\<lparr>dataSize := dSize m\<rparr>) junk" m "[]" "[]"] assms
  by (simp add: toJausMessage messageFromJausMessage_def)

lemma buffer_roundtrip:
  assumes "dataFlag m < 0x10" and n: "unat n = unat (dSize m) + 16" "length buf = unat n"
  shows "\<exists>buf'. messageToBuffer dSize dataTo m buf n = Some (True, m\<lparr>dataSize := dSize m\<rparr>, buf') \<and>
     length buf' = length buf \<and>
     messageFromBuffer dataFrom m0 buf' n =
       Some (True, withData (copyHeader (m\<lparr>dataSize := dSize m\<rparr>) m0) m)"
proof -
  let ?m = "m\<lparr>dataSize := dSize m\<rparr>"
  have sz: "unat (messageSize dSize m) = unat (dSize m) + 16"
    using size_bound [of m] by (simp add: messageSize_def unat_word_ariths)
  have n16: "unat (n - 16) = unat (dSize m)" "16 \<le> n" "\<not> n < messageSize dSize m"
    using n sz by (simp_all add: unat_sub_if' word_le_nat_alt word_less_nat_alt)
  then have neq: "n - 16 = dSize m" by (metis word_unat_eq_iff)
  have to: "dataTo m buf 16 (n - 16) = Some (unat (dSize m), take 16 buf @ enc m)"
    using to_law [of 16 m buf "n - 16"] n neq enc_size [of m] by simp
  have hdr: "headerToBuffer ?m (take 16 buf @ enc m) 0 n = Some (True, headerBytes ?m @ enc m)"
    using headerToBuffer_at [of n "take 16 buf @ enc m" 0 "[]" ?m] n16(2) n by simp
  have fits: "headerFits ?m"
    using assms(1) size_bound [of m] by (simp add: headerFits_def word_less_nat_alt)
  have fhdr: "headerFromBuffer m0 (headerBytes ?m @ enc m) 0 n = Some (True, copyHeader ?m m0)"
    using headerFromBuffer_at [of n ?m 0 "[]" m0 "enc m"] n16(2) fits by (simp add: copyHeader_def)
  have "dataFrom (copyHeader ?m m0) (headerBytes ?m @ enc m) 16 (n - 16) =
      Some (True, withData (copyHeader ?m m0) m)"
    using from_law [of "copyHeader ?m m0" m "headerBytes ?m" "[]"] neq by simp
  then show ?thesis
    using n16 n to hdr fhdr enc_size [of m]
    by (simp add: messageToBuffer_def messageFromBuffer_def Let_def)
qed

end

section \<open>Messages without data\<close>

text \<open>
  The message-specific routines of the messages that have no data fields are the same text in
  each of their files.
\<close>

definition noData_dataInitialize :: "JausHeader \<Rightarrow> JausHeader" where
  "noData_dataInitialize m = m"

definition noData_dataSize :: "JausHeader \<Rightarrow> u32" where
  "noData_dataSize m = 0"

definition noData_dataFromBuffer :: "JausHeader \<Rightarrow> bytes \<Rightarrow> nat \<Rightarrow> u32 \<Rightarrow> (bool \<times> JausHeader) exec" where
  "noData_dataFromBuffer m buffer off n = (if n = dataSize m then Some (True, m) else Some (False, m))"

definition noData_dataToBuffer :: "JausHeader \<Rightarrow> bytes \<Rightarrow> nat \<Rightarrow> u32 \<Rightarrow> (nat \<times> bytes) exec" where
  "noData_dataToBuffer m buffer off n =
     (if noData_dataSize m \<le> n then Some (0, buffer) else Some (0, buffer))"

interpretation noData: typed_message noData_dataSize noData_dataFromBuffer noData_dataToBuffer
  "\<lambda>_. []" "\<lambda>m0 m. m0"
  by unfold_locales
    (simp_all add: noData_dataSize_def noData_dataFromBuffer_def noData_dataToBuffer_def)

end
