(* ===== verification/MessageCodes.thy ===== *)
theory MessageCodes
  imports MessageCodec
begin

text \<open>
  The named constants of the message headers: command codes
  (\<open>openjaus/include/jaus/message/jausMessage.h\<close> and
  \<open>xgv_controller/include/xgv_client/message/xgvClientMessageHeaders.h\<close>), presence vector bits,
  numerical ranges and enumeration values.
\<close>

section \<open>Command codes\<close>

abbreviation (input) JAUS_SET_COMPONENT_AUTHORITY :: u16 where "JAUS_SET_COMPONENT_AUTHORITY \<equiv> 0x0001"
abbreviation (input) JAUS_SHUTDOWN :: u16 where "JAUS_SHUTDOWN \<equiv> 0x0002"
abbreviation (input) JAUS_STANDBY :: u16 where "JAUS_STANDBY \<equiv> 0x0003"
abbreviation (input) JAUS_RESUME :: u16 where "JAUS_RESUME \<equiv> 0x0004"
abbreviation (input) JAUS_RESET :: u16 where "JAUS_RESET \<equiv> 0x0005"
abbreviation (input) JAUS_SET_EMERGENCY :: u16 where "JAUS_SET_EMERGENCY \<equiv> 0x0006"
abbreviation (input) JAUS_CLEAR_EMERGENCY :: u16 where "JAUS_CLEAR_EMERGENCY \<equiv> 0x0007"
abbreviation (input) JAUS_CREATE_SERVICE_CONNECTION :: u16 where "JAUS_CREATE_SERVICE_CONNECTION \<equiv> 0x0008"
abbreviation (input) JAUS_CONFIRM_SERVICE_CONNECTION :: u16 where "JAUS_CONFIRM_SERVICE_CONNECTION \<equiv> 0x0009"
abbreviation (input) JAUS_ACTIVATE_SERVICE_CONNECTION :: u16 where "JAUS_ACTIVATE_SERVICE_CONNECTION \<equiv> 0x000A"
abbreviation (input) JAUS_SUSPEND_SERVICE_CONNECTION :: u16 where "JAUS_SUSPEND_SERVICE_CONNECTION \<equiv> 0x000B"
abbreviation (input) JAUS_TERMINATE_SERVICE_CONNECTION :: u16 where "JAUS_TERMINATE_SERVICE_CONNECTION \<equiv> 0x000C"
abbreviation (input) JAUS_REQUEST_COMPONENT_CONTROL :: u16 where "JAUS_REQUEST_COMPONENT_CONTROL \<equiv> 0x000D"
abbreviation (input) JAUS_RELEASE_COMPONENT_CONTROL :: u16 where "JAUS_RELEASE_COMPONENT_CONTROL \<equiv> 0x000E"
abbreviation (input) JAUS_CONFIRM_COMPONENT_CONTROL :: u16 where "JAUS_CONFIRM_COMPONENT_CONTROL \<equiv> 0x000F"
abbreviation (input) JAUS_REJECT_COMPONENT_CONTROL :: u16 where "JAUS_REJECT_COMPONENT_CONTROL \<equiv> 0x0010"
abbreviation (input) JAUS_SET_TIME :: u16 where "JAUS_SET_TIME \<equiv> 0x0011"
abbreviation (input) JAUS_CREATE_EVENT :: u16 where "JAUS_CREATE_EVENT \<equiv> 0x01F0"
abbreviation (input) JAUS_UPDATE_EVENT :: u16 where "JAUS_UPDATE_EVENT \<equiv> 0x01F1"
abbreviation (input) JAUS_CANCEL_EVENT :: u16 where "JAUS_CANCEL_EVENT \<equiv> 0x01F2"
abbreviation (input) JAUS_CONFIRM_EVENT_REQUEST :: u16 where "JAUS_CONFIRM_EVENT_REQUEST \<equiv> 0x01F3"
abbreviation (input) JAUS_REJECT_EVENT_REQUEST :: u16 where "JAUS_REJECT_EVENT_REQUEST \<equiv> 0x01F4"
abbreviation (input) JAUS_SET_DATA_LINK_STATUS :: u16 where "JAUS_SET_DATA_LINK_STATUS \<equiv> 0x0200"
abbreviation (input) JAUS_SET_DATA_LINK_SELECT :: u16 where "JAUS_SET_DATA_LINK_SELECT \<equiv> 0x0201"
abbreviation (input) JAUS_SET_SELECTED_DATA_LINK_STATE :: u16 where "JAUS_SET_SELECTED_DATA_LINK_STATE \<equiv> 0x0202"
abbreviation (input) JAUS_SET_WRENCH_EFFORT :: u16 where "JAUS_SET_WRENCH_EFFORT \<equiv> 0x0405"
abbreviation (input) JAUS_SET_DISCRETE_DEVICES :: u16 where "JAUS_SET_DISCRETE_DEVICES \<equiv> 0x0406"
abbreviation (input) JAUS_SET_GLOBAL_VECTOR :: u16 where "JAUS_SET_GLOBAL_VECTOR \<equiv> 0x0407"
abbreviation (input) JAUS_SET_LOCAL_VECTOR :: u16 where "JAUS_SET_LOCAL_VECTOR \<equiv> 0x0408"
abbreviation (input) JAUS_SET_TRAVEL_SPEED :: u16 where "JAUS_SET_TRAVEL_SPEED \<equiv> 0x040A"
abbreviation (input) JAUS_SET_GLOBAL_WAYPOINT :: u16 where "JAUS_SET_GLOBAL_WAYPOINT \<equiv> 0x040C"
abbreviation (input) JAUS_SET_LOCAL_WAYPOINT :: u16 where "JAUS_SET_LOCAL_WAYPOINT \<equiv> 0x040D"
abbreviation (input) JAUS_SET_GLOBAL_PATH_SEGMENT :: u16 where "JAUS_SET_GLOBAL_PATH_SEGMENT \<equiv> 0x040F"
abbreviation (input) JAUS_SET_LOCAL_PATH_SEGMENT :: u16 where "JAUS_SET_LOCAL_PATH_SEGMENT \<equiv> 0x0410"
abbreviation (input) JAUS_SET_JOINT_EFFORTS :: u16 where "JAUS_SET_JOINT_EFFORTS \<equiv> 0x0601"
abbreviation (input) JAUS_SET_JOINT_POSITIONS :: u16 where "JAUS_SET_JOINT_POSITIONS \<equiv> 0x0602"
abbreviation (input) JAUS_SET_JOINT_VELOCITIES :: u16 where "JAUS_SET_JOINT_VELOCITIES \<equiv> 0x0603"
abbreviation (input) JAUS_SET_TOOL_POINT :: u16 where "JAUS_SET_TOOL_POINT \<equiv> 0x0604"
abbreviation (input) JAUS_SET_END_EFFECTOR_POSE :: u16 where "JAUS_SET_END_EFFECTOR_POSE \<equiv> 0x0605"
abbreviation (input) JAUS_SET_END_EFFECTOR_VELOCITY_STATE :: u16 where "JAUS_SET_END_EFFECTOR_VELOCITY_STATE \<equiv> 0x0606"
abbreviation (input) JAUS_SET_JOINT_MOTION :: u16 where "JAUS_SET_JOINT_MOTION \<equiv> 0x0607"
abbreviation (input) JAUS_SET_END_EFFECTOR_PATH_MOTION :: u16 where "JAUS_SET_END_EFFECTOR_PATH_MOTION \<equiv> 0x0608"
abbreviation (input) JAUS_SET_CAMERA_POSE :: u16 where "JAUS_SET_CAMERA_POSE \<equiv> 0x0801"
abbreviation (input) JAUS_SELECT_CAMERA :: u16 where "JAUS_SELECT_CAMERA \<equiv> 0x0802"
abbreviation (input) JAUS_SET_CAMERA_CAPABILITIES :: u16 where "JAUS_SET_CAMERA_CAPABILITIES \<equiv> 0x0805"
abbreviation (input) JAUS_SET_CAMERA_FORMAT_OPTIONS :: u16 where "JAUS_SET_CAMERA_FORMAT_OPTIONS \<equiv> 0x0806"
abbreviation (input) JAUS_CREATE_VKS_OBJECTS :: u16 where "JAUS_CREATE_VKS_OBJECTS \<equiv> 0x0A20"
abbreviation (input) JAUS_DELETE_VKS_OBJECTS :: u16 where "JAUS_DELETE_VKS_OBJECTS \<equiv> 0x0A25"
abbreviation (input) JAUS_SET_VKS_FEATURE_CLASS_METADATA :: u16 where "JAUS_SET_VKS_FEATURE_CLASS_METADATA \<equiv> 0x0A21"
abbreviation (input) JAUS_TERMINATE_VKS_DATA_TRANSFER :: u16 where "JAUS_TERMINATE_VKS_DATA_TRANSFER \<equiv> 0x0A24"
abbreviation (input) JAUS_SET_PAYLOAD_DATA_ELEMENT :: u16 where "JAUS_SET_PAYLOAD_DATA_ELEMENT \<equiv> 0x0D01"
abbreviation (input) JAUS_SPOOL_MISSION :: u16 where "JAUS_SPOOL_MISSION \<equiv> 0x0E00"
abbreviation (input) JAUS_RUN_MISSION :: u16 where "JAUS_RUN_MISSION \<equiv> 0x0E01"
abbreviation (input) JAUS_ABORT_MISSION :: u16 where "JAUS_ABORT_MISSION \<equiv> 0x0E02"
abbreviation (input) JAUS_PAUSE_MISSION :: u16 where "JAUS_PAUSE_MISSION \<equiv> 0x0E03"
abbreviation (input) JAUS_RESUME_MISSION :: u16 where "JAUS_RESUME_MISSION \<equiv> 0x0E04"
abbreviation (input) JAUS_REMOVE_MESSAGES :: u16 where "JAUS_REMOVE_MESSAGES \<equiv> 0x0E05"
abbreviation (input) JAUS_REPLACE_MESSAGES :: u16 where "JAUS_REPLACE_MESSAGES \<equiv> 0x0E06"
abbreviation (input) JAUS_QUERY_COMPONENT_AUTHORITY :: u16 where "JAUS_QUERY_COMPONENT_AUTHORITY \<equiv> 0x2001"
abbreviation (input) JAUS_QUERY_COMPONENT_STATUS :: u16 where "JAUS_QUERY_COMPONENT_STATUS \<equiv> 0x2002"
abbreviation (input) JAUS_QUERY_TIME :: u16 where "JAUS_QUERY_TIME \<equiv> 0x2011"
abbreviation (input) JAUS_QUERY_COMPONENT_CONTROL :: u16 where "JAUS_QUERY_COMPONENT_CONTROL \<equiv> 0x200D"
abbreviation (input) JAUS_QUERY_EVENTS :: u16 where "JAUS_QUERY_EVENTS \<equiv> 0x21F0"
abbreviation (input) JAUS_QUERY_DATA_LINK_STATUS :: u16 where "JAUS_QUERY_DATA_LINK_STATUS \<equiv> 0x2200"
abbreviation (input) JAUS_QUERY_SELECTED_DATA_LINK_STATUS :: u16 where "JAUS_QUERY_SELECTED_DATA_LINK_STATUS \<equiv> 0x2201"
abbreviation (input) JAUS_QUERY_HEARTBEAT_PULSE :: u16 where "JAUS_QUERY_HEARTBEAT_PULSE \<equiv> 0x2202"
abbreviation (input) JAUS_QUERY_PLATFORM_SPECIFICATIONS :: u16 where "JAUS_QUERY_PLATFORM_SPECIFICATIONS \<equiv> 0x2400"
abbreviation (input) JAUS_QUERY_PLATFORM_OPERATIONAL_DATA :: u16 where "JAUS_QUERY_PLATFORM_OPERATIONAL_DATA \<equiv> 0x2401"
abbreviation (input) JAUS_QUERY_GLOBAL_POSE :: u16 where "JAUS_QUERY_GLOBAL_POSE \<equiv> 0x2402"
abbreviation (input) JAUS_QUERY_LOCAL_POSE :: u16 where "JAUS_QUERY_LOCAL_POSE \<equiv> 0x2403"
abbreviation (input) JAUS_QUERY_VELOCITY_STATE :: u16 where "JAUS_QUERY_VELOCITY_STATE \<equiv> 0x2404"
abbreviation (input) JAUS_QUERY_WRENCH_EFFORT :: u16 where "JAUS_QUERY_WRENCH_EFFORT \<equiv> 0x2405"
abbreviation (input) JAUS_QUERY_DISCRETE_DEVICES :: u16 where "JAUS_QUERY_DISCRETE_DEVICES \<equiv> 0x2406"
abbreviation (input) JAUS_QUERY_GLOBAL_VECTOR :: u16 where "JAUS_QUERY_GLOBAL_VECTOR \<equiv> 0x2407"
abbreviation (input) JAUS_QUERY_LOCAL_VECTOR :: u16 where "JAUS_QUERY_LOCAL_VECTOR \<equiv> 0x2408"
abbreviation (input) JAUS_QUERY_TRAVEL_SPEED :: u16 where "JAUS_QUERY_TRAVEL_SPEED \<equiv> 0x240A"
abbreviation (input) JAUS_QUERY_WAYPOINT_COUNT :: u16 where "JAUS_QUERY_WAYPOINT_COUNT \<equiv> 0x240B"
abbreviation (input) JAUS_QUERY_GLOBAL_WAYPOINT :: u16 where "JAUS_QUERY_GLOBAL_WAYPOINT \<equiv> 0x240C"
abbreviation (input) JAUS_QUERY_LOCAL_WAYPOINT :: u16 where "JAUS_QUERY_LOCAL_WAYPOINT \<equiv> 0x240D"
abbreviation (input) JAUS_QUERY_PATH_SEGMENT_COUNT :: u16 where "JAUS_QUERY_PATH_SEGMENT_COUNT \<equiv> 0x240E"
abbreviation (input) JAUS_QUERY_GLOBAL_PATH_SEGMENT :: u16 where "JAUS_QUERY_GLOBAL_PATH_SEGMENT \<equiv> 0x240F"
abbreviation (input) JAUS_QUERY_LOCAL_PATH_SEGMENT :: u16 where "JAUS_QUERY_LOCAL_PATH_SEGMENT \<equiv> 0x2410"
abbreviation (input) JAUS_QUERY_MANIPULATOR_SPECIFICATIONS :: u16 where "JAUS_QUERY_MANIPULATOR_SPECIFICATIONS \<equiv> 0x2600"
abbreviation (input) JAUS_QUERY_JOINT_EFFORTS :: u16 where "JAUS_QUERY_JOINT_EFFORTS \<equiv> 0x2601"
abbreviation (input) JAUS_QUERY_JOINT_POSITIONS :: u16 where "JAUS_QUERY_JOINT_POSITIONS \<equiv> 0x2602"
abbreviation (input) JAUS_QUERY_JOINT_VELOCITIES :: u16 where "JAUS_QUERY_JOINT_VELOCITIES \<equiv> 0x2603"
abbreviation (input) JAUS_QUERY_TOOL_POINT :: u16 where "JAUS_QUERY_TOOL_POINT \<equiv> 0x2604"
abbreviation (input) JAUS_QUERY_JOINT_FORCE_TORQUES :: u16 where "JAUS_QUERY_JOINT_FORCE_TORQUES \<equiv> 0x2605"
abbreviation (input) JAUS_QUERY_CAMERA_POSE :: u16 where "JAUS_QUERY_CAMERA_POSE \<equiv> 0x2800"
abbreviation (input) JAUS_QUERY_CAMERA_COUNT :: u16 where "JAUS_QUERY_CAMERA_COUNT \<equiv> 0x2801"
abbreviation (input) JAUS_QUERY_RELATIVE_OBJECT_POSITION :: u16 where "JAUS_QUERY_RELATIVE_OBJECT_POSITION \<equiv> 0x2802"
abbreviation (input) JAUS_QUERY_SELECTED_CAMERA :: u16 where "JAUS_QUERY_SELECTED_CAMERA \<equiv> 0x2804"
abbreviation (input) JAUS_QUERY_CAMERA_CAPABILITIES :: u16 where "JAUS_QUERY_CAMERA_CAPABILITIES \<equiv> 0x2805"
abbreviation (input) JAUS_QUERY_CAMERA_FORMAT_OPTIONS :: u16 where "JAUS_QUERY_CAMERA_FORMAT_OPTIONS \<equiv> 0x2806"
abbreviation (input) JAUS_QUERY_IMAGE :: u16 where "JAUS_QUERY_IMAGE \<equiv> 0x2807"
abbreviation (input) JAUS_QUERY_VKS_FEATURE_CLASS_METADATA :: u16 where "JAUS_QUERY_VKS_FEATURE_CLASS_METADATA \<equiv> 0x2A21"
abbreviation (input) JAUS_QUERY_VKS_BOUNDS :: u16 where "JAUS_QUERY_VKS_BOUNDS \<equiv> 0x2A22"
abbreviation (input) JAUS_QUERY_VKS_OBJECTS :: u16 where "JAUS_QUERY_VKS_OBJECTS \<equiv> 0x2A23"
abbreviation (input) JAUS_QUERY_IDENTIFICATION :: u16 where "JAUS_QUERY_IDENTIFICATION \<equiv> 0x2B00"
abbreviation (input) JAUS_QUERY_CONFIGURATION :: u16 where "JAUS_QUERY_CONFIGURATION \<equiv> 0x2B01"
abbreviation (input) JAUS_QUERY_SUBSYSTEM_LIST :: u16 where "JAUS_QUERY_SUBSYSTEM_LIST \<equiv> 0x2B02"
abbreviation (input) JAUS_QUERY_SERVICES :: u16 where "JAUS_QUERY_SERVICES \<equiv> 0x2B03"
abbreviation (input) JAUS_QUERY_PAYLOAD_INTERFACE :: u16 where "JAUS_QUERY_PAYLOAD_INTERFACE \<equiv> 0x2D00"
abbreviation (input) JAUS_QUERY_PAYLOAD_DATA_ELEMENT :: u16 where "JAUS_QUERY_PAYLOAD_DATA_ELEMENT \<equiv> 0x2D01"
abbreviation (input) JAUS_QUERY_SPOOLING_PREFERENCE :: u16 where "JAUS_QUERY_SPOOLING_PREFERENCE \<equiv> 0x2E00"
abbreviation (input) JAUS_QUERY_MISSION_STATUS :: u16 where "JAUS_QUERY_MISSION_STATUS \<equiv> 0x2E01"
abbreviation (input) JAUS_REPORT_COMPONENT_AUTHORITY :: u16 where "JAUS_REPORT_COMPONENT_AUTHORITY \<equiv> 0x4001"
abbreviation (input) JAUS_REPORT_COMPONENT_STATUS :: u16 where "JAUS_REPORT_COMPONENT_STATUS \<equiv> 0x4002"
abbreviation (input) JAUS_REPORT_TIME :: u16 where "JAUS_REPORT_TIME \<equiv> 0x4011"
abbreviation (input) JAUS_REPORT_COMPONENT_CONTROL :: u16 where "JAUS_REPORT_COMPONENT_CONTROL \<equiv> 0x400D"
abbreviation (input) JAUS_REPORT_EVENTS :: u16 where "JAUS_REPORT_EVENTS \<equiv> 0x41F0"
abbreviation (input) JAUS_EVENT :: u16 where "JAUS_EVENT \<equiv> 0x41F1"
abbreviation (input) JAUS_REPORT_DATA_LINK_STATUS :: u16 where "JAUS_REPORT_DATA_LINK_STATUS \<equiv> 0x4200"
abbreviation (input) JAUS_REPORT_SELECTED_DATA_LINK_STATUS :: u16 where "JAUS_REPORT_SELECTED_DATA_LINK_STATUS \<equiv> 0x4201"
abbreviation (input) JAUS_REPORT_HEARTBEAT_PULSE :: u16 where "JAUS_REPORT_HEARTBEAT_PULSE \<equiv> 0x4202"
abbreviation (input) JAUS_REPORT_PLATFORM_SPECIFICATIONS :: u16 where "JAUS_REPORT_PLATFORM_SPECIFICATIONS \<equiv> 0x4400"
abbreviation (input) JAUS_REPORT_PLATFORM_OPERATIONAL_DATA :: u16 where "JAUS_REPORT_PLATFORM_OPERATIONAL_DATA \<equiv> 0x4401"
abbreviation (input) JAUS_REPORT_GLOBAL_POSE :: u16 where "JAUS_REPORT_GLOBAL_POSE \<equiv> 0x4402"
abbreviation (input) JAUS_REPORT_LOCAL_POSE :: u16 where "JAUS_REPORT_LOCAL_POSE \<equiv> 0x4403"
abbreviation (input) JAUS_REPORT_VELOCITY_STATE :: u16 where "JAUS_REPORT_VELOCITY_STATE \<equiv> 0x4404"
abbreviation (input) JAUS_REPORT_WRENCH_EFFORT :: u16 where "JAUS_REPORT_WRENCH_EFFORT \<equiv> 0x4405"
abbreviation (input) JAUS_REPORT_DISCRETE_DEVICES :: u16 where "JAUS_REPORT_DISCRETE_DEVICES \<equiv> 0x4406"
abbreviation (input) JAUS_REPORT_GLOBAL_VECTOR :: u16 where "JAUS_REPORT_GLOBAL_VECTOR \<equiv> 0x4407"
abbreviation (input) JAUS_REPORT_LOCAL_VECTOR :: u16 where "JAUS_REPORT_LOCAL_VECTOR \<equiv> 0x4408"
abbreviation (input) JAUS_REPORT_TRAVEL_SPEED :: u16 where "JAUS_REPORT_TRAVEL_SPEED \<equiv> 0x440A"
abbreviation (input) JAUS_REPORT_WAYPOINT_COUNT :: u16 where "JAUS_REPORT_WAYPOINT_COUNT \<equiv> 0x440B"
abbreviation (input) JAUS_REPORT_GLOBAL_WAYPOINT :: u16 where "JAUS_REPORT_GLOBAL_WAYPOINT \<equiv> 0x440C"
abbreviation (input) JAUS_REPORT_LOCAL_WAYPOINT :: u16 where "JAUS_REPORT_LOCAL_WAYPOINT \<equiv> 0x440D"
abbreviation (input) JAUS_REPORT_PATH_SEGMENT_COUNT :: u16 where "JAUS_REPORT_PATH_SEGMENT_COUNT \<equiv> 0x440E"
abbreviation (input) JAUS_REPORT_GLOBAL_PATH_SEGMENT :: u16 where "JAUS_REPORT_GLOBAL_PATH_SEGMENT \<equiv> 0x440F"
abbreviation (input) JAUS_REPORT_LOCAL_PATH_SEGMENT :: u16 where "JAUS_REPORT_LOCAL_PATH_SEGMENT \<equiv> 0x4410"
abbreviation (input) JAUS_REPORT_MANIPULATOR_SPECIFICATIONS :: u16 where "JAUS_REPORT_MANIPULATOR_SPECIFICATIONS \<equiv> 0x4600"
abbreviation (input) JAUS_REPORT_JOINT_EFFORTS :: u16 where "JAUS_REPORT_JOINT_EFFORTS \<equiv> 0x4601"
abbreviation (input) JAUS_REPORT_JOINT_POSITIONS :: u16 where "JAUS_REPORT_JOINT_POSITIONS \<equiv> 0x4602"
abbreviation (input) JAUS_REPORT_JOINT_VELOCITIES :: u16 where "JAUS_REPORT_JOINT_VELOCITIES \<equiv> 0x4603"
abbreviation (input) JAUS_REPORT_TOOL_POINT :: u16 where "JAUS_REPORT_TOOL_POINT \<equiv> 0x4604"
abbreviation (input) JAUS_REPORT_JOINT_FORCE_TORQUES :: u16 where "JAUS_REPORT_JOINT_FORCE_TORQUES \<equiv> 0x4605"
abbreviation (input) JAUS_REPORT_CAMERA_POSE :: u16 where "JAUS_REPORT_CAMERA_POSE \<equiv> 0x4800"
abbreviation (input) JAUS_REPORT_CAMERA_COUNT :: u16 where "JAUS_REPORT_CAMERA_COUNT \<equiv> 0x4801"
abbreviation (input) JAUS_REPORT_RELATIVE_OBJECT_POSITION :: u16 where "JAUS_REPORT_RELATIVE_OBJECT_POSITION \<equiv> 0x4802"
abbreviation (input) JAUS_REPORT_SELECTED_CAMERA :: u16 where "JAUS_REPORT_SELECTED_CAMERA \<equiv> 0x4804"
abbreviation (input) JAUS_REPORT_CAMERA_CAPABILITIES :: u16 where "JAUS_REPORT_CAMERA_CAPABILITIES \<equiv> 0x4805"
abbreviation (input) JAUS_REPORT_CAMERA_FORMAT_OPTIONS :: u16 where "JAUS_REPORT_CAMERA_FORMAT_OPTIONS \<equiv> 0x4806"
abbreviation (input) JAUS_REPORT_IMAGE :: u16 where "JAUS_REPORT_IMAGE \<equiv> 0x4807"
abbreviation (input) JAUS_REPORT_VKS_OBJECTS_CREATION :: u16 where "JAUS_REPORT_VKS_OBJECTS_CREATION \<equiv> 0x4A20"
abbreviation (input) JAUS_REPORT_VKS_FEATURE_CLASS_METADATA :: u16 where "JAUS_REPORT_VKS_FEATURE_CLASS_METADATA \<equiv> 0x4A21"
abbreviation (input) JAUS_REPORT_VKS_BOUNDS :: u16 where "JAUS_REPORT_VKS_BOUNDS \<equiv> 0x4A22"
abbreviation (input) JAUS_REPORT_VKS_OBJECTS :: u16 where "JAUS_REPORT_VKS_OBJECTS \<equiv> 0x4A23"
abbreviation (input) JAUS_REPORT_VKS_DATA_TRANSFER_TERMINATION :: u16 where "JAUS_REPORT_VKS_DATA_TRANSFER_TERMINATION \<equiv> 0x4A24"
abbreviation (input) JAUS_REPORT_IDENTIFICATION :: u16 where "JAUS_REPORT_IDENTIFICATION \<equiv> 0x4B00"
abbreviation (input) JAUS_REPORT_CONFIGURATION :: u16 where "JAUS_REPORT_CONFIGURATION \<equiv> 0x4B01"
abbreviation (input) JAUS_REPORT_SUBSYSTEM_LIST :: u16 where "JAUS_REPORT_SUBSYSTEM_LIST \<equiv> 0x4B02"
abbreviation (input) JAUS_REPORT_SERVICES :: u16 where "JAUS_REPORT_SERVICES \<equiv> 0x4B03"
abbreviation (input) JAUS_REPORT_PAYLOAD_INTERFACE :: u16 where "JAUS_REPORT_PAYLOAD_INTERFACE \<equiv> 0x4D00"
abbreviation (input) JAUS_REPORT_PAYLOAD_DATA_ELEMENT :: u16 where "JAUS_REPORT_PAYLOAD_DATA_ELEMENT \<equiv> 0x4D01"
abbreviation (input) JAUS_REPORT_SPOOLING_PREFERENCE :: u16 where "JAUS_REPORT_SPOOLING_PREFERENCE \<equiv> 0x4E00"
abbreviation (input) JAUS_REPORT_MISSION_STATUS :: u16 where "JAUS_REPORT_MISSION_STATUS \<equiv> 0x4E01"
abbreviation (input) JAUS_SET_VELOCITY_STATE :: u16 where "JAUS_SET_VELOCITY_STATE \<equiv> 0x0404"
abbreviation (input) JAUS_SET_MTT_LIGHTS :: u16 where "JAUS_SET_MTT_LIGHTS \<equiv> 0xD000"
abbreviation (input) JAUS_QUERY_MAP :: u16 where "JAUS_QUERY_MAP \<equiv> 0x28F1"
abbreviation (input) JAUS_REPORT_MAP :: u16 where "JAUS_REPORT_MAP \<equiv> 0x48F1"
abbreviation (input) JAUS_SET_SIGNALS :: u16 where "JAUS_SET_SIGNALS \<equiv> 0xE322"
abbreviation (input) JAUS_SET_MOTION_PROFILE :: u16 where "JAUS_SET_MOTION_PROFILE \<equiv> 0xE328"
abbreviation (input) JAUS_REPORT_SIGNALS :: u16 where "JAUS_REPORT_SIGNALS \<equiv> 0xE445"
abbreviation (input) JAUS_REPORT_VEHICLE_MODE :: u16 where "JAUS_REPORT_VEHICLE_MODE \<equiv> 0xE456"

section \<open>Presence vector bits\<close>

abbreviation (input) CONFIRM_EVENT_REQUEST_PV_PERIODIC_RATE_BIT :: int where
  "CONFIRM_EVENT_REQUEST_PV_PERIODIC_RATE_BIT \<equiv> 0"
abbreviation (input) JAUS_CAMERA_FORMAT_OPTIONS_PV_AUDIO_FORMAT_BIT :: int where
  "JAUS_CAMERA_FORMAT_OPTIONS_PV_AUDIO_FORMAT_BIT \<equiv> 0"
abbreviation (input) JAUS_CAMERA_FORMAT_OPTIONS_PV_FORMAT_OPTION_BIT :: int where
  "JAUS_CAMERA_FORMAT_OPTIONS_PV_FORMAT_OPTION_BIT \<equiv> 2"
abbreviation (input) JAUS_CAMERA_FORMAT_OPTIONS_PV_IMAGE_FORMAT_BIT :: int where
  "JAUS_CAMERA_FORMAT_OPTIONS_PV_IMAGE_FORMAT_BIT \<equiv> 1"
abbreviation (input) JAUS_LOCAL_PATH_SEGMENT_PV_P1_Z_BIT :: int where
  "JAUS_LOCAL_PATH_SEGMENT_PV_P1_Z_BIT \<equiv> 0"
abbreviation (input) JAUS_LOCAL_PATH_SEGMENT_PV_P2_Z_BIT :: int where
  "JAUS_LOCAL_PATH_SEGMENT_PV_P2_Z_BIT \<equiv> 1"
abbreviation (input) JAUS_LOCAL_WAYPOINT_PV_PITCH_BIT :: int where
  "JAUS_LOCAL_WAYPOINT_PV_PITCH_BIT \<equiv> 2"
abbreviation (input) JAUS_LOCAL_WAYPOINT_PV_ROLL_BIT :: int where
  "JAUS_LOCAL_WAYPOINT_PV_ROLL_BIT \<equiv> 1"
abbreviation (input) JAUS_LOCAL_WAYPOINT_PV_YAW_BIT :: int where
  "JAUS_LOCAL_WAYPOINT_PV_YAW_BIT \<equiv> 3"
abbreviation (input) JAUS_LOCAL_WAYPOINT_PV_Z_BIT :: int where
  "JAUS_LOCAL_WAYPOINT_PV_Z_BIT \<equiv> 0"
abbreviation (input) JAUS_OPERATIONAL_PV_BATTERY_BIT :: int where
  "JAUS_OPERATIONAL_PV_BATTERY_BIT \<equiv> 2"
abbreviation (input) JAUS_OPERATIONAL_PV_ENGINE_BIT :: int where
  "JAUS_OPERATIONAL_PV_ENGINE_BIT \<equiv> 0"
abbreviation (input) JAUS_OPERATIONAL_PV_FUEL_BIT :: int where
  "JAUS_OPERATIONAL_PV_FUEL_BIT \<equiv> 3"
abbreviation (input) JAUS_OPERATIONAL_PV_ODOMETER_BIT :: int where
  "JAUS_OPERATIONAL_PV_ODOMETER_BIT \<equiv> 1"
abbreviation (input) JAUS_OPERATIONAL_PV_OIL_BIT :: int where
  "JAUS_OPERATIONAL_PV_OIL_BIT \<equiv> 4"
abbreviation (input) JAUS_PATH_SEGMENT_PV_P1_ALTITUDE_BIT :: int where
  "JAUS_PATH_SEGMENT_PV_P1_ALTITUDE_BIT \<equiv> 0"
abbreviation (input) JAUS_PATH_SEGMENT_PV_P2_ALTITUDE_BIT :: int where
  "JAUS_PATH_SEGMENT_PV_P2_ALTITUDE_BIT \<equiv> 1"
abbreviation (input) JAUS_SIGNALS_PV_HEADLIGHTS_BIT :: int where
  "JAUS_SIGNALS_PV_HEADLIGHTS_BIT \<equiv> 2"
abbreviation (input) JAUS_SIGNALS_PV_HORN_BIT :: int where
  "JAUS_SIGNALS_PV_HORN_BIT \<equiv> 1"
abbreviation (input) JAUS_SIGNALS_PV_TURN_SIGNAL_BIT :: int where
  "JAUS_SIGNALS_PV_TURN_SIGNAL_BIT \<equiv> 0"
abbreviation (input) JAUS_VECTOR_PV_ALTITUDE_BIT :: int where
  "JAUS_VECTOR_PV_ALTITUDE_BIT \<equiv> 1"
abbreviation (input) JAUS_VECTOR_PV_HEADING_BIT :: int where
  "JAUS_VECTOR_PV_HEADING_BIT \<equiv> 2"
abbreviation (input) JAUS_VECTOR_PV_PITCH_BIT :: int where
  "JAUS_VECTOR_PV_PITCH_BIT \<equiv> 4"
abbreviation (input) JAUS_VECTOR_PV_ROLL_BIT :: int where
  "JAUS_VECTOR_PV_ROLL_BIT \<equiv> 3"
abbreviation (input) JAUS_VECTOR_PV_SPEED_BIT :: int where
  "JAUS_VECTOR_PV_SPEED_BIT \<equiv> 0"
abbreviation (input) JAUS_VELOCITY_PV_PITCH_RATE_BIT :: int where
  "JAUS_VELOCITY_PV_PITCH_RATE_BIT \<equiv> 5"
abbreviation (input) JAUS_VELOCITY_PV_RATE_RMS_BIT :: int where
  "JAUS_VELOCITY_PV_RATE_RMS_BIT \<equiv> 7"
abbreviation (input) JAUS_VELOCITY_PV_ROLL_RATE_BIT :: int where
  "JAUS_VELOCITY_PV_ROLL_RATE_BIT \<equiv> 4"
abbreviation (input) JAUS_VELOCITY_PV_TIME_STAMP_BIT :: int where
  "JAUS_VELOCITY_PV_TIME_STAMP_BIT \<equiv> 8"
abbreviation (input) JAUS_VELOCITY_PV_VELOCITY_RMS_BIT :: int where
  "JAUS_VELOCITY_PV_VELOCITY_RMS_BIT \<equiv> 3"
abbreviation (input) JAUS_VELOCITY_PV_VELOCITY_X_BIT :: int where
  "JAUS_VELOCITY_PV_VELOCITY_X_BIT \<equiv> 0"
abbreviation (input) JAUS_VELOCITY_PV_VELOCITY_Y_BIT :: int where
  "JAUS_VELOCITY_PV_VELOCITY_Y_BIT \<equiv> 1"
abbreviation (input) JAUS_VELOCITY_PV_VELOCITY_Z_BIT :: int where
  "JAUS_VELOCITY_PV_VELOCITY_Z_BIT \<equiv> 2"
abbreviation (input) JAUS_VELOCITY_PV_YAW_RATE_BIT :: int where
  "JAUS_VELOCITY_PV_YAW_RATE_BIT \<equiv> 6"
abbreviation (input) JAUS_WAYPOINT_PV_ELEVATION_BIT :: int where
  "JAUS_WAYPOINT_PV_ELEVATION_BIT \<equiv> 0"
abbreviation (input) JAUS_WAYPOINT_PV_PITCH_BIT :: int where
  "JAUS_WAYPOINT_PV_PITCH_BIT \<equiv> 2"
abbreviation (input) JAUS_WAYPOINT_PV_ROLL_BIT :: int where
  "JAUS_WAYPOINT_PV_ROLL_BIT \<equiv> 1"
abbreviation (input) JAUS_WAYPOINT_PV_YAW_BIT :: int where
  "JAUS_WAYPOINT_PV_YAW_BIT \<equiv> 3"
abbreviation (input) JAUS_WRENCH_PV_PROPULSIVE_LINEAR_X_BIT :: int where
  "JAUS_WRENCH_PV_PROPULSIVE_LINEAR_X_BIT \<equiv> 0"
abbreviation (input) JAUS_WRENCH_PV_PROPULSIVE_LINEAR_Y_BIT :: int where
  "JAUS_WRENCH_PV_PROPULSIVE_LINEAR_Y_BIT \<equiv> 1"
abbreviation (input) JAUS_WRENCH_PV_PROPULSIVE_LINEAR_Z_BIT :: int where
  "JAUS_WRENCH_PV_PROPULSIVE_LINEAR_Z_BIT \<equiv> 2"
abbreviation (input) JAUS_WRENCH_PV_PROPULSIVE_ROTATIONAL_X_BIT :: int where
  "JAUS_WRENCH_PV_PROPULSIVE_ROTATIONAL_X_BIT \<equiv> 3"
abbreviation (input) JAUS_WRENCH_PV_PROPULSIVE_ROTATIONAL_Y_BIT :: int where
  "JAUS_WRENCH_PV_PROPULSIVE_ROTATIONAL_Y_BIT \<equiv> 4"
abbreviation (input) JAUS_WRENCH_PV_PROPULSIVE_ROTATIONAL_Z_BIT :: int where
  "JAUS_WRENCH_PV_PROPULSIVE_ROTATIONAL_Z_BIT \<equiv> 5"
abbreviation (input) JAUS_WRENCH_PV_RESISTIVE_LINEAR_X_BIT :: int where
  "JAUS_WRENCH_PV_RESISTIVE_LINEAR_X_BIT \<equiv> 6"
abbreviation (input) JAUS_WRENCH_PV_RESISTIVE_LINEAR_Y_BIT :: int where
  "JAUS_WRENCH_PV_RESISTIVE_LINEAR_Y_BIT \<equiv> 7"
abbreviation (input) JAUS_WRENCH_PV_RESISTIVE_LINEAR_Z_BIT :: int where
  "JAUS_WRENCH_PV_RESISTIVE_LINEAR_Z_BIT \<equiv> 8"
abbreviation (input) JAUS_WRENCH_PV_RESISTIVE_ROTATIONAL_X_BIT :: int where
  "JAUS_WRENCH_PV_RESISTIVE_ROTATIONAL_X_BIT \<equiv> 9"
abbreviation (input) JAUS_WRENCH_PV_RESISTIVE_ROTATIONAL_Y_BIT :: int where
  "JAUS_WRENCH_PV_RESISTIVE_ROTATIONAL_Y_BIT \<equiv> 10"
abbreviation (input) JAUS_WRENCH_PV_RESISTIVE_ROTATIONAL_Z_BIT :: int where
  "JAUS_WRENCH_PV_RESISTIVE_ROTATIONAL_Z_BIT \<equiv> 11"

section \<open>Ranges and enumeration values\<close>

abbreviation (input) JAUS_PI :: real where "JAUS_PI \<equiv> 3.14159265358979323846"
abbreviation (input) JAUS_HALF_PI :: real where "JAUS_HALF_PI \<equiv> 1.570796326794897"
abbreviation (input) JAUS_BYTE_PRESENCE_VECTOR_ALL_ON :: u8 where "JAUS_BYTE_PRESENCE_VECTOR_ALL_ON \<equiv> 255"
abbreviation (input) JAUS_SHORT_PRESENCE_VECTOR_ALL_ON :: u16 where "JAUS_SHORT_PRESENCE_VECTOR_ALL_ON \<equiv> 65535"
abbreviation (input) JAUS_INTEGER_PRESENCE_VECTOR_ALL_ON :: u32 where
  "JAUS_INTEGER_PRESENCE_VECTOR_ALL_ON \<equiv> 4294967295"
abbreviation (input) JAUS_SC_SUCCESSFUL :: int where "JAUS_SC_SUCCESSFUL \<equiv> 0"
abbreviation (input) JAUS_SC_COMPONENT_NOT_CAPABLE :: int where "JAUS_SC_COMPONENT_NOT_CAPABLE \<equiv> 2"
abbreviation (input) JAUS_SC_CONNECTION_REFUSED :: int where "JAUS_SC_CONNECTION_REFUSED \<equiv> 4"
abbreviation (input) JAUS_SC_COMMAND_NOT_SUPPORTED :: int where "JAUS_SC_COMMAND_NOT_SUPPORTED \<equiv> 6"
abbreviation (input) JAUS_CONTROL_ACCEPTED :: int where "JAUS_CONTROL_ACCEPTED \<equiv> 0"
abbreviation (input) JAUS_UNDEFINED_STATE :: int where "JAUS_UNDEFINED_STATE \<equiv> - 1"
abbreviation (input) JAUS_INITIALIZE_STATE :: int where "JAUS_INITIALIZE_STATE \<equiv> 0"
abbreviation (input) JAUS_READY_STATE :: int where "JAUS_READY_STATE \<equiv> 1"
abbreviation (input) JAUS_STANDBY_STATE :: int where "JAUS_STANDBY_STATE \<equiv> 2"
abbreviation (input) JAUS_SHUTDOWN_STATE :: int where "JAUS_SHUTDOWN_STATE \<equiv> 3"
abbreviation (input) JAUS_FAILURE_STATE :: int where "JAUS_FAILURE_STATE \<equiv> 4"
abbreviation (input) JAUS_EMERGENCY_STATE :: int where "JAUS_EMERGENCY_STATE \<equiv> 5"
abbreviation (input) JAUS_DATA_LINK_ON :: int where "JAUS_DATA_LINK_ON \<equiv> 1"
abbreviation (input) UnusedAudioFormat :: int where "UnusedAudioFormat \<equiv> 0"
abbreviation (input) UnusedImageFormat :: int where "UnusedImageFormat \<equiv> 0"

end
