(* ===== verification/CommandCodes.thy ===== *)
theory CommandCodes
  imports MessageCodes
begin

text \<open>
  The three routines of \<open>openjaus/src/libjaus/message/jausMessage.c\<close> that switch over the
  command codes. A \<open>switch\<close> whose cases
  only return constants is an association list in the order of the cases.
\<close>

section \<open>Commands a component rejects from a source that does not control it\<close>

definition rejectableCommands :: "u16 list" where
  "rejectableCommands =
    [
     JAUS_SET_COMPONENT_AUTHORITY, JAUS_SHUTDOWN, JAUS_STANDBY, JAUS_RESUME, JAUS_RESET,
     JAUS_SET_EMERGENCY, JAUS_CLEAR_EMERGENCY, JAUS_SET_TIME, JAUS_RELEASE_COMPONENT_CONTROL,
     JAUS_SET_WRENCH_EFFORT, JAUS_SET_DISCRETE_DEVICES, JAUS_SET_GLOBAL_VECTOR,
     JAUS_SET_LOCAL_VECTOR, JAUS_SET_TRAVEL_SPEED, JAUS_SET_GLOBAL_WAYPOINT,
     JAUS_SET_LOCAL_WAYPOINT, JAUS_SET_GLOBAL_PATH_SEGMENT, JAUS_SET_LOCAL_PATH_SEGMENT,
     JAUS_SET_JOINT_EFFORTS, JAUS_SET_JOINT_POSITIONS, JAUS_SET_JOINT_VELOCITIES,
     JAUS_SET_TOOL_POINT, JAUS_SET_END_EFFECTOR_POSE, JAUS_SET_END_EFFECTOR_VELOCITY_STATE,
     JAUS_SET_JOINT_MOTION, JAUS_SET_END_EFFECTOR_PATH_MOTION, JAUS_SET_CAMERA_POSE,
     JAUS_SELECT_CAMERA, JAUS_SET_CAMERA_CAPABILITIES, JAUS_SET_CAMERA_FORMAT_OPTIONS]"

definition isRejectableCode :: "u16 \<Rightarrow> bool" where
  "isRejectableCode code = (code \<in> set rejectableCommands)"

section \<open>Query and report codes\<close>

text \<open>The first half of the switch maps a query to its report, the second half back.\<close>

definition queryToReport :: "(u16 \<times> u16) list" where
  "queryToReport =
    [
     (JAUS_QUERY_COMPONENT_AUTHORITY, JAUS_REPORT_COMPONENT_AUTHORITY),
     (JAUS_QUERY_COMPONENT_STATUS, JAUS_REPORT_COMPONENT_STATUS),
     (JAUS_QUERY_TIME, JAUS_REPORT_TIME), (JAUS_QUERY_EVENTS, JAUS_REPORT_EVENTS),
     (JAUS_QUERY_DATA_LINK_STATUS, JAUS_REPORT_DATA_LINK_STATUS),
     (JAUS_QUERY_SELECTED_DATA_LINK_STATUS, JAUS_REPORT_SELECTED_DATA_LINK_STATUS),
     (JAUS_QUERY_HEARTBEAT_PULSE, JAUS_REPORT_HEARTBEAT_PULSE),
     (JAUS_QUERY_PLATFORM_SPECIFICATIONS, JAUS_REPORT_PLATFORM_SPECIFICATIONS),
     (JAUS_QUERY_PLATFORM_OPERATIONAL_DATA, JAUS_REPORT_PLATFORM_OPERATIONAL_DATA),
     (JAUS_QUERY_GLOBAL_POSE, JAUS_REPORT_GLOBAL_POSE),
     (JAUS_QUERY_LOCAL_POSE, JAUS_REPORT_LOCAL_POSE),
     (JAUS_QUERY_VELOCITY_STATE, JAUS_REPORT_VELOCITY_STATE),
     (JAUS_QUERY_WRENCH_EFFORT, JAUS_REPORT_WRENCH_EFFORT),
     (JAUS_QUERY_DISCRETE_DEVICES, JAUS_REPORT_DISCRETE_DEVICES),
     (JAUS_QUERY_GLOBAL_VECTOR, JAUS_REPORT_GLOBAL_VECTOR),
     (JAUS_QUERY_LOCAL_VECTOR, JAUS_REPORT_LOCAL_VECTOR),
     (JAUS_QUERY_TRAVEL_SPEED, JAUS_REPORT_TRAVEL_SPEED),
     (JAUS_QUERY_WAYPOINT_COUNT, JAUS_REPORT_WAYPOINT_COUNT),
     (JAUS_QUERY_GLOBAL_WAYPOINT, JAUS_REPORT_GLOBAL_WAYPOINT),
     (JAUS_QUERY_LOCAL_WAYPOINT, JAUS_REPORT_LOCAL_WAYPOINT),
     (JAUS_QUERY_PATH_SEGMENT_COUNT, JAUS_REPORT_PATH_SEGMENT_COUNT),
     (JAUS_QUERY_GLOBAL_PATH_SEGMENT, JAUS_REPORT_GLOBAL_PATH_SEGMENT),
     (JAUS_QUERY_LOCAL_PATH_SEGMENT, JAUS_REPORT_LOCAL_PATH_SEGMENT),
     (JAUS_QUERY_MANIPULATOR_SPECIFICATIONS, JAUS_REPORT_MANIPULATOR_SPECIFICATIONS),
     (JAUS_QUERY_JOINT_EFFORTS, JAUS_REPORT_JOINT_EFFORTS),
     (JAUS_QUERY_JOINT_POSITIONS, JAUS_REPORT_JOINT_POSITIONS),
     (JAUS_QUERY_JOINT_VELOCITIES, JAUS_REPORT_JOINT_VELOCITIES),
     (JAUS_QUERY_TOOL_POINT, JAUS_REPORT_TOOL_POINT),
     (JAUS_QUERY_JOINT_FORCE_TORQUES, JAUS_REPORT_JOINT_FORCE_TORQUES),
     (JAUS_QUERY_CAMERA_POSE, JAUS_REPORT_CAMERA_POSE),
     (JAUS_QUERY_CAMERA_COUNT, JAUS_REPORT_CAMERA_COUNT),
     (JAUS_QUERY_RELATIVE_OBJECT_POSITION, JAUS_REPORT_RELATIVE_OBJECT_POSITION),
     (JAUS_QUERY_SELECTED_CAMERA, JAUS_REPORT_SELECTED_CAMERA),
     (JAUS_QUERY_CAMERA_CAPABILITIES, JAUS_REPORT_CAMERA_CAPABILITIES),
     (JAUS_QUERY_CAMERA_FORMAT_OPTIONS, JAUS_REPORT_CAMERA_FORMAT_OPTIONS),
     (JAUS_QUERY_IMAGE, JAUS_REPORT_IMAGE),
     (JAUS_QUERY_PAYLOAD_DATA_ELEMENT, JAUS_REPORT_PAYLOAD_DATA_ELEMENT),
     (JAUS_QUERY_PAYLOAD_INTERFACE, JAUS_REPORT_PAYLOAD_INTERFACE),
     (JAUS_QUERY_SERVICES, JAUS_REPORT_SERVICES),
     (JAUS_QUERY_IDENTIFICATION, JAUS_REPORT_IDENTIFICATION),
     (JAUS_QUERY_CONFIGURATION, JAUS_REPORT_CONFIGURATION),
     (JAUS_QUERY_VKS_BOUNDS, JAUS_REPORT_VKS_BOUNDS),
     (JAUS_QUERY_VKS_FEATURE_CLASS_METADATA, JAUS_REPORT_VKS_FEATURE_CLASS_METADATA),
     (JAUS_QUERY_VKS_OBJECTS, JAUS_REPORT_VKS_OBJECTS),
     (JAUS_QUERY_MISSION_STATUS, JAUS_REPORT_MISSION_STATUS),
     (JAUS_QUERY_SPOOLING_PREFERENCE, JAUS_REPORT_SPOOLING_PREFERENCE)]"

definition reportToQuery :: "(u16 \<times> u16) list" where
  "reportToQuery =
    [
     (JAUS_REPORT_COMPONENT_AUTHORITY, JAUS_QUERY_COMPONENT_AUTHORITY),
     (JAUS_REPORT_COMPONENT_STATUS, JAUS_QUERY_COMPONENT_STATUS),
     (JAUS_REPORT_TIME, JAUS_QUERY_TIME), (JAUS_REPORT_EVENTS, JAUS_QUERY_EVENTS),
     (JAUS_REPORT_DATA_LINK_STATUS, JAUS_QUERY_DATA_LINK_STATUS),
     (JAUS_REPORT_SELECTED_DATA_LINK_STATUS, JAUS_QUERY_SELECTED_DATA_LINK_STATUS),
     (JAUS_REPORT_HEARTBEAT_PULSE, JAUS_QUERY_HEARTBEAT_PULSE),
     (JAUS_REPORT_PLATFORM_SPECIFICATIONS, JAUS_QUERY_PLATFORM_SPECIFICATIONS),
     (JAUS_REPORT_PLATFORM_OPERATIONAL_DATA, JAUS_QUERY_PLATFORM_OPERATIONAL_DATA),
     (JAUS_REPORT_GLOBAL_POSE, JAUS_QUERY_GLOBAL_POSE),
     (JAUS_REPORT_LOCAL_POSE, JAUS_QUERY_LOCAL_POSE),
     (JAUS_REPORT_VELOCITY_STATE, JAUS_QUERY_VELOCITY_STATE),
     (JAUS_REPORT_WRENCH_EFFORT, JAUS_QUERY_WRENCH_EFFORT),
     (JAUS_REPORT_DISCRETE_DEVICES, JAUS_QUERY_DISCRETE_DEVICES),
     (JAUS_REPORT_GLOBAL_VECTOR, JAUS_QUERY_GLOBAL_VECTOR),
     (JAUS_REPORT_LOCAL_VECTOR, JAUS_QUERY_LOCAL_VECTOR),
     (JAUS_REPORT_TRAVEL_SPEED, JAUS_QUERY_TRAVEL_SPEED),
     (JAUS_REPORT_WAYPOINT_COUNT, JAUS_QUERY_WAYPOINT_COUNT),
     (JAUS_REPORT_GLOBAL_WAYPOINT, JAUS_QUERY_GLOBAL_WAYPOINT),
     (JAUS_REPORT_LOCAL_WAYPOINT, JAUS_QUERY_LOCAL_WAYPOINT),
     (JAUS_REPORT_PATH_SEGMENT_COUNT, JAUS_QUERY_PATH_SEGMENT_COUNT),
     (JAUS_REPORT_GLOBAL_PATH_SEGMENT, JAUS_QUERY_GLOBAL_PATH_SEGMENT),
     (JAUS_REPORT_LOCAL_PATH_SEGMENT, JAUS_QUERY_LOCAL_PATH_SEGMENT),
     (JAUS_REPORT_MANIPULATOR_SPECIFICATIONS, JAUS_QUERY_MANIPULATOR_SPECIFICATIONS),
     (JAUS_REPORT_JOINT_EFFORTS, JAUS_QUERY_JOINT_EFFORTS),
     (JAUS_REPORT_JOINT_POSITIONS, JAUS_QUERY_JOINT_POSITIONS),
     (JAUS_REPORT_JOINT_VELOCITIES, JAUS_QUERY_JOINT_VELOCITIES),
     (JAUS_REPORT_TOOL_POINT, JAUS_QUERY_TOOL_POINT),
     (JAUS_REPORT_JOINT_FORCE_TORQUES, JAUS_QUERY_JOINT_FORCE_TORQUES),
     (JAUS_REPORT_CAMERA_POSE, JAUS_QUERY_CAMERA_POSE),
     (JAUS_REPORT_CAMERA_COUNT, JAUS_QUERY_CAMERA_COUNT),
     (JAUS_REPORT_RELATIVE_OBJECT_POSITION, JAUS_QUERY_RELATIVE_OBJECT_POSITION),
     (JAUS_REPORT_SELECTED_CAMERA, JAUS_QUERY_SELECTED_CAMERA),
     (JAUS_REPORT_CAMERA_CAPABILITIES, JAUS_QUERY_CAMERA_CAPABILITIES),
     (JAUS_REPORT_CAMERA_FORMAT_OPTIONS, JAUS_QUERY_CAMERA_FORMAT_OPTIONS),
     (JAUS_REPORT_IMAGE, JAUS_QUERY_IMAGE),
     (JAUS_REPORT_IDENTIFICATION, JAUS_QUERY_IDENTIFICATION),
     (JAUS_REPORT_CONFIGURATION, JAUS_QUERY_CONFIGURATION),
     (JAUS_REPORT_PAYLOAD_DATA_ELEMENT, JAUS_QUERY_PAYLOAD_DATA_ELEMENT),
     (JAUS_REPORT_PAYLOAD_INTERFACE, JAUS_QUERY_PAYLOAD_INTERFACE),
     (JAUS_REPORT_SERVICES, JAUS_QUERY_SERVICES),
     (JAUS_REPORT_VKS_BOUNDS, JAUS_QUERY_VKS_BOUNDS),
     (JAUS_REPORT_VKS_FEATURE_CLASS_METADATA, JAUS_QUERY_VKS_FEATURE_CLASS_METADATA),
     (JAUS_REPORT_VKS_OBJECTS, JAUS_QUERY_VKS_OBJECTS),
     (JAUS_REPORT_MISSION_STATUS, JAUS_QUERY_MISSION_STATUS),
     (JAUS_REPORT_SPOOLING_PREFERENCE, JAUS_QUERY_SPOOLING_PREFERENCE)]"

definition jausMessageGetComplementaryCommandCode :: "u16 \<Rightarrow> u16" where
  "jausMessageGetComplementaryCommandCode code =
     (case map_of (queryToReport @ reportToQuery) code of None \<Rightarrow> 0 | Some c \<Rightarrow> c)"

section \<open>Names\<close>

text \<open>
  The cases of \<open>jausCommandCodeString\<close> in two halves, and the default that prints the
  number with \<open>sprintf\<close>'s \<open>%04X\<close>.
\<close>

definition commandCodeNames1 :: "(u16 \<times> string) list" where
  "commandCodeNames1 =
    [
     (JAUS_SET_COMPONENT_AUTHORITY, ''JAUS_SET_COMPONENT_AUTHORITY''),
     (JAUS_SHUTDOWN, ''JAUS_SHUTDOWN''), (JAUS_STANDBY, ''JAUS_STANDBY''),
     (JAUS_RESUME, ''JAUS_RESUME''), (JAUS_RESET, ''JAUS_RESET''),
     (JAUS_SET_EMERGENCY, ''JAUS_SET_EMERGENCY''),
     (JAUS_CLEAR_EMERGENCY, ''JAUS_CLEAR_EMERGENCY''),
     (JAUS_CREATE_SERVICE_CONNECTION, ''JAUS_CREATE_SERVICE_CONNECTION''),
     (JAUS_CONFIRM_SERVICE_CONNECTION, ''JAUS_CONFIRM_SERVICE_CONNECTION''),
     (JAUS_ACTIVATE_SERVICE_CONNECTION, ''JAUS_ACTIVATE_SERVICE_CONNECTION''),
     (JAUS_SUSPEND_SERVICE_CONNECTION, ''JAUS_SUSPEND_SERVICE_CONNECTION''),
     (JAUS_TERMINATE_SERVICE_CONNECTION, ''JAUS_TERMINATE_SERVICE_CONNECTION''),
     (JAUS_REQUEST_COMPONENT_CONTROL, ''JAUS_REQUEST_COMPONENT_CONTROL''),
     (JAUS_RELEASE_COMPONENT_CONTROL, ''JAUS_RELEASE_COMPONENT_CONTROL''),
     (JAUS_CONFIRM_COMPONENT_CONTROL, ''JAUS_CONFIRM_COMPONENT_CONTROL''),
     (JAUS_REJECT_COMPONENT_CONTROL, ''JAUS_REJECT_COMPONENT_CONTROL''),
     (JAUS_SET_TIME, ''JAUS_SET_TIME''), (JAUS_CREATE_EVENT, ''JAUS_CREATE_EVENT''),
     (JAUS_UPDATE_EVENT, ''JAUS_UPDATE_EVENT''), (JAUS_CANCEL_EVENT, ''JAUS_CANCEL_EVENT''),
     (JAUS_CONFIRM_EVENT_REQUEST, ''JAUS_CONFIRM_EVENT_REQUEST''),
     (JAUS_REJECT_EVENT_REQUEST, ''JAUS_REJECT_EVENT_REQUEST''),
     (JAUS_SET_DATA_LINK_STATUS, ''JAUS_SET_DATA_LINK_STATUS''),
     (JAUS_SET_DATA_LINK_SELECT, ''JAUS_SET_DATA_LINK_SELECT''),
     (JAUS_SET_SELECTED_DATA_LINK_STATE, ''JAUS_SET_SELECTED_DATA_LINK_STATE''),
     (JAUS_SET_WRENCH_EFFORT, ''JAUS_SET_WRENCH_EFFORT''),
     (JAUS_SET_DISCRETE_DEVICES, ''JAUS_SET_DISCRETE_DEVICES''),
     (JAUS_SET_GLOBAL_VECTOR, ''JAUS_SET_GLOBAL_VECTOR''),
     (JAUS_SET_LOCAL_VECTOR, ''JAUS_SET_LOCAL_VECTOR''),
     (JAUS_SET_TRAVEL_SPEED, ''JAUS_SET_TRAVEL_SPEED''),
     (JAUS_SET_GLOBAL_WAYPOINT, ''JAUS_SET_GLOBAL_WAYPOINT''),
     (JAUS_SET_LOCAL_WAYPOINT, ''JAUS_SET_LOCAL_WAYPOINT''),
     (JAUS_SET_GLOBAL_PATH_SEGMENT, ''JAUS_SET_GLOBAL_PATH_SEGMENT''),
     (JAUS_SET_LOCAL_PATH_SEGMENT, ''JAUS_SET_LOCAL_PATH_SEGMENT''),
     (JAUS_SET_VELOCITY_STATE, ''JAUS_SET_VELOCITY_STATE''),
     (JAUS_SET_JOINT_EFFORTS, ''JAUS_SET_JOINT_EFFORTS''),
     (JAUS_SET_JOINT_POSITIONS, ''JAUS_SET_JOINT_POSITIONS''),
     (JAUS_SET_JOINT_VELOCITIES, ''JAUS_SET_JOINT_VELOCITIES''),
     (JAUS_SET_TOOL_POINT, ''JAUS_SET_TOOL_POINT''),
     (JAUS_SET_END_EFFECTOR_POSE, ''JAUS_SET_END_EFFECTOR_POSE''),
     (JAUS_SET_END_EFFECTOR_VELOCITY_STATE, ''JAUS_SET_END_EFFECTOR_VELOCITY_STATE''),
     (JAUS_SET_JOINT_MOTION, ''JAUS_SET_JOINT_MOTION''),
     (JAUS_SET_END_EFFECTOR_PATH_MOTION, ''JAUS_SET_END_EFFECTOR_PATH_MOTION''),
     (JAUS_SET_CAMERA_POSE, ''JAUS_SET_CAMERA_POSE''),
     (JAUS_SELECT_CAMERA, ''JAUS_SELECT_CAMERA''),
     (JAUS_SET_CAMERA_CAPABILITIES, ''JAUS_SET_CAMERA_CAPABILITIES''),
     (JAUS_SET_CAMERA_FORMAT_OPTIONS, ''JAUS_SET_CAMERA_FORMAT_OPTIONS''),
     (JAUS_SPOOL_MISSION, ''JAUS_SPOOL_MISSION''), (JAUS_RUN_MISSION, ''JAUS_RUN_MISSION''),
     (JAUS_ABORT_MISSION, ''JAUS_ABORT_MISSION''), (JAUS_PAUSE_MISSION, ''JAUS_PAUSE_MISSION''),
     (JAUS_RESUME_MISSION, ''JAUS_RESUME_MISSION''),
     (JAUS_REMOVE_MESSAGES, ''JAUS_REMOVE_MESSAGES''),
     (JAUS_REPLACE_MESSAGES, ''JAUS_REPLACE_MESSAGES''),
     (JAUS_QUERY_COMPONENT_AUTHORITY, ''JAUS_QUERY_COMPONENT_AUTHORITY''),
     (JAUS_QUERY_COMPONENT_STATUS, ''JAUS_QUERY_COMPONENT_STATUS''),
     (JAUS_QUERY_TIME, ''JAUS_QUERY_TIME''), (JAUS_QUERY_EVENTS, ''JAUS_QUERY_EVENTS''),
     (JAUS_QUERY_DATA_LINK_STATUS, ''JAUS_QUERY_DATA_LINK_STATUS''),
     (JAUS_QUERY_SELECTED_DATA_LINK_STATUS, ''JAUS_QUERY_SELECTED_DATA_LINK_STATUS''),
     (JAUS_QUERY_HEARTBEAT_PULSE, ''JAUS_QUERY_HEARTBEAT_PULSE''),
     (JAUS_QUERY_PLATFORM_SPECIFICATIONS, ''JAUS_QUERY_PLATFORM_SPECIFICATIONS''),
     (JAUS_QUERY_PLATFORM_OPERATIONAL_DATA, ''JAUS_QUERY_PLATFORM_OPERATIONAL_DATA''),
     (JAUS_QUERY_GLOBAL_POSE, ''JAUS_QUERY_GLOBAL_POSE''),
     (JAUS_QUERY_LOCAL_POSE, ''JAUS_QUERY_LOCAL_POSE''),
     (JAUS_QUERY_VELOCITY_STATE, ''JAUS_QUERY_VELOCITY_STATE''),
     (JAUS_QUERY_WRENCH_EFFORT, ''JAUS_QUERY_WRENCH_EFFORT''),
     (JAUS_QUERY_DISCRETE_DEVICES, ''JAUS_QUERY_DISCRETE_DEVICES''),
     (JAUS_QUERY_GLOBAL_VECTOR, ''JAUS_QUERY_GLOBAL_VECTOR''),
     (JAUS_QUERY_LOCAL_VECTOR, ''JAUS_QUERY_LOCAL_VECTOR''),
     (JAUS_QUERY_TRAVEL_SPEED, ''JAUS_QUERY_TRAVEL_SPEED''),
     (JAUS_QUERY_WAYPOINT_COUNT, ''JAUS_QUERY_WAYPOINT_COUNT''),
     (JAUS_QUERY_GLOBAL_WAYPOINT, ''JAUS_QUERY_GLOBAL_WAYPOINT''),
     (JAUS_QUERY_LOCAL_WAYPOINT, ''JAUS_QUERY_LOCAL_WAYPOINT''),
     (JAUS_QUERY_PATH_SEGMENT_COUNT, ''JAUS_QUERY_PATH_SEGMENT_COUNT''),
     (JAUS_QUERY_GLOBAL_PATH_SEGMENT, ''JAUS_QUERY_GLOBAL_PATH_SEGMENT''),
     (JAUS_QUERY_LOCAL_PATH_SEGMENT, ''JAUS_QUERY_LOCAL_PATH_SEGMENT''),
     (JAUS_QUERY_MANIPULATOR_SPECIFICATIONS, ''JAUS_QUERY_MANIPULATOR_SPECIFICATIONS''),
     (JAUS_QUERY_JOINT_EFFORTS, ''JAUS_QUERY_JOINT_EFFORTS'')]"

definition commandCodeNames2 :: "(u16 \<times> string) list" where
  "commandCodeNames2 =
    [
     (JAUS_QUERY_JOINT_POSITIONS, ''JAUS_QUERY_JOINT_POSITIONS''),
     (JAUS_QUERY_JOINT_VELOCITIES, ''JAUS_QUERY_JOINT_VELOCITIES''),
     (JAUS_QUERY_TOOL_POINT, ''JAUS_QUERY_TOOL_POINT''),
     (JAUS_QUERY_JOINT_FORCE_TORQUES, ''JAUS_QUERY_JOINT_FORCE_TORQUES''),
     (JAUS_QUERY_CAMERA_POSE, ''JAUS_QUERY_CAMERA_POSE''),
     (JAUS_QUERY_CAMERA_COUNT, ''JAUS_QUERY_CAMERA_COUNT''),
     (JAUS_QUERY_RELATIVE_OBJECT_POSITION, ''JAUS_QUERY_RELATIVE_OBJECT_POSITION''),
     (JAUS_QUERY_SELECTED_CAMERA, ''JAUS_QUERY_SELECTED_CAMERA''),
     (JAUS_QUERY_CAMERA_CAPABILITIES, ''JAUS_QUERY_CAMERA_CAPABILITIES''),
     (JAUS_QUERY_CAMERA_FORMAT_OPTIONS, ''JAUS_QUERY_CAMERA_FORMAT_OPTIONS''),
     (JAUS_QUERY_IMAGE, ''JAUS_QUERY_IMAGE''),
     (JAUS_QUERY_COMPONENT_CONTROL, ''JAUS_QUERY_COMPONENT_CONTROL''),
     (JAUS_QUERY_MISSION_STATUS, ''JAUS_QUERY_MISSION_STATUS''),
     (JAUS_QUERY_SPOOLING_PREFERENCE, ''JAUS_QUERY_SPOOLING_PREFERENCE''),
     (JAUS_REPORT_COMPONENT_AUTHORITY, ''JAUS_REPORT_COMPONENT_AUTHORITY''),
     (JAUS_REPORT_COMPONENT_STATUS, ''JAUS_REPORT_COMPONENT_STATUS''),
     (JAUS_REPORT_TIME, ''JAUS_REPORT_TIME''), (JAUS_REPORT_EVENTS, ''JAUS_REPORT_EVENTS''),
     (JAUS_EVENT, ''JAUS_EVENT''),
     (JAUS_REPORT_DATA_LINK_STATUS, ''JAUS_REPORT_DATA_LINK_STATUS''),
     (JAUS_REPORT_SELECTED_DATA_LINK_STATUS, ''JAUS_REPORT_SELECTED_DATA_LINK_STATUS''),
     (JAUS_REPORT_HEARTBEAT_PULSE, ''JAUS_REPORT_HEARTBEAT_PULSE''),
     (JAUS_REPORT_PLATFORM_SPECIFICATIONS, ''JAUS_REPORT_PLATFORM_SPECIFICATIONS''),
     (JAUS_REPORT_PLATFORM_OPERATIONAL_DATA, ''JAUS_REPORT_PLATFORM_OPERATIONAL_DATA''),
     (JAUS_REPORT_GLOBAL_POSE, ''JAUS_REPORT_GLOBAL_POSE''),
     (JAUS_REPORT_LOCAL_POSE, ''JAUS_REPORT_LOCAL_POSE''),
     (JAUS_REPORT_VELOCITY_STATE, ''JAUS_REPORT_VELOCITY_STATE''),
     (JAUS_REPORT_WRENCH_EFFORT, ''JAUS_REPORT_WRENCH_EFFORT''),
     (JAUS_REPORT_DISCRETE_DEVICES, ''JAUS_REPORT_DISCRETE_DEVICES''),
     (JAUS_REPORT_GLOBAL_VECTOR, ''JAUS_REPORT_GLOBAL_VECTOR''),
     (JAUS_REPORT_LOCAL_VECTOR, ''JAUS_REPORT_LOCAL_VECTOR''),
     (JAUS_REPORT_TRAVEL_SPEED, ''JAUS_REPORT_TRAVEL_SPEED''),
     (JAUS_REPORT_WAYPOINT_COUNT, ''JAUS_REPORT_WAYPOINT_COUNT''),
     (JAUS_REPORT_GLOBAL_WAYPOINT, ''JAUS_REPORT_GLOBAL_WAYPOINT''),
     (JAUS_REPORT_LOCAL_WAYPOINT, ''JAUS_REPORT_LOCAL_WAYPOINT''),
     (JAUS_REPORT_PATH_SEGMENT_COUNT, ''JAUS_REPORT_PATH_SEGMENT_COUNT''),
     (JAUS_REPORT_GLOBAL_PATH_SEGMENT, ''JAUS_REPORT_GLOBAL_PATH_SEGMENT''),
     (JAUS_REPORT_LOCAL_PATH_SEGMENT, ''JAUS_REPORT_LOCAL_PATH_SEGMENT''),
     (JAUS_REPORT_MANIPULATOR_SPECIFICATIONS, ''JAUS_REPORT_MANIPULATOR_SPECIFICATIONS''),
     (JAUS_REPORT_JOINT_EFFORTS, ''JAUS_REPORT_JOINT_EFFORTS''),
     (JAUS_REPORT_JOINT_POSITIONS, ''JAUS_REPORT_JOINT_POSITIONS''),
     (JAUS_REPORT_JOINT_VELOCITIES, ''JAUS_REPORT_JOINT_VELOCITIES''),
     (JAUS_REPORT_TOOL_POINT, ''JAUS_REPORT_TOOL_POINT''),
     (JAUS_REPORT_JOINT_FORCE_TORQUES, ''JAUS_REPORT_JOINT_FORCE_TORQUES''),
     (JAUS_REPORT_CAMERA_POSE, ''JAUS_REPORT_CAMERA_POSE''),
     (JAUS_REPORT_CAMERA_COUNT, ''JAUS_REPORT_CAMERA_COUNT''),
     (JAUS_REPORT_RELATIVE_OBJECT_POSITION, ''JAUS_REPORT_RELATIVE_OBJECT_POSITION''),
     (JAUS_REPORT_SELECTED_CAMERA, ''JAUS_REPORT_SELECTED_CAMERA''),
     (JAUS_REPORT_CAMERA_CAPABILITIES, ''JAUS_REPORT_CAMERA_CAPABILITIES''),
     (JAUS_REPORT_CAMERA_FORMAT_OPTIONS, ''JAUS_REPORT_CAMERA_FORMAT_OPTIONS''),
     (JAUS_REPORT_IMAGE, ''JAUS_REPORT_IMAGE''),
     (JAUS_QUERY_IDENTIFICATION, ''JAUS_QUERY_IDENTIFICATION''),
     (JAUS_REPORT_IDENTIFICATION, ''JAUS_REPORT_IDENTIFICATION''),
     (JAUS_QUERY_CONFIGURATION, ''JAUS_QUERY_CONFIGURATION''),
     (JAUS_REPORT_CONFIGURATION, ''JAUS_REPORT_CONFIGURATION''),
     (JAUS_QUERY_SUBSYSTEM_LIST, ''JAUS_QUERY_SUBSYSTEM_LIST''),
     (JAUS_REPORT_SUBSYSTEM_LIST, ''JAUS_REPORT_SUBSYSTEM_LIST''),
     (JAUS_QUERY_PAYLOAD_DATA_ELEMENT, ''JAUS_QUERY_PAYLOAD_DATA_ELEMENT''),
     (JAUS_QUERY_PAYLOAD_INTERFACE, ''JAUS_QUERY_PAYLOAD_INTERFACE''),
     (JAUS_QUERY_SERVICES, ''JAUS_QUERY_SERVICES''),
     (JAUS_REPORT_PAYLOAD_DATA_ELEMENT, ''JAUS_REPORT_PAYLOAD_DATA_ELEMENT''),
     (JAUS_REPORT_PAYLOAD_INTERFACE, ''JAUS_REPORT_PAYLOAD_INTERFACE''),
     (JAUS_REPORT_SERVICES, ''JAUS_REPORT_SERVICES''),
     (JAUS_REPORT_COMPONENT_CONTROL, ''JAUS_REPORT_COMPONENT_CONTROL''),
     (JAUS_SET_PAYLOAD_DATA_ELEMENT, ''JAUS_SET_PAYLOAD_DATA_ELEMENT''),
     (JAUS_CREATE_VKS_OBJECTS, ''JAUS_CREATE_VKS_OBJECTS''),
     (JAUS_DELETE_VKS_OBJECTS, ''JAUS_DELETE_VKS_OBJECTS''),
     (JAUS_QUERY_VKS_BOUNDS, ''JAUS_QUERY_VKS_BOUNDS''),
     (JAUS_QUERY_VKS_FEATURE_CLASS_METADATA, ''JAUS_QUERY_VKS_FEATURE_CLASS_METADATA''),
     (JAUS_QUERY_VKS_OBJECTS, ''JAUS_QUERY_VKS_OBJECTS''),
     (JAUS_REPORT_VKS_BOUNDS, ''JAUS_REPORT_VKS_BOUNDS''),
     (JAUS_REPORT_VKS_FEATURE_CLASS_METADATA, ''JAUS_REPORT_VKS_FEATURE_CLASS_METADATA''),
     (JAUS_REPORT_VKS_OBJECTS_CREATION, ''JAUS_REPORT_VKS_OBJECTS_CREATION''),
     (JAUS_REPORT_VKS_OBJECTS, ''JAUS_REPORT_VKS_OBJECTS''),
     (JAUS_REPORT_VKS_DATA_TRANSFER_TERMINATION, ''JAUS_REPORT_VKS_DATA_TRANSFER_TERMINATION''),
     (JAUS_REPORT_SPOOLING_PREFERENCE, ''JAUS_REPORT_SPOOLING_PREFERENCE''),
     (JAUS_REPORT_MISSION_STATUS, ''JAUS_REPORT_MISSION_STATUS''),
     (JAUS_SET_VKS_FEATURE_CLASS_METADATA, ''JAUS_SET_VKS_FEATURE_CLASS_METADATA''),
     (JAUS_TERMINATE_VKS_DATA_TRANSFER, ''JAUS_TERMINATE_VKS_DATA_TRANSFER'')]"

definition hexDigit :: "nat \<Rightarrow> char" where
  "hexDigit d = ''0123456789ABCDEF'' ! d"

definition hex04 :: "u16 \<Rightarrow> string" where
  "hex04 v = map (\<lambda>i. hexDigit (unat (drop_bit i v AND 0xF))) [12, 8, 4, 0]"

definition jausCommandCodeString :: "u16 \<Rightarrow> string" where
  "jausCommandCodeString code =
     (case map_of (commandCodeNames1 @ commandCodeNames2) code of
        None \<Rightarrow> ''UNDEFINED MESSAGE: 0x'' @ hex04 code
      | Some s \<Rightarrow> s)"

section \<open>The query/report correspondence\<close>

lemma map_of_swap:
  assumes "distinct (map fst (ps @ rs))" "set rs = prod.swap ` set ps"
    and "map_of (ps @ rs) c = Some d"
  shows "map_of (ps @ rs) d = Some c"
proof -
  have iff: "map_of (ps @ rs) a = Some b \<longleftrightarrow> (a, b) \<in> set (ps @ rs)" for a b
    using assms(1) by (rule map_of_eq_Some_iff)
  from assms(3) have "(c, d) \<in> set (ps @ rs)" by (simp only: iff)
  then have "(d, c) \<in> set (ps @ rs)" using assms(2) by auto
  then show ?thesis by (simp only: iff)
qed

lemma reportToQuery_swap: "set reportToQuery = prod.swap ` set queryToReport"
proof -
  have "list_all (\<lambda>p. List.member (map prod.swap queryToReport) p) reportToQuery"
    by (simp add: reportToQuery_def queryToReport_def)
  moreover have "list_all (\<lambda>p. List.member reportToQuery (prod.swap p)) queryToReport"
    by (simp add: reportToQuery_def queryToReport_def)
  ultimately show ?thesis by (auto simp: list_all_iff)
qed

lemma complementary_distinct: "distinct (map fst (queryToReport @ reportToQuery))"
  by (simp add: queryToReport_def reportToQuery_def)

lemma queryToReport_offset: "(q, r) \<in> set queryToReport \<Longrightarrow> r = q + 0x2000 \<and> q \<noteq> 0"
  by (simp add: queryToReport_def) (elim disjE; simp)

text \<open>
  The complementary command code pairs queries and reports: where it is defined it is its own
  inverse, and the code of a report is the code of its query with bit 13 added.
\<close>

theorem complementary_involution:
  assumes "jausMessageGetComplementaryCommandCode c = d" "d \<noteq> 0"
  shows "jausMessageGetComplementaryCommandCode d = c \<and> (d = c + 0x2000 \<or> c = d + 0x2000)"
proof -
  from assms have cd: "map_of (queryToReport @ reportToQuery) c = Some d"
    by (auto simp: jausMessageGetComplementaryCommandCode_def split: option.splits)
  from map_of_swap [OF complementary_distinct reportToQuery_swap cd]
  have "jausMessageGetComplementaryCommandCode d = c"
    by (simp add: jausMessageGetComplementaryCommandCode_def)
  moreover from map_of_SomeD [OF cd] have "(c, d) \<in> set queryToReport \<or> (d, c) \<in> set queryToReport"
    using reportToQuery_swap by auto
  ultimately show ?thesis using queryToReport_offset by blast
qed

theorem complementary_involution_witness:
  "jausMessageGetComplementaryCommandCode JAUS_REPORT_COMPONENT_STATUS = JAUS_QUERY_COMPONENT_STATUS"
  using complementary_involution [of JAUS_QUERY_COMPONENT_STATUS JAUS_REPORT_COMPONENT_STATUS]
  by (simp add: jausMessageGetComplementaryCommandCode_def queryToReport_def)

end
