(* ===== verification/CoreMessages.thy ===== *)
theory CoreMessages
  imports MessageCodes
begin

text \<open>
  The core messages: service connections, component control and authority, status and time
  queries (\<open>libjaus/message/*/core\<close>).
  Each section translates one source file: the struct as a record that extends the header,
  its four message-specific routines, and the common routines applied to them. \<open>enc\<close> and
  \<open>withData\<close> are the specification, the wire image and what a receiver reconstructs from it;
  the interpretation of \<open>typed_message\<close> proves that the routines meet it, and with it the
  round trips through buffers and generic messages.
\<close>

section \<open>ActivateServiceConnectionMessage\<close>

record ActivateServiceConnectionMessage = JausHeader +
  activateServiceConnection_serviceConnectionCommandCode :: u16
  activateServiceConnection_instanceId :: u8

definition activateServiceConnection_dataInitialize ::
    "ActivateServiceConnectionMessage \<Rightarrow> ActivateServiceConnectionMessage" where
  "activateServiceConnection_dataInitialize m =
     m\<lparr>properties := (properties m)\<lparr>scFlag := 1\<rparr>,
        activateServiceConnection_serviceConnectionCommandCode := newJausUnsignedShort 0,
        activateServiceConnection_instanceId := newJausByte 0\<rparr>"

definition activateServiceConnection_dataSize :: "ActivateServiceConnectionMessage \<Rightarrow> u32" where
  "activateServiceConnection_dataSize m =
     3"

definition activateServiceConnection_dataFromBuffer ::
    "ActivateServiceConnectionMessage \<Rightarrow> bytes \<Rightarrow> nat \<Rightarrow> u32 \<Rightarrow> (bool \<times> ActivateServiceConnectionMessage) exec" where
  "activateServiceConnection_dataFromBuffer m buffer off n =
     (if n = dataSize m then finishR (runStmts
        [getUShort (\<lambda>v m. m\<lparr>activateServiceConnection_serviceConnectionCommandCode := v\<rparr>) buffer off n,
         getByte (\<lambda>v m. m\<lparr>activateServiceConnection_instanceId := v\<rparr>) buffer off n] (0, m))
      else Some (False, m))"

definition activateServiceConnection_dataToBuffer ::
    "ActivateServiceConnectionMessage \<Rightarrow> bytes \<Rightarrow> nat \<Rightarrow> u32 \<Rightarrow> (nat \<times> bytes) exec" where
  "activateServiceConnection_dataToBuffer m buffer off n =
     (if activateServiceConnection_dataSize m \<le> n then finishW (runStmts
        [putUShort (Some (activateServiceConnection_serviceConnectionCommandCode m)) off n,
         putByte (Some (activateServiceConnection_instanceId m)) off n] (0, buffer))
      else Some (0, buffer))"

definition activateServiceConnectionMessageCreate :: ActivateServiceConnectionMessage where
  "activateServiceConnectionMessageCreate =
     (activateServiceConnection_dataInitialize (JausHeader.extend (blankHeader JAUS_ACTIVATE_SERVICE_CONNECTION 3)
        (ActivateServiceConnectionMessage.fields 0 0)))"

definition activateServiceConnectionMessageFromBuffer ::
    "ActivateServiceConnectionMessage \<Rightarrow> bytes \<Rightarrow> u32 \<Rightarrow> (bool \<times> ActivateServiceConnectionMessage) exec" where
  "activateServiceConnectionMessageFromBuffer =
     messageFromBuffer activateServiceConnection_dataFromBuffer"

definition activateServiceConnectionMessageSize :: "ActivateServiceConnectionMessage \<Rightarrow> u32" where
  "activateServiceConnectionMessageSize = messageSize activateServiceConnection_dataSize"

definition activateServiceConnectionMessageToBuffer ::
    "ActivateServiceConnectionMessage \<Rightarrow> bytes \<Rightarrow> u32 \<Rightarrow> (bool \<times> ActivateServiceConnectionMessage \<times> bytes) exec" where
  "activateServiceConnectionMessageToBuffer =
     messageToBuffer activateServiceConnection_dataSize activateServiceConnection_dataToBuffer"

definition activateServiceConnectionMessageFromJausMessage ::
    "ActivateServiceConnectionMessage \<Rightarrow> JausMessage \<Rightarrow> ActivateServiceConnectionMessage option exec" where
  "activateServiceConnectionMessageFromJausMessage =
     messageFromJausMessage JAUS_ACTIVATE_SERVICE_CONNECTION activateServiceConnection_dataFromBuffer"

definition activateServiceConnectionMessageToJausMessage ::
    "ActivateServiceConnectionMessage \<Rightarrow> JausMessage exec" where
  "activateServiceConnectionMessageToJausMessage =
     messageToJausMessage activateServiceConnection_dataSize activateServiceConnection_dataToBuffer"

definition activateServiceConnection_enc :: "ActivateServiceConnectionMessage \<Rightarrow> bytes" where
  "activateServiceConnection_enc m =
     bytesOfWord 2 (activateServiceConnection_serviceConnectionCommandCode m) @
     [activateServiceConnection_instanceId m]"

definition activateServiceConnection_withData :: "ActivateServiceConnectionMessage \<Rightarrow> ActivateServiceConnectionMessage \<Rightarrow> ActivateServiceConnectionMessage" where
  "activateServiceConnection_withData m0 m =
     m0\<lparr>activateServiceConnection_serviceConnectionCommandCode := activateServiceConnection_serviceConnectionCommandCode m,
        activateServiceConnection_instanceId := activateServiceConnection_instanceId m\<rparr>"

lemma activateServiceConnection_size: "activateServiceConnection_dataSize m = of_nat (length (activateServiceConnection_enc m))"
  by (simp add: activateServiceConnection_dataSize_def activateServiceConnection_enc_def)

lemma activateServiceConnection_small: "length (activateServiceConnection_enc m) < 4096"
  unfolding activateServiceConnection_enc_def by (rule enc_small, (rule length_bounds)+, simp)

lemma activateServiceConnection_to:
  assumes "off + length (activateServiceConnection_enc m) \<le> length buf" "length (activateServiceConnection_enc m) \<le> unat n"
  shows "activateServiceConnection_dataToBuffer m buf off n =
    Some (length (activateServiceConnection_enc m), take off buf @ activateServiceConnection_enc m @ drop (off + length (activateServiceConnection_enc m)) buf)"
  unfolding activateServiceConnection_dataToBuffer_def
  by (rule to_lawI [OF _ activateServiceConnection_size assms], unfold activateServiceConnection_enc_def,
      (rule writes_intros refl | rule writes_Cons | (rule FromDouble_total, simp)
        | simp add: codec_simps)+)

lemma activateServiceConnection_from:
  assumes "dataSize m0 = activateServiceConnection_dataSize m"
  shows "activateServiceConnection_dataFromBuffer m0 (pre @ activateServiceConnection_enc m @ post) (length pre) (activateServiceConnection_dataSize m) = Some (True, activateServiceConnection_withData m0 m)"
proof -
  have n: "unat (activateServiceConnection_dataSize m) = length (activateServiceConnection_enc m)"
    using activateServiceConnection_small [of m] by (simp add: activateServiceConnection_size unat_of_nat_lt)
  show ?thesis
    unfolding activateServiceConnection_dataFromBuffer_def activateServiceConnection_withData_def
    by (rule from_lawI [where D = "activateServiceConnection_enc m"], unfold activateServiceConnection_enc_def,
        (rule parses_intros refl n [unfolded activateServiceConnection_enc_def] assms [symmetric] | rule parses_Cons
          | simp add: codec_simps)+)
qed

interpretation activateServiceConnection: typed_message activateServiceConnection_dataSize activateServiceConnection_dataFromBuffer
  activateServiceConnection_dataToBuffer activateServiceConnection_enc activateServiceConnection_withData
  by unfold_locales (fact activateServiceConnection_size activateServiceConnection_small activateServiceConnection_to activateServiceConnection_from)+

section \<open>ConfirmComponentControlMessage\<close>

record ConfirmComponentControlMessage = JausHeader +
  confirmComponentControl_responseCode :: int

definition confirmComponentControl_dataInitialize ::
    "ConfirmComponentControlMessage \<Rightarrow> ConfirmComponentControlMessage" where
  "confirmComponentControl_dataInitialize m =
     m\<lparr>confirmComponentControl_responseCode := JAUS_CONTROL_ACCEPTED\<rparr>"

definition confirmComponentControl_dataSize :: "ConfirmComponentControlMessage \<Rightarrow> u32" where
  "confirmComponentControl_dataSize m =
     1"

definition confirmComponentControl_dataFromBuffer ::
    "ConfirmComponentControlMessage \<Rightarrow> bytes \<Rightarrow> nat \<Rightarrow> u32 \<Rightarrow> (bool \<times> ConfirmComponentControlMessage) exec" where
  "confirmComponentControl_dataFromBuffer m buffer off n =
     (if n = dataSize m then finishR (runStmts
        [getByte (\<lambda>v m. m\<lparr>confirmComponentControl_responseCode := uint v\<rparr>) buffer off n] (0, m))
      else Some (False, m))"

definition confirmComponentControl_dataToBuffer ::
    "ConfirmComponentControlMessage \<Rightarrow> bytes \<Rightarrow> nat \<Rightarrow> u32 \<Rightarrow> (nat \<times> bytes) exec" where
  "confirmComponentControl_dataToBuffer m buffer off n =
     (if confirmComponentControl_dataSize m \<le> n then finishW (runStmts
        [putByte (Some (word_of_int (confirmComponentControl_responseCode m))) off n] (0, buffer))
      else Some (0, buffer))"

definition confirmComponentControlMessageCreate :: ConfirmComponentControlMessage where
  "confirmComponentControlMessageCreate =
     (confirmComponentControl_dataInitialize (JausHeader.extend (blankHeader JAUS_CONFIRM_COMPONENT_CONTROL 1)
        (ConfirmComponentControlMessage.fields 0)))"

definition confirmComponentControlMessageFromBuffer ::
    "ConfirmComponentControlMessage \<Rightarrow> bytes \<Rightarrow> u32 \<Rightarrow> (bool \<times> ConfirmComponentControlMessage) exec" where
  "confirmComponentControlMessageFromBuffer =
     messageFromBuffer confirmComponentControl_dataFromBuffer"

definition confirmComponentControlMessageSize :: "ConfirmComponentControlMessage \<Rightarrow> u32" where
  "confirmComponentControlMessageSize = messageSize confirmComponentControl_dataSize"

definition confirmComponentControlMessageToBuffer ::
    "ConfirmComponentControlMessage \<Rightarrow> bytes \<Rightarrow> u32 \<Rightarrow> (bool \<times> ConfirmComponentControlMessage \<times> bytes) exec" where
  "confirmComponentControlMessageToBuffer =
     messageToBuffer confirmComponentControl_dataSize confirmComponentControl_dataToBuffer"

definition confirmComponentControlMessageFromJausMessage ::
    "ConfirmComponentControlMessage \<Rightarrow> JausMessage \<Rightarrow> ConfirmComponentControlMessage option exec" where
  "confirmComponentControlMessageFromJausMessage =
     messageFromJausMessage JAUS_CONFIRM_COMPONENT_CONTROL confirmComponentControl_dataFromBuffer"

definition confirmComponentControlMessageToJausMessage ::
    "ConfirmComponentControlMessage \<Rightarrow> JausMessage exec" where
  "confirmComponentControlMessageToJausMessage =
     messageToJausMessage confirmComponentControl_dataSize confirmComponentControl_dataToBuffer"

definition confirmComponentControl_enc :: "ConfirmComponentControlMessage \<Rightarrow> bytes" where
  "confirmComponentControl_enc m =
     [word_of_int (confirmComponentControl_responseCode m)]"

definition confirmComponentControl_withData :: "ConfirmComponentControlMessage \<Rightarrow> ConfirmComponentControlMessage \<Rightarrow> ConfirmComponentControlMessage" where
  "confirmComponentControl_withData m0 m =
     m0\<lparr>confirmComponentControl_responseCode := uint (word_of_int (confirmComponentControl_responseCode m) :: u8)\<rparr>"

lemma confirmComponentControl_size: "confirmComponentControl_dataSize m = of_nat (length (confirmComponentControl_enc m))"
  by (simp add: confirmComponentControl_dataSize_def confirmComponentControl_enc_def)

lemma confirmComponentControl_small: "length (confirmComponentControl_enc m) < 4096"
  unfolding confirmComponentControl_enc_def by (rule enc_small, (rule length_bounds)+, simp)

lemma confirmComponentControl_to:
  assumes "off + length (confirmComponentControl_enc m) \<le> length buf" "length (confirmComponentControl_enc m) \<le> unat n"
  shows "confirmComponentControl_dataToBuffer m buf off n =
    Some (length (confirmComponentControl_enc m), take off buf @ confirmComponentControl_enc m @ drop (off + length (confirmComponentControl_enc m)) buf)"
  unfolding confirmComponentControl_dataToBuffer_def
  by (rule to_lawI [OF _ confirmComponentControl_size assms], unfold confirmComponentControl_enc_def,
      (rule writes_intros refl | rule writes_Cons | (rule FromDouble_total, simp)
        | simp add: codec_simps)+)

lemma confirmComponentControl_from:
  assumes "dataSize m0 = confirmComponentControl_dataSize m"
  shows "confirmComponentControl_dataFromBuffer m0 (pre @ confirmComponentControl_enc m @ post) (length pre) (confirmComponentControl_dataSize m) = Some (True, confirmComponentControl_withData m0 m)"
proof -
  have n: "unat (confirmComponentControl_dataSize m) = length (confirmComponentControl_enc m)"
    using confirmComponentControl_small [of m] by (simp add: confirmComponentControl_size unat_of_nat_lt)
  show ?thesis
    unfolding confirmComponentControl_dataFromBuffer_def confirmComponentControl_withData_def
    by (rule from_lawI [where D = "confirmComponentControl_enc m"], unfold confirmComponentControl_enc_def,
        (rule parses_intros refl n [unfolded confirmComponentControl_enc_def] assms [symmetric] | rule parses_Cons
          | simp add: codec_simps)+)
qed

interpretation confirmComponentControl: typed_message confirmComponentControl_dataSize confirmComponentControl_dataFromBuffer
  confirmComponentControl_dataToBuffer confirmComponentControl_enc confirmComponentControl_withData
  by unfold_locales (fact confirmComponentControl_size confirmComponentControl_small confirmComponentControl_to confirmComponentControl_from)+

section \<open>ConfirmServiceConnectionMessage\<close>

record ConfirmServiceConnectionMessage = JausHeader +
  confirmServiceConnection_serviceConnectionCommandCode :: u16
  confirmServiceConnection_instanceId :: u8
  confirmServiceConnection_confirmedPeriodicUpdateRateHertz :: real
  confirmServiceConnection_responseCode :: int

definition confirmServiceConnection_dataInitialize ::
    "ConfirmServiceConnectionMessage \<Rightarrow> ConfirmServiceConnectionMessage" where
  "confirmServiceConnection_dataInitialize m =
     m\<lparr>properties := (properties m)\<lparr>scFlag := 1\<rparr>,
        confirmServiceConnection_serviceConnectionCommandCode := newJausUnsignedShort 0,
        confirmServiceConnection_instanceId := newJausByte 0,
        confirmServiceConnection_confirmedPeriodicUpdateRateHertz := 0,
        confirmServiceConnection_responseCode := JAUS_SC_COMMAND_NOT_SUPPORTED\<rparr>"

definition confirmServiceConnection_dataSize :: "ConfirmServiceConnectionMessage \<Rightarrow> u32" where
  "confirmServiceConnection_dataSize m =
     6"

definition confirmServiceConnection_dataFromBuffer ::
    "ConfirmServiceConnectionMessage \<Rightarrow> bytes \<Rightarrow> nat \<Rightarrow> u32 \<Rightarrow> (bool \<times> ConfirmServiceConnectionMessage) exec" where
  "confirmServiceConnection_dataFromBuffer m buffer off n =
     (if n = dataSize m then finishR (runStmts
        [getUShort (\<lambda>v m. m\<lparr>confirmServiceConnection_serviceConnectionCommandCode := v\<rparr>) buffer off n,
         getByte (\<lambda>v m. m\<lparr>confirmServiceConnection_instanceId := v\<rparr>) buffer off n,
         getUShort (\<lambda>v m. m\<lparr>confirmServiceConnection_confirmedPeriodicUpdateRateHertz := jausUnsignedShortToDouble v 0 1092\<rparr>) buffer off n,
         getByte (\<lambda>v m. m\<lparr>confirmServiceConnection_responseCode := uint v\<rparr>) buffer off n] (0, m))
      else Some (False, m))"

definition confirmServiceConnection_dataToBuffer ::
    "ConfirmServiceConnectionMessage \<Rightarrow> bytes \<Rightarrow> nat \<Rightarrow> u32 \<Rightarrow> (nat \<times> bytes) exec" where
  "confirmServiceConnection_dataToBuffer m buffer off n =
     (if confirmServiceConnection_dataSize m \<le> n then finishW (runStmts
        [putUShort (Some (confirmServiceConnection_serviceConnectionCommandCode m)) off n,
         putByte (Some (confirmServiceConnection_instanceId m)) off n,
         putUShort (jausUnsignedShortFromDouble (confirmServiceConnection_confirmedPeriodicUpdateRateHertz m) 0 1092) off n,
         putByte (Some (word_of_int (confirmServiceConnection_responseCode m))) off n] (0, buffer))
      else Some (0, buffer))"

definition confirmServiceConnectionMessageCreate :: ConfirmServiceConnectionMessage where
  "confirmServiceConnectionMessageCreate =
     (confirmServiceConnection_dataInitialize (JausHeader.extend (blankHeader JAUS_CONFIRM_SERVICE_CONNECTION 6)
        (ConfirmServiceConnectionMessage.fields 0 0 0 0)))"

definition confirmServiceConnectionMessageFromBuffer ::
    "ConfirmServiceConnectionMessage \<Rightarrow> bytes \<Rightarrow> u32 \<Rightarrow> (bool \<times> ConfirmServiceConnectionMessage) exec" where
  "confirmServiceConnectionMessageFromBuffer =
     messageFromBuffer confirmServiceConnection_dataFromBuffer"

definition confirmServiceConnectionMessageSize :: "ConfirmServiceConnectionMessage \<Rightarrow> u32" where
  "confirmServiceConnectionMessageSize = messageSize confirmServiceConnection_dataSize"

definition confirmServiceConnectionMessageToBuffer ::
    "ConfirmServiceConnectionMessage \<Rightarrow> bytes \<Rightarrow> u32 \<Rightarrow> (bool \<times> ConfirmServiceConnectionMessage \<times> bytes) exec" where
  "confirmServiceConnectionMessageToBuffer =
     messageToBuffer confirmServiceConnection_dataSize confirmServiceConnection_dataToBuffer"

definition confirmServiceConnectionMessageFromJausMessage ::
    "ConfirmServiceConnectionMessage \<Rightarrow> JausMessage \<Rightarrow> ConfirmServiceConnectionMessage option exec" where
  "confirmServiceConnectionMessageFromJausMessage =
     messageFromJausMessage JAUS_CONFIRM_SERVICE_CONNECTION confirmServiceConnection_dataFromBuffer"

definition confirmServiceConnectionMessageToJausMessage ::
    "ConfirmServiceConnectionMessage \<Rightarrow> JausMessage exec" where
  "confirmServiceConnectionMessageToJausMessage =
     messageToJausMessage confirmServiceConnection_dataSize confirmServiceConnection_dataToBuffer"

definition confirmServiceConnection_enc :: "ConfirmServiceConnectionMessage \<Rightarrow> bytes" where
  "confirmServiceConnection_enc m =
     bytesOfWord 2 (confirmServiceConnection_serviceConnectionCommandCode m) @
     [confirmServiceConnection_instanceId m] @
     bytesOfWord 2 (the (jausUnsignedShortFromDouble (confirmServiceConnection_confirmedPeriodicUpdateRateHertz m) 0 1092)) @
     [word_of_int (confirmServiceConnection_responseCode m)]"

definition confirmServiceConnection_withData :: "ConfirmServiceConnectionMessage \<Rightarrow> ConfirmServiceConnectionMessage \<Rightarrow> ConfirmServiceConnectionMessage" where
  "confirmServiceConnection_withData m0 m =
     m0\<lparr>confirmServiceConnection_serviceConnectionCommandCode := confirmServiceConnection_serviceConnectionCommandCode m,
        confirmServiceConnection_instanceId := confirmServiceConnection_instanceId m,
        confirmServiceConnection_confirmedPeriodicUpdateRateHertz := jausUnsignedShortToDouble (the (jausUnsignedShortFromDouble (confirmServiceConnection_confirmedPeriodicUpdateRateHertz m) 0 1092)) 0 1092,
        confirmServiceConnection_responseCode := uint (word_of_int (confirmServiceConnection_responseCode m) :: u8)\<rparr>"

lemma confirmServiceConnection_size: "confirmServiceConnection_dataSize m = of_nat (length (confirmServiceConnection_enc m))"
  by (simp add: confirmServiceConnection_dataSize_def confirmServiceConnection_enc_def)

lemma confirmServiceConnection_small: "length (confirmServiceConnection_enc m) < 4096"
  unfolding confirmServiceConnection_enc_def by (rule enc_small, (rule length_bounds)+, simp)

lemma confirmServiceConnection_to:
  assumes "off + length (confirmServiceConnection_enc m) \<le> length buf" "length (confirmServiceConnection_enc m) \<le> unat n"
  shows "confirmServiceConnection_dataToBuffer m buf off n =
    Some (length (confirmServiceConnection_enc m), take off buf @ confirmServiceConnection_enc m @ drop (off + length (confirmServiceConnection_enc m)) buf)"
  unfolding confirmServiceConnection_dataToBuffer_def
  by (rule to_lawI [OF _ confirmServiceConnection_size assms], unfold confirmServiceConnection_enc_def,
      (rule writes_intros refl | rule writes_Cons | (rule FromDouble_total, simp)
        | simp add: codec_simps)+)

lemma confirmServiceConnection_from:
  assumes "dataSize m0 = confirmServiceConnection_dataSize m"
  shows "confirmServiceConnection_dataFromBuffer m0 (pre @ confirmServiceConnection_enc m @ post) (length pre) (confirmServiceConnection_dataSize m) = Some (True, confirmServiceConnection_withData m0 m)"
proof -
  have n: "unat (confirmServiceConnection_dataSize m) = length (confirmServiceConnection_enc m)"
    using confirmServiceConnection_small [of m] by (simp add: confirmServiceConnection_size unat_of_nat_lt)
  show ?thesis
    unfolding confirmServiceConnection_dataFromBuffer_def confirmServiceConnection_withData_def
    by (rule from_lawI [where D = "confirmServiceConnection_enc m"], unfold confirmServiceConnection_enc_def,
        (rule parses_intros refl n [unfolded confirmServiceConnection_enc_def] assms [symmetric] | rule parses_Cons
          | simp add: codec_simps)+)
qed

interpretation confirmServiceConnection: typed_message confirmServiceConnection_dataSize confirmServiceConnection_dataFromBuffer
  confirmServiceConnection_dataToBuffer confirmServiceConnection_enc confirmServiceConnection_withData
  by unfold_locales (fact confirmServiceConnection_size confirmServiceConnection_small confirmServiceConnection_to confirmServiceConnection_from)+

section \<open>CreateServiceConnectionMessage\<close>

record CreateServiceConnectionMessage = JausHeader +
  createServiceConnection_serviceConnectionCommandCode :: u16
  createServiceConnection_requestedPeriodicUpdateRateHertz :: real
  createServiceConnection_presenceVector :: u32

definition createServiceConnection_dataInitialize ::
    "CreateServiceConnectionMessage \<Rightarrow> CreateServiceConnectionMessage" where
  "createServiceConnection_dataInitialize m =
     m\<lparr>properties := (properties m)\<lparr>scFlag := 1\<rparr>,
        createServiceConnection_serviceConnectionCommandCode := newJausUnsignedShort 0,
        createServiceConnection_requestedPeriodicUpdateRateHertz := 0,
        createServiceConnection_presenceVector := newJausUnsignedInteger JAUS_INTEGER_PRESENCE_VECTOR_ALL_ON\<rparr>"

definition createServiceConnection_dataSize :: "CreateServiceConnectionMessage \<Rightarrow> u32" where
  "createServiceConnection_dataSize m =
     8"

definition createServiceConnection_dataFromBuffer ::
    "CreateServiceConnectionMessage \<Rightarrow> bytes \<Rightarrow> nat \<Rightarrow> u32 \<Rightarrow> (bool \<times> CreateServiceConnectionMessage) exec" where
  "createServiceConnection_dataFromBuffer m buffer off n =
     (if n = dataSize m then finishR (runStmts
        [getUShort (\<lambda>v m. m\<lparr>createServiceConnection_serviceConnectionCommandCode := v\<rparr>) buffer off n,
         getUShort (\<lambda>v m. m\<lparr>createServiceConnection_requestedPeriodicUpdateRateHertz := jausUnsignedShortToDouble v 0 1092\<rparr>) buffer off n,
         getUInteger (\<lambda>v m. m\<lparr>createServiceConnection_presenceVector := v\<rparr>) buffer off n] (0, m))
      else Some (False, m))"

definition createServiceConnection_dataToBuffer ::
    "CreateServiceConnectionMessage \<Rightarrow> bytes \<Rightarrow> nat \<Rightarrow> u32 \<Rightarrow> (nat \<times> bytes) exec" where
  "createServiceConnection_dataToBuffer m buffer off n =
     (if createServiceConnection_dataSize m \<le> n then finishW (runStmts
        [putUShort (Some (createServiceConnection_serviceConnectionCommandCode m)) off n,
         putUShort (jausUnsignedShortFromDouble (createServiceConnection_requestedPeriodicUpdateRateHertz m) 0 1092) off n,
         putUInteger (Some (createServiceConnection_presenceVector m)) off n] (0, buffer))
      else Some (0, buffer))"

definition createServiceConnectionMessageCreate :: CreateServiceConnectionMessage where
  "createServiceConnectionMessageCreate =
     (createServiceConnection_dataInitialize (JausHeader.extend (blankHeader JAUS_CREATE_SERVICE_CONNECTION 8)
        (CreateServiceConnectionMessage.fields 0 0 0)))"

definition createServiceConnectionMessageFromBuffer ::
    "CreateServiceConnectionMessage \<Rightarrow> bytes \<Rightarrow> u32 \<Rightarrow> (bool \<times> CreateServiceConnectionMessage) exec" where
  "createServiceConnectionMessageFromBuffer =
     messageFromBuffer createServiceConnection_dataFromBuffer"

definition createServiceConnectionMessageSize :: "CreateServiceConnectionMessage \<Rightarrow> u32" where
  "createServiceConnectionMessageSize = messageSize createServiceConnection_dataSize"

definition createServiceConnectionMessageToBuffer ::
    "CreateServiceConnectionMessage \<Rightarrow> bytes \<Rightarrow> u32 \<Rightarrow> (bool \<times> CreateServiceConnectionMessage \<times> bytes) exec" where
  "createServiceConnectionMessageToBuffer =
     messageToBuffer createServiceConnection_dataSize createServiceConnection_dataToBuffer"

definition createServiceConnectionMessageFromJausMessage ::
    "CreateServiceConnectionMessage \<Rightarrow> JausMessage \<Rightarrow> CreateServiceConnectionMessage option exec" where
  "createServiceConnectionMessageFromJausMessage =
     messageFromJausMessage JAUS_CREATE_SERVICE_CONNECTION createServiceConnection_dataFromBuffer"

definition createServiceConnectionMessageToJausMessage ::
    "CreateServiceConnectionMessage \<Rightarrow> JausMessage exec" where
  "createServiceConnectionMessageToJausMessage =
     messageToJausMessage createServiceConnection_dataSize createServiceConnection_dataToBuffer"

definition createServiceConnection_enc :: "CreateServiceConnectionMessage \<Rightarrow> bytes" where
  "createServiceConnection_enc m =
     bytesOfWord 2 (createServiceConnection_serviceConnectionCommandCode m) @
     bytesOfWord 2 (the (jausUnsignedShortFromDouble (createServiceConnection_requestedPeriodicUpdateRateHertz m) 0 1092)) @
     bytesOfWord 4 (createServiceConnection_presenceVector m)"

definition createServiceConnection_withData :: "CreateServiceConnectionMessage \<Rightarrow> CreateServiceConnectionMessage \<Rightarrow> CreateServiceConnectionMessage" where
  "createServiceConnection_withData m0 m =
     m0\<lparr>createServiceConnection_serviceConnectionCommandCode := createServiceConnection_serviceConnectionCommandCode m,
        createServiceConnection_requestedPeriodicUpdateRateHertz := jausUnsignedShortToDouble (the (jausUnsignedShortFromDouble (createServiceConnection_requestedPeriodicUpdateRateHertz m) 0 1092)) 0 1092,
        createServiceConnection_presenceVector := createServiceConnection_presenceVector m\<rparr>"

lemma createServiceConnection_size: "createServiceConnection_dataSize m = of_nat (length (createServiceConnection_enc m))"
  by (simp add: createServiceConnection_dataSize_def createServiceConnection_enc_def)

lemma createServiceConnection_small: "length (createServiceConnection_enc m) < 4096"
  unfolding createServiceConnection_enc_def by (rule enc_small, (rule length_bounds)+, simp)

lemma createServiceConnection_to:
  assumes "off + length (createServiceConnection_enc m) \<le> length buf" "length (createServiceConnection_enc m) \<le> unat n"
  shows "createServiceConnection_dataToBuffer m buf off n =
    Some (length (createServiceConnection_enc m), take off buf @ createServiceConnection_enc m @ drop (off + length (createServiceConnection_enc m)) buf)"
  unfolding createServiceConnection_dataToBuffer_def
  by (rule to_lawI [OF _ createServiceConnection_size assms], unfold createServiceConnection_enc_def,
      (rule writes_intros refl | rule writes_Cons | (rule FromDouble_total, simp)
        | simp add: codec_simps)+)

lemma createServiceConnection_from:
  assumes "dataSize m0 = createServiceConnection_dataSize m"
  shows "createServiceConnection_dataFromBuffer m0 (pre @ createServiceConnection_enc m @ post) (length pre) (createServiceConnection_dataSize m) = Some (True, createServiceConnection_withData m0 m)"
proof -
  have n: "unat (createServiceConnection_dataSize m) = length (createServiceConnection_enc m)"
    using createServiceConnection_small [of m] by (simp add: createServiceConnection_size unat_of_nat_lt)
  show ?thesis
    unfolding createServiceConnection_dataFromBuffer_def createServiceConnection_withData_def
    by (rule from_lawI [where D = "createServiceConnection_enc m"], unfold createServiceConnection_enc_def,
        (rule parses_intros refl n [unfolded createServiceConnection_enc_def] assms [symmetric] | rule parses_Cons
          | simp add: codec_simps)+)
qed

interpretation createServiceConnection: typed_message createServiceConnection_dataSize createServiceConnection_dataFromBuffer
  createServiceConnection_dataToBuffer createServiceConnection_enc createServiceConnection_withData
  by unfold_locales (fact createServiceConnection_size createServiceConnection_small createServiceConnection_to createServiceConnection_from)+

section \<open>RejectComponentControlMessage\<close>

type_synonym RejectComponentControlMessage = JausHeader

definition rejectComponentControlMessageCreate :: RejectComponentControlMessage where
  "rejectComponentControlMessageCreate =
     (noData_dataInitialize (blankHeader JAUS_REJECT_COMPONENT_CONTROL 0))"

definition rejectComponentControlMessageFromBuffer ::
    "RejectComponentControlMessage \<Rightarrow> bytes \<Rightarrow> u32 \<Rightarrow> (bool \<times> RejectComponentControlMessage) exec" where
  "rejectComponentControlMessageFromBuffer =
     messageFromBuffer noData_dataFromBuffer"

definition rejectComponentControlMessageToBuffer ::
    "RejectComponentControlMessage \<Rightarrow> bytes \<Rightarrow> u32 \<Rightarrow> (bool \<times> RejectComponentControlMessage \<times> bytes) exec" where
  "rejectComponentControlMessageToBuffer =
     messageToBuffer noData_dataSize noData_dataToBuffer"

definition rejectComponentControlMessageFromJausMessage ::
    "RejectComponentControlMessage \<Rightarrow> JausMessage \<Rightarrow> RejectComponentControlMessage option exec" where
  "rejectComponentControlMessageFromJausMessage =
     messageFromJausMessage JAUS_REJECT_COMPONENT_CONTROL noData_dataFromBuffer"

definition rejectComponentControlMessageToJausMessage ::
    "RejectComponentControlMessage \<Rightarrow> JausMessage exec" where
  "rejectComponentControlMessageToJausMessage =
     messageToJausMessage noData_dataSize noData_dataToBuffer"

definition rejectComponentControlMessageSize ::
    "RejectComponentControlMessage \<Rightarrow> u32" where
  "rejectComponentControlMessageSize =
     messageSize noData_dataSize"

section \<open>ReleaseComponentControlMessage\<close>

type_synonym ReleaseComponentControlMessage = JausHeader

definition releaseComponentControlMessageCreate :: ReleaseComponentControlMessage where
  "releaseComponentControlMessageCreate =
     (noData_dataInitialize (blankHeader JAUS_RELEASE_COMPONENT_CONTROL 0))"

definition releaseComponentControlMessageFromBuffer ::
    "ReleaseComponentControlMessage \<Rightarrow> bytes \<Rightarrow> u32 \<Rightarrow> (bool \<times> ReleaseComponentControlMessage) exec" where
  "releaseComponentControlMessageFromBuffer =
     messageFromBuffer noData_dataFromBuffer"

definition releaseComponentControlMessageToBuffer ::
    "ReleaseComponentControlMessage \<Rightarrow> bytes \<Rightarrow> u32 \<Rightarrow> (bool \<times> ReleaseComponentControlMessage \<times> bytes) exec" where
  "releaseComponentControlMessageToBuffer =
     messageToBuffer noData_dataSize noData_dataToBuffer"

definition releaseComponentControlMessageFromJausMessage ::
    "ReleaseComponentControlMessage \<Rightarrow> JausMessage \<Rightarrow> ReleaseComponentControlMessage option exec" where
  "releaseComponentControlMessageFromJausMessage =
     messageFromJausMessage JAUS_RELEASE_COMPONENT_CONTROL noData_dataFromBuffer"

definition releaseComponentControlMessageToJausMessage ::
    "ReleaseComponentControlMessage \<Rightarrow> JausMessage exec" where
  "releaseComponentControlMessageToJausMessage =
     messageToJausMessage noData_dataSize noData_dataToBuffer"

definition releaseComponentControlMessageSize ::
    "ReleaseComponentControlMessage \<Rightarrow> u32" where
  "releaseComponentControlMessageSize =
     messageSize noData_dataSize"

section \<open>RequestComponentControlMessage\<close>

record RequestComponentControlMessage = JausHeader +
  requestComponentControl_authorityCode :: u8

definition requestComponentControl_dataInitialize ::
    "RequestComponentControlMessage \<Rightarrow> RequestComponentControlMessage" where
  "requestComponentControl_dataInitialize m =
     m\<lparr>requestComponentControl_authorityCode := newJausByte 0\<rparr>"

definition requestComponentControl_dataSize :: "RequestComponentControlMessage \<Rightarrow> u32" where
  "requestComponentControl_dataSize m =
     1"

definition requestComponentControl_dataFromBuffer ::
    "RequestComponentControlMessage \<Rightarrow> bytes \<Rightarrow> nat \<Rightarrow> u32 \<Rightarrow> (bool \<times> RequestComponentControlMessage) exec" where
  "requestComponentControl_dataFromBuffer m buffer off n =
     (if n = dataSize m then finishR (runStmts
        [getByte (\<lambda>v m. m\<lparr>requestComponentControl_authorityCode := v\<rparr>) buffer off n] (0, m))
      else Some (False, m))"

definition requestComponentControl_dataToBuffer ::
    "RequestComponentControlMessage \<Rightarrow> bytes \<Rightarrow> nat \<Rightarrow> u32 \<Rightarrow> (nat \<times> bytes) exec" where
  "requestComponentControl_dataToBuffer m buffer off n =
     (if requestComponentControl_dataSize m \<le> n then finishW (runStmts
        [putByte (Some (requestComponentControl_authorityCode m)) off n] (0, buffer))
      else Some (0, buffer))"

definition requestComponentControlMessageCreate :: RequestComponentControlMessage where
  "requestComponentControlMessageCreate =
     (requestComponentControl_dataInitialize (JausHeader.extend (blankHeader JAUS_REQUEST_COMPONENT_CONTROL 1)
        (RequestComponentControlMessage.fields 0)))"

definition requestComponentControlMessageFromBuffer ::
    "RequestComponentControlMessage \<Rightarrow> bytes \<Rightarrow> u32 \<Rightarrow> (bool \<times> RequestComponentControlMessage) exec" where
  "requestComponentControlMessageFromBuffer =
     messageFromBuffer requestComponentControl_dataFromBuffer"

definition requestComponentControlMessageSize :: "RequestComponentControlMessage \<Rightarrow> u32" where
  "requestComponentControlMessageSize = messageSize requestComponentControl_dataSize"

definition requestComponentControlMessageToBuffer ::
    "RequestComponentControlMessage \<Rightarrow> bytes \<Rightarrow> u32 \<Rightarrow> (bool \<times> RequestComponentControlMessage \<times> bytes) exec" where
  "requestComponentControlMessageToBuffer =
     messageToBuffer requestComponentControl_dataSize requestComponentControl_dataToBuffer"

definition requestComponentControlMessageFromJausMessage ::
    "RequestComponentControlMessage \<Rightarrow> JausMessage \<Rightarrow> RequestComponentControlMessage option exec" where
  "requestComponentControlMessageFromJausMessage =
     messageFromJausMessage JAUS_REQUEST_COMPONENT_CONTROL requestComponentControl_dataFromBuffer"

definition requestComponentControlMessageToJausMessage ::
    "RequestComponentControlMessage \<Rightarrow> JausMessage exec" where
  "requestComponentControlMessageToJausMessage =
     messageToJausMessage requestComponentControl_dataSize requestComponentControl_dataToBuffer"

definition requestComponentControl_enc :: "RequestComponentControlMessage \<Rightarrow> bytes" where
  "requestComponentControl_enc m =
     [requestComponentControl_authorityCode m]"

definition requestComponentControl_withData :: "RequestComponentControlMessage \<Rightarrow> RequestComponentControlMessage \<Rightarrow> RequestComponentControlMessage" where
  "requestComponentControl_withData m0 m =
     m0\<lparr>requestComponentControl_authorityCode := requestComponentControl_authorityCode m\<rparr>"

lemma requestComponentControl_size: "requestComponentControl_dataSize m = of_nat (length (requestComponentControl_enc m))"
  by (simp add: requestComponentControl_dataSize_def requestComponentControl_enc_def)

lemma requestComponentControl_small: "length (requestComponentControl_enc m) < 4096"
  unfolding requestComponentControl_enc_def by (rule enc_small, (rule length_bounds)+, simp)

lemma requestComponentControl_to:
  assumes "off + length (requestComponentControl_enc m) \<le> length buf" "length (requestComponentControl_enc m) \<le> unat n"
  shows "requestComponentControl_dataToBuffer m buf off n =
    Some (length (requestComponentControl_enc m), take off buf @ requestComponentControl_enc m @ drop (off + length (requestComponentControl_enc m)) buf)"
  unfolding requestComponentControl_dataToBuffer_def
  by (rule to_lawI [OF _ requestComponentControl_size assms], unfold requestComponentControl_enc_def,
      (rule writes_intros refl | rule writes_Cons | (rule FromDouble_total, simp)
        | simp add: codec_simps)+)

lemma requestComponentControl_from:
  assumes "dataSize m0 = requestComponentControl_dataSize m"
  shows "requestComponentControl_dataFromBuffer m0 (pre @ requestComponentControl_enc m @ post) (length pre) (requestComponentControl_dataSize m) = Some (True, requestComponentControl_withData m0 m)"
proof -
  have n: "unat (requestComponentControl_dataSize m) = length (requestComponentControl_enc m)"
    using requestComponentControl_small [of m] by (simp add: requestComponentControl_size unat_of_nat_lt)
  show ?thesis
    unfolding requestComponentControl_dataFromBuffer_def requestComponentControl_withData_def
    by (rule from_lawI [where D = "requestComponentControl_enc m"], unfold requestComponentControl_enc_def,
        (rule parses_intros refl n [unfolded requestComponentControl_enc_def] assms [symmetric] | rule parses_Cons
          | simp add: codec_simps)+)
qed

interpretation requestComponentControl: typed_message requestComponentControl_dataSize requestComponentControl_dataFromBuffer
  requestComponentControl_dataToBuffer requestComponentControl_enc requestComponentControl_withData
  by unfold_locales (fact requestComponentControl_size requestComponentControl_small requestComponentControl_to requestComponentControl_from)+

section \<open>SetComponentAuthorityMessage\<close>

record SetComponentAuthorityMessage = JausHeader +
  setComponentAuthority_authorityCode :: u8

definition setComponentAuthority_dataInitialize ::
    "SetComponentAuthorityMessage \<Rightarrow> SetComponentAuthorityMessage" where
  "setComponentAuthority_dataInitialize m =
     m\<lparr>setComponentAuthority_authorityCode := newJausByte 0\<rparr>"

definition setComponentAuthority_dataSize :: "SetComponentAuthorityMessage \<Rightarrow> u32" where
  "setComponentAuthority_dataSize m =
     1"

definition setComponentAuthority_dataFromBuffer ::
    "SetComponentAuthorityMessage \<Rightarrow> bytes \<Rightarrow> nat \<Rightarrow> u32 \<Rightarrow> (bool \<times> SetComponentAuthorityMessage) exec" where
  "setComponentAuthority_dataFromBuffer m buffer off n =
     (if n = dataSize m then finishR (runStmts
        [getByte (\<lambda>v m. m\<lparr>setComponentAuthority_authorityCode := v\<rparr>) buffer off n] (0, m))
      else Some (False, m))"

definition setComponentAuthority_dataToBuffer ::
    "SetComponentAuthorityMessage \<Rightarrow> bytes \<Rightarrow> nat \<Rightarrow> u32 \<Rightarrow> (nat \<times> bytes) exec" where
  "setComponentAuthority_dataToBuffer m buffer off n =
     (if setComponentAuthority_dataSize m \<le> n then finishW (runStmts
        [putByte (Some (setComponentAuthority_authorityCode m)) off n] (0, buffer))
      else Some (0, buffer))"

definition setComponentAuthorityMessageCreate :: SetComponentAuthorityMessage where
  "setComponentAuthorityMessageCreate =
     (setComponentAuthority_dataInitialize (JausHeader.extend (blankHeader JAUS_SET_COMPONENT_AUTHORITY 1)
        (SetComponentAuthorityMessage.fields 0)))"

definition setComponentAuthorityMessageFromBuffer ::
    "SetComponentAuthorityMessage \<Rightarrow> bytes \<Rightarrow> u32 \<Rightarrow> (bool \<times> SetComponentAuthorityMessage) exec" where
  "setComponentAuthorityMessageFromBuffer =
     messageFromBuffer setComponentAuthority_dataFromBuffer"

definition setComponentAuthorityMessageSize :: "SetComponentAuthorityMessage \<Rightarrow> u32" where
  "setComponentAuthorityMessageSize = messageSize setComponentAuthority_dataSize"

definition setComponentAuthorityMessageToBuffer ::
    "SetComponentAuthorityMessage \<Rightarrow> bytes \<Rightarrow> u32 \<Rightarrow> (bool \<times> SetComponentAuthorityMessage \<times> bytes) exec" where
  "setComponentAuthorityMessageToBuffer =
     messageToBuffer setComponentAuthority_dataSize setComponentAuthority_dataToBuffer"

definition setComponentAuthorityMessageFromJausMessage ::
    "SetComponentAuthorityMessage \<Rightarrow> JausMessage \<Rightarrow> SetComponentAuthorityMessage option exec" where
  "setComponentAuthorityMessageFromJausMessage =
     messageFromJausMessage JAUS_SET_COMPONENT_AUTHORITY setComponentAuthority_dataFromBuffer"

definition setComponentAuthorityMessageToJausMessage ::
    "SetComponentAuthorityMessage \<Rightarrow> JausMessage exec" where
  "setComponentAuthorityMessageToJausMessage =
     messageToJausMessage setComponentAuthority_dataSize setComponentAuthority_dataToBuffer"

definition setComponentAuthority_enc :: "SetComponentAuthorityMessage \<Rightarrow> bytes" where
  "setComponentAuthority_enc m =
     [setComponentAuthority_authorityCode m]"

definition setComponentAuthority_withData :: "SetComponentAuthorityMessage \<Rightarrow> SetComponentAuthorityMessage \<Rightarrow> SetComponentAuthorityMessage" where
  "setComponentAuthority_withData m0 m =
     m0\<lparr>setComponentAuthority_authorityCode := setComponentAuthority_authorityCode m\<rparr>"

lemma setComponentAuthority_size: "setComponentAuthority_dataSize m = of_nat (length (setComponentAuthority_enc m))"
  by (simp add: setComponentAuthority_dataSize_def setComponentAuthority_enc_def)

lemma setComponentAuthority_small: "length (setComponentAuthority_enc m) < 4096"
  unfolding setComponentAuthority_enc_def by (rule enc_small, (rule length_bounds)+, simp)

lemma setComponentAuthority_to:
  assumes "off + length (setComponentAuthority_enc m) \<le> length buf" "length (setComponentAuthority_enc m) \<le> unat n"
  shows "setComponentAuthority_dataToBuffer m buf off n =
    Some (length (setComponentAuthority_enc m), take off buf @ setComponentAuthority_enc m @ drop (off + length (setComponentAuthority_enc m)) buf)"
  unfolding setComponentAuthority_dataToBuffer_def
  by (rule to_lawI [OF _ setComponentAuthority_size assms], unfold setComponentAuthority_enc_def,
      (rule writes_intros refl | rule writes_Cons | (rule FromDouble_total, simp)
        | simp add: codec_simps)+)

lemma setComponentAuthority_from:
  assumes "dataSize m0 = setComponentAuthority_dataSize m"
  shows "setComponentAuthority_dataFromBuffer m0 (pre @ setComponentAuthority_enc m @ post) (length pre) (setComponentAuthority_dataSize m) = Some (True, setComponentAuthority_withData m0 m)"
proof -
  have n: "unat (setComponentAuthority_dataSize m) = length (setComponentAuthority_enc m)"
    using setComponentAuthority_small [of m] by (simp add: setComponentAuthority_size unat_of_nat_lt)
  show ?thesis
    unfolding setComponentAuthority_dataFromBuffer_def setComponentAuthority_withData_def
    by (rule from_lawI [where D = "setComponentAuthority_enc m"], unfold setComponentAuthority_enc_def,
        (rule parses_intros refl n [unfolded setComponentAuthority_enc_def] assms [symmetric] | rule parses_Cons
          | simp add: codec_simps)+)
qed

interpretation setComponentAuthority: typed_message setComponentAuthority_dataSize setComponentAuthority_dataFromBuffer
  setComponentAuthority_dataToBuffer setComponentAuthority_enc setComponentAuthority_withData
  by unfold_locales (fact setComponentAuthority_size setComponentAuthority_small setComponentAuthority_to setComponentAuthority_from)+

section \<open>SuspendServiceConnectionMessage\<close>

record SuspendServiceConnectionMessage = JausHeader +
  suspendServiceConnection_serviceConnectionCommandCode :: u16
  suspendServiceConnection_instanceId :: u8

definition suspendServiceConnection_dataInitialize ::
    "SuspendServiceConnectionMessage \<Rightarrow> SuspendServiceConnectionMessage" where
  "suspendServiceConnection_dataInitialize m =
     m\<lparr>properties := (properties m)\<lparr>scFlag := 1\<rparr>,
        suspendServiceConnection_serviceConnectionCommandCode := newJausUnsignedShort 0,
        suspendServiceConnection_instanceId := newJausByte 0\<rparr>"

definition suspendServiceConnection_dataSize :: "SuspendServiceConnectionMessage \<Rightarrow> u32" where
  "suspendServiceConnection_dataSize m =
     3"

definition suspendServiceConnection_dataFromBuffer ::
    "SuspendServiceConnectionMessage \<Rightarrow> bytes \<Rightarrow> nat \<Rightarrow> u32 \<Rightarrow> (bool \<times> SuspendServiceConnectionMessage) exec" where
  "suspendServiceConnection_dataFromBuffer m buffer off n =
     (if n = dataSize m then finishR (runStmts
        [getUShort (\<lambda>v m. m\<lparr>suspendServiceConnection_serviceConnectionCommandCode := v\<rparr>) buffer off n,
         getByte (\<lambda>v m. m\<lparr>suspendServiceConnection_instanceId := v\<rparr>) buffer off n] (0, m))
      else Some (False, m))"

definition suspendServiceConnection_dataToBuffer ::
    "SuspendServiceConnectionMessage \<Rightarrow> bytes \<Rightarrow> nat \<Rightarrow> u32 \<Rightarrow> (nat \<times> bytes) exec" where
  "suspendServiceConnection_dataToBuffer m buffer off n =
     (if suspendServiceConnection_dataSize m \<le> n then finishW (runStmts
        [putUShort (Some (suspendServiceConnection_serviceConnectionCommandCode m)) off n,
         putByte (Some (suspendServiceConnection_instanceId m)) off n] (0, buffer))
      else Some (0, buffer))"

definition suspendServiceConnectionMessageCreate :: SuspendServiceConnectionMessage where
  "suspendServiceConnectionMessageCreate =
     (suspendServiceConnection_dataInitialize (JausHeader.extend (blankHeader JAUS_SUSPEND_SERVICE_CONNECTION 3)
        (SuspendServiceConnectionMessage.fields 0 0)))"

definition suspendServiceConnectionMessageFromBuffer ::
    "SuspendServiceConnectionMessage \<Rightarrow> bytes \<Rightarrow> u32 \<Rightarrow> (bool \<times> SuspendServiceConnectionMessage) exec" where
  "suspendServiceConnectionMessageFromBuffer =
     messageFromBuffer suspendServiceConnection_dataFromBuffer"

definition suspendServiceConnectionMessageSize :: "SuspendServiceConnectionMessage \<Rightarrow> u32" where
  "suspendServiceConnectionMessageSize = messageSize suspendServiceConnection_dataSize"

definition suspendServiceConnectionMessageToBuffer ::
    "SuspendServiceConnectionMessage \<Rightarrow> bytes \<Rightarrow> u32 \<Rightarrow> (bool \<times> SuspendServiceConnectionMessage \<times> bytes) exec" where
  "suspendServiceConnectionMessageToBuffer =
     messageToBuffer suspendServiceConnection_dataSize suspendServiceConnection_dataToBuffer"

definition suspendServiceConnectionMessageFromJausMessage ::
    "SuspendServiceConnectionMessage \<Rightarrow> JausMessage \<Rightarrow> SuspendServiceConnectionMessage option exec" where
  "suspendServiceConnectionMessageFromJausMessage =
     messageFromJausMessage JAUS_SUSPEND_SERVICE_CONNECTION suspendServiceConnection_dataFromBuffer"

definition suspendServiceConnectionMessageToJausMessage ::
    "SuspendServiceConnectionMessage \<Rightarrow> JausMessage exec" where
  "suspendServiceConnectionMessageToJausMessage =
     messageToJausMessage suspendServiceConnection_dataSize suspendServiceConnection_dataToBuffer"

definition suspendServiceConnection_enc :: "SuspendServiceConnectionMessage \<Rightarrow> bytes" where
  "suspendServiceConnection_enc m =
     bytesOfWord 2 (suspendServiceConnection_serviceConnectionCommandCode m) @
     [suspendServiceConnection_instanceId m]"

definition suspendServiceConnection_withData :: "SuspendServiceConnectionMessage \<Rightarrow> SuspendServiceConnectionMessage \<Rightarrow> SuspendServiceConnectionMessage" where
  "suspendServiceConnection_withData m0 m =
     m0\<lparr>suspendServiceConnection_serviceConnectionCommandCode := suspendServiceConnection_serviceConnectionCommandCode m,
        suspendServiceConnection_instanceId := suspendServiceConnection_instanceId m\<rparr>"

lemma suspendServiceConnection_size: "suspendServiceConnection_dataSize m = of_nat (length (suspendServiceConnection_enc m))"
  by (simp add: suspendServiceConnection_dataSize_def suspendServiceConnection_enc_def)

lemma suspendServiceConnection_small: "length (suspendServiceConnection_enc m) < 4096"
  unfolding suspendServiceConnection_enc_def by (rule enc_small, (rule length_bounds)+, simp)

lemma suspendServiceConnection_to:
  assumes "off + length (suspendServiceConnection_enc m) \<le> length buf" "length (suspendServiceConnection_enc m) \<le> unat n"
  shows "suspendServiceConnection_dataToBuffer m buf off n =
    Some (length (suspendServiceConnection_enc m), take off buf @ suspendServiceConnection_enc m @ drop (off + length (suspendServiceConnection_enc m)) buf)"
  unfolding suspendServiceConnection_dataToBuffer_def
  by (rule to_lawI [OF _ suspendServiceConnection_size assms], unfold suspendServiceConnection_enc_def,
      (rule writes_intros refl | rule writes_Cons | (rule FromDouble_total, simp)
        | simp add: codec_simps)+)

lemma suspendServiceConnection_from:
  assumes "dataSize m0 = suspendServiceConnection_dataSize m"
  shows "suspendServiceConnection_dataFromBuffer m0 (pre @ suspendServiceConnection_enc m @ post) (length pre) (suspendServiceConnection_dataSize m) = Some (True, suspendServiceConnection_withData m0 m)"
proof -
  have n: "unat (suspendServiceConnection_dataSize m) = length (suspendServiceConnection_enc m)"
    using suspendServiceConnection_small [of m] by (simp add: suspendServiceConnection_size unat_of_nat_lt)
  show ?thesis
    unfolding suspendServiceConnection_dataFromBuffer_def suspendServiceConnection_withData_def
    by (rule from_lawI [where D = "suspendServiceConnection_enc m"], unfold suspendServiceConnection_enc_def,
        (rule parses_intros refl n [unfolded suspendServiceConnection_enc_def] assms [symmetric] | rule parses_Cons
          | simp add: codec_simps)+)
qed

interpretation suspendServiceConnection: typed_message suspendServiceConnection_dataSize suspendServiceConnection_dataFromBuffer
  suspendServiceConnection_dataToBuffer suspendServiceConnection_enc suspendServiceConnection_withData
  by unfold_locales (fact suspendServiceConnection_size suspendServiceConnection_small suspendServiceConnection_to suspendServiceConnection_from)+

section \<open>TerminateServiceConnectionMessage\<close>

record TerminateServiceConnectionMessage = JausHeader +
  terminateServiceConnection_serviceConnectionCommandCode :: u16
  terminateServiceConnection_instanceId :: u8

definition terminateServiceConnection_dataInitialize ::
    "TerminateServiceConnectionMessage \<Rightarrow> TerminateServiceConnectionMessage" where
  "terminateServiceConnection_dataInitialize m =
     m\<lparr>properties := (properties m)\<lparr>scFlag := 1\<rparr>,
        terminateServiceConnection_serviceConnectionCommandCode := newJausUnsignedShort 0,
        terminateServiceConnection_instanceId := newJausByte 0\<rparr>"

definition terminateServiceConnection_dataSize :: "TerminateServiceConnectionMessage \<Rightarrow> u32" where
  "terminateServiceConnection_dataSize m =
     3"

definition terminateServiceConnection_dataFromBuffer ::
    "TerminateServiceConnectionMessage \<Rightarrow> bytes \<Rightarrow> nat \<Rightarrow> u32 \<Rightarrow> (bool \<times> TerminateServiceConnectionMessage) exec" where
  "terminateServiceConnection_dataFromBuffer m buffer off n =
     (if n = dataSize m then finishR (runStmts
        [getUShort (\<lambda>v m. m\<lparr>terminateServiceConnection_serviceConnectionCommandCode := v\<rparr>) buffer off n,
         getByte (\<lambda>v m. m\<lparr>terminateServiceConnection_instanceId := v\<rparr>) buffer off n] (0, m))
      else Some (False, m))"

definition terminateServiceConnection_dataToBuffer ::
    "TerminateServiceConnectionMessage \<Rightarrow> bytes \<Rightarrow> nat \<Rightarrow> u32 \<Rightarrow> (nat \<times> bytes) exec" where
  "terminateServiceConnection_dataToBuffer m buffer off n =
     (if terminateServiceConnection_dataSize m \<le> n then finishW (runStmts
        [putUShort (Some (terminateServiceConnection_serviceConnectionCommandCode m)) off n,
         putByte (Some (terminateServiceConnection_instanceId m)) off n] (0, buffer))
      else Some (0, buffer))"

definition terminateServiceConnectionMessageCreate :: TerminateServiceConnectionMessage where
  "terminateServiceConnectionMessageCreate =
     (terminateServiceConnection_dataInitialize (JausHeader.extend (blankHeader JAUS_TERMINATE_SERVICE_CONNECTION 3)
        (TerminateServiceConnectionMessage.fields 0 0)))"

definition terminateServiceConnectionMessageFromBuffer ::
    "TerminateServiceConnectionMessage \<Rightarrow> bytes \<Rightarrow> u32 \<Rightarrow> (bool \<times> TerminateServiceConnectionMessage) exec" where
  "terminateServiceConnectionMessageFromBuffer =
     messageFromBuffer terminateServiceConnection_dataFromBuffer"

definition terminateServiceConnectionMessageSize :: "TerminateServiceConnectionMessage \<Rightarrow> u32" where
  "terminateServiceConnectionMessageSize = messageSize terminateServiceConnection_dataSize"

definition terminateServiceConnectionMessageToBuffer ::
    "TerminateServiceConnectionMessage \<Rightarrow> bytes \<Rightarrow> u32 \<Rightarrow> (bool \<times> TerminateServiceConnectionMessage \<times> bytes) exec" where
  "terminateServiceConnectionMessageToBuffer =
     messageToBuffer terminateServiceConnection_dataSize terminateServiceConnection_dataToBuffer"

definition terminateServiceConnectionMessageFromJausMessage ::
    "TerminateServiceConnectionMessage \<Rightarrow> JausMessage \<Rightarrow> TerminateServiceConnectionMessage option exec" where
  "terminateServiceConnectionMessageFromJausMessage =
     messageFromJausMessage JAUS_TERMINATE_SERVICE_CONNECTION terminateServiceConnection_dataFromBuffer"

definition terminateServiceConnectionMessageToJausMessage ::
    "TerminateServiceConnectionMessage \<Rightarrow> JausMessage exec" where
  "terminateServiceConnectionMessageToJausMessage =
     messageToJausMessage terminateServiceConnection_dataSize terminateServiceConnection_dataToBuffer"

definition terminateServiceConnection_enc :: "TerminateServiceConnectionMessage \<Rightarrow> bytes" where
  "terminateServiceConnection_enc m =
     bytesOfWord 2 (terminateServiceConnection_serviceConnectionCommandCode m) @
     [terminateServiceConnection_instanceId m]"

definition terminateServiceConnection_withData :: "TerminateServiceConnectionMessage \<Rightarrow> TerminateServiceConnectionMessage \<Rightarrow> TerminateServiceConnectionMessage" where
  "terminateServiceConnection_withData m0 m =
     m0\<lparr>terminateServiceConnection_serviceConnectionCommandCode := terminateServiceConnection_serviceConnectionCommandCode m,
        terminateServiceConnection_instanceId := terminateServiceConnection_instanceId m\<rparr>"

lemma terminateServiceConnection_size: "terminateServiceConnection_dataSize m = of_nat (length (terminateServiceConnection_enc m))"
  by (simp add: terminateServiceConnection_dataSize_def terminateServiceConnection_enc_def)

lemma terminateServiceConnection_small: "length (terminateServiceConnection_enc m) < 4096"
  unfolding terminateServiceConnection_enc_def by (rule enc_small, (rule length_bounds)+, simp)

lemma terminateServiceConnection_to:
  assumes "off + length (terminateServiceConnection_enc m) \<le> length buf" "length (terminateServiceConnection_enc m) \<le> unat n"
  shows "terminateServiceConnection_dataToBuffer m buf off n =
    Some (length (terminateServiceConnection_enc m), take off buf @ terminateServiceConnection_enc m @ drop (off + length (terminateServiceConnection_enc m)) buf)"
  unfolding terminateServiceConnection_dataToBuffer_def
  by (rule to_lawI [OF _ terminateServiceConnection_size assms], unfold terminateServiceConnection_enc_def,
      (rule writes_intros refl | rule writes_Cons | (rule FromDouble_total, simp)
        | simp add: codec_simps)+)

lemma terminateServiceConnection_from:
  assumes "dataSize m0 = terminateServiceConnection_dataSize m"
  shows "terminateServiceConnection_dataFromBuffer m0 (pre @ terminateServiceConnection_enc m @ post) (length pre) (terminateServiceConnection_dataSize m) = Some (True, terminateServiceConnection_withData m0 m)"
proof -
  have n: "unat (terminateServiceConnection_dataSize m) = length (terminateServiceConnection_enc m)"
    using terminateServiceConnection_small [of m] by (simp add: terminateServiceConnection_size unat_of_nat_lt)
  show ?thesis
    unfolding terminateServiceConnection_dataFromBuffer_def terminateServiceConnection_withData_def
    by (rule from_lawI [where D = "terminateServiceConnection_enc m"], unfold terminateServiceConnection_enc_def,
        (rule parses_intros refl n [unfolded terminateServiceConnection_enc_def] assms [symmetric] | rule parses_Cons
          | simp add: codec_simps)+)
qed

interpretation terminateServiceConnection: typed_message terminateServiceConnection_dataSize terminateServiceConnection_dataFromBuffer
  terminateServiceConnection_dataToBuffer terminateServiceConnection_enc terminateServiceConnection_withData
  by unfold_locales (fact terminateServiceConnection_size terminateServiceConnection_small terminateServiceConnection_to terminateServiceConnection_from)+

section \<open>ReportComponentAuthorityMessage\<close>

record ReportComponentAuthorityMessage = JausHeader +
  reportComponentAuthority_authorityCode :: u8

definition reportComponentAuthority_dataInitialize ::
    "ReportComponentAuthorityMessage \<Rightarrow> ReportComponentAuthorityMessage" where
  "reportComponentAuthority_dataInitialize m =
     m\<lparr>reportComponentAuthority_authorityCode := newJausByte 0\<rparr>"

definition reportComponentAuthority_dataSize :: "ReportComponentAuthorityMessage \<Rightarrow> u32" where
  "reportComponentAuthority_dataSize m =
     1"

definition reportComponentAuthority_dataFromBuffer ::
    "ReportComponentAuthorityMessage \<Rightarrow> bytes \<Rightarrow> nat \<Rightarrow> u32 \<Rightarrow> (bool \<times> ReportComponentAuthorityMessage) exec" where
  "reportComponentAuthority_dataFromBuffer m buffer off n =
     (if n = dataSize m then finishR (runStmts
        [getByte (\<lambda>v m. m\<lparr>reportComponentAuthority_authorityCode := v\<rparr>) buffer off n] (0, m))
      else Some (False, m))"

definition reportComponentAuthority_dataToBuffer ::
    "ReportComponentAuthorityMessage \<Rightarrow> bytes \<Rightarrow> nat \<Rightarrow> u32 \<Rightarrow> (nat \<times> bytes) exec" where
  "reportComponentAuthority_dataToBuffer m buffer off n =
     (if reportComponentAuthority_dataSize m \<le> n then finishW (runStmts
        [putByte (Some (reportComponentAuthority_authorityCode m)) off n] (0, buffer))
      else Some (0, buffer))"

definition reportComponentAuthorityMessageCreate :: ReportComponentAuthorityMessage where
  "reportComponentAuthorityMessageCreate =
     (reportComponentAuthority_dataInitialize (JausHeader.extend (blankHeader JAUS_REPORT_COMPONENT_AUTHORITY 1)
        (ReportComponentAuthorityMessage.fields 0)))"

definition reportComponentAuthorityMessageFromBuffer ::
    "ReportComponentAuthorityMessage \<Rightarrow> bytes \<Rightarrow> u32 \<Rightarrow> (bool \<times> ReportComponentAuthorityMessage) exec" where
  "reportComponentAuthorityMessageFromBuffer =
     messageFromBuffer reportComponentAuthority_dataFromBuffer"

definition reportComponentAuthorityMessageSize :: "ReportComponentAuthorityMessage \<Rightarrow> u32" where
  "reportComponentAuthorityMessageSize = messageSize reportComponentAuthority_dataSize"

definition reportComponentAuthorityMessageToBuffer ::
    "ReportComponentAuthorityMessage \<Rightarrow> bytes \<Rightarrow> u32 \<Rightarrow> (bool \<times> ReportComponentAuthorityMessage \<times> bytes) exec" where
  "reportComponentAuthorityMessageToBuffer =
     messageToBuffer reportComponentAuthority_dataSize reportComponentAuthority_dataToBuffer"

definition reportComponentAuthorityMessageFromJausMessage ::
    "ReportComponentAuthorityMessage \<Rightarrow> JausMessage \<Rightarrow> ReportComponentAuthorityMessage option exec" where
  "reportComponentAuthorityMessageFromJausMessage =
     messageFromJausMessage JAUS_REPORT_COMPONENT_AUTHORITY reportComponentAuthority_dataFromBuffer"

definition reportComponentAuthorityMessageToJausMessage ::
    "ReportComponentAuthorityMessage \<Rightarrow> JausMessage exec" where
  "reportComponentAuthorityMessageToJausMessage =
     messageToJausMessage reportComponentAuthority_dataSize reportComponentAuthority_dataToBuffer"

definition reportComponentAuthority_enc :: "ReportComponentAuthorityMessage \<Rightarrow> bytes" where
  "reportComponentAuthority_enc m =
     [reportComponentAuthority_authorityCode m]"

definition reportComponentAuthority_withData :: "ReportComponentAuthorityMessage \<Rightarrow> ReportComponentAuthorityMessage \<Rightarrow> ReportComponentAuthorityMessage" where
  "reportComponentAuthority_withData m0 m =
     m0\<lparr>reportComponentAuthority_authorityCode := reportComponentAuthority_authorityCode m\<rparr>"

lemma reportComponentAuthority_size: "reportComponentAuthority_dataSize m = of_nat (length (reportComponentAuthority_enc m))"
  by (simp add: reportComponentAuthority_dataSize_def reportComponentAuthority_enc_def)

lemma reportComponentAuthority_small: "length (reportComponentAuthority_enc m) < 4096"
  unfolding reportComponentAuthority_enc_def by (rule enc_small, (rule length_bounds)+, simp)

lemma reportComponentAuthority_to:
  assumes "off + length (reportComponentAuthority_enc m) \<le> length buf" "length (reportComponentAuthority_enc m) \<le> unat n"
  shows "reportComponentAuthority_dataToBuffer m buf off n =
    Some (length (reportComponentAuthority_enc m), take off buf @ reportComponentAuthority_enc m @ drop (off + length (reportComponentAuthority_enc m)) buf)"
  unfolding reportComponentAuthority_dataToBuffer_def
  by (rule to_lawI [OF _ reportComponentAuthority_size assms], unfold reportComponentAuthority_enc_def,
      (rule writes_intros refl | rule writes_Cons | (rule FromDouble_total, simp)
        | simp add: codec_simps)+)

lemma reportComponentAuthority_from:
  assumes "dataSize m0 = reportComponentAuthority_dataSize m"
  shows "reportComponentAuthority_dataFromBuffer m0 (pre @ reportComponentAuthority_enc m @ post) (length pre) (reportComponentAuthority_dataSize m) = Some (True, reportComponentAuthority_withData m0 m)"
proof -
  have n: "unat (reportComponentAuthority_dataSize m) = length (reportComponentAuthority_enc m)"
    using reportComponentAuthority_small [of m] by (simp add: reportComponentAuthority_size unat_of_nat_lt)
  show ?thesis
    unfolding reportComponentAuthority_dataFromBuffer_def reportComponentAuthority_withData_def
    by (rule from_lawI [where D = "reportComponentAuthority_enc m"], unfold reportComponentAuthority_enc_def,
        (rule parses_intros refl n [unfolded reportComponentAuthority_enc_def] assms [symmetric] | rule parses_Cons
          | simp add: codec_simps)+)
qed

interpretation reportComponentAuthority: typed_message reportComponentAuthority_dataSize reportComponentAuthority_dataFromBuffer
  reportComponentAuthority_dataToBuffer reportComponentAuthority_enc reportComponentAuthority_withData
  by unfold_locales (fact reportComponentAuthority_size reportComponentAuthority_small reportComponentAuthority_to reportComponentAuthority_from)+

section \<open>ReportComponentControlMessage\<close>

record ReportComponentControlMessage = JausHeader +
  reportComponentControl_subsystemId :: u8
  reportComponentControl_nodeId :: u8
  reportComponentControl_componentId :: u8
  reportComponentControl_instanceId :: u8
  reportComponentControl_authorityCode :: u8

definition reportComponentControl_dataInitialize ::
    "ReportComponentControlMessage \<Rightarrow> ReportComponentControlMessage" where
  "reportComponentControl_dataInitialize m =
     m\<lparr>reportComponentControl_subsystemId := newJausByte 0,
        reportComponentControl_nodeId := newJausByte 0,
        reportComponentControl_componentId := newJausByte 0,
        reportComponentControl_instanceId := newJausByte 0,
        reportComponentControl_authorityCode := newJausByte 0\<rparr>"

definition reportComponentControl_dataSize :: "ReportComponentControlMessage \<Rightarrow> u32" where
  "reportComponentControl_dataSize m =
     5"

definition reportComponentControl_dataFromBuffer ::
    "ReportComponentControlMessage \<Rightarrow> bytes \<Rightarrow> nat \<Rightarrow> u32 \<Rightarrow> (bool \<times> ReportComponentControlMessage) exec" where
  "reportComponentControl_dataFromBuffer m buffer off n =
     (if n = dataSize m then finishR (runStmts
        [getByte (\<lambda>v m. m\<lparr>reportComponentControl_subsystemId := v\<rparr>) buffer off n,
         getByte (\<lambda>v m. m\<lparr>reportComponentControl_nodeId := v\<rparr>) buffer off n,
         getByte (\<lambda>v m. m\<lparr>reportComponentControl_componentId := v\<rparr>) buffer off n,
         getByte (\<lambda>v m. m\<lparr>reportComponentControl_instanceId := v\<rparr>) buffer off n,
         getByte (\<lambda>v m. m\<lparr>reportComponentControl_authorityCode := v\<rparr>) buffer off n] (0, m))
      else Some (False, m))"

definition reportComponentControl_dataToBuffer ::
    "ReportComponentControlMessage \<Rightarrow> bytes \<Rightarrow> nat \<Rightarrow> u32 \<Rightarrow> (nat \<times> bytes) exec" where
  "reportComponentControl_dataToBuffer m buffer off n =
     (if reportComponentControl_dataSize m \<le> n then finishW (runStmts
        [putByte (Some (reportComponentControl_subsystemId m)) off n,
         putByte (Some (reportComponentControl_nodeId m)) off n,
         putByte (Some (reportComponentControl_componentId m)) off n,
         putByte (Some (reportComponentControl_instanceId m)) off n,
         putByte (Some (reportComponentControl_authorityCode m)) off n] (0, buffer))
      else Some (0, buffer))"

definition reportComponentControlMessageCreate :: ReportComponentControlMessage where
  "reportComponentControlMessageCreate =
     (reportComponentControl_dataInitialize (JausHeader.extend (blankHeader JAUS_REPORT_COMPONENT_CONTROL 5)
        (ReportComponentControlMessage.fields 0 0 0 0 0)))"

definition reportComponentControlMessageFromBuffer ::
    "ReportComponentControlMessage \<Rightarrow> bytes \<Rightarrow> u32 \<Rightarrow> (bool \<times> ReportComponentControlMessage) exec" where
  "reportComponentControlMessageFromBuffer =
     messageFromBuffer reportComponentControl_dataFromBuffer"

definition reportComponentControlMessageSize :: "ReportComponentControlMessage \<Rightarrow> u32" where
  "reportComponentControlMessageSize = messageSize reportComponentControl_dataSize"

definition reportComponentControlMessageToBuffer ::
    "ReportComponentControlMessage \<Rightarrow> bytes \<Rightarrow> u32 \<Rightarrow> (bool \<times> ReportComponentControlMessage \<times> bytes) exec" where
  "reportComponentControlMessageToBuffer =
     messageToBuffer reportComponentControl_dataSize reportComponentControl_dataToBuffer"

definition reportComponentControlMessageFromJausMessage ::
    "ReportComponentControlMessage \<Rightarrow> JausMessage \<Rightarrow> ReportComponentControlMessage option exec" where
  "reportComponentControlMessageFromJausMessage =
     messageFromJausMessage JAUS_REPORT_COMPONENT_CONTROL reportComponentControl_dataFromBuffer"

definition reportComponentControlMessageToJausMessage ::
    "ReportComponentControlMessage \<Rightarrow> JausMessage exec" where
  "reportComponentControlMessageToJausMessage =
     messageToJausMessage reportComponentControl_dataSize reportComponentControl_dataToBuffer"

definition reportComponentControl_enc :: "ReportComponentControlMessage \<Rightarrow> bytes" where
  "reportComponentControl_enc m =
     [reportComponentControl_subsystemId m] @
     [reportComponentControl_nodeId m] @
     [reportComponentControl_componentId m] @
     [reportComponentControl_instanceId m] @
     [reportComponentControl_authorityCode m]"

definition reportComponentControl_withData :: "ReportComponentControlMessage \<Rightarrow> ReportComponentControlMessage \<Rightarrow> ReportComponentControlMessage" where
  "reportComponentControl_withData m0 m =
     m0\<lparr>reportComponentControl_subsystemId := reportComponentControl_subsystemId m,
        reportComponentControl_nodeId := reportComponentControl_nodeId m,
        reportComponentControl_componentId := reportComponentControl_componentId m,
        reportComponentControl_instanceId := reportComponentControl_instanceId m,
        reportComponentControl_authorityCode := reportComponentControl_authorityCode m\<rparr>"

lemma reportComponentControl_size: "reportComponentControl_dataSize m = of_nat (length (reportComponentControl_enc m))"
  by (simp add: reportComponentControl_dataSize_def reportComponentControl_enc_def)

lemma reportComponentControl_small: "length (reportComponentControl_enc m) < 4096"
  unfolding reportComponentControl_enc_def by (rule enc_small, (rule length_bounds)+, simp)

lemma reportComponentControl_to:
  assumes "off + length (reportComponentControl_enc m) \<le> length buf" "length (reportComponentControl_enc m) \<le> unat n"
  shows "reportComponentControl_dataToBuffer m buf off n =
    Some (length (reportComponentControl_enc m), take off buf @ reportComponentControl_enc m @ drop (off + length (reportComponentControl_enc m)) buf)"
  unfolding reportComponentControl_dataToBuffer_def
  by (rule to_lawI [OF _ reportComponentControl_size assms], unfold reportComponentControl_enc_def,
      (rule writes_intros refl | rule writes_Cons | (rule FromDouble_total, simp)
        | simp add: codec_simps)+)

lemma reportComponentControl_from:
  assumes "dataSize m0 = reportComponentControl_dataSize m"
  shows "reportComponentControl_dataFromBuffer m0 (pre @ reportComponentControl_enc m @ post) (length pre) (reportComponentControl_dataSize m) = Some (True, reportComponentControl_withData m0 m)"
proof -
  have n: "unat (reportComponentControl_dataSize m) = length (reportComponentControl_enc m)"
    using reportComponentControl_small [of m] by (simp add: reportComponentControl_size unat_of_nat_lt)
  show ?thesis
    unfolding reportComponentControl_dataFromBuffer_def reportComponentControl_withData_def
    by (rule from_lawI [where D = "reportComponentControl_enc m"], unfold reportComponentControl_enc_def,
        (rule parses_intros refl n [unfolded reportComponentControl_enc_def] assms [symmetric] | rule parses_Cons
          | simp add: codec_simps)+)
qed

interpretation reportComponentControl: typed_message reportComponentControl_dataSize reportComponentControl_dataFromBuffer
  reportComponentControl_dataToBuffer reportComponentControl_enc reportComponentControl_withData
  by unfold_locales (fact reportComponentControl_size reportComponentControl_small reportComponentControl_to reportComponentControl_from)+

section \<open>ReportComponentStatusMessage\<close>

record ReportComponentStatusMessage = JausHeader +
  reportComponentStatus_primaryStatusCode :: int
  reportComponentStatus_secondaryStatusCode :: u32

definition reportComponentStatus_dataInitialize ::
    "ReportComponentStatusMessage \<Rightarrow> ReportComponentStatusMessage" where
  "reportComponentStatus_dataInitialize m =
     m\<lparr>reportComponentStatus_primaryStatusCode := JAUS_UNDEFINED_STATE,
        reportComponentStatus_secondaryStatusCode := newJausUnsignedInteger 0\<rparr>"

definition reportComponentStatus_dataSize :: "ReportComponentStatusMessage \<Rightarrow> u32" where
  "reportComponentStatus_dataSize m =
     5"

definition reportComponentStatus_dataFromBuffer ::
    "ReportComponentStatusMessage \<Rightarrow> bytes \<Rightarrow> nat \<Rightarrow> u32 \<Rightarrow> (bool \<times> ReportComponentStatusMessage) exec" where
  "reportComponentStatus_dataFromBuffer m buffer off n =
     (if n = dataSize m then finishR (runStmts
        [getByte (\<lambda>v m. m\<lparr>reportComponentStatus_primaryStatusCode := uint v\<rparr>) buffer off n,
         getUInteger (\<lambda>v m. m\<lparr>reportComponentStatus_secondaryStatusCode := v\<rparr>) buffer off n] (0, m))
      else Some (False, m))"

definition reportComponentStatus_dataToBuffer ::
    "ReportComponentStatusMessage \<Rightarrow> bytes \<Rightarrow> nat \<Rightarrow> u32 \<Rightarrow> (nat \<times> bytes) exec" where
  "reportComponentStatus_dataToBuffer m buffer off n =
     (if reportComponentStatus_dataSize m \<le> n then finishW (runStmts
        [putByte (Some (word_of_int (reportComponentStatus_primaryStatusCode m))) off n,
         putUInteger (Some (reportComponentStatus_secondaryStatusCode m)) off n] (0, buffer))
      else Some (0, buffer))"

definition reportComponentStatusMessageCreate :: ReportComponentStatusMessage where
  "reportComponentStatusMessageCreate =
     (reportComponentStatus_dataInitialize (JausHeader.extend (blankHeader JAUS_REPORT_COMPONENT_STATUS 5)
        (ReportComponentStatusMessage.fields 0 0)))"

definition reportComponentStatusMessageFromBuffer ::
    "ReportComponentStatusMessage \<Rightarrow> bytes \<Rightarrow> u32 \<Rightarrow> (bool \<times> ReportComponentStatusMessage) exec" where
  "reportComponentStatusMessageFromBuffer =
     messageFromBuffer reportComponentStatus_dataFromBuffer"

definition reportComponentStatusMessageSize :: "ReportComponentStatusMessage \<Rightarrow> u32" where
  "reportComponentStatusMessageSize = messageSize reportComponentStatus_dataSize"

definition reportComponentStatusMessageToBuffer ::
    "ReportComponentStatusMessage \<Rightarrow> bytes \<Rightarrow> u32 \<Rightarrow> (bool \<times> ReportComponentStatusMessage \<times> bytes) exec" where
  "reportComponentStatusMessageToBuffer =
     messageToBuffer reportComponentStatus_dataSize reportComponentStatus_dataToBuffer"

definition reportComponentStatusMessageFromJausMessage ::
    "ReportComponentStatusMessage \<Rightarrow> JausMessage \<Rightarrow> ReportComponentStatusMessage option exec" where
  "reportComponentStatusMessageFromJausMessage =
     messageFromJausMessage JAUS_REPORT_COMPONENT_STATUS reportComponentStatus_dataFromBuffer"

definition reportComponentStatusMessageToJausMessage ::
    "ReportComponentStatusMessage \<Rightarrow> JausMessage exec" where
  "reportComponentStatusMessageToJausMessage =
     messageToJausMessage reportComponentStatus_dataSize reportComponentStatus_dataToBuffer"

definition reportComponentStatus_enc :: "ReportComponentStatusMessage \<Rightarrow> bytes" where
  "reportComponentStatus_enc m =
     [word_of_int (reportComponentStatus_primaryStatusCode m)] @
     bytesOfWord 4 (reportComponentStatus_secondaryStatusCode m)"

definition reportComponentStatus_withData :: "ReportComponentStatusMessage \<Rightarrow> ReportComponentStatusMessage \<Rightarrow> ReportComponentStatusMessage" where
  "reportComponentStatus_withData m0 m =
     m0\<lparr>reportComponentStatus_primaryStatusCode := uint (word_of_int (reportComponentStatus_primaryStatusCode m) :: u8),
        reportComponentStatus_secondaryStatusCode := reportComponentStatus_secondaryStatusCode m\<rparr>"

lemma reportComponentStatus_size: "reportComponentStatus_dataSize m = of_nat (length (reportComponentStatus_enc m))"
  by (simp add: reportComponentStatus_dataSize_def reportComponentStatus_enc_def)

lemma reportComponentStatus_small: "length (reportComponentStatus_enc m) < 4096"
  unfolding reportComponentStatus_enc_def by (rule enc_small, (rule length_bounds)+, simp)

lemma reportComponentStatus_to:
  assumes "off + length (reportComponentStatus_enc m) \<le> length buf" "length (reportComponentStatus_enc m) \<le> unat n"
  shows "reportComponentStatus_dataToBuffer m buf off n =
    Some (length (reportComponentStatus_enc m), take off buf @ reportComponentStatus_enc m @ drop (off + length (reportComponentStatus_enc m)) buf)"
  unfolding reportComponentStatus_dataToBuffer_def
  by (rule to_lawI [OF _ reportComponentStatus_size assms], unfold reportComponentStatus_enc_def,
      (rule writes_intros refl | rule writes_Cons | (rule FromDouble_total, simp)
        | simp add: codec_simps)+)

lemma reportComponentStatus_from:
  assumes "dataSize m0 = reportComponentStatus_dataSize m"
  shows "reportComponentStatus_dataFromBuffer m0 (pre @ reportComponentStatus_enc m @ post) (length pre) (reportComponentStatus_dataSize m) = Some (True, reportComponentStatus_withData m0 m)"
proof -
  have n: "unat (reportComponentStatus_dataSize m) = length (reportComponentStatus_enc m)"
    using reportComponentStatus_small [of m] by (simp add: reportComponentStatus_size unat_of_nat_lt)
  show ?thesis
    unfolding reportComponentStatus_dataFromBuffer_def reportComponentStatus_withData_def
    by (rule from_lawI [where D = "reportComponentStatus_enc m"], unfold reportComponentStatus_enc_def,
        (rule parses_intros refl n [unfolded reportComponentStatus_enc_def] assms [symmetric] | rule parses_Cons
          | simp add: codec_simps)+)
qed

interpretation reportComponentStatus: typed_message reportComponentStatus_dataSize reportComponentStatus_dataFromBuffer
  reportComponentStatus_dataToBuffer reportComponentStatus_enc reportComponentStatus_withData
  by unfold_locales (fact reportComponentStatus_size reportComponentStatus_small reportComponentStatus_to reportComponentStatus_from)+

section \<open>QueryComponentAuthorityMessage\<close>

type_synonym QueryComponentAuthorityMessage = JausHeader

definition queryComponentAuthorityMessageCreate :: QueryComponentAuthorityMessage where
  "queryComponentAuthorityMessageCreate =
     (noData_dataInitialize (blankHeader JAUS_QUERY_COMPONENT_AUTHORITY 0))"

definition queryComponentAuthorityMessageFromBuffer ::
    "QueryComponentAuthorityMessage \<Rightarrow> bytes \<Rightarrow> u32 \<Rightarrow> (bool \<times> QueryComponentAuthorityMessage) exec" where
  "queryComponentAuthorityMessageFromBuffer =
     messageFromBuffer noData_dataFromBuffer"

definition queryComponentAuthorityMessageToBuffer ::
    "QueryComponentAuthorityMessage \<Rightarrow> bytes \<Rightarrow> u32 \<Rightarrow> (bool \<times> QueryComponentAuthorityMessage \<times> bytes) exec" where
  "queryComponentAuthorityMessageToBuffer =
     messageToBuffer noData_dataSize noData_dataToBuffer"

definition queryComponentAuthorityMessageFromJausMessage ::
    "QueryComponentAuthorityMessage \<Rightarrow> JausMessage \<Rightarrow> QueryComponentAuthorityMessage option exec" where
  "queryComponentAuthorityMessageFromJausMessage =
     messageFromJausMessage JAUS_QUERY_COMPONENT_AUTHORITY noData_dataFromBuffer"

definition queryComponentAuthorityMessageToJausMessage ::
    "QueryComponentAuthorityMessage \<Rightarrow> JausMessage exec" where
  "queryComponentAuthorityMessageToJausMessage =
     messageToJausMessage noData_dataSize noData_dataToBuffer"

definition queryComponentAuthorityMessageSize ::
    "QueryComponentAuthorityMessage \<Rightarrow> u32" where
  "queryComponentAuthorityMessageSize =
     messageSize noData_dataSize"

section \<open>QueryComponentControlMessage\<close>

type_synonym QueryComponentControlMessage = JausHeader

definition queryComponentControlMessageCreate :: QueryComponentControlMessage where
  "queryComponentControlMessageCreate =
     (noData_dataInitialize (blankHeader JAUS_QUERY_COMPONENT_CONTROL 0))"

definition queryComponentControlMessageFromBuffer ::
    "QueryComponentControlMessage \<Rightarrow> bytes \<Rightarrow> u32 \<Rightarrow> (bool \<times> QueryComponentControlMessage) exec" where
  "queryComponentControlMessageFromBuffer =
     messageFromBuffer noData_dataFromBuffer"

definition queryComponentControlMessageToBuffer ::
    "QueryComponentControlMessage \<Rightarrow> bytes \<Rightarrow> u32 \<Rightarrow> (bool \<times> QueryComponentControlMessage \<times> bytes) exec" where
  "queryComponentControlMessageToBuffer =
     messageToBuffer noData_dataSize noData_dataToBuffer"

definition queryComponentControlMessageFromJausMessage ::
    "QueryComponentControlMessage \<Rightarrow> JausMessage \<Rightarrow> QueryComponentControlMessage option exec" where
  "queryComponentControlMessageFromJausMessage =
     messageFromJausMessage JAUS_QUERY_COMPONENT_CONTROL noData_dataFromBuffer"

definition queryComponentControlMessageToJausMessage ::
    "QueryComponentControlMessage \<Rightarrow> JausMessage exec" where
  "queryComponentControlMessageToJausMessage =
     messageToJausMessage noData_dataSize noData_dataToBuffer"

definition queryComponentControlMessageSize ::
    "QueryComponentControlMessage \<Rightarrow> u32" where
  "queryComponentControlMessageSize =
     messageSize noData_dataSize"

section \<open>QueryComponentStatusMessage\<close>

type_synonym QueryComponentStatusMessage = JausHeader

definition queryComponentStatusMessageCreate :: QueryComponentStatusMessage where
  "queryComponentStatusMessageCreate =
     (noData_dataInitialize (blankHeader JAUS_QUERY_COMPONENT_STATUS 0))"

definition queryComponentStatusMessageFromBuffer ::
    "QueryComponentStatusMessage \<Rightarrow> bytes \<Rightarrow> u32 \<Rightarrow> (bool \<times> QueryComponentStatusMessage) exec" where
  "queryComponentStatusMessageFromBuffer =
     messageFromBuffer noData_dataFromBuffer"

definition queryComponentStatusMessageToBuffer ::
    "QueryComponentStatusMessage \<Rightarrow> bytes \<Rightarrow> u32 \<Rightarrow> (bool \<times> QueryComponentStatusMessage \<times> bytes) exec" where
  "queryComponentStatusMessageToBuffer =
     messageToBuffer noData_dataSize noData_dataToBuffer"

definition queryComponentStatusMessageFromJausMessage ::
    "QueryComponentStatusMessage \<Rightarrow> JausMessage \<Rightarrow> QueryComponentStatusMessage option exec" where
  "queryComponentStatusMessageFromJausMessage =
     messageFromJausMessage JAUS_QUERY_COMPONENT_STATUS noData_dataFromBuffer"

definition queryComponentStatusMessageToJausMessage ::
    "QueryComponentStatusMessage \<Rightarrow> JausMessage exec" where
  "queryComponentStatusMessageToJausMessage =
     messageToJausMessage noData_dataSize noData_dataToBuffer"

definition queryComponentStatusMessageSize ::
    "QueryComponentStatusMessage \<Rightarrow> u32" where
  "queryComponentStatusMessageSize =
     messageSize noData_dataSize"

section \<open>QueryTimeMessage\<close>

record QueryTimeMessage = JausHeader +
  queryTime_presenceVector :: u8

definition queryTime_dataInitialize ::
    "QueryTimeMessage \<Rightarrow> QueryTimeMessage" where
  "queryTime_dataInitialize m =
     m\<lparr>queryTime_presenceVector := newJausByte JAUS_BYTE_PRESENCE_VECTOR_ALL_ON\<rparr>"

definition queryTime_dataSize :: "QueryTimeMessage \<Rightarrow> u32" where
  "queryTime_dataSize m =
     1"

definition queryTime_dataFromBuffer ::
    "QueryTimeMessage \<Rightarrow> bytes \<Rightarrow> nat \<Rightarrow> u32 \<Rightarrow> (bool \<times> QueryTimeMessage) exec" where
  "queryTime_dataFromBuffer m buffer off n =
     (if n = dataSize m then finishR (runStmts
        [getByte (\<lambda>v m. m\<lparr>queryTime_presenceVector := v\<rparr>) buffer off n] (0, m))
      else Some (False, m))"

definition queryTime_dataToBuffer ::
    "QueryTimeMessage \<Rightarrow> bytes \<Rightarrow> nat \<Rightarrow> u32 \<Rightarrow> (nat \<times> bytes) exec" where
  "queryTime_dataToBuffer m buffer off n =
     (if queryTime_dataSize m \<le> n then finishW (runStmts
        [putByte (Some (queryTime_presenceVector m)) off n] (0, buffer))
      else Some (0, buffer))"

definition queryTimeMessageCreate :: QueryTimeMessage where
  "queryTimeMessageCreate =
     (queryTime_dataInitialize (JausHeader.extend (blankHeader JAUS_QUERY_TIME 1)
        (QueryTimeMessage.fields 0)))"

definition queryTimeMessageFromBuffer ::
    "QueryTimeMessage \<Rightarrow> bytes \<Rightarrow> u32 \<Rightarrow> (bool \<times> QueryTimeMessage) exec" where
  "queryTimeMessageFromBuffer =
     messageFromBuffer queryTime_dataFromBuffer"

definition queryTimeMessageSize :: "QueryTimeMessage \<Rightarrow> u32" where
  "queryTimeMessageSize = messageSize queryTime_dataSize"

definition queryTimeMessageToBuffer ::
    "QueryTimeMessage \<Rightarrow> bytes \<Rightarrow> u32 \<Rightarrow> (bool \<times> QueryTimeMessage \<times> bytes) exec" where
  "queryTimeMessageToBuffer =
     messageToBuffer queryTime_dataSize queryTime_dataToBuffer"

definition queryTimeMessageFromJausMessage ::
    "QueryTimeMessage \<Rightarrow> JausMessage \<Rightarrow> QueryTimeMessage option exec" where
  "queryTimeMessageFromJausMessage =
     messageFromJausMessage JAUS_QUERY_TIME queryTime_dataFromBuffer"

definition queryTimeMessageToJausMessage ::
    "QueryTimeMessage \<Rightarrow> JausMessage exec" where
  "queryTimeMessageToJausMessage =
     messageToJausMessage queryTime_dataSize queryTime_dataToBuffer"

definition queryTime_enc :: "QueryTimeMessage \<Rightarrow> bytes" where
  "queryTime_enc m =
     [queryTime_presenceVector m]"

definition queryTime_withData :: "QueryTimeMessage \<Rightarrow> QueryTimeMessage \<Rightarrow> QueryTimeMessage" where
  "queryTime_withData m0 m =
     m0\<lparr>queryTime_presenceVector := queryTime_presenceVector m\<rparr>"

lemma queryTime_size: "queryTime_dataSize m = of_nat (length (queryTime_enc m))"
  by (simp add: queryTime_dataSize_def queryTime_enc_def)

lemma queryTime_small: "length (queryTime_enc m) < 4096"
  unfolding queryTime_enc_def by (rule enc_small, (rule length_bounds)+, simp)

lemma queryTime_to:
  assumes "off + length (queryTime_enc m) \<le> length buf" "length (queryTime_enc m) \<le> unat n"
  shows "queryTime_dataToBuffer m buf off n =
    Some (length (queryTime_enc m), take off buf @ queryTime_enc m @ drop (off + length (queryTime_enc m)) buf)"
  unfolding queryTime_dataToBuffer_def
  by (rule to_lawI [OF _ queryTime_size assms], unfold queryTime_enc_def,
      (rule writes_intros refl | rule writes_Cons | (rule FromDouble_total, simp)
        | simp add: codec_simps)+)

lemma queryTime_from:
  assumes "dataSize m0 = queryTime_dataSize m"
  shows "queryTime_dataFromBuffer m0 (pre @ queryTime_enc m @ post) (length pre) (queryTime_dataSize m) = Some (True, queryTime_withData m0 m)"
proof -
  have n: "unat (queryTime_dataSize m) = length (queryTime_enc m)"
    using queryTime_small [of m] by (simp add: queryTime_size unat_of_nat_lt)
  show ?thesis
    unfolding queryTime_dataFromBuffer_def queryTime_withData_def
    by (rule from_lawI [where D = "queryTime_enc m"], unfold queryTime_enc_def,
        (rule parses_intros refl n [unfolded queryTime_enc_def] assms [symmetric] | rule parses_Cons
          | simp add: codec_simps)+)
qed

interpretation queryTime: typed_message queryTime_dataSize queryTime_dataFromBuffer
  queryTime_dataToBuffer queryTime_enc queryTime_withData
  by unfold_locales (fact queryTime_size queryTime_small queryTime_to queryTime_from)+

end
