(* ===== verification/Queues.thy ===== *)
theory Queues
  imports Prelude
begin

text \<open>
  The FIFO of \<open>openjaus/src/libopenjaus/utils/queue.c\<close>: a singly linked list with a
  pointer to each end. It carries the received messages of a component and the messages of
  each inbound service connection.

  The nodes of a queue are private to it, so the heap is a field of the queue: \<open>nodes\<close> maps
  the address of each live node to its contents, \<open>brk\<close> is the next address the allocator
  hands out, and dereferencing an address that is not live is undefined. The mutex that makes
  each operation atomic is not modelled. The representation invariant \<open>queueRep\<close> ties the
  pointer structure to the list it stands for, and the interface \<open>fifo\<close> is interpreted on it.
\<close>

record 'a QueueObject =
  object :: 'a
  nextObject :: "nat option"

record 'a Queue =
  firstObject :: "nat option"
  lastObject :: "nat option"
  qsize :: int
  nodes :: "nat \<rightharpoonup> 'a QueueObject"
  brk :: nat

definition queueCreate :: "'a Queue" where
  "queueCreate = \<lparr>firstObject = None, lastObject = None, qsize = 0, nodes = Map.empty, brk = 0\<rparr>"

definition queuePopNoLock :: "'a Queue \<Rightarrow> ('a option \<times> 'a Queue) exec" where
  "queuePopNoLock q =
     (case firstObject q of
        Some p \<Rightarrow>
          do { queueObject \<leftarrow> nodes q p;
               let q1 = q\<lparr>firstObject := nextObject queueObject\<rparr>;
               let q2 = (if firstObject q1 = None then q1\<lparr>lastObject := None\<rparr> else q1);
               size' \<leftarrow> cInt (qsize q2 - 1);
               let q3 = q2\<lparr>qsize := size'\<rparr>;
               Some (Some (object queueObject), q3\<lparr>nodes := (nodes q3)(p := None)\<rparr>) }
      | None \<Rightarrow> Some (None, q))"

definition queuePop :: "'a Queue \<Rightarrow> ('a option \<times> 'a Queue) exec" where
  "queuePop q = queuePopNoLock q"

definition queuePush :: "'a Queue \<Rightarrow> 'a \<Rightarrow> 'a Queue exec" where
  "queuePush q obj =
     (let p = brk q;
          q0 = q\<lparr>nodes := (nodes q)(p \<mapsto> \<lparr>object = obj, nextObject = None\<rparr>), brk := brk q + 1\<rparr>;
          q1 = (if firstObject q0 = None then q0\<lparr>firstObject := Some p\<rparr> else q0)
      in do { q2 \<leftarrow> (case lastObject q1 of
                      Some l \<Rightarrow> do { n \<leftarrow> nodes q1 l;
                                    Some (q1\<lparr>nodes := (nodes q1)(l \<mapsto> n\<lparr>nextObject := Some p\<rparr>)\<rparr>) }
                    | None \<Rightarrow> Some q1);
              let q3 = q2\<lparr>lastObject := Some p\<rparr>;
              size' \<leftarrow> cInt (qsize q3 + 1);
              Some (q3\<lparr>qsize := size'\<rparr>) })"

text \<open>
  \<open>queueEmpty\<close> pops while \<open>size\<close> is not zero; the objects handed to the destroy callback are
  collected in order. The loop need not end on a queue whose \<open>size\<close> disagrees with its
  nodes, so that \<^term>\<open>None\<close> also stands for a run that does not return.
\<close>

partial_function (option) queueEmptyLoop :: "'a Queue \<Rightarrow> 'a list \<Rightarrow> ('a list \<times> 'a Queue) option" where
  "queueEmptyLoop q acc =
     (if qsize q = 0 then Some (acc, q)
      else (case queuePopNoLock q of
              None \<Rightarrow> None
            | Some (obj, q') \<Rightarrow>
                queueEmptyLoop q' (case obj of None \<Rightarrow> acc | Some x \<Rightarrow> acc @ [x])))"

definition queueEmpty :: "'a Queue \<Rightarrow> ('a list \<times> 'a Queue) exec" where
  "queueEmpty q = queueEmptyLoop q []"

definition queueDestroy :: "'a Queue option \<Rightarrow> 'a list exec" where
  "queueDestroy q = (case q of None \<Rightarrow> Some [] | Some q \<Rightarrow> map_option fst (queueEmpty q))"

section \<open>Representation\<close>

fun chain :: "(nat \<rightharpoonup> 'a QueueObject) \<Rightarrow> nat option \<Rightarrow> nat list \<Rightarrow> bool" where
  "chain h p [] \<longleftrightarrow> p = None"
| "chain h p (a # as) \<longleftrightarrow> p = Some a \<and> (\<exists>n. h a = Some n \<and> chain h (nextObject n) as)"

definition queueRep :: "'a Queue \<Rightarrow> nat list \<Rightarrow> 'a list \<Rightarrow> bool" where
  "queueRep q as xs \<longleftrightarrow>
     chain (nodes q) (firstObject q) as \<and> distinct as \<and>
     xs = map (\<lambda>a. object (the (nodes q a))) as \<and>
     lastObject q = (if as = [] then None else Some (last as)) \<and>
     length as < 2 ^ 31 \<and> qsize q = int (length as) \<and>
     (\<forall>a. nodes q a \<noteq> None \<longrightarrow> a < brk q)"

text \<open>The list a queue stands for, read by following the links \<open>size\<close> times.\<close>

fun follow :: "(nat \<rightharpoonup> 'a QueueObject) \<Rightarrow> nat option \<Rightarrow> nat \<Rightarrow> 'a list" where
  "follow h p 0 = []"
| "follow h p (Suc k) =
     (case p of None \<Rightarrow> []
      | Some a \<Rightarrow> (case h a of None \<Rightarrow> [] | Some n \<Rightarrow> object n # follow h (nextObject n) k))"

definition queueList :: "'a Queue \<Rightarrow> 'a list" where
  "queueList q = follow (nodes q) (firstObject q) (nat (qsize q))"

definition queueOk :: "'a Queue \<Rightarrow> bool" where
  "queueOk q \<longleftrightarrow> (\<exists>as. queueRep q as (queueList q))"

lemma chain_follow:
  "chain h p as \<Longrightarrow> follow h p (length as) = map (\<lambda>a. object (the (h a))) as"
  by (induction as arbitrary: p) auto

lemma chain_live: "chain h p as \<Longrightarrow> a \<in> set as \<Longrightarrow> \<exists>n. h a = Some n"
  by (induction as arbitrary: p) auto

lemma chain_cong: "(\<And>a. a \<in> set as \<Longrightarrow> h a = h' a) \<Longrightarrow> chain h p as = chain h' p as"
  by (induction as arbitrary: p) auto

lemma chain_snoc:
  assumes "chain h p as" "distinct as" "b \<notin> set as"
  shows "chain (if as = [] then h(b \<mapsto> \<lparr>object = x, nextObject = None\<rparr>)
     else (h(b \<mapsto> \<lparr>object = x, nextObject = None\<rparr>))
            (last as \<mapsto> (the (h (last as)))\<lparr>nextObject := Some b\<rparr>))
     (if as = [] then Some b else p) (as @ [b])"
  using assms
proof (induction as arbitrary: p)
  case Nil
  then show ?case by simp
next
  case (Cons a as)
  then obtain n where n: "p = Some a" "h a = Some n" "chain h (nextObject n) as" by auto
  show ?case
  proof (cases as)
    case Nil
    then show ?thesis using n Cons.prems by auto
  next
    case (Cons c cs)
    have "a \<noteq> last as" "b \<noteq> a" using Cons.prems Cons by auto
    then show ?thesis using Cons.IH [OF n(3)] Cons.prems n Cons by auto
  qed
qed

lemma queueRep_list: "queueRep q as xs \<Longrightarrow> queueList q = xs"
  unfolding queueRep_def queueList_def
  using chain_follow [of "nodes q" "firstObject q" as]
  by simp

lemma queueRep_queueOk: "queueRep q as xs \<Longrightarrow> queueOk q \<and> queueList q = xs"
  using queueRep_list queueOk_def by metis

lemma queueOk_obtain:
  assumes "queueOk q" obtains as where "queueRep q as (queueList q)"
  using assms queueOk_def by blast

lemma queueCreate_rep: "queueRep queueCreate [] []"
  by (simp add: queueRep_def queueCreate_def)

lemma queuePush_rep:
  assumes "queueRep q as xs" "length as < 2 ^ 31 - 1"
  shows "\<exists>q'. queuePush q x = Some q' \<and> queueRep q' (as @ [brk q]) (xs @ [x])"
proof -
  have ch: "chain (nodes q) (firstObject q) as" and di: "distinct as"
    and live: "\<And>a. nodes q a \<noteq> None \<Longrightarrow> a < brk q"
    using assms(1) by (auto simp: queueRep_def)
  have fresh: "nodes q (brk q) = None" using live by force
  then have nb: "brk q \<notin> set as" using chain_live [OF ch] by force
  note snoc = chain_snoc [OF ch di nb, where x = x]
  show ?thesis
  proof (cases "as = []")
    case True
    then show ?thesis
      using assms live fresh
      by (auto simp: queueRep_def queuePush_def Let_def cInt_def less_Suc_eq)
  next
    case False
    then have la: "last as \<in> set as" by simp
    obtain n where n: "nodes q (last as) = Some n" using chain_live [OF ch la] by blast
    have ne: "last as \<noteq> brk q" using nb la by metis
    have fo: "firstObject q \<noteq> None" using ch False by (cases as) auto
    let ?h = "(nodes q)(brk q \<mapsto> \<lparr>object = x, nextObject = None\<rparr>, last as \<mapsto> n\<lparr>nextObject := Some (brk q)\<rparr>)"
    let ?q = "q\<lparr>nodes := ?h, brk := brk q + 1, lastObject := Some (brk q), qsize := qsize q + 1\<rparr>"
    have "queuePush q x = Some ?q"
      using assms False fo n ne by (auto simp: queueRep_def queuePush_def Let_def cInt_def)
    moreover have "chain ?h (firstObject q) (as @ [brk q])"
      using snoc False n by simp
    moreover have "map (\<lambda>a. object (the (?h a))) as = map (\<lambda>a. object (the (nodes q a))) as"
      using nb n by auto
    ultimately show ?thesis
      using assms False nb ne live la di n
      by (auto simp: queueRep_def less_Suc_eq)
  qed
qed

lemma queuePop_rep_empty: "queueRep q [] xs \<Longrightarrow> queuePopNoLock q = Some (None, q)"
  by (auto simp: queueRep_def queuePopNoLock_def)

lemma queuePop_rep:
  assumes "queueRep q (a # as) xs"
  shows "\<exists>q'. queuePopNoLock q = Some (Some (hd xs), q') \<and> queueRep q' as (tl xs)"
proof -
  from assms obtain n where n: "firstObject q = Some a" "nodes q a = Some n"
    and ch: "chain (nodes q) (nextObject n) as"
    by (auto simp: queueRep_def)
  have a: "a \<notin> set as" using assms by (auto simp: queueRep_def)
  have fst: "nextObject n = None \<longleftrightarrow> as = []" using ch by (cases as) auto
  let ?q = "q\<lparr>firstObject := nextObject n, lastObject := (if as = [] then None else lastObject q),
             qsize := qsize q - 1, nodes := (nodes q)(a := None)\<rparr>"
  have "queuePopNoLock q = Some (Some (object n), ?q)"
    using n fst assms by (auto simp: queuePopNoLock_def Let_def cInt_def queueRep_def)
  moreover have "chain ((nodes q)(a := None)) (nextObject n) as"
    using ch a by (subst chain_cong [where h' = "nodes q"]) auto
  moreover have "map (\<lambda>b. object (the (((nodes q)(a := None)) b))) as = map (\<lambda>b. object (the (nodes q b))) as"
    using a by auto
  ultimately show ?thesis
    using assms n a by (auto simp: queueRep_def)
qed

lemma queuePush_ok:
  assumes "queueOk q" "length (queueList q) < 2 ^ 31 - 1"
  shows "\<exists>q'. queuePush q x = Some q' \<and> queueOk q' \<and> queueList q' = queueList q @ [x]"
proof -
  obtain as where as: "queueRep q as (queueList q)" using assms(1) by (rule queueOk_obtain)
  then have "length as = length (queueList q)" by (simp add: queueRep_def)
  with queuePush_rep [OF as, of x] assms(2) obtain q' where
    "queuePush q x = Some q'" "queueRep q' (as @ [brk q]) (queueList q @ [x])"
    by auto
  then show ?thesis using queueRep_queueOk by blast
qed

lemma queuePop_ok:
  assumes "queueOk q"
  shows "\<exists>q'. queuePop q = Some (if queueList q = [] then None else Some (hd (queueList q)), q') \<and>
     queueOk q' \<and> queueList q' = tl (queueList q)"
proof -
  obtain as where as: "queueRep q as (queueList q)" using assms by (rule queueOk_obtain)
  then have len: "length as = length (queueList q)" by (simp add: queueRep_def)
  show ?thesis
  proof (cases as)
    case Nil
    then have "queueList q = []" using len by simp
    then show ?thesis using queuePop_rep_empty [of q] as Nil assms by (simp add: queuePop_def)
  next
    case (Cons a bs)
    then have "queueList q \<noteq> []" using len by auto
    moreover obtain q' where "queuePopNoLock q = Some (Some (hd (queueList q)), q')"
      "queueRep q' bs (tl (queueList q))"
      using queuePop_rep as Cons by blast
    ultimately show ?thesis using queueRep_queueOk [of q' bs] by (auto simp: queuePop_def)
  qed
qed

lemma qsize_ok: "queueOk q \<Longrightarrow> qsize q = int (length (queueList q))"
  by (erule queueOk_obtain) (auto simp: queueRep_def)

lemma qsize_zero: "queueOk q \<Longrightarrow> qsize q = 0 \<longleftrightarrow> queueList q = []"
  using qsize_ok [of q] by auto

lemma queueEmptyLoop_ok:
  assumes "queueOk q"
  shows "\<exists>q'. queueEmptyLoop q acc = Some (acc @ queueList q, q') \<and> queueOk q' \<and> queueList q' = []"
  using assms
proof (induction "length (queueList q)" arbitrary: q acc)
  case 0
  then show ?case by (subst queueEmptyLoop.simps) (simp add: qsize_zero)
next
  case (Suc k)
  then have ne: "queueList q \<noteq> []" by auto
  with queuePop_ok [OF Suc.prems] obtain q1 where
    q1: "queuePopNoLock q = Some (Some (hd (queueList q)), q1)" "queueOk q1"
    "queueList q1 = tl (queueList q)"
    by (auto simp: queuePop_def)
  have "k = length (queueList q1)" using Suc.hyps(2) q1(3) by simp
  from Suc.hyps(1) [OF this q1(2), of "acc @ [hd (queueList q)]"] obtain q' where
    "queueEmptyLoop q1 (acc @ [hd (queueList q)]) = Some (acc @ queueList q, q')"
    "queueOk q'" "queueList q' = []"
    using q1(3) ne by auto
  then show ?case
    using q1(1) ne Suc.prems by (subst queueEmptyLoop.simps) (simp add: qsize_zero)
qed

lemma queueEmpty_ok:
  "queueOk q \<Longrightarrow> \<exists>q'. queueEmpty q = Some (queueList q, q') \<and> queueOk q' \<and> queueList q' = []"
  using queueEmptyLoop_ok [of q "[]"] by (simp add: queueEmpty_def)

lemma queueCreate_ok: "queueOk (queueCreate :: 'a Queue)" "queueList (queueCreate :: 'a Queue) = []"
  using queueRep_queueOk [OF queueCreate_rep] by blast+

section \<open>The queue interface\<close>

text \<open>
  The contract the clients of a queue rely on. The bound on the length is the range of the
  \<open>size\<close> counter, an \<open>int\<close>.
\<close>

locale fifo =
  fixes inv :: "'q \<Rightarrow> bool"
    and contents :: "'q \<Rightarrow> 'a list"
    and create :: 'q
    and push :: "'q \<Rightarrow> 'a \<Rightarrow> 'q exec"
    and pop :: "'q \<Rightarrow> ('a option \<times> 'q) exec"
  assumes create_law: "inv create" "contents create = []"
    and push_law: "inv q \<Longrightarrow> length (contents q) < 2 ^ 31 - 1 \<Longrightarrow>
          \<exists>q'. push q x = Some q' \<and> inv q' \<and> contents q' = contents q @ [x]"
    and pop_law: "inv q \<Longrightarrow>
          \<exists>q'. pop q = Some (if contents q = [] then None else Some (hd (contents q)), q') \<and>
               inv q' \<and> contents q' = tl (contents q)"
begin

fun pushAll :: "'q \<Rightarrow> 'a list \<Rightarrow> 'q exec" where
  "pushAll q [] = Some q"
| "pushAll q (x # xs) = do { q' \<leftarrow> push q x; pushAll q' xs }"

fun popN :: "nat \<Rightarrow> 'q \<Rightarrow> ('a list \<times> 'q) exec" where
  "popN 0 q = Some ([], q)"
| "popN (Suc n) q =
     do { (x, q') \<leftarrow> pop q;
          (xs, q'') \<leftarrow> popN n q';
          Some ((case x of None \<Rightarrow> xs | Some y \<Rightarrow> y # xs), q'') }"

lemma pushAll_law:
  "inv q \<Longrightarrow> length (contents q) + length xs < 2 ^ 31 \<Longrightarrow>
   \<exists>q'. pushAll q xs = Some q' \<and> inv q' \<and> contents q' = contents q @ xs"
proof (induction xs arbitrary: q)
  case Nil
  then show ?case by simp
next
  case (Cons x xs)
  then have "length (contents q) < 2 ^ 31 - 1" by simp
  with push_law [OF Cons.prems(1)] obtain q1 where
    q1: "push q x = Some q1" "inv q1" "contents q1 = contents q @ [x]" by blast
  have "length (contents q1) + length xs < 2 ^ 31" using Cons.prems(2) q1(3) by simp
  from Cons.IH [OF q1(2) this] show ?case using q1 by auto
qed

lemma popN_law:
  "inv q \<Longrightarrow> n \<le> length (contents q) \<Longrightarrow>
   \<exists>q'. popN n q = Some (take n (contents q), q') \<and> inv q' \<and> contents q' = drop n (contents q)"
proof (induction n arbitrary: q)
  case 0
  then show ?case by simp
next
  case (Suc n)
  then obtain y ys where c: "contents q = y # ys" by (cases "contents q") auto
  with pop_law [OF Suc.prems(1)] obtain q1 where
    q1: "pop q = Some (Some y, q1)" "inv q1" "contents q1 = ys" by auto
  with Suc.IH [OF q1(2)] Suc.prems(2) c show ?case by auto
qed

text \<open>First in, first out: what was pushed comes back in the order it was pushed.\<close>

lemma push_pop_order:
  assumes "length xs < 2 ^ 31"
  shows "\<exists>q q'. pushAll create xs = Some q \<and> popN (length xs) q = Some (xs, q') \<and> contents q' = []"
proof -
  have "length (contents create) + length xs < 2 ^ 31" using assms create_law by simp
  from pushAll_law [OF create_law(1) this] obtain q where
    "pushAll create xs = Some q" "inv q" "contents q = xs" using create_law by auto
  with popN_law [of q "length xs"] show ?thesis by auto
qed

end

interpretation oq: fifo queueOk queueList queueCreate queuePush queuePop
  by unfold_locales (simp_all add: queueCreate_ok queuePush_ok queuePop_ok)

section \<open>Properties\<close>

text \<open>
  C40. The linked queue refines a first-in first-out list: on a well-formed queue a push appends,
  a pop takes the head (and reports an empty queue), both keep the queue well-formed, and neither
  touches freed memory.
\<close>

theorem queue_refines_fifo:
  assumes "queueOk q" "length (queueList q) < 2 ^ 31 - 1"
  shows "(\<exists>q'. queuePush q x = Some q' \<and> queueOk q' \<and> queueList q' = queueList q @ [x]) \<and>
     (\<exists>q'. queuePop q = Some (if queueList q = [] then None else Some (hd (queueList q)), q') \<and>
           queueOk q' \<and> queueList q' = tl (queueList q))"
  using oq.push_law [OF assms] oq.pop_law [OF assms(1)] by simp

theorem queue_refines_fifo_witness:
  "\<exists>q'. queuePush queueCreate (5 :: nat) = Some q' \<and> queueOk q' \<and> queueList q' = [5]"
  using queue_refines_fifo [of queueCreate "5 :: nat"] queueCreate_ok [where 'a = nat] by simp

text \<open>
  What is pushed on a fresh queue comes out complete and in the order it went in, and leaves
  the queue empty.
\<close>

theorem queue_order:
  assumes "length xs < 2 ^ 31"
  shows "\<exists>q q'. oq.pushAll queueCreate xs = Some q \<and> oq.popN (length xs) q = Some (xs, q') \<and>
     queueList q' = []"
  by (rule oq.push_pop_order [OF assms])

theorem queue_order_witness:
  "\<exists>q q'. oq.pushAll queueCreate [1, 2, 3 :: nat] = Some q \<and> oq.popN 3 q = Some ([1, 2, 3], q') \<and>
     queueList q' = []"
  using queue_order [of "[1, 2, 3 :: nat]"] by (simp add: numeral_3_eq_3)

text \<open>
  Emptying a queue ends, hands every object to the destroy callback exactly once, in queue
  order, and leaves the queue empty and usable.
\<close>

theorem queueEmpty_terminates:
  assumes "queueOk q"
  shows "\<exists>q'. queueEmpty q = Some (queueList q, q') \<and> queueOk q' \<and> queueList q' = [] \<and>
     queueDestroy (Some q) = Some (queueList q)"
  using queueEmpty_ok [OF assms] by (auto simp: queueDestroy_def)

theorem queueEmpty_terminates_witness:
  "\<exists>q'. queueEmpty (queueCreate :: nat Queue) = Some ([], q') \<and> queueList q' = []"
  using queueEmpty_terminates [of "queueCreate :: nat Queue"] queueCreate_ok [where 'a = nat] by auto

end
