(* ===== verification/Arrays.thy ===== *)
theory Arrays
  imports Prelude
begin

text \<open>
  The growable pointer array of \<open>openjaus/src/libjaus/jausArray.c\<close>, which the large message
  handler, the services and the node tables are built on.

  \<open>elementData\<close> is the allocation: a list of \<open>capacity\<close> slots, \<^term>\<open>None\<close> for a slot that was
  never written. Reading such a slot, or any slot outside the allocation, is undefined. The
  results of the allocator are parameters (\<open>mallocOk\<close>, \<open>reallocOk\<close>). The refinement shows
  that on well-formed arrays the operations are those of a list.
\<close>

record 'a JausArray =
  elementData :: "'a option list"
  capacity :: nat
  capacityIncrement :: nat
  elementCount :: nat

definition jausArrayCreate :: "bool \<Rightarrow> bool \<Rightarrow> 'a JausArray option" where
  "jausArrayCreate mallocOk mallocDataOk =
     (if \<not> mallocOk then None
      else if \<not> mallocDataOk then None
      else Some \<lparr>elementData = replicate 8 None, capacity = 8, capacityIncrement = 8,
                 elementCount = 0\<rparr>)"

definition jausArrayIncrement :: "bool \<Rightarrow> 'a JausArray \<Rightarrow> int \<times> 'a JausArray" where
  "jausArrayIncrement reallocOk a =
     (let newCapacity = capacity a + capacityIncrement a
      in if \<not> reallocOk then (-1, a)
         else (0, a\<lparr>elementData := elementData a @ replicate (newCapacity - capacity a) None,
                    capacity := newCapacity\<rparr>))"

definition jausArrayAdd :: "bool \<Rightarrow> 'a JausArray \<Rightarrow> 'a \<Rightarrow> 'a JausArray exec" where
  "jausArrayAdd reallocOk a element =
     (let a1 = a\<lparr>elementCount := elementCount a + 1\<rparr>;
          a2 = (if elementCount a1 > capacity a1 then snd (jausArrayIncrement reallocOk a1) else a1);
          i = elementCount a2 - 1
      in if i < length (elementData a2)
         then Some (a2\<lparr>elementData := (elementData a2)[i := Some element]\<rparr>)
         else None)"

text \<open>Reading the pointer \<open>elementData[i]\<close>.\<close>

definition slot :: "'a option list \<Rightarrow> nat \<Rightarrow> 'a exec" where
  "slot d i = (if i < length d then d ! i else None)"

fun containsLoop :: "'a option list \<Rightarrow> 'b \<Rightarrow> ('a \<Rightarrow> 'b \<Rightarrow> bool) \<Rightarrow> nat \<Rightarrow> nat \<Rightarrow> int exec" where
  "containsLoop d testElement equals i 0 = Some (-1)"
| "containsLoop d testElement equals i (Suc k) =
     do { e \<leftarrow> slot d i;
          if equals e testElement then Some (int i)
          else containsLoop d testElement equals (i + 1) k }"

definition jausArrayContains :: "'a JausArray \<Rightarrow> 'b \<Rightarrow> ('a \<Rightarrow> 'b \<Rightarrow> bool) \<Rightarrow> int exec" where
  "jausArrayContains a testElement equals =
     containsLoop (elementData a) testElement equals 0 (elementCount a)"

text \<open>The loop that moves the elements behind \<open>index\<close> one slot down.\<close>

fun shiftLoop :: "'a option list \<Rightarrow> nat \<Rightarrow> nat \<Rightarrow> 'a option list exec" where
  "shiftLoop d i 0 = Some d"
| "shiftLoop d i (Suc k) =
     (if i + 1 < length d then shiftLoop (d[i := d ! (i + 1)]) (i + 1) k else None)"

definition jausArrayRemoveAt :: "'a JausArray \<Rightarrow> nat \<Rightarrow> ('a option \<times> 'a JausArray) exec" where
  "jausArrayRemoveAt a index =
     (if elementCount a \<le> index then Some (None, a)
      else do { retValue \<leftarrow> slot (elementData a) index;
                d \<leftarrow> shiftLoop (elementData a) index (elementCount a - 1 - index);
                Some (Some retValue, a\<lparr>elementData := d, elementCount := elementCount a - 1\<rparr>) })"

fun removeLoop :: "'a JausArray \<Rightarrow> 'b \<Rightarrow> ('a \<Rightarrow> 'b \<Rightarrow> bool) \<Rightarrow> nat \<Rightarrow> nat \<Rightarrow> ('a option \<times> 'a JausArray) exec" where
  "removeLoop a testElement equals i 0 = Some (None, a)"
| "removeLoop a testElement equals i (Suc k) =
     do { e \<leftarrow> slot (elementData a) i;
          if equals e testElement then jausArrayRemoveAt a i
          else removeLoop a testElement equals (i + 1) k }"

definition jausArrayRemove :: "'a JausArray \<Rightarrow> 'b \<Rightarrow> ('a \<Rightarrow> 'b \<Rightarrow> bool) \<Rightarrow> ('a option \<times> 'a JausArray) exec" where
  "jausArrayRemove a testElement equals = removeLoop a testElement equals 0 (elementCount a)"

text \<open>
  The destructors walk the elements from the last to the first and hand each to the
  destroy callback: the result is the list of the elements destroyed, in that order.
\<close>

fun destroyLoop :: "'a option list \<Rightarrow> nat \<Rightarrow> 'a list exec" where
  "destroyLoop d 0 = Some []"
| "destroyLoop d (Suc i) = do { e \<leftarrow> slot d i; es \<leftarrow> destroyLoop d i; Some (e # es) }"

definition jausArrayDestroy :: "'a JausArray \<Rightarrow> bool \<Rightarrow> 'a list exec" where
  "jausArrayDestroy a hasDestroy =
     (if hasDestroy then destroyLoop (elementData a) (elementCount a) else Some [])"

definition jausArrayRemoveAll :: "'a JausArray \<Rightarrow> bool \<Rightarrow> ('a list \<times> 'a JausArray) exec" where
  "jausArrayRemoveAll a hasDestroy =
     (if hasDestroy
      then do { es \<leftarrow> destroyLoop (elementData a) (elementCount a);
                Some (es, a\<lparr>elementCount := 0\<rparr>) }
      else Some ([], a))"

section \<open>Well-formedness and abstraction\<close>

definition arrayOk :: "'a JausArray \<Rightarrow> bool" where
  "arrayOk a \<longleftrightarrow> length (elementData a) = capacity a \<and> elementCount a \<le> capacity a \<and>
     0 < capacityIncrement a \<and> (\<forall>x \<in> set (take (elementCount a) (elementData a)). x \<noteq> None)"

definition arrayList :: "'a JausArray \<Rightarrow> 'a list" where
  "arrayList a = map the (take (elementCount a) (elementData a))"

lemma arrayOk_slots:
  assumes "arrayOk a"
  shows "take (elementCount a) (elementData a) = map Some (arrayList a)"
  using assms by (auto simp: arrayOk_def arrayList_def intro!: map_idI [symmetric])

lemma length_arrayList: "arrayOk a \<Longrightarrow> length (arrayList a) = elementCount a"
  by (simp add: arrayOk_def arrayList_def)

lemma arrayOk_split:
  assumes "arrayOk a"
  obtains junk where "elementData a = map Some (arrayList a) @ junk"
    and "elementCount a = length (arrayList a)"
  by (metis append_take_drop_id arrayOk_slots assms length_arrayList)

lemma arrayListI:
  assumes "elementData a = map Some xs @ junk" "elementCount a = length xs"
    "capacity a = length xs + length junk" "0 < capacityIncrement a"
  shows "arrayOk a" "arrayList a = xs"
  using assms by (auto simp: arrayOk_def arrayList_def comp_def)

lemma slot_lt: "i < length xs \<Longrightarrow> slot (map Some xs @ junk) i = Some (xs ! i)"
  by (simp add: slot_def nth_append)

lemma jausArrayCreate_ok:
  assumes "jausArrayCreate ok1 ok2 = Some a"
  shows "arrayOk a" "arrayList a = []"
  using assms by (auto simp: jausArrayCreate_def arrayOk_def arrayList_def split: if_splits)

lemma jausArrayAdd_ok:
  assumes "arrayOk a"
  shows "\<exists>a'. jausArrayAdd True a x = Some a' \<and> arrayOk a' \<and> arrayList a' = arrayList a @ [x]"
proof -
  obtain junk where d: "elementData a = map Some (arrayList a) @ junk"
    and c: "elementCount a = length (arrayList a)"
    using assms by (rule arrayOk_split)
  have cap: "capacity a = length (arrayList a) + length junk" "0 < capacityIncrement a"
    using assms d by (simp_all add: arrayOk_def)
  show ?thesis
  proof (cases junk)
    case Nil
    obtain m where m: "capacityIncrement a = Suc m" using cap(2) gr0_implies_Suc by blast
    show ?thesis
      using d c cap Nil m
      by (auto simp: jausArrayAdd_def jausArrayIncrement_def Let_def list_update_append
          intro!: arrayListI [where xs = "arrayList a @ [x]" and junk = "replicate m None"])
  next
    case (Cons j js)
    then show ?thesis
      using d c cap
      by (auto simp: jausArrayAdd_def Let_def list_update_append
          intro!: arrayListI [where xs = "arrayList a @ [x]" and junk = js])
  qed
qed

lemma containsLoop_eq:
  assumes "i + k = length xs"
  shows "containsLoop (map Some xs @ junk) t eq i k =
    Some (case firstIdx (\<lambda>e. eq e t) (drop i xs) of None \<Rightarrow> - 1 | Some j \<Rightarrow> int (i + j))"
  using assms
proof (induction k arbitrary: i)
  case 0
  then show ?case by simp
next
  case (Suc k)
  then have i: "i < length xs" by simp
  then have dr: "drop i xs = xs ! i # drop (Suc i) xs" by (simp add: Cons_nth_drop_Suc)
  from Suc.prems have IH: "containsLoop (map Some xs @ junk) t eq (Suc i) k =
    Some (case firstIdx (\<lambda>e. eq e t) (drop (Suc i) xs) of None \<Rightarrow> - 1 | Some j \<Rightarrow> int (Suc i + j))"
    by (intro Suc.IH) simp
  show ?case
    by (simp add: slot_lt [OF i] IH dr split: option.split)
qed

lemma jausArrayContains_ok:
  assumes "arrayOk a"
  shows "jausArrayContains a t eq =
    Some (case firstIdx (\<lambda>e. eq e t) (arrayList a) of None \<Rightarrow> - 1 | Some j \<Rightarrow> int j)"
proof -
  obtain junk where "elementData a = map Some (arrayList a) @ junk"
    and "elementCount a = length (arrayList a)"
    using assms by (rule arrayOk_split)
  then show ?thesis
    using containsLoop_eq [of 0 "length (arrayList a)" "arrayList a" junk t eq]
    by (simp add: jausArrayContains_def cong: option.case_cong)
qed

text \<open>After \<open>k\<close> rounds the element at \<open>i\<close> is gone and the last slot of the range is a copy.\<close>

lemma shiftLoop_eq:
  assumes "i + k < length d"
  shows "\<exists>d'. shiftLoop d i k = Some d' \<and> length d' = length d \<and>
     take (i + k) d' = take i d @ take k (drop (Suc i) d)"
  using assms
proof (induction k arbitrary: d i)
  case 0
  then show ?case by simp
next
  case (Suc k)
  let ?d = "d[i := d ! (i + 1)]"
  from Suc.prems have "Suc i + k < length ?d" by simp
  from Suc.IH [OF this] obtain d' where
    d': "shiftLoop ?d (Suc i) k = Some d'" "length d' = length d"
    "take (Suc i + k) d' = take (Suc i) ?d @ take k (drop (Suc (Suc i)) ?d)"
    by auto
  have "take (Suc i) ?d = take i d @ [d ! Suc i]"
    using Suc.prems by (simp add: take_Suc_conv_app_nth)
  moreover have "drop (Suc i) d = d ! Suc i # drop (Suc (Suc i)) d"
    using Suc.prems by (simp add: Cons_nth_drop_Suc)
  ultimately show ?case using d' Suc.prems by simp
qed

lemma jausArrayRemoveAt_ok:
  assumes "arrayOk a" and "i < length (arrayList a)"
  shows "\<exists>a'. jausArrayRemoveAt a i = Some (Some (arrayList a ! i), a') \<and> arrayOk a' \<and>
     arrayList a' = take i (arrayList a) @ drop (Suc i) (arrayList a)"
proof -
  let ?xs = "arrayList a"
  obtain junk where d: "elementData a = map Some ?xs @ junk" and c: "elementCount a = length ?xs"
    using assms(1) by (rule arrayOk_split)
  define k where "k = length ?xs - 1 - i"
  have ik: "i + k = length ?xs - 1" using assms(2) by (simp add: k_def)
  then have "i + k < length (elementData a)" using assms(2) d by simp
  from shiftLoop_eq [OF this] obtain d' where
    d': "shiftLoop (elementData a) i k = Some d'" "length d' = length (elementData a)"
    "take (i + k) d' = take i (elementData a) @ take k (drop (Suc i) (elementData a))"
    by auto
  let ?ys = "take i ?xs @ drop (Suc i) ?xs"
  have "take (i + k) d' = map Some ?ys"
    using d'(3) assms(2) ik d by (simp add: take_map drop_map k_def)
  moreover have "length ?ys = i + k" using assms(2) ik by simp
  ultimately have "d' = map Some ?ys @ drop (i + k) d'"
    by (metis append_take_drop_id)
  let ?a = "a\<lparr>elementData := d', elementCount := length ?xs - 1\<rparr>"
  have "capacity a = length ?xs + length junk" "0 < capacityIncrement a"
    using assms(1) d by (simp_all add: arrayOk_def)
  then have "arrayOk ?a" "arrayList ?a = ?ys"
    using \<open>d' = _\<close> \<open>length ?ys = i + k\<close> ik d d'(2) assms(2)
    by (auto intro!: arrayListI [where junk = "drop (i + k) d'"] simp del: map_append)
  moreover have "slot (elementData a) i = Some (?xs ! i)" using assms(2) d by (simp only: slot_lt)
  then have "jausArrayRemoveAt a i = Some (Some (?xs ! i), ?a)"
    using assms(2) c d'(1) by (simp add: jausArrayRemoveAt_def k_def)
  ultimately show ?thesis by blast
qed

lemma removeLoop_eq:
  assumes "arrayOk a" and "i + k = length (arrayList a)"
  shows "\<exists>a'. removeLoop a t eq i k = Some (find (\<lambda>e. eq e t) (drop i (arrayList a)), a') \<and>
     arrayOk a' \<and> arrayList a' = take i (arrayList a) @ removeFirst (\<lambda>e. eq e t) (drop i (arrayList a))"
  using assms(2)
proof (induction k arbitrary: i)
  case 0
  then show ?case using assms(1) by simp
next
  case (Suc k)
  let ?xs = "arrayList a"
  obtain junk where d: "elementData a = map Some ?xs @ junk"
    using assms(1) by (rule arrayOk_split)
  have i: "i < length ?xs" using Suc.prems by simp
  have dr: "drop i ?xs = ?xs ! i # drop (Suc i) ?xs" using i by (simp add: Cons_nth_drop_Suc)
  have sl: "slot (elementData a) i = Some (?xs ! i)" using i d by (simp only: slot_lt)
  show ?case
  proof (cases "eq (?xs ! i) t")
    case True
    then show ?thesis using jausArrayRemoveAt_ok [OF assms(1) i] sl dr by simp
  next
    case False
    have "Suc i + k = length ?xs" using Suc.prems by simp
    from Suc.IH [OF this] show ?thesis
      using False sl dr i by (auto simp: take_Suc_conv_app_nth)
  qed
qed

lemma jausArrayRemove_ok:
  assumes "arrayOk a"
  shows "\<exists>a'. jausArrayRemove a t eq = Some (find (\<lambda>e. eq e t) (arrayList a), a') \<and>
     arrayOk a' \<and> arrayList a' = removeFirst (\<lambda>e. eq e t) (arrayList a)"
  using removeLoop_eq [OF assms, of 0 "length (arrayList a)" t eq] length_arrayList [OF assms]
  by (simp add: jausArrayRemove_def)

lemma destroyLoop_eq:
  "i \<le> length xs \<Longrightarrow> destroyLoop (map Some xs @ junk) i = Some (rev (take i xs))"
  by (induction i) (auto simp: slot_lt take_Suc_conv_app_nth)

lemma jausArrayRemoveAll_ok:
  assumes "arrayOk a"
  shows "\<exists>a'. jausArrayRemoveAll a True = Some (rev (arrayList a), a') \<and> arrayOk a' \<and> arrayList a' = []"
proof -
  let ?a = "a\<lparr>elementCount := 0\<rparr>"
  obtain junk where d: "elementData a = map Some (arrayList a) @ junk"
    and c: "elementCount a = length (arrayList a)"
    using assms by (rule arrayOk_split)
  have "destroyLoop (elementData a) (elementCount a) = Some (rev (arrayList a))"
    unfolding c by (subst d) (simp add: destroyLoop_eq)
  then have "jausArrayRemoveAll a True = Some (rev (arrayList a), ?a)"
    by (simp add: jausArrayRemoveAll_def)
  moreover have "arrayOk ?a" "arrayList ?a = []"
    using assms by (simp_all add: arrayOk_def arrayList_def)
  ultimately show ?thesis by blast
qed

section \<open>The array interface\<close>

text \<open>
  What a client of the array relies on: each operation succeeds on a well-formed array,
  keeps it well-formed and acts on the abstract list as stated.
\<close>

locale list_array =
  fixes ok :: "'r \<Rightarrow> bool"
    and abs :: "'r \<Rightarrow> 'a list"
    and add :: "'r \<Rightarrow> 'a \<Rightarrow> 'r exec"
    and contains :: "'r \<Rightarrow> 'a \<Rightarrow> ('a \<Rightarrow> 'a \<Rightarrow> bool) \<Rightarrow> int exec"
    and remove :: "'r \<Rightarrow> 'a \<Rightarrow> ('a \<Rightarrow> 'a \<Rightarrow> bool) \<Rightarrow> ('a option \<times> 'r) exec"
  assumes add_law: "ok a \<Longrightarrow> \<exists>a'. add a x = Some a' \<and> ok a' \<and> abs a' = abs a @ [x]"
    and contains_law: "ok a \<Longrightarrow> contains a t eq =
          Some (case firstIdx (\<lambda>e. eq e t) (abs a) of None \<Rightarrow> - 1 | Some j \<Rightarrow> int j)"
    and remove_law: "ok a \<Longrightarrow> \<exists>a'. remove a t eq = Some (find (\<lambda>e. eq e t) (abs a), a') \<and>
          ok a' \<and> abs a' = removeFirst (\<lambda>e. eq e t) (abs a)"
begin

lemma add_eq_Some: "ok a \<Longrightarrow> add a x = Some a' \<Longrightarrow> ok a' \<and> abs a' = abs a @ [x]"
  using add_law [of a x] by auto

lemma contains_absent: "ok a \<Longrightarrow> contains a t eq = Some (- 1) \<longleftrightarrow> (\<forall>e \<in> set (abs a). \<not> eq e t)"
  by (auto simp: contains_law firstIdx_None [symmetric] split: option.splits)

text \<open>An element that was added is found, wherever the array grew in between.\<close>

lemma add_contains:
  assumes "ok a" "add a x = Some a'" "eq x t"
  shows "\<exists>i. contains a' t eq = Some (int i)"
proof -
  from add_eq_Some [OF assms(1,2)] have "ok a'" "x \<in> set (abs a')" by auto
  with assms(3) have "firstIdx (\<lambda>e. eq e t) (abs a') \<noteq> None"
    by (auto simp: firstIdx_None)
  with \<open>ok a'\<close> show ?thesis by (auto simp: contains_law)
qed

lemma remove_returns:
  assumes "ok a" "remove a t eq = Some (r, a')"
  shows "r = find (\<lambda>e. eq e t) (abs a)" "ok a'" "abs a' = removeFirst (\<lambda>e. eq e t) (abs a)"
  using remove_law [OF assms(1), of t eq] assms(2) by auto

end

interpretation arr: list_array arrayOk arrayList "jausArrayAdd True" jausArrayContains jausArrayRemove
  by unfold_locales (simp_all add: jausArrayAdd_ok jausArrayContains_ok jausArrayRemove_ok)

section \<open>Properties\<close>

text \<open>
  The growable array refines a list: adding appends (growing the allocation when it is full),
  searching gives the first match, removing gives and deletes the first match and keeps the order
  of the others, and emptying destroys every element; every operation succeeds on a well-formed
  array and keeps it well-formed.
\<close>

theorem array_refines_list:
  assumes "arrayOk a"
  shows "(\<exists>a'. jausArrayAdd True a x = Some a' \<and> arrayOk a' \<and> arrayList a' = arrayList a @ [x]) \<and>
     jausArrayContains a t eq =
       Some (case firstIdx (\<lambda>e. eq e t) (arrayList a) of None \<Rightarrow> - 1 | Some j \<Rightarrow> int j) \<and>
     (\<exists>a'. jausArrayRemove a t eq = Some (find (\<lambda>e. eq e t) (arrayList a), a') \<and> arrayOk a' \<and>
           arrayList a' = removeFirst (\<lambda>e. eq e t) (arrayList a)) \<and>
     (\<exists>a'. jausArrayRemoveAll a True = Some (rev (arrayList a), a') \<and> arrayOk a' \<and> arrayList a' = [])"
  by (intro conjI jausArrayAdd_ok jausArrayContains_ok jausArrayRemove_ok jausArrayRemoveAll_ok assms)

theorem array_refines_list_witness:
  "\<exists>a a'. jausArrayCreate True True = Some a \<and> jausArrayAdd True a (3 :: nat) = Some a' \<and>
     arrayList a' = [3]"
proof -
  obtain a :: "nat JausArray" where a: "jausArrayCreate True True = Some a"
    by (simp add: jausArrayCreate_def)
  then show ?thesis using array_refines_list [of a 3 "0 :: nat" "(=)"] jausArrayCreate_ok [OF a] by auto
qed

end
