(* ===== verification/ListCodec.thy ===== *)
theory ListCodec
  imports MessageCodes
begin

text \<open>
  Statements of the marshalling routines that work on lists: assignments, \<open>for\<close> loops over a
  count that was read before, and loops over the elements of a list; with the rules that carry
  them along a wire image.

  A \<open>JausArray\<close> that a routine only creates, adds to and walks is modelled by the list of its
  elements; the refinement of the theory \<open>Arrays\<close> justifies it.
\<close>

section \<open>Statements\<close>

definition assignS :: "('m \<Rightarrow> 'm) \<Rightarrow> (nat \<times> 'm) stmt" where
  "assignS f = (\<lambda>(i, m). Next (i, f m))"

fun iterS :: "nat \<Rightarrow> 's stmt list \<Rightarrow> 's stmt" where
  "iterS 0 cs s = Next s"
| "iterS (Suc k) cs s =
     (case runStmts cs s of Fault \<Rightarrow> Fault | Return t \<Rightarrow> Return t | Next t \<Rightarrow> iterS k cs t)"

text \<open>\<open>for(j = 0; j < count; j++)\<close>, where the body does not change the count.\<close>

definition repeatS :: "('m \<Rightarrow> u8) \<Rightarrow> (nat \<times> 'm) stmt list \<Rightarrow> (nat \<times> 'm) stmt" where
  "repeatS count cs = (\<lambda>(i, m). iterS (unat (count m)) cs (i, m))"

section \<open>Along a wire image\<close>

lemma parses_assign: "parses D [assignS f] rest m rest (f m)"
  by (simp add: parses_def assignS_def)

lemma parses_append:
  "parses D cs r m r1 m1 \<Longrightarrow> parses D ds r1 m1 r2 m2 \<Longrightarrow> parses D (cs @ ds) r m r2 m2"
proof (induction cs arbitrary: r m)
  case Nil
  then show ?case by (auto simp: parses_def)
next
  case (Cons c cs)
  show ?case
    unfolding parses_def
  proof (intro allI impI)
    fix i assume i: "i \<le> length D" "drop i D = r"
    then obtain j where j: "j \<le> length D" "drop j D = r1" "runStmts (c # cs) (i, m) = Next (j, m1)"
      using Cons.prems(1) by (metis parsesD)
    then obtain k where "k \<le> length D" "drop k D = r2" "runStmts ds (j, m1) = Next (k, m2)"
      using Cons.prems(2) by (metis parsesD)
    then show "\<exists>k \<le> length D. drop k D = r2 \<and> runStmts ((c # cs) @ ds) (i, m) = Next (k, m2)"
      using j(3) by (intro exI [of _ k]) (simp add: runStmts_append del: append_Cons runStmts.simps)
  qed
qed

lemma iterS_parses:
  assumes "\<And>x m rest. x \<in> set xs \<Longrightarrow> parses D cs (enc x @ rest) m rest (step x m)"
    "i \<le> length D" "drop i D = concat (map enc xs) @ rest"
  shows "\<exists>j \<le> length D. drop j D = rest \<and> iterS (length xs) cs (i, m) = Next (j, fold step xs m)"
  using assms
proof (induction xs arbitrary: i m)
  case Nil
  then show ?case by simp
next
  case (Cons x xs)
  have "parses D cs (drop i D) m (concat (map enc xs) @ rest) (step x m)"
    using Cons.prems(1) [of x "concat (map enc xs) @ rest" m] Cons.prems(3) by simp
  from parsesD [OF this Cons.prems(2)] obtain j where
    j: "j \<le> length D" "drop j D = concat (map enc xs) @ rest" "runStmts cs (i, m) = Next (j, step x m)" .
  from Cons.IH [OF Cons.prems(1) j(1,2), of "step x m"] j(3) show ?case by simp
qed

lemma parses_repeat:
  assumes "\<And>x m rest. x \<in> set xs \<Longrightarrow> parses D cs (enc x @ rest) m rest (step x m)" "unat (count m) = length xs"
  shows "parses D [repeatS count cs] (concat (map enc xs) @ rest) m rest (fold step xs m)"
  unfolding parses_def runStmts_single repeatS_def
  using iterS_parses [of xs D cs enc step] assms by (simp add: assms(2))

lemma writes_append:
  "writes off n cs bs \<Longrightarrow> writes off n ds bs' \<Longrightarrow> writes off n (cs @ ds) (bs @ bs')"
proof -
  assume w: "writes off n cs bs" "writes off n ds bs'"
  show ?thesis
    unfolding writes_def
  proof (intro allI impI)
    fix i and pre post :: bytes
    assume len: "length pre = off + i" "length (bs @ bs') \<le> length post" "i + length (bs @ bs') \<le> unat n"
    have "runStmts cs (i, pre @ post) = Next (i + length bs, (pre @ bs) @ drop (length bs) post)"
      using writesD [OF w(1), of pre i post] len by simp
    moreover have "runStmts ds (i + length bs, (pre @ bs) @ drop (length bs) post) =
        Next (i + length bs + length bs', (pre @ bs) @ bs' @ drop (length bs') (drop (length bs) post))"
      by (rule writesD [OF w(2)]) (use len in auto)
    ultimately show "runStmts (cs @ ds) (i, pre @ post) =
        Next (i + length (bs @ bs'), pre @ (bs @ bs') @ drop (length (bs @ bs')) post)"
      by (simp add: runStmts_append add.assoc add.commute)
  qed
qed

lemma writes_concat:
  "(\<And>x. x \<in> set xs \<Longrightarrow> writes off n (f x) (enc x)) \<Longrightarrow>
   writes off n (concat (map f xs)) (concat (map enc xs))"
  by (induction xs) (simp_all add: writes_Nil writes_append)

text \<open>The template routines of a message, from the laws of its data routines.\<close>

lemma toJausMessage_lawI:
  assumes "dataTo m (replicate (unat (dSize m)) 0) 0 (dSize m) = Some (length bs, bs)" "dSize m = of_nat (length bs)"
  shows "messageToJausMessage dSize dataTo m =
    Some ((copyHeader m jausMessageCreate)\<lparr>dataSize := dSize m, data := Some bs\<rparr>)"
  using assms by (simp add: messageToJausMessage_def)

end
