(* ===== verification/Services.thy ===== *)
theory Services
  imports ListCodec
begin

text \<open>
  The service descriptions of a component (\<open>openjaus/src/libjaus/jausService.c\<close>) and the message
  that reports them
  (\<open>openjaus/src/libjaus/message/inform/dynamicConfiguration/reportServicesMessage.c\<close>).

  The linked lists of commands are lists; their byte-sized counters are fields of their own, as
  in the source. Memory allocation succeeds.
\<close>

section \<open>Services and commands\<close>

record JausCommand =
  cmdCommandCode :: u16
  cmdPresenceVector :: u32

record JausService =
  serviceType :: u16
  inputCommandList :: "JausCommand list"
  inputCommandCount :: u8
  outputCommandList :: "JausCommand list"
  outputCommandCount :: u8

abbreviation (input) CORE_MESSAGE_SUPPORT :: u16 where "CORE_MESSAGE_SUPPORT \<equiv> 0"
abbreviation (input) NO_PRESENCE_VECTOR :: u32 where "NO_PRESENCE_VECTOR \<equiv> 0"
abbreviation (input) JAUS_BYTE_MAX_VALUE :: u8 where "JAUS_BYTE_MAX_VALUE \<equiv> 255"

definition jausCommandCreate :: JausCommand where
  "jausCommandCreate =
     \<lparr>cmdCommandCode = newJausUnsignedShort 0, cmdPresenceVector = newJausUnsignedInteger 0xFFFFFFFF\<rparr>"

definition jausServiceCreate :: "u16 \<Rightarrow> JausService" where
  "jausServiceCreate type =
     \<lparr>serviceType = type, inputCommandList = [], inputCommandCount = 0,
      outputCommandList = [], outputCommandCount = 0\<rparr>"

text \<open>Whether the command was added, and the service.\<close>

definition jausServiceAddInputCommand :: "JausService \<Rightarrow> u16 \<Rightarrow> u32 \<Rightarrow> bool \<times> JausService" where
  "jausServiceAddInputCommand service code presenceVector =
     (if inputCommandCount service < JAUS_BYTE_MAX_VALUE
      then (let command = jausCommandCreate\<lparr>cmdCommandCode := code, cmdPresenceVector := presenceVector\<rparr>
            in (True, service\<lparr>inputCommandList := inputCommandList service @ [command],
                              inputCommandCount := inputCommandCount service + 1\<rparr>))
      else (False, service))"

definition jausServiceAddOutputCommand :: "JausService \<Rightarrow> u16 \<Rightarrow> u32 \<Rightarrow> bool \<times> JausService" where
  "jausServiceAddOutputCommand service code presenceVector =
     (if outputCommandCount service < JAUS_BYTE_MAX_VALUE
      then (let command = jausCommandCreate\<lparr>cmdCommandCode := code, cmdPresenceVector := presenceVector\<rparr>
            in (True, service\<lparr>outputCommandList := outputCommandList service @ [command],
                              outputCommandCount := outputCommandCount service + 1\<rparr>))
      else (False, service))"

fun jausServiceRetrieveService :: "JausService list \<Rightarrow> u16 \<Rightarrow> JausService option" where
  "jausServiceRetrieveService [] type = None"
| "jausServiceRetrieveService (candidateService # rest) type =
     (if serviceType candidateService = type then Some candidateService
      else jausServiceRetrieveService rest type)"

definition jausServiceAddService :: "JausService list \<Rightarrow> JausService \<Rightarrow> bool \<times> JausService list" where
  "jausServiceAddService jausServices service =
     (case jausServiceRetrieveService jausServices (serviceType service) of
        None \<Rightarrow> (True, jausServices @ [service])
      | Some s \<Rightarrow> (False, jausServices))"

definition coreInputs :: "u16 list" where
  "coreInputs =
     [JAUS_SET_COMPONENT_AUTHORITY, JAUS_SHUTDOWN, JAUS_STANDBY, JAUS_RESUME, JAUS_RESET,
      JAUS_SET_EMERGENCY, JAUS_CLEAR_EMERGENCY, JAUS_CREATE_SERVICE_CONNECTION,
      JAUS_CONFIRM_SERVICE_CONNECTION, JAUS_ACTIVATE_SERVICE_CONNECTION,
      JAUS_SUSPEND_SERVICE_CONNECTION, JAUS_TERMINATE_SERVICE_CONNECTION,
      JAUS_REQUEST_COMPONENT_CONTROL, JAUS_RELEASE_COMPONENT_CONTROL,
      JAUS_CONFIRM_COMPONENT_CONTROL, JAUS_REJECT_COMPONENT_CONTROL,
      JAUS_QUERY_COMPONENT_AUTHORITY, JAUS_QUERY_COMPONENT_STATUS,
      JAUS_REPORT_COMPONENT_AUTHORITY, JAUS_REPORT_COMPONENT_STATUS,
      JAUS_QUERY_IDENTIFICATION, JAUS_REPORT_CONFIGURATION, JAUS_REPORT_SERVICES]"

definition coreOutputs :: "u16 list" where
  "coreOutputs =
     [JAUS_CREATE_SERVICE_CONNECTION, JAUS_CONFIRM_SERVICE_CONNECTION,
      JAUS_TERMINATE_SERVICE_CONNECTION, JAUS_CONFIRM_COMPONENT_CONTROL,
      JAUS_REJECT_COMPONENT_CONTROL, JAUS_REPORT_COMPONENT_AUTHORITY, JAUS_REPORT_COMPONENT_STATUS,
      JAUS_REPORT_IDENTIFICATION, JAUS_QUERY_CONFIGURATION, JAUS_QUERY_SERVICES]"

definition jausServiceAddCoreServices :: "JausService list \<Rightarrow> bool \<times> JausService list" where
  "jausServiceAddCoreServices jausServices =
     (let service = jausServiceCreate CORE_MESSAGE_SUPPORT;
          service1 = fold (\<lambda>c s. snd (jausServiceAddInputCommand s c NO_PRESENCE_VECTOR)) coreInputs service;
          service2 = fold (\<lambda>c s. snd (jausServiceAddOutputCommand s c NO_PRESENCE_VECTOR)) coreOutputs service1
      in jausServiceAddService jausServices service2)"

text \<open>
  Cloning. A command that cannot be added makes the clone fail (\<^term>\<open>None\<close> is the return value
  NULL); a service whose type the clone has already is not added again.
\<close>

fun cloneCommands :: "(JausService \<Rightarrow> u16 \<Rightarrow> u32 \<Rightarrow> bool \<times> JausService) \<Rightarrow> JausCommand list \<Rightarrow> JausService \<Rightarrow> JausService option" where
  "cloneCommands add [] service = Some service"
| "cloneCommands add (sourceCommand # rest) service =
     (case add service (cmdCommandCode sourceCommand) (cmdPresenceVector sourceCommand) of
        (ok, service') \<Rightarrow> if ok then cloneCommands add rest service' else None)"

fun cloneServices :: "JausService list \<Rightarrow> JausService list \<Rightarrow> JausService list option" where
  "cloneServices destinationServices [] = Some destinationServices"
| "cloneServices destinationServices (sourceService # rest) =
     do { s1 \<leftarrow> cloneCommands jausServiceAddInputCommand (inputCommandList sourceService)
                 (jausServiceCreate (serviceType sourceService));
          s2 \<leftarrow> cloneCommands jausServiceAddOutputCommand (outputCommandList sourceService) s1;
          cloneServices (snd (jausServiceAddService destinationServices s2)) rest }"

definition jausServicesClone :: "JausService list \<Rightarrow> JausService list option" where
  "jausServicesClone sourceServices = cloneServices [] sourceServices"

section \<open>ReportServicesMessage\<close>

record ReportServicesMessage = JausHeader +
  reportServices_jausServices :: "JausService list"

definition reportServices_dataInitialize :: "ReportServicesMessage \<Rightarrow> ReportServicesMessage" where
  "reportServices_dataInitialize m = m\<lparr>reportServices_jausServices := []\<rparr>"

text \<open>The local variables of \<open>dataFromBuffer\<close>, with the array of the message.\<close>

record ServicesLocals =
  rsServices :: "JausService list"
  rsServiceCount :: u8
  rsMessageCount :: u8
  rsType :: u16
  rsService :: JausService
  rsCommandCode :: u16
  rsPresenceVector :: u32

definition readCommands ::
    "(JausService \<Rightarrow> u16 \<Rightarrow> u32 \<Rightarrow> bool \<times> JausService) \<Rightarrow> bytes \<Rightarrow> nat \<Rightarrow> u32 \<Rightarrow> (nat \<times> ServicesLocals) stmt" where
  "readCommands add buffer off n =
     repeatS rsMessageCount
       [getUShort (\<lambda>v l. l\<lparr>rsCommandCode := v\<rparr>) buffer off n,
        getUInteger (\<lambda>v l. l\<lparr>rsPresenceVector := v\<rparr>) buffer off n,
        assignS (\<lambda>l. l\<lparr>rsService := snd (add (rsService l) (rsCommandCode l) (rsPresenceVector l))\<rparr>)]"

definition readService :: "bytes \<Rightarrow> nat \<Rightarrow> u32 \<Rightarrow> (nat \<times> ServicesLocals) stmt list" where
  "readService buffer off n =
     [getUShort (\<lambda>v l. l\<lparr>rsType := v\<rparr>) buffer off n,
      assignS (\<lambda>l. l\<lparr>rsService := jausServiceCreate (rsType l)\<rparr>),
      getByte (\<lambda>v l. l\<lparr>rsMessageCount := v\<rparr>) buffer off n,
      readCommands jausServiceAddInputCommand buffer off n,
      getByte (\<lambda>v l. l\<lparr>rsMessageCount := v\<rparr>) buffer off n,
      readCommands jausServiceAddOutputCommand buffer off n,
      assignS (\<lambda>l. l\<lparr>rsServices := rsServices l @ [rsService l]\<rparr>)]"

definition reportServices_dataFromBuffer ::
    "ReportServicesMessage \<Rightarrow> bytes \<Rightarrow> nat \<Rightarrow> u32 \<Rightarrow> (bool \<times> ReportServicesMessage) exec" where
  "reportServices_dataFromBuffer m buffer off n =
     (if n = dataSize m
      then map_option (\<lambda>(ok, l). (ok, m\<lparr>reportServices_jausServices := rsServices l\<rparr>))
        (finishR (runStmts
          [getByte (\<lambda>v l. l\<lparr>rsServiceCount := v\<rparr>) buffer off n,
           assignS (\<lambda>l. l\<lparr>rsServices := []\<rparr>),
           repeatS rsServiceCount (readService buffer off n)]
          (0, \<lparr>rsServices = reportServices_jausServices m, rsServiceCount = 0, rsMessageCount = 0, rsType = 0,
               rsService = jausServiceCreate 0, rsCommandCode = 0, rsPresenceVector = 0\<rparr>)))
      else Some (False, m))"

definition reportServices_dataSize :: "ReportServicesMessage \<Rightarrow> u32" where
  "reportServices_dataSize m =
     1 + sum_list (map (\<lambda>service. 2 + 1 + of_nat (length (inputCommandList service)) * (2 + 4) +
                                  1 + of_nat (length (outputCommandList service)) * (2 + 4))
            (reportServices_jausServices m))"

definition putCommand :: "nat \<Rightarrow> u32 \<Rightarrow> JausCommand \<Rightarrow> (nat \<times> bytes) stmt list" where
  "putCommand off n command =
     [putUShort (Some (cmdCommandCode command)) off n, putUInteger (Some (cmdPresenceVector command)) off n]"

definition putService :: "nat \<Rightarrow> u32 \<Rightarrow> JausService \<Rightarrow> (nat \<times> bytes) stmt list" where
  "putService off n service =
     [putUShort (Some (serviceType service)) off n, putByte (Some (inputCommandCount service)) off n] @
     concat (map (putCommand off n) (inputCommandList service)) @
     [putByte (Some (outputCommandCount service)) off n] @
     concat (map (putCommand off n) (outputCommandList service))"

definition reportServices_dataToBuffer ::
    "ReportServicesMessage \<Rightarrow> bytes \<Rightarrow> nat \<Rightarrow> u32 \<Rightarrow> (nat \<times> bytes) exec" where
  "reportServices_dataToBuffer m buffer off n =
     (if reportServices_dataSize m \<le> n then finishW (runStmts
        ([putByte (Some (of_nat (length (reportServices_jausServices m)))) off n] @
         concat (map (putService off n) (reportServices_jausServices m))) (0, buffer))
      else Some (0, buffer))"

definition reportServicesMessageCreate :: ReportServicesMessage where
  "reportServicesMessageCreate =
     (let m = reportServices_dataInitialize (JausHeader.extend (blankHeader JAUS_REPORT_SERVICES 512000)
                (ReportServicesMessage.fields []))
      in m\<lparr>dataSize := reportServices_dataSize m\<rparr>)"

definition reportServicesMessageFromBuffer ::
    "ReportServicesMessage \<Rightarrow> bytes \<Rightarrow> u32 \<Rightarrow> (bool \<times> ReportServicesMessage) exec" where
  "reportServicesMessageFromBuffer = messageFromBuffer reportServices_dataFromBuffer"

definition reportServicesMessageSize :: "ReportServicesMessage \<Rightarrow> u32" where
  "reportServicesMessageSize = messageSize reportServices_dataSize"

definition reportServicesMessageToBuffer ::
    "ReportServicesMessage \<Rightarrow> bytes \<Rightarrow> u32 \<Rightarrow> (bool \<times> ReportServicesMessage \<times> bytes) exec" where
  "reportServicesMessageToBuffer =
     messageToBufferHeaderFirst reportServices_dataSize reportServices_dataToBuffer"

definition reportServicesMessageFromJausMessage ::
    "ReportServicesMessage \<Rightarrow> JausMessage \<Rightarrow> ReportServicesMessage option exec" where
  "reportServicesMessageFromJausMessage =
     messageFromJausMessage JAUS_REPORT_SERVICES reportServices_dataFromBuffer"

definition reportServicesMessageToJausMessage :: "ReportServicesMessage \<Rightarrow> JausMessage exec" where
  "reportServicesMessageToJausMessage =
     messageToJausMessage reportServices_dataSize reportServices_dataToBuffer"

section \<open>Well-formed services\<close>

text \<open>The counters are the lengths of the lists.\<close>

definition serviceOk :: "JausService \<Rightarrow> bool" where
  "serviceOk s \<longleftrightarrow> unat (inputCommandCount s) = length (inputCommandList s) \<and>
     unat (outputCommandCount s) = length (outputCommandList s)"

lemma jausServiceCreate_ok: "serviceOk (jausServiceCreate t)"
  by (simp add: serviceOk_def jausServiceCreate_def)

lemma u8_suc: "(c :: u8) < 255 \<Longrightarrow> unat (c + 1) = Suc (unat c)"
  by (simp add: unat_word_ariths word_less_nat_alt)

lemma addCommand_ok:
  "serviceOk s \<Longrightarrow> serviceOk (snd (jausServiceAddInputCommand s c p))"
  "serviceOk s \<Longrightarrow> serviceOk (snd (jausServiceAddOutputCommand s c p))"
  by (simp_all add: serviceOk_def jausServiceAddInputCommand_def jausServiceAddOutputCommand_def Let_def u8_suc)

lemma length_lt_255: "unat (c :: u8) = n \<Longrightarrow> n < 255 \<Longrightarrow> c < 255"
  by (simp add: word_less_nat_alt)

lemma add_input:
  assumes "serviceOk s" "length (inputCommandList s) < 255"
  shows "jausServiceAddInputCommand s c p =
    (True, s\<lparr>inputCommandList := inputCommandList s @ [\<lparr>cmdCommandCode = c, cmdPresenceVector = p\<rparr>],
             inputCommandCount := inputCommandCount s + 1\<rparr>)"
  using assms length_lt_255
  by (simp add: jausServiceAddInputCommand_def serviceOk_def jausCommandCreate_def Let_def)

lemma add_output:
  assumes "serviceOk s" "length (outputCommandList s) < 255"
  shows "jausServiceAddOutputCommand s c p =
    (True, s\<lparr>outputCommandList := outputCommandList s @ [\<lparr>cmdCommandCode = c, cmdPresenceVector = p\<rparr>],
             outputCommandCount := outputCommandCount s + 1\<rparr>)"
  using assms length_lt_255
  by (simp add: jausServiceAddOutputCommand_def serviceOk_def jausCommandCreate_def Let_def)

lemma serviceOk_lengths:
  "serviceOk s \<Longrightarrow> length (inputCommandList s) \<le> 255" "serviceOk s \<Longrightarrow> length (outputCommandList s) \<le> 255"
  using unsigned_less [of "inputCommandCount s", where 'a = nat] unsigned_less [of "outputCommandCount s", where 'a = nat]
  by (simp_all add: serviceOk_def)

text \<open>Adding the commands of a list one by one, as the clone and the parser do.\<close>

definition withInputs :: "JausService \<Rightarrow> JausCommand list \<Rightarrow> JausService" where
  "withInputs s cs = s\<lparr>inputCommandList := inputCommandList s @ cs, inputCommandCount := inputCommandCount s + of_nat (length cs)\<rparr>"

lemma add_input_command:
  assumes "serviceOk s" "length (inputCommandList s) < 255"
  shows "jausServiceAddInputCommand s (cmdCommandCode c) (cmdPresenceVector c) = (True, withInputs s [c])"
    "serviceOk (withInputs s [c])" "withInputs (withInputs s [c]) cs = withInputs s (c # cs)"
proof -
  show add: "jausServiceAddInputCommand s (cmdCommandCode c) (cmdPresenceVector c) = (True, withInputs s [c])"
    using add_input [OF assms] by (cases c) (simp add: withInputs_def)
  show "serviceOk (withInputs s [c])"
    using addCommand_ok(1) [OF assms(1), of "cmdCommandCode c" "cmdPresenceVector c"] add by simp
  show "withInputs (withInputs s [c]) cs = withInputs s (c # cs)"
    by (simp add: withInputs_def add.assoc)
qed

lemma fold_inputs:
  assumes "serviceOk s" "length (inputCommandList s) + length cs \<le> 255"
  shows "fold (\<lambda>c s. snd (jausServiceAddInputCommand s (cmdCommandCode c) (cmdPresenceVector c))) cs s = withInputs s cs \<and>
    cloneCommands jausServiceAddInputCommand cs s = Some (withInputs s cs)"
  using assms
proof (induction cs arbitrary: s)
  case Nil
  then show ?case by (simp add: withInputs_def)
next
  case (Cons c cs)
  have len: "length (inputCommandList s) < 255" using Cons.prems(2) by simp
  note add = add_input_command [OF Cons.prems(1) len]
  have "length (inputCommandList (withInputs s [c])) + length cs \<le> 255" using Cons.prems(2) by (simp add: withInputs_def)
  from Cons.IH [OF add(2) this] show ?case by (simp add: add(1,3))
qed

definition withOutputs :: "JausService \<Rightarrow> JausCommand list \<Rightarrow> JausService" where
  "withOutputs s cs = s\<lparr>outputCommandList := outputCommandList s @ cs, outputCommandCount := outputCommandCount s + of_nat (length cs)\<rparr>"

lemma add_output_command:
  assumes "serviceOk s" "length (outputCommandList s) < 255"
  shows "jausServiceAddOutputCommand s (cmdCommandCode c) (cmdPresenceVector c) = (True, withOutputs s [c])"
    "serviceOk (withOutputs s [c])" "withOutputs (withOutputs s [c]) cs = withOutputs s (c # cs)"
proof -
  show add: "jausServiceAddOutputCommand s (cmdCommandCode c) (cmdPresenceVector c) = (True, withOutputs s [c])"
    using add_output [OF assms] by (cases c) (simp add: withOutputs_def)
  show "serviceOk (withOutputs s [c])"
    using addCommand_ok(2) [OF assms(1), of "cmdCommandCode c" "cmdPresenceVector c"] add by simp
  show "withOutputs (withOutputs s [c]) cs = withOutputs s (c # cs)"
    by (simp add: withOutputs_def add.assoc)
qed

lemma fold_outputs:
  assumes "serviceOk s" "length (outputCommandList s) + length cs \<le> 255"
  shows "fold (\<lambda>c s. snd (jausServiceAddOutputCommand s (cmdCommandCode c) (cmdPresenceVector c))) cs s = withOutputs s cs \<and>
    cloneCommands jausServiceAddOutputCommand cs s = Some (withOutputs s cs)"
  using assms
proof (induction cs arbitrary: s)
  case Nil
  then show ?case by (simp add: withOutputs_def)
next
  case (Cons c cs)
  have len: "length (outputCommandList s) < 255" using Cons.prems(2) by simp
  note add = add_output_command [OF Cons.prems(1) len]
  have "length (outputCommandList (withOutputs s [c])) + length cs \<le> 255" using Cons.prems(2) by (simp add: withOutputs_def)
  from Cons.IH [OF add(2) this] show ?case by (simp add: add(1,3))
qed

text \<open>A service rebuilt from its type and its commands is the service.\<close>

definition rebuild :: "JausService \<Rightarrow> JausService" where
  "rebuild s =
     fold (\<lambda>c s. snd (jausServiceAddOutputCommand s (cmdCommandCode c) (cmdPresenceVector c))) (outputCommandList s)
       (fold (\<lambda>c s. snd (jausServiceAddInputCommand s (cmdCommandCode c) (cmdPresenceVector c))) (inputCommandList s)
         (jausServiceCreate (serviceType s)))"

lemma rebuild_parts:
  assumes "serviceOk s"
  defines "t \<equiv> (jausServiceCreate (serviceType s))\<lparr>inputCommandList := inputCommandList s, inputCommandCount := inputCommandCount s\<rparr>"
  shows "serviceOk t"
    "fold (\<lambda>c s. snd (jausServiceAddInputCommand s (cmdCommandCode c) (cmdPresenceVector c))) (inputCommandList s)
         (jausServiceCreate (serviceType s)) = t"
    "fold (\<lambda>c s. snd (jausServiceAddOutputCommand s (cmdCommandCode c) (cmdPresenceVector c))) (outputCommandList s) t = s"
    "cloneCommands jausServiceAddInputCommand (inputCommandList s) (jausServiceCreate (serviceType s)) = Some t"
    "cloneCommands jausServiceAddOutputCommand (outputCommandList s) t = Some s"
proof -
  have n: "of_nat (length (inputCommandList s)) = inputCommandCount s" "of_nat (length (outputCommandList s)) = outputCommandCount s"
    using assms(1) unfolding serviceOk_def by (metis of_nat_unat ucast_id)+
  show t: "serviceOk t" using assms(1) by (simp add: serviceOk_def t_def jausServiceCreate_def)
  note len = serviceOk_lengths [OF assms(1)]
  show "fold (\<lambda>c s. snd (jausServiceAddInputCommand s (cmdCommandCode c) (cmdPresenceVector c))) (inputCommandList s)
         (jausServiceCreate (serviceType s)) = t"
    "cloneCommands jausServiceAddInputCommand (inputCommandList s) (jausServiceCreate (serviceType s)) = Some t"
    using fold_inputs [OF jausServiceCreate_ok, of "serviceType s" "inputCommandList s"] n len
    by (simp_all add: t_def jausServiceCreate_def withInputs_def)
  show "fold (\<lambda>c s. snd (jausServiceAddOutputCommand s (cmdCommandCode c) (cmdPresenceVector c))) (outputCommandList s) t = s"
    "cloneCommands jausServiceAddOutputCommand (outputCommandList s) t = Some s"
    using fold_outputs [OF t, of "outputCommandList s"] n len by (simp_all add: t_def jausServiceCreate_def withOutputs_def)
qed

lemma rebuild_id: "serviceOk s \<Longrightarrow> rebuild s = s"
  by (simp add: rebuild_def rebuild_parts)

lemma retrieve_None: "jausServiceRetrieveService l t = None \<longleftrightarrow> t \<notin> serviceType ` set l"
  by (induction l) auto

lemma cloneServices_ok:
  assumes "\<forall>s \<in> set src. serviceOk s" "distinct (map serviceType (dst @ src))"
  shows "cloneServices dst src = Some (dst @ src)"
  using assms
proof (induction src arbitrary: dst)
  case Nil
  then show ?case by simp
next
  case (Cons s src)
  have "jausServiceRetrieveService dst (serviceType s) = None" using Cons.prems(2) by (auto simp: retrieve_None)
  then have "snd (jausServiceAddService dst s) = dst @ [s]" by (simp add: jausServiceAddService_def)
  then show ?case using rebuild_parts(4,5) [of s] Cons.IH [of "dst @ [s]"] Cons.prems by simp
qed

lemma jausServicesClone_ok:
  "\<forall>s \<in> set src. serviceOk s \<Longrightarrow> distinct (map serviceType src) \<Longrightarrow> jausServicesClone src = Some src"
  using cloneServices_ok [of src "[]"] by (simp add: jausServicesClone_def)

section \<open>The report on the wire\<close>

definition commandBytes :: "JausCommand \<Rightarrow> bytes" where
  "commandBytes c = bytesOfWord 2 (cmdCommandCode c) @ bytesOfWord 4 (cmdPresenceVector c)"

definition serviceBytes :: "JausService \<Rightarrow> bytes" where
  "serviceBytes s = bytesOfWord 2 (serviceType s) @ [inputCommandCount s] @ concat (map commandBytes (inputCommandList s)) @
     [outputCommandCount s] @ concat (map commandBytes (outputCommandList s))"

definition servicesBytes :: "JausService list \<Rightarrow> bytes" where
  "servicesBytes l = [of_nat (length l)] @ concat (map serviceBytes l)"

lemma length_commands: "length (concat (map commandBytes cs)) = length cs * 6"
  by (induction cs) (simp_all add: commandBytes_def)

lemma reportServices_size: "reportServices_dataSize m = of_nat (length (servicesBytes (reportServices_jausServices m)))"
proof -
  have "of_nat (length (serviceBytes s)) = (2 + 1 + of_nat (length (inputCommandList s)) * (2 + 4) +
      1 + of_nat (length (outputCommandList s)) * (2 + 4) :: u32)" for s
    by (simp add: serviceBytes_def length_commands)
  then have "sum_list (map (\<lambda>service. 2 + 1 + of_nat (length (inputCommandList service)) * (2 + 4) +
      1 + of_nat (length (outputCommandList service)) * (2 + 4)) l) = (of_nat (length (concat (map serviceBytes l))) :: u32)" for l
    by (induction l) (simp_all del: of_nat_numeral)
  then show ?thesis by (simp add: reportServices_dataSize_def servicesBytes_def)
qed

lemma writes_command: "writes off n (putCommand off n c) (commandBytes c)"
  unfolding putCommand_def commandBytes_def
  by (intro writes_Cons writes_intros refl writes_Cons [where cs' = "[]", unfolded append_Nil2] writes_Nil)

lemma writes_service: "writes off n (putService off n s) (serviceBytes s)"
proof -
  have "writes off n [putUShort (Some (serviceType s)) off n, putByte (Some (inputCommandCount s)) off n]
      (bytesOfWord 2 (serviceType s) @ [inputCommandCount s])"
    by (intro writes_Cons writes_intros refl)
  then have "writes off n (putService off n s)
      ((bytesOfWord 2 (serviceType s) @ [inputCommandCount s]) @ concat (map commandBytes (inputCommandList s)) @
       [outputCommandCount s] @ concat (map commandBytes (outputCommandList s)))"
    unfolding putService_def by (intro writes_append writes_concat writes_command writes_intros refl)
  then show ?thesis by (simp add: serviceBytes_def)
qed

lemma reportServices_to:
  assumes "off + length (servicesBytes (reportServices_jausServices m)) \<le> length buf"
    "length (servicesBytes (reportServices_jausServices m)) \<le> unat n"
  shows "reportServices_dataToBuffer m buf off n =
    Some (length (servicesBytes (reportServices_jausServices m)),
      take off buf @ servicesBytes (reportServices_jausServices m) @ drop (off + length (servicesBytes (reportServices_jausServices m))) buf)"
  unfolding reportServices_dataToBuffer_def
  by (rule to_lawI [OF _ reportServices_size assms], unfold servicesBytes_def)
    (intro writes_append writes_concat writes_service writes_intros refl)

text \<open>What the loops of the parser do to the local variables.\<close>

definition commandStep ::
    "(JausService \<Rightarrow> u16 \<Rightarrow> u32 \<Rightarrow> bool \<times> JausService) \<Rightarrow> JausCommand \<Rightarrow> ServicesLocals \<Rightarrow> ServicesLocals" where
  "commandStep add c l = l\<lparr>rsCommandCode := cmdCommandCode c, rsPresenceVector := cmdPresenceVector c,
     rsService := snd (add (rsService l) (cmdCommandCode c) (cmdPresenceVector c))\<rparr>"

definition serviceStep :: "JausService \<Rightarrow> ServicesLocals \<Rightarrow> ServicesLocals" where
  "serviceStep s l =
     (let l1 = fold (commandStep jausServiceAddInputCommand) (inputCommandList s)
                 (l\<lparr>rsType := serviceType s, rsService := jausServiceCreate (serviceType s), rsMessageCount := inputCommandCount s\<rparr>);
          l2 = fold (commandStep jausServiceAddOutputCommand) (outputCommandList s) (l1\<lparr>rsMessageCount := outputCommandCount s\<rparr>)
      in l2\<lparr>rsServices := rsServices l2 @ [rsService l2]\<rparr>)"

lemma fold_commandStep:
  "rsService (fold (commandStep add) cs l) =
     fold (\<lambda>c s. snd (add s (cmdCommandCode c) (cmdPresenceVector c))) cs (rsService l)"
  "rsServices (fold (commandStep add) cs l) = rsServices l"
  by (induction cs arbitrary: l) (simp_all add: commandStep_def)

lemma serviceStep_services: "rsServices (serviceStep s l) = rsServices l @ [rebuild s]"
  by (simp add: serviceStep_def Let_def fold_commandStep rebuild_def)

lemma fold_serviceStep: "rsServices (fold serviceStep ss l) = rsServices l @ map rebuild ss"
  by (induction ss arbitrary: l) (simp_all add: serviceStep_services)

lemma parses_commands:
  assumes "off = length pre" "unat n = length D" "unat (rsMessageCount l) = length cs"
  shows "parses D [readCommands add (pre @ D @ post) off n] (concat (map commandBytes cs) @ rest) l rest
    (fold (commandStep add) cs l)"
  unfolding readCommands_def
proof (rule parses_repeat)
  show "unat (rsMessageCount l) = length cs" by (rule assms(3))
next
  fix x :: JausCommand and l :: ServicesLocals and rest :: bytes
  let ?l = "l\<lparr>rsCommandCode := cmdCommandCode x, rsPresenceVector := cmdPresenceVector x\<rparr>"
  have "commandStep add x l = ?l\<lparr>rsService := snd (add (rsService ?l) (rsCommandCode ?l) (rsPresenceVector ?l))\<rparr>"
    by (simp add: commandStep_def)
  then show "parses D
      [getUShort (\<lambda>v l. l\<lparr>rsCommandCode := v\<rparr>) (pre @ D @ post) off n,
       getUInteger (\<lambda>v l. l\<lparr>rsPresenceVector := v\<rparr>) (pre @ D @ post) off n,
       assignS (\<lambda>l. l\<lparr>rsService := snd (add (rsService l) (rsCommandCode l) (rsPresenceVector l))\<rparr>)]
      (commandBytes x @ rest) l rest (commandStep add x l)"
    unfolding commandBytes_def append_assoc
    by (simp only:) (rule parses_Cons [OF ushort.parses_get [OF assms(1,2)]],
      rule parses_Cons [OF uinteger.parses_get [OF assms(1,2)]], rule parses_assign)
qed

lemma parses_service:
  assumes "off = length pre" "unat n = length D" "serviceOk s"
  shows "parses D (readService (pre @ D @ post) off n) (serviceBytes s @ rest) l rest (serviceStep s l)"
proof -
  note get = ushort.parses_get [OF assms(1,2)] byte.parses_get [OF assms(1,2)] parses_commands [OF assms(1,2)] parses_assign
  have n: "unat (inputCommandCount s) = length (inputCommandList s)" "unat (outputCommandCount s) = length (outputCommandList s)"
    using assms(3) by (simp_all add: serviceOk_def)
  show ?thesis
    unfolding readService_def serviceBytes_def append_assoc serviceStep_def Let_def
    by (rule parses_Cons, rule get(1), rule parses_Cons, rule parses_assign, rule parses_Cons, rule get(2),
        rule parses_Cons, rule get(3), simp add: n(1), rule parses_Cons, rule get(2), rule parses_Cons,
        rule get(3), simp add: n(2))
      (use parses_assign in \<open>simp\<close>)
qed

text \<open>Services as the application builds them: counters right and no more than a byte can count.\<close>

definition servicesOk :: "JausService list \<Rightarrow> bool" where
  "servicesOk l \<longleftrightarrow> length l \<le> 255 \<and> (\<forall>s \<in> set l. serviceOk s)"

lemma length_serviceBytes: "serviceOk s \<Longrightarrow> length (serviceBytes s) \<le> 3064"
  using serviceOk_lengths [of s] by (simp add: serviceBytes_def length_commands)

lemma servicesBytes_bound:
  assumes "servicesOk l"
  shows "length (servicesBytes l) < 2 ^ 20"
proof -
  have "\<forall>s \<in> set l. serviceOk s \<Longrightarrow> length (concat (map serviceBytes l)) \<le> length l * 3064"
    using length_serviceBytes by (induction l) (fastforce simp: add_mono)+
  then have "length (concat (map serviceBytes l)) \<le> 255 * 3064"
    using assms unfolding servicesOk_def by (meson le_trans mult_le_mono1)
  then show ?thesis by (simp add: servicesBytes_def)
qed

lemma reportServices_from:
  assumes "servicesOk (reportServices_jausServices m)" "dataSize m0 = reportServices_dataSize m"
  shows "reportServices_dataFromBuffer m0 (pre @ servicesBytes (reportServices_jausServices m) @ post) (length pre)
    (reportServices_dataSize m) = Some (True, m0\<lparr>reportServices_jausServices := reportServices_jausServices m\<rparr>)"
proof -
  let ?l = "reportServices_jausServices m" and ?n = "reportServices_dataSize m"
  let ?D = "servicesBytes ?l"
  let ?x = "\<lparr>rsServices = reportServices_jausServices m0, rsServiceCount = 0, rsMessageCount = 0, rsType = 0,
               rsService = jausServiceCreate 0, rsCommandCode = 0, rsPresenceVector = 0\<rparr>"
  let ?y = "?x\<lparr>rsServiceCount := of_nat (length ?l), rsServices := []\<rparr>"
  have n: "unat ?n = length ?D"
    using servicesBytes_bound [OF assms(1)] by (simp add: reportServices_size unat_of_nat_lt)
  have len: "unat (of_nat (length ?l) :: u8) = length ?l"
    using assms(1) by (intro unat_of_nat_lt) (simp add: servicesOk_def)
  have y: "unat (rsServiceCount ?y) = length ?l" using len by simp
  have ok: "serviceOk s" if "s \<in> set ?l" for s using assms(1) that by (simp add: servicesOk_def)
  have D: "?D = [of_nat (length ?l)] @ concat (map serviceBytes ?l) @ []" by (simp add: servicesBytes_def)
  let ?b = "pre @ ?D @ post"
  have loop: "parses ?D [repeatS rsServiceCount (readService ?b (length pre) ?n)] (concat (map serviceBytes ?l) @ []) ?y []
      (fold serviceStep ?l ?y)"
    by (rule parses_repeat, rule parses_service [OF refl n ok], assumption, rule y)
  have "parses ?D [getByte (\<lambda>v l. l\<lparr>rsServiceCount := v\<rparr>) ?b (length pre) ?n, assignS (\<lambda>l. l\<lparr>rsServices := []\<rparr>),
      repeatS rsServiceCount (readService ?b (length pre) ?n)]
     ([of_nat (length ?l)] @ concat (map serviceBytes ?l) @ []) ?x [] (fold serviceStep ?l ?y)"
    by (rule parses_Cons, rule byte.parses_get [OF refl n], rule parses_Cons, rule parses_assign, rule loop)
  note fin = parses_finishR [OF this [folded D]]
  have "rsServices (fold serviceStep ?l ?y) = ?l" using ok by (simp add: fold_serviceStep rebuild_id map_idI)
  then show ?thesis using assms(2) unfolding reportServices_dataFromBuffer_def fin by simp
qed

text \<open>The core services every component of the library announces.\<close>

definition plainCommand :: "u16 \<Rightarrow> JausCommand" where
  "plainCommand c = \<lparr>cmdCommandCode = c, cmdPresenceVector = NO_PRESENCE_VECTOR\<rparr>"

lemma core_services:
  "jausServiceAddCoreServices [] =
    (True, [\<lparr>serviceType = CORE_MESSAGE_SUPPORT, inputCommandList = map plainCommand coreInputs, inputCommandCount = 23,
             outputCommandList = map plainCommand coreOutputs, outputCommandCount = 10\<rparr>])"
proof -
  have f: "fold (\<lambda>c s. snd (add s c NO_PRESENCE_VECTOR)) cs s =
      fold (\<lambda>c s. snd (add s (cmdCommandCode c) (cmdPresenceVector c))) (map plainCommand cs) s"
    for cs :: "u16 list" and s and add :: "JausService \<Rightarrow> u16 \<Rightarrow> u32 \<Rightarrow> bool \<times> JausService"
    by (simp add: fold_map comp_def plainCommand_def)
  have len: "length coreInputs = 23" "length coreOutputs = 10" by (simp_all add: coreInputs_def coreOutputs_def)
  let ?s = "withInputs (jausServiceCreate 0) (map plainCommand coreInputs)"
  have s: "fold (\<lambda>c s. snd (jausServiceAddInputCommand s c NO_PRESENCE_VECTOR)) coreInputs (jausServiceCreate 0) = ?s"
    using fold_inputs [OF jausServiceCreate_ok, of 0 "map plainCommand coreInputs"] len by (simp add: f jausServiceCreate_def)
  have "serviceOk ?s" by (simp add: serviceOk_def withInputs_def jausServiceCreate_def len)
  then have "fold (\<lambda>c s. snd (jausServiceAddOutputCommand s c NO_PRESENCE_VECTOR)) coreOutputs ?s =
      withOutputs ?s (map plainCommand coreOutputs)"
    using fold_outputs [of ?s "map plainCommand coreOutputs"] len by (simp add: f withInputs_def jausServiceCreate_def)
  then show ?thesis
    using len s by (simp add: jausServiceAddCoreServices_def jausServiceAddService_def withOutputs_def withInputs_def
        jausServiceCreate_def)
qed

lemma core_services_ok: "servicesOk (snd (jausServiceAddCoreServices []))"
  by (simp add: core_services servicesOk_def serviceOk_def coreInputs_def coreOutputs_def)

lemma services_jaus:
  assumes "servicesOk (reportServices_jausServices m)" "commandCode m = JAUS_REPORT_SERVICES"
  defines "bs \<equiv> servicesBytes (reportServices_jausServices m)"
  shows "\<exists>jm r. reportServicesMessageToJausMessage m = Some jm \<and>
    jm = (copyHeader m jausMessageCreate)\<lparr>dataSize := reportServices_dataSize m, data := Some bs\<rparr> \<and>
    length (dataBytes jm) = unat (dataSize jm) \<and> reportServicesMessageFromJausMessage junk jm = Some (Some r) \<and>
    reportServices_jausServices r = reportServices_jausServices m \<and> source r = source m \<and> destination r = destination m"
proof -
  have n: "unat (reportServices_dataSize m) = length bs"
    using servicesBytes_bound [OF assms(1)] by (simp add: bs_def reportServices_size unat_of_nat_lt)
  have "reportServices_dataToBuffer m (replicate (unat (reportServices_dataSize m)) 0) 0 (reportServices_dataSize m) =
      Some (length bs, bs)"
    using reportServices_to [of 0 m "replicate (unat (reportServices_dataSize m)) 0" "reportServices_dataSize m"] n
    by (simp add: bs_def)
  note to = toJausMessage_lawI [where dSize = reportServices_dataSize and dataTo = reportServices_dataToBuffer and m = m,
    OF this reportServices_size [of m, folded bs_def]]
  note fr = reportServices_from [OF assms(1), of "copyHeader (m\<lparr>dataSize := reportServices_dataSize m\<rparr>) junk" "[]" "[]"]
  show ?thesis
    using to fr n assms(2)
    by (simp add: reportServicesMessageToJausMessage_def reportServicesMessageFromJausMessage_def
        messageFromJausMessage_def bs_def)
qed

section \<open>Properties\<close>

text \<open>
  C35. The services of a component survive the report: for every list of at most 255 services whose
  counters are right, the generic message a component builds carries exactly the announced number
  of bytes, and the receiver that unpacks it gets the same services with the same input and output commands and
  presence vectors, in the same order; a clone of services with distinct types is equal to the original.
\<close>

theorem services_roundtrip:
  assumes "servicesOk (reportServices_jausServices m)" "commandCode m = JAUS_REPORT_SERVICES"
  shows "(\<exists>jm r. reportServicesMessageToJausMessage m = Some jm \<and> length (dataBytes jm) = unat (dataSize jm) \<and>
       reportServicesMessageFromJausMessage junk jm = Some (Some r) \<and>
       reportServices_jausServices r = reportServices_jausServices m \<and> source r = source m \<and> destination r = destination m) \<and>
     (distinct (map serviceType (reportServices_jausServices m)) \<longrightarrow>
       jausServicesClone (reportServices_jausServices m) = Some (reportServices_jausServices m))"
  using services_jaus [OF assms, of junk] jausServicesClone_ok [of "reportServices_jausServices m"] assms(1)
  by (auto simp: servicesOk_def)

theorem services_roundtrip_witness:
  "\<exists>m jm r. reportServices_jausServices m = snd (jausServiceAddCoreServices []) \<and>
     reportServicesMessageToJausMessage m = Some jm \<and> reportServicesMessageFromJausMessage m jm = Some (Some r) \<and>
     map serviceType (reportServices_jausServices r) = [CORE_MESSAGE_SUPPORT] \<and>
     length (inputCommandList (hd (reportServices_jausServices r))) = 23"
proof -
  let ?m = "reportServicesMessageCreate\<lparr>reportServices_jausServices := snd (jausServiceAddCoreServices [])\<rparr>"
  have "servicesOk (reportServices_jausServices ?m)" using core_services_ok by simp
  moreover have "commandCode ?m = JAUS_REPORT_SERVICES"
    by (simp add: reportServicesMessageCreate_def reportServices_dataInitialize_def blankHeader_def JausHeader.extend_def Let_def)
  ultimately show ?thesis
    using services_roundtrip [of ?m ?m] by (intro exI [of _ ?m]) (auto simp: core_services coreInputs_def)
qed

end
