(* ===== verification/NodeState.thy ===== *)
theory NodeState
  imports CoreMessages Queues Arrays Services
begin

text \<open>
  The state of a component's node manager interface
  (\<open>openjaus/include/openjaus/nodeManagerInterface/nodeManagerInterface.h\<close> and
  \<open>openjaus/include/jaus/jausComponent.h\<close>), shared by the large message handler, the service
  connection manager, the receive path and the default message processor.

  Outbound service connections are owned by the manager and are held by value, in the order of
  their linked list. Inbound service connections belong to the application, which keeps
  pointers to them: they live in the store \<open>scStore\<close>, and \<open>incomingSc\<close> is the list of the
  addresses on the \<open>incomingSc\<close> chain. Dereferencing an address that is not in the store is
  undefined. The back pointer \<open>node\<close> of a component to the tree it belongs to is not a member of
  the record: where it is followed, the subsystem it leads to is an argument of its own. A
  string is the list of its bytes without the terminator, \<^term>\<open>None\<close> is a null pointer.
  The sockets appear as \<open>sent\<close>, the datagrams handed to \<open>sendto\<close> so far; the threads,
  mutexes and condition variables are not modelled.
\<close>

section \<open>Service connections\<close>

record ServiceConnection =
  requestedUpdateRateHz :: real
  confirmedUpdateRateHz :: real
  lastSentTime :: real
  timeoutSec :: real
  nextRequestTimeSec :: real
  scAddress :: JausAddress
  scPresenceVector :: u32
  scCommandCode :: u16
  scSequenceNumber :: u16
  instanceId :: int
  isActive :: bool
  scQueue :: "JausMessage Queue option"
  queueSize :: u32

record SupportedScMessage =
  supCommandCode :: u16
  scList :: "ServiceConnection list"

record ServiceConnectionManager =
  supportedScMsgList :: "SupportedScMessage list"
  incomingSc :: "nat list"
  supportedScMsgCount :: int
  outgoingScCount :: int
  incomingScCount :: int
  scStore :: "nat \<rightharpoonup> ServiceConnection"

section \<open>Large messages\<close>

record LargeMessageList =
  lmCommandCode :: u16
  lmSource :: JausAddress
  lmMessages :: "JausMessage JausArray"

record LargeMessageHandler =
  messageLists :: "LargeMessageList JausArray"

section \<open>Component and interface\<close>

record Controller =
  ctrlAddress :: JausAddress
  ctrlState :: int
  ctrlAuthority :: u8
  ctrlActive :: bool

record JausComponent =
  identification :: "bytes option"
  cmptAddress :: JausAddress
  cmptState :: int
  cmptAuthority :: u8
  cmptServices :: "JausService list"
  controller :: Controller
  cmptTimeStampSec :: int

record NodeManagerInterface =
  receiveQueue :: "JausMessage Queue"
  cmpt :: JausComponent
  isOpen :: bool
  receiveCount :: int
  heartbeatCount :: int
  timestamp :: real
  scm :: ServiceConnectionManager
  lmh :: LargeMessageHandler
  sent :: "bytes list"

end
