(* ===== verification/SendPath.thy ===== *)
theory SendPath
  imports NodeState
begin

text \<open>
  Sending: \<open>nodeManagerSend\<close> and \<open>nodeManagerSendSingleMessage\<close>
  (\<open>openjaus/src/libopenjaus/nodeManagerInterface/nodeManagerInterface.c\<close>) and
  \<open>lmHandlerSendLargeMessage\<close> (\<open>lmHandler.c\<close> in the same directory), which splits a message whose
  data exceeds 4080 bytes into numbered fragments.

  The operating system's \<open>sendto\<close> is a parameter: it maps the datagram to the number of bytes
  it reports as sent. Memory allocation succeeds.
\<close>

type_synonym sendto = "bytes \<Rightarrow> int"

section \<open>Single messages\<close>

text \<open>
  The size is stored in an \<open>int\<close>; a message larger than that makes \<open>malloc\<close> fail and the
  \<open>memset\<close> that follows undefined.
\<close>

definition nodeManagerSendSingleMessage ::
    "sendto \<Rightarrow> NodeManagerInterface \<Rightarrow> JausMessage \<Rightarrow> (int \<times> NodeManagerInterface) exec" where
  "nodeManagerSendSingleMessage os nmi message =
     (if isOpen nmi
      then (let bufferSizeBytes = jausMessageSize message
            in if bufferSizeBytes > 0x7FFFFFFF then None
               else do { (ok, buffer) \<leftarrow> jausMessageToBuffer message
                                         (replicate (unat bufferSizeBytes) 0) bufferSizeBytes;
                         if ok then Some (os buffer, nmi\<lparr>sent := sent nmi @ [buffer]\<rparr>)
                         else Some (-1, nmi) })
      else Some (-1, nmi))"

section \<open>Large messages\<close>

text \<open>One fragment: the header is copied, number, flag, size and data are set.\<close>

definition fragmentMessage :: "JausMessage \<Rightarrow> nat \<Rightarrow> u32 \<Rightarrow> u32 \<Rightarrow> bytes \<Rightarrow> JausMessage" where
  "fragmentMessage inMessage messageCount flag sz d =
     (copyHeader inMessage jausMessageCreate)
       \<lparr>sequenceNumber := of_nat messageCount, dataFlag := flag, dataSize := sz, data := Some d\<rparr>"

text \<open>
  The loop sends full fragments while more than 4080 bytes remain; it returns the interface and
  the values of \<open>bytesRemaining\<close>, \<open>bufferIndex\<close> and \<open>messageCount\<close>.
\<close>

function sendFragments ::
    "sendto \<Rightarrow> NodeManagerInterface \<Rightarrow> JausMessage \<Rightarrow> u32 \<Rightarrow> u32 \<Rightarrow> nat \<Rightarrow>
     (NodeManagerInterface \<times> u32 \<times> u32 \<times> nat) exec" where
  "sendFragments os nmi inMessage bytesRemaining bufferIndex messageCount =
     (if bytesRemaining > JAUS_MAX_DATA_SIZE_BYTES
      then do { d \<leftarrow> memRead (dataBytes inMessage) (unat bufferIndex) 4080;
                let flag = (if messageCount + 1 = 1 then JAUS_FIRST_DATA_PACKET else JAUS_NORMAL_DATA_PACKET);
                (result, nmi') \<leftarrow> nodeManagerSendSingleMessage os nmi
                   (fragmentMessage inMessage messageCount flag JAUS_MAX_DATA_SIZE_BYTES d);
                sendFragments os nmi' inMessage (bytesRemaining - JAUS_MAX_DATA_SIZE_BYTES)
                  (bufferIndex + JAUS_MAX_DATA_SIZE_BYTES) (messageCount + 1) }
      else Some (nmi, bytesRemaining, bufferIndex, messageCount))"
  by pat_completeness auto

termination sendFragments
  by (relation "measure (\<lambda>(os, nmi, m, r, b, c). unat r)")
    (auto simp: unat_sub_if' word_less_nat_alt)

declare sendFragments.simps [simp del]

definition lmHandlerSendLargeMessage ::
    "sendto \<Rightarrow> NodeManagerInterface \<Rightarrow> JausMessage \<Rightarrow> (int \<times> NodeManagerInterface) exec" where
  "lmHandlerSendLargeMessage os nmi inMessage =
     (if dataSize inMessage > JAUS_MAX_DATA_SIZE_BYTES
      then do { (nmi', bytesRemaining, bufferIndex, messageCount) \<leftarrow>
                   sendFragments os nmi inMessage (dataSize inMessage) 0 0;
                d \<leftarrow> memRead (dataBytes inMessage) (unat bufferIndex) (unat bytesRemaining);
                nodeManagerSendSingleMessage os nmi'
                   (fragmentMessage inMessage messageCount JAUS_LAST_DATA_PACKET bytesRemaining d) }
      else nodeManagerSendSingleMessage os nmi inMessage)"

definition nodeManagerSend ::
    "sendto \<Rightarrow> NodeManagerInterface \<Rightarrow> JausMessage \<Rightarrow> (int \<times> NodeManagerInterface) exec" where
  "nodeManagerSend os nmi message =
     (if isOpen nmi then lmHandlerSendLargeMessage os nmi message else Some (-1, nmi))"

text \<open>The callers that ignore the result and destroy the message.\<close>

definition transmit :: "sendto \<Rightarrow> NodeManagerInterface \<Rightarrow> JausMessage exec \<Rightarrow> NodeManagerInterface exec" where
  "transmit os nmi txMessage =
     do { m \<leftarrow> txMessage; (result, nmi') \<leftarrow> nodeManagerSend os nmi m; Some nmi' }"

section \<open>The fragments of a message\<close>

text \<open>The specification: the data in pieces of 4080 bytes, numbered from zero.\<close>

function fragmentsFrom :: "JausMessage \<Rightarrow> nat \<Rightarrow> bytes \<Rightarrow> JausMessage list" where
  "fragmentsFrom m i d =
     (if 4080 < length d
      then fragmentMessage m i (if i = 0 then JAUS_FIRST_DATA_PACKET else JAUS_NORMAL_DATA_PACKET)
             4080 (take 4080 d) # fragmentsFrom m (i + 1) (drop 4080 d)
      else [fragmentMessage m i JAUS_LAST_DATA_PACKET (of_nat (length d)) d])"
  by pat_completeness auto

termination fragmentsFrom
  by (relation "measure (\<lambda>(m, i, d). length d)") auto

declare fragmentsFrom.simps [simp del]

definition fragments :: "JausMessage \<Rightarrow> JausMessage list" where
  "fragments m = (if 4080 < unat (dataSize m) then fragmentsFrom m 0 (dataBytes m) else [m])"

lemma fragmentMessage_simps [simp]:
  "dataSize (fragmentMessage m i f s d) = s" "dataFlag (fragmentMessage m i f s d) = f"
  "sequenceNumber (fragmentMessage m i f s d) = of_nat i" "data (fragmentMessage m i f s d) = Some d"
  "dataBytes (fragmentMessage m i f s d) = d" "properties (fragmentMessage m i f s d) = properties m"
  "commandCode (fragmentMessage m i f s d) = commandCode m"
  "source (fragmentMessage m i f s d) = source m"
  "destination (fragmentMessage m i f s d) = destination m"
  by (simp_all add: fragmentMessage_def)

lemma fragmentMessage_ok:
  "length d = unat s \<Longrightarrow> s < 0x1000 \<Longrightarrow> f < 0x10 \<Longrightarrow> messageOk (fragmentMessage m i f s d)"
  by (simp add: messageOk_def headerFits_def)

lemma send_single:
  assumes "isOpen nmi" "messageOk m"
  shows "nodeManagerSendSingleMessage os nmi m =
    Some (os (messageBytes m), nmi\<lparr>sent := sent nmi @ [messageBytes m]\<rparr>)"
proof -
  note sz = messageOk_sizes [OF assms(2)]
  have "\<not> jausMessageSize m > 0x7FFFFFFF" using sz(1,2) by (simp add: word_less_nat_alt)
  moreover have "jausMessageToBuffer m (replicate (unat (jausMessageSize m)) 0) (jausMessageSize m) =
      Some (True, messageBytes m)"
    using jausMessageToBuffer_spec [OF assms(2), of "jausMessageSize m"
        "replicate (unat (jausMessageSize m)) 0"] sz(2) by simp
  ultimately show ?thesis using assms(1) by (simp add: nodeManagerSendSingleMessage_def Let_def)
qed

lemma sendFragments_spec:
  assumes "isOpen nmi" "unat bytesRemaining = length (drop (unat bufferIndex) (dataBytes m))"
    "unat bufferIndex \<le> length (dataBytes m)" "length (dataBytes m) < 2 ^ 32"
  shows "\<exists>frs d i k. fragmentsFrom m c (drop (unat bufferIndex) (dataBytes m)) =
        frs @ [fragmentMessage m k JAUS_LAST_DATA_PACKET (of_nat (length d)) d] \<and>
      sendFragments os nmi m bytesRemaining bufferIndex c =
        Some (nmi\<lparr>sent := sent nmi @ map messageBytes frs\<rparr>, of_nat (length d), i, k) \<and>
      length d \<le> 4080 \<and> d = drop (unat i) (dataBytes m) \<and> unat i \<le> length (dataBytes m)"
  using assms
proof (induction "unat bytesRemaining" arbitrary: nmi bytesRemaining bufferIndex c rule: less_induct)
  case less
  let ?d = "drop (unat bufferIndex) (dataBytes m)"
  show ?case
  proof (cases "4080 < unat bytesRemaining")
    case False
    have eq: "of_nat (length ?d) = bytesRemaining"
      unfolding less.prems(2) [symmetric] by simp
    have "fragmentsFrom m c ?d = [] @ [fragmentMessage m c 8 (of_nat (length ?d)) ?d]"
      using False less.prems(2) by (subst fragmentsFrom.simps) simp
    moreover have "sendFragments os nmi m bytesRemaining bufferIndex c =
        Some (nmi\<lparr>sent := sent nmi @ map messageBytes []\<rparr>, of_nat (length ?d), bufferIndex, c)"
      using False by (subst sendFragments.simps) (simp add: word_less_nat_alt eq del: length_drop)
    moreover have "length ?d \<le> 4080" using False less.prems(2) by simp
    ultimately show ?thesis using less.prems(3) by blast
  next
    case True
    let ?f = "fragmentMessage m c (if c = 0 then JAUS_FIRST_DATA_PACKET else JAUS_NORMAL_DATA_PACKET)
             4080 (take 4080 ?d)"
    let ?nmi = "nmi\<lparr>sent := sent nmi @ [messageBytes ?f]\<rparr>"
    have len: "4080 < length ?d" using True less.prems(2) by simp
    have rem: "unat (bytesRemaining - 4080) = unat bytesRemaining - 4080"
      using True by (simp add: unat_sub_if' word_le_nat_alt)
    have idx: "unat (bufferIndex + 4080) = unat bufferIndex + 4080"
      using len less.prems(3,4) by (simp add: unat_word_ariths)
    have rd: "memRead (dataBytes m) (unat bufferIndex) 4080 = Some (take 4080 ?d)"
      using len by (simp add: memRead_def)
    have ok: "messageOk ?f" using len by (intro fragmentMessage_ok) auto
    have lt: "unat (bytesRemaining - 4080) < unat bytesRemaining" using rem True by simp
    have p: "isOpen ?nmi"
      "unat (bytesRemaining - 4080) = length (drop (unat (bufferIndex + 4080)) (dataBytes m))"
      "unat (bufferIndex + 4080) \<le> length (dataBytes m)"
      using less.prems(1,2) rem idx len by simp_all
    from less.hyps [OF lt p less.prems(4), of "c + 1"] obtain frs d i k where
      IH: "fragmentsFrom m (c + 1) (drop (unat (bufferIndex + 4080)) (dataBytes m)) =
        frs @ [fragmentMessage m k JAUS_LAST_DATA_PACKET (of_nat (length d)) d]"
      "sendFragments os ?nmi m (bytesRemaining - 4080) (bufferIndex + 4080) (c + 1) =
        Some (?nmi\<lparr>sent := sent ?nmi @ map messageBytes frs\<rparr>, of_nat (length d), i, k)"
      "length d \<le> 4080" "d = drop (unat i) (dataBytes m)" "unat i \<le> length (dataBytes m)"
      by blast
    have "fragmentsFrom m c ?d = (?f # frs) @
        [fragmentMessage m k JAUS_LAST_DATA_PACKET (of_nat (length d)) d]"
      using IH(1) idx len by (subst fragmentsFrom.simps) (simp add: add.commute)
    moreover have "sendFragments os nmi m bytesRemaining bufferIndex c =
        Some (nmi\<lparr>sent := sent nmi @ map messageBytes (?f # frs)\<rparr>, of_nat (length d), i, k)"
      using True rd IH(2) send_single [OF less.prems(1) ok]
      by (subst sendFragments.simps) (simp add: word_less_nat_alt Let_def)
    ultimately show ?thesis using IH(3-5) by blast
  qed
qed

lemma lmHandlerSend_spec:
  assumes "isOpen nmi" "4080 < unat (dataSize m)" "length (dataBytes m) = unat (dataSize m)"
  shows "\<exists>r. nodeManagerSend os nmi m =
    Some (r, nmi\<lparr>sent := sent nmi @ map messageBytes (fragmentsFrom m 0 (dataBytes m))\<rparr>)"
proof -
  obtain frs d i k where
    f: "fragmentsFrom m 0 (dataBytes m) = frs @ [fragmentMessage m k 8 (of_nat (length d)) d]"
    and s: "sendFragments os nmi m (dataSize m) 0 0 =
      Some (nmi\<lparr>sent := sent nmi @ map messageBytes frs\<rparr>, of_nat (length d), i, k)"
    and d: "length d \<le> 4080" "d = drop (unat i) (dataBytes m)" "unat i \<le> length (dataBytes m)"
    using sendFragments_spec [of nmi "dataSize m" 0 m 0 os] assms u32_bound [of "dataSize m"] by auto
  let ?l = "fragmentMessage m k 8 (of_nat (length d)) d"
  have len: "unat (of_nat (length d) :: u32) = length d" using d(1) by (intro unat_of_nat_lt) simp
  have "memRead (dataBytes m) (unat i) (length d) = Some d" using d by (simp add: memRead_def)
  moreover have "messageOk ?l"
    using d(1) len by (intro fragmentMessage_ok) (simp_all add: word_less_nat_alt)
  note send_single [OF _ this, of "nmi\<lparr>sent := sent nmi @ map messageBytes frs\<rparr>" os]
  ultimately show ?thesis
    using assms s len f
    by (simp add: nodeManagerSend_def lmHandlerSendLargeMessage_def word_less_nat_alt)
qed

lemma nodeManagerSend_small:
  assumes "isOpen nmi" "messageOk m" "dataSize m \<le> 4080"
  shows "nodeManagerSend os nmi m =
    Some (os (messageBytes m), nmi\<lparr>sent := sent nmi @ [messageBytes m]\<rparr>)"
  using assms send_single [OF assms(1,2), of os]
  by (simp add: nodeManagerSend_def lmHandlerSendLargeMessage_def word_less_nat_alt word_le_nat_alt)

text \<open>What a caller that ignores the result can rely on: one datagram, when the interface is open.\<close>

definition logSent :: "NodeManagerInterface \<Rightarrow> JausMessage \<Rightarrow> NodeManagerInterface" where
  "logSent nmi m = (if isOpen nmi then nmi\<lparr>sent := sent nmi @ [messageBytes m]\<rparr> else nmi)"

lemma logSent_simps [simp]:
  "scm (logSent nmi m) = scm nmi" "cmpt (logSent nmi m) = cmpt nmi"
  "isOpen (logSent nmi m) = isOpen nmi" "lmh (logSent nmi m) = lmh nmi"
  "receiveQueue (logSent nmi m) = receiveQueue nmi"
  by (simp_all add: logSent_def)

lemma transmit_ok:
  assumes "messageOk m" "dataSize m \<le> 4080"
  shows "transmit os nmi (Some m) = Some (logSent nmi m)"
  using nodeManagerSend_small [OF _ assms, of nmi os]
  by (simp add: transmit_def logSent_def nodeManagerSend_def)

text \<open>For a typed message: marshalling and sending cannot fail, and one datagram leaves.\<close>

context typed_message
begin

lemma transmits:
  assumes "dataFlag m < 0x10" "dSize m \<le> 4080"
  shows "transmit os nmi (messageToJausMessage dSize dataTo m) =
    Some (logSent nmi (the (messageToJausMessage dSize dataTo m)))"
proof -
  obtain jm where jm: "messageToJausMessage dSize dataTo m = Some jm" by (simp add: toJausMessage)
  have "messageOk jm" "dataSize jm \<le> 4080" using toJausMessage_ok [OF assms(1) jm] assms(2) by auto
  then show ?thesis using transmit_ok jm by simp
qed

end

end
