(* ===== verification/NodeQueries.thy ===== *)
theory NodeQueries
  imports SendPath
begin

text \<open>
  The questions a component asks its node manager over the interface socket
  (\<open>openjaus/src/libopenjaus/nodeManagerInterface/nodeManagerInterface.c\<close>): address lookup,
  address verification and the two address lists.

  The node manager is another process, the parameter \<open>ask\<close>: the datagram it answers a request
  with, or nothing. The answer overwrites the front of the eight-byte packet buffer, the rest
  keeps the request. A loop of exchanges takes its answers from a list; when the list is used
  up, nothing arrives any more.
\<close>

abbreviation (input) INTERFACE_MESSAGE_VERIFY_ADDRESS :: u8 where
  "INTERFACE_MESSAGE_VERIFY_ADDRESS \<equiv> 0x04"
abbreviation (input) INTERFACE_MESSAGE_ADDRESS_VERIFIED :: u8 where
  "INTERFACE_MESSAGE_ADDRESS_VERIFIED \<equiv> 0x05"
abbreviation (input) INTERFACE_MESSAGE_GET_COMPONENT_ADDRESS_LIST :: u8 where
  "INTERFACE_MESSAGE_GET_COMPONENT_ADDRESS_LIST \<equiv> 0x06"
abbreviation (input) INTERFACE_MESSAGE_COMPONENT_ADDRESS_LIST_RESPONSE :: u8 where
  "INTERFACE_MESSAGE_COMPONENT_ADDRESS_LIST_RESPONSE \<equiv> 0x07"
abbreviation (input) INTERFACE_MESSAGE_LOOKUP_ADDRESS :: u8 where
  "INTERFACE_MESSAGE_LOOKUP_ADDRESS \<equiv> 0x08"
abbreviation (input) INTERFACE_MESSAGE_LOOKUP_ADDRESS_RESPONSE :: u8 where
  "INTERFACE_MESSAGE_LOOKUP_ADDRESS_RESPONSE \<equiv> 0x09"
abbreviation (input) INTERFACE_MESSAGE_LOOKUP_SERVICE_ADDRESS :: u8 where
  "INTERFACE_MESSAGE_LOOKUP_SERVICE_ADDRESS \<equiv> 0x0A"
abbreviation (input) INTERFACE_MESSAGE_LOOKUP_SERVICE_ADDRESS_RESPONSE :: u8 where
  "INTERFACE_MESSAGE_LOOKUP_SERVICE_ADDRESS_RESPONSE \<equiv> 0x0B"
abbreviation (input) INTERFACE_MESSAGE_LOOKUP_SERVICE_ADDRESS_LIST :: u8 where
  "INTERFACE_MESSAGE_LOOKUP_SERVICE_ADDRESS_LIST \<equiv> 0x0C"
abbreviation (input) INTERFACE_MESSAGE_LOOKUP_SERVICE_ADDRESS_LIST_RESPONSE :: u8 where
  "INTERFACE_MESSAGE_LOOKUP_SERVICE_ADDRESS_LIST_RESPONSE \<equiv> 0x0D"

section \<open>Exchanges\<close>

text \<open>The packet buffer after a request was sent and the datagram \<open>answer\<close> was received into it.\<close>

definition afterReceive :: "bytes \<Rightarrow> bytes \<Rightarrow> bytes" where
  "afterReceive request answer = take 8 answer @ drop (length (take 8 answer)) request"

definition addressRequest :: "u8 \<Rightarrow> JausAddress \<Rightarrow> u8 \<Rightarrow> u8 \<Rightarrow> u8 \<Rightarrow> bytes" where
  "addressRequest kind a b5 b6 b7 =
     [kind, addrInstance a, addrComponent a, addrNode a, addrSubsystem a, b5, b6, b7]"

definition packetAddress :: "bytes \<Rightarrow> JausAddress" where
  "packetAddress b =
     \<lparr>addrSubsystem = b ! 4, addrNode = b ! 3, addrComponent = b ! 2, addrInstance = b ! 1\<rparr>"

section \<open>Lookup and verification\<close>

text \<open>The flag and the new value of \<open>*lookupAddress\<close>.\<close>

definition nodeManagerLookupAddress ::
    "(bytes \<Rightarrow> bytes) \<Rightarrow> NodeManagerInterface \<Rightarrow> JausAddress \<Rightarrow> bool \<times> JausAddress" where
  "nodeManagerLookupAddress ask nmi lookupAddress =
     (if \<not> isOpen nmi then (False, lookupAddress)
      else (let request = addressRequest INTERFACE_MESSAGE_LOOKUP_ADDRESS lookupAddress 0 0 0;
                buffer = afterReceive request (ask request)
            in if buffer ! 0 = INTERFACE_MESSAGE_LOOKUP_ADDRESS_RESPONSE \<and> buffer ! 5 \<noteq> 0
               then (True, packetAddress buffer) else (False, lookupAddress)))"

definition nodeManagerLookupServiceAddress ::
    "(bytes \<Rightarrow> bytes) \<Rightarrow> NodeManagerInterface \<Rightarrow> JausAddress \<Rightarrow> u16 \<Rightarrow> u32 \<Rightarrow> bool \<times> JausAddress" where
  "nodeManagerLookupServiceAddress ask nmi lookupAddress code serviceCommandType =
     (if \<not> isOpen nmi then (False, lookupAddress)
      else (let request = addressRequest INTERFACE_MESSAGE_LOOKUP_SERVICE_ADDRESS lookupAddress
                   (ucast (code AND 0xFF)) (ucast (drop_bit 8 (code AND 0xFF00)))
                   (ucast (serviceCommandType AND 0xFF));
                buffer = afterReceive request (ask request)
            in if buffer ! 0 = INTERFACE_MESSAGE_LOOKUP_SERVICE_ADDRESS_RESPONSE \<and> buffer ! 5 \<noteq> 0
               then (True, packetAddress buffer) else (False, lookupAddress)))"

definition nodeManagerVerifyAddress :: "(bytes \<Rightarrow> bytes) \<Rightarrow> JausAddress \<Rightarrow> int" where
  "nodeManagerVerifyAddress ask address =
     (let request = addressRequest INTERFACE_MESSAGE_VERIFY_ADDRESS address 0 0 0;
          buffer = afterReceive request (ask request)
      in if buffer ! 0 = INTERFACE_MESSAGE_ADDRESS_VERIFIED then uint (buffer ! 1) else -1)"

section \<open>Address lists\<close>

text \<open>
  The loops: \<open>go\<close> decides on the buffer whether another address was received, the request of every
  further round is \<open>next\<close>.
\<close>

fun addressListLoop :: "(bytes \<Rightarrow> bool) \<Rightarrow> bytes \<Rightarrow> bytes \<Rightarrow> bytes list \<Rightarrow> JausAddress list" where
  "addressListLoop go next buffer [] = (if go buffer then [packetAddress buffer] else [])"
| "addressListLoop go next buffer (answer # answers) =
     (if go buffer
      then packetAddress buffer # addressListLoop go next (afterReceive next answer) answers
      else [])"

definition nodeManagerGetComponentAddressList ::
    "bytes list \<Rightarrow> NodeManagerInterface \<Rightarrow> u8 \<Rightarrow> JausAddress list" where
  "nodeManagerGetComponentAddressList answers nmi componentId =
     (if \<not> isOpen nmi \<or> componentId = 0 then []
      else (let first = [INTERFACE_MESSAGE_GET_COMPONENT_ADDRESS_LIST, componentId, 0, 0, 0, 0, 0, 0];
                next = INTERFACE_MESSAGE_GET_COMPONENT_ADDRESS_LIST # replicate 7 0;
                go = (\<lambda>b. b ! 0 = INTERFACE_MESSAGE_COMPONENT_ADDRESS_LIST_RESPONSE \<and> b ! 4 \<noteq> 0)
            in case answers of
                 [] \<Rightarrow> []
               | a # rest \<Rightarrow> addressListLoop go next (afterReceive first a) rest))"

definition nodeManagerLookupServiceAddressList ::
    "bytes list \<Rightarrow> NodeManagerInterface \<Rightarrow> JausAddress \<Rightarrow> u16 \<Rightarrow> u32 \<Rightarrow> JausAddress list" where
  "nodeManagerLookupServiceAddressList answers nmi lookupAddress code serviceCommandType =
     (if \<not> isOpen nmi \<or> code = 0 then []
      else (let b7 = ucast (serviceCommandType AND 0xFF);
                first = addressRequest INTERFACE_MESSAGE_LOOKUP_SERVICE_ADDRESS_LIST lookupAddress
                   (ucast (code AND 0xFF)) (ucast (drop_bit 8 (code AND 0xFF00))) b7;
                next = addressRequest INTERFACE_MESSAGE_GET_COMPONENT_ADDRESS_LIST lookupAddress 0 0 b7;
                go = (\<lambda>b. b ! 0 = INTERFACE_MESSAGE_COMPONENT_ADDRESS_LIST_RESPONSE \<and> b ! 5 \<noteq> 0)
            in case answers of
                 [] \<Rightarrow> []
               | a # rest \<Rightarrow> addressListLoop go next (afterReceive first a) rest))"

section \<open>Lemmas\<close>

lemma afterReceive_nothing [simp]: "afterReceive request [] = request"
  by (simp add: afterReceive_def)

lemma afterReceive_full: "length answer = 8 \<Longrightarrow> length request = 8 \<Longrightarrow> afterReceive request answer = answer"
  by (simp add: afterReceive_def)

lemma length_addressRequest [simp]: "length (addressRequest k a x y z) = 8"
  by (simp add: addressRequest_def)

text \<open>Without an answer a lookup fails and leaves the address alone; a verification gives -1.\<close>

lemma lookup_no_answer:
  assumes "\<And>request. ask request = []"
  shows "nodeManagerLookupAddress ask nmi a = (False, a)" "nodeManagerVerifyAddress ask a = -1"
  using assms
  by (simp_all add: nodeManagerLookupAddress_def nodeManagerVerifyAddress_def Let_def
      addressRequest_def)

text \<open>The answers the code expects, and how each round of a list ends.\<close>

lemma addressList_collects:
  assumes "\<And>a. a \<in> set as \<Longrightarrow> addrSubsystem a \<noteq> 0" "isOpen nmi" "componentId \<noteq> 0"
  shows "nodeManagerGetComponentAddressList
      (map (\<lambda>a. addressRequest INTERFACE_MESSAGE_COMPONENT_ADDRESS_LIST_RESPONSE a 0 0 0) as) nmi componentId = as"
proof -
  let ?r = "\<lambda>a. addressRequest INTERFACE_MESSAGE_COMPONENT_ADDRESS_LIST_RESPONSE a 0 0 0"
  let ?go = "\<lambda>b :: bytes. b ! 0 = INTERFACE_MESSAGE_COMPONENT_ADDRESS_LIST_RESPONSE \<and> b ! 4 \<noteq> 0"
  let ?next = "INTERFACE_MESSAGE_GET_COMPONENT_ADDRESS_LIST # replicate 7 (0 :: u8)"
  have pa: "packetAddress (?r a) = a" for a
    by (cases a) (simp add: packetAddress_def addressRequest_def)
  have loop: "addressListLoop ?go ?next (?r a) (map ?r xs) = a # xs"
    if "\<And>x. x \<in> set (a # xs) \<Longrightarrow> addrSubsystem x \<noteq> 0" for a xs
    using that
  proof (induction xs arbitrary: a)
    case Nil
    then show ?case using pa by (simp add: addressRequest_def)
  next
    case (Cons x xs)
    have "?go (?r a)" using Cons.prems [of a] by (simp add: addressRequest_def)
    moreover have "afterReceive ?next (?r x) = ?r x" by (rule afterReceive_full) simp_all
    ultimately show ?case using Cons.IH [of x] Cons.prems pa by auto
  qed
  show ?thesis
  proof (cases as)
    case Nil
    then show ?thesis by (simp add: nodeManagerGetComponentAddressList_def)
  next
    case (Cons a xs)
    then show ?thesis
      using loop [of a xs] assms
      by (simp add: nodeManagerGetComponentAddressList_def Let_def afterReceive_full)
  qed
qed

end
