(* ===== verification/ScManager.thy ===== *)
theory ScManager
  imports NodeQueries
begin

text \<open>
  The service connection manager
  (\<open>openjaus/src/libopenjaus/nodeManagerInterface/scManager.c\<close>): a component announces the
  messages it can stream, other components create, suspend, resume and terminate periodic
  connections to them, and the component's own inbound connections buffer what arrives.

  The clock is the parameter \<open>now\<close>, the value \<open>ojGetTimeSec\<close> returns during the call. The node
  manager process is the parameter \<open>ask\<close>. A division by a zero update rate
  gives infinity in C, so that the comparison it occurs in is false: it is written out.
\<close>

section \<open>Creation and destruction\<close>

definition serviceConnectionCreate :: ServiceConnection where
  "serviceConnectionCreate =
     \<lparr>requestedUpdateRateHz = 0, confirmedUpdateRateHz = 0, lastSentTime = 0, timeoutSec = 0,
      nextRequestTimeSec = 0, scAddress = jausAddressCreate, scPresenceVector = 0,
      scCommandCode = 0, scSequenceNumber = 0, instanceId = -1, isActive = False,
      scQueue = Some queueCreate, queueSize = 0\<rparr>"

definition scManagerCreate :: ServiceConnectionManager where
  "scManagerCreate =
     \<lparr>supportedScMsgList = [], incomingSc = [], supportedScMsgCount = 0, outgoingScCount = 0,
      incomingScCount = 0, scStore = Map.empty\<rparr>"

text \<open>The loop that unlinks every occurrence of \<open>sc\<close> from the inbound list.\<close>

fun unlinkAll :: "nat \<Rightarrow> nat list \<Rightarrow> int \<Rightarrow> nat list \<times> int" where
  "unlinkAll sc [] count = ([], count)"
| "unlinkAll sc (testSc # rest) count =
     (if sc = testSc then unlinkAll sc rest (count - 1)
      else (let (l, c) = unlinkAll sc rest count in (testSc # l, c)))"

definition serviceConnectionDestroy ::
    "nat \<Rightarrow> ServiceConnectionManager \<Rightarrow> ServiceConnectionManager exec" where
  "serviceConnectionDestroy sc m =
     (let (l, c) = unlinkAll sc (incomingSc m) (incomingScCount m)
      in do { s \<leftarrow> scStore m sc;
              destroyed \<leftarrow> queueDestroy (scQueue s);
              Some (m\<lparr>incomingSc := l, incomingScCount := c, scStore := (scStore m)(sc := None)\<rparr>) })"

section \<open>Searching\<close>

fun scFindSupportedScMsgInList :: "SupportedScMessage list \<Rightarrow> u16 \<Rightarrow> SupportedScMessage option" where
  "scFindSupportedScMsgInList [] code = None"
| "scFindSupportedScMsgInList (s # rest) code =
     (if supCommandCode s = code then Some s else scFindSupportedScMsgInList rest code)"

text \<open>The objects found are updated through the pointer; \<open>updateSupported\<close> stores the new value.\<close>

fun updateSupported :: "SupportedScMessage list \<Rightarrow> u16 \<Rightarrow> SupportedScMessage \<Rightarrow> SupportedScMessage list" where
  "updateSupported [] code s' = []"
| "updateSupported (s # rest) code s' =
     (if supCommandCode s = code then s' # rest else s # updateSupported rest code s')"

definition scSame :: "JausAddress \<Rightarrow> int \<Rightarrow> ServiceConnection \<Rightarrow> bool" where
  "scSame address ident sc \<longleftrightarrow> jausAddressEqual (scAddress sc) address \<and> instanceId sc = ident"

text \<open>\<open>scFindScInList\<close> gives the position in the list.\<close>

fun scFindScInList :: "ServiceConnection list \<Rightarrow> JausAddress \<Rightarrow> int \<Rightarrow> nat option" where
  "scFindScInList [] address ident = None"
| "scFindScInList (sc # rest) address ident =
     (if scSame address ident sc then Some 0
      else map_option Suc (scFindScInList rest address ident))"

text \<open>
  \<open>scGetAvailableInstanceId\<close>: an equal connection gives its own number at once; the others of the
  same address mark their number as taken (an index outside the 256 flags is undefined).
\<close>

fun instanceLoop :: "ServiceConnection list \<Rightarrow> JausAddress \<Rightarrow> u32 \<Rightarrow> bool list \<Rightarrow> (int + bool list) exec" where
  "instanceLoop [] address pv available = Some (Inr available)"
| "instanceLoop (sc # rest) address pv available =
     (if jausAddressEqual (scAddress sc) address
      then (if scPresenceVector sc = pv then Some (Inl (instanceId sc))
            else if 0 \<le> instanceId sc \<and> instanceId sc < 256
            then instanceLoop rest address pv (available[nat (instanceId sc) := False])
            else None)
      else instanceLoop rest address pv available)"

definition scGetAvailableInstanceId :: "ServiceConnection list \<Rightarrow> JausAddress \<Rightarrow> u32 \<Rightarrow> int exec" where
  "scGetAvailableInstanceId l address pv =
     do { r \<leftarrow> instanceLoop l address pv (replicate 256 True);
          Some (case r of Inl i \<Rightarrow> i
                | Inr available \<Rightarrow> (case firstIdx (\<lambda>b. b) available of Some i \<Rightarrow> int i | None \<Rightarrow> -1)) }"

section \<open>Outbound connections\<close>

definition confirmSc :: "NodeManagerInterface \<Rightarrow> CreateServiceConnectionMessage \<Rightarrow> u16 \<Rightarrow> u8 \<Rightarrow> real \<Rightarrow> int \<Rightarrow>
    ConfirmServiceConnectionMessage" where
  "confirmSc nmi message code ident rate response =
     confirmServiceConnectionMessageCreate
       \<lparr>source := cmptAddress (cmpt nmi), destination := source message,
        confirmServiceConnection_serviceConnectionCommandCode := code,
        confirmServiceConnection_instanceId := ident,
        confirmServiceConnection_confirmedPeriodicUpdateRateHertz := rate,
        confirmServiceConnection_responseCode := response\<rparr>"

definition terminateSc :: "JausAddress \<Rightarrow> JausAddress \<Rightarrow> u16 \<Rightarrow> u8 \<Rightarrow> TerminateServiceConnectionMessage" where
  "terminateSc src dst code ident =
     terminateServiceConnectionMessageCreate
       \<lparr>source := src, destination := dst,
        terminateServiceConnection_serviceConnectionCommandCode := code,
        terminateServiceConnection_instanceId := ident\<rparr>"

definition refuseSc :: "sendto \<Rightarrow> NodeManagerInterface \<Rightarrow> CreateServiceConnectionMessage \<Rightarrow> int \<Rightarrow>
    NodeManagerInterface exec" where
  "refuseSc os nmi message response =
     transmit os nmi (confirmServiceConnectionMessageToJausMessage
       (confirmSc nmi message (createServiceConnection_serviceConnectionCommandCode message) 0 0 response))"

text \<open>
  \<open>scManagerProcessCreateScMessage\<close>; \<open>mallocOk\<close> is the result of its allocation. A new connection
  is put in front of the list, an existing one is reset in place. The two fields of a new
  connection that the code leaves uninitialised, \<open>timeoutSec\<close> and \<open>nextRequestTimeSec\<close>, are zero
  here; nothing reads them on an outbound connection.
\<close>

definition scManagerProcessCreateScMessage ::
    "sendto \<Rightarrow> bool \<Rightarrow> NodeManagerInterface \<Rightarrow> CreateServiceConnectionMessage \<Rightarrow> NodeManagerInterface exec" where
  "scManagerProcessCreateScMessage os mallocOk nmi message =
     (let code = createServiceConnection_serviceConnectionCommandCode message;
          rate = createServiceConnection_requestedPeriodicUpdateRateHertz message;
          pv = createServiceConnection_presenceVector message
      in case scFindSupportedScMsgInList (supportedScMsgList (scm nmi)) code of
           None \<Rightarrow> refuseSc os nmi message JAUS_SC_COMPONENT_NOT_CAPABLE
         | Some supMsg \<Rightarrow>
             if \<not> mallocOk then refuseSc os nmi message JAUS_SC_CONNECTION_REFUSED
             else do {
               ident \<leftarrow> scGetAvailableInstanceId (scList supMsg) (source message) pv;
               if ident = -1 then refuseSc os nmi message JAUS_SC_CONNECTION_REFUSED
               else (let newSc = serviceConnectionCreate
                           \<lparr>scCommandCode := code, scPresenceVector := pv,
                            scAddress := source message, instanceId := ident,
                            scQueue := None, queueSize := 0\<rparr>;
                         found = scFindScInList (scList supMsg) (source message) ident;
                         l = (case found of None \<Rightarrow> newSc # scList supMsg | Some i \<Rightarrow> scList supMsg);
                         i = (case found of None \<Rightarrow> 0 | Some i \<Rightarrow> i);
                         count = (case found of None \<Rightarrow> outgoingScCount (scm nmi) + 1
                                  | Some i \<Rightarrow> outgoingScCount (scm nmi));
                         sc = (l ! i)\<lparr>requestedUpdateRateHz := rate, lastSentTime := 0,
                                      scSequenceNumber := 0, isActive := True,
                                      confirmedUpdateRateHz := rate\<rparr>;
                         supMsg' = supMsg\<lparr>scList := l[i := sc]\<rparr>;
                         nmi' = nmi\<lparr>scm := (scm nmi)
                           \<lparr>supportedScMsgList := updateSupported (supportedScMsgList (scm nmi)) code supMsg',
                            outgoingScCount := count\<rparr>\<rparr>
                     in transmit os nmi' (confirmServiceConnectionMessageToJausMessage
                          (confirmSc nmi message (scCommandCode sc) (word_of_int (instanceId sc))
                             (confirmedUpdateRateHz sc) JAUS_SC_SUCCESSFUL))) })"

text \<open>The common text of \<open>scManagerProcessActivateScMessage\<close> and \<open>scManagerProcessSuspendScMessage\<close>.\<close>

definition setActive :: "bool \<Rightarrow> NodeManagerInterface \<Rightarrow> bool \<Rightarrow> u16 \<Rightarrow> JausAddress \<Rightarrow> u8 \<Rightarrow> NodeManagerInterface" where
  "setActive mallocOk nmi active code src ident =
     (case scFindSupportedScMsgInList (supportedScMsgList (scm nmi)) code of
        None \<Rightarrow> nmi
      | Some supMsg \<Rightarrow>
          if \<not> mallocOk then nmi
          else (case scFindScInList (scList supMsg) src (uint ident) of
                  None \<Rightarrow> nmi
                | Some i \<Rightarrow>
                    nmi\<lparr>scm := (scm nmi)\<lparr>supportedScMsgList :=
                      updateSupported (supportedScMsgList (scm nmi)) code
                        (supMsg\<lparr>scList := (scList supMsg)[i := (scList supMsg ! i)\<lparr>isActive := active\<rparr>]\<rparr>)\<rparr>\<rparr>))"

definition scManagerProcessActivateScMessage ::
    "bool \<Rightarrow> NodeManagerInterface \<Rightarrow> ActivateServiceConnectionMessage \<Rightarrow> NodeManagerInterface" where
  "scManagerProcessActivateScMessage mallocOk nmi message =
     setActive mallocOk nmi True (activateServiceConnection_serviceConnectionCommandCode message)
       (source message) (activateServiceConnection_instanceId message)"

definition scManagerProcessSuspendScMessage ::
    "bool \<Rightarrow> NodeManagerInterface \<Rightarrow> SuspendServiceConnectionMessage \<Rightarrow> NodeManagerInterface" where
  "scManagerProcessSuspendScMessage mallocOk nmi message =
     setActive mallocOk nmi False (suspendServiceConnection_serviceConnectionCommandCode message)
       (source message) (suspendServiceConnection_instanceId message)"

text \<open>The first connection that matches is unlinked.\<close>

definition scMatches :: "JausAddress \<Rightarrow> u16 \<Rightarrow> u8 \<Rightarrow> ServiceConnection \<Rightarrow> bool" where
  "scMatches src code ident sc \<longleftrightarrow>
     jausAddressEqual (scAddress sc) src \<and> scCommandCode sc = code \<and> instanceId sc = uint ident"

definition scManagerProcessTerminateScMessage ::
    "NodeManagerInterface \<Rightarrow> TerminateServiceConnectionMessage \<Rightarrow> NodeManagerInterface" where
  "scManagerProcessTerminateScMessage nmi message =
     (let code = terminateServiceConnection_serviceConnectionCommandCode message;
          P = scMatches (source message) code (terminateServiceConnection_instanceId message)
      in case scFindSupportedScMsgInList (supportedScMsgList (scm nmi)) code of
           None \<Rightarrow> nmi
         | Some supMsg \<Rightarrow>
             if firstIdx P (scList supMsg) = None then nmi
             else nmi\<lparr>scm := (scm nmi)
               \<lparr>supportedScMsgList := updateSupported (supportedScMsgList (scm nmi)) code
                  (supMsg\<lparr>scList := removeFirst P (scList supMsg)\<rparr>),
                outgoingScCount := outgoingScCount (scm nmi) - 1\<rparr>\<rparr>)"

definition scManagerAddSupportedMessage :: "bool \<Rightarrow> NodeManagerInterface \<Rightarrow> u16 \<Rightarrow> NodeManagerInterface" where
  "scManagerAddSupportedMessage mallocOk nmi code =
     (case scFindSupportedScMsgInList (supportedScMsgList (scm nmi)) code of
        Some s \<Rightarrow> nmi
      | None \<Rightarrow>
          if \<not> mallocOk then nmi
          else nmi\<lparr>scm := (scm nmi)
            \<lparr>supportedScMsgList := \<lparr>supCommandCode = code, scList = []\<rparr> # supportedScMsgList (scm nmi),
             supportedScMsgCount := supportedScMsgCount (scm nmi) + 1\<rparr>\<rparr>)"

text \<open>The loop that tells each peer of a withdrawn message that its connection is over.\<close>

fun terminateAll :: "sendto \<Rightarrow> NodeManagerInterface \<Rightarrow> ServiceConnection list \<Rightarrow> NodeManagerInterface exec" where
  "terminateAll os nmi [] = Some nmi"
| "terminateAll os nmi (sc # rest) =
     do { nmi' \<leftarrow> transmit os nmi (terminateServiceConnectionMessageToJausMessage
            (terminateSc (cmptAddress (cmpt nmi)) (scAddress sc) (scCommandCode sc)
               (word_of_int (instanceId sc))));
          terminateAll os nmi' rest }"

definition scManagerRemoveSupportedMessage ::
    "sendto \<Rightarrow> NodeManagerInterface \<Rightarrow> u16 \<Rightarrow> NodeManagerInterface exec" where
  "scManagerRemoveSupportedMessage os nmi code =
     (case scFindSupportedScMsgInList (supportedScMsgList (scm nmi)) code of
        None \<Rightarrow> Some nmi
      | Some supMsg \<Rightarrow>
          do { nmi' \<leftarrow> terminateAll os
                 (nmi\<lparr>scm := (scm nmi)\<lparr>supportedScMsgList :=
                    removeFirst (\<lambda>s. supCommandCode s = code) (supportedScMsgList (scm nmi))\<rparr>\<rparr>)
                 (scList supMsg);
               Some (nmi'\<lparr>scm := (scm nmi')\<lparr>supportedScMsgCount := supportedScMsgCount (scm nmi') - 1\<rparr>\<rparr>) })"

definition scManagerQueryActiveMessage :: "NodeManagerInterface \<Rightarrow> u16 \<Rightarrow> bool" where
  "scManagerQueryActiveMessage nmi code =
     (case scFindSupportedScMsgInList (supportedScMsgList (scm nmi)) code of
        None \<Rightarrow> False | Some supMsg \<Rightarrow> scList supMsg \<noteq> [])"

text \<open>Whether an update is due. A rate of zero never is.\<close>

definition scDue :: "real \<Rightarrow> ServiceConnection \<Rightarrow> bool" where
  "scDue now sc \<longleftrightarrow> isActive sc \<and> confirmedUpdateRateHz sc \<noteq> 0 \<and>
     lastSentTime sc < now - 1 / confirmedUpdateRateHz sc"

text \<open>The loop over the connections: the copies for the caller and the updated list.\<close>

fun sendListLoop :: "real \<Rightarrow> ServiceConnection list \<Rightarrow> ServiceConnection list \<times> ServiceConnection list" where
  "sendListLoop now [] = ([], [])"
| "sendListLoop now (sc # rest) =
     (let (out, l) = sendListLoop now rest
      in if scDue now sc
         then (let sc1 = sc\<lparr>lastSentTime := now\<rparr>
               in (sc1 # out, sc1\<lparr>scSequenceNumber := scSequenceNumber sc1 + 1\<rparr> # l))
         else (out, sc # l))"

definition scManagerGetSendList ::
    "real \<Rightarrow> NodeManagerInterface \<Rightarrow> u16 \<Rightarrow> ServiceConnection list \<times> NodeManagerInterface" where
  "scManagerGetSendList now nmi code =
     (case scFindSupportedScMsgInList (supportedScMsgList (scm nmi)) code of
        None \<Rightarrow> ([], nmi)
      | Some supMsg \<Rightarrow>
          (let (out, l) = sendListLoop now (scList supMsg)
           in (out, nmi\<lparr>scm := (scm nmi)\<lparr>supportedScMsgList :=
                updateSupported (supportedScMsgList (scm nmi)) code (supMsg\<lparr>scList := l\<rparr>)\<rparr>\<rparr>)))"

definition scManagerGetActiveAddressList :: "NodeManagerInterface \<Rightarrow> u16 \<Rightarrow> JausAddress list" where
  "scManagerGetActiveAddressList nmi code =
     (case scFindSupportedScMsgInList (supportedScMsgList (scm nmi)) code of
        None \<Rightarrow> []
      | Some supMsg \<Rightarrow> map (\<lambda>sc. jausAddressClone (scAddress sc)) (filter isActive (scList supMsg)))"

section \<open>Inbound connections\<close>

text \<open>The walk along the inbound list to the first connection with a property.\<close>

fun findIncoming :: "(nat \<rightharpoonup> ServiceConnection) \<Rightarrow> (ServiceConnection \<Rightarrow> bool) \<Rightarrow> nat list \<Rightarrow>
    (nat \<times> ServiceConnection) option exec" where
  "findIncoming store P [] = Some None"
| "findIncoming store P (p # rest) =
     do { sc \<leftarrow> store p; if P sc then Some (Some (p, sc)) else findIncoming store P rest }"

definition scFor :: "u16 \<Rightarrow> JausAddress \<Rightarrow> ServiceConnection \<Rightarrow> bool" where
  "scFor code address sc \<longleftrightarrow> scCommandCode sc = code \<and> jausAddressEqual (scAddress sc) address"

text \<open>Storing a connection back, and unlinking it.\<close>

definition storeSc :: "NodeManagerInterface \<Rightarrow> nat \<Rightarrow> ServiceConnection \<Rightarrow> NodeManagerInterface" where
  "storeSc nmi p sc = nmi\<lparr>scm := (scm nmi)\<lparr>scStore := (scStore (scm nmi))(p \<mapsto> sc)\<rparr>\<rparr>"

definition unlinkSc :: "NodeManagerInterface \<Rightarrow> nat \<Rightarrow> NodeManagerInterface" where
  "unlinkSc nmi p = nmi\<lparr>scm := (scm nmi)\<lparr>incomingSc := remove1 p (incomingSc (scm nmi)),
                                         incomingScCount := incomingScCount (scm nmi) - 1\<rparr>\<rparr>"

definition linkSc :: "NodeManagerInterface \<Rightarrow> nat \<Rightarrow> NodeManagerInterface" where
  "linkSc nmi p = nmi\<lparr>scm := (scm nmi)\<lparr>incomingSc := p # incomingSc (scm nmi),
                                       incomingScCount := incomingScCount (scm nmi) + 1\<rparr>\<rparr>"

definition emptyScQueue :: "ServiceConnection \<Rightarrow> ServiceConnection exec" where
  "emptyScQueue sc =
     (case scQueue sc of
        None \<Rightarrow> Some sc
      | Some q \<Rightarrow> do { (destroyed, q') \<leftarrow> queueEmpty q; Some (sc\<lparr>scQueue := Some q'\<rparr>) })"

definition scManagerProcessConfirmScMessage ::
    "sendto \<Rightarrow> real \<Rightarrow> NodeManagerInterface \<Rightarrow> ConfirmServiceConnectionMessage \<Rightarrow> NodeManagerInterface exec" where
  "scManagerProcessConfirmScMessage os now nmi message =
     do { r \<leftarrow> findIncoming (scStore (scm nmi))
                (scFor (confirmServiceConnection_serviceConnectionCommandCode message) (source message))
                (incomingSc (scm nmi));
          case r of
            Some (p, sc) \<Rightarrow>
              if confirmServiceConnection_responseCode message = JAUS_SC_SUCCESSFUL
              then Some (storeSc nmi p (sc
                     \<lparr>confirmedUpdateRateHz := confirmServiceConnection_confirmedPeriodicUpdateRateHertz message,
                      instanceId := uint (confirmServiceConnection_instanceId message),
                      isActive := True, scSequenceNumber := 65535, lastSentTime := now\<rparr>))
              else Some (unlinkSc (storeSc nmi p (sc\<lparr>isActive := False\<rparr>)) p)
          | None \<Rightarrow>
              if confirmServiceConnection_responseCode message = JAUS_SC_SUCCESSFUL
              then transmit os nmi (terminateServiceConnectionMessageToJausMessage
                     (terminateSc (cmptAddress (cmpt nmi)) (source message)
                        (confirmServiceConnection_serviceConnectionCommandCode message)
                        (confirmServiceConnection_instanceId message)))
              else Some nmi }"

definition createSc :: "NodeManagerInterface \<Rightarrow> ServiceConnection \<Rightarrow> JausAddress \<Rightarrow> CreateServiceConnectionMessage" where
  "createSc nmi sc dst =
     createServiceConnectionMessageCreate
       \<lparr>source := cmptAddress (cmpt nmi), destination := dst,
        createServiceConnection_serviceConnectionCommandCode := scCommandCode sc,
        createServiceConnection_requestedPeriodicUpdateRateHertz := requestedUpdateRateHz sc,
        createServiceConnection_presenceVector := scPresenceVector sc\<rparr>"

text \<open>
  \<open>scManagerCreateServiceConnection\<close>: the connection is taken off the inbound list if it is
  there, reset, announced to its address (or to the component of that kind the node manager
  knows in the own subsystem) and put in front of the list.
\<close>

definition scManagerCreateServiceConnection ::
    "sendto \<Rightarrow> (bytes \<Rightarrow> bytes) \<Rightarrow> NodeManagerInterface \<Rightarrow> nat option \<Rightarrow> (bool \<times> NodeManagerInterface) exec" where
  "scManagerCreateServiceConnection os ask nmi scp =
     (case scp of
        None \<Rightarrow> Some (False, nmi)
      | Some p \<Rightarrow>
          (let (l, c) = unlinkAll p (incomingSc (scm nmi)) (incomingScCount (scm nmi));
               nmi1 = nmi\<lparr>scm := (scm nmi)\<lparr>incomingSc := l, incomingScCount := c\<rparr>\<rparr>
           in do {
             sc0 \<leftarrow> scStore (scm nmi1) p;
             let sc = sc0\<lparr>confirmedUpdateRateHz := 0, lastSentTime := 0, scSequenceNumber := 65535,
                          instanceId := -1, isActive := False\<rparr>;
             let nmi2 = storeSc nmi1 p sc;
             if addrSubsystem (scAddress sc) \<noteq> 0
             then do { nmi3 \<leftarrow> transmit os nmi2 (createServiceConnectionMessageToJausMessage
                                    (createSc nmi2 sc (scAddress sc)));
                       Some (True, linkSc nmi3 p) }
             else (let localAddress = \<lparr>addrSubsystem = addrSubsystem (cmptAddress (cmpt nmi)), addrNode = 0,
                                       addrComponent = addrComponent (scAddress sc), addrInstance = 0\<rparr>;
                       (ok, found) = nodeManagerLookupAddress ask nmi2 localAddress
                   in if ok
                      then (let nmi3 = storeSc nmi2 p (sc\<lparr>scAddress := found\<rparr>)
                            in do { nmi4 \<leftarrow> transmit os nmi3 (createServiceConnectionMessageToJausMessage
                                             (createSc nmi3 sc found));
                                    Some (True, linkSc nmi4 p) })
                      else Some (False, nmi2)) }))"

definition scManagerTerminateServiceConnection ::
    "sendto \<Rightarrow> NodeManagerInterface \<Rightarrow> nat \<Rightarrow> (bool \<times> NodeManagerInterface) exec" where
  "scManagerTerminateServiceConnection os nmi deadSc =
     do { dead \<leftarrow> scStore (scm nmi) deadSc;
          r \<leftarrow> findIncoming (scStore (scm nmi)) (scFor (scCommandCode dead) (scAddress dead))
                (incomingSc (scm nmi));
          case r of
            None \<Rightarrow> Some (False, nmi)
          | Some (p, sc) \<Rightarrow>
              do { nmi1 \<leftarrow> (if instanceId sc > -1
                             then transmit os nmi (terminateServiceConnectionMessageToJausMessage
                                    (terminateSc (cmptAddress (cmpt nmi)) (scAddress dead)
                                       (scCommandCode dead) (word_of_int (instanceId dead))))
                             else Some nmi);
                   sc' \<leftarrow> emptyScQueue (sc\<lparr>isActive := False\<rparr>);
                   Some (True, unlinkSc (storeSc nmi1 p sc') p) } }"

definition scManagerReceiveServiceConnection ::
    "real \<Rightarrow> NodeManagerInterface \<Rightarrow> nat \<Rightarrow> (JausMessage option \<times> NodeManagerInterface) exec" where
  "scManagerReceiveServiceConnection now nmi requestSc =
     do { req \<leftarrow> scStore (scm nmi) requestSc;
          r \<leftarrow> findIncoming (scStore (scm nmi)) (scFor (scCommandCode req) (scAddress req))
                (incomingSc (scm nmi));
          case r of
            None \<Rightarrow> Some (None, nmi)
          | Some (p, sc) \<Rightarrow>
              if now > lastSentTime sc + timeoutSec sc
              then do { sc' \<leftarrow> emptyScQueue (sc\<lparr>isActive := False\<rparr>);
                        Some (None, unlinkSc (storeSc nmi p sc') p) }
              else do { q \<leftarrow> scQueue sc;
                        if qsize q \<noteq> 0
                        then do { (m, q') \<leftarrow> queuePop q;
                                  Some (m, storeSc nmi p (sc\<lparr>scQueue := Some q'\<rparr>)) }
                        else Some (None, nmi) } }"

text \<open>
  \<open>scManagerReceiveMessage\<close>. The comparison of the limit with the queue's size converts the
  \<open>int\<close> to \<open>unsigned int\<close>.
\<close>

definition scManagerReceiveMessage ::
    "real \<Rightarrow> NodeManagerInterface \<Rightarrow> JausMessage \<Rightarrow> NodeManagerInterface exec" where
  "scManagerReceiveMessage now nmi message =
     do { r \<leftarrow> findIncoming (scStore (scm nmi)) (scFor (commandCode message) (source message))
                (incomingSc (scm nmi));
          case r of
            None \<Rightarrow> Some nmi
          | Some (p, sc) \<Rightarrow>
              if isActive sc
              then do { q \<leftarrow> scQueue sc;
                        q' \<leftarrow> (if queueSize sc \<noteq> 0 \<and> queueSize sc = word_of_int (qsize q)
                               then do { (old, q1) \<leftarrow> queuePop q; queuePush q1 message }
                               else queuePush q message);
                        Some (storeSc nmi p (sc\<lparr>lastSentTime := now, scQueue := Some q'\<rparr>)) }
              else Some nmi }"

text \<open>\<open>scManagerUpdateServiceConnection\<close>: sequence supervision of an inbound connection.\<close>

definition scManagerUpdateServiceConnection ::
    "real \<Rightarrow> ServiceConnection \<Rightarrow> u16 \<Rightarrow> int \<times> ServiceConnection" where
  "scManagerUpdateServiceConnection now sc number =
     (let returnValue =
            (if number = scSequenceNumber sc then -1
             else if number = 0 \<and> scSequenceNumber sc \<noteq> 65535 then -2
             else if uint number - uint (scSequenceNumber sc) \<noteq> 1 \<and> number \<noteq> 0 then -2
             else 1)
      in (returnValue, sc\<lparr>lastSentTime := now, scSequenceNumber := number\<rparr>))"

text \<open>\<open>scManagerProcessUpdatedSubystem\<close>: connections whose address is gone are dropped.\<close>

fun dropStale :: "(JausAddress \<Rightarrow> int) \<Rightarrow> SupportedScMessage list \<Rightarrow> int \<Rightarrow> SupportedScMessage list \<times> int" where
  "dropStale verify [] count = ([], count)"
| "dropStale verify (s # rest) count =
     (let keep = filter (\<lambda>sc. verify (scAddress sc) \<noteq> 0) (scList s);
          (l, c) = dropStale verify rest (count - int (length (scList s) - length keep))
      in (s\<lparr>scList := keep\<rparr> # l, c))"

fun dropIncoming :: "(JausAddress \<Rightarrow> int) \<Rightarrow> (nat \<rightharpoonup> ServiceConnection) \<Rightarrow> nat list \<Rightarrow> int \<Rightarrow>
    ((nat \<rightharpoonup> ServiceConnection) \<times> nat list \<times> int) exec" where
  "dropIncoming verify store [] count = Some (store, [], count)"
| "dropIncoming verify store (p # rest) count =
     do { sc \<leftarrow> store p;
          if verify (scAddress sc) = 0
          then do { sc' \<leftarrow> emptyScQueue (sc\<lparr>isActive := False\<rparr>);
                    dropIncoming verify (store(p \<mapsto> sc')) rest (count - 1) }
          else do { (store', l, c) \<leftarrow> dropIncoming verify store rest count;
                    Some (store', p # l, c) } }"

definition scManagerProcessUpdatedSubystem ::
    "(bytes \<Rightarrow> bytes) \<Rightarrow> NodeManagerInterface \<Rightarrow> NodeManagerInterface exec" where
  "scManagerProcessUpdatedSubystem ask nmi =
     (let verify = nodeManagerVerifyAddress ask;
          (sups, out) = dropStale verify (supportedScMsgList (scm nmi)) (outgoingScCount (scm nmi))
      in do { (store', l, c) \<leftarrow> dropIncoming verify (scStore (scm nmi)) (incomingSc (scm nmi))
                                   (incomingScCount (scm nmi));
              Some (nmi\<lparr>scm := (scm nmi)\<lparr>supportedScMsgList := sups, outgoingScCount := out,
                                          scStore := store', incomingSc := l, incomingScCount := c\<rparr>\<rparr>) })"

section \<open>Well-formed managers\<close>

text \<open>
  Outbound: one entry per command code; in an entry every connection has the entry's code, an
  instance number that fits the byte it is sent as, and no two connections of a peer share
  their number or their presence vector. Inbound: the list is free of duplicates, its counter
  is right and every connection on it is live and has a well-formed queue.
\<close>

definition scKeys :: "ServiceConnection list \<Rightarrow> (JausAddress \<times> int) list" where
  "scKeys l = map (\<lambda>sc. (scAddress sc, instanceId sc)) l"

definition scVectors :: "ServiceConnection list \<Rightarrow> (JausAddress \<times> u32) list" where
  "scVectors l = map (\<lambda>sc. (scAddress sc, scPresenceVector sc)) l"

definition supOk :: "SupportedScMessage \<Rightarrow> bool" where
  "supOk s \<longleftrightarrow> distinct (scKeys (scList s)) \<and> distinct (scVectors (scList s)) \<and>
     (\<forall>sc \<in> set (scList s). 0 \<le> instanceId sc \<and> instanceId sc < 256 \<and> scCommandCode sc = supCommandCode s)"

definition outOk :: "ServiceConnectionManager \<Rightarrow> bool" where
  "outOk m \<longleftrightarrow> distinct (map supCommandCode (supportedScMsgList m)) \<and>
     (\<forall>s \<in> set (supportedScMsgList m). supOk s) \<and>
     supportedScMsgCount m = int (length (supportedScMsgList m))"

definition outTotal :: "ServiceConnectionManager \<Rightarrow> int" where
  "outTotal m = int (sum_list (map (\<lambda>s. length (scList s)) (supportedScMsgList m)))"

definition inOk :: "ServiceConnectionManager \<Rightarrow> bool" where
  "inOk m \<longleftrightarrow> distinct (incomingSc m) \<and> incomingScCount m = int (length (incomingSc m)) \<and>
     (\<forall>p \<in> set (incomingSc m). \<exists>sc q. scStore m p = Some sc \<and> scQueue sc = Some q \<and> queueOk q)"

lemma scManagerCreate_ok: "outOk scManagerCreate" "outTotal scManagerCreate = outgoingScCount scManagerCreate"
  "inOk scManagerCreate"
  by (simp_all add: scManagerCreate_def outOk_def outTotal_def inOk_def)

lemma sup_split:
  assumes "scFindSupportedScMsgInList l code = Some s"
  shows "\<exists>pre post. l = pre @ s # post \<and> supCommandCode s = code \<and>
     (\<forall>x \<in> set pre. supCommandCode x \<noteq> code) \<and>
     (\<forall>s'. updateSupported l code s' = pre @ s' # post) \<and>
     removeFirst (\<lambda>x. supCommandCode x = code) l = pre @ post"
  using assms
proof (induction l)
  case Nil
  then show ?case by simp
next
  case (Cons x l)
  show ?case
  proof (cases "supCommandCode x = code")
    case True
    then have "x = s" using Cons.prems by simp
    with True show ?thesis by (intro exI [of _ "[]"] exI [of _ l]) simp
  next
    case False
    with Cons obtain pre post where "l = pre @ s # post \<and> supCommandCode s = code \<and>
      (\<forall>y \<in> set pre. supCommandCode y \<noteq> code) \<and> (\<forall>s'. updateSupported l code s' = pre @ s' # post) \<and>
      removeFirst (\<lambda>y. supCommandCode y = code) l = pre @ post" by auto
    with False show ?thesis by - (rule exI [of _ "x # pre"], rule exI [of _ post], auto)
  qed
qed

lemma find_sup_None: "scFindSupportedScMsgInList l code = None \<longleftrightarrow> code \<notin> supCommandCode ` set l"
  by (induction l) auto

text \<open>Replacing one entry keeps the manager well-formed when the entry is.\<close>

lemma outOk_update:
  assumes "outOk m" "scFindSupportedScMsgInList (supportedScMsgList m) code = Some s"
    "supOk s'" "supCommandCode s' = code"
  shows "outOk (m\<lparr>supportedScMsgList := updateSupported (supportedScMsgList m) code s'\<rparr>)"
    and "outTotal (m\<lparr>supportedScMsgList := updateSupported (supportedScMsgList m) code s'\<rparr>) =
      outTotal m - int (length (scList s)) + int (length (scList s'))"
  using sup_split [OF assms(2)] assms by (auto simp: outOk_def outTotal_def)

lemma outOk_cong [simp]:
  "outOk (m\<lparr>outgoingScCount := k\<rparr>) = outOk m" "outTotal (m\<lparr>outgoingScCount := k\<rparr>) = outTotal m"
  by (simp_all add: outOk_def outTotal_def)

lemma outOk_sup: "outOk m \<Longrightarrow> scFindSupportedScMsgInList (supportedScMsgList m) code = Some s \<Longrightarrow>
    supOk s \<and> supCommandCode s = code"
  using sup_split [of "supportedScMsgList m" code s] by (auto simp: outOk_def)

lemma scFind_split:
  "scFindScInList l address ident = Some i \<longleftrightarrow>
     i < length l \<and> scSame address ident (l ! i) \<and> (\<forall>j < i. \<not> scSame address ident (l ! j))"
proof (induction l arbitrary: i)
  case Nil
  then show ?case by simp
next
  case (Cons sc l)
  show ?case
    by (cases i) (auto simp: Cons.IH less_Suc_eq_0_disj)
qed

lemma scFind_None: "scFindScInList l address ident = None \<longleftrightarrow> (\<forall>sc \<in> set l. \<not> scSame address ident sc)"
  by (induction l) auto

section \<open>Instance numbers\<close>

text \<open>The flags that remain after the walk: those of the numbers no other connection of the peer has.\<close>

lemma instanceLoop_spec:
  assumes "\<forall>sc \<in> set l. 0 \<le> instanceId sc \<and> instanceId sc < 256" "length av = 256"
  shows "instanceLoop l a pv av =
     Some (case find (\<lambda>sc. scAddress sc = a \<and> scPresenceVector sc = pv) l of
             Some sc \<Rightarrow> Inl (instanceId sc)
           | None \<Rightarrow> Inr (map (\<lambda>k. av ! k \<and> (a, int k) \<notin> set (scKeys l)) [0..<256]))"
  using assms
proof (induction l arbitrary: av)
  case Nil
  then show ?case by (simp add: scKeys_def) (metis map_nth)
next
  case (Cons sc l)
  let ?av = "av[nat (instanceId sc) := False]"
  have upd: "?av ! k = (av ! k \<and> instanceId sc \<noteq> int k)" if "k < 256" for k
    using that Cons.prems by (auto simp: nth_list_update split: if_splits)
  show ?case
    using Cons.prems Cons.IH [of av] Cons.IH [of ?av] upd
    by (auto simp: scKeys_def split: option.split)
qed

lemma instanceId_spec:
  assumes "\<forall>sc \<in> set l. 0 \<le> instanceId sc \<and> instanceId sc < 256"
  shows "\<exists>r. scGetAvailableInstanceId l a pv = Some r \<and>
    (\<forall>sc. find (\<lambda>sc. scAddress sc = a \<and> scPresenceVector sc = pv) l = Some sc \<longrightarrow> r = instanceId sc) \<and>
    (find (\<lambda>sc. scAddress sc = a \<and> scPresenceVector sc = pv) l = None \<longrightarrow>
       (r = -1 \<longrightarrow> (\<forall>k < 256. (a, int k) \<in> set (scKeys l))) \<and>
       (r \<noteq> -1 \<longrightarrow> 0 \<le> r \<and> r < 256 \<and> (a, r) \<notin> set (scKeys l)))"
proof (cases "find (\<lambda>sc. scAddress sc = a \<and> scPresenceVector sc = pv) l")
  case (Some sc)
  then show ?thesis
    using instanceLoop_spec [OF assms, of "replicate 256 True" a pv]
    by (simp add: scGetAvailableInstanceId_def)
next
  case None
  let ?av = "map (\<lambda>k. (a, int k) \<notin> set (scKeys l)) [0..<256]"
  have "map (\<lambda>k. replicate 256 True ! k \<and> (a, int k) \<notin> set (scKeys l)) [0..<256] = ?av"
    by (rule map_cong) simp_all
  then have r: "scGetAvailableInstanceId l a pv =
      Some (case firstIdx (\<lambda>b. b) ?av of Some i \<Rightarrow> int i | None \<Rightarrow> - 1)"
    using instanceLoop_spec [OF assms, of "replicate 256 True" a pv] None
    by (simp only: scGetAvailableInstanceId_def) simp
  show ?thesis
  proof (cases "firstIdx (\<lambda>b. b) ?av")
    case None
    then have "\<forall>k < 256. (a, int k) \<in> set (scKeys l)" by (auto simp: firstIdx_None)
    then show ?thesis using r None \<open>find _ l = None\<close> by simp
  next
    case (Some i)
    then have "i < 256" "?av ! i" by (auto dest: firstIdx_Some)
    then show ?thesis using r Some \<open>find _ l = None\<close> by simp
  qed
qed

section \<open>Creating and terminating outbound connections\<close>

text \<open>The generic messages the two constructors turn into.\<close>

definition confirmJm :: "NodeManagerInterface \<Rightarrow> CreateServiceConnectionMessage \<Rightarrow> u16 \<Rightarrow> u8 \<Rightarrow> real \<Rightarrow> int \<Rightarrow> JausMessage" where
  "confirmJm nmi message code ident rate response =
     the (confirmServiceConnectionMessageToJausMessage (confirmSc nmi message code ident rate response))"

definition terminateJm :: "JausAddress \<Rightarrow> JausAddress \<Rightarrow> u16 \<Rightarrow> u8 \<Rightarrow> JausMessage" where
  "terminateJm src dst code ident =
     the (terminateServiceConnectionMessageToJausMessage (terminateSc src dst code ident))"

lemma transmit_confirm [simp]:
  "transmit os nmi (confirmServiceConnectionMessageToJausMessage
     (confirmSc nmi0 message code ident rate response)) =
   Some (logSent nmi (confirmJm nmi0 message code ident rate response))"
  unfolding confirmJm_def confirmServiceConnectionMessageToJausMessage_def
  by (rule confirmServiceConnection.transmits)
    (simp_all add: confirmSc_def confirmServiceConnectionMessageCreate_def confirmServiceConnection_dataSize_def
      confirmServiceConnection_dataInitialize_def blankHeader_def JausHeader.defs)

lemma transmit_terminate [simp]:
  "transmit os nmi (terminateServiceConnectionMessageToJausMessage (terminateSc src dst code ident)) =
   Some (logSent nmi (terminateJm src dst code ident))"
  unfolding terminateJm_def terminateServiceConnectionMessageToJausMessage_def
  by (rule terminateServiceConnection.transmits)
    (simp_all add: terminateSc_def terminateServiceConnectionMessageCreate_def terminateServiceConnection_dataSize_def
      terminateServiceConnection_dataInitialize_def blankHeader_def JausHeader.defs)

text \<open>The entry after a create message that was accepted with the number \<open>ident\<close>.\<close>

definition createdList :: "ServiceConnection list \<Rightarrow> u16 \<Rightarrow> JausAddress \<Rightarrow> u32 \<Rightarrow> real \<Rightarrow> int \<Rightarrow> ServiceConnection list" where
  "createdList l code a pv rate ident =
     (case scFindScInList l a ident of
        None \<Rightarrow> (serviceConnectionCreate
                   \<lparr>scCommandCode := code, scPresenceVector := pv, scAddress := a, instanceId := ident,
                    scQueue := None, queueSize := 0, requestedUpdateRateHz := rate, lastSentTime := 0,
                    scSequenceNumber := 0, isActive := True, confirmedUpdateRateHz := rate\<rparr>) # l
      | Some i \<Rightarrow> l[i := (l ! i)\<lparr>requestedUpdateRateHz := rate, lastSentTime := 0, scSequenceNumber := 0,
                                isActive := True, confirmedUpdateRateHz := rate\<rparr>])"

lemma scKeys_update: "i < length l \<Longrightarrow> scAddress sc = scAddress (l ! i) \<Longrightarrow> instanceId sc = instanceId (l ! i) \<Longrightarrow>
    scPresenceVector sc = scPresenceVector (l ! i) \<Longrightarrow>
    scKeys (l[i := sc]) = scKeys l \<and> scVectors (l[i := sc]) = scVectors l"
  by (simp add: scKeys_def scVectors_def map_update list_update_same_conv)

lemma supOk_update:
  assumes "supOk s" "i < length (scList s)" "scAddress sc = scAddress (scList s ! i)"
    "instanceId sc = instanceId (scList s ! i)" "scPresenceVector sc = scPresenceVector (scList s ! i)"
    "scCommandCode sc = scCommandCode (scList s ! i)"
  shows "supOk (s\<lparr>scList := (scList s)[i := sc]\<rparr>)"
proof -
  have "scList s ! i \<in> set (scList s)" using assms(2) by simp
  then show ?thesis
    using assms scKeys_update [of i "scList s" sc] set_update_subset_insert [of "scList s" i sc]
    by (auto simp: supOk_def)
qed

lemma createdList_ok:
  assumes "supOk s" "scGetAvailableInstanceId (scList s) a pv = Some ident" "ident \<noteq> - 1"
  shows "supOk (s\<lparr>scList := createdList (scList s) (supCommandCode s) a pv rate ident\<rparr>)"
proof (cases "scFindScInList (scList s) a ident")
  case (Some i)
  then have "i < length (scList s)" by (simp add: scFind_split)
  then show ?thesis
    using supOk_update [OF assms(1)] Some by (simp add: createdList_def)
next
  case None
  let ?Q = "\<lambda>sc. scAddress sc = a \<and> scPresenceVector sc = pv"
  have ids: "\<forall>sc \<in> set (scList s). 0 \<le> instanceId sc \<and> instanceId sc < 256"
    using assms(1) by (simp add: supOk_def)
  have new: "(a, ident) \<notin> set (scKeys (scList s))"
    using None by (auto simp: scFind_None scSame_def scKeys_def)
  have fn: "find ?Q (scList s) = None"
  proof (rule ccontr)
    assume "find ?Q (scList s) \<noteq> None"
    then obtain sc where sc: "find ?Q (scList s) = Some sc" by auto
    then have "sc \<in> set (scList s)" "scAddress sc = a" by (auto simp: find_Some_iff)
    moreover have "instanceId sc = ident" using instanceId_spec [OF ids, of a pv] sc assms(2) by auto
    ultimately show False using new by (auto simp: scKeys_def)
  qed
  then have "(a, pv) \<notin> set (scVectors (scList s))" by (auto simp: find_None_iff scVectors_def)
  moreover have "0 \<le> ident" "ident < 256" using instanceId_spec [OF ids, of a pv] fn assms(2,3) by auto
  ultimately show ?thesis
    using assms(1) new None
    by (auto simp: supOk_def createdList_def scKeys_def scVectors_def serviceConnectionCreate_def)
qed

lemma length_createdList:
  "length (createdList l code a pv rate ident) =
     length l + (if scFindScInList l a ident = None then 1 else 0)"
  by (simp add: createdList_def split: option.split)

text \<open>The whole of \<open>scManagerProcessCreateScMessage\<close> on a well-formed manager, branch by branch.\<close>

lemma processCreate_spec:
  assumes "outOk (scm nmi)"
  defines "code \<equiv> \<lambda>m. createServiceConnection_serviceConnectionCommandCode m"
  shows "scManagerProcessCreateScMessage os ok nmi m =
    (case scFindSupportedScMsgInList (supportedScMsgList (scm nmi)) (code m) of
       None \<Rightarrow> Some (logSent nmi (confirmJm nmi m (code m) 0 0 JAUS_SC_COMPONENT_NOT_CAPABLE))
     | Some s \<Rightarrow>
         (let r = the (scGetAvailableInstanceId (scList s) (source m) (createServiceConnection_presenceVector m));
              rate = createServiceConnection_requestedPeriodicUpdateRateHertz m
          in if \<not> ok \<or> r = -1
             then Some (logSent nmi (confirmJm nmi m (code m) 0 0 JAUS_SC_CONNECTION_REFUSED))
             else Some (logSent (nmi\<lparr>scm := (scm nmi)
                    \<lparr>supportedScMsgList := updateSupported (supportedScMsgList (scm nmi)) (code m)
                        (s\<lparr>scList := createdList (scList s) (code m) (source m)
                                      (createServiceConnection_presenceVector m) rate r\<rparr>),
                     outgoingScCount := outgoingScCount (scm nmi) +
                        (if scFindScInList (scList s) (source m) r = None then 1 else 0)\<rparr>\<rparr>)
                    (confirmJm nmi m (code m) (word_of_int r) rate JAUS_SC_SUCCESSFUL))))"
proof (cases "scFindSupportedScMsgInList (supportedScMsgList (scm nmi)) (code m)")
  case None
  then show ?thesis by (simp add: scManagerProcessCreateScMessage_def code_def refuseSc_def)
next
  case (Some s)
  from outOk_sup [OF assms(1) Some] have s: "supOk s" "supCommandCode s = code m" by auto
  then have "\<forall>sc \<in> set (scList s). 0 \<le> instanceId sc \<and> instanceId sc < 256" by (simp add: supOk_def)
  from instanceId_spec [OF this] obtain r where
    r: "scGetAvailableInstanceId (scList s) (source m) (createServiceConnection_presenceVector m) = Some r"
    by blast
  show ?thesis
  proof (cases "scFindScInList (scList s) (source m) r")
    case None
    then show ?thesis
      using Some r by (simp add: scManagerProcessCreateScMessage_def code_def refuseSc_def Let_def createdList_def)
  next
    case (Some i)
    then have i: "i < length (scList s)" "scSame (source m) r (scList s ! i)" by (auto simp: scFind_split)
    then have "scCommandCode (scList s ! i) = code m" "instanceId (scList s ! i) = r"
      using s by (auto simp: supOk_def scSame_def)
    then show ?thesis
      using Some r \<open>scFindSupportedScMsgInList _ _ = Some s\<close>
      by (simp add: scManagerProcessCreateScMessage_def code_def refuseSc_def Let_def createdList_def)
  qed
qed

lemma available_number:
  assumes "\<forall>sc \<in> set l. 0 \<le> instanceId sc \<and> instanceId sc < 256"
    "length (filter (\<lambda>sc. scAddress sc = a) l) < 256"
    "scGetAvailableInstanceId l a pv = Some r"
  shows "r \<noteq> -1"
proof
  assume r: "r = -1"
  let ?Q = "\<lambda>sc. scAddress sc = a \<and> scPresenceVector sc = pv"
  from instanceId_spec [OF assms(1), of a pv] obtain
    q1: "\<forall>sc. find ?Q l = Some sc \<longrightarrow> r = instanceId sc" and
    q2: "find ?Q l = None \<longrightarrow> (\<forall>k < 256. (a, int k) \<in> set (scKeys l))"
    using assms(3) r by auto
  have "find ?Q l = None"
  proof (cases "find ?Q l")
    case (Some sc)
    then have "sc \<in> set l" by (auto simp: find_Some_iff)
    then have "0 \<le> instanceId sc" using assms(1) by blast
    moreover have "r = instanceId sc" using q1 Some by blast
    ultimately show ?thesis using r by simp
  qed
  with q2 have "int ` {..<256} \<subseteq> instanceId ` set (filter (\<lambda>sc. scAddress sc = a) l)"
    by (force simp: scKeys_def)
  then have "card (int ` {..<256 :: nat}) \<le> card (instanceId ` set (filter (\<lambda>sc. scAddress sc = a) l))"
    by (intro card_mono) simp_all
  also have "\<dots> \<le> length (filter (\<lambda>sc. scAddress sc = a) l)"
    by (rule order_trans [OF card_image_le card_length]) simp
  finally show False using assms(2) by (simp add: card_image)
qed

lemma processCreate_ok:
  assumes "outOk (scm nmi)"
  shows "\<exists>nmi'. scManagerProcessCreateScMessage os ok nmi m = Some nmi' \<and> outOk (scm nmi') \<and>
    outTotal (scm nmi') - outTotal (scm nmi) = outgoingScCount (scm nmi') - outgoingScCount (scm nmi) \<and>
    incomingSc (scm nmi') = incomingSc (scm nmi) \<and> incomingScCount (scm nmi') = incomingScCount (scm nmi) \<and>
    scStore (scm nmi') = scStore (scm nmi)"
proof -
  let ?code = "createServiceConnection_serviceConnectionCommandCode m"
  let ?pv = "createServiceConnection_presenceVector m"
  show ?thesis
  proof (cases "scFindSupportedScMsgInList (supportedScMsgList (scm nmi)) ?code")
    case None
    then show ?thesis using assms processCreate_spec [OF assms, of os ok m] by simp
  next
    case (Some s)
    from outOk_sup [OF assms Some] have s: "supOk s" "supCommandCode s = ?code" by auto
    then have "\<forall>sc \<in> set (scList s). 0 \<le> instanceId sc \<and> instanceId sc < 256" by (simp add: supOk_def)
    from instanceId_spec [OF this] obtain r where
      r: "scGetAvailableInstanceId (scList s) (source m) ?pv = Some r" by blast
    show ?thesis
    proof (cases "\<not> ok \<or> r = -1")
      case True
      then show ?thesis using assms Some r processCreate_spec [OF assms, of os ok m] by (auto simp: Let_def)
    next
      case False
      let ?s = "s\<lparr>scList := createdList (scList s) ?code (source m) ?pv
                 (createServiceConnection_requestedPeriodicUpdateRateHertz m) r\<rparr>"
      have "supOk ?s" "supCommandCode ?s = ?code"
        using createdList_ok [OF s(1) r] False s(2) by simp_all
      note upd = outOk_update [OF assms Some this]
      show ?thesis
        using False assms Some r processCreate_spec [OF assms, of os ok m] upd
        by (auto simp: Let_def length_createdList)
    qed
  qed
qed

lemma setActive_ok:
  assumes "outOk (scm nmi)"
  shows "outOk (scm (setActive ok nmi b code a ident))"
    and "outTotal (scm (setActive ok nmi b code a ident)) = outTotal (scm nmi)"
    and "outgoingScCount (scm (setActive ok nmi b code a ident)) = outgoingScCount (scm nmi)"
    and "inOk (scm (setActive ok nmi b code a ident)) = inOk (scm nmi)"
proof -
  show "outOk (scm (setActive ok nmi b code a ident))"
    and "outTotal (scm (setActive ok nmi b code a ident)) = outTotal (scm nmi)"
    using assms outOk_update [OF assms] outOk_sup [OF assms] supOk_update
    by (auto simp: setActive_def scFind_split split: option.split)
  show "outgoingScCount (scm (setActive ok nmi b code a ident)) = outgoingScCount (scm nmi)"
    and "inOk (scm (setActive ok nmi b code a ident)) = inOk (scm nmi)"
    by (auto simp: setActive_def inOk_def split: option.split)
qed

lemma scKeys_removeFirst:
  "distinct (scKeys l) \<Longrightarrow> distinct (scKeys (removeFirst P l))"
  "distinct (scVectors l) \<Longrightarrow> distinct (scVectors (removeFirst P l))"
  unfolding scKeys_def scVectors_def
  by (induction l) (auto dest: set_mp [OF set_removeFirst])

lemma supOk_subset:
  assumes "supOk s" "distinct (scKeys l)" "distinct (scVectors l)" "set l \<subseteq> set (scList s)"
  shows "supOk (s\<lparr>scList := l\<rparr>)"
  using assms by (auto simp: supOk_def)

lemma processTerminate_ok:
  assumes "outOk (scm nmi)"
  shows "outOk (scm (scManagerProcessTerminateScMessage nmi m))"
    and "outTotal (scm (scManagerProcessTerminateScMessage nmi m)) - outTotal (scm nmi) =
      outgoingScCount (scm (scManagerProcessTerminateScMessage nmi m)) - outgoingScCount (scm nmi)"
    and "inOk (scm (scManagerProcessTerminateScMessage nmi m)) = inOk (scm nmi)"
proof -
  let ?code = "terminateServiceConnection_serviceConnectionCommandCode m"
  let ?P = "scMatches (source m) ?code (terminateServiceConnection_instanceId m)"
  have both: "outOk (scm (scManagerProcessTerminateScMessage nmi m)) \<and>
      outTotal (scm (scManagerProcessTerminateScMessage nmi m)) - outTotal (scm nmi) =
      outgoingScCount (scm (scManagerProcessTerminateScMessage nmi m)) - outgoingScCount (scm nmi)"
  proof (cases "scFindSupportedScMsgInList (supportedScMsgList (scm nmi)) ?code")
    case None
    then show ?thesis using assms by (simp add: scManagerProcessTerminateScMessage_def)
  next
    case (Some s)
    from outOk_sup [OF assms Some] have s: "supOk s" "supCommandCode s = ?code" by auto
    let ?s = "s\<lparr>scList := removeFirst ?P (scList s)\<rparr>"
    have "supOk ?s" using s(1) scKeys_removeFirst set_removeFirst
      by (intro supOk_subset) (auto simp: supOk_def dest: set_mp [OF set_removeFirst])
    note upd = outOk_update [OF assms Some this]
    show ?thesis
    proof (cases "firstIdx ?P (scList s)")
      case None
      then show ?thesis using Some assms by (simp add: scManagerProcessTerminateScMessage_def)
    next
      case (Some i)
      then have "length (removeFirst ?P (scList s)) + 1 = length (scList s)"
        by (auto simp: length_removeFirst firstIdx_None [symmetric] dest: firstIdx_Some)
      then show ?thesis
        using Some \<open>scFindSupportedScMsgInList _ _ = Some s\<close> upd s(2)
        by (simp add: scManagerProcessTerminateScMessage_def Let_def)
    qed
  qed
  then show "outOk (scm (scManagerProcessTerminateScMessage nmi m))"
    and "outTotal (scm (scManagerProcessTerminateScMessage nmi m)) - outTotal (scm nmi) =
      outgoingScCount (scm (scManagerProcessTerminateScMessage nmi m)) - outgoingScCount (scm nmi)"
    by auto
  show "inOk (scm (scManagerProcessTerminateScMessage nmi m)) = inOk (scm nmi)"
    by (auto simp: scManagerProcessTerminateScMessage_def Let_def inOk_def split: option.split)
qed

lemma addSupported_ok:
  assumes "outOk (scm nmi)"
  shows "outOk (scm (scManagerAddSupportedMessage ok nmi code))"
    and "outTotal (scm (scManagerAddSupportedMessage ok nmi code)) = outTotal (scm nmi)"
    and "outgoingScCount (scm (scManagerAddSupportedMessage ok nmi code)) = outgoingScCount (scm nmi)"
    and "inOk (scm (scManagerAddSupportedMessage ok nmi code)) = inOk (scm nmi)"
  using assms
  by (auto simp: scManagerAddSupportedMessage_def outOk_def outTotal_def inOk_def supOk_def scKeys_def
      scVectors_def find_sup_None split: option.split)

lemma terminateAll_spec:
  "terminateAll os nmi l = Some (foldl (\<lambda>n sc. logSent n (terminateJm (cmptAddress (cmpt nmi)) (scAddress sc)
     (scCommandCode sc) (word_of_int (instanceId sc)))) nmi l)"
  by (induction l arbitrary: nmi) simp_all

lemma foldl_logSent [simp]:
  "scm (foldl (\<lambda>n x. logSent n (f x)) nmi l) = scm nmi"
  "isOpen (foldl (\<lambda>n x. logSent n (f x)) nmi l) = isOpen nmi"
  by (induction l arbitrary: nmi) simp_all

lemma foldl_logSent_sent:
  "isOpen nmi \<Longrightarrow> sent (foldl (\<lambda>n x. logSent n (f x)) nmi l) = sent nmi @ map (\<lambda>x. messageBytes (f x)) l"
  by (induction l arbitrary: nmi) (simp_all add: logSent_def)

lemma removeSupported_ok:
  assumes "outOk (scm nmi)"
  shows "\<exists>nmi'. scManagerRemoveSupportedMessage os nmi code = Some nmi' \<and> outOk (scm nmi') \<and>
    outgoingScCount (scm nmi') = outgoingScCount (scm nmi) \<and> inOk (scm nmi') = inOk (scm nmi) \<and>
    scFindSupportedScMsgInList (supportedScMsgList (scm nmi')) code = None"
proof (cases "scFindSupportedScMsgInList (supportedScMsgList (scm nmi)) code")
  case None
  then show ?thesis using assms by (simp add: scManagerRemoveSupportedMessage_def)
next
  case (Some s)
  from sup_split [OF Some] obtain pre post where
    sp: "supportedScMsgList (scm nmi) = pre @ s # post" "supCommandCode s = code"
    "removeFirst (\<lambda>x. supCommandCode x = code) (supportedScMsgList (scm nmi)) = pre @ post"
    by blast
  then show ?thesis
    using assms Some
    by (auto simp: scManagerRemoveSupportedMessage_def terminateAll_spec outOk_def inOk_def find_sup_None)
qed

section \<open>The send list\<close>

definition scSent :: "real \<Rightarrow> ServiceConnection \<Rightarrow> ServiceConnection" where
  "scSent now sc = (if scDue now sc
     then sc\<lparr>lastSentTime := now, scSequenceNumber := scSequenceNumber sc + 1\<rparr> else sc)"

lemma sendListLoop_spec:
  "sendListLoop now l =
     (map (\<lambda>sc. sc\<lparr>lastSentTime := now\<rparr>) (filter (scDue now) l), map (scSent now) l)"
  by (induction l) (simp_all add: scSent_def Let_def)

lemma scSent_simps [simp]:
  "scAddress (scSent now sc) = scAddress sc" "instanceId (scSent now sc) = instanceId sc"
  "scPresenceVector (scSent now sc) = scPresenceVector sc" "scCommandCode (scSent now sc) = scCommandCode sc"
  by (simp_all add: scSent_def)

lemma sendList_ok:
  assumes "outOk (scm nmi)" "scManagerGetSendList now nmi code = (out, nmi')"
  shows "outOk (scm nmi')" "outTotal (scm nmi') = outTotal (scm nmi)"
    "outgoingScCount (scm nmi') = outgoingScCount (scm nmi)" "inOk (scm nmi') = inOk (scm nmi)"
proof -
  have "outOk (scm nmi') \<and> outTotal (scm nmi') = outTotal (scm nmi)"
  proof (cases "scFindSupportedScMsgInList (supportedScMsgList (scm nmi)) code")
    case None
    then show ?thesis using assms by (simp add: scManagerGetSendList_def)
  next
    case (Some s)
    from outOk_sup [OF assms(1) Some] have s: "supOk s" "supCommandCode s = code" by auto
    then have "supOk (s\<lparr>scList := map (scSent now) (scList s)\<rparr>)"
      by (auto simp: supOk_def scKeys_def scVectors_def comp_def)
    from outOk_update [OF assms(1) Some this] show ?thesis
      using assms(2) Some s by (auto simp: scManagerGetSendList_def sendListLoop_spec)
  qed
  then show "outOk (scm nmi')" "outTotal (scm nmi') = outTotal (scm nmi)" by auto
  show "outgoingScCount (scm nmi') = outgoingScCount (scm nmi)" "inOk (scm nmi') = inOk (scm nmi)"
    using assms(2) by (auto simp: scManagerGetSendList_def inOk_def split: option.splits prod.splits)
qed

section \<open>Inbound connections\<close>

lemma findIncoming_spec:
  assumes "\<forall>p \<in> set l. store p \<noteq> None"
  shows "findIncoming store P l =
    Some (map_option (\<lambda>p. (p, the (store p))) (find (\<lambda>p. P (the (store p))) l))"
  using assms by (induction l) auto

lemma findIncoming_Some:
  assumes "inOk m" "findIncoming (scStore m) P (incomingSc m) = Some (Some (p, sc))"
  shows "p \<in> set (incomingSc m)" "scStore m p = Some sc" "P sc" "\<exists>q. scQueue sc = Some q \<and> queueOk q"
proof -
  have live: "\<forall>p \<in> set (incomingSc m). scStore m p \<noteq> None" using assms(1) by (auto simp: inOk_def)
  from findIncoming_spec [OF live, of P] assms(2)
  have f: "find (\<lambda>p. P (the (scStore m p))) (incomingSc m) = Some p" "sc = the (scStore m p)"
    by (cases "find (\<lambda>p. P (the (scStore m p))) (incomingSc m)"; simp)+
  then show p: "p \<in> set (incomingSc m)" by (auto simp: find_Some_iff)
  then show "scStore m p = Some sc" using live f(2) by auto
  show "P sc" using f by (auto simp: find_Some_iff)
  then show "\<exists>q. scQueue sc = Some q \<and> queueOk q"
    using assms(1) p \<open>scStore m p = Some sc\<close> by (auto simp: inOk_def)
qed

lemma findIncoming_total:
  assumes "inOk m" shows "\<exists>r. findIncoming (scStore m) P (incomingSc m) = Some r"
  using assms by (subst findIncoming_spec) (auto simp: inOk_def)

lemma unlinkAll_spec:
  "unlinkAll p l c = (filter (\<lambda>x. x \<noteq> p) l, c - int (length (filter (\<lambda>x. x = p) l)))"
  by (induction l arbitrary: c) auto

lemma inOk_store:
  assumes "inOk m" "scStore m p = Some sc" "scQueue sc' = Some q" "queueOk q"
  shows "inOk (m\<lparr>scStore := (scStore m)(p \<mapsto> sc')\<rparr>)"
  using assms by (auto simp: inOk_def)

lemma scm_storeSc [simp]: "scm (storeSc nmi p sc) = (scm nmi)\<lparr>scStore := (scStore (scm nmi))(p \<mapsto> sc)\<rparr>"
  by (simp add: storeSc_def)

lemma inOk_unlink:
  assumes "inOk (scm nmi)" "p \<in> set (incomingSc (scm nmi))"
  shows "inOk (scm (unlinkSc nmi p))"
proof -
  have "int (length (remove1 p (incomingSc (scm nmi)))) = int (length (incomingSc (scm nmi))) - 1"
    using length_pos_if_in_set [OF assms(2)] assms(2) unfolding length_remove1 by (auto simp: int_ops(6))
  then show ?thesis
    using assms notin_set_remove1 [of _ "incomingSc (scm nmi)" p] by (auto simp: inOk_def unlinkSc_def)
qed

lemma emptyScQueue_ok:
  assumes "scQueue sc = Some q" "queueOk q"
  shows "\<exists>q'. emptyScQueue sc = Some (sc\<lparr>scQueue := Some q'\<rparr>) \<and> queueOk q' \<and> queueList q' = []"
  using queueEmpty_ok [OF assms(2)] assms(1) by (auto simp: emptyScQueue_def)

text \<open>A message for an active inbound connection goes to its queue; a full queue drops its oldest.\<close>

definition boundedPush :: "u32 \<Rightarrow> JausMessage list \<Rightarrow> JausMessage \<Rightarrow> JausMessage list" where
  "boundedPush limit ms m = (if limit \<noteq> 0 \<and> unat limit = length ms then tl ms @ [m] else ms @ [m])"

lemma receiveMessage_spec:
  assumes "inOk (scm nmi)"
    "findIncoming (scStore (scm nmi)) (scFor (commandCode m) (source m)) (incomingSc (scm nmi)) = Some (Some (p, sc))"
    "isActive sc" "scQueue sc = Some q" "length (queueList q) < 2 ^ 31 - 1"
  shows "\<exists>q'. scManagerReceiveMessage now nmi m =
      Some (storeSc nmi p (sc\<lparr>lastSentTime := now, scQueue := Some q'\<rparr>)) \<and> queueOk q' \<and>
      queueList q' = boundedPush (queueSize sc) (queueList q) m"
proof -
  have q: "queueOk q" using findIncoming_Some(4) [OF assms(1,2)] assms(4) by auto
  have sz: "unat (word_of_int (qsize q) :: u32) = length (queueList q)"
    using qsize_ok [OF q] assms(5) by (simp add: unat_of_nat_lt)
  then have eq: "queueSize sc = word_of_int (qsize q) \<longleftrightarrow> unat (queueSize sc) = length (queueList q)"
    by (simp add: word_unat_eq_iff)
  show ?thesis
  proof (cases "queueSize sc \<noteq> 0 \<and> unat (queueSize sc) = length (queueList q)")
    case True
    obtain old q1 where q1: "queuePop q = Some (old, q1)" "queueOk q1" "queueList q1 = tl (queueList q)"
      using queuePop_ok [OF q] by blast
    obtain q2 where "queuePush q1 m = Some q2" "queueOk q2" "queueList q2 = tl (queueList q) @ [m]"
    proof -
      have "length (queueList q1) < 2 ^ 31 - 1" using q1(3) assms(5) by simp
      from queuePush_ok [OF q1(2) this, of m] q1(3) that show ?thesis by auto
    qed
    then show ?thesis
      using True q1 assms eq by (auto simp: scManagerReceiveMessage_def boundedPush_def)
  next
    case False
    obtain q2 where "queuePush q m = Some q2" "queueOk q2" "queueList q2 = queueList q @ [m]"
      using queuePush_ok [OF q, of m] assms(5) by auto
    then show ?thesis
      using False assms eq by (auto simp: scManagerReceiveMessage_def boundedPush_def)
  qed
qed

end
