(* ===== verification/NodeMessages.thy ===== *)
theory NodeMessages
  imports MessageCodes
begin

text \<open>
  Two messages every component sends:
  \<open>openjaus/src/libjaus/message/inform/communications/reportHeartbeatPulseMessage.c\<close>, whose
  \<open>dataFromBuffer\<close> accepts any size, and
  \<open>openjaus/src/libjaus/message/inform/dynamicConfiguration/reportIdentificationMessage.c\<close>, which
  carries a C string in a field of 80 bytes.
\<close>

section \<open>ReportHeartbeatPulseMessage\<close>

type_synonym ReportHeartbeatPulseMessage = JausHeader

definition reportHeartbeatPulse_dataFromBuffer ::
    "ReportHeartbeatPulseMessage \<Rightarrow> bytes \<Rightarrow> nat \<Rightarrow> u32 \<Rightarrow> (bool \<times> ReportHeartbeatPulseMessage) exec" where
  "reportHeartbeatPulse_dataFromBuffer m buffer off n = Some (True, m)"

definition reportHeartbeatPulse_dataToBuffer ::
    "ReportHeartbeatPulseMessage \<Rightarrow> bytes \<Rightarrow> nat \<Rightarrow> u32 \<Rightarrow> (nat \<times> bytes) exec" where
  "reportHeartbeatPulse_dataToBuffer m buffer off n = Some (0, buffer)"

definition reportHeartbeatPulse_dataSize :: "ReportHeartbeatPulseMessage \<Rightarrow> u32" where
  "reportHeartbeatPulse_dataSize m = 0"

definition reportHeartbeatPulseMessageCreate :: ReportHeartbeatPulseMessage where
  "reportHeartbeatPulseMessageCreate = blankHeader JAUS_REPORT_HEARTBEAT_PULSE 0"

definition reportHeartbeatPulseMessageToJausMessage :: "ReportHeartbeatPulseMessage \<Rightarrow> JausMessage exec" where
  "reportHeartbeatPulseMessageToJausMessage =
     messageToJausMessage reportHeartbeatPulse_dataSize reportHeartbeatPulse_dataToBuffer"

definition reportHeartbeatPulseMessageFromJausMessage ::
    "ReportHeartbeatPulseMessage \<Rightarrow> JausMessage \<Rightarrow> ReportHeartbeatPulseMessage option exec" where
  "reportHeartbeatPulseMessageFromJausMessage =
     messageFromJausMessage JAUS_REPORT_HEARTBEAT_PULSE reportHeartbeatPulse_dataFromBuffer"

interpretation reportHeartbeatPulse: typed_message reportHeartbeatPulse_dataSize
  reportHeartbeatPulse_dataFromBuffer reportHeartbeatPulse_dataToBuffer "\<lambda>_. []" "\<lambda>m0 m. m0"
  by unfold_locales
    (simp_all add: reportHeartbeatPulse_dataSize_def reportHeartbeatPulse_dataFromBuffer_def
      reportHeartbeatPulse_dataToBuffer_def)

section \<open>ReportIdentificationMessage\<close>

text \<open>The member \<open>char identification[80]\<close> is the list of its 80 bytes.\<close>

record ReportIdentificationMessage = JausHeader +
  reportIdentification_queryType :: u8
  reportIdentification_authority :: u8
  reportIdentification_type :: u16
  reportIdentification_identification :: bytes

text \<open>\<open>strlen\<close> of the bytes; without a terminator it reads past the array.\<close>

fun strlen :: "bytes \<Rightarrow> nat exec" where
  "strlen [] = None"
| "strlen (b # bs) = (if b = 0 then Some 0 else map_option Suc (strlen bs))"

definition reportIdentification_dataInitialize ::
    "ReportIdentificationMessage \<Rightarrow> ReportIdentificationMessage" where
  "reportIdentification_dataInitialize m =
     m\<lparr>reportIdentification_queryType := newJausByte 0, reportIdentification_authority := newJausByte 0,
       reportIdentification_type := newJausUnsignedShort 0,
       reportIdentification_identification := replicate 80 0\<rparr>"

text \<open>The \<open>memcpy\<close> copies what the buffer has, at most 80 bytes.\<close>

definition getIdentification :: "bytes \<Rightarrow> nat \<Rightarrow> u32 \<Rightarrow> (nat \<times> ReportIdentificationMessage) stmt" where
  "getIdentification buffer off n =
     (\<lambda>(i, m). let k = unat (n - of_nat i)
               in (case memRead buffer (off + i) (if k > 80 then 80 else k) of
                     None \<Rightarrow> Fault
                   | Some bs \<Rightarrow>
                       (case memWrite (reportIdentification_identification m) 0 bs of
                          None \<Rightarrow> Fault
                        | Some s \<Rightarrow> Next (i + k, m\<lparr>reportIdentification_identification := s\<rparr>))))"

definition reportIdentification_dataFromBuffer ::
    "ReportIdentificationMessage \<Rightarrow> bytes \<Rightarrow> nat \<Rightarrow> u32 \<Rightarrow> (bool \<times> ReportIdentificationMessage) exec" where
  "reportIdentification_dataFromBuffer m buffer off n =
     (if n = dataSize m then finishR (runStmts
        [getByte (\<lambda>v m. m\<lparr>reportIdentification_queryType := v\<rparr>) buffer off n,
         getByte (\<lambda>v m. m\<lparr>reportIdentification_authority := v\<rparr>) buffer off n,
         getUShort (\<lambda>v m. m\<lparr>reportIdentification_type := v\<rparr>) buffer off n,
         getIdentification buffer off n] (0, m))
      else Some (False, m))"

definition reportIdentification_dataSize :: "ReportIdentificationMessage \<Rightarrow> u32" where
  "reportIdentification_dataSize m = 84"

text \<open>
  The string is padded with zeros to 80 bytes; the size test in front of the copy compares the
  room with the string only.
\<close>

definition putIdentification :: "ReportIdentificationMessage \<Rightarrow> nat \<Rightarrow> u32 \<Rightarrow> (nat \<times> bytes) stmt" where
  "putIdentification m off n =
     (\<lambda>(i, buffer).
        case strlen (reportIdentification_identification m) of
          None \<Rightarrow> Fault
        | Some k \<Rightarrow>
            if k < 80
            then (if sint n - int i < int k then Return (i, buffer)
                  else (case memWrite buffer (off + i)
                               (take k (reportIdentification_identification m) @ replicate (80 - k) 0) of
                          None \<Rightarrow> Fault
                        | Some b \<Rightarrow> Next (i + 80, b)))
            else (if n - of_nat i < 80 then Return (i, buffer)
                  else (case memWrite buffer (off + i)
                               (take 79 (reportIdentification_identification m) @ [0]) of
                          None \<Rightarrow> Fault
                        | Some b \<Rightarrow> Next (i + 80, b))))"

definition reportIdentification_dataToBuffer ::
    "ReportIdentificationMessage \<Rightarrow> bytes \<Rightarrow> nat \<Rightarrow> u32 \<Rightarrow> (nat \<times> bytes) exec" where
  "reportIdentification_dataToBuffer m buffer off n =
     (if reportIdentification_dataSize m \<le> n then finishW (runStmts
        [putByte (Some (reportIdentification_queryType m)) off n,
         putByte (Some (reportIdentification_authority m)) off n,
         putUShort (Some (reportIdentification_type m)) off n,
         putIdentification m off n] (0, buffer))
      else Some (0, buffer))"

definition reportIdentificationMessageCreate :: ReportIdentificationMessage where
  "reportIdentificationMessageCreate =
     reportIdentification_dataInitialize (JausHeader.extend (blankHeader JAUS_REPORT_IDENTIFICATION 84)
        (ReportIdentificationMessage.fields 0 0 0 (replicate 80 0)))"

definition reportIdentificationMessageToJausMessage :: "ReportIdentificationMessage \<Rightarrow> JausMessage exec" where
  "reportIdentificationMessageToJausMessage =
     messageToJausMessage reportIdentification_dataSize reportIdentification_dataToBuffer"

definition reportIdentificationMessageFromJausMessage ::
    "ReportIdentificationMessage \<Rightarrow> JausMessage \<Rightarrow> ReportIdentificationMessage option exec" where
  "reportIdentificationMessageFromJausMessage =
     messageFromJausMessage JAUS_REPORT_IDENTIFICATION reportIdentification_dataFromBuffer"

section \<open>The identification on the wire\<close>

definition identificationBytes :: "ReportIdentificationMessage \<Rightarrow> bytes \<Rightarrow> bytes" where
  "identificationBytes m str =
     [reportIdentification_queryType m, reportIdentification_authority m] @
     bytesOfWord 2 (reportIdentification_type m) @ str @ replicate (80 - length str) 0"

lemma strlen_string: "0 \<notin> set str \<Longrightarrow> strlen (str @ 0 # rest) = Some (length str)"
  by (induction str) auto

lemma identification_to:
  assumes "reportIdentification_identification m = str @ 0 # rest" "0 \<notin> set str" "length str < 80"
  shows "reportIdentification_dataToBuffer m (replicate 84 0) 0 84 = Some (84, identificationBytes m str)"
proof -
  have "writes 0 84 [putIdentification m 0 84] (str @ replicate (80 - length str) 0)"
    using assms strlen_string [OF assms(2), of rest]
    by (auto simp: writes_def putIdentification_def memWrite_def)
  then have "writes 0 84
        [putByte (Some (reportIdentification_queryType m)) 0 84,
         putByte (Some (reportIdentification_authority m)) 0 84,
         putUShort (Some (reportIdentification_type m)) 0 84,
         putIdentification m 0 84]
       ([reportIdentification_queryType m] @ [reportIdentification_authority m] @
        bytesOfWord 2 (reportIdentification_type m) @ (str @ replicate (80 - length str) 0))"
    by - (rule writes_Cons [OF _ writes_Cons [OF _ writes_Cons]]; (assumption | rule writes_intros refl)+)
  from writesD [OF this, of "[]" 0 "replicate 84 0"] assms(3)
  show ?thesis
    by (simp add: reportIdentification_dataToBuffer_def reportIdentification_dataSize_def finishW_def
        identificationBytes_def)
qed

lemma identification_jaus:
  assumes "reportIdentification_identification m = str @ 0 # rest" "0 \<notin> set str" "length str < 80"
  shows "reportIdentificationMessageToJausMessage m =
    Some ((copyHeader m jausMessageCreate)\<lparr>dataSize := 84, data := Some (identificationBytes m str)\<rparr>)"
  using identification_to [OF assms]
  by (simp add: reportIdentificationMessageToJausMessage_def messageToJausMessage_def
      reportIdentification_dataSize_def)

lemma length_identificationBytes: "length str \<le> 80 \<Longrightarrow> length (identificationBytes m str) = 84"
  by (simp add: identificationBytes_def)

end
