(* ===== verification/NodeOpen.thy ===== *)
theory NodeOpen
  imports ScManager NodeMessages
begin

text \<open>
  Opening and closing the node manager interface, and the heartbeat
  (\<open>openjaus/src/libopenjaus/nodeManagerInterface/nodeManagerInterface.c\<close>). Allocations, sockets and
  threads are created successfully; the node manager's answer to the check-in is the parameter
  \<open>ask\<close>, the port of the message socket is \<open>port\<close>.
\<close>

abbreviation (input) INTERFACE_MESSAGE_CHECK_IN :: u8 where "INTERFACE_MESSAGE_CHECK_IN \<equiv> 0x01"
abbreviation (input) INTERFACE_MESSAGE_REPORT_ADDRESS :: u8 where "INTERFACE_MESSAGE_REPORT_ADDRESS \<equiv> 0x02"
abbreviation (input) INTERFACE_MESSAGE_CHECK_OUT :: u8 where "INTERFACE_MESSAGE_CHECK_OUT \<equiv> 0x03"
abbreviation (input) INTERFACE_MESSAGE_READY_CHECK :: u8 where "INTERFACE_MESSAGE_READY_CHECK \<equiv> 0x0E"
abbreviation (input) INTERFACE_MESSAGE_REPORT_READY :: u8 where "INTERFACE_MESSAGE_REPORT_READY \<equiv> 0x0F"

definition lmHandlerCreate :: "LargeMessageHandler exec" where
  "lmHandlerCreate = do { a \<leftarrow> jausArrayCreate True True; Some \<lparr>messageLists = a\<rparr> }"

definition lmListCreate :: "LargeMessageList exec" where
  "lmListCreate =
     do { a \<leftarrow> jausArrayCreate True True;
          Some \<lparr>lmCommandCode = 0, lmSource = jausAddressCreate, lmMessages = a\<rparr> }"

section \<open>Check in and check out\<close>

text \<open>The return code and the component, whose address the node manager assigns.\<close>

definition checkIntoNodeManager :: "(bytes \<Rightarrow> bytes) \<Rightarrow> u16 \<Rightarrow> JausComponent \<Rightarrow> int \<times> JausComponent" where
  "checkIntoNodeManager ask port c =
     (let request = [INTERFACE_MESSAGE_CHECK_IN, addrComponent (cmptAddress c),
                     ucast (port AND 0xFF), ucast (drop_bit 8 (port AND 0xFF00)), 0, 0, 0, 0];
          buffer = afterReceive request (ask request)
      in if buffer ! 0 = INTERFACE_MESSAGE_REPORT_ADDRESS
         then (0, c\<lparr>cmptAddress := packetAddress buffer\<rparr>) else (-1, c))"

definition checkOutOfNodeManager :: "JausComponent \<Rightarrow> bytes" where
  "checkOutOfNodeManager c = addressRequest INTERFACE_MESSAGE_CHECK_OUT (cmptAddress c) 0 0 0"

section \<open>Open and close\<close>

definition nodeManagerOpen ::
    "(bytes \<Rightarrow> bytes) \<Rightarrow> u16 \<Rightarrow> real \<Rightarrow> JausComponent option \<Rightarrow> NodeManagerInterface option exec" where
  "nodeManagerOpen ask port now c =
     (case c of
        None \<Rightarrow> Some None
      | Some cmpt0 \<Rightarrow>
          (let (err, cmpt1) = checkIntoNodeManager ask port cmpt0
           in if err \<noteq> 0 then Some None
              else do {
                h \<leftarrow> lmHandlerCreate;
                let nmi = \<lparr>receiveQueue = queueCreate, cmpt = cmpt1, isOpen = True, receiveCount = 0,
                           heartbeatCount = 0, timestamp = now, scm = scManagerCreate, lmh = h, sent = []\<rparr>;
                let nmi1 = scManagerAddSupportedMessage True nmi JAUS_REPORT_COMPONENT_STATUS;
                Some (Some (scManagerAddSupportedMessage True nmi1 JAUS_REPORT_COMPONENT_AUTHORITY)) }))"

text \<open>Freeing the outbound connections; the result is the state without them.\<close>

fun destroyConnections :: "ServiceConnection list \<Rightarrow> unit exec" where
  "destroyConnections [] = Some ()"
| "destroyConnections (sc # rest) = do { destroyed \<leftarrow> queueDestroy (scQueue sc); destroyConnections rest }"

fun destroySupported :: "SupportedScMessage list \<Rightarrow> unit exec" where
  "destroySupported [] = Some ()"
| "destroySupported (s # rest) = do { destroyConnections (scList s); destroySupported rest }"

definition scManagerDestroy :: "ServiceConnectionManager option \<Rightarrow> unit exec" where
  "scManagerDestroy m = (case m of None \<Rightarrow> Some () | Some m' \<Rightarrow> destroySupported (supportedScMsgList m'))"

definition lmListDestroy :: "LargeMessageList \<Rightarrow> unit exec" where
  "lmListDestroy l = do { destroyed \<leftarrow> jausArrayDestroy (lmMessages l) True; Some () }"

fun destroyLists :: "LargeMessageList list \<Rightarrow> unit exec" where
  "destroyLists [] = Some ()"
| "destroyLists (l # rest) = do { lmListDestroy l; destroyLists rest }"

definition lmHandlerDestroy :: "LargeMessageHandler \<Rightarrow> unit exec" where
  "lmHandlerDestroy h = do { ls \<leftarrow> jausArrayDestroy (messageLists h) True; destroyLists ls }"

text \<open>
  The return code of \<open>nodeManagerClose\<close>, the datagrams sent and, when the interface was open, the
  check-out packet. The heartbeat and receive threads have ended before the destructors run.
\<close>

definition nodeManagerClose ::
    "sendto \<Rightarrow> NodeManagerInterface option \<Rightarrow> (int \<times> bytes list \<times> bytes option) exec" where
  "nodeManagerClose os n =
     (case n of
        None \<Rightarrow> Some (-1, [], None)
      | Some nmi \<Rightarrow>
          if isOpen nmi
          then do {
            nmi1 \<leftarrow> scManagerRemoveSupportedMessage os nmi JAUS_REPORT_COMPONENT_STATUS;
            nmi2 \<leftarrow> scManagerRemoveSupportedMessage os nmi1 JAUS_REPORT_COMPONENT_AUTHORITY;
            let nmi3 = nmi2\<lparr>isOpen := False\<rparr>;
            lmHandlerDestroy (lmh nmi3);
            scManagerDestroy (Some (scm nmi3));
            destroyed \<leftarrow> queueDestroy (Some (receiveQueue nmi3));
            Some (0, sent nmi3, Some (checkOutOfNodeManager (cmpt nmi3))) }
          else Some (-2, sent nmi, None))"

section \<open>Heartbeat\<close>

abbreviation (input) JAUS_NODE_MANAGER_COMPONENT :: u8 where "JAUS_NODE_MANAGER_COMPONENT \<equiv> 1"

definition heartbeatMessage :: "JausComponent \<Rightarrow> ReportHeartbeatPulseMessage" where
  "heartbeatMessage c =
     reportHeartbeatPulseMessageCreate
       \<lparr>source := cmptAddress c,
        destination := \<lparr>addrSubsystem = addrSubsystem (cmptAddress c), addrNode = addrNode (cmptAddress c),
                        addrComponent = JAUS_NODE_MANAGER_COMPONENT, addrInstance = 1\<rparr>\<rparr>"

text \<open>
  One round of the loop of \<open>heartbeatThread\<close>: the first component tells whether the loop goes on.
  The message was marshalled once, before the loop.
\<close>

definition heartbeatRound ::
    "sendto \<Rightarrow> real \<Rightarrow> JausMessage \<Rightarrow> NodeManagerInterface \<Rightarrow> (bool \<times> NodeManagerInterface) exec" where
  "heartbeatRound os now txMessage nmi =
     (if isOpen nmi
      then do { (result, nmi1) \<leftarrow> nodeManagerSend os nmi txMessage;
                let nmi2 = nmi1\<lparr>heartbeatCount := heartbeatCount nmi1 + 1\<rparr>;
                Some (\<not> now - 3 > timestamp nmi2, nmi2) }
      else Some (False, nmi))"

text \<open>The rounds at the given times, until the loop ends.\<close>

fun heartbeatRounds ::
    "sendto \<Rightarrow> JausMessage \<Rightarrow> real list \<Rightarrow> NodeManagerInterface \<Rightarrow> NodeManagerInterface exec" where
  "heartbeatRounds os txMessage [] nmi = Some nmi"
| "heartbeatRounds os txMessage (now # ticks) nmi =
     do { (go, nmi') \<leftarrow> heartbeatRound os now txMessage nmi;
          if go then heartbeatRounds os txMessage ticks nmi' else Some nmi' }"

section \<open>Lemmas\<close>

lemma lmHandlerCreate_simp: "lmHandlerCreate =
    Some \<lparr>messageLists = \<lparr>elementData = replicate 8 None, capacity = 8, capacityIncrement = 8, elementCount = 0\<rparr>\<rparr>"
  by (simp add: lmHandlerCreate_def jausArrayCreate_def)

lemma lmHandlerCreate_ok: "\<exists>h. lmHandlerCreate = Some h \<and> arrayOk (messageLists h) \<and> arrayList (messageLists h) = []"
proof -
  obtain a :: "LargeMessageList JausArray" where a: "jausArrayCreate True True = Some a"
    by (simp add: jausArrayCreate_def)
  then show ?thesis using jausArrayCreate_ok [OF a] by (simp add: lmHandlerCreate_def)
qed

lemma heartbeat_sends:
  assumes "reportHeartbeatPulseMessageToJausMessage (heartbeatMessage c) = Some jm" "isOpen nmi"
  shows "nodeManagerSend os nmi jm = Some (os (messageBytes jm), nmi\<lparr>sent := sent nmi @ [messageBytes jm]\<rparr>)"
proof -
  have "dataFlag (heartbeatMessage c) < 0x10"
    by (simp add: heartbeatMessage_def reportHeartbeatPulseMessageCreate_def blankHeader_def)
  note ok = reportHeartbeatPulse.toJausMessage_ok
    [OF this assms(1) [unfolded reportHeartbeatPulseMessageToJausMessage_def]]
  from ok(2) have "dataSize jm \<le> 4080" by (simp add: reportHeartbeatPulse_dataSize_def)
  with ok(1) show ?thesis by (rule nodeManagerSend_small [OF assms(2)])
qed

text \<open>While the node manager is heard every three seconds, each round sends one pulse.\<close>

lemma heartbeatRounds_alive:
  assumes "reportHeartbeatPulseMessageToJausMessage (heartbeatMessage c) = Some jm" "isOpen nmi"
    "\<forall>t \<in> set ticks. t - 3 \<le> timestamp nmi"
  shows "heartbeatRounds os jm ticks nmi =
    Some (nmi\<lparr>sent := sent nmi @ replicate (length ticks) (messageBytes jm),
              heartbeatCount := heartbeatCount nmi + int (length ticks)\<rparr>)"
  using assms(2,3)
proof (induction ticks arbitrary: nmi)
  case Nil
  then show ?case by simp
next
  case (Cons t ts)
  let ?n = "nmi\<lparr>sent := sent nmi @ [messageBytes jm], heartbeatCount := heartbeatCount nmi + 1\<rparr>"
  have "heartbeatRound os t jm nmi = Some (True, ?n)"
    using heartbeat_sends [OF assms(1) Cons.prems(1), of os] Cons.prems by (simp add: heartbeatRound_def)
  then show ?case using Cons.IH [of ?n] Cons.prems by (simp add: add.assoc)
qed

end
