(* ===== verification/ScLifecycle.thy ===== *)
theory ScLifecycle
  imports NodeOpen
begin

text \<open>
  The service connection manager as a state machine: the operations of \<^emph>\<open>ScManager\<close> as events
  in any order (messages of peers, calls of the application, the passing of time), the invariant
  they keep, and what the operations guarantee to the peers and to the application.
\<close>

section \<open>Events\<close>

text \<open>
  One event per entry point of \<open>scManager.c\<close> that changes state. The objects of the application's
  inbound connections are created and configured by \<open>NewConnection\<close>, at an unused address, with any
  command code, presence vector, peer, rate, timeout and queue limit, as \<open>ojCmptEstablishSc\<close> in
  \<open>ojCmpt.c\<close> does it; \<open>ScheduleConnection\<close> is the time of the next request that
  \<open>ojCmptManageServiceConnections\<close> stores. \<open>UpdateConnection\<close> and \<open>QueryActive\<close> are
  \<open>scManagerUpdateServiceConnection\<close> and \<open>scManagerQueryActiveMessage\<close>.
\<close>

datatype ScEvent =
    PeerCreate bool CreateServiceConnectionMessage
  | PeerActivate bool ActivateServiceConnectionMessage
  | PeerSuspend bool SuspendServiceConnectionMessage
  | PeerTerminate TerminateServiceConnectionMessage
  | PeerConfirm real ConfirmServiceConnectionMessage
  | PeerData real JausMessage
  | SubsystemUpdated "bytes \<Rightarrow> bytes"
  | AddSupported bool u16
  | RemoveSupported u16
  | SendList real u16
  | QueryActive u16
  | NewConnection nat u16 u32 JausAddress real real int
  | ScheduleConnection real nat
  | UpdateConnection real nat u16
  | OpenConnection "bytes \<Rightarrow> bytes" nat
  | CloseConnection nat
  | PollConnection real nat
  | DestroyConnection nat

definition onScm :: "NodeManagerInterface \<Rightarrow> ServiceConnectionManager \<Rightarrow> NodeManagerInterface" where
  "onScm nmi m = nmi\<lparr>scm := m\<rparr>"

definition configuredSc :: "u16 \<Rightarrow> u32 \<Rightarrow> JausAddress \<Rightarrow> real \<Rightarrow> real \<Rightarrow> int \<Rightarrow> ServiceConnection" where
  "configuredSc cCode pv address rate timeout qSize =
     serviceConnectionCreate
       \<lparr>requestedUpdateRateHz := rate, scAddress := address, scPresenceVector := pv, scCommandCode := cCode,
        isActive := False, queueSize := word_of_int qSize, timeoutSec := timeout, nextRequestTimeSec := 0\<rparr>"

fun scManagerStep :: "sendto \<Rightarrow> ScEvent \<Rightarrow> NodeManagerInterface \<Rightarrow> NodeManagerInterface exec" where
  "scManagerStep os (PeerCreate ok m) nmi = scManagerProcessCreateScMessage os ok nmi m"
| "scManagerStep os (PeerActivate ok m) nmi = Some (scManagerProcessActivateScMessage ok nmi m)"
| "scManagerStep os (PeerSuspend ok m) nmi = Some (scManagerProcessSuspendScMessage ok nmi m)"
| "scManagerStep os (PeerTerminate m) nmi = Some (scManagerProcessTerminateScMessage nmi m)"
| "scManagerStep os (PeerConfirm now m) nmi = scManagerProcessConfirmScMessage os now nmi m"
| "scManagerStep os (PeerData now m) nmi = scManagerReceiveMessage now nmi m"
| "scManagerStep os (SubsystemUpdated ask) nmi = scManagerProcessUpdatedSubystem ask nmi"
| "scManagerStep os (AddSupported ok code) nmi = Some (scManagerAddSupportedMessage ok nmi code)"
| "scManagerStep os (RemoveSupported code) nmi = scManagerRemoveSupportedMessage os nmi code"
| "scManagerStep os (SendList now code) nmi = Some (snd (scManagerGetSendList now nmi code))"
| "scManagerStep os (QueryActive code) nmi = (let active = scManagerQueryActiveMessage nmi code in Some nmi)"
| "scManagerStep os (NewConnection p code pv address rate timeout qSize) nmi =
     Some (storeSc nmi p (configuredSc code pv address rate timeout qSize))"
| "scManagerStep os (ScheduleConnection now p) nmi =
     do { sc \<leftarrow> scStore (scm nmi) p; Some (storeSc nmi p (sc\<lparr>nextRequestTimeSec := now + timeoutSec sc\<rparr>)) }"
| "scManagerStep os (UpdateConnection now p number) nmi =
     do { sc \<leftarrow> scStore (scm nmi) p; Some (storeSc nmi p (snd (scManagerUpdateServiceConnection now sc number))) }"
| "scManagerStep os (OpenConnection ask p) nmi =
     map_option snd (scManagerCreateServiceConnection os ask nmi (Some p))"
| "scManagerStep os (CloseConnection p) nmi =
     map_option snd (scManagerTerminateServiceConnection os nmi p)"
| "scManagerStep os (PollConnection now p) nmi =
     map_option snd (scManagerReceiveServiceConnection now nmi p)"
| "scManagerStep os (DestroyConnection p) nmi =
     map_option (onScm nmi) (serviceConnectionDestroy p (scm nmi))"

text \<open>
  What the callers have to respect: the application passes live objects, a new object gets an
  unused address, and an inbound queue holds fewer than \<open>2 ^ 31 - 1\<close> messages.
\<close>

definition liveSc :: "NodeManagerInterface \<Rightarrow> nat \<Rightarrow> bool" where
  "liveSc nmi p \<longleftrightarrow> scStore (scm nmi) p \<noteq> None"

fun scEnabled :: "ScEvent \<Rightarrow> NodeManagerInterface \<Rightarrow> bool" where
  "scEnabled (PeerData now m) nmi \<longleftrightarrow>
     (\<forall>p sc q. scStore (scm nmi) p = Some sc \<longrightarrow> scQueue sc = Some q \<longrightarrow> length (queueList q) < 2 ^ 31 - 1)"
| "scEnabled (NewConnection p code pv address rate timeout qSize) nmi \<longleftrightarrow> \<not> liveSc nmi p"
| "scEnabled (ScheduleConnection now p) nmi \<longleftrightarrow> liveSc nmi p"
| "scEnabled (UpdateConnection now p number) nmi \<longleftrightarrow> liveSc nmi p"
| "scEnabled (OpenConnection ask p) nmi \<longleftrightarrow> liveSc nmi p"
| "scEnabled (CloseConnection p) nmi \<longleftrightarrow> liveSc nmi p"
| "scEnabled (PollConnection now p) nmi \<longleftrightarrow> liveSc nmi p"
| "scEnabled (DestroyConnection p) nmi \<longleftrightarrow> liveSc nmi p"
| "scEnabled _ nmi \<longleftrightarrow> True"

inductive scReach :: "sendto \<Rightarrow> NodeManagerInterface \<Rightarrow> bool" for os where
  init: "scm nmi = scManagerCreate \<Longrightarrow> scReach os nmi"
| step: "scReach os nmi \<Longrightarrow> scEnabled e nmi \<Longrightarrow> scManagerStep os e nmi = Some nmi' \<Longrightarrow> scReach os nmi'"

section \<open>The invariant\<close>

definition storeOk :: "ServiceConnectionManager \<Rightarrow> bool" where
  "storeOk m \<longleftrightarrow> (\<forall>p sc. scStore m p = Some sc \<longrightarrow> (\<exists>q. scQueue sc = Some q \<and> queueOk q))"

definition scOk :: "ServiceConnectionManager \<Rightarrow> bool" where
  "scOk m \<longleftrightarrow> outOk m \<and> inOk m \<and> storeOk m"

lemma storeOk_fields:
  "storeOk (m\<lparr>incomingSc := a\<rparr>) = storeOk m" "storeOk (m\<lparr>incomingScCount := c\<rparr>) = storeOk m"
  "storeOk (m\<lparr>supportedScMsgList := l\<rparr>) = storeOk m" "storeOk (m\<lparr>outgoingScCount := c\<rparr>) = storeOk m"
  "storeOk (m\<lparr>supportedScMsgCount := c\<rparr>) = storeOk m"
  by (simp_all add: storeOk_def)

lemma outOk_fields:
  "outOk (m\<lparr>incomingSc := a\<rparr>) = outOk m" "outOk (m\<lparr>incomingScCount := c\<rparr>) = outOk m"
  "outOk (m\<lparr>scStore := s\<rparr>) = outOk m"
  "outTotal (m\<lparr>incomingSc := a\<rparr>) = outTotal m" "outTotal (m\<lparr>incomingScCount := c\<rparr>) = outTotal m"
  "outTotal (m\<lparr>scStore := s\<rparr>) = outTotal m"
  by (simp_all add: outOk_def outTotal_def)

lemmas sc_fields = storeOk_fields outOk_fields

lemma storeOk_get: "storeOk m \<Longrightarrow> scStore m p = Some sc \<Longrightarrow> \<exists>q. scQueue sc = Some q \<and> queueOk q"
  by (simp add: storeOk_def)

lemma storeOk_put:
  "storeOk m \<Longrightarrow> scQueue sc = Some q \<Longrightarrow> queueOk q \<Longrightarrow> storeOk (m\<lparr>scStore := (scStore m)(p \<mapsto> sc)\<rparr>)"
  by (simp add: storeOk_def)

lemma inOk_put:
  "inOk m \<Longrightarrow> scQueue sc = Some q \<Longrightarrow> queueOk q \<Longrightarrow> inOk (m\<lparr>scStore := (scStore m)(p \<mapsto> sc)\<rparr>)"
  by (auto simp: inOk_def)

lemma scOk_store:
  "scOk (scm nmi) \<Longrightarrow> scQueue sc = Some q \<Longrightarrow> queueOk q \<Longrightarrow> scOk (scm (storeSc nmi p sc))"
  by (simp add: scOk_def sc_fields storeOk_put inOk_put)

lemma scOk_unlink:
  "scOk (scm nmi) \<Longrightarrow> p \<in> set (incomingSc (scm nmi)) \<Longrightarrow> scOk (scm (unlinkSc nmi p))"
  using inOk_unlink [of nmi p] by (simp add: scOk_def unlinkSc_def sc_fields)

lemma scOk_unlinkAll:
  assumes "scOk m" "unlinkAll p (incomingSc m) (incomingScCount m) = (l, c)"
  shows "scOk (m\<lparr>incomingSc := l, incomingScCount := c\<rparr>)" "p \<notin> set l"
proof -
  have "l = filter (\<lambda>x. x \<noteq> p) (incomingSc m)"
    "c = incomingScCount m - int (length (filter (\<lambda>x. x = p) (incomingSc m)))"
    using assms(2) by (simp_all add: unlinkAll_spec)
  moreover have "length (filter (\<lambda>x. x \<noteq> p) (incomingSc m)) + length (filter (\<lambda>x. x = p) (incomingSc m)) =
      length (incomingSc m)"
    using sum_length_filter_compl [of "\<lambda>x. x = p" "incomingSc m"] by simp
  ultimately show "scOk (m\<lparr>incomingSc := l, incomingScCount := c\<rparr>)" "p \<notin> set l"
    using assms(1) by (auto simp: scOk_def sc_fields inOk_def)
qed

lemma scOk_link:
  assumes "scOk (scm nmi)" "p \<notin> set (incomingSc (scm nmi))" "liveSc nmi p"
  shows "scOk (scm (linkSc nmi p))"
  using assms by (auto simp: scOk_def linkSc_def sc_fields inOk_def liveSc_def storeOk_def)

lemma scOk_destroy:
  assumes "scOk (scm nmi)" "liveSc nmi p"
  shows "\<exists>m. serviceConnectionDestroy p (scm nmi) = Some m \<and> scOk m"
proof -
  let ?u = "unlinkAll p (incomingSc (scm nmi)) (incomingScCount (scm nmi))"
  obtain l c where u: "?u = (l, c)" by fastforce
  note ok = scOk_unlinkAll [OF assms(1) u]
  obtain sc q where sc: "scStore (scm nmi) p = Some sc" "scQueue sc = Some q" "queueOk q"
    using assms by (auto simp: liveSc_def scOk_def dest: storeOk_get)
  have "\<exists>es. queueDestroy (Some q) = Some es"
    using queueEmpty_ok [OF sc(3)] by (auto simp: queueDestroy_def)
  then show ?thesis
    using ok sc u by (auto simp: serviceConnectionDestroy_def scOk_def sc_fields inOk_def storeOk_def)
qed

section \<open>The operations keep it\<close>

definition createJm :: "NodeManagerInterface \<Rightarrow> ServiceConnection \<Rightarrow> JausAddress \<Rightarrow> JausMessage" where
  "createJm nmi sc dst = the (createServiceConnectionMessageToJausMessage (createSc nmi sc dst))"

lemma transmit_create [simp]:
  "transmit os nmi (createServiceConnectionMessageToJausMessage (createSc nmi0 sc dst)) =
   Some (logSent nmi (createJm nmi0 sc dst))"
  unfolding createJm_def createServiceConnectionMessageToJausMessage_def
  by (rule createServiceConnection.transmits)
    (simp_all add: createSc_def createServiceConnectionMessageCreate_def createServiceConnection_dataSize_def
      createServiceConnection_dataInitialize_def blankHeader_def JausHeader.defs)

lemma confirm_ok:
  assumes "scOk (scm nmi)"
  shows "\<exists>nmi'. scManagerProcessConfirmScMessage os now nmi m = Some nmi' \<and> scOk (scm nmi')"
proof -
  let ?P = "scFor (confirmServiceConnection_serviceConnectionCommandCode m) (source m)"
  have inok: "inOk (scm nmi)" using assms by (simp add: scOk_def)
  then obtain r where r: "findIncoming (scStore (scm nmi)) ?P (incomingSc (scm nmi)) = Some r"
    using findIncoming_total by blast
  show ?thesis
  proof (cases r)
    case None
    then show ?thesis using r assms by (simp add: scManagerProcessConfirmScMessage_def)
  next
    case (Some psc)
    obtain p sc where psc: "psc = (p, sc)" by fastforce
    note f = findIncoming_Some [OF inok, of ?P p sc]
    obtain q where q: "scQueue sc = Some q" "queueOk q" and p: "p \<in> set (incomingSc (scm nmi))"
      using f(1,4) r Some psc by auto
    have "scOk (scm (unlinkSc (storeSc nmi p (sc\<lparr>isActive := False\<rparr>)) p))"
      using scOk_store [OF assms] q p by (intro scOk_unlink) simp_all
    then show ?thesis
      using r Some psc q scOk_store [OF assms] by (simp add: scManagerProcessConfirmScMessage_def del: scm_storeSc)
  qed
qed

lemma openConnection_ok:
  assumes "scOk (scm nmi)" "liveSc nmi p"
  shows "\<exists>r nmi'. scManagerCreateServiceConnection os ask nmi (Some p) = Some (r, nmi') \<and> scOk (scm nmi')"
proof -
  obtain l c where u: "unlinkAll p (incomingSc (scm nmi)) (incomingScCount (scm nmi)) = (l, c)" by fastforce
  let ?nmi1 = "nmi\<lparr>scm := (scm nmi)\<lparr>incomingSc := l, incomingScCount := c\<rparr>\<rparr>"
  have ok1: "scOk (scm ?nmi1)" and pl: "p \<notin> set l" using scOk_unlinkAll [OF assms(1) u] by simp_all
  obtain sc0 q where sc0: "scStore (scm nmi) p = Some sc0" "scQueue sc0 = Some q" "queueOk q"
    using assms by (auto simp: liveSc_def scOk_def dest: storeOk_get)
  let ?sc = "sc0\<lparr>confirmedUpdateRateHz := 0, lastSentTime := 0, scSequenceNumber := 65535,
                instanceId := -1, isActive := False\<rparr>"
  have st: "scOk (scm (storeSc ?nmi1 p (?sc\<lparr>scAddress := a\<rparr>)))" for a
    using scOk_store [OF ok1] sc0 by simp
  have st0: "scOk (scm (storeSc ?nmi1 p ?sc))" using scOk_store [OF ok1] sc0 by simp
  have lk: "scOk (scm (linkSc (logSent (storeSc ?nmi1 p s) jm) p))"
    if "scOk (scm (storeSc ?nmi1 p s))" for s jm
    using that pl by (intro scOk_link) (simp_all add: liveSc_def)
  have st2: "storeSc (storeSc ?nmi1 p ?sc) p s = storeSc ?nmi1 p s" for s by (simp add: storeSc_def)
  show ?thesis
    using u sc0 st st0 lk st2
    by (auto simp: scManagerCreateServiceConnection_def Let_def simp del: scm_storeSc split: prod.split)
qed

lemma closeConnection_ok:
  assumes "scOk (scm nmi)" "liveSc nmi d"
  shows "\<exists>r nmi'. scManagerTerminateServiceConnection os nmi d = Some (r, nmi') \<and> scOk (scm nmi')"
proof -
  obtain dead where d: "scStore (scm nmi) d = Some dead" using assms(2) by (auto simp: liveSc_def)
  let ?P = "scFor (scCommandCode dead) (scAddress dead)"
  have inok: "inOk (scm nmi)" using assms by (simp add: scOk_def)
  then obtain r where r: "findIncoming (scStore (scm nmi)) ?P (incomingSc (scm nmi)) = Some r"
    using findIncoming_total by blast
  show ?thesis
  proof (cases r)
    case None
    then show ?thesis using r d assms by (auto simp: scManagerTerminateServiceConnection_def)
  next
    case (Some psc)
    obtain p sc where psc: "psc = (p, sc)" by fastforce
    note f = findIncoming_Some [OF inok, of ?P p sc]
    obtain q where q: "scQueue sc = Some q" "queueOk q" and p: "p \<in> set (incomingSc (scm nmi))"
      using f(1,4) r Some psc by auto
    obtain q' where q': "emptyScQueue (sc\<lparr>isActive := False\<rparr>) = Some (sc\<lparr>isActive := False, scQueue := Some q'\<rparr>)"
      "queueOk q'" using emptyScQueue_ok [of "sc\<lparr>isActive := False\<rparr>" q] q by auto
    have "scOk (scm (unlinkSc (storeSc n p (sc\<lparr>isActive := False, scQueue := Some q'\<rparr>)) p))"
      if "scm n = scm nmi" for n
      using scOk_store [of n "sc\<lparr>isActive := False, scQueue := Some q'\<rparr>" q' p] that assms(1) q' p
      by (intro scOk_unlink) simp_all
    then show ?thesis
      using r Some psc d q' by (auto simp: scManagerTerminateServiceConnection_def simp del: scm_storeSc)
  qed
qed

lemma pollConnection_ok:
  assumes "scOk (scm nmi)" "liveSc nmi d"
  shows "\<exists>r nmi'. scManagerReceiveServiceConnection now nmi d = Some (r, nmi') \<and> scOk (scm nmi')"
proof -
  obtain req where d: "scStore (scm nmi) d = Some req" using assms(2) by (auto simp: liveSc_def)
  let ?P = "scFor (scCommandCode req) (scAddress req)"
  have inok: "inOk (scm nmi)" using assms by (simp add: scOk_def)
  then obtain r where r: "findIncoming (scStore (scm nmi)) ?P (incomingSc (scm nmi)) = Some r"
    using findIncoming_total by blast
  show ?thesis
  proof (cases r)
    case None
    then show ?thesis using r d assms by (simp add: scManagerReceiveServiceConnection_def)
  next
    case (Some psc)
    obtain p sc where psc: "psc = (p, sc)" by fastforce
    note f = findIncoming_Some [OF inok, of ?P p sc]
    obtain q where q: "scQueue sc = Some q" "queueOk q" and p: "p \<in> set (incomingSc (scm nmi))"
      using f(1,4) r Some psc by auto
    obtain q' where q': "emptyScQueue (sc\<lparr>isActive := False\<rparr>) = Some (sc\<lparr>isActive := False, scQueue := Some q'\<rparr>)"
      "queueOk q'" using emptyScQueue_ok [of "sc\<lparr>isActive := False\<rparr>" q] q by auto
    obtain m q1 where pop: "queuePop q = Some (m, q1)" "queueOk q1" using queuePop_ok [OF q(2)] by blast
    have "scOk (scm (unlinkSc (storeSc nmi p (sc\<lparr>isActive := False, scQueue := Some q'\<rparr>)) p))"
      using scOk_store [OF assms(1)] q' p by (intro scOk_unlink) simp_all
    moreover have "scOk (scm (storeSc nmi p (sc\<lparr>scQueue := Some q1\<rparr>)))"
      using scOk_store [OF assms(1)] pop(2) by simp
    ultimately show ?thesis
      using r Some psc d q q' pop assms(1)
      by (simp add: scManagerReceiveServiceConnection_def del: scm_storeSc)
  qed
qed

lemma receiveMessage_ok:
  assumes "scOk (scm nmi)" "scEnabled (PeerData now m) nmi"
  shows "\<exists>nmi'. scManagerReceiveMessage now nmi m = Some nmi' \<and> scOk (scm nmi')"
proof -
  let ?P = "scFor (commandCode m) (source m)"
  have inok: "inOk (scm nmi)" using assms by (simp add: scOk_def)
  then obtain r where r: "findIncoming (scStore (scm nmi)) ?P (incomingSc (scm nmi)) = Some r"
    using findIncoming_total by blast
  show ?thesis
  proof (cases r)
    case None
    then show ?thesis using r assms by (simp add: scManagerReceiveMessage_def)
  next
    case (Some psc)
    obtain p sc where psc: "psc = (p, sc)" by fastforce
    with r Some have fnd: "findIncoming (scStore (scm nmi)) ?P (incomingSc (scm nmi)) = Some (Some (p, sc))" by simp
    note f = findIncoming_Some [OF inok fnd]
    obtain q where q: "scQueue sc = Some q" "queueOk q" using f(4) by auto
    have len: "length (queueList q) < 2 ^ 31 - 1" using assms(2) f(2) q by auto
    show ?thesis
    proof (cases "isActive sc")
      case True
      from receiveMessage_spec [OF inok fnd True q(1) len] obtain q' where
        "scManagerReceiveMessage now nmi m = Some (storeSc nmi p (sc\<lparr>lastSentTime := now, scQueue := Some q'\<rparr>))"
        "queueOk q'" by blast
      then show ?thesis using scOk_store [OF assms(1)] by (simp del: scm_storeSc)
    next
      case False
      then show ?thesis using fnd assms(1) by (simp add: scManagerReceiveMessage_def)
    qed
  qed
qed

lemma dropStale_spec:
  "dropStale v l c = (map (\<lambda>s. s\<lparr>scList := filter (\<lambda>sc. v (scAddress sc) \<noteq> 0) (scList s)\<rparr>) l,
     c - int (sum_list (map (\<lambda>s. length (scList s)) l)) +
       int (sum_list (map (\<lambda>s. length (filter (\<lambda>sc. v (scAddress sc) \<noteq> 0) (scList s))) l)))"
  by (induction l arbitrary: c) (simp_all add: of_nat_diff Let_def)

lemma supOk_filter: "supOk s \<Longrightarrow> supOk (s\<lparr>scList := filter P (scList s)\<rparr>)"
  by (intro supOk_subset) (auto simp: supOk_def scKeys_def scVectors_def distinct_map_filter)

text \<open>The inbound list after the walk, and the store: the dropped objects are inactive and empty.\<close>

lemma dropIncoming_spec:
  assumes "\<forall>p sc. store p = Some sc \<longrightarrow> (\<exists>q. scQueue sc = Some q \<and> queueOk q)"
    "\<forall>p \<in> set l. store p \<noteq> None"
  shows "\<exists>store' c'. dropIncoming v store l c =
      Some (store', filter (\<lambda>p. v (scAddress (the (store p))) \<noteq> 0) l, c') \<and>
    c' = c - int (length l) + int (length (filter (\<lambda>p. v (scAddress (the (store p))) \<noteq> 0) l)) \<and>
    dom store' = dom store \<and>
    (\<forall>p sc. store' p = Some sc \<longrightarrow> (\<exists>q. scQueue sc = Some q \<and> queueOk q))"
  using assms
proof (induction l arbitrary: store c)
  case Nil
  then show ?case by simp
next
  case (Cons p l)
  then obtain sc q where sc: "store p = Some sc" "scQueue sc = Some q" "queueOk q" by force
  show ?case
  proof (cases "v (scAddress sc) = 0")
    case True
    obtain q' where q': "emptyScQueue (sc\<lparr>isActive := False\<rparr>) = Some (sc\<lparr>isActive := False, scQueue := Some q'\<rparr>)"
      "queueOk q'" using emptyScQueue_ok [of "sc\<lparr>isActive := False\<rparr>" q] sc by auto
    let ?st = "store(p \<mapsto> sc\<lparr>isActive := False, scQueue := Some q'\<rparr>)"
    let ?f = "filter (\<lambda>x. v (scAddress (the (store x))) \<noteq> 0) l"
    have addr: "(\<lambda>x. v (scAddress (the (?st x))) \<noteq> 0) = (\<lambda>x. v (scAddress (the (store x))) \<noteq> 0)"
      using sc by auto
    have "\<forall>x s. ?st x = Some s \<longrightarrow> (\<exists>q. scQueue s = Some q \<and> queueOk q)"
      using Cons.prems(1) q'(2) by auto
    moreover have "\<forall>x \<in> set l. ?st x \<noteq> None" using Cons.prems(2) by auto
    ultimately obtain store' c' where
      "dropIncoming v ?st l (c - 1) = Some (store', ?f, c') \<and> c' = c - 1 - int (length l) + int (length ?f) \<and>
       dom store' = dom ?st \<and> (\<forall>p sc. store' p = Some sc \<longrightarrow> (\<exists>q. scQueue sc = Some q \<and> queueOk q))"
      using Cons.IH [of ?st "c - 1"] unfolding addr by blast
    moreover have "dom ?st = dom store" using sc(1) by auto
    ultimately show ?thesis using True sc q'(1) by (simp del: fun_upd_apply)
  next
    case False
    then show ?thesis using Cons.IH [of store c] Cons.prems sc by auto
  qed
qed

lemma updatedSubsystem_ok:
  assumes "scOk (scm nmi)"
  shows "\<exists>nmi'. scManagerProcessUpdatedSubystem ask nmi = Some nmi' \<and> scOk (scm nmi') \<and>
    outTotal (scm nmi') - outTotal (scm nmi) = outgoingScCount (scm nmi') - outgoingScCount (scm nmi) \<and>
    (\<forall>s \<in> set (supportedScMsgList (scm nmi')). \<forall>sc \<in> set (scList s).
       nodeManagerVerifyAddress ask (scAddress sc) \<noteq> 0) \<and>
    incomingSc (scm nmi') = filter (\<lambda>p. nodeManagerVerifyAddress ask
       (scAddress (the (scStore (scm nmi) p))) \<noteq> 0) (incomingSc (scm nmi))"
proof -
  let ?v = "nodeManagerVerifyAddress ask"
  have st: "\<forall>p sc. scStore (scm nmi) p = Some sc \<longrightarrow> (\<exists>q. scQueue sc = Some q \<and> queueOk q)"
    using assms by (simp add: scOk_def storeOk_def)
  have live: "\<forall>p \<in> set (incomingSc (scm nmi)). scStore (scm nmi) p \<noteq> None"
    using assms by (auto simp: scOk_def inOk_def)
  let ?l = "filter (\<lambda>p. ?v (scAddress (the (scStore (scm nmi) p))) \<noteq> 0) (incomingSc (scm nmi))"
  from dropIncoming_spec [OF st live, of ?v "incomingScCount (scm nmi)"] obtain store' c' where
    d: "dropIncoming ?v (scStore (scm nmi)) (incomingSc (scm nmi)) (incomingScCount (scm nmi)) = Some (store', ?l, c')"
    "c' = incomingScCount (scm nmi) - int (length (incomingSc (scm nmi))) + int (length ?l)"
    "dom store' = dom (scStore (scm nmi))"
    "\<forall>p sc. store' p = Some sc \<longrightarrow> (\<exists>q. scQueue sc = Some q \<and> queueOk q)"
    by blast
  have live': "\<forall>p \<in> set ?l. \<exists>sc. store' p = Some sc"
    using live d(3) by auto
  have inn: "distinct ?l" "c' = int (length ?l)" using assms d(2) by (auto simp: scOk_def inOk_def)
  let ?keep = "\<lambda>s. s\<lparr>scList := filter (\<lambda>sc. ?v (scAddress sc) \<noteq> 0) (scList s)\<rparr>"
  let ?m = "(scm nmi)\<lparr>supportedScMsgList := map ?keep (supportedScMsgList (scm nmi)),
     outgoingScCount := snd (dropStale ?v (supportedScMsgList (scm nmi)) (outgoingScCount (scm nmi))),
     scStore := store', incomingSc := ?l, incomingScCount := c'\<rparr>"
  have "scManagerProcessUpdatedSubystem ask nmi = Some (nmi\<lparr>scm := ?m\<rparr>)"
    using d(1) by (simp add: scManagerProcessUpdatedSubystem_def dropStale_spec Let_def)
  moreover have "outOk ?m"
    using assms supOk_filter by (auto simp: scOk_def outOk_def comp_def)
  moreover have "inOk ?m" using inn live' d(4) unfolding inOk_def by fastforce
  moreover have "storeOk ?m" using d(4) by (simp add: storeOk_def)
  moreover have "outTotal ?m - outTotal (scm nmi) = outgoingScCount ?m - outgoingScCount (scm nmi)"
    by (simp add: outTotal_def dropStale_spec comp_def)
  ultimately show ?thesis by (auto simp: scOk_def)
qed

lemma outOnly_ok:
  assumes "scOk m" "outOk m'" "inOk m' = inOk m" "scStore m' = scStore m"
  shows "scOk m'"
  using assms by (simp add: scOk_def storeOk_def)

lemma store_unchanged [simp]:
  "scStore (scm (setActive ok nmi b code a ident)) = scStore (scm nmi)"
  "scStore (scm (scManagerProcessTerminateScMessage nmi tm)) = scStore (scm nmi)"
  "scStore (scm (scManagerAddSupportedMessage ok nmi code)) = scStore (scm nmi)"
  "scStore (scm (snd (scManagerGetSendList now nmi code))) = scStore (scm nmi)"
  by (auto simp: setActive_def scManagerProcessTerminateScMessage_def scManagerAddSupportedMessage_def
      scManagerGetSendList_def Let_def split: option.split prod.split)

lemma removeSupported_store:
  "scManagerRemoveSupportedMessage os nmi code = Some nmi' \<Longrightarrow> scStore (scm nmi') = scStore (scm nmi)"
  by (auto simp: scManagerRemoveSupportedMessage_def terminateAll_spec split: option.splits)

lemma scManagerStep_ok:
  assumes "scOk (scm nmi)" "scEnabled e nmi"
  shows "\<exists>nmi'. scManagerStep os e nmi = Some nmi' \<and> scOk (scm nmi')"
proof -
  have out: "outOk (scm nmi)" and inn: "inOk (scm nmi)" using assms(1) by (simp_all add: scOk_def)
  note keep = outOnly_ok [OF assms(1)]
  show ?thesis
  proof (cases e)
    case (PeerCreate ok m)
    then show ?thesis using processCreate_ok [OF out, of os ok m] keep by (auto simp: inOk_def)
  next
    case (PeerActivate ok m)
    then show ?thesis using setActive_ok(1,4) [OF out] keep by (simp add: scManagerProcessActivateScMessage_def)
  next
    case (PeerSuspend ok m)
    then show ?thesis using setActive_ok(1,4) [OF out] keep by (simp add: scManagerProcessSuspendScMessage_def)
  next
    case (PeerTerminate m)
    then show ?thesis using processTerminate_ok(1,3) [OF out] keep by simp
  next
    case (PeerConfirm now m)
    then show ?thesis using confirm_ok [OF assms(1)] by simp
  next
    case (PeerData now m)
    then show ?thesis using receiveMessage_ok [OF assms(1), of now m] assms(2) by simp
  next
    case (SubsystemUpdated ask)
    then show ?thesis using updatedSubsystem_ok [OF assms(1), of ask] by auto
  next
    case (AddSupported ok code)
    then show ?thesis using addSupported_ok(1,4) [OF out] keep by simp
  next
    case (RemoveSupported code)
    then show ?thesis using removeSupported_ok [OF out, of os code] removeSupported_store keep by fastforce
  next
    case (SendList now code)
    then show ?thesis
      using sendList_ok(1,4) [OF out prod.collapse [symmetric], of now code] keep by simp
  next
    case (QueryActive code)
    then show ?thesis using assms(1) by simp
  next
    case (NewConnection p code pv address rate timeout qSize)
    then show ?thesis
      using scOk_store [OF assms(1), of "configuredSc code pv address rate timeout qSize" queueCreate p] queueCreate_ok
      by (simp add: configuredSc_def serviceConnectionCreate_def del: scm_storeSc)
  next
    case (ScheduleConnection now p)
    then obtain sc q where sc: "scStore (scm nmi) p = Some sc" "scQueue sc = Some q" "queueOk q"
      using assms by (auto simp: liveSc_def scOk_def dest: storeOk_get)
    then show ?thesis
      using ScheduleConnection scOk_store [OF assms(1), of "sc\<lparr>nextRequestTimeSec := now + timeoutSec sc\<rparr>" q p]
      by (simp del: scm_storeSc)
  next
    case (UpdateConnection now p number)
    then obtain sc q where sc: "scStore (scm nmi) p = Some sc" "scQueue sc = Some q" "queueOk q"
      using assms by (auto simp: liveSc_def scOk_def dest: storeOk_get)
    then show ?thesis
      using UpdateConnection scOk_store [OF assms(1), of "snd (scManagerUpdateServiceConnection now sc number)" q p]
      by (simp add: scManagerUpdateServiceConnection_def Let_def del: scm_storeSc)
  next
    case (OpenConnection ask p)
    then show ?thesis using openConnection_ok [OF assms(1), of p os ask] assms(2) by force
  next
    case (CloseConnection p)
    then show ?thesis using closeConnection_ok [OF assms(1), of p os] assms(2) by force
  next
    case (PollConnection now p)
    then show ?thesis using pollConnection_ok [OF assms(1), of p now] assms(2) by force
  next
    case (DestroyConnection p)
    then show ?thesis using scOk_destroy [OF assms(1), of p] assms(2) by (auto simp: onScm_def)
  qed
qed

lemma scReach_ok: "scReach os nmi \<Longrightarrow> scOk (scm nmi)"
proof (induction rule: scReach.induct)
  case (init nmi)
  then show ?case using scManagerCreate_ok by (simp add: scOk_def storeOk_def scManagerCreate_def)
next
  case (step nmi e nmi')
  then show ?case using scManagerStep_ok [of nmi e os] by auto
qed

section \<open>Queue limits\<close>

text \<open>A connection with a limit has no more messages in its queue than the limit allows.\<close>

definition withinLimit :: "ServiceConnection \<Rightarrow> bool" where
  "withinLimit sc \<longleftrightarrow>
     (\<forall>q. scQueue sc = Some q \<longrightarrow> queueSize sc \<noteq> 0 \<longrightarrow> length (queueList q) \<le> unat (queueSize sc))"

definition limitsOk :: "NodeManagerInterface \<Rightarrow> bool" where
  "limitsOk nmi \<longleftrightarrow> (\<forall>p sc. scStore (scm nmi) p = Some sc \<longrightarrow> withinLimit sc)"

lemma limitsOk_get: "limitsOk nmi \<Longrightarrow> scStore (scm nmi) p = Some sc \<Longrightarrow> withinLimit sc"
  by (simp add: limitsOk_def)

lemma limitsOk_store: "limitsOk nmi \<Longrightarrow> withinLimit sc \<Longrightarrow> limitsOk (storeSc nmi p sc)"
  by (simp add: limitsOk_def)

lemma limitsOk_same: "scStore (scm nmi') = scStore (scm nmi) \<Longrightarrow> limitsOk nmi' = limitsOk nmi"
  by (simp add: limitsOk_def)

lemma limitsOk_link [simp]:
  "limitsOk (unlinkSc nmi p) = limitsOk nmi" "limitsOk (linkSc nmi p) = limitsOk nmi" "limitsOk (logSent nmi m) = limitsOk nmi"
  by (simp_all add: limitsOk_def unlinkSc_def linkSc_def)

lemma withinLimit_same:
  "scQueue sc' = scQueue sc \<Longrightarrow> queueSize sc' = queueSize sc \<Longrightarrow> withinLimit sc' = withinLimit sc"
  by (simp add: withinLimit_def)

lemma withinLimit_shorter:
  "withinLimit sc \<Longrightarrow> scQueue sc = Some q \<Longrightarrow> length (queueList q') \<le> length (queueList q) \<Longrightarrow>
   withinLimit (sc\<lparr>isActive := b, scQueue := Some q'\<rparr>) \<and> withinLimit (sc\<lparr>scQueue := Some q'\<rparr>)"
  by (auto simp: withinLimit_def)

lemma withinLimit_push:
  "withinLimit sc \<Longrightarrow> scQueue sc = Some q \<Longrightarrow> queueList q' = boundedPush (queueSize sc) (queueList q) m \<Longrightarrow>
   withinLimit (sc\<lparr>lastSentTime := now, scQueue := Some q'\<rparr>)"
  using unat_gt_0 [of "queueSize sc"] by (auto simp: withinLimit_def boundedPush_def)

lemma emptied_limit:
  assumes "emptyScQueue (sc\<lparr>isActive := False\<rparr>) = Some sc'" "scQueue sc = Some q" "queueOk q"
  shows "withinLimit sc'"
  using emptyScQueue_ok [of "sc\<lparr>isActive := False\<rparr>" q] assms by (auto simp: withinLimit_def)

lemma popped_limit:
  assumes "queuePop q = Some (r, q')" "scQueue sc = Some q" "queueOk q" "withinLimit sc"
  shows "withinLimit (sc\<lparr>scQueue := Some q'\<rparr>)"
  using queuePop_ok [OF assms(3)] withinLimit_shorter [OF assms(4,2), of q'] assms(1) by auto

lemma dropIncoming_limits:
  assumes "dropIncoming v store l c = Some (store', l', c')"
    "\<forall>p sc. store p = Some sc \<longrightarrow> withinLimit sc \<and> (\<exists>q. scQueue sc = Some q \<and> queueOk q)"
  shows "\<forall>p sc. store' p = Some sc \<longrightarrow> withinLimit sc"
  using assms
proof (induction l arbitrary: store c l' c')
  case Nil
  then show ?case by simp
next
  case (Cons p l)
  then obtain sc where sc: "store p = Some sc" by (auto split: bind_splits)
  with Cons.prems(2) obtain q where q: "scQueue sc = Some q" "queueOk q" by blast
  show ?case
  proof (cases "v (scAddress sc) = 0")
    case True
    obtain q' where q': "emptyScQueue (sc\<lparr>isActive := False\<rparr>) = Some (sc\<lparr>isActive := False, scQueue := Some q'\<rparr>)"
      "queueOk q'" using emptyScQueue_ok [of "sc\<lparr>isActive := False\<rparr>" q] q by auto
    have "dropIncoming v (store(p \<mapsto> sc\<lparr>isActive := False, scQueue := Some q'\<rparr>)) l (c - 1) = Some (store', l', c')"
      using Cons.prems(1) sc True q'(1) by (simp del: fun_upd_apply)
    moreover have "\<forall>x s. (store(p \<mapsto> sc\<lparr>isActive := False, scQueue := Some q'\<rparr>)) x = Some s \<longrightarrow>
        withinLimit s \<and> (\<exists>q. scQueue s = Some q \<and> queueOk q)"
      using Cons.prems(2) q'(2) emptied_limit [OF q'(1) q] by auto
    ultimately show ?thesis by (rule Cons.IH)
  next
    case False
    then obtain l1 c1 where "dropIncoming v store l c = Some (store', l1, c1)"
      using Cons.prems(1) sc by (auto split: bind_splits)
    then show ?thesis using Cons.IH Cons.prems(2) by blast
  qed
qed

text \<open>An inbound connection that a walk found is live, within its limit, and has a queue.\<close>

lemma found_connection:
  assumes "scOk (scm nmi)" "limitsOk nmi" "findIncoming (scStore (scm nmi)) P (incomingSc (scm nmi)) = Some (Some (p, sc))"
  obtains q where "scStore (scm nmi) p = Some sc" "scQueue sc = Some q" "queueOk q" "withinLimit sc"
proof -
  have "inOk (scm nmi)" using assms(1) by (simp add: scOk_def)
  from findIncoming_Some [OF this assms(3)] limitsOk_get [OF assms(2)] that show thesis by blast
qed

lemma step_limits:
  assumes "scOk (scm nmi)" "scEnabled e nmi" "scManagerStep os e nmi = Some nmi'" "limitsOk nmi"
  shows "limitsOk nmi'"
proof -
  have out: "outOk (scm nmi)" and inn: "inOk (scm nmi)" using assms(1) by (simp_all add: scOk_def)
  note found = found_connection [OF assms(1,4)] and get = limitsOk_get [OF assms(4)]
  note same = limitsOk_same [of nmi' nmi] and store = limitsOk_store [OF assms(4)]
  show ?thesis
  proof (cases e)
    case (PeerCreate ok m)
    then show ?thesis using processCreate_ok [OF out, of os ok m] assms(3,4) same by auto
  next
    case (PeerActivate ok m)
    then show ?thesis using assms(3,4) same by (auto simp: scManagerProcessActivateScMessage_def)
  next
    case (PeerSuspend ok m)
    then show ?thesis using assms(3,4) same by (auto simp: scManagerProcessSuspendScMessage_def)
  next
    case (PeerTerminate m)
    then show ?thesis using assms(3,4) same by auto
  next
    case (PeerConfirm now m)
    then show ?thesis
      using assms(3,4)
      by (auto simp: scManagerProcessConfirmScMessage_def split: bind_splits option.splits if_splits
          intro!: store elim!: found simp del: scm_storeSc simp: withinLimit_def)
  next
    case (PeerData now m)
    obtain r where r: "findIncoming (scStore (scm nmi)) (scFor (commandCode m) (source m)) (incomingSc (scm nmi)) = Some r"
      using findIncoming_total [OF inn] by blast
    show ?thesis
    proof (cases r)
      case None
      then show ?thesis using PeerData r assms(3,4) by (simp add: scManagerReceiveMessage_def)
    next
      case (Some psc)
      then obtain p sc where psc: "r = Some (p, sc)" by (cases psc) simp
      from found [OF r [unfolded psc]] obtain q where q: "scStore (scm nmi) p = Some sc" "scQueue sc = Some q"
        "queueOk q" "withinLimit sc" by blast
      have len: "length (queueList q) < 2 ^ 31 - 1" using PeerData assms(2) q(1,2) by auto
      show ?thesis
      proof (cases "isActive sc")
        case True
        from receiveMessage_spec [OF inn r [unfolded psc] True q(2) len, of now] obtain q' where
          "scManagerReceiveMessage now nmi m = Some (storeSc nmi p (sc\<lparr>lastSentTime := now, scQueue := Some q'\<rparr>))"
          "queueList q' = boundedPush (queueSize sc) (queueList q) m" by blast
        then show ?thesis
          using PeerData assms(3) store withinLimit_push [OF q(4,2)] by auto
      next
        case False
        then show ?thesis using PeerData r psc assms(3,4) by (simp add: scManagerReceiveMessage_def)
      qed
    qed
  next
    case (SubsystemUpdated ask)
    have "\<forall>p sc. scStore (scm nmi) p = Some sc \<longrightarrow> withinLimit sc \<and> (\<exists>q. scQueue sc = Some q \<and> queueOk q)"
      using assms(1) get by (auto simp: scOk_def storeOk_def)
    then show ?thesis
      using SubsystemUpdated assms(3)
      by (auto simp: scManagerProcessUpdatedSubystem_def limitsOk_def Let_def split: bind_splits prod.splits
          dest: dropIncoming_limits)
  next
    case (AddSupported ok code)
    then show ?thesis using assms(3,4) same by auto
  next
    case (RemoveSupported code)
    then show ?thesis using assms(3,4) same removeSupported_store by simp
  next
    case (SendList now code)
    then show ?thesis using assms(3,4) same by auto
  next
    case (QueryActive code)
    then show ?thesis using assms(3,4) by simp
  next
    case (NewConnection p code pv address rate timeout qSize)
    then show ?thesis
      using assms(3) store [of "configuredSc code pv address rate timeout qSize" p] queueCreate_ok [where ?'a = JausMessage]
      by (auto simp: withinLimit_def configuredSc_def serviceConnectionCreate_def simp del: scm_storeSc)
  next
    case (ScheduleConnection now p)
    then show ?thesis
      using assms(3) get [of p] by (auto simp: withinLimit_def intro!: store simp del: scm_storeSc split: bind_splits)
  next
    case (UpdateConnection now p number)
    then show ?thesis
      using assms(3) get [of p]
      by (auto simp: scManagerUpdateServiceConnection_def Let_def withinLimit_def intro!: store simp del: scm_storeSc
          split: bind_splits)
  next
    case (OpenConnection ask p)
    obtain l c where u: "unlinkAll p (incomingSc (scm nmi)) (incomingScCount (scm nmi)) = (l, c)" by fastforce
    let ?nmi1 = "nmi\<lparr>scm := (scm nmi)\<lparr>incomingSc := l, incomingScCount := c\<rparr>\<rparr>"
    from OpenConnection assms(2) obtain sc0 where sc0: "scStore (scm nmi) p = Some sc0" by (auto simp: liveSc_def)
    let ?sc = "sc0\<lparr>confirmedUpdateRateHz := 0, lastSentTime := 0, scSequenceNumber := 65535, instanceId := -1, isActive := False\<rparr>"
    have w: "withinLimit ?sc" "withinLimit (?sc\<lparr>scAddress := a\<rparr>)" for a
      using get [OF sc0] by (simp_all add: withinLimit_def)
    have l1: "limitsOk ?nmi1" using assms(4) by (simp add: limitsOk_def)
    note st = limitsOk_store [OF l1 w(1), of p] limitsOk_store [OF l1 w(2), of p]
      limitsOk_store [OF limitsOk_store [OF l1 w(1), of p] w(2), of p]
    show ?thesis
      using OpenConnection assms(3) u sc0 st
      by (auto simp: scManagerCreateServiceConnection_def Let_def simp del: scm_storeSc split: prod.splits if_splits)
  next
    case (CloseConnection d)
    then show ?thesis
      using assms(3,4)
      by (auto simp: scManagerTerminateServiceConnection_def split: bind_splits option.splits if_splits
          elim!: found simp del: scm_storeSc intro!: limitsOk_store)
        (rule emptied_limit; assumption)+
  next
    case (PollConnection now d)
    then show ?thesis
      using assms(3,4)
      by (auto simp: scManagerReceiveServiceConnection_def split: bind_splits option.splits if_splits
          elim!: found simp del: scm_storeSc intro!: limitsOk_store)
        ((rule emptied_limit; assumption) | (rule popped_limit; assumption))+
  next
    case (DestroyConnection p)
    then show ?thesis
      using assms(3,4) by (auto simp: serviceConnectionDestroy_def onScm_def limitsOk_def split: bind_splits prod.splits if_splits)
  qed
qed

lemma scReach_limits: "scReach os nmi \<Longrightarrow> limitsOk nmi"
proof (induction rule: scReach.induct)
  case (init nmi)
  then show ?case by (simp add: limitsOk_def scManagerCreate_def)
next
  case (step nmi e nmi')
  then show ?case using step_limits [OF scReach_ok] by blast
qed

section \<open>Views for the properties\<close>

text \<open>The outbound connections for a command code.\<close>

definition outConns :: "NodeManagerInterface \<Rightarrow> u16 \<Rightarrow> ServiceConnection list" where
  "outConns nmi code =
     (case scFindSupportedScMsgInList (supportedScMsgList (scm nmi)) code of
        None \<Rightarrow> [] | Some s \<Rightarrow> scList s)"

lemma find_update [simp]:
  assumes "scFindSupportedScMsgInList l code = Some s" "supCommandCode s' = code"
  shows "scFindSupportedScMsgInList (updateSupported l code s') code = Some s'"
  using assms by (induction l) auto

lemma find_code: "scFindSupportedScMsgInList l code = Some s \<Longrightarrow> supCommandCode s = code"
  by (induction l) (auto split: if_splits)

lemma outConns_logSent [simp]: "outConns (logSent nmi m) code = outConns nmi code"
  by (simp add: outConns_def)

lemma outConns_supported: "sc \<in> set (outConns nmi code) \<Longrightarrow>
    \<exists>s. scFindSupportedScMsgInList (supportedScMsgList (scm nmi)) code = Some s \<and> outConns nmi code = scList s"
  by (cases "scFindSupportedScMsgInList (supportedScMsgList (scm nmi)) code") (auto simp: outConns_def)

lemma outConns_ok:
  assumes "outOk (scm nmi)"
  shows "distinct (scKeys (outConns nmi code))" "distinct (scVectors (outConns nmi code))"
    "\<forall>sc \<in> set (outConns nmi code). 0 \<le> instanceId sc \<and> instanceId sc < 256 \<and> scCommandCode sc = code"
  using outOk_sup [OF assms, of code]
  by (cases "scFindSupportedScMsgInList (supportedScMsgList (scm nmi)) code";
      auto simp: outConns_def supOk_def scKeys_def scVectors_def)+

lemma sent_logSent: "isOpen nmi \<Longrightarrow> sent (logSent nmi m) = sent nmi @ [messageBytes m]"
  by (simp add: logSent_def)

lemma removeFirst_cong: "\<forall>x \<in> set l. P x = Q x \<Longrightarrow> removeFirst P l = removeFirst Q l"
  by (induction l) auto

lemma scKeys_inj:
  assumes "distinct (scKeys l)" "i < length l" "j < length l"
    "scAddress (l ! i) = scAddress (l ! j)" "instanceId (l ! i) = instanceId (l ! j)"
  shows "i = j"
  using assms nth_eq_iff_index_eq [of "scKeys l" i j] by (simp add: scKeys_def)

text \<open>The connection an accepted request leaves.\<close>

lemma createdList_conn:
  assumes "supOk s" "scGetAvailableInstanceId (scList s) a pv = Some ident" "ident \<noteq> - 1"
  shows "\<exists>sc \<in> set (createdList (scList s) code a pv rate ident).
      scAddress sc = a \<and> instanceId sc = ident \<and> scPresenceVector sc = pv \<and> isActive sc \<and>
      confirmedUpdateRateHz sc = rate \<and> requestedUpdateRateHz sc = rate \<and> scSequenceNumber sc = 0"
    and "{sc \<in> set (scList s). (scAddress sc, instanceId sc) \<noteq> (a, ident)} =
      {sc \<in> set (createdList (scList s) code a pv rate ident). (scAddress sc, instanceId sc) \<noteq> (a, ident)}"
    and "0 \<le> ident" "ident < 256"
proof -
  let ?Q = "\<lambda>sc. scAddress sc = a \<and> scPresenceVector sc = pv"
  have ids: "\<forall>sc \<in> set (scList s). 0 \<le> instanceId sc \<and> instanceId sc < 256"
    using assms(1) by (simp add: supOk_def)
  from instanceId_spec [OF ids, of a pv] assms(2,3) have spec:
    "\<And>sc. find ?Q (scList s) = Some sc \<Longrightarrow> ident = instanceId sc"
    "find ?Q (scList s) = None \<Longrightarrow> 0 \<le> ident \<and> ident < 256 \<and> (a, ident) \<notin> set (scKeys (scList s))"
    by auto
  have rng: "0 \<le> ident \<and> ident < 256"
  proof (cases "find ?Q (scList s)")
    case (Some sc)
    then have "sc \<in> set (scList s)" by (auto simp: find_Some_iff)
    then show ?thesis using spec(1) [OF Some] ids by simp
  qed (use spec(2) in simp)
  then show "0 \<le> ident" "ident < 256" by simp_all
  have pv: "scPresenceVector (scList s ! i) = pv"
    if i: "i < length (scList s)" "scAddress (scList s ! i) = a" "instanceId (scList s ! i) = ident" for i
  proof (cases "find ?Q (scList s)")
    case None
    have "scList s ! i \<in> set (scList s)" using i(1) by simp
    then show ?thesis using spec(2) [OF None] i(2,3) by (auto simp: scKeys_def)
  next
    case (Some sc)
    then obtain j where j: "j < length (scList s)" "sc = scList s ! j" "?Q sc" by (auto simp: find_Some_iff)
    have "distinct (scKeys (scList s))" using assms(1) by (simp add: supOk_def)
    then have "i = j" by (rule scKeys_inj) (use i j spec(1) [OF Some] in simp_all)
    then show ?thesis using j by simp
  qed
  show "\<exists>sc \<in> set (createdList (scList s) code a pv rate ident).
      scAddress sc = a \<and> instanceId sc = ident \<and> scPresenceVector sc = pv \<and> isActive sc \<and>
      confirmedUpdateRateHz sc = rate \<and> requestedUpdateRateHz sc = rate \<and> scSequenceNumber sc = 0"
  proof (cases "scFindScInList (scList s) a ident")
    case None
    then show ?thesis by (simp add: createdList_def)
  next
    case (Some i)
    then have i: "i < length (scList s)" "scAddress (scList s ! i) = a" "instanceId (scList s ! i) = ident"
      by (auto simp: scFind_split scSame_def)
    let ?n = "(scList s ! i)\<lparr>requestedUpdateRateHz := rate, lastSentTime := 0, scSequenceNumber := 0,
                            isActive := True, confirmedUpdateRateHz := rate\<rparr>"
    have "?n \<in> set (createdList (scList s) code a pv rate ident)"
      using Some set_update_memI [OF i(1)] by (simp add: createdList_def)
    then show ?thesis by (rule rev_bexI) (use i pv [OF i] in simp)
  qed
  show "{sc \<in> set (scList s). (scAddress sc, instanceId sc) \<noteq> (a, ident)} =
      {sc \<in> set (createdList (scList s) code a pv rate ident). (scAddress sc, instanceId sc) \<noteq> (a, ident)}"
  proof (cases "scFindScInList (scList s) a ident")
    case None
    then show ?thesis by (auto simp: createdList_def)
  next
    case (Some i)
    then have i: "i < length (scList s)" "scAddress (scList s ! i) = a" "instanceId (scList s ! i) = ident"
      by (auto simp: scFind_split scSame_def)
    let ?n = "(scList s ! i)\<lparr>requestedUpdateRateHz := rate, lastSentTime := 0, scSequenceNumber := 0,
                            isActive := True, confirmedUpdateRateHz := rate\<rparr>"
    have "x \<in> set ((scList s)[i := ?n])" if "x \<in> set (scList s)" "(scAddress x, instanceId x) \<noteq> (a, ident)" for x
      using that i by (metis in_set_conv_nth length_list_update nth_list_update_neq)
    then show ?thesis
      using Some i set_update_subset_insert [of "scList s" i ?n] by (fastforce simp: createdList_def)
  qed
qed

lemma processTerminate_conns:
  assumes "outOk (scm nmi)"
  shows "outConns (scManagerProcessTerminateScMessage nmi m)
      (terminateServiceConnection_serviceConnectionCommandCode m) =
    removeFirst (\<lambda>sc. scAddress sc = source m \<and>
        instanceId sc = uint (terminateServiceConnection_instanceId m))
      (outConns nmi (terminateServiceConnection_serviceConnectionCommandCode m))"
proof (cases "scFindSupportedScMsgInList (supportedScMsgList (scm nmi))
    (terminateServiceConnection_serviceConnectionCommandCode m)")
  case None
  then show ?thesis by (simp add: outConns_def scManagerProcessTerminateScMessage_def)
next
  case (Some s)
  let ?code = "terminateServiceConnection_serviceConnectionCommandCode m"
  let ?P = "scMatches (source m) ?code (terminateServiceConnection_instanceId m)"
  have codes: "\<forall>sc \<in> set (scList s). scCommandCode sc = ?code"
    using outOk_sup [OF assms Some] by (simp add: supOk_def)
  then have eq: "removeFirst ?P (scList s) = removeFirst (\<lambda>sc. scAddress sc = source m \<and>
        instanceId sc = uint (terminateServiceConnection_instanceId m)) (scList s)"
    by (intro removeFirst_cong) (auto simp: scMatches_def)
  show ?thesis
    using Some find_code [OF Some] eq
    by (auto simp: outConns_def scManagerProcessTerminateScMessage_def Let_def firstIdx_None
        removeFirst_id split: if_splits)
qed

lemma setActive_conns:
  assumes "outOk (scm nmi)"
  shows "outConns (setActive True nmi b code a ident) code =
    map (\<lambda>sc. if scAddress sc = a \<and> instanceId sc = uint ident then sc\<lparr>isActive := b\<rparr> else sc) (outConns nmi code)"
proof (cases "scFindSupportedScMsgInList (supportedScMsgList (scm nmi)) code")
  case None
  then show ?thesis by (simp add: outConns_def setActive_def)
next
  case (Some s)
  have dist: "distinct (scKeys (scList s))" using outOk_sup [OF assms Some] by (simp add: supOk_def)
  let ?f = "\<lambda>sc. if scAddress sc = a \<and> instanceId sc = uint ident then sc\<lparr>isActive := b\<rparr> else sc"
  show ?thesis
  proof (cases "scFindScInList (scList s) a (uint ident)")
    case None
    then have "map ?f (scList s) = scList s" by (auto simp: scFind_None scSame_def intro!: map_idI)
    then show ?thesis using Some None by (simp add: outConns_def setActive_def)
  next
    case (Some i)
    then have i: "i < length (scList s)" "scAddress (scList s ! i) = a" "instanceId (scList s ! i) = uint ident"
      by (auto simp: scFind_split scSame_def)
    have other: "\<not> (scAddress (scList s ! j) = a \<and> instanceId (scList s ! j) = uint ident)"
      if "j < length (scList s)" "j \<noteq> i" for j
      using that i scKeys_inj [OF dist, of j i] by auto
    have "(scList s)[i := (scList s ! i)\<lparr>isActive := b\<rparr>] = map ?f (scList s)"
    proof (rule nth_equalityI)
      fix j assume "j < length ((scList s)[i := (scList s ! i)\<lparr>isActive := b\<rparr>])"
      then show "(scList s)[i := (scList s ! i)\<lparr>isActive := b\<rparr>] ! j = map ?f (scList s) ! j"
        using i other [of j] by (cases "j = i") auto
    qed simp
    then show ?thesis
      using Some \<open>scFindSupportedScMsgInList _ _ = Some s\<close> find_code [OF \<open>scFindSupportedScMsgInList _ _ = Some s\<close>]
      by (simp add: outConns_def setActive_def)
  qed
qed

lemma getSendList_conns:
  assumes "scManagerGetSendList now nmi code = (out, nmi')"
  shows "out = map (\<lambda>sc. sc\<lparr>lastSentTime := now\<rparr>) (filter (scDue now) (outConns nmi code))"
    "outConns nmi' code = map (scSent now) (outConns nmi code)"
proof -
  show "out = map (\<lambda>sc. sc\<lparr>lastSentTime := now\<rparr>) (filter (scDue now) (outConns nmi code))"
    using assms by (auto simp: scManagerGetSendList_def outConns_def sendListLoop_spec split: option.splits)
  show "outConns nmi' code = map (scSent now) (outConns nmi code)"
  proof (cases "scFindSupportedScMsgInList (supportedScMsgList (scm nmi)) code")
    case None
    then show ?thesis using assms by (auto simp: scManagerGetSendList_def outConns_def)
  next
    case (Some s)
    then show ?thesis using assms find_code [OF Some]
      by (auto simp: scManagerGetSendList_def outConns_def sendListLoop_spec)
  qed
qed

text \<open>A freshly opened interface is a reachable state with the two core messages announced.\<close>

lemma nodeManagerOpen_reach:
  assumes "nodeManagerOpen ask port now c = Some (Some nmi)"
  shows "scReach os nmi" "isOpen nmi" "sent nmi = []" "receiveQueue nmi = queueCreate"
    "supportedScMsgList (scm nmi) = [\<lparr>supCommandCode = JAUS_REPORT_COMPONENT_AUTHORITY, scList = []\<rparr>,
                                    \<lparr>supCommandCode = JAUS_REPORT_COMPONENT_STATUS, scList = []\<rparr>]"
    "incomingSc (scm nmi) = []" "scStore (scm nmi) = Map.empty" "outgoingScCount (scm nmi) = 0"
    "arrayOk (messageLists (lmh nmi))" "arrayList (messageLists (lmh nmi)) = []"
proof -
  obtain h where h: "lmHandlerCreate = Some h" "arrayOk (messageLists h)" "arrayList (messageLists h) = []"
    using lmHandlerCreate_ok by blast
  from assms obtain c1 where nmi: "nmi = scManagerAddSupportedMessage True (scManagerAddSupportedMessage True
      \<lparr>receiveQueue = queueCreate, cmpt = c1, isOpen = True, receiveCount = 0,
       heartbeatCount = 0, timestamp = now, scm = scManagerCreate, lmh = h, sent = []\<rparr>
      JAUS_REPORT_COMPONENT_STATUS) JAUS_REPORT_COMPONENT_AUTHORITY"
    by (auto simp: nodeManagerOpen_def h(1) Let_def split: option.splits prod.splits if_splits)
  show "scReach os nmi"
    unfolding nmi
    by (rule scReach.step [where e = "AddSupported True _"], rule scReach.step [where e = "AddSupported True _"],
        rule scReach.init) simp_all
  show "isOpen nmi" "sent nmi = []" "receiveQueue nmi = queueCreate"
    "supportedScMsgList (scm nmi) = [\<lparr>supCommandCode = JAUS_REPORT_COMPONENT_AUTHORITY, scList = []\<rparr>,
                                    \<lparr>supCommandCode = JAUS_REPORT_COMPONENT_STATUS, scList = []\<rparr>]"
    "incomingSc (scm nmi) = []" "scStore (scm nmi) = Map.empty" "outgoingScCount (scm nmi) = 0"
    "arrayOk (messageLists (lmh nmi))" "arrayList (messageLists (lmh nmi)) = []"
    unfolding nmi using h by (simp_all add: scManagerAddSupportedMessage_def scManagerCreate_def)
qed

lemma nodeManagerOpen_example:
  "\<exists>nmi. nodeManagerOpen (\<lambda>_. [2, 1, 33, 1, 1]) 5000 0 (Some c) = Some (Some nmi)"
  by (simp add: nodeManagerOpen_def lmHandlerCreate_simp checkIntoNodeManager_def afterReceive_def)

section \<open>Properties\<close>

text \<open>An inbound connection that was configured with a queue of one message, requested and confirmed.\<close>

lemma scReach_example:
  obtains nmi sc where "scReach (\<lambda>_. 0) nmi" "scStore (scm nmi) = [5 \<mapsto> sc]" "isActive sc" "queueSize sc = 1"
    "scQueue sc = Some queueCreate" "incomingSc (scm nmi) = [5]" "scCommandCode sc = 7"
    "scAddress sc = \<lparr>addrSubsystem = 2, addrNode = 1, addrComponent = 33, addrInstance = 1\<rparr>"
proof -
  let ?a = "\<lparr>addrSubsystem = 2, addrNode = 1, addrComponent = 33, addrInstance = 1\<rparr>"
  let ?os = "\<lambda>_ :: bytes. 0 :: int"
  obtain nmi0 :: NodeManagerInterface where n0: "scm nmi0 = scManagerCreate"
    by (metis NodeManagerInterface.select_convs(7))
  let ?sc = "configuredSc 7 0 ?a 5 2 1"
  let ?nmi1 = "storeSc nmi0 5 ?sc"
  have r1: "scReach ?os ?nmi1"
    by (rule scReach.step [OF scReach.init [OF n0], of "NewConnection 5 7 0 ?a 5 2 1"])
      (simp_all add: n0 liveSc_def scManagerCreate_def del: scm_storeSc)
  obtain nmi2 sc2 where n2: "scManagerStep ?os (OpenConnection (\<lambda>b. b) 5) ?nmi1 = Some nmi2"
    "scStore (scm nmi2) = [5 \<mapsto> sc2]" "incomingSc (scm nmi2) = [5]"
    "scAddress sc2 = ?a" "scCommandCode sc2 = 7" "queueSize sc2 = 1" "scQueue sc2 = Some queueCreate"
    by (simp add: scManagerCreateServiceConnection_def Let_def n0 scManagerCreate_def linkSc_def configuredSc_def
        serviceConnectionCreate_def)
  have "scEnabled (OpenConnection (\<lambda>b. b) 5) ?nmi1" by (simp add: liveSc_def)
  from scReach.step [OF r1 this n2(1)] have r2: "scReach ?os nmi2" .
  let ?m = "confirmServiceConnectionMessageCreate\<lparr>source := ?a, confirmServiceConnection_serviceConnectionCommandCode := 7,
      confirmServiceConnection_responseCode := JAUS_SC_SUCCESSFUL\<rparr>"
  obtain nmi3 sc3 where n3: "scManagerStep ?os (PeerConfirm 1 ?m) nmi2 = Some nmi3" "scStore (scm nmi3) = [5 \<mapsto> sc3]"
    "incomingSc (scm nmi3) = [5]" "isActive sc3" "scAddress sc3 = ?a" "scCommandCode sc3 = 7" "queueSize sc3 = 1"
    "scQueue sc3 = Some queueCreate"
    using n2 by (simp add: scManagerProcessConfirmScMessage_def scFor_def)
  have "scReach ?os nmi3" by (rule scReach.step [OF r2 _ n3(1)]) simp
  from that [OF this n3(2,4,7,8,3,6,5)] show thesis .
qed

text \<open>
  C3. Whatever the peers send and the application calls, in any order and at any time, with inbound
  connections of any code, peer, rate, timeout and queue limit, the
  service connection manager neither dereferences a dangling or null pointer nor indexes outside
  an array, and it keeps its invariants: one entry per supported command code; per entry, distinct
  instance numbers and presence vectors per peer, all numbers in 0..255; an inbound list without
  duplicates whose counter is its length and whose connections are live and own a well-formed queue;
  no queue with a limit holds more messages than the limit. What the application has to respect is
  \<open>scEnabled\<close>: it passes live objects, and no queue reaches \<open>2 ^ 31 - 1\<close> messages.
\<close>

theorem sc_interleavings_safe:
  assumes "scReach os nmi" "scEnabled e nmi"
  shows "\<exists>nmi'. scManagerStep os e nmi = Some nmi' \<and> scOk (scm nmi') \<and> limitsOk nmi' \<and> scReach os nmi'"
  using scManagerStep_ok [OF scReach_ok [OF assms(1)] assms(2), of os] scReach.step [OF assms]
    scReach_limits by blast

theorem sc_interleavings_safe_witness:
  "\<exists>nmi nmi1 nmi2 sc q m1 m2. scManagerStep (\<lambda>_. 0) (PeerData 2 m1) nmi = Some nmi1 \<and>
     scManagerStep (\<lambda>_. 0) (PeerData 3 m2) nmi1 = Some nmi2 \<and> scOk (scm nmi2) \<and> limitsOk nmi2 \<and> m1 \<noteq> m2 \<and>
     scStore (scm nmi2) 5 = Some sc \<and> scQueue sc = Some q \<and> queueSize sc = 1 \<and> queueList q = [m2]"
proof -
  let ?a = "\<lparr>addrSubsystem = 2, addrNode = 1, addrComponent = 33, addrInstance = 1\<rparr>"
  obtain nmi sc where e: "scReach (\<lambda>_. 0) nmi" "scStore (scm nmi) = [5 \<mapsto> sc]" "isActive sc" "queueSize sc = 1"
    "scQueue sc = Some queueCreate" "incomingSc (scm nmi) = [5]" "scCommandCode sc = 7" "scAddress sc = ?a"
    by (rule scReach_example)
  let ?m = "\<lambda>k. jausMessageCreate\<lparr>commandCode := 7, source := ?a, sequenceNumber := k\<rparr>"
  have inn: "inOk (scm n)" if "scReach (\<lambda>_. 0) n" for n using scReach_ok [OF that] by (simp add: scOk_def)
  have f: "findIncoming (scStore (scm nmi)) (scFor (commandCode (?m 1)) (source (?m 1))) (incomingSc (scm nmi)) =
      Some (Some (5, sc))" using e by (simp add: scFor_def)
  have q0: "length (queueList (queueCreate :: JausMessage Queue)) < 2 ^ 31 - 1" "queueList (queueCreate :: JausMessage Queue) = []"
    using queueCreate_ok [where ?'a = JausMessage] by simp_all
  from receiveMessage_spec [OF inn [OF e(1)] f e(3,5) q0(1), of 2] obtain q1 where
    q1: "scManagerReceiveMessage 2 nmi (?m 1) = Some (storeSc nmi 5 (sc\<lparr>lastSentTime := 2, scQueue := Some q1\<rparr>))"
      "queueList q1 = [?m 1]" by (auto simp: boundedPush_def q0(2))
  let ?sc1 = "sc\<lparr>lastSentTime := 2, scQueue := Some q1\<rparr>"
  let ?n1 = "storeSc nmi 5 ?sc1"
  have "scEnabled (PeerData 2 (?m 1)) nmi" using e(2,5) q0 by auto
  from scReach.step [OF e(1) this, of ?n1] q1(1) have r1: "scReach (\<lambda>_. 0) ?n1" by simp
  have f1: "findIncoming (scStore (scm ?n1)) (scFor (commandCode (?m 2)) (source (?m 2))) (incomingSc (scm ?n1)) =
      Some (Some (5, ?sc1))" using e by (simp add: scFor_def)
  have a1: "isActive ?sc1" "scQueue ?sc1 = Some q1" "length (queueList q1) < 2 ^ 31 - 1" using e(3) q1(2) by simp_all
  from receiveMessage_spec [OF inn [OF r1] f1 a1, of 3] obtain q2 where
    q2: "scManagerReceiveMessage 3 ?n1 (?m 2) = Some (storeSc ?n1 5 (?sc1\<lparr>lastSentTime := 3, scQueue := Some q2\<rparr>))"
      "queueList q2 = [?m 2]" using e(4) q1(2) by (auto simp: boundedPush_def)
  have "scEnabled (PeerData 3 (?m 2)) ?n1" using e(2) q1(2) by auto
  from sc_interleavings_safe [OF r1 this] q1 q2 e(4) show ?thesis
    by (intro exI [of _ nmi] exI [of _ ?n1] exI [of _ "storeSc ?n1 5 (?sc1\<lparr>lastSentTime := 3, scQueue := Some q2\<rparr>)"]
        exI [of _ "?sc1\<lparr>lastSentTime := 3, scQueue := Some q2\<rparr>"] exI [of _ q2] exI [of _ "?m 1"] exI [of _ "?m 2"])
      (auto simp: jausMessageCreate_def simp del: scm_storeSc simp: storeSc_def)
qed

text \<open>
  C25. A create request for a supported message from a peer with fewer than 256 connections is
  accepted: the manager installs (or resets) exactly one active connection of that peer with the
  requested rate and presence vector, a number in 0..255 and sequence number zero, leaves every
  other connection alone, counts it, and answers with one datagram that confirms success and
  carries the number and the rate.
\<close>

theorem create_request_accepted:
  assumes "outOk (scm nmi)" "isOpen nmi"
    "scFindSupportedScMsgInList (supportedScMsgList (scm nmi))
       (createServiceConnection_serviceConnectionCommandCode m) = Some s"
    "length (filter (\<lambda>sc. scAddress sc = source m) (scList s)) < 256"
  shows "\<exists>nmi' sc. scManagerProcessCreateScMessage os True nmi m = Some nmi' \<and>
     sc \<in> set (outConns nmi' (createServiceConnection_serviceConnectionCommandCode m)) \<and>
     scAddress sc = source m \<and> scPresenceVector sc = createServiceConnection_presenceVector m \<and>
     confirmedUpdateRateHz sc = createServiceConnection_requestedPeriodicUpdateRateHertz m \<and>
     isActive sc \<and> scSequenceNumber sc = 0 \<and> 0 \<le> instanceId sc \<and> instanceId sc < 256 \<and>
     {x \<in> set (outConns nmi (createServiceConnection_serviceConnectionCommandCode m)).
        (scAddress x, instanceId x) \<noteq> (source m, instanceId sc)} =
     {x \<in> set (outConns nmi' (createServiceConnection_serviceConnectionCommandCode m)).
        (scAddress x, instanceId x) \<noteq> (source m, instanceId sc)} \<and>
     outTotal (scm nmi') - outTotal (scm nmi) = outgoingScCount (scm nmi') - outgoingScCount (scm nmi) \<and>
     sent nmi' = sent nmi @ [messageBytes (confirmJm nmi m
        (createServiceConnection_serviceConnectionCommandCode m) (word_of_int (instanceId sc))
        (createServiceConnection_requestedPeriodicUpdateRateHertz m) JAUS_SC_SUCCESSFUL)]"
proof -
  let ?code = "createServiceConnection_serviceConnectionCommandCode m"
  let ?rate = "createServiceConnection_requestedPeriodicUpdateRateHertz m"
  let ?pv = "createServiceConnection_presenceVector m"
  from outOk_sup [OF assms(1,3)] have s: "supOk s" "supCommandCode s = ?code" by auto
  then have ids: "\<forall>sc \<in> set (scList s). 0 \<le> instanceId sc \<and> instanceId sc < 256" by (simp add: supOk_def)
  from instanceId_spec [OF this] obtain r where
    r: "scGetAvailableInstanceId (scList s) (source m) ?pv = Some r" by blast
  have ne: "r \<noteq> -1" using available_number [OF ids assms(4) r] .
  note cl = createdList_conn(2-4) [OF s(1) r ne]
  from createdList_conn(1) [OF s(1) r ne, of ?code ?rate] obtain sc where sc: "sc \<in> set (createdList (scList s) ?code (source m) ?pv ?rate r)"
    "scAddress sc = source m" "instanceId sc = r" "scPresenceVector sc = ?pv" "isActive sc"
    "confirmedUpdateRateHz sc = ?rate" "scSequenceNumber sc = 0" by blast
  obtain nmi' where nmi': "scManagerProcessCreateScMessage os True nmi m = Some nmi'"
    "outTotal (scm nmi') - outTotal (scm nmi) = outgoingScCount (scm nmi') - outgoingScCount (scm nmi)"
    using processCreate_ok [OF assms(1), of os True m] by blast
  have conns: "outConns nmi ?code = scList s" using assms(3) by (simp add: outConns_def)
  have conns': "outConns nmi' ?code = createdList (scList s) ?code (source m) ?pv ?rate r"
    and snt: "sent nmi' = sent nmi @ [messageBytes (confirmJm nmi m ?code (word_of_int r) ?rate JAUS_SC_SUCCESSFUL)]"
    using nmi'(1) processCreate_spec [OF assms(1), of os True m] assms(2,3) r ne s(2)
    by (auto simp: outConns_def Let_def sent_logSent)
  show ?thesis
    using nmi' sc cl conns conns' snt by (intro exI [of _ nmi'] exI [of _ sc]) simp
qed

theorem create_request_accepted_witness:
  "\<exists>nmi nmi' m. source m = jausAddressCreate \<and>
     scManagerProcessCreateScMessage (\<lambda>_. 0) True nmi m = Some nmi' \<and>
     outConns nmi JAUS_REPORT_COMPONENT_STATUS = [] \<and>
     (\<exists>sc \<in> set (outConns nmi' JAUS_REPORT_COMPONENT_STATUS). confirmedUpdateRateHz sc = 10)"
proof -
  obtain nmi where n: "nodeManagerOpen (\<lambda>_. [2, 1, 33, 1, 1]) 5000 0 (Some undefined) = Some (Some nmi)"
    using nodeManagerOpen_example by blast
  note o = nodeManagerOpen_reach [OF n]
  let ?m = "createServiceConnectionMessageCreate
     \<lparr>source := jausAddressCreate,
      createServiceConnection_serviceConnectionCommandCode := JAUS_REPORT_COMPONENT_STATUS,
      createServiceConnection_requestedPeriodicUpdateRateHertz := 10\<rparr>"
  have "outOk (scm nmi)" using scReach_ok [OF o(1) [of "\<lambda>_. 0"]] by (simp add: scOk_def)
  from create_request_accepted [OF this o(2), of ?m "\<lparr>supCommandCode = JAUS_REPORT_COMPONENT_STATUS, scList = []\<rparr>"
      "\<lambda>_. 0"] o(5)
  obtain nmi' sc where "scManagerProcessCreateScMessage (\<lambda>_. 0) True nmi ?m = Some nmi'"
    "sc \<in> set (outConns nmi' JAUS_REPORT_COMPONENT_STATUS)" "confirmedUpdateRateHz sc = 10" by auto
  then show ?thesis using o(5) by (intro exI [of _ nmi] exI [of _ nmi'] exI [of _ ?m]) (auto simp: outConns_def)
qed

text \<open>
  Collecting the updates that are due gives exactly the active connections whose period has
  elapsed since their last update, with the sequence number to send; their number is then advanced by one
  modulo 65536 and their time of sending is set, all other connections stay as they are, and a
  connection that was just served is not due again before its period has elapsed.
\<close>

theorem sendlist_schedule:
  assumes "scManagerGetSendList now nmi code = (out, nmi')"
  shows "out = map (\<lambda>sc. sc\<lparr>lastSentTime := now\<rparr>) (filter (scDue now) (outConns nmi code)) \<and>
     outConns nmi' code = map (\<lambda>sc. if scDue now sc
        then sc\<lparr>lastSentTime := now, scSequenceNumber := scSequenceNumber sc + 1\<rparr> else sc) (outConns nmi code) \<and>
     (\<forall>sc \<in> set (outConns nmi code). \<forall>t. scDue now sc \<longrightarrow> 0 < confirmedUpdateRateHz sc \<longrightarrow>
        t \<le> now + 1 / confirmedUpdateRateHz sc \<longrightarrow>
        \<not> scDue t (sc\<lparr>lastSentTime := now, scSequenceNumber := scSequenceNumber sc + 1\<rparr>))"
proof -
  have "scSent now = (\<lambda>sc. if scDue now sc
      then sc\<lparr>lastSentTime := now, scSequenceNumber := scSequenceNumber sc + 1\<rparr> else sc)"
    by (simp add: fun_eq_iff scSent_def)
  moreover have "\<not> scDue t (sc\<lparr>lastSentTime := now, scSequenceNumber := scSequenceNumber sc + 1\<rparr>)"
    if "t \<le> now + 1 / confirmedUpdateRateHz sc" for t and sc :: ServiceConnection
    using that by (simp add: scDue_def)
  ultimately show ?thesis using getSendList_conns [OF assms] by simp
qed

theorem sendlist_schedule_witness:
  "\<exists>nmi out nmi' sc. scManagerGetSendList 10 nmi JAUS_REPORT_COMPONENT_STATUS = (out, nmi') \<and>
     out = [sc] \<and> lastSentTime sc = 10 \<and> scSequenceNumber sc = 65535 \<and>
     map scSequenceNumber (outConns nmi' JAUS_REPORT_COMPONENT_STATUS) = [0]"
proof -
  let ?sc = "serviceConnectionCreate\<lparr>confirmedUpdateRateHz := 1, isActive := True, scSequenceNumber := 65535\<rparr>"
  let ?m = "scManagerCreate\<lparr>supportedScMsgList := [\<lparr>supCommandCode = JAUS_REPORT_COMPONENT_STATUS, scList = [?sc]\<rparr>]\<rparr>"
  obtain nmi :: NodeManagerInterface where n: "scm nmi = ?m"
    by (metis NodeManagerInterface.select_convs(7))
  have c: "outConns nmi JAUS_REPORT_COMPONENT_STATUS = [?sc]" by (simp add: outConns_def n)
  obtain out nmi' where r: "scManagerGetSendList 10 nmi JAUS_REPORT_COMPONENT_STATUS = (out, nmi')"
    by fastforce
  have "scDue 10 ?sc" by (simp add: scDue_def serviceConnectionCreate_def)
  then have "out = [?sc\<lparr>lastSentTime := 10\<rparr>]" "map scSequenceNumber (outConns nmi' JAUS_REPORT_COMPONENT_STATUS) = [0]"
    using sendlist_schedule [OF r] by (simp_all add: c)
  then show ?thesis
    using r by (intro exI [of _ nmi] exI [of _ out] exI [of _ nmi'] exI [of _ "?sc\<lparr>lastSentTime := 10\<rparr>"]) simp
qed

text \<open>
  Suspending a connection stops its updates and activating it resumes them: on a well-formed
  manager the two messages set the activity of exactly the connection of that peer with that
  instance number and of the given command code, and change nothing else; a suspended connection
  is never due.
\<close>

theorem suspend_and_activate:
  assumes "outOk (scm nmi)"
  shows "outConns (scManagerProcessSuspendScMessage True nmi m)
       (suspendServiceConnection_serviceConnectionCommandCode m) =
     map (\<lambda>sc. if scAddress sc = source m \<and> instanceId sc = uint (suspendServiceConnection_instanceId m)
               then sc\<lparr>isActive := False\<rparr> else sc)
       (outConns nmi (suspendServiceConnection_serviceConnectionCommandCode m)) \<and>
     outConns (scManagerProcessActivateScMessage True nmi a)
       (activateServiceConnection_serviceConnectionCommandCode a) =
     map (\<lambda>sc. if scAddress sc = source a \<and> instanceId sc = uint (activateServiceConnection_instanceId a)
               then sc\<lparr>isActive := True\<rparr> else sc)
       (outConns nmi (activateServiceConnection_serviceConnectionCommandCode a)) \<and>
     \<not> scDue now (sc\<lparr>isActive := False\<rparr>)"
  using setActive_conns [OF assms]
  by (simp add: scManagerProcessSuspendScMessage_def scManagerProcessActivateScMessage_def scDue_def)

theorem suspend_and_activate_witness:
  "\<exists>nmi. outConns nmi 7 = [serviceConnectionCreate\<lparr>scCommandCode := 7, instanceId := 3, isActive := True\<rparr>] \<and>
     outConns (scManagerProcessSuspendScMessage True nmi (suspendServiceConnectionMessageCreate
       \<lparr>source := jausAddressCreate, suspendServiceConnection_serviceConnectionCommandCode := 7,
        suspendServiceConnection_instanceId := 3\<rparr>)) 7 =
     [serviceConnectionCreate\<lparr>scCommandCode := 7, instanceId := 3, isActive := False\<rparr>]"
proof -
  let ?sc = "serviceConnectionCreate\<lparr>scCommandCode := 7, instanceId := 3, isActive := True\<rparr>"
  let ?m = "scManagerCreate\<lparr>supportedScMsgList := [\<lparr>supCommandCode = 7, scList = [?sc]\<rparr>],
     supportedScMsgCount := 1\<rparr>"
  obtain nmi :: NodeManagerInterface where n: "scm nmi = ?m"
    by (metis NodeManagerInterface.select_convs(7))
  have ok: "outOk (scm nmi)" by (simp add: n outOk_def supOk_def scKeys_def scVectors_def)
  have c: "outConns nmi 7 = [?sc]" by (simp add: outConns_def n)
  from suspend_and_activate [OF ok, of "suspendServiceConnectionMessageCreate
       \<lparr>source := jausAddressCreate, suspendServiceConnection_serviceConnectionCommandCode := 7,
        suspendServiceConnection_instanceId := 3\<rparr>"] c
  show ?thesis by (intro exI [of _ nmi]) (simp add: serviceConnectionCreate_def)
qed

text \<open>
  A terminate message removes exactly the connection of that peer with that number: no
  connection with the pair remains, every other one does, and the counter drops by one when a
  connection was removed.
\<close>

theorem terminate_removes:
  assumes "outOk (scm nmi)" "nmi' = scManagerProcessTerminateScMessage nmi m"
    "code = terminateServiceConnection_serviceConnectionCommandCode m"
    "key = (source m, uint (terminateServiceConnection_instanceId m))"
  shows "set (outConns nmi' code) = {sc \<in> set (outConns nmi code). (scAddress sc, instanceId sc) \<noteq> key} \<and>
     outgoingScCount (scm nmi') =
       outgoingScCount (scm nmi) - (if key \<in> set (scKeys (outConns nmi code)) then 1 else 0) \<and>
     outOk (scm nmi')"
proof -
  let ?P = "\<lambda>sc. scAddress sc = source m \<and> instanceId sc = uint (terminateServiceConnection_instanceId m)"
  have c: "outConns nmi' code = removeFirst ?P (outConns nmi code)"
    using processTerminate_conns [OF assms(1)] assms(2,3) by simp
  have d: "distinct (scKeys l) \<Longrightarrow> set (removeFirst ?P l) = {sc \<in> set l. (scAddress sc, instanceId sc) \<noteq> key}" for l
    by (induction l) (auto simp: scKeys_def assms(4) image_iff)
  have tot: "outTotal (scm nmi') - outTotal (scm nmi) = outgoingScCount (scm nmi') - outgoingScCount (scm nmi)"
    using processTerminate_ok(2) [OF assms(1), of m] assms(2) by simp
  have "outgoingScCount (scm nmi') = outgoingScCount (scm nmi) - (if key \<in> set (scKeys (outConns nmi code)) then 1 else 0)"
  proof (cases "scFindSupportedScMsgInList (supportedScMsgList (scm nmi)) code")
    case None
    then show ?thesis using assms(2,3) by (simp add: scManagerProcessTerminateScMessage_def outConns_def scKeys_def)
  next
    case (Some s)
    have "\<forall>sc \<in> set (scList s). scCommandCode sc = code" using outOk_sup [OF assms(1) Some] by (simp add: supOk_def)
    then have "firstIdx (scMatches (source m) code (terminateServiceConnection_instanceId m)) (scList s) = None \<longleftrightarrow>
        key \<notin> set (scKeys (scList s))"
      by (auto simp: firstIdx_None scMatches_def scKeys_def assms(4) image_iff)
    then show ?thesis
      using Some assms(2,3) by (simp add: scManagerProcessTerminateScMessage_def Let_def outConns_def)
  qed
  then show ?thesis
    using c d outConns_ok(1) [OF assms(1), of code] processTerminate_ok(1) [OF assms(1), of m] assms(2) by simp
qed

theorem terminate_removes_witness:
  "\<exists>nmi. length (outConns nmi 7) = 1 \<and>
     outConns (scManagerProcessTerminateScMessage nmi (terminateSc jausAddressCreate jausAddressCreate 7 3)) 7 = []"
proof -
  let ?sc = "serviceConnectionCreate\<lparr>scCommandCode := 7, instanceId := 3, isActive := True\<rparr>"
  let ?m = "scManagerCreate\<lparr>supportedScMsgList := [\<lparr>supCommandCode = 7, scList = [?sc]\<rparr>],
     supportedScMsgCount := 1\<rparr>"
  obtain nmi :: NodeManagerInterface where n: "scm nmi = ?m"
    by (metis NodeManagerInterface.select_convs(7))
  have ok: "outOk (scm nmi)" by (simp add: n outOk_def supOk_def scKeys_def scVectors_def)
  have c: "outConns nmi 7 = [?sc]" by (simp add: outConns_def n)
  have "set (outConns (scManagerProcessTerminateScMessage nmi (terminateSc jausAddressCreate jausAddressCreate 7 3)) 7) = {}"
    using terminate_removes [OF ok refl refl refl, of "terminateSc jausAddressCreate jausAddressCreate 7 3"] c
    by (simp add: terminateSc_def serviceConnectionCreate_def)
  then show ?thesis using c by (intro exI [of _ nmi]) simp
qed

text \<open>
  Withdrawing a supported message tells every peer that its connection is over: one terminate
  datagram per connection, in the order of the list, with the peer's address, code and number;
  afterwards the message is not supported any more. The counter of outbound connections, however,
  keeps counting the connections that were freed.
\<close>

theorem withdraw_terminates_peers:
  assumes "outOk (scm nmi)" "isOpen nmi" "scManagerRemoveSupportedMessage os nmi code = Some nmi'"
  shows "sent nmi' = sent nmi @ map (\<lambda>sc. messageBytes (terminateJm (cmptAddress (cmpt nmi)) (scAddress sc)
            code (word_of_int (instanceId sc)))) (outConns nmi code) \<and>
     scFindSupportedScMsgInList (supportedScMsgList (scm nmi')) code = None \<and>
     outTotal (scm nmi') = outTotal (scm nmi) - int (length (outConns nmi code)) \<and>
     outgoingScCount (scm nmi') = outgoingScCount (scm nmi)"
proof (cases "scFindSupportedScMsgInList (supportedScMsgList (scm nmi)) code")
  case None
  then show ?thesis using assms(3) by (simp add: scManagerRemoveSupportedMessage_def outConns_def)
next
  case (Some s)
  from sup_split [OF Some] obtain pre post where
    sp: "supportedScMsgList (scm nmi) = pre @ s # post" "supCommandCode s = code"
    "removeFirst (\<lambda>x. supCommandCode x = code) (supportedScMsgList (scm nmi)) = pre @ post"
    by blast
  have "\<forall>sc \<in> set (scList s). scCommandCode sc = code" using outOk_sup [OF assms(1) Some] by (simp add: supOk_def)
  then have codes: "map (\<lambda>sc. messageBytes (terminateJm a (scAddress sc) (scCommandCode sc) (word_of_int (instanceId sc))))
      (scList s) = map (\<lambda>sc. messageBytes (terminateJm a (scAddress sc) code (word_of_int (instanceId sc)))) (scList s)"
    for a by simp
  have "outTotal (scm nmi') = outTotal (scm nmi) - int (length (outConns nmi code))"
    using assms(3) Some sp by (auto simp: scManagerRemoveSupportedMessage_def terminateAll_spec outConns_def outTotal_def)
  moreover have "sent nmi' = sent nmi @ map (\<lambda>sc. messageBytes (terminateJm (cmptAddress (cmpt nmi)) (scAddress sc)
            code (word_of_int (instanceId sc)))) (outConns nmi code)"
    using assms(2,3) Some codes
    by (auto simp: scManagerRemoveSupportedMessage_def terminateAll_spec outConns_def foldl_logSent_sent)
  ultimately show ?thesis using removeSupported_ok [OF assms(1), of os code] assms(3) by simp
qed

theorem withdraw_terminates_peers_witness:
  "\<exists>nmi nmi'. scManagerRemoveSupportedMessage (\<lambda>_. 0) nmi 7 = Some nmi' \<and>
     outTotal (scm nmi') = 0 \<and> outgoingScCount (scm nmi') = 1 \<and> length (sent nmi') = length (sent nmi) + 1"
proof -
  let ?sc = "serviceConnectionCreate\<lparr>scCommandCode := 7, instanceId := 3, isActive := True\<rparr>"
  let ?m = "scManagerCreate\<lparr>supportedScMsgList := [\<lparr>supCommandCode = 7, scList = [?sc]\<rparr>],
     supportedScMsgCount := 1, outgoingScCount := 1\<rparr>"
  obtain nmi0 :: NodeManagerInterface where n: "scm nmi0 = ?m"
    by (metis NodeManagerInterface.select_convs(7))
  let ?nmi = "nmi0\<lparr>isOpen := True\<rparr>"
  have ok: "outOk (scm ?nmi)" by (simp add: n outOk_def supOk_def scKeys_def scVectors_def)
  have c: "outConns ?nmi 7 = [?sc]" "outTotal (scm ?nmi) = 1" by (simp_all add: outConns_def n outTotal_def)
  obtain nmi' where r: "scManagerRemoveSupportedMessage (\<lambda>_. 0) ?nmi 7 = Some nmi'"
    using removeSupported_ok [OF ok] by blast
  show ?thesis
    using withdraw_terminates_peers [OF ok _ r] r c n
    by (intro exI [of _ ?nmi] exI [of _ nmi']) simp
qed

text \<open>
  The answer to an own request: a successful confirmation activates the inbound connection with
  that command code and peer, and stores its number and rate with the sequence number reset; a
  refusal deactivates it and takes it off the list; a successful confirmation nobody asked for is
  answered with a terminate message; a refusal nobody asked for changes nothing.
\<close>

theorem confirm_outcomes:
  assumes "scOk (scm nmi)" "isOpen nmi"
    "findIncoming (scStore (scm nmi)) (scFor (confirmServiceConnection_serviceConnectionCommandCode m) (source m))
       (incomingSc (scm nmi)) = Some r"
    "success \<longleftrightarrow> confirmServiceConnection_responseCode m = JAUS_SC_SUCCESSFUL"
  shows "\<exists>nmi'. scManagerProcessConfirmScMessage os now nmi m = Some nmi' \<and> scOk (scm nmi') \<and>
    (\<forall>p sc. r = Some (p, sc) \<longrightarrow> success \<longrightarrow>
       scStore (scm nmi') p = Some (sc\<lparr>isActive := True, scSequenceNumber := 65535, lastSentTime := now,
         confirmedUpdateRateHz := confirmServiceConnection_confirmedPeriodicUpdateRateHertz m,
         instanceId := uint (confirmServiceConnection_instanceId m)\<rparr>) \<and>
       incomingSc (scm nmi') = incomingSc (scm nmi) \<and> sent nmi' = sent nmi) \<and>
    (\<forall>p sc. r = Some (p, sc) \<longrightarrow> \<not> success \<longrightarrow>
       scStore (scm nmi') p = Some (sc\<lparr>isActive := False\<rparr>) \<and> p \<notin> set (incomingSc (scm nmi')) \<and>
       sent nmi' = sent nmi) \<and>
    (r = None \<longrightarrow> scm nmi' = scm nmi \<and>
       sent nmi' = sent nmi @ (if success
         then [messageBytes (terminateJm (cmptAddress (cmpt nmi)) (source m)
                 (confirmServiceConnection_serviceConnectionCommandCode m) (confirmServiceConnection_instanceId m))]
         else []))"
proof -
  obtain nmi' where n: "scManagerProcessConfirmScMessage os now nmi m = Some nmi'" "scOk (scm nmi')"
    using confirm_ok [OF assms(1)] by blast
  have d: "distinct (incomingSc (scm nmi))" using assms(1) by (simp add: scOk_def inOk_def)
  show ?thesis
  proof (cases r)
    case None
    then show ?thesis
      using n assms(2,3,4) by (auto simp: scManagerProcessConfirmScMessage_def sent_logSent)
  next
    case (Some psc)
    then show ?thesis
      using n assms(3,4) d
      by (cases psc) (auto simp: scManagerProcessConfirmScMessage_def unlinkSc_def storeSc_def split: if_splits)
  qed
qed

theorem confirm_outcomes_witness:
  "\<exists>nmi nmi'. scManagerProcessConfirmScMessage (\<lambda>_. 0) 5 nmi (confirmServiceConnectionMessageCreate
       \<lparr>confirmServiceConnection_responseCode := JAUS_SC_SUCCESSFUL\<rparr>) = Some nmi' \<and>
     sent nmi = [] \<and> length (sent nmi') = 1"
proof -
  obtain nmi where n: "nodeManagerOpen (\<lambda>_. [2, 1, 33, 1, 1]) 5000 0 (Some undefined) = Some (Some nmi)"
    using nodeManagerOpen_example by blast
  note o = nodeManagerOpen_reach [OF n]
  let ?m = "confirmServiceConnectionMessageCreate\<lparr>confirmServiceConnection_responseCode := JAUS_SC_SUCCESSFUL\<rparr>"
  have "scOk (scm nmi)" using scReach_ok [OF o(1) [of "\<lambda>_. 0"]] .
  from confirm_outcomes [OF this o(2), of ?m None True "\<lambda>_. 0" 5] o(3,6) obtain nmi' where
    "scManagerProcessConfirmScMessage (\<lambda>_. 0) 5 nmi ?m = Some nmi'" "length (sent nmi') = 1" by auto
  then show ?thesis using o(3) by (intro exI [of _ nmi] exI [of _ nmi']) simp
qed

text \<open>
  C37. Data for an active inbound connection is queued in order, and a queue with a limit never
  grows beyond it: when it is full, its oldest message makes room for the new one.
\<close>

theorem inbound_queue_bounded:
  assumes "scOk (scm nmi)"
    "findIncoming (scStore (scm nmi)) (scFor (commandCode m) (source m)) (incomingSc (scm nmi)) = Some (Some (p, sc))"
    "isActive sc" "scQueue sc = Some q" "length (queueList q) < 2 ^ 31 - 1"
    "queueSize sc \<noteq> 0 \<longrightarrow> length (queueList q) \<le> unat (queueSize sc)"
  shows "\<exists>nmi' q'. scManagerReceiveMessage now nmi m = Some nmi' \<and> scOk (scm nmi') \<and>
    scStore (scm nmi') p = Some (sc\<lparr>lastSentTime := now, scQueue := Some q'\<rparr>) \<and>
    queueList q' = (if queueSize sc \<noteq> 0 \<and> length (queueList q) = unat (queueSize sc)
                    then tl (queueList q) else queueList q) @ [m] \<and>
    (queueSize sc \<noteq> 0 \<longrightarrow> length (queueList q') \<le> unat (queueSize sc))"
proof -
  have inok: "inOk (scm nmi)" using assms(1) by (simp add: scOk_def)
  from receiveMessage_spec [OF inok assms(2-5)] obtain q' where q':
    "scManagerReceiveMessage now nmi m = Some (storeSc nmi p (sc\<lparr>lastSentTime := now, scQueue := Some q'\<rparr>))"
    "queueOk q'" "queueList q' = boundedPush (queueSize sc) (queueList q) m" by blast
  have len: "length (boundedPush (queueSize sc) (queueList q) m) \<le> unat (queueSize sc)" if "queueSize sc \<noteq> 0"
    using that assms(6) unat_gt_0 [of "queueSize sc"] by (auto simp: boundedPush_def)
  have "scOk (scm (storeSc nmi p (sc\<lparr>lastSentTime := now, scQueue := Some q'\<rparr>)))"
    using scOk_store [OF assms(1)] q'(2) by (simp del: scm_storeSc)
  then show ?thesis
    using q'(1,3) len
    by (intro exI [of _ "storeSc nmi p (sc\<lparr>lastSentTime := now, scQueue := Some q'\<rparr>)"] exI [of _ q'])
      (auto simp: boundedPush_def simp del: length_append)
qed

text \<open>An inbound connection at address 5 with the given queue limit, for the examples.\<close>

lemma inbound_example:
  "\<exists>(nmi :: NodeManagerInterface) sc q. scOk (scm nmi) \<and> isOpen nmi \<and> isActive sc \<and> scQueue sc = Some q \<and> queueList q = [] \<and>
     queueSize sc = n \<and> scStore (scm nmi) 5 = Some sc \<and> lastSentTime sc = 0 \<and> timeoutSec sc = 2 \<and>
     findIncoming (scStore (scm nmi)) (scFor 7 jausAddressCreate) (incomingSc (scm nmi)) = Some (Some (5, sc))"
proof -
  let ?sc = "serviceConnectionCreate\<lparr>scCommandCode := 7, isActive := True, queueSize := n, timeoutSec := 2\<rparr>"
  let ?m = "scManagerCreate\<lparr>incomingSc := [5], incomingScCount := 1, scStore := [5 \<mapsto> ?sc]\<rparr>"
  obtain nmi0 :: NodeManagerInterface where n: "scm nmi0 = ?m"
    by (metis NodeManagerInterface.select_convs(7))
  have "scOk ?m"
    using queueCreate_ok
    by (simp add: scOk_def outOk_def inOk_def storeOk_def scManagerCreate_def serviceConnectionCreate_def)
  then show ?thesis
    by (intro exI [of _ "nmi0\<lparr>isOpen := True\<rparr>"] exI [of _ ?sc] exI [of _ "queueCreate :: JausMessage Queue"])
      (simp add: n serviceConnectionCreate_def scFor_def queueCreate_ok)
qed

theorem inbound_queue_bounded_witness:
  "\<exists>nmi nmi' q sc. scManagerReceiveMessage 9 nmi (jausMessageCreate\<lparr>commandCode := 7\<rparr>) = Some nmi' \<and>
     scStore (scm nmi') 5 = Some sc \<and> scQueue sc = Some q \<and>
     queueList q = [jausMessageCreate\<lparr>commandCode := 7\<rparr>]"
proof -
  obtain nmi :: NodeManagerInterface and sc q where e: "scOk (scm nmi)" "isActive sc" "scQueue sc = Some q" "queueList q = []" "queueSize sc = 1"
    "findIncoming (scStore (scm nmi)) (scFor 7 jausAddressCreate) (incomingSc (scm nmi)) = Some (Some (5, sc))"
    using inbound_example [of 1] by blast
  let ?m = "jausMessageCreate\<lparr>commandCode := 7\<rparr>"
  have f: "findIncoming (scStore (scm nmi)) (scFor (commandCode ?m) (source ?m)) (incomingSc (scm nmi)) = Some (Some (5, sc))"
    using e(6) by (simp add: jausMessageCreate_def)
  from inbound_queue_bounded [OF e(1) f e(2,3), of 9] e(4,5) obtain nmi' q' where
    "scManagerReceiveMessage 9 nmi ?m = Some nmi'"
    "scStore (scm nmi') 5 = Some (sc\<lparr>lastSentTime := 9, scQueue := Some q'\<rparr>)" "queueList q' = [?m]" by auto
  then show ?thesis
    by (intro exI [of _ nmi] exI [of _ nmi'] exI [of _ q'] exI [of _ "sc\<lparr>lastSentTime := 9, scQueue := Some q'\<rparr>"]) simp
qed

text \<open>
  Sequence supervision of an inbound connection: an update is in order exactly when its number
  is the previous one plus one modulo 65536, and a repeated number is told from a gap. The
  connection remembers the number in every case.
\<close>

theorem sequence_supervision:
  "fst (scManagerUpdateServiceConnection now sc number) =
     (if number = scSequenceNumber sc + 1 then 1 else if number = scSequenceNumber sc then -1 else -2) \<and>
   snd (scManagerUpdateServiceConnection now sc number) = sc\<lparr>lastSentTime := now, scSequenceNumber := number\<rparr>"
proof -
  have wrap: "scSequenceNumber sc + 1 = number \<longleftrightarrow>
      (if number = 0 then scSequenceNumber sc = 65535 else uint number - uint (scSequenceNumber sc) = 1)"
  proof (cases "scSequenceNumber sc = 65535")
    case True
    then show ?thesis using uint_lt2p [of number] by auto
  next
    case False
    then have "uint (scSequenceNumber sc) \<noteq> 65535" by (auto simp: word_uint_eq_iff)
    then have "uint (scSequenceNumber sc + 1) = uint (scSequenceNumber sc) + 1"
      using uint_lt2p [of "scSequenceNumber sc"] by (simp add: uint_word_ariths)
    moreover have "uint (scSequenceNumber sc) + 1 \<noteq> 0" using uint_ge_0 [of "scSequenceNumber sc"] by linarith
    ultimately show ?thesis using False by (auto simp: word_uint_eq_iff)
  qed
  have eq: "(number = scSequenceNumber sc + 1) = (scSequenceNumber sc + 1 = number)" by auto
  have bound: "uint number - 65535 \<noteq> 1" using uint_lt2p [of number] by simp
  show ?thesis
  proof (cases "number = scSequenceNumber sc")
    case True
    then show ?thesis by (simp add: scManagerUpdateServiceConnection_def Let_def)
  next
    case False
    then show ?thesis
      unfolding eq wrap using bound
      by (cases "number = 0"; cases "scSequenceNumber sc = 65535")
        (simp_all add: scManagerUpdateServiceConnection_def Let_def)
  qed
qed

text \<open>
  A connection that was silent for longer than its timeout is given up when the application
  polls it: nothing is returned, it is deactivated, its queue is emptied and it leaves the list; a
  connection that is alive hands out its oldest message.
\<close>

theorem poll_timeout_or_oldest:
  assumes "scOk (scm nmi)" "scStore (scm nmi) d = Some req"
    "findIncoming (scStore (scm nmi)) (scFor (scCommandCode req) (scAddress req)) (incomingSc (scm nmi)) =
       Some (Some (p, sc))" "scQueue sc = Some q"
  shows "\<exists>r nmi' sc' q'. scManagerReceiveServiceConnection now nmi d = Some (r, nmi') \<and> scOk (scm nmi') \<and>
     scStore (scm nmi') p = Some sc' \<and> scQueue sc' = Some q' \<and>
     (now > lastSentTime sc + timeoutSec sc \<longrightarrow>
        r = None \<and> \<not> isActive sc' \<and> queueList q' = [] \<and> p \<notin> set (incomingSc (scm nmi'))) \<and>
     (now \<le> lastSentTime sc + timeoutSec sc \<longrightarrow>
        r = (if queueList q = [] then None else Some (hd (queueList q))) \<and> queueList q' = tl (queueList q) \<and>
        incomingSc (scm nmi') = incomingSc (scm nmi))"
proof -
  have inok: "inOk (scm nmi)" and d: "distinct (incomingSc (scm nmi))"
    using assms(1) by (simp_all add: scOk_def inOk_def)
  note f = findIncoming_Some [OF inok assms(3)]
  have q: "queueOk q" using f(4) assms(4) by auto
  obtain q1 where q1: "emptyScQueue (sc\<lparr>isActive := False\<rparr>) = Some (sc\<lparr>isActive := False, scQueue := Some q1\<rparr>)"
    "queueOk q1" "queueList q1 = []" using emptyScQueue_ok [of "sc\<lparr>isActive := False\<rparr>" q] assms(4) q by auto
  obtain q2 where q2: "queuePop q = Some (if queueList q = [] then None else Some (hd (queueList q)), q2)"
    "queueOk q2" "queueList q2 = tl (queueList q)" using queuePop_ok [OF q] by blast
  have ok1: "scOk (scm (unlinkSc (storeSc nmi p (sc\<lparr>isActive := False, scQueue := Some q1\<rparr>)) p))"
    using scOk_store [OF assms(1)] q1 f(1) by (intro scOk_unlink) simp_all
  have ok2: "scOk (scm (storeSc nmi p (sc\<lparr>scQueue := Some q2\<rparr>)))"
    using scOk_store [OF assms(1)] q2(2) by (simp del: scm_storeSc)
  show ?thesis
  proof (cases "now > lastSentTime sc + timeoutSec sc")
    case True
    then show ?thesis
      using ok1 q1 assms d by (auto simp: scManagerReceiveServiceConnection_def unlinkSc_def storeSc_def)
  next
    case False
    show ?thesis
    proof (cases "queueList q = []")
      case True
      then show ?thesis
        using False assms f(2) q by (auto simp: scManagerReceiveServiceConnection_def qsize_zero)
    next
      case ne: False
      then show ?thesis
        using False assms ok2 q q2
        by (auto simp: scManagerReceiveServiceConnection_def qsize_zero storeSc_def)
    qed
  qed
qed

theorem poll_timeout_or_oldest_witness:
  "\<exists>nmi nmi' sc. scManagerReceiveServiceConnection 3 nmi 5 = Some (None, nmi') \<and>
     scStore (scm nmi') 5 = Some sc \<and> \<not> isActive sc"
proof -
  obtain nmi :: NodeManagerInterface and sc q where e: "scOk (scm nmi)" "scQueue sc = Some q"
    "scStore (scm nmi) 5 = Some sc" "lastSentTime sc = 0" "timeoutSec sc = 2"
    "findIncoming (scStore (scm nmi)) (scFor 7 jausAddressCreate) (incomingSc (scm nmi)) = Some (Some (5, sc))"
    using inbound_example by blast
  have "inOk (scm nmi)" using e(1) by (simp add: scOk_def)
  from findIncoming_Some(3) [OF this e(6)] have "scCommandCode sc = 7" "scAddress sc = jausAddressCreate"
    by (simp_all add: scFor_def)
  with e(6) have f: "findIncoming (scStore (scm nmi)) (scFor (scCommandCode sc) (scAddress sc)) (incomingSc (scm nmi)) =
      Some (Some (5, sc))" by simp
  from poll_timeout_or_oldest [OF e(1,3) f e(2), of 3] e(4,5) obtain nmi' sc' where
    "scManagerReceiveServiceConnection 3 nmi 5 = Some (None, nmi')" "scStore (scm nmi') 5 = Some sc'" "\<not> isActive sc'"
    by auto
  then show ?thesis by blast
qed

end
