(* ===== verification/LmHandler.thy ===== *)
theory LmHandler
  imports ScLifecycle "HOL-Library.Multiset"
begin

text \<open>
  Reassembly of large messages (\<open>lmHandlerReceiveLargeMessage\<close> and its helpers,
  \<open>openjaus/src/libopenjaus/nodeManagerInterface/lmHandler.c\<close>): fragments are collected in one list
  per command code and source; the last fragment triggers the reassembly in the order of
  the sequence numbers.

  A message list is held by value in its slot of the array, so that the pointer \<open>msgList\<close> is an
  index. The contents of fresh memory are the parameter \<open>fresh\<close>. Allocation succeeds.
\<close>

definition lmHandlerMessageListEqual :: "LargeMessageList \<Rightarrow> LargeMessageList \<Rightarrow> bool" where
  "lmHandlerMessageListEqual listOne listTwo \<longleftrightarrow>
     lmCommandCode listOne = lmCommandCode listTwo \<and> jausAddressEqual (lmSource listOne) (lmSource listTwo)"

definition lmHandlerLargeMessageCheck :: "JausMessage \<Rightarrow> JausMessage \<Rightarrow> bool" where
  "lmHandlerLargeMessageCheck messageOne messageTwo \<longleftrightarrow>
     commandCode messageOne = commandCode messageTwo \<and>
     jausAddressEqual (source messageOne) (source messageTwo) \<and>
     sequenceNumber messageOne = sequenceNumber messageTwo"

definition lmKey :: "JausMessage \<Rightarrow> LargeMessageList \<Rightarrow> bool" where
  "lmKey message msgList \<longleftrightarrow>
     lmCommandCode msgList = commandCode message \<and> jausAddressEqual (lmSource msgList) (source message)"

text \<open>The loop over the lists: the index of the first match.\<close>

fun getListLoop :: "LargeMessageList option list \<Rightarrow> JausMessage \<Rightarrow> nat \<Rightarrow> nat \<Rightarrow> (nat \<times> LargeMessageList) option exec" where
  "getListLoop d message i 0 = Some None"
| "getListLoop d message i (Suc k) =
     do { msgList \<leftarrow> slot d i;
          if lmKey message msgList then Some (Some (i, msgList))
          else getListLoop d message (i + 1) k }"

definition lmHandlerGetMessageList ::
    "LargeMessageHandler \<Rightarrow> JausMessage \<Rightarrow> (nat \<times> LargeMessageList) option exec" where
  "lmHandlerGetMessageList h message =
     getListLoop (elementData (messageLists h)) message 0 (elementCount (messageLists h))"

text \<open>Storing the list back through the pointer.\<close>

definition storeList :: "LargeMessageHandler \<Rightarrow> nat \<Rightarrow> LargeMessageList \<Rightarrow> LargeMessageHandler" where
  "storeList h i msgList =
     h\<lparr>messageLists := (messageLists h)\<lparr>elementData := (elementData (messageLists h))[i := Some msgList]\<rparr>\<rparr>"

text \<open>\<open>jausArrayRemove\<close> of a list and \<open>lmListDestroy\<close>.\<close>

definition dropList :: "LargeMessageHandler \<Rightarrow> LargeMessageList \<Rightarrow> LargeMessageHandler exec" where
  "dropList h msgList =
     do { (removed, a) \<leftarrow> jausArrayRemove (messageLists h) msgList lmHandlerMessageListEqual;
          lmListDestroy msgList;
          Some (h\<lparr>messageLists := a\<rparr>) }"

text \<open>
  The inner loop of the reassembly: the slot is read before the index is compared with the
  number of elements. \<^term>\<open>Some None\<close> means that no fragment has the number.
\<close>

function findSeq :: "JausMessage option list \<Rightarrow> nat \<Rightarrow> nat \<Rightarrow> nat \<Rightarrow> JausMessage option exec" where
  "findSeq d elements number index =
     (if index \<ge> length d then None
      else if index + 1 > elements then Some None
      else do { tempMessage \<leftarrow> slot d index;
                if unat (sequenceNumber tempMessage) \<noteq> number then findSeq d elements number (index + 1)
                else Some (Some tempMessage) })"
  by pat_completeness auto

termination findSeq
  by (relation "measure (\<lambda>(d, n, s, i). length d - i)") auto

declare findSeq.simps [simp del]

text \<open>The outer loop over the numbers \<open>number\<close> to \<open>lastNumber\<close>; \<^term>\<open>Some None\<close> is the early return.\<close>

function copyLoop :: "JausMessage option list \<Rightarrow> nat \<Rightarrow> nat \<Rightarrow> nat \<Rightarrow> u32 \<Rightarrow> bytes \<Rightarrow> bytes option exec" where
  "copyLoop d elements number lastNumber bufferIndex buf =
     (if number \<le> lastNumber
      then do { r \<leftarrow> findSeq d elements number 0;
                case r of
                  None \<Rightarrow> Some None
                | Some tempMessage \<Rightarrow>
                    do { bs \<leftarrow> memRead (dataBytes tempMessage) 0 (unat (dataSize tempMessage));
                         buf' \<leftarrow> memWrite buf (unat bufferIndex) bs;
                         copyLoop d elements (number + 1) lastNumber (bufferIndex + dataSize tempMessage) buf' } }
      else Some (Some buf))"
  by pat_completeness auto

termination copyLoop
  by (relation "measure (\<lambda>(d, n, s, l, i, b). Suc l - s)") auto

declare copyLoop.simps [simp del]

text \<open>The sum of the sizes, an \<open>unsigned int\<close>, and the last element visited.\<close>

fun sizeLoop :: "JausMessage option list \<Rightarrow> nat \<Rightarrow> nat \<Rightarrow> u32 \<Rightarrow> JausMessage option \<Rightarrow> (u32 \<times> JausMessage option) exec" where
  "sizeLoop d i 0 newDataSize tempMessage = Some (newDataSize, tempMessage)"
| "sizeLoop d i (Suc k) newDataSize tempMessage =
     do { m \<leftarrow> slot d i; sizeLoop d (i + 1) k (newDataSize + dataSize m) (Some m) }"

definition outMessage :: "JausMessage \<Rightarrow> JausMessage" where
  "outMessage tempMessage =
     jausMessageCreate\<lparr>properties := properties tempMessage, commandCode := commandCode tempMessage,
        destination := destination tempMessage, source := source tempMessage,
        dataSize := dataSize tempMessage, dataFlag := dataFlag tempMessage,
        sequenceNumber := sequenceNumber tempMessage\<rparr>"

text \<open>A complete message goes to its service connection or to the receive queue.\<close>

definition deliver :: "real \<Rightarrow> NodeManagerInterface \<Rightarrow> JausMessage \<Rightarrow> NodeManagerInterface exec" where
  "deliver now nmi m =
     (if scFlag (properties m) \<noteq> 0 then scManagerReceiveMessage now nmi m
      else do { q \<leftarrow> queuePush (receiveQueue nmi) m; Some (nmi\<lparr>receiveQueue := q\<rparr>) })"

definition receiveFirst :: "NodeManagerInterface \<Rightarrow> JausMessage \<Rightarrow> NodeManagerInterface exec" where
  "receiveFirst nmi message =
     (if sequenceNumber message \<noteq> 0 then Some nmi
      else do { r \<leftarrow> lmHandlerGetMessageList (lmh nmi) message;
                h \<leftarrow> (case r of None \<Rightarrow> Some (lmh nmi) | Some (i, msgList) \<Rightarrow> dropList (lmh nmi) msgList);
                msgList \<leftarrow> lmListCreate;
                ms \<leftarrow> jausArrayAdd True (lmMessages msgList) message;
                a \<leftarrow> jausArrayAdd True (messageLists h)
                       (msgList\<lparr>lmCommandCode := commandCode message, lmSource := source message, lmMessages := ms\<rparr>);
                Some (nmi\<lparr>lmh := h\<lparr>messageLists := a\<rparr>\<rparr>) })"

definition receiveNormal :: "NodeManagerInterface \<Rightarrow> JausMessage \<Rightarrow> NodeManagerInterface exec" where
  "receiveNormal nmi message =
     do { r \<leftarrow> lmHandlerGetMessageList (lmh nmi) message;
          case r of
            None \<Rightarrow> Some nmi
          | Some (i, msgList) \<Rightarrow>
              do { k \<leftarrow> jausArrayContains (lmMessages msgList) message lmHandlerLargeMessageCheck;
                   if k \<noteq> -1 then Some nmi
                   else do { ms \<leftarrow> jausArrayAdd True (lmMessages msgList) message;
                             Some (nmi\<lparr>lmh := storeList (lmh nmi) i (msgList\<lparr>lmMessages := ms\<rparr>)\<rparr>) } } }"

definition receiveRetransmitted :: "NodeManagerInterface \<Rightarrow> JausMessage \<Rightarrow> NodeManagerInterface exec" where
  "receiveRetransmitted nmi message =
     do { r \<leftarrow> lmHandlerGetMessageList (lmh nmi) message;
          case r of
            None \<Rightarrow> Some nmi
          | Some (i, msgList) \<Rightarrow>
              do { k \<leftarrow> jausArrayContains (lmMessages msgList) message lmHandlerLargeMessageCheck;
                   ms \<leftarrow> (if k \<noteq> -1
                          then map_option snd (jausArrayRemove (lmMessages msgList) message lmHandlerLargeMessageCheck)
                          else Some (lmMessages msgList));
                   ms' \<leftarrow> jausArrayAdd True ms message;
                   Some (nmi\<lparr>lmh := storeList (lmh nmi) i (msgList\<lparr>lmMessages := ms'\<rparr>)\<rparr>) } }"

definition receiveLast ::
    "(nat \<Rightarrow> u8) \<Rightarrow> real \<Rightarrow> NodeManagerInterface \<Rightarrow> JausMessage \<Rightarrow> NodeManagerInterface exec" where
  "receiveLast fresh now nmi message =
     do { r \<leftarrow> lmHandlerGetMessageList (lmh nmi) message;
          case r of
            None \<Rightarrow> Some nmi
          | Some (i, msgList) \<Rightarrow>
              if elementCount (lmMessages msgList) = 0 then Some nmi
              else do {
                ms \<leftarrow> jausArrayAdd True (lmMessages msgList) message;
                let msgList' = msgList\<lparr>lmMessages := ms\<rparr>;
                let h = storeList (lmh nmi) i msgList';
                (newDataSize, t) \<leftarrow> sizeLoop (elementData ms) 0 (elementCount ms) 0 None;
                tempMessage \<leftarrow> t;
                c \<leftarrow> copyLoop (elementData ms) (elementCount ms) 0 (unat (sequenceNumber message)) 0
                       (map fresh [0..<unat newDataSize]);
                case c of
                  None \<Rightarrow> do { h' \<leftarrow> dropList h msgList'; Some (nmi\<lparr>lmh := h'\<rparr>) }
                | Some buf \<Rightarrow>
                    do { nmi1 \<leftarrow> deliver now (nmi\<lparr>lmh := h\<rparr>)
                           ((outMessage tempMessage)\<lparr>dataSize := newDataSize,
                              dataFlag := JAUS_SINGLE_DATA_PACKET, data := Some buf\<rparr>);
                         h' \<leftarrow> dropList (lmh nmi1) msgList';
                         Some (nmi1\<lparr>lmh := h'\<rparr>) } } }"

definition lmHandlerReceiveLargeMessage ::
    "(nat \<Rightarrow> u8) \<Rightarrow> real \<Rightarrow> NodeManagerInterface \<Rightarrow> JausMessage \<Rightarrow> NodeManagerInterface exec" where
  "lmHandlerReceiveLargeMessage fresh now nmi message =
     (if dataFlag message = JAUS_FIRST_DATA_PACKET then receiveFirst nmi message
      else if dataFlag message = JAUS_NORMAL_DATA_PACKET then receiveNormal nmi message
      else if dataFlag message = JAUS_RETRANSMITTED_DATA_PACKET then receiveRetransmitted nmi message
      else if dataFlag message = JAUS_LAST_DATA_PACKET then receiveLast fresh now nmi message
      else Some nmi)"

section \<open>The collected fragments\<close>

text \<open>
  The handler as a finite map from command code and source to the fragments received so far.
\<close>

definition lmLists :: "LargeMessageHandler \<Rightarrow> LargeMessageList list" where
  "lmLists h = arrayList (messageLists h)"

definition lmListKey :: "LargeMessageList \<Rightarrow> u16 \<times> JausAddress" where
  "lmListKey l = (lmCommandCode l, lmSource l)"

definition messageKey :: "JausMessage \<Rightarrow> u16 \<times> JausAddress" where
  "messageKey m = (commandCode m, source m)"

definition lmListOk :: "LargeMessageList \<Rightarrow> bool" where
  "lmListOk l \<longleftrightarrow> arrayOk (lmMessages l) \<and> arrayList (lmMessages l) \<noteq> [] \<and>
     (\<forall>m \<in> set (arrayList (lmMessages l)). messageKey m = lmListKey l)"

definition lmOk :: "LargeMessageHandler \<Rightarrow> bool" where
  "lmOk h \<longleftrightarrow> arrayOk (messageLists h) \<and> distinct (map lmListKey (lmLists h)) \<and>
     (\<forall>l \<in> set (lmLists h). lmListOk l)"

definition collected :: "LargeMessageHandler \<Rightarrow> u16 \<times> JausAddress \<Rightarrow> JausMessage list option" where
  "collected h k = map_of (map (\<lambda>l. (lmListKey l, arrayList (lmMessages l))) (lmLists h)) k"

lemma lmKey_iff: "lmKey m l \<longleftrightarrow> lmListKey l = messageKey m"
  by (simp add: lmKey_def lmListKey_def messageKey_def)

lemma listEqual_iff: "lmHandlerMessageListEqual a b \<longleftrightarrow> lmListKey a = lmListKey b"
  by (simp add: lmHandlerMessageListEqual_def lmListKey_def)

lemma collected_Some:
  assumes "lmOk h"
  shows "collected h k = Some ms \<longleftrightarrow> (\<exists>l \<in> set (lmLists h). lmListKey l = k \<and> arrayList (lmMessages l) = ms)"
proof -
  have "distinct (map fst (map (\<lambda>l. (lmListKey l, arrayList (lmMessages l))) (lmLists h)))"
    using assms by (simp add: lmOk_def comp_def)
  from map_of_eq_Some_iff [OF this] show ?thesis by (auto simp: collected_def)
qed

lemma option_eqI: "(\<And>v. a = Some v \<longleftrightarrow> b = Some v) \<Longrightarrow> a = b"
  by (cases a; cases b) auto

lemma collected_eqI:
  assumes "lmOk h" "\<And>k ms. (\<exists>l \<in> set (lmLists h). lmListKey l = k \<and> arrayList (lmMessages l) = ms) \<longleftrightarrow> C k = Some ms"
  shows "collected h = C"
  by (rule ext, rule option_eqI) (simp add: collected_Some [OF assms(1)] assms(2))

lemma getListLoop_eq:
  assumes "i + k = length xs"
  shows "getListLoop (map Some xs @ junk) m i k =
    Some (map_option (\<lambda>j. (i + j, xs ! (i + j))) (firstIdx (lmKey m) (drop i xs)))"
  using assms
proof (induction k arbitrary: i)
  case 0
  then show ?case by simp
next
  case (Suc k)
  then have i: "i < length xs" by simp
  then have dr: "drop i xs = xs ! i # drop (Suc i) xs" by (simp add: Cons_nth_drop_Suc)
  from Suc.prems have "Suc i + k = length xs" by simp
  from Suc.IH [OF this] show ?case
    by (simp add: slot_lt [OF i] dr option.map_comp comp_def)
qed

lemma getMessageList_spec:
  assumes "lmOk h"
  shows "lmHandlerGetMessageList h m =
    Some (map_option (\<lambda>j. (j, lmLists h ! j)) (firstIdx (lmKey m) (lmLists h)))"
proof -
  have "arrayOk (messageLists h)" using assms by (simp add: lmOk_def)
  then obtain junk where "elementData (messageLists h) = map Some (lmLists h) @ junk"
    and "elementCount (messageLists h) = length (lmLists h)"
    unfolding lmLists_def by (rule arrayOk_split)
  then show ?thesis
    using getListLoop_eq [of 0 "length (lmLists h)" "lmLists h" junk m] by (simp add: lmHandlerGetMessageList_def)
qed

text \<open>A lookup either finds the list of the key or the key has none.\<close>

lemma getMessageList_cases:
  assumes "lmOk h"
  obtains "lmHandlerGetMessageList h m = Some None" "collected h (messageKey m) = None"
  | i l where "lmHandlerGetMessageList h m = Some (Some (i, l))" "i < length (lmLists h)" "lmLists h ! i = l"
      "lmListKey l = messageKey m" "lmListOk l" "collected h (messageKey m) = Some (arrayList (lmMessages l))"
proof (cases "firstIdx (lmKey m) (lmLists h)")
  case None
  then have "collected h (messageKey m) = None"
    using collected_Some [OF assms, of "messageKey m"]
    by (cases "collected h (messageKey m)") (auto simp: firstIdx_None lmKey_iff)
  then show ?thesis using that(1) None getMessageList_spec [OF assms, of m] by simp
next
  case (Some i)
  then have i: "i < length (lmLists h)" "lmListKey (lmLists h ! i) = messageKey m"
    by (auto dest: firstIdx_Some simp: lmKey_iff)
  then have mem: "lmLists h ! i \<in> set (lmLists h)" by simp
  then have "collected h (messageKey m) = Some (arrayList (lmMessages (lmLists h ! i)))"
    using collected_Some [OF assms, of "messageKey m"] i by auto
  moreover have "lmListOk (lmLists h ! i)" using mem assms by (simp add: lmOk_def)
  ultimately show ?thesis using that(2) Some i getMessageList_spec [OF assms, of m] by simp
qed

lemma storeList_ok:
  assumes "lmOk h" "i < length (lmLists h)" "lmListKey l' = lmListKey (lmLists h ! i)" "lmListOk l'"
  shows "lmOk (storeList h i l')" "lmLists (storeList h i l') = (lmLists h)[i := l']"
    "collected (storeList h i l') = (collected h)(lmListKey l' \<mapsto> arrayList (lmMessages l'))"
proof -
  have a: "arrayOk (messageLists h)" using assms(1) by (simp add: lmOk_def)
  then obtain junk where d: "elementData (messageLists h) = map Some (lmLists h) @ junk"
    "elementCount (messageLists h) = length (lmLists h)"
    unfolding lmLists_def by (rule arrayOk_split)
  let ?a = "(messageLists h)\<lparr>elementData := (elementData (messageLists h))[i := Some l']\<rparr>"
  have "arrayOk ?a" "arrayList ?a = (lmLists h)[i := l']"
  proof -
    have cap: "capacity (messageLists h) = length (lmLists h) + length junk" "0 < capacityIncrement (messageLists h)"
      using a d by (simp_all add: arrayOk_def)
    have e: "elementData ?a = map Some ((lmLists h)[i := l']) @ junk"
      using d assms(2) by (simp add: list_update_append map_update)
    show "arrayOk ?a" "arrayList ?a = (lmLists h)[i := l']"
      using arrayListI [OF e] cap d(2) by simp_all
  qed
  then have ls: "lmLists (storeList h i l') = (lmLists h)[i := l']" and ar: "arrayOk (messageLists (storeList h i l'))"
    by (simp_all add: lmLists_def storeList_def)
  then show "lmLists (storeList h i l') = (lmLists h)[i := l']" by simp
  have keys: "map lmListKey ((lmLists h)[i := l']) = map lmListKey (lmLists h)"
    using assms(2,3) by (simp add: map_update list_update_same_conv)
  show ok: "lmOk (storeList h i l')"
    using assms(1,4) ar ls keys set_update_subset_insert [of "lmLists h" i l'] by (auto simp: lmOk_def)
  have dk: "distinct (map lmListKey (lmLists h))" using assms(1) by (simp add: lmOk_def)
  have other: "j = i" if "j < length (lmLists h)" "lmListKey (lmLists h ! j) = lmListKey l'" for j
    using that assms(2,3) nth_eq_iff_index_eq [OF dk, of i j] by simp
  show "collected (storeList h i l') = (collected h)(lmListKey l' \<mapsto> arrayList (lmMessages l'))"
  proof (rule collected_eqI [OF ok])
    fix k ms
    have "(\<exists>l \<in> set ((lmLists h)[i := l']). lmListKey l = k \<and> arrayList (lmMessages l) = ms) \<longleftrightarrow>
        (if k = lmListKey l' then ms = arrayList (lmMessages l')
         else \<exists>l \<in> set (lmLists h). lmListKey l = k \<and> arrayList (lmMessages l) = ms)"
      using assms(2,3) other by (auto simp: in_set_conv_nth Bex_def nth_list_update split: if_splits) (metis nth_list_update)+
    then show "(\<exists>l \<in> set (lmLists (storeList h i l')). lmListKey l = k \<and> arrayList (lmMessages l) = ms) \<longleftrightarrow>
        ((collected h)(lmListKey l' \<mapsto> arrayList (lmMessages l'))) k = Some ms"
      using collected_Some [OF assms(1), of k ms] ls by auto
  qed
qed

lemma dropList_ok:
  assumes "lmOk h" "l \<in> set (lmLists h)"
  shows "\<exists>h'. dropList h l = Some h' \<and> lmOk h' \<and> collected h' = (collected h)(lmListKey l := None)"
proof -
  have a: "arrayOk (messageLists h)" and dk: "distinct (map lmListKey (lmLists h))"
    and lok: "\<forall>l \<in> set (lmLists h). lmListOk l"
    using assms(1) by (simp_all add: lmOk_def)
  obtain a' where a': "jausArrayRemove (messageLists h) l lmHandlerMessageListEqual =
      Some (find (\<lambda>e. lmHandlerMessageListEqual e l) (lmLists h), a')" "arrayOk a'"
    "arrayList a' = removeFirst (\<lambda>e. lmListKey e = lmListKey l) (lmLists h)"
    using jausArrayRemove_ok [OF a, of l lmHandlerMessageListEqual] by (auto simp: lmLists_def listEqual_iff)
  have "arrayOk (lmMessages l)" using lok assms(2) by (simp add: lmListOk_def)
  then obtain junk where "elementData (lmMessages l) = map Some (arrayList (lmMessages l)) @ junk"
    "elementCount (lmMessages l) = length (arrayList (lmMessages l))" by (rule arrayOk_split)
  then have "lmListDestroy l = Some ()"
    using destroyLoop_eq [of "length (arrayList (lmMessages l))" "arrayList (lmMessages l)" junk]
    by (simp add: lmListDestroy_def jausArrayDestroy_def)
  then have dr: "dropList h l = Some (h\<lparr>messageLists := a'\<rparr>)" using a'(1) by (simp add: dropList_def)
  have st: "set (removeFirst (\<lambda>e. f e = k) xs) = {x \<in> set xs. f x \<noteq> k}" if "distinct (map f xs)"
    for f :: "LargeMessageList \<Rightarrow> u16 \<times> JausAddress" and k xs
    using that by (induction xs) (auto simp: image_iff)
  have ok: "lmOk (h\<lparr>messageLists := a'\<rparr>)"
    using a' lok dk distinct_removeFirst [OF dk] set_removeFirst [of _ "lmLists h"]
    by (auto simp: lmOk_def lmLists_def)
  moreover have "collected (h\<lparr>messageLists := a'\<rparr>) = (collected h)(lmListKey l := None)"
  proof (rule collected_eqI [OF ok])
    fix k ms
    show "(\<exists>x \<in> set (lmLists (h\<lparr>messageLists := a'\<rparr>)). lmListKey x = k \<and> arrayList (lmMessages x) = ms) \<longleftrightarrow>
      ((collected h)(lmListKey l := None)) k = Some ms"
      using collected_Some [OF assms(1), of k ms] a'(3) st [OF dk] by (auto simp: lmLists_def)
  qed
  ultimately show ?thesis using dr by blast
qed

lemma addList_ok:
  assumes "lmOk h" "collected h (lmListKey l) = None" "lmListOk l"
  shows "\<exists>a. jausArrayAdd True (messageLists h) l = Some a \<and> lmOk (h\<lparr>messageLists := a\<rparr>) \<and>
     collected (h\<lparr>messageLists := a\<rparr>) = (collected h)(lmListKey l \<mapsto> arrayList (lmMessages l))"
proof -
  have "arrayOk (messageLists h)" using assms(1) by (simp add: lmOk_def)
  from jausArrayAdd_ok [OF this, of l] obtain a where
    a: "jausArrayAdd True (messageLists h) l = Some a" "arrayOk a" "arrayList a = lmLists h @ [l]"
    by (auto simp: lmLists_def)
  have new: "lmListKey x \<noteq> lmListKey l" if "x \<in> set (lmLists h)" for x
    using that assms(2) collected_Some [OF assms(1), of "lmListKey l"] by (metis option.distinct(1))
  then have "lmListKey l \<notin> lmListKey ` set (lmLists h)" by (metis imageE)
  then have ok: "lmOk (h\<lparr>messageLists := a\<rparr>)"
    using assms(1,3) a by (auto simp: lmOk_def lmLists_def)
  moreover have "collected (h\<lparr>messageLists := a\<rparr>) = (collected h)(lmListKey l \<mapsto> arrayList (lmMessages l))"
  proof (rule collected_eqI [OF ok])
    fix k ms
    show "(\<exists>x \<in> set (lmLists (h\<lparr>messageLists := a\<rparr>)). lmListKey x = k \<and> arrayList (lmMessages x) = ms) \<longleftrightarrow>
      ((collected h)(lmListKey l \<mapsto> arrayList (lmMessages l))) k = Some ms"
      using collected_Some [OF assms(1), of k ms] a(3) new by (auto simp: lmLists_def)
  qed
  ultimately show ?thesis using a(1) by blast
qed

section \<open>Refinement of the collection\<close>

text \<open>What a fragment other than the last does to the fragments collected for its own key.\<close>

definition sameNumber :: "JausMessage \<Rightarrow> JausMessage \<Rightarrow> bool" where
  "sameNumber m x \<longleftrightarrow> sequenceNumber x = sequenceNumber m"

definition collectStep :: "JausMessage list option \<Rightarrow> JausMessage \<Rightarrow> JausMessage list option" where
  "collectStep s m =
     (if dataFlag m = JAUS_FIRST_DATA_PACKET then (if sequenceNumber m = 0 then Some [m] else s)
      else if dataFlag m = JAUS_NORMAL_DATA_PACKET
      then (case s of None \<Rightarrow> None
            | Some ms \<Rightarrow> if \<exists>x \<in> set ms. sameNumber m x then Some ms else Some (ms @ [m]))
      else if dataFlag m = JAUS_RETRANSMITTED_DATA_PACKET
      then map_option (\<lambda>ms. removeFirst (sameNumber m) ms @ [m]) s
      else s)"

lemma check_iff:
  "lmListOk l \<Longrightarrow> lmListKey l = messageKey m \<Longrightarrow> x \<in> set (arrayList (lmMessages l)) \<Longrightarrow>
   lmHandlerLargeMessageCheck x m \<longleftrightarrow> sameNumber m x"
  by (auto simp: lmListOk_def lmHandlerLargeMessageCheck_def sameNumber_def messageKey_def)

lemma list_contains:
  assumes "lmListOk l" "lmListKey l = messageKey m"
  shows "\<exists>k. jausArrayContains (lmMessages l) m lmHandlerLargeMessageCheck = Some k \<and>
    (k = -1 \<longleftrightarrow> (\<forall>x \<in> set (arrayList (lmMessages l)). \<not> sameNumber m x))"
proof -
  have a: "arrayOk (lmMessages l)" using assms(1) by (simp add: lmListOk_def)
  have "firstIdx (\<lambda>e. lmHandlerLargeMessageCheck e m) (arrayList (lmMessages l)) =
      firstIdx (sameNumber m) (arrayList (lmMessages l))"
    using check_iff [OF assms] by (intro firstIdx_cong) auto
  then show ?thesis
    using jausArrayContains_ok [OF a, of m lmHandlerLargeMessageCheck]
    by (auto simp: firstIdx_None [symmetric] split: option.split)
qed

lemma list_add:
  assumes "lmListOk l" "lmListKey l = messageKey m"
  shows "\<exists>ms. jausArrayAdd True (lmMessages l) m = Some ms \<and> lmListOk (l\<lparr>lmMessages := ms\<rparr>) \<and>
    arrayOk ms \<and> arrayList ms = arrayList (lmMessages l) @ [m]"
proof -
  have "arrayOk (lmMessages l)" using assms(1) by (simp add: lmListOk_def)
  from jausArrayAdd_ok [OF this, of m] obtain ms where
    "jausArrayAdd True (lmMessages l) m = Some ms" "arrayOk ms" "arrayList ms = arrayList (lmMessages l) @ [m]" by blast
  then show ?thesis using assms by (auto simp: lmListOk_def lmListKey_def)
qed

lemma lmListKey_messages [simp]: "lmListKey (l\<lparr>lmMessages := ms\<rparr>) = lmListKey l"
  by (simp add: lmListKey_def)

lemma first_spec:
  assumes "lmOk (lmh nmi)" "sequenceNumber m = 0"
  shows "\<exists>h. receiveFirst nmi m = Some (nmi\<lparr>lmh := h\<rparr>) \<and> lmOk h \<and>
    collected h = (collected (lmh nmi))(messageKey m \<mapsto> [m])"
proof -
  have "\<exists>r h. lmHandlerGetMessageList (lmh nmi) m = Some r \<and>
      (case r of None \<Rightarrow> Some (lmh nmi) | Some (i, l) \<Rightarrow> dropList (lmh nmi) l) = Some h \<and>
      lmOk h \<and> collected h = (collected (lmh nmi))(messageKey m := None)"
    using assms(1)
  proof (cases rule: getMessageList_cases [of "lmh nmi" m])
    case 1
    then show ?thesis using assms(1) by auto
  next
    case (2 i l)
    then have "l \<in> set (lmLists (lmh nmi))" by auto
    from dropList_ok [OF assms(1) this] 2 show ?thesis by auto
  qed
  then obtain r h where r: "lmHandlerGetMessageList (lmh nmi) m = Some r"
    "(case r of None \<Rightarrow> Some (lmh nmi) | Some (i, l) \<Rightarrow> dropList (lmh nmi) l) = Some h"
    "lmOk h" "collected h = (collected (lmh nmi))(messageKey m := None)" by blast
  obtain a0 :: "JausMessage JausArray" where a0: "jausArrayCreate True True = Some a0"
    by (simp add: jausArrayCreate_def)
  note a0ok = jausArrayCreate_ok [OF a0]
  from jausArrayAdd_ok [OF a0ok(1), of m] a0ok(2) obtain ms where
    ms: "jausArrayAdd True a0 m = Some ms" "arrayOk ms" "arrayList ms = [m]" by auto
  let ?l = "\<lparr>lmCommandCode = commandCode m, lmSource = source m, lmMessages = ms\<rparr>"
  have l: "lmListKey ?l = messageKey m" "lmListOk ?l"
    using ms by (simp_all add: lmListOk_def lmListKey_def messageKey_def)
  have "collected h (lmListKey ?l) = None" using r(4) l(1) by simp
  from addList_ok [OF r(3) this l(2)] obtain a where
    "jausArrayAdd True (messageLists h) ?l = Some a" "lmOk (h\<lparr>messageLists := a\<rparr>)"
    "collected (h\<lparr>messageLists := a\<rparr>) = (collected h)(messageKey m \<mapsto> [m])" using l(1) ms(3) by auto
  then show ?thesis
    using r ms(1) a0 assms(2)
    by (intro exI [of _ "h\<lparr>messageLists := a\<rparr>"]) (simp add: receiveFirst_def lmListCreate_def)
qed

lemma normal_spec:
  assumes "lmOk (lmh nmi)" "dataFlag m = JAUS_NORMAL_DATA_PACKET"
  shows "\<exists>h. receiveNormal nmi m = Some (nmi\<lparr>lmh := h\<rparr>) \<and> lmOk h \<and>
    collected h = (collected (lmh nmi))(messageKey m := collectStep (collected (lmh nmi) (messageKey m)) m)"
  using assms(1)
proof (cases rule: getMessageList_cases [of "lmh nmi" m])
  case 1
  then show ?thesis
    using assms by (intro exI [of _ "lmh nmi"]) (auto simp: receiveNormal_def collectStep_def fun_upd_idem)
next
  case (2 i l)
  obtain k where k: "jausArrayContains (lmMessages l) m lmHandlerLargeMessageCheck = Some k"
    "k = -1 \<longleftrightarrow> (\<forall>x \<in> set (arrayList (lmMessages l)). \<not> sameNumber m x)"
    using list_contains [OF 2(5,4)] by blast
  obtain ms where ms: "jausArrayAdd True (lmMessages l) m = Some ms" "lmListOk (l\<lparr>lmMessages := ms\<rparr>)"
    "arrayList ms = arrayList (lmMessages l) @ [m]" using list_add [OF 2(5,4)] by blast
  note st = storeList_ok [OF assms(1) 2(2), of "l\<lparr>lmMessages := ms\<rparr>"]
  show ?thesis
  proof (cases "k = -1")
    case True
    then show ?thesis
      using 2 k ms st assms(2) by (auto simp: receiveNormal_def collectStep_def)
  next
    case False
    then show ?thesis
      using 2 k assms by (intro exI [of _ "lmh nmi"]) (auto simp: receiveNormal_def collectStep_def fun_upd_idem)
  qed
qed

lemma retransmitted_spec:
  assumes "lmOk (lmh nmi)" "dataFlag m = JAUS_RETRANSMITTED_DATA_PACKET"
  shows "\<exists>h. receiveRetransmitted nmi m = Some (nmi\<lparr>lmh := h\<rparr>) \<and> lmOk h \<and>
    collected h = (collected (lmh nmi))(messageKey m := collectStep (collected (lmh nmi) (messageKey m)) m)"
  using assms(1)
proof (cases rule: getMessageList_cases [of "lmh nmi" m])
  case 1
  then show ?thesis
    using assms by (intro exI [of _ "lmh nmi"]) (auto simp: receiveRetransmitted_def collectStep_def fun_upd_idem)
next
  case (2 i l)
  have a: "arrayOk (lmMessages l)" and keys: "\<forall>x \<in> set (arrayList (lmMessages l)). messageKey x = lmListKey l"
    using 2(5) by (simp_all add: lmListOk_def)
  obtain k where k: "jausArrayContains (lmMessages l) m lmHandlerLargeMessageCheck = Some k"
    "k = -1 \<longleftrightarrow> (\<forall>x \<in> set (arrayList (lmMessages l)). \<not> sameNumber m x)"
    using list_contains [OF 2(5,4)] by blast
  have eq: "removeFirst (\<lambda>e. lmHandlerLargeMessageCheck e m) (arrayList (lmMessages l)) =
      removeFirst (sameNumber m) (arrayList (lmMessages l))"
    using check_iff [OF 2(5,4)] by (intro removeFirst_cong) auto
  obtain a1 where a1: "(if k \<noteq> -1
      then map_option snd (jausArrayRemove (lmMessages l) m lmHandlerLargeMessageCheck)
      else Some (lmMessages l)) = Some a1" "arrayOk a1"
    "arrayList a1 = removeFirst (sameNumber m) (arrayList (lmMessages l))"
    using jausArrayRemove_ok [OF a, of m lmHandlerLargeMessageCheck] a eq k(2)
    by (cases "k = -1") (auto simp: removeFirst_id)
  from jausArrayAdd_ok [OF a1(2), of m] obtain a2 where
    a2: "jausArrayAdd True a1 m = Some a2" "arrayOk a2" "arrayList a2 = arrayList a1 @ [m]" by blast
  have "lmListOk (l\<lparr>lmMessages := a2\<rparr>)"
    using a2 a1(3) keys 2(4) set_removeFirst [of "sameNumber m" "arrayList (lmMessages l)"]
    by (auto simp: lmListOk_def)
  note st = storeList_ok [OF assms(1) 2(2) _ this]
  show ?thesis
    using 2 k(1) a1(1,3) a2(1,3) st assms(2) by (auto simp: receiveRetransmitted_def collectStep_def)
qed

lemma receive_collects:
  assumes "lmOk (lmh nmi)" "dataFlag m \<noteq> JAUS_LAST_DATA_PACKET"
  shows "\<exists>h. lmHandlerReceiveLargeMessage fresh now nmi m = Some (nmi\<lparr>lmh := h\<rparr>) \<and> lmOk h \<and>
    collected h = (collected (lmh nmi))(messageKey m := collectStep (collected (lmh nmi) (messageKey m)) m)"
proof -
  have same: "\<exists>h. Some nmi = Some (nmi\<lparr>lmh := h\<rparr>) \<and> lmOk h \<and>
      collected h = (collected (lmh nmi))(messageKey m := collected (lmh nmi) (messageKey m))"
    using assms(1) by (intro exI [of _ "lmh nmi"]) simp
  consider "dataFlag m = JAUS_FIRST_DATA_PACKET" "sequenceNumber m = 0" | "dataFlag m = JAUS_FIRST_DATA_PACKET" "sequenceNumber m \<noteq> 0"
    | "dataFlag m = JAUS_NORMAL_DATA_PACKET" | "dataFlag m = JAUS_RETRANSMITTED_DATA_PACKET"
    | "dataFlag m \<notin> {1, 2, 4, 8}" using assms(2) by auto
  then show ?thesis
  proof cases
    case 1
    then show ?thesis
      using first_spec [OF assms(1), of m] by (simp add: lmHandlerReceiveLargeMessage_def collectStep_def)
  next
    case 2
    then show ?thesis using same by (simp add: lmHandlerReceiveLargeMessage_def collectStep_def receiveFirst_def)
  next
    case 3
    then show ?thesis using normal_spec [OF assms(1) 3] by (simp add: lmHandlerReceiveLargeMessage_def)
  next
    case 4
    then show ?thesis using retransmitted_spec [OF assms(1) 4] by (simp add: lmHandlerReceiveLargeMessage_def)
  next
    case 5
    then show ?thesis using same by (simp add: lmHandlerReceiveLargeMessage_def collectStep_def)
  qed
qed

section \<open>Reassembly\<close>

definition withNumber :: "JausMessage list \<Rightarrow> nat \<Rightarrow> JausMessage option" where
  "withNumber xs k = find (\<lambda>x. unat (sequenceNumber x) = k) xs"

lemma findSeq_found:
  assumes "find (\<lambda>x. unat (sequenceNumber x) = k) (drop i xs) = Some x" "i \<le> length xs"
  shows "findSeq (map Some xs @ junk) (length xs) k i = Some (Some x)"
  using assms
proof (induction "length xs - i" arbitrary: i)
  case 0
  then show ?case by simp
next
  case (Suc n)
  then have i: "i < length xs" by simp
  then have dr: "drop i xs = xs ! i # drop (Suc i) xs" by (simp add: Cons_nth_drop_Suc)
  from Suc i have "findSeq (map Some xs @ junk) (length xs) k (Suc i) = Some (Some x)"
    if "unat (sequenceNumber (xs ! i)) \<noteq> k"
    using that by (intro Suc.hyps) (auto simp: dr)
  then show ?case
    using i Suc.prems dr by (subst findSeq.simps) (auto simp: slot_lt)
qed

text \<open>A number nobody has: the loop reads one slot past the elements, which may not be there.\<close>

lemma findSeq_missing:
  assumes "\<forall>x \<in> set (drop i xs). unat (sequenceNumber x) \<noteq> k" "i \<le> length xs"
  shows "findSeq (map Some xs @ junk) (length xs) k i = (if junk = [] then None else Some None)"
  using assms
proof (induction "length xs - i" arbitrary: i)
  case 0
  then show ?case by (subst findSeq.simps) simp
next
  case (Suc n)
  then have i: "i < length xs" by simp
  then have dr: "drop i xs = xs ! i # drop (Suc i) xs" by (simp add: Cons_nth_drop_Suc)
  from Suc i have "findSeq (map Some xs @ junk) (length xs) k (Suc i) = (if junk = [] then None else Some None)"
    by (intro Suc.hyps) (auto simp: dr)
  then show ?case
    using i Suc.prems dr by (subst findSeq.simps) (auto simp: slot_lt)
qed

lemma sizeLoop_eq:
  assumes "i + k = length xs"
  shows "sizeLoop (map Some xs @ junk) i k s t =
    Some (s + of_nat (sum_list (map (\<lambda>x. unat (dataSize x)) (drop i xs))),
      if drop i xs = [] then t else Some (last xs))"
  using assms
proof (induction k arbitrary: i s t)
  case 0
  then show ?case by simp
next
  case (Suc k)
  then have i: "i < length xs" by simp
  then have dr: "drop i xs = xs ! i # drop (Suc i) xs" by (simp add: Cons_nth_drop_Suc)
  have "drop (Suc i) xs = [] \<Longrightarrow> xs ! i = last xs"
  proof -
    assume "drop (Suc i) xs = []"
    then have "length xs - 1 = i" "xs \<noteq> []" using i by auto
    then show "xs ! i = last xs" by (simp add: last_conv_nth)
  qed
  moreover have "Suc i + k = length xs" using Suc.prems by simp
  note Suc.IH [OF this]
  ultimately show ?case by (simp add: slot_lt [OF i] dr add.assoc)
qed

lemma copyLoop_eq:
  assumes "\<forall>k. number \<le> k \<and> k \<le> lst \<longrightarrow> withNumber xs k = Some (g k) \<and> length (dataBytes (g k)) = unat (dataSize (g k))"
    "unat bufferIndex = length pre" "length (concat (map (\<lambda>k. dataBytes (g k)) [number..<Suc lst])) \<le> length post"
    "length pre + length post < 2 ^ 32"
  shows "copyLoop (map Some xs @ junk) (length xs) number lst bufferIndex (pre @ post) =
    Some (Some (pre @ concat (map (\<lambda>k. dataBytes (g k)) [number..<Suc lst]) @
      drop (length (concat (map (\<lambda>k. dataBytes (g k)) [number..<Suc lst]))) post))"
  using assms
proof (induction "Suc lst - number" arbitrary: number bufferIndex pre post)
  case 0
  then show ?case by (subst copyLoop.simps) simp
next
  case (Suc n)
  then have le: "number \<le> lst" by simp
  let ?m = "g number"
  let ?bs = "dataBytes ?m"
  let ?rest = "concat (map (\<lambda>k. dataBytes (g k)) [Suc number..<Suc lst])"
  have up: "[number..<Suc lst] = number # [Suc number..<Suc lst]" using le by (simp add: upt_conv_Cons)
  have cc: "concat (map (\<lambda>k. dataBytes (g k)) [number..<Suc lst]) = ?bs @ ?rest" unfolding up by simp
  have m: "withNumber xs number = Some ?m" "length ?bs = unat (dataSize ?m)" using Suc.prems(1) le by auto
  have fnd: "findSeq (map Some xs @ junk) (length xs) number 0 = Some (Some ?m)"
    using findSeq_found [of number 0 xs ?m junk] m(1) by (simp add: withNumber_def)
  have room: "length ?bs \<le> length post" using Suc.prems(3) unfolding cc by simp
  have idx: "unat (bufferIndex + dataSize ?m) = length (pre @ ?bs)"
    using Suc.prems(2,4) room m(2) by (simp add: unat_word_ariths)
  have IH: "copyLoop (map Some xs @ junk) (length xs) (Suc number) lst (bufferIndex + dataSize ?m)
      ((pre @ ?bs) @ drop (length ?bs) post) =
      Some (Some ((pre @ ?bs) @ ?rest @ drop (length ?rest) (drop (length ?bs) post)))"
    by (rule Suc.hyps(1)) (use Suc.hyps(2) Suc.prems idx room cc in auto)
  have rd: "memRead ?bs 0 (unat (dataSize ?m)) = Some ?bs" using m(2) by (simp add: memRead_def)
  have wr: "memWrite (pre @ post) (unat bufferIndex) ?bs = Some ((pre @ ?bs) @ drop (length ?bs) post)"
    using memWrite_at_end [OF room Suc.prems(2)] .
  show ?case
    unfolding cc using le
    by (subst copyLoop.simps) (simp add: fnd rd wr IH [unfolded append_assoc drop_drop] add.commute del: upt_Suc)
qed

lemma deliver_queue:
  assumes "scFlag (properties m) = 0" "queueOk (receiveQueue nmi)" "length (queueList (receiveQueue nmi)) < 2 ^ 31 - 1"
  shows "\<exists>q. deliver now nmi m = Some (nmi\<lparr>receiveQueue := q\<rparr>) \<and> queueOk q \<and>
    queueList q = queueList (receiveQueue nmi) @ [m]"
  using queuePush_ok [OF assms(2,3), of m] assms(1) by (auto simp: deliver_def)

lemma last_complete:
  fixes g :: "nat \<Rightarrow> JausMessage"
  assumes ok: "lmOk (lmh nmi)" and ms: "collected (lmh nmi) (messageKey m) = Some ms"
    and g: "\<forall>k \<le> unat (sequenceNumber m). withNumber (ms @ [m]) k = Some (g k) \<and>
        length (dataBytes (g k)) = unat (dataSize (g k))"
    and total: "length (concat (map (\<lambda>k. dataBytes (g k)) [0..<Suc (unat (sequenceNumber m))])) =
        sum_list (map (\<lambda>x. unat (dataSize x)) (ms @ [m]))"
      "sum_list (map (\<lambda>x. unat (dataSize x)) (ms @ [m])) < 2 ^ 32"
    and q: "scFlag (properties m) = 0" "queueOk (receiveQueue nmi)" "length (queueList (receiveQueue nmi)) < 2 ^ 31 - 1"
  defines "d \<equiv> concat (map (\<lambda>k. dataBytes (g k)) [0..<Suc (unat (sequenceNumber m))])"
  shows "\<exists>h q. receiveLast fresh now nmi m = Some (nmi\<lparr>lmh := h, receiveQueue := q\<rparr>) \<and> lmOk h \<and>
    collected h = (collected (lmh nmi))(messageKey m := None) \<and> queueOk q \<and>
    queueList q = queueList (receiveQueue nmi) @
      [(outMessage m)\<lparr>dataSize := of_nat (length d), dataFlag := JAUS_SINGLE_DATA_PACKET, data := Some d\<rparr>]"
  using ok
proof (cases rule: getMessageList_cases [of "lmh nmi" m])
  case 1
  then show ?thesis using ms by simp
next
  case (2 i l)
  have msl: "ms = arrayList (lmMessages l)" using 2(6) ms by simp
  obtain a where a: "jausArrayAdd True (lmMessages l) m = Some a" "lmListOk (l\<lparr>lmMessages := a\<rparr>)"
    "arrayOk a" "arrayList a = ms @ [m]" using list_add [OF 2(5,4)] msl by blast
  let ?l = "l\<lparr>lmMessages := a\<rparr>" and ?h = "storeList (lmh nmi) i (l\<lparr>lmMessages := a\<rparr>)"
  have key: "lmListKey ?l = lmListKey (lmLists (lmh nmi) ! i)" using 2(3) by simp
  note st = storeList_ok [OF ok 2(2) key a(2)]
  have mem: "?l \<in> set (lmLists ?h)" using st(2) 2(2) by (simp add: set_update_memI)
  obtain h where h: "dropList ?h ?l = Some h" "lmOk h" "collected h = (collected (lmh nmi))(messageKey m := None)"
    using dropList_ok [OF st(1) mem] st(3) 2(4) by auto
  have "arrayOk (lmMessages l)" "arrayList (lmMessages l) \<noteq> []" using 2(5) by (simp_all add: lmListOk_def)
  then have cnt: "elementCount (lmMessages l) \<noteq> 0" by (metis length_arrayList length_0_conv)
  obtain junk where j: "elementData a = map Some (ms @ [m]) @ junk" "elementCount a = length (ms @ [m])"
    using arrayOk_split [OF a(3)] unfolding a(4) by metis
  have sz: "sizeLoop (elementData a) 0 (elementCount a) 0 None = Some (of_nat (length d), Some m)"
    using sizeLoop_eq [of 0 "length (ms @ [m])" "ms @ [m]" junk 0 None] total(1)
    unfolding j d_def by (simp del: upt_Suc)
  have un: "unat (of_nat (length d) :: u32) = length d"
    using total by (intro unat_of_nat_lt) (simp add: d_def del: upt_Suc)
  have cp: "copyLoop (elementData a) (elementCount a) 0 (unat (sequenceNumber m)) 0 (map fresh [0..<length d]) =
      Some (Some d)"
    using copyLoop_eq [of 0 "unat (sequenceNumber m)" "ms @ [m]" g 0 "[]" "map fresh [0..<length d]" junk]
      g total un unfolding j d_def by (simp del: upt_Suc map_append)
  let ?m = "(outMessage m)\<lparr>dataSize := of_nat (length d), dataFlag := JAUS_SINGLE_DATA_PACKET, data := Some d\<rparr>"
  obtain q' where q': "deliver now (nmi\<lparr>lmh := ?h\<rparr>) ?m = Some (nmi\<lparr>lmh := ?h, receiveQueue := q'\<rparr>)"
    "queueOk q'" "queueList q' = queueList (receiveQueue nmi) @ [?m]"
    using deliver_queue [of ?m "nmi\<lparr>lmh := ?h\<rparr>" now] q by (auto simp: outMessage_def)
  have "receiveLast fresh now nmi m = Some (nmi\<lparr>lmh := h, receiveQueue := q'\<rparr>)"
    using 2(1) cnt a(1) sz un cp q'(1) h(1) by (simp add: receiveLast_def Let_def)
  then show ?thesis using h q' by blast
qed

section \<open>The fragments of a message, received\<close>

lemma fragmentsFrom_numbers:
  "map sequenceNumber (fragmentsFrom m c d) = map of_nat [c..<c + length (fragmentsFrom m c d)]"
proof (induction m c d rule: fragmentsFrom.induct)
  case (1 m i d)
  then show ?case by (subst (1 2) fragmentsFrom.simps) (simp add: upt_conv_Cons)
qed

lemma fragmentsFrom_data: "concat (map dataBytes (fragmentsFrom m c d)) = d"
proof (induction m c d rule: fragmentsFrom.induct)
  case (1 m i d)
  then show ?case by (subst fragmentsFrom.simps) simp
qed

lemma fragmentsFrom_sizes:
  "\<forall>x \<in> set (fragmentsFrom m c d). length (dataBytes x) = unat (dataSize x) \<and> unat (dataSize x) \<le> 4080 \<and>
     messageKey x = messageKey m \<and> properties x = properties m \<and> destination x = destination m"
proof (induction m c d rule: fragmentsFrom.induct)
  case (1 m i d)
  then show ?case by (subst fragmentsFrom.simps) (auto simp: messageKey_def unat_of_nat_lt)
qed

lemma fragmentsFrom_shape:
  "0 < c \<Longrightarrow> \<exists>mids s b. fragmentsFrom m c d = mids @ [fragmentMessage m (c + length mids) 8 s b] \<and>
     (\<forall>x \<in> set mids. dataFlag x = 2)"
proof (induction m c d rule: fragmentsFrom.induct)
  case (1 m c d)
  show ?case
  proof (cases "4080 < length d")
    case True
    with 1 obtain mids s b where "fragmentsFrom m (c + 1) (drop 4080 d) =
        mids @ [fragmentMessage m (c + 1 + length mids) 8 s b]" "\<forall>x \<in> set mids. dataFlag x = 2" by auto
    then show ?thesis
      using True 1(2)
      by (intro exI [of _ "fragmentMessage m c 2 4080 (take 4080 d) # mids"] exI [of _ s] exI [of _ b])
        (subst fragmentsFrom.simps, simp)
  next
    case False
    then show ?thesis by (intro exI [of _ "[]"]) (subst fragmentsFrom.simps, auto)
  qed
qed

text \<open>A large message is a first fragment, numbered ones and a last one.\<close>

lemma fragments_shape:
  assumes "4080 < unat (dataSize m)" "length (dataBytes m) = unat (dataSize m)"
  shows "\<exists>b mids s b'. fragments m = fragmentMessage m 0 1 4080 b # mids @ [fragmentMessage m (1 + length mids) 8 s b'] \<and>
     (\<forall>x \<in> set mids. dataFlag x = 2)"
proof -
  obtain mids s b where "fragmentsFrom m 1 (drop 4080 (dataBytes m)) =
      mids @ [fragmentMessage m (1 + length mids) 8 s b]" "\<forall>x \<in> set mids. dataFlag x = 2"
    using fragmentsFrom_shape [OF zero_less_one, of m "drop 4080 (dataBytes m)"] by blast
  then show ?thesis
    using assms
    by (intro exI [of _ "take 4080 (dataBytes m)"] exI [of _ mids] exI [of _ s] exI [of _ b])
      (simp add: fragments_def, subst fragmentsFrom.simps, simp)
qed

text \<open>Receiving a sequence of fragments.\<close>

fun receiveAll :: "(nat \<Rightarrow> u8) \<Rightarrow> real \<Rightarrow> JausMessage list \<Rightarrow> NodeManagerInterface \<Rightarrow> NodeManagerInterface exec" where
  "receiveAll fresh now [] nmi = Some nmi"
| "receiveAll fresh now (m # ms) nmi =
     do { nmi' \<leftarrow> lmHandlerReceiveLargeMessage fresh now nmi m; receiveAll fresh now ms nmi' }"

lemma receiveAll_append:
  "receiveAll fresh now (xs @ ys) nmi = do { nmi' \<leftarrow> receiveAll fresh now xs nmi; receiveAll fresh now ys nmi' }"
proof (induction xs arbitrary: nmi)
  case (Cons x xs)
  then show ?case by (cases "lmHandlerReceiveLargeMessage fresh now nmi x") simp_all
qed simp

lemma receiveAll_collects:
  assumes "lmOk (lmh nmi)" "\<forall>m \<in> set ms. dataFlag m \<noteq> JAUS_LAST_DATA_PACKET"
  shows "\<exists>h. receiveAll fresh now ms nmi = Some (nmi\<lparr>lmh := h\<rparr>) \<and> lmOk h \<and>
    (\<forall>k. collected h k = foldl collectStep (collected (lmh nmi) k) (filter (\<lambda>m. messageKey m = k) ms))"
  using assms
proof (induction ms arbitrary: nmi)
  case Nil
  then show ?case by (intro exI [of _ "lmh nmi"]) simp
next
  case (Cons m ms)
  obtain h where h: "lmHandlerReceiveLargeMessage fresh now nmi m = Some (nmi\<lparr>lmh := h\<rparr>)" "lmOk h"
    "collected h = (collected (lmh nmi))(messageKey m := collectStep (collected (lmh nmi) (messageKey m)) m)"
    using receive_collects [of nmi m fresh now] Cons.prems by auto
  from Cons.IH [of "nmi\<lparr>lmh := h\<rparr>"] h(2) Cons.prems obtain h' where
    "receiveAll fresh now ms (nmi\<lparr>lmh := h\<rparr>) = Some (nmi\<lparr>lmh := h'\<rparr>)" "lmOk h'"
    "\<forall>k. collected h' k = foldl collectStep (collected h k) (filter (\<lambda>m. messageKey m = k) ms)" by auto
  then show ?case using h by (intro exI [of _ h']) simp
qed

lemma collect_normals:
  assumes "\<forall>x \<in> set ns. dataFlag x = JAUS_NORMAL_DATA_PACKET" "distinct (map sequenceNumber (ms @ ns))"
  shows "foldl collectStep (Some ms) ns = Some (ms @ ns)"
  using assms
proof (induction ns arbitrary: ms)
  case Nil
  then show ?case by simp
next
  case (Cons n ns)
  then have "sequenceNumber n \<notin> sequenceNumber ` set ms" by simp
  then have "collectStep (Some ms) n = Some (ms @ [n])"
    using Cons.prems(1) by (auto simp: collectStep_def sameNumber_def image_iff)
  then show ?case using Cons.IH [of "ms @ [n]"] Cons.prems by simp
qed

lemma find_unique:
  assumes "x \<in> set xs" "P x" "\<And>y. y \<in> set xs \<Longrightarrow> P y \<Longrightarrow> y = x"
  shows "find P xs = Some x"
proof (cases "find P xs")
  case None
  then show ?thesis using assms(1,2) by (simp add: find_None_iff)
next
  case (Some y)
  then have "y \<in> set xs" "P y" by (auto simp: find_Some_iff)
  then show ?thesis using assms(3) Some by simp
qed

lemma unat_number: "i < 65536 \<Longrightarrow> unat (of_nat i :: u16) = i"
  by (rule unat_of_nat_lt) simp

lemma distinct_numbers: "n \<le> 65536 \<Longrightarrow> distinct (map (of_nat :: nat \<Rightarrow> u16) [0..<n])"
  unfolding distinct_map
proof (intro conjI inj_onI)
  fix i j assume n: "n \<le> 65536" "i \<in> set [0..<n]" "j \<in> set [0..<n]" "(of_nat i :: u16) = of_nat j"
  then have "unat (of_nat i :: u16) = unat (of_nat j :: u16)" by simp
  then show "i = j" using n(1-3) by (simp add: unat_number)
qed simp

text \<open>Every number of a permutation of the fragments is found.\<close>

lemma fragments_withNumber:
  assumes "mset xs = mset (fragmentsFrom m 0 d)" "length (fragmentsFrom m 0 d) \<le> 65536" "k < length (fragmentsFrom m 0 d)"
  shows "withNumber xs k = Some (fragmentsFrom m 0 d ! k)"
proof -
  let ?f = "fragmentsFrom m 0 d"
  have num: "unat (sequenceNumber (?f ! i)) = i" if "i < length ?f" for i
  proof -
    have "sequenceNumber (?f ! i) = map sequenceNumber ?f ! i" using that by simp
    also have "\<dots> = of_nat i" using that by (subst fragmentsFrom_numbers) simp
    finally show ?thesis using that assms(2) by (simp only: unat_number)
  qed
  have st: "set xs = set ?f" using assms(1) by (metis set_mset_mset)
  have "y = ?f ! k" if "y \<in> set ?f" "unat (sequenceNumber y) = k" for y
    using that num by (metis in_set_conv_nth)
  then show ?thesis
    unfolding withNumber_def st using num [OF assms(3)] assms(3) by (intro find_unique) (simp_all add: st)
qed

lemma sum_sizes:
  "\<forall>x \<in> set xs. length (dataBytes x) = unat (dataSize x) \<Longrightarrow>
   sum_list (map (\<lambda>x. unat (dataSize x)) xs) = length (concat (map dataBytes xs))"
  by (induction xs) auto

lemma sum_set_le_sum_list: "sum f (set xs) \<le> sum_list (map (f :: 'a \<Rightarrow> nat) xs)"
  by (induction xs) (auto simp: sum.insert_if)

lemma sum_mset_eq:
  "mset xs = mset ys \<Longrightarrow> sum_list (map f xs) = sum_list (map (f :: 'a \<Rightarrow> nat) ys)"
  by (metis mset_map sum_mset_sum_list)

text \<open>
  The fragments of a message arrive when the first one comes first, the last one last, and the
  others in any order between them.
\<close>

definition arrives :: "JausMessage \<Rightarrow> JausMessage list \<Rightarrow> bool" where
  "arrives m xs \<longleftrightarrow>
     (\<exists>first middle lst ns. fragments m = first # middle @ [lst] \<and> mset ns = mset middle \<and> xs = first # ns @ [lst])"

definition largeMessage :: "JausMessage \<Rightarrow> bool" where
  "largeMessage m \<longleftrightarrow> 4080 < unat (dataSize m) \<and> length (dataBytes m) = unat (dataSize m) \<and>
     scFlag (properties m) = 0 \<and> length (fragments m) \<le> 65536"

text \<open>What the receiver puts on its queue.\<close>

definition reassembled :: "JausMessage \<Rightarrow> JausMessage" where
  "reassembled m = m\<lparr>dataFlag := JAUS_SINGLE_DATA_PACKET, sequenceNumber := of_nat (length (fragments m) - 1),
     data := Some (dataBytes m)\<rparr>"

lemma arrives_shape:
  assumes "largeMessage m" "arrives m xs"
  obtains first ns lst where "xs = first # ns @ [lst]" "mset xs = mset (fragments m)"
    "dataFlag first = JAUS_FIRST_DATA_PACKET" "sequenceNumber first = 0" "dataFlag lst = JAUS_LAST_DATA_PACKET"
    "\<forall>x \<in> set ns. dataFlag x = JAUS_NORMAL_DATA_PACKET" "distinct (map sequenceNumber xs)"
    "\<exists>s b. lst = fragmentMessage m (length ns + 1) 8 s b" "length (fragments m) = length ns + 2"
proof -
  have big: "4080 < unat (dataSize m)" "length (dataBytes m) = unat (dataSize m)" "length (fragments m) \<le> 65536"
    using assms(1) by (simp_all add: largeMessage_def)
  obtain first middle lst ns where fr: "fragments m = first # middle @ [lst]" "mset ns = mset middle"
    and xs: "xs = first # ns @ [lst]" using assms(2) by (auto simp: arrives_def)
  obtain b mids s b' where sh: "fragments m = fragmentMessage m 0 1 4080 b # mids @ [fragmentMessage m (1 + length mids) 8 s b']"
    "\<forall>x \<in> set mids. dataFlag x = 2" using fragments_shape [OF big(1,2)] by blast
  then have eq: "first = fragmentMessage m 0 1 4080 b" "middle = mids" "lst = fragmentMessage m (length middle + 1) 8 s b'"
    using fr(1) by auto
  have perm: "mset xs = mset (fragments m)" using fr xs by simp
  have "fragments m = fragmentsFrom m 0 (dataBytes m)" using big(1) by (simp add: fragments_def)
  then have "distinct (map sequenceNumber (fragments m))"
    using fragmentsFrom_numbers [of m 0 "dataBytes m"] distinct_numbers [OF big(3)] by simp
  then have dist: "distinct (map sequenceNumber xs)" using perm by (metis mset_eq_imp_distinct_iff mset_map)
  have len: "length ns = length middle" using fr(2) by (metis size_mset)
  have flags: "\<forall>x \<in> set ns. dataFlag x = 2" using sh(2) eq(2) fr(2) by (metis set_mset_mset)
  show thesis
    by (rule that [OF xs perm _ _ _ flags dist]) (use eq len fr(1) in auto)
qed

text \<open>The last fragment of a message all other fragments of which have been collected.\<close>

lemma last_step:
  assumes ok: "lmOk (lmh nmi)" and q: "queueOk (receiveQueue nmi)" "length (queueList (receiveQueue nmi)) < 2 ^ 31 - 1"
    and m: "largeMessage m" "arrives m (first # ns @ [lst])"
    and col: "collected (lmh nmi) (messageKey m) = Some (first # ns)"
  shows "\<exists>h q. lmHandlerReceiveLargeMessage fresh now nmi lst = Some (nmi\<lparr>lmh := h, receiveQueue := q\<rparr>) \<and>
     lmOk h \<and> collected h = (collected (lmh nmi))(messageKey m := None) \<and> queueOk q \<and>
     queueList q = queueList (receiveQueue nmi) @ [reassembled m]"
proof -
  let ?f = "fragmentsFrom m 0 (dataBytes m)" and ?n = "length ns + 1"
  have big: "4080 < unat (dataSize m)" "length (dataBytes m) = unat (dataSize m)" "length (fragments m) \<le> 65536"
    "scFlag (properties m) = 0" using m(1) by (simp_all add: largeMessage_def)
  have f: "fragments m = ?f" using big(1) by (simp add: fragments_def)
  obtain s b' where perm: "mset ((first # ns) @ [lst]) = mset ?f" and lst: "lst = fragmentMessage m ?n 8 s b'"
    and len: "length ?f = Suc ?n"
    by (rule arrives_shape [OF m]) (auto simp: f)
  have len16: "length ?f \<le> 65536" using big(3) f by simp
  have "unat (of_nat ?n :: u16) = ?n" using len len16 by (intro unat_number) simp
  then have seq: "unat (sequenceNumber lst) = ?n" by (simp only: lst fragmentMessage_simps)
  have key: "messageKey lst = messageKey m" using lst by (simp add: messageKey_def)
  let ?g = "\<lambda>k. ?f ! k"
  have sizes: "\<forall>x \<in> set ?f. length (dataBytes x) = unat (dataSize x)" using fragmentsFrom_sizes by blast
  have g: "\<forall>k \<le> unat (sequenceNumber lst). withNumber ((first # ns) @ [lst]) k = Some (?g k) \<and>
      length (dataBytes (?g k)) = unat (dataSize (?g k))"
  proof (intro allI impI)
    fix k assume "k \<le> unat (sequenceNumber lst)"
    then have k: "k < length ?f" using seq len by simp
    then have "?f ! k \<in> set ?f" by simp
    then show "withNumber ((first # ns) @ [lst]) k = Some (?g k) \<and> length (dataBytes (?g k)) = unat (dataSize (?g k))"
      using fragments_withNumber [OF perm len16 k] sizes by blast
  qed
  have "map (\<lambda>k. dataBytes (?f ! k)) [0..<Suc ?n] = map dataBytes ?f"
    by (rule nth_equalityI) (use len in \<open>simp_all del: upt_Suc\<close>)
  then have data: "concat (map (\<lambda>k. dataBytes (?g k)) [0..<Suc (unat (sequenceNumber lst))]) = dataBytes m"
    unfolding seq by (simp add: fragmentsFrom_data del: upt_Suc)
  have total: "sum_list (map (\<lambda>x. unat (dataSize x)) ((first # ns) @ [lst])) = length (dataBytes m)"
    using sum_mset_eq [OF perm, of "\<lambda>x. unat (dataSize x)"] sum_sizes [OF sizes] by (simp add: fragmentsFrom_data)
  have sz: "of_nat (length (dataBytes m)) = dataSize m" using big(2) by simp
  have "scFlag (properties lst) = 0" using lst big(4) by simp
  then obtain h q where
    h: "receiveLast fresh now nmi lst = Some (nmi\<lparr>lmh := h, receiveQueue := q\<rparr>)" "lmOk h"
    "collected h = (collected (lmh nmi))(messageKey lst := None)" "queueOk q"
    "queueList q = queueList (receiveQueue nmi) @
      [(outMessage lst)\<lparr>dataSize := dataSize m, dataFlag := JAUS_SINGLE_DATA_PACKET, data := Some (dataBytes m)\<rparr>]"
    using last_complete [of nmi lst "first # ns" ?g fresh now, unfolded data sz total]
      ok col g q big(2) u32_bound [of "dataSize m"] key by auto
  have "(outMessage lst)\<lparr>dataSize := dataSize m, dataFlag := JAUS_SINGLE_DATA_PACKET, data := Some (dataBytes m)\<rparr> =
      reassembled m"
    unfolding lst reassembled_def f len
    by (cases m) (simp add: outMessage_def fragmentMessage_def copyHeader_def jausMessageCreate_def)
  moreover have "lmHandlerReceiveLargeMessage fresh now nmi lst = Some (nmi\<lparr>lmh := h, receiveQueue := q\<rparr>)"
    using h(1) lst by (simp add: lmHandlerReceiveLargeMessage_def)
  ultimately show ?thesis using h(2-5) key by auto
qed

lemma collect_arriving:
  assumes "largeMessage m" "arrives m (first # ns @ [lst])"
  shows "foldl collectStep x (first # ns) = Some (first # ns)"
proof -
  obtain flag: "dataFlag first = JAUS_FIRST_DATA_PACKET" and num: "sequenceNumber first = 0"
    and ns: "\<forall>x \<in> set ns. dataFlag x = JAUS_NORMAL_DATA_PACKET" "distinct (map sequenceNumber (first # ns @ [lst]))"
    by (rule arrives_shape [OF assms]) auto
  have "foldl collectStep (Some [first]) ns = Some ([first] @ ns)"
    using ns by (intro collect_normals) auto
  then show ?thesis using flag num by (simp add: collectStep_def)
qed

lemma reassemble:
  fixes m :: JausMessage
  assumes ok: "lmOk (lmh nmi)" and q: "queueOk (receiveQueue nmi)" "length (queueList (receiveQueue nmi)) < 2 ^ 31 - 1"
    and m: "4080 < unat (dataSize m)" "length (dataBytes m) = unat (dataSize m)" "scFlag (properties m) = 0"
    and fr: "fragments m = first # middle @ [lst]" "length (fragments m) \<le> 65536"
    and tr: "\<forall>x \<in> set trace. dataFlag x \<noteq> JAUS_LAST_DATA_PACKET"
      "filter (\<lambda>x. messageKey x = messageKey m) trace = first # ns" "mset ns = mset middle"
  shows "\<exists>h q. receiveAll fresh now (trace @ [lst]) nmi = Some (nmi\<lparr>lmh := h, receiveQueue := q\<rparr>) \<and>
     lmOk h \<and> collected h (messageKey m) = None \<and> queueOk q \<and>
     queueList q = queueList (receiveQueue nmi) @
       [m\<lparr>dataFlag := JAUS_SINGLE_DATA_PACKET, sequenceNumber := of_nat (length middle + 1), data := Some (dataBytes m)\<rparr>]"
proof -
  have lm: "largeMessage m" and ar: "arrives m (first # ns @ [lst])"
    using m fr tr(3) by (auto simp: largeMessage_def arrives_def)
  obtain h1 where h1: "receiveAll fresh now trace nmi = Some (nmi\<lparr>lmh := h1\<rparr>)" "lmOk h1"
    "\<forall>k. collected h1 k = foldl collectStep (collected (lmh nmi) k) (filter (\<lambda>m. messageKey m = k) trace)"
    using receiveAll_collects [OF ok tr(1)] by blast
  have "collected h1 (messageKey m) = Some (first # ns)"
    by (simp only: h1(3) tr(2) collect_arriving [OF lm ar])
  then have "collected (lmh (nmi\<lparr>lmh := h1\<rparr>)) (messageKey m) = Some (first # ns)" by (simp del: split_paired_All)
  from last_step [OF _ _ _ lm ar this, of fresh now] h1(2) q obtain h q where
    "lmHandlerReceiveLargeMessage fresh now (nmi\<lparr>lmh := h1\<rparr>) lst = Some (nmi\<lparr>lmh := h, receiveQueue := q\<rparr>)" "lmOk h"
    "collected h = (collected h1)(messageKey m := None)" "queueOk q"
    "queueList q = queueList (receiveQueue nmi) @ [reassembled m]" by auto
  then show ?thesis
    using h1(1) fr(1) by (intro exI [of _ h] exI [of _ q]) (simp add: receiveAll_append reassembled_def)
qed

text \<open>
  Several messages, interleaved in any way: in a sequence of fragments in which those of each of
  the messages arrive, a last fragment ends the fragments of its message.
\<close>

lemma last_in_stream:
  assumes "largeMessage m" "arrives m (filter P trace)" "trace = p @ x # s" "P x" "dataFlag x = JAUS_LAST_DATA_PACKET"
  obtains first ns where "filter P p = first # ns" "arrives m (first # ns @ [x])" "filter P s = []"
    "\<forall>y \<in> set p. P y \<longrightarrow> dataFlag y \<noteq> JAUS_LAST_DATA_PACKET"
proof -
  obtain first ns lst where xs: "filter P trace = first # ns @ [lst]"
    and flags: "dataFlag first = 1" "dataFlag lst = 8" "\<forall>x \<in> set ns. dataFlag x = 2"
    by (rule arrives_shape [OF assms(1,2)]) auto
  have eq: "filter P p @ x # filter P s = (first # ns) @ [lst]" using xs assms(3,4) by simp
  have nolast: "\<forall>y \<in> set (first # ns). dataFlag y \<noteq> 8" using flags by auto
  have s: "filter P s = []"
  proof (rule ccontr)
    assume ne: "filter P s \<noteq> []"
    then have "butlast (filter P p @ x # filter P s) = filter P p @ x # butlast (filter P s)"
      by (simp add: butlast_append)
    then have "x \<in> set (first # ns)" using eq by (metis butlast_snoc in_set_conv_decomp)
    then show False using nolast assms(5) by blast
  qed
  then have p: "filter P p = first # ns" "x = lst" using eq by (metis append1_eq_conv)+
  have "\<forall>y \<in> set p. P y \<longrightarrow> dataFlag y \<noteq> JAUS_LAST_DATA_PACKET"
  proof (intro ballI impI)
    fix y assume "y \<in> set p" "P y"
    then have "y \<in> set (filter P p)" by simp
    then have "y \<in> set (first # ns)" using p(1) by simp
    then show "dataFlag y \<noteq> 8" using nolast by blast
  qed
  then show thesis using that [OF p(1) _ s] assms(2) xs p(2) by simp
qed

lemma not_after_last:
  assumes "largeMessage m" "arrives m (filter P trace)" "trace = p @ x # s" "P x" "y \<in> set p" "P y"
  shows "dataFlag y \<noteq> JAUS_LAST_DATA_PACKET"
proof
  assume y: "dataFlag y = JAUS_LAST_DATA_PACKET"
  from assms(5) obtain p1 p2 where p: "p = p1 @ y # p2" by (meson split_list)
  then have tr: "trace = p1 @ y # (p2 @ x # s)" using assms(3) by simp
  show False by (rule last_in_stream [OF assms(1,2) tr assms(6) y]) (use assms(4) in auto)
qed

definition messageFor :: "JausMessage list \<Rightarrow> u16 \<times> JausAddress \<Rightarrow> JausMessage" where
  "messageFor ms k = the (find (\<lambda>m. messageKey m = k) ms)"

lemma messageFor_key:
  assumes "distinct (map messageKey ms)" "m \<in> set ms"
  shows "messageFor ms (messageKey m) = m"
proof -
  have "find (\<lambda>x. messageKey x = messageKey m) ms = Some m"
    using assms by (intro find_unique) (auto simp: distinct_map inj_on_def)
  then show ?thesis by (simp add: messageFor_def)
qed

abbreviation (input) isLast :: "JausMessage \<Rightarrow> bool" where
  "isLast x \<equiv> dataFlag x = JAUS_LAST_DATA_PACKET"

lemma interleaved:
  assumes ok: "lmOk (lmh nmi)" and q: "queueOk (receiveQueue nmi)"
    "length (queueList (receiveQueue nmi)) + length trace < 2 ^ 31 - 1"
    and ms: "\<forall>m \<in> set ms. largeMessage m" "distinct (map messageKey ms)"
    and tr: "\<forall>m \<in> set ms. arrives m (filter (\<lambda>x. messageKey x = messageKey m) trace)"
      "\<forall>x \<in> set trace. isLast x \<longrightarrow> messageKey x \<in> messageKey ` set ms"
    and pre: "trace = p @ s"
  shows "\<exists>h q. receiveAll fresh now p nmi = Some (nmi\<lparr>lmh := h, receiveQueue := q\<rparr>) \<and> lmOk h \<and> queueOk q \<and>
     queueList q = queueList (receiveQueue nmi) @ map (\<lambda>x. reassembled (messageFor ms (messageKey x))) (filter isLast p) \<and>
     (\<forall>k. collected h k = (if \<exists>x \<in> set p. isLast x \<and> messageKey x = k then None
        else foldl collectStep (collected (lmh nmi) k) (filter (\<lambda>x. messageKey x = k) p)))"
  using pre
proof (induction p arbitrary: s rule: rev_induct)
  case Nil
  then show ?case using ok q(1) by (intro exI [of _ "lmh nmi"] exI [of _ "receiveQueue nmi"]) simp
next
  case (snoc x p)
  from snoc.prems have split: "trace = p @ x # s" by simp
  from snoc.IH [OF this] obtain h q' where IH: "receiveAll fresh now p nmi = Some (nmi\<lparr>lmh := h, receiveQueue := q'\<rparr>)"
    "lmOk h" "queueOk q'"
    "queueList q' = queueList (receiveQueue nmi) @ map (\<lambda>x. reassembled (messageFor ms (messageKey x))) (filter isLast p)"
    "\<forall>k. collected h k = (if \<exists>x \<in> set p. isLast x \<and> messageKey x = k then None
        else foldl collectStep (collected (lmh nmi) k) (filter (\<lambda>x. messageKey x = k) p))" by blast
  let ?nmi = "nmi\<lparr>lmh := h, receiveQueue := q'\<rparr>" and ?P = "\<lambda>y. messageKey y = messageKey x"
  show ?case
  proof (cases "isLast x")
    case True
    then obtain m where m: "m \<in> set ms" "messageKey m = messageKey x" using tr(2) split by auto
    then have lm: "largeMessage m" and ar: "arrives m (filter ?P trace)" using ms(1) tr(1) by auto
    obtain first ns where st: "filter ?P p = first # ns" "arrives m (first # ns @ [x])"
      "\<forall>y \<in> set p. ?P y \<longrightarrow> \<not> isLast y"
      by (rule last_in_stream [OF lm ar split _ True]) auto
    have "collected (lmh ?nmi) (messageKey m) = Some (first # ns)"
    proof -
      have "\<not> (\<exists>y \<in> set p. isLast y \<and> ?P y)" using st(3) by blast
      then have "collected h (messageKey x) = foldl collectStep (collected (lmh nmi) (messageKey x)) (first # ns)"
        using spec [OF IH(5), of "messageKey x"] st(1) by (simp only: if_False)
      then have "collected h (messageKey m) = Some (first # ns)"
        by (simp only: m(2) collect_arriving [OF lm st(2)])
      then show ?thesis by simp
    qed
    moreover have "length (filter isLast p) \<le> length p" by (rule length_filter_le)
    then have "length (filter isLast p) \<le> length trace"
      by (rule order_trans) (simp add: split)
    then have "length (queueList q') < 2 ^ 31 - 1" using q(2) IH(4) by simp
    ultimately obtain h2 q2 where
      h2: "lmHandlerReceiveLargeMessage fresh now ?nmi x = Some (nmi\<lparr>lmh := h2, receiveQueue := q2\<rparr>)" "lmOk h2"
        "collected h2 = (collected h)(messageKey m := None)" "queueOk q2" "queueList q2 = queueList q' @ [reassembled m]"
      using last_step [of ?nmi m first ns x fresh now] IH(2,3) lm st(2) by auto
    moreover have "messageFor ms (messageKey x) = m" using messageFor_key [OF ms(2) m(1)] m(2) by simp
    ultimately show ?thesis
      using IH True m(2) by (intro exI [of _ h2] exI [of _ q2]) (auto simp: receiveAll_append)
  next
    case False
    obtain h2 where h2: "lmHandlerReceiveLargeMessage fresh now ?nmi x = Some (?nmi\<lparr>lmh := h2\<rparr>)" "lmOk h2"
      "collected h2 = (collected h)(messageKey x := collectStep (collected h (messageKey x)) x)"
      using receive_collects [of ?nmi x fresh now] IH(2) False by auto
    have "\<not> isLast y" if y: "y \<in> set p" "?P y" for y
    proof
      assume l: "isLast y"
      with y tr(2) split obtain m where m: "m \<in> set ms" "messageKey m = messageKey x" by auto
      then have "largeMessage m" "arrives m (filter ?P trace)" using ms(1) tr(1) by auto
      from not_after_last [OF this split _ y] l show False by simp
    qed
    then have none: "\<not> (\<exists>y \<in> set p. isLast y \<and> ?P y)" by blast
    have "collected h2 k = (if \<exists>y \<in> set (p @ [x]). isLast y \<and> messageKey y = k then None
        else foldl collectStep (collected (lmh nmi) k) (filter (\<lambda>y. messageKey y = k) (p @ [x])))" for k
    proof (cases "k = messageKey x")
      case True
      have "collected h (messageKey x) = foldl collectStep (collected (lmh nmi) (messageKey x)) (filter ?P p)"
        using spec [OF IH(5), of "messageKey x"] none by (simp only: if_False)
      moreover have "\<not> (\<exists>y \<in> set (p @ [x]). isLast y \<and> ?P y)" using none \<open>\<not> isLast x\<close> by auto
      moreover have "filter ?P (p @ [x]) = filter ?P p @ [x]" by simp
      ultimately show ?thesis unfolding True h2(3)
        by (simp only: fun_upd_same if_False foldl_append foldl_Cons foldl_Nil)
    next
      case False
      then have "(\<exists>y \<in> set (p @ [x]). isLast y \<and> messageKey y = k) = (\<exists>y \<in> set p. isLast y \<and> messageKey y = k)"
        "filter (\<lambda>y. messageKey y = k) (p @ [x]) = filter (\<lambda>y. messageKey y = k) p" by auto
      then show ?thesis using spec [OF IH(5), of k] by (simp only: h2(3) fun_upd_other [OF False])
    qed
    then show ?thesis
      using IH(1-4) h2(1,2) False by (intro exI [of _ h2] exI [of _ q']) (simp add: receiveAll_append)
  qed
qed

text \<open>A last fragment of a message of which nothing has been collected is dropped.\<close>

lemma last_uncollected:
  assumes "lmOk (lmh nmi)" "dataFlag m = JAUS_LAST_DATA_PACKET" "collected (lmh nmi) (messageKey m) = None"
  shows "lmHandlerReceiveLargeMessage fresh now nmi m = Some nmi"
  using assms(1)
  by (cases rule: getMessageList_cases [of "lmh nmi" m])
    (use assms in \<open>simp_all add: lmHandlerReceiveLargeMessage_def receiveLast_def\<close>)

text \<open>Every message has one last fragment.\<close>

lemma last_keys:
  assumes ms: "\<forall>m \<in> set ms. largeMessage m" "distinct (map messageKey ms)"
    and tr: "\<forall>m \<in> set ms. arrives m (filter (\<lambda>x. messageKey x = messageKey m) trace)"
      "\<forall>x \<in> set trace. isLast x \<longrightarrow> messageKey x \<in> messageKey ` set ms"
  shows "mset (map messageKey (filter isLast trace)) = mset (map messageKey ms)"
proof (rule multiset_eqI)
  fix k
  let ?n = "length (filter (\<lambda>x. messageKey x = k) (filter isLast trace))"
  have n: "count (mset (map messageKey (filter isLast trace))) k = ?n"
    by (induction trace) auto
  have c: "count (mset (map messageKey ms)) k = (if k \<in> set (map messageKey ms) then 1 else 0)"
    using distinct_count_atmost_1 ms(2) by metis
  have "?n = (if k \<in> set (map messageKey ms) then 1 else 0)"
  proof (cases "k \<in> messageKey ` set ms")
    case True
    then obtain m where m: "m \<in> set ms" "k = messageKey m" by blast
    then have lm: "largeMessage m" and ar: "arrives m (filter (\<lambda>x. messageKey x = k) trace)" using ms(1) tr(1) by auto
    obtain first ns lst where "filter (\<lambda>x. messageKey x = k) trace = first # ns @ [lst]"
      "dataFlag first = 1" "dataFlag lst = 8" "\<forall>x \<in> set ns. dataFlag x = 2"
      by (rule arrives_shape [OF lm ar]) auto
    then have "filter isLast (filter (\<lambda>x. messageKey x = k) trace) = [lst]"
      by (auto simp: filter_empty_conv)
    moreover have "filter (\<lambda>x. messageKey x = k) (filter isLast trace) = filter isLast (filter (\<lambda>x. messageKey x = k) trace)"
      by (simp add: conj_commute)
    ultimately show ?thesis using True by simp
  next
    case False
    then show ?thesis using tr(2) by (auto simp: filter_empty_conv)
  qed
  then show "count (mset (map messageKey (filter isLast trace))) k = count (mset (map messageKey ms)) k"
    using n c by simp
qed

section \<open>Properties\<close>

text \<open>
  C4. Reassembly: let the fragments of any number of large messages, with different command codes or
  sources, arrive interleaved in any way, each message with its first fragment first, its last one last
  and the others in any order between them, and interleaved with any fragments of further messages except
  last ones. Then every one of the messages is put on the receive queue, in the order of their last
  fragments, with its command code, addresses, properties and every data byte, marked as a single packet;
  the fragments of each are released, and those of the further messages are collected. The bound of 65536 fragments is
  that of the 16-bit sequence number. A last fragment that overtakes another one of its message is outside this
  theorem: see \<open>missing_fragment\<close>.
\<close>

theorem large_message_reassembled:
  assumes "lmOk (lmh nmi)" "queueOk (receiveQueue nmi)"
    "length (queueList (receiveQueue nmi)) + length trace < 2 ^ 31 - 1"
    and "\<forall>m \<in> set ms. largeMessage m" "distinct (map messageKey ms)"
    and "\<forall>m \<in> set ms. arrives m (filter (\<lambda>x. messageKey x = messageKey m) trace)"
      "\<forall>x \<in> set trace. dataFlag x = JAUS_LAST_DATA_PACKET \<longrightarrow> messageKey x \<in> messageKey ` set ms"
  shows "\<exists>h q ms'. receiveAll fresh now trace nmi = Some (nmi\<lparr>lmh := h, receiveQueue := q\<rparr>) \<and>
     lmOk h \<and> queueOk q \<and> mset ms' = mset ms \<and>
     map messageKey ms' = map messageKey (filter (\<lambda>x. dataFlag x = JAUS_LAST_DATA_PACKET) trace) \<and>
     queueList q = queueList (receiveQueue nmi) @ map reassembled ms' \<and>
     (\<forall>m \<in> set ms. collected h (messageKey m) = None) \<and>
     (\<forall>k. k \<notin> messageKey ` set ms \<longrightarrow>
        collected h k = foldl collectStep (collected (lmh nmi) k) (filter (\<lambda>x. messageKey x = k) trace))"
proof -
  let ?keys = "map messageKey (filter isLast trace)" and ?ms' = "map (\<lambda>x. messageFor ms (messageKey x)) (filter isLast trace)"
  note keys = last_keys [OF assms(4-7)]
  from interleaved [OF assms append_Nil2 [symmetric], of fresh now] obtain h q where
    h: "receiveAll fresh now trace nmi = Some (nmi\<lparr>lmh := h, receiveQueue := q\<rparr>)" "lmOk h" "queueOk q"
    "queueList q = queueList (receiveQueue nmi) @ map reassembled ?ms'"
    "\<forall>k. collected h k = (if \<exists>x \<in> set trace. isLast x \<and> messageKey x = k then None
        else foldl collectStep (collected (lmh nmi) k) (filter (\<lambda>x. messageKey x = k) trace))"
    by (auto simp: comp_def simp del: split_paired_All)
  have set: "set ?keys = messageKey ` set ms" using keys by (metis set_mset_mset set_map)
  have self: "map (messageFor ms) (map messageKey ms) = ms" using messageFor_key [OF assms(5)] by (simp add: map_idI)
  have ms': "?ms' = map (messageFor ms) ?keys" by simp
  have "mset ?ms' = image_mset (messageFor ms) (mset ?keys)" unfolding ms' by (rule mset_map)
  also have "\<dots> = mset (map (messageFor ms) (map messageKey ms))" unfolding keys by (rule mset_map [symmetric])
  finally have "mset ?ms' = mset ms" unfolding self .
  moreover have "map messageKey ?ms' = ?keys"
  proof -
    have "messageKey (messageFor ms k) = k" if "k \<in> set ?keys" for k
      using that messageFor_key [OF assms(5)] unfolding set by auto
    then have "map messageKey (map (messageFor ms) ?keys) = map id ?keys" unfolding map_map by (intro map_cong) auto
    then show ?thesis unfolding ms' by simp
  qed
  moreover have "collected h (messageKey m) = None" if "m \<in> set ms" for m
  proof -
    have "messageKey m \<in> set ?keys" using that unfolding set by (rule imageI)
    then have "\<exists>x \<in> set trace. isLast x \<and> messageKey x = messageKey m" by auto
    then show ?thesis using spec [OF h(5), of "messageKey m"] by (simp only: if_True)
  qed
  moreover have "collected h k = foldl collectStep (collected (lmh nmi) k) (filter (\<lambda>x. messageKey x = k) trace)"
    if "k \<notin> messageKey ` set ms" for k
  proof -
    have "\<not> (\<exists>x \<in> set trace. isLast x \<and> messageKey x = k)" using assms(7) that by blast
    then show ?thesis using spec [OF h(5), of k] by (simp only: if_False)
  qed
  ultimately show ?thesis using h(1-4) by blast
qed

theorem large_message_reassembled_witness:
  "\<exists>m1 m2 nmi nmi' f1 l1 f2 l2. fragments m1 = [f1, l1] \<and> fragments m2 = [f2, l2] \<and>
     receiveAll (\<lambda>_. 0) 0 [f1, f2, l2, l1] nmi = Some nmi' \<and> queueList (receiveQueue nmi) = [] \<and>
     map dataBytes (queueList (receiveQueue nmi')) = [replicate 6000 9, replicate 5000 7]"
proof -
  let ?m1 = "jausMessageCreate\<lparr>commandCode := 0x4302, dataSize := 5000, data := Some (replicate 5000 7)\<rparr>"
  let ?m2 = "jausMessageCreate\<lparr>commandCode := 0x4303, dataSize := 6000, data := Some (replicate 6000 9)\<rparr>"
  obtain nmi where n: "nodeManagerOpen (\<lambda>_. [2, 1, 33, 1, 1]) 5000 0 (Some undefined) = Some (Some nmi)"
    using nodeManagerOpen_example by blast
  note o = nodeManagerOpen_reach [OF n]
  have lm: "lmOk (lmh nmi)" using o(9,10) by (simp add: lmOk_def lmLists_def)
  have q: "queueOk (receiveQueue nmi)" "queueList (receiveQueue nmi) = []" using o(4) queueCreate_ok by simp_all
  let ?f1 = "fragmentMessage ?m1 0 1 4080 (replicate 4080 7)" and ?l1 = "fragmentMessage ?m1 1 8 920 (replicate 920 7)"
  let ?f2 = "fragmentMessage ?m2 0 1 4080 (replicate 4080 9)" and ?l2 = "fragmentMessage ?m2 1 8 1920 (replicate 1920 9)"
  have "fragmentsFrom ?m1 1 (replicate 920 7) = [?l1]" "fragmentsFrom ?m2 1 (replicate 1920 9) = [?l2]"
    by (subst fragmentsFrom.simps, simp)+
  then have fr: "fragments ?m1 = ?f1 # [] @ [?l1]" "fragments ?m2 = ?f2 # [] @ [?l2]"
    by (simp add: fragments_def, subst fragmentsFrom.simps, simp)+
  have keys: "messageKey ?f1 = messageKey ?m1" "messageKey ?l1 = messageKey ?m1" "messageKey ?f2 = messageKey ?m2"
    "messageKey ?l2 = messageKey ?m2" "messageKey ?m1 \<noteq> messageKey ?m2" by (simp_all add: messageKey_def)
  have flags: "dataFlag ?f1 = 1" "dataFlag ?l1 = 8" "dataFlag ?f2 = 1" "dataFlag ?l2 = 8" by simp_all
  have large: "largeMessage ?m1" "largeMessage ?m2"
    using fr by (simp_all add: largeMessage_def jausMessageCreate_def defaultProperties_def)
  have bytes: "dataBytes (reassembled ?m1) = replicate 5000 7" "dataBytes (reassembled ?m2) = replicate 6000 9"
    by (simp_all add: reassembled_def)
  from fr keys flags large bytes obtain m1 m2 f1 l1 f2 l2 where fr: "fragments m1 = f1 # [] @ [l1]" "fragments m2 = f2 # [] @ [l2]"
    and keys: "messageKey f1 = messageKey m1" "messageKey l1 = messageKey m1" "messageKey f2 = messageKey m2"
      "messageKey l2 = messageKey m2" "messageKey m1 \<noteq> messageKey m2"
    and flags: "dataFlag f1 = 1" "dataFlag l1 = 8" "dataFlag f2 = 1" "dataFlag l2 = 8"
    and large: "largeMessage m1" "largeMessage m2"
    and bytes: "dataBytes (reassembled m1) = replicate 5000 7" "dataBytes (reassembled m2) = replicate 6000 9"
    by blast
  have "arrives m1 [f1, l1]" "arrives m2 [f2, l2]" using fr unfolding arrives_def by force+
  then have ar: "\<forall>m \<in> set [m1, m2]. arrives m (filter (\<lambda>x. messageKey x = messageKey m) [f1, f2, l2, l1])"
    using keys by auto
  let ?t = "[f1, f2, l2, l1]"
  have "\<exists>h q ms'. receiveAll (\<lambda>_. 0) 0 ?t nmi = Some (nmi\<lparr>lmh := h, receiveQueue := q\<rparr>) \<and>
     lmOk h \<and> queueOk q \<and> mset ms' = mset [m1, m2] \<and>
     map messageKey ms' = map messageKey (filter (\<lambda>x. dataFlag x = JAUS_LAST_DATA_PACKET) ?t) \<and>
     queueList q = queueList (receiveQueue nmi) @ map reassembled ms' \<and>
     (\<forall>m \<in> set [m1, m2]. collected h (messageKey m) = None) \<and>
     (\<forall>k. k \<notin> messageKey ` set [m1, m2] \<longrightarrow>
         collected h k = foldl collectStep (collected (lmh nmi) k) (filter (\<lambda>x. messageKey x = k) ?t))"
    by (rule large_message_reassembled [OF lm q(1) _ _ _ ar]) (use large keys flags q(2) in simp_all)
  then obtain h q' ms' where r: "receiveAll (\<lambda>_. 0) 0 ?t nmi = Some (nmi\<lparr>lmh := h, receiveQueue := q'\<rparr>)"
    "mset ms' = mset [m1, m2]" "map messageKey ms' = map messageKey (filter (\<lambda>x. dataFlag x = JAUS_LAST_DATA_PACKET) ?t)"
    "queueList q' = queueList (receiveQueue nmi) @ map reassembled ms'" by blast
  have two: "map messageKey ms' = [messageKey m2, messageKey m1]" using r(3) keys flags by simp
  have "set ms' = {m1, m2}" using r(2) by (metis set_mset_mset list.set(1,2))
  then have "ms' = [m2, m1]" using two keys(5) by (auto simp: map_eq_Cons_conv)
  then show ?thesis using r(1,4) q(2) fr bytes
    by (intro exI [of _ m1] exI [of _ m2] exI [of _ nmi] exI [of _ "nmi\<lparr>lmh := h, receiveQueue := q'\<rparr>"]
        exI [of _ f1] exI [of _ l1] exI [of _ f2] exI [of _ l2]) simp
qed

text \<open>
  C33. The collection of fragments refines a map from command code and source to a list of
  fragments, on which a first fragment starts a new list, a normal one is appended unless its
  number is there already, a retransmitted one replaces the fragment with its number, and
  anything else is ignored. Other messages' fragments, the receive queue and the service connections are not touched.
\<close>

theorem fragment_collection_refines_map:
  assumes "lmOk (lmh nmi)" "dataFlag m \<noteq> JAUS_LAST_DATA_PACKET"
  shows "\<exists>h. lmHandlerReceiveLargeMessage fresh now nmi m = Some (nmi\<lparr>lmh := h\<rparr>) \<and> lmOk h \<and>
    collected h = (collected (lmh nmi))(messageKey m := collectStep (collected (lmh nmi) (messageKey m)) m)"
  by (rule receive_collects [OF assms])

theorem fragment_collection_refines_map_witness:
  "\<exists>nmi nmi'. lmHandlerReceiveLargeMessage (\<lambda>_. 0) 0 nmi (jausMessageCreate\<lparr>dataFlag := JAUS_FIRST_DATA_PACKET\<rparr>) = Some nmi' \<and>
     collected (lmh nmi') (0, jausAddressCreate) = Some [jausMessageCreate\<lparr>dataFlag := JAUS_FIRST_DATA_PACKET\<rparr>]"
proof -
  obtain nmi where n: "nodeManagerOpen (\<lambda>_. [2, 1, 33, 1, 1]) 5000 0 (Some undefined) = Some (Some nmi)"
    using nodeManagerOpen_example by blast
  have lm: "lmOk (lmh nmi)" using nodeManagerOpen_reach(9,10) [OF n] by (simp add: lmOk_def lmLists_def)
  let ?m = "jausMessageCreate\<lparr>dataFlag := JAUS_FIRST_DATA_PACKET\<rparr>"
  from fragment_collection_refines_map [OF lm, of ?m "\<lambda>_. 0" 0] obtain h where
    "lmHandlerReceiveLargeMessage (\<lambda>_. 0) 0 nmi ?m = Some (nmi\<lparr>lmh := h\<rparr>)"
    "collected h = (collected (lmh nmi))(messageKey ?m := collectStep (collected (lmh nmi) (messageKey ?m)) ?m)" by auto
  then show ?thesis
    by (intro exI [of _ nmi] exI [of _ "nmi\<lparr>lmh := h\<rparr>"]) (simp add: messageKey_def jausMessageCreate_def collectStep_def)
qed

text \<open>
  A last fragment that arrives while a number below it is missing is meant to discard the
  collected set and deliver nothing. That is what happens when the array of fragments has a spare slot; when the
  fragments fill their array exactly, the search for the missing number reads the slot
  behind the allocation before it compares the index with the number of elements.
\<close>

theorem missing_fragment:
  assumes "arrayOk a" "arrayList a \<noteq> []" "unat k \<le> unat lastNumber"
    "\<forall>j < unat k. \<exists>x \<in> set (arrayList a). unat (sequenceNumber x) = j"
    "\<forall>x \<in> set (arrayList a). sequenceNumber x \<noteq> (k :: u16)"
    "\<forall>x \<in> set (arrayList a). length (dataBytes x) = unat (dataSize x)"
    "sum_list (map (\<lambda>x. unat (dataSize x)) (arrayList a)) = length buf" "length buf < 2 ^ 32"
  shows "copyLoop (elementData a) (elementCount a) 0 (unat (lastNumber :: u16)) 0 buf =
    (if elementCount a = capacity a then None else Some None)"
proof -
  let ?xs = "arrayList a"
  obtain junk where j: "elementData a = map Some ?xs @ junk" "elementCount a = length ?xs"
    using arrayOk_split [OF assms(1)] by metis
  have cap: "junk = [] \<longleftrightarrow> elementCount a = capacity a" using assms(1) j by (auto simp: arrayOk_def)
  define g where "g = (\<lambda>n. the (withNumber ?xs n))"
  have g: "withNumber ?xs n = Some (g n) \<and> g n \<in> set ?xs \<and> unat (sequenceNumber (g n)) = n" if "n < unat k" for n
  proof -
    have "withNumber ?xs n \<noteq> None" using assms(4) that by (auto simp: withNumber_def find_None_iff)
    then obtain x where "withNumber ?xs n = Some x" by blast
    moreover from this have "x \<in> set ?xs" "unat (sequenceNumber x) = n"
      by (auto simp: withNumber_def find_Some_iff)
    ultimately show ?thesis by (simp add: g_def)
  qed
  have none: "findSeq (map Some ?xs @ junk) (length ?xs) (unat k) 0 = (if junk = [] then None else Some None)"
    using assms(5) by (intro findSeq_missing) (auto simp: word_unat_eq_iff)
  text \<open>The copies up to the gap fit, since they are of different fragments.\<close>
  have fits: "sum_list (map (\<lambda>i. unat (dataSize (g i))) [0..<n]) \<le> sum_list (map (\<lambda>x. unat (dataSize x)) ?xs)"
    if "n \<le> unat k" for n
  proof -
    have inj: "inj_on g {0..<n}" using g that by (intro inj_onI) (metis atLeastLessThan_iff order_less_le_trans)
    have "sum_list (map (\<lambda>i. unat (dataSize (g i))) [0..<n]) = sum (\<lambda>x. unat (dataSize x)) (g ` {0..<n})"
      by (simp add: sum.reindex [OF inj] sum_list_distinct_conv_sum_set)
    also have "\<dots> \<le> sum (\<lambda>x. unat (dataSize x)) (set ?xs)" using g that by (intro sum_mono2) auto
    also have "\<dots> \<le> sum_list (map (\<lambda>x. unat (dataSize x)) ?xs)" by (rule sum_set_le_sum_list)
    finally show ?thesis .
  qed
  have loop: "copyLoop (map Some ?xs @ junk) (length ?xs) n (unat lastNumber)
      (of_nat (sum_list (map (\<lambda>i. unat (dataSize (g i))) [0..<n]))) b = (if junk = [] then None else Some None)"
    if "n \<le> unat k" "length b = length buf" for n b
    using that
  proof (induction "unat k - n" arbitrary: n b)
    case 0
    then show ?case using none assms(3) by (subst copyLoop.simps) simp
  next
    case (Suc d)
    then have n: "n < unat k" by simp
    let ?i = "sum_list (map (\<lambda>i. unat (dataSize (g i))) [0..<n])"
    have len: "length (dataBytes (g n)) = unat (dataSize (g n))" using g [OF n] assms(6) by blast
    have room: "?i + unat (dataSize (g n)) \<le> length b" using fits [of "Suc n"] n assms(7) Suc.prems(2) by simp
    then have ui: "unat (of_nat ?i :: u32) = ?i" using assms(8) Suc.prems(2) by (intro unat_of_nat_lt) simp
    obtain b' where b': "memWrite b ?i (dataBytes (g n)) = Some b'" "length b' = length buf"
      using room len Suc.prems(2) by (simp add: memWrite_def)
    have "findSeq (map Some ?xs @ junk) (length ?xs) n 0 = Some (Some (g n))"
      using g [OF n] by (intro findSeq_found) (simp_all add: withNumber_def)
    moreover have "memRead (dataBytes (g n)) 0 (unat (dataSize (g n))) = Some (dataBytes (g n))"
      using len by (simp add: memRead_def)
    moreover have "copyLoop (map Some ?xs @ junk) (length ?xs) (Suc n) (unat lastNumber)
        (of_nat (?i + unat (dataSize (g n)))) b' = (if junk = [] then None else Some None)"
      using Suc.hyps(1) [of "Suc n" b'] Suc.hyps(2) n b'(2) by simp
    ultimately show ?case using n assms(3) b'(1) ui by (subst copyLoop.simps) simp
  qed
  show ?thesis using loop [of 0 buf] cap unfolding j by simp
qed

theorem missing_fragment_witness:
  "\<exists>a :: JausMessage JausArray. elementCount a = capacity a \<and> copyLoop (elementData a) (elementCount a) 0 1 0 [] = None"
proof -
  let ?m = "jausMessageCreate\<lparr>sequenceNumber := 1\<rparr>"
  let ?a = "\<lparr>elementData = replicate 8 (Some ?m), capacity = 8, capacityIncrement = 8, elementCount = 8\<rparr>"
  have "arrayOk ?a" "arrayList ?a = replicate 8 ?m" by (simp_all add: arrayOk_def arrayList_def)
  with missing_fragment [OF this(1), of 0 1 "[]"]
  have "copyLoop (elementData ?a) (elementCount ?a) 0 1 0 [] = None"
    by (simp add: jausMessageCreate_def dataBytes_def sum_list_replicate)
  then show ?thesis by (intro exI [of _ ?a]) simp
qed

end
