(* ===== verification/NodeReceive.thy ===== *)
theory NodeReceive
  imports LmHandler
begin

text \<open>
  The receiving side of the node manager interface
  (\<open>openjaus/src/libopenjaus/nodeManagerInterface/nodeManagerInterface.c\<close>): the loop of the receive
  thread, the two receive calls of the application and the core service connections.

  The packet buffer of 4096 bytes lives as long as the thread: a datagram overwrites its front
  and leaves the rest. The parser is given the size of the buffer, not of the datagram.
\<close>

section \<open>The receive thread\<close>

definition JAUS_OPC_UDP_HEADER :: bytes where
  "JAUS_OPC_UDP_HEADER = [0x4A, 0x41, 0x55, 0x53, 0x30, 0x31, 0x2E, 0x30]"

text \<open>The buffer after \<open>datagramSocketReceive\<close>; a longer datagram is cut off.\<close>

definition fillPacket :: "bytes \<Rightarrow> bytes \<Rightarrow> bytes" where
  "fillPacket buffer datagram = take 4096 datagram @ drop (length (take 4096 datagram)) buffer"

text \<open>Messages that control service connections go to the application although their flag is set.\<close>

definition isScControl :: "u16 \<Rightarrow> bool" where
  "isScControl code \<longleftrightarrow>
     (JAUS_CREATE_SERVICE_CONNECTION \<le> code \<and> code \<le> JAUS_TERMINATE_SERVICE_CONNECTION) \<or>
     code = JAUS_CREATE_EVENT \<or> code = JAUS_CONFIRM_EVENT_REQUEST \<or> code = JAUS_CANCEL_EVENT"

definition enqueue :: "NodeManagerInterface \<Rightarrow> JausMessage \<Rightarrow> NodeManagerInterface exec" where
  "enqueue nmi m = do { q \<leftarrow> queuePush (receiveQueue nmi) m; Some (nmi\<lparr>receiveQueue := q\<rparr>) }"

definition dispatchReceived ::
    "(nat \<Rightarrow> u8) \<Rightarrow> real \<Rightarrow> NodeManagerInterface \<Rightarrow> JausMessage \<Rightarrow> NodeManagerInterface exec" where
  "dispatchReceived fresh now nmi message =
     (if dataFlag message \<noteq> 0 then lmHandlerReceiveLargeMessage fresh now nmi message
      else if scFlag (properties message) \<noteq> 0
      then (if isScControl (commandCode message) then enqueue nmi message
            else scManagerReceiveMessage now nmi message)
      else enqueue nmi message)"

text \<open>A transport header in front of the message is skipped.\<close>

definition udpIndex :: "bytes \<Rightarrow> nat" where
  "udpIndex buffer = (if take 8 buffer = JAUS_OPC_UDP_HEADER then 8 else 0)"

definition receiveRound ::
    "(nat \<Rightarrow> u8) \<Rightarrow> real \<Rightarrow> bytes \<Rightarrow> bytes \<times> NodeManagerInterface \<Rightarrow> (bytes \<times> NodeManagerInterface) exec" where
  "receiveRound fresh now datagram s =
     (case s of (packet, nmi) \<Rightarrow>
        if datagram = [] then Some (packet, nmi)
        else (let buffer = fillPacket packet datagram;
                  index = udpIndex buffer
              in do { (ok, message) \<leftarrow> jausMessageFromBuffer jausMessageCreate buffer index (4096 - of_nat index);
                      if ok
                      then do { nmi' \<leftarrow> dispatchReceived fresh now nmi message;
                                Some (buffer, nmi'\<lparr>receiveCount := receiveCount nmi' + 1\<rparr>) }
                      else Some (buffer, nmi) }))"

text \<open>The loop over the datagrams that arrive while the interface is open.\<close>

fun receiveLoop ::
    "(nat \<Rightarrow> u8) \<Rightarrow> real \<Rightarrow> bytes list \<Rightarrow> bytes \<times> NodeManagerInterface \<Rightarrow> (bytes \<times> NodeManagerInterface) exec" where
  "receiveLoop fresh now [] s = Some s"
| "receiveLoop fresh now (d # ds) s =
     (if isOpen (snd s) then do { s' \<leftarrow> receiveRound fresh now d s; receiveLoop fresh now ds s' } else Some s)"

definition receiveThread ::
    "(nat \<Rightarrow> u8) \<Rightarrow> real \<Rightarrow> bytes list \<Rightarrow> NodeManagerInterface \<Rightarrow> NodeManagerInterface exec" where
  "receiveThread fresh now datagrams nmi =
     do { (packet, nmi') \<leftarrow> receiveLoop fresh now datagrams (replicate 4096 0, nmi\<lparr>receiveCount := 0\<rparr>); Some nmi' }"

section \<open>The application's receive calls\<close>

abbreviation (input) NMI_MESSAGE_RECEIVED :: int where "NMI_MESSAGE_RECEIVED \<equiv> 1"
abbreviation (input) NMI_RECEIVE_TIMED_OUT :: int where "NMI_RECEIVE_TIMED_OUT \<equiv> 2"
abbreviation (input) NMI_CONDITIONAL_WAIT_ERROR :: int where "NMI_CONDITIONAL_WAIT_ERROR \<equiv> 3"
abbreviation (input) NMI_CLOSED_ERROR :: int where "NMI_CLOSED_ERROR \<equiv> 4"

text \<open>The return code, the new value of \<open>*message\<close> (the outer option: whether it is written) and the state.\<close>

definition nodeManagerReceive ::
    "NodeManagerInterface \<Rightarrow> (int \<times> JausMessage option option \<times> NodeManagerInterface) exec" where
  "nodeManagerReceive nmi =
     (if isOpen nmi \<and> qsize (receiveQueue nmi) \<noteq> 0
      then do { (m, q) \<leftarrow> queuePop (receiveQueue nmi); Some (1, Some m, nmi\<lparr>receiveQueue := q\<rparr>) }
      else Some (0, None, nmi))"

text \<open>
  The wait on the condition variable: its result (0, \<open>ETIMEDOUT\<close> or an error) and the interface as the
  receive thread has left it meanwhile are the parameter \<open>wait\<close>.
\<close>

datatype WaitResult = Signalled | TimedOut | WaitError

definition nodeManagerTimedReceive ::
    "real \<Rightarrow> (NodeManagerInterface \<Rightarrow> WaitResult \<times> NodeManagerInterface) \<Rightarrow> NodeManagerInterface \<Rightarrow> real \<Rightarrow>
     (int \<times> JausMessage option option \<times> NodeManagerInterface) exec" where
  "nodeManagerTimedReceive now wait nmi timeLimitSec =
     (if isOpen nmi
      then (if now > timeLimitSec then Some (NMI_RECEIVE_TIMED_OUT, None, nmi)
            else if qsize (receiveQueue nmi) \<noteq> 0
            then do { (m, q) \<leftarrow> queuePop (receiveQueue nmi);
                      Some (NMI_MESSAGE_RECEIVED, Some m, nmi\<lparr>receiveQueue := q\<rparr>) }
            else (case wait nmi of
                    (Signalled, nmi1) \<Rightarrow>
                      do { (m, q) \<leftarrow> queuePop (receiveQueue nmi1);
                           Some (NMI_MESSAGE_RECEIVED, Some m, nmi1\<lparr>receiveQueue := q\<rparr>) }
                  | (TimedOut, nmi1) \<Rightarrow> Some (NMI_RECEIVE_TIMED_OUT, None, nmi1)
                  | (WaitError, nmi1) \<Rightarrow> Some (NMI_CONDITIONAL_WAIT_ERROR, None, nmi1)))
      else Some (NMI_CLOSED_ERROR, None, nmi))"

section \<open>Core service connections\<close>

definition statusReport :: "NodeManagerInterface \<Rightarrow> ServiceConnection \<Rightarrow> ReportComponentStatusMessage" where
  "statusReport nmi sc =
     reportComponentStatusMessageCreate
       \<lparr>source := cmptAddress (cmpt nmi),
        properties := (properties reportComponentStatusMessageCreate)\<lparr>scFlag := 1\<rparr>,
        reportComponentStatus_primaryStatusCode := cmptState (cmpt nmi),
        destination := scAddress sc, sequenceNumber := scSequenceNumber sc\<rparr>"

definition authorityReport :: "NodeManagerInterface \<Rightarrow> ServiceConnection \<Rightarrow> ReportComponentAuthorityMessage" where
  "authorityReport nmi sc =
     reportComponentAuthorityMessageCreate
       \<lparr>source := cmptAddress (cmpt nmi),
        properties := (properties reportComponentAuthorityMessageCreate)\<lparr>scFlag := 1\<rparr>,
        reportComponentAuthority_authorityCode := cmptAuthority (cmpt nmi),
        destination := scAddress sc, sequenceNumber := scSequenceNumber sc\<rparr>"

fun sendStatus :: "sendto \<Rightarrow> ServiceConnection list \<Rightarrow> NodeManagerInterface \<Rightarrow> NodeManagerInterface exec" where
  "sendStatus os [] nmi = Some nmi"
| "sendStatus os (sc # rest) nmi =
     do { nmi' \<leftarrow> transmit os nmi (reportComponentStatusMessageToJausMessage (statusReport nmi sc));
          sendStatus os rest nmi' }"

fun sendAuthority :: "sendto \<Rightarrow> ServiceConnection list \<Rightarrow> NodeManagerInterface \<Rightarrow> NodeManagerInterface exec" where
  "sendAuthority os [] nmi = Some nmi"
| "sendAuthority os (sc # rest) nmi =
     do { nmi' \<leftarrow> transmit os nmi (reportComponentAuthorityMessageToJausMessage (authorityReport nmi sc));
          sendAuthority os rest nmi' }"

definition nodeManagerSendCoreServiceConnections ::
    "sendto \<Rightarrow> real \<Rightarrow> NodeManagerInterface \<Rightarrow> NodeManagerInterface exec" where
  "nodeManagerSendCoreServiceConnections os now nmi =
     (let (scs, nmi1) = scManagerGetSendList now nmi JAUS_REPORT_COMPONENT_STATUS
      in do { nmi2 \<leftarrow> sendStatus os scs nmi1;
              (let (as, nmi3) = scManagerGetSendList now nmi2 JAUS_REPORT_COMPONENT_AUTHORITY
               in sendAuthority os as nmi3) })"

section \<open>Lemmas on the receive thread\<close>

lemma whole_data: "data m \<noteq> None \<Longrightarrow> m\<lparr>data := Some (dataBytes m)\<rparr> = m"
  by (cases m) (auto simp: dataBytes_def)

lemma length_fillPacket: "length packet = 4096 \<Longrightarrow> length (fillPacket packet d) = 4096"
  by (simp add: fillPacket_def)

text \<open>The only command code whose header can be taken for the transport header is 0x5355.\<close>

lemma no_transport_header:
  assumes "take 8 (headerBytes m @ rest) = JAUS_OPC_UDP_HEADER"
  shows "commandCode m = 0x5355"
proof -
  have b: "headerBytes m ! 2 = 0x55" "headerBytes m ! 3 = 0x53"
    using arg_cong [OF assms, of "\<lambda>l. l ! 2"] arg_cong [OF assms, of "\<lambda>l. l ! 3"]
    by (simp_all add: JAUS_OPC_UDP_HEADER_def nth_append)
  have "commandCode m = ucast (headerBytes m ! 2) + push_bit 8 (ucast (headerBytes m ! 3))"
    unfolding headerBytes_def by (simp add: unpack_ushort del: push_bit_and drop_bit_and)
  then show ?thesis unfolding b by simp
qed

lemma receiveRound_parse:
  assumes "fillPacket packet d = messageBytes m @ rest" "d \<noteq> []"
    "messageOk m" "unat (dataSize m) \<le> 4080" "commandCode m \<noteq> 0x5355"
  shows "receiveRound fresh now d (packet, nmi) =
    do { nmi' \<leftarrow> dispatchReceived fresh now nmi (m\<lparr>data := Some (dataBytes m)\<rparr>);
         Some (fillPacket packet d, nmi'\<lparr>receiveCount := receiveCount nmi' + 1\<rparr>) }"
proof -
  have "take 8 (fillPacket packet d) \<noteq> JAUS_OPC_UDP_HEADER"
    using no_transport_header [of m "dataBytes m @ rest"] assms(5) by (auto simp: assms(1) messageBytes_def)
  moreover have "jausMessageFromBuffer jausMessageCreate (fillPacket packet d) 0 4096 =
      Some (True, m\<lparr>data := Some (dataBytes m)\<rparr>)"
    unfolding assms(1) using jausMessageFromBuffer_spec [OF assms(3)] assms(4) by simp
  ultimately show ?thesis using assms(2) by (simp add: receiveRound_def udpIndex_def Let_def)
qed

lemma receiveRound_message:
  assumes "length packet = 4096" "messageOk m" "unat (dataSize m) \<le> 4080" "commandCode m \<noteq> 0x5355"
  shows "receiveRound fresh now (messageBytes m) (packet, nmi) =
    do { nmi' \<leftarrow> dispatchReceived fresh now nmi (m\<lparr>data := Some (dataBytes m)\<rparr>);
         Some (fillPacket packet (messageBytes m), nmi'\<lparr>receiveCount := receiveCount nmi' + 1\<rparr>) }"
proof -
  have len: "length (messageBytes m) \<le> 4096" "messageBytes m \<noteq> []"
    using messageOk_sizes(3) [OF assms(2)] assms(3) by auto
  then have "fillPacket packet (messageBytes m) = messageBytes m @ drop (length (messageBytes m)) packet"
    by (simp add: fillPacket_def)
  from receiveRound_parse [OF this len(2) assms(2-4)] show ?thesis .
qed

text \<open>The counter of received messages and the flag of the interface play no part in the handling of fragments.\<close>

lemma map_option_distrib:
  "map_option f (Option.bind x g) = Option.bind x (\<lambda>y. map_option f (g y))"
  "map_option f (if b then x' else y') = (if b then map_option f x' else map_option f y')"
  "map_option f (case o' of None \<Rightarrow> u | Some z \<Rightarrow> v z) = (case o' of None \<Rightarrow> map_option f u | Some z \<Rightarrow> map_option f (v z))"
  "map_option f (case p of (a, b) \<Rightarrow> w a b) = (case p of (a, b) \<Rightarrow> map_option f (w a b))"
  by (cases x, simp_all split: option.split prod.split)

lemma bind_map_option: "Option.bind (map_option f x) g = Option.bind x (\<lambda>y. g (f y))"
  by (cases x) simp_all

lemma frame_last:
  fixes n :: NodeManagerInterface
  shows "n\<lparr>isOpen := o', receiveCount := c, lmh := h\<rparr> = n\<lparr>lmh := h, isOpen := o', receiveCount := c\<rparr>"
    "n\<lparr>isOpen := o', receiveCount := c, receiveQueue := q\<rparr> = n\<lparr>receiveQueue := q, isOpen := o', receiveCount := c\<rparr>"
    "n\<lparr>isOpen := o', receiveCount := c, scm := s\<rparr> = n\<lparr>scm := s, isOpen := o', receiveCount := c\<rparr>"
  by simp_all

lemma scManagerReceiveMessage_frame:
  "scManagerReceiveMessage now (nmi\<lparr>isOpen := o', receiveCount := c\<rparr>) m =
    map_option (\<lambda>n. n\<lparr>isOpen := o', receiveCount := c\<rparr>) (scManagerReceiveMessage now nmi m)"
  by (simp add: scManagerReceiveMessage_def map_option_distrib storeSc_def frame_last
      cong: option.case_cong prod.case_cong if_cong)

lemma deliver_frame:
  "deliver now (nmi\<lparr>isOpen := o', receiveCount := c\<rparr>) m = map_option (\<lambda>n. n\<lparr>isOpen := o', receiveCount := c\<rparr>) (deliver now nmi m)"
  by (simp add: deliver_def map_option_distrib scManagerReceiveMessage_frame frame_last)

lemma receiveLarge_frame:
  "lmHandlerReceiveLargeMessage fresh now (nmi\<lparr>isOpen := o', receiveCount := c\<rparr>) m =
    map_option (\<lambda>n. n\<lparr>isOpen := o', receiveCount := c\<rparr>) (lmHandlerReceiveLargeMessage fresh now nmi m)"
proof -
  note defs = map_option_distrib Let_def frame_last deliver_frame bind_map_option
  have "receiveFirst (nmi\<lparr>isOpen := o', receiveCount := c\<rparr>) m = map_option (\<lambda>n. n\<lparr>isOpen := o', receiveCount := c\<rparr>) (receiveFirst nmi m)"
    by (cases nmi) (simp add: receiveFirst_def defs cong: option.case_cong prod.case_cong if_cong)
  moreover have "receiveNormal (nmi\<lparr>isOpen := o', receiveCount := c\<rparr>) m = map_option (\<lambda>n. n\<lparr>isOpen := o', receiveCount := c\<rparr>) (receiveNormal nmi m)"
    by (cases nmi) (simp add: receiveNormal_def defs cong: option.case_cong prod.case_cong if_cong)
  moreover have "receiveRetransmitted (nmi\<lparr>isOpen := o', receiveCount := c\<rparr>) m =
      map_option (\<lambda>n. n\<lparr>isOpen := o', receiveCount := c\<rparr>) (receiveRetransmitted nmi m)"
    by (cases nmi) (simp add: receiveRetransmitted_def defs cong: option.case_cong prod.case_cong if_cong)
  moreover have "receiveLast fresh now (nmi\<lparr>isOpen := o', receiveCount := c\<rparr>) m =
      map_option (\<lambda>n. n\<lparr>isOpen := o', receiveCount := c\<rparr>) (receiveLast fresh now nmi m)"
    by (simp add: receiveLast_def defs cong: option.case_cong prod.case_cong if_cong)
  ultimately show ?thesis by (simp add: lmHandlerReceiveLargeMessage_def)
qed

lemma receiveLarge_isOpen:
  assumes "lmHandlerReceiveLargeMessage fresh now nmi m = Some n'"
  shows "isOpen n' = isOpen nmi" "receiveCount n' = receiveCount nmi"
proof -
  have "n' = n'\<lparr>isOpen := isOpen nmi, receiveCount := receiveCount nmi\<rparr>"
    using receiveLarge_frame [where nmi = nmi and o' = "isOpen nmi" and c = "receiveCount nmi", of fresh now m] assms
    by (cases nmi) simp
  then show "isOpen n' = isOpen nmi" "receiveCount n' = receiveCount nmi"
    by (metis NodeManagerInterface.select_convs(3,4) NodeManagerInterface.surjective
        NodeManagerInterface.update_convs(3,4))+
qed

lemma receiveLarge_count:
  assumes "lmHandlerReceiveLargeMessage fresh now nmi m = Some n'"
  shows "lmHandlerReceiveLargeMessage fresh now (nmi\<lparr>receiveCount := c\<rparr>) m = Some (n'\<lparr>receiveCount := c\<rparr>)"
  using receiveLarge_frame [where nmi = nmi and o' = "isOpen nmi"] receiveLarge_isOpen(1) [OF assms] assms by simp

text \<open>A message as \<open>nodeManagerSendSingleMessage\<close> puts it into one datagram.\<close>

definition singleDatagram :: "JausMessage \<Rightarrow> bool" where
  "singleDatagram m \<longleftrightarrow> messageOk m \<and> unat (dataSize m) \<le> 4080 \<and> commandCode m \<noteq> 0x5355"

lemma receiveLoop_fragments:
  assumes "isOpen nmi" "length packet = 4096" "receiveAll fresh now ms nmi = Some nmi'"
    "\<forall>m \<in> set ms. singleDatagram m \<and> dataFlag m \<noteq> 0 \<and> data m \<noteq> None"
  shows "\<exists>packet'. receiveLoop fresh now (map messageBytes ms) (packet, nmi\<lparr>receiveCount := c\<rparr>) =
    Some (packet', nmi'\<lparr>receiveCount := c + int (length ms)\<rparr>) \<and> length packet' = 4096"
  using assms
proof (induction ms arbitrary: nmi packet c)
  case Nil
  then show ?case by simp
next
  case (Cons m ms)
  obtain n1 where n1: "lmHandlerReceiveLargeMessage fresh now nmi m = Some n1" "receiveAll fresh now ms n1 = Some nmi'"
    using Cons.prems(3) by (auto simp: bind_eq_Some_conv)
  have "isOpen n1" using receiveLarge_isOpen [OF n1(1)] Cons.prems(1) by simp
  moreover have "length (fillPacket packet (messageBytes m)) = 4096" using length_fillPacket Cons.prems(2) .
  ultimately obtain packet' where
    IH: "receiveLoop fresh now (map messageBytes ms) (fillPacket packet (messageBytes m), n1\<lparr>receiveCount := c + 1\<rparr>) =
      Some (packet', nmi'\<lparr>receiveCount := c + 1 + int (length ms)\<rparr>)" "length packet' = 4096"
    using Cons.IH [OF _ _ n1(2)] Cons.prems(4) by (metis list.set_intros(2))
  have m: "messageOk m" "unat (dataSize m) \<le> 4080" "commandCode m \<noteq> 0x5355" "dataFlag m \<noteq> 0"
    "m\<lparr>data := Some (dataBytes m)\<rparr> = m"
    using Cons.prems(4) whole_data [of m] by (simp_all add: singleDatagram_def)
  have "receiveRound fresh now (messageBytes m) (packet, nmi\<lparr>receiveCount := c\<rparr>) =
      Some (fillPacket packet (messageBytes m), n1\<lparr>receiveCount := c + 1\<rparr>)"
    using receiveRound_message [OF Cons.prems(2) m(1-3)] m(4,5)
    by (simp add: dispatchReceived_def receiveLarge_count [OF n1(1)])
  then show ?case using IH Cons.prems(1) by (simp add: add.assoc)
qed

lemma fragment_count:
  "length (fragmentsFrom m i d) = (if d = [] then 1 else (length d + 4079) div 4080)"
proof (induction m i d rule: fragmentsFrom.induct)
  case (1 m i d)
  show ?case
  proof (cases "4080 < length d")
    case True
    then have "length d + 4079 = (length (drop 4080 d) + 4079) + 4080" by simp
    then have "(length d + 4079) div 4080 = (length (drop 4080 d) + 4079) div 4080 + 1" by simp
    then show ?thesis using 1 [OF True] True by (subst fragmentsFrom.simps) auto
  next
    case False
    then have "d \<noteq> [] \<Longrightarrow> (length d + 4079) div 4080 = 1"
      by (intro div_nat_eqI) (auto simp: Suc_le_eq)
    then show ?thesis using False by (subst fragmentsFrom.simps) auto
  qed
qed

lemma fragmentsFrom_datagrams:
  assumes "commandCode m \<noteq> 0x5355"
  shows "\<forall>x \<in> set (fragmentsFrom m i d). singleDatagram x \<and> dataFlag x \<noteq> 0 \<and> data x \<noteq> None"
  using assms
proof (induction m i d rule: fragmentsFrom.induct)
  case (1 m i d)
  have ok: "length b = unat s \<Longrightarrow> unat s \<le> 4080 \<Longrightarrow> f < 0x10 \<Longrightarrow> singleDatagram (fragmentMessage m i f s b)" for f s b
    using 1(2) by (simp add: singleDatagram_def fragmentMessage_ok word_less_nat_alt)
  show ?case
  proof (cases "4080 < length d")
    case True
    then show ?thesis using 1 ok by (subst fragmentsFrom.simps) auto
  next
    case False
    then have "unat (of_nat (length d) :: u32) = length d" by (intro unat_of_nat_lt) simp
    then show ?thesis using False ok by (subst fragmentsFrom.simps) auto
  qed
qed

lemma receive_small:
  assumes "isOpen receiver" "queueOk (receiveQueue receiver)" "length (queueList (receiveQueue receiver)) < 2 ^ 31 - 1"
    "length packet = 4096" "singleDatagram m" "dataFlag m = JAUS_SINGLE_DATA_PACKET" "scFlag (properties m) = 0"
  shows "\<exists>packet' q. receiveLoop fresh now [messageBytes m] (packet, receiver) =
      Some (packet', receiver\<lparr>receiveQueue := q, receiveCount := receiveCount receiver + 1\<rparr>) \<and>
    queueOk q \<and> queueList q = queueList (receiveQueue receiver) @ [m\<lparr>data := Some (dataBytes m)\<rparr>]"
proof -
  obtain q where "queuePush (receiveQueue receiver) (m\<lparr>data := Some (dataBytes m)\<rparr>) = Some q" "queueOk q"
    "queueList q = queueList (receiveQueue receiver) @ [m\<lparr>data := Some (dataBytes m)\<rparr>]"
    using queuePush_ok [OF assms(2,3)] by blast
  then show ?thesis
    using receiveRound_message [OF assms(4), of m fresh now receiver] assms
    by (intro exI [of _ "fillPacket packet (messageBytes m)"] exI [of _ q])
      (simp add: singleDatagram_def dispatchReceived_def enqueue_def)
qed

lemma receive_large:
  assumes "isOpen receiver" "lmOk (lmh receiver)" "queueOk (receiveQueue receiver)"
    "length (queueList (receiveQueue receiver)) < 2 ^ 31 - 1"
    "length packet = 4096" "4080 < unat (dataSize m)" "length (dataBytes m) = unat (dataSize m)"
    "length (fragments m) \<le> 65536" "scFlag (properties m) = 0" "commandCode m \<noteq> 0x5355"
  shows "\<exists>packet' h q. receiveLoop fresh now (map messageBytes (fragments m)) (packet, receiver) =
      Some (packet', receiver\<lparr>lmh := h, receiveQueue := q,
                              receiveCount := receiveCount receiver + int (length (fragments m))\<rparr>) \<and>
    lmOk h \<and> queueOk q \<and> queueList q = queueList (receiveQueue receiver) @
      [m\<lparr>dataFlag := JAUS_SINGLE_DATA_PACKET, sequenceNumber := of_nat (length (fragments m) - 1), data := Some (dataBytes m)\<rparr>]"
proof -
  obtain b mids s b' where sh: "fragments m = fragmentMessage m 0 1 4080 b # mids @ [fragmentMessage m (1 + length mids) 8 s b']"
    "\<forall>x \<in> set mids. dataFlag x = 2" using fragments_shape [OF assms(6,7)] by blast
  let ?t = "fragmentMessage m 0 1 4080 b # mids" and ?l = "fragmentMessage m (1 + length mids) 8 s b'"
  have frs: "fragments m = fragmentsFrom m 0 (dataBytes m)" using assms(6) by (simp add: fragments_def)
  have "messageKey x = messageKey m" if "x \<in> set (fragments m)" for x
    using that fragmentsFrom_sizes unfolding frs by blast
  then have keys: "filter (\<lambda>x. messageKey x = messageKey m) ?t = ?t" using sh(1) by (intro filter_True) auto
  obtain h q where r: "receiveAll fresh now (?t @ [?l]) receiver = Some (receiver\<lparr>lmh := h, receiveQueue := q\<rparr>)"
    "lmOk h" "queueOk q" "queueList q = queueList (receiveQueue receiver) @
       [m\<lparr>dataFlag := JAUS_SINGLE_DATA_PACKET, sequenceNumber := of_nat (length mids + 1), data := Some (dataBytes m)\<rparr>]"
    using reassemble [OF assms(2,3,4,6,7,9) sh(1) assms(8) _ keys refl, of fresh now] sh(2) by auto
  have "\<forall>x \<in> set (fragments m). singleDatagram x \<and> dataFlag x \<noteq> 0 \<and> data x \<noteq> None"
    using fragmentsFrom_datagrams [OF assms(10)] unfolding frs by blast
  moreover have "fragments m = ?t @ [?l]" using sh(1) by simp
  ultimately obtain packet' where
    "receiveLoop fresh now (map messageBytes (fragments m)) (packet, receiver\<lparr>receiveCount := receiveCount receiver\<rparr>) =
      Some (packet', receiver\<lparr>lmh := h, receiveQueue := q, receiveCount := receiveCount receiver + int (length (fragments m))\<rparr>)"
    using receiveLoop_fragments [OF assms(1,5), of fresh now "fragments m"] r(1) by metis
  then show ?thesis using r(2-4) sh(1) by auto
qed

text \<open>A parsed message that does not complete a large one is handled without an invalid access.\<close>

lemma scManagerReceiveMessage_scm:
  assumes "scManagerReceiveMessage now nmi m = Some n'"
  shows "\<exists>s. n' = nmi\<lparr>scm := s\<rparr>"
proof -
  from assms obtain r where r: "findIncoming (scStore (scm nmi)) (scFor (commandCode m) (source m)) (incomingSc (scm nmi)) = Some r"
    by (auto simp: scManagerReceiveMessage_def bind_eq_Some_conv)
  have same: "\<exists>s. nmi = nmi\<lparr>scm := s\<rparr>" by (intro exI [of _ "scm nmi"]) simp
  show ?thesis
  proof (cases r)
    case None
    then show ?thesis using assms r same by (simp add: scManagerReceiveMessage_def)
  next
    case (Some psc)
    obtain p sc where "psc = (p, sc)" by fastforce
    then show ?thesis
      using assms r same Some
      by (cases "isActive sc") (auto simp: scManagerReceiveMessage_def storeSc_def bind_eq_Some_conv)
  qed
qed

lemma dispatch_ok:
  assumes "scOk (scm nmi)" "lmOk (lmh nmi)" "queueOk (receiveQueue nmi)"
    "length (queueList (receiveQueue nmi)) < 2 ^ 31 - 1"
    "\<forall>p sc q. scStore (scm nmi) p = Some sc \<longrightarrow> scQueue sc = Some q \<longrightarrow> length (queueList q) < 2 ^ 31 - 1"
    "dataFlag m = JAUS_LAST_DATA_PACKET \<longrightarrow> collected (lmh nmi) (messageKey m) = None"
  shows "\<exists>nmi'. dispatchReceived fresh now nmi m = Some nmi' \<and> scOk (scm nmi') \<and> lmOk (lmh nmi') \<and>
    queueOk (receiveQueue nmi') \<and> receiveCount nmi' = receiveCount nmi \<and>
    length (queueList (receiveQueue nmi')) \<le> length (queueList (receiveQueue nmi)) + 1"
proof -
  obtain q where q: "queuePush (receiveQueue nmi) m = Some q" "queueOk q" "queueList q = queueList (receiveQueue nmi) @ [m]"
    using queuePush_ok [OF assms(3,4)] by blast
  obtain n1 where n1: "scManagerReceiveMessage now nmi m = Some n1" "scOk (scm n1)"
    using receiveMessage_ok [OF assms(1), of now m] assms(5) by auto
  obtain h where h: "lmHandlerReceiveLargeMessage fresh now nmi m = Some (nmi\<lparr>lmh := h\<rparr>)" "lmOk h"
    using receive_collects [OF assms(2)] last_uncollected [OF assms(2) _ mp [OF assms(6)], of fresh now] assms(2)
    by (cases "dataFlag m = JAUS_LAST_DATA_PACKET") (metis NodeManagerInterface.surjective NodeManagerInterface.update_convs(8))+
  show ?thesis
    using q n1 h assms scManagerReceiveMessage_scm [OF n1(1)]
    by (auto simp: dispatchReceived_def enqueue_def)
qed

section \<open>Lemmas on the core service connections\<close>

lemma find_other:
  assumes "supCommandCode s' = code" "code' \<noteq> code"
  shows "scFindSupportedScMsgInList (updateSupported l code s') code' = scFindSupportedScMsgInList l code'"
  using assms by (induction l) auto

lemma getSendList_frame:
  assumes "scManagerGetSendList now nmi code = (out, nmi')"
  shows "cmpt nmi' = cmpt nmi" "isOpen nmi' = isOpen nmi" "sent nmi' = sent nmi"
    "code' \<noteq> code \<Longrightarrow> outConns nmi' code' = outConns nmi code'"
  using assms find_code
  by (auto simp: scManagerGetSendList_def outConns_def find_other split: option.splits prod.splits)

text \<open>The report a peer finds in a datagram.\<close>

definition statusJm :: "NodeManagerInterface \<Rightarrow> ServiceConnection \<Rightarrow> JausMessage" where
  "statusJm nmi sc = the (reportComponentStatusMessageToJausMessage (statusReport nmi sc))"

definition authorityJm :: "NodeManagerInterface \<Rightarrow> ServiceConnection \<Rightarrow> JausMessage" where
  "authorityJm nmi sc = the (reportComponentAuthorityMessageToJausMessage (authorityReport nmi sc))"

lemma transmit_status:
  "transmit os nmi (reportComponentStatusMessageToJausMessage (statusReport nmi sc)) = Some (logSent nmi (statusJm nmi sc))"
  unfolding reportComponentStatusMessageToJausMessage_def statusJm_def
  by (rule reportComponentStatus.transmits)
    (simp_all add: statusReport_def reportComponentStatusMessageCreate_def reportComponentStatus_dataInitialize_def
      blankHeader_def JausHeader.extend_def reportComponentStatus_dataSize_def)

lemma transmit_authority:
  "transmit os nmi (reportComponentAuthorityMessageToJausMessage (authorityReport nmi sc)) =
    Some (logSent nmi (authorityJm nmi sc))"
  unfolding reportComponentAuthorityMessageToJausMessage_def authorityJm_def
  by (rule reportComponentAuthority.transmits)
    (simp_all add: authorityReport_def reportComponentAuthorityMessageCreate_def reportComponentAuthority_dataInitialize_def
      blankHeader_def JausHeader.extend_def reportComponentAuthority_dataSize_def)

lemma report_cmpt:
  "statusJm (logSent nmi m) = statusJm nmi" "authorityJm (logSent nmi m) = authorityJm nmi"
  by (simp_all add: fun_eq_iff statusJm_def authorityJm_def statusReport_def authorityReport_def)

lemma sendStatus_spec:
  "sendStatus os scs nmi = Some (foldl (\<lambda>n x. logSent n (statusJm nmi x)) nmi scs)"
  by (induction scs arbitrary: nmi) (simp_all add: transmit_status report_cmpt)

lemma sendAuthority_spec:
  "sendAuthority os scs nmi = Some (foldl (\<lambda>n x. logSent n (authorityJm nmi x)) nmi scs)"
  by (induction scs arbitrary: nmi) (simp_all add: transmit_authority report_cmpt)

lemma foldl_logSent_frame [simp]:
  "cmpt (foldl (\<lambda>n x. logSent n (f x)) nmi l) = cmpt nmi" "isOpen (foldl (\<lambda>n x. logSent n (f x)) nmi l) = isOpen nmi"
  "scm (foldl (\<lambda>n x. logSent n (f x)) nmi l) = scm nmi"
  by (induction l arbitrary: nmi) simp_all

lemma report_fields:
  "statusJm nmi (sc\<lparr>lastSentTime := t\<rparr>) = statusJm nmi sc" "authorityJm nmi (sc\<lparr>lastSentTime := t\<rparr>) = authorityJm nmi sc"
  by (simp_all add: statusJm_def authorityJm_def statusReport_def authorityReport_def)

lemma report_same_cmpt: "cmpt n = cmpt nmi \<Longrightarrow> statusJm n = statusJm nmi" "cmpt n = cmpt nmi \<Longrightarrow> authorityJm n = authorityJm nmi"
  by (simp_all add: fun_eq_iff statusJm_def authorityJm_def statusReport_def authorityReport_def)

text \<open>A peer reads the report back.\<close>

lemma status_read_back:
  assumes "0 \<le> cmptState (cmpt nmi)" "cmptState (cmpt nmi) < 256"
  shows "\<exists>r. reportComponentStatusMessageFromJausMessage junk (statusJm nmi sc) = Some (Some r) \<and>
    destination r = scAddress sc \<and> sequenceNumber r = scSequenceNumber sc \<and> scFlag (properties r) = 1 \<and>
    reportComponentStatus_primaryStatusCode r = cmptState (cmpt nmi)"
proof -
  have c: "commandCode (statusReport nmi sc) = JAUS_REPORT_COMPONENT_STATUS"
    by (simp add: statusReport_def reportComponentStatusMessageCreate_def reportComponentStatus_dataInitialize_def
        blankHeader_def JausHeader.extend_def)
  have byte: "uint (word_of_int (cmptState (cmpt nmi)) :: u8) = cmptState (cmpt nmi)"
    using assms by (simp add: uint_word_of_int)
  show ?thesis
    using reportComponentStatus.jaus_roundtrip [OF c, of junk] byte
    by (auto simp: statusJm_def reportComponentStatusMessageFromJausMessage_def
        reportComponentStatusMessageToJausMessage_def reportComponentStatus_withData_def copyHeader_def statusReport_def)
qed

section \<open>Properties\<close>

text \<open>
  C2. End to end: a message of up to 65536 fragments that one interface sends, small or large, is
  handed to the application of the other interface unchanged: the datagrams it is split into (one,
  or one per 4080 bytes) go through the receive thread and leave exactly this message behind the others on
  the receive queue, with every header field and data byte; only the sequence number
  of a large message is that of its last fragment. Nothing else of the receiver changes. The command
  code 0x5355 is excluded because its header reads like the transport header.
\<close>

theorem send_receive_end_to_end:
  fixes m :: JausMessage
  assumes "isOpen sender" "isOpen receiver" "lmOk (lmh receiver)" "queueOk (receiveQueue receiver)"
    "length (queueList (receiveQueue receiver)) < 2 ^ 31 - 1" "length packet = 4096"
    "length (dataBytes m) = unat (dataSize m)" "unat (dataSize m) \<le> 65536 * 4080"
    "dataFlag m = JAUS_SINGLE_DATA_PACKET" "scFlag (properties m) = 0" "commandCode m \<noteq> 0x5355"
  shows "\<exists>r sender' datagrams packet' h q. nodeManagerSend os sender m = Some (r, sender') \<and>
     sent sender' = sent sender @ datagrams \<and>
     length datagrams = (if dataSize m = 0 then 1 else (unat (dataSize m) + 4079) div 4080) \<and>
     receiveLoop fresh now datagrams (packet, receiver) =
       Some (packet', receiver\<lparr>lmh := h, receiveQueue := q,
                               receiveCount := receiveCount receiver + int (length datagrams)\<rparr>) \<and>
     lmOk h \<and> queueOk q \<and> queueList q = queueList (receiveQueue receiver) @
       [m\<lparr>data := Some (dataBytes m),
          sequenceNumber := (if unat (dataSize m) \<le> 4080 then sequenceNumber m else of_nat (length datagrams - 1))\<rparr>]"
proof (cases "4080 < unat (dataSize m)")
  case True
  have frs: "fragments m = fragmentsFrom m 0 (dataBytes m)" using True by (simp add: fragments_def)
  have d: "dataBytes m \<noteq> []" "dataSize m \<noteq> 0" using True assms(7) by auto
  have len: "length (fragments m) = (unat (dataSize m) + 4079) div 4080"
    using fragment_count [of m 0 "dataBytes m"] d assms(7) unfolding frs by simp
  also have "\<dots> \<le> (65536 * 4080 + 4079) div 4080" by (rule div_le_mono) (use assms(8) in simp)
  finally have le: "length (fragments m) \<le> 65536" by simp
  have same: "m\<lparr>dataFlag := JAUS_SINGLE_DATA_PACKET, sequenceNumber := k, data := x\<rparr> = m\<lparr>data := x, sequenceNumber := k\<rparr>" for k x
    using assms(9) by (cases m) simp
  obtain packet' h q where
    rcv: "receiveLoop fresh now (map messageBytes (fragments m)) (packet, receiver) =
      Some (packet', receiver\<lparr>lmh := h, receiveQueue := q, receiveCount := receiveCount receiver + int (length (fragments m))\<rparr>)"
    "lmOk h" "queueOk q" "queueList q = queueList (receiveQueue receiver) @
      [m\<lparr>data := Some (dataBytes m), sequenceNumber := of_nat (length (fragments m) - 1)\<rparr>]"
    using receive_large [OF assms(2-6) True assms(7) le assms(10,11), of fresh now] unfolding same by blast
  obtain r where "nodeManagerSend os sender m = Some (r, sender\<lparr>sent := sent sender @ map messageBytes (fragments m)\<rparr>)"
    using lmHandlerSend_spec [OF assms(1) True assms(7), of os] unfolding frs by blast
  then show ?thesis
    using rcv len d(2) True
    by (intro exI [of _ r] exI [of _ "sender\<lparr>sent := sent sender @ map messageBytes (fragments m)\<rparr>"]
        exI [of _ "map messageBytes (fragments m)"] exI [of _ packet'] exI [of _ h] exI [of _ q]) simp
next
  case False
  have ok: "messageOk m" using assms(7,9) False by (simp add: messageOk_def headerFits_def word_less_nat_alt)
  have one: "dataSize m \<noteq> 0 \<Longrightarrow> (unat (dataSize m) + 4079) div 4080 = 1"
    using False unat_gt_0 [of "dataSize m"] by (intro div_nat_eqI) auto
  obtain packet' q where
    rcv: "receiveLoop fresh now [messageBytes m] (packet, receiver) =
      Some (packet', receiver\<lparr>receiveQueue := q, receiveCount := receiveCount receiver + 1\<rparr>)"
    "queueOk q" "queueList q = queueList (receiveQueue receiver) @ [m\<lparr>data := Some (dataBytes m)\<rparr>]"
    using receive_small [OF assms(2,4,5,6) _ assms(9,10), of fresh now] ok False assms(11)
    by (auto simp: singleDatagram_def)
  have "nodeManagerSend os sender m = Some (os (messageBytes m), sender\<lparr>sent := sent sender @ [messageBytes m]\<rparr>)"
    using nodeManagerSend_small [OF assms(1) ok] False by (simp add: word_le_nat_alt)
  moreover have "receiver\<lparr>lmh := lmh receiver, receiveQueue := q, receiveCount := c\<rparr> =
      receiver\<lparr>receiveQueue := q, receiveCount := c\<rparr>" for c by simp
  moreover have "m\<lparr>data := x, sequenceNumber := sequenceNumber m\<rparr> = m\<lparr>data := x\<rparr>" for x by (cases m) simp
  ultimately show ?thesis
    using rcv one assms(3) False
    by (intro exI [of _ "os (messageBytes m)"] exI [of _ "sender\<lparr>sent := sent sender @ [messageBytes m]\<rparr>"]
        exI [of _ "[messageBytes m]"] exI [of _ packet'] exI [of _ "lmh receiver"] exI [of _ q]) simp
qed

theorem send_receive_end_to_end_witness:
  "\<exists>(a :: NodeManagerInterface) b m r a' b' datagrams packet'. nodeManagerSend (\<lambda>_. 0) a m = Some (r, a') \<and>
     sent a' = sent a @ datagrams \<and> length datagrams = 2 \<and>
     receiveLoop (\<lambda>_. 0) 0 datagrams (replicate 4096 0, b) = Some (packet', b') \<and>
     map dataBytes (queueList (receiveQueue b')) = [replicate 5000 7]"
proof -
  let ?m = "jausMessageCreate\<lparr>commandCode := 0x4302, dataSize := 5000, data := Some (replicate 5000 7)\<rparr>"
  obtain nmi where n: "nodeManagerOpen (\<lambda>_. [2, 1, 33, 1, 1]) 5000 0 (Some undefined) = Some (Some nmi)"
    using nodeManagerOpen_example by blast
  note o = nodeManagerOpen_reach [OF n]
  have lm: "lmOk (lmh nmi)" using o(9,10) by (simp add: lmOk_def lmLists_def)
  have q: "queueOk (receiveQueue nmi)" "queueList (receiveQueue nmi) = []" using o(4) queueCreate_ok by simp_all
  have "\<exists>r a' datagrams packet' h q. nodeManagerSend (\<lambda>_. 0) nmi ?m = Some (r, a') \<and>
     sent a' = sent nmi @ datagrams \<and>
     length datagrams = (if dataSize ?m = 0 then 1 else (unat (dataSize ?m) + 4079) div 4080) \<and>
     receiveLoop (\<lambda>_. 0) 0 datagrams (replicate 4096 0, nmi) =
       Some (packet', nmi\<lparr>lmh := h, receiveQueue := q, receiveCount := receiveCount nmi + int (length datagrams)\<rparr>) \<and>
     lmOk h \<and> queueOk q \<and> queueList q = queueList (receiveQueue nmi) @
       [?m\<lparr>data := Some (dataBytes ?m),
          sequenceNumber := (if unat (dataSize ?m) \<le> 4080 then sequenceNumber ?m else of_nat (length datagrams - 1))\<rparr>]"
    by (rule send_receive_end_to_end [OF o(2) o(2) lm q(1)])
      (use q in \<open>simp_all add: jausMessageCreate_def defaultProperties_def\<close>)
  then show ?thesis using q(2) by (force simp: dataBytes_def)
qed

text \<open>
  C27. No datagram can make the receive thread read outside its packet buffer or break the state of
  the interface, unless it is the last fragment of a large message of which fragments have been collected:
  whatever its bytes are, any other datagram
  is either rejected, which leaves the interface as it was, or handled and counted, and the
  invariants of the queue, of the collected fragments and of the service connections hold again. For a last
  fragment that completes its message see \<open>large_message_reassembled\<close>; one that leaves a gap can be
  fatal (\<open>missing_fragment\<close>).
\<close>

theorem receive_any_datagram:
  assumes "length packet = 4096" "scOk (scm nmi)" "lmOk (lmh nmi)" "queueOk (receiveQueue nmi)"
    "length (queueList (receiveQueue nmi)) < 2 ^ 31 - 1"
    "\<forall>p sc q. scStore (scm nmi) p = Some sc \<longrightarrow> scQueue sc = Some q \<longrightarrow> length (queueList q) < 2 ^ 31 - 1"
    "\<forall>m. jausMessageFromBuffer jausMessageCreate (fillPacket packet datagram) (udpIndex (fillPacket packet datagram))
       (4096 - of_nat (udpIndex (fillPacket packet datagram))) = Some (True, m) \<longrightarrow>
       dataFlag m = JAUS_LAST_DATA_PACKET \<longrightarrow> collected (lmh nmi) (messageKey m) = None"
  shows "\<exists>packet' nmi'. receiveRound fresh now datagram (packet, nmi) = Some (packet', nmi') \<and> length packet' = 4096 \<and>
     scOk (scm nmi') \<and> lmOk (lmh nmi') \<and> queueOk (receiveQueue nmi') \<and>
     length (queueList (receiveQueue nmi')) \<le> length (queueList (receiveQueue nmi)) + 1 \<and>
     (nmi' = nmi \<or> receiveCount nmi' = receiveCount nmi + 1)"
proof (cases "datagram = []")
  case True
  then show ?thesis using assms by (simp add: receiveRound_def)
next
  case False
  let ?b = "fillPacket packet datagram"
  define i where "i = udpIndex ?b"
  have len: "length ?b = 4096" by (rule length_fillPacket [OF assms(1)])
  have "i + unat (4096 - of_nat i :: u32) \<le> length ?b" unfolding len i_def udpIndex_def by simp
  then obtain ok m where p: "jausMessageFromBuffer jausMessageCreate ?b i (4096 - of_nat i) = Some (ok, m)"
    using jausMessageFromBuffer_safe by fastforce
  have round: "receiveRound fresh now datagram (packet, nmi) =
      (if ok then do { nmi' \<leftarrow> dispatchReceived fresh now nmi m;
                       Some (?b, nmi'\<lparr>receiveCount := receiveCount nmi' + 1\<rparr>) } else Some (?b, nmi))"
    using False p by (simp add: receiveRound_def Let_def i_def)
  show ?thesis
  proof (cases ok)
    case False
    then show ?thesis using round len assms by simp
  next
    case True
    then have flag: "dataFlag m = JAUS_LAST_DATA_PACKET \<longrightarrow> collected (lmh nmi) (messageKey m) = None" using p assms(7) by (simp add: i_def)
    obtain nmi' where d: "dispatchReceived fresh now nmi m = Some nmi'" "scOk (scm nmi')" "lmOk (lmh nmi')"
      "queueOk (receiveQueue nmi')" "receiveCount nmi' = receiveCount nmi"
      "length (queueList (receiveQueue nmi')) \<le> length (queueList (receiveQueue nmi)) + 1"
      using dispatch_ok [OF assms(2-6) flag, of fresh now] by blast
    then show ?thesis using round len True by simp
  qed
qed

theorem receive_any_datagram_witness:
  "\<exists>(nmi :: NodeManagerInterface) s. receiveRound (\<lambda>_. 0) 0 [255, 255, 255] (replicate 4096 0, nmi) = Some s \<and>
     queueOk (receiveQueue (snd s))"
proof -
  obtain nmi where n: "nodeManagerOpen (\<lambda>_. [2, 1, 33, 1, 1]) 5000 0 (Some undefined) = Some (Some nmi)"
    using nodeManagerOpen_example by blast
  note o = nodeManagerOpen_reach [OF n]
  have q: "queueOk (receiveQueue nmi)" "queueList (receiveQueue nmi) = []" using o(4) queueCreate_ok by simp_all
  let ?b = "[255, 255, 255] @ replicate 4093 (0 :: u8)"
  have b: "fillPacket (replicate 4096 0) [255, 255, 255] = ?b" by (simp add: fillPacket_def)
  have "udpIndex ?b = 0"
    using arg_cong [of "take 8 ?b" JAUS_OPC_UDP_HEADER hd] by (auto simp: udpIndex_def JAUS_OPC_UDP_HEADER_def)
  moreover have "dataFlag m \<noteq> JAUS_LAST_DATA_PACKET"
    if "jausMessageFromBuffer jausMessageCreate ?b 0 4096 = Some (True, m)" for m
    using that by (auto simp: jausMessageFromBuffer_def headerFromBuffer_def memRead_def unpackHeader_def
        bind_eq_Some_conv nth_append split: if_splits)
  ultimately have last: "\<forall>m. jausMessageFromBuffer jausMessageCreate ?b (udpIndex ?b)
       (4096 - of_nat (udpIndex ?b)) = Some (True, m) \<longrightarrow>
       dataFlag m = JAUS_LAST_DATA_PACKET \<longrightarrow> collected (lmh nmi) (messageKey m) = None" by simp
  have "\<exists>packet' nmi'. receiveRound (\<lambda>_. 0) 0 [255, 255, 255] (replicate 4096 0, nmi) = Some (packet', nmi') \<and>
     length packet' = 4096 \<and> scOk (scm nmi') \<and> lmOk (lmh nmi') \<and> queueOk (receiveQueue nmi') \<and>
     length (queueList (receiveQueue nmi')) \<le> length (queueList (receiveQueue nmi)) + 1 \<and>
     (nmi' = nmi \<or> receiveCount nmi' = receiveCount nmi + 1)"
    by (rule receive_any_datagram [OF _ scReach_ok [OF o(1)] _ q(1) _ _ last [folded b]])
      (use o q in \<open>simp_all add: lmOk_def lmLists_def\<close>)
  then show ?thesis by force
qed

text \<open>
  A datagram that breaks off in the middle of its data is accepted all the same: the receive
  thread parses the whole packet buffer, so that the missing bytes of the message it queues are those
  an earlier datagram left there.
\<close>

theorem short_datagram_stale:
  assumes "length packet = 4096" "queueOk (receiveQueue nmi)" "length (queueList (receiveQueue nmi)) < 2 ^ 31 - 1"
    "messageOk m" "unat (dataSize m) \<le> 4080" "commandCode m \<noteq> 0x5355"
    "dataFlag m = JAUS_SINGLE_DATA_PACKET" "scFlag (properties m) = 0" "k < unat (dataSize m)"
  shows "\<exists>packet' q. receiveRound fresh now (take (16 + k) (messageBytes m)) (packet, nmi) =
      Some (packet', nmi\<lparr>receiveQueue := q, receiveCount := receiveCount nmi + 1\<rparr>) \<and>
    queueList q = queueList (receiveQueue nmi) @
      [m\<lparr>data := Some (take k (dataBytes m) @ take (unat (dataSize m) - k) (drop (16 + k) packet))\<rparr>]"
proof -
  let ?d = "take k (dataBytes m) @ take (unat (dataSize m) - k) (drop (16 + k) packet)"
  let ?m = "m\<lparr>data := Some ?d\<rparr>" and ?g = "take (16 + k) (messageBytes m)"
  have len: "length (dataBytes m) = unat (dataSize m)" using assms(4) by (simp add: messageOk_def)
  then have g: "?g = headerBytes m @ take k (dataBytes m)" "length ?g = 16 + k"
    using assms(9) by (simp_all add: messageBytes_def)
  have db: "dataBytes ?m = ?d" by (simp add: dataBytes_def)
  have hb: "headerBytes ?m = headerBytes m" by (simp add: headerBytes_def)
  have "length ?d = unat (dataSize m)" using assms(1,5,9) len by simp
  then have ok: "messageOk ?m" using assms(4) db by (simp add: messageOk_def headerFits_def)
  have "drop (16 + k) packet = take (unat (dataSize m) - k) (drop (16 + k) packet) @
      drop (unat (dataSize m) - k) (drop (16 + k) packet)" by (rule append_take_drop_id [symmetric])
  then have "fillPacket packet ?g = messageBytes ?m @ drop (unat (dataSize m) - k) (drop (16 + k) packet)"
    using g assms(5,9) db hb by (simp add: fillPacket_def messageBytes_def)
  moreover have "?g \<noteq> []" using g(2) by force
  ultimately have r: "receiveRound fresh now ?g (packet, nmi) =
    do { nmi' \<leftarrow> dispatchReceived fresh now nmi ?m;
         Some (fillPacket packet ?g, nmi'\<lparr>receiveCount := receiveCount nmi' + 1\<rparr>) }"
    using receiveRound_parse [OF _ _ ok, of packet ?g] assms(5,6) db by simp
  obtain q where q: "queuePush (receiveQueue nmi) ?m = Some q" "queueList q = queueList (receiveQueue nmi) @ [?m]"
    using queuePush_ok [OF assms(2,3)] by blast
  show ?thesis
    by (rule exI [of _ "fillPacket packet ?g"], rule exI [of _ q])
      (use r q assms(7,8) in \<open>simp add: dispatchReceived_def enqueue_def\<close>)
qed

theorem short_datagram_stale_witness:
  "\<exists>(nmi :: NodeManagerInterface) m s. dataBytes m = [1, 2] \<and>
     receiveRound (\<lambda>_. 0) 0 (take 16 (messageBytes m)) (replicate 4096 9, nmi) = Some s \<and>
     map dataBytes (queueList (receiveQueue (snd s))) = [[9, 9]]"
proof -
  let ?m = "jausMessageCreate\<lparr>commandCode := 0x4302, dataSize := 2, data := Some [1, 2]\<rparr>"
  obtain nmi where n: "nodeManagerOpen (\<lambda>_. [2, 1, 33, 1, 1]) 5000 0 (Some undefined) = Some (Some nmi)"
    using nodeManagerOpen_example by blast
  note o = nodeManagerOpen_reach [OF n]
  have q: "queueOk (receiveQueue nmi)" "queueList (receiveQueue nmi) = []" using o(4) queueCreate_ok by simp_all
  have ok: "messageOk ?m" by (simp add: messageOk_def headerFits_def dataBytes_def jausMessageCreate_def)
  have "\<exists>packet' q. receiveRound (\<lambda>_. 0) 0 (take (16 + 0) (messageBytes ?m)) (replicate 4096 9, nmi) =
      Some (packet', nmi\<lparr>receiveQueue := q, receiveCount := receiveCount nmi + 1\<rparr>) \<and>
    queueList q = queueList (receiveQueue nmi) @
      [?m\<lparr>data := Some (take 0 (dataBytes ?m) @ take (unat (dataSize ?m) - 0) (drop (16 + 0) (replicate 4096 9)))\<rparr>]"
    by (rule short_datagram_stale [OF _ q(1) _ ok])
      (use q in \<open>simp_all add: jausMessageCreate_def defaultProperties_def\<close>)
  then obtain packet' q' where
    "receiveRound (\<lambda>_. 0) 0 (take 16 (messageBytes ?m)) (replicate 4096 9, nmi) =
      Some (packet', nmi\<lparr>receiveQueue := q', receiveCount := receiveCount nmi + 1\<rparr>)"
    "map dataBytes (queueList q') = [replicate 2 9]" using q(2) by (auto simp: dataBytes_def)
  then show ?thesis
    by (intro exI [of _ nmi] exI [of _ ?m]) (simp add: dataBytes_def numeral_2_eq_2)
qed

text \<open>
  Receiving with a time limit on an open interface: a queued message is returned at once, the
  oldest first; when the wait times out or fails this is reported and no message is written. When the wait is ended
  by a fragment of a large message, however, the call reports a received message and hands out a
  null pointer.
\<close>

theorem timed_receive_outcomes:
  assumes "isOpen nmi" "now \<le> limit" "queueOk (receiveQueue nmi)" "lmOk (lmh nmi)" "length packet = 4096"
    "singleDatagram f" "data f \<noteq> None" "dataFlag f \<noteq> JAUS_SINGLE_DATA_PACKET" "dataFlag f \<noteq> JAUS_LAST_DATA_PACKET"
  shows "(queueList (receiveQueue nmi) \<noteq> [] \<longrightarrow>
       (\<exists>q. nodeManagerTimedReceive now wait nmi limit =
              Some (NMI_MESSAGE_RECEIVED, Some (Some (hd (queueList (receiveQueue nmi)))), nmi\<lparr>receiveQueue := q\<rparr>) \<and>
            queueList q = tl (queueList (receiveQueue nmi)))) \<and>
     (queueList (receiveQueue nmi) = [] \<longrightarrow>
       nodeManagerTimedReceive now (\<lambda>n. (TimedOut, n)) nmi limit = Some (NMI_RECEIVE_TIMED_OUT, None, nmi) \<and>
       nodeManagerTimedReceive now (\<lambda>n. (WaitError, n)) nmi limit = Some (NMI_CONDITIONAL_WAIT_ERROR, None, nmi) \<and>
       (\<exists>s nmi'. receiveRound fresh now (messageBytes f) (packet, nmi) = Some s \<and>
          nodeManagerTimedReceive now (\<lambda>_. (Signalled, snd s)) nmi limit = Some (NMI_MESSAGE_RECEIVED, Some None, nmi')))"
proof -
  let ?q = "receiveQueue nmi"
  have size: "qsize ?q = int (length (queueList ?q))" by (rule qsize_ok [OF assms(3)])
  obtain q where q: "queuePop ?q = Some (if queueList ?q = [] then None else Some (hd (queueList ?q)), q)"
    "queueList q = tl (queueList ?q)" using queuePop_ok [OF assms(3)] by blast
  have f: "messageOk f" "unat (dataSize f) \<le> 4080" "commandCode f \<noteq> 0x5355" "f\<lparr>data := Some (dataBytes f)\<rparr> = f"
    using assms(6) whole_data [OF assms(7)] by (simp_all add: singleDatagram_def)
  obtain h where "lmHandlerReceiveLargeMessage fresh now nmi f = Some (nmi\<lparr>lmh := h\<rparr>)"
    using receive_collects [OF assms(4,9)] by blast
  then have "receiveRound fresh now (messageBytes f) (packet, nmi) =
      Some (fillPacket packet (messageBytes f), nmi\<lparr>lmh := h, receiveCount := receiveCount nmi + 1\<rparr>)"
    using receiveRound_message [OF assms(5) f(1-3)] f(4) assms(8) by (simp add: dispatchReceived_def)
  then show ?thesis using assms(1,2) size q by (auto simp: nodeManagerTimedReceive_def)
qed

theorem timed_receive_outcomes_witness:
  "\<exists>(nmi :: NodeManagerInterface) f s nmi'. dataFlag f = JAUS_FIRST_DATA_PACKET \<and>
     receiveRound (\<lambda>_. 0) 0 (messageBytes f) (replicate 4096 0, nmi) = Some s \<and>
     nodeManagerTimedReceive 0 (\<lambda>_. (Signalled, snd s)) nmi 1 = Some (NMI_MESSAGE_RECEIVED, Some None, nmi')"
proof -
  let ?f = "jausMessageCreate\<lparr>commandCode := 0x4302, dataSize := 2, dataFlag := 1, data := Some [1, 2]\<rparr>"
  obtain nmi where n: "nodeManagerOpen (\<lambda>_. [2, 1, 33, 1, 1]) 5000 0 (Some undefined) = Some (Some nmi)"
    using nodeManagerOpen_example by blast
  note o = nodeManagerOpen_reach [OF n]
  have q: "queueOk (receiveQueue nmi)" "queueList (receiveQueue nmi) = []" using o(4) queueCreate_ok by simp_all
  have lm: "lmOk (lmh nmi)" using o(9,10) by (simp add: lmOk_def lmLists_def)
  have f: "singleDatagram ?f"
    by (simp add: singleDatagram_def messageOk_def headerFits_def dataBytes_def jausMessageCreate_def)
  show ?thesis
    using timed_receive_outcomes [OF o(2) zero_le_one q(1) lm _ f, of "replicate 4096 0" undefined "\<lambda>_. 0"] q(2)
    by (intro exI [of _ nmi] exI [of _ ?f]) auto
qed

text \<open>
  One call serves every core service connection that is due: per due status connection one status
  report with the state of the component, per due authority connection one authority report, each
  addressed to its peer and numbered with its sequence number, in the order of the lists and
  status first; the connections are advanced as the send list promises, and the peer reads the
  state back from the report.
\<close>

theorem core_connections_served:
  assumes "isOpen nmi" "0 \<le> cmptState (cmpt nmi)" "cmptState (cmpt nmi) < 256"
  shows "\<exists>nmi'. nodeManagerSendCoreServiceConnections os now nmi = Some nmi' \<and>
     sent nmi' = sent nmi @
       map (messageBytes \<circ> statusJm nmi) (filter (scDue now) (outConns nmi JAUS_REPORT_COMPONENT_STATUS)) @
       map (messageBytes \<circ> authorityJm nmi) (filter (scDue now) (outConns nmi JAUS_REPORT_COMPONENT_AUTHORITY)) \<and>
     outConns nmi' JAUS_REPORT_COMPONENT_STATUS = map (scSent now) (outConns nmi JAUS_REPORT_COMPONENT_STATUS) \<and>
     outConns nmi' JAUS_REPORT_COMPONENT_AUTHORITY = map (scSent now) (outConns nmi JAUS_REPORT_COMPONENT_AUTHORITY) \<and>
     (\<forall>sc. \<exists>r. reportComponentStatusMessageFromJausMessage junk (statusJm nmi sc) = Some (Some r) \<and>
        destination r = scAddress sc \<and> sequenceNumber r = scSequenceNumber sc \<and> scFlag (properties r) = 1 \<and>
        reportComponentStatus_primaryStatusCode r = cmptState (cmpt nmi))"
proof -
  let ?S = JAUS_REPORT_COMPONENT_STATUS and ?A = JAUS_REPORT_COMPONENT_AUTHORITY
  obtain s n1 where s: "scManagerGetSendList now nmi ?S = (s, n1)" by fastforce
  define n2 where "n2 = foldl (\<lambda>n x. logSent n (statusJm n1 x)) n1 s"
  obtain a n3 where a: "scManagerGetSendList now n2 ?A = (a, n3)" by fastforce
  define n4 where "n4 = foldl (\<lambda>n x. logSent n (authorityJm n3 x)) n3 a"
  note fs = getSendList_frame [OF s] and fa = getSendList_frame [OF a]
  have conns: "outConns n2 code = outConns n1 code" "outConns n4 code = outConns n3 code" for code
    by (simp_all add: outConns_def n2_def n4_def)
  have "cmpt n1 = cmpt nmi" "cmpt n3 = cmpt nmi" "isOpen n1" "isOpen n3"
    using fs(1,2) fa(1,2) assms(1) by (simp_all add: n2_def)
  note same = report_same_cmpt(1) [OF this(1)] report_same_cmpt(2) [OF this(2)] this(3,4)
  have "sent n4 = sent nmi @ map (messageBytes \<circ> statusJm nmi) s @ map (messageBytes \<circ> authorityJm nmi) a"
    using same fs(3) fa(3) by (simp add: n2_def n4_def foldl_logSent_sent)
  moreover have "a = map (\<lambda>sc. sc\<lparr>lastSentTime := now\<rparr>) (filter (scDue now) (outConns nmi ?A))"
    using getSendList_conns(1) [OF a] fs(4) conns(1) by simp
  moreover have "outConns n4 ?S = map (scSent now) (outConns nmi ?S)" "outConns n4 ?A = map (scSent now) (outConns nmi ?A)"
    using getSendList_conns(2) [OF s] getSendList_conns(2) [OF a] fs(4) fa(4) conns by simp_all
  moreover have "nodeManagerSendCoreServiceConnections os now nmi = Some n4"
    using s a by (simp add: nodeManagerSendCoreServiceConnections_def sendStatus_spec sendAuthority_spec n2_def n4_def)
  ultimately show ?thesis
    using getSendList_conns(1) [OF s] status_read_back [OF assms(2,3), of junk]
    by (intro exI [of _ n4]) (simp add: report_fields comp_def)
qed

theorem core_connections_served_witness:
  "\<exists>nmi nmi' m. nodeManagerSendCoreServiceConnections (\<lambda>_. 0) 10 nmi = Some nmi' \<and> sent nmi' = sent nmi @ [messageBytes m]"
proof -
  let ?sc = "serviceConnectionCreate\<lparr>confirmedUpdateRateHz := 1, isActive := True, scSequenceNumber := 65535\<rparr>"
  let ?m = "scManagerCreate\<lparr>supportedScMsgList := [\<lparr>supCommandCode = JAUS_REPORT_COMPONENT_STATUS, scList = [?sc]\<rparr>]\<rparr>"
  obtain n0 :: NodeManagerInterface and c :: JausComponent where True by blast
  let ?nmi = "n0\<lparr>scm := ?m, isOpen := True, cmpt := c\<lparr>cmptState := 3\<rparr>\<rparr>"
  have c: "outConns ?nmi JAUS_REPORT_COMPONENT_STATUS = [?sc]" "outConns ?nmi JAUS_REPORT_COMPONENT_AUTHORITY = []"
    by (simp_all add: outConns_def)
  have d: "scDue 10 ?sc" by (simp add: scDue_def serviceConnectionCreate_def)
  from core_connections_served [of ?nmi "\<lambda>_. 0" 10] c d show ?thesis by force
qed

end
