(* ===== verification/PlatformMessages.thy ===== *)
theory PlatformMessages
  imports MessageCodes
begin

text \<open>
  The platform commands and reports: wrench effort, velocity, vectors, waypoints and path
  segments (\<open>libjaus/message/{command,inform}/platform\<close>).
  Each section translates one source file: the struct as a record that extends the header,
  its four message-specific routines, and the common routines applied to them. \<open>enc\<close> and
  \<open>withData\<close> are the specification, the wire image and what a receiver reconstructs from it;
  the interpretation of \<open>typed_message\<close> proves that the routines meet it, and with it the
  round trips through buffers and generic messages.
\<close>

section \<open>SetGlobalPathSegmentMessage\<close>

record SetGlobalPathSegmentMessage = JausHeader +
  setGlobalPathSegment_presenceVector :: u8
  setGlobalPathSegment_pathSegmentNumber :: u16
  setGlobalPathSegment_p1LatitudeDeg :: real
  setGlobalPathSegment_p1LongitudeDeg :: real
  setGlobalPathSegment_p1AltitudeM :: real
  setGlobalPathSegment_p2LatitudeDeg :: real
  setGlobalPathSegment_p2LongitudeDeg :: real
  setGlobalPathSegment_p2AltitudeM :: real
  setGlobalPathSegment_weightingFactor :: real

definition setGlobalPathSegment_dataInitialize ::
    "SetGlobalPathSegmentMessage \<Rightarrow> SetGlobalPathSegmentMessage" where
  "setGlobalPathSegment_dataInitialize m =
     m\<lparr>setGlobalPathSegment_presenceVector := newJausByte JAUS_BYTE_PRESENCE_VECTOR_ALL_ON,
        setGlobalPathSegment_pathSegmentNumber := newJausUnsignedShort 0,
        setGlobalPathSegment_p1LatitudeDeg := 0,
        setGlobalPathSegment_p1LongitudeDeg := 0,
        setGlobalPathSegment_p1AltitudeM := 0,
        setGlobalPathSegment_p2LatitudeDeg := 0,
        setGlobalPathSegment_p2LongitudeDeg := 0,
        setGlobalPathSegment_p2AltitudeM := 0,
        setGlobalPathSegment_weightingFactor := 0\<rparr>"

definition setGlobalPathSegment_dataSize :: "SetGlobalPathSegmentMessage \<Rightarrow> u32" where
  "setGlobalPathSegment_dataSize m =
     (1 +
      2 +
      4 +
      4 +
      (if jausByteIsBitSet (setGlobalPathSegment_presenceVector m) JAUS_PATH_SEGMENT_PV_P1_ALTITUDE_BIT = Some True then 4 else 0) +
      4 +
      4 +
      (if jausByteIsBitSet (setGlobalPathSegment_presenceVector m) JAUS_PATH_SEGMENT_PV_P2_ALTITUDE_BIT = Some True then 4 else 0) +
      2)"

definition setGlobalPathSegment_dataFromBuffer ::
    "SetGlobalPathSegmentMessage \<Rightarrow> bytes \<Rightarrow> nat \<Rightarrow> u32 \<Rightarrow> (bool \<times> SetGlobalPathSegmentMessage) exec" where
  "setGlobalPathSegment_dataFromBuffer m buffer off n =
     (if n = dataSize m then finishR (runStmts
        [getByte (\<lambda>v m. m\<lparr>setGlobalPathSegment_presenceVector := v\<rparr>) buffer off n,
         getUShort (\<lambda>v m. m\<lparr>setGlobalPathSegment_pathSegmentNumber := v\<rparr>) buffer off n,
         getInteger (\<lambda>v m. m\<lparr>setGlobalPathSegment_p1LatitudeDeg := jausIntegerToDouble v (- 90) 90\<rparr>) buffer off n,
         getInteger (\<lambda>v m. m\<lparr>setGlobalPathSegment_p1LongitudeDeg := jausIntegerToDouble v (- 180) 180\<rparr>) buffer off n,
         whenS (\<lambda>(i, m). jausByteIsBitSet (setGlobalPathSegment_presenceVector m) JAUS_PATH_SEGMENT_PV_P1_ALTITUDE_BIT)
           [getInteger (\<lambda>v m. m\<lparr>setGlobalPathSegment_p1AltitudeM := jausIntegerToDouble v (- 10000) 35000\<rparr>) buffer off n],
         getInteger (\<lambda>v m. m\<lparr>setGlobalPathSegment_p2LatitudeDeg := jausIntegerToDouble v (- 90) 90\<rparr>) buffer off n,
         getInteger (\<lambda>v m. m\<lparr>setGlobalPathSegment_p2LongitudeDeg := jausIntegerToDouble v (- 180) 180\<rparr>) buffer off n,
         whenS (\<lambda>(i, m). jausByteIsBitSet (setGlobalPathSegment_presenceVector m) JAUS_PATH_SEGMENT_PV_P2_ALTITUDE_BIT)
           [getInteger (\<lambda>v m. m\<lparr>setGlobalPathSegment_p2AltitudeM := jausIntegerToDouble v (- 10000) 35000\<rparr>) buffer off n],
         getUShort (\<lambda>v m. m\<lparr>setGlobalPathSegment_weightingFactor := jausUnsignedShortToDouble v 0 500\<rparr>) buffer off n] (0, m))
      else Some (False, m))"

definition setGlobalPathSegment_dataToBuffer ::
    "SetGlobalPathSegmentMessage \<Rightarrow> bytes \<Rightarrow> nat \<Rightarrow> u32 \<Rightarrow> (nat \<times> bytes) exec" where
  "setGlobalPathSegment_dataToBuffer m buffer off n =
     (if setGlobalPathSegment_dataSize m \<le> n then finishW (runStmts
        [putByte (Some (setGlobalPathSegment_presenceVector m)) off n,
         putUShort (Some (setGlobalPathSegment_pathSegmentNumber m)) off n,
         putInteger (jausIntegerFromDouble (setGlobalPathSegment_p1LatitudeDeg m) (- 90) 90) off n,
         putInteger (jausIntegerFromDouble (setGlobalPathSegment_p1LongitudeDeg m) (- 180) 180) off n,
         whenS (\<lambda>_. jausByteIsBitSet (setGlobalPathSegment_presenceVector m) JAUS_PATH_SEGMENT_PV_P1_ALTITUDE_BIT)
           [putInteger (jausIntegerFromDouble (setGlobalPathSegment_p1AltitudeM m) (- 10000) 35000) off n],
         putInteger (jausIntegerFromDouble (setGlobalPathSegment_p2LatitudeDeg m) (- 90) 90) off n,
         putInteger (jausIntegerFromDouble (setGlobalPathSegment_p2LongitudeDeg m) (- 180) 180) off n,
         whenS (\<lambda>_. jausByteIsBitSet (setGlobalPathSegment_presenceVector m) JAUS_PATH_SEGMENT_PV_P2_ALTITUDE_BIT)
           [putInteger (jausIntegerFromDouble (setGlobalPathSegment_p2AltitudeM m) (- 10000) 35000) off n],
         putUShort (jausUnsignedShortFromDouble (setGlobalPathSegment_weightingFactor m) 0 500) off n] (0, buffer))
      else Some (0, buffer))"

definition setGlobalPathSegmentMessageCreate :: SetGlobalPathSegmentMessage where
  "setGlobalPathSegmentMessageCreate =
     (let m = setGlobalPathSegment_dataInitialize (JausHeader.extend (blankHeader JAUS_SET_GLOBAL_PATH_SEGMENT 29)
        (SetGlobalPathSegmentMessage.fields 0 0 0 0 0 0 0 0 0))
      in m\<lparr>dataSize := setGlobalPathSegment_dataSize m\<rparr>)"

definition setGlobalPathSegmentMessageFromBuffer ::
    "SetGlobalPathSegmentMessage \<Rightarrow> bytes \<Rightarrow> u32 \<Rightarrow> (bool \<times> SetGlobalPathSegmentMessage) exec" where
  "setGlobalPathSegmentMessageFromBuffer =
     messageFromBuffer setGlobalPathSegment_dataFromBuffer"

definition setGlobalPathSegmentMessageSize :: "SetGlobalPathSegmentMessage \<Rightarrow> u32" where
  "setGlobalPathSegmentMessageSize = messageSize setGlobalPathSegment_dataSize"

definition setGlobalPathSegmentMessageToBuffer ::
    "SetGlobalPathSegmentMessage \<Rightarrow> bytes \<Rightarrow> u32 \<Rightarrow> (bool \<times> SetGlobalPathSegmentMessage \<times> bytes) exec" where
  "setGlobalPathSegmentMessageToBuffer =
     messageToBuffer setGlobalPathSegment_dataSize setGlobalPathSegment_dataToBuffer"

definition setGlobalPathSegmentMessageFromJausMessage ::
    "SetGlobalPathSegmentMessage \<Rightarrow> JausMessage \<Rightarrow> SetGlobalPathSegmentMessage option exec" where
  "setGlobalPathSegmentMessageFromJausMessage =
     messageFromJausMessage JAUS_SET_GLOBAL_PATH_SEGMENT setGlobalPathSegment_dataFromBuffer"

definition setGlobalPathSegmentMessageToJausMessage ::
    "SetGlobalPathSegmentMessage \<Rightarrow> JausMessage exec" where
  "setGlobalPathSegmentMessageToJausMessage =
     messageToJausMessage setGlobalPathSegment_dataSize setGlobalPathSegment_dataToBuffer"

definition setGlobalPathSegment_enc :: "SetGlobalPathSegmentMessage \<Rightarrow> bytes" where
  "setGlobalPathSegment_enc m =
     [setGlobalPathSegment_presenceVector m] @
     bytesOfWord 2 (setGlobalPathSegment_pathSegmentNumber m) @
     bytesOfWord 4 (the (jausIntegerFromDouble (setGlobalPathSegment_p1LatitudeDeg m) (- 90) 90)) @
     bytesOfWord 4 (the (jausIntegerFromDouble (setGlobalPathSegment_p1LongitudeDeg m) (- 180) 180)) @
     (if bit (setGlobalPathSegment_presenceVector m) (nat JAUS_PATH_SEGMENT_PV_P1_ALTITUDE_BIT) then bytesOfWord 4 (the (jausIntegerFromDouble (setGlobalPathSegment_p1AltitudeM m) (- 10000) 35000)) else []) @
     bytesOfWord 4 (the (jausIntegerFromDouble (setGlobalPathSegment_p2LatitudeDeg m) (- 90) 90)) @
     bytesOfWord 4 (the (jausIntegerFromDouble (setGlobalPathSegment_p2LongitudeDeg m) (- 180) 180)) @
     (if bit (setGlobalPathSegment_presenceVector m) (nat JAUS_PATH_SEGMENT_PV_P2_ALTITUDE_BIT) then bytesOfWord 4 (the (jausIntegerFromDouble (setGlobalPathSegment_p2AltitudeM m) (- 10000) 35000)) else []) @
     bytesOfWord 2 (the (jausUnsignedShortFromDouble (setGlobalPathSegment_weightingFactor m) 0 500))"

definition setGlobalPathSegment_withData :: "SetGlobalPathSegmentMessage \<Rightarrow> SetGlobalPathSegmentMessage \<Rightarrow> SetGlobalPathSegmentMessage" where
  "setGlobalPathSegment_withData m0 m =
     (onlyIf (bit (setGlobalPathSegment_presenceVector m) (nat JAUS_PATH_SEGMENT_PV_P2_ALTITUDE_BIT))
       (\<lambda>x. x\<lparr>setGlobalPathSegment_p2AltitudeM := jausIntegerToDouble (the (jausIntegerFromDouble (setGlobalPathSegment_p2AltitudeM m) (- 10000) 35000)) (- 10000) 35000\<rparr>)
       ((onlyIf (bit (setGlobalPathSegment_presenceVector m) (nat JAUS_PATH_SEGMENT_PV_P1_ALTITUDE_BIT))
       (\<lambda>x. x\<lparr>setGlobalPathSegment_p1AltitudeM := jausIntegerToDouble (the (jausIntegerFromDouble (setGlobalPathSegment_p1AltitudeM m) (- 10000) 35000)) (- 10000) 35000\<rparr>)
       (m0\<lparr>setGlobalPathSegment_presenceVector := setGlobalPathSegment_presenceVector m,
        setGlobalPathSegment_pathSegmentNumber := setGlobalPathSegment_pathSegmentNumber m,
        setGlobalPathSegment_p1LatitudeDeg := jausIntegerToDouble (the (jausIntegerFromDouble (setGlobalPathSegment_p1LatitudeDeg m) (- 90) 90)) (- 90) 90,
        setGlobalPathSegment_p1LongitudeDeg := jausIntegerToDouble (the (jausIntegerFromDouble (setGlobalPathSegment_p1LongitudeDeg m) (- 180) 180)) (- 180) 180\<rparr>))\<lparr>setGlobalPathSegment_p2LatitudeDeg := jausIntegerToDouble (the (jausIntegerFromDouble (setGlobalPathSegment_p2LatitudeDeg m) (- 90) 90)) (- 90) 90,
        setGlobalPathSegment_p2LongitudeDeg := jausIntegerToDouble (the (jausIntegerFromDouble (setGlobalPathSegment_p2LongitudeDeg m) (- 180) 180)) (- 180) 180\<rparr>))\<lparr>setGlobalPathSegment_weightingFactor := jausUnsignedShortToDouble (the (jausUnsignedShortFromDouble (setGlobalPathSegment_weightingFactor m) 0 500)) 0 500\<rparr>"

lemma setGlobalPathSegment_size: "setGlobalPathSegment_dataSize m = of_nat (length (setGlobalPathSegment_enc m))"
  by (simp add: setGlobalPathSegment_dataSize_def setGlobalPathSegment_enc_def codec_simps length_if of_nat_if)

lemma setGlobalPathSegment_small: "length (setGlobalPathSegment_enc m) < 4096"
  unfolding setGlobalPathSegment_enc_def by (rule enc_small, (rule length_bounds)+, simp)

lemma setGlobalPathSegment_to:
  assumes "off + length (setGlobalPathSegment_enc m) \<le> length buf" "length (setGlobalPathSegment_enc m) \<le> unat n"
  shows "setGlobalPathSegment_dataToBuffer m buf off n =
    Some (length (setGlobalPathSegment_enc m), take off buf @ setGlobalPathSegment_enc m @ drop (off + length (setGlobalPathSegment_enc m)) buf)"
  unfolding setGlobalPathSegment_dataToBuffer_def
  by (rule to_lawI [OF _ setGlobalPathSegment_size assms], unfold setGlobalPathSegment_enc_def,
      (rule writes_intros refl | rule writes_Cons | (rule FromDouble_total, simp)
        | simp add: codec_simps)+)

lemma setGlobalPathSegment_from:
  assumes "dataSize m0 = setGlobalPathSegment_dataSize m"
  shows "setGlobalPathSegment_dataFromBuffer m0 (pre @ setGlobalPathSegment_enc m @ post) (length pre) (setGlobalPathSegment_dataSize m) = Some (True, setGlobalPathSegment_withData m0 m)"
proof -
  have n: "unat (setGlobalPathSegment_dataSize m) = length (setGlobalPathSegment_enc m)"
    using setGlobalPathSegment_small [of m] by (simp add: setGlobalPathSegment_size unat_of_nat_lt)
  show ?thesis
    unfolding setGlobalPathSegment_dataFromBuffer_def setGlobalPathSegment_withData_def
    by (rule from_lawI [where D = "setGlobalPathSegment_enc m"], unfold setGlobalPathSegment_enc_def,
        (rule parses_intros refl n [unfolded setGlobalPathSegment_enc_def] assms [symmetric] | rule parses_Cons
          | simp add: codec_simps onlyIf_def if_distrib [of setGlobalPathSegment_presenceVector])+)
qed

interpretation setGlobalPathSegment: typed_message setGlobalPathSegment_dataSize setGlobalPathSegment_dataFromBuffer
  setGlobalPathSegment_dataToBuffer setGlobalPathSegment_enc setGlobalPathSegment_withData
  by unfold_locales (fact setGlobalPathSegment_size setGlobalPathSegment_small setGlobalPathSegment_to setGlobalPathSegment_from)+

section \<open>SetGlobalVectorMessage\<close>

record SetGlobalVectorMessage = JausHeader +
  setGlobalVector_presenceVector :: u8
  setGlobalVector_speedMps :: real
  setGlobalVector_altitudeMeters :: real
  setGlobalVector_headingRadians :: real
  setGlobalVector_rollRadians :: real
  setGlobalVector_pitchRadians :: real

definition setGlobalVector_dataInitialize ::
    "SetGlobalVectorMessage \<Rightarrow> SetGlobalVectorMessage" where
  "setGlobalVector_dataInitialize m =
     m\<lparr>setGlobalVector_presenceVector := newJausByte JAUS_BYTE_PRESENCE_VECTOR_ALL_ON,
        setGlobalVector_speedMps := 0,
        setGlobalVector_altitudeMeters := 0,
        setGlobalVector_headingRadians := 0,
        setGlobalVector_rollRadians := 0,
        setGlobalVector_pitchRadians := 0\<rparr>"

definition setGlobalVector_dataSize :: "SetGlobalVectorMessage \<Rightarrow> u32" where
  "setGlobalVector_dataSize m =
     (1 +
      (if jausByteIsBitSet (setGlobalVector_presenceVector m) JAUS_VECTOR_PV_SPEED_BIT = Some True then 2 else 0) +
      (if jausByteIsBitSet (setGlobalVector_presenceVector m) JAUS_VECTOR_PV_ALTITUDE_BIT = Some True then 4 else 0) +
      (if jausByteIsBitSet (setGlobalVector_presenceVector m) JAUS_VECTOR_PV_HEADING_BIT = Some True then 2 else 0) +
      (if jausByteIsBitSet (setGlobalVector_presenceVector m) JAUS_VECTOR_PV_ROLL_BIT = Some True then 2 else 0) +
      (if jausByteIsBitSet (setGlobalVector_presenceVector m) JAUS_VECTOR_PV_PITCH_BIT = Some True then 2 else 0))"

definition setGlobalVector_dataFromBuffer ::
    "SetGlobalVectorMessage \<Rightarrow> bytes \<Rightarrow> nat \<Rightarrow> u32 \<Rightarrow> (bool \<times> SetGlobalVectorMessage) exec" where
  "setGlobalVector_dataFromBuffer m buffer off n =
     (if n = dataSize m then finishR (runStmts
        [getByte (\<lambda>v m. m\<lparr>setGlobalVector_presenceVector := v\<rparr>) buffer off n,
         whenS (\<lambda>(i, m). jausByteIsBitSet (setGlobalVector_presenceVector m) JAUS_VECTOR_PV_SPEED_BIT)
           [getUShort (\<lambda>v m. m\<lparr>setGlobalVector_speedMps := jausUnsignedShortToDouble v 0 10000\<rparr>) buffer off n],
         whenS (\<lambda>(i, m). jausByteIsBitSet (setGlobalVector_presenceVector m) JAUS_VECTOR_PV_ALTITUDE_BIT)
           [getInteger (\<lambda>v m. m\<lparr>setGlobalVector_altitudeMeters := jausIntegerToDouble v (- 10000) 35000\<rparr>) buffer off n],
         whenS (\<lambda>(i, m). jausByteIsBitSet (setGlobalVector_presenceVector m) JAUS_VECTOR_PV_HEADING_BIT)
           [getShort (\<lambda>v m. m\<lparr>setGlobalVector_headingRadians := jausShortToDouble v (- JAUS_PI) JAUS_PI\<rparr>) buffer off n],
         whenS (\<lambda>(i, m). jausByteIsBitSet (setGlobalVector_presenceVector m) JAUS_VECTOR_PV_ROLL_BIT)
           [getShort (\<lambda>v m. m\<lparr>setGlobalVector_rollRadians := jausShortToDouble v (- JAUS_PI) JAUS_PI\<rparr>) buffer off n],
         whenS (\<lambda>(i, m). jausByteIsBitSet (setGlobalVector_presenceVector m) JAUS_VECTOR_PV_PITCH_BIT)
           [getShort (\<lambda>v m. m\<lparr>setGlobalVector_pitchRadians := jausShortToDouble v (- JAUS_PI) JAUS_PI\<rparr>) buffer off n]] (0, m))
      else Some (False, m))"

definition setGlobalVector_dataToBuffer ::
    "SetGlobalVectorMessage \<Rightarrow> bytes \<Rightarrow> nat \<Rightarrow> u32 \<Rightarrow> (nat \<times> bytes) exec" where
  "setGlobalVector_dataToBuffer m buffer off n =
     (if setGlobalVector_dataSize m \<le> n then finishW (runStmts
        [putByte (Some (setGlobalVector_presenceVector m)) off n,
         whenS (\<lambda>_. jausByteIsBitSet (setGlobalVector_presenceVector m) JAUS_VECTOR_PV_SPEED_BIT)
           [putUShort (jausUnsignedShortFromDouble (setGlobalVector_speedMps m) 0 10000) off n],
         whenS (\<lambda>_. jausByteIsBitSet (setGlobalVector_presenceVector m) JAUS_VECTOR_PV_ALTITUDE_BIT)
           [putInteger (jausIntegerFromDouble (setGlobalVector_altitudeMeters m) (- 10000) 35000) off n],
         whenS (\<lambda>_. jausByteIsBitSet (setGlobalVector_presenceVector m) JAUS_VECTOR_PV_HEADING_BIT)
           [putShort (jausShortFromDouble (setGlobalVector_headingRadians m) (- JAUS_PI) JAUS_PI) off n],
         whenS (\<lambda>_. jausByteIsBitSet (setGlobalVector_presenceVector m) JAUS_VECTOR_PV_ROLL_BIT)
           [putShort (jausShortFromDouble (setGlobalVector_rollRadians m) (- JAUS_PI) JAUS_PI) off n],
         whenS (\<lambda>_. jausByteIsBitSet (setGlobalVector_presenceVector m) JAUS_VECTOR_PV_PITCH_BIT)
           [putShort (jausShortFromDouble (setGlobalVector_pitchRadians m) (- JAUS_PI) JAUS_PI) off n]] (0, buffer))
      else Some (0, buffer))"

definition setGlobalVectorMessageCreate :: SetGlobalVectorMessage where
  "setGlobalVectorMessageCreate =
     (let m = setGlobalVector_dataInitialize (JausHeader.extend (blankHeader JAUS_SET_GLOBAL_VECTOR 13)
        (SetGlobalVectorMessage.fields 0 0 0 0 0 0))
      in m\<lparr>dataSize := setGlobalVector_dataSize m\<rparr>)"

definition setGlobalVectorMessageFromBuffer ::
    "SetGlobalVectorMessage \<Rightarrow> bytes \<Rightarrow> u32 \<Rightarrow> (bool \<times> SetGlobalVectorMessage) exec" where
  "setGlobalVectorMessageFromBuffer =
     messageFromBuffer setGlobalVector_dataFromBuffer"

definition setGlobalVectorMessageSize :: "SetGlobalVectorMessage \<Rightarrow> u32" where
  "setGlobalVectorMessageSize = messageSize setGlobalVector_dataSize"

definition setGlobalVectorMessageToBuffer ::
    "SetGlobalVectorMessage \<Rightarrow> bytes \<Rightarrow> u32 \<Rightarrow> (bool \<times> SetGlobalVectorMessage \<times> bytes) exec" where
  "setGlobalVectorMessageToBuffer =
     messageToBuffer setGlobalVector_dataSize setGlobalVector_dataToBuffer"

definition setGlobalVectorMessageFromJausMessage ::
    "SetGlobalVectorMessage \<Rightarrow> JausMessage \<Rightarrow> SetGlobalVectorMessage option exec" where
  "setGlobalVectorMessageFromJausMessage =
     messageFromJausMessage JAUS_SET_GLOBAL_VECTOR setGlobalVector_dataFromBuffer"

definition setGlobalVectorMessageToJausMessage ::
    "SetGlobalVectorMessage \<Rightarrow> JausMessage exec" where
  "setGlobalVectorMessageToJausMessage =
     messageToJausMessage setGlobalVector_dataSize setGlobalVector_dataToBuffer"

definition setGlobalVector_enc :: "SetGlobalVectorMessage \<Rightarrow> bytes" where
  "setGlobalVector_enc m =
     [setGlobalVector_presenceVector m] @
     (if bit (setGlobalVector_presenceVector m) (nat JAUS_VECTOR_PV_SPEED_BIT) then bytesOfWord 2 (the (jausUnsignedShortFromDouble (setGlobalVector_speedMps m) 0 10000)) else []) @
     (if bit (setGlobalVector_presenceVector m) (nat JAUS_VECTOR_PV_ALTITUDE_BIT) then bytesOfWord 4 (the (jausIntegerFromDouble (setGlobalVector_altitudeMeters m) (- 10000) 35000)) else []) @
     (if bit (setGlobalVector_presenceVector m) (nat JAUS_VECTOR_PV_HEADING_BIT) then bytesOfWord 2 (the (jausShortFromDouble (setGlobalVector_headingRadians m) (- JAUS_PI) JAUS_PI)) else []) @
     (if bit (setGlobalVector_presenceVector m) (nat JAUS_VECTOR_PV_ROLL_BIT) then bytesOfWord 2 (the (jausShortFromDouble (setGlobalVector_rollRadians m) (- JAUS_PI) JAUS_PI)) else []) @
     (if bit (setGlobalVector_presenceVector m) (nat JAUS_VECTOR_PV_PITCH_BIT) then bytesOfWord 2 (the (jausShortFromDouble (setGlobalVector_pitchRadians m) (- JAUS_PI) JAUS_PI)) else [])"

definition setGlobalVector_withData :: "SetGlobalVectorMessage \<Rightarrow> SetGlobalVectorMessage \<Rightarrow> SetGlobalVectorMessage" where
  "setGlobalVector_withData m0 m =
     onlyIf (bit (setGlobalVector_presenceVector m) (nat JAUS_VECTOR_PV_PITCH_BIT))
       (\<lambda>x. x\<lparr>setGlobalVector_pitchRadians := jausShortToDouble (the (jausShortFromDouble (setGlobalVector_pitchRadians m) (- JAUS_PI) JAUS_PI)) (- JAUS_PI) JAUS_PI\<rparr>)
       (onlyIf (bit (setGlobalVector_presenceVector m) (nat JAUS_VECTOR_PV_ROLL_BIT))
       (\<lambda>x. x\<lparr>setGlobalVector_rollRadians := jausShortToDouble (the (jausShortFromDouble (setGlobalVector_rollRadians m) (- JAUS_PI) JAUS_PI)) (- JAUS_PI) JAUS_PI\<rparr>)
       (onlyIf (bit (setGlobalVector_presenceVector m) (nat JAUS_VECTOR_PV_HEADING_BIT))
       (\<lambda>x. x\<lparr>setGlobalVector_headingRadians := jausShortToDouble (the (jausShortFromDouble (setGlobalVector_headingRadians m) (- JAUS_PI) JAUS_PI)) (- JAUS_PI) JAUS_PI\<rparr>)
       (onlyIf (bit (setGlobalVector_presenceVector m) (nat JAUS_VECTOR_PV_ALTITUDE_BIT))
       (\<lambda>x. x\<lparr>setGlobalVector_altitudeMeters := jausIntegerToDouble (the (jausIntegerFromDouble (setGlobalVector_altitudeMeters m) (- 10000) 35000)) (- 10000) 35000\<rparr>)
       (onlyIf (bit (setGlobalVector_presenceVector m) (nat JAUS_VECTOR_PV_SPEED_BIT))
       (\<lambda>x. x\<lparr>setGlobalVector_speedMps := jausUnsignedShortToDouble (the (jausUnsignedShortFromDouble (setGlobalVector_speedMps m) 0 10000)) 0 10000\<rparr>)
       (m0\<lparr>setGlobalVector_presenceVector := setGlobalVector_presenceVector m\<rparr>)))))"

lemma setGlobalVector_size: "setGlobalVector_dataSize m = of_nat (length (setGlobalVector_enc m))"
  by (simp add: setGlobalVector_dataSize_def setGlobalVector_enc_def codec_simps length_if of_nat_if)

lemma setGlobalVector_small: "length (setGlobalVector_enc m) < 4096"
  unfolding setGlobalVector_enc_def by (rule enc_small, (rule length_bounds)+, simp)

lemma setGlobalVector_to:
  assumes "off + length (setGlobalVector_enc m) \<le> length buf" "length (setGlobalVector_enc m) \<le> unat n"
  shows "setGlobalVector_dataToBuffer m buf off n =
    Some (length (setGlobalVector_enc m), take off buf @ setGlobalVector_enc m @ drop (off + length (setGlobalVector_enc m)) buf)"
  unfolding setGlobalVector_dataToBuffer_def
  by (rule to_lawI [OF _ setGlobalVector_size assms], unfold setGlobalVector_enc_def,
      (rule writes_intros refl | rule writes_Cons | (rule FromDouble_total, simp)
        | simp add: codec_simps)+)

lemma setGlobalVector_from:
  assumes "dataSize m0 = setGlobalVector_dataSize m"
  shows "setGlobalVector_dataFromBuffer m0 (pre @ setGlobalVector_enc m @ post) (length pre) (setGlobalVector_dataSize m) = Some (True, setGlobalVector_withData m0 m)"
proof -
  have n: "unat (setGlobalVector_dataSize m) = length (setGlobalVector_enc m)"
    using setGlobalVector_small [of m] by (simp add: setGlobalVector_size unat_of_nat_lt)
  show ?thesis
    unfolding setGlobalVector_dataFromBuffer_def setGlobalVector_withData_def
    by (rule from_lawI [where D = "setGlobalVector_enc m"], unfold setGlobalVector_enc_def,
        (rule parses_intros refl n [unfolded setGlobalVector_enc_def] assms [symmetric] | rule parses_Cons
          | simp add: codec_simps onlyIf_def if_distrib [of setGlobalVector_presenceVector])+)
qed

interpretation setGlobalVector: typed_message setGlobalVector_dataSize setGlobalVector_dataFromBuffer
  setGlobalVector_dataToBuffer setGlobalVector_enc setGlobalVector_withData
  by unfold_locales (fact setGlobalVector_size setGlobalVector_small setGlobalVector_to setGlobalVector_from)+

section \<open>SetGlobalWaypointMessage\<close>

record SetGlobalWaypointMessage = JausHeader +
  setGlobalWaypoint_presenceVector :: u8
  setGlobalWaypoint_waypointNumber :: u16
  setGlobalWaypoint_latitudeDegrees :: real
  setGlobalWaypoint_longitudeDegrees :: real
  setGlobalWaypoint_elevationMeters :: real
  setGlobalWaypoint_rollRadians :: real
  setGlobalWaypoint_pitchRadians :: real
  setGlobalWaypoint_yawRadians :: real

definition setGlobalWaypoint_dataInitialize ::
    "SetGlobalWaypointMessage \<Rightarrow> SetGlobalWaypointMessage" where
  "setGlobalWaypoint_dataInitialize m =
     m\<lparr>setGlobalWaypoint_presenceVector := newJausByte JAUS_BYTE_PRESENCE_VECTOR_ALL_ON,
        setGlobalWaypoint_waypointNumber := newJausUnsignedShort 0,
        setGlobalWaypoint_latitudeDegrees := 0,
        setGlobalWaypoint_longitudeDegrees := 0,
        setGlobalWaypoint_elevationMeters := 0,
        setGlobalWaypoint_rollRadians := 0,
        setGlobalWaypoint_pitchRadians := 0,
        setGlobalWaypoint_yawRadians := 0\<rparr>"

definition setGlobalWaypoint_dataSize :: "SetGlobalWaypointMessage \<Rightarrow> u32" where
  "setGlobalWaypoint_dataSize m =
     (1 +
      2 +
      4 +
      4 +
      (if jausByteIsBitSet (setGlobalWaypoint_presenceVector m) JAUS_WAYPOINT_PV_ELEVATION_BIT = Some True then 4 else 0) +
      (if jausByteIsBitSet (setGlobalWaypoint_presenceVector m) JAUS_WAYPOINT_PV_ROLL_BIT = Some True then 2 else 0) +
      (if jausByteIsBitSet (setGlobalWaypoint_presenceVector m) JAUS_WAYPOINT_PV_PITCH_BIT = Some True then 2 else 0) +
      (if jausByteIsBitSet (setGlobalWaypoint_presenceVector m) JAUS_WAYPOINT_PV_YAW_BIT = Some True then 2 else 0))"

definition setGlobalWaypoint_dataFromBuffer ::
    "SetGlobalWaypointMessage \<Rightarrow> bytes \<Rightarrow> nat \<Rightarrow> u32 \<Rightarrow> (bool \<times> SetGlobalWaypointMessage) exec" where
  "setGlobalWaypoint_dataFromBuffer m buffer off n =
     (if n = dataSize m then finishR (runStmts
        [getByte (\<lambda>v m. m\<lparr>setGlobalWaypoint_presenceVector := v\<rparr>) buffer off n,
         getUShort (\<lambda>v m. m\<lparr>setGlobalWaypoint_waypointNumber := v\<rparr>) buffer off n,
         getInteger (\<lambda>v m. m\<lparr>setGlobalWaypoint_latitudeDegrees := jausIntegerToDouble v (- 90) 90\<rparr>) buffer off n,
         getInteger (\<lambda>v m. m\<lparr>setGlobalWaypoint_longitudeDegrees := jausIntegerToDouble v (- 180) 180\<rparr>) buffer off n,
         whenS (\<lambda>(i, m). jausByteIsBitSet (setGlobalWaypoint_presenceVector m) JAUS_WAYPOINT_PV_ELEVATION_BIT)
           [getInteger (\<lambda>v m. m\<lparr>setGlobalWaypoint_elevationMeters := jausIntegerToDouble v (- 10000) 35000\<rparr>) buffer off n],
         whenS (\<lambda>(i, m). jausByteIsBitSet (setGlobalWaypoint_presenceVector m) JAUS_WAYPOINT_PV_ROLL_BIT)
           [getShort (\<lambda>v m. m\<lparr>setGlobalWaypoint_rollRadians := jausShortToDouble v (- JAUS_PI) JAUS_PI\<rparr>) buffer off n],
         whenS (\<lambda>(i, m). jausByteIsBitSet (setGlobalWaypoint_presenceVector m) JAUS_WAYPOINT_PV_PITCH_BIT)
           [getShort (\<lambda>v m. m\<lparr>setGlobalWaypoint_pitchRadians := jausShortToDouble v (- JAUS_PI) JAUS_PI\<rparr>) buffer off n],
         whenS (\<lambda>(i, m). jausByteIsBitSet (setGlobalWaypoint_presenceVector m) JAUS_WAYPOINT_PV_YAW_BIT)
           [getShort (\<lambda>v m. m\<lparr>setGlobalWaypoint_yawRadians := jausShortToDouble v (- JAUS_PI) JAUS_PI\<rparr>) buffer off n]] (0, m))
      else Some (False, m))"

definition setGlobalWaypoint_dataToBuffer ::
    "SetGlobalWaypointMessage \<Rightarrow> bytes \<Rightarrow> nat \<Rightarrow> u32 \<Rightarrow> (nat \<times> bytes) exec" where
  "setGlobalWaypoint_dataToBuffer m buffer off n =
     (if setGlobalWaypoint_dataSize m \<le> n then finishW (runStmts
        [putByte (Some (setGlobalWaypoint_presenceVector m)) off n,
         putUShort (Some (setGlobalWaypoint_waypointNumber m)) off n,
         putInteger (jausIntegerFromDouble (setGlobalWaypoint_latitudeDegrees m) (- 90) 90) off n,
         putInteger (jausIntegerFromDouble (setGlobalWaypoint_longitudeDegrees m) (- 180) 180) off n,
         whenS (\<lambda>_. jausByteIsBitSet (setGlobalWaypoint_presenceVector m) JAUS_WAYPOINT_PV_ELEVATION_BIT)
           [putInteger (jausIntegerFromDouble (setGlobalWaypoint_elevationMeters m) (- 10000) 35000) off n],
         whenS (\<lambda>_. jausByteIsBitSet (setGlobalWaypoint_presenceVector m) JAUS_WAYPOINT_PV_ROLL_BIT)
           [putShort (jausShortFromDouble (setGlobalWaypoint_rollRadians m) (- JAUS_PI) JAUS_PI) off n],
         whenS (\<lambda>_. jausByteIsBitSet (setGlobalWaypoint_presenceVector m) JAUS_WAYPOINT_PV_PITCH_BIT)
           [putShort (jausShortFromDouble (setGlobalWaypoint_pitchRadians m) (- JAUS_PI) JAUS_PI) off n],
         whenS (\<lambda>_. jausByteIsBitSet (setGlobalWaypoint_presenceVector m) JAUS_WAYPOINT_PV_YAW_BIT)
           [putShort (jausShortFromDouble (setGlobalWaypoint_yawRadians m) (- JAUS_PI) JAUS_PI) off n]] (0, buffer))
      else Some (0, buffer))"

definition setGlobalWaypointMessageCreate :: SetGlobalWaypointMessage where
  "setGlobalWaypointMessageCreate =
     (let m = setGlobalWaypoint_dataInitialize (JausHeader.extend (blankHeader JAUS_SET_GLOBAL_WAYPOINT 21)
        (SetGlobalWaypointMessage.fields 0 0 0 0 0 0 0 0))
      in m\<lparr>dataSize := setGlobalWaypoint_dataSize m\<rparr>)"

definition setGlobalWaypointMessageFromBuffer ::
    "SetGlobalWaypointMessage \<Rightarrow> bytes \<Rightarrow> u32 \<Rightarrow> (bool \<times> SetGlobalWaypointMessage) exec" where
  "setGlobalWaypointMessageFromBuffer =
     messageFromBuffer setGlobalWaypoint_dataFromBuffer"

definition setGlobalWaypointMessageSize :: "SetGlobalWaypointMessage \<Rightarrow> u32" where
  "setGlobalWaypointMessageSize = messageSize setGlobalWaypoint_dataSize"

definition setGlobalWaypointMessageToBuffer ::
    "SetGlobalWaypointMessage \<Rightarrow> bytes \<Rightarrow> u32 \<Rightarrow> (bool \<times> SetGlobalWaypointMessage \<times> bytes) exec" where
  "setGlobalWaypointMessageToBuffer =
     messageToBuffer setGlobalWaypoint_dataSize setGlobalWaypoint_dataToBuffer"

definition setGlobalWaypointMessageFromJausMessage ::
    "SetGlobalWaypointMessage \<Rightarrow> JausMessage \<Rightarrow> SetGlobalWaypointMessage option exec" where
  "setGlobalWaypointMessageFromJausMessage =
     messageFromJausMessage JAUS_SET_GLOBAL_WAYPOINT setGlobalWaypoint_dataFromBuffer"

definition setGlobalWaypointMessageToJausMessage ::
    "SetGlobalWaypointMessage \<Rightarrow> JausMessage exec" where
  "setGlobalWaypointMessageToJausMessage =
     messageToJausMessage setGlobalWaypoint_dataSize setGlobalWaypoint_dataToBuffer"

definition setGlobalWaypoint_enc :: "SetGlobalWaypointMessage \<Rightarrow> bytes" where
  "setGlobalWaypoint_enc m =
     [setGlobalWaypoint_presenceVector m] @
     bytesOfWord 2 (setGlobalWaypoint_waypointNumber m) @
     bytesOfWord 4 (the (jausIntegerFromDouble (setGlobalWaypoint_latitudeDegrees m) (- 90) 90)) @
     bytesOfWord 4 (the (jausIntegerFromDouble (setGlobalWaypoint_longitudeDegrees m) (- 180) 180)) @
     (if bit (setGlobalWaypoint_presenceVector m) (nat JAUS_WAYPOINT_PV_ELEVATION_BIT) then bytesOfWord 4 (the (jausIntegerFromDouble (setGlobalWaypoint_elevationMeters m) (- 10000) 35000)) else []) @
     (if bit (setGlobalWaypoint_presenceVector m) (nat JAUS_WAYPOINT_PV_ROLL_BIT) then bytesOfWord 2 (the (jausShortFromDouble (setGlobalWaypoint_rollRadians m) (- JAUS_PI) JAUS_PI)) else []) @
     (if bit (setGlobalWaypoint_presenceVector m) (nat JAUS_WAYPOINT_PV_PITCH_BIT) then bytesOfWord 2 (the (jausShortFromDouble (setGlobalWaypoint_pitchRadians m) (- JAUS_PI) JAUS_PI)) else []) @
     (if bit (setGlobalWaypoint_presenceVector m) (nat JAUS_WAYPOINT_PV_YAW_BIT) then bytesOfWord 2 (the (jausShortFromDouble (setGlobalWaypoint_yawRadians m) (- JAUS_PI) JAUS_PI)) else [])"

definition setGlobalWaypoint_withData :: "SetGlobalWaypointMessage \<Rightarrow> SetGlobalWaypointMessage \<Rightarrow> SetGlobalWaypointMessage" where
  "setGlobalWaypoint_withData m0 m =
     onlyIf (bit (setGlobalWaypoint_presenceVector m) (nat JAUS_WAYPOINT_PV_YAW_BIT))
       (\<lambda>x. x\<lparr>setGlobalWaypoint_yawRadians := jausShortToDouble (the (jausShortFromDouble (setGlobalWaypoint_yawRadians m) (- JAUS_PI) JAUS_PI)) (- JAUS_PI) JAUS_PI\<rparr>)
       (onlyIf (bit (setGlobalWaypoint_presenceVector m) (nat JAUS_WAYPOINT_PV_PITCH_BIT))
       (\<lambda>x. x\<lparr>setGlobalWaypoint_pitchRadians := jausShortToDouble (the (jausShortFromDouble (setGlobalWaypoint_pitchRadians m) (- JAUS_PI) JAUS_PI)) (- JAUS_PI) JAUS_PI\<rparr>)
       (onlyIf (bit (setGlobalWaypoint_presenceVector m) (nat JAUS_WAYPOINT_PV_ROLL_BIT))
       (\<lambda>x. x\<lparr>setGlobalWaypoint_rollRadians := jausShortToDouble (the (jausShortFromDouble (setGlobalWaypoint_rollRadians m) (- JAUS_PI) JAUS_PI)) (- JAUS_PI) JAUS_PI\<rparr>)
       (onlyIf (bit (setGlobalWaypoint_presenceVector m) (nat JAUS_WAYPOINT_PV_ELEVATION_BIT))
       (\<lambda>x. x\<lparr>setGlobalWaypoint_elevationMeters := jausIntegerToDouble (the (jausIntegerFromDouble (setGlobalWaypoint_elevationMeters m) (- 10000) 35000)) (- 10000) 35000\<rparr>)
       (m0\<lparr>setGlobalWaypoint_presenceVector := setGlobalWaypoint_presenceVector m,
        setGlobalWaypoint_waypointNumber := setGlobalWaypoint_waypointNumber m,
        setGlobalWaypoint_latitudeDegrees := jausIntegerToDouble (the (jausIntegerFromDouble (setGlobalWaypoint_latitudeDegrees m) (- 90) 90)) (- 90) 90,
        setGlobalWaypoint_longitudeDegrees := jausIntegerToDouble (the (jausIntegerFromDouble (setGlobalWaypoint_longitudeDegrees m) (- 180) 180)) (- 180) 180\<rparr>))))"

lemma setGlobalWaypoint_size: "setGlobalWaypoint_dataSize m = of_nat (length (setGlobalWaypoint_enc m))"
  by (simp add: setGlobalWaypoint_dataSize_def setGlobalWaypoint_enc_def codec_simps length_if of_nat_if)

lemma setGlobalWaypoint_small: "length (setGlobalWaypoint_enc m) < 4096"
  unfolding setGlobalWaypoint_enc_def by (rule enc_small, (rule length_bounds)+, simp)

lemma setGlobalWaypoint_to:
  assumes "off + length (setGlobalWaypoint_enc m) \<le> length buf" "length (setGlobalWaypoint_enc m) \<le> unat n"
  shows "setGlobalWaypoint_dataToBuffer m buf off n =
    Some (length (setGlobalWaypoint_enc m), take off buf @ setGlobalWaypoint_enc m @ drop (off + length (setGlobalWaypoint_enc m)) buf)"
  unfolding setGlobalWaypoint_dataToBuffer_def
  by (rule to_lawI [OF _ setGlobalWaypoint_size assms], unfold setGlobalWaypoint_enc_def,
      (rule writes_intros refl | rule writes_Cons | (rule FromDouble_total, simp)
        | simp add: codec_simps)+)

lemma setGlobalWaypoint_from:
  assumes "dataSize m0 = setGlobalWaypoint_dataSize m"
  shows "setGlobalWaypoint_dataFromBuffer m0 (pre @ setGlobalWaypoint_enc m @ post) (length pre) (setGlobalWaypoint_dataSize m) = Some (True, setGlobalWaypoint_withData m0 m)"
proof -
  have n: "unat (setGlobalWaypoint_dataSize m) = length (setGlobalWaypoint_enc m)"
    using setGlobalWaypoint_small [of m] by (simp add: setGlobalWaypoint_size unat_of_nat_lt)
  show ?thesis
    unfolding setGlobalWaypoint_dataFromBuffer_def setGlobalWaypoint_withData_def
    by (rule from_lawI [where D = "setGlobalWaypoint_enc m"], unfold setGlobalWaypoint_enc_def,
        (rule parses_intros refl n [unfolded setGlobalWaypoint_enc_def] assms [symmetric] | rule parses_Cons
          | simp add: codec_simps onlyIf_def if_distrib [of setGlobalWaypoint_presenceVector])+)
qed

interpretation setGlobalWaypoint: typed_message setGlobalWaypoint_dataSize setGlobalWaypoint_dataFromBuffer
  setGlobalWaypoint_dataToBuffer setGlobalWaypoint_enc setGlobalWaypoint_withData
  by unfold_locales (fact setGlobalWaypoint_size setGlobalWaypoint_small setGlobalWaypoint_to setGlobalWaypoint_from)+

section \<open>SetLocalPathSegmentMessage\<close>

record SetLocalPathSegmentMessage = JausHeader +
  setLocalPathSegment_presenceVector :: u8
  setLocalPathSegment_pathSegmentNumber :: u16
  setLocalPathSegment_p1XM :: real
  setLocalPathSegment_p1YM :: real
  setLocalPathSegment_p1ZM :: real
  setLocalPathSegment_p2XM :: real
  setLocalPathSegment_p2YM :: real
  setLocalPathSegment_p2ZM :: real
  setLocalPathSegment_weightingFactor :: real

definition setLocalPathSegment_dataInitialize ::
    "SetLocalPathSegmentMessage \<Rightarrow> SetLocalPathSegmentMessage" where
  "setLocalPathSegment_dataInitialize m =
     m\<lparr>setLocalPathSegment_presenceVector := newJausByte JAUS_BYTE_PRESENCE_VECTOR_ALL_ON,
        setLocalPathSegment_pathSegmentNumber := newJausUnsignedShort 0,
        setLocalPathSegment_p1XM := 0,
        setLocalPathSegment_p1YM := 0,
        setLocalPathSegment_p1ZM := 0,
        setLocalPathSegment_p2XM := 0,
        setLocalPathSegment_p2YM := 0,
        setLocalPathSegment_p2ZM := 0,
        setLocalPathSegment_weightingFactor := 0\<rparr>"

definition setLocalPathSegment_dataSize :: "SetLocalPathSegmentMessage \<Rightarrow> u32" where
  "setLocalPathSegment_dataSize m =
     (1 +
      2 +
      4 +
      4 +
      (if jausByteIsBitSet (setLocalPathSegment_presenceVector m) JAUS_LOCAL_PATH_SEGMENT_PV_P1_Z_BIT = Some True then 4 else 0) +
      4 +
      4 +
      (if jausByteIsBitSet (setLocalPathSegment_presenceVector m) JAUS_LOCAL_PATH_SEGMENT_PV_P2_Z_BIT = Some True then 4 else 0) +
      2)"

definition setLocalPathSegment_dataFromBuffer ::
    "SetLocalPathSegmentMessage \<Rightarrow> bytes \<Rightarrow> nat \<Rightarrow> u32 \<Rightarrow> (bool \<times> SetLocalPathSegmentMessage) exec" where
  "setLocalPathSegment_dataFromBuffer m buffer off n =
     (if n = dataSize m then finishR (runStmts
        [getByte (\<lambda>v m. m\<lparr>setLocalPathSegment_presenceVector := v\<rparr>) buffer off n,
         getUShort (\<lambda>v m. m\<lparr>setLocalPathSegment_pathSegmentNumber := v\<rparr>) buffer off n,
         getInteger (\<lambda>v m. m\<lparr>setLocalPathSegment_p1XM := jausIntegerToDouble v (- 100000) 100000\<rparr>) buffer off n,
         getInteger (\<lambda>v m. m\<lparr>setLocalPathSegment_p1YM := jausIntegerToDouble v (- 100000) 100000\<rparr>) buffer off n,
         whenS (\<lambda>(i, m). jausByteIsBitSet (setLocalPathSegment_presenceVector m) JAUS_LOCAL_PATH_SEGMENT_PV_P1_Z_BIT)
           [getInteger (\<lambda>v m. m\<lparr>setLocalPathSegment_p1ZM := jausIntegerToDouble v (- 10000) 35000\<rparr>) buffer off n],
         getInteger (\<lambda>v m. m\<lparr>setLocalPathSegment_p2XM := jausIntegerToDouble v (- 100000) 100000\<rparr>) buffer off n,
         getInteger (\<lambda>v m. m\<lparr>setLocalPathSegment_p2YM := jausIntegerToDouble v (- 100000) 100000\<rparr>) buffer off n,
         whenS (\<lambda>(i, m). jausByteIsBitSet (setLocalPathSegment_presenceVector m) JAUS_LOCAL_PATH_SEGMENT_PV_P2_Z_BIT)
           [getInteger (\<lambda>v m. m\<lparr>setLocalPathSegment_p2ZM := jausIntegerToDouble v (- 10000) 35000\<rparr>) buffer off n],
         getUShort (\<lambda>v m. m\<lparr>setLocalPathSegment_weightingFactor := jausUnsignedShortToDouble v 0 500\<rparr>) buffer off n] (0, m))
      else Some (False, m))"

definition setLocalPathSegment_dataToBuffer ::
    "SetLocalPathSegmentMessage \<Rightarrow> bytes \<Rightarrow> nat \<Rightarrow> u32 \<Rightarrow> (nat \<times> bytes) exec" where
  "setLocalPathSegment_dataToBuffer m buffer off n =
     (if setLocalPathSegment_dataSize m \<le> n then finishW (runStmts
        [putByte (Some (setLocalPathSegment_presenceVector m)) off n,
         putUShort (Some (setLocalPathSegment_pathSegmentNumber m)) off n,
         putInteger (jausIntegerFromDouble (setLocalPathSegment_p1XM m) (- 100000) 100000) off n,
         putInteger (jausIntegerFromDouble (setLocalPathSegment_p1YM m) (- 100000) 100000) off n,
         whenS (\<lambda>_. jausByteIsBitSet (setLocalPathSegment_presenceVector m) JAUS_LOCAL_PATH_SEGMENT_PV_P1_Z_BIT)
           [putInteger (jausIntegerFromDouble (setLocalPathSegment_p1ZM m) (- 10000) 35000) off n],
         putInteger (jausIntegerFromDouble (setLocalPathSegment_p2XM m) (- 100000) 100000) off n,
         putInteger (jausIntegerFromDouble (setLocalPathSegment_p2YM m) (- 100000) 100000) off n,
         whenS (\<lambda>_. jausByteIsBitSet (setLocalPathSegment_presenceVector m) JAUS_LOCAL_PATH_SEGMENT_PV_P2_Z_BIT)
           [putInteger (jausIntegerFromDouble (setLocalPathSegment_p2ZM m) (- 10000) 35000) off n],
         putUShort (jausUnsignedShortFromDouble (setLocalPathSegment_weightingFactor m) 0 500) off n] (0, buffer))
      else Some (0, buffer))"

definition setLocalPathSegmentMessageCreate :: SetLocalPathSegmentMessage where
  "setLocalPathSegmentMessageCreate =
     (let m = setLocalPathSegment_dataInitialize (JausHeader.extend (blankHeader JAUS_SET_LOCAL_PATH_SEGMENT 29)
        (SetLocalPathSegmentMessage.fields 0 0 0 0 0 0 0 0 0))
      in m\<lparr>dataSize := setLocalPathSegment_dataSize m\<rparr>)"

definition setLocalPathSegmentMessageFromBuffer ::
    "SetLocalPathSegmentMessage \<Rightarrow> bytes \<Rightarrow> u32 \<Rightarrow> (bool \<times> SetLocalPathSegmentMessage) exec" where
  "setLocalPathSegmentMessageFromBuffer =
     messageFromBuffer setLocalPathSegment_dataFromBuffer"

definition setLocalPathSegmentMessageSize :: "SetLocalPathSegmentMessage \<Rightarrow> u32" where
  "setLocalPathSegmentMessageSize = messageSize setLocalPathSegment_dataSize"

definition setLocalPathSegmentMessageToBuffer ::
    "SetLocalPathSegmentMessage \<Rightarrow> bytes \<Rightarrow> u32 \<Rightarrow> (bool \<times> SetLocalPathSegmentMessage \<times> bytes) exec" where
  "setLocalPathSegmentMessageToBuffer =
     messageToBuffer setLocalPathSegment_dataSize setLocalPathSegment_dataToBuffer"

definition setLocalPathSegmentMessageFromJausMessage ::
    "SetLocalPathSegmentMessage \<Rightarrow> JausMessage \<Rightarrow> SetLocalPathSegmentMessage option exec" where
  "setLocalPathSegmentMessageFromJausMessage =
     messageFromJausMessage JAUS_SET_LOCAL_PATH_SEGMENT setLocalPathSegment_dataFromBuffer"

definition setLocalPathSegmentMessageToJausMessage ::
    "SetLocalPathSegmentMessage \<Rightarrow> JausMessage exec" where
  "setLocalPathSegmentMessageToJausMessage =
     messageToJausMessage setLocalPathSegment_dataSize setLocalPathSegment_dataToBuffer"

definition setLocalPathSegment_enc :: "SetLocalPathSegmentMessage \<Rightarrow> bytes" where
  "setLocalPathSegment_enc m =
     [setLocalPathSegment_presenceVector m] @
     bytesOfWord 2 (setLocalPathSegment_pathSegmentNumber m) @
     bytesOfWord 4 (the (jausIntegerFromDouble (setLocalPathSegment_p1XM m) (- 100000) 100000)) @
     bytesOfWord 4 (the (jausIntegerFromDouble (setLocalPathSegment_p1YM m) (- 100000) 100000)) @
     (if bit (setLocalPathSegment_presenceVector m) (nat JAUS_LOCAL_PATH_SEGMENT_PV_P1_Z_BIT) then bytesOfWord 4 (the (jausIntegerFromDouble (setLocalPathSegment_p1ZM m) (- 10000) 35000)) else []) @
     bytesOfWord 4 (the (jausIntegerFromDouble (setLocalPathSegment_p2XM m) (- 100000) 100000)) @
     bytesOfWord 4 (the (jausIntegerFromDouble (setLocalPathSegment_p2YM m) (- 100000) 100000)) @
     (if bit (setLocalPathSegment_presenceVector m) (nat JAUS_LOCAL_PATH_SEGMENT_PV_P2_Z_BIT) then bytesOfWord 4 (the (jausIntegerFromDouble (setLocalPathSegment_p2ZM m) (- 10000) 35000)) else []) @
     bytesOfWord 2 (the (jausUnsignedShortFromDouble (setLocalPathSegment_weightingFactor m) 0 500))"

definition setLocalPathSegment_withData :: "SetLocalPathSegmentMessage \<Rightarrow> SetLocalPathSegmentMessage \<Rightarrow> SetLocalPathSegmentMessage" where
  "setLocalPathSegment_withData m0 m =
     (onlyIf (bit (setLocalPathSegment_presenceVector m) (nat JAUS_LOCAL_PATH_SEGMENT_PV_P2_Z_BIT))
       (\<lambda>x. x\<lparr>setLocalPathSegment_p2ZM := jausIntegerToDouble (the (jausIntegerFromDouble (setLocalPathSegment_p2ZM m) (- 10000) 35000)) (- 10000) 35000\<rparr>)
       ((onlyIf (bit (setLocalPathSegment_presenceVector m) (nat JAUS_LOCAL_PATH_SEGMENT_PV_P1_Z_BIT))
       (\<lambda>x. x\<lparr>setLocalPathSegment_p1ZM := jausIntegerToDouble (the (jausIntegerFromDouble (setLocalPathSegment_p1ZM m) (- 10000) 35000)) (- 10000) 35000\<rparr>)
       (m0\<lparr>setLocalPathSegment_presenceVector := setLocalPathSegment_presenceVector m,
        setLocalPathSegment_pathSegmentNumber := setLocalPathSegment_pathSegmentNumber m,
        setLocalPathSegment_p1XM := jausIntegerToDouble (the (jausIntegerFromDouble (setLocalPathSegment_p1XM m) (- 100000) 100000)) (- 100000) 100000,
        setLocalPathSegment_p1YM := jausIntegerToDouble (the (jausIntegerFromDouble (setLocalPathSegment_p1YM m) (- 100000) 100000)) (- 100000) 100000\<rparr>))\<lparr>setLocalPathSegment_p2XM := jausIntegerToDouble (the (jausIntegerFromDouble (setLocalPathSegment_p2XM m) (- 100000) 100000)) (- 100000) 100000,
        setLocalPathSegment_p2YM := jausIntegerToDouble (the (jausIntegerFromDouble (setLocalPathSegment_p2YM m) (- 100000) 100000)) (- 100000) 100000\<rparr>))\<lparr>setLocalPathSegment_weightingFactor := jausUnsignedShortToDouble (the (jausUnsignedShortFromDouble (setLocalPathSegment_weightingFactor m) 0 500)) 0 500\<rparr>"

lemma setLocalPathSegment_size: "setLocalPathSegment_dataSize m = of_nat (length (setLocalPathSegment_enc m))"
  by (simp add: setLocalPathSegment_dataSize_def setLocalPathSegment_enc_def codec_simps length_if of_nat_if)

lemma setLocalPathSegment_small: "length (setLocalPathSegment_enc m) < 4096"
  unfolding setLocalPathSegment_enc_def by (rule enc_small, (rule length_bounds)+, simp)

lemma setLocalPathSegment_to:
  assumes "off + length (setLocalPathSegment_enc m) \<le> length buf" "length (setLocalPathSegment_enc m) \<le> unat n"
  shows "setLocalPathSegment_dataToBuffer m buf off n =
    Some (length (setLocalPathSegment_enc m), take off buf @ setLocalPathSegment_enc m @ drop (off + length (setLocalPathSegment_enc m)) buf)"
  unfolding setLocalPathSegment_dataToBuffer_def
  by (rule to_lawI [OF _ setLocalPathSegment_size assms], unfold setLocalPathSegment_enc_def,
      (rule writes_intros refl | rule writes_Cons | (rule FromDouble_total, simp)
        | simp add: codec_simps)+)

lemma setLocalPathSegment_from:
  assumes "dataSize m0 = setLocalPathSegment_dataSize m"
  shows "setLocalPathSegment_dataFromBuffer m0 (pre @ setLocalPathSegment_enc m @ post) (length pre) (setLocalPathSegment_dataSize m) = Some (True, setLocalPathSegment_withData m0 m)"
proof -
  have n: "unat (setLocalPathSegment_dataSize m) = length (setLocalPathSegment_enc m)"
    using setLocalPathSegment_small [of m] by (simp add: setLocalPathSegment_size unat_of_nat_lt)
  show ?thesis
    unfolding setLocalPathSegment_dataFromBuffer_def setLocalPathSegment_withData_def
    by (rule from_lawI [where D = "setLocalPathSegment_enc m"], unfold setLocalPathSegment_enc_def,
        (rule parses_intros refl n [unfolded setLocalPathSegment_enc_def] assms [symmetric] | rule parses_Cons
          | simp add: codec_simps onlyIf_def if_distrib [of setLocalPathSegment_presenceVector])+)
qed

interpretation setLocalPathSegment: typed_message setLocalPathSegment_dataSize setLocalPathSegment_dataFromBuffer
  setLocalPathSegment_dataToBuffer setLocalPathSegment_enc setLocalPathSegment_withData
  by unfold_locales (fact setLocalPathSegment_size setLocalPathSegment_small setLocalPathSegment_to setLocalPathSegment_from)+

section \<open>SetLocalVectorMessage\<close>

record SetLocalVectorMessage = JausHeader +
  setLocalVector_speedMps :: real
  setLocalVector_headingRadians :: real

definition setLocalVector_dataInitialize ::
    "SetLocalVectorMessage \<Rightarrow> SetLocalVectorMessage" where
  "setLocalVector_dataInitialize m =
     m\<lparr>setLocalVector_speedMps := 0,
        setLocalVector_headingRadians := 0\<rparr>"

definition setLocalVector_dataSize :: "SetLocalVectorMessage \<Rightarrow> u32" where
  "setLocalVector_dataSize m =
     (4 +
      2)"

definition setLocalVector_dataFromBuffer ::
    "SetLocalVectorMessage \<Rightarrow> bytes \<Rightarrow> nat \<Rightarrow> u32 \<Rightarrow> (bool \<times> SetLocalVectorMessage) exec" where
  "setLocalVector_dataFromBuffer m buffer off n =
     (if n = dataSize m then finishR (runStmts
        [getInteger (\<lambda>v m. m\<lparr>setLocalVector_speedMps := jausIntegerToDouble v 0 10000\<rparr>) buffer off n,
         getShort (\<lambda>v m. m\<lparr>setLocalVector_headingRadians := jausShortToDouble v (- JAUS_PI) JAUS_PI\<rparr>) buffer off n] (0, m))
      else Some (False, m))"

definition setLocalVector_dataToBuffer ::
    "SetLocalVectorMessage \<Rightarrow> bytes \<Rightarrow> nat \<Rightarrow> u32 \<Rightarrow> (nat \<times> bytes) exec" where
  "setLocalVector_dataToBuffer m buffer off n =
     (if setLocalVector_dataSize m \<le> n then finishW (runStmts
        [putInteger (jausIntegerFromDouble (setLocalVector_speedMps m) 0 10000) off n,
         putShort (jausShortFromDouble (setLocalVector_headingRadians m) (- JAUS_PI) JAUS_PI) off n] (0, buffer))
      else Some (0, buffer))"

definition setLocalVectorMessageCreate :: SetLocalVectorMessage where
  "setLocalVectorMessageCreate =
     (let m = setLocalVector_dataInitialize (JausHeader.extend (blankHeader JAUS_SET_LOCAL_VECTOR 6)
        (SetLocalVectorMessage.fields 0 0))
      in m\<lparr>dataSize := setLocalVector_dataSize m\<rparr>)"

definition setLocalVectorMessageFromBuffer ::
    "SetLocalVectorMessage \<Rightarrow> bytes \<Rightarrow> u32 \<Rightarrow> (bool \<times> SetLocalVectorMessage) exec" where
  "setLocalVectorMessageFromBuffer =
     messageFromBuffer setLocalVector_dataFromBuffer"

definition setLocalVectorMessageSize :: "SetLocalVectorMessage \<Rightarrow> u32" where
  "setLocalVectorMessageSize = messageSize setLocalVector_dataSize"

definition setLocalVectorMessageToBuffer ::
    "SetLocalVectorMessage \<Rightarrow> bytes \<Rightarrow> u32 \<Rightarrow> (bool \<times> SetLocalVectorMessage \<times> bytes) exec" where
  "setLocalVectorMessageToBuffer =
     messageToBuffer setLocalVector_dataSize setLocalVector_dataToBuffer"

definition setLocalVectorMessageFromJausMessage ::
    "SetLocalVectorMessage \<Rightarrow> JausMessage \<Rightarrow> SetLocalVectorMessage option exec" where
  "setLocalVectorMessageFromJausMessage =
     messageFromJausMessage JAUS_SET_LOCAL_VECTOR setLocalVector_dataFromBuffer"

definition setLocalVectorMessageToJausMessage ::
    "SetLocalVectorMessage \<Rightarrow> JausMessage exec" where
  "setLocalVectorMessageToJausMessage =
     messageToJausMessage setLocalVector_dataSize setLocalVector_dataToBuffer"

definition setLocalVector_enc :: "SetLocalVectorMessage \<Rightarrow> bytes" where
  "setLocalVector_enc m =
     bytesOfWord 4 (the (jausIntegerFromDouble (setLocalVector_speedMps m) 0 10000)) @
     bytesOfWord 2 (the (jausShortFromDouble (setLocalVector_headingRadians m) (- JAUS_PI) JAUS_PI))"

definition setLocalVector_withData :: "SetLocalVectorMessage \<Rightarrow> SetLocalVectorMessage \<Rightarrow> SetLocalVectorMessage" where
  "setLocalVector_withData m0 m =
     m0\<lparr>setLocalVector_speedMps := jausIntegerToDouble (the (jausIntegerFromDouble (setLocalVector_speedMps m) 0 10000)) 0 10000,
        setLocalVector_headingRadians := jausShortToDouble (the (jausShortFromDouble (setLocalVector_headingRadians m) (- JAUS_PI) JAUS_PI)) (- JAUS_PI) JAUS_PI\<rparr>"

lemma setLocalVector_size: "setLocalVector_dataSize m = of_nat (length (setLocalVector_enc m))"
  by (simp add: setLocalVector_dataSize_def setLocalVector_enc_def)

lemma setLocalVector_small: "length (setLocalVector_enc m) < 4096"
  unfolding setLocalVector_enc_def by (rule enc_small, (rule length_bounds)+, simp)

lemma setLocalVector_to:
  assumes "off + length (setLocalVector_enc m) \<le> length buf" "length (setLocalVector_enc m) \<le> unat n"
  shows "setLocalVector_dataToBuffer m buf off n =
    Some (length (setLocalVector_enc m), take off buf @ setLocalVector_enc m @ drop (off + length (setLocalVector_enc m)) buf)"
  unfolding setLocalVector_dataToBuffer_def
  by (rule to_lawI [OF _ setLocalVector_size assms], unfold setLocalVector_enc_def,
      (rule writes_intros refl | rule writes_Cons | (rule FromDouble_total, simp)
        | simp add: codec_simps)+)

lemma setLocalVector_from:
  assumes "dataSize m0 = setLocalVector_dataSize m"
  shows "setLocalVector_dataFromBuffer m0 (pre @ setLocalVector_enc m @ post) (length pre) (setLocalVector_dataSize m) = Some (True, setLocalVector_withData m0 m)"
proof -
  have n: "unat (setLocalVector_dataSize m) = length (setLocalVector_enc m)"
    using setLocalVector_small [of m] by (simp add: setLocalVector_size unat_of_nat_lt)
  show ?thesis
    unfolding setLocalVector_dataFromBuffer_def setLocalVector_withData_def
    by (rule from_lawI [where D = "setLocalVector_enc m"], unfold setLocalVector_enc_def,
        (rule parses_intros refl n [unfolded setLocalVector_enc_def] assms [symmetric] | rule parses_Cons
          | simp add: codec_simps)+)
qed

interpretation setLocalVector: typed_message setLocalVector_dataSize setLocalVector_dataFromBuffer
  setLocalVector_dataToBuffer setLocalVector_enc setLocalVector_withData
  by unfold_locales (fact setLocalVector_size setLocalVector_small setLocalVector_to setLocalVector_from)+

section \<open>SetLocalWaypointMessage\<close>

record SetLocalWaypointMessage = JausHeader +
  setLocalWaypoint_presenceVector :: u8
  setLocalWaypoint_waypointNumber :: u16
  setLocalWaypoint_xM :: real
  setLocalWaypoint_yM :: real
  setLocalWaypoint_zM :: real
  setLocalWaypoint_rollRadians :: real
  setLocalWaypoint_pitchRadians :: real
  setLocalWaypoint_yawRadians :: real

definition setLocalWaypoint_dataInitialize ::
    "SetLocalWaypointMessage \<Rightarrow> SetLocalWaypointMessage" where
  "setLocalWaypoint_dataInitialize m =
     m\<lparr>setLocalWaypoint_presenceVector := newJausByte JAUS_BYTE_PRESENCE_VECTOR_ALL_ON,
        setLocalWaypoint_waypointNumber := newJausUnsignedShort 0,
        setLocalWaypoint_xM := 0,
        setLocalWaypoint_yM := 0,
        setLocalWaypoint_zM := 0,
        setLocalWaypoint_rollRadians := 0,
        setLocalWaypoint_pitchRadians := 0,
        setLocalWaypoint_yawRadians := 0\<rparr>"

definition setLocalWaypoint_dataSize :: "SetLocalWaypointMessage \<Rightarrow> u32" where
  "setLocalWaypoint_dataSize m =
     (1 +
      2 +
      4 +
      4 +
      (if jausByteIsBitSet (setLocalWaypoint_presenceVector m) JAUS_LOCAL_WAYPOINT_PV_Z_BIT = Some True then 4 else 0) +
      (if jausByteIsBitSet (setLocalWaypoint_presenceVector m) JAUS_LOCAL_WAYPOINT_PV_ROLL_BIT = Some True then 2 else 0) +
      (if jausByteIsBitSet (setLocalWaypoint_presenceVector m) JAUS_LOCAL_WAYPOINT_PV_PITCH_BIT = Some True then 2 else 0) +
      (if jausByteIsBitSet (setLocalWaypoint_presenceVector m) JAUS_LOCAL_WAYPOINT_PV_YAW_BIT = Some True then 2 else 0))"

definition setLocalWaypoint_dataFromBuffer ::
    "SetLocalWaypointMessage \<Rightarrow> bytes \<Rightarrow> nat \<Rightarrow> u32 \<Rightarrow> (bool \<times> SetLocalWaypointMessage) exec" where
  "setLocalWaypoint_dataFromBuffer m buffer off n =
     (if n = dataSize m then finishR (runStmts
        [getByte (\<lambda>v m. m\<lparr>setLocalWaypoint_presenceVector := v\<rparr>) buffer off n,
         getUShort (\<lambda>v m. m\<lparr>setLocalWaypoint_waypointNumber := v\<rparr>) buffer off n,
         getInteger (\<lambda>v m. m\<lparr>setLocalWaypoint_xM := jausIntegerToDouble v (- 100000) 100000\<rparr>) buffer off n,
         getInteger (\<lambda>v m. m\<lparr>setLocalWaypoint_yM := jausIntegerToDouble v (- 100000) 100000\<rparr>) buffer off n,
         whenS (\<lambda>(i, m). jausByteIsBitSet (setLocalWaypoint_presenceVector m) JAUS_LOCAL_WAYPOINT_PV_Z_BIT)
           [getInteger (\<lambda>v m. m\<lparr>setLocalWaypoint_zM := jausIntegerToDouble v (- 10000) 35000\<rparr>) buffer off n],
         whenS (\<lambda>(i, m). jausByteIsBitSet (setLocalWaypoint_presenceVector m) JAUS_LOCAL_WAYPOINT_PV_ROLL_BIT)
           [getShort (\<lambda>v m. m\<lparr>setLocalWaypoint_rollRadians := jausShortToDouble v (- JAUS_PI) JAUS_PI\<rparr>) buffer off n],
         whenS (\<lambda>(i, m). jausByteIsBitSet (setLocalWaypoint_presenceVector m) JAUS_LOCAL_WAYPOINT_PV_PITCH_BIT)
           [getShort (\<lambda>v m. m\<lparr>setLocalWaypoint_pitchRadians := jausShortToDouble v (- JAUS_PI) JAUS_PI\<rparr>) buffer off n],
         whenS (\<lambda>(i, m). jausByteIsBitSet (setLocalWaypoint_presenceVector m) JAUS_LOCAL_WAYPOINT_PV_YAW_BIT)
           [getShort (\<lambda>v m. m\<lparr>setLocalWaypoint_yawRadians := jausShortToDouble v (- JAUS_PI) JAUS_PI\<rparr>) buffer off n]] (0, m))
      else Some (False, m))"

definition setLocalWaypoint_dataToBuffer ::
    "SetLocalWaypointMessage \<Rightarrow> bytes \<Rightarrow> nat \<Rightarrow> u32 \<Rightarrow> (nat \<times> bytes) exec" where
  "setLocalWaypoint_dataToBuffer m buffer off n =
     (if setLocalWaypoint_dataSize m \<le> n then finishW (runStmts
        [putByte (Some (setLocalWaypoint_presenceVector m)) off n,
         putUShort (Some (setLocalWaypoint_waypointNumber m)) off n,
         putInteger (jausIntegerFromDouble (setLocalWaypoint_xM m) (- 100000) 100000) off n,
         putInteger (jausIntegerFromDouble (setLocalWaypoint_yM m) (- 100000) 100000) off n,
         whenS (\<lambda>_. jausByteIsBitSet (setLocalWaypoint_presenceVector m) JAUS_LOCAL_WAYPOINT_PV_Z_BIT)
           [putInteger (jausIntegerFromDouble (setLocalWaypoint_zM m) (- 10000) 35000) off n],
         whenS (\<lambda>_. jausByteIsBitSet (setLocalWaypoint_presenceVector m) JAUS_LOCAL_WAYPOINT_PV_ROLL_BIT)
           [putShort (jausShortFromDouble (setLocalWaypoint_rollRadians m) (- JAUS_PI) JAUS_PI) off n],
         whenS (\<lambda>_. jausByteIsBitSet (setLocalWaypoint_presenceVector m) JAUS_LOCAL_WAYPOINT_PV_PITCH_BIT)
           [putShort (jausShortFromDouble (setLocalWaypoint_pitchRadians m) (- JAUS_PI) JAUS_PI) off n],
         whenS (\<lambda>_. jausByteIsBitSet (setLocalWaypoint_presenceVector m) JAUS_LOCAL_WAYPOINT_PV_YAW_BIT)
           [putShort (jausShortFromDouble (setLocalWaypoint_yawRadians m) (- JAUS_PI) JAUS_PI) off n]] (0, buffer))
      else Some (0, buffer))"

definition setLocalWaypointMessageCreate :: SetLocalWaypointMessage where
  "setLocalWaypointMessageCreate =
     (let m = setLocalWaypoint_dataInitialize (JausHeader.extend (blankHeader JAUS_SET_LOCAL_WAYPOINT 21)
        (SetLocalWaypointMessage.fields 0 0 0 0 0 0 0 0))
      in m\<lparr>dataSize := setLocalWaypoint_dataSize m\<rparr>)"

definition setLocalWaypointMessageFromBuffer ::
    "SetLocalWaypointMessage \<Rightarrow> bytes \<Rightarrow> u32 \<Rightarrow> (bool \<times> SetLocalWaypointMessage) exec" where
  "setLocalWaypointMessageFromBuffer =
     messageFromBuffer setLocalWaypoint_dataFromBuffer"

definition setLocalWaypointMessageSize :: "SetLocalWaypointMessage \<Rightarrow> u32" where
  "setLocalWaypointMessageSize = messageSize setLocalWaypoint_dataSize"

definition setLocalWaypointMessageToBuffer ::
    "SetLocalWaypointMessage \<Rightarrow> bytes \<Rightarrow> u32 \<Rightarrow> (bool \<times> SetLocalWaypointMessage \<times> bytes) exec" where
  "setLocalWaypointMessageToBuffer =
     messageToBuffer setLocalWaypoint_dataSize setLocalWaypoint_dataToBuffer"

definition setLocalWaypointMessageFromJausMessage ::
    "SetLocalWaypointMessage \<Rightarrow> JausMessage \<Rightarrow> SetLocalWaypointMessage option exec" where
  "setLocalWaypointMessageFromJausMessage =
     messageFromJausMessage JAUS_SET_LOCAL_WAYPOINT setLocalWaypoint_dataFromBuffer"

definition setLocalWaypointMessageToJausMessage ::
    "SetLocalWaypointMessage \<Rightarrow> JausMessage exec" where
  "setLocalWaypointMessageToJausMessage =
     messageToJausMessage setLocalWaypoint_dataSize setLocalWaypoint_dataToBuffer"

definition setLocalWaypoint_enc :: "SetLocalWaypointMessage \<Rightarrow> bytes" where
  "setLocalWaypoint_enc m =
     [setLocalWaypoint_presenceVector m] @
     bytesOfWord 2 (setLocalWaypoint_waypointNumber m) @
     bytesOfWord 4 (the (jausIntegerFromDouble (setLocalWaypoint_xM m) (- 100000) 100000)) @
     bytesOfWord 4 (the (jausIntegerFromDouble (setLocalWaypoint_yM m) (- 100000) 100000)) @
     (if bit (setLocalWaypoint_presenceVector m) (nat JAUS_LOCAL_WAYPOINT_PV_Z_BIT) then bytesOfWord 4 (the (jausIntegerFromDouble (setLocalWaypoint_zM m) (- 10000) 35000)) else []) @
     (if bit (setLocalWaypoint_presenceVector m) (nat JAUS_LOCAL_WAYPOINT_PV_ROLL_BIT) then bytesOfWord 2 (the (jausShortFromDouble (setLocalWaypoint_rollRadians m) (- JAUS_PI) JAUS_PI)) else []) @
     (if bit (setLocalWaypoint_presenceVector m) (nat JAUS_LOCAL_WAYPOINT_PV_PITCH_BIT) then bytesOfWord 2 (the (jausShortFromDouble (setLocalWaypoint_pitchRadians m) (- JAUS_PI) JAUS_PI)) else []) @
     (if bit (setLocalWaypoint_presenceVector m) (nat JAUS_LOCAL_WAYPOINT_PV_YAW_BIT) then bytesOfWord 2 (the (jausShortFromDouble (setLocalWaypoint_yawRadians m) (- JAUS_PI) JAUS_PI)) else [])"

definition setLocalWaypoint_withData :: "SetLocalWaypointMessage \<Rightarrow> SetLocalWaypointMessage \<Rightarrow> SetLocalWaypointMessage" where
  "setLocalWaypoint_withData m0 m =
     onlyIf (bit (setLocalWaypoint_presenceVector m) (nat JAUS_LOCAL_WAYPOINT_PV_YAW_BIT))
       (\<lambda>x. x\<lparr>setLocalWaypoint_yawRadians := jausShortToDouble (the (jausShortFromDouble (setLocalWaypoint_yawRadians m) (- JAUS_PI) JAUS_PI)) (- JAUS_PI) JAUS_PI\<rparr>)
       (onlyIf (bit (setLocalWaypoint_presenceVector m) (nat JAUS_LOCAL_WAYPOINT_PV_PITCH_BIT))
       (\<lambda>x. x\<lparr>setLocalWaypoint_pitchRadians := jausShortToDouble (the (jausShortFromDouble (setLocalWaypoint_pitchRadians m) (- JAUS_PI) JAUS_PI)) (- JAUS_PI) JAUS_PI\<rparr>)
       (onlyIf (bit (setLocalWaypoint_presenceVector m) (nat JAUS_LOCAL_WAYPOINT_PV_ROLL_BIT))
       (\<lambda>x. x\<lparr>setLocalWaypoint_rollRadians := jausShortToDouble (the (jausShortFromDouble (setLocalWaypoint_rollRadians m) (- JAUS_PI) JAUS_PI)) (- JAUS_PI) JAUS_PI\<rparr>)
       (onlyIf (bit (setLocalWaypoint_presenceVector m) (nat JAUS_LOCAL_WAYPOINT_PV_Z_BIT))
       (\<lambda>x. x\<lparr>setLocalWaypoint_zM := jausIntegerToDouble (the (jausIntegerFromDouble (setLocalWaypoint_zM m) (- 10000) 35000)) (- 10000) 35000\<rparr>)
       (m0\<lparr>setLocalWaypoint_presenceVector := setLocalWaypoint_presenceVector m,
        setLocalWaypoint_waypointNumber := setLocalWaypoint_waypointNumber m,
        setLocalWaypoint_xM := jausIntegerToDouble (the (jausIntegerFromDouble (setLocalWaypoint_xM m) (- 100000) 100000)) (- 100000) 100000,
        setLocalWaypoint_yM := jausIntegerToDouble (the (jausIntegerFromDouble (setLocalWaypoint_yM m) (- 100000) 100000)) (- 100000) 100000\<rparr>))))"

lemma setLocalWaypoint_size: "setLocalWaypoint_dataSize m = of_nat (length (setLocalWaypoint_enc m))"
  by (simp add: setLocalWaypoint_dataSize_def setLocalWaypoint_enc_def codec_simps length_if of_nat_if)

lemma setLocalWaypoint_small: "length (setLocalWaypoint_enc m) < 4096"
  unfolding setLocalWaypoint_enc_def by (rule enc_small, (rule length_bounds)+, simp)

lemma setLocalWaypoint_to:
  assumes "off + length (setLocalWaypoint_enc m) \<le> length buf" "length (setLocalWaypoint_enc m) \<le> unat n"
  shows "setLocalWaypoint_dataToBuffer m buf off n =
    Some (length (setLocalWaypoint_enc m), take off buf @ setLocalWaypoint_enc m @ drop (off + length (setLocalWaypoint_enc m)) buf)"
  unfolding setLocalWaypoint_dataToBuffer_def
  by (rule to_lawI [OF _ setLocalWaypoint_size assms], unfold setLocalWaypoint_enc_def,
      (rule writes_intros refl | rule writes_Cons | (rule FromDouble_total, simp)
        | simp add: codec_simps)+)

lemma setLocalWaypoint_from:
  assumes "dataSize m0 = setLocalWaypoint_dataSize m"
  shows "setLocalWaypoint_dataFromBuffer m0 (pre @ setLocalWaypoint_enc m @ post) (length pre) (setLocalWaypoint_dataSize m) = Some (True, setLocalWaypoint_withData m0 m)"
proof -
  have n: "unat (setLocalWaypoint_dataSize m) = length (setLocalWaypoint_enc m)"
    using setLocalWaypoint_small [of m] by (simp add: setLocalWaypoint_size unat_of_nat_lt)
  show ?thesis
    unfolding setLocalWaypoint_dataFromBuffer_def setLocalWaypoint_withData_def
    by (rule from_lawI [where D = "setLocalWaypoint_enc m"], unfold setLocalWaypoint_enc_def,
        (rule parses_intros refl n [unfolded setLocalWaypoint_enc_def] assms [symmetric] | rule parses_Cons
          | simp add: codec_simps onlyIf_def if_distrib [of setLocalWaypoint_presenceVector])+)
qed

interpretation setLocalWaypoint: typed_message setLocalWaypoint_dataSize setLocalWaypoint_dataFromBuffer
  setLocalWaypoint_dataToBuffer setLocalWaypoint_enc setLocalWaypoint_withData
  by unfold_locales (fact setLocalWaypoint_size setLocalWaypoint_small setLocalWaypoint_to setLocalWaypoint_from)+

section \<open>SetTravelSpeedMessage\<close>

record SetTravelSpeedMessage = JausHeader +
  setTravelSpeed_speedMps :: real

definition setTravelSpeed_dataInitialize ::
    "SetTravelSpeedMessage \<Rightarrow> SetTravelSpeedMessage" where
  "setTravelSpeed_dataInitialize m =
     m\<lparr>setTravelSpeed_speedMps := 0\<rparr>"

definition setTravelSpeed_dataSize :: "SetTravelSpeedMessage \<Rightarrow> u32" where
  "setTravelSpeed_dataSize m =
     2"

definition setTravelSpeed_dataFromBuffer ::
    "SetTravelSpeedMessage \<Rightarrow> bytes \<Rightarrow> nat \<Rightarrow> u32 \<Rightarrow> (bool \<times> SetTravelSpeedMessage) exec" where
  "setTravelSpeed_dataFromBuffer m buffer off n =
     (if n = dataSize m then finishR (runStmts
        [getUShort (\<lambda>v m. m\<lparr>setTravelSpeed_speedMps := jausUnsignedShortToDouble v 0 10000\<rparr>) buffer off n] (0, m))
      else Some (False, m))"

definition setTravelSpeed_dataToBuffer ::
    "SetTravelSpeedMessage \<Rightarrow> bytes \<Rightarrow> nat \<Rightarrow> u32 \<Rightarrow> (nat \<times> bytes) exec" where
  "setTravelSpeed_dataToBuffer m buffer off n =
     (if setTravelSpeed_dataSize m \<le> n then finishW (runStmts
        [putUShort (jausUnsignedShortFromDouble (setTravelSpeed_speedMps m) 0 10000) off n] (0, buffer))
      else Some (0, buffer))"

definition setTravelSpeedMessageCreate :: SetTravelSpeedMessage where
  "setTravelSpeedMessageCreate =
     (setTravelSpeed_dataInitialize (JausHeader.extend (blankHeader JAUS_SET_TRAVEL_SPEED 2)
        (SetTravelSpeedMessage.fields 0)))"

definition setTravelSpeedMessageFromBuffer ::
    "SetTravelSpeedMessage \<Rightarrow> bytes \<Rightarrow> u32 \<Rightarrow> (bool \<times> SetTravelSpeedMessage) exec" where
  "setTravelSpeedMessageFromBuffer =
     messageFromBuffer setTravelSpeed_dataFromBuffer"

definition setTravelSpeedMessageSize :: "SetTravelSpeedMessage \<Rightarrow> u32" where
  "setTravelSpeedMessageSize = messageSize setTravelSpeed_dataSize"

definition setTravelSpeedMessageToBuffer ::
    "SetTravelSpeedMessage \<Rightarrow> bytes \<Rightarrow> u32 \<Rightarrow> (bool \<times> SetTravelSpeedMessage \<times> bytes) exec" where
  "setTravelSpeedMessageToBuffer =
     messageToBuffer setTravelSpeed_dataSize setTravelSpeed_dataToBuffer"

definition setTravelSpeedMessageFromJausMessage ::
    "SetTravelSpeedMessage \<Rightarrow> JausMessage \<Rightarrow> SetTravelSpeedMessage option exec" where
  "setTravelSpeedMessageFromJausMessage =
     messageFromJausMessage JAUS_SET_TRAVEL_SPEED setTravelSpeed_dataFromBuffer"

definition setTravelSpeedMessageToJausMessage ::
    "SetTravelSpeedMessage \<Rightarrow> JausMessage exec" where
  "setTravelSpeedMessageToJausMessage =
     messageToJausMessage setTravelSpeed_dataSize setTravelSpeed_dataToBuffer"

definition setTravelSpeed_enc :: "SetTravelSpeedMessage \<Rightarrow> bytes" where
  "setTravelSpeed_enc m =
     bytesOfWord 2 (the (jausUnsignedShortFromDouble (setTravelSpeed_speedMps m) 0 10000))"

definition setTravelSpeed_withData :: "SetTravelSpeedMessage \<Rightarrow> SetTravelSpeedMessage \<Rightarrow> SetTravelSpeedMessage" where
  "setTravelSpeed_withData m0 m =
     m0\<lparr>setTravelSpeed_speedMps := jausUnsignedShortToDouble (the (jausUnsignedShortFromDouble (setTravelSpeed_speedMps m) 0 10000)) 0 10000\<rparr>"

lemma setTravelSpeed_size: "setTravelSpeed_dataSize m = of_nat (length (setTravelSpeed_enc m))"
  by (simp add: setTravelSpeed_dataSize_def setTravelSpeed_enc_def)

lemma setTravelSpeed_small: "length (setTravelSpeed_enc m) < 4096"
  unfolding setTravelSpeed_enc_def by (rule enc_small, (rule length_bounds)+, simp)

lemma setTravelSpeed_to:
  assumes "off + length (setTravelSpeed_enc m) \<le> length buf" "length (setTravelSpeed_enc m) \<le> unat n"
  shows "setTravelSpeed_dataToBuffer m buf off n =
    Some (length (setTravelSpeed_enc m), take off buf @ setTravelSpeed_enc m @ drop (off + length (setTravelSpeed_enc m)) buf)"
  unfolding setTravelSpeed_dataToBuffer_def
  by (rule to_lawI [OF _ setTravelSpeed_size assms], unfold setTravelSpeed_enc_def,
      (rule writes_intros refl | rule writes_Cons | (rule FromDouble_total, simp)
        | simp add: codec_simps)+)

lemma setTravelSpeed_from:
  assumes "dataSize m0 = setTravelSpeed_dataSize m"
  shows "setTravelSpeed_dataFromBuffer m0 (pre @ setTravelSpeed_enc m @ post) (length pre) (setTravelSpeed_dataSize m) = Some (True, setTravelSpeed_withData m0 m)"
proof -
  have n: "unat (setTravelSpeed_dataSize m) = length (setTravelSpeed_enc m)"
    using setTravelSpeed_small [of m] by (simp add: setTravelSpeed_size unat_of_nat_lt)
  show ?thesis
    unfolding setTravelSpeed_dataFromBuffer_def setTravelSpeed_withData_def
    by (rule from_lawI [where D = "setTravelSpeed_enc m"], unfold setTravelSpeed_enc_def,
        (rule parses_intros refl n [unfolded setTravelSpeed_enc_def] assms [symmetric] | rule parses_Cons
          | simp add: codec_simps)+)
qed

interpretation setTravelSpeed: typed_message setTravelSpeed_dataSize setTravelSpeed_dataFromBuffer
  setTravelSpeed_dataToBuffer setTravelSpeed_enc setTravelSpeed_withData
  by unfold_locales (fact setTravelSpeed_size setTravelSpeed_small setTravelSpeed_to setTravelSpeed_from)+

section \<open>SetVelocityStateMessage\<close>

record SetVelocityStateMessage = JausHeader +
  setVelocityState_presenceVector :: u16
  setVelocityState_velocityXMps :: real
  setVelocityState_velocityYMps :: real
  setVelocityState_velocityZMps :: real
  setVelocityState_velocityRmsMps :: real
  setVelocityState_rollRateRps :: real
  setVelocityState_pitchRateRps :: real
  setVelocityState_yawRateRps :: real
  setVelocityState_rateRmsRps :: real
  setVelocityState_timeStamp :: u32

definition setVelocityState_dataInitialize ::
    "SetVelocityStateMessage \<Rightarrow> SetVelocityStateMessage" where
  "setVelocityState_dataInitialize m =
     m\<lparr>setVelocityState_presenceVector := newJausUnsignedShort JAUS_SHORT_PRESENCE_VECTOR_ALL_ON,
        setVelocityState_velocityXMps := 0,
        setVelocityState_velocityYMps := 0,
        setVelocityState_velocityZMps := 0,
        setVelocityState_velocityRmsMps := 0,
        setVelocityState_rollRateRps := 0,
        setVelocityState_pitchRateRps := 0,
        setVelocityState_yawRateRps := 0,
        setVelocityState_rateRmsRps := 0,
        setVelocityState_timeStamp := newJausUnsignedInteger 0\<rparr>"

definition setVelocityState_dataSize :: "SetVelocityStateMessage \<Rightarrow> u32" where
  "setVelocityState_dataSize m =
     (2 +
      (if jausUnsignedShortIsBitSet (setVelocityState_presenceVector m) JAUS_VELOCITY_PV_VELOCITY_X_BIT = Some True then 4 else 0) +
      (if jausUnsignedShortIsBitSet (setVelocityState_presenceVector m) JAUS_VELOCITY_PV_VELOCITY_Y_BIT = Some True then 4 else 0) +
      (if jausUnsignedShortIsBitSet (setVelocityState_presenceVector m) JAUS_VELOCITY_PV_VELOCITY_Z_BIT = Some True then 4 else 0) +
      (if jausUnsignedShortIsBitSet (setVelocityState_presenceVector m) JAUS_VELOCITY_PV_VELOCITY_RMS_BIT = Some True then 4 else 0) +
      (if jausUnsignedShortIsBitSet (setVelocityState_presenceVector m) JAUS_VELOCITY_PV_ROLL_RATE_BIT = Some True then 2 else 0) +
      (if jausUnsignedShortIsBitSet (setVelocityState_presenceVector m) JAUS_VELOCITY_PV_PITCH_RATE_BIT = Some True then 2 else 0) +
      (if jausUnsignedShortIsBitSet (setVelocityState_presenceVector m) JAUS_VELOCITY_PV_YAW_RATE_BIT = Some True then 2 else 0) +
      (if jausUnsignedShortIsBitSet (setVelocityState_presenceVector m) JAUS_VELOCITY_PV_RATE_RMS_BIT = Some True then 2 else 0) +
      (if jausUnsignedShortIsBitSet (setVelocityState_presenceVector m) JAUS_VELOCITY_PV_TIME_STAMP_BIT = Some True then 4 else 0))"

definition setVelocityState_dataFromBuffer ::
    "SetVelocityStateMessage \<Rightarrow> bytes \<Rightarrow> nat \<Rightarrow> u32 \<Rightarrow> (bool \<times> SetVelocityStateMessage) exec" where
  "setVelocityState_dataFromBuffer m buffer off n =
     (if n = dataSize m then finishR (runStmts
        [getUShort (\<lambda>v m. m\<lparr>setVelocityState_presenceVector := v\<rparr>) buffer off n,
         whenS (\<lambda>(i, m). jausUnsignedShortIsBitSet (setVelocityState_presenceVector m) JAUS_VELOCITY_PV_VELOCITY_X_BIT)
           [getInteger (\<lambda>v m. m\<lparr>setVelocityState_velocityXMps := jausIntegerToDouble v (- 65.534) 65.534\<rparr>) buffer off n],
         whenS (\<lambda>(i, m). jausUnsignedShortIsBitSet (setVelocityState_presenceVector m) JAUS_VELOCITY_PV_VELOCITY_Y_BIT)
           [getInteger (\<lambda>v m. m\<lparr>setVelocityState_velocityYMps := jausIntegerToDouble v (- 65.534) 65.534\<rparr>) buffer off n],
         whenS (\<lambda>(i, m). jausUnsignedShortIsBitSet (setVelocityState_presenceVector m) JAUS_VELOCITY_PV_VELOCITY_Z_BIT)
           [getInteger (\<lambda>v m. m\<lparr>setVelocityState_velocityZMps := jausIntegerToDouble v (- 65.534) 65.534\<rparr>) buffer off n],
         whenS (\<lambda>(i, m). jausUnsignedShortIsBitSet (setVelocityState_presenceVector m) JAUS_VELOCITY_PV_VELOCITY_RMS_BIT)
           [getUInteger (\<lambda>v m. m\<lparr>setVelocityState_velocityRmsMps := jausUnsignedIntegerToDouble v 0 100\<rparr>) buffer off n],
         whenS (\<lambda>(i, m). jausUnsignedShortIsBitSet (setVelocityState_presenceVector m) JAUS_VELOCITY_PV_ROLL_RATE_BIT)
           [getShort (\<lambda>v m. m\<lparr>setVelocityState_rollRateRps := jausShortToDouble v (- 32.767) 32.767\<rparr>) buffer off n],
         whenS (\<lambda>(i, m). jausUnsignedShortIsBitSet (setVelocityState_presenceVector m) JAUS_VELOCITY_PV_PITCH_RATE_BIT)
           [getShort (\<lambda>v m. m\<lparr>setVelocityState_pitchRateRps := jausShortToDouble v (- 32.767) 32.767\<rparr>) buffer off n],
         whenS (\<lambda>(i, m). jausUnsignedShortIsBitSet (setVelocityState_presenceVector m) JAUS_VELOCITY_PV_YAW_RATE_BIT)
           [getShort (\<lambda>v m. m\<lparr>setVelocityState_yawRateRps := jausShortToDouble v (- 32.767) 32.767\<rparr>) buffer off n],
         whenS (\<lambda>(i, m). jausUnsignedShortIsBitSet (setVelocityState_presenceVector m) JAUS_VELOCITY_PV_RATE_RMS_BIT)
           [getUShort (\<lambda>v m. m\<lparr>setVelocityState_rateRmsRps := jausUnsignedShortToDouble v 0 JAUS_PI\<rparr>) buffer off n],
         whenS (\<lambda>(i, m). jausUnsignedShortIsBitSet (setVelocityState_presenceVector m) JAUS_VELOCITY_PV_TIME_STAMP_BIT)
           [getUInteger (\<lambda>v m. m\<lparr>setVelocityState_timeStamp := v\<rparr>) buffer off n]] (0, m))
      else Some (False, m))"

definition setVelocityState_dataToBuffer ::
    "SetVelocityStateMessage \<Rightarrow> bytes \<Rightarrow> nat \<Rightarrow> u32 \<Rightarrow> (nat \<times> bytes) exec" where
  "setVelocityState_dataToBuffer m buffer off n =
     (if setVelocityState_dataSize m \<le> n then finishW (runStmts
        [putUShort (Some (setVelocityState_presenceVector m)) off n,
         whenS (\<lambda>_. jausUnsignedShortIsBitSet (setVelocityState_presenceVector m) JAUS_VELOCITY_PV_VELOCITY_X_BIT)
           [putInteger (jausIntegerFromDouble (setVelocityState_velocityXMps m) (- 65.534) 65.534) off n],
         whenS (\<lambda>_. jausUnsignedShortIsBitSet (setVelocityState_presenceVector m) JAUS_VELOCITY_PV_VELOCITY_Y_BIT)
           [putInteger (jausIntegerFromDouble (setVelocityState_velocityYMps m) (- 65.534) 65.534) off n],
         whenS (\<lambda>_. jausUnsignedShortIsBitSet (setVelocityState_presenceVector m) JAUS_VELOCITY_PV_VELOCITY_Z_BIT)
           [putInteger (jausIntegerFromDouble (setVelocityState_velocityZMps m) (- 65.534) 65.534) off n],
         whenS (\<lambda>_. jausUnsignedShortIsBitSet (setVelocityState_presenceVector m) JAUS_VELOCITY_PV_VELOCITY_RMS_BIT)
           [putUInteger (jausUnsignedIntegerFromDouble (setVelocityState_velocityRmsMps m) 0 100) off n],
         whenS (\<lambda>_. jausUnsignedShortIsBitSet (setVelocityState_presenceVector m) JAUS_VELOCITY_PV_ROLL_RATE_BIT)
           [putShort (jausShortFromDouble (setVelocityState_rollRateRps m) (- 32.767) 32.767) off n],
         whenS (\<lambda>_. jausUnsignedShortIsBitSet (setVelocityState_presenceVector m) JAUS_VELOCITY_PV_PITCH_RATE_BIT)
           [putShort (jausShortFromDouble (setVelocityState_pitchRateRps m) (- 32.767) 32.767) off n],
         whenS (\<lambda>_. jausUnsignedShortIsBitSet (setVelocityState_presenceVector m) JAUS_VELOCITY_PV_YAW_RATE_BIT)
           [putShort (jausShortFromDouble (setVelocityState_yawRateRps m) (- 32.767) 32.767) off n],
         whenS (\<lambda>_. jausUnsignedShortIsBitSet (setVelocityState_presenceVector m) JAUS_VELOCITY_PV_RATE_RMS_BIT)
           [putUShort (jausUnsignedShortFromDouble (setVelocityState_rateRmsRps m) 0 JAUS_PI) off n],
         whenS (\<lambda>_. jausUnsignedShortIsBitSet (setVelocityState_presenceVector m) JAUS_VELOCITY_PV_TIME_STAMP_BIT)
           [putUInteger (Some (setVelocityState_timeStamp m)) off n]] (0, buffer))
      else Some (0, buffer))"

definition setVelocityStateMessageCreate :: SetVelocityStateMessage where
  "setVelocityStateMessageCreate =
     (let m = setVelocityState_dataInitialize (JausHeader.extend (blankHeader JAUS_SET_VELOCITY_STATE 30)
        (SetVelocityStateMessage.fields 0 0 0 0 0 0 0 0 0 0))
      in m\<lparr>dataSize := setVelocityState_dataSize m\<rparr>)"

definition setVelocityStateMessageFromBuffer ::
    "SetVelocityStateMessage \<Rightarrow> bytes \<Rightarrow> u32 \<Rightarrow> (bool \<times> SetVelocityStateMessage) exec" where
  "setVelocityStateMessageFromBuffer =
     messageFromBuffer setVelocityState_dataFromBuffer"

definition setVelocityStateMessageSize :: "SetVelocityStateMessage \<Rightarrow> u32" where
  "setVelocityStateMessageSize = messageSize setVelocityState_dataSize"

definition setVelocityStateMessageToBuffer ::
    "SetVelocityStateMessage \<Rightarrow> bytes \<Rightarrow> u32 \<Rightarrow> (bool \<times> SetVelocityStateMessage \<times> bytes) exec" where
  "setVelocityStateMessageToBuffer =
     messageToBuffer setVelocityState_dataSize setVelocityState_dataToBuffer"

definition setVelocityStateMessageFromJausMessage ::
    "SetVelocityStateMessage \<Rightarrow> JausMessage \<Rightarrow> SetVelocityStateMessage option exec" where
  "setVelocityStateMessageFromJausMessage =
     messageFromJausMessage JAUS_SET_VELOCITY_STATE setVelocityState_dataFromBuffer"

definition setVelocityStateMessageToJausMessage ::
    "SetVelocityStateMessage \<Rightarrow> JausMessage exec" where
  "setVelocityStateMessageToJausMessage =
     messageToJausMessage setVelocityState_dataSize setVelocityState_dataToBuffer"

definition setVelocityState_enc :: "SetVelocityStateMessage \<Rightarrow> bytes" where
  "setVelocityState_enc m =
     bytesOfWord 2 (setVelocityState_presenceVector m) @
     (if bit (setVelocityState_presenceVector m) (nat JAUS_VELOCITY_PV_VELOCITY_X_BIT) then bytesOfWord 4 (the (jausIntegerFromDouble (setVelocityState_velocityXMps m) (- 65.534) 65.534)) else []) @
     (if bit (setVelocityState_presenceVector m) (nat JAUS_VELOCITY_PV_VELOCITY_Y_BIT) then bytesOfWord 4 (the (jausIntegerFromDouble (setVelocityState_velocityYMps m) (- 65.534) 65.534)) else []) @
     (if bit (setVelocityState_presenceVector m) (nat JAUS_VELOCITY_PV_VELOCITY_Z_BIT) then bytesOfWord 4 (the (jausIntegerFromDouble (setVelocityState_velocityZMps m) (- 65.534) 65.534)) else []) @
     (if bit (setVelocityState_presenceVector m) (nat JAUS_VELOCITY_PV_VELOCITY_RMS_BIT) then bytesOfWord 4 (the (jausUnsignedIntegerFromDouble (setVelocityState_velocityRmsMps m) 0 100)) else []) @
     (if bit (setVelocityState_presenceVector m) (nat JAUS_VELOCITY_PV_ROLL_RATE_BIT) then bytesOfWord 2 (the (jausShortFromDouble (setVelocityState_rollRateRps m) (- 32.767) 32.767)) else []) @
     (if bit (setVelocityState_presenceVector m) (nat JAUS_VELOCITY_PV_PITCH_RATE_BIT) then bytesOfWord 2 (the (jausShortFromDouble (setVelocityState_pitchRateRps m) (- 32.767) 32.767)) else []) @
     (if bit (setVelocityState_presenceVector m) (nat JAUS_VELOCITY_PV_YAW_RATE_BIT) then bytesOfWord 2 (the (jausShortFromDouble (setVelocityState_yawRateRps m) (- 32.767) 32.767)) else []) @
     (if bit (setVelocityState_presenceVector m) (nat JAUS_VELOCITY_PV_RATE_RMS_BIT) then bytesOfWord 2 (the (jausUnsignedShortFromDouble (setVelocityState_rateRmsRps m) 0 JAUS_PI)) else []) @
     (if bit (setVelocityState_presenceVector m) (nat JAUS_VELOCITY_PV_TIME_STAMP_BIT) then bytesOfWord 4 (setVelocityState_timeStamp m) else [])"

definition setVelocityState_withData :: "SetVelocityStateMessage \<Rightarrow> SetVelocityStateMessage \<Rightarrow> SetVelocityStateMessage" where
  "setVelocityState_withData m0 m =
     onlyIf (bit (setVelocityState_presenceVector m) (nat JAUS_VELOCITY_PV_TIME_STAMP_BIT))
       (\<lambda>x. x\<lparr>setVelocityState_timeStamp := setVelocityState_timeStamp m\<rparr>)
       (onlyIf (bit (setVelocityState_presenceVector m) (nat JAUS_VELOCITY_PV_RATE_RMS_BIT))
       (\<lambda>x. x\<lparr>setVelocityState_rateRmsRps := jausUnsignedShortToDouble (the (jausUnsignedShortFromDouble (setVelocityState_rateRmsRps m) 0 JAUS_PI)) 0 JAUS_PI\<rparr>)
       (onlyIf (bit (setVelocityState_presenceVector m) (nat JAUS_VELOCITY_PV_YAW_RATE_BIT))
       (\<lambda>x. x\<lparr>setVelocityState_yawRateRps := jausShortToDouble (the (jausShortFromDouble (setVelocityState_yawRateRps m) (- 32.767) 32.767)) (- 32.767) 32.767\<rparr>)
       (onlyIf (bit (setVelocityState_presenceVector m) (nat JAUS_VELOCITY_PV_PITCH_RATE_BIT))
       (\<lambda>x. x\<lparr>setVelocityState_pitchRateRps := jausShortToDouble (the (jausShortFromDouble (setVelocityState_pitchRateRps m) (- 32.767) 32.767)) (- 32.767) 32.767\<rparr>)
       (onlyIf (bit (setVelocityState_presenceVector m) (nat JAUS_VELOCITY_PV_ROLL_RATE_BIT))
       (\<lambda>x. x\<lparr>setVelocityState_rollRateRps := jausShortToDouble (the (jausShortFromDouble (setVelocityState_rollRateRps m) (- 32.767) 32.767)) (- 32.767) 32.767\<rparr>)
       (onlyIf (bit (setVelocityState_presenceVector m) (nat JAUS_VELOCITY_PV_VELOCITY_RMS_BIT))
       (\<lambda>x. x\<lparr>setVelocityState_velocityRmsMps := jausUnsignedIntegerToDouble (the (jausUnsignedIntegerFromDouble (setVelocityState_velocityRmsMps m) 0 100)) 0 100\<rparr>)
       (onlyIf (bit (setVelocityState_presenceVector m) (nat JAUS_VELOCITY_PV_VELOCITY_Z_BIT))
       (\<lambda>x. x\<lparr>setVelocityState_velocityZMps := jausIntegerToDouble (the (jausIntegerFromDouble (setVelocityState_velocityZMps m) (- 65.534) 65.534)) (- 65.534) 65.534\<rparr>)
       (onlyIf (bit (setVelocityState_presenceVector m) (nat JAUS_VELOCITY_PV_VELOCITY_Y_BIT))
       (\<lambda>x. x\<lparr>setVelocityState_velocityYMps := jausIntegerToDouble (the (jausIntegerFromDouble (setVelocityState_velocityYMps m) (- 65.534) 65.534)) (- 65.534) 65.534\<rparr>)
       (onlyIf (bit (setVelocityState_presenceVector m) (nat JAUS_VELOCITY_PV_VELOCITY_X_BIT))
       (\<lambda>x. x\<lparr>setVelocityState_velocityXMps := jausIntegerToDouble (the (jausIntegerFromDouble (setVelocityState_velocityXMps m) (- 65.534) 65.534)) (- 65.534) 65.534\<rparr>)
       (m0\<lparr>setVelocityState_presenceVector := setVelocityState_presenceVector m\<rparr>)))))))))"

lemma setVelocityState_size: "setVelocityState_dataSize m = of_nat (length (setVelocityState_enc m))"
  by (simp add: setVelocityState_dataSize_def setVelocityState_enc_def codec_simps length_if of_nat_if)

lemma setVelocityState_small: "length (setVelocityState_enc m) < 4096"
  unfolding setVelocityState_enc_def by (rule enc_small, (rule length_bounds)+, simp)

lemma setVelocityState_to:
  assumes "off + length (setVelocityState_enc m) \<le> length buf" "length (setVelocityState_enc m) \<le> unat n"
  shows "setVelocityState_dataToBuffer m buf off n =
    Some (length (setVelocityState_enc m), take off buf @ setVelocityState_enc m @ drop (off + length (setVelocityState_enc m)) buf)"
  unfolding setVelocityState_dataToBuffer_def
  by (rule to_lawI [OF _ setVelocityState_size assms], unfold setVelocityState_enc_def,
      (rule writes_intros refl | rule writes_Cons | (rule FromDouble_total, simp)
        | simp add: codec_simps)+)

lemma setVelocityState_from:
  assumes "dataSize m0 = setVelocityState_dataSize m"
  shows "setVelocityState_dataFromBuffer m0 (pre @ setVelocityState_enc m @ post) (length pre) (setVelocityState_dataSize m) = Some (True, setVelocityState_withData m0 m)"
proof -
  have n: "unat (setVelocityState_dataSize m) = length (setVelocityState_enc m)"
    using setVelocityState_small [of m] by (simp add: setVelocityState_size unat_of_nat_lt)
  show ?thesis
    unfolding setVelocityState_dataFromBuffer_def setVelocityState_withData_def
    by (rule from_lawI [where D = "setVelocityState_enc m"], unfold setVelocityState_enc_def,
        (rule parses_intros refl n [unfolded setVelocityState_enc_def] assms [symmetric] | rule parses_Cons
          | simp add: codec_simps onlyIf_def if_distrib [of setVelocityState_presenceVector])+)
qed

interpretation setVelocityState: typed_message setVelocityState_dataSize setVelocityState_dataFromBuffer
  setVelocityState_dataToBuffer setVelocityState_enc setVelocityState_withData
  by unfold_locales (fact setVelocityState_size setVelocityState_small setVelocityState_to setVelocityState_from)+

section \<open>SetWrenchEffortMessage\<close>

record SetWrenchEffortMessage = JausHeader +
  setWrenchEffort_presenceVector :: u16
  setWrenchEffort_propulsiveLinearEffortXPercent :: real
  setWrenchEffort_propulsiveLinearEffortYPercent :: real
  setWrenchEffort_propulsiveLinearEffortZPercent :: real
  setWrenchEffort_propulsiveRotationalEffortXPercent :: real
  setWrenchEffort_propulsiveRotationalEffortYPercent :: real
  setWrenchEffort_propulsiveRotationalEffortZPercent :: real
  setWrenchEffort_resistiveLinearEffortXPercent :: real
  setWrenchEffort_resistiveLinearEffortYPercent :: real
  setWrenchEffort_resistiveLinearEffortZPercent :: real
  setWrenchEffort_resistiveRotationalEffortXPercent :: real
  setWrenchEffort_resistiveRotationalEffortZPercent :: real
  setWrenchEffort_resistiveRotationalEffortYPercent :: real

definition setWrenchEffort_dataInitialize ::
    "SetWrenchEffortMessage \<Rightarrow> SetWrenchEffortMessage" where
  "setWrenchEffort_dataInitialize m =
     m\<lparr>setWrenchEffort_presenceVector := newJausUnsignedShort JAUS_SHORT_PRESENCE_VECTOR_ALL_ON,
        setWrenchEffort_propulsiveLinearEffortXPercent := 0,
        setWrenchEffort_propulsiveLinearEffortYPercent := 0,
        setWrenchEffort_propulsiveLinearEffortZPercent := 0,
        setWrenchEffort_propulsiveRotationalEffortXPercent := 0,
        setWrenchEffort_propulsiveRotationalEffortYPercent := 0,
        setWrenchEffort_propulsiveRotationalEffortZPercent := 0,
        setWrenchEffort_resistiveLinearEffortXPercent := 0,
        setWrenchEffort_resistiveLinearEffortYPercent := 0,
        setWrenchEffort_resistiveLinearEffortZPercent := 0,
        setWrenchEffort_resistiveRotationalEffortXPercent := 0,
        setWrenchEffort_resistiveRotationalEffortYPercent := 0,
        setWrenchEffort_resistiveRotationalEffortZPercent := 0\<rparr>"

definition setWrenchEffort_dataSize :: "SetWrenchEffortMessage \<Rightarrow> u32" where
  "setWrenchEffort_dataSize m =
     (2 +
      (if jausUnsignedShortIsBitSet (setWrenchEffort_presenceVector m) JAUS_WRENCH_PV_PROPULSIVE_LINEAR_X_BIT = Some True then 2 else 0) +
      (if jausUnsignedShortIsBitSet (setWrenchEffort_presenceVector m) JAUS_WRENCH_PV_PROPULSIVE_LINEAR_Y_BIT = Some True then 2 else 0) +
      (if jausUnsignedShortIsBitSet (setWrenchEffort_presenceVector m) JAUS_WRENCH_PV_PROPULSIVE_LINEAR_Z_BIT = Some True then 2 else 0) +
      (if jausUnsignedShortIsBitSet (setWrenchEffort_presenceVector m) JAUS_WRENCH_PV_PROPULSIVE_ROTATIONAL_X_BIT = Some True then 2 else 0) +
      (if jausUnsignedShortIsBitSet (setWrenchEffort_presenceVector m) JAUS_WRENCH_PV_PROPULSIVE_ROTATIONAL_Y_BIT = Some True then 2 else 0) +
      (if jausUnsignedShortIsBitSet (setWrenchEffort_presenceVector m) JAUS_WRENCH_PV_PROPULSIVE_ROTATIONAL_Z_BIT = Some True then 2 else 0) +
      (if jausUnsignedShortIsBitSet (setWrenchEffort_presenceVector m) JAUS_WRENCH_PV_RESISTIVE_LINEAR_X_BIT = Some True then 1 else 0) +
      (if jausUnsignedShortIsBitSet (setWrenchEffort_presenceVector m) JAUS_WRENCH_PV_RESISTIVE_LINEAR_Y_BIT = Some True then 1 else 0) +
      (if jausUnsignedShortIsBitSet (setWrenchEffort_presenceVector m) JAUS_WRENCH_PV_RESISTIVE_LINEAR_Z_BIT = Some True then 1 else 0) +
      (if jausUnsignedShortIsBitSet (setWrenchEffort_presenceVector m) JAUS_WRENCH_PV_RESISTIVE_ROTATIONAL_X_BIT = Some True then 1 else 0) +
      (if jausUnsignedShortIsBitSet (setWrenchEffort_presenceVector m) JAUS_WRENCH_PV_RESISTIVE_ROTATIONAL_Y_BIT = Some True then 1 else 0) +
      (if jausUnsignedShortIsBitSet (setWrenchEffort_presenceVector m) JAUS_WRENCH_PV_RESISTIVE_ROTATIONAL_Z_BIT = Some True then 1 else 0))"

definition setWrenchEffort_dataFromBuffer ::
    "SetWrenchEffortMessage \<Rightarrow> bytes \<Rightarrow> nat \<Rightarrow> u32 \<Rightarrow> (bool \<times> SetWrenchEffortMessage) exec" where
  "setWrenchEffort_dataFromBuffer m buffer off n =
     (if n = dataSize m then finishR (runStmts
        [getUShort (\<lambda>v m. m\<lparr>setWrenchEffort_presenceVector := v\<rparr>) buffer off n,
         whenS (\<lambda>(i, m). jausUnsignedShortIsBitSet (setWrenchEffort_presenceVector m) JAUS_WRENCH_PV_PROPULSIVE_LINEAR_X_BIT)
           [getShort (\<lambda>v m. m\<lparr>setWrenchEffort_propulsiveLinearEffortXPercent := jausShortToDouble v (- 100) 100\<rparr>) buffer off n],
         whenS (\<lambda>(i, m). jausUnsignedShortIsBitSet (setWrenchEffort_presenceVector m) JAUS_WRENCH_PV_PROPULSIVE_LINEAR_Y_BIT)
           [getShort (\<lambda>v m. m\<lparr>setWrenchEffort_propulsiveLinearEffortYPercent := jausShortToDouble v (- 100) 100\<rparr>) buffer off n],
         whenS (\<lambda>(i, m). jausUnsignedShortIsBitSet (setWrenchEffort_presenceVector m) JAUS_WRENCH_PV_PROPULSIVE_LINEAR_Z_BIT)
           [getShort (\<lambda>v m. m\<lparr>setWrenchEffort_propulsiveLinearEffortZPercent := jausShortToDouble v (- 100) 100\<rparr>) buffer off n],
         whenS (\<lambda>(i, m). jausUnsignedShortIsBitSet (setWrenchEffort_presenceVector m) JAUS_WRENCH_PV_PROPULSIVE_ROTATIONAL_X_BIT)
           [getShort (\<lambda>v m. m\<lparr>setWrenchEffort_propulsiveRotationalEffortXPercent := jausShortToDouble v (- 100) 100\<rparr>) buffer off n],
         whenS (\<lambda>(i, m). jausUnsignedShortIsBitSet (setWrenchEffort_presenceVector m) JAUS_WRENCH_PV_PROPULSIVE_ROTATIONAL_Y_BIT)
           [getShort (\<lambda>v m. m\<lparr>setWrenchEffort_propulsiveRotationalEffortYPercent := jausShortToDouble v (- 100) 100\<rparr>) buffer off n],
         whenS (\<lambda>(i, m). jausUnsignedShortIsBitSet (setWrenchEffort_presenceVector m) JAUS_WRENCH_PV_PROPULSIVE_ROTATIONAL_Z_BIT)
           [getShort (\<lambda>v m. m\<lparr>setWrenchEffort_propulsiveRotationalEffortZPercent := jausShortToDouble v (- 100) 100\<rparr>) buffer off n],
         whenS (\<lambda>(i, m). jausUnsignedShortIsBitSet (setWrenchEffort_presenceVector m) JAUS_WRENCH_PV_RESISTIVE_LINEAR_X_BIT)
           [getByte (\<lambda>v m. m\<lparr>setWrenchEffort_resistiveLinearEffortXPercent := jausByteToDouble v 0 100\<rparr>) buffer off n],
         whenS (\<lambda>(i, m). jausUnsignedShortIsBitSet (setWrenchEffort_presenceVector m) JAUS_WRENCH_PV_RESISTIVE_LINEAR_Y_BIT)
           [getByte (\<lambda>v m. m\<lparr>setWrenchEffort_resistiveLinearEffortYPercent := jausByteToDouble v 0 100\<rparr>) buffer off n],
         whenS (\<lambda>(i, m). jausUnsignedShortIsBitSet (setWrenchEffort_presenceVector m) JAUS_WRENCH_PV_RESISTIVE_LINEAR_Z_BIT)
           [getByte (\<lambda>v m. m\<lparr>setWrenchEffort_resistiveLinearEffortZPercent := jausByteToDouble v 0 100\<rparr>) buffer off n],
         whenS (\<lambda>(i, m). jausUnsignedShortIsBitSet (setWrenchEffort_presenceVector m) JAUS_WRENCH_PV_RESISTIVE_ROTATIONAL_X_BIT)
           [getByte (\<lambda>v m. m\<lparr>setWrenchEffort_resistiveRotationalEffortXPercent := jausByteToDouble v 0 100\<rparr>) buffer off n],
         whenS (\<lambda>(i, m). jausUnsignedShortIsBitSet (setWrenchEffort_presenceVector m) JAUS_WRENCH_PV_RESISTIVE_ROTATIONAL_Y_BIT)
           [getByte (\<lambda>v m. m\<lparr>setWrenchEffort_resistiveRotationalEffortYPercent := jausByteToDouble v 0 100\<rparr>) buffer off n],
         whenS (\<lambda>(i, m). jausUnsignedShortIsBitSet (setWrenchEffort_presenceVector m) JAUS_WRENCH_PV_RESISTIVE_ROTATIONAL_Z_BIT)
           [getByte (\<lambda>v m. m\<lparr>setWrenchEffort_resistiveRotationalEffortZPercent := jausByteToDouble v 0 100\<rparr>) buffer off n]] (0, m))
      else Some (False, m))"

definition setWrenchEffort_dataToBuffer ::
    "SetWrenchEffortMessage \<Rightarrow> bytes \<Rightarrow> nat \<Rightarrow> u32 \<Rightarrow> (nat \<times> bytes) exec" where
  "setWrenchEffort_dataToBuffer m buffer off n =
     (if setWrenchEffort_dataSize m \<le> n then finishW (runStmts
        [putUShort (Some (setWrenchEffort_presenceVector m)) off n,
         whenS (\<lambda>_. jausUnsignedShortIsBitSet (setWrenchEffort_presenceVector m) JAUS_WRENCH_PV_PROPULSIVE_LINEAR_X_BIT)
           [putShort (jausShortFromDouble (setWrenchEffort_propulsiveLinearEffortXPercent m) (- 100) 100) off n],
         whenS (\<lambda>_. jausUnsignedShortIsBitSet (setWrenchEffort_presenceVector m) JAUS_WRENCH_PV_PROPULSIVE_LINEAR_Y_BIT)
           [putShort (jausShortFromDouble (setWrenchEffort_propulsiveLinearEffortYPercent m) (- 100) 100) off n],
         whenS (\<lambda>_. jausUnsignedShortIsBitSet (setWrenchEffort_presenceVector m) JAUS_WRENCH_PV_PROPULSIVE_LINEAR_Z_BIT)
           [putShort (jausShortFromDouble (setWrenchEffort_propulsiveLinearEffortZPercent m) (- 100) 100) off n],
         whenS (\<lambda>_. jausUnsignedShortIsBitSet (setWrenchEffort_presenceVector m) JAUS_WRENCH_PV_PROPULSIVE_ROTATIONAL_X_BIT)
           [putShort (jausShortFromDouble (setWrenchEffort_propulsiveRotationalEffortXPercent m) (- 100) 100) off n],
         whenS (\<lambda>_. jausUnsignedShortIsBitSet (setWrenchEffort_presenceVector m) JAUS_WRENCH_PV_PROPULSIVE_ROTATIONAL_Y_BIT)
           [putShort (jausShortFromDouble (setWrenchEffort_propulsiveRotationalEffortYPercent m) (- 100) 100) off n],
         whenS (\<lambda>_. jausUnsignedShortIsBitSet (setWrenchEffort_presenceVector m) JAUS_WRENCH_PV_PROPULSIVE_ROTATIONAL_Z_BIT)
           [putShort (jausShortFromDouble (setWrenchEffort_propulsiveRotationalEffortZPercent m) (- 100) 100) off n],
         whenS (\<lambda>_. jausUnsignedShortIsBitSet (setWrenchEffort_presenceVector m) JAUS_WRENCH_PV_RESISTIVE_LINEAR_X_BIT)
           [putByte (jausByteFromDouble (setWrenchEffort_resistiveLinearEffortXPercent m) 0 100) off n],
         whenS (\<lambda>_. jausUnsignedShortIsBitSet (setWrenchEffort_presenceVector m) JAUS_WRENCH_PV_RESISTIVE_LINEAR_Y_BIT)
           [putByte (jausByteFromDouble (setWrenchEffort_resistiveLinearEffortYPercent m) 0 100) off n],
         whenS (\<lambda>_. jausUnsignedShortIsBitSet (setWrenchEffort_presenceVector m) JAUS_WRENCH_PV_RESISTIVE_LINEAR_Z_BIT)
           [putByte (jausByteFromDouble (setWrenchEffort_resistiveLinearEffortZPercent m) 0 100) off n],
         whenS (\<lambda>_. jausUnsignedShortIsBitSet (setWrenchEffort_presenceVector m) JAUS_WRENCH_PV_RESISTIVE_ROTATIONAL_X_BIT)
           [putByte (jausByteFromDouble (setWrenchEffort_resistiveRotationalEffortXPercent m) 0 100) off n],
         whenS (\<lambda>_. jausUnsignedShortIsBitSet (setWrenchEffort_presenceVector m) JAUS_WRENCH_PV_RESISTIVE_ROTATIONAL_Y_BIT)
           [putByte (jausByteFromDouble (setWrenchEffort_resistiveRotationalEffortYPercent m) 0 100) off n],
         whenS (\<lambda>_. jausUnsignedShortIsBitSet (setWrenchEffort_presenceVector m) JAUS_WRENCH_PV_RESISTIVE_ROTATIONAL_Z_BIT)
           [putByte (jausByteFromDouble (setWrenchEffort_resistiveRotationalEffortZPercent m) 0 100) off n]] (0, buffer))
      else Some (0, buffer))"

definition setWrenchEffortMessageCreate :: SetWrenchEffortMessage where
  "setWrenchEffortMessageCreate =
     (let m = setWrenchEffort_dataInitialize (JausHeader.extend (blankHeader JAUS_SET_WRENCH_EFFORT 20)
        (SetWrenchEffortMessage.fields 0 0 0 0 0 0 0 0 0 0 0 0 0))
      in m\<lparr>dataSize := setWrenchEffort_dataSize m\<rparr>)"

definition setWrenchEffortMessageFromBuffer ::
    "SetWrenchEffortMessage \<Rightarrow> bytes \<Rightarrow> u32 \<Rightarrow> (bool \<times> SetWrenchEffortMessage) exec" where
  "setWrenchEffortMessageFromBuffer =
     messageFromBuffer setWrenchEffort_dataFromBuffer"

definition setWrenchEffortMessageSize :: "SetWrenchEffortMessage \<Rightarrow> u32" where
  "setWrenchEffortMessageSize = messageSize setWrenchEffort_dataSize"

definition setWrenchEffortMessageToBuffer ::
    "SetWrenchEffortMessage \<Rightarrow> bytes \<Rightarrow> u32 \<Rightarrow> (bool \<times> SetWrenchEffortMessage \<times> bytes) exec" where
  "setWrenchEffortMessageToBuffer =
     messageToBuffer setWrenchEffort_dataSize setWrenchEffort_dataToBuffer"

definition setWrenchEffortMessageFromJausMessage ::
    "SetWrenchEffortMessage \<Rightarrow> JausMessage \<Rightarrow> SetWrenchEffortMessage option exec" where
  "setWrenchEffortMessageFromJausMessage =
     messageFromJausMessage JAUS_SET_WRENCH_EFFORT setWrenchEffort_dataFromBuffer"

definition setWrenchEffortMessageToJausMessage ::
    "SetWrenchEffortMessage \<Rightarrow> JausMessage exec" where
  "setWrenchEffortMessageToJausMessage =
     messageToJausMessage setWrenchEffort_dataSize setWrenchEffort_dataToBuffer"

definition setWrenchEffort_enc :: "SetWrenchEffortMessage \<Rightarrow> bytes" where
  "setWrenchEffort_enc m =
     bytesOfWord 2 (setWrenchEffort_presenceVector m) @
     (if bit (setWrenchEffort_presenceVector m) (nat JAUS_WRENCH_PV_PROPULSIVE_LINEAR_X_BIT) then bytesOfWord 2 (the (jausShortFromDouble (setWrenchEffort_propulsiveLinearEffortXPercent m) (- 100) 100)) else []) @
     (if bit (setWrenchEffort_presenceVector m) (nat JAUS_WRENCH_PV_PROPULSIVE_LINEAR_Y_BIT) then bytesOfWord 2 (the (jausShortFromDouble (setWrenchEffort_propulsiveLinearEffortYPercent m) (- 100) 100)) else []) @
     (if bit (setWrenchEffort_presenceVector m) (nat JAUS_WRENCH_PV_PROPULSIVE_LINEAR_Z_BIT) then bytesOfWord 2 (the (jausShortFromDouble (setWrenchEffort_propulsiveLinearEffortZPercent m) (- 100) 100)) else []) @
     (if bit (setWrenchEffort_presenceVector m) (nat JAUS_WRENCH_PV_PROPULSIVE_ROTATIONAL_X_BIT) then bytesOfWord 2 (the (jausShortFromDouble (setWrenchEffort_propulsiveRotationalEffortXPercent m) (- 100) 100)) else []) @
     (if bit (setWrenchEffort_presenceVector m) (nat JAUS_WRENCH_PV_PROPULSIVE_ROTATIONAL_Y_BIT) then bytesOfWord 2 (the (jausShortFromDouble (setWrenchEffort_propulsiveRotationalEffortYPercent m) (- 100) 100)) else []) @
     (if bit (setWrenchEffort_presenceVector m) (nat JAUS_WRENCH_PV_PROPULSIVE_ROTATIONAL_Z_BIT) then bytesOfWord 2 (the (jausShortFromDouble (setWrenchEffort_propulsiveRotationalEffortZPercent m) (- 100) 100)) else []) @
     (if bit (setWrenchEffort_presenceVector m) (nat JAUS_WRENCH_PV_RESISTIVE_LINEAR_X_BIT) then [the (jausByteFromDouble (setWrenchEffort_resistiveLinearEffortXPercent m) 0 100)] else []) @
     (if bit (setWrenchEffort_presenceVector m) (nat JAUS_WRENCH_PV_RESISTIVE_LINEAR_Y_BIT) then [the (jausByteFromDouble (setWrenchEffort_resistiveLinearEffortYPercent m) 0 100)] else []) @
     (if bit (setWrenchEffort_presenceVector m) (nat JAUS_WRENCH_PV_RESISTIVE_LINEAR_Z_BIT) then [the (jausByteFromDouble (setWrenchEffort_resistiveLinearEffortZPercent m) 0 100)] else []) @
     (if bit (setWrenchEffort_presenceVector m) (nat JAUS_WRENCH_PV_RESISTIVE_ROTATIONAL_X_BIT) then [the (jausByteFromDouble (setWrenchEffort_resistiveRotationalEffortXPercent m) 0 100)] else []) @
     (if bit (setWrenchEffort_presenceVector m) (nat JAUS_WRENCH_PV_RESISTIVE_ROTATIONAL_Y_BIT) then [the (jausByteFromDouble (setWrenchEffort_resistiveRotationalEffortYPercent m) 0 100)] else []) @
     (if bit (setWrenchEffort_presenceVector m) (nat JAUS_WRENCH_PV_RESISTIVE_ROTATIONAL_Z_BIT) then [the (jausByteFromDouble (setWrenchEffort_resistiveRotationalEffortZPercent m) 0 100)] else [])"

definition setWrenchEffort_withData :: "SetWrenchEffortMessage \<Rightarrow> SetWrenchEffortMessage \<Rightarrow> SetWrenchEffortMessage" where
  "setWrenchEffort_withData m0 m =
     onlyIf (bit (setWrenchEffort_presenceVector m) (nat JAUS_WRENCH_PV_RESISTIVE_ROTATIONAL_Z_BIT))
       (\<lambda>x. x\<lparr>setWrenchEffort_resistiveRotationalEffortZPercent := jausByteToDouble (the (jausByteFromDouble (setWrenchEffort_resistiveRotationalEffortZPercent m) 0 100)) 0 100\<rparr>)
       (onlyIf (bit (setWrenchEffort_presenceVector m) (nat JAUS_WRENCH_PV_RESISTIVE_ROTATIONAL_Y_BIT))
       (\<lambda>x. x\<lparr>setWrenchEffort_resistiveRotationalEffortYPercent := jausByteToDouble (the (jausByteFromDouble (setWrenchEffort_resistiveRotationalEffortYPercent m) 0 100)) 0 100\<rparr>)
       (onlyIf (bit (setWrenchEffort_presenceVector m) (nat JAUS_WRENCH_PV_RESISTIVE_ROTATIONAL_X_BIT))
       (\<lambda>x. x\<lparr>setWrenchEffort_resistiveRotationalEffortXPercent := jausByteToDouble (the (jausByteFromDouble (setWrenchEffort_resistiveRotationalEffortXPercent m) 0 100)) 0 100\<rparr>)
       (onlyIf (bit (setWrenchEffort_presenceVector m) (nat JAUS_WRENCH_PV_RESISTIVE_LINEAR_Z_BIT))
       (\<lambda>x. x\<lparr>setWrenchEffort_resistiveLinearEffortZPercent := jausByteToDouble (the (jausByteFromDouble (setWrenchEffort_resistiveLinearEffortZPercent m) 0 100)) 0 100\<rparr>)
       (onlyIf (bit (setWrenchEffort_presenceVector m) (nat JAUS_WRENCH_PV_RESISTIVE_LINEAR_Y_BIT))
       (\<lambda>x. x\<lparr>setWrenchEffort_resistiveLinearEffortYPercent := jausByteToDouble (the (jausByteFromDouble (setWrenchEffort_resistiveLinearEffortYPercent m) 0 100)) 0 100\<rparr>)
       (onlyIf (bit (setWrenchEffort_presenceVector m) (nat JAUS_WRENCH_PV_RESISTIVE_LINEAR_X_BIT))
       (\<lambda>x. x\<lparr>setWrenchEffort_resistiveLinearEffortXPercent := jausByteToDouble (the (jausByteFromDouble (setWrenchEffort_resistiveLinearEffortXPercent m) 0 100)) 0 100\<rparr>)
       (onlyIf (bit (setWrenchEffort_presenceVector m) (nat JAUS_WRENCH_PV_PROPULSIVE_ROTATIONAL_Z_BIT))
       (\<lambda>x. x\<lparr>setWrenchEffort_propulsiveRotationalEffortZPercent := jausShortToDouble (the (jausShortFromDouble (setWrenchEffort_propulsiveRotationalEffortZPercent m) (- 100) 100)) (- 100) 100\<rparr>)
       (onlyIf (bit (setWrenchEffort_presenceVector m) (nat JAUS_WRENCH_PV_PROPULSIVE_ROTATIONAL_Y_BIT))
       (\<lambda>x. x\<lparr>setWrenchEffort_propulsiveRotationalEffortYPercent := jausShortToDouble (the (jausShortFromDouble (setWrenchEffort_propulsiveRotationalEffortYPercent m) (- 100) 100)) (- 100) 100\<rparr>)
       (onlyIf (bit (setWrenchEffort_presenceVector m) (nat JAUS_WRENCH_PV_PROPULSIVE_ROTATIONAL_X_BIT))
       (\<lambda>x. x\<lparr>setWrenchEffort_propulsiveRotationalEffortXPercent := jausShortToDouble (the (jausShortFromDouble (setWrenchEffort_propulsiveRotationalEffortXPercent m) (- 100) 100)) (- 100) 100\<rparr>)
       (onlyIf (bit (setWrenchEffort_presenceVector m) (nat JAUS_WRENCH_PV_PROPULSIVE_LINEAR_Z_BIT))
       (\<lambda>x. x\<lparr>setWrenchEffort_propulsiveLinearEffortZPercent := jausShortToDouble (the (jausShortFromDouble (setWrenchEffort_propulsiveLinearEffortZPercent m) (- 100) 100)) (- 100) 100\<rparr>)
       (onlyIf (bit (setWrenchEffort_presenceVector m) (nat JAUS_WRENCH_PV_PROPULSIVE_LINEAR_Y_BIT))
       (\<lambda>x. x\<lparr>setWrenchEffort_propulsiveLinearEffortYPercent := jausShortToDouble (the (jausShortFromDouble (setWrenchEffort_propulsiveLinearEffortYPercent m) (- 100) 100)) (- 100) 100\<rparr>)
       (onlyIf (bit (setWrenchEffort_presenceVector m) (nat JAUS_WRENCH_PV_PROPULSIVE_LINEAR_X_BIT))
       (\<lambda>x. x\<lparr>setWrenchEffort_propulsiveLinearEffortXPercent := jausShortToDouble (the (jausShortFromDouble (setWrenchEffort_propulsiveLinearEffortXPercent m) (- 100) 100)) (- 100) 100\<rparr>)
       (m0\<lparr>setWrenchEffort_presenceVector := setWrenchEffort_presenceVector m\<rparr>))))))))))))"

lemma setWrenchEffort_size: "setWrenchEffort_dataSize m = of_nat (length (setWrenchEffort_enc m))"
  by (simp add: setWrenchEffort_dataSize_def setWrenchEffort_enc_def codec_simps length_if of_nat_if)

lemma setWrenchEffort_small: "length (setWrenchEffort_enc m) < 4096"
  unfolding setWrenchEffort_enc_def by (rule enc_small, (rule length_bounds)+, simp)

lemma setWrenchEffort_to:
  assumes "off + length (setWrenchEffort_enc m) \<le> length buf" "length (setWrenchEffort_enc m) \<le> unat n"
  shows "setWrenchEffort_dataToBuffer m buf off n =
    Some (length (setWrenchEffort_enc m), take off buf @ setWrenchEffort_enc m @ drop (off + length (setWrenchEffort_enc m)) buf)"
  unfolding setWrenchEffort_dataToBuffer_def
  by (rule to_lawI [OF _ setWrenchEffort_size assms], unfold setWrenchEffort_enc_def,
      (rule writes_intros refl | rule writes_Cons | (rule FromDouble_total, simp)
        | simp add: codec_simps)+)

lemma setWrenchEffort_from:
  assumes "dataSize m0 = setWrenchEffort_dataSize m"
  shows "setWrenchEffort_dataFromBuffer m0 (pre @ setWrenchEffort_enc m @ post) (length pre) (setWrenchEffort_dataSize m) = Some (True, setWrenchEffort_withData m0 m)"
proof -
  have n: "unat (setWrenchEffort_dataSize m) = length (setWrenchEffort_enc m)"
    using setWrenchEffort_small [of m] by (simp add: setWrenchEffort_size unat_of_nat_lt)
  show ?thesis
    unfolding setWrenchEffort_dataFromBuffer_def setWrenchEffort_withData_def
    by (rule from_lawI [where D = "setWrenchEffort_enc m"], unfold setWrenchEffort_enc_def,
        (rule parses_intros refl n [unfolded setWrenchEffort_enc_def] assms [symmetric] | rule parses_Cons
          | simp add: codec_simps onlyIf_def if_distrib [of setWrenchEffort_presenceVector])+)
qed

interpretation setWrenchEffort: typed_message setWrenchEffort_dataSize setWrenchEffort_dataFromBuffer
  setWrenchEffort_dataToBuffer setWrenchEffort_enc setWrenchEffort_withData
  by unfold_locales (fact setWrenchEffort_size setWrenchEffort_small setWrenchEffort_to setWrenchEffort_from)+

section \<open>ReportGlobalPathSegmentMessage\<close>

record ReportGlobalPathSegmentMessage = JausHeader +
  reportGlobalPathSegment_presenceVector :: u8
  reportGlobalPathSegment_pathSegmentNumber :: u16
  reportGlobalPathSegment_p1LatitudeDeg :: real
  reportGlobalPathSegment_p1LongitudeDeg :: real
  reportGlobalPathSegment_p1AltitudeM :: real
  reportGlobalPathSegment_p2LatitudeDeg :: real
  reportGlobalPathSegment_p2LongitudeDeg :: real
  reportGlobalPathSegment_p2AltitudeM :: real
  reportGlobalPathSegment_weightingFactor :: real

definition reportGlobalPathSegment_dataInitialize ::
    "ReportGlobalPathSegmentMessage \<Rightarrow> ReportGlobalPathSegmentMessage" where
  "reportGlobalPathSegment_dataInitialize m =
     m\<lparr>reportGlobalPathSegment_presenceVector := newJausByte JAUS_BYTE_PRESENCE_VECTOR_ALL_ON,
        reportGlobalPathSegment_pathSegmentNumber := newJausUnsignedShort 0,
        reportGlobalPathSegment_p1LatitudeDeg := 0,
        reportGlobalPathSegment_p1LongitudeDeg := 0,
        reportGlobalPathSegment_p1AltitudeM := 0,
        reportGlobalPathSegment_p2LatitudeDeg := 0,
        reportGlobalPathSegment_p2LongitudeDeg := 0,
        reportGlobalPathSegment_p2AltitudeM := 0,
        reportGlobalPathSegment_weightingFactor := 0\<rparr>"

definition reportGlobalPathSegment_dataSize :: "ReportGlobalPathSegmentMessage \<Rightarrow> u32" where
  "reportGlobalPathSegment_dataSize m =
     (1 +
      2 +
      4 +
      4 +
      (if jausByteIsBitSet (reportGlobalPathSegment_presenceVector m) JAUS_PATH_SEGMENT_PV_P1_ALTITUDE_BIT = Some True then 4 else 0) +
      4 +
      4 +
      (if jausByteIsBitSet (reportGlobalPathSegment_presenceVector m) JAUS_PATH_SEGMENT_PV_P2_ALTITUDE_BIT = Some True then 4 else 0) +
      2)"

definition reportGlobalPathSegment_dataFromBuffer ::
    "ReportGlobalPathSegmentMessage \<Rightarrow> bytes \<Rightarrow> nat \<Rightarrow> u32 \<Rightarrow> (bool \<times> ReportGlobalPathSegmentMessage) exec" where
  "reportGlobalPathSegment_dataFromBuffer m buffer off n =
     (if n = dataSize m then finishR (runStmts
        [getByte (\<lambda>v m. m\<lparr>reportGlobalPathSegment_presenceVector := v\<rparr>) buffer off n,
         getUShort (\<lambda>v m. m\<lparr>reportGlobalPathSegment_pathSegmentNumber := v\<rparr>) buffer off n,
         getInteger (\<lambda>v m. m\<lparr>reportGlobalPathSegment_p1LatitudeDeg := jausIntegerToDouble v (- 90) 90\<rparr>) buffer off n,
         getInteger (\<lambda>v m. m\<lparr>reportGlobalPathSegment_p1LongitudeDeg := jausIntegerToDouble v (- 180) 180\<rparr>) buffer off n,
         whenS (\<lambda>(i, m). jausByteIsBitSet (reportGlobalPathSegment_presenceVector m) JAUS_PATH_SEGMENT_PV_P1_ALTITUDE_BIT)
           [getInteger (\<lambda>v m. m\<lparr>reportGlobalPathSegment_p1AltitudeM := jausIntegerToDouble v (- 10000) 35000\<rparr>) buffer off n],
         getInteger (\<lambda>v m. m\<lparr>reportGlobalPathSegment_p2LatitudeDeg := jausIntegerToDouble v (- 90) 90\<rparr>) buffer off n,
         getInteger (\<lambda>v m. m\<lparr>reportGlobalPathSegment_p2LongitudeDeg := jausIntegerToDouble v (- 180) 180\<rparr>) buffer off n,
         whenS (\<lambda>(i, m). jausByteIsBitSet (reportGlobalPathSegment_presenceVector m) JAUS_PATH_SEGMENT_PV_P2_ALTITUDE_BIT)
           [getInteger (\<lambda>v m. m\<lparr>reportGlobalPathSegment_p2AltitudeM := jausIntegerToDouble v (- 10000) 35000\<rparr>) buffer off n],
         getUShort (\<lambda>v m. m\<lparr>reportGlobalPathSegment_weightingFactor := jausUnsignedShortToDouble v 0 500\<rparr>) buffer off n] (0, m))
      else Some (False, m))"

definition reportGlobalPathSegment_dataToBuffer ::
    "ReportGlobalPathSegmentMessage \<Rightarrow> bytes \<Rightarrow> nat \<Rightarrow> u32 \<Rightarrow> (nat \<times> bytes) exec" where
  "reportGlobalPathSegment_dataToBuffer m buffer off n =
     (if reportGlobalPathSegment_dataSize m \<le> n then finishW (runStmts
        [putByte (Some (reportGlobalPathSegment_presenceVector m)) off n,
         putUShort (Some (reportGlobalPathSegment_pathSegmentNumber m)) off n,
         putInteger (jausIntegerFromDouble (reportGlobalPathSegment_p1LatitudeDeg m) (- 90) 90) off n,
         putInteger (jausIntegerFromDouble (reportGlobalPathSegment_p1LongitudeDeg m) (- 180) 180) off n,
         whenS (\<lambda>_. jausByteIsBitSet (reportGlobalPathSegment_presenceVector m) JAUS_PATH_SEGMENT_PV_P1_ALTITUDE_BIT)
           [putInteger (jausIntegerFromDouble (reportGlobalPathSegment_p1AltitudeM m) (- 10000) 35000) off n],
         putInteger (jausIntegerFromDouble (reportGlobalPathSegment_p2LatitudeDeg m) (- 90) 90) off n,
         putInteger (jausIntegerFromDouble (reportGlobalPathSegment_p2LongitudeDeg m) (- 180) 180) off n,
         whenS (\<lambda>_. jausByteIsBitSet (reportGlobalPathSegment_presenceVector m) JAUS_PATH_SEGMENT_PV_P2_ALTITUDE_BIT)
           [putInteger (jausIntegerFromDouble (reportGlobalPathSegment_p2AltitudeM m) (- 10000) 35000) off n],
         putUShort (jausUnsignedShortFromDouble (reportGlobalPathSegment_weightingFactor m) 0 500) off n] (0, buffer))
      else Some (0, buffer))"

definition reportGlobalPathSegmentMessageCreate :: ReportGlobalPathSegmentMessage where
  "reportGlobalPathSegmentMessageCreate =
     (let m = reportGlobalPathSegment_dataInitialize (JausHeader.extend (blankHeader JAUS_REPORT_GLOBAL_PATH_SEGMENT 29)
        (ReportGlobalPathSegmentMessage.fields 0 0 0 0 0 0 0 0 0))
      in m\<lparr>dataSize := reportGlobalPathSegment_dataSize m\<rparr>)"

definition reportGlobalPathSegmentMessageFromBuffer ::
    "ReportGlobalPathSegmentMessage \<Rightarrow> bytes \<Rightarrow> u32 \<Rightarrow> (bool \<times> ReportGlobalPathSegmentMessage) exec" where
  "reportGlobalPathSegmentMessageFromBuffer =
     messageFromBuffer reportGlobalPathSegment_dataFromBuffer"

definition reportGlobalPathSegmentMessageSize :: "ReportGlobalPathSegmentMessage \<Rightarrow> u32" where
  "reportGlobalPathSegmentMessageSize = messageSize reportGlobalPathSegment_dataSize"

definition reportGlobalPathSegmentMessageToBuffer ::
    "ReportGlobalPathSegmentMessage \<Rightarrow> bytes \<Rightarrow> u32 \<Rightarrow> (bool \<times> ReportGlobalPathSegmentMessage \<times> bytes) exec" where
  "reportGlobalPathSegmentMessageToBuffer =
     messageToBuffer reportGlobalPathSegment_dataSize reportGlobalPathSegment_dataToBuffer"

definition reportGlobalPathSegmentMessageFromJausMessage ::
    "ReportGlobalPathSegmentMessage \<Rightarrow> JausMessage \<Rightarrow> ReportGlobalPathSegmentMessage option exec" where
  "reportGlobalPathSegmentMessageFromJausMessage =
     messageFromJausMessage JAUS_REPORT_GLOBAL_PATH_SEGMENT reportGlobalPathSegment_dataFromBuffer"

definition reportGlobalPathSegmentMessageToJausMessage ::
    "ReportGlobalPathSegmentMessage \<Rightarrow> JausMessage exec" where
  "reportGlobalPathSegmentMessageToJausMessage =
     messageToJausMessage reportGlobalPathSegment_dataSize reportGlobalPathSegment_dataToBuffer"

definition reportGlobalPathSegment_enc :: "ReportGlobalPathSegmentMessage \<Rightarrow> bytes" where
  "reportGlobalPathSegment_enc m =
     [reportGlobalPathSegment_presenceVector m] @
     bytesOfWord 2 (reportGlobalPathSegment_pathSegmentNumber m) @
     bytesOfWord 4 (the (jausIntegerFromDouble (reportGlobalPathSegment_p1LatitudeDeg m) (- 90) 90)) @
     bytesOfWord 4 (the (jausIntegerFromDouble (reportGlobalPathSegment_p1LongitudeDeg m) (- 180) 180)) @
     (if bit (reportGlobalPathSegment_presenceVector m) (nat JAUS_PATH_SEGMENT_PV_P1_ALTITUDE_BIT) then bytesOfWord 4 (the (jausIntegerFromDouble (reportGlobalPathSegment_p1AltitudeM m) (- 10000) 35000)) else []) @
     bytesOfWord 4 (the (jausIntegerFromDouble (reportGlobalPathSegment_p2LatitudeDeg m) (- 90) 90)) @
     bytesOfWord 4 (the (jausIntegerFromDouble (reportGlobalPathSegment_p2LongitudeDeg m) (- 180) 180)) @
     (if bit (reportGlobalPathSegment_presenceVector m) (nat JAUS_PATH_SEGMENT_PV_P2_ALTITUDE_BIT) then bytesOfWord 4 (the (jausIntegerFromDouble (reportGlobalPathSegment_p2AltitudeM m) (- 10000) 35000)) else []) @
     bytesOfWord 2 (the (jausUnsignedShortFromDouble (reportGlobalPathSegment_weightingFactor m) 0 500))"

definition reportGlobalPathSegment_withData :: "ReportGlobalPathSegmentMessage \<Rightarrow> ReportGlobalPathSegmentMessage \<Rightarrow> ReportGlobalPathSegmentMessage" where
  "reportGlobalPathSegment_withData m0 m =
     (onlyIf (bit (reportGlobalPathSegment_presenceVector m) (nat JAUS_PATH_SEGMENT_PV_P2_ALTITUDE_BIT))
       (\<lambda>x. x\<lparr>reportGlobalPathSegment_p2AltitudeM := jausIntegerToDouble (the (jausIntegerFromDouble (reportGlobalPathSegment_p2AltitudeM m) (- 10000) 35000)) (- 10000) 35000\<rparr>)
       ((onlyIf (bit (reportGlobalPathSegment_presenceVector m) (nat JAUS_PATH_SEGMENT_PV_P1_ALTITUDE_BIT))
       (\<lambda>x. x\<lparr>reportGlobalPathSegment_p1AltitudeM := jausIntegerToDouble (the (jausIntegerFromDouble (reportGlobalPathSegment_p1AltitudeM m) (- 10000) 35000)) (- 10000) 35000\<rparr>)
       (m0\<lparr>reportGlobalPathSegment_presenceVector := reportGlobalPathSegment_presenceVector m,
        reportGlobalPathSegment_pathSegmentNumber := reportGlobalPathSegment_pathSegmentNumber m,
        reportGlobalPathSegment_p1LatitudeDeg := jausIntegerToDouble (the (jausIntegerFromDouble (reportGlobalPathSegment_p1LatitudeDeg m) (- 90) 90)) (- 90) 90,
        reportGlobalPathSegment_p1LongitudeDeg := jausIntegerToDouble (the (jausIntegerFromDouble (reportGlobalPathSegment_p1LongitudeDeg m) (- 180) 180)) (- 180) 180\<rparr>))\<lparr>reportGlobalPathSegment_p2LatitudeDeg := jausIntegerToDouble (the (jausIntegerFromDouble (reportGlobalPathSegment_p2LatitudeDeg m) (- 90) 90)) (- 90) 90,
        reportGlobalPathSegment_p2LongitudeDeg := jausIntegerToDouble (the (jausIntegerFromDouble (reportGlobalPathSegment_p2LongitudeDeg m) (- 180) 180)) (- 180) 180\<rparr>))\<lparr>reportGlobalPathSegment_weightingFactor := jausUnsignedShortToDouble (the (jausUnsignedShortFromDouble (reportGlobalPathSegment_weightingFactor m) 0 500)) 0 500\<rparr>"

lemma reportGlobalPathSegment_size: "reportGlobalPathSegment_dataSize m = of_nat (length (reportGlobalPathSegment_enc m))"
  by (simp add: reportGlobalPathSegment_dataSize_def reportGlobalPathSegment_enc_def codec_simps length_if of_nat_if)

lemma reportGlobalPathSegment_small: "length (reportGlobalPathSegment_enc m) < 4096"
  unfolding reportGlobalPathSegment_enc_def by (rule enc_small, (rule length_bounds)+, simp)

lemma reportGlobalPathSegment_to:
  assumes "off + length (reportGlobalPathSegment_enc m) \<le> length buf" "length (reportGlobalPathSegment_enc m) \<le> unat n"
  shows "reportGlobalPathSegment_dataToBuffer m buf off n =
    Some (length (reportGlobalPathSegment_enc m), take off buf @ reportGlobalPathSegment_enc m @ drop (off + length (reportGlobalPathSegment_enc m)) buf)"
  unfolding reportGlobalPathSegment_dataToBuffer_def
  by (rule to_lawI [OF _ reportGlobalPathSegment_size assms], unfold reportGlobalPathSegment_enc_def,
      (rule writes_intros refl | rule writes_Cons | (rule FromDouble_total, simp)
        | simp add: codec_simps)+)

lemma reportGlobalPathSegment_from:
  assumes "dataSize m0 = reportGlobalPathSegment_dataSize m"
  shows "reportGlobalPathSegment_dataFromBuffer m0 (pre @ reportGlobalPathSegment_enc m @ post) (length pre) (reportGlobalPathSegment_dataSize m) = Some (True, reportGlobalPathSegment_withData m0 m)"
proof -
  have n: "unat (reportGlobalPathSegment_dataSize m) = length (reportGlobalPathSegment_enc m)"
    using reportGlobalPathSegment_small [of m] by (simp add: reportGlobalPathSegment_size unat_of_nat_lt)
  show ?thesis
    unfolding reportGlobalPathSegment_dataFromBuffer_def reportGlobalPathSegment_withData_def
    by (rule from_lawI [where D = "reportGlobalPathSegment_enc m"], unfold reportGlobalPathSegment_enc_def,
        (rule parses_intros refl n [unfolded reportGlobalPathSegment_enc_def] assms [symmetric] | rule parses_Cons
          | simp add: codec_simps onlyIf_def if_distrib [of reportGlobalPathSegment_presenceVector])+)
qed

interpretation reportGlobalPathSegment: typed_message reportGlobalPathSegment_dataSize reportGlobalPathSegment_dataFromBuffer
  reportGlobalPathSegment_dataToBuffer reportGlobalPathSegment_enc reportGlobalPathSegment_withData
  by unfold_locales (fact reportGlobalPathSegment_size reportGlobalPathSegment_small reportGlobalPathSegment_to reportGlobalPathSegment_from)+

section \<open>ReportGlobalVectorMessage\<close>

record ReportGlobalVectorMessage = JausHeader +
  reportGlobalVector_presenceVector :: u8
  reportGlobalVector_speedMps :: real
  reportGlobalVector_altitudeMeters :: real
  reportGlobalVector_headingRadians :: real
  reportGlobalVector_rollRadians :: real
  reportGlobalVector_pitchRadians :: real

definition reportGlobalVector_dataInitialize ::
    "ReportGlobalVectorMessage \<Rightarrow> ReportGlobalVectorMessage" where
  "reportGlobalVector_dataInitialize m =
     m\<lparr>reportGlobalVector_presenceVector := newJausByte JAUS_BYTE_PRESENCE_VECTOR_ALL_ON,
        reportGlobalVector_speedMps := 0,
        reportGlobalVector_altitudeMeters := 0,
        reportGlobalVector_headingRadians := 0,
        reportGlobalVector_rollRadians := 0,
        reportGlobalVector_pitchRadians := 0\<rparr>"

definition reportGlobalVector_dataSize :: "ReportGlobalVectorMessage \<Rightarrow> u32" where
  "reportGlobalVector_dataSize m =
     (1 +
      (if jausByteIsBitSet (reportGlobalVector_presenceVector m) JAUS_VECTOR_PV_SPEED_BIT = Some True then 2 else 0) +
      (if jausByteIsBitSet (reportGlobalVector_presenceVector m) JAUS_VECTOR_PV_ALTITUDE_BIT = Some True then 4 else 0) +
      (if jausByteIsBitSet (reportGlobalVector_presenceVector m) JAUS_VECTOR_PV_HEADING_BIT = Some True then 2 else 0) +
      (if jausByteIsBitSet (reportGlobalVector_presenceVector m) JAUS_VECTOR_PV_ROLL_BIT = Some True then 2 else 0) +
      (if jausByteIsBitSet (reportGlobalVector_presenceVector m) JAUS_VECTOR_PV_PITCH_BIT = Some True then 2 else 0))"

definition reportGlobalVector_dataFromBuffer ::
    "ReportGlobalVectorMessage \<Rightarrow> bytes \<Rightarrow> nat \<Rightarrow> u32 \<Rightarrow> (bool \<times> ReportGlobalVectorMessage) exec" where
  "reportGlobalVector_dataFromBuffer m buffer off n =
     (if n = dataSize m then finishR (runStmts
        [getByte (\<lambda>v m. m\<lparr>reportGlobalVector_presenceVector := v\<rparr>) buffer off n,
         whenS (\<lambda>(i, m). jausByteIsBitSet (reportGlobalVector_presenceVector m) JAUS_VECTOR_PV_SPEED_BIT)
           [getUShort (\<lambda>v m. m\<lparr>reportGlobalVector_speedMps := jausUnsignedShortToDouble v 0 10000\<rparr>) buffer off n],
         whenS (\<lambda>(i, m). jausByteIsBitSet (reportGlobalVector_presenceVector m) JAUS_VECTOR_PV_ALTITUDE_BIT)
           [getInteger (\<lambda>v m. m\<lparr>reportGlobalVector_altitudeMeters := jausIntegerToDouble v (- 10000) 35000\<rparr>) buffer off n],
         whenS (\<lambda>(i, m). jausByteIsBitSet (reportGlobalVector_presenceVector m) JAUS_VECTOR_PV_HEADING_BIT)
           [getShort (\<lambda>v m. m\<lparr>reportGlobalVector_headingRadians := jausShortToDouble v (- JAUS_PI) JAUS_PI\<rparr>) buffer off n],
         whenS (\<lambda>(i, m). jausByteIsBitSet (reportGlobalVector_presenceVector m) JAUS_VECTOR_PV_ROLL_BIT)
           [getShort (\<lambda>v m. m\<lparr>reportGlobalVector_rollRadians := jausShortToDouble v (- JAUS_PI) JAUS_PI\<rparr>) buffer off n],
         whenS (\<lambda>(i, m). jausByteIsBitSet (reportGlobalVector_presenceVector m) JAUS_VECTOR_PV_PITCH_BIT)
           [getShort (\<lambda>v m. m\<lparr>reportGlobalVector_pitchRadians := jausShortToDouble v (- JAUS_PI) JAUS_PI\<rparr>) buffer off n]] (0, m))
      else Some (False, m))"

definition reportGlobalVector_dataToBuffer ::
    "ReportGlobalVectorMessage \<Rightarrow> bytes \<Rightarrow> nat \<Rightarrow> u32 \<Rightarrow> (nat \<times> bytes) exec" where
  "reportGlobalVector_dataToBuffer m buffer off n =
     (if reportGlobalVector_dataSize m \<le> n then finishW (runStmts
        [putByte (Some (reportGlobalVector_presenceVector m)) off n,
         whenS (\<lambda>_. jausByteIsBitSet (reportGlobalVector_presenceVector m) JAUS_VECTOR_PV_SPEED_BIT)
           [putUShort (jausUnsignedShortFromDouble (reportGlobalVector_speedMps m) 0 10000) off n],
         whenS (\<lambda>_. jausByteIsBitSet (reportGlobalVector_presenceVector m) JAUS_VECTOR_PV_ALTITUDE_BIT)
           [putInteger (jausIntegerFromDouble (reportGlobalVector_altitudeMeters m) (- 10000) 35000) off n],
         whenS (\<lambda>_. jausByteIsBitSet (reportGlobalVector_presenceVector m) JAUS_VECTOR_PV_HEADING_BIT)
           [putShort (jausShortFromDouble (reportGlobalVector_headingRadians m) (- JAUS_PI) JAUS_PI) off n],
         whenS (\<lambda>_. jausByteIsBitSet (reportGlobalVector_presenceVector m) JAUS_VECTOR_PV_ROLL_BIT)
           [putShort (jausShortFromDouble (reportGlobalVector_rollRadians m) (- JAUS_PI) JAUS_PI) off n],
         whenS (\<lambda>_. jausByteIsBitSet (reportGlobalVector_presenceVector m) JAUS_VECTOR_PV_PITCH_BIT)
           [putShort (jausShortFromDouble (reportGlobalVector_pitchRadians m) (- JAUS_PI) JAUS_PI) off n]] (0, buffer))
      else Some (0, buffer))"

definition reportGlobalVectorMessageCreate :: ReportGlobalVectorMessage where
  "reportGlobalVectorMessageCreate =
     (let m = reportGlobalVector_dataInitialize (JausHeader.extend (blankHeader JAUS_REPORT_GLOBAL_VECTOR 13)
        (ReportGlobalVectorMessage.fields 0 0 0 0 0 0))
      in m\<lparr>dataSize := reportGlobalVector_dataSize m\<rparr>)"

definition reportGlobalVectorMessageFromBuffer ::
    "ReportGlobalVectorMessage \<Rightarrow> bytes \<Rightarrow> u32 \<Rightarrow> (bool \<times> ReportGlobalVectorMessage) exec" where
  "reportGlobalVectorMessageFromBuffer =
     messageFromBuffer reportGlobalVector_dataFromBuffer"

definition reportGlobalVectorMessageSize :: "ReportGlobalVectorMessage \<Rightarrow> u32" where
  "reportGlobalVectorMessageSize = messageSize reportGlobalVector_dataSize"

definition reportGlobalVectorMessageToBuffer ::
    "ReportGlobalVectorMessage \<Rightarrow> bytes \<Rightarrow> u32 \<Rightarrow> (bool \<times> ReportGlobalVectorMessage \<times> bytes) exec" where
  "reportGlobalVectorMessageToBuffer =
     messageToBuffer reportGlobalVector_dataSize reportGlobalVector_dataToBuffer"

definition reportGlobalVectorMessageFromJausMessage ::
    "ReportGlobalVectorMessage \<Rightarrow> JausMessage \<Rightarrow> ReportGlobalVectorMessage option exec" where
  "reportGlobalVectorMessageFromJausMessage =
     messageFromJausMessage JAUS_REPORT_GLOBAL_VECTOR reportGlobalVector_dataFromBuffer"

definition reportGlobalVectorMessageToJausMessage ::
    "ReportGlobalVectorMessage \<Rightarrow> JausMessage exec" where
  "reportGlobalVectorMessageToJausMessage =
     messageToJausMessage reportGlobalVector_dataSize reportGlobalVector_dataToBuffer"

definition reportGlobalVector_enc :: "ReportGlobalVectorMessage \<Rightarrow> bytes" where
  "reportGlobalVector_enc m =
     [reportGlobalVector_presenceVector m] @
     (if bit (reportGlobalVector_presenceVector m) (nat JAUS_VECTOR_PV_SPEED_BIT) then bytesOfWord 2 (the (jausUnsignedShortFromDouble (reportGlobalVector_speedMps m) 0 10000)) else []) @
     (if bit (reportGlobalVector_presenceVector m) (nat JAUS_VECTOR_PV_ALTITUDE_BIT) then bytesOfWord 4 (the (jausIntegerFromDouble (reportGlobalVector_altitudeMeters m) (- 10000) 35000)) else []) @
     (if bit (reportGlobalVector_presenceVector m) (nat JAUS_VECTOR_PV_HEADING_BIT) then bytesOfWord 2 (the (jausShortFromDouble (reportGlobalVector_headingRadians m) (- JAUS_PI) JAUS_PI)) else []) @
     (if bit (reportGlobalVector_presenceVector m) (nat JAUS_VECTOR_PV_ROLL_BIT) then bytesOfWord 2 (the (jausShortFromDouble (reportGlobalVector_rollRadians m) (- JAUS_PI) JAUS_PI)) else []) @
     (if bit (reportGlobalVector_presenceVector m) (nat JAUS_VECTOR_PV_PITCH_BIT) then bytesOfWord 2 (the (jausShortFromDouble (reportGlobalVector_pitchRadians m) (- JAUS_PI) JAUS_PI)) else [])"

definition reportGlobalVector_withData :: "ReportGlobalVectorMessage \<Rightarrow> ReportGlobalVectorMessage \<Rightarrow> ReportGlobalVectorMessage" where
  "reportGlobalVector_withData m0 m =
     onlyIf (bit (reportGlobalVector_presenceVector m) (nat JAUS_VECTOR_PV_PITCH_BIT))
       (\<lambda>x. x\<lparr>reportGlobalVector_pitchRadians := jausShortToDouble (the (jausShortFromDouble (reportGlobalVector_pitchRadians m) (- JAUS_PI) JAUS_PI)) (- JAUS_PI) JAUS_PI\<rparr>)
       (onlyIf (bit (reportGlobalVector_presenceVector m) (nat JAUS_VECTOR_PV_ROLL_BIT))
       (\<lambda>x. x\<lparr>reportGlobalVector_rollRadians := jausShortToDouble (the (jausShortFromDouble (reportGlobalVector_rollRadians m) (- JAUS_PI) JAUS_PI)) (- JAUS_PI) JAUS_PI\<rparr>)
       (onlyIf (bit (reportGlobalVector_presenceVector m) (nat JAUS_VECTOR_PV_HEADING_BIT))
       (\<lambda>x. x\<lparr>reportGlobalVector_headingRadians := jausShortToDouble (the (jausShortFromDouble (reportGlobalVector_headingRadians m) (- JAUS_PI) JAUS_PI)) (- JAUS_PI) JAUS_PI\<rparr>)
       (onlyIf (bit (reportGlobalVector_presenceVector m) (nat JAUS_VECTOR_PV_ALTITUDE_BIT))
       (\<lambda>x. x\<lparr>reportGlobalVector_altitudeMeters := jausIntegerToDouble (the (jausIntegerFromDouble (reportGlobalVector_altitudeMeters m) (- 10000) 35000)) (- 10000) 35000\<rparr>)
       (onlyIf (bit (reportGlobalVector_presenceVector m) (nat JAUS_VECTOR_PV_SPEED_BIT))
       (\<lambda>x. x\<lparr>reportGlobalVector_speedMps := jausUnsignedShortToDouble (the (jausUnsignedShortFromDouble (reportGlobalVector_speedMps m) 0 10000)) 0 10000\<rparr>)
       (m0\<lparr>reportGlobalVector_presenceVector := reportGlobalVector_presenceVector m\<rparr>)))))"

lemma reportGlobalVector_size: "reportGlobalVector_dataSize m = of_nat (length (reportGlobalVector_enc m))"
  by (simp add: reportGlobalVector_dataSize_def reportGlobalVector_enc_def codec_simps length_if of_nat_if)

lemma reportGlobalVector_small: "length (reportGlobalVector_enc m) < 4096"
  unfolding reportGlobalVector_enc_def by (rule enc_small, (rule length_bounds)+, simp)

lemma reportGlobalVector_to:
  assumes "off + length (reportGlobalVector_enc m) \<le> length buf" "length (reportGlobalVector_enc m) \<le> unat n"
  shows "reportGlobalVector_dataToBuffer m buf off n =
    Some (length (reportGlobalVector_enc m), take off buf @ reportGlobalVector_enc m @ drop (off + length (reportGlobalVector_enc m)) buf)"
  unfolding reportGlobalVector_dataToBuffer_def
  by (rule to_lawI [OF _ reportGlobalVector_size assms], unfold reportGlobalVector_enc_def,
      (rule writes_intros refl | rule writes_Cons | (rule FromDouble_total, simp)
        | simp add: codec_simps)+)

lemma reportGlobalVector_from:
  assumes "dataSize m0 = reportGlobalVector_dataSize m"
  shows "reportGlobalVector_dataFromBuffer m0 (pre @ reportGlobalVector_enc m @ post) (length pre) (reportGlobalVector_dataSize m) = Some (True, reportGlobalVector_withData m0 m)"
proof -
  have n: "unat (reportGlobalVector_dataSize m) = length (reportGlobalVector_enc m)"
    using reportGlobalVector_small [of m] by (simp add: reportGlobalVector_size unat_of_nat_lt)
  show ?thesis
    unfolding reportGlobalVector_dataFromBuffer_def reportGlobalVector_withData_def
    by (rule from_lawI [where D = "reportGlobalVector_enc m"], unfold reportGlobalVector_enc_def,
        (rule parses_intros refl n [unfolded reportGlobalVector_enc_def] assms [symmetric] | rule parses_Cons
          | simp add: codec_simps onlyIf_def if_distrib [of reportGlobalVector_presenceVector])+)
qed

interpretation reportGlobalVector: typed_message reportGlobalVector_dataSize reportGlobalVector_dataFromBuffer
  reportGlobalVector_dataToBuffer reportGlobalVector_enc reportGlobalVector_withData
  by unfold_locales (fact reportGlobalVector_size reportGlobalVector_small reportGlobalVector_to reportGlobalVector_from)+

section \<open>ReportGlobalWaypointMessage\<close>

record ReportGlobalWaypointMessage = JausHeader +
  reportGlobalWaypoint_presenceVector :: u8
  reportGlobalWaypoint_waypointNumber :: u16
  reportGlobalWaypoint_latitudeDegrees :: real
  reportGlobalWaypoint_longitudeDegrees :: real
  reportGlobalWaypoint_elevationMeters :: real
  reportGlobalWaypoint_rollRadians :: real
  reportGlobalWaypoint_pitchRadians :: real
  reportGlobalWaypoint_yawRadians :: real

definition reportGlobalWaypoint_dataInitialize ::
    "ReportGlobalWaypointMessage \<Rightarrow> ReportGlobalWaypointMessage" where
  "reportGlobalWaypoint_dataInitialize m =
     m\<lparr>reportGlobalWaypoint_presenceVector := newJausByte JAUS_BYTE_PRESENCE_VECTOR_ALL_ON,
        reportGlobalWaypoint_waypointNumber := newJausUnsignedShort 0,
        reportGlobalWaypoint_latitudeDegrees := 0,
        reportGlobalWaypoint_longitudeDegrees := 0,
        reportGlobalWaypoint_elevationMeters := 0,
        reportGlobalWaypoint_rollRadians := 0,
        reportGlobalWaypoint_pitchRadians := 0,
        reportGlobalWaypoint_yawRadians := 0\<rparr>"

definition reportGlobalWaypoint_dataSize :: "ReportGlobalWaypointMessage \<Rightarrow> u32" where
  "reportGlobalWaypoint_dataSize m =
     (1 +
      2 +
      4 +
      4 +
      (if jausByteIsBitSet (reportGlobalWaypoint_presenceVector m) JAUS_WAYPOINT_PV_ELEVATION_BIT = Some True then 4 else 0) +
      (if jausByteIsBitSet (reportGlobalWaypoint_presenceVector m) JAUS_WAYPOINT_PV_ROLL_BIT = Some True then 2 else 0) +
      (if jausByteIsBitSet (reportGlobalWaypoint_presenceVector m) JAUS_WAYPOINT_PV_PITCH_BIT = Some True then 2 else 0) +
      (if jausByteIsBitSet (reportGlobalWaypoint_presenceVector m) JAUS_WAYPOINT_PV_YAW_BIT = Some True then 2 else 0))"

definition reportGlobalWaypoint_dataFromBuffer ::
    "ReportGlobalWaypointMessage \<Rightarrow> bytes \<Rightarrow> nat \<Rightarrow> u32 \<Rightarrow> (bool \<times> ReportGlobalWaypointMessage) exec" where
  "reportGlobalWaypoint_dataFromBuffer m buffer off n =
     (if n = dataSize m then finishR (runStmts
        [getByte (\<lambda>v m. m\<lparr>reportGlobalWaypoint_presenceVector := v\<rparr>) buffer off n,
         getUShort (\<lambda>v m. m\<lparr>reportGlobalWaypoint_waypointNumber := v\<rparr>) buffer off n,
         getInteger (\<lambda>v m. m\<lparr>reportGlobalWaypoint_latitudeDegrees := jausIntegerToDouble v (- 90) 90\<rparr>) buffer off n,
         getInteger (\<lambda>v m. m\<lparr>reportGlobalWaypoint_longitudeDegrees := jausIntegerToDouble v (- 180) 180\<rparr>) buffer off n,
         whenS (\<lambda>(i, m). jausByteIsBitSet (reportGlobalWaypoint_presenceVector m) JAUS_WAYPOINT_PV_ELEVATION_BIT)
           [getInteger (\<lambda>v m. m\<lparr>reportGlobalWaypoint_elevationMeters := jausIntegerToDouble v (- 10000) 35000\<rparr>) buffer off n],
         whenS (\<lambda>(i, m). jausByteIsBitSet (reportGlobalWaypoint_presenceVector m) JAUS_WAYPOINT_PV_ROLL_BIT)
           [getShort (\<lambda>v m. m\<lparr>reportGlobalWaypoint_rollRadians := jausShortToDouble v (- JAUS_PI) JAUS_PI\<rparr>) buffer off n],
         whenS (\<lambda>(i, m). jausByteIsBitSet (reportGlobalWaypoint_presenceVector m) JAUS_WAYPOINT_PV_PITCH_BIT)
           [getShort (\<lambda>v m. m\<lparr>reportGlobalWaypoint_pitchRadians := jausShortToDouble v (- JAUS_PI) JAUS_PI\<rparr>) buffer off n],
         whenS (\<lambda>(i, m). jausByteIsBitSet (reportGlobalWaypoint_presenceVector m) JAUS_WAYPOINT_PV_YAW_BIT)
           [getShort (\<lambda>v m. m\<lparr>reportGlobalWaypoint_yawRadians := jausShortToDouble v (- JAUS_PI) JAUS_PI\<rparr>) buffer off n]] (0, m))
      else Some (False, m))"

definition reportGlobalWaypoint_dataToBuffer ::
    "ReportGlobalWaypointMessage \<Rightarrow> bytes \<Rightarrow> nat \<Rightarrow> u32 \<Rightarrow> (nat \<times> bytes) exec" where
  "reportGlobalWaypoint_dataToBuffer m buffer off n =
     (if reportGlobalWaypoint_dataSize m \<le> n then finishW (runStmts
        [putByte (Some (reportGlobalWaypoint_presenceVector m)) off n,
         putUShort (Some (reportGlobalWaypoint_waypointNumber m)) off n,
         putInteger (jausIntegerFromDouble (reportGlobalWaypoint_latitudeDegrees m) (- 90) 90) off n,
         putInteger (jausIntegerFromDouble (reportGlobalWaypoint_longitudeDegrees m) (- 180) 180) off n,
         whenS (\<lambda>_. jausByteIsBitSet (reportGlobalWaypoint_presenceVector m) JAUS_WAYPOINT_PV_ELEVATION_BIT)
           [putInteger (jausIntegerFromDouble (reportGlobalWaypoint_elevationMeters m) (- 10000) 35000) off n],
         whenS (\<lambda>_. jausByteIsBitSet (reportGlobalWaypoint_presenceVector m) JAUS_WAYPOINT_PV_ROLL_BIT)
           [putShort (jausShortFromDouble (reportGlobalWaypoint_rollRadians m) (- JAUS_PI) JAUS_PI) off n],
         whenS (\<lambda>_. jausByteIsBitSet (reportGlobalWaypoint_presenceVector m) JAUS_WAYPOINT_PV_PITCH_BIT)
           [putShort (jausShortFromDouble (reportGlobalWaypoint_pitchRadians m) (- JAUS_PI) JAUS_PI) off n],
         whenS (\<lambda>_. jausByteIsBitSet (reportGlobalWaypoint_presenceVector m) JAUS_WAYPOINT_PV_YAW_BIT)
           [putShort (jausShortFromDouble (reportGlobalWaypoint_yawRadians m) (- JAUS_PI) JAUS_PI) off n]] (0, buffer))
      else Some (0, buffer))"

definition reportGlobalWaypointMessageCreate :: ReportGlobalWaypointMessage where
  "reportGlobalWaypointMessageCreate =
     (let m = reportGlobalWaypoint_dataInitialize (JausHeader.extend (blankHeader JAUS_REPORT_GLOBAL_WAYPOINT 21)
        (ReportGlobalWaypointMessage.fields 0 0 0 0 0 0 0 0))
      in m\<lparr>dataSize := reportGlobalWaypoint_dataSize m\<rparr>)"

definition reportGlobalWaypointMessageFromBuffer ::
    "ReportGlobalWaypointMessage \<Rightarrow> bytes \<Rightarrow> u32 \<Rightarrow> (bool \<times> ReportGlobalWaypointMessage) exec" where
  "reportGlobalWaypointMessageFromBuffer =
     messageFromBuffer reportGlobalWaypoint_dataFromBuffer"

definition reportGlobalWaypointMessageSize :: "ReportGlobalWaypointMessage \<Rightarrow> u32" where
  "reportGlobalWaypointMessageSize = messageSize reportGlobalWaypoint_dataSize"

definition reportGlobalWaypointMessageToBuffer ::
    "ReportGlobalWaypointMessage \<Rightarrow> bytes \<Rightarrow> u32 \<Rightarrow> (bool \<times> ReportGlobalWaypointMessage \<times> bytes) exec" where
  "reportGlobalWaypointMessageToBuffer =
     messageToBuffer reportGlobalWaypoint_dataSize reportGlobalWaypoint_dataToBuffer"

definition reportGlobalWaypointMessageFromJausMessage ::
    "ReportGlobalWaypointMessage \<Rightarrow> JausMessage \<Rightarrow> ReportGlobalWaypointMessage option exec" where
  "reportGlobalWaypointMessageFromJausMessage =
     messageFromJausMessage JAUS_REPORT_GLOBAL_WAYPOINT reportGlobalWaypoint_dataFromBuffer"

definition reportGlobalWaypointMessageToJausMessage ::
    "ReportGlobalWaypointMessage \<Rightarrow> JausMessage exec" where
  "reportGlobalWaypointMessageToJausMessage =
     messageToJausMessage reportGlobalWaypoint_dataSize reportGlobalWaypoint_dataToBuffer"

definition reportGlobalWaypoint_enc :: "ReportGlobalWaypointMessage \<Rightarrow> bytes" where
  "reportGlobalWaypoint_enc m =
     [reportGlobalWaypoint_presenceVector m] @
     bytesOfWord 2 (reportGlobalWaypoint_waypointNumber m) @
     bytesOfWord 4 (the (jausIntegerFromDouble (reportGlobalWaypoint_latitudeDegrees m) (- 90) 90)) @
     bytesOfWord 4 (the (jausIntegerFromDouble (reportGlobalWaypoint_longitudeDegrees m) (- 180) 180)) @
     (if bit (reportGlobalWaypoint_presenceVector m) (nat JAUS_WAYPOINT_PV_ELEVATION_BIT) then bytesOfWord 4 (the (jausIntegerFromDouble (reportGlobalWaypoint_elevationMeters m) (- 10000) 35000)) else []) @
     (if bit (reportGlobalWaypoint_presenceVector m) (nat JAUS_WAYPOINT_PV_ROLL_BIT) then bytesOfWord 2 (the (jausShortFromDouble (reportGlobalWaypoint_rollRadians m) (- JAUS_PI) JAUS_PI)) else []) @
     (if bit (reportGlobalWaypoint_presenceVector m) (nat JAUS_WAYPOINT_PV_PITCH_BIT) then bytesOfWord 2 (the (jausShortFromDouble (reportGlobalWaypoint_pitchRadians m) (- JAUS_PI) JAUS_PI)) else []) @
     (if bit (reportGlobalWaypoint_presenceVector m) (nat JAUS_WAYPOINT_PV_YAW_BIT) then bytesOfWord 2 (the (jausShortFromDouble (reportGlobalWaypoint_yawRadians m) (- JAUS_PI) JAUS_PI)) else [])"

definition reportGlobalWaypoint_withData :: "ReportGlobalWaypointMessage \<Rightarrow> ReportGlobalWaypointMessage \<Rightarrow> ReportGlobalWaypointMessage" where
  "reportGlobalWaypoint_withData m0 m =
     onlyIf (bit (reportGlobalWaypoint_presenceVector m) (nat JAUS_WAYPOINT_PV_YAW_BIT))
       (\<lambda>x. x\<lparr>reportGlobalWaypoint_yawRadians := jausShortToDouble (the (jausShortFromDouble (reportGlobalWaypoint_yawRadians m) (- JAUS_PI) JAUS_PI)) (- JAUS_PI) JAUS_PI\<rparr>)
       (onlyIf (bit (reportGlobalWaypoint_presenceVector m) (nat JAUS_WAYPOINT_PV_PITCH_BIT))
       (\<lambda>x. x\<lparr>reportGlobalWaypoint_pitchRadians := jausShortToDouble (the (jausShortFromDouble (reportGlobalWaypoint_pitchRadians m) (- JAUS_PI) JAUS_PI)) (- JAUS_PI) JAUS_PI\<rparr>)
       (onlyIf (bit (reportGlobalWaypoint_presenceVector m) (nat JAUS_WAYPOINT_PV_ROLL_BIT))
       (\<lambda>x. x\<lparr>reportGlobalWaypoint_rollRadians := jausShortToDouble (the (jausShortFromDouble (reportGlobalWaypoint_rollRadians m) (- JAUS_PI) JAUS_PI)) (- JAUS_PI) JAUS_PI\<rparr>)
       (onlyIf (bit (reportGlobalWaypoint_presenceVector m) (nat JAUS_WAYPOINT_PV_ELEVATION_BIT))
       (\<lambda>x. x\<lparr>reportGlobalWaypoint_elevationMeters := jausIntegerToDouble (the (jausIntegerFromDouble (reportGlobalWaypoint_elevationMeters m) (- 10000) 35000)) (- 10000) 35000\<rparr>)
       (m0\<lparr>reportGlobalWaypoint_presenceVector := reportGlobalWaypoint_presenceVector m,
        reportGlobalWaypoint_waypointNumber := reportGlobalWaypoint_waypointNumber m,
        reportGlobalWaypoint_latitudeDegrees := jausIntegerToDouble (the (jausIntegerFromDouble (reportGlobalWaypoint_latitudeDegrees m) (- 90) 90)) (- 90) 90,
        reportGlobalWaypoint_longitudeDegrees := jausIntegerToDouble (the (jausIntegerFromDouble (reportGlobalWaypoint_longitudeDegrees m) (- 180) 180)) (- 180) 180\<rparr>))))"

lemma reportGlobalWaypoint_size: "reportGlobalWaypoint_dataSize m = of_nat (length (reportGlobalWaypoint_enc m))"
  by (simp add: reportGlobalWaypoint_dataSize_def reportGlobalWaypoint_enc_def codec_simps length_if of_nat_if)

lemma reportGlobalWaypoint_small: "length (reportGlobalWaypoint_enc m) < 4096"
  unfolding reportGlobalWaypoint_enc_def by (rule enc_small, (rule length_bounds)+, simp)

lemma reportGlobalWaypoint_to:
  assumes "off + length (reportGlobalWaypoint_enc m) \<le> length buf" "length (reportGlobalWaypoint_enc m) \<le> unat n"
  shows "reportGlobalWaypoint_dataToBuffer m buf off n =
    Some (length (reportGlobalWaypoint_enc m), take off buf @ reportGlobalWaypoint_enc m @ drop (off + length (reportGlobalWaypoint_enc m)) buf)"
  unfolding reportGlobalWaypoint_dataToBuffer_def
  by (rule to_lawI [OF _ reportGlobalWaypoint_size assms], unfold reportGlobalWaypoint_enc_def,
      (rule writes_intros refl | rule writes_Cons | (rule FromDouble_total, simp)
        | simp add: codec_simps)+)

lemma reportGlobalWaypoint_from:
  assumes "dataSize m0 = reportGlobalWaypoint_dataSize m"
  shows "reportGlobalWaypoint_dataFromBuffer m0 (pre @ reportGlobalWaypoint_enc m @ post) (length pre) (reportGlobalWaypoint_dataSize m) = Some (True, reportGlobalWaypoint_withData m0 m)"
proof -
  have n: "unat (reportGlobalWaypoint_dataSize m) = length (reportGlobalWaypoint_enc m)"
    using reportGlobalWaypoint_small [of m] by (simp add: reportGlobalWaypoint_size unat_of_nat_lt)
  show ?thesis
    unfolding reportGlobalWaypoint_dataFromBuffer_def reportGlobalWaypoint_withData_def
    by (rule from_lawI [where D = "reportGlobalWaypoint_enc m"], unfold reportGlobalWaypoint_enc_def,
        (rule parses_intros refl n [unfolded reportGlobalWaypoint_enc_def] assms [symmetric] | rule parses_Cons
          | simp add: codec_simps onlyIf_def if_distrib [of reportGlobalWaypoint_presenceVector])+)
qed

interpretation reportGlobalWaypoint: typed_message reportGlobalWaypoint_dataSize reportGlobalWaypoint_dataFromBuffer
  reportGlobalWaypoint_dataToBuffer reportGlobalWaypoint_enc reportGlobalWaypoint_withData
  by unfold_locales (fact reportGlobalWaypoint_size reportGlobalWaypoint_small reportGlobalWaypoint_to reportGlobalWaypoint_from)+

section \<open>ReportLocalPathSegmentMessage\<close>

record ReportLocalPathSegmentMessage = JausHeader +
  reportLocalPathSegment_presenceVector :: u8
  reportLocalPathSegment_pathSegmentNumber :: u16
  reportLocalPathSegment_p1XM :: real
  reportLocalPathSegment_p1YM :: real
  reportLocalPathSegment_p1ZM :: real
  reportLocalPathSegment_p2XM :: real
  reportLocalPathSegment_p2YM :: real
  reportLocalPathSegment_p2ZM :: real
  reportLocalPathSegment_weightingFactor :: real

definition reportLocalPathSegment_dataInitialize ::
    "ReportLocalPathSegmentMessage \<Rightarrow> ReportLocalPathSegmentMessage" where
  "reportLocalPathSegment_dataInitialize m =
     m\<lparr>reportLocalPathSegment_presenceVector := newJausByte JAUS_BYTE_PRESENCE_VECTOR_ALL_ON,
        reportLocalPathSegment_pathSegmentNumber := newJausUnsignedShort 0,
        reportLocalPathSegment_p1XM := 0,
        reportLocalPathSegment_p1YM := 0,
        reportLocalPathSegment_p1ZM := 0,
        reportLocalPathSegment_p2XM := 0,
        reportLocalPathSegment_p2YM := 0,
        reportLocalPathSegment_p2ZM := 0,
        reportLocalPathSegment_weightingFactor := 0\<rparr>"

definition reportLocalPathSegment_dataSize :: "ReportLocalPathSegmentMessage \<Rightarrow> u32" where
  "reportLocalPathSegment_dataSize m =
     (1 +
      2 +
      4 +
      4 +
      (if jausByteIsBitSet (reportLocalPathSegment_presenceVector m) JAUS_LOCAL_PATH_SEGMENT_PV_P1_Z_BIT = Some True then 4 else 0) +
      4 +
      4 +
      (if jausByteIsBitSet (reportLocalPathSegment_presenceVector m) JAUS_LOCAL_PATH_SEGMENT_PV_P2_Z_BIT = Some True then 4 else 0) +
      2)"

definition reportLocalPathSegment_dataFromBuffer ::
    "ReportLocalPathSegmentMessage \<Rightarrow> bytes \<Rightarrow> nat \<Rightarrow> u32 \<Rightarrow> (bool \<times> ReportLocalPathSegmentMessage) exec" where
  "reportLocalPathSegment_dataFromBuffer m buffer off n =
     (if n = dataSize m then finishR (runStmts
        [getByte (\<lambda>v m. m\<lparr>reportLocalPathSegment_presenceVector := v\<rparr>) buffer off n,
         getUShort (\<lambda>v m. m\<lparr>reportLocalPathSegment_pathSegmentNumber := v\<rparr>) buffer off n,
         getInteger (\<lambda>v m. m\<lparr>reportLocalPathSegment_p1XM := jausIntegerToDouble v (- 100000) 100000\<rparr>) buffer off n,
         getInteger (\<lambda>v m. m\<lparr>reportLocalPathSegment_p1YM := jausIntegerToDouble v (- 100000) 100000\<rparr>) buffer off n,
         whenS (\<lambda>(i, m). jausByteIsBitSet (reportLocalPathSegment_presenceVector m) JAUS_LOCAL_PATH_SEGMENT_PV_P1_Z_BIT)
           [getInteger (\<lambda>v m. m\<lparr>reportLocalPathSegment_p1ZM := jausIntegerToDouble v (- 10000) 35000\<rparr>) buffer off n],
         getInteger (\<lambda>v m. m\<lparr>reportLocalPathSegment_p2XM := jausIntegerToDouble v (- 100000) 100000\<rparr>) buffer off n,
         getInteger (\<lambda>v m. m\<lparr>reportLocalPathSegment_p2YM := jausIntegerToDouble v (- 100000) 100000\<rparr>) buffer off n,
         whenS (\<lambda>(i, m). jausByteIsBitSet (reportLocalPathSegment_presenceVector m) JAUS_LOCAL_PATH_SEGMENT_PV_P2_Z_BIT)
           [getInteger (\<lambda>v m. m\<lparr>reportLocalPathSegment_p2ZM := jausIntegerToDouble v (- 10000) 35000\<rparr>) buffer off n],
         getUShort (\<lambda>v m. m\<lparr>reportLocalPathSegment_weightingFactor := jausUnsignedShortToDouble v 0 500\<rparr>) buffer off n] (0, m))
      else Some (False, m))"

definition reportLocalPathSegment_dataToBuffer ::
    "ReportLocalPathSegmentMessage \<Rightarrow> bytes \<Rightarrow> nat \<Rightarrow> u32 \<Rightarrow> (nat \<times> bytes) exec" where
  "reportLocalPathSegment_dataToBuffer m buffer off n =
     (if reportLocalPathSegment_dataSize m \<le> n then finishW (runStmts
        [putByte (Some (reportLocalPathSegment_presenceVector m)) off n,
         putUShort (Some (reportLocalPathSegment_pathSegmentNumber m)) off n,
         putInteger (jausIntegerFromDouble (reportLocalPathSegment_p1XM m) (- 100000) 100000) off n,
         putInteger (jausIntegerFromDouble (reportLocalPathSegment_p1YM m) (- 100000) 100000) off n,
         whenS (\<lambda>_. jausByteIsBitSet (reportLocalPathSegment_presenceVector m) JAUS_LOCAL_PATH_SEGMENT_PV_P1_Z_BIT)
           [putInteger (jausIntegerFromDouble (reportLocalPathSegment_p1ZM m) (- 10000) 35000) off n],
         putInteger (jausIntegerFromDouble (reportLocalPathSegment_p2XM m) (- 100000) 100000) off n,
         putInteger (jausIntegerFromDouble (reportLocalPathSegment_p2YM m) (- 100000) 100000) off n,
         whenS (\<lambda>_. jausByteIsBitSet (reportLocalPathSegment_presenceVector m) JAUS_LOCAL_PATH_SEGMENT_PV_P2_Z_BIT)
           [putInteger (jausIntegerFromDouble (reportLocalPathSegment_p2ZM m) (- 10000) 35000) off n],
         putUShort (jausUnsignedShortFromDouble (reportLocalPathSegment_weightingFactor m) 0 500) off n] (0, buffer))
      else Some (0, buffer))"

definition reportLocalPathSegmentMessageCreate :: ReportLocalPathSegmentMessage where
  "reportLocalPathSegmentMessageCreate =
     (let m = reportLocalPathSegment_dataInitialize (JausHeader.extend (blankHeader JAUS_REPORT_LOCAL_PATH_SEGMENT 29)
        (ReportLocalPathSegmentMessage.fields 0 0 0 0 0 0 0 0 0))
      in m\<lparr>dataSize := reportLocalPathSegment_dataSize m\<rparr>)"

definition reportLocalPathSegmentMessageFromBuffer ::
    "ReportLocalPathSegmentMessage \<Rightarrow> bytes \<Rightarrow> u32 \<Rightarrow> (bool \<times> ReportLocalPathSegmentMessage) exec" where
  "reportLocalPathSegmentMessageFromBuffer =
     messageFromBuffer reportLocalPathSegment_dataFromBuffer"

definition reportLocalPathSegmentMessageSize :: "ReportLocalPathSegmentMessage \<Rightarrow> u32" where
  "reportLocalPathSegmentMessageSize = messageSize reportLocalPathSegment_dataSize"

definition reportLocalPathSegmentMessageToBuffer ::
    "ReportLocalPathSegmentMessage \<Rightarrow> bytes \<Rightarrow> u32 \<Rightarrow> (bool \<times> ReportLocalPathSegmentMessage \<times> bytes) exec" where
  "reportLocalPathSegmentMessageToBuffer =
     messageToBuffer reportLocalPathSegment_dataSize reportLocalPathSegment_dataToBuffer"

definition reportLocalPathSegmentMessageFromJausMessage ::
    "ReportLocalPathSegmentMessage \<Rightarrow> JausMessage \<Rightarrow> ReportLocalPathSegmentMessage option exec" where
  "reportLocalPathSegmentMessageFromJausMessage =
     messageFromJausMessage JAUS_REPORT_LOCAL_PATH_SEGMENT reportLocalPathSegment_dataFromBuffer"

definition reportLocalPathSegmentMessageToJausMessage ::
    "ReportLocalPathSegmentMessage \<Rightarrow> JausMessage exec" where
  "reportLocalPathSegmentMessageToJausMessage =
     messageToJausMessage reportLocalPathSegment_dataSize reportLocalPathSegment_dataToBuffer"

definition reportLocalPathSegment_enc :: "ReportLocalPathSegmentMessage \<Rightarrow> bytes" where
  "reportLocalPathSegment_enc m =
     [reportLocalPathSegment_presenceVector m] @
     bytesOfWord 2 (reportLocalPathSegment_pathSegmentNumber m) @
     bytesOfWord 4 (the (jausIntegerFromDouble (reportLocalPathSegment_p1XM m) (- 100000) 100000)) @
     bytesOfWord 4 (the (jausIntegerFromDouble (reportLocalPathSegment_p1YM m) (- 100000) 100000)) @
     (if bit (reportLocalPathSegment_presenceVector m) (nat JAUS_LOCAL_PATH_SEGMENT_PV_P1_Z_BIT) then bytesOfWord 4 (the (jausIntegerFromDouble (reportLocalPathSegment_p1ZM m) (- 10000) 35000)) else []) @
     bytesOfWord 4 (the (jausIntegerFromDouble (reportLocalPathSegment_p2XM m) (- 100000) 100000)) @
     bytesOfWord 4 (the (jausIntegerFromDouble (reportLocalPathSegment_p2YM m) (- 100000) 100000)) @
     (if bit (reportLocalPathSegment_presenceVector m) (nat JAUS_LOCAL_PATH_SEGMENT_PV_P2_Z_BIT) then bytesOfWord 4 (the (jausIntegerFromDouble (reportLocalPathSegment_p2ZM m) (- 10000) 35000)) else []) @
     bytesOfWord 2 (the (jausUnsignedShortFromDouble (reportLocalPathSegment_weightingFactor m) 0 500))"

definition reportLocalPathSegment_withData :: "ReportLocalPathSegmentMessage \<Rightarrow> ReportLocalPathSegmentMessage \<Rightarrow> ReportLocalPathSegmentMessage" where
  "reportLocalPathSegment_withData m0 m =
     (onlyIf (bit (reportLocalPathSegment_presenceVector m) (nat JAUS_LOCAL_PATH_SEGMENT_PV_P2_Z_BIT))
       (\<lambda>x. x\<lparr>reportLocalPathSegment_p2ZM := jausIntegerToDouble (the (jausIntegerFromDouble (reportLocalPathSegment_p2ZM m) (- 10000) 35000)) (- 10000) 35000\<rparr>)
       ((onlyIf (bit (reportLocalPathSegment_presenceVector m) (nat JAUS_LOCAL_PATH_SEGMENT_PV_P1_Z_BIT))
       (\<lambda>x. x\<lparr>reportLocalPathSegment_p1ZM := jausIntegerToDouble (the (jausIntegerFromDouble (reportLocalPathSegment_p1ZM m) (- 10000) 35000)) (- 10000) 35000\<rparr>)
       (m0\<lparr>reportLocalPathSegment_presenceVector := reportLocalPathSegment_presenceVector m,
        reportLocalPathSegment_pathSegmentNumber := reportLocalPathSegment_pathSegmentNumber m,
        reportLocalPathSegment_p1XM := jausIntegerToDouble (the (jausIntegerFromDouble (reportLocalPathSegment_p1XM m) (- 100000) 100000)) (- 100000) 100000,
        reportLocalPathSegment_p1YM := jausIntegerToDouble (the (jausIntegerFromDouble (reportLocalPathSegment_p1YM m) (- 100000) 100000)) (- 100000) 100000\<rparr>))\<lparr>reportLocalPathSegment_p2XM := jausIntegerToDouble (the (jausIntegerFromDouble (reportLocalPathSegment_p2XM m) (- 100000) 100000)) (- 100000) 100000,
        reportLocalPathSegment_p2YM := jausIntegerToDouble (the (jausIntegerFromDouble (reportLocalPathSegment_p2YM m) (- 100000) 100000)) (- 100000) 100000\<rparr>))\<lparr>reportLocalPathSegment_weightingFactor := jausUnsignedShortToDouble (the (jausUnsignedShortFromDouble (reportLocalPathSegment_weightingFactor m) 0 500)) 0 500\<rparr>"

lemma reportLocalPathSegment_size: "reportLocalPathSegment_dataSize m = of_nat (length (reportLocalPathSegment_enc m))"
  by (simp add: reportLocalPathSegment_dataSize_def reportLocalPathSegment_enc_def codec_simps length_if of_nat_if)

lemma reportLocalPathSegment_small: "length (reportLocalPathSegment_enc m) < 4096"
  unfolding reportLocalPathSegment_enc_def by (rule enc_small, (rule length_bounds)+, simp)

lemma reportLocalPathSegment_to:
  assumes "off + length (reportLocalPathSegment_enc m) \<le> length buf" "length (reportLocalPathSegment_enc m) \<le> unat n"
  shows "reportLocalPathSegment_dataToBuffer m buf off n =
    Some (length (reportLocalPathSegment_enc m), take off buf @ reportLocalPathSegment_enc m @ drop (off + length (reportLocalPathSegment_enc m)) buf)"
  unfolding reportLocalPathSegment_dataToBuffer_def
  by (rule to_lawI [OF _ reportLocalPathSegment_size assms], unfold reportLocalPathSegment_enc_def,
      (rule writes_intros refl | rule writes_Cons | (rule FromDouble_total, simp)
        | simp add: codec_simps)+)

lemma reportLocalPathSegment_from:
  assumes "dataSize m0 = reportLocalPathSegment_dataSize m"
  shows "reportLocalPathSegment_dataFromBuffer m0 (pre @ reportLocalPathSegment_enc m @ post) (length pre) (reportLocalPathSegment_dataSize m) = Some (True, reportLocalPathSegment_withData m0 m)"
proof -
  have n: "unat (reportLocalPathSegment_dataSize m) = length (reportLocalPathSegment_enc m)"
    using reportLocalPathSegment_small [of m] by (simp add: reportLocalPathSegment_size unat_of_nat_lt)
  show ?thesis
    unfolding reportLocalPathSegment_dataFromBuffer_def reportLocalPathSegment_withData_def
    by (rule from_lawI [where D = "reportLocalPathSegment_enc m"], unfold reportLocalPathSegment_enc_def,
        (rule parses_intros refl n [unfolded reportLocalPathSegment_enc_def] assms [symmetric] | rule parses_Cons
          | simp add: codec_simps onlyIf_def if_distrib [of reportLocalPathSegment_presenceVector])+)
qed

interpretation reportLocalPathSegment: typed_message reportLocalPathSegment_dataSize reportLocalPathSegment_dataFromBuffer
  reportLocalPathSegment_dataToBuffer reportLocalPathSegment_enc reportLocalPathSegment_withData
  by unfold_locales (fact reportLocalPathSegment_size reportLocalPathSegment_small reportLocalPathSegment_to reportLocalPathSegment_from)+

section \<open>ReportLocalVectorMessage\<close>

record ReportLocalVectorMessage = JausHeader +
  reportLocalVector_speedMps :: real
  reportLocalVector_headingRadians :: real

definition reportLocalVector_dataInitialize ::
    "ReportLocalVectorMessage \<Rightarrow> ReportLocalVectorMessage" where
  "reportLocalVector_dataInitialize m =
     m\<lparr>reportLocalVector_speedMps := 0,
        reportLocalVector_headingRadians := 0\<rparr>"

definition reportLocalVector_dataSize :: "ReportLocalVectorMessage \<Rightarrow> u32" where
  "reportLocalVector_dataSize m =
     (4 +
      2)"

definition reportLocalVector_dataFromBuffer ::
    "ReportLocalVectorMessage \<Rightarrow> bytes \<Rightarrow> nat \<Rightarrow> u32 \<Rightarrow> (bool \<times> ReportLocalVectorMessage) exec" where
  "reportLocalVector_dataFromBuffer m buffer off n =
     (if n = dataSize m then finishR (runStmts
        [getInteger (\<lambda>v m. m\<lparr>reportLocalVector_speedMps := jausIntegerToDouble v 0 10000\<rparr>) buffer off n,
         getShort (\<lambda>v m. m\<lparr>reportLocalVector_headingRadians := jausShortToDouble v (- JAUS_PI) JAUS_PI\<rparr>) buffer off n] (0, m))
      else Some (False, m))"

definition reportLocalVector_dataToBuffer ::
    "ReportLocalVectorMessage \<Rightarrow> bytes \<Rightarrow> nat \<Rightarrow> u32 \<Rightarrow> (nat \<times> bytes) exec" where
  "reportLocalVector_dataToBuffer m buffer off n =
     (if reportLocalVector_dataSize m \<le> n then finishW (runStmts
        [putInteger (jausIntegerFromDouble (reportLocalVector_speedMps m) 0 10000) off n,
         putShort (jausShortFromDouble (reportLocalVector_headingRadians m) (- JAUS_PI) JAUS_PI) off n] (0, buffer))
      else Some (0, buffer))"

definition reportLocalVectorMessageCreate :: ReportLocalVectorMessage where
  "reportLocalVectorMessageCreate =
     (let m = reportLocalVector_dataInitialize (JausHeader.extend (blankHeader JAUS_REPORT_LOCAL_VECTOR 6)
        (ReportLocalVectorMessage.fields 0 0))
      in m\<lparr>dataSize := reportLocalVector_dataSize m\<rparr>)"

definition reportLocalVectorMessageFromBuffer ::
    "ReportLocalVectorMessage \<Rightarrow> bytes \<Rightarrow> u32 \<Rightarrow> (bool \<times> ReportLocalVectorMessage) exec" where
  "reportLocalVectorMessageFromBuffer =
     messageFromBuffer reportLocalVector_dataFromBuffer"

definition reportLocalVectorMessageSize :: "ReportLocalVectorMessage \<Rightarrow> u32" where
  "reportLocalVectorMessageSize = messageSize reportLocalVector_dataSize"

definition reportLocalVectorMessageToBuffer ::
    "ReportLocalVectorMessage \<Rightarrow> bytes \<Rightarrow> u32 \<Rightarrow> (bool \<times> ReportLocalVectorMessage \<times> bytes) exec" where
  "reportLocalVectorMessageToBuffer =
     messageToBuffer reportLocalVector_dataSize reportLocalVector_dataToBuffer"

definition reportLocalVectorMessageFromJausMessage ::
    "ReportLocalVectorMessage \<Rightarrow> JausMessage \<Rightarrow> ReportLocalVectorMessage option exec" where
  "reportLocalVectorMessageFromJausMessage =
     messageFromJausMessage JAUS_REPORT_LOCAL_VECTOR reportLocalVector_dataFromBuffer"

definition reportLocalVectorMessageToJausMessage ::
    "ReportLocalVectorMessage \<Rightarrow> JausMessage exec" where
  "reportLocalVectorMessageToJausMessage =
     messageToJausMessage reportLocalVector_dataSize reportLocalVector_dataToBuffer"

definition reportLocalVector_enc :: "ReportLocalVectorMessage \<Rightarrow> bytes" where
  "reportLocalVector_enc m =
     bytesOfWord 4 (the (jausIntegerFromDouble (reportLocalVector_speedMps m) 0 10000)) @
     bytesOfWord 2 (the (jausShortFromDouble (reportLocalVector_headingRadians m) (- JAUS_PI) JAUS_PI))"

definition reportLocalVector_withData :: "ReportLocalVectorMessage \<Rightarrow> ReportLocalVectorMessage \<Rightarrow> ReportLocalVectorMessage" where
  "reportLocalVector_withData m0 m =
     m0\<lparr>reportLocalVector_speedMps := jausIntegerToDouble (the (jausIntegerFromDouble (reportLocalVector_speedMps m) 0 10000)) 0 10000,
        reportLocalVector_headingRadians := jausShortToDouble (the (jausShortFromDouble (reportLocalVector_headingRadians m) (- JAUS_PI) JAUS_PI)) (- JAUS_PI) JAUS_PI\<rparr>"

lemma reportLocalVector_size: "reportLocalVector_dataSize m = of_nat (length (reportLocalVector_enc m))"
  by (simp add: reportLocalVector_dataSize_def reportLocalVector_enc_def)

lemma reportLocalVector_small: "length (reportLocalVector_enc m) < 4096"
  unfolding reportLocalVector_enc_def by (rule enc_small, (rule length_bounds)+, simp)

lemma reportLocalVector_to:
  assumes "off + length (reportLocalVector_enc m) \<le> length buf" "length (reportLocalVector_enc m) \<le> unat n"
  shows "reportLocalVector_dataToBuffer m buf off n =
    Some (length (reportLocalVector_enc m), take off buf @ reportLocalVector_enc m @ drop (off + length (reportLocalVector_enc m)) buf)"
  unfolding reportLocalVector_dataToBuffer_def
  by (rule to_lawI [OF _ reportLocalVector_size assms], unfold reportLocalVector_enc_def,
      (rule writes_intros refl | rule writes_Cons | (rule FromDouble_total, simp)
        | simp add: codec_simps)+)

lemma reportLocalVector_from:
  assumes "dataSize m0 = reportLocalVector_dataSize m"
  shows "reportLocalVector_dataFromBuffer m0 (pre @ reportLocalVector_enc m @ post) (length pre) (reportLocalVector_dataSize m) = Some (True, reportLocalVector_withData m0 m)"
proof -
  have n: "unat (reportLocalVector_dataSize m) = length (reportLocalVector_enc m)"
    using reportLocalVector_small [of m] by (simp add: reportLocalVector_size unat_of_nat_lt)
  show ?thesis
    unfolding reportLocalVector_dataFromBuffer_def reportLocalVector_withData_def
    by (rule from_lawI [where D = "reportLocalVector_enc m"], unfold reportLocalVector_enc_def,
        (rule parses_intros refl n [unfolded reportLocalVector_enc_def] assms [symmetric] | rule parses_Cons
          | simp add: codec_simps)+)
qed

interpretation reportLocalVector: typed_message reportLocalVector_dataSize reportLocalVector_dataFromBuffer
  reportLocalVector_dataToBuffer reportLocalVector_enc reportLocalVector_withData
  by unfold_locales (fact reportLocalVector_size reportLocalVector_small reportLocalVector_to reportLocalVector_from)+

section \<open>ReportLocalWaypointMessage\<close>

record ReportLocalWaypointMessage = JausHeader +
  reportLocalWaypoint_presenceVector :: u8
  reportLocalWaypoint_waypointNumber :: u16
  reportLocalWaypoint_xM :: real
  reportLocalWaypoint_yM :: real
  reportLocalWaypoint_zM :: real
  reportLocalWaypoint_rollRadians :: real
  reportLocalWaypoint_pitchRadians :: real
  reportLocalWaypoint_yawRadians :: real

definition reportLocalWaypoint_dataInitialize ::
    "ReportLocalWaypointMessage \<Rightarrow> ReportLocalWaypointMessage" where
  "reportLocalWaypoint_dataInitialize m =
     m\<lparr>reportLocalWaypoint_presenceVector := newJausByte JAUS_BYTE_PRESENCE_VECTOR_ALL_ON,
        reportLocalWaypoint_waypointNumber := newJausUnsignedShort 0,
        reportLocalWaypoint_xM := 0,
        reportLocalWaypoint_yM := 0,
        reportLocalWaypoint_zM := 0,
        reportLocalWaypoint_rollRadians := 0,
        reportLocalWaypoint_pitchRadians := 0,
        reportLocalWaypoint_yawRadians := 0\<rparr>"

definition reportLocalWaypoint_dataSize :: "ReportLocalWaypointMessage \<Rightarrow> u32" where
  "reportLocalWaypoint_dataSize m =
     (1 +
      2 +
      4 +
      4 +
      (if jausByteIsBitSet (reportLocalWaypoint_presenceVector m) JAUS_LOCAL_WAYPOINT_PV_Z_BIT = Some True then 4 else 0) +
      (if jausByteIsBitSet (reportLocalWaypoint_presenceVector m) JAUS_LOCAL_WAYPOINT_PV_ROLL_BIT = Some True then 2 else 0) +
      (if jausByteIsBitSet (reportLocalWaypoint_presenceVector m) JAUS_LOCAL_WAYPOINT_PV_PITCH_BIT = Some True then 2 else 0) +
      (if jausByteIsBitSet (reportLocalWaypoint_presenceVector m) JAUS_LOCAL_WAYPOINT_PV_YAW_BIT = Some True then 2 else 0))"

definition reportLocalWaypoint_dataFromBuffer ::
    "ReportLocalWaypointMessage \<Rightarrow> bytes \<Rightarrow> nat \<Rightarrow> u32 \<Rightarrow> (bool \<times> ReportLocalWaypointMessage) exec" where
  "reportLocalWaypoint_dataFromBuffer m buffer off n =
     (if n = dataSize m then finishR (runStmts
        [getByte (\<lambda>v m. m\<lparr>reportLocalWaypoint_presenceVector := v\<rparr>) buffer off n,
         getUShort (\<lambda>v m. m\<lparr>reportLocalWaypoint_waypointNumber := v\<rparr>) buffer off n,
         getInteger (\<lambda>v m. m\<lparr>reportLocalWaypoint_xM := jausIntegerToDouble v (- 100000) 100000\<rparr>) buffer off n,
         getInteger (\<lambda>v m. m\<lparr>reportLocalWaypoint_yM := jausIntegerToDouble v (- 100000) 100000\<rparr>) buffer off n,
         whenS (\<lambda>(i, m). jausByteIsBitSet (reportLocalWaypoint_presenceVector m) JAUS_LOCAL_WAYPOINT_PV_Z_BIT)
           [getInteger (\<lambda>v m. m\<lparr>reportLocalWaypoint_zM := jausIntegerToDouble v (- 10000) 35000\<rparr>) buffer off n],
         whenS (\<lambda>(i, m). jausByteIsBitSet (reportLocalWaypoint_presenceVector m) JAUS_LOCAL_WAYPOINT_PV_ROLL_BIT)
           [getShort (\<lambda>v m. m\<lparr>reportLocalWaypoint_rollRadians := jausShortToDouble v (- JAUS_PI) JAUS_PI\<rparr>) buffer off n],
         whenS (\<lambda>(i, m). jausByteIsBitSet (reportLocalWaypoint_presenceVector m) JAUS_LOCAL_WAYPOINT_PV_PITCH_BIT)
           [getShort (\<lambda>v m. m\<lparr>reportLocalWaypoint_pitchRadians := jausShortToDouble v (- JAUS_PI) JAUS_PI\<rparr>) buffer off n],
         whenS (\<lambda>(i, m). jausByteIsBitSet (reportLocalWaypoint_presenceVector m) JAUS_LOCAL_WAYPOINT_PV_YAW_BIT)
           [getShort (\<lambda>v m. m\<lparr>reportLocalWaypoint_yawRadians := jausShortToDouble v (- JAUS_PI) JAUS_PI\<rparr>) buffer off n]] (0, m))
      else Some (False, m))"

definition reportLocalWaypoint_dataToBuffer ::
    "ReportLocalWaypointMessage \<Rightarrow> bytes \<Rightarrow> nat \<Rightarrow> u32 \<Rightarrow> (nat \<times> bytes) exec" where
  "reportLocalWaypoint_dataToBuffer m buffer off n =
     (if reportLocalWaypoint_dataSize m \<le> n then finishW (runStmts
        [putByte (Some (reportLocalWaypoint_presenceVector m)) off n,
         putUShort (Some (reportLocalWaypoint_waypointNumber m)) off n,
         putInteger (jausIntegerFromDouble (reportLocalWaypoint_xM m) (- 100000) 100000) off n,
         putInteger (jausIntegerFromDouble (reportLocalWaypoint_yM m) (- 100000) 100000) off n,
         whenS (\<lambda>_. jausByteIsBitSet (reportLocalWaypoint_presenceVector m) JAUS_LOCAL_WAYPOINT_PV_Z_BIT)
           [putInteger (jausIntegerFromDouble (reportLocalWaypoint_zM m) (- 10000) 35000) off n],
         whenS (\<lambda>_. jausByteIsBitSet (reportLocalWaypoint_presenceVector m) JAUS_LOCAL_WAYPOINT_PV_ROLL_BIT)
           [putShort (jausShortFromDouble (reportLocalWaypoint_rollRadians m) (- JAUS_PI) JAUS_PI) off n],
         whenS (\<lambda>_. jausByteIsBitSet (reportLocalWaypoint_presenceVector m) JAUS_LOCAL_WAYPOINT_PV_PITCH_BIT)
           [putShort (jausShortFromDouble (reportLocalWaypoint_pitchRadians m) (- JAUS_PI) JAUS_PI) off n],
         whenS (\<lambda>_. jausByteIsBitSet (reportLocalWaypoint_presenceVector m) JAUS_LOCAL_WAYPOINT_PV_YAW_BIT)
           [putShort (jausShortFromDouble (reportLocalWaypoint_yawRadians m) (- JAUS_PI) JAUS_PI) off n]] (0, buffer))
      else Some (0, buffer))"

definition reportLocalWaypointMessageCreate :: ReportLocalWaypointMessage where
  "reportLocalWaypointMessageCreate =
     (let m = reportLocalWaypoint_dataInitialize (JausHeader.extend (blankHeader JAUS_REPORT_LOCAL_WAYPOINT 21)
        (ReportLocalWaypointMessage.fields 0 0 0 0 0 0 0 0))
      in m\<lparr>dataSize := reportLocalWaypoint_dataSize m\<rparr>)"

definition reportLocalWaypointMessageFromBuffer ::
    "ReportLocalWaypointMessage \<Rightarrow> bytes \<Rightarrow> u32 \<Rightarrow> (bool \<times> ReportLocalWaypointMessage) exec" where
  "reportLocalWaypointMessageFromBuffer =
     messageFromBuffer reportLocalWaypoint_dataFromBuffer"

definition reportLocalWaypointMessageSize :: "ReportLocalWaypointMessage \<Rightarrow> u32" where
  "reportLocalWaypointMessageSize = messageSize reportLocalWaypoint_dataSize"

definition reportLocalWaypointMessageToBuffer ::
    "ReportLocalWaypointMessage \<Rightarrow> bytes \<Rightarrow> u32 \<Rightarrow> (bool \<times> ReportLocalWaypointMessage \<times> bytes) exec" where
  "reportLocalWaypointMessageToBuffer =
     messageToBuffer reportLocalWaypoint_dataSize reportLocalWaypoint_dataToBuffer"

definition reportLocalWaypointMessageFromJausMessage ::
    "ReportLocalWaypointMessage \<Rightarrow> JausMessage \<Rightarrow> ReportLocalWaypointMessage option exec" where
  "reportLocalWaypointMessageFromJausMessage =
     messageFromJausMessage JAUS_REPORT_LOCAL_WAYPOINT reportLocalWaypoint_dataFromBuffer"

definition reportLocalWaypointMessageToJausMessage ::
    "ReportLocalWaypointMessage \<Rightarrow> JausMessage exec" where
  "reportLocalWaypointMessageToJausMessage =
     messageToJausMessage reportLocalWaypoint_dataSize reportLocalWaypoint_dataToBuffer"

definition reportLocalWaypoint_enc :: "ReportLocalWaypointMessage \<Rightarrow> bytes" where
  "reportLocalWaypoint_enc m =
     [reportLocalWaypoint_presenceVector m] @
     bytesOfWord 2 (reportLocalWaypoint_waypointNumber m) @
     bytesOfWord 4 (the (jausIntegerFromDouble (reportLocalWaypoint_xM m) (- 100000) 100000)) @
     bytesOfWord 4 (the (jausIntegerFromDouble (reportLocalWaypoint_yM m) (- 100000) 100000)) @
     (if bit (reportLocalWaypoint_presenceVector m) (nat JAUS_LOCAL_WAYPOINT_PV_Z_BIT) then bytesOfWord 4 (the (jausIntegerFromDouble (reportLocalWaypoint_zM m) (- 10000) 35000)) else []) @
     (if bit (reportLocalWaypoint_presenceVector m) (nat JAUS_LOCAL_WAYPOINT_PV_ROLL_BIT) then bytesOfWord 2 (the (jausShortFromDouble (reportLocalWaypoint_rollRadians m) (- JAUS_PI) JAUS_PI)) else []) @
     (if bit (reportLocalWaypoint_presenceVector m) (nat JAUS_LOCAL_WAYPOINT_PV_PITCH_BIT) then bytesOfWord 2 (the (jausShortFromDouble (reportLocalWaypoint_pitchRadians m) (- JAUS_PI) JAUS_PI)) else []) @
     (if bit (reportLocalWaypoint_presenceVector m) (nat JAUS_LOCAL_WAYPOINT_PV_YAW_BIT) then bytesOfWord 2 (the (jausShortFromDouble (reportLocalWaypoint_yawRadians m) (- JAUS_PI) JAUS_PI)) else [])"

definition reportLocalWaypoint_withData :: "ReportLocalWaypointMessage \<Rightarrow> ReportLocalWaypointMessage \<Rightarrow> ReportLocalWaypointMessage" where
  "reportLocalWaypoint_withData m0 m =
     onlyIf (bit (reportLocalWaypoint_presenceVector m) (nat JAUS_LOCAL_WAYPOINT_PV_YAW_BIT))
       (\<lambda>x. x\<lparr>reportLocalWaypoint_yawRadians := jausShortToDouble (the (jausShortFromDouble (reportLocalWaypoint_yawRadians m) (- JAUS_PI) JAUS_PI)) (- JAUS_PI) JAUS_PI\<rparr>)
       (onlyIf (bit (reportLocalWaypoint_presenceVector m) (nat JAUS_LOCAL_WAYPOINT_PV_PITCH_BIT))
       (\<lambda>x. x\<lparr>reportLocalWaypoint_pitchRadians := jausShortToDouble (the (jausShortFromDouble (reportLocalWaypoint_pitchRadians m) (- JAUS_PI) JAUS_PI)) (- JAUS_PI) JAUS_PI\<rparr>)
       (onlyIf (bit (reportLocalWaypoint_presenceVector m) (nat JAUS_LOCAL_WAYPOINT_PV_ROLL_BIT))
       (\<lambda>x. x\<lparr>reportLocalWaypoint_rollRadians := jausShortToDouble (the (jausShortFromDouble (reportLocalWaypoint_rollRadians m) (- JAUS_PI) JAUS_PI)) (- JAUS_PI) JAUS_PI\<rparr>)
       (onlyIf (bit (reportLocalWaypoint_presenceVector m) (nat JAUS_LOCAL_WAYPOINT_PV_Z_BIT))
       (\<lambda>x. x\<lparr>reportLocalWaypoint_zM := jausIntegerToDouble (the (jausIntegerFromDouble (reportLocalWaypoint_zM m) (- 10000) 35000)) (- 10000) 35000\<rparr>)
       (m0\<lparr>reportLocalWaypoint_presenceVector := reportLocalWaypoint_presenceVector m,
        reportLocalWaypoint_waypointNumber := reportLocalWaypoint_waypointNumber m,
        reportLocalWaypoint_xM := jausIntegerToDouble (the (jausIntegerFromDouble (reportLocalWaypoint_xM m) (- 100000) 100000)) (- 100000) 100000,
        reportLocalWaypoint_yM := jausIntegerToDouble (the (jausIntegerFromDouble (reportLocalWaypoint_yM m) (- 100000) 100000)) (- 100000) 100000\<rparr>))))"

lemma reportLocalWaypoint_size: "reportLocalWaypoint_dataSize m = of_nat (length (reportLocalWaypoint_enc m))"
  by (simp add: reportLocalWaypoint_dataSize_def reportLocalWaypoint_enc_def codec_simps length_if of_nat_if)

lemma reportLocalWaypoint_small: "length (reportLocalWaypoint_enc m) < 4096"
  unfolding reportLocalWaypoint_enc_def by (rule enc_small, (rule length_bounds)+, simp)

lemma reportLocalWaypoint_to:
  assumes "off + length (reportLocalWaypoint_enc m) \<le> length buf" "length (reportLocalWaypoint_enc m) \<le> unat n"
  shows "reportLocalWaypoint_dataToBuffer m buf off n =
    Some (length (reportLocalWaypoint_enc m), take off buf @ reportLocalWaypoint_enc m @ drop (off + length (reportLocalWaypoint_enc m)) buf)"
  unfolding reportLocalWaypoint_dataToBuffer_def
  by (rule to_lawI [OF _ reportLocalWaypoint_size assms], unfold reportLocalWaypoint_enc_def,
      (rule writes_intros refl | rule writes_Cons | (rule FromDouble_total, simp)
        | simp add: codec_simps)+)

lemma reportLocalWaypoint_from:
  assumes "dataSize m0 = reportLocalWaypoint_dataSize m"
  shows "reportLocalWaypoint_dataFromBuffer m0 (pre @ reportLocalWaypoint_enc m @ post) (length pre) (reportLocalWaypoint_dataSize m) = Some (True, reportLocalWaypoint_withData m0 m)"
proof -
  have n: "unat (reportLocalWaypoint_dataSize m) = length (reportLocalWaypoint_enc m)"
    using reportLocalWaypoint_small [of m] by (simp add: reportLocalWaypoint_size unat_of_nat_lt)
  show ?thesis
    unfolding reportLocalWaypoint_dataFromBuffer_def reportLocalWaypoint_withData_def
    by (rule from_lawI [where D = "reportLocalWaypoint_enc m"], unfold reportLocalWaypoint_enc_def,
        (rule parses_intros refl n [unfolded reportLocalWaypoint_enc_def] assms [symmetric] | rule parses_Cons
          | simp add: codec_simps onlyIf_def if_distrib [of reportLocalWaypoint_presenceVector])+)
qed

interpretation reportLocalWaypoint: typed_message reportLocalWaypoint_dataSize reportLocalWaypoint_dataFromBuffer
  reportLocalWaypoint_dataToBuffer reportLocalWaypoint_enc reportLocalWaypoint_withData
  by unfold_locales (fact reportLocalWaypoint_size reportLocalWaypoint_small reportLocalWaypoint_to reportLocalWaypoint_from)+

section \<open>ReportPathSegmentCountMessage\<close>

record ReportPathSegmentCountMessage = JausHeader +
  reportPathSegmentCount_pathSegmentCount :: u16

definition reportPathSegmentCount_dataInitialize ::
    "ReportPathSegmentCountMessage \<Rightarrow> ReportPathSegmentCountMessage" where
  "reportPathSegmentCount_dataInitialize m =
     m\<lparr>reportPathSegmentCount_pathSegmentCount := newJausUnsignedShort 0\<rparr>"

definition reportPathSegmentCount_dataSize :: "ReportPathSegmentCountMessage \<Rightarrow> u32" where
  "reportPathSegmentCount_dataSize m =
     2"

definition reportPathSegmentCount_dataFromBuffer ::
    "ReportPathSegmentCountMessage \<Rightarrow> bytes \<Rightarrow> nat \<Rightarrow> u32 \<Rightarrow> (bool \<times> ReportPathSegmentCountMessage) exec" where
  "reportPathSegmentCount_dataFromBuffer m buffer off n =
     (if n = dataSize m then finishR (runStmts
        [getUShort (\<lambda>v m. m\<lparr>reportPathSegmentCount_pathSegmentCount := v\<rparr>) buffer off n] (0, m))
      else Some (False, m))"

definition reportPathSegmentCount_dataToBuffer ::
    "ReportPathSegmentCountMessage \<Rightarrow> bytes \<Rightarrow> nat \<Rightarrow> u32 \<Rightarrow> (nat \<times> bytes) exec" where
  "reportPathSegmentCount_dataToBuffer m buffer off n =
     (if reportPathSegmentCount_dataSize m \<le> n then finishW (runStmts
        [putUShort (Some (reportPathSegmentCount_pathSegmentCount m)) off n] (0, buffer))
      else Some (0, buffer))"

definition reportPathSegmentCountMessageCreate :: ReportPathSegmentCountMessage where
  "reportPathSegmentCountMessageCreate =
     (reportPathSegmentCount_dataInitialize (JausHeader.extend (blankHeader JAUS_REPORT_PATH_SEGMENT_COUNT 2)
        (ReportPathSegmentCountMessage.fields 0)))"

definition reportPathSegmentCountMessageFromBuffer ::
    "ReportPathSegmentCountMessage \<Rightarrow> bytes \<Rightarrow> u32 \<Rightarrow> (bool \<times> ReportPathSegmentCountMessage) exec" where
  "reportPathSegmentCountMessageFromBuffer =
     messageFromBuffer reportPathSegmentCount_dataFromBuffer"

definition reportPathSegmentCountMessageSize :: "ReportPathSegmentCountMessage \<Rightarrow> u32" where
  "reportPathSegmentCountMessageSize = messageSize reportPathSegmentCount_dataSize"

definition reportPathSegmentCountMessageToBuffer ::
    "ReportPathSegmentCountMessage \<Rightarrow> bytes \<Rightarrow> u32 \<Rightarrow> (bool \<times> ReportPathSegmentCountMessage \<times> bytes) exec" where
  "reportPathSegmentCountMessageToBuffer =
     messageToBuffer reportPathSegmentCount_dataSize reportPathSegmentCount_dataToBuffer"

definition reportPathSegmentCountMessageFromJausMessage ::
    "ReportPathSegmentCountMessage \<Rightarrow> JausMessage \<Rightarrow> ReportPathSegmentCountMessage option exec" where
  "reportPathSegmentCountMessageFromJausMessage =
     messageFromJausMessage JAUS_REPORT_PATH_SEGMENT_COUNT reportPathSegmentCount_dataFromBuffer"

definition reportPathSegmentCountMessageToJausMessage ::
    "ReportPathSegmentCountMessage \<Rightarrow> JausMessage exec" where
  "reportPathSegmentCountMessageToJausMessage =
     messageToJausMessage reportPathSegmentCount_dataSize reportPathSegmentCount_dataToBuffer"

definition reportPathSegmentCount_enc :: "ReportPathSegmentCountMessage \<Rightarrow> bytes" where
  "reportPathSegmentCount_enc m =
     bytesOfWord 2 (reportPathSegmentCount_pathSegmentCount m)"

definition reportPathSegmentCount_withData :: "ReportPathSegmentCountMessage \<Rightarrow> ReportPathSegmentCountMessage \<Rightarrow> ReportPathSegmentCountMessage" where
  "reportPathSegmentCount_withData m0 m =
     m0\<lparr>reportPathSegmentCount_pathSegmentCount := reportPathSegmentCount_pathSegmentCount m\<rparr>"

lemma reportPathSegmentCount_size: "reportPathSegmentCount_dataSize m = of_nat (length (reportPathSegmentCount_enc m))"
  by (simp add: reportPathSegmentCount_dataSize_def reportPathSegmentCount_enc_def)

lemma reportPathSegmentCount_small: "length (reportPathSegmentCount_enc m) < 4096"
  unfolding reportPathSegmentCount_enc_def by (rule enc_small, (rule length_bounds)+, simp)

lemma reportPathSegmentCount_to:
  assumes "off + length (reportPathSegmentCount_enc m) \<le> length buf" "length (reportPathSegmentCount_enc m) \<le> unat n"
  shows "reportPathSegmentCount_dataToBuffer m buf off n =
    Some (length (reportPathSegmentCount_enc m), take off buf @ reportPathSegmentCount_enc m @ drop (off + length (reportPathSegmentCount_enc m)) buf)"
  unfolding reportPathSegmentCount_dataToBuffer_def
  by (rule to_lawI [OF _ reportPathSegmentCount_size assms], unfold reportPathSegmentCount_enc_def,
      (rule writes_intros refl | rule writes_Cons | (rule FromDouble_total, simp)
        | simp add: codec_simps)+)

lemma reportPathSegmentCount_from:
  assumes "dataSize m0 = reportPathSegmentCount_dataSize m"
  shows "reportPathSegmentCount_dataFromBuffer m0 (pre @ reportPathSegmentCount_enc m @ post) (length pre) (reportPathSegmentCount_dataSize m) = Some (True, reportPathSegmentCount_withData m0 m)"
proof -
  have n: "unat (reportPathSegmentCount_dataSize m) = length (reportPathSegmentCount_enc m)"
    using reportPathSegmentCount_small [of m] by (simp add: reportPathSegmentCount_size unat_of_nat_lt)
  show ?thesis
    unfolding reportPathSegmentCount_dataFromBuffer_def reportPathSegmentCount_withData_def
    by (rule from_lawI [where D = "reportPathSegmentCount_enc m"], unfold reportPathSegmentCount_enc_def,
        (rule parses_intros refl n [unfolded reportPathSegmentCount_enc_def] assms [symmetric] | rule parses_Cons
          | simp add: codec_simps)+)
qed

interpretation reportPathSegmentCount: typed_message reportPathSegmentCount_dataSize reportPathSegmentCount_dataFromBuffer
  reportPathSegmentCount_dataToBuffer reportPathSegmentCount_enc reportPathSegmentCount_withData
  by unfold_locales (fact reportPathSegmentCount_size reportPathSegmentCount_small reportPathSegmentCount_to reportPathSegmentCount_from)+

section \<open>ReportPlatformOperationalDataMessage\<close>

record ReportPlatformOperationalDataMessage = JausHeader +
  reportPlatformOperationalData_presenceVector :: u8
  reportPlatformOperationalData_engineTemperatureCelsius :: real
  reportPlatformOperationalData_odometerMeters :: u32
  reportPlatformOperationalData_batteryVoltagePercent :: real
  reportPlatformOperationalData_fuelLevelPercent :: real
  reportPlatformOperationalData_oilPressurePercent :: real

definition reportPlatformOperationalData_dataInitialize ::
    "ReportPlatformOperationalDataMessage \<Rightarrow> ReportPlatformOperationalDataMessage" where
  "reportPlatformOperationalData_dataInitialize m =
     m\<lparr>reportPlatformOperationalData_presenceVector := newJausByte JAUS_BYTE_PRESENCE_VECTOR_ALL_ON,
        reportPlatformOperationalData_engineTemperatureCelsius := 0,
        reportPlatformOperationalData_odometerMeters := newJausUnsignedInteger 0,
        reportPlatformOperationalData_batteryVoltagePercent := 0,
        reportPlatformOperationalData_fuelLevelPercent := 0,
        reportPlatformOperationalData_oilPressurePercent := 0\<rparr>"

definition reportPlatformOperationalData_dataSize :: "ReportPlatformOperationalDataMessage \<Rightarrow> u32" where
  "reportPlatformOperationalData_dataSize m =
     (1 +
      (if jausByteIsBitSet (reportPlatformOperationalData_presenceVector m) JAUS_OPERATIONAL_PV_ENGINE_BIT = Some True then 2 else 0) +
      (if jausByteIsBitSet (reportPlatformOperationalData_presenceVector m) JAUS_OPERATIONAL_PV_ODOMETER_BIT = Some True then 4 else 0) +
      (if jausByteIsBitSet (reportPlatformOperationalData_presenceVector m) JAUS_OPERATIONAL_PV_BATTERY_BIT = Some True then 1 else 0) +
      (if jausByteIsBitSet (reportPlatformOperationalData_presenceVector m) JAUS_OPERATIONAL_PV_FUEL_BIT = Some True then 1 else 0) +
      (if jausByteIsBitSet (reportPlatformOperationalData_presenceVector m) JAUS_OPERATIONAL_PV_OIL_BIT = Some True then 1 else 0))"

definition reportPlatformOperationalData_dataFromBuffer ::
    "ReportPlatformOperationalDataMessage \<Rightarrow> bytes \<Rightarrow> nat \<Rightarrow> u32 \<Rightarrow> (bool \<times> ReportPlatformOperationalDataMessage) exec" where
  "reportPlatformOperationalData_dataFromBuffer m buffer off n =
     (if n = dataSize m then finishR (runStmts
        [getByte (\<lambda>v m. m\<lparr>reportPlatformOperationalData_presenceVector := v\<rparr>) buffer off n,
         whenS (\<lambda>(i, m). jausByteIsBitSet (reportPlatformOperationalData_presenceVector m) JAUS_OPERATIONAL_PV_ENGINE_BIT)
           [getShort (\<lambda>v m. m\<lparr>reportPlatformOperationalData_engineTemperatureCelsius := jausShortToDouble v (- 75) 180\<rparr>) buffer off n],
         whenS (\<lambda>(i, m). jausByteIsBitSet (reportPlatformOperationalData_presenceVector m) JAUS_OPERATIONAL_PV_ODOMETER_BIT)
           [getUInteger (\<lambda>v m. m\<lparr>reportPlatformOperationalData_odometerMeters := v\<rparr>) buffer off n],
         whenS (\<lambda>(i, m). jausByteIsBitSet (reportPlatformOperationalData_presenceVector m) JAUS_OPERATIONAL_PV_BATTERY_BIT)
           [getByte (\<lambda>v m. m\<lparr>reportPlatformOperationalData_batteryVoltagePercent := jausByteToDouble v 0 127\<rparr>) buffer off n],
         whenS (\<lambda>(i, m). jausByteIsBitSet (reportPlatformOperationalData_presenceVector m) JAUS_OPERATIONAL_PV_FUEL_BIT)
           [getByte (\<lambda>v m. m\<lparr>reportPlatformOperationalData_fuelLevelPercent := jausByteToDouble v 0 100\<rparr>) buffer off n],
         whenS (\<lambda>(i, m). jausByteIsBitSet (reportPlatformOperationalData_presenceVector m) JAUS_OPERATIONAL_PV_OIL_BIT)
           [getByte (\<lambda>v m. m\<lparr>reportPlatformOperationalData_oilPressurePercent := jausByteToDouble v 0 127\<rparr>) buffer off n]] (0, m))
      else Some (False, m))"

definition reportPlatformOperationalData_dataToBuffer ::
    "ReportPlatformOperationalDataMessage \<Rightarrow> bytes \<Rightarrow> nat \<Rightarrow> u32 \<Rightarrow> (nat \<times> bytes) exec" where
  "reportPlatformOperationalData_dataToBuffer m buffer off n =
     (if reportPlatformOperationalData_dataSize m \<le> n then finishW (runStmts
        [putByte (Some (reportPlatformOperationalData_presenceVector m)) off n,
         whenS (\<lambda>_. jausByteIsBitSet (reportPlatformOperationalData_presenceVector m) JAUS_OPERATIONAL_PV_ENGINE_BIT)
           [putShort (jausShortFromDouble (reportPlatformOperationalData_engineTemperatureCelsius m) (- 75) 180) off n],
         whenS (\<lambda>_. jausByteIsBitSet (reportPlatformOperationalData_presenceVector m) JAUS_OPERATIONAL_PV_ODOMETER_BIT)
           [putUInteger (Some (reportPlatformOperationalData_odometerMeters m)) off n],
         whenS (\<lambda>_. jausByteIsBitSet (reportPlatformOperationalData_presenceVector m) JAUS_OPERATIONAL_PV_BATTERY_BIT)
           [putByte (jausByteFromDouble (reportPlatformOperationalData_batteryVoltagePercent m) 0 127) off n],
         whenS (\<lambda>_. jausByteIsBitSet (reportPlatformOperationalData_presenceVector m) JAUS_OPERATIONAL_PV_FUEL_BIT)
           [putByte (jausByteFromDouble (reportPlatformOperationalData_fuelLevelPercent m) 0 100) off n],
         whenS (\<lambda>_. jausByteIsBitSet (reportPlatformOperationalData_presenceVector m) JAUS_OPERATIONAL_PV_OIL_BIT)
           [putByte (jausByteFromDouble (reportPlatformOperationalData_oilPressurePercent m) 0 127) off n]] (0, buffer))
      else Some (0, buffer))"

definition reportPlatformOperationalDataMessageCreate :: ReportPlatformOperationalDataMessage where
  "reportPlatformOperationalDataMessageCreate =
     (let m = reportPlatformOperationalData_dataInitialize (JausHeader.extend (blankHeader JAUS_REPORT_PLATFORM_OPERATIONAL_DATA 10)
        (ReportPlatformOperationalDataMessage.fields 0 0 0 0 0 0))
      in m\<lparr>dataSize := reportPlatformOperationalData_dataSize m\<rparr>)"

definition reportPlatformOperationalDataMessageFromBuffer ::
    "ReportPlatformOperationalDataMessage \<Rightarrow> bytes \<Rightarrow> u32 \<Rightarrow> (bool \<times> ReportPlatformOperationalDataMessage) exec" where
  "reportPlatformOperationalDataMessageFromBuffer =
     messageFromBuffer reportPlatformOperationalData_dataFromBuffer"

definition reportPlatformOperationalDataMessageSize :: "ReportPlatformOperationalDataMessage \<Rightarrow> u32" where
  "reportPlatformOperationalDataMessageSize = messageSize reportPlatformOperationalData_dataSize"

definition reportPlatformOperationalDataMessageToBuffer ::
    "ReportPlatformOperationalDataMessage \<Rightarrow> bytes \<Rightarrow> u32 \<Rightarrow> (bool \<times> ReportPlatformOperationalDataMessage \<times> bytes) exec" where
  "reportPlatformOperationalDataMessageToBuffer =
     messageToBuffer reportPlatformOperationalData_dataSize reportPlatformOperationalData_dataToBuffer"

definition reportPlatformOperationalDataMessageFromJausMessage ::
    "ReportPlatformOperationalDataMessage \<Rightarrow> JausMessage \<Rightarrow> ReportPlatformOperationalDataMessage option exec" where
  "reportPlatformOperationalDataMessageFromJausMessage =
     messageFromJausMessage JAUS_REPORT_PLATFORM_OPERATIONAL_DATA reportPlatformOperationalData_dataFromBuffer"

definition reportPlatformOperationalDataMessageToJausMessage ::
    "ReportPlatformOperationalDataMessage \<Rightarrow> JausMessage exec" where
  "reportPlatformOperationalDataMessageToJausMessage =
     messageToJausMessage reportPlatformOperationalData_dataSize reportPlatformOperationalData_dataToBuffer"

definition reportPlatformOperationalData_enc :: "ReportPlatformOperationalDataMessage \<Rightarrow> bytes" where
  "reportPlatformOperationalData_enc m =
     [reportPlatformOperationalData_presenceVector m] @
     (if bit (reportPlatformOperationalData_presenceVector m) (nat JAUS_OPERATIONAL_PV_ENGINE_BIT) then bytesOfWord 2 (the (jausShortFromDouble (reportPlatformOperationalData_engineTemperatureCelsius m) (- 75) 180)) else []) @
     (if bit (reportPlatformOperationalData_presenceVector m) (nat JAUS_OPERATIONAL_PV_ODOMETER_BIT) then bytesOfWord 4 (reportPlatformOperationalData_odometerMeters m) else []) @
     (if bit (reportPlatformOperationalData_presenceVector m) (nat JAUS_OPERATIONAL_PV_BATTERY_BIT) then [the (jausByteFromDouble (reportPlatformOperationalData_batteryVoltagePercent m) 0 127)] else []) @
     (if bit (reportPlatformOperationalData_presenceVector m) (nat JAUS_OPERATIONAL_PV_FUEL_BIT) then [the (jausByteFromDouble (reportPlatformOperationalData_fuelLevelPercent m) 0 100)] else []) @
     (if bit (reportPlatformOperationalData_presenceVector m) (nat JAUS_OPERATIONAL_PV_OIL_BIT) then [the (jausByteFromDouble (reportPlatformOperationalData_oilPressurePercent m) 0 127)] else [])"

definition reportPlatformOperationalData_withData :: "ReportPlatformOperationalDataMessage \<Rightarrow> ReportPlatformOperationalDataMessage \<Rightarrow> ReportPlatformOperationalDataMessage" where
  "reportPlatformOperationalData_withData m0 m =
     onlyIf (bit (reportPlatformOperationalData_presenceVector m) (nat JAUS_OPERATIONAL_PV_OIL_BIT))
       (\<lambda>x. x\<lparr>reportPlatformOperationalData_oilPressurePercent := jausByteToDouble (the (jausByteFromDouble (reportPlatformOperationalData_oilPressurePercent m) 0 127)) 0 127\<rparr>)
       (onlyIf (bit (reportPlatformOperationalData_presenceVector m) (nat JAUS_OPERATIONAL_PV_FUEL_BIT))
       (\<lambda>x. x\<lparr>reportPlatformOperationalData_fuelLevelPercent := jausByteToDouble (the (jausByteFromDouble (reportPlatformOperationalData_fuelLevelPercent m) 0 100)) 0 100\<rparr>)
       (onlyIf (bit (reportPlatformOperationalData_presenceVector m) (nat JAUS_OPERATIONAL_PV_BATTERY_BIT))
       (\<lambda>x. x\<lparr>reportPlatformOperationalData_batteryVoltagePercent := jausByteToDouble (the (jausByteFromDouble (reportPlatformOperationalData_batteryVoltagePercent m) 0 127)) 0 127\<rparr>)
       (onlyIf (bit (reportPlatformOperationalData_presenceVector m) (nat JAUS_OPERATIONAL_PV_ODOMETER_BIT))
       (\<lambda>x. x\<lparr>reportPlatformOperationalData_odometerMeters := reportPlatformOperationalData_odometerMeters m\<rparr>)
       (onlyIf (bit (reportPlatformOperationalData_presenceVector m) (nat JAUS_OPERATIONAL_PV_ENGINE_BIT))
       (\<lambda>x. x\<lparr>reportPlatformOperationalData_engineTemperatureCelsius := jausShortToDouble (the (jausShortFromDouble (reportPlatformOperationalData_engineTemperatureCelsius m) (- 75) 180)) (- 75) 180\<rparr>)
       (m0\<lparr>reportPlatformOperationalData_presenceVector := reportPlatformOperationalData_presenceVector m\<rparr>)))))"

lemma reportPlatformOperationalData_size: "reportPlatformOperationalData_dataSize m = of_nat (length (reportPlatformOperationalData_enc m))"
  by (simp add: reportPlatformOperationalData_dataSize_def reportPlatformOperationalData_enc_def codec_simps length_if of_nat_if)

lemma reportPlatformOperationalData_small: "length (reportPlatformOperationalData_enc m) < 4096"
  unfolding reportPlatformOperationalData_enc_def by (rule enc_small, (rule length_bounds)+, simp)

lemma reportPlatformOperationalData_to:
  assumes "off + length (reportPlatformOperationalData_enc m) \<le> length buf" "length (reportPlatformOperationalData_enc m) \<le> unat n"
  shows "reportPlatformOperationalData_dataToBuffer m buf off n =
    Some (length (reportPlatformOperationalData_enc m), take off buf @ reportPlatformOperationalData_enc m @ drop (off + length (reportPlatformOperationalData_enc m)) buf)"
  unfolding reportPlatformOperationalData_dataToBuffer_def
  by (rule to_lawI [OF _ reportPlatformOperationalData_size assms], unfold reportPlatformOperationalData_enc_def,
      (rule writes_intros refl | rule writes_Cons | (rule FromDouble_total, simp)
        | simp add: codec_simps)+)

lemma reportPlatformOperationalData_from:
  assumes "dataSize m0 = reportPlatformOperationalData_dataSize m"
  shows "reportPlatformOperationalData_dataFromBuffer m0 (pre @ reportPlatformOperationalData_enc m @ post) (length pre) (reportPlatformOperationalData_dataSize m) = Some (True, reportPlatformOperationalData_withData m0 m)"
proof -
  have n: "unat (reportPlatformOperationalData_dataSize m) = length (reportPlatformOperationalData_enc m)"
    using reportPlatformOperationalData_small [of m] by (simp add: reportPlatformOperationalData_size unat_of_nat_lt)
  show ?thesis
    unfolding reportPlatformOperationalData_dataFromBuffer_def reportPlatformOperationalData_withData_def
    by (rule from_lawI [where D = "reportPlatformOperationalData_enc m"], unfold reportPlatformOperationalData_enc_def,
        (rule parses_intros refl n [unfolded reportPlatformOperationalData_enc_def] assms [symmetric] | rule parses_Cons
          | simp add: codec_simps onlyIf_def if_distrib [of reportPlatformOperationalData_presenceVector])+)
qed

interpretation reportPlatformOperationalData: typed_message reportPlatformOperationalData_dataSize reportPlatformOperationalData_dataFromBuffer
  reportPlatformOperationalData_dataToBuffer reportPlatformOperationalData_enc reportPlatformOperationalData_withData
  by unfold_locales (fact reportPlatformOperationalData_size reportPlatformOperationalData_small reportPlatformOperationalData_to reportPlatformOperationalData_from)+

section \<open>ReportTravelSpeedMessage\<close>

record ReportTravelSpeedMessage = JausHeader +
  reportTravelSpeed_speedMps :: real

definition reportTravelSpeed_dataInitialize ::
    "ReportTravelSpeedMessage \<Rightarrow> ReportTravelSpeedMessage" where
  "reportTravelSpeed_dataInitialize m =
     m\<lparr>reportTravelSpeed_speedMps := 0\<rparr>"

definition reportTravelSpeed_dataSize :: "ReportTravelSpeedMessage \<Rightarrow> u32" where
  "reportTravelSpeed_dataSize m =
     2"

definition reportTravelSpeed_dataFromBuffer ::
    "ReportTravelSpeedMessage \<Rightarrow> bytes \<Rightarrow> nat \<Rightarrow> u32 \<Rightarrow> (bool \<times> ReportTravelSpeedMessage) exec" where
  "reportTravelSpeed_dataFromBuffer m buffer off n =
     (if n = dataSize m then finishR (runStmts
        [getUShort (\<lambda>v m. m\<lparr>reportTravelSpeed_speedMps := jausUnsignedShortToDouble v 0 10000\<rparr>) buffer off n] (0, m))
      else Some (False, m))"

definition reportTravelSpeed_dataToBuffer ::
    "ReportTravelSpeedMessage \<Rightarrow> bytes \<Rightarrow> nat \<Rightarrow> u32 \<Rightarrow> (nat \<times> bytes) exec" where
  "reportTravelSpeed_dataToBuffer m buffer off n =
     (if reportTravelSpeed_dataSize m \<le> n then finishW (runStmts
        [putUShort (jausUnsignedShortFromDouble (reportTravelSpeed_speedMps m) 0 10000) off n] (0, buffer))
      else Some (0, buffer))"

definition reportTravelSpeedMessageCreate :: ReportTravelSpeedMessage where
  "reportTravelSpeedMessageCreate =
     (reportTravelSpeed_dataInitialize (JausHeader.extend (blankHeader JAUS_REPORT_TRAVEL_SPEED 2)
        (ReportTravelSpeedMessage.fields 0)))"

definition reportTravelSpeedMessageFromBuffer ::
    "ReportTravelSpeedMessage \<Rightarrow> bytes \<Rightarrow> u32 \<Rightarrow> (bool \<times> ReportTravelSpeedMessage) exec" where
  "reportTravelSpeedMessageFromBuffer =
     messageFromBuffer reportTravelSpeed_dataFromBuffer"

definition reportTravelSpeedMessageSize :: "ReportTravelSpeedMessage \<Rightarrow> u32" where
  "reportTravelSpeedMessageSize = messageSize reportTravelSpeed_dataSize"

definition reportTravelSpeedMessageToBuffer ::
    "ReportTravelSpeedMessage \<Rightarrow> bytes \<Rightarrow> u32 \<Rightarrow> (bool \<times> ReportTravelSpeedMessage \<times> bytes) exec" where
  "reportTravelSpeedMessageToBuffer =
     messageToBuffer reportTravelSpeed_dataSize reportTravelSpeed_dataToBuffer"

definition reportTravelSpeedMessageFromJausMessage ::
    "ReportTravelSpeedMessage \<Rightarrow> JausMessage \<Rightarrow> ReportTravelSpeedMessage option exec" where
  "reportTravelSpeedMessageFromJausMessage =
     messageFromJausMessage JAUS_REPORT_TRAVEL_SPEED reportTravelSpeed_dataFromBuffer"

definition reportTravelSpeedMessageToJausMessage ::
    "ReportTravelSpeedMessage \<Rightarrow> JausMessage exec" where
  "reportTravelSpeedMessageToJausMessage =
     messageToJausMessage reportTravelSpeed_dataSize reportTravelSpeed_dataToBuffer"

definition reportTravelSpeed_enc :: "ReportTravelSpeedMessage \<Rightarrow> bytes" where
  "reportTravelSpeed_enc m =
     bytesOfWord 2 (the (jausUnsignedShortFromDouble (reportTravelSpeed_speedMps m) 0 10000))"

definition reportTravelSpeed_withData :: "ReportTravelSpeedMessage \<Rightarrow> ReportTravelSpeedMessage \<Rightarrow> ReportTravelSpeedMessage" where
  "reportTravelSpeed_withData m0 m =
     m0\<lparr>reportTravelSpeed_speedMps := jausUnsignedShortToDouble (the (jausUnsignedShortFromDouble (reportTravelSpeed_speedMps m) 0 10000)) 0 10000\<rparr>"

lemma reportTravelSpeed_size: "reportTravelSpeed_dataSize m = of_nat (length (reportTravelSpeed_enc m))"
  by (simp add: reportTravelSpeed_dataSize_def reportTravelSpeed_enc_def)

lemma reportTravelSpeed_small: "length (reportTravelSpeed_enc m) < 4096"
  unfolding reportTravelSpeed_enc_def by (rule enc_small, (rule length_bounds)+, simp)

lemma reportTravelSpeed_to:
  assumes "off + length (reportTravelSpeed_enc m) \<le> length buf" "length (reportTravelSpeed_enc m) \<le> unat n"
  shows "reportTravelSpeed_dataToBuffer m buf off n =
    Some (length (reportTravelSpeed_enc m), take off buf @ reportTravelSpeed_enc m @ drop (off + length (reportTravelSpeed_enc m)) buf)"
  unfolding reportTravelSpeed_dataToBuffer_def
  by (rule to_lawI [OF _ reportTravelSpeed_size assms], unfold reportTravelSpeed_enc_def,
      (rule writes_intros refl | rule writes_Cons | (rule FromDouble_total, simp)
        | simp add: codec_simps)+)

lemma reportTravelSpeed_from:
  assumes "dataSize m0 = reportTravelSpeed_dataSize m"
  shows "reportTravelSpeed_dataFromBuffer m0 (pre @ reportTravelSpeed_enc m @ post) (length pre) (reportTravelSpeed_dataSize m) = Some (True, reportTravelSpeed_withData m0 m)"
proof -
  have n: "unat (reportTravelSpeed_dataSize m) = length (reportTravelSpeed_enc m)"
    using reportTravelSpeed_small [of m] by (simp add: reportTravelSpeed_size unat_of_nat_lt)
  show ?thesis
    unfolding reportTravelSpeed_dataFromBuffer_def reportTravelSpeed_withData_def
    by (rule from_lawI [where D = "reportTravelSpeed_enc m"], unfold reportTravelSpeed_enc_def,
        (rule parses_intros refl n [unfolded reportTravelSpeed_enc_def] assms [symmetric] | rule parses_Cons
          | simp add: codec_simps)+)
qed

interpretation reportTravelSpeed: typed_message reportTravelSpeed_dataSize reportTravelSpeed_dataFromBuffer
  reportTravelSpeed_dataToBuffer reportTravelSpeed_enc reportTravelSpeed_withData
  by unfold_locales (fact reportTravelSpeed_size reportTravelSpeed_small reportTravelSpeed_to reportTravelSpeed_from)+

section \<open>ReportWaypointCountMessage\<close>

record ReportWaypointCountMessage = JausHeader +
  reportWaypointCount_waypointCount :: u16

definition reportWaypointCount_dataInitialize ::
    "ReportWaypointCountMessage \<Rightarrow> ReportWaypointCountMessage" where
  "reportWaypointCount_dataInitialize m =
     m\<lparr>reportWaypointCount_waypointCount := newJausUnsignedShort 0\<rparr>"

definition reportWaypointCount_dataSize :: "ReportWaypointCountMessage \<Rightarrow> u32" where
  "reportWaypointCount_dataSize m =
     2"

definition reportWaypointCount_dataFromBuffer ::
    "ReportWaypointCountMessage \<Rightarrow> bytes \<Rightarrow> nat \<Rightarrow> u32 \<Rightarrow> (bool \<times> ReportWaypointCountMessage) exec" where
  "reportWaypointCount_dataFromBuffer m buffer off n =
     (if n = dataSize m then finishR (runStmts
        [getUShort (\<lambda>v m. m\<lparr>reportWaypointCount_waypointCount := v\<rparr>) buffer off n] (0, m))
      else Some (False, m))"

definition reportWaypointCount_dataToBuffer ::
    "ReportWaypointCountMessage \<Rightarrow> bytes \<Rightarrow> nat \<Rightarrow> u32 \<Rightarrow> (nat \<times> bytes) exec" where
  "reportWaypointCount_dataToBuffer m buffer off n =
     (if reportWaypointCount_dataSize m \<le> n then finishW (runStmts
        [putUShort (Some (reportWaypointCount_waypointCount m)) off n] (0, buffer))
      else Some (0, buffer))"

definition reportWaypointCountMessageCreate :: ReportWaypointCountMessage where
  "reportWaypointCountMessageCreate =
     (reportWaypointCount_dataInitialize (JausHeader.extend (blankHeader JAUS_REPORT_WAYPOINT_COUNT 2)
        (ReportWaypointCountMessage.fields 0)))"

definition reportWaypointCountMessageFromBuffer ::
    "ReportWaypointCountMessage \<Rightarrow> bytes \<Rightarrow> u32 \<Rightarrow> (bool \<times> ReportWaypointCountMessage) exec" where
  "reportWaypointCountMessageFromBuffer =
     messageFromBuffer reportWaypointCount_dataFromBuffer"

definition reportWaypointCountMessageSize :: "ReportWaypointCountMessage \<Rightarrow> u32" where
  "reportWaypointCountMessageSize = messageSize reportWaypointCount_dataSize"

definition reportWaypointCountMessageToBuffer ::
    "ReportWaypointCountMessage \<Rightarrow> bytes \<Rightarrow> u32 \<Rightarrow> (bool \<times> ReportWaypointCountMessage \<times> bytes) exec" where
  "reportWaypointCountMessageToBuffer =
     messageToBuffer reportWaypointCount_dataSize reportWaypointCount_dataToBuffer"

definition reportWaypointCountMessageFromJausMessage ::
    "ReportWaypointCountMessage \<Rightarrow> JausMessage \<Rightarrow> ReportWaypointCountMessage option exec" where
  "reportWaypointCountMessageFromJausMessage =
     messageFromJausMessage JAUS_REPORT_WAYPOINT_COUNT reportWaypointCount_dataFromBuffer"

definition reportWaypointCountMessageToJausMessage ::
    "ReportWaypointCountMessage \<Rightarrow> JausMessage exec" where
  "reportWaypointCountMessageToJausMessage =
     messageToJausMessage reportWaypointCount_dataSize reportWaypointCount_dataToBuffer"

definition reportWaypointCount_enc :: "ReportWaypointCountMessage \<Rightarrow> bytes" where
  "reportWaypointCount_enc m =
     bytesOfWord 2 (reportWaypointCount_waypointCount m)"

definition reportWaypointCount_withData :: "ReportWaypointCountMessage \<Rightarrow> ReportWaypointCountMessage \<Rightarrow> ReportWaypointCountMessage" where
  "reportWaypointCount_withData m0 m =
     m0\<lparr>reportWaypointCount_waypointCount := reportWaypointCount_waypointCount m\<rparr>"

lemma reportWaypointCount_size: "reportWaypointCount_dataSize m = of_nat (length (reportWaypointCount_enc m))"
  by (simp add: reportWaypointCount_dataSize_def reportWaypointCount_enc_def)

lemma reportWaypointCount_small: "length (reportWaypointCount_enc m) < 4096"
  unfolding reportWaypointCount_enc_def by (rule enc_small, (rule length_bounds)+, simp)

lemma reportWaypointCount_to:
  assumes "off + length (reportWaypointCount_enc m) \<le> length buf" "length (reportWaypointCount_enc m) \<le> unat n"
  shows "reportWaypointCount_dataToBuffer m buf off n =
    Some (length (reportWaypointCount_enc m), take off buf @ reportWaypointCount_enc m @ drop (off + length (reportWaypointCount_enc m)) buf)"
  unfolding reportWaypointCount_dataToBuffer_def
  by (rule to_lawI [OF _ reportWaypointCount_size assms], unfold reportWaypointCount_enc_def,
      (rule writes_intros refl | rule writes_Cons | (rule FromDouble_total, simp)
        | simp add: codec_simps)+)

lemma reportWaypointCount_from:
  assumes "dataSize m0 = reportWaypointCount_dataSize m"
  shows "reportWaypointCount_dataFromBuffer m0 (pre @ reportWaypointCount_enc m @ post) (length pre) (reportWaypointCount_dataSize m) = Some (True, reportWaypointCount_withData m0 m)"
proof -
  have n: "unat (reportWaypointCount_dataSize m) = length (reportWaypointCount_enc m)"
    using reportWaypointCount_small [of m] by (simp add: reportWaypointCount_size unat_of_nat_lt)
  show ?thesis
    unfolding reportWaypointCount_dataFromBuffer_def reportWaypointCount_withData_def
    by (rule from_lawI [where D = "reportWaypointCount_enc m"], unfold reportWaypointCount_enc_def,
        (rule parses_intros refl n [unfolded reportWaypointCount_enc_def] assms [symmetric] | rule parses_Cons
          | simp add: codec_simps)+)
qed

interpretation reportWaypointCount: typed_message reportWaypointCount_dataSize reportWaypointCount_dataFromBuffer
  reportWaypointCount_dataToBuffer reportWaypointCount_enc reportWaypointCount_withData
  by unfold_locales (fact reportWaypointCount_size reportWaypointCount_small reportWaypointCount_to reportWaypointCount_from)+

section \<open>ReportWrenchEffortMessage\<close>

record ReportWrenchEffortMessage = JausHeader +
  reportWrenchEffort_presenceVector :: u16
  reportWrenchEffort_propulsiveLinearEffortXPercent :: real
  reportWrenchEffort_propulsiveLinearEffortYPercent :: real
  reportWrenchEffort_propulsiveLinearEffortZPercent :: real
  reportWrenchEffort_propulsiveRotationalEffortXPercent :: real
  reportWrenchEffort_propulsiveRotationalEffortZPercent :: real
  reportWrenchEffort_propulsiveRotationalEffortYPercent :: real
  reportWrenchEffort_resistiveLinearEffortXPercent :: real
  reportWrenchEffort_resistiveLinearEffortYPercent :: real
  reportWrenchEffort_resistiveLinearEffortZPercent :: real
  reportWrenchEffort_resistiveRotationalEffortXPercent :: real
  reportWrenchEffort_resistiveRotationalEffortZPercent :: real
  reportWrenchEffort_resistiveRotationalEffortYPercent :: real

definition reportWrenchEffort_dataInitialize ::
    "ReportWrenchEffortMessage \<Rightarrow> ReportWrenchEffortMessage" where
  "reportWrenchEffort_dataInitialize m =
     m\<lparr>reportWrenchEffort_presenceVector := newJausUnsignedShort JAUS_SHORT_PRESENCE_VECTOR_ALL_ON,
        reportWrenchEffort_propulsiveLinearEffortXPercent := 0,
        reportWrenchEffort_propulsiveLinearEffortYPercent := 0,
        reportWrenchEffort_propulsiveLinearEffortZPercent := 0,
        reportWrenchEffort_propulsiveRotationalEffortXPercent := 0,
        reportWrenchEffort_propulsiveRotationalEffortZPercent := 0,
        reportWrenchEffort_propulsiveRotationalEffortYPercent := 0,
        reportWrenchEffort_resistiveLinearEffortXPercent := 0,
        reportWrenchEffort_resistiveLinearEffortYPercent := 0,
        reportWrenchEffort_resistiveLinearEffortZPercent := 0,
        reportWrenchEffort_resistiveRotationalEffortXPercent := 0,
        reportWrenchEffort_resistiveRotationalEffortZPercent := 0,
        reportWrenchEffort_resistiveRotationalEffortYPercent := 0\<rparr>"

definition reportWrenchEffort_dataSize :: "ReportWrenchEffortMessage \<Rightarrow> u32" where
  "reportWrenchEffort_dataSize m =
     (2 +
      (if jausUnsignedShortIsBitSet (reportWrenchEffort_presenceVector m) JAUS_WRENCH_PV_PROPULSIVE_LINEAR_X_BIT = Some True then 2 else 0) +
      (if jausUnsignedShortIsBitSet (reportWrenchEffort_presenceVector m) JAUS_WRENCH_PV_PROPULSIVE_LINEAR_Y_BIT = Some True then 2 else 0) +
      (if jausUnsignedShortIsBitSet (reportWrenchEffort_presenceVector m) JAUS_WRENCH_PV_PROPULSIVE_LINEAR_Z_BIT = Some True then 2 else 0) +
      (if jausUnsignedShortIsBitSet (reportWrenchEffort_presenceVector m) JAUS_WRENCH_PV_PROPULSIVE_ROTATIONAL_X_BIT = Some True then 2 else 0) +
      (if jausUnsignedShortIsBitSet (reportWrenchEffort_presenceVector m) JAUS_WRENCH_PV_PROPULSIVE_ROTATIONAL_Y_BIT = Some True then 2 else 0) +
      (if jausUnsignedShortIsBitSet (reportWrenchEffort_presenceVector m) JAUS_WRENCH_PV_PROPULSIVE_ROTATIONAL_Z_BIT = Some True then 2 else 0) +
      (if jausUnsignedShortIsBitSet (reportWrenchEffort_presenceVector m) JAUS_WRENCH_PV_RESISTIVE_LINEAR_X_BIT = Some True then 1 else 0) +
      (if jausUnsignedShortIsBitSet (reportWrenchEffort_presenceVector m) JAUS_WRENCH_PV_RESISTIVE_LINEAR_Y_BIT = Some True then 1 else 0) +
      (if jausUnsignedShortIsBitSet (reportWrenchEffort_presenceVector m) JAUS_WRENCH_PV_RESISTIVE_LINEAR_Z_BIT = Some True then 1 else 0) +
      (if jausUnsignedShortIsBitSet (reportWrenchEffort_presenceVector m) JAUS_WRENCH_PV_RESISTIVE_ROTATIONAL_X_BIT = Some True then 1 else 0) +
      (if jausUnsignedShortIsBitSet (reportWrenchEffort_presenceVector m) JAUS_WRENCH_PV_RESISTIVE_ROTATIONAL_Y_BIT = Some True then 1 else 0) +
      (if jausUnsignedShortIsBitSet (reportWrenchEffort_presenceVector m) JAUS_WRENCH_PV_RESISTIVE_ROTATIONAL_Z_BIT = Some True then 1 else 0))"

definition reportWrenchEffort_dataFromBuffer ::
    "ReportWrenchEffortMessage \<Rightarrow> bytes \<Rightarrow> nat \<Rightarrow> u32 \<Rightarrow> (bool \<times> ReportWrenchEffortMessage) exec" where
  "reportWrenchEffort_dataFromBuffer m buffer off n =
     (if n = dataSize m then finishR (runStmts
        [getUShort (\<lambda>v m. m\<lparr>reportWrenchEffort_presenceVector := v\<rparr>) buffer off n,
         whenS (\<lambda>(i, m). jausUnsignedShortIsBitSet (reportWrenchEffort_presenceVector m) JAUS_WRENCH_PV_PROPULSIVE_LINEAR_X_BIT)
           [getShort (\<lambda>v m. m\<lparr>reportWrenchEffort_propulsiveLinearEffortXPercent := jausShortToDouble v (- 100) 100\<rparr>) buffer off n],
         whenS (\<lambda>(i, m). jausUnsignedShortIsBitSet (reportWrenchEffort_presenceVector m) JAUS_WRENCH_PV_PROPULSIVE_LINEAR_Y_BIT)
           [getShort (\<lambda>v m. m\<lparr>reportWrenchEffort_propulsiveLinearEffortYPercent := jausShortToDouble v (- 100) 100\<rparr>) buffer off n],
         whenS (\<lambda>(i, m). jausUnsignedShortIsBitSet (reportWrenchEffort_presenceVector m) JAUS_WRENCH_PV_PROPULSIVE_LINEAR_Z_BIT)
           [getShort (\<lambda>v m. m\<lparr>reportWrenchEffort_propulsiveLinearEffortZPercent := jausShortToDouble v (- 100) 100\<rparr>) buffer off n],
         whenS (\<lambda>(i, m). jausUnsignedShortIsBitSet (reportWrenchEffort_presenceVector m) JAUS_WRENCH_PV_PROPULSIVE_ROTATIONAL_X_BIT)
           [getShort (\<lambda>v m. m\<lparr>reportWrenchEffort_propulsiveRotationalEffortXPercent := jausShortToDouble v (- 100) 100\<rparr>) buffer off n],
         whenS (\<lambda>(i, m). jausUnsignedShortIsBitSet (reportWrenchEffort_presenceVector m) JAUS_WRENCH_PV_PROPULSIVE_ROTATIONAL_Y_BIT)
           [getShort (\<lambda>v m. m\<lparr>reportWrenchEffort_propulsiveRotationalEffortYPercent := jausShortToDouble v (- 100) 100\<rparr>) buffer off n],
         whenS (\<lambda>(i, m). jausUnsignedShortIsBitSet (reportWrenchEffort_presenceVector m) JAUS_WRENCH_PV_PROPULSIVE_ROTATIONAL_Z_BIT)
           [getShort (\<lambda>v m. m\<lparr>reportWrenchEffort_propulsiveRotationalEffortZPercent := jausShortToDouble v (- 100) 100\<rparr>) buffer off n],
         whenS (\<lambda>(i, m). jausUnsignedShortIsBitSet (reportWrenchEffort_presenceVector m) JAUS_WRENCH_PV_RESISTIVE_LINEAR_X_BIT)
           [getByte (\<lambda>v m. m\<lparr>reportWrenchEffort_resistiveLinearEffortXPercent := jausByteToDouble v 0 100\<rparr>) buffer off n],
         whenS (\<lambda>(i, m). jausUnsignedShortIsBitSet (reportWrenchEffort_presenceVector m) JAUS_WRENCH_PV_RESISTIVE_LINEAR_Y_BIT)
           [getByte (\<lambda>v m. m\<lparr>reportWrenchEffort_resistiveLinearEffortYPercent := jausByteToDouble v 0 100\<rparr>) buffer off n],
         whenS (\<lambda>(i, m). jausUnsignedShortIsBitSet (reportWrenchEffort_presenceVector m) JAUS_WRENCH_PV_RESISTIVE_LINEAR_Z_BIT)
           [getByte (\<lambda>v m. m\<lparr>reportWrenchEffort_resistiveLinearEffortZPercent := jausByteToDouble v 0 100\<rparr>) buffer off n],
         whenS (\<lambda>(i, m). jausUnsignedShortIsBitSet (reportWrenchEffort_presenceVector m) JAUS_WRENCH_PV_RESISTIVE_ROTATIONAL_X_BIT)
           [getByte (\<lambda>v m. m\<lparr>reportWrenchEffort_resistiveRotationalEffortXPercent := jausByteToDouble v 0 100\<rparr>) buffer off n],
         whenS (\<lambda>(i, m). jausUnsignedShortIsBitSet (reportWrenchEffort_presenceVector m) JAUS_WRENCH_PV_RESISTIVE_ROTATIONAL_Y_BIT)
           [getByte (\<lambda>v m. m\<lparr>reportWrenchEffort_resistiveRotationalEffortYPercent := jausByteToDouble v 0 100\<rparr>) buffer off n],
         whenS (\<lambda>(i, m). jausUnsignedShortIsBitSet (reportWrenchEffort_presenceVector m) JAUS_WRENCH_PV_RESISTIVE_ROTATIONAL_Z_BIT)
           [getByte (\<lambda>v m. m\<lparr>reportWrenchEffort_resistiveRotationalEffortZPercent := jausByteToDouble v 0 100\<rparr>) buffer off n]] (0, m))
      else Some (False, m))"

definition reportWrenchEffort_dataToBuffer ::
    "ReportWrenchEffortMessage \<Rightarrow> bytes \<Rightarrow> nat \<Rightarrow> u32 \<Rightarrow> (nat \<times> bytes) exec" where
  "reportWrenchEffort_dataToBuffer m buffer off n =
     (if reportWrenchEffort_dataSize m \<le> n then finishW (runStmts
        [putUShort (Some (reportWrenchEffort_presenceVector m)) off n,
         whenS (\<lambda>_. jausUnsignedShortIsBitSet (reportWrenchEffort_presenceVector m) JAUS_WRENCH_PV_PROPULSIVE_LINEAR_X_BIT)
           [putShort (jausShortFromDouble (reportWrenchEffort_propulsiveLinearEffortXPercent m) (- 100) 100) off n],
         whenS (\<lambda>_. jausUnsignedShortIsBitSet (reportWrenchEffort_presenceVector m) JAUS_WRENCH_PV_PROPULSIVE_LINEAR_Y_BIT)
           [putShort (jausShortFromDouble (reportWrenchEffort_propulsiveLinearEffortYPercent m) (- 100) 100) off n],
         whenS (\<lambda>_. jausUnsignedShortIsBitSet (reportWrenchEffort_presenceVector m) JAUS_WRENCH_PV_PROPULSIVE_LINEAR_Z_BIT)
           [putShort (jausShortFromDouble (reportWrenchEffort_propulsiveLinearEffortZPercent m) (- 100) 100) off n],
         whenS (\<lambda>_. jausUnsignedShortIsBitSet (reportWrenchEffort_presenceVector m) JAUS_WRENCH_PV_PROPULSIVE_ROTATIONAL_X_BIT)
           [putShort (jausShortFromDouble (reportWrenchEffort_propulsiveRotationalEffortXPercent m) (- 100) 100) off n],
         whenS (\<lambda>_. jausUnsignedShortIsBitSet (reportWrenchEffort_presenceVector m) JAUS_WRENCH_PV_PROPULSIVE_ROTATIONAL_Y_BIT)
           [putShort (jausShortFromDouble (reportWrenchEffort_propulsiveRotationalEffortYPercent m) (- 100) 100) off n],
         whenS (\<lambda>_. jausUnsignedShortIsBitSet (reportWrenchEffort_presenceVector m) JAUS_WRENCH_PV_PROPULSIVE_ROTATIONAL_Z_BIT)
           [putShort (jausShortFromDouble (reportWrenchEffort_propulsiveRotationalEffortZPercent m) (- 100) 100) off n],
         whenS (\<lambda>_. jausUnsignedShortIsBitSet (reportWrenchEffort_presenceVector m) JAUS_WRENCH_PV_RESISTIVE_LINEAR_X_BIT)
           [putByte (jausByteFromDouble (reportWrenchEffort_resistiveLinearEffortXPercent m) 0 100) off n],
         whenS (\<lambda>_. jausUnsignedShortIsBitSet (reportWrenchEffort_presenceVector m) JAUS_WRENCH_PV_RESISTIVE_LINEAR_Y_BIT)
           [putByte (jausByteFromDouble (reportWrenchEffort_resistiveLinearEffortYPercent m) 0 100) off n],
         whenS (\<lambda>_. jausUnsignedShortIsBitSet (reportWrenchEffort_presenceVector m) JAUS_WRENCH_PV_RESISTIVE_LINEAR_Z_BIT)
           [putByte (jausByteFromDouble (reportWrenchEffort_resistiveLinearEffortZPercent m) 0 100) off n],
         whenS (\<lambda>_. jausUnsignedShortIsBitSet (reportWrenchEffort_presenceVector m) JAUS_WRENCH_PV_RESISTIVE_ROTATIONAL_X_BIT)
           [putByte (jausByteFromDouble (reportWrenchEffort_resistiveRotationalEffortXPercent m) 0 100) off n],
         whenS (\<lambda>_. jausUnsignedShortIsBitSet (reportWrenchEffort_presenceVector m) JAUS_WRENCH_PV_RESISTIVE_ROTATIONAL_Y_BIT)
           [putByte (jausByteFromDouble (reportWrenchEffort_resistiveRotationalEffortYPercent m) 0 100) off n],
         whenS (\<lambda>_. jausUnsignedShortIsBitSet (reportWrenchEffort_presenceVector m) JAUS_WRENCH_PV_RESISTIVE_ROTATIONAL_Z_BIT)
           [putByte (jausByteFromDouble (reportWrenchEffort_resistiveRotationalEffortZPercent m) 0 100) off n]] (0, buffer))
      else Some (0, buffer))"

definition reportWrenchEffortMessageCreate :: ReportWrenchEffortMessage where
  "reportWrenchEffortMessageCreate =
     (let m = reportWrenchEffort_dataInitialize (JausHeader.extend (blankHeader JAUS_REPORT_WRENCH_EFFORT 20)
        (ReportWrenchEffortMessage.fields 0 0 0 0 0 0 0 0 0 0 0 0 0))
      in m\<lparr>dataSize := reportWrenchEffort_dataSize m\<rparr>)"

definition reportWrenchEffortMessageFromBuffer ::
    "ReportWrenchEffortMessage \<Rightarrow> bytes \<Rightarrow> u32 \<Rightarrow> (bool \<times> ReportWrenchEffortMessage) exec" where
  "reportWrenchEffortMessageFromBuffer =
     messageFromBuffer reportWrenchEffort_dataFromBuffer"

definition reportWrenchEffortMessageSize :: "ReportWrenchEffortMessage \<Rightarrow> u32" where
  "reportWrenchEffortMessageSize = messageSize reportWrenchEffort_dataSize"

definition reportWrenchEffortMessageToBuffer ::
    "ReportWrenchEffortMessage \<Rightarrow> bytes \<Rightarrow> u32 \<Rightarrow> (bool \<times> ReportWrenchEffortMessage \<times> bytes) exec" where
  "reportWrenchEffortMessageToBuffer =
     messageToBuffer reportWrenchEffort_dataSize reportWrenchEffort_dataToBuffer"

definition reportWrenchEffortMessageFromJausMessage ::
    "ReportWrenchEffortMessage \<Rightarrow> JausMessage \<Rightarrow> ReportWrenchEffortMessage option exec" where
  "reportWrenchEffortMessageFromJausMessage =
     messageFromJausMessage JAUS_REPORT_WRENCH_EFFORT reportWrenchEffort_dataFromBuffer"

definition reportWrenchEffortMessageToJausMessage ::
    "ReportWrenchEffortMessage \<Rightarrow> JausMessage exec" where
  "reportWrenchEffortMessageToJausMessage =
     messageToJausMessage reportWrenchEffort_dataSize reportWrenchEffort_dataToBuffer"

definition reportWrenchEffort_enc :: "ReportWrenchEffortMessage \<Rightarrow> bytes" where
  "reportWrenchEffort_enc m =
     bytesOfWord 2 (reportWrenchEffort_presenceVector m) @
     (if bit (reportWrenchEffort_presenceVector m) (nat JAUS_WRENCH_PV_PROPULSIVE_LINEAR_X_BIT) then bytesOfWord 2 (the (jausShortFromDouble (reportWrenchEffort_propulsiveLinearEffortXPercent m) (- 100) 100)) else []) @
     (if bit (reportWrenchEffort_presenceVector m) (nat JAUS_WRENCH_PV_PROPULSIVE_LINEAR_Y_BIT) then bytesOfWord 2 (the (jausShortFromDouble (reportWrenchEffort_propulsiveLinearEffortYPercent m) (- 100) 100)) else []) @
     (if bit (reportWrenchEffort_presenceVector m) (nat JAUS_WRENCH_PV_PROPULSIVE_LINEAR_Z_BIT) then bytesOfWord 2 (the (jausShortFromDouble (reportWrenchEffort_propulsiveLinearEffortZPercent m) (- 100) 100)) else []) @
     (if bit (reportWrenchEffort_presenceVector m) (nat JAUS_WRENCH_PV_PROPULSIVE_ROTATIONAL_X_BIT) then bytesOfWord 2 (the (jausShortFromDouble (reportWrenchEffort_propulsiveRotationalEffortXPercent m) (- 100) 100)) else []) @
     (if bit (reportWrenchEffort_presenceVector m) (nat JAUS_WRENCH_PV_PROPULSIVE_ROTATIONAL_Y_BIT) then bytesOfWord 2 (the (jausShortFromDouble (reportWrenchEffort_propulsiveRotationalEffortYPercent m) (- 100) 100)) else []) @
     (if bit (reportWrenchEffort_presenceVector m) (nat JAUS_WRENCH_PV_PROPULSIVE_ROTATIONAL_Z_BIT) then bytesOfWord 2 (the (jausShortFromDouble (reportWrenchEffort_propulsiveRotationalEffortZPercent m) (- 100) 100)) else []) @
     (if bit (reportWrenchEffort_presenceVector m) (nat JAUS_WRENCH_PV_RESISTIVE_LINEAR_X_BIT) then [the (jausByteFromDouble (reportWrenchEffort_resistiveLinearEffortXPercent m) 0 100)] else []) @
     (if bit (reportWrenchEffort_presenceVector m) (nat JAUS_WRENCH_PV_RESISTIVE_LINEAR_Y_BIT) then [the (jausByteFromDouble (reportWrenchEffort_resistiveLinearEffortYPercent m) 0 100)] else []) @
     (if bit (reportWrenchEffort_presenceVector m) (nat JAUS_WRENCH_PV_RESISTIVE_LINEAR_Z_BIT) then [the (jausByteFromDouble (reportWrenchEffort_resistiveLinearEffortZPercent m) 0 100)] else []) @
     (if bit (reportWrenchEffort_presenceVector m) (nat JAUS_WRENCH_PV_RESISTIVE_ROTATIONAL_X_BIT) then [the (jausByteFromDouble (reportWrenchEffort_resistiveRotationalEffortXPercent m) 0 100)] else []) @
     (if bit (reportWrenchEffort_presenceVector m) (nat JAUS_WRENCH_PV_RESISTIVE_ROTATIONAL_Y_BIT) then [the (jausByteFromDouble (reportWrenchEffort_resistiveRotationalEffortYPercent m) 0 100)] else []) @
     (if bit (reportWrenchEffort_presenceVector m) (nat JAUS_WRENCH_PV_RESISTIVE_ROTATIONAL_Z_BIT) then [the (jausByteFromDouble (reportWrenchEffort_resistiveRotationalEffortZPercent m) 0 100)] else [])"

definition reportWrenchEffort_withData :: "ReportWrenchEffortMessage \<Rightarrow> ReportWrenchEffortMessage \<Rightarrow> ReportWrenchEffortMessage" where
  "reportWrenchEffort_withData m0 m =
     onlyIf (bit (reportWrenchEffort_presenceVector m) (nat JAUS_WRENCH_PV_RESISTIVE_ROTATIONAL_Z_BIT))
       (\<lambda>x. x\<lparr>reportWrenchEffort_resistiveRotationalEffortZPercent := jausByteToDouble (the (jausByteFromDouble (reportWrenchEffort_resistiveRotationalEffortZPercent m) 0 100)) 0 100\<rparr>)
       (onlyIf (bit (reportWrenchEffort_presenceVector m) (nat JAUS_WRENCH_PV_RESISTIVE_ROTATIONAL_Y_BIT))
       (\<lambda>x. x\<lparr>reportWrenchEffort_resistiveRotationalEffortYPercent := jausByteToDouble (the (jausByteFromDouble (reportWrenchEffort_resistiveRotationalEffortYPercent m) 0 100)) 0 100\<rparr>)
       (onlyIf (bit (reportWrenchEffort_presenceVector m) (nat JAUS_WRENCH_PV_RESISTIVE_ROTATIONAL_X_BIT))
       (\<lambda>x. x\<lparr>reportWrenchEffort_resistiveRotationalEffortXPercent := jausByteToDouble (the (jausByteFromDouble (reportWrenchEffort_resistiveRotationalEffortXPercent m) 0 100)) 0 100\<rparr>)
       (onlyIf (bit (reportWrenchEffort_presenceVector m) (nat JAUS_WRENCH_PV_RESISTIVE_LINEAR_Z_BIT))
       (\<lambda>x. x\<lparr>reportWrenchEffort_resistiveLinearEffortZPercent := jausByteToDouble (the (jausByteFromDouble (reportWrenchEffort_resistiveLinearEffortZPercent m) 0 100)) 0 100\<rparr>)
       (onlyIf (bit (reportWrenchEffort_presenceVector m) (nat JAUS_WRENCH_PV_RESISTIVE_LINEAR_Y_BIT))
       (\<lambda>x. x\<lparr>reportWrenchEffort_resistiveLinearEffortYPercent := jausByteToDouble (the (jausByteFromDouble (reportWrenchEffort_resistiveLinearEffortYPercent m) 0 100)) 0 100\<rparr>)
       (onlyIf (bit (reportWrenchEffort_presenceVector m) (nat JAUS_WRENCH_PV_RESISTIVE_LINEAR_X_BIT))
       (\<lambda>x. x\<lparr>reportWrenchEffort_resistiveLinearEffortXPercent := jausByteToDouble (the (jausByteFromDouble (reportWrenchEffort_resistiveLinearEffortXPercent m) 0 100)) 0 100\<rparr>)
       (onlyIf (bit (reportWrenchEffort_presenceVector m) (nat JAUS_WRENCH_PV_PROPULSIVE_ROTATIONAL_Z_BIT))
       (\<lambda>x. x\<lparr>reportWrenchEffort_propulsiveRotationalEffortZPercent := jausShortToDouble (the (jausShortFromDouble (reportWrenchEffort_propulsiveRotationalEffortZPercent m) (- 100) 100)) (- 100) 100\<rparr>)
       (onlyIf (bit (reportWrenchEffort_presenceVector m) (nat JAUS_WRENCH_PV_PROPULSIVE_ROTATIONAL_Y_BIT))
       (\<lambda>x. x\<lparr>reportWrenchEffort_propulsiveRotationalEffortYPercent := jausShortToDouble (the (jausShortFromDouble (reportWrenchEffort_propulsiveRotationalEffortYPercent m) (- 100) 100)) (- 100) 100\<rparr>)
       (onlyIf (bit (reportWrenchEffort_presenceVector m) (nat JAUS_WRENCH_PV_PROPULSIVE_ROTATIONAL_X_BIT))
       (\<lambda>x. x\<lparr>reportWrenchEffort_propulsiveRotationalEffortXPercent := jausShortToDouble (the (jausShortFromDouble (reportWrenchEffort_propulsiveRotationalEffortXPercent m) (- 100) 100)) (- 100) 100\<rparr>)
       (onlyIf (bit (reportWrenchEffort_presenceVector m) (nat JAUS_WRENCH_PV_PROPULSIVE_LINEAR_Z_BIT))
       (\<lambda>x. x\<lparr>reportWrenchEffort_propulsiveLinearEffortZPercent := jausShortToDouble (the (jausShortFromDouble (reportWrenchEffort_propulsiveLinearEffortZPercent m) (- 100) 100)) (- 100) 100\<rparr>)
       (onlyIf (bit (reportWrenchEffort_presenceVector m) (nat JAUS_WRENCH_PV_PROPULSIVE_LINEAR_Y_BIT))
       (\<lambda>x. x\<lparr>reportWrenchEffort_propulsiveLinearEffortYPercent := jausShortToDouble (the (jausShortFromDouble (reportWrenchEffort_propulsiveLinearEffortYPercent m) (- 100) 100)) (- 100) 100\<rparr>)
       (onlyIf (bit (reportWrenchEffort_presenceVector m) (nat JAUS_WRENCH_PV_PROPULSIVE_LINEAR_X_BIT))
       (\<lambda>x. x\<lparr>reportWrenchEffort_propulsiveLinearEffortXPercent := jausShortToDouble (the (jausShortFromDouble (reportWrenchEffort_propulsiveLinearEffortXPercent m) (- 100) 100)) (- 100) 100\<rparr>)
       (m0\<lparr>reportWrenchEffort_presenceVector := reportWrenchEffort_presenceVector m\<rparr>))))))))))))"

lemma reportWrenchEffort_size: "reportWrenchEffort_dataSize m = of_nat (length (reportWrenchEffort_enc m))"
  by (simp add: reportWrenchEffort_dataSize_def reportWrenchEffort_enc_def codec_simps length_if of_nat_if)

lemma reportWrenchEffort_small: "length (reportWrenchEffort_enc m) < 4096"
  unfolding reportWrenchEffort_enc_def by (rule enc_small, (rule length_bounds)+, simp)

lemma reportWrenchEffort_to:
  assumes "off + length (reportWrenchEffort_enc m) \<le> length buf" "length (reportWrenchEffort_enc m) \<le> unat n"
  shows "reportWrenchEffort_dataToBuffer m buf off n =
    Some (length (reportWrenchEffort_enc m), take off buf @ reportWrenchEffort_enc m @ drop (off + length (reportWrenchEffort_enc m)) buf)"
  unfolding reportWrenchEffort_dataToBuffer_def
  by (rule to_lawI [OF _ reportWrenchEffort_size assms], unfold reportWrenchEffort_enc_def,
      (rule writes_intros refl | rule writes_Cons | (rule FromDouble_total, simp)
        | simp add: codec_simps)+)

lemma reportWrenchEffort_from:
  assumes "dataSize m0 = reportWrenchEffort_dataSize m"
  shows "reportWrenchEffort_dataFromBuffer m0 (pre @ reportWrenchEffort_enc m @ post) (length pre) (reportWrenchEffort_dataSize m) = Some (True, reportWrenchEffort_withData m0 m)"
proof -
  have n: "unat (reportWrenchEffort_dataSize m) = length (reportWrenchEffort_enc m)"
    using reportWrenchEffort_small [of m] by (simp add: reportWrenchEffort_size unat_of_nat_lt)
  show ?thesis
    unfolding reportWrenchEffort_dataFromBuffer_def reportWrenchEffort_withData_def
    by (rule from_lawI [where D = "reportWrenchEffort_enc m"], unfold reportWrenchEffort_enc_def,
        (rule parses_intros refl n [unfolded reportWrenchEffort_enc_def] assms [symmetric] | rule parses_Cons
          | simp add: codec_simps onlyIf_def if_distrib [of reportWrenchEffort_presenceVector])+)
qed

interpretation reportWrenchEffort: typed_message reportWrenchEffort_dataSize reportWrenchEffort_dataFromBuffer
  reportWrenchEffort_dataToBuffer reportWrenchEffort_enc reportWrenchEffort_withData
  by unfold_locales (fact reportWrenchEffort_size reportWrenchEffort_small reportWrenchEffort_to reportWrenchEffort_from)+

end
