(* ===== verification/SubsystemMessages.thy ===== *)
theory SubsystemMessages
  imports MessageCodes
begin

text \<open>
  The commands and reports of the other subsystems: communications, environment, events,
  manipulator, planning and world model (\<open>libjaus/message/{command,inform}\<close>).
  Each section translates one source file: the struct as a record that extends the header,
  its four message-specific routines, and the common routines applied to them. \<open>enc\<close> and
  \<open>withData\<close> are the specification, the wire image and what a receiver reconstructs from it;
  the interpretation of \<open>typed_message\<close> proves that the routines meet it, and with it the
  round trips through buffers and generic messages.
\<close>

section \<open>SetDataLinkSelectMessage\<close>

record SetDataLinkSelectMessage = JausHeader +
  setDataLinkSelect_dataLinkId :: u8

definition setDataLinkSelect_dataInitialize ::
    "SetDataLinkSelectMessage \<Rightarrow> SetDataLinkSelectMessage" where
  "setDataLinkSelect_dataInitialize m =
     m\<lparr>setDataLinkSelect_dataLinkId := newJausByte 0\<rparr>"

definition setDataLinkSelect_dataSize :: "SetDataLinkSelectMessage \<Rightarrow> u32" where
  "setDataLinkSelect_dataSize m =
     1"

definition setDataLinkSelect_dataFromBuffer ::
    "SetDataLinkSelectMessage \<Rightarrow> bytes \<Rightarrow> nat \<Rightarrow> u32 \<Rightarrow> (bool \<times> SetDataLinkSelectMessage) exec" where
  "setDataLinkSelect_dataFromBuffer m buffer off n =
     (if n = dataSize m then finishR (runStmts
        [getByte (\<lambda>v m. m\<lparr>setDataLinkSelect_dataLinkId := v\<rparr>) buffer off n] (0, m))
      else Some (False, m))"

definition setDataLinkSelect_dataToBuffer ::
    "SetDataLinkSelectMessage \<Rightarrow> bytes \<Rightarrow> nat \<Rightarrow> u32 \<Rightarrow> (nat \<times> bytes) exec" where
  "setDataLinkSelect_dataToBuffer m buffer off n =
     (if setDataLinkSelect_dataSize m \<le> n then finishW (runStmts
        [putByte (Some (setDataLinkSelect_dataLinkId m)) off n] (0, buffer))
      else Some (0, buffer))"

definition setDataLinkSelectMessageCreate :: SetDataLinkSelectMessage where
  "setDataLinkSelectMessageCreate =
     (let m = setDataLinkSelect_dataInitialize (JausHeader.extend (blankHeader JAUS_SET_DATA_LINK_SELECT 1)
        (SetDataLinkSelectMessage.fields 0))
      in m\<lparr>dataSize := setDataLinkSelect_dataSize m\<rparr>)"

definition setDataLinkSelectMessageFromBuffer ::
    "SetDataLinkSelectMessage \<Rightarrow> bytes \<Rightarrow> u32 \<Rightarrow> (bool \<times> SetDataLinkSelectMessage) exec" where
  "setDataLinkSelectMessageFromBuffer =
     messageFromBuffer setDataLinkSelect_dataFromBuffer"

definition setDataLinkSelectMessageSize :: "SetDataLinkSelectMessage \<Rightarrow> u32" where
  "setDataLinkSelectMessageSize = messageSize setDataLinkSelect_dataSize"

definition setDataLinkSelectMessageToBuffer ::
    "SetDataLinkSelectMessage \<Rightarrow> bytes \<Rightarrow> u32 \<Rightarrow> (bool \<times> SetDataLinkSelectMessage \<times> bytes) exec" where
  "setDataLinkSelectMessageToBuffer =
     messageToBuffer setDataLinkSelect_dataSize setDataLinkSelect_dataToBuffer"

definition setDataLinkSelectMessageFromJausMessage ::
    "SetDataLinkSelectMessage \<Rightarrow> JausMessage \<Rightarrow> SetDataLinkSelectMessage option exec" where
  "setDataLinkSelectMessageFromJausMessage =
     messageFromJausMessage JAUS_SET_DATA_LINK_SELECT setDataLinkSelect_dataFromBuffer"

definition setDataLinkSelectMessageToJausMessage ::
    "SetDataLinkSelectMessage \<Rightarrow> JausMessage exec" where
  "setDataLinkSelectMessageToJausMessage =
     messageToJausMessage setDataLinkSelect_dataSize setDataLinkSelect_dataToBuffer"

definition setDataLinkSelect_enc :: "SetDataLinkSelectMessage \<Rightarrow> bytes" where
  "setDataLinkSelect_enc m =
     [setDataLinkSelect_dataLinkId m]"

definition setDataLinkSelect_withData :: "SetDataLinkSelectMessage \<Rightarrow> SetDataLinkSelectMessage \<Rightarrow> SetDataLinkSelectMessage" where
  "setDataLinkSelect_withData m0 m =
     m0\<lparr>setDataLinkSelect_dataLinkId := setDataLinkSelect_dataLinkId m\<rparr>"

lemma setDataLinkSelect_size: "setDataLinkSelect_dataSize m = of_nat (length (setDataLinkSelect_enc m))"
  by (simp add: setDataLinkSelect_dataSize_def setDataLinkSelect_enc_def)

lemma setDataLinkSelect_small: "length (setDataLinkSelect_enc m) < 4096"
  unfolding setDataLinkSelect_enc_def by (rule enc_small, (rule length_bounds)+, simp)

lemma setDataLinkSelect_to:
  assumes "off + length (setDataLinkSelect_enc m) \<le> length buf" "length (setDataLinkSelect_enc m) \<le> unat n"
  shows "setDataLinkSelect_dataToBuffer m buf off n =
    Some (length (setDataLinkSelect_enc m), take off buf @ setDataLinkSelect_enc m @ drop (off + length (setDataLinkSelect_enc m)) buf)"
  unfolding setDataLinkSelect_dataToBuffer_def
  by (rule to_lawI [OF _ setDataLinkSelect_size assms], unfold setDataLinkSelect_enc_def,
      (rule writes_intros refl | rule writes_Cons | (rule FromDouble_total, simp)
        | simp add: codec_simps)+)

lemma setDataLinkSelect_from:
  assumes "dataSize m0 = setDataLinkSelect_dataSize m"
  shows "setDataLinkSelect_dataFromBuffer m0 (pre @ setDataLinkSelect_enc m @ post) (length pre) (setDataLinkSelect_dataSize m) = Some (True, setDataLinkSelect_withData m0 m)"
proof -
  have n: "unat (setDataLinkSelect_dataSize m) = length (setDataLinkSelect_enc m)"
    using setDataLinkSelect_small [of m] by (simp add: setDataLinkSelect_size unat_of_nat_lt)
  show ?thesis
    unfolding setDataLinkSelect_dataFromBuffer_def setDataLinkSelect_withData_def
    by (rule from_lawI [where D = "setDataLinkSelect_enc m"], unfold setDataLinkSelect_enc_def,
        (rule parses_intros refl n [unfolded setDataLinkSelect_enc_def] assms [symmetric] | rule parses_Cons
          | simp add: codec_simps)+)
qed

interpretation setDataLinkSelect: typed_message setDataLinkSelect_dataSize setDataLinkSelect_dataFromBuffer
  setDataLinkSelect_dataToBuffer setDataLinkSelect_enc setDataLinkSelect_withData
  by unfold_locales (fact setDataLinkSelect_size setDataLinkSelect_small setDataLinkSelect_to setDataLinkSelect_from)+

section \<open>SetSelectedDataLinkStateMessage\<close>

record SetSelectedDataLinkStateMessage = JausHeader +
  setSelectedDataLinkState_dataLinkId :: u8
  setSelectedDataLinkState_state :: u8

definition setSelectedDataLinkState_dataInitialize ::
    "SetSelectedDataLinkStateMessage \<Rightarrow> SetSelectedDataLinkStateMessage" where
  "setSelectedDataLinkState_dataInitialize m =
     m\<lparr>setSelectedDataLinkState_dataLinkId := newJausByte 0,
        setSelectedDataLinkState_state := newJausByte 0\<rparr>"

definition setSelectedDataLinkState_dataSize :: "SetSelectedDataLinkStateMessage \<Rightarrow> u32" where
  "setSelectedDataLinkState_dataSize m =
     2"

definition setSelectedDataLinkState_dataFromBuffer ::
    "SetSelectedDataLinkStateMessage \<Rightarrow> bytes \<Rightarrow> nat \<Rightarrow> u32 \<Rightarrow> (bool \<times> SetSelectedDataLinkStateMessage) exec" where
  "setSelectedDataLinkState_dataFromBuffer m buffer off n =
     (if n = dataSize m then finishR (runStmts
        [getByte (\<lambda>v m. m\<lparr>setSelectedDataLinkState_dataLinkId := v\<rparr>) buffer off n,
         getByte (\<lambda>v m. m\<lparr>setSelectedDataLinkState_state := v\<rparr>) buffer off n] (0, m))
      else Some (False, m))"

definition setSelectedDataLinkState_dataToBuffer ::
    "SetSelectedDataLinkStateMessage \<Rightarrow> bytes \<Rightarrow> nat \<Rightarrow> u32 \<Rightarrow> (nat \<times> bytes) exec" where
  "setSelectedDataLinkState_dataToBuffer m buffer off n =
     (if setSelectedDataLinkState_dataSize m \<le> n then finishW (runStmts
        [putByte (Some (setSelectedDataLinkState_dataLinkId m)) off n,
         putByte (Some (setSelectedDataLinkState_state m)) off n] (0, buffer))
      else Some (0, buffer))"

definition setSelectedDataLinkStateMessageCreate :: SetSelectedDataLinkStateMessage where
  "setSelectedDataLinkStateMessageCreate =
     (let m = setSelectedDataLinkState_dataInitialize (JausHeader.extend (blankHeader JAUS_SET_SELECTED_DATA_LINK_STATE 2)
        (SetSelectedDataLinkStateMessage.fields 0 0))
      in m\<lparr>dataSize := setSelectedDataLinkState_dataSize m\<rparr>)"

definition setSelectedDataLinkStateMessageFromBuffer ::
    "SetSelectedDataLinkStateMessage \<Rightarrow> bytes \<Rightarrow> u32 \<Rightarrow> (bool \<times> SetSelectedDataLinkStateMessage) exec" where
  "setSelectedDataLinkStateMessageFromBuffer =
     messageFromBuffer setSelectedDataLinkState_dataFromBuffer"

definition setSelectedDataLinkStateMessageSize :: "SetSelectedDataLinkStateMessage \<Rightarrow> u32" where
  "setSelectedDataLinkStateMessageSize = messageSize setSelectedDataLinkState_dataSize"

definition setSelectedDataLinkStateMessageToBuffer ::
    "SetSelectedDataLinkStateMessage \<Rightarrow> bytes \<Rightarrow> u32 \<Rightarrow> (bool \<times> SetSelectedDataLinkStateMessage \<times> bytes) exec" where
  "setSelectedDataLinkStateMessageToBuffer =
     messageToBuffer setSelectedDataLinkState_dataSize setSelectedDataLinkState_dataToBuffer"

definition setSelectedDataLinkStateMessageFromJausMessage ::
    "SetSelectedDataLinkStateMessage \<Rightarrow> JausMessage \<Rightarrow> SetSelectedDataLinkStateMessage option exec" where
  "setSelectedDataLinkStateMessageFromJausMessage =
     messageFromJausMessage JAUS_SET_SELECTED_DATA_LINK_STATE setSelectedDataLinkState_dataFromBuffer"

definition setSelectedDataLinkStateMessageToJausMessage ::
    "SetSelectedDataLinkStateMessage \<Rightarrow> JausMessage exec" where
  "setSelectedDataLinkStateMessageToJausMessage =
     messageToJausMessage setSelectedDataLinkState_dataSize setSelectedDataLinkState_dataToBuffer"

definition setSelectedDataLinkState_enc :: "SetSelectedDataLinkStateMessage \<Rightarrow> bytes" where
  "setSelectedDataLinkState_enc m =
     [setSelectedDataLinkState_dataLinkId m] @
     [setSelectedDataLinkState_state m]"

definition setSelectedDataLinkState_withData :: "SetSelectedDataLinkStateMessage \<Rightarrow> SetSelectedDataLinkStateMessage \<Rightarrow> SetSelectedDataLinkStateMessage" where
  "setSelectedDataLinkState_withData m0 m =
     m0\<lparr>setSelectedDataLinkState_dataLinkId := setSelectedDataLinkState_dataLinkId m,
        setSelectedDataLinkState_state := setSelectedDataLinkState_state m\<rparr>"

lemma setSelectedDataLinkState_size: "setSelectedDataLinkState_dataSize m = of_nat (length (setSelectedDataLinkState_enc m))"
  by (simp add: setSelectedDataLinkState_dataSize_def setSelectedDataLinkState_enc_def)

lemma setSelectedDataLinkState_small: "length (setSelectedDataLinkState_enc m) < 4096"
  unfolding setSelectedDataLinkState_enc_def by (rule enc_small, (rule length_bounds)+, simp)

lemma setSelectedDataLinkState_to:
  assumes "off + length (setSelectedDataLinkState_enc m) \<le> length buf" "length (setSelectedDataLinkState_enc m) \<le> unat n"
  shows "setSelectedDataLinkState_dataToBuffer m buf off n =
    Some (length (setSelectedDataLinkState_enc m), take off buf @ setSelectedDataLinkState_enc m @ drop (off + length (setSelectedDataLinkState_enc m)) buf)"
  unfolding setSelectedDataLinkState_dataToBuffer_def
  by (rule to_lawI [OF _ setSelectedDataLinkState_size assms], unfold setSelectedDataLinkState_enc_def,
      (rule writes_intros refl | rule writes_Cons | (rule FromDouble_total, simp)
        | simp add: codec_simps)+)

lemma setSelectedDataLinkState_from:
  assumes "dataSize m0 = setSelectedDataLinkState_dataSize m"
  shows "setSelectedDataLinkState_dataFromBuffer m0 (pre @ setSelectedDataLinkState_enc m @ post) (length pre) (setSelectedDataLinkState_dataSize m) = Some (True, setSelectedDataLinkState_withData m0 m)"
proof -
  have n: "unat (setSelectedDataLinkState_dataSize m) = length (setSelectedDataLinkState_enc m)"
    using setSelectedDataLinkState_small [of m] by (simp add: setSelectedDataLinkState_size unat_of_nat_lt)
  show ?thesis
    unfolding setSelectedDataLinkState_dataFromBuffer_def setSelectedDataLinkState_withData_def
    by (rule from_lawI [where D = "setSelectedDataLinkState_enc m"], unfold setSelectedDataLinkState_enc_def,
        (rule parses_intros refl n [unfolded setSelectedDataLinkState_enc_def] assms [symmetric] | rule parses_Cons
          | simp add: codec_simps)+)
qed

interpretation setSelectedDataLinkState: typed_message setSelectedDataLinkState_dataSize setSelectedDataLinkState_dataFromBuffer
  setSelectedDataLinkState_dataToBuffer setSelectedDataLinkState_enc setSelectedDataLinkState_withData
  by unfold_locales (fact setSelectedDataLinkState_size setSelectedDataLinkState_small setSelectedDataLinkState_to setSelectedDataLinkState_from)+

section \<open>SelectCameraMessage\<close>

record SelectCameraMessage = JausHeader +
  selectCamera_cameraID :: u8

definition selectCamera_dataInitialize ::
    "SelectCameraMessage \<Rightarrow> SelectCameraMessage" where
  "selectCamera_dataInitialize m =
     m\<lparr>selectCamera_cameraID := 0\<rparr>"

definition selectCamera_dataSize :: "SelectCameraMessage \<Rightarrow> u32" where
  "selectCamera_dataSize m =
     1"

definition selectCamera_dataFromBuffer ::
    "SelectCameraMessage \<Rightarrow> bytes \<Rightarrow> nat \<Rightarrow> u32 \<Rightarrow> (bool \<times> SelectCameraMessage) exec" where
  "selectCamera_dataFromBuffer m buffer off n =
     (if n = dataSize m then finishR (runStmts
        [getByte (\<lambda>v m. m\<lparr>selectCamera_cameraID := v\<rparr>) buffer off n] (0, m))
      else Some (False, m))"

definition selectCamera_dataToBuffer ::
    "SelectCameraMessage \<Rightarrow> bytes \<Rightarrow> nat \<Rightarrow> u32 \<Rightarrow> (nat \<times> bytes) exec" where
  "selectCamera_dataToBuffer m buffer off n =
     (if selectCamera_dataSize m \<le> n then finishW (runStmts
        [putByte (Some (selectCamera_cameraID m)) off n] (0, buffer))
      else Some (0, buffer))"

definition selectCameraMessageCreate :: SelectCameraMessage where
  "selectCameraMessageCreate =
     (selectCamera_dataInitialize (JausHeader.extend (blankHeader JAUS_SELECT_CAMERA 1)
        (SelectCameraMessage.fields 0)))"

definition selectCameraMessageFromBuffer ::
    "SelectCameraMessage \<Rightarrow> bytes \<Rightarrow> u32 \<Rightarrow> (bool \<times> SelectCameraMessage) exec" where
  "selectCameraMessageFromBuffer =
     messageFromBuffer selectCamera_dataFromBuffer"

definition selectCameraMessageSize :: "SelectCameraMessage \<Rightarrow> u32" where
  "selectCameraMessageSize = messageSize selectCamera_dataSize"

definition selectCameraMessageToBuffer ::
    "SelectCameraMessage \<Rightarrow> bytes \<Rightarrow> u32 \<Rightarrow> (bool \<times> SelectCameraMessage \<times> bytes) exec" where
  "selectCameraMessageToBuffer =
     messageToBuffer selectCamera_dataSize selectCamera_dataToBuffer"

definition selectCameraMessageFromJausMessage ::
    "SelectCameraMessage \<Rightarrow> JausMessage \<Rightarrow> SelectCameraMessage option exec" where
  "selectCameraMessageFromJausMessage =
     messageFromJausMessage JAUS_SELECT_CAMERA selectCamera_dataFromBuffer"

definition selectCameraMessageToJausMessage ::
    "SelectCameraMessage \<Rightarrow> JausMessage exec" where
  "selectCameraMessageToJausMessage =
     messageToJausMessage selectCamera_dataSize selectCamera_dataToBuffer"

definition selectCamera_enc :: "SelectCameraMessage \<Rightarrow> bytes" where
  "selectCamera_enc m =
     [selectCamera_cameraID m]"

definition selectCamera_withData :: "SelectCameraMessage \<Rightarrow> SelectCameraMessage \<Rightarrow> SelectCameraMessage" where
  "selectCamera_withData m0 m =
     m0\<lparr>selectCamera_cameraID := selectCamera_cameraID m\<rparr>"

lemma selectCamera_size: "selectCamera_dataSize m = of_nat (length (selectCamera_enc m))"
  by (simp add: selectCamera_dataSize_def selectCamera_enc_def)

lemma selectCamera_small: "length (selectCamera_enc m) < 4096"
  unfolding selectCamera_enc_def by (rule enc_small, (rule length_bounds)+, simp)

lemma selectCamera_to:
  assumes "off + length (selectCamera_enc m) \<le> length buf" "length (selectCamera_enc m) \<le> unat n"
  shows "selectCamera_dataToBuffer m buf off n =
    Some (length (selectCamera_enc m), take off buf @ selectCamera_enc m @ drop (off + length (selectCamera_enc m)) buf)"
  unfolding selectCamera_dataToBuffer_def
  by (rule to_lawI [OF _ selectCamera_size assms], unfold selectCamera_enc_def,
      (rule writes_intros refl | rule writes_Cons | (rule FromDouble_total, simp)
        | simp add: codec_simps)+)

lemma selectCamera_from:
  assumes "dataSize m0 = selectCamera_dataSize m"
  shows "selectCamera_dataFromBuffer m0 (pre @ selectCamera_enc m @ post) (length pre) (selectCamera_dataSize m) = Some (True, selectCamera_withData m0 m)"
proof -
  have n: "unat (selectCamera_dataSize m) = length (selectCamera_enc m)"
    using selectCamera_small [of m] by (simp add: selectCamera_size unat_of_nat_lt)
  show ?thesis
    unfolding selectCamera_dataFromBuffer_def selectCamera_withData_def
    by (rule from_lawI [where D = "selectCamera_enc m"], unfold selectCamera_enc_def,
        (rule parses_intros refl n [unfolded selectCamera_enc_def] assms [symmetric] | rule parses_Cons
          | simp add: codec_simps)+)
qed

interpretation selectCamera: typed_message selectCamera_dataSize selectCamera_dataFromBuffer
  selectCamera_dataToBuffer selectCamera_enc selectCamera_withData
  by unfold_locales (fact selectCamera_size selectCamera_small selectCamera_to selectCamera_from)+

section \<open>SetCameraFormatOptionsMessage\<close>

record SetCameraFormatOptionsMessage = JausHeader +
  setCameraFormatOptions_presenceVector :: u8
  setCameraFormatOptions_cameraID :: u8
  setCameraFormatOptions_formatOption :: u32
  setCameraFormatOptions_audioFormat :: int
  setCameraFormatOptions_imageFormat :: int

definition setCameraFormatOptions_dataInitialize ::
    "SetCameraFormatOptionsMessage \<Rightarrow> SetCameraFormatOptionsMessage" where
  "setCameraFormatOptions_dataInitialize m =
     m\<lparr>setCameraFormatOptions_presenceVector := newJausByte JAUS_BYTE_PRESENCE_VECTOR_ALL_ON,
        setCameraFormatOptions_cameraID := newJausByte 0,
        setCameraFormatOptions_audioFormat := UnusedAudioFormat,
        setCameraFormatOptions_imageFormat := UnusedImageFormat,
        setCameraFormatOptions_formatOption := newJausUnsignedInteger 0\<rparr>"

definition setCameraFormatOptions_dataSize :: "SetCameraFormatOptionsMessage \<Rightarrow> u32" where
  "setCameraFormatOptions_dataSize m =
     (1 +
      1 +
      (if jausByteIsBitSet (setCameraFormatOptions_presenceVector m) JAUS_CAMERA_FORMAT_OPTIONS_PV_AUDIO_FORMAT_BIT = Some True then 1 else 0) +
      (if jausByteIsBitSet (setCameraFormatOptions_presenceVector m) JAUS_CAMERA_FORMAT_OPTIONS_PV_IMAGE_FORMAT_BIT = Some True then 1 else 0) +
      (if jausByteIsBitSet (setCameraFormatOptions_presenceVector m) JAUS_CAMERA_FORMAT_OPTIONS_PV_FORMAT_OPTION_BIT = Some True then 4 else 0))"

definition setCameraFormatOptions_dataFromBuffer ::
    "SetCameraFormatOptionsMessage \<Rightarrow> bytes \<Rightarrow> nat \<Rightarrow> u32 \<Rightarrow> (bool \<times> SetCameraFormatOptionsMessage) exec" where
  "setCameraFormatOptions_dataFromBuffer m buffer off n =
     (if n = dataSize m then finishR (runStmts
        [getByte (\<lambda>v m. m\<lparr>setCameraFormatOptions_presenceVector := v\<rparr>) buffer off n,
         getByte (\<lambda>v m. m\<lparr>setCameraFormatOptions_cameraID := v\<rparr>) buffer off n,
         whenS (\<lambda>(i, m). jausByteIsBitSet (setCameraFormatOptions_presenceVector m) JAUS_CAMERA_FORMAT_OPTIONS_PV_AUDIO_FORMAT_BIT)
           [getByte (\<lambda>v m. m\<lparr>setCameraFormatOptions_audioFormat := uint v\<rparr>) buffer off n],
         whenS (\<lambda>(i, m). jausByteIsBitSet (setCameraFormatOptions_presenceVector m) JAUS_CAMERA_FORMAT_OPTIONS_PV_IMAGE_FORMAT_BIT)
           [getByte (\<lambda>v m. m\<lparr>setCameraFormatOptions_imageFormat := uint v\<rparr>) buffer off n],
         whenS (\<lambda>(i, m). jausByteIsBitSet (setCameraFormatOptions_presenceVector m) JAUS_CAMERA_FORMAT_OPTIONS_PV_FORMAT_OPTION_BIT)
           [getUInteger (\<lambda>v m. m\<lparr>setCameraFormatOptions_formatOption := v\<rparr>) buffer off n]] (0, m))
      else Some (False, m))"

definition setCameraFormatOptions_dataToBuffer ::
    "SetCameraFormatOptionsMessage \<Rightarrow> bytes \<Rightarrow> nat \<Rightarrow> u32 \<Rightarrow> (nat \<times> bytes) exec" where
  "setCameraFormatOptions_dataToBuffer m buffer off n =
     (if setCameraFormatOptions_dataSize m \<le> n then finishW (runStmts
        [putByte (Some (setCameraFormatOptions_presenceVector m)) off n,
         putByte (Some (setCameraFormatOptions_cameraID m)) off n,
         whenS (\<lambda>_. jausByteIsBitSet (setCameraFormatOptions_presenceVector m) JAUS_CAMERA_FORMAT_OPTIONS_PV_AUDIO_FORMAT_BIT)
           [putByte (Some (word_of_int (setCameraFormatOptions_audioFormat m))) off n],
         whenS (\<lambda>_. jausByteIsBitSet (setCameraFormatOptions_presenceVector m) JAUS_CAMERA_FORMAT_OPTIONS_PV_IMAGE_FORMAT_BIT)
           [putByte (Some (word_of_int (setCameraFormatOptions_imageFormat m))) off n],
         whenS (\<lambda>_. jausByteIsBitSet (setCameraFormatOptions_presenceVector m) JAUS_CAMERA_FORMAT_OPTIONS_PV_FORMAT_OPTION_BIT)
           [putUInteger (Some (setCameraFormatOptions_formatOption m)) off n]] (0, buffer))
      else Some (0, buffer))"

definition setCameraFormatOptionsMessageCreate :: SetCameraFormatOptionsMessage where
  "setCameraFormatOptionsMessageCreate =
     (let m = setCameraFormatOptions_dataInitialize (JausHeader.extend (blankHeader JAUS_SET_CAMERA_FORMAT_OPTIONS 8)
        (SetCameraFormatOptionsMessage.fields 0 0 0 0 0))
      in m\<lparr>dataSize := setCameraFormatOptions_dataSize m\<rparr>)"

definition setCameraFormatOptionsMessageFromBuffer ::
    "SetCameraFormatOptionsMessage \<Rightarrow> bytes \<Rightarrow> u32 \<Rightarrow> (bool \<times> SetCameraFormatOptionsMessage) exec" where
  "setCameraFormatOptionsMessageFromBuffer =
     messageFromBuffer setCameraFormatOptions_dataFromBuffer"

definition setCameraFormatOptionsMessageSize :: "SetCameraFormatOptionsMessage \<Rightarrow> u32" where
  "setCameraFormatOptionsMessageSize = messageSize setCameraFormatOptions_dataSize"

definition setCameraFormatOptionsMessageToBuffer ::
    "SetCameraFormatOptionsMessage \<Rightarrow> bytes \<Rightarrow> u32 \<Rightarrow> (bool \<times> SetCameraFormatOptionsMessage \<times> bytes) exec" where
  "setCameraFormatOptionsMessageToBuffer =
     messageToBuffer setCameraFormatOptions_dataSize setCameraFormatOptions_dataToBuffer"

definition setCameraFormatOptionsMessageFromJausMessage ::
    "SetCameraFormatOptionsMessage \<Rightarrow> JausMessage \<Rightarrow> SetCameraFormatOptionsMessage option exec" where
  "setCameraFormatOptionsMessageFromJausMessage =
     messageFromJausMessage JAUS_SET_CAMERA_FORMAT_OPTIONS setCameraFormatOptions_dataFromBuffer"

definition setCameraFormatOptionsMessageToJausMessage ::
    "SetCameraFormatOptionsMessage \<Rightarrow> JausMessage exec" where
  "setCameraFormatOptionsMessageToJausMessage =
     messageToJausMessage setCameraFormatOptions_dataSize setCameraFormatOptions_dataToBuffer"

definition setCameraFormatOptions_enc :: "SetCameraFormatOptionsMessage \<Rightarrow> bytes" where
  "setCameraFormatOptions_enc m =
     [setCameraFormatOptions_presenceVector m] @
     [setCameraFormatOptions_cameraID m] @
     (if bit (setCameraFormatOptions_presenceVector m) (nat JAUS_CAMERA_FORMAT_OPTIONS_PV_AUDIO_FORMAT_BIT) then [word_of_int (setCameraFormatOptions_audioFormat m)] else []) @
     (if bit (setCameraFormatOptions_presenceVector m) (nat JAUS_CAMERA_FORMAT_OPTIONS_PV_IMAGE_FORMAT_BIT) then [word_of_int (setCameraFormatOptions_imageFormat m)] else []) @
     (if bit (setCameraFormatOptions_presenceVector m) (nat JAUS_CAMERA_FORMAT_OPTIONS_PV_FORMAT_OPTION_BIT) then bytesOfWord 4 (setCameraFormatOptions_formatOption m) else [])"

definition setCameraFormatOptions_withData :: "SetCameraFormatOptionsMessage \<Rightarrow> SetCameraFormatOptionsMessage \<Rightarrow> SetCameraFormatOptionsMessage" where
  "setCameraFormatOptions_withData m0 m =
     onlyIf (bit (setCameraFormatOptions_presenceVector m) (nat JAUS_CAMERA_FORMAT_OPTIONS_PV_FORMAT_OPTION_BIT))
       (\<lambda>x. x\<lparr>setCameraFormatOptions_formatOption := setCameraFormatOptions_formatOption m\<rparr>)
       (onlyIf (bit (setCameraFormatOptions_presenceVector m) (nat JAUS_CAMERA_FORMAT_OPTIONS_PV_IMAGE_FORMAT_BIT))
       (\<lambda>x. x\<lparr>setCameraFormatOptions_imageFormat := uint (word_of_int (setCameraFormatOptions_imageFormat m) :: u8)\<rparr>)
       (onlyIf (bit (setCameraFormatOptions_presenceVector m) (nat JAUS_CAMERA_FORMAT_OPTIONS_PV_AUDIO_FORMAT_BIT))
       (\<lambda>x. x\<lparr>setCameraFormatOptions_audioFormat := uint (word_of_int (setCameraFormatOptions_audioFormat m) :: u8)\<rparr>)
       (m0\<lparr>setCameraFormatOptions_presenceVector := setCameraFormatOptions_presenceVector m,
        setCameraFormatOptions_cameraID := setCameraFormatOptions_cameraID m\<rparr>)))"

lemma setCameraFormatOptions_size: "setCameraFormatOptions_dataSize m = of_nat (length (setCameraFormatOptions_enc m))"
  by (simp add: setCameraFormatOptions_dataSize_def setCameraFormatOptions_enc_def codec_simps length_if of_nat_if)

lemma setCameraFormatOptions_small: "length (setCameraFormatOptions_enc m) < 4096"
  unfolding setCameraFormatOptions_enc_def by (rule enc_small, (rule length_bounds)+, simp)

lemma setCameraFormatOptions_to:
  assumes "off + length (setCameraFormatOptions_enc m) \<le> length buf" "length (setCameraFormatOptions_enc m) \<le> unat n"
  shows "setCameraFormatOptions_dataToBuffer m buf off n =
    Some (length (setCameraFormatOptions_enc m), take off buf @ setCameraFormatOptions_enc m @ drop (off + length (setCameraFormatOptions_enc m)) buf)"
  unfolding setCameraFormatOptions_dataToBuffer_def
  by (rule to_lawI [OF _ setCameraFormatOptions_size assms], unfold setCameraFormatOptions_enc_def,
      (rule writes_intros refl | rule writes_Cons | (rule FromDouble_total, simp)
        | simp add: codec_simps)+)

lemma setCameraFormatOptions_from:
  assumes "dataSize m0 = setCameraFormatOptions_dataSize m"
  shows "setCameraFormatOptions_dataFromBuffer m0 (pre @ setCameraFormatOptions_enc m @ post) (length pre) (setCameraFormatOptions_dataSize m) = Some (True, setCameraFormatOptions_withData m0 m)"
proof -
  have n: "unat (setCameraFormatOptions_dataSize m) = length (setCameraFormatOptions_enc m)"
    using setCameraFormatOptions_small [of m] by (simp add: setCameraFormatOptions_size unat_of_nat_lt)
  show ?thesis
    unfolding setCameraFormatOptions_dataFromBuffer_def setCameraFormatOptions_withData_def
    by (rule from_lawI [where D = "setCameraFormatOptions_enc m"], unfold setCameraFormatOptions_enc_def,
        (rule parses_intros refl n [unfolded setCameraFormatOptions_enc_def] assms [symmetric] | rule parses_Cons
          | simp add: codec_simps onlyIf_def if_distrib [of setCameraFormatOptions_presenceVector])+)
qed

interpretation setCameraFormatOptions: typed_message setCameraFormatOptions_dataSize setCameraFormatOptions_dataFromBuffer
  setCameraFormatOptions_dataToBuffer setCameraFormatOptions_enc setCameraFormatOptions_withData
  by unfold_locales (fact setCameraFormatOptions_size setCameraFormatOptions_small setCameraFormatOptions_to setCameraFormatOptions_from)+

section \<open>ConfirmEventRequestMessage\<close>

record ConfirmEventRequestMessage = JausHeader +
  confirmEventRequest_presenceVector :: u8
  confirmEventRequest_requestId :: u8
  confirmEventRequest_messageCode :: u16
  confirmEventRequest_eventId :: u8
  confirmEventRequest_confirmedUpdateRate :: real
  confirmEventRequest_responseCode :: u8

definition confirmEventRequest_dataInitialize ::
    "ConfirmEventRequestMessage \<Rightarrow> ConfirmEventRequestMessage" where
  "confirmEventRequest_dataInitialize m =
     m\<lparr>confirmEventRequest_presenceVector := newJausByte JAUS_BYTE_PRESENCE_VECTOR_ALL_ON,
        confirmEventRequest_requestId := newJausByte 0,
        confirmEventRequest_messageCode := newJausUnsignedShort 0,
        confirmEventRequest_eventId := newJausByte 0,
        confirmEventRequest_confirmedUpdateRate := 0,
        confirmEventRequest_responseCode := newJausByte 0\<rparr>"

definition confirmEventRequest_dataSize :: "ConfirmEventRequestMessage \<Rightarrow> u32" where
  "confirmEventRequest_dataSize m =
     (1 +
      1 +
      2 +
      1 +
      (if jausByteIsBitSet (confirmEventRequest_presenceVector m) CONFIRM_EVENT_REQUEST_PV_PERIODIC_RATE_BIT = Some True then 2 else 0) +
      1)"

definition confirmEventRequest_dataFromBuffer ::
    "ConfirmEventRequestMessage \<Rightarrow> bytes \<Rightarrow> nat \<Rightarrow> u32 \<Rightarrow> (bool \<times> ConfirmEventRequestMessage) exec" where
  "confirmEventRequest_dataFromBuffer m buffer off n =
     (if n = dataSize m then finishR (runStmts
        [getByte (\<lambda>v m. m\<lparr>confirmEventRequest_presenceVector := v\<rparr>) buffer off n,
         getByte (\<lambda>v m. m\<lparr>confirmEventRequest_requestId := v\<rparr>) buffer off n,
         getUShort (\<lambda>v m. m\<lparr>confirmEventRequest_messageCode := v\<rparr>) buffer off n,
         getByte (\<lambda>v m. m\<lparr>confirmEventRequest_eventId := v\<rparr>) buffer off n,
         whenS (\<lambda>(i, m). jausByteIsBitSet (confirmEventRequest_presenceVector m) CONFIRM_EVENT_REQUEST_PV_PERIODIC_RATE_BIT)
           [getUShort (\<lambda>v m. m\<lparr>confirmEventRequest_confirmedUpdateRate := jausUnsignedShortToDouble v 0 1092\<rparr>) buffer off n],
         getByte (\<lambda>v m. m\<lparr>confirmEventRequest_responseCode := v\<rparr>) buffer off n] (0, m))
      else Some (False, m))"

definition confirmEventRequest_dataToBuffer ::
    "ConfirmEventRequestMessage \<Rightarrow> bytes \<Rightarrow> nat \<Rightarrow> u32 \<Rightarrow> (nat \<times> bytes) exec" where
  "confirmEventRequest_dataToBuffer m buffer off n =
     (if confirmEventRequest_dataSize m \<le> n then finishW (runStmts
        [putByte (Some (confirmEventRequest_presenceVector m)) off n,
         putByte (Some (confirmEventRequest_requestId m)) off n,
         putUShort (Some (confirmEventRequest_messageCode m)) off n,
         putByte (Some (confirmEventRequest_eventId m)) off n,
         whenS (\<lambda>_. jausByteIsBitSet (confirmEventRequest_presenceVector m) CONFIRM_EVENT_REQUEST_PV_PERIODIC_RATE_BIT)
           [putUShort (jausUnsignedShortFromDouble (confirmEventRequest_confirmedUpdateRate m) 0 1092) off n],
         putByte (Some (confirmEventRequest_responseCode m)) off n] (0, buffer))
      else Some (0, buffer))"

definition confirmEventRequestMessageCreate :: ConfirmEventRequestMessage where
  "confirmEventRequestMessageCreate =
     (let m = confirmEventRequest_dataInitialize (JausHeader.extend (blankHeader JAUS_CONFIRM_EVENT_REQUEST 8)
        (ConfirmEventRequestMessage.fields 0 0 0 0 0 0))
      in m\<lparr>dataSize := confirmEventRequest_dataSize m\<rparr>)"

definition confirmEventRequestMessageFromBuffer ::
    "ConfirmEventRequestMessage \<Rightarrow> bytes \<Rightarrow> u32 \<Rightarrow> (bool \<times> ConfirmEventRequestMessage) exec" where
  "confirmEventRequestMessageFromBuffer =
     messageFromBuffer confirmEventRequest_dataFromBuffer"

definition confirmEventRequestMessageSize :: "ConfirmEventRequestMessage \<Rightarrow> u32" where
  "confirmEventRequestMessageSize = messageSize confirmEventRequest_dataSize"

definition confirmEventRequestMessageToBuffer ::
    "ConfirmEventRequestMessage \<Rightarrow> bytes \<Rightarrow> u32 \<Rightarrow> (bool \<times> ConfirmEventRequestMessage \<times> bytes) exec" where
  "confirmEventRequestMessageToBuffer =
     messageToBuffer confirmEventRequest_dataSize confirmEventRequest_dataToBuffer"

definition confirmEventRequestMessageFromJausMessage ::
    "ConfirmEventRequestMessage \<Rightarrow> JausMessage \<Rightarrow> ConfirmEventRequestMessage option exec" where
  "confirmEventRequestMessageFromJausMessage =
     messageFromJausMessage JAUS_CONFIRM_EVENT_REQUEST confirmEventRequest_dataFromBuffer"

definition confirmEventRequestMessageToJausMessage ::
    "ConfirmEventRequestMessage \<Rightarrow> JausMessage exec" where
  "confirmEventRequestMessageToJausMessage =
     messageToJausMessage confirmEventRequest_dataSize confirmEventRequest_dataToBuffer"

definition confirmEventRequest_enc :: "ConfirmEventRequestMessage \<Rightarrow> bytes" where
  "confirmEventRequest_enc m =
     [confirmEventRequest_presenceVector m] @
     [confirmEventRequest_requestId m] @
     bytesOfWord 2 (confirmEventRequest_messageCode m) @
     [confirmEventRequest_eventId m] @
     (if bit (confirmEventRequest_presenceVector m) (nat CONFIRM_EVENT_REQUEST_PV_PERIODIC_RATE_BIT) then bytesOfWord 2 (the (jausUnsignedShortFromDouble (confirmEventRequest_confirmedUpdateRate m) 0 1092)) else []) @
     [confirmEventRequest_responseCode m]"

definition confirmEventRequest_withData :: "ConfirmEventRequestMessage \<Rightarrow> ConfirmEventRequestMessage \<Rightarrow> ConfirmEventRequestMessage" where
  "confirmEventRequest_withData m0 m =
     (onlyIf (bit (confirmEventRequest_presenceVector m) (nat CONFIRM_EVENT_REQUEST_PV_PERIODIC_RATE_BIT))
       (\<lambda>x. x\<lparr>confirmEventRequest_confirmedUpdateRate := jausUnsignedShortToDouble (the (jausUnsignedShortFromDouble (confirmEventRequest_confirmedUpdateRate m) 0 1092)) 0 1092\<rparr>)
       (m0\<lparr>confirmEventRequest_presenceVector := confirmEventRequest_presenceVector m,
        confirmEventRequest_requestId := confirmEventRequest_requestId m,
        confirmEventRequest_messageCode := confirmEventRequest_messageCode m,
        confirmEventRequest_eventId := confirmEventRequest_eventId m\<rparr>))\<lparr>confirmEventRequest_responseCode := confirmEventRequest_responseCode m\<rparr>"

lemma confirmEventRequest_size: "confirmEventRequest_dataSize m = of_nat (length (confirmEventRequest_enc m))"
  by (simp add: confirmEventRequest_dataSize_def confirmEventRequest_enc_def codec_simps length_if of_nat_if)

lemma confirmEventRequest_small: "length (confirmEventRequest_enc m) < 4096"
  unfolding confirmEventRequest_enc_def by (rule enc_small, (rule length_bounds)+, simp)

lemma confirmEventRequest_to:
  assumes "off + length (confirmEventRequest_enc m) \<le> length buf" "length (confirmEventRequest_enc m) \<le> unat n"
  shows "confirmEventRequest_dataToBuffer m buf off n =
    Some (length (confirmEventRequest_enc m), take off buf @ confirmEventRequest_enc m @ drop (off + length (confirmEventRequest_enc m)) buf)"
  unfolding confirmEventRequest_dataToBuffer_def
  by (rule to_lawI [OF _ confirmEventRequest_size assms], unfold confirmEventRequest_enc_def,
      (rule writes_intros refl | rule writes_Cons | (rule FromDouble_total, simp)
        | simp add: codec_simps)+)

lemma confirmEventRequest_from:
  assumes "dataSize m0 = confirmEventRequest_dataSize m"
  shows "confirmEventRequest_dataFromBuffer m0 (pre @ confirmEventRequest_enc m @ post) (length pre) (confirmEventRequest_dataSize m) = Some (True, confirmEventRequest_withData m0 m)"
proof -
  have n: "unat (confirmEventRequest_dataSize m) = length (confirmEventRequest_enc m)"
    using confirmEventRequest_small [of m] by (simp add: confirmEventRequest_size unat_of_nat_lt)
  show ?thesis
    unfolding confirmEventRequest_dataFromBuffer_def confirmEventRequest_withData_def
    by (rule from_lawI [where D = "confirmEventRequest_enc m"], unfold confirmEventRequest_enc_def,
        (rule parses_intros refl n [unfolded confirmEventRequest_enc_def] assms [symmetric] | rule parses_Cons
          | simp add: codec_simps onlyIf_def if_distrib [of confirmEventRequest_presenceVector])+)
qed

interpretation confirmEventRequest: typed_message confirmEventRequest_dataSize confirmEventRequest_dataFromBuffer
  confirmEventRequest_dataToBuffer confirmEventRequest_enc confirmEventRequest_withData
  by unfold_locales (fact confirmEventRequest_size confirmEventRequest_small confirmEventRequest_to confirmEventRequest_from)+

section \<open>SetEndEffectorPoseMessage\<close>

record SetEndEffectorPoseMessage = JausHeader +
  setEndEffectorPose_x :: real
  setEndEffectorPose_y :: real
  setEndEffectorPose_z :: real
  setEndEffectorPose_a :: real
  setEndEffectorPose_b :: real
  setEndEffectorPose_c :: real
  setEndEffectorPose_d :: real

definition setEndEffectorPose_dataInitialize ::
    "SetEndEffectorPoseMessage \<Rightarrow> SetEndEffectorPoseMessage" where
  "setEndEffectorPose_dataInitialize m =
     m\<lparr>setEndEffectorPose_x := 0,
        setEndEffectorPose_y := 0,
        setEndEffectorPose_z := 0,
        setEndEffectorPose_a := 0,
        setEndEffectorPose_b := 0,
        setEndEffectorPose_c := 0,
        setEndEffectorPose_d := 0\<rparr>"

definition setEndEffectorPose_dataSize :: "SetEndEffectorPoseMessage \<Rightarrow> u32" where
  "setEndEffectorPose_dataSize m =
     28"

definition setEndEffectorPose_dataFromBuffer ::
    "SetEndEffectorPoseMessage \<Rightarrow> bytes \<Rightarrow> nat \<Rightarrow> u32 \<Rightarrow> (bool \<times> SetEndEffectorPoseMessage) exec" where
  "setEndEffectorPose_dataFromBuffer m buffer off n =
     (if n = dataSize m then finishR (runStmts
        [getUInteger (\<lambda>v m. m\<lparr>setEndEffectorPose_x := jausUnsignedIntegerToDouble v (- 30) 30\<rparr>) buffer off n,
         getUInteger (\<lambda>v m. m\<lparr>setEndEffectorPose_y := jausUnsignedIntegerToDouble v (- 30) 30\<rparr>) buffer off n,
         getUInteger (\<lambda>v m. m\<lparr>setEndEffectorPose_z := jausUnsignedIntegerToDouble v (- 30) 30\<rparr>) buffer off n,
         getUInteger (\<lambda>v m. m\<lparr>setEndEffectorPose_d := jausUnsignedIntegerToDouble v (- 1) 1\<rparr>) buffer off n,
         getUInteger (\<lambda>v m. m\<lparr>setEndEffectorPose_a := jausUnsignedIntegerToDouble v (- 1) 1\<rparr>) buffer off n,
         getUInteger (\<lambda>v m. m\<lparr>setEndEffectorPose_b := jausUnsignedIntegerToDouble v (- 1) 1\<rparr>) buffer off n,
         getUInteger (\<lambda>v m. m\<lparr>setEndEffectorPose_c := jausUnsignedIntegerToDouble v (- 1) 1\<rparr>) buffer off n] (0, m))
      else Some (False, m))"

definition setEndEffectorPose_dataToBuffer ::
    "SetEndEffectorPoseMessage \<Rightarrow> bytes \<Rightarrow> nat \<Rightarrow> u32 \<Rightarrow> (nat \<times> bytes) exec" where
  "setEndEffectorPose_dataToBuffer m buffer off n =
     (if setEndEffectorPose_dataSize m \<le> n then finishW (runStmts
        [putUInteger (jausUnsignedIntegerFromDouble (setEndEffectorPose_x m) (- 30) 30) off n,
         putUInteger (jausUnsignedIntegerFromDouble (setEndEffectorPose_y m) (- 30) 30) off n,
         putUInteger (jausUnsignedIntegerFromDouble (setEndEffectorPose_z m) (- 30) 30) off n,
         putUInteger (jausUnsignedIntegerFromDouble (setEndEffectorPose_d m) (- 1) 1) off n,
         putUInteger (jausUnsignedIntegerFromDouble (setEndEffectorPose_a m) (- 1) 1) off n,
         putUInteger (jausUnsignedIntegerFromDouble (setEndEffectorPose_b m) (- 1) 1) off n,
         putUInteger (jausUnsignedIntegerFromDouble (setEndEffectorPose_c m) (- 1) 1) off n] (0, buffer))
      else Some (0, buffer))"

definition setEndEffectorPoseMessageCreate :: SetEndEffectorPoseMessage where
  "setEndEffectorPoseMessageCreate =
     (let m = setEndEffectorPose_dataInitialize (JausHeader.extend (blankHeader JAUS_SET_END_EFFECTOR_POSE 28)
        (SetEndEffectorPoseMessage.fields 0 0 0 0 0 0 0))
      in m\<lparr>dataSize := setEndEffectorPose_dataSize m\<rparr>)"

definition setEndEffectorPoseMessageFromBuffer ::
    "SetEndEffectorPoseMessage \<Rightarrow> bytes \<Rightarrow> u32 \<Rightarrow> (bool \<times> SetEndEffectorPoseMessage) exec" where
  "setEndEffectorPoseMessageFromBuffer =
     messageFromBuffer setEndEffectorPose_dataFromBuffer"

definition setEndEffectorPoseMessageSize :: "SetEndEffectorPoseMessage \<Rightarrow> u32" where
  "setEndEffectorPoseMessageSize = messageSize setEndEffectorPose_dataSize"

definition setEndEffectorPoseMessageToBuffer ::
    "SetEndEffectorPoseMessage \<Rightarrow> bytes \<Rightarrow> u32 \<Rightarrow> (bool \<times> SetEndEffectorPoseMessage \<times> bytes) exec" where
  "setEndEffectorPoseMessageToBuffer =
     messageToBuffer setEndEffectorPose_dataSize setEndEffectorPose_dataToBuffer"

definition setEndEffectorPoseMessageFromJausMessage ::
    "SetEndEffectorPoseMessage \<Rightarrow> JausMessage \<Rightarrow> SetEndEffectorPoseMessage option exec" where
  "setEndEffectorPoseMessageFromJausMessage =
     messageFromJausMessage JAUS_SET_END_EFFECTOR_POSE setEndEffectorPose_dataFromBuffer"

definition setEndEffectorPoseMessageToJausMessage ::
    "SetEndEffectorPoseMessage \<Rightarrow> JausMessage exec" where
  "setEndEffectorPoseMessageToJausMessage =
     messageToJausMessage setEndEffectorPose_dataSize setEndEffectorPose_dataToBuffer"

definition setEndEffectorPose_enc :: "SetEndEffectorPoseMessage \<Rightarrow> bytes" where
  "setEndEffectorPose_enc m =
     bytesOfWord 4 (the (jausUnsignedIntegerFromDouble (setEndEffectorPose_x m) (- 30) 30)) @
     bytesOfWord 4 (the (jausUnsignedIntegerFromDouble (setEndEffectorPose_y m) (- 30) 30)) @
     bytesOfWord 4 (the (jausUnsignedIntegerFromDouble (setEndEffectorPose_z m) (- 30) 30)) @
     bytesOfWord 4 (the (jausUnsignedIntegerFromDouble (setEndEffectorPose_d m) (- 1) 1)) @
     bytesOfWord 4 (the (jausUnsignedIntegerFromDouble (setEndEffectorPose_a m) (- 1) 1)) @
     bytesOfWord 4 (the (jausUnsignedIntegerFromDouble (setEndEffectorPose_b m) (- 1) 1)) @
     bytesOfWord 4 (the (jausUnsignedIntegerFromDouble (setEndEffectorPose_c m) (- 1) 1))"

definition setEndEffectorPose_withData :: "SetEndEffectorPoseMessage \<Rightarrow> SetEndEffectorPoseMessage \<Rightarrow> SetEndEffectorPoseMessage" where
  "setEndEffectorPose_withData m0 m =
     m0\<lparr>setEndEffectorPose_x := jausUnsignedIntegerToDouble (the (jausUnsignedIntegerFromDouble (setEndEffectorPose_x m) (- 30) 30)) (- 30) 30,
        setEndEffectorPose_y := jausUnsignedIntegerToDouble (the (jausUnsignedIntegerFromDouble (setEndEffectorPose_y m) (- 30) 30)) (- 30) 30,
        setEndEffectorPose_z := jausUnsignedIntegerToDouble (the (jausUnsignedIntegerFromDouble (setEndEffectorPose_z m) (- 30) 30)) (- 30) 30,
        setEndEffectorPose_d := jausUnsignedIntegerToDouble (the (jausUnsignedIntegerFromDouble (setEndEffectorPose_d m) (- 1) 1)) (- 1) 1,
        setEndEffectorPose_a := jausUnsignedIntegerToDouble (the (jausUnsignedIntegerFromDouble (setEndEffectorPose_a m) (- 1) 1)) (- 1) 1,
        setEndEffectorPose_b := jausUnsignedIntegerToDouble (the (jausUnsignedIntegerFromDouble (setEndEffectorPose_b m) (- 1) 1)) (- 1) 1,
        setEndEffectorPose_c := jausUnsignedIntegerToDouble (the (jausUnsignedIntegerFromDouble (setEndEffectorPose_c m) (- 1) 1)) (- 1) 1\<rparr>"

lemma setEndEffectorPose_size: "setEndEffectorPose_dataSize m = of_nat (length (setEndEffectorPose_enc m))"
  by (simp add: setEndEffectorPose_dataSize_def setEndEffectorPose_enc_def)

lemma setEndEffectorPose_small: "length (setEndEffectorPose_enc m) < 4096"
  unfolding setEndEffectorPose_enc_def by (rule enc_small, (rule length_bounds)+, simp)

lemma setEndEffectorPose_to:
  assumes "off + length (setEndEffectorPose_enc m) \<le> length buf" "length (setEndEffectorPose_enc m) \<le> unat n"
  shows "setEndEffectorPose_dataToBuffer m buf off n =
    Some (length (setEndEffectorPose_enc m), take off buf @ setEndEffectorPose_enc m @ drop (off + length (setEndEffectorPose_enc m)) buf)"
  unfolding setEndEffectorPose_dataToBuffer_def
  by (rule to_lawI [OF _ setEndEffectorPose_size assms], unfold setEndEffectorPose_enc_def,
      (rule writes_intros refl | rule writes_Cons | (rule FromDouble_total, simp)
        | simp add: codec_simps)+)

lemma setEndEffectorPose_from:
  assumes "dataSize m0 = setEndEffectorPose_dataSize m"
  shows "setEndEffectorPose_dataFromBuffer m0 (pre @ setEndEffectorPose_enc m @ post) (length pre) (setEndEffectorPose_dataSize m) = Some (True, setEndEffectorPose_withData m0 m)"
proof -
  have n: "unat (setEndEffectorPose_dataSize m) = length (setEndEffectorPose_enc m)"
    using setEndEffectorPose_small [of m] by (simp add: setEndEffectorPose_size unat_of_nat_lt)
  show ?thesis
    unfolding setEndEffectorPose_dataFromBuffer_def setEndEffectorPose_withData_def
    by (rule from_lawI [where D = "setEndEffectorPose_enc m"], unfold setEndEffectorPose_enc_def,
        (rule parses_intros refl n [unfolded setEndEffectorPose_enc_def] assms [symmetric] | rule parses_Cons
          | simp add: codec_simps)+)
qed

interpretation setEndEffectorPose: typed_message setEndEffectorPose_dataSize setEndEffectorPose_dataFromBuffer
  setEndEffectorPose_dataToBuffer setEndEffectorPose_enc setEndEffectorPose_withData
  by unfold_locales (fact setEndEffectorPose_size setEndEffectorPose_small setEndEffectorPose_to setEndEffectorPose_from)+

section \<open>SetEndEffectorVelocityStateMessage\<close>

record SetEndEffectorVelocityStateMessage = JausHeader +
  setEndEffectorVelocityState_coordinateSystem :: u8
  setEndEffectorVelocityState_xAngular :: real
  setEndEffectorVelocityState_yAngular :: real
  setEndEffectorVelocityState_zAngular :: real
  setEndEffectorVelocityState_xLinear :: real
  setEndEffectorVelocityState_yLinear :: real
  setEndEffectorVelocityState_zLinear :: real

definition setEndEffectorVelocityState_dataInitialize ::
    "SetEndEffectorVelocityStateMessage \<Rightarrow> SetEndEffectorVelocityStateMessage" where
  "setEndEffectorVelocityState_dataInitialize m =
     m\<lparr>setEndEffectorVelocityState_coordinateSystem := newJausByte 0,
        setEndEffectorVelocityState_xAngular := 0,
        setEndEffectorVelocityState_yAngular := 0,
        setEndEffectorVelocityState_zAngular := 0,
        setEndEffectorVelocityState_xLinear := 0,
        setEndEffectorVelocityState_yLinear := 0,
        setEndEffectorVelocityState_zLinear := 0\<rparr>"

definition setEndEffectorVelocityState_dataSize :: "SetEndEffectorVelocityStateMessage \<Rightarrow> u32" where
  "setEndEffectorVelocityState_dataSize m =
     25"

definition setEndEffectorVelocityState_dataFromBuffer ::
    "SetEndEffectorVelocityStateMessage \<Rightarrow> bytes \<Rightarrow> nat \<Rightarrow> u32 \<Rightarrow> (bool \<times> SetEndEffectorVelocityStateMessage) exec" where
  "setEndEffectorVelocityState_dataFromBuffer m buffer off n =
     (if n = dataSize m then finishR (runStmts
        [getByte (\<lambda>v m. m\<lparr>setEndEffectorVelocityState_coordinateSystem := v\<rparr>) buffer off n,
         getUInteger (\<lambda>v m. m\<lparr>setEndEffectorVelocityState_xAngular := jausUnsignedIntegerToDouble v (- (20 * JAUS_PI)) (20 * JAUS_PI)\<rparr>) buffer off n,
         getUInteger (\<lambda>v m. m\<lparr>setEndEffectorVelocityState_yAngular := jausUnsignedIntegerToDouble v (- (20 * JAUS_PI)) (20 * JAUS_PI)\<rparr>) buffer off n,
         getUInteger (\<lambda>v m. m\<lparr>setEndEffectorVelocityState_zAngular := jausUnsignedIntegerToDouble v (- (20 * JAUS_PI)) (20 * JAUS_PI)\<rparr>) buffer off n,
         getUInteger (\<lambda>v m. m\<lparr>setEndEffectorVelocityState_xLinear := jausUnsignedIntegerToDouble v (- 10) 10\<rparr>) buffer off n,
         getUInteger (\<lambda>v m. m\<lparr>setEndEffectorVelocityState_yLinear := jausUnsignedIntegerToDouble v (- 10) 10\<rparr>) buffer off n,
         getUInteger (\<lambda>v m. m\<lparr>setEndEffectorVelocityState_zLinear := jausUnsignedIntegerToDouble v (- 10) 10\<rparr>) buffer off n] (0, m))
      else Some (False, m))"

definition setEndEffectorVelocityState_dataToBuffer ::
    "SetEndEffectorVelocityStateMessage \<Rightarrow> bytes \<Rightarrow> nat \<Rightarrow> u32 \<Rightarrow> (nat \<times> bytes) exec" where
  "setEndEffectorVelocityState_dataToBuffer m buffer off n =
     (if setEndEffectorVelocityState_dataSize m \<le> n then finishW (runStmts
        [putByte (Some (setEndEffectorVelocityState_coordinateSystem m)) off n,
         putUInteger (jausUnsignedIntegerFromDouble (setEndEffectorVelocityState_xAngular m) (- (20 * JAUS_PI)) (20 * JAUS_PI)) off n,
         putUInteger (jausUnsignedIntegerFromDouble (setEndEffectorVelocityState_yAngular m) (- (20 * JAUS_PI)) (20 * JAUS_PI)) off n,
         putUInteger (jausUnsignedIntegerFromDouble (setEndEffectorVelocityState_zAngular m) (- (20 * JAUS_PI)) (20 * JAUS_PI)) off n,
         putUInteger (jausUnsignedIntegerFromDouble (setEndEffectorVelocityState_xLinear m) (- 10) 10) off n,
         putUInteger (jausUnsignedIntegerFromDouble (setEndEffectorVelocityState_yLinear m) (- 10) 10) off n,
         putUInteger (jausUnsignedIntegerFromDouble (setEndEffectorVelocityState_zLinear m) (- 10) 10) off n] (0, buffer))
      else Some (0, buffer))"

definition setEndEffectorVelocityStateMessageCreate :: SetEndEffectorVelocityStateMessage where
  "setEndEffectorVelocityStateMessageCreate =
     (let m = setEndEffectorVelocityState_dataInitialize (JausHeader.extend (blankHeader JAUS_SET_END_EFFECTOR_VELOCITY_STATE 25)
        (SetEndEffectorVelocityStateMessage.fields 0 0 0 0 0 0 0))
      in m\<lparr>dataSize := setEndEffectorVelocityState_dataSize m\<rparr>)"

definition setEndEffectorVelocityStateMessageFromBuffer ::
    "SetEndEffectorVelocityStateMessage \<Rightarrow> bytes \<Rightarrow> u32 \<Rightarrow> (bool \<times> SetEndEffectorVelocityStateMessage) exec" where
  "setEndEffectorVelocityStateMessageFromBuffer =
     messageFromBuffer setEndEffectorVelocityState_dataFromBuffer"

definition setEndEffectorVelocityStateMessageSize :: "SetEndEffectorVelocityStateMessage \<Rightarrow> u32" where
  "setEndEffectorVelocityStateMessageSize = messageSize setEndEffectorVelocityState_dataSize"

definition setEndEffectorVelocityStateMessageToBuffer ::
    "SetEndEffectorVelocityStateMessage \<Rightarrow> bytes \<Rightarrow> u32 \<Rightarrow> (bool \<times> SetEndEffectorVelocityStateMessage \<times> bytes) exec" where
  "setEndEffectorVelocityStateMessageToBuffer =
     messageToBuffer setEndEffectorVelocityState_dataSize setEndEffectorVelocityState_dataToBuffer"

definition setEndEffectorVelocityStateMessageFromJausMessage ::
    "SetEndEffectorVelocityStateMessage \<Rightarrow> JausMessage \<Rightarrow> SetEndEffectorVelocityStateMessage option exec" where
  "setEndEffectorVelocityStateMessageFromJausMessage =
     messageFromJausMessage JAUS_SET_END_EFFECTOR_VELOCITY_STATE setEndEffectorVelocityState_dataFromBuffer"

definition setEndEffectorVelocityStateMessageToJausMessage ::
    "SetEndEffectorVelocityStateMessage \<Rightarrow> JausMessage exec" where
  "setEndEffectorVelocityStateMessageToJausMessage =
     messageToJausMessage setEndEffectorVelocityState_dataSize setEndEffectorVelocityState_dataToBuffer"

definition setEndEffectorVelocityState_enc :: "SetEndEffectorVelocityStateMessage \<Rightarrow> bytes" where
  "setEndEffectorVelocityState_enc m =
     [setEndEffectorVelocityState_coordinateSystem m] @
     bytesOfWord 4 (the (jausUnsignedIntegerFromDouble (setEndEffectorVelocityState_xAngular m) (- (20 * JAUS_PI)) (20 * JAUS_PI))) @
     bytesOfWord 4 (the (jausUnsignedIntegerFromDouble (setEndEffectorVelocityState_yAngular m) (- (20 * JAUS_PI)) (20 * JAUS_PI))) @
     bytesOfWord 4 (the (jausUnsignedIntegerFromDouble (setEndEffectorVelocityState_zAngular m) (- (20 * JAUS_PI)) (20 * JAUS_PI))) @
     bytesOfWord 4 (the (jausUnsignedIntegerFromDouble (setEndEffectorVelocityState_xLinear m) (- 10) 10)) @
     bytesOfWord 4 (the (jausUnsignedIntegerFromDouble (setEndEffectorVelocityState_yLinear m) (- 10) 10)) @
     bytesOfWord 4 (the (jausUnsignedIntegerFromDouble (setEndEffectorVelocityState_zLinear m) (- 10) 10))"

definition setEndEffectorVelocityState_withData :: "SetEndEffectorVelocityStateMessage \<Rightarrow> SetEndEffectorVelocityStateMessage \<Rightarrow> SetEndEffectorVelocityStateMessage" where
  "setEndEffectorVelocityState_withData m0 m =
     m0\<lparr>setEndEffectorVelocityState_coordinateSystem := setEndEffectorVelocityState_coordinateSystem m,
        setEndEffectorVelocityState_xAngular := jausUnsignedIntegerToDouble (the (jausUnsignedIntegerFromDouble (setEndEffectorVelocityState_xAngular m) (- (20 * JAUS_PI)) (20 * JAUS_PI))) (- (20 * JAUS_PI)) (20 * JAUS_PI),
        setEndEffectorVelocityState_yAngular := jausUnsignedIntegerToDouble (the (jausUnsignedIntegerFromDouble (setEndEffectorVelocityState_yAngular m) (- (20 * JAUS_PI)) (20 * JAUS_PI))) (- (20 * JAUS_PI)) (20 * JAUS_PI),
        setEndEffectorVelocityState_zAngular := jausUnsignedIntegerToDouble (the (jausUnsignedIntegerFromDouble (setEndEffectorVelocityState_zAngular m) (- (20 * JAUS_PI)) (20 * JAUS_PI))) (- (20 * JAUS_PI)) (20 * JAUS_PI),
        setEndEffectorVelocityState_xLinear := jausUnsignedIntegerToDouble (the (jausUnsignedIntegerFromDouble (setEndEffectorVelocityState_xLinear m) (- 10) 10)) (- 10) 10,
        setEndEffectorVelocityState_yLinear := jausUnsignedIntegerToDouble (the (jausUnsignedIntegerFromDouble (setEndEffectorVelocityState_yLinear m) (- 10) 10)) (- 10) 10,
        setEndEffectorVelocityState_zLinear := jausUnsignedIntegerToDouble (the (jausUnsignedIntegerFromDouble (setEndEffectorVelocityState_zLinear m) (- 10) 10)) (- 10) 10\<rparr>"

lemma setEndEffectorVelocityState_size: "setEndEffectorVelocityState_dataSize m = of_nat (length (setEndEffectorVelocityState_enc m))"
  by (simp add: setEndEffectorVelocityState_dataSize_def setEndEffectorVelocityState_enc_def)

lemma setEndEffectorVelocityState_small: "length (setEndEffectorVelocityState_enc m) < 4096"
  unfolding setEndEffectorVelocityState_enc_def by (rule enc_small, (rule length_bounds)+, simp)

lemma setEndEffectorVelocityState_to:
  assumes "off + length (setEndEffectorVelocityState_enc m) \<le> length buf" "length (setEndEffectorVelocityState_enc m) \<le> unat n"
  shows "setEndEffectorVelocityState_dataToBuffer m buf off n =
    Some (length (setEndEffectorVelocityState_enc m), take off buf @ setEndEffectorVelocityState_enc m @ drop (off + length (setEndEffectorVelocityState_enc m)) buf)"
  unfolding setEndEffectorVelocityState_dataToBuffer_def
  by (rule to_lawI [OF _ setEndEffectorVelocityState_size assms], unfold setEndEffectorVelocityState_enc_def,
      (rule writes_intros refl | rule writes_Cons | (rule FromDouble_total, simp)
        | simp add: codec_simps)+)

lemma setEndEffectorVelocityState_from:
  assumes "dataSize m0 = setEndEffectorVelocityState_dataSize m"
  shows "setEndEffectorVelocityState_dataFromBuffer m0 (pre @ setEndEffectorVelocityState_enc m @ post) (length pre) (setEndEffectorVelocityState_dataSize m) = Some (True, setEndEffectorVelocityState_withData m0 m)"
proof -
  have n: "unat (setEndEffectorVelocityState_dataSize m) = length (setEndEffectorVelocityState_enc m)"
    using setEndEffectorVelocityState_small [of m] by (simp add: setEndEffectorVelocityState_size unat_of_nat_lt)
  show ?thesis
    unfolding setEndEffectorVelocityState_dataFromBuffer_def setEndEffectorVelocityState_withData_def
    by (rule from_lawI [where D = "setEndEffectorVelocityState_enc m"], unfold setEndEffectorVelocityState_enc_def,
        (rule parses_intros refl n [unfolded setEndEffectorVelocityState_enc_def] assms [symmetric] | rule parses_Cons
          | simp add: codec_simps)+)
qed

interpretation setEndEffectorVelocityState: typed_message setEndEffectorVelocityState_dataSize setEndEffectorVelocityState_dataFromBuffer
  setEndEffectorVelocityState_dataToBuffer setEndEffectorVelocityState_enc setEndEffectorVelocityState_withData
  by unfold_locales (fact setEndEffectorVelocityState_size setEndEffectorVelocityState_small setEndEffectorVelocityState_to setEndEffectorVelocityState_from)+

section \<open>SetToolPointMessage\<close>

record SetToolPointMessage = JausHeader +
  setToolPoint_x :: real
  setToolPoint_y :: real
  setToolPoint_z :: real

definition setToolPoint_dataInitialize ::
    "SetToolPointMessage \<Rightarrow> SetToolPointMessage" where
  "setToolPoint_dataInitialize m =
     m\<lparr>setToolPoint_x := 0,
        setToolPoint_y := 0,
        setToolPoint_z := 0\<rparr>"

definition setToolPoint_dataSize :: "SetToolPointMessage \<Rightarrow> u32" where
  "setToolPoint_dataSize m =
     12"

definition setToolPoint_dataFromBuffer ::
    "SetToolPointMessage \<Rightarrow> bytes \<Rightarrow> nat \<Rightarrow> u32 \<Rightarrow> (bool \<times> SetToolPointMessage) exec" where
  "setToolPoint_dataFromBuffer m buffer off n =
     (if n = dataSize m then finishR (runStmts
        [getUInteger (\<lambda>v m. m\<lparr>setToolPoint_x := jausUnsignedIntegerToDouble v (- 15) 15\<rparr>) buffer off n,
         getUInteger (\<lambda>v m. m\<lparr>setToolPoint_y := jausUnsignedIntegerToDouble v (- 15) 15\<rparr>) buffer off n,
         getUInteger (\<lambda>v m. m\<lparr>setToolPoint_z := jausUnsignedIntegerToDouble v (- 15) 15\<rparr>) buffer off n] (0, m))
      else Some (False, m))"

definition setToolPoint_dataToBuffer ::
    "SetToolPointMessage \<Rightarrow> bytes \<Rightarrow> nat \<Rightarrow> u32 \<Rightarrow> (nat \<times> bytes) exec" where
  "setToolPoint_dataToBuffer m buffer off n =
     (if setToolPoint_dataSize m \<le> n then finishW (runStmts
        [putUInteger (jausUnsignedIntegerFromDouble (setToolPoint_x m) (- 15) 15) off n,
         putUInteger (jausUnsignedIntegerFromDouble (setToolPoint_y m) (- 15) 15) off n,
         putUInteger (jausUnsignedIntegerFromDouble (setToolPoint_z m) (- 15) 15) off n] (0, buffer))
      else Some (0, buffer))"

definition setToolPointMessageCreate :: SetToolPointMessage where
  "setToolPointMessageCreate =
     (let m = setToolPoint_dataInitialize (JausHeader.extend (blankHeader JAUS_SET_TOOL_POINT 12)
        (SetToolPointMessage.fields 0 0 0))
      in m\<lparr>dataSize := setToolPoint_dataSize m\<rparr>)"

definition setToolPointMessageFromBuffer ::
    "SetToolPointMessage \<Rightarrow> bytes \<Rightarrow> u32 \<Rightarrow> (bool \<times> SetToolPointMessage) exec" where
  "setToolPointMessageFromBuffer =
     messageFromBuffer setToolPoint_dataFromBuffer"

definition setToolPointMessageSize :: "SetToolPointMessage \<Rightarrow> u32" where
  "setToolPointMessageSize = messageSize setToolPoint_dataSize"

definition setToolPointMessageToBuffer ::
    "SetToolPointMessage \<Rightarrow> bytes \<Rightarrow> u32 \<Rightarrow> (bool \<times> SetToolPointMessage \<times> bytes) exec" where
  "setToolPointMessageToBuffer =
     messageToBuffer setToolPoint_dataSize setToolPoint_dataToBuffer"

definition setToolPointMessageFromJausMessage ::
    "SetToolPointMessage \<Rightarrow> JausMessage \<Rightarrow> SetToolPointMessage option exec" where
  "setToolPointMessageFromJausMessage =
     messageFromJausMessage JAUS_SET_TOOL_POINT setToolPoint_dataFromBuffer"

definition setToolPointMessageToJausMessage ::
    "SetToolPointMessage \<Rightarrow> JausMessage exec" where
  "setToolPointMessageToJausMessage =
     messageToJausMessage setToolPoint_dataSize setToolPoint_dataToBuffer"

definition setToolPoint_enc :: "SetToolPointMessage \<Rightarrow> bytes" where
  "setToolPoint_enc m =
     bytesOfWord 4 (the (jausUnsignedIntegerFromDouble (setToolPoint_x m) (- 15) 15)) @
     bytesOfWord 4 (the (jausUnsignedIntegerFromDouble (setToolPoint_y m) (- 15) 15)) @
     bytesOfWord 4 (the (jausUnsignedIntegerFromDouble (setToolPoint_z m) (- 15) 15))"

definition setToolPoint_withData :: "SetToolPointMessage \<Rightarrow> SetToolPointMessage \<Rightarrow> SetToolPointMessage" where
  "setToolPoint_withData m0 m =
     m0\<lparr>setToolPoint_x := jausUnsignedIntegerToDouble (the (jausUnsignedIntegerFromDouble (setToolPoint_x m) (- 15) 15)) (- 15) 15,
        setToolPoint_y := jausUnsignedIntegerToDouble (the (jausUnsignedIntegerFromDouble (setToolPoint_y m) (- 15) 15)) (- 15) 15,
        setToolPoint_z := jausUnsignedIntegerToDouble (the (jausUnsignedIntegerFromDouble (setToolPoint_z m) (- 15) 15)) (- 15) 15\<rparr>"

lemma setToolPoint_size: "setToolPoint_dataSize m = of_nat (length (setToolPoint_enc m))"
  by (simp add: setToolPoint_dataSize_def setToolPoint_enc_def)

lemma setToolPoint_small: "length (setToolPoint_enc m) < 4096"
  unfolding setToolPoint_enc_def by (rule enc_small, (rule length_bounds)+, simp)

lemma setToolPoint_to:
  assumes "off + length (setToolPoint_enc m) \<le> length buf" "length (setToolPoint_enc m) \<le> unat n"
  shows "setToolPoint_dataToBuffer m buf off n =
    Some (length (setToolPoint_enc m), take off buf @ setToolPoint_enc m @ drop (off + length (setToolPoint_enc m)) buf)"
  unfolding setToolPoint_dataToBuffer_def
  by (rule to_lawI [OF _ setToolPoint_size assms], unfold setToolPoint_enc_def,
      (rule writes_intros refl | rule writes_Cons | (rule FromDouble_total, simp)
        | simp add: codec_simps)+)

lemma setToolPoint_from:
  assumes "dataSize m0 = setToolPoint_dataSize m"
  shows "setToolPoint_dataFromBuffer m0 (pre @ setToolPoint_enc m @ post) (length pre) (setToolPoint_dataSize m) = Some (True, setToolPoint_withData m0 m)"
proof -
  have n: "unat (setToolPoint_dataSize m) = length (setToolPoint_enc m)"
    using setToolPoint_small [of m] by (simp add: setToolPoint_size unat_of_nat_lt)
  show ?thesis
    unfolding setToolPoint_dataFromBuffer_def setToolPoint_withData_def
    by (rule from_lawI [where D = "setToolPoint_enc m"], unfold setToolPoint_enc_def,
        (rule parses_intros refl n [unfolded setToolPoint_enc_def] assms [symmetric] | rule parses_Cons
          | simp add: codec_simps)+)
qed

interpretation setToolPoint: typed_message setToolPoint_dataSize setToolPoint_dataFromBuffer
  setToolPoint_dataToBuffer setToolPoint_enc setToolPoint_withData
  by unfold_locales (fact setToolPoint_size setToolPoint_small setToolPoint_to setToolPoint_from)+

section \<open>AbortMissionMessage\<close>

record AbortMissionMessage = JausHeader +
  abortMission_missionId :: u16
  abortMission_taskId :: u16

definition abortMission_dataInitialize ::
    "AbortMissionMessage \<Rightarrow> AbortMissionMessage" where
  "abortMission_dataInitialize m =
     m\<lparr>abortMission_missionId := newJausUnsignedShort 0,
        abortMission_taskId := newJausUnsignedShort 0\<rparr>"

definition abortMission_dataSize :: "AbortMissionMessage \<Rightarrow> u32" where
  "abortMission_dataSize m =
     (2 +
      2)"

definition abortMission_dataFromBuffer ::
    "AbortMissionMessage \<Rightarrow> bytes \<Rightarrow> nat \<Rightarrow> u32 \<Rightarrow> (bool \<times> AbortMissionMessage) exec" where
  "abortMission_dataFromBuffer m buffer off n =
     (if n = dataSize m then finishR (runStmts
        [getUShort (\<lambda>v m. m\<lparr>abortMission_missionId := v\<rparr>) buffer off n,
         getUShort (\<lambda>v m. m\<lparr>abortMission_taskId := v\<rparr>) buffer off n] (0, m))
      else Some (False, m))"

definition abortMission_dataToBuffer ::
    "AbortMissionMessage \<Rightarrow> bytes \<Rightarrow> nat \<Rightarrow> u32 \<Rightarrow> (nat \<times> bytes) exec" where
  "abortMission_dataToBuffer m buffer off n =
     (if abortMission_dataSize m \<le> n then finishW (runStmts
        [putUShort (Some (abortMission_missionId m)) off n,
         putUShort (Some (abortMission_taskId m)) off n] (0, buffer))
      else Some (0, buffer))"

definition abortMissionMessageCreate :: AbortMissionMessage where
  "abortMissionMessageCreate =
     (let m = abortMission_dataInitialize (JausHeader.extend (blankHeader JAUS_ABORT_MISSION 0)
        (AbortMissionMessage.fields 0 0))
      in m\<lparr>dataSize := abortMission_dataSize m\<rparr>)"

definition abortMissionMessageFromBuffer ::
    "AbortMissionMessage \<Rightarrow> bytes \<Rightarrow> u32 \<Rightarrow> (bool \<times> AbortMissionMessage) exec" where
  "abortMissionMessageFromBuffer =
     messageFromBuffer abortMission_dataFromBuffer"

definition abortMissionMessageSize :: "AbortMissionMessage \<Rightarrow> u32" where
  "abortMissionMessageSize = messageSize abortMission_dataSize"

definition abortMissionMessageToBuffer ::
    "AbortMissionMessage \<Rightarrow> bytes \<Rightarrow> u32 \<Rightarrow> (bool \<times> AbortMissionMessage \<times> bytes) exec" where
  "abortMissionMessageToBuffer =
     messageToBuffer abortMission_dataSize abortMission_dataToBuffer"

definition abortMissionMessageFromJausMessage ::
    "AbortMissionMessage \<Rightarrow> JausMessage \<Rightarrow> AbortMissionMessage option exec" where
  "abortMissionMessageFromJausMessage =
     messageFromJausMessage JAUS_ABORT_MISSION abortMission_dataFromBuffer"

definition abortMissionMessageToJausMessage ::
    "AbortMissionMessage \<Rightarrow> JausMessage exec" where
  "abortMissionMessageToJausMessage =
     messageToJausMessage abortMission_dataSize abortMission_dataToBuffer"

definition abortMission_enc :: "AbortMissionMessage \<Rightarrow> bytes" where
  "abortMission_enc m =
     bytesOfWord 2 (abortMission_missionId m) @
     bytesOfWord 2 (abortMission_taskId m)"

definition abortMission_withData :: "AbortMissionMessage \<Rightarrow> AbortMissionMessage \<Rightarrow> AbortMissionMessage" where
  "abortMission_withData m0 m =
     m0\<lparr>abortMission_missionId := abortMission_missionId m,
        abortMission_taskId := abortMission_taskId m\<rparr>"

lemma abortMission_size: "abortMission_dataSize m = of_nat (length (abortMission_enc m))"
  by (simp add: abortMission_dataSize_def abortMission_enc_def)

lemma abortMission_small: "length (abortMission_enc m) < 4096"
  unfolding abortMission_enc_def by (rule enc_small, (rule length_bounds)+, simp)

lemma abortMission_to:
  assumes "off + length (abortMission_enc m) \<le> length buf" "length (abortMission_enc m) \<le> unat n"
  shows "abortMission_dataToBuffer m buf off n =
    Some (length (abortMission_enc m), take off buf @ abortMission_enc m @ drop (off + length (abortMission_enc m)) buf)"
  unfolding abortMission_dataToBuffer_def
  by (rule to_lawI [OF _ abortMission_size assms], unfold abortMission_enc_def,
      (rule writes_intros refl | rule writes_Cons | (rule FromDouble_total, simp)
        | simp add: codec_simps)+)

lemma abortMission_from:
  assumes "dataSize m0 = abortMission_dataSize m"
  shows "abortMission_dataFromBuffer m0 (pre @ abortMission_enc m @ post) (length pre) (abortMission_dataSize m) = Some (True, abortMission_withData m0 m)"
proof -
  have n: "unat (abortMission_dataSize m) = length (abortMission_enc m)"
    using abortMission_small [of m] by (simp add: abortMission_size unat_of_nat_lt)
  show ?thesis
    unfolding abortMission_dataFromBuffer_def abortMission_withData_def
    by (rule from_lawI [where D = "abortMission_enc m"], unfold abortMission_enc_def,
        (rule parses_intros refl n [unfolded abortMission_enc_def] assms [symmetric] | rule parses_Cons
          | simp add: codec_simps)+)
qed

interpretation abortMission: typed_message abortMission_dataSize abortMission_dataFromBuffer
  abortMission_dataToBuffer abortMission_enc abortMission_withData
  by unfold_locales (fact abortMission_size abortMission_small abortMission_to abortMission_from)+

section \<open>PauseMissionMessage\<close>

record PauseMissionMessage = JausHeader +
  pauseMission_missionId :: u16
  pauseMission_taskId :: u16

definition pauseMission_dataInitialize ::
    "PauseMissionMessage \<Rightarrow> PauseMissionMessage" where
  "pauseMission_dataInitialize m =
     m\<lparr>pauseMission_missionId := newJausUnsignedShort 0,
        pauseMission_taskId := newJausUnsignedShort 0\<rparr>"

definition pauseMission_dataSize :: "PauseMissionMessage \<Rightarrow> u32" where
  "pauseMission_dataSize m =
     (2 +
      2)"

definition pauseMission_dataFromBuffer ::
    "PauseMissionMessage \<Rightarrow> bytes \<Rightarrow> nat \<Rightarrow> u32 \<Rightarrow> (bool \<times> PauseMissionMessage) exec" where
  "pauseMission_dataFromBuffer m buffer off n =
     (if n = dataSize m then finishR (runStmts
        [getUShort (\<lambda>v m. m\<lparr>pauseMission_missionId := v\<rparr>) buffer off n,
         getUShort (\<lambda>v m. m\<lparr>pauseMission_taskId := v\<rparr>) buffer off n] (0, m))
      else Some (False, m))"

definition pauseMission_dataToBuffer ::
    "PauseMissionMessage \<Rightarrow> bytes \<Rightarrow> nat \<Rightarrow> u32 \<Rightarrow> (nat \<times> bytes) exec" where
  "pauseMission_dataToBuffer m buffer off n =
     (if pauseMission_dataSize m \<le> n then finishW (runStmts
        [putUShort (Some (pauseMission_missionId m)) off n,
         putUShort (Some (pauseMission_taskId m)) off n] (0, buffer))
      else Some (0, buffer))"

definition pauseMissionMessageCreate :: PauseMissionMessage where
  "pauseMissionMessageCreate =
     (let m = pauseMission_dataInitialize (JausHeader.extend (blankHeader JAUS_PAUSE_MISSION 0)
        (PauseMissionMessage.fields 0 0))
      in m\<lparr>dataSize := pauseMission_dataSize m\<rparr>)"

definition pauseMissionMessageFromBuffer ::
    "PauseMissionMessage \<Rightarrow> bytes \<Rightarrow> u32 \<Rightarrow> (bool \<times> PauseMissionMessage) exec" where
  "pauseMissionMessageFromBuffer =
     messageFromBuffer pauseMission_dataFromBuffer"

definition pauseMissionMessageSize :: "PauseMissionMessage \<Rightarrow> u32" where
  "pauseMissionMessageSize = messageSize pauseMission_dataSize"

definition pauseMissionMessageToBuffer ::
    "PauseMissionMessage \<Rightarrow> bytes \<Rightarrow> u32 \<Rightarrow> (bool \<times> PauseMissionMessage \<times> bytes) exec" where
  "pauseMissionMessageToBuffer =
     messageToBuffer pauseMission_dataSize pauseMission_dataToBuffer"

definition pauseMissionMessageFromJausMessage ::
    "PauseMissionMessage \<Rightarrow> JausMessage \<Rightarrow> PauseMissionMessage option exec" where
  "pauseMissionMessageFromJausMessage =
     messageFromJausMessage JAUS_PAUSE_MISSION pauseMission_dataFromBuffer"

definition pauseMissionMessageToJausMessage ::
    "PauseMissionMessage \<Rightarrow> JausMessage exec" where
  "pauseMissionMessageToJausMessage =
     messageToJausMessage pauseMission_dataSize pauseMission_dataToBuffer"

definition pauseMission_enc :: "PauseMissionMessage \<Rightarrow> bytes" where
  "pauseMission_enc m =
     bytesOfWord 2 (pauseMission_missionId m) @
     bytesOfWord 2 (pauseMission_taskId m)"

definition pauseMission_withData :: "PauseMissionMessage \<Rightarrow> PauseMissionMessage \<Rightarrow> PauseMissionMessage" where
  "pauseMission_withData m0 m =
     m0\<lparr>pauseMission_missionId := pauseMission_missionId m,
        pauseMission_taskId := pauseMission_taskId m\<rparr>"

lemma pauseMission_size: "pauseMission_dataSize m = of_nat (length (pauseMission_enc m))"
  by (simp add: pauseMission_dataSize_def pauseMission_enc_def)

lemma pauseMission_small: "length (pauseMission_enc m) < 4096"
  unfolding pauseMission_enc_def by (rule enc_small, (rule length_bounds)+, simp)

lemma pauseMission_to:
  assumes "off + length (pauseMission_enc m) \<le> length buf" "length (pauseMission_enc m) \<le> unat n"
  shows "pauseMission_dataToBuffer m buf off n =
    Some (length (pauseMission_enc m), take off buf @ pauseMission_enc m @ drop (off + length (pauseMission_enc m)) buf)"
  unfolding pauseMission_dataToBuffer_def
  by (rule to_lawI [OF _ pauseMission_size assms], unfold pauseMission_enc_def,
      (rule writes_intros refl | rule writes_Cons | (rule FromDouble_total, simp)
        | simp add: codec_simps)+)

lemma pauseMission_from:
  assumes "dataSize m0 = pauseMission_dataSize m"
  shows "pauseMission_dataFromBuffer m0 (pre @ pauseMission_enc m @ post) (length pre) (pauseMission_dataSize m) = Some (True, pauseMission_withData m0 m)"
proof -
  have n: "unat (pauseMission_dataSize m) = length (pauseMission_enc m)"
    using pauseMission_small [of m] by (simp add: pauseMission_size unat_of_nat_lt)
  show ?thesis
    unfolding pauseMission_dataFromBuffer_def pauseMission_withData_def
    by (rule from_lawI [where D = "pauseMission_enc m"], unfold pauseMission_enc_def,
        (rule parses_intros refl n [unfolded pauseMission_enc_def] assms [symmetric] | rule parses_Cons
          | simp add: codec_simps)+)
qed

interpretation pauseMission: typed_message pauseMission_dataSize pauseMission_dataFromBuffer
  pauseMission_dataToBuffer pauseMission_enc pauseMission_withData
  by unfold_locales (fact pauseMission_size pauseMission_small pauseMission_to pauseMission_from)+

section \<open>ResumeMissionMessage\<close>

record ResumeMissionMessage = JausHeader +
  resumeMission_missionId :: u16
  resumeMission_taskId :: u16

definition resumeMission_dataInitialize ::
    "ResumeMissionMessage \<Rightarrow> ResumeMissionMessage" where
  "resumeMission_dataInitialize m =
     m\<lparr>resumeMission_missionId := newJausUnsignedShort 0,
        resumeMission_taskId := newJausUnsignedShort 0\<rparr>"

definition resumeMission_dataSize :: "ResumeMissionMessage \<Rightarrow> u32" where
  "resumeMission_dataSize m =
     (2 +
      2)"

definition resumeMission_dataFromBuffer ::
    "ResumeMissionMessage \<Rightarrow> bytes \<Rightarrow> nat \<Rightarrow> u32 \<Rightarrow> (bool \<times> ResumeMissionMessage) exec" where
  "resumeMission_dataFromBuffer m buffer off n =
     (if n = dataSize m then finishR (runStmts
        [getUShort (\<lambda>v m. m\<lparr>resumeMission_missionId := v\<rparr>) buffer off n,
         getUShort (\<lambda>v m. m\<lparr>resumeMission_taskId := v\<rparr>) buffer off n] (0, m))
      else Some (False, m))"

definition resumeMission_dataToBuffer ::
    "ResumeMissionMessage \<Rightarrow> bytes \<Rightarrow> nat \<Rightarrow> u32 \<Rightarrow> (nat \<times> bytes) exec" where
  "resumeMission_dataToBuffer m buffer off n =
     (if resumeMission_dataSize m \<le> n then finishW (runStmts
        [putUShort (Some (resumeMission_missionId m)) off n,
         putUShort (Some (resumeMission_taskId m)) off n] (0, buffer))
      else Some (0, buffer))"

definition resumeMissionMessageCreate :: ResumeMissionMessage where
  "resumeMissionMessageCreate =
     (let m = resumeMission_dataInitialize (JausHeader.extend (blankHeader JAUS_RESUME_MISSION 0)
        (ResumeMissionMessage.fields 0 0))
      in m\<lparr>dataSize := resumeMission_dataSize m\<rparr>)"

definition resumeMissionMessageFromBuffer ::
    "ResumeMissionMessage \<Rightarrow> bytes \<Rightarrow> u32 \<Rightarrow> (bool \<times> ResumeMissionMessage) exec" where
  "resumeMissionMessageFromBuffer =
     messageFromBuffer resumeMission_dataFromBuffer"

definition resumeMissionMessageSize :: "ResumeMissionMessage \<Rightarrow> u32" where
  "resumeMissionMessageSize = messageSize resumeMission_dataSize"

definition resumeMissionMessageToBuffer ::
    "ResumeMissionMessage \<Rightarrow> bytes \<Rightarrow> u32 \<Rightarrow> (bool \<times> ResumeMissionMessage \<times> bytes) exec" where
  "resumeMissionMessageToBuffer =
     messageToBuffer resumeMission_dataSize resumeMission_dataToBuffer"

definition resumeMissionMessageFromJausMessage ::
    "ResumeMissionMessage \<Rightarrow> JausMessage \<Rightarrow> ResumeMissionMessage option exec" where
  "resumeMissionMessageFromJausMessage =
     messageFromJausMessage JAUS_RESUME_MISSION resumeMission_dataFromBuffer"

definition resumeMissionMessageToJausMessage ::
    "ResumeMissionMessage \<Rightarrow> JausMessage exec" where
  "resumeMissionMessageToJausMessage =
     messageToJausMessage resumeMission_dataSize resumeMission_dataToBuffer"

definition resumeMission_enc :: "ResumeMissionMessage \<Rightarrow> bytes" where
  "resumeMission_enc m =
     bytesOfWord 2 (resumeMission_missionId m) @
     bytesOfWord 2 (resumeMission_taskId m)"

definition resumeMission_withData :: "ResumeMissionMessage \<Rightarrow> ResumeMissionMessage \<Rightarrow> ResumeMissionMessage" where
  "resumeMission_withData m0 m =
     m0\<lparr>resumeMission_missionId := resumeMission_missionId m,
        resumeMission_taskId := resumeMission_taskId m\<rparr>"

lemma resumeMission_size: "resumeMission_dataSize m = of_nat (length (resumeMission_enc m))"
  by (simp add: resumeMission_dataSize_def resumeMission_enc_def)

lemma resumeMission_small: "length (resumeMission_enc m) < 4096"
  unfolding resumeMission_enc_def by (rule enc_small, (rule length_bounds)+, simp)

lemma resumeMission_to:
  assumes "off + length (resumeMission_enc m) \<le> length buf" "length (resumeMission_enc m) \<le> unat n"
  shows "resumeMission_dataToBuffer m buf off n =
    Some (length (resumeMission_enc m), take off buf @ resumeMission_enc m @ drop (off + length (resumeMission_enc m)) buf)"
  unfolding resumeMission_dataToBuffer_def
  by (rule to_lawI [OF _ resumeMission_size assms], unfold resumeMission_enc_def,
      (rule writes_intros refl | rule writes_Cons | (rule FromDouble_total, simp)
        | simp add: codec_simps)+)

lemma resumeMission_from:
  assumes "dataSize m0 = resumeMission_dataSize m"
  shows "resumeMission_dataFromBuffer m0 (pre @ resumeMission_enc m @ post) (length pre) (resumeMission_dataSize m) = Some (True, resumeMission_withData m0 m)"
proof -
  have n: "unat (resumeMission_dataSize m) = length (resumeMission_enc m)"
    using resumeMission_small [of m] by (simp add: resumeMission_size unat_of_nat_lt)
  show ?thesis
    unfolding resumeMission_dataFromBuffer_def resumeMission_withData_def
    by (rule from_lawI [where D = "resumeMission_enc m"], unfold resumeMission_enc_def,
        (rule parses_intros refl n [unfolded resumeMission_enc_def] assms [symmetric] | rule parses_Cons
          | simp add: codec_simps)+)
qed

interpretation resumeMission: typed_message resumeMission_dataSize resumeMission_dataFromBuffer
  resumeMission_dataToBuffer resumeMission_enc resumeMission_withData
  by unfold_locales (fact resumeMission_size resumeMission_small resumeMission_to resumeMission_from)+

section \<open>RunMissionMessage\<close>

record RunMissionMessage = JausHeader +
  runMission_missionId :: u16

definition runMission_dataInitialize ::
    "RunMissionMessage \<Rightarrow> RunMissionMessage" where
  "runMission_dataInitialize m =
     m\<lparr>runMission_missionId := newJausUnsignedShort 0\<rparr>"

definition runMission_dataSize :: "RunMissionMessage \<Rightarrow> u32" where
  "runMission_dataSize m =
     2"

definition runMission_dataFromBuffer ::
    "RunMissionMessage \<Rightarrow> bytes \<Rightarrow> nat \<Rightarrow> u32 \<Rightarrow> (bool \<times> RunMissionMessage) exec" where
  "runMission_dataFromBuffer m buffer off n =
     (if n = dataSize m then finishR (runStmts
        [getUShort (\<lambda>v m. m\<lparr>runMission_missionId := v\<rparr>) buffer off n] (0, m))
      else Some (False, m))"

definition runMission_dataToBuffer ::
    "RunMissionMessage \<Rightarrow> bytes \<Rightarrow> nat \<Rightarrow> u32 \<Rightarrow> (nat \<times> bytes) exec" where
  "runMission_dataToBuffer m buffer off n =
     (if runMission_dataSize m \<le> n then finishW (runStmts
        [putUShort (Some (runMission_missionId m)) off n] (0, buffer))
      else Some (0, buffer))"

definition runMissionMessageCreate :: RunMissionMessage where
  "runMissionMessageCreate =
     (let m = runMission_dataInitialize (JausHeader.extend (blankHeader JAUS_RUN_MISSION 0)
        (RunMissionMessage.fields 0))
      in m\<lparr>dataSize := runMission_dataSize m\<rparr>)"

definition runMissionMessageFromBuffer ::
    "RunMissionMessage \<Rightarrow> bytes \<Rightarrow> u32 \<Rightarrow> (bool \<times> RunMissionMessage) exec" where
  "runMissionMessageFromBuffer =
     messageFromBuffer runMission_dataFromBuffer"

definition runMissionMessageSize :: "RunMissionMessage \<Rightarrow> u32" where
  "runMissionMessageSize = messageSize runMission_dataSize"

definition runMissionMessageToBuffer ::
    "RunMissionMessage \<Rightarrow> bytes \<Rightarrow> u32 \<Rightarrow> (bool \<times> RunMissionMessage \<times> bytes) exec" where
  "runMissionMessageToBuffer =
     messageToBuffer runMission_dataSize runMission_dataToBuffer"

definition runMissionMessageFromJausMessage ::
    "RunMissionMessage \<Rightarrow> JausMessage \<Rightarrow> RunMissionMessage option exec" where
  "runMissionMessageFromJausMessage =
     messageFromJausMessage JAUS_RUN_MISSION runMission_dataFromBuffer"

definition runMissionMessageToJausMessage ::
    "RunMissionMessage \<Rightarrow> JausMessage exec" where
  "runMissionMessageToJausMessage =
     messageToJausMessage runMission_dataSize runMission_dataToBuffer"

definition runMission_enc :: "RunMissionMessage \<Rightarrow> bytes" where
  "runMission_enc m =
     bytesOfWord 2 (runMission_missionId m)"

definition runMission_withData :: "RunMissionMessage \<Rightarrow> RunMissionMessage \<Rightarrow> RunMissionMessage" where
  "runMission_withData m0 m =
     m0\<lparr>runMission_missionId := runMission_missionId m\<rparr>"

lemma runMission_size: "runMission_dataSize m = of_nat (length (runMission_enc m))"
  by (simp add: runMission_dataSize_def runMission_enc_def)

lemma runMission_small: "length (runMission_enc m) < 4096"
  unfolding runMission_enc_def by (rule enc_small, (rule length_bounds)+, simp)

lemma runMission_to:
  assumes "off + length (runMission_enc m) \<le> length buf" "length (runMission_enc m) \<le> unat n"
  shows "runMission_dataToBuffer m buf off n =
    Some (length (runMission_enc m), take off buf @ runMission_enc m @ drop (off + length (runMission_enc m)) buf)"
  unfolding runMission_dataToBuffer_def
  by (rule to_lawI [OF _ runMission_size assms], unfold runMission_enc_def,
      (rule writes_intros refl | rule writes_Cons | (rule FromDouble_total, simp)
        | simp add: codec_simps)+)

lemma runMission_from:
  assumes "dataSize m0 = runMission_dataSize m"
  shows "runMission_dataFromBuffer m0 (pre @ runMission_enc m @ post) (length pre) (runMission_dataSize m) = Some (True, runMission_withData m0 m)"
proof -
  have n: "unat (runMission_dataSize m) = length (runMission_enc m)"
    using runMission_small [of m] by (simp add: runMission_size unat_of_nat_lt)
  show ?thesis
    unfolding runMission_dataFromBuffer_def runMission_withData_def
    by (rule from_lawI [where D = "runMission_enc m"], unfold runMission_enc_def,
        (rule parses_intros refl n [unfolded runMission_enc_def] assms [symmetric] | rule parses_Cons
          | simp add: codec_simps)+)
qed

interpretation runMission: typed_message runMission_dataSize runMission_dataFromBuffer
  runMission_dataToBuffer runMission_enc runMission_withData
  by unfold_locales (fact runMission_size runMission_small runMission_to runMission_from)+

section \<open>TerminateVksDataTransferMessage\<close>

type_synonym TerminateVksDataTransferMessage = JausHeader

definition terminateVksDataTransferMessageCreate :: TerminateVksDataTransferMessage where
  "terminateVksDataTransferMessageCreate =
     (let m = noData_dataInitialize (blankHeader JAUS_TERMINATE_VKS_DATA_TRANSFER 0) in m\<lparr>dataSize := noData_dataSize m\<rparr>)"

definition terminateVksDataTransferMessageFromBuffer ::
    "TerminateVksDataTransferMessage \<Rightarrow> bytes \<Rightarrow> u32 \<Rightarrow> (bool \<times> TerminateVksDataTransferMessage) exec" where
  "terminateVksDataTransferMessageFromBuffer =
     messageFromBuffer noData_dataFromBuffer"

definition terminateVksDataTransferMessageToBuffer ::
    "TerminateVksDataTransferMessage \<Rightarrow> bytes \<Rightarrow> u32 \<Rightarrow> (bool \<times> TerminateVksDataTransferMessage \<times> bytes) exec" where
  "terminateVksDataTransferMessageToBuffer =
     messageToBuffer noData_dataSize noData_dataToBuffer"

definition terminateVksDataTransferMessageFromJausMessage ::
    "TerminateVksDataTransferMessage \<Rightarrow> JausMessage \<Rightarrow> TerminateVksDataTransferMessage option exec" where
  "terminateVksDataTransferMessageFromJausMessage =
     messageFromJausMessage JAUS_TERMINATE_VKS_DATA_TRANSFER noData_dataFromBuffer"

definition terminateVksDataTransferMessageToJausMessage ::
    "TerminateVksDataTransferMessage \<Rightarrow> JausMessage exec" where
  "terminateVksDataTransferMessageToJausMessage =
     messageToJausMessage noData_dataSize noData_dataToBuffer"

definition terminateVksDataTransferMessageSize ::
    "TerminateVksDataTransferMessage \<Rightarrow> u32" where
  "terminateVksDataTransferMessageSize =
     messageSize noData_dataSize"

section \<open>ReportDataLinkStatusMessage\<close>

record ReportDataLinkStatusMessage = JausHeader +
  reportDataLinkStatus_dataLinkId :: u8
  reportDataLinkStatus_dataLinkState :: int

definition reportDataLinkStatus_dataInitialize ::
    "ReportDataLinkStatusMessage \<Rightarrow> ReportDataLinkStatusMessage" where
  "reportDataLinkStatus_dataInitialize m =
     m\<lparr>reportDataLinkStatus_dataLinkId := newJausByte 0,
        reportDataLinkStatus_dataLinkState := JAUS_DATA_LINK_ON\<rparr>"

definition reportDataLinkStatus_dataSize :: "ReportDataLinkStatusMessage \<Rightarrow> u32" where
  "reportDataLinkStatus_dataSize m =
     2"

definition reportDataLinkStatus_dataFromBuffer ::
    "ReportDataLinkStatusMessage \<Rightarrow> bytes \<Rightarrow> nat \<Rightarrow> u32 \<Rightarrow> (bool \<times> ReportDataLinkStatusMessage) exec" where
  "reportDataLinkStatus_dataFromBuffer m buffer off n =
     (if n = dataSize m then finishR (runStmts
        [getByte (\<lambda>v m. m\<lparr>reportDataLinkStatus_dataLinkId := v\<rparr>) buffer off n,
         getByte (\<lambda>v m. m\<lparr>reportDataLinkStatus_dataLinkState := uint v\<rparr>) buffer off n] (0, m))
      else Some (False, m))"

definition reportDataLinkStatus_dataToBuffer ::
    "ReportDataLinkStatusMessage \<Rightarrow> bytes \<Rightarrow> nat \<Rightarrow> u32 \<Rightarrow> (nat \<times> bytes) exec" where
  "reportDataLinkStatus_dataToBuffer m buffer off n =
     (if reportDataLinkStatus_dataSize m \<le> n then finishW (runStmts
        [putByte (Some (reportDataLinkStatus_dataLinkId m)) off n,
         putByte (Some (word_of_int (reportDataLinkStatus_dataLinkState m))) off n] (0, buffer))
      else Some (0, buffer))"

definition reportDataLinkStatusMessageCreate :: ReportDataLinkStatusMessage where
  "reportDataLinkStatusMessageCreate =
     (let m = reportDataLinkStatus_dataInitialize (JausHeader.extend (blankHeader JAUS_REPORT_DATA_LINK_STATUS 2)
        (ReportDataLinkStatusMessage.fields 0 0))
      in m\<lparr>dataSize := reportDataLinkStatus_dataSize m\<rparr>)"

definition reportDataLinkStatusMessageFromBuffer ::
    "ReportDataLinkStatusMessage \<Rightarrow> bytes \<Rightarrow> u32 \<Rightarrow> (bool \<times> ReportDataLinkStatusMessage) exec" where
  "reportDataLinkStatusMessageFromBuffer =
     messageFromBuffer reportDataLinkStatus_dataFromBuffer"

definition reportDataLinkStatusMessageSize :: "ReportDataLinkStatusMessage \<Rightarrow> u32" where
  "reportDataLinkStatusMessageSize = messageSize reportDataLinkStatus_dataSize"

definition reportDataLinkStatusMessageToBuffer ::
    "ReportDataLinkStatusMessage \<Rightarrow> bytes \<Rightarrow> u32 \<Rightarrow> (bool \<times> ReportDataLinkStatusMessage \<times> bytes) exec" where
  "reportDataLinkStatusMessageToBuffer =
     messageToBuffer reportDataLinkStatus_dataSize reportDataLinkStatus_dataToBuffer"

definition reportDataLinkStatusMessageFromJausMessage ::
    "ReportDataLinkStatusMessage \<Rightarrow> JausMessage \<Rightarrow> ReportDataLinkStatusMessage option exec" where
  "reportDataLinkStatusMessageFromJausMessage =
     messageFromJausMessage JAUS_REPORT_DATA_LINK_STATUS reportDataLinkStatus_dataFromBuffer"

definition reportDataLinkStatusMessageToJausMessage ::
    "ReportDataLinkStatusMessage \<Rightarrow> JausMessage exec" where
  "reportDataLinkStatusMessageToJausMessage =
     messageToJausMessage reportDataLinkStatus_dataSize reportDataLinkStatus_dataToBuffer"

definition reportDataLinkStatus_enc :: "ReportDataLinkStatusMessage \<Rightarrow> bytes" where
  "reportDataLinkStatus_enc m =
     [reportDataLinkStatus_dataLinkId m] @
     [word_of_int (reportDataLinkStatus_dataLinkState m)]"

definition reportDataLinkStatus_withData :: "ReportDataLinkStatusMessage \<Rightarrow> ReportDataLinkStatusMessage \<Rightarrow> ReportDataLinkStatusMessage" where
  "reportDataLinkStatus_withData m0 m =
     m0\<lparr>reportDataLinkStatus_dataLinkId := reportDataLinkStatus_dataLinkId m,
        reportDataLinkStatus_dataLinkState := uint (word_of_int (reportDataLinkStatus_dataLinkState m) :: u8)\<rparr>"

lemma reportDataLinkStatus_size: "reportDataLinkStatus_dataSize m = of_nat (length (reportDataLinkStatus_enc m))"
  by (simp add: reportDataLinkStatus_dataSize_def reportDataLinkStatus_enc_def)

lemma reportDataLinkStatus_small: "length (reportDataLinkStatus_enc m) < 4096"
  unfolding reportDataLinkStatus_enc_def by (rule enc_small, (rule length_bounds)+, simp)

lemma reportDataLinkStatus_to:
  assumes "off + length (reportDataLinkStatus_enc m) \<le> length buf" "length (reportDataLinkStatus_enc m) \<le> unat n"
  shows "reportDataLinkStatus_dataToBuffer m buf off n =
    Some (length (reportDataLinkStatus_enc m), take off buf @ reportDataLinkStatus_enc m @ drop (off + length (reportDataLinkStatus_enc m)) buf)"
  unfolding reportDataLinkStatus_dataToBuffer_def
  by (rule to_lawI [OF _ reportDataLinkStatus_size assms], unfold reportDataLinkStatus_enc_def,
      (rule writes_intros refl | rule writes_Cons | (rule FromDouble_total, simp)
        | simp add: codec_simps)+)

lemma reportDataLinkStatus_from:
  assumes "dataSize m0 = reportDataLinkStatus_dataSize m"
  shows "reportDataLinkStatus_dataFromBuffer m0 (pre @ reportDataLinkStatus_enc m @ post) (length pre) (reportDataLinkStatus_dataSize m) = Some (True, reportDataLinkStatus_withData m0 m)"
proof -
  have n: "unat (reportDataLinkStatus_dataSize m) = length (reportDataLinkStatus_enc m)"
    using reportDataLinkStatus_small [of m] by (simp add: reportDataLinkStatus_size unat_of_nat_lt)
  show ?thesis
    unfolding reportDataLinkStatus_dataFromBuffer_def reportDataLinkStatus_withData_def
    by (rule from_lawI [where D = "reportDataLinkStatus_enc m"], unfold reportDataLinkStatus_enc_def,
        (rule parses_intros refl n [unfolded reportDataLinkStatus_enc_def] assms [symmetric] | rule parses_Cons
          | simp add: codec_simps)+)
qed

interpretation reportDataLinkStatus: typed_message reportDataLinkStatus_dataSize reportDataLinkStatus_dataFromBuffer
  reportDataLinkStatus_dataToBuffer reportDataLinkStatus_enc reportDataLinkStatus_withData
  by unfold_locales (fact reportDataLinkStatus_size reportDataLinkStatus_small reportDataLinkStatus_to reportDataLinkStatus_from)+

section \<open>ReportSelectedDataLinkStatusMessage\<close>

record ReportSelectedDataLinkStatusMessage = JausHeader +
  reportSelectedDataLinkStatus_dataLinkId :: u8

definition reportSelectedDataLinkStatus_dataInitialize ::
    "ReportSelectedDataLinkStatusMessage \<Rightarrow> ReportSelectedDataLinkStatusMessage" where
  "reportSelectedDataLinkStatus_dataInitialize m =
     m\<lparr>reportSelectedDataLinkStatus_dataLinkId := newJausByte 0\<rparr>"

definition reportSelectedDataLinkStatus_dataSize :: "ReportSelectedDataLinkStatusMessage \<Rightarrow> u32" where
  "reportSelectedDataLinkStatus_dataSize m =
     1"

definition reportSelectedDataLinkStatus_dataFromBuffer ::
    "ReportSelectedDataLinkStatusMessage \<Rightarrow> bytes \<Rightarrow> nat \<Rightarrow> u32 \<Rightarrow> (bool \<times> ReportSelectedDataLinkStatusMessage) exec" where
  "reportSelectedDataLinkStatus_dataFromBuffer m buffer off n =
     (if n = dataSize m then finishR (runStmts
        [getByte (\<lambda>v m. m\<lparr>reportSelectedDataLinkStatus_dataLinkId := v\<rparr>) buffer off n] (0, m))
      else Some (False, m))"

definition reportSelectedDataLinkStatus_dataToBuffer ::
    "ReportSelectedDataLinkStatusMessage \<Rightarrow> bytes \<Rightarrow> nat \<Rightarrow> u32 \<Rightarrow> (nat \<times> bytes) exec" where
  "reportSelectedDataLinkStatus_dataToBuffer m buffer off n =
     (if reportSelectedDataLinkStatus_dataSize m \<le> n then finishW (runStmts
        [putByte (Some (reportSelectedDataLinkStatus_dataLinkId m)) off n] (0, buffer))
      else Some (0, buffer))"

definition reportSelectedDataLinkStatusMessageCreate :: ReportSelectedDataLinkStatusMessage where
  "reportSelectedDataLinkStatusMessageCreate =
     (let m = reportSelectedDataLinkStatus_dataInitialize (JausHeader.extend (blankHeader JAUS_REPORT_SELECTED_DATA_LINK_STATUS 1)
        (ReportSelectedDataLinkStatusMessage.fields 0))
      in m\<lparr>dataSize := reportSelectedDataLinkStatus_dataSize m\<rparr>)"

definition reportSelectedDataLinkStatusMessageFromBuffer ::
    "ReportSelectedDataLinkStatusMessage \<Rightarrow> bytes \<Rightarrow> u32 \<Rightarrow> (bool \<times> ReportSelectedDataLinkStatusMessage) exec" where
  "reportSelectedDataLinkStatusMessageFromBuffer =
     messageFromBuffer reportSelectedDataLinkStatus_dataFromBuffer"

definition reportSelectedDataLinkStatusMessageSize :: "ReportSelectedDataLinkStatusMessage \<Rightarrow> u32" where
  "reportSelectedDataLinkStatusMessageSize = messageSize reportSelectedDataLinkStatus_dataSize"

definition reportSelectedDataLinkStatusMessageToBuffer ::
    "ReportSelectedDataLinkStatusMessage \<Rightarrow> bytes \<Rightarrow> u32 \<Rightarrow> (bool \<times> ReportSelectedDataLinkStatusMessage \<times> bytes) exec" where
  "reportSelectedDataLinkStatusMessageToBuffer =
     messageToBuffer reportSelectedDataLinkStatus_dataSize reportSelectedDataLinkStatus_dataToBuffer"

definition reportSelectedDataLinkStatusMessageFromJausMessage ::
    "ReportSelectedDataLinkStatusMessage \<Rightarrow> JausMessage \<Rightarrow> ReportSelectedDataLinkStatusMessage option exec" where
  "reportSelectedDataLinkStatusMessageFromJausMessage =
     messageFromJausMessage JAUS_REPORT_SELECTED_DATA_LINK_STATUS reportSelectedDataLinkStatus_dataFromBuffer"

definition reportSelectedDataLinkStatusMessageToJausMessage ::
    "ReportSelectedDataLinkStatusMessage \<Rightarrow> JausMessage exec" where
  "reportSelectedDataLinkStatusMessageToJausMessage =
     messageToJausMessage reportSelectedDataLinkStatus_dataSize reportSelectedDataLinkStatus_dataToBuffer"

definition reportSelectedDataLinkStatus_enc :: "ReportSelectedDataLinkStatusMessage \<Rightarrow> bytes" where
  "reportSelectedDataLinkStatus_enc m =
     [reportSelectedDataLinkStatus_dataLinkId m]"

definition reportSelectedDataLinkStatus_withData :: "ReportSelectedDataLinkStatusMessage \<Rightarrow> ReportSelectedDataLinkStatusMessage \<Rightarrow> ReportSelectedDataLinkStatusMessage" where
  "reportSelectedDataLinkStatus_withData m0 m =
     m0\<lparr>reportSelectedDataLinkStatus_dataLinkId := reportSelectedDataLinkStatus_dataLinkId m\<rparr>"

lemma reportSelectedDataLinkStatus_size: "reportSelectedDataLinkStatus_dataSize m = of_nat (length (reportSelectedDataLinkStatus_enc m))"
  by (simp add: reportSelectedDataLinkStatus_dataSize_def reportSelectedDataLinkStatus_enc_def)

lemma reportSelectedDataLinkStatus_small: "length (reportSelectedDataLinkStatus_enc m) < 4096"
  unfolding reportSelectedDataLinkStatus_enc_def by (rule enc_small, (rule length_bounds)+, simp)

lemma reportSelectedDataLinkStatus_to:
  assumes "off + length (reportSelectedDataLinkStatus_enc m) \<le> length buf" "length (reportSelectedDataLinkStatus_enc m) \<le> unat n"
  shows "reportSelectedDataLinkStatus_dataToBuffer m buf off n =
    Some (length (reportSelectedDataLinkStatus_enc m), take off buf @ reportSelectedDataLinkStatus_enc m @ drop (off + length (reportSelectedDataLinkStatus_enc m)) buf)"
  unfolding reportSelectedDataLinkStatus_dataToBuffer_def
  by (rule to_lawI [OF _ reportSelectedDataLinkStatus_size assms], unfold reportSelectedDataLinkStatus_enc_def,
      (rule writes_intros refl | rule writes_Cons | (rule FromDouble_total, simp)
        | simp add: codec_simps)+)

lemma reportSelectedDataLinkStatus_from:
  assumes "dataSize m0 = reportSelectedDataLinkStatus_dataSize m"
  shows "reportSelectedDataLinkStatus_dataFromBuffer m0 (pre @ reportSelectedDataLinkStatus_enc m @ post) (length pre) (reportSelectedDataLinkStatus_dataSize m) = Some (True, reportSelectedDataLinkStatus_withData m0 m)"
proof -
  have n: "unat (reportSelectedDataLinkStatus_dataSize m) = length (reportSelectedDataLinkStatus_enc m)"
    using reportSelectedDataLinkStatus_small [of m] by (simp add: reportSelectedDataLinkStatus_size unat_of_nat_lt)
  show ?thesis
    unfolding reportSelectedDataLinkStatus_dataFromBuffer_def reportSelectedDataLinkStatus_withData_def
    by (rule from_lawI [where D = "reportSelectedDataLinkStatus_enc m"], unfold reportSelectedDataLinkStatus_enc_def,
        (rule parses_intros refl n [unfolded reportSelectedDataLinkStatus_enc_def] assms [symmetric] | rule parses_Cons
          | simp add: codec_simps)+)
qed

interpretation reportSelectedDataLinkStatus: typed_message reportSelectedDataLinkStatus_dataSize reportSelectedDataLinkStatus_dataFromBuffer
  reportSelectedDataLinkStatus_dataToBuffer reportSelectedDataLinkStatus_enc reportSelectedDataLinkStatus_withData
  by unfold_locales (fact reportSelectedDataLinkStatus_size reportSelectedDataLinkStatus_small reportSelectedDataLinkStatus_to reportSelectedDataLinkStatus_from)+

section \<open>ReportCameraCountMessage\<close>

record ReportCameraCountMessage = JausHeader +
  reportCameraCount_cameraCount :: u8

definition reportCameraCount_dataInitialize ::
    "ReportCameraCountMessage \<Rightarrow> ReportCameraCountMessage" where
  "reportCameraCount_dataInitialize m =
     m\<lparr>reportCameraCount_cameraCount := newJausByte 0\<rparr>"

definition reportCameraCount_dataSize :: "ReportCameraCountMessage \<Rightarrow> u32" where
  "reportCameraCount_dataSize m =
     1"

definition reportCameraCount_dataFromBuffer ::
    "ReportCameraCountMessage \<Rightarrow> bytes \<Rightarrow> nat \<Rightarrow> u32 \<Rightarrow> (bool \<times> ReportCameraCountMessage) exec" where
  "reportCameraCount_dataFromBuffer m buffer off n =
     (if n = dataSize m then finishR (runStmts
        [getByte (\<lambda>v m. m\<lparr>reportCameraCount_cameraCount := v\<rparr>) buffer off n] (0, m))
      else Some (False, m))"

definition reportCameraCount_dataToBuffer ::
    "ReportCameraCountMessage \<Rightarrow> bytes \<Rightarrow> nat \<Rightarrow> u32 \<Rightarrow> (nat \<times> bytes) exec" where
  "reportCameraCount_dataToBuffer m buffer off n =
     (if reportCameraCount_dataSize m \<le> n then finishW (runStmts
        [putByte (Some (reportCameraCount_cameraCount m)) off n] (0, buffer))
      else Some (0, buffer))"

definition reportCameraCountMessageCreate :: ReportCameraCountMessage where
  "reportCameraCountMessageCreate =
     (let m = reportCameraCount_dataInitialize (JausHeader.extend (blankHeader JAUS_REPORT_CAMERA_COUNT 1)
        (ReportCameraCountMessage.fields 0))
      in m\<lparr>dataSize := reportCameraCount_dataSize m\<rparr>)"

definition reportCameraCountMessageFromBuffer ::
    "ReportCameraCountMessage \<Rightarrow> bytes \<Rightarrow> u32 \<Rightarrow> (bool \<times> ReportCameraCountMessage) exec" where
  "reportCameraCountMessageFromBuffer =
     messageFromBuffer reportCameraCount_dataFromBuffer"

definition reportCameraCountMessageSize :: "ReportCameraCountMessage \<Rightarrow> u32" where
  "reportCameraCountMessageSize = messageSize reportCameraCount_dataSize"

definition reportCameraCountMessageToBuffer ::
    "ReportCameraCountMessage \<Rightarrow> bytes \<Rightarrow> u32 \<Rightarrow> (bool \<times> ReportCameraCountMessage \<times> bytes) exec" where
  "reportCameraCountMessageToBuffer =
     messageToBuffer reportCameraCount_dataSize reportCameraCount_dataToBuffer"

definition reportCameraCountMessageFromJausMessage ::
    "ReportCameraCountMessage \<Rightarrow> JausMessage \<Rightarrow> ReportCameraCountMessage option exec" where
  "reportCameraCountMessageFromJausMessage =
     messageFromJausMessage JAUS_REPORT_CAMERA_COUNT reportCameraCount_dataFromBuffer"

definition reportCameraCountMessageToJausMessage ::
    "ReportCameraCountMessage \<Rightarrow> JausMessage exec" where
  "reportCameraCountMessageToJausMessage =
     messageToJausMessage reportCameraCount_dataSize reportCameraCount_dataToBuffer"

definition reportCameraCount_enc :: "ReportCameraCountMessage \<Rightarrow> bytes" where
  "reportCameraCount_enc m =
     [reportCameraCount_cameraCount m]"

definition reportCameraCount_withData :: "ReportCameraCountMessage \<Rightarrow> ReportCameraCountMessage \<Rightarrow> ReportCameraCountMessage" where
  "reportCameraCount_withData m0 m =
     m0\<lparr>reportCameraCount_cameraCount := reportCameraCount_cameraCount m\<rparr>"

lemma reportCameraCount_size: "reportCameraCount_dataSize m = of_nat (length (reportCameraCount_enc m))"
  by (simp add: reportCameraCount_dataSize_def reportCameraCount_enc_def)

lemma reportCameraCount_small: "length (reportCameraCount_enc m) < 4096"
  unfolding reportCameraCount_enc_def by (rule enc_small, (rule length_bounds)+, simp)

lemma reportCameraCount_to:
  assumes "off + length (reportCameraCount_enc m) \<le> length buf" "length (reportCameraCount_enc m) \<le> unat n"
  shows "reportCameraCount_dataToBuffer m buf off n =
    Some (length (reportCameraCount_enc m), take off buf @ reportCameraCount_enc m @ drop (off + length (reportCameraCount_enc m)) buf)"
  unfolding reportCameraCount_dataToBuffer_def
  by (rule to_lawI [OF _ reportCameraCount_size assms], unfold reportCameraCount_enc_def,
      (rule writes_intros refl | rule writes_Cons | (rule FromDouble_total, simp)
        | simp add: codec_simps)+)

lemma reportCameraCount_from:
  assumes "dataSize m0 = reportCameraCount_dataSize m"
  shows "reportCameraCount_dataFromBuffer m0 (pre @ reportCameraCount_enc m @ post) (length pre) (reportCameraCount_dataSize m) = Some (True, reportCameraCount_withData m0 m)"
proof -
  have n: "unat (reportCameraCount_dataSize m) = length (reportCameraCount_enc m)"
    using reportCameraCount_small [of m] by (simp add: reportCameraCount_size unat_of_nat_lt)
  show ?thesis
    unfolding reportCameraCount_dataFromBuffer_def reportCameraCount_withData_def
    by (rule from_lawI [where D = "reportCameraCount_enc m"], unfold reportCameraCount_enc_def,
        (rule parses_intros refl n [unfolded reportCameraCount_enc_def] assms [symmetric] | rule parses_Cons
          | simp add: codec_simps)+)
qed

interpretation reportCameraCount: typed_message reportCameraCount_dataSize reportCameraCount_dataFromBuffer
  reportCameraCount_dataToBuffer reportCameraCount_enc reportCameraCount_withData
  by unfold_locales (fact reportCameraCount_size reportCameraCount_small reportCameraCount_to reportCameraCount_from)+

section \<open>ReportSelectedCameraMessage\<close>

record ReportSelectedCameraMessage = JausHeader +
  reportSelectedCamera_cameraID :: u8

definition reportSelectedCamera_dataInitialize ::
    "ReportSelectedCameraMessage \<Rightarrow> ReportSelectedCameraMessage" where
  "reportSelectedCamera_dataInitialize m =
     m\<lparr>reportSelectedCamera_cameraID := newJausByte 0\<rparr>"

definition reportSelectedCamera_dataSize :: "ReportSelectedCameraMessage \<Rightarrow> u32" where
  "reportSelectedCamera_dataSize m =
     1"

definition reportSelectedCamera_dataFromBuffer ::
    "ReportSelectedCameraMessage \<Rightarrow> bytes \<Rightarrow> nat \<Rightarrow> u32 \<Rightarrow> (bool \<times> ReportSelectedCameraMessage) exec" where
  "reportSelectedCamera_dataFromBuffer m buffer off n =
     (if n = dataSize m then finishR (runStmts
        [getByte (\<lambda>v m. m\<lparr>reportSelectedCamera_cameraID := v\<rparr>) buffer off n] (0, m))
      else Some (False, m))"

definition reportSelectedCamera_dataToBuffer ::
    "ReportSelectedCameraMessage \<Rightarrow> bytes \<Rightarrow> nat \<Rightarrow> u32 \<Rightarrow> (nat \<times> bytes) exec" where
  "reportSelectedCamera_dataToBuffer m buffer off n =
     (if reportSelectedCamera_dataSize m \<le> n then finishW (runStmts
        [putByte (Some (reportSelectedCamera_cameraID m)) off n] (0, buffer))
      else Some (0, buffer))"

definition reportSelectedCameraMessageCreate :: ReportSelectedCameraMessage where
  "reportSelectedCameraMessageCreate =
     (let m = reportSelectedCamera_dataInitialize (JausHeader.extend (blankHeader JAUS_REPORT_SELECTED_CAMERA 1)
        (ReportSelectedCameraMessage.fields 0))
      in m\<lparr>dataSize := reportSelectedCamera_dataSize m\<rparr>)"

definition reportSelectedCameraMessageFromBuffer ::
    "ReportSelectedCameraMessage \<Rightarrow> bytes \<Rightarrow> u32 \<Rightarrow> (bool \<times> ReportSelectedCameraMessage) exec" where
  "reportSelectedCameraMessageFromBuffer =
     messageFromBuffer reportSelectedCamera_dataFromBuffer"

definition reportSelectedCameraMessageSize :: "ReportSelectedCameraMessage \<Rightarrow> u32" where
  "reportSelectedCameraMessageSize = messageSize reportSelectedCamera_dataSize"

definition reportSelectedCameraMessageToBuffer ::
    "ReportSelectedCameraMessage \<Rightarrow> bytes \<Rightarrow> u32 \<Rightarrow> (bool \<times> ReportSelectedCameraMessage \<times> bytes) exec" where
  "reportSelectedCameraMessageToBuffer =
     messageToBuffer reportSelectedCamera_dataSize reportSelectedCamera_dataToBuffer"

definition reportSelectedCameraMessageFromJausMessage ::
    "ReportSelectedCameraMessage \<Rightarrow> JausMessage \<Rightarrow> ReportSelectedCameraMessage option exec" where
  "reportSelectedCameraMessageFromJausMessage =
     messageFromJausMessage JAUS_REPORT_SELECTED_CAMERA reportSelectedCamera_dataFromBuffer"

definition reportSelectedCameraMessageToJausMessage ::
    "ReportSelectedCameraMessage \<Rightarrow> JausMessage exec" where
  "reportSelectedCameraMessageToJausMessage =
     messageToJausMessage reportSelectedCamera_dataSize reportSelectedCamera_dataToBuffer"

definition reportSelectedCamera_enc :: "ReportSelectedCameraMessage \<Rightarrow> bytes" where
  "reportSelectedCamera_enc m =
     [reportSelectedCamera_cameraID m]"

definition reportSelectedCamera_withData :: "ReportSelectedCameraMessage \<Rightarrow> ReportSelectedCameraMessage \<Rightarrow> ReportSelectedCameraMessage" where
  "reportSelectedCamera_withData m0 m =
     m0\<lparr>reportSelectedCamera_cameraID := reportSelectedCamera_cameraID m\<rparr>"

lemma reportSelectedCamera_size: "reportSelectedCamera_dataSize m = of_nat (length (reportSelectedCamera_enc m))"
  by (simp add: reportSelectedCamera_dataSize_def reportSelectedCamera_enc_def)

lemma reportSelectedCamera_small: "length (reportSelectedCamera_enc m) < 4096"
  unfolding reportSelectedCamera_enc_def by (rule enc_small, (rule length_bounds)+, simp)

lemma reportSelectedCamera_to:
  assumes "off + length (reportSelectedCamera_enc m) \<le> length buf" "length (reportSelectedCamera_enc m) \<le> unat n"
  shows "reportSelectedCamera_dataToBuffer m buf off n =
    Some (length (reportSelectedCamera_enc m), take off buf @ reportSelectedCamera_enc m @ drop (off + length (reportSelectedCamera_enc m)) buf)"
  unfolding reportSelectedCamera_dataToBuffer_def
  by (rule to_lawI [OF _ reportSelectedCamera_size assms], unfold reportSelectedCamera_enc_def,
      (rule writes_intros refl | rule writes_Cons | (rule FromDouble_total, simp)
        | simp add: codec_simps)+)

lemma reportSelectedCamera_from:
  assumes "dataSize m0 = reportSelectedCamera_dataSize m"
  shows "reportSelectedCamera_dataFromBuffer m0 (pre @ reportSelectedCamera_enc m @ post) (length pre) (reportSelectedCamera_dataSize m) = Some (True, reportSelectedCamera_withData m0 m)"
proof -
  have n: "unat (reportSelectedCamera_dataSize m) = length (reportSelectedCamera_enc m)"
    using reportSelectedCamera_small [of m] by (simp add: reportSelectedCamera_size unat_of_nat_lt)
  show ?thesis
    unfolding reportSelectedCamera_dataFromBuffer_def reportSelectedCamera_withData_def
    by (rule from_lawI [where D = "reportSelectedCamera_enc m"], unfold reportSelectedCamera_enc_def,
        (rule parses_intros refl n [unfolded reportSelectedCamera_enc_def] assms [symmetric] | rule parses_Cons
          | simp add: codec_simps)+)
qed

interpretation reportSelectedCamera: typed_message reportSelectedCamera_dataSize reportSelectedCamera_dataFromBuffer
  reportSelectedCamera_dataToBuffer reportSelectedCamera_enc reportSelectedCamera_withData
  by unfold_locales (fact reportSelectedCamera_size reportSelectedCamera_small reportSelectedCamera_to reportSelectedCamera_from)+

section \<open>ReportToolPointMessage\<close>

record ReportToolPointMessage = JausHeader +
  reportToolPoint_x :: real
  reportToolPoint_y :: real
  reportToolPoint_z :: real

definition reportToolPoint_dataInitialize ::
    "ReportToolPointMessage \<Rightarrow> ReportToolPointMessage" where
  "reportToolPoint_dataInitialize m =
     m\<lparr>reportToolPoint_x := 0,
        reportToolPoint_y := 0,
        reportToolPoint_z := 0\<rparr>"

definition reportToolPoint_dataSize :: "ReportToolPointMessage \<Rightarrow> u32" where
  "reportToolPoint_dataSize m =
     12"

definition reportToolPoint_dataFromBuffer ::
    "ReportToolPointMessage \<Rightarrow> bytes \<Rightarrow> nat \<Rightarrow> u32 \<Rightarrow> (bool \<times> ReportToolPointMessage) exec" where
  "reportToolPoint_dataFromBuffer m buffer off n =
     (if n = dataSize m then finishR (runStmts
        [getUInteger (\<lambda>v m. m\<lparr>reportToolPoint_x := jausUnsignedIntegerToDouble v (- 15) 15\<rparr>) buffer off n,
         getUInteger (\<lambda>v m. m\<lparr>reportToolPoint_y := jausUnsignedIntegerToDouble v (- 15) 15\<rparr>) buffer off n,
         getUInteger (\<lambda>v m. m\<lparr>reportToolPoint_z := jausUnsignedIntegerToDouble v (- 15) 15\<rparr>) buffer off n] (0, m))
      else Some (False, m))"

definition reportToolPoint_dataToBuffer ::
    "ReportToolPointMessage \<Rightarrow> bytes \<Rightarrow> nat \<Rightarrow> u32 \<Rightarrow> (nat \<times> bytes) exec" where
  "reportToolPoint_dataToBuffer m buffer off n =
     (if reportToolPoint_dataSize m \<le> n then finishW (runStmts
        [putUInteger (jausUnsignedIntegerFromDouble (reportToolPoint_x m) (- 15) 15) off n,
         putUInteger (jausUnsignedIntegerFromDouble (reportToolPoint_y m) (- 15) 15) off n,
         putUInteger (jausUnsignedIntegerFromDouble (reportToolPoint_z m) (- 15) 15) off n] (0, buffer))
      else Some (0, buffer))"

definition reportToolPointMessageCreate :: ReportToolPointMessage where
  "reportToolPointMessageCreate =
     (let m = reportToolPoint_dataInitialize (JausHeader.extend (blankHeader JAUS_REPORT_TOOL_POINT 12)
        (ReportToolPointMessage.fields 0 0 0))
      in m\<lparr>dataSize := reportToolPoint_dataSize m\<rparr>)"

definition reportToolPointMessageFromBuffer ::
    "ReportToolPointMessage \<Rightarrow> bytes \<Rightarrow> u32 \<Rightarrow> (bool \<times> ReportToolPointMessage) exec" where
  "reportToolPointMessageFromBuffer =
     messageFromBuffer reportToolPoint_dataFromBuffer"

definition reportToolPointMessageSize :: "ReportToolPointMessage \<Rightarrow> u32" where
  "reportToolPointMessageSize = messageSize reportToolPoint_dataSize"

definition reportToolPointMessageToBuffer ::
    "ReportToolPointMessage \<Rightarrow> bytes \<Rightarrow> u32 \<Rightarrow> (bool \<times> ReportToolPointMessage \<times> bytes) exec" where
  "reportToolPointMessageToBuffer =
     messageToBuffer reportToolPoint_dataSize reportToolPoint_dataToBuffer"

definition reportToolPointMessageFromJausMessage ::
    "ReportToolPointMessage \<Rightarrow> JausMessage \<Rightarrow> ReportToolPointMessage option exec" where
  "reportToolPointMessageFromJausMessage =
     messageFromJausMessage JAUS_REPORT_TOOL_POINT reportToolPoint_dataFromBuffer"

definition reportToolPointMessageToJausMessage ::
    "ReportToolPointMessage \<Rightarrow> JausMessage exec" where
  "reportToolPointMessageToJausMessage =
     messageToJausMessage reportToolPoint_dataSize reportToolPoint_dataToBuffer"

definition reportToolPoint_enc :: "ReportToolPointMessage \<Rightarrow> bytes" where
  "reportToolPoint_enc m =
     bytesOfWord 4 (the (jausUnsignedIntegerFromDouble (reportToolPoint_x m) (- 15) 15)) @
     bytesOfWord 4 (the (jausUnsignedIntegerFromDouble (reportToolPoint_y m) (- 15) 15)) @
     bytesOfWord 4 (the (jausUnsignedIntegerFromDouble (reportToolPoint_z m) (- 15) 15))"

definition reportToolPoint_withData :: "ReportToolPointMessage \<Rightarrow> ReportToolPointMessage \<Rightarrow> ReportToolPointMessage" where
  "reportToolPoint_withData m0 m =
     m0\<lparr>reportToolPoint_x := jausUnsignedIntegerToDouble (the (jausUnsignedIntegerFromDouble (reportToolPoint_x m) (- 15) 15)) (- 15) 15,
        reportToolPoint_y := jausUnsignedIntegerToDouble (the (jausUnsignedIntegerFromDouble (reportToolPoint_y m) (- 15) 15)) (- 15) 15,
        reportToolPoint_z := jausUnsignedIntegerToDouble (the (jausUnsignedIntegerFromDouble (reportToolPoint_z m) (- 15) 15)) (- 15) 15\<rparr>"

lemma reportToolPoint_size: "reportToolPoint_dataSize m = of_nat (length (reportToolPoint_enc m))"
  by (simp add: reportToolPoint_dataSize_def reportToolPoint_enc_def)

lemma reportToolPoint_small: "length (reportToolPoint_enc m) < 4096"
  unfolding reportToolPoint_enc_def by (rule enc_small, (rule length_bounds)+, simp)

lemma reportToolPoint_to:
  assumes "off + length (reportToolPoint_enc m) \<le> length buf" "length (reportToolPoint_enc m) \<le> unat n"
  shows "reportToolPoint_dataToBuffer m buf off n =
    Some (length (reportToolPoint_enc m), take off buf @ reportToolPoint_enc m @ drop (off + length (reportToolPoint_enc m)) buf)"
  unfolding reportToolPoint_dataToBuffer_def
  by (rule to_lawI [OF _ reportToolPoint_size assms], unfold reportToolPoint_enc_def,
      (rule writes_intros refl | rule writes_Cons | (rule FromDouble_total, simp)
        | simp add: codec_simps)+)

lemma reportToolPoint_from:
  assumes "dataSize m0 = reportToolPoint_dataSize m"
  shows "reportToolPoint_dataFromBuffer m0 (pre @ reportToolPoint_enc m @ post) (length pre) (reportToolPoint_dataSize m) = Some (True, reportToolPoint_withData m0 m)"
proof -
  have n: "unat (reportToolPoint_dataSize m) = length (reportToolPoint_enc m)"
    using reportToolPoint_small [of m] by (simp add: reportToolPoint_size unat_of_nat_lt)
  show ?thesis
    unfolding reportToolPoint_dataFromBuffer_def reportToolPoint_withData_def
    by (rule from_lawI [where D = "reportToolPoint_enc m"], unfold reportToolPoint_enc_def,
        (rule parses_intros refl n [unfolded reportToolPoint_enc_def] assms [symmetric] | rule parses_Cons
          | simp add: codec_simps)+)
qed

interpretation reportToolPoint: typed_message reportToolPoint_dataSize reportToolPoint_dataFromBuffer
  reportToolPoint_dataToBuffer reportToolPoint_enc reportToolPoint_withData
  by unfold_locales (fact reportToolPoint_size reportToolPoint_small reportToolPoint_to reportToolPoint_from)+

section \<open>ReportSpoolingPreferenceMessage\<close>

record ReportSpoolingPreferenceMessage = JausHeader +
  reportSpoolingPreference_spoolType :: u8
  reportSpoolingPreference_data :: u32

definition reportSpoolingPreference_dataInitialize ::
    "ReportSpoolingPreferenceMessage \<Rightarrow> ReportSpoolingPreferenceMessage" where
  "reportSpoolingPreference_dataInitialize m =
     m\<lparr>reportSpoolingPreference_spoolType := newJausByte 0,
        reportSpoolingPreference_data := newJausInteger 0\<rparr>"

definition reportSpoolingPreference_dataSize :: "ReportSpoolingPreferenceMessage \<Rightarrow> u32" where
  "reportSpoolingPreference_dataSize m =
     (1 +
      4)"

definition reportSpoolingPreference_dataFromBuffer ::
    "ReportSpoolingPreferenceMessage \<Rightarrow> bytes \<Rightarrow> nat \<Rightarrow> u32 \<Rightarrow> (bool \<times> ReportSpoolingPreferenceMessage) exec" where
  "reportSpoolingPreference_dataFromBuffer m buffer off n =
     (if n = dataSize m then finishR (runStmts
        [getByte (\<lambda>v m. m\<lparr>reportSpoolingPreference_spoolType := v\<rparr>) buffer off n,
         getInteger (\<lambda>v m. m\<lparr>reportSpoolingPreference_data := v\<rparr>) buffer off n] (0, m))
      else Some (False, m))"

definition reportSpoolingPreference_dataToBuffer ::
    "ReportSpoolingPreferenceMessage \<Rightarrow> bytes \<Rightarrow> nat \<Rightarrow> u32 \<Rightarrow> (nat \<times> bytes) exec" where
  "reportSpoolingPreference_dataToBuffer m buffer off n =
     (if reportSpoolingPreference_dataSize m \<le> n then finishW (runStmts
        [putByte (Some (reportSpoolingPreference_spoolType m)) off n,
         putInteger (Some (reportSpoolingPreference_data m)) off n] (0, buffer))
      else Some (0, buffer))"

definition reportSpoolingPreferenceMessageCreate :: ReportSpoolingPreferenceMessage where
  "reportSpoolingPreferenceMessageCreate =
     (let m = reportSpoolingPreference_dataInitialize (JausHeader.extend (blankHeader JAUS_REPORT_SPOOLING_PREFERENCE 0)
        (ReportSpoolingPreferenceMessage.fields 0 0))
      in m\<lparr>dataSize := reportSpoolingPreference_dataSize m\<rparr>)"

definition reportSpoolingPreferenceMessageFromBuffer ::
    "ReportSpoolingPreferenceMessage \<Rightarrow> bytes \<Rightarrow> u32 \<Rightarrow> (bool \<times> ReportSpoolingPreferenceMessage) exec" where
  "reportSpoolingPreferenceMessageFromBuffer =
     messageFromBuffer reportSpoolingPreference_dataFromBuffer"

definition reportSpoolingPreferenceMessageSize :: "ReportSpoolingPreferenceMessage \<Rightarrow> u32" where
  "reportSpoolingPreferenceMessageSize = messageSize reportSpoolingPreference_dataSize"

definition reportSpoolingPreferenceMessageToBuffer ::
    "ReportSpoolingPreferenceMessage \<Rightarrow> bytes \<Rightarrow> u32 \<Rightarrow> (bool \<times> ReportSpoolingPreferenceMessage \<times> bytes) exec" where
  "reportSpoolingPreferenceMessageToBuffer =
     messageToBuffer reportSpoolingPreference_dataSize reportSpoolingPreference_dataToBuffer"

definition reportSpoolingPreferenceMessageFromJausMessage ::
    "ReportSpoolingPreferenceMessage \<Rightarrow> JausMessage \<Rightarrow> ReportSpoolingPreferenceMessage option exec" where
  "reportSpoolingPreferenceMessageFromJausMessage =
     messageFromJausMessage JAUS_REPORT_SPOOLING_PREFERENCE reportSpoolingPreference_dataFromBuffer"

definition reportSpoolingPreferenceMessageToJausMessage ::
    "ReportSpoolingPreferenceMessage \<Rightarrow> JausMessage exec" where
  "reportSpoolingPreferenceMessageToJausMessage =
     messageToJausMessage reportSpoolingPreference_dataSize reportSpoolingPreference_dataToBuffer"

definition reportSpoolingPreference_enc :: "ReportSpoolingPreferenceMessage \<Rightarrow> bytes" where
  "reportSpoolingPreference_enc m =
     [reportSpoolingPreference_spoolType m] @
     bytesOfWord 4 (reportSpoolingPreference_data m)"

definition reportSpoolingPreference_withData :: "ReportSpoolingPreferenceMessage \<Rightarrow> ReportSpoolingPreferenceMessage \<Rightarrow> ReportSpoolingPreferenceMessage" where
  "reportSpoolingPreference_withData m0 m =
     m0\<lparr>reportSpoolingPreference_spoolType := reportSpoolingPreference_spoolType m,
        reportSpoolingPreference_data := reportSpoolingPreference_data m\<rparr>"

lemma reportSpoolingPreference_size: "reportSpoolingPreference_dataSize m = of_nat (length (reportSpoolingPreference_enc m))"
  by (simp add: reportSpoolingPreference_dataSize_def reportSpoolingPreference_enc_def)

lemma reportSpoolingPreference_small: "length (reportSpoolingPreference_enc m) < 4096"
  unfolding reportSpoolingPreference_enc_def by (rule enc_small, (rule length_bounds)+, simp)

lemma reportSpoolingPreference_to:
  assumes "off + length (reportSpoolingPreference_enc m) \<le> length buf" "length (reportSpoolingPreference_enc m) \<le> unat n"
  shows "reportSpoolingPreference_dataToBuffer m buf off n =
    Some (length (reportSpoolingPreference_enc m), take off buf @ reportSpoolingPreference_enc m @ drop (off + length (reportSpoolingPreference_enc m)) buf)"
  unfolding reportSpoolingPreference_dataToBuffer_def
  by (rule to_lawI [OF _ reportSpoolingPreference_size assms], unfold reportSpoolingPreference_enc_def,
      (rule writes_intros refl | rule writes_Cons | (rule FromDouble_total, simp)
        | simp add: codec_simps)+)

lemma reportSpoolingPreference_from:
  assumes "dataSize m0 = reportSpoolingPreference_dataSize m"
  shows "reportSpoolingPreference_dataFromBuffer m0 (pre @ reportSpoolingPreference_enc m @ post) (length pre) (reportSpoolingPreference_dataSize m) = Some (True, reportSpoolingPreference_withData m0 m)"
proof -
  have n: "unat (reportSpoolingPreference_dataSize m) = length (reportSpoolingPreference_enc m)"
    using reportSpoolingPreference_small [of m] by (simp add: reportSpoolingPreference_size unat_of_nat_lt)
  show ?thesis
    unfolding reportSpoolingPreference_dataFromBuffer_def reportSpoolingPreference_withData_def
    by (rule from_lawI [where D = "reportSpoolingPreference_enc m"], unfold reportSpoolingPreference_enc_def,
        (rule parses_intros refl n [unfolded reportSpoolingPreference_enc_def] assms [symmetric] | rule parses_Cons
          | simp add: codec_simps)+)
qed

interpretation reportSpoolingPreference: typed_message reportSpoolingPreference_dataSize reportSpoolingPreference_dataFromBuffer
  reportSpoolingPreference_dataToBuffer reportSpoolingPreference_enc reportSpoolingPreference_withData
  by unfold_locales (fact reportSpoolingPreference_size reportSpoolingPreference_small reportSpoolingPreference_to reportSpoolingPreference_from)+

section \<open>ReportVksBoundsMessage\<close>

record ReportVksBoundsMessage = JausHeader +
  reportVksBounds_requestId :: u8
  reportVksBounds_featureClass :: u16
  reportVksBounds_southWestLatitudeDegrees :: real
  reportVksBounds_southWestLongitudeDegrees :: real
  reportVksBounds_northEastLatitudeDegrees :: real
  reportVksBounds_northEastLongitudeDegrees :: real

definition reportVksBounds_dataInitialize ::
    "ReportVksBoundsMessage \<Rightarrow> ReportVksBoundsMessage" where
  "reportVksBounds_dataInitialize m =
     m\<lparr>reportVksBounds_requestId := newJausByte 0,
        reportVksBounds_featureClass := newJausUnsignedShort 0,
        reportVksBounds_southWestLatitudeDegrees := 0,
        reportVksBounds_southWestLongitudeDegrees := 0,
        reportVksBounds_northEastLatitudeDegrees := 0,
        reportVksBounds_northEastLongitudeDegrees := 0\<rparr>"

definition reportVksBounds_dataSize :: "ReportVksBoundsMessage \<Rightarrow> u32" where
  "reportVksBounds_dataSize m =
     19"

definition reportVksBounds_dataFromBuffer ::
    "ReportVksBoundsMessage \<Rightarrow> bytes \<Rightarrow> nat \<Rightarrow> u32 \<Rightarrow> (bool \<times> ReportVksBoundsMessage) exec" where
  "reportVksBounds_dataFromBuffer m buffer off n =
     (if n = dataSize m then finishR (runStmts
        [getByte (\<lambda>v m. m\<lparr>reportVksBounds_requestId := v\<rparr>) buffer off n,
         getUShort (\<lambda>v m. m\<lparr>reportVksBounds_featureClass := v\<rparr>) buffer off n,
         getInteger (\<lambda>v m. m\<lparr>reportVksBounds_southWestLatitudeDegrees := jausIntegerToDouble v (- 90) 90\<rparr>) buffer off n,
         getInteger (\<lambda>v m. m\<lparr>reportVksBounds_southWestLongitudeDegrees := jausIntegerToDouble v (- 180) 180\<rparr>) buffer off n,
         getInteger (\<lambda>v m. m\<lparr>reportVksBounds_northEastLatitudeDegrees := jausIntegerToDouble v (- 90) 90\<rparr>) buffer off n,
         getInteger (\<lambda>v m. m\<lparr>reportVksBounds_northEastLongitudeDegrees := jausIntegerToDouble v (- 180) 180\<rparr>) buffer off n] (0, m))
      else Some (False, m))"

definition reportVksBounds_dataToBuffer ::
    "ReportVksBoundsMessage \<Rightarrow> bytes \<Rightarrow> nat \<Rightarrow> u32 \<Rightarrow> (nat \<times> bytes) exec" where
  "reportVksBounds_dataToBuffer m buffer off n =
     (if reportVksBounds_dataSize m \<le> n then finishW (runStmts
        [putByte (Some (reportVksBounds_requestId m)) off n,
         putUShort (Some (reportVksBounds_featureClass m)) off n,
         putInteger (jausIntegerFromDouble (reportVksBounds_southWestLatitudeDegrees m) (- 90) 90) off n,
         putInteger (jausIntegerFromDouble (reportVksBounds_southWestLongitudeDegrees m) (- 180) 180) off n,
         putInteger (jausIntegerFromDouble (reportVksBounds_northEastLatitudeDegrees m) (- 90) 90) off n,
         putInteger (jausIntegerFromDouble (reportVksBounds_northEastLongitudeDegrees m) (- 180) 180) off n] (0, buffer))
      else Some (0, buffer))"

definition reportVksBoundsMessageCreate :: ReportVksBoundsMessage where
  "reportVksBoundsMessageCreate =
     (reportVksBounds_dataInitialize (JausHeader.extend (blankHeader JAUS_REPORT_VKS_BOUNDS 19)
        (ReportVksBoundsMessage.fields 0 0 0 0 0 0)))"

definition reportVksBoundsMessageFromBuffer ::
    "ReportVksBoundsMessage \<Rightarrow> bytes \<Rightarrow> u32 \<Rightarrow> (bool \<times> ReportVksBoundsMessage) exec" where
  "reportVksBoundsMessageFromBuffer =
     messageFromBuffer reportVksBounds_dataFromBuffer"

definition reportVksBoundsMessageSize :: "ReportVksBoundsMessage \<Rightarrow> u32" where
  "reportVksBoundsMessageSize = messageSize reportVksBounds_dataSize"

definition reportVksBoundsMessageToBuffer ::
    "ReportVksBoundsMessage \<Rightarrow> bytes \<Rightarrow> u32 \<Rightarrow> (bool \<times> ReportVksBoundsMessage \<times> bytes) exec" where
  "reportVksBoundsMessageToBuffer =
     messageToBuffer reportVksBounds_dataSize reportVksBounds_dataToBuffer"

definition reportVksBoundsMessageFromJausMessage ::
    "ReportVksBoundsMessage \<Rightarrow> JausMessage \<Rightarrow> ReportVksBoundsMessage option exec" where
  "reportVksBoundsMessageFromJausMessage =
     messageFromJausMessage JAUS_REPORT_VKS_BOUNDS reportVksBounds_dataFromBuffer"

definition reportVksBoundsMessageToJausMessage ::
    "ReportVksBoundsMessage \<Rightarrow> JausMessage exec" where
  "reportVksBoundsMessageToJausMessage =
     messageToJausMessage reportVksBounds_dataSize reportVksBounds_dataToBuffer"

definition reportVksBounds_enc :: "ReportVksBoundsMessage \<Rightarrow> bytes" where
  "reportVksBounds_enc m =
     [reportVksBounds_requestId m] @
     bytesOfWord 2 (reportVksBounds_featureClass m) @
     bytesOfWord 4 (the (jausIntegerFromDouble (reportVksBounds_southWestLatitudeDegrees m) (- 90) 90)) @
     bytesOfWord 4 (the (jausIntegerFromDouble (reportVksBounds_southWestLongitudeDegrees m) (- 180) 180)) @
     bytesOfWord 4 (the (jausIntegerFromDouble (reportVksBounds_northEastLatitudeDegrees m) (- 90) 90)) @
     bytesOfWord 4 (the (jausIntegerFromDouble (reportVksBounds_northEastLongitudeDegrees m) (- 180) 180))"

definition reportVksBounds_withData :: "ReportVksBoundsMessage \<Rightarrow> ReportVksBoundsMessage \<Rightarrow> ReportVksBoundsMessage" where
  "reportVksBounds_withData m0 m =
     m0\<lparr>reportVksBounds_requestId := reportVksBounds_requestId m,
        reportVksBounds_featureClass := reportVksBounds_featureClass m,
        reportVksBounds_southWestLatitudeDegrees := jausIntegerToDouble (the (jausIntegerFromDouble (reportVksBounds_southWestLatitudeDegrees m) (- 90) 90)) (- 90) 90,
        reportVksBounds_southWestLongitudeDegrees := jausIntegerToDouble (the (jausIntegerFromDouble (reportVksBounds_southWestLongitudeDegrees m) (- 180) 180)) (- 180) 180,
        reportVksBounds_northEastLatitudeDegrees := jausIntegerToDouble (the (jausIntegerFromDouble (reportVksBounds_northEastLatitudeDegrees m) (- 90) 90)) (- 90) 90,
        reportVksBounds_northEastLongitudeDegrees := jausIntegerToDouble (the (jausIntegerFromDouble (reportVksBounds_northEastLongitudeDegrees m) (- 180) 180)) (- 180) 180\<rparr>"

lemma reportVksBounds_size: "reportVksBounds_dataSize m = of_nat (length (reportVksBounds_enc m))"
  by (simp add: reportVksBounds_dataSize_def reportVksBounds_enc_def)

lemma reportVksBounds_small: "length (reportVksBounds_enc m) < 4096"
  unfolding reportVksBounds_enc_def by (rule enc_small, (rule length_bounds)+, simp)

lemma reportVksBounds_to:
  assumes "off + length (reportVksBounds_enc m) \<le> length buf" "length (reportVksBounds_enc m) \<le> unat n"
  shows "reportVksBounds_dataToBuffer m buf off n =
    Some (length (reportVksBounds_enc m), take off buf @ reportVksBounds_enc m @ drop (off + length (reportVksBounds_enc m)) buf)"
  unfolding reportVksBounds_dataToBuffer_def
  by (rule to_lawI [OF _ reportVksBounds_size assms], unfold reportVksBounds_enc_def,
      (rule writes_intros refl | rule writes_Cons | (rule FromDouble_total, simp)
        | simp add: codec_simps)+)

lemma reportVksBounds_from:
  assumes "dataSize m0 = reportVksBounds_dataSize m"
  shows "reportVksBounds_dataFromBuffer m0 (pre @ reportVksBounds_enc m @ post) (length pre) (reportVksBounds_dataSize m) = Some (True, reportVksBounds_withData m0 m)"
proof -
  have n: "unat (reportVksBounds_dataSize m) = length (reportVksBounds_enc m)"
    using reportVksBounds_small [of m] by (simp add: reportVksBounds_size unat_of_nat_lt)
  show ?thesis
    unfolding reportVksBounds_dataFromBuffer_def reportVksBounds_withData_def
    by (rule from_lawI [where D = "reportVksBounds_enc m"], unfold reportVksBounds_enc_def,
        (rule parses_intros refl n [unfolded reportVksBounds_enc_def] assms [symmetric] | rule parses_Cons
          | simp add: codec_simps)+)
qed

interpretation reportVksBounds: typed_message reportVksBounds_dataSize reportVksBounds_dataFromBuffer
  reportVksBounds_dataToBuffer reportVksBounds_enc reportVksBounds_withData
  by unfold_locales (fact reportVksBounds_size reportVksBounds_small reportVksBounds_to reportVksBounds_from)+

section \<open>ReportVksDataTransferTerminationMessage\<close>

type_synonym ReportVksDataTransferTerminationMessage = JausHeader

definition reportVksDataTransferTerminationMessageCreate :: ReportVksDataTransferTerminationMessage where
  "reportVksDataTransferTerminationMessageCreate =
     (let m = noData_dataInitialize (blankHeader JAUS_REPORT_VKS_DATA_TRANSFER_TERMINATION 0) in m\<lparr>dataSize := noData_dataSize m\<rparr>)"

definition reportVksDataTransferTerminationMessageFromBuffer ::
    "ReportVksDataTransferTerminationMessage \<Rightarrow> bytes \<Rightarrow> u32 \<Rightarrow> (bool \<times> ReportVksDataTransferTerminationMessage) exec" where
  "reportVksDataTransferTerminationMessageFromBuffer =
     messageFromBuffer noData_dataFromBuffer"

definition reportVksDataTransferTerminationMessageToBuffer ::
    "ReportVksDataTransferTerminationMessage \<Rightarrow> bytes \<Rightarrow> u32 \<Rightarrow> (bool \<times> ReportVksDataTransferTerminationMessage \<times> bytes) exec" where
  "reportVksDataTransferTerminationMessageToBuffer =
     messageToBuffer noData_dataSize noData_dataToBuffer"

definition reportVksDataTransferTerminationMessageFromJausMessage ::
    "ReportVksDataTransferTerminationMessage \<Rightarrow> JausMessage \<Rightarrow> ReportVksDataTransferTerminationMessage option exec" where
  "reportVksDataTransferTerminationMessageFromJausMessage =
     messageFromJausMessage JAUS_REPORT_VKS_DATA_TRANSFER_TERMINATION noData_dataFromBuffer"

definition reportVksDataTransferTerminationMessageToJausMessage ::
    "ReportVksDataTransferTerminationMessage \<Rightarrow> JausMessage exec" where
  "reportVksDataTransferTerminationMessageToJausMessage =
     messageToJausMessage noData_dataSize noData_dataToBuffer"

definition reportVksDataTransferTerminationMessageSize ::
    "ReportVksDataTransferTerminationMessage \<Rightarrow> u32" where
  "reportVksDataTransferTerminationMessageSize =
     messageSize noData_dataSize"

end
