(* ===== verification/QueryMessages.thy ===== *)
theory QueryMessages
  imports MessageCodes
begin

text \<open>
  The queries (\<open>libjaus/message/query\<close>).
  Each section translates one source file: the struct as a record that extends the header,
  its four message-specific routines, and the common routines applied to them. \<open>enc\<close> and
  \<open>withData\<close> are the specification, the wire image and what a receiver reconstructs from it;
  the interpretation of \<open>typed_message\<close> proves that the routines meet it, and with it the
  round trips through buffers and generic messages.
\<close>

section \<open>QueryDataLinkStatusMessage\<close>

record QueryDataLinkStatusMessage = JausHeader +
  queryDataLinkStatus_dataLinkId :: u8

definition queryDataLinkStatus_dataInitialize ::
    "QueryDataLinkStatusMessage \<Rightarrow> QueryDataLinkStatusMessage" where
  "queryDataLinkStatus_dataInitialize m =
     m\<lparr>queryDataLinkStatus_dataLinkId := newJausByte 0\<rparr>"

definition queryDataLinkStatus_dataSize :: "QueryDataLinkStatusMessage \<Rightarrow> u32" where
  "queryDataLinkStatus_dataSize m =
     1"

definition queryDataLinkStatus_dataFromBuffer ::
    "QueryDataLinkStatusMessage \<Rightarrow> bytes \<Rightarrow> nat \<Rightarrow> u32 \<Rightarrow> (bool \<times> QueryDataLinkStatusMessage) exec" where
  "queryDataLinkStatus_dataFromBuffer m buffer off n =
     (if n = dataSize m then finishR (runStmts
        [getByte (\<lambda>v m. m\<lparr>queryDataLinkStatus_dataLinkId := v\<rparr>) buffer off n] (0, m))
      else Some (False, m))"

definition queryDataLinkStatus_dataToBuffer ::
    "QueryDataLinkStatusMessage \<Rightarrow> bytes \<Rightarrow> nat \<Rightarrow> u32 \<Rightarrow> (nat \<times> bytes) exec" where
  "queryDataLinkStatus_dataToBuffer m buffer off n =
     (if queryDataLinkStatus_dataSize m \<le> n then finishW (runStmts
        [putByte (Some (queryDataLinkStatus_dataLinkId m)) off n] (0, buffer))
      else Some (0, buffer))"

definition queryDataLinkStatusMessageCreate :: QueryDataLinkStatusMessage where
  "queryDataLinkStatusMessageCreate =
     (let m = queryDataLinkStatus_dataInitialize (JausHeader.extend (blankHeader JAUS_QUERY_DATA_LINK_STATUS 1)
        (QueryDataLinkStatusMessage.fields 0))
      in m\<lparr>dataSize := queryDataLinkStatus_dataSize m\<rparr>)"

definition queryDataLinkStatusMessageFromBuffer ::
    "QueryDataLinkStatusMessage \<Rightarrow> bytes \<Rightarrow> u32 \<Rightarrow> (bool \<times> QueryDataLinkStatusMessage) exec" where
  "queryDataLinkStatusMessageFromBuffer =
     messageFromBuffer queryDataLinkStatus_dataFromBuffer"

definition queryDataLinkStatusMessageSize :: "QueryDataLinkStatusMessage \<Rightarrow> u32" where
  "queryDataLinkStatusMessageSize = messageSize queryDataLinkStatus_dataSize"

definition queryDataLinkStatusMessageToBuffer ::
    "QueryDataLinkStatusMessage \<Rightarrow> bytes \<Rightarrow> u32 \<Rightarrow> (bool \<times> QueryDataLinkStatusMessage \<times> bytes) exec" where
  "queryDataLinkStatusMessageToBuffer =
     messageToBuffer queryDataLinkStatus_dataSize queryDataLinkStatus_dataToBuffer"

definition queryDataLinkStatusMessageFromJausMessage ::
    "QueryDataLinkStatusMessage \<Rightarrow> JausMessage \<Rightarrow> QueryDataLinkStatusMessage option exec" where
  "queryDataLinkStatusMessageFromJausMessage =
     messageFromJausMessage JAUS_QUERY_DATA_LINK_STATUS queryDataLinkStatus_dataFromBuffer"

definition queryDataLinkStatusMessageToJausMessage ::
    "QueryDataLinkStatusMessage \<Rightarrow> JausMessage exec" where
  "queryDataLinkStatusMessageToJausMessage =
     messageToJausMessage queryDataLinkStatus_dataSize queryDataLinkStatus_dataToBuffer"

definition queryDataLinkStatus_enc :: "QueryDataLinkStatusMessage \<Rightarrow> bytes" where
  "queryDataLinkStatus_enc m =
     [queryDataLinkStatus_dataLinkId m]"

definition queryDataLinkStatus_withData :: "QueryDataLinkStatusMessage \<Rightarrow> QueryDataLinkStatusMessage \<Rightarrow> QueryDataLinkStatusMessage" where
  "queryDataLinkStatus_withData m0 m =
     m0\<lparr>queryDataLinkStatus_dataLinkId := queryDataLinkStatus_dataLinkId m\<rparr>"

lemma queryDataLinkStatus_size: "queryDataLinkStatus_dataSize m = of_nat (length (queryDataLinkStatus_enc m))"
  by (simp add: queryDataLinkStatus_dataSize_def queryDataLinkStatus_enc_def)

lemma queryDataLinkStatus_small: "length (queryDataLinkStatus_enc m) < 4096"
  unfolding queryDataLinkStatus_enc_def by (rule enc_small, (rule length_bounds)+, simp)

lemma queryDataLinkStatus_to:
  assumes "off + length (queryDataLinkStatus_enc m) \<le> length buf" "length (queryDataLinkStatus_enc m) \<le> unat n"
  shows "queryDataLinkStatus_dataToBuffer m buf off n =
    Some (length (queryDataLinkStatus_enc m), take off buf @ queryDataLinkStatus_enc m @ drop (off + length (queryDataLinkStatus_enc m)) buf)"
  unfolding queryDataLinkStatus_dataToBuffer_def
  by (rule to_lawI [OF _ queryDataLinkStatus_size assms], unfold queryDataLinkStatus_enc_def,
      (rule writes_intros refl | rule writes_Cons | (rule FromDouble_total, simp)
        | simp add: codec_simps)+)

lemma queryDataLinkStatus_from:
  assumes "dataSize m0 = queryDataLinkStatus_dataSize m"
  shows "queryDataLinkStatus_dataFromBuffer m0 (pre @ queryDataLinkStatus_enc m @ post) (length pre) (queryDataLinkStatus_dataSize m) = Some (True, queryDataLinkStatus_withData m0 m)"
proof -
  have n: "unat (queryDataLinkStatus_dataSize m) = length (queryDataLinkStatus_enc m)"
    using queryDataLinkStatus_small [of m] by (simp add: queryDataLinkStatus_size unat_of_nat_lt)
  show ?thesis
    unfolding queryDataLinkStatus_dataFromBuffer_def queryDataLinkStatus_withData_def
    by (rule from_lawI [where D = "queryDataLinkStatus_enc m"], unfold queryDataLinkStatus_enc_def,
        (rule parses_intros refl n [unfolded queryDataLinkStatus_enc_def] assms [symmetric] | rule parses_Cons
          | simp add: codec_simps)+)
qed

interpretation queryDataLinkStatus: typed_message queryDataLinkStatus_dataSize queryDataLinkStatus_dataFromBuffer
  queryDataLinkStatus_dataToBuffer queryDataLinkStatus_enc queryDataLinkStatus_withData
  by unfold_locales (fact queryDataLinkStatus_size queryDataLinkStatus_small queryDataLinkStatus_to queryDataLinkStatus_from)+

section \<open>QueryHeartbeatPulseMessage\<close>

type_synonym QueryHeartbeatPulseMessage = JausHeader

definition queryHeartbeatPulseMessageCreate :: QueryHeartbeatPulseMessage where
  "queryHeartbeatPulseMessageCreate =
     (noData_dataInitialize (blankHeader JAUS_QUERY_HEARTBEAT_PULSE 0))"

definition queryHeartbeatPulseMessageFromBuffer ::
    "QueryHeartbeatPulseMessage \<Rightarrow> bytes \<Rightarrow> u32 \<Rightarrow> (bool \<times> QueryHeartbeatPulseMessage) exec" where
  "queryHeartbeatPulseMessageFromBuffer =
     messageFromBuffer noData_dataFromBuffer"

definition queryHeartbeatPulseMessageToBuffer ::
    "QueryHeartbeatPulseMessage \<Rightarrow> bytes \<Rightarrow> u32 \<Rightarrow> (bool \<times> QueryHeartbeatPulseMessage \<times> bytes) exec" where
  "queryHeartbeatPulseMessageToBuffer =
     messageToBuffer noData_dataSize noData_dataToBuffer"

definition queryHeartbeatPulseMessageFromJausMessage ::
    "QueryHeartbeatPulseMessage \<Rightarrow> JausMessage \<Rightarrow> QueryHeartbeatPulseMessage option exec" where
  "queryHeartbeatPulseMessageFromJausMessage =
     messageFromJausMessage JAUS_QUERY_HEARTBEAT_PULSE noData_dataFromBuffer"

definition queryHeartbeatPulseMessageToJausMessage ::
    "QueryHeartbeatPulseMessage \<Rightarrow> JausMessage exec" where
  "queryHeartbeatPulseMessageToJausMessage =
     messageToJausMessage noData_dataSize noData_dataToBuffer"

definition queryHeartbeatPulseMessageSize ::
    "QueryHeartbeatPulseMessage \<Rightarrow> u32" where
  "queryHeartbeatPulseMessageSize =
     messageSize noData_dataSize"

section \<open>QueryConfigurationMessage\<close>

record QueryConfigurationMessage = JausHeader +
  queryConfiguration_queryField :: u8

definition queryConfiguration_dataInitialize ::
    "QueryConfigurationMessage \<Rightarrow> QueryConfigurationMessage" where
  "queryConfiguration_dataInitialize m =
     m\<lparr>queryConfiguration_queryField := newJausByte 0\<rparr>"

definition queryConfiguration_dataSize :: "QueryConfigurationMessage \<Rightarrow> u32" where
  "queryConfiguration_dataSize m =
     1"

definition queryConfiguration_dataFromBuffer ::
    "QueryConfigurationMessage \<Rightarrow> bytes \<Rightarrow> nat \<Rightarrow> u32 \<Rightarrow> (bool \<times> QueryConfigurationMessage) exec" where
  "queryConfiguration_dataFromBuffer m buffer off n =
     (if n = dataSize m then finishR (runStmts
        [getByte (\<lambda>v m. m\<lparr>queryConfiguration_queryField := v\<rparr>) buffer off n] (0, m))
      else Some (False, m))"

definition queryConfiguration_dataToBuffer ::
    "QueryConfigurationMessage \<Rightarrow> bytes \<Rightarrow> nat \<Rightarrow> u32 \<Rightarrow> (nat \<times> bytes) exec" where
  "queryConfiguration_dataToBuffer m buffer off n =
     (if queryConfiguration_dataSize m \<le> n then finishW (runStmts
        [putByte (Some (queryConfiguration_queryField m)) off n] (0, buffer))
      else Some (0, buffer))"

definition queryConfigurationMessageCreate :: QueryConfigurationMessage where
  "queryConfigurationMessageCreate =
     (queryConfiguration_dataInitialize (JausHeader.extend (blankHeader JAUS_QUERY_CONFIGURATION 1)
        (QueryConfigurationMessage.fields 0)))"

definition queryConfigurationMessageFromBuffer ::
    "QueryConfigurationMessage \<Rightarrow> bytes \<Rightarrow> u32 \<Rightarrow> (bool \<times> QueryConfigurationMessage) exec" where
  "queryConfigurationMessageFromBuffer =
     messageFromBuffer queryConfiguration_dataFromBuffer"

definition queryConfigurationMessageSize :: "QueryConfigurationMessage \<Rightarrow> u32" where
  "queryConfigurationMessageSize = messageSize queryConfiguration_dataSize"

definition queryConfigurationMessageToBuffer ::
    "QueryConfigurationMessage \<Rightarrow> bytes \<Rightarrow> u32 \<Rightarrow> (bool \<times> QueryConfigurationMessage \<times> bytes) exec" where
  "queryConfigurationMessageToBuffer =
     messageToBuffer queryConfiguration_dataSize queryConfiguration_dataToBuffer"

definition queryConfigurationMessageFromJausMessage ::
    "QueryConfigurationMessage \<Rightarrow> JausMessage \<Rightarrow> QueryConfigurationMessage option exec" where
  "queryConfigurationMessageFromJausMessage =
     messageFromJausMessage JAUS_QUERY_CONFIGURATION queryConfiguration_dataFromBuffer"

definition queryConfigurationMessageToJausMessage ::
    "QueryConfigurationMessage \<Rightarrow> JausMessage exec" where
  "queryConfigurationMessageToJausMessage =
     messageToJausMessage queryConfiguration_dataSize queryConfiguration_dataToBuffer"

definition queryConfiguration_enc :: "QueryConfigurationMessage \<Rightarrow> bytes" where
  "queryConfiguration_enc m =
     [queryConfiguration_queryField m]"

definition queryConfiguration_withData :: "QueryConfigurationMessage \<Rightarrow> QueryConfigurationMessage \<Rightarrow> QueryConfigurationMessage" where
  "queryConfiguration_withData m0 m =
     m0\<lparr>queryConfiguration_queryField := queryConfiguration_queryField m\<rparr>"

lemma queryConfiguration_size: "queryConfiguration_dataSize m = of_nat (length (queryConfiguration_enc m))"
  by (simp add: queryConfiguration_dataSize_def queryConfiguration_enc_def)

lemma queryConfiguration_small: "length (queryConfiguration_enc m) < 4096"
  unfolding queryConfiguration_enc_def by (rule enc_small, (rule length_bounds)+, simp)

lemma queryConfiguration_to:
  assumes "off + length (queryConfiguration_enc m) \<le> length buf" "length (queryConfiguration_enc m) \<le> unat n"
  shows "queryConfiguration_dataToBuffer m buf off n =
    Some (length (queryConfiguration_enc m), take off buf @ queryConfiguration_enc m @ drop (off + length (queryConfiguration_enc m)) buf)"
  unfolding queryConfiguration_dataToBuffer_def
  by (rule to_lawI [OF _ queryConfiguration_size assms], unfold queryConfiguration_enc_def,
      (rule writes_intros refl | rule writes_Cons | (rule FromDouble_total, simp)
        | simp add: codec_simps)+)

lemma queryConfiguration_from:
  assumes "dataSize m0 = queryConfiguration_dataSize m"
  shows "queryConfiguration_dataFromBuffer m0 (pre @ queryConfiguration_enc m @ post) (length pre) (queryConfiguration_dataSize m) = Some (True, queryConfiguration_withData m0 m)"
proof -
  have n: "unat (queryConfiguration_dataSize m) = length (queryConfiguration_enc m)"
    using queryConfiguration_small [of m] by (simp add: queryConfiguration_size unat_of_nat_lt)
  show ?thesis
    unfolding queryConfiguration_dataFromBuffer_def queryConfiguration_withData_def
    by (rule from_lawI [where D = "queryConfiguration_enc m"], unfold queryConfiguration_enc_def,
        (rule parses_intros refl n [unfolded queryConfiguration_enc_def] assms [symmetric] | rule parses_Cons
          | simp add: codec_simps)+)
qed

interpretation queryConfiguration: typed_message queryConfiguration_dataSize queryConfiguration_dataFromBuffer
  queryConfiguration_dataToBuffer queryConfiguration_enc queryConfiguration_withData
  by unfold_locales (fact queryConfiguration_size queryConfiguration_small queryConfiguration_to queryConfiguration_from)+

section \<open>QueryIdentificationMessage\<close>

record QueryIdentificationMessage = JausHeader +
  queryIdentification_queryField :: u8

definition queryIdentification_dataInitialize ::
    "QueryIdentificationMessage \<Rightarrow> QueryIdentificationMessage" where
  "queryIdentification_dataInitialize m =
     m\<lparr>queryIdentification_queryField := newJausByte 0\<rparr>"

definition queryIdentification_dataSize :: "QueryIdentificationMessage \<Rightarrow> u32" where
  "queryIdentification_dataSize m =
     1"

definition queryIdentification_dataFromBuffer ::
    "QueryIdentificationMessage \<Rightarrow> bytes \<Rightarrow> nat \<Rightarrow> u32 \<Rightarrow> (bool \<times> QueryIdentificationMessage) exec" where
  "queryIdentification_dataFromBuffer m buffer off n =
     (if n = dataSize m then finishR (runStmts
        [getByte (\<lambda>v m. m\<lparr>queryIdentification_queryField := v\<rparr>) buffer off n] (0, m))
      else Some (False, m))"

definition queryIdentification_dataToBuffer ::
    "QueryIdentificationMessage \<Rightarrow> bytes \<Rightarrow> nat \<Rightarrow> u32 \<Rightarrow> (nat \<times> bytes) exec" where
  "queryIdentification_dataToBuffer m buffer off n =
     (if queryIdentification_dataSize m \<le> n then finishW (runStmts
        [putByte (Some (queryIdentification_queryField m)) off n] (0, buffer))
      else Some (0, buffer))"

definition queryIdentificationMessageCreate :: QueryIdentificationMessage where
  "queryIdentificationMessageCreate =
     (queryIdentification_dataInitialize (JausHeader.extend (blankHeader JAUS_QUERY_IDENTIFICATION 1)
        (QueryIdentificationMessage.fields 0)))"

definition queryIdentificationMessageFromBuffer ::
    "QueryIdentificationMessage \<Rightarrow> bytes \<Rightarrow> u32 \<Rightarrow> (bool \<times> QueryIdentificationMessage) exec" where
  "queryIdentificationMessageFromBuffer =
     messageFromBuffer queryIdentification_dataFromBuffer"

definition queryIdentificationMessageSize :: "QueryIdentificationMessage \<Rightarrow> u32" where
  "queryIdentificationMessageSize = messageSize queryIdentification_dataSize"

definition queryIdentificationMessageToBuffer ::
    "QueryIdentificationMessage \<Rightarrow> bytes \<Rightarrow> u32 \<Rightarrow> (bool \<times> QueryIdentificationMessage \<times> bytes) exec" where
  "queryIdentificationMessageToBuffer =
     messageToBuffer queryIdentification_dataSize queryIdentification_dataToBuffer"

definition queryIdentificationMessageFromJausMessage ::
    "QueryIdentificationMessage \<Rightarrow> JausMessage \<Rightarrow> QueryIdentificationMessage option exec" where
  "queryIdentificationMessageFromJausMessage =
     messageFromJausMessage JAUS_QUERY_IDENTIFICATION queryIdentification_dataFromBuffer"

definition queryIdentificationMessageToJausMessage ::
    "QueryIdentificationMessage \<Rightarrow> JausMessage exec" where
  "queryIdentificationMessageToJausMessage =
     messageToJausMessage queryIdentification_dataSize queryIdentification_dataToBuffer"

definition queryIdentification_enc :: "QueryIdentificationMessage \<Rightarrow> bytes" where
  "queryIdentification_enc m =
     [queryIdentification_queryField m]"

definition queryIdentification_withData :: "QueryIdentificationMessage \<Rightarrow> QueryIdentificationMessage \<Rightarrow> QueryIdentificationMessage" where
  "queryIdentification_withData m0 m =
     m0\<lparr>queryIdentification_queryField := queryIdentification_queryField m\<rparr>"

lemma queryIdentification_size: "queryIdentification_dataSize m = of_nat (length (queryIdentification_enc m))"
  by (simp add: queryIdentification_dataSize_def queryIdentification_enc_def)

lemma queryIdentification_small: "length (queryIdentification_enc m) < 4096"
  unfolding queryIdentification_enc_def by (rule enc_small, (rule length_bounds)+, simp)

lemma queryIdentification_to:
  assumes "off + length (queryIdentification_enc m) \<le> length buf" "length (queryIdentification_enc m) \<le> unat n"
  shows "queryIdentification_dataToBuffer m buf off n =
    Some (length (queryIdentification_enc m), take off buf @ queryIdentification_enc m @ drop (off + length (queryIdentification_enc m)) buf)"
  unfolding queryIdentification_dataToBuffer_def
  by (rule to_lawI [OF _ queryIdentification_size assms], unfold queryIdentification_enc_def,
      (rule writes_intros refl | rule writes_Cons | (rule FromDouble_total, simp)
        | simp add: codec_simps)+)

lemma queryIdentification_from:
  assumes "dataSize m0 = queryIdentification_dataSize m"
  shows "queryIdentification_dataFromBuffer m0 (pre @ queryIdentification_enc m @ post) (length pre) (queryIdentification_dataSize m) = Some (True, queryIdentification_withData m0 m)"
proof -
  have n: "unat (queryIdentification_dataSize m) = length (queryIdentification_enc m)"
    using queryIdentification_small [of m] by (simp add: queryIdentification_size unat_of_nat_lt)
  show ?thesis
    unfolding queryIdentification_dataFromBuffer_def queryIdentification_withData_def
    by (rule from_lawI [where D = "queryIdentification_enc m"], unfold queryIdentification_enc_def,
        (rule parses_intros refl n [unfolded queryIdentification_enc_def] assms [symmetric] | rule parses_Cons
          | simp add: codec_simps)+)
qed

interpretation queryIdentification: typed_message queryIdentification_dataSize queryIdentification_dataFromBuffer
  queryIdentification_dataToBuffer queryIdentification_enc queryIdentification_withData
  by unfold_locales (fact queryIdentification_size queryIdentification_small queryIdentification_to queryIdentification_from)+

section \<open>QueryServicesMessage\<close>

type_synonym QueryServicesMessage = JausHeader

definition queryServicesMessageCreate :: QueryServicesMessage where
  "queryServicesMessageCreate =
     (noData_dataInitialize (blankHeader JAUS_QUERY_SERVICES 0))"

definition queryServicesMessageFromBuffer ::
    "QueryServicesMessage \<Rightarrow> bytes \<Rightarrow> u32 \<Rightarrow> (bool \<times> QueryServicesMessage) exec" where
  "queryServicesMessageFromBuffer =
     messageFromBuffer noData_dataFromBuffer"

definition queryServicesMessageToBuffer ::
    "QueryServicesMessage \<Rightarrow> bytes \<Rightarrow> u32 \<Rightarrow> (bool \<times> QueryServicesMessage \<times> bytes) exec" where
  "queryServicesMessageToBuffer =
     messageToBufferHeaderFirst noData_dataSize noData_dataToBuffer"

definition queryServicesMessageFromJausMessage ::
    "QueryServicesMessage \<Rightarrow> JausMessage \<Rightarrow> QueryServicesMessage option exec" where
  "queryServicesMessageFromJausMessage =
     messageFromJausMessage JAUS_QUERY_SERVICES noData_dataFromBuffer"

definition queryServicesMessageToJausMessage ::
    "QueryServicesMessage \<Rightarrow> JausMessage exec" where
  "queryServicesMessageToJausMessage =
     messageToJausMessage noData_dataSize noData_dataToBuffer"

definition queryServicesMessageSize ::
    "QueryServicesMessage \<Rightarrow> u32" where
  "queryServicesMessageSize =
     messageSize noData_dataSize"

section \<open>QuerySubsystemListMessage\<close>

type_synonym QuerySubsystemListMessage = JausHeader

definition querySubsystemListMessageCreate :: QuerySubsystemListMessage where
  "querySubsystemListMessageCreate =
     (noData_dataInitialize (blankHeader JAUS_QUERY_SUBSYSTEM_LIST 0))"

definition querySubsystemListMessageFromBuffer ::
    "QuerySubsystemListMessage \<Rightarrow> bytes \<Rightarrow> u32 \<Rightarrow> (bool \<times> QuerySubsystemListMessage) exec" where
  "querySubsystemListMessageFromBuffer =
     messageFromBuffer noData_dataFromBuffer"

definition querySubsystemListMessageToBuffer ::
    "QuerySubsystemListMessage \<Rightarrow> bytes \<Rightarrow> u32 \<Rightarrow> (bool \<times> QuerySubsystemListMessage \<times> bytes) exec" where
  "querySubsystemListMessageToBuffer =
     messageToBufferHeaderFirst noData_dataSize noData_dataToBuffer"

definition querySubsystemListMessageFromJausMessage ::
    "QuerySubsystemListMessage \<Rightarrow> JausMessage \<Rightarrow> QuerySubsystemListMessage option exec" where
  "querySubsystemListMessageFromJausMessage =
     messageFromJausMessage JAUS_QUERY_SUBSYSTEM_LIST noData_dataFromBuffer"

definition querySubsystemListMessageToJausMessage ::
    "QuerySubsystemListMessage \<Rightarrow> JausMessage exec" where
  "querySubsystemListMessageToJausMessage =
     messageToJausMessage noData_dataSize noData_dataToBuffer"

definition querySubsystemListMessageSize ::
    "QuerySubsystemListMessage \<Rightarrow> u32" where
  "querySubsystemListMessageSize =
     messageSize noData_dataSize"

section \<open>QueryCameraCapabilitiesMessage\<close>

record QueryCameraCapabilitiesMessage = JausHeader +
  queryCameraCapabilities_presenceVector :: u16
  queryCameraCapabilities_cameraID :: u8

definition queryCameraCapabilities_dataInitialize ::
    "QueryCameraCapabilitiesMessage \<Rightarrow> QueryCameraCapabilitiesMessage" where
  "queryCameraCapabilities_dataInitialize m =
     m\<lparr>queryCameraCapabilities_presenceVector := newJausUnsignedShort JAUS_SHORT_PRESENCE_VECTOR_ALL_ON,
        queryCameraCapabilities_cameraID := newJausByte 0\<rparr>"

definition queryCameraCapabilities_dataSize :: "QueryCameraCapabilitiesMessage \<Rightarrow> u32" where
  "queryCameraCapabilities_dataSize m =
     3"

definition queryCameraCapabilities_dataFromBuffer ::
    "QueryCameraCapabilitiesMessage \<Rightarrow> bytes \<Rightarrow> nat \<Rightarrow> u32 \<Rightarrow> (bool \<times> QueryCameraCapabilitiesMessage) exec" where
  "queryCameraCapabilities_dataFromBuffer m buffer off n =
     (if n = dataSize m then finishR (runStmts
        [getUShort (\<lambda>v m. m\<lparr>queryCameraCapabilities_presenceVector := v\<rparr>) buffer off n,
         getByte (\<lambda>v m. m\<lparr>queryCameraCapabilities_cameraID := v\<rparr>) buffer off n] (0, m))
      else Some (False, m))"

definition queryCameraCapabilities_dataToBuffer ::
    "QueryCameraCapabilitiesMessage \<Rightarrow> bytes \<Rightarrow> nat \<Rightarrow> u32 \<Rightarrow> (nat \<times> bytes) exec" where
  "queryCameraCapabilities_dataToBuffer m buffer off n =
     (if queryCameraCapabilities_dataSize m \<le> n then finishW (runStmts
        [putUShort (Some (queryCameraCapabilities_presenceVector m)) off n,
         putByte (Some (queryCameraCapabilities_cameraID m)) off n] (0, buffer))
      else Some (0, buffer))"

definition queryCameraCapabilitiesMessageCreate :: QueryCameraCapabilitiesMessage where
  "queryCameraCapabilitiesMessageCreate =
     (let m = queryCameraCapabilities_dataInitialize (JausHeader.extend (blankHeader JAUS_QUERY_CAMERA_CAPABILITIES 3)
        (QueryCameraCapabilitiesMessage.fields 0 0))
      in m\<lparr>dataSize := queryCameraCapabilities_dataSize m\<rparr>)"

definition queryCameraCapabilitiesMessageFromBuffer ::
    "QueryCameraCapabilitiesMessage \<Rightarrow> bytes \<Rightarrow> u32 \<Rightarrow> (bool \<times> QueryCameraCapabilitiesMessage) exec" where
  "queryCameraCapabilitiesMessageFromBuffer =
     messageFromBuffer queryCameraCapabilities_dataFromBuffer"

definition queryCameraCapabilitiesMessageSize :: "QueryCameraCapabilitiesMessage \<Rightarrow> u32" where
  "queryCameraCapabilitiesMessageSize = messageSize queryCameraCapabilities_dataSize"

definition queryCameraCapabilitiesMessageToBuffer ::
    "QueryCameraCapabilitiesMessage \<Rightarrow> bytes \<Rightarrow> u32 \<Rightarrow> (bool \<times> QueryCameraCapabilitiesMessage \<times> bytes) exec" where
  "queryCameraCapabilitiesMessageToBuffer =
     messageToBuffer queryCameraCapabilities_dataSize queryCameraCapabilities_dataToBuffer"

definition queryCameraCapabilitiesMessageFromJausMessage ::
    "QueryCameraCapabilitiesMessage \<Rightarrow> JausMessage \<Rightarrow> QueryCameraCapabilitiesMessage option exec" where
  "queryCameraCapabilitiesMessageFromJausMessage =
     messageFromJausMessage JAUS_QUERY_CAMERA_CAPABILITIES queryCameraCapabilities_dataFromBuffer"

definition queryCameraCapabilitiesMessageToJausMessage ::
    "QueryCameraCapabilitiesMessage \<Rightarrow> JausMessage exec" where
  "queryCameraCapabilitiesMessageToJausMessage =
     messageToJausMessage queryCameraCapabilities_dataSize queryCameraCapabilities_dataToBuffer"

definition queryCameraCapabilities_enc :: "QueryCameraCapabilitiesMessage \<Rightarrow> bytes" where
  "queryCameraCapabilities_enc m =
     bytesOfWord 2 (queryCameraCapabilities_presenceVector m) @
     [queryCameraCapabilities_cameraID m]"

definition queryCameraCapabilities_withData :: "QueryCameraCapabilitiesMessage \<Rightarrow> QueryCameraCapabilitiesMessage \<Rightarrow> QueryCameraCapabilitiesMessage" where
  "queryCameraCapabilities_withData m0 m =
     m0\<lparr>queryCameraCapabilities_presenceVector := queryCameraCapabilities_presenceVector m,
        queryCameraCapabilities_cameraID := queryCameraCapabilities_cameraID m\<rparr>"

lemma queryCameraCapabilities_size: "queryCameraCapabilities_dataSize m = of_nat (length (queryCameraCapabilities_enc m))"
  by (simp add: queryCameraCapabilities_dataSize_def queryCameraCapabilities_enc_def)

lemma queryCameraCapabilities_small: "length (queryCameraCapabilities_enc m) < 4096"
  unfolding queryCameraCapabilities_enc_def by (rule enc_small, (rule length_bounds)+, simp)

lemma queryCameraCapabilities_to:
  assumes "off + length (queryCameraCapabilities_enc m) \<le> length buf" "length (queryCameraCapabilities_enc m) \<le> unat n"
  shows "queryCameraCapabilities_dataToBuffer m buf off n =
    Some (length (queryCameraCapabilities_enc m), take off buf @ queryCameraCapabilities_enc m @ drop (off + length (queryCameraCapabilities_enc m)) buf)"
  unfolding queryCameraCapabilities_dataToBuffer_def
  by (rule to_lawI [OF _ queryCameraCapabilities_size assms], unfold queryCameraCapabilities_enc_def,
      (rule writes_intros refl | rule writes_Cons | (rule FromDouble_total, simp)
        | simp add: codec_simps)+)

lemma queryCameraCapabilities_from:
  assumes "dataSize m0 = queryCameraCapabilities_dataSize m"
  shows "queryCameraCapabilities_dataFromBuffer m0 (pre @ queryCameraCapabilities_enc m @ post) (length pre) (queryCameraCapabilities_dataSize m) = Some (True, queryCameraCapabilities_withData m0 m)"
proof -
  have n: "unat (queryCameraCapabilities_dataSize m) = length (queryCameraCapabilities_enc m)"
    using queryCameraCapabilities_small [of m] by (simp add: queryCameraCapabilities_size unat_of_nat_lt)
  show ?thesis
    unfolding queryCameraCapabilities_dataFromBuffer_def queryCameraCapabilities_withData_def
    by (rule from_lawI [where D = "queryCameraCapabilities_enc m"], unfold queryCameraCapabilities_enc_def,
        (rule parses_intros refl n [unfolded queryCameraCapabilities_enc_def] assms [symmetric] | rule parses_Cons
          | simp add: codec_simps)+)
qed

interpretation queryCameraCapabilities: typed_message queryCameraCapabilities_dataSize queryCameraCapabilities_dataFromBuffer
  queryCameraCapabilities_dataToBuffer queryCameraCapabilities_enc queryCameraCapabilities_withData
  by unfold_locales (fact queryCameraCapabilities_size queryCameraCapabilities_small queryCameraCapabilities_to queryCameraCapabilities_from)+

section \<open>QueryCameraCountMessage\<close>

type_synonym QueryCameraCountMessage = JausHeader

definition queryCameraCountMessageCreate :: QueryCameraCountMessage where
  "queryCameraCountMessageCreate =
     (let m = noData_dataInitialize (blankHeader JAUS_QUERY_CAMERA_COUNT 0) in m\<lparr>dataSize := noData_dataSize m\<rparr>)"

definition queryCameraCountMessageFromBuffer ::
    "QueryCameraCountMessage \<Rightarrow> bytes \<Rightarrow> u32 \<Rightarrow> (bool \<times> QueryCameraCountMessage) exec" where
  "queryCameraCountMessageFromBuffer =
     messageFromBuffer noData_dataFromBuffer"

definition queryCameraCountMessageToBuffer ::
    "QueryCameraCountMessage \<Rightarrow> bytes \<Rightarrow> u32 \<Rightarrow> (bool \<times> QueryCameraCountMessage \<times> bytes) exec" where
  "queryCameraCountMessageToBuffer =
     messageToBuffer noData_dataSize noData_dataToBuffer"

definition queryCameraCountMessageFromJausMessage ::
    "QueryCameraCountMessage \<Rightarrow> JausMessage \<Rightarrow> QueryCameraCountMessage option exec" where
  "queryCameraCountMessageFromJausMessage =
     messageFromJausMessage JAUS_QUERY_CAMERA_COUNT noData_dataFromBuffer"

definition queryCameraCountMessageToJausMessage ::
    "QueryCameraCountMessage \<Rightarrow> JausMessage exec" where
  "queryCameraCountMessageToJausMessage =
     messageToJausMessage noData_dataSize noData_dataToBuffer"

definition queryCameraCountMessageSize ::
    "QueryCameraCountMessage \<Rightarrow> u32" where
  "queryCameraCountMessageSize =
     messageSize noData_dataSize"

section \<open>QueryCameraFormatOptionsMessage\<close>

record QueryCameraFormatOptionsMessage = JausHeader +
  queryCameraFormatOptions_presenceVector :: u8
  queryCameraFormatOptions_cameraID :: u8

definition queryCameraFormatOptions_dataInitialize ::
    "QueryCameraFormatOptionsMessage \<Rightarrow> QueryCameraFormatOptionsMessage" where
  "queryCameraFormatOptions_dataInitialize m =
     m\<lparr>queryCameraFormatOptions_presenceVector := newJausByte JAUS_BYTE_PRESENCE_VECTOR_ALL_ON,
        queryCameraFormatOptions_cameraID := newJausByte 0\<rparr>"

definition queryCameraFormatOptions_dataSize :: "QueryCameraFormatOptionsMessage \<Rightarrow> u32" where
  "queryCameraFormatOptions_dataSize m =
     2"

definition queryCameraFormatOptions_dataFromBuffer ::
    "QueryCameraFormatOptionsMessage \<Rightarrow> bytes \<Rightarrow> nat \<Rightarrow> u32 \<Rightarrow> (bool \<times> QueryCameraFormatOptionsMessage) exec" where
  "queryCameraFormatOptions_dataFromBuffer m buffer off n =
     (if n = dataSize m then finishR (runStmts
        [getByte (\<lambda>v m. m\<lparr>queryCameraFormatOptions_presenceVector := v\<rparr>) buffer off n,
         getByte (\<lambda>v m. m\<lparr>queryCameraFormatOptions_cameraID := v\<rparr>) buffer off n] (0, m))
      else Some (False, m))"

definition queryCameraFormatOptions_dataToBuffer ::
    "QueryCameraFormatOptionsMessage \<Rightarrow> bytes \<Rightarrow> nat \<Rightarrow> u32 \<Rightarrow> (nat \<times> bytes) exec" where
  "queryCameraFormatOptions_dataToBuffer m buffer off n =
     (if queryCameraFormatOptions_dataSize m \<le> n then finishW (runStmts
        [putByte (Some (queryCameraFormatOptions_presenceVector m)) off n,
         putByte (Some (queryCameraFormatOptions_cameraID m)) off n] (0, buffer))
      else Some (0, buffer))"

definition queryCameraFormatOptionsMessageCreate :: QueryCameraFormatOptionsMessage where
  "queryCameraFormatOptionsMessageCreate =
     (let m = queryCameraFormatOptions_dataInitialize (JausHeader.extend (blankHeader JAUS_QUERY_CAMERA_FORMAT_OPTIONS 2)
        (QueryCameraFormatOptionsMessage.fields 0 0))
      in m\<lparr>dataSize := queryCameraFormatOptions_dataSize m\<rparr>)"

definition queryCameraFormatOptionsMessageFromBuffer ::
    "QueryCameraFormatOptionsMessage \<Rightarrow> bytes \<Rightarrow> u32 \<Rightarrow> (bool \<times> QueryCameraFormatOptionsMessage) exec" where
  "queryCameraFormatOptionsMessageFromBuffer =
     messageFromBuffer queryCameraFormatOptions_dataFromBuffer"

definition queryCameraFormatOptionsMessageSize :: "QueryCameraFormatOptionsMessage \<Rightarrow> u32" where
  "queryCameraFormatOptionsMessageSize = messageSize queryCameraFormatOptions_dataSize"

definition queryCameraFormatOptionsMessageToBuffer ::
    "QueryCameraFormatOptionsMessage \<Rightarrow> bytes \<Rightarrow> u32 \<Rightarrow> (bool \<times> QueryCameraFormatOptionsMessage \<times> bytes) exec" where
  "queryCameraFormatOptionsMessageToBuffer =
     messageToBuffer queryCameraFormatOptions_dataSize queryCameraFormatOptions_dataToBuffer"

definition queryCameraFormatOptionsMessageFromJausMessage ::
    "QueryCameraFormatOptionsMessage \<Rightarrow> JausMessage \<Rightarrow> QueryCameraFormatOptionsMessage option exec" where
  "queryCameraFormatOptionsMessageFromJausMessage =
     messageFromJausMessage JAUS_QUERY_CAMERA_FORMAT_OPTIONS queryCameraFormatOptions_dataFromBuffer"

definition queryCameraFormatOptionsMessageToJausMessage ::
    "QueryCameraFormatOptionsMessage \<Rightarrow> JausMessage exec" where
  "queryCameraFormatOptionsMessageToJausMessage =
     messageToJausMessage queryCameraFormatOptions_dataSize queryCameraFormatOptions_dataToBuffer"

definition queryCameraFormatOptions_enc :: "QueryCameraFormatOptionsMessage \<Rightarrow> bytes" where
  "queryCameraFormatOptions_enc m =
     [queryCameraFormatOptions_presenceVector m] @
     [queryCameraFormatOptions_cameraID m]"

definition queryCameraFormatOptions_withData :: "QueryCameraFormatOptionsMessage \<Rightarrow> QueryCameraFormatOptionsMessage \<Rightarrow> QueryCameraFormatOptionsMessage" where
  "queryCameraFormatOptions_withData m0 m =
     m0\<lparr>queryCameraFormatOptions_presenceVector := queryCameraFormatOptions_presenceVector m,
        queryCameraFormatOptions_cameraID := queryCameraFormatOptions_cameraID m\<rparr>"

lemma queryCameraFormatOptions_size: "queryCameraFormatOptions_dataSize m = of_nat (length (queryCameraFormatOptions_enc m))"
  by (simp add: queryCameraFormatOptions_dataSize_def queryCameraFormatOptions_enc_def)

lemma queryCameraFormatOptions_small: "length (queryCameraFormatOptions_enc m) < 4096"
  unfolding queryCameraFormatOptions_enc_def by (rule enc_small, (rule length_bounds)+, simp)

lemma queryCameraFormatOptions_to:
  assumes "off + length (queryCameraFormatOptions_enc m) \<le> length buf" "length (queryCameraFormatOptions_enc m) \<le> unat n"
  shows "queryCameraFormatOptions_dataToBuffer m buf off n =
    Some (length (queryCameraFormatOptions_enc m), take off buf @ queryCameraFormatOptions_enc m @ drop (off + length (queryCameraFormatOptions_enc m)) buf)"
  unfolding queryCameraFormatOptions_dataToBuffer_def
  by (rule to_lawI [OF _ queryCameraFormatOptions_size assms], unfold queryCameraFormatOptions_enc_def,
      (rule writes_intros refl | rule writes_Cons | (rule FromDouble_total, simp)
        | simp add: codec_simps)+)

lemma queryCameraFormatOptions_from:
  assumes "dataSize m0 = queryCameraFormatOptions_dataSize m"
  shows "queryCameraFormatOptions_dataFromBuffer m0 (pre @ queryCameraFormatOptions_enc m @ post) (length pre) (queryCameraFormatOptions_dataSize m) = Some (True, queryCameraFormatOptions_withData m0 m)"
proof -
  have n: "unat (queryCameraFormatOptions_dataSize m) = length (queryCameraFormatOptions_enc m)"
    using queryCameraFormatOptions_small [of m] by (simp add: queryCameraFormatOptions_size unat_of_nat_lt)
  show ?thesis
    unfolding queryCameraFormatOptions_dataFromBuffer_def queryCameraFormatOptions_withData_def
    by (rule from_lawI [where D = "queryCameraFormatOptions_enc m"], unfold queryCameraFormatOptions_enc_def,
        (rule parses_intros refl n [unfolded queryCameraFormatOptions_enc_def] assms [symmetric] | rule parses_Cons
          | simp add: codec_simps)+)
qed

interpretation queryCameraFormatOptions: typed_message queryCameraFormatOptions_dataSize queryCameraFormatOptions_dataFromBuffer
  queryCameraFormatOptions_dataToBuffer queryCameraFormatOptions_enc queryCameraFormatOptions_withData
  by unfold_locales (fact queryCameraFormatOptions_size queryCameraFormatOptions_small queryCameraFormatOptions_to queryCameraFormatOptions_from)+

section \<open>QueryCameraPoseMessage\<close>

record QueryCameraPoseMessage = JausHeader +
  queryCameraPose_presenceVector :: u16
  queryCameraPose_cameraID :: u8

definition queryCameraPose_dataInitialize ::
    "QueryCameraPoseMessage \<Rightarrow> QueryCameraPoseMessage" where
  "queryCameraPose_dataInitialize m =
     m\<lparr>queryCameraPose_presenceVector := newJausUnsignedShort JAUS_SHORT_PRESENCE_VECTOR_ALL_ON,
        queryCameraPose_cameraID := newJausByte 0\<rparr>"

definition queryCameraPose_dataSize :: "QueryCameraPoseMessage \<Rightarrow> u32" where
  "queryCameraPose_dataSize m =
     3"

definition queryCameraPose_dataFromBuffer ::
    "QueryCameraPoseMessage \<Rightarrow> bytes \<Rightarrow> nat \<Rightarrow> u32 \<Rightarrow> (bool \<times> QueryCameraPoseMessage) exec" where
  "queryCameraPose_dataFromBuffer m buffer off n =
     (if n = dataSize m then finishR (runStmts
        [getUShort (\<lambda>v m. m\<lparr>queryCameraPose_presenceVector := v\<rparr>) buffer off n,
         getByte (\<lambda>v m. m\<lparr>queryCameraPose_cameraID := v\<rparr>) buffer off n] (0, m))
      else Some (False, m))"

definition queryCameraPose_dataToBuffer ::
    "QueryCameraPoseMessage \<Rightarrow> bytes \<Rightarrow> nat \<Rightarrow> u32 \<Rightarrow> (nat \<times> bytes) exec" where
  "queryCameraPose_dataToBuffer m buffer off n =
     (if queryCameraPose_dataSize m \<le> n then finishW (runStmts
        [putUShort (Some (queryCameraPose_presenceVector m)) off n,
         putByte (Some (queryCameraPose_cameraID m)) off n] (0, buffer))
      else Some (0, buffer))"

definition queryCameraPoseMessageCreate :: QueryCameraPoseMessage where
  "queryCameraPoseMessageCreate =
     (let m = queryCameraPose_dataInitialize (JausHeader.extend (blankHeader JAUS_QUERY_CAMERA_POSE 3)
        (QueryCameraPoseMessage.fields 0 0))
      in m\<lparr>dataSize := queryCameraPose_dataSize m\<rparr>)"

definition queryCameraPoseMessageFromBuffer ::
    "QueryCameraPoseMessage \<Rightarrow> bytes \<Rightarrow> u32 \<Rightarrow> (bool \<times> QueryCameraPoseMessage) exec" where
  "queryCameraPoseMessageFromBuffer =
     messageFromBuffer queryCameraPose_dataFromBuffer"

definition queryCameraPoseMessageSize :: "QueryCameraPoseMessage \<Rightarrow> u32" where
  "queryCameraPoseMessageSize = messageSize queryCameraPose_dataSize"

definition queryCameraPoseMessageToBuffer ::
    "QueryCameraPoseMessage \<Rightarrow> bytes \<Rightarrow> u32 \<Rightarrow> (bool \<times> QueryCameraPoseMessage \<times> bytes) exec" where
  "queryCameraPoseMessageToBuffer =
     messageToBuffer queryCameraPose_dataSize queryCameraPose_dataToBuffer"

definition queryCameraPoseMessageFromJausMessage ::
    "QueryCameraPoseMessage \<Rightarrow> JausMessage \<Rightarrow> QueryCameraPoseMessage option exec" where
  "queryCameraPoseMessageFromJausMessage =
     messageFromJausMessage JAUS_QUERY_CAMERA_POSE queryCameraPose_dataFromBuffer"

definition queryCameraPoseMessageToJausMessage ::
    "QueryCameraPoseMessage \<Rightarrow> JausMessage exec" where
  "queryCameraPoseMessageToJausMessage =
     messageToJausMessage queryCameraPose_dataSize queryCameraPose_dataToBuffer"

definition queryCameraPose_enc :: "QueryCameraPoseMessage \<Rightarrow> bytes" where
  "queryCameraPose_enc m =
     bytesOfWord 2 (queryCameraPose_presenceVector m) @
     [queryCameraPose_cameraID m]"

definition queryCameraPose_withData :: "QueryCameraPoseMessage \<Rightarrow> QueryCameraPoseMessage \<Rightarrow> QueryCameraPoseMessage" where
  "queryCameraPose_withData m0 m =
     m0\<lparr>queryCameraPose_presenceVector := queryCameraPose_presenceVector m,
        queryCameraPose_cameraID := queryCameraPose_cameraID m\<rparr>"

lemma queryCameraPose_size: "queryCameraPose_dataSize m = of_nat (length (queryCameraPose_enc m))"
  by (simp add: queryCameraPose_dataSize_def queryCameraPose_enc_def)

lemma queryCameraPose_small: "length (queryCameraPose_enc m) < 4096"
  unfolding queryCameraPose_enc_def by (rule enc_small, (rule length_bounds)+, simp)

lemma queryCameraPose_to:
  assumes "off + length (queryCameraPose_enc m) \<le> length buf" "length (queryCameraPose_enc m) \<le> unat n"
  shows "queryCameraPose_dataToBuffer m buf off n =
    Some (length (queryCameraPose_enc m), take off buf @ queryCameraPose_enc m @ drop (off + length (queryCameraPose_enc m)) buf)"
  unfolding queryCameraPose_dataToBuffer_def
  by (rule to_lawI [OF _ queryCameraPose_size assms], unfold queryCameraPose_enc_def,
      (rule writes_intros refl | rule writes_Cons | (rule FromDouble_total, simp)
        | simp add: codec_simps)+)

lemma queryCameraPose_from:
  assumes "dataSize m0 = queryCameraPose_dataSize m"
  shows "queryCameraPose_dataFromBuffer m0 (pre @ queryCameraPose_enc m @ post) (length pre) (queryCameraPose_dataSize m) = Some (True, queryCameraPose_withData m0 m)"
proof -
  have n: "unat (queryCameraPose_dataSize m) = length (queryCameraPose_enc m)"
    using queryCameraPose_small [of m] by (simp add: queryCameraPose_size unat_of_nat_lt)
  show ?thesis
    unfolding queryCameraPose_dataFromBuffer_def queryCameraPose_withData_def
    by (rule from_lawI [where D = "queryCameraPose_enc m"], unfold queryCameraPose_enc_def,
        (rule parses_intros refl n [unfolded queryCameraPose_enc_def] assms [symmetric] | rule parses_Cons
          | simp add: codec_simps)+)
qed

interpretation queryCameraPose: typed_message queryCameraPose_dataSize queryCameraPose_dataFromBuffer
  queryCameraPose_dataToBuffer queryCameraPose_enc queryCameraPose_withData
  by unfold_locales (fact queryCameraPose_size queryCameraPose_small queryCameraPose_to queryCameraPose_from)+

section \<open>QueryImageMessage\<close>

type_synonym QueryImageMessage = JausHeader

definition queryImageMessageCreate :: QueryImageMessage where
  "queryImageMessageCreate =
     (noData_dataInitialize (blankHeader JAUS_QUERY_IMAGE 0))"

definition queryImageMessageFromBuffer ::
    "QueryImageMessage \<Rightarrow> bytes \<Rightarrow> u32 \<Rightarrow> (bool \<times> QueryImageMessage) exec" where
  "queryImageMessageFromBuffer =
     messageFromBuffer noData_dataFromBuffer"

definition queryImageMessageToBuffer ::
    "QueryImageMessage \<Rightarrow> bytes \<Rightarrow> u32 \<Rightarrow> (bool \<times> QueryImageMessage \<times> bytes) exec" where
  "queryImageMessageToBuffer =
     messageToBuffer noData_dataSize noData_dataToBuffer"

definition queryImageMessageFromJausMessage ::
    "QueryImageMessage \<Rightarrow> JausMessage \<Rightarrow> QueryImageMessage option exec" where
  "queryImageMessageFromJausMessage =
     messageFromJausMessage JAUS_QUERY_IMAGE noData_dataFromBuffer"

definition queryImageMessageToJausMessage ::
    "QueryImageMessage \<Rightarrow> JausMessage exec" where
  "queryImageMessageToJausMessage =
     messageToJausMessage noData_dataSize noData_dataToBuffer"

definition queryImageMessageSize ::
    "QueryImageMessage \<Rightarrow> u32" where
  "queryImageMessageSize =
     messageSize noData_dataSize"

section \<open>QueryMapMessage\<close>

record QueryMapMessage = JausHeader +
  queryMap_mapId :: u8

definition queryMap_dataInitialize ::
    "QueryMapMessage \<Rightarrow> QueryMapMessage" where
  "queryMap_dataInitialize m =
     m\<lparr>queryMap_mapId := newJausByte 0\<rparr>"

definition queryMap_dataSize :: "QueryMapMessage \<Rightarrow> u32" where
  "queryMap_dataSize m =
     1"

definition queryMap_dataFromBuffer ::
    "QueryMapMessage \<Rightarrow> bytes \<Rightarrow> nat \<Rightarrow> u32 \<Rightarrow> (bool \<times> QueryMapMessage) exec" where
  "queryMap_dataFromBuffer m buffer off n =
     (if n = dataSize m then finishR (runStmts
        [getByte (\<lambda>v m. m\<lparr>queryMap_mapId := v\<rparr>) buffer off n] (0, m))
      else Some (False, m))"

definition queryMap_dataToBuffer ::
    "QueryMapMessage \<Rightarrow> bytes \<Rightarrow> nat \<Rightarrow> u32 \<Rightarrow> (nat \<times> bytes) exec" where
  "queryMap_dataToBuffer m buffer off n =
     (if queryMap_dataSize m \<le> n then finishW (runStmts
        [putByte (Some (queryMap_mapId m)) off n] (0, buffer))
      else Some (0, buffer))"

definition queryMapMessageCreate :: QueryMapMessage where
  "queryMapMessageCreate =
     (queryMap_dataInitialize (JausHeader.extend (blankHeader JAUS_QUERY_MAP 1)
        (QueryMapMessage.fields 0)))"

definition queryMapMessageFromBuffer ::
    "QueryMapMessage \<Rightarrow> bytes \<Rightarrow> u32 \<Rightarrow> (bool \<times> QueryMapMessage) exec" where
  "queryMapMessageFromBuffer =
     messageFromBuffer queryMap_dataFromBuffer"

definition queryMapMessageSize :: "QueryMapMessage \<Rightarrow> u32" where
  "queryMapMessageSize = messageSize queryMap_dataSize"

definition queryMapMessageToBuffer ::
    "QueryMapMessage \<Rightarrow> bytes \<Rightarrow> u32 \<Rightarrow> (bool \<times> QueryMapMessage \<times> bytes) exec" where
  "queryMapMessageToBuffer =
     messageToBuffer queryMap_dataSize queryMap_dataToBuffer"

definition queryMapMessageFromJausMessage ::
    "QueryMapMessage \<Rightarrow> JausMessage \<Rightarrow> QueryMapMessage option exec" where
  "queryMapMessageFromJausMessage =
     messageFromJausMessage JAUS_QUERY_MAP queryMap_dataFromBuffer"

definition queryMapMessageToJausMessage ::
    "QueryMapMessage \<Rightarrow> JausMessage exec" where
  "queryMapMessageToJausMessage =
     messageToJausMessage queryMap_dataSize queryMap_dataToBuffer"

definition queryMap_enc :: "QueryMapMessage \<Rightarrow> bytes" where
  "queryMap_enc m =
     [queryMap_mapId m]"

definition queryMap_withData :: "QueryMapMessage \<Rightarrow> QueryMapMessage \<Rightarrow> QueryMapMessage" where
  "queryMap_withData m0 m =
     m0\<lparr>queryMap_mapId := queryMap_mapId m\<rparr>"

lemma queryMap_size: "queryMap_dataSize m = of_nat (length (queryMap_enc m))"
  by (simp add: queryMap_dataSize_def queryMap_enc_def)

lemma queryMap_small: "length (queryMap_enc m) < 4096"
  unfolding queryMap_enc_def by (rule enc_small, (rule length_bounds)+, simp)

lemma queryMap_to:
  assumes "off + length (queryMap_enc m) \<le> length buf" "length (queryMap_enc m) \<le> unat n"
  shows "queryMap_dataToBuffer m buf off n =
    Some (length (queryMap_enc m), take off buf @ queryMap_enc m @ drop (off + length (queryMap_enc m)) buf)"
  unfolding queryMap_dataToBuffer_def
  by (rule to_lawI [OF _ queryMap_size assms], unfold queryMap_enc_def,
      (rule writes_intros refl | rule writes_Cons | (rule FromDouble_total, simp)
        | simp add: codec_simps)+)

lemma queryMap_from:
  assumes "dataSize m0 = queryMap_dataSize m"
  shows "queryMap_dataFromBuffer m0 (pre @ queryMap_enc m @ post) (length pre) (queryMap_dataSize m) = Some (True, queryMap_withData m0 m)"
proof -
  have n: "unat (queryMap_dataSize m) = length (queryMap_enc m)"
    using queryMap_small [of m] by (simp add: queryMap_size unat_of_nat_lt)
  show ?thesis
    unfolding queryMap_dataFromBuffer_def queryMap_withData_def
    by (rule from_lawI [where D = "queryMap_enc m"], unfold queryMap_enc_def,
        (rule parses_intros refl n [unfolded queryMap_enc_def] assms [symmetric] | rule parses_Cons
          | simp add: codec_simps)+)
qed

interpretation queryMap: typed_message queryMap_dataSize queryMap_dataFromBuffer
  queryMap_dataToBuffer queryMap_enc queryMap_withData
  by unfold_locales (fact queryMap_size queryMap_small queryMap_to queryMap_from)+

section \<open>QueryRelativeObjectPositionMessage\<close>

record QueryRelativeObjectPositionMessage = JausHeader +
  queryRelativeObjectPosition_presenceVector :: u8

definition queryRelativeObjectPosition_dataInitialize ::
    "QueryRelativeObjectPositionMessage \<Rightarrow> QueryRelativeObjectPositionMessage" where
  "queryRelativeObjectPosition_dataInitialize m =
     m\<lparr>queryRelativeObjectPosition_presenceVector := newJausByte JAUS_BYTE_PRESENCE_VECTOR_ALL_ON\<rparr>"

definition queryRelativeObjectPosition_dataSize :: "QueryRelativeObjectPositionMessage \<Rightarrow> u32" where
  "queryRelativeObjectPosition_dataSize m =
     1"

definition queryRelativeObjectPosition_dataFromBuffer ::
    "QueryRelativeObjectPositionMessage \<Rightarrow> bytes \<Rightarrow> nat \<Rightarrow> u32 \<Rightarrow> (bool \<times> QueryRelativeObjectPositionMessage) exec" where
  "queryRelativeObjectPosition_dataFromBuffer m buffer off n =
     (if n = dataSize m then finishR (runStmts
        [getByte (\<lambda>v m. m\<lparr>queryRelativeObjectPosition_presenceVector := v\<rparr>) buffer off n] (0, m))
      else Some (False, m))"

definition queryRelativeObjectPosition_dataToBuffer ::
    "QueryRelativeObjectPositionMessage \<Rightarrow> bytes \<Rightarrow> nat \<Rightarrow> u32 \<Rightarrow> (nat \<times> bytes) exec" where
  "queryRelativeObjectPosition_dataToBuffer m buffer off n =
     (if queryRelativeObjectPosition_dataSize m \<le> n then finishW (runStmts
        [putByte (Some (queryRelativeObjectPosition_presenceVector m)) off n] (0, buffer))
      else Some (0, buffer))"

definition queryRelativeObjectPositionMessageCreate :: QueryRelativeObjectPositionMessage where
  "queryRelativeObjectPositionMessageCreate =
     (let m = queryRelativeObjectPosition_dataInitialize (JausHeader.extend (blankHeader JAUS_QUERY_RELATIVE_OBJECT_POSITION 1)
        (QueryRelativeObjectPositionMessage.fields 0))
      in m\<lparr>dataSize := queryRelativeObjectPosition_dataSize m\<rparr>)"

definition queryRelativeObjectPositionMessageFromBuffer ::
    "QueryRelativeObjectPositionMessage \<Rightarrow> bytes \<Rightarrow> u32 \<Rightarrow> (bool \<times> QueryRelativeObjectPositionMessage) exec" where
  "queryRelativeObjectPositionMessageFromBuffer =
     messageFromBuffer queryRelativeObjectPosition_dataFromBuffer"

definition queryRelativeObjectPositionMessageSize :: "QueryRelativeObjectPositionMessage \<Rightarrow> u32" where
  "queryRelativeObjectPositionMessageSize = messageSize queryRelativeObjectPosition_dataSize"

definition queryRelativeObjectPositionMessageToBuffer ::
    "QueryRelativeObjectPositionMessage \<Rightarrow> bytes \<Rightarrow> u32 \<Rightarrow> (bool \<times> QueryRelativeObjectPositionMessage \<times> bytes) exec" where
  "queryRelativeObjectPositionMessageToBuffer =
     messageToBuffer queryRelativeObjectPosition_dataSize queryRelativeObjectPosition_dataToBuffer"

definition queryRelativeObjectPositionMessageFromJausMessage ::
    "QueryRelativeObjectPositionMessage \<Rightarrow> JausMessage \<Rightarrow> QueryRelativeObjectPositionMessage option exec" where
  "queryRelativeObjectPositionMessageFromJausMessage =
     messageFromJausMessage JAUS_QUERY_RELATIVE_OBJECT_POSITION queryRelativeObjectPosition_dataFromBuffer"

definition queryRelativeObjectPositionMessageToJausMessage ::
    "QueryRelativeObjectPositionMessage \<Rightarrow> JausMessage exec" where
  "queryRelativeObjectPositionMessageToJausMessage =
     messageToJausMessage queryRelativeObjectPosition_dataSize queryRelativeObjectPosition_dataToBuffer"

definition queryRelativeObjectPosition_enc :: "QueryRelativeObjectPositionMessage \<Rightarrow> bytes" where
  "queryRelativeObjectPosition_enc m =
     [queryRelativeObjectPosition_presenceVector m]"

definition queryRelativeObjectPosition_withData :: "QueryRelativeObjectPositionMessage \<Rightarrow> QueryRelativeObjectPositionMessage \<Rightarrow> QueryRelativeObjectPositionMessage" where
  "queryRelativeObjectPosition_withData m0 m =
     m0\<lparr>queryRelativeObjectPosition_presenceVector := queryRelativeObjectPosition_presenceVector m\<rparr>"

lemma queryRelativeObjectPosition_size: "queryRelativeObjectPosition_dataSize m = of_nat (length (queryRelativeObjectPosition_enc m))"
  by (simp add: queryRelativeObjectPosition_dataSize_def queryRelativeObjectPosition_enc_def)

lemma queryRelativeObjectPosition_small: "length (queryRelativeObjectPosition_enc m) < 4096"
  unfolding queryRelativeObjectPosition_enc_def by (rule enc_small, (rule length_bounds)+, simp)

lemma queryRelativeObjectPosition_to:
  assumes "off + length (queryRelativeObjectPosition_enc m) \<le> length buf" "length (queryRelativeObjectPosition_enc m) \<le> unat n"
  shows "queryRelativeObjectPosition_dataToBuffer m buf off n =
    Some (length (queryRelativeObjectPosition_enc m), take off buf @ queryRelativeObjectPosition_enc m @ drop (off + length (queryRelativeObjectPosition_enc m)) buf)"
  unfolding queryRelativeObjectPosition_dataToBuffer_def
  by (rule to_lawI [OF _ queryRelativeObjectPosition_size assms], unfold queryRelativeObjectPosition_enc_def,
      (rule writes_intros refl | rule writes_Cons | (rule FromDouble_total, simp)
        | simp add: codec_simps)+)

lemma queryRelativeObjectPosition_from:
  assumes "dataSize m0 = queryRelativeObjectPosition_dataSize m"
  shows "queryRelativeObjectPosition_dataFromBuffer m0 (pre @ queryRelativeObjectPosition_enc m @ post) (length pre) (queryRelativeObjectPosition_dataSize m) = Some (True, queryRelativeObjectPosition_withData m0 m)"
proof -
  have n: "unat (queryRelativeObjectPosition_dataSize m) = length (queryRelativeObjectPosition_enc m)"
    using queryRelativeObjectPosition_small [of m] by (simp add: queryRelativeObjectPosition_size unat_of_nat_lt)
  show ?thesis
    unfolding queryRelativeObjectPosition_dataFromBuffer_def queryRelativeObjectPosition_withData_def
    by (rule from_lawI [where D = "queryRelativeObjectPosition_enc m"], unfold queryRelativeObjectPosition_enc_def,
        (rule parses_intros refl n [unfolded queryRelativeObjectPosition_enc_def] assms [symmetric] | rule parses_Cons
          | simp add: codec_simps)+)
qed

interpretation queryRelativeObjectPosition: typed_message queryRelativeObjectPosition_dataSize queryRelativeObjectPosition_dataFromBuffer
  queryRelativeObjectPosition_dataToBuffer queryRelativeObjectPosition_enc queryRelativeObjectPosition_withData
  by unfold_locales (fact queryRelativeObjectPosition_size queryRelativeObjectPosition_small queryRelativeObjectPosition_to queryRelativeObjectPosition_from)+

section \<open>QuerySelectedCameraMessage\<close>

type_synonym QuerySelectedCameraMessage = JausHeader

definition querySelectedCameraMessageCreate :: QuerySelectedCameraMessage where
  "querySelectedCameraMessageCreate =
     (let m = noData_dataInitialize (blankHeader JAUS_QUERY_SELECTED_CAMERA 0) in m\<lparr>dataSize := noData_dataSize m\<rparr>)"

definition querySelectedCameraMessageFromBuffer ::
    "QuerySelectedCameraMessage \<Rightarrow> bytes \<Rightarrow> u32 \<Rightarrow> (bool \<times> QuerySelectedCameraMessage) exec" where
  "querySelectedCameraMessageFromBuffer =
     messageFromBuffer noData_dataFromBuffer"

definition querySelectedCameraMessageToBuffer ::
    "QuerySelectedCameraMessage \<Rightarrow> bytes \<Rightarrow> u32 \<Rightarrow> (bool \<times> QuerySelectedCameraMessage \<times> bytes) exec" where
  "querySelectedCameraMessageToBuffer =
     messageToBuffer noData_dataSize noData_dataToBuffer"

definition querySelectedCameraMessageFromJausMessage ::
    "QuerySelectedCameraMessage \<Rightarrow> JausMessage \<Rightarrow> QuerySelectedCameraMessage option exec" where
  "querySelectedCameraMessageFromJausMessage =
     messageFromJausMessage JAUS_QUERY_SELECTED_CAMERA noData_dataFromBuffer"

definition querySelectedCameraMessageToJausMessage ::
    "QuerySelectedCameraMessage \<Rightarrow> JausMessage exec" where
  "querySelectedCameraMessageToJausMessage =
     messageToJausMessage noData_dataSize noData_dataToBuffer"

definition querySelectedCameraMessageSize ::
    "QuerySelectedCameraMessage \<Rightarrow> u32" where
  "querySelectedCameraMessageSize =
     messageSize noData_dataSize"

section \<open>QueryJointEffortsMessage\<close>

type_synonym QueryJointEffortsMessage = JausHeader

definition queryJointEffortsMessageCreate :: QueryJointEffortsMessage where
  "queryJointEffortsMessageCreate =
     (let m = noData_dataInitialize (blankHeader JAUS_QUERY_JOINT_EFFORTS 0) in m\<lparr>dataSize := noData_dataSize m\<rparr>)"

definition queryJointEffortsMessageFromBuffer ::
    "QueryJointEffortsMessage \<Rightarrow> bytes \<Rightarrow> u32 \<Rightarrow> (bool \<times> QueryJointEffortsMessage) exec" where
  "queryJointEffortsMessageFromBuffer =
     messageFromBuffer noData_dataFromBuffer"

definition queryJointEffortsMessageToBuffer ::
    "QueryJointEffortsMessage \<Rightarrow> bytes \<Rightarrow> u32 \<Rightarrow> (bool \<times> QueryJointEffortsMessage \<times> bytes) exec" where
  "queryJointEffortsMessageToBuffer =
     messageToBuffer noData_dataSize noData_dataToBuffer"

definition queryJointEffortsMessageFromJausMessage ::
    "QueryJointEffortsMessage \<Rightarrow> JausMessage \<Rightarrow> QueryJointEffortsMessage option exec" where
  "queryJointEffortsMessageFromJausMessage =
     messageFromJausMessage JAUS_QUERY_JOINT_EFFORTS noData_dataFromBuffer"

definition queryJointEffortsMessageToJausMessage ::
    "QueryJointEffortsMessage \<Rightarrow> JausMessage exec" where
  "queryJointEffortsMessageToJausMessage =
     messageToJausMessage noData_dataSize noData_dataToBuffer"

definition queryJointEffortsMessageSize ::
    "QueryJointEffortsMessage \<Rightarrow> u32" where
  "queryJointEffortsMessageSize =
     messageSize noData_dataSize"

section \<open>QueryJointForceTorquesMessage\<close>

type_synonym QueryJointForceTorquesMessage = JausHeader

definition queryJointForceTorquesMessageCreate :: QueryJointForceTorquesMessage where
  "queryJointForceTorquesMessageCreate =
     (let m = noData_dataInitialize (blankHeader JAUS_QUERY_JOINT_FORCE_TORQUES 0) in m\<lparr>dataSize := noData_dataSize m\<rparr>)"

definition queryJointForceTorquesMessageFromBuffer ::
    "QueryJointForceTorquesMessage \<Rightarrow> bytes \<Rightarrow> u32 \<Rightarrow> (bool \<times> QueryJointForceTorquesMessage) exec" where
  "queryJointForceTorquesMessageFromBuffer =
     messageFromBuffer noData_dataFromBuffer"

definition queryJointForceTorquesMessageToBuffer ::
    "QueryJointForceTorquesMessage \<Rightarrow> bytes \<Rightarrow> u32 \<Rightarrow> (bool \<times> QueryJointForceTorquesMessage \<times> bytes) exec" where
  "queryJointForceTorquesMessageToBuffer =
     messageToBuffer noData_dataSize noData_dataToBuffer"

definition queryJointForceTorquesMessageFromJausMessage ::
    "QueryJointForceTorquesMessage \<Rightarrow> JausMessage \<Rightarrow> QueryJointForceTorquesMessage option exec" where
  "queryJointForceTorquesMessageFromJausMessage =
     messageFromJausMessage JAUS_QUERY_JOINT_FORCE_TORQUES noData_dataFromBuffer"

definition queryJointForceTorquesMessageToJausMessage ::
    "QueryJointForceTorquesMessage \<Rightarrow> JausMessage exec" where
  "queryJointForceTorquesMessageToJausMessage =
     messageToJausMessage noData_dataSize noData_dataToBuffer"

definition queryJointForceTorquesMessageSize ::
    "QueryJointForceTorquesMessage \<Rightarrow> u32" where
  "queryJointForceTorquesMessageSize =
     messageSize noData_dataSize"

section \<open>QueryJointPositionsMessage\<close>

type_synonym QueryJointPositionsMessage = JausHeader

definition queryJointPositionsMessageCreate :: QueryJointPositionsMessage where
  "queryJointPositionsMessageCreate =
     (let m = noData_dataInitialize (blankHeader JAUS_QUERY_JOINT_POSITIONS 0) in m\<lparr>dataSize := noData_dataSize m\<rparr>)"

definition queryJointPositionsMessageFromBuffer ::
    "QueryJointPositionsMessage \<Rightarrow> bytes \<Rightarrow> u32 \<Rightarrow> (bool \<times> QueryJointPositionsMessage) exec" where
  "queryJointPositionsMessageFromBuffer =
     messageFromBuffer noData_dataFromBuffer"

definition queryJointPositionsMessageToBuffer ::
    "QueryJointPositionsMessage \<Rightarrow> bytes \<Rightarrow> u32 \<Rightarrow> (bool \<times> QueryJointPositionsMessage \<times> bytes) exec" where
  "queryJointPositionsMessageToBuffer =
     messageToBuffer noData_dataSize noData_dataToBuffer"

definition queryJointPositionsMessageFromJausMessage ::
    "QueryJointPositionsMessage \<Rightarrow> JausMessage \<Rightarrow> QueryJointPositionsMessage option exec" where
  "queryJointPositionsMessageFromJausMessage =
     messageFromJausMessage JAUS_QUERY_JOINT_POSITIONS noData_dataFromBuffer"

definition queryJointPositionsMessageToJausMessage ::
    "QueryJointPositionsMessage \<Rightarrow> JausMessage exec" where
  "queryJointPositionsMessageToJausMessage =
     messageToJausMessage noData_dataSize noData_dataToBuffer"

definition queryJointPositionsMessageSize ::
    "QueryJointPositionsMessage \<Rightarrow> u32" where
  "queryJointPositionsMessageSize =
     messageSize noData_dataSize"

section \<open>QueryJointVelocitiesMessage\<close>

type_synonym QueryJointVelocitiesMessage = JausHeader

definition queryJointVelocitiesMessageCreate :: QueryJointVelocitiesMessage where
  "queryJointVelocitiesMessageCreate =
     (let m = noData_dataInitialize (blankHeader JAUS_QUERY_JOINT_VELOCITIES 0) in m\<lparr>dataSize := noData_dataSize m\<rparr>)"

definition queryJointVelocitiesMessageFromBuffer ::
    "QueryJointVelocitiesMessage \<Rightarrow> bytes \<Rightarrow> u32 \<Rightarrow> (bool \<times> QueryJointVelocitiesMessage) exec" where
  "queryJointVelocitiesMessageFromBuffer =
     messageFromBuffer noData_dataFromBuffer"

definition queryJointVelocitiesMessageToBuffer ::
    "QueryJointVelocitiesMessage \<Rightarrow> bytes \<Rightarrow> u32 \<Rightarrow> (bool \<times> QueryJointVelocitiesMessage \<times> bytes) exec" where
  "queryJointVelocitiesMessageToBuffer =
     messageToBuffer noData_dataSize noData_dataToBuffer"

definition queryJointVelocitiesMessageFromJausMessage ::
    "QueryJointVelocitiesMessage \<Rightarrow> JausMessage \<Rightarrow> QueryJointVelocitiesMessage option exec" where
  "queryJointVelocitiesMessageFromJausMessage =
     messageFromJausMessage JAUS_QUERY_JOINT_VELOCITIES noData_dataFromBuffer"

definition queryJointVelocitiesMessageToJausMessage ::
    "QueryJointVelocitiesMessage \<Rightarrow> JausMessage exec" where
  "queryJointVelocitiesMessageToJausMessage =
     messageToJausMessage noData_dataSize noData_dataToBuffer"

definition queryJointVelocitiesMessageSize ::
    "QueryJointVelocitiesMessage \<Rightarrow> u32" where
  "queryJointVelocitiesMessageSize =
     messageSize noData_dataSize"

section \<open>QueryManipulatorSpecificationsMessage\<close>

type_synonym QueryManipulatorSpecificationsMessage = JausHeader

definition queryManipulatorSpecificationsMessageCreate :: QueryManipulatorSpecificationsMessage where
  "queryManipulatorSpecificationsMessageCreate =
     (let m = noData_dataInitialize (blankHeader JAUS_QUERY_MANIPULATOR_SPECIFICATIONS 0) in m\<lparr>dataSize := noData_dataSize m\<rparr>)"

definition queryManipulatorSpecificationsMessageFromBuffer ::
    "QueryManipulatorSpecificationsMessage \<Rightarrow> bytes \<Rightarrow> u32 \<Rightarrow> (bool \<times> QueryManipulatorSpecificationsMessage) exec" where
  "queryManipulatorSpecificationsMessageFromBuffer =
     messageFromBuffer noData_dataFromBuffer"

definition queryManipulatorSpecificationsMessageToBuffer ::
    "QueryManipulatorSpecificationsMessage \<Rightarrow> bytes \<Rightarrow> u32 \<Rightarrow> (bool \<times> QueryManipulatorSpecificationsMessage \<times> bytes) exec" where
  "queryManipulatorSpecificationsMessageToBuffer =
     messageToBuffer noData_dataSize noData_dataToBuffer"

definition queryManipulatorSpecificationsMessageFromJausMessage ::
    "QueryManipulatorSpecificationsMessage \<Rightarrow> JausMessage \<Rightarrow> QueryManipulatorSpecificationsMessage option exec" where
  "queryManipulatorSpecificationsMessageFromJausMessage =
     messageFromJausMessage JAUS_QUERY_MANIPULATOR_SPECIFICATIONS noData_dataFromBuffer"

definition queryManipulatorSpecificationsMessageToJausMessage ::
    "QueryManipulatorSpecificationsMessage \<Rightarrow> JausMessage exec" where
  "queryManipulatorSpecificationsMessageToJausMessage =
     messageToJausMessage noData_dataSize noData_dataToBuffer"

definition queryManipulatorSpecificationsMessageSize ::
    "QueryManipulatorSpecificationsMessage \<Rightarrow> u32" where
  "queryManipulatorSpecificationsMessageSize =
     messageSize noData_dataSize"

section \<open>QueryToolPointMessage\<close>

type_synonym QueryToolPointMessage = JausHeader

definition queryToolPointMessageCreate :: QueryToolPointMessage where
  "queryToolPointMessageCreate =
     (let m = noData_dataInitialize (blankHeader JAUS_QUERY_TOOL_POINT 0) in m\<lparr>dataSize := noData_dataSize m\<rparr>)"

definition queryToolPointMessageFromBuffer ::
    "QueryToolPointMessage \<Rightarrow> bytes \<Rightarrow> u32 \<Rightarrow> (bool \<times> QueryToolPointMessage) exec" where
  "queryToolPointMessageFromBuffer =
     messageFromBuffer noData_dataFromBuffer"

definition queryToolPointMessageToBuffer ::
    "QueryToolPointMessage \<Rightarrow> bytes \<Rightarrow> u32 \<Rightarrow> (bool \<times> QueryToolPointMessage \<times> bytes) exec" where
  "queryToolPointMessageToBuffer =
     messageToBuffer noData_dataSize noData_dataToBuffer"

definition queryToolPointMessageFromJausMessage ::
    "QueryToolPointMessage \<Rightarrow> JausMessage \<Rightarrow> QueryToolPointMessage option exec" where
  "queryToolPointMessageFromJausMessage =
     messageFromJausMessage JAUS_QUERY_TOOL_POINT noData_dataFromBuffer"

definition queryToolPointMessageToJausMessage ::
    "QueryToolPointMessage \<Rightarrow> JausMessage exec" where
  "queryToolPointMessageToJausMessage =
     messageToJausMessage noData_dataSize noData_dataToBuffer"

definition queryToolPointMessageSize ::
    "QueryToolPointMessage \<Rightarrow> u32" where
  "queryToolPointMessageSize =
     messageSize noData_dataSize"

section \<open>QueryPayloadInterfaceMessage\<close>

type_synonym QueryPayloadInterfaceMessage = JausHeader

definition queryPayloadInterfaceMessageCreate :: QueryPayloadInterfaceMessage where
  "queryPayloadInterfaceMessageCreate =
     (noData_dataInitialize (blankHeader JAUS_QUERY_PAYLOAD_INTERFACE 0))"

definition queryPayloadInterfaceMessageFromBuffer ::
    "QueryPayloadInterfaceMessage \<Rightarrow> bytes \<Rightarrow> u32 \<Rightarrow> (bool \<times> QueryPayloadInterfaceMessage) exec" where
  "queryPayloadInterfaceMessageFromBuffer =
     messageFromBuffer noData_dataFromBuffer"

definition queryPayloadInterfaceMessageToBuffer ::
    "QueryPayloadInterfaceMessage \<Rightarrow> bytes \<Rightarrow> u32 \<Rightarrow> (bool \<times> QueryPayloadInterfaceMessage \<times> bytes) exec" where
  "queryPayloadInterfaceMessageToBuffer =
     messageToBufferHeaderFirst noData_dataSize noData_dataToBuffer"

definition queryPayloadInterfaceMessageFromJausMessage ::
    "QueryPayloadInterfaceMessage \<Rightarrow> JausMessage \<Rightarrow> QueryPayloadInterfaceMessage option exec" where
  "queryPayloadInterfaceMessageFromJausMessage =
     messageFromJausMessage JAUS_QUERY_PAYLOAD_INTERFACE noData_dataFromBuffer"

definition queryPayloadInterfaceMessageToJausMessage ::
    "QueryPayloadInterfaceMessage \<Rightarrow> JausMessage exec" where
  "queryPayloadInterfaceMessageToJausMessage =
     messageToJausMessage noData_dataSize noData_dataToBuffer"

definition queryPayloadInterfaceMessageSize ::
    "QueryPayloadInterfaceMessage \<Rightarrow> u32" where
  "queryPayloadInterfaceMessageSize =
     messageSize noData_dataSize"

section \<open>QuerySpoolingPreferenceMessage\<close>

type_synonym QuerySpoolingPreferenceMessage = JausHeader

definition querySpoolingPreferenceMessageCreate :: QuerySpoolingPreferenceMessage where
  "querySpoolingPreferenceMessageCreate =
     (let m = noData_dataInitialize (blankHeader JAUS_QUERY_SPOOLING_PREFERENCE 0) in m\<lparr>dataSize := noData_dataSize m\<rparr>)"

definition querySpoolingPreferenceMessageFromBuffer ::
    "QuerySpoolingPreferenceMessage \<Rightarrow> bytes \<Rightarrow> u32 \<Rightarrow> (bool \<times> QuerySpoolingPreferenceMessage) exec" where
  "querySpoolingPreferenceMessageFromBuffer =
     messageFromBuffer noData_dataFromBuffer"

definition querySpoolingPreferenceMessageToBuffer ::
    "QuerySpoolingPreferenceMessage \<Rightarrow> bytes \<Rightarrow> u32 \<Rightarrow> (bool \<times> QuerySpoolingPreferenceMessage \<times> bytes) exec" where
  "querySpoolingPreferenceMessageToBuffer =
     messageToBuffer noData_dataSize noData_dataToBuffer"

definition querySpoolingPreferenceMessageFromJausMessage ::
    "QuerySpoolingPreferenceMessage \<Rightarrow> JausMessage \<Rightarrow> QuerySpoolingPreferenceMessage option exec" where
  "querySpoolingPreferenceMessageFromJausMessage =
     messageFromJausMessage JAUS_QUERY_SPOOLING_PREFERENCE noData_dataFromBuffer"

definition querySpoolingPreferenceMessageToJausMessage ::
    "QuerySpoolingPreferenceMessage \<Rightarrow> JausMessage exec" where
  "querySpoolingPreferenceMessageToJausMessage =
     messageToJausMessage noData_dataSize noData_dataToBuffer"

definition querySpoolingPreferenceMessageSize ::
    "QuerySpoolingPreferenceMessage \<Rightarrow> u32" where
  "querySpoolingPreferenceMessageSize =
     messageSize noData_dataSize"

section \<open>QueryDiscreteDevicesMessage\<close>

record QueryDiscreteDevicesMessage = JausHeader +
  queryDiscreteDevices_presenceVector :: u8

definition queryDiscreteDevices_dataInitialize ::
    "QueryDiscreteDevicesMessage \<Rightarrow> QueryDiscreteDevicesMessage" where
  "queryDiscreteDevices_dataInitialize m =
     m\<lparr>queryDiscreteDevices_presenceVector := newJausByte JAUS_BYTE_PRESENCE_VECTOR_ALL_ON\<rparr>"

definition queryDiscreteDevices_dataSize :: "QueryDiscreteDevicesMessage \<Rightarrow> u32" where
  "queryDiscreteDevices_dataSize m =
     1"

definition queryDiscreteDevices_dataFromBuffer ::
    "QueryDiscreteDevicesMessage \<Rightarrow> bytes \<Rightarrow> nat \<Rightarrow> u32 \<Rightarrow> (bool \<times> QueryDiscreteDevicesMessage) exec" where
  "queryDiscreteDevices_dataFromBuffer m buffer off n =
     (if n = dataSize m then finishR (runStmts
        [getByte (\<lambda>v m. m\<lparr>queryDiscreteDevices_presenceVector := v\<rparr>) buffer off n] (0, m))
      else Some (False, m))"

definition queryDiscreteDevices_dataToBuffer ::
    "QueryDiscreteDevicesMessage \<Rightarrow> bytes \<Rightarrow> nat \<Rightarrow> u32 \<Rightarrow> (nat \<times> bytes) exec" where
  "queryDiscreteDevices_dataToBuffer m buffer off n =
     (if queryDiscreteDevices_dataSize m \<le> n then finishW (runStmts
        [putByte (Some (queryDiscreteDevices_presenceVector m)) off n] (0, buffer))
      else Some (0, buffer))"

definition queryDiscreteDevicesMessageCreate :: QueryDiscreteDevicesMessage where
  "queryDiscreteDevicesMessageCreate =
     (queryDiscreteDevices_dataInitialize (JausHeader.extend (blankHeader JAUS_QUERY_DISCRETE_DEVICES 1)
        (QueryDiscreteDevicesMessage.fields 0)))"

definition queryDiscreteDevicesMessageFromBuffer ::
    "QueryDiscreteDevicesMessage \<Rightarrow> bytes \<Rightarrow> u32 \<Rightarrow> (bool \<times> QueryDiscreteDevicesMessage) exec" where
  "queryDiscreteDevicesMessageFromBuffer =
     messageFromBuffer queryDiscreteDevices_dataFromBuffer"

definition queryDiscreteDevicesMessageSize :: "QueryDiscreteDevicesMessage \<Rightarrow> u32" where
  "queryDiscreteDevicesMessageSize = messageSize queryDiscreteDevices_dataSize"

definition queryDiscreteDevicesMessageToBuffer ::
    "QueryDiscreteDevicesMessage \<Rightarrow> bytes \<Rightarrow> u32 \<Rightarrow> (bool \<times> QueryDiscreteDevicesMessage \<times> bytes) exec" where
  "queryDiscreteDevicesMessageToBuffer =
     messageToBuffer queryDiscreteDevices_dataSize queryDiscreteDevices_dataToBuffer"

definition queryDiscreteDevicesMessageFromJausMessage ::
    "QueryDiscreteDevicesMessage \<Rightarrow> JausMessage \<Rightarrow> QueryDiscreteDevicesMessage option exec" where
  "queryDiscreteDevicesMessageFromJausMessage =
     messageFromJausMessage JAUS_QUERY_DISCRETE_DEVICES queryDiscreteDevices_dataFromBuffer"

definition queryDiscreteDevicesMessageToJausMessage ::
    "QueryDiscreteDevicesMessage \<Rightarrow> JausMessage exec" where
  "queryDiscreteDevicesMessageToJausMessage =
     messageToJausMessage queryDiscreteDevices_dataSize queryDiscreteDevices_dataToBuffer"

definition queryDiscreteDevices_enc :: "QueryDiscreteDevicesMessage \<Rightarrow> bytes" where
  "queryDiscreteDevices_enc m =
     [queryDiscreteDevices_presenceVector m]"

definition queryDiscreteDevices_withData :: "QueryDiscreteDevicesMessage \<Rightarrow> QueryDiscreteDevicesMessage \<Rightarrow> QueryDiscreteDevicesMessage" where
  "queryDiscreteDevices_withData m0 m =
     m0\<lparr>queryDiscreteDevices_presenceVector := queryDiscreteDevices_presenceVector m\<rparr>"

lemma queryDiscreteDevices_size: "queryDiscreteDevices_dataSize m = of_nat (length (queryDiscreteDevices_enc m))"
  by (simp add: queryDiscreteDevices_dataSize_def queryDiscreteDevices_enc_def)

lemma queryDiscreteDevices_small: "length (queryDiscreteDevices_enc m) < 4096"
  unfolding queryDiscreteDevices_enc_def by (rule enc_small, (rule length_bounds)+, simp)

lemma queryDiscreteDevices_to:
  assumes "off + length (queryDiscreteDevices_enc m) \<le> length buf" "length (queryDiscreteDevices_enc m) \<le> unat n"
  shows "queryDiscreteDevices_dataToBuffer m buf off n =
    Some (length (queryDiscreteDevices_enc m), take off buf @ queryDiscreteDevices_enc m @ drop (off + length (queryDiscreteDevices_enc m)) buf)"
  unfolding queryDiscreteDevices_dataToBuffer_def
  by (rule to_lawI [OF _ queryDiscreteDevices_size assms], unfold queryDiscreteDevices_enc_def,
      (rule writes_intros refl | rule writes_Cons | (rule FromDouble_total, simp)
        | simp add: codec_simps)+)

lemma queryDiscreteDevices_from:
  assumes "dataSize m0 = queryDiscreteDevices_dataSize m"
  shows "queryDiscreteDevices_dataFromBuffer m0 (pre @ queryDiscreteDevices_enc m @ post) (length pre) (queryDiscreteDevices_dataSize m) = Some (True, queryDiscreteDevices_withData m0 m)"
proof -
  have n: "unat (queryDiscreteDevices_dataSize m) = length (queryDiscreteDevices_enc m)"
    using queryDiscreteDevices_small [of m] by (simp add: queryDiscreteDevices_size unat_of_nat_lt)
  show ?thesis
    unfolding queryDiscreteDevices_dataFromBuffer_def queryDiscreteDevices_withData_def
    by (rule from_lawI [where D = "queryDiscreteDevices_enc m"], unfold queryDiscreteDevices_enc_def,
        (rule parses_intros refl n [unfolded queryDiscreteDevices_enc_def] assms [symmetric] | rule parses_Cons
          | simp add: codec_simps)+)
qed

interpretation queryDiscreteDevices: typed_message queryDiscreteDevices_dataSize queryDiscreteDevices_dataFromBuffer
  queryDiscreteDevices_dataToBuffer queryDiscreteDevices_enc queryDiscreteDevices_withData
  by unfold_locales (fact queryDiscreteDevices_size queryDiscreteDevices_small queryDiscreteDevices_to queryDiscreteDevices_from)+

section \<open>QueryGlobalPathSegmentMessage\<close>

record QueryGlobalPathSegmentMessage = JausHeader +
  queryGlobalPathSegment_pathSegmentNumber :: u16
  queryGlobalPathSegment_presenceVector :: u8

definition queryGlobalPathSegment_dataInitialize ::
    "QueryGlobalPathSegmentMessage \<Rightarrow> QueryGlobalPathSegmentMessage" where
  "queryGlobalPathSegment_dataInitialize m =
     m\<lparr>queryGlobalPathSegment_pathSegmentNumber := newJausUnsignedShort 0,
        queryGlobalPathSegment_presenceVector := newJausByte JAUS_BYTE_PRESENCE_VECTOR_ALL_ON\<rparr>"

definition queryGlobalPathSegment_dataSize :: "QueryGlobalPathSegmentMessage \<Rightarrow> u32" where
  "queryGlobalPathSegment_dataSize m =
     3"

definition queryGlobalPathSegment_dataFromBuffer ::
    "QueryGlobalPathSegmentMessage \<Rightarrow> bytes \<Rightarrow> nat \<Rightarrow> u32 \<Rightarrow> (bool \<times> QueryGlobalPathSegmentMessage) exec" where
  "queryGlobalPathSegment_dataFromBuffer m buffer off n =
     (if n = dataSize m then finishR (runStmts
        [getUShort (\<lambda>v m. m\<lparr>queryGlobalPathSegment_pathSegmentNumber := v\<rparr>) buffer off n,
         getByte (\<lambda>v m. m\<lparr>queryGlobalPathSegment_presenceVector := v\<rparr>) buffer off n] (0, m))
      else Some (False, m))"

definition queryGlobalPathSegment_dataToBuffer ::
    "QueryGlobalPathSegmentMessage \<Rightarrow> bytes \<Rightarrow> nat \<Rightarrow> u32 \<Rightarrow> (nat \<times> bytes) exec" where
  "queryGlobalPathSegment_dataToBuffer m buffer off n =
     (if queryGlobalPathSegment_dataSize m \<le> n then finishW (runStmts
        [putUShort (Some (queryGlobalPathSegment_pathSegmentNumber m)) off n,
         putByte (Some (queryGlobalPathSegment_presenceVector m)) off n] (0, buffer))
      else Some (0, buffer))"

definition queryGlobalPathSegmentMessageCreate :: QueryGlobalPathSegmentMessage where
  "queryGlobalPathSegmentMessageCreate =
     (queryGlobalPathSegment_dataInitialize (JausHeader.extend (blankHeader JAUS_QUERY_GLOBAL_PATH_SEGMENT 3)
        (QueryGlobalPathSegmentMessage.fields 0 0)))"

definition queryGlobalPathSegmentMessageFromBuffer ::
    "QueryGlobalPathSegmentMessage \<Rightarrow> bytes \<Rightarrow> u32 \<Rightarrow> (bool \<times> QueryGlobalPathSegmentMessage) exec" where
  "queryGlobalPathSegmentMessageFromBuffer =
     messageFromBuffer queryGlobalPathSegment_dataFromBuffer"

definition queryGlobalPathSegmentMessageSize :: "QueryGlobalPathSegmentMessage \<Rightarrow> u32" where
  "queryGlobalPathSegmentMessageSize = messageSize queryGlobalPathSegment_dataSize"

definition queryGlobalPathSegmentMessageToBuffer ::
    "QueryGlobalPathSegmentMessage \<Rightarrow> bytes \<Rightarrow> u32 \<Rightarrow> (bool \<times> QueryGlobalPathSegmentMessage \<times> bytes) exec" where
  "queryGlobalPathSegmentMessageToBuffer =
     messageToBuffer queryGlobalPathSegment_dataSize queryGlobalPathSegment_dataToBuffer"

definition queryGlobalPathSegmentMessageFromJausMessage ::
    "QueryGlobalPathSegmentMessage \<Rightarrow> JausMessage \<Rightarrow> QueryGlobalPathSegmentMessage option exec" where
  "queryGlobalPathSegmentMessageFromJausMessage =
     messageFromJausMessage JAUS_QUERY_GLOBAL_PATH_SEGMENT queryGlobalPathSegment_dataFromBuffer"

definition queryGlobalPathSegmentMessageToJausMessage ::
    "QueryGlobalPathSegmentMessage \<Rightarrow> JausMessage exec" where
  "queryGlobalPathSegmentMessageToJausMessage =
     messageToJausMessage queryGlobalPathSegment_dataSize queryGlobalPathSegment_dataToBuffer"

definition queryGlobalPathSegment_enc :: "QueryGlobalPathSegmentMessage \<Rightarrow> bytes" where
  "queryGlobalPathSegment_enc m =
     bytesOfWord 2 (queryGlobalPathSegment_pathSegmentNumber m) @
     [queryGlobalPathSegment_presenceVector m]"

definition queryGlobalPathSegment_withData :: "QueryGlobalPathSegmentMessage \<Rightarrow> QueryGlobalPathSegmentMessage \<Rightarrow> QueryGlobalPathSegmentMessage" where
  "queryGlobalPathSegment_withData m0 m =
     m0\<lparr>queryGlobalPathSegment_pathSegmentNumber := queryGlobalPathSegment_pathSegmentNumber m,
        queryGlobalPathSegment_presenceVector := queryGlobalPathSegment_presenceVector m\<rparr>"

lemma queryGlobalPathSegment_size: "queryGlobalPathSegment_dataSize m = of_nat (length (queryGlobalPathSegment_enc m))"
  by (simp add: queryGlobalPathSegment_dataSize_def queryGlobalPathSegment_enc_def)

lemma queryGlobalPathSegment_small: "length (queryGlobalPathSegment_enc m) < 4096"
  unfolding queryGlobalPathSegment_enc_def by (rule enc_small, (rule length_bounds)+, simp)

lemma queryGlobalPathSegment_to:
  assumes "off + length (queryGlobalPathSegment_enc m) \<le> length buf" "length (queryGlobalPathSegment_enc m) \<le> unat n"
  shows "queryGlobalPathSegment_dataToBuffer m buf off n =
    Some (length (queryGlobalPathSegment_enc m), take off buf @ queryGlobalPathSegment_enc m @ drop (off + length (queryGlobalPathSegment_enc m)) buf)"
  unfolding queryGlobalPathSegment_dataToBuffer_def
  by (rule to_lawI [OF _ queryGlobalPathSegment_size assms], unfold queryGlobalPathSegment_enc_def,
      (rule writes_intros refl | rule writes_Cons | (rule FromDouble_total, simp)
        | simp add: codec_simps)+)

lemma queryGlobalPathSegment_from:
  assumes "dataSize m0 = queryGlobalPathSegment_dataSize m"
  shows "queryGlobalPathSegment_dataFromBuffer m0 (pre @ queryGlobalPathSegment_enc m @ post) (length pre) (queryGlobalPathSegment_dataSize m) = Some (True, queryGlobalPathSegment_withData m0 m)"
proof -
  have n: "unat (queryGlobalPathSegment_dataSize m) = length (queryGlobalPathSegment_enc m)"
    using queryGlobalPathSegment_small [of m] by (simp add: queryGlobalPathSegment_size unat_of_nat_lt)
  show ?thesis
    unfolding queryGlobalPathSegment_dataFromBuffer_def queryGlobalPathSegment_withData_def
    by (rule from_lawI [where D = "queryGlobalPathSegment_enc m"], unfold queryGlobalPathSegment_enc_def,
        (rule parses_intros refl n [unfolded queryGlobalPathSegment_enc_def] assms [symmetric] | rule parses_Cons
          | simp add: codec_simps)+)
qed

interpretation queryGlobalPathSegment: typed_message queryGlobalPathSegment_dataSize queryGlobalPathSegment_dataFromBuffer
  queryGlobalPathSegment_dataToBuffer queryGlobalPathSegment_enc queryGlobalPathSegment_withData
  by unfold_locales (fact queryGlobalPathSegment_size queryGlobalPathSegment_small queryGlobalPathSegment_to queryGlobalPathSegment_from)+

section \<open>QueryGlobalPoseMessage\<close>

record QueryGlobalPoseMessage = JausHeader +
  queryGlobalPose_presenceVector :: u16

definition queryGlobalPose_dataInitialize ::
    "QueryGlobalPoseMessage \<Rightarrow> QueryGlobalPoseMessage" where
  "queryGlobalPose_dataInitialize m =
     m\<lparr>queryGlobalPose_presenceVector := newJausUnsignedShort JAUS_SHORT_PRESENCE_VECTOR_ALL_ON\<rparr>"

definition queryGlobalPose_dataSize :: "QueryGlobalPoseMessage \<Rightarrow> u32" where
  "queryGlobalPose_dataSize m =
     2"

definition queryGlobalPose_dataFromBuffer ::
    "QueryGlobalPoseMessage \<Rightarrow> bytes \<Rightarrow> nat \<Rightarrow> u32 \<Rightarrow> (bool \<times> QueryGlobalPoseMessage) exec" where
  "queryGlobalPose_dataFromBuffer m buffer off n =
     (if n = dataSize m then finishR (runStmts
        [getUShort (\<lambda>v m. m\<lparr>queryGlobalPose_presenceVector := v\<rparr>) buffer off n] (0, m))
      else Some (False, m))"

definition queryGlobalPose_dataToBuffer ::
    "QueryGlobalPoseMessage \<Rightarrow> bytes \<Rightarrow> nat \<Rightarrow> u32 \<Rightarrow> (nat \<times> bytes) exec" where
  "queryGlobalPose_dataToBuffer m buffer off n =
     (if queryGlobalPose_dataSize m \<le> n then finishW (runStmts
        [putUShort (Some (queryGlobalPose_presenceVector m)) off n] (0, buffer))
      else Some (0, buffer))"

definition queryGlobalPoseMessageCreate :: QueryGlobalPoseMessage where
  "queryGlobalPoseMessageCreate =
     (queryGlobalPose_dataInitialize (JausHeader.extend (blankHeader JAUS_QUERY_GLOBAL_POSE 2)
        (QueryGlobalPoseMessage.fields 0)))"

definition queryGlobalPoseMessageFromBuffer ::
    "QueryGlobalPoseMessage \<Rightarrow> bytes \<Rightarrow> u32 \<Rightarrow> (bool \<times> QueryGlobalPoseMessage) exec" where
  "queryGlobalPoseMessageFromBuffer =
     messageFromBuffer queryGlobalPose_dataFromBuffer"

definition queryGlobalPoseMessageSize :: "QueryGlobalPoseMessage \<Rightarrow> u32" where
  "queryGlobalPoseMessageSize = messageSize queryGlobalPose_dataSize"

definition queryGlobalPoseMessageToBuffer ::
    "QueryGlobalPoseMessage \<Rightarrow> bytes \<Rightarrow> u32 \<Rightarrow> (bool \<times> QueryGlobalPoseMessage \<times> bytes) exec" where
  "queryGlobalPoseMessageToBuffer =
     messageToBuffer queryGlobalPose_dataSize queryGlobalPose_dataToBuffer"

definition queryGlobalPoseMessageFromJausMessage ::
    "QueryGlobalPoseMessage \<Rightarrow> JausMessage \<Rightarrow> QueryGlobalPoseMessage option exec" where
  "queryGlobalPoseMessageFromJausMessage =
     messageFromJausMessage JAUS_QUERY_GLOBAL_POSE queryGlobalPose_dataFromBuffer"

definition queryGlobalPoseMessageToJausMessage ::
    "QueryGlobalPoseMessage \<Rightarrow> JausMessage exec" where
  "queryGlobalPoseMessageToJausMessage =
     messageToJausMessage queryGlobalPose_dataSize queryGlobalPose_dataToBuffer"

definition queryGlobalPose_enc :: "QueryGlobalPoseMessage \<Rightarrow> bytes" where
  "queryGlobalPose_enc m =
     bytesOfWord 2 (queryGlobalPose_presenceVector m)"

definition queryGlobalPose_withData :: "QueryGlobalPoseMessage \<Rightarrow> QueryGlobalPoseMessage \<Rightarrow> QueryGlobalPoseMessage" where
  "queryGlobalPose_withData m0 m =
     m0\<lparr>queryGlobalPose_presenceVector := queryGlobalPose_presenceVector m\<rparr>"

lemma queryGlobalPose_size: "queryGlobalPose_dataSize m = of_nat (length (queryGlobalPose_enc m))"
  by (simp add: queryGlobalPose_dataSize_def queryGlobalPose_enc_def)

lemma queryGlobalPose_small: "length (queryGlobalPose_enc m) < 4096"
  unfolding queryGlobalPose_enc_def by (rule enc_small, (rule length_bounds)+, simp)

lemma queryGlobalPose_to:
  assumes "off + length (queryGlobalPose_enc m) \<le> length buf" "length (queryGlobalPose_enc m) \<le> unat n"
  shows "queryGlobalPose_dataToBuffer m buf off n =
    Some (length (queryGlobalPose_enc m), take off buf @ queryGlobalPose_enc m @ drop (off + length (queryGlobalPose_enc m)) buf)"
  unfolding queryGlobalPose_dataToBuffer_def
  by (rule to_lawI [OF _ queryGlobalPose_size assms], unfold queryGlobalPose_enc_def,
      (rule writes_intros refl | rule writes_Cons | (rule FromDouble_total, simp)
        | simp add: codec_simps)+)

lemma queryGlobalPose_from:
  assumes "dataSize m0 = queryGlobalPose_dataSize m"
  shows "queryGlobalPose_dataFromBuffer m0 (pre @ queryGlobalPose_enc m @ post) (length pre) (queryGlobalPose_dataSize m) = Some (True, queryGlobalPose_withData m0 m)"
proof -
  have n: "unat (queryGlobalPose_dataSize m) = length (queryGlobalPose_enc m)"
    using queryGlobalPose_small [of m] by (simp add: queryGlobalPose_size unat_of_nat_lt)
  show ?thesis
    unfolding queryGlobalPose_dataFromBuffer_def queryGlobalPose_withData_def
    by (rule from_lawI [where D = "queryGlobalPose_enc m"], unfold queryGlobalPose_enc_def,
        (rule parses_intros refl n [unfolded queryGlobalPose_enc_def] assms [symmetric] | rule parses_Cons
          | simp add: codec_simps)+)
qed

interpretation queryGlobalPose: typed_message queryGlobalPose_dataSize queryGlobalPose_dataFromBuffer
  queryGlobalPose_dataToBuffer queryGlobalPose_enc queryGlobalPose_withData
  by unfold_locales (fact queryGlobalPose_size queryGlobalPose_small queryGlobalPose_to queryGlobalPose_from)+

section \<open>QueryGlobalVectorMessage\<close>

record QueryGlobalVectorMessage = JausHeader +
  queryGlobalVector_presenceVector :: u8

definition queryGlobalVector_dataInitialize ::
    "QueryGlobalVectorMessage \<Rightarrow> QueryGlobalVectorMessage" where
  "queryGlobalVector_dataInitialize m =
     m\<lparr>queryGlobalVector_presenceVector := newJausByte JAUS_BYTE_PRESENCE_VECTOR_ALL_ON\<rparr>"

definition queryGlobalVector_dataSize :: "QueryGlobalVectorMessage \<Rightarrow> u32" where
  "queryGlobalVector_dataSize m =
     1"

definition queryGlobalVector_dataFromBuffer ::
    "QueryGlobalVectorMessage \<Rightarrow> bytes \<Rightarrow> nat \<Rightarrow> u32 \<Rightarrow> (bool \<times> QueryGlobalVectorMessage) exec" where
  "queryGlobalVector_dataFromBuffer m buffer off n =
     (if n = dataSize m then finishR (runStmts
        [getByte (\<lambda>v m. m\<lparr>queryGlobalVector_presenceVector := v\<rparr>) buffer off n] (0, m))
      else Some (False, m))"

definition queryGlobalVector_dataToBuffer ::
    "QueryGlobalVectorMessage \<Rightarrow> bytes \<Rightarrow> nat \<Rightarrow> u32 \<Rightarrow> (nat \<times> bytes) exec" where
  "queryGlobalVector_dataToBuffer m buffer off n =
     (if queryGlobalVector_dataSize m \<le> n then finishW (runStmts
        [putByte (Some (queryGlobalVector_presenceVector m)) off n] (0, buffer))
      else Some (0, buffer))"

definition queryGlobalVectorMessageCreate :: QueryGlobalVectorMessage where
  "queryGlobalVectorMessageCreate =
     (queryGlobalVector_dataInitialize (JausHeader.extend (blankHeader JAUS_QUERY_GLOBAL_VECTOR 1)
        (QueryGlobalVectorMessage.fields 0)))"

definition queryGlobalVectorMessageFromBuffer ::
    "QueryGlobalVectorMessage \<Rightarrow> bytes \<Rightarrow> u32 \<Rightarrow> (bool \<times> QueryGlobalVectorMessage) exec" where
  "queryGlobalVectorMessageFromBuffer =
     messageFromBuffer queryGlobalVector_dataFromBuffer"

definition queryGlobalVectorMessageSize :: "QueryGlobalVectorMessage \<Rightarrow> u32" where
  "queryGlobalVectorMessageSize = messageSize queryGlobalVector_dataSize"

definition queryGlobalVectorMessageToBuffer ::
    "QueryGlobalVectorMessage \<Rightarrow> bytes \<Rightarrow> u32 \<Rightarrow> (bool \<times> QueryGlobalVectorMessage \<times> bytes) exec" where
  "queryGlobalVectorMessageToBuffer =
     messageToBuffer queryGlobalVector_dataSize queryGlobalVector_dataToBuffer"

definition queryGlobalVectorMessageFromJausMessage ::
    "QueryGlobalVectorMessage \<Rightarrow> JausMessage \<Rightarrow> QueryGlobalVectorMessage option exec" where
  "queryGlobalVectorMessageFromJausMessage =
     messageFromJausMessage JAUS_QUERY_GLOBAL_VECTOR queryGlobalVector_dataFromBuffer"

definition queryGlobalVectorMessageToJausMessage ::
    "QueryGlobalVectorMessage \<Rightarrow> JausMessage exec" where
  "queryGlobalVectorMessageToJausMessage =
     messageToJausMessage queryGlobalVector_dataSize queryGlobalVector_dataToBuffer"

definition queryGlobalVector_enc :: "QueryGlobalVectorMessage \<Rightarrow> bytes" where
  "queryGlobalVector_enc m =
     [queryGlobalVector_presenceVector m]"

definition queryGlobalVector_withData :: "QueryGlobalVectorMessage \<Rightarrow> QueryGlobalVectorMessage \<Rightarrow> QueryGlobalVectorMessage" where
  "queryGlobalVector_withData m0 m =
     m0\<lparr>queryGlobalVector_presenceVector := queryGlobalVector_presenceVector m\<rparr>"

lemma queryGlobalVector_size: "queryGlobalVector_dataSize m = of_nat (length (queryGlobalVector_enc m))"
  by (simp add: queryGlobalVector_dataSize_def queryGlobalVector_enc_def)

lemma queryGlobalVector_small: "length (queryGlobalVector_enc m) < 4096"
  unfolding queryGlobalVector_enc_def by (rule enc_small, (rule length_bounds)+, simp)

lemma queryGlobalVector_to:
  assumes "off + length (queryGlobalVector_enc m) \<le> length buf" "length (queryGlobalVector_enc m) \<le> unat n"
  shows "queryGlobalVector_dataToBuffer m buf off n =
    Some (length (queryGlobalVector_enc m), take off buf @ queryGlobalVector_enc m @ drop (off + length (queryGlobalVector_enc m)) buf)"
  unfolding queryGlobalVector_dataToBuffer_def
  by (rule to_lawI [OF _ queryGlobalVector_size assms], unfold queryGlobalVector_enc_def,
      (rule writes_intros refl | rule writes_Cons | (rule FromDouble_total, simp)
        | simp add: codec_simps)+)

lemma queryGlobalVector_from:
  assumes "dataSize m0 = queryGlobalVector_dataSize m"
  shows "queryGlobalVector_dataFromBuffer m0 (pre @ queryGlobalVector_enc m @ post) (length pre) (queryGlobalVector_dataSize m) = Some (True, queryGlobalVector_withData m0 m)"
proof -
  have n: "unat (queryGlobalVector_dataSize m) = length (queryGlobalVector_enc m)"
    using queryGlobalVector_small [of m] by (simp add: queryGlobalVector_size unat_of_nat_lt)
  show ?thesis
    unfolding queryGlobalVector_dataFromBuffer_def queryGlobalVector_withData_def
    by (rule from_lawI [where D = "queryGlobalVector_enc m"], unfold queryGlobalVector_enc_def,
        (rule parses_intros refl n [unfolded queryGlobalVector_enc_def] assms [symmetric] | rule parses_Cons
          | simp add: codec_simps)+)
qed

interpretation queryGlobalVector: typed_message queryGlobalVector_dataSize queryGlobalVector_dataFromBuffer
  queryGlobalVector_dataToBuffer queryGlobalVector_enc queryGlobalVector_withData
  by unfold_locales (fact queryGlobalVector_size queryGlobalVector_small queryGlobalVector_to queryGlobalVector_from)+

section \<open>QueryGlobalWaypointMessage\<close>

record QueryGlobalWaypointMessage = JausHeader +
  queryGlobalWaypoint_waypointNumber :: u16

definition queryGlobalWaypoint_dataInitialize ::
    "QueryGlobalWaypointMessage \<Rightarrow> QueryGlobalWaypointMessage" where
  "queryGlobalWaypoint_dataInitialize m =
     m\<lparr>queryGlobalWaypoint_waypointNumber := newJausUnsignedShort 0\<rparr>"

definition queryGlobalWaypoint_dataSize :: "QueryGlobalWaypointMessage \<Rightarrow> u32" where
  "queryGlobalWaypoint_dataSize m =
     2"

definition queryGlobalWaypoint_dataFromBuffer ::
    "QueryGlobalWaypointMessage \<Rightarrow> bytes \<Rightarrow> nat \<Rightarrow> u32 \<Rightarrow> (bool \<times> QueryGlobalWaypointMessage) exec" where
  "queryGlobalWaypoint_dataFromBuffer m buffer off n =
     (if n = dataSize m then finishR (runStmts
        [getUShort (\<lambda>v m. m\<lparr>queryGlobalWaypoint_waypointNumber := v\<rparr>) buffer off n] (0, m))
      else Some (False, m))"

definition queryGlobalWaypoint_dataToBuffer ::
    "QueryGlobalWaypointMessage \<Rightarrow> bytes \<Rightarrow> nat \<Rightarrow> u32 \<Rightarrow> (nat \<times> bytes) exec" where
  "queryGlobalWaypoint_dataToBuffer m buffer off n =
     (if queryGlobalWaypoint_dataSize m \<le> n then finishW (runStmts
        [putUShort (Some (queryGlobalWaypoint_waypointNumber m)) off n] (0, buffer))
      else Some (0, buffer))"

definition queryGlobalWaypointMessageCreate :: QueryGlobalWaypointMessage where
  "queryGlobalWaypointMessageCreate =
     (queryGlobalWaypoint_dataInitialize (JausHeader.extend (blankHeader JAUS_QUERY_GLOBAL_WAYPOINT 2)
        (QueryGlobalWaypointMessage.fields 0)))"

definition queryGlobalWaypointMessageFromBuffer ::
    "QueryGlobalWaypointMessage \<Rightarrow> bytes \<Rightarrow> u32 \<Rightarrow> (bool \<times> QueryGlobalWaypointMessage) exec" where
  "queryGlobalWaypointMessageFromBuffer =
     messageFromBuffer queryGlobalWaypoint_dataFromBuffer"

definition queryGlobalWaypointMessageSize :: "QueryGlobalWaypointMessage \<Rightarrow> u32" where
  "queryGlobalWaypointMessageSize = messageSize queryGlobalWaypoint_dataSize"

definition queryGlobalWaypointMessageToBuffer ::
    "QueryGlobalWaypointMessage \<Rightarrow> bytes \<Rightarrow> u32 \<Rightarrow> (bool \<times> QueryGlobalWaypointMessage \<times> bytes) exec" where
  "queryGlobalWaypointMessageToBuffer =
     messageToBuffer queryGlobalWaypoint_dataSize queryGlobalWaypoint_dataToBuffer"

definition queryGlobalWaypointMessageFromJausMessage ::
    "QueryGlobalWaypointMessage \<Rightarrow> JausMessage \<Rightarrow> QueryGlobalWaypointMessage option exec" where
  "queryGlobalWaypointMessageFromJausMessage =
     messageFromJausMessage JAUS_QUERY_GLOBAL_WAYPOINT queryGlobalWaypoint_dataFromBuffer"

definition queryGlobalWaypointMessageToJausMessage ::
    "QueryGlobalWaypointMessage \<Rightarrow> JausMessage exec" where
  "queryGlobalWaypointMessageToJausMessage =
     messageToJausMessage queryGlobalWaypoint_dataSize queryGlobalWaypoint_dataToBuffer"

definition queryGlobalWaypoint_enc :: "QueryGlobalWaypointMessage \<Rightarrow> bytes" where
  "queryGlobalWaypoint_enc m =
     bytesOfWord 2 (queryGlobalWaypoint_waypointNumber m)"

definition queryGlobalWaypoint_withData :: "QueryGlobalWaypointMessage \<Rightarrow> QueryGlobalWaypointMessage \<Rightarrow> QueryGlobalWaypointMessage" where
  "queryGlobalWaypoint_withData m0 m =
     m0\<lparr>queryGlobalWaypoint_waypointNumber := queryGlobalWaypoint_waypointNumber m\<rparr>"

lemma queryGlobalWaypoint_size: "queryGlobalWaypoint_dataSize m = of_nat (length (queryGlobalWaypoint_enc m))"
  by (simp add: queryGlobalWaypoint_dataSize_def queryGlobalWaypoint_enc_def)

lemma queryGlobalWaypoint_small: "length (queryGlobalWaypoint_enc m) < 4096"
  unfolding queryGlobalWaypoint_enc_def by (rule enc_small, (rule length_bounds)+, simp)

lemma queryGlobalWaypoint_to:
  assumes "off + length (queryGlobalWaypoint_enc m) \<le> length buf" "length (queryGlobalWaypoint_enc m) \<le> unat n"
  shows "queryGlobalWaypoint_dataToBuffer m buf off n =
    Some (length (queryGlobalWaypoint_enc m), take off buf @ queryGlobalWaypoint_enc m @ drop (off + length (queryGlobalWaypoint_enc m)) buf)"
  unfolding queryGlobalWaypoint_dataToBuffer_def
  by (rule to_lawI [OF _ queryGlobalWaypoint_size assms], unfold queryGlobalWaypoint_enc_def,
      (rule writes_intros refl | rule writes_Cons | (rule FromDouble_total, simp)
        | simp add: codec_simps)+)

lemma queryGlobalWaypoint_from:
  assumes "dataSize m0 = queryGlobalWaypoint_dataSize m"
  shows "queryGlobalWaypoint_dataFromBuffer m0 (pre @ queryGlobalWaypoint_enc m @ post) (length pre) (queryGlobalWaypoint_dataSize m) = Some (True, queryGlobalWaypoint_withData m0 m)"
proof -
  have n: "unat (queryGlobalWaypoint_dataSize m) = length (queryGlobalWaypoint_enc m)"
    using queryGlobalWaypoint_small [of m] by (simp add: queryGlobalWaypoint_size unat_of_nat_lt)
  show ?thesis
    unfolding queryGlobalWaypoint_dataFromBuffer_def queryGlobalWaypoint_withData_def
    by (rule from_lawI [where D = "queryGlobalWaypoint_enc m"], unfold queryGlobalWaypoint_enc_def,
        (rule parses_intros refl n [unfolded queryGlobalWaypoint_enc_def] assms [symmetric] | rule parses_Cons
          | simp add: codec_simps)+)
qed

interpretation queryGlobalWaypoint: typed_message queryGlobalWaypoint_dataSize queryGlobalWaypoint_dataFromBuffer
  queryGlobalWaypoint_dataToBuffer queryGlobalWaypoint_enc queryGlobalWaypoint_withData
  by unfold_locales (fact queryGlobalWaypoint_size queryGlobalWaypoint_small queryGlobalWaypoint_to queryGlobalWaypoint_from)+

section \<open>QueryLocalPathSegmentMessage\<close>

record QueryLocalPathSegmentMessage = JausHeader +
  queryLocalPathSegment_pathSegmentNumber :: u16
  queryLocalPathSegment_presenceVector :: u8

definition queryLocalPathSegment_dataInitialize ::
    "QueryLocalPathSegmentMessage \<Rightarrow> QueryLocalPathSegmentMessage" where
  "queryLocalPathSegment_dataInitialize m =
     m\<lparr>queryLocalPathSegment_pathSegmentNumber := newJausUnsignedShort 0,
        queryLocalPathSegment_presenceVector := newJausByte JAUS_BYTE_PRESENCE_VECTOR_ALL_ON\<rparr>"

definition queryLocalPathSegment_dataSize :: "QueryLocalPathSegmentMessage \<Rightarrow> u32" where
  "queryLocalPathSegment_dataSize m =
     3"

definition queryLocalPathSegment_dataFromBuffer ::
    "QueryLocalPathSegmentMessage \<Rightarrow> bytes \<Rightarrow> nat \<Rightarrow> u32 \<Rightarrow> (bool \<times> QueryLocalPathSegmentMessage) exec" where
  "queryLocalPathSegment_dataFromBuffer m buffer off n =
     (if n = dataSize m then finishR (runStmts
        [getUShort (\<lambda>v m. m\<lparr>queryLocalPathSegment_pathSegmentNumber := v\<rparr>) buffer off n,
         getByte (\<lambda>v m. m\<lparr>queryLocalPathSegment_presenceVector := v\<rparr>) buffer off n] (0, m))
      else Some (False, m))"

definition queryLocalPathSegment_dataToBuffer ::
    "QueryLocalPathSegmentMessage \<Rightarrow> bytes \<Rightarrow> nat \<Rightarrow> u32 \<Rightarrow> (nat \<times> bytes) exec" where
  "queryLocalPathSegment_dataToBuffer m buffer off n =
     (if queryLocalPathSegment_dataSize m \<le> n then finishW (runStmts
        [putUShort (Some (queryLocalPathSegment_pathSegmentNumber m)) off n,
         putByte (Some (queryLocalPathSegment_presenceVector m)) off n] (0, buffer))
      else Some (0, buffer))"

definition queryLocalPathSegmentMessageCreate :: QueryLocalPathSegmentMessage where
  "queryLocalPathSegmentMessageCreate =
     (queryLocalPathSegment_dataInitialize (JausHeader.extend (blankHeader JAUS_QUERY_LOCAL_PATH_SEGMENT 3)
        (QueryLocalPathSegmentMessage.fields 0 0)))"

definition queryLocalPathSegmentMessageFromBuffer ::
    "QueryLocalPathSegmentMessage \<Rightarrow> bytes \<Rightarrow> u32 \<Rightarrow> (bool \<times> QueryLocalPathSegmentMessage) exec" where
  "queryLocalPathSegmentMessageFromBuffer =
     messageFromBuffer queryLocalPathSegment_dataFromBuffer"

definition queryLocalPathSegmentMessageSize :: "QueryLocalPathSegmentMessage \<Rightarrow> u32" where
  "queryLocalPathSegmentMessageSize = messageSize queryLocalPathSegment_dataSize"

definition queryLocalPathSegmentMessageToBuffer ::
    "QueryLocalPathSegmentMessage \<Rightarrow> bytes \<Rightarrow> u32 \<Rightarrow> (bool \<times> QueryLocalPathSegmentMessage \<times> bytes) exec" where
  "queryLocalPathSegmentMessageToBuffer =
     messageToBuffer queryLocalPathSegment_dataSize queryLocalPathSegment_dataToBuffer"

definition queryLocalPathSegmentMessageFromJausMessage ::
    "QueryLocalPathSegmentMessage \<Rightarrow> JausMessage \<Rightarrow> QueryLocalPathSegmentMessage option exec" where
  "queryLocalPathSegmentMessageFromJausMessage =
     messageFromJausMessage JAUS_QUERY_LOCAL_PATH_SEGMENT queryLocalPathSegment_dataFromBuffer"

definition queryLocalPathSegmentMessageToJausMessage ::
    "QueryLocalPathSegmentMessage \<Rightarrow> JausMessage exec" where
  "queryLocalPathSegmentMessageToJausMessage =
     messageToJausMessage queryLocalPathSegment_dataSize queryLocalPathSegment_dataToBuffer"

definition queryLocalPathSegment_enc :: "QueryLocalPathSegmentMessage \<Rightarrow> bytes" where
  "queryLocalPathSegment_enc m =
     bytesOfWord 2 (queryLocalPathSegment_pathSegmentNumber m) @
     [queryLocalPathSegment_presenceVector m]"

definition queryLocalPathSegment_withData :: "QueryLocalPathSegmentMessage \<Rightarrow> QueryLocalPathSegmentMessage \<Rightarrow> QueryLocalPathSegmentMessage" where
  "queryLocalPathSegment_withData m0 m =
     m0\<lparr>queryLocalPathSegment_pathSegmentNumber := queryLocalPathSegment_pathSegmentNumber m,
        queryLocalPathSegment_presenceVector := queryLocalPathSegment_presenceVector m\<rparr>"

lemma queryLocalPathSegment_size: "queryLocalPathSegment_dataSize m = of_nat (length (queryLocalPathSegment_enc m))"
  by (simp add: queryLocalPathSegment_dataSize_def queryLocalPathSegment_enc_def)

lemma queryLocalPathSegment_small: "length (queryLocalPathSegment_enc m) < 4096"
  unfolding queryLocalPathSegment_enc_def by (rule enc_small, (rule length_bounds)+, simp)

lemma queryLocalPathSegment_to:
  assumes "off + length (queryLocalPathSegment_enc m) \<le> length buf" "length (queryLocalPathSegment_enc m) \<le> unat n"
  shows "queryLocalPathSegment_dataToBuffer m buf off n =
    Some (length (queryLocalPathSegment_enc m), take off buf @ queryLocalPathSegment_enc m @ drop (off + length (queryLocalPathSegment_enc m)) buf)"
  unfolding queryLocalPathSegment_dataToBuffer_def
  by (rule to_lawI [OF _ queryLocalPathSegment_size assms], unfold queryLocalPathSegment_enc_def,
      (rule writes_intros refl | rule writes_Cons | (rule FromDouble_total, simp)
        | simp add: codec_simps)+)

lemma queryLocalPathSegment_from:
  assumes "dataSize m0 = queryLocalPathSegment_dataSize m"
  shows "queryLocalPathSegment_dataFromBuffer m0 (pre @ queryLocalPathSegment_enc m @ post) (length pre) (queryLocalPathSegment_dataSize m) = Some (True, queryLocalPathSegment_withData m0 m)"
proof -
  have n: "unat (queryLocalPathSegment_dataSize m) = length (queryLocalPathSegment_enc m)"
    using queryLocalPathSegment_small [of m] by (simp add: queryLocalPathSegment_size unat_of_nat_lt)
  show ?thesis
    unfolding queryLocalPathSegment_dataFromBuffer_def queryLocalPathSegment_withData_def
    by (rule from_lawI [where D = "queryLocalPathSegment_enc m"], unfold queryLocalPathSegment_enc_def,
        (rule parses_intros refl n [unfolded queryLocalPathSegment_enc_def] assms [symmetric] | rule parses_Cons
          | simp add: codec_simps)+)
qed

interpretation queryLocalPathSegment: typed_message queryLocalPathSegment_dataSize queryLocalPathSegment_dataFromBuffer
  queryLocalPathSegment_dataToBuffer queryLocalPathSegment_enc queryLocalPathSegment_withData
  by unfold_locales (fact queryLocalPathSegment_size queryLocalPathSegment_small queryLocalPathSegment_to queryLocalPathSegment_from)+

section \<open>QueryLocalPoseMessage\<close>

record QueryLocalPoseMessage = JausHeader +
  queryLocalPose_presenceVector :: u16

definition queryLocalPose_dataInitialize ::
    "QueryLocalPoseMessage \<Rightarrow> QueryLocalPoseMessage" where
  "queryLocalPose_dataInitialize m =
     m\<lparr>queryLocalPose_presenceVector := newJausUnsignedShort JAUS_SHORT_PRESENCE_VECTOR_ALL_ON\<rparr>"

definition queryLocalPose_dataSize :: "QueryLocalPoseMessage \<Rightarrow> u32" where
  "queryLocalPose_dataSize m =
     2"

definition queryLocalPose_dataFromBuffer ::
    "QueryLocalPoseMessage \<Rightarrow> bytes \<Rightarrow> nat \<Rightarrow> u32 \<Rightarrow> (bool \<times> QueryLocalPoseMessage) exec" where
  "queryLocalPose_dataFromBuffer m buffer off n =
     (if n = dataSize m then finishR (runStmts
        [getUShort (\<lambda>v m. m\<lparr>queryLocalPose_presenceVector := v\<rparr>) buffer off n] (0, m))
      else Some (False, m))"

definition queryLocalPose_dataToBuffer ::
    "QueryLocalPoseMessage \<Rightarrow> bytes \<Rightarrow> nat \<Rightarrow> u32 \<Rightarrow> (nat \<times> bytes) exec" where
  "queryLocalPose_dataToBuffer m buffer off n =
     (if queryLocalPose_dataSize m \<le> n then finishW (runStmts
        [putUShort (Some (queryLocalPose_presenceVector m)) off n] (0, buffer))
      else Some (0, buffer))"

definition queryLocalPoseMessageCreate :: QueryLocalPoseMessage where
  "queryLocalPoseMessageCreate =
     (queryLocalPose_dataInitialize (JausHeader.extend (blankHeader JAUS_QUERY_LOCAL_POSE 2)
        (QueryLocalPoseMessage.fields 0)))"

definition queryLocalPoseMessageFromBuffer ::
    "QueryLocalPoseMessage \<Rightarrow> bytes \<Rightarrow> u32 \<Rightarrow> (bool \<times> QueryLocalPoseMessage) exec" where
  "queryLocalPoseMessageFromBuffer =
     messageFromBuffer queryLocalPose_dataFromBuffer"

definition queryLocalPoseMessageSize :: "QueryLocalPoseMessage \<Rightarrow> u32" where
  "queryLocalPoseMessageSize = messageSize queryLocalPose_dataSize"

definition queryLocalPoseMessageToBuffer ::
    "QueryLocalPoseMessage \<Rightarrow> bytes \<Rightarrow> u32 \<Rightarrow> (bool \<times> QueryLocalPoseMessage \<times> bytes) exec" where
  "queryLocalPoseMessageToBuffer =
     messageToBuffer queryLocalPose_dataSize queryLocalPose_dataToBuffer"

definition queryLocalPoseMessageFromJausMessage ::
    "QueryLocalPoseMessage \<Rightarrow> JausMessage \<Rightarrow> QueryLocalPoseMessage option exec" where
  "queryLocalPoseMessageFromJausMessage =
     messageFromJausMessage JAUS_QUERY_LOCAL_POSE queryLocalPose_dataFromBuffer"

definition queryLocalPoseMessageToJausMessage ::
    "QueryLocalPoseMessage \<Rightarrow> JausMessage exec" where
  "queryLocalPoseMessageToJausMessage =
     messageToJausMessage queryLocalPose_dataSize queryLocalPose_dataToBuffer"

definition queryLocalPose_enc :: "QueryLocalPoseMessage \<Rightarrow> bytes" where
  "queryLocalPose_enc m =
     bytesOfWord 2 (queryLocalPose_presenceVector m)"

definition queryLocalPose_withData :: "QueryLocalPoseMessage \<Rightarrow> QueryLocalPoseMessage \<Rightarrow> QueryLocalPoseMessage" where
  "queryLocalPose_withData m0 m =
     m0\<lparr>queryLocalPose_presenceVector := queryLocalPose_presenceVector m\<rparr>"

lemma queryLocalPose_size: "queryLocalPose_dataSize m = of_nat (length (queryLocalPose_enc m))"
  by (simp add: queryLocalPose_dataSize_def queryLocalPose_enc_def)

lemma queryLocalPose_small: "length (queryLocalPose_enc m) < 4096"
  unfolding queryLocalPose_enc_def by (rule enc_small, (rule length_bounds)+, simp)

lemma queryLocalPose_to:
  assumes "off + length (queryLocalPose_enc m) \<le> length buf" "length (queryLocalPose_enc m) \<le> unat n"
  shows "queryLocalPose_dataToBuffer m buf off n =
    Some (length (queryLocalPose_enc m), take off buf @ queryLocalPose_enc m @ drop (off + length (queryLocalPose_enc m)) buf)"
  unfolding queryLocalPose_dataToBuffer_def
  by (rule to_lawI [OF _ queryLocalPose_size assms], unfold queryLocalPose_enc_def,
      (rule writes_intros refl | rule writes_Cons | (rule FromDouble_total, simp)
        | simp add: codec_simps)+)

lemma queryLocalPose_from:
  assumes "dataSize m0 = queryLocalPose_dataSize m"
  shows "queryLocalPose_dataFromBuffer m0 (pre @ queryLocalPose_enc m @ post) (length pre) (queryLocalPose_dataSize m) = Some (True, queryLocalPose_withData m0 m)"
proof -
  have n: "unat (queryLocalPose_dataSize m) = length (queryLocalPose_enc m)"
    using queryLocalPose_small [of m] by (simp add: queryLocalPose_size unat_of_nat_lt)
  show ?thesis
    unfolding queryLocalPose_dataFromBuffer_def queryLocalPose_withData_def
    by (rule from_lawI [where D = "queryLocalPose_enc m"], unfold queryLocalPose_enc_def,
        (rule parses_intros refl n [unfolded queryLocalPose_enc_def] assms [symmetric] | rule parses_Cons
          | simp add: codec_simps)+)
qed

interpretation queryLocalPose: typed_message queryLocalPose_dataSize queryLocalPose_dataFromBuffer
  queryLocalPose_dataToBuffer queryLocalPose_enc queryLocalPose_withData
  by unfold_locales (fact queryLocalPose_size queryLocalPose_small queryLocalPose_to queryLocalPose_from)+

section \<open>QueryLocalWaypointMessage\<close>

record QueryLocalWaypointMessage = JausHeader +
  queryLocalWaypoint_waypointNumber :: u16

definition queryLocalWaypoint_dataInitialize ::
    "QueryLocalWaypointMessage \<Rightarrow> QueryLocalWaypointMessage" where
  "queryLocalWaypoint_dataInitialize m =
     m\<lparr>queryLocalWaypoint_waypointNumber := newJausUnsignedShort 0\<rparr>"

definition queryLocalWaypoint_dataSize :: "QueryLocalWaypointMessage \<Rightarrow> u32" where
  "queryLocalWaypoint_dataSize m =
     2"

definition queryLocalWaypoint_dataFromBuffer ::
    "QueryLocalWaypointMessage \<Rightarrow> bytes \<Rightarrow> nat \<Rightarrow> u32 \<Rightarrow> (bool \<times> QueryLocalWaypointMessage) exec" where
  "queryLocalWaypoint_dataFromBuffer m buffer off n =
     (if n = dataSize m then finishR (runStmts
        [getUShort (\<lambda>v m. m\<lparr>queryLocalWaypoint_waypointNumber := v\<rparr>) buffer off n] (0, m))
      else Some (False, m))"

definition queryLocalWaypoint_dataToBuffer ::
    "QueryLocalWaypointMessage \<Rightarrow> bytes \<Rightarrow> nat \<Rightarrow> u32 \<Rightarrow> (nat \<times> bytes) exec" where
  "queryLocalWaypoint_dataToBuffer m buffer off n =
     (if queryLocalWaypoint_dataSize m \<le> n then finishW (runStmts
        [putUShort (Some (queryLocalWaypoint_waypointNumber m)) off n] (0, buffer))
      else Some (0, buffer))"

definition queryLocalWaypointMessageCreate :: QueryLocalWaypointMessage where
  "queryLocalWaypointMessageCreate =
     (queryLocalWaypoint_dataInitialize (JausHeader.extend (blankHeader JAUS_QUERY_LOCAL_WAYPOINT 2)
        (QueryLocalWaypointMessage.fields 0)))"

definition queryLocalWaypointMessageFromBuffer ::
    "QueryLocalWaypointMessage \<Rightarrow> bytes \<Rightarrow> u32 \<Rightarrow> (bool \<times> QueryLocalWaypointMessage) exec" where
  "queryLocalWaypointMessageFromBuffer =
     messageFromBuffer queryLocalWaypoint_dataFromBuffer"

definition queryLocalWaypointMessageSize :: "QueryLocalWaypointMessage \<Rightarrow> u32" where
  "queryLocalWaypointMessageSize = messageSize queryLocalWaypoint_dataSize"

definition queryLocalWaypointMessageToBuffer ::
    "QueryLocalWaypointMessage \<Rightarrow> bytes \<Rightarrow> u32 \<Rightarrow> (bool \<times> QueryLocalWaypointMessage \<times> bytes) exec" where
  "queryLocalWaypointMessageToBuffer =
     messageToBuffer queryLocalWaypoint_dataSize queryLocalWaypoint_dataToBuffer"

definition queryLocalWaypointMessageFromJausMessage ::
    "QueryLocalWaypointMessage \<Rightarrow> JausMessage \<Rightarrow> QueryLocalWaypointMessage option exec" where
  "queryLocalWaypointMessageFromJausMessage =
     messageFromJausMessage JAUS_QUERY_LOCAL_WAYPOINT queryLocalWaypoint_dataFromBuffer"

definition queryLocalWaypointMessageToJausMessage ::
    "QueryLocalWaypointMessage \<Rightarrow> JausMessage exec" where
  "queryLocalWaypointMessageToJausMessage =
     messageToJausMessage queryLocalWaypoint_dataSize queryLocalWaypoint_dataToBuffer"

definition queryLocalWaypoint_enc :: "QueryLocalWaypointMessage \<Rightarrow> bytes" where
  "queryLocalWaypoint_enc m =
     bytesOfWord 2 (queryLocalWaypoint_waypointNumber m)"

definition queryLocalWaypoint_withData :: "QueryLocalWaypointMessage \<Rightarrow> QueryLocalWaypointMessage \<Rightarrow> QueryLocalWaypointMessage" where
  "queryLocalWaypoint_withData m0 m =
     m0\<lparr>queryLocalWaypoint_waypointNumber := queryLocalWaypoint_waypointNumber m\<rparr>"

lemma queryLocalWaypoint_size: "queryLocalWaypoint_dataSize m = of_nat (length (queryLocalWaypoint_enc m))"
  by (simp add: queryLocalWaypoint_dataSize_def queryLocalWaypoint_enc_def)

lemma queryLocalWaypoint_small: "length (queryLocalWaypoint_enc m) < 4096"
  unfolding queryLocalWaypoint_enc_def by (rule enc_small, (rule length_bounds)+, simp)

lemma queryLocalWaypoint_to:
  assumes "off + length (queryLocalWaypoint_enc m) \<le> length buf" "length (queryLocalWaypoint_enc m) \<le> unat n"
  shows "queryLocalWaypoint_dataToBuffer m buf off n =
    Some (length (queryLocalWaypoint_enc m), take off buf @ queryLocalWaypoint_enc m @ drop (off + length (queryLocalWaypoint_enc m)) buf)"
  unfolding queryLocalWaypoint_dataToBuffer_def
  by (rule to_lawI [OF _ queryLocalWaypoint_size assms], unfold queryLocalWaypoint_enc_def,
      (rule writes_intros refl | rule writes_Cons | (rule FromDouble_total, simp)
        | simp add: codec_simps)+)

lemma queryLocalWaypoint_from:
  assumes "dataSize m0 = queryLocalWaypoint_dataSize m"
  shows "queryLocalWaypoint_dataFromBuffer m0 (pre @ queryLocalWaypoint_enc m @ post) (length pre) (queryLocalWaypoint_dataSize m) = Some (True, queryLocalWaypoint_withData m0 m)"
proof -
  have n: "unat (queryLocalWaypoint_dataSize m) = length (queryLocalWaypoint_enc m)"
    using queryLocalWaypoint_small [of m] by (simp add: queryLocalWaypoint_size unat_of_nat_lt)
  show ?thesis
    unfolding queryLocalWaypoint_dataFromBuffer_def queryLocalWaypoint_withData_def
    by (rule from_lawI [where D = "queryLocalWaypoint_enc m"], unfold queryLocalWaypoint_enc_def,
        (rule parses_intros refl n [unfolded queryLocalWaypoint_enc_def] assms [symmetric] | rule parses_Cons
          | simp add: codec_simps)+)
qed

interpretation queryLocalWaypoint: typed_message queryLocalWaypoint_dataSize queryLocalWaypoint_dataFromBuffer
  queryLocalWaypoint_dataToBuffer queryLocalWaypoint_enc queryLocalWaypoint_withData
  by unfold_locales (fact queryLocalWaypoint_size queryLocalWaypoint_small queryLocalWaypoint_to queryLocalWaypoint_from)+

section \<open>QueryPathSegmentCountMessage\<close>

type_synonym QueryPathSegmentCountMessage = JausHeader

definition queryPathSegmentCountMessageCreate :: QueryPathSegmentCountMessage where
  "queryPathSegmentCountMessageCreate =
     (noData_dataInitialize (blankHeader JAUS_QUERY_PATH_SEGMENT_COUNT 0))"

definition queryPathSegmentCountMessageFromBuffer ::
    "QueryPathSegmentCountMessage \<Rightarrow> bytes \<Rightarrow> u32 \<Rightarrow> (bool \<times> QueryPathSegmentCountMessage) exec" where
  "queryPathSegmentCountMessageFromBuffer =
     messageFromBuffer noData_dataFromBuffer"

definition queryPathSegmentCountMessageToBuffer ::
    "QueryPathSegmentCountMessage \<Rightarrow> bytes \<Rightarrow> u32 \<Rightarrow> (bool \<times> QueryPathSegmentCountMessage \<times> bytes) exec" where
  "queryPathSegmentCountMessageToBuffer =
     messageToBuffer noData_dataSize noData_dataToBuffer"

definition queryPathSegmentCountMessageFromJausMessage ::
    "QueryPathSegmentCountMessage \<Rightarrow> JausMessage \<Rightarrow> QueryPathSegmentCountMessage option exec" where
  "queryPathSegmentCountMessageFromJausMessage =
     messageFromJausMessage JAUS_QUERY_PATH_SEGMENT_COUNT noData_dataFromBuffer"

definition queryPathSegmentCountMessageToJausMessage ::
    "QueryPathSegmentCountMessage \<Rightarrow> JausMessage exec" where
  "queryPathSegmentCountMessageToJausMessage =
     messageToJausMessage noData_dataSize noData_dataToBuffer"

definition queryPathSegmentCountMessageSize ::
    "QueryPathSegmentCountMessage \<Rightarrow> u32" where
  "queryPathSegmentCountMessageSize =
     messageSize noData_dataSize"

section \<open>QueryPlatformOperationalDataMessage\<close>

record QueryPlatformOperationalDataMessage = JausHeader +
  queryPlatformOperationalData_presenceVector :: u8

definition queryPlatformOperationalData_dataInitialize ::
    "QueryPlatformOperationalDataMessage \<Rightarrow> QueryPlatformOperationalDataMessage" where
  "queryPlatformOperationalData_dataInitialize m =
     m\<lparr>queryPlatformOperationalData_presenceVector := newJausByte JAUS_BYTE_PRESENCE_VECTOR_ALL_ON\<rparr>"

definition queryPlatformOperationalData_dataSize :: "QueryPlatformOperationalDataMessage \<Rightarrow> u32" where
  "queryPlatformOperationalData_dataSize m =
     1"

definition queryPlatformOperationalData_dataFromBuffer ::
    "QueryPlatformOperationalDataMessage \<Rightarrow> bytes \<Rightarrow> nat \<Rightarrow> u32 \<Rightarrow> (bool \<times> QueryPlatformOperationalDataMessage) exec" where
  "queryPlatformOperationalData_dataFromBuffer m buffer off n =
     (if n = dataSize m then finishR (runStmts
        [getByte (\<lambda>v m. m\<lparr>queryPlatformOperationalData_presenceVector := v\<rparr>) buffer off n] (0, m))
      else Some (False, m))"

definition queryPlatformOperationalData_dataToBuffer ::
    "QueryPlatformOperationalDataMessage \<Rightarrow> bytes \<Rightarrow> nat \<Rightarrow> u32 \<Rightarrow> (nat \<times> bytes) exec" where
  "queryPlatformOperationalData_dataToBuffer m buffer off n =
     (if queryPlatformOperationalData_dataSize m \<le> n then finishW (runStmts
        [putByte (Some (queryPlatformOperationalData_presenceVector m)) off n] (0, buffer))
      else Some (0, buffer))"

definition queryPlatformOperationalDataMessageCreate :: QueryPlatformOperationalDataMessage where
  "queryPlatformOperationalDataMessageCreate =
     (queryPlatformOperationalData_dataInitialize (JausHeader.extend (blankHeader JAUS_QUERY_PLATFORM_OPERATIONAL_DATA 1)
        (QueryPlatformOperationalDataMessage.fields 0)))"

definition queryPlatformOperationalDataMessageFromBuffer ::
    "QueryPlatformOperationalDataMessage \<Rightarrow> bytes \<Rightarrow> u32 \<Rightarrow> (bool \<times> QueryPlatformOperationalDataMessage) exec" where
  "queryPlatformOperationalDataMessageFromBuffer =
     messageFromBuffer queryPlatformOperationalData_dataFromBuffer"

definition queryPlatformOperationalDataMessageSize :: "QueryPlatformOperationalDataMessage \<Rightarrow> u32" where
  "queryPlatformOperationalDataMessageSize = messageSize queryPlatformOperationalData_dataSize"

definition queryPlatformOperationalDataMessageToBuffer ::
    "QueryPlatformOperationalDataMessage \<Rightarrow> bytes \<Rightarrow> u32 \<Rightarrow> (bool \<times> QueryPlatformOperationalDataMessage \<times> bytes) exec" where
  "queryPlatformOperationalDataMessageToBuffer =
     messageToBuffer queryPlatformOperationalData_dataSize queryPlatformOperationalData_dataToBuffer"

definition queryPlatformOperationalDataMessageFromJausMessage ::
    "QueryPlatformOperationalDataMessage \<Rightarrow> JausMessage \<Rightarrow> QueryPlatformOperationalDataMessage option exec" where
  "queryPlatformOperationalDataMessageFromJausMessage =
     messageFromJausMessage JAUS_QUERY_PLATFORM_OPERATIONAL_DATA queryPlatformOperationalData_dataFromBuffer"

definition queryPlatformOperationalDataMessageToJausMessage ::
    "QueryPlatformOperationalDataMessage \<Rightarrow> JausMessage exec" where
  "queryPlatformOperationalDataMessageToJausMessage =
     messageToJausMessage queryPlatformOperationalData_dataSize queryPlatformOperationalData_dataToBuffer"

definition queryPlatformOperationalData_enc :: "QueryPlatformOperationalDataMessage \<Rightarrow> bytes" where
  "queryPlatformOperationalData_enc m =
     [queryPlatformOperationalData_presenceVector m]"

definition queryPlatformOperationalData_withData :: "QueryPlatformOperationalDataMessage \<Rightarrow> QueryPlatformOperationalDataMessage \<Rightarrow> QueryPlatformOperationalDataMessage" where
  "queryPlatformOperationalData_withData m0 m =
     m0\<lparr>queryPlatformOperationalData_presenceVector := queryPlatformOperationalData_presenceVector m\<rparr>"

lemma queryPlatformOperationalData_size: "queryPlatformOperationalData_dataSize m = of_nat (length (queryPlatformOperationalData_enc m))"
  by (simp add: queryPlatformOperationalData_dataSize_def queryPlatformOperationalData_enc_def)

lemma queryPlatformOperationalData_small: "length (queryPlatformOperationalData_enc m) < 4096"
  unfolding queryPlatformOperationalData_enc_def by (rule enc_small, (rule length_bounds)+, simp)

lemma queryPlatformOperationalData_to:
  assumes "off + length (queryPlatformOperationalData_enc m) \<le> length buf" "length (queryPlatformOperationalData_enc m) \<le> unat n"
  shows "queryPlatformOperationalData_dataToBuffer m buf off n =
    Some (length (queryPlatformOperationalData_enc m), take off buf @ queryPlatformOperationalData_enc m @ drop (off + length (queryPlatformOperationalData_enc m)) buf)"
  unfolding queryPlatformOperationalData_dataToBuffer_def
  by (rule to_lawI [OF _ queryPlatformOperationalData_size assms], unfold queryPlatformOperationalData_enc_def,
      (rule writes_intros refl | rule writes_Cons | (rule FromDouble_total, simp)
        | simp add: codec_simps)+)

lemma queryPlatformOperationalData_from:
  assumes "dataSize m0 = queryPlatformOperationalData_dataSize m"
  shows "queryPlatformOperationalData_dataFromBuffer m0 (pre @ queryPlatformOperationalData_enc m @ post) (length pre) (queryPlatformOperationalData_dataSize m) = Some (True, queryPlatformOperationalData_withData m0 m)"
proof -
  have n: "unat (queryPlatformOperationalData_dataSize m) = length (queryPlatformOperationalData_enc m)"
    using queryPlatformOperationalData_small [of m] by (simp add: queryPlatformOperationalData_size unat_of_nat_lt)
  show ?thesis
    unfolding queryPlatformOperationalData_dataFromBuffer_def queryPlatformOperationalData_withData_def
    by (rule from_lawI [where D = "queryPlatformOperationalData_enc m"], unfold queryPlatformOperationalData_enc_def,
        (rule parses_intros refl n [unfolded queryPlatformOperationalData_enc_def] assms [symmetric] | rule parses_Cons
          | simp add: codec_simps)+)
qed

interpretation queryPlatformOperationalData: typed_message queryPlatformOperationalData_dataSize queryPlatformOperationalData_dataFromBuffer
  queryPlatformOperationalData_dataToBuffer queryPlatformOperationalData_enc queryPlatformOperationalData_withData
  by unfold_locales (fact queryPlatformOperationalData_size queryPlatformOperationalData_small queryPlatformOperationalData_to queryPlatformOperationalData_from)+

section \<open>QueryPlatformSpecificationsMessage\<close>

record QueryPlatformSpecificationsMessage = JausHeader +
  queryPlatformSpecifications_presenceVector :: u32

definition queryPlatformSpecifications_dataInitialize ::
    "QueryPlatformSpecificationsMessage \<Rightarrow> QueryPlatformSpecificationsMessage" where
  "queryPlatformSpecifications_dataInitialize m =
     m\<lparr>queryPlatformSpecifications_presenceVector := newJausUnsignedInteger JAUS_INTEGER_PRESENCE_VECTOR_ALL_ON\<rparr>"

definition queryPlatformSpecifications_dataSize :: "QueryPlatformSpecificationsMessage \<Rightarrow> u32" where
  "queryPlatformSpecifications_dataSize m =
     4"

definition queryPlatformSpecifications_dataFromBuffer ::
    "QueryPlatformSpecificationsMessage \<Rightarrow> bytes \<Rightarrow> nat \<Rightarrow> u32 \<Rightarrow> (bool \<times> QueryPlatformSpecificationsMessage) exec" where
  "queryPlatformSpecifications_dataFromBuffer m buffer off n =
     (if n = dataSize m then finishR (runStmts
        [getUInteger (\<lambda>v m. m\<lparr>queryPlatformSpecifications_presenceVector := v\<rparr>) buffer off n] (0, m))
      else Some (False, m))"

definition queryPlatformSpecifications_dataToBuffer ::
    "QueryPlatformSpecificationsMessage \<Rightarrow> bytes \<Rightarrow> nat \<Rightarrow> u32 \<Rightarrow> (nat \<times> bytes) exec" where
  "queryPlatformSpecifications_dataToBuffer m buffer off n =
     (if queryPlatformSpecifications_dataSize m \<le> n then finishW (runStmts
        [putUInteger (Some (queryPlatformSpecifications_presenceVector m)) off n] (0, buffer))
      else Some (0, buffer))"

definition queryPlatformSpecificationsMessageCreate :: QueryPlatformSpecificationsMessage where
  "queryPlatformSpecificationsMessageCreate =
     (queryPlatformSpecifications_dataInitialize (JausHeader.extend (blankHeader JAUS_QUERY_PLATFORM_SPECIFICATIONS 4)
        (QueryPlatformSpecificationsMessage.fields 0)))"

definition queryPlatformSpecificationsMessageFromBuffer ::
    "QueryPlatformSpecificationsMessage \<Rightarrow> bytes \<Rightarrow> u32 \<Rightarrow> (bool \<times> QueryPlatformSpecificationsMessage) exec" where
  "queryPlatformSpecificationsMessageFromBuffer =
     messageFromBuffer queryPlatformSpecifications_dataFromBuffer"

definition queryPlatformSpecificationsMessageSize :: "QueryPlatformSpecificationsMessage \<Rightarrow> u32" where
  "queryPlatformSpecificationsMessageSize = messageSize queryPlatformSpecifications_dataSize"

definition queryPlatformSpecificationsMessageToBuffer ::
    "QueryPlatformSpecificationsMessage \<Rightarrow> bytes \<Rightarrow> u32 \<Rightarrow> (bool \<times> QueryPlatformSpecificationsMessage \<times> bytes) exec" where
  "queryPlatformSpecificationsMessageToBuffer =
     messageToBuffer queryPlatformSpecifications_dataSize queryPlatformSpecifications_dataToBuffer"

definition queryPlatformSpecificationsMessageFromJausMessage ::
    "QueryPlatformSpecificationsMessage \<Rightarrow> JausMessage \<Rightarrow> QueryPlatformSpecificationsMessage option exec" where
  "queryPlatformSpecificationsMessageFromJausMessage =
     messageFromJausMessage JAUS_QUERY_PLATFORM_SPECIFICATIONS queryPlatformSpecifications_dataFromBuffer"

definition queryPlatformSpecificationsMessageToJausMessage ::
    "QueryPlatformSpecificationsMessage \<Rightarrow> JausMessage exec" where
  "queryPlatformSpecificationsMessageToJausMessage =
     messageToJausMessage queryPlatformSpecifications_dataSize queryPlatformSpecifications_dataToBuffer"

definition queryPlatformSpecifications_enc :: "QueryPlatformSpecificationsMessage \<Rightarrow> bytes" where
  "queryPlatformSpecifications_enc m =
     bytesOfWord 4 (queryPlatformSpecifications_presenceVector m)"

definition queryPlatformSpecifications_withData :: "QueryPlatformSpecificationsMessage \<Rightarrow> QueryPlatformSpecificationsMessage \<Rightarrow> QueryPlatformSpecificationsMessage" where
  "queryPlatformSpecifications_withData m0 m =
     m0\<lparr>queryPlatformSpecifications_presenceVector := queryPlatformSpecifications_presenceVector m\<rparr>"

lemma queryPlatformSpecifications_size: "queryPlatformSpecifications_dataSize m = of_nat (length (queryPlatformSpecifications_enc m))"
  by (simp add: queryPlatformSpecifications_dataSize_def queryPlatformSpecifications_enc_def)

lemma queryPlatformSpecifications_small: "length (queryPlatformSpecifications_enc m) < 4096"
  unfolding queryPlatformSpecifications_enc_def by (rule enc_small, (rule length_bounds)+, simp)

lemma queryPlatformSpecifications_to:
  assumes "off + length (queryPlatformSpecifications_enc m) \<le> length buf" "length (queryPlatformSpecifications_enc m) \<le> unat n"
  shows "queryPlatformSpecifications_dataToBuffer m buf off n =
    Some (length (queryPlatformSpecifications_enc m), take off buf @ queryPlatformSpecifications_enc m @ drop (off + length (queryPlatformSpecifications_enc m)) buf)"
  unfolding queryPlatformSpecifications_dataToBuffer_def
  by (rule to_lawI [OF _ queryPlatformSpecifications_size assms], unfold queryPlatformSpecifications_enc_def,
      (rule writes_intros refl | rule writes_Cons | (rule FromDouble_total, simp)
        | simp add: codec_simps)+)

lemma queryPlatformSpecifications_from:
  assumes "dataSize m0 = queryPlatformSpecifications_dataSize m"
  shows "queryPlatformSpecifications_dataFromBuffer m0 (pre @ queryPlatformSpecifications_enc m @ post) (length pre) (queryPlatformSpecifications_dataSize m) = Some (True, queryPlatformSpecifications_withData m0 m)"
proof -
  have n: "unat (queryPlatformSpecifications_dataSize m) = length (queryPlatformSpecifications_enc m)"
    using queryPlatformSpecifications_small [of m] by (simp add: queryPlatformSpecifications_size unat_of_nat_lt)
  show ?thesis
    unfolding queryPlatformSpecifications_dataFromBuffer_def queryPlatformSpecifications_withData_def
    by (rule from_lawI [where D = "queryPlatformSpecifications_enc m"], unfold queryPlatformSpecifications_enc_def,
        (rule parses_intros refl n [unfolded queryPlatformSpecifications_enc_def] assms [symmetric] | rule parses_Cons
          | simp add: codec_simps)+)
qed

interpretation queryPlatformSpecifications: typed_message queryPlatformSpecifications_dataSize queryPlatformSpecifications_dataFromBuffer
  queryPlatformSpecifications_dataToBuffer queryPlatformSpecifications_enc queryPlatformSpecifications_withData
  by unfold_locales (fact queryPlatformSpecifications_size queryPlatformSpecifications_small queryPlatformSpecifications_to queryPlatformSpecifications_from)+

section \<open>QueryTravelSpeedMessage\<close>

type_synonym QueryTravelSpeedMessage = JausHeader

definition queryTravelSpeedMessageCreate :: QueryTravelSpeedMessage where
  "queryTravelSpeedMessageCreate =
     (noData_dataInitialize (blankHeader JAUS_QUERY_TRAVEL_SPEED 0))"

definition queryTravelSpeedMessageFromBuffer ::
    "QueryTravelSpeedMessage \<Rightarrow> bytes \<Rightarrow> u32 \<Rightarrow> (bool \<times> QueryTravelSpeedMessage) exec" where
  "queryTravelSpeedMessageFromBuffer =
     messageFromBuffer noData_dataFromBuffer"

definition queryTravelSpeedMessageToBuffer ::
    "QueryTravelSpeedMessage \<Rightarrow> bytes \<Rightarrow> u32 \<Rightarrow> (bool \<times> QueryTravelSpeedMessage \<times> bytes) exec" where
  "queryTravelSpeedMessageToBuffer =
     messageToBuffer noData_dataSize noData_dataToBuffer"

definition queryTravelSpeedMessageFromJausMessage ::
    "QueryTravelSpeedMessage \<Rightarrow> JausMessage \<Rightarrow> QueryTravelSpeedMessage option exec" where
  "queryTravelSpeedMessageFromJausMessage =
     messageFromJausMessage JAUS_QUERY_TRAVEL_SPEED noData_dataFromBuffer"

definition queryTravelSpeedMessageToJausMessage ::
    "QueryTravelSpeedMessage \<Rightarrow> JausMessage exec" where
  "queryTravelSpeedMessageToJausMessage =
     messageToJausMessage noData_dataSize noData_dataToBuffer"

definition queryTravelSpeedMessageSize ::
    "QueryTravelSpeedMessage \<Rightarrow> u32" where
  "queryTravelSpeedMessageSize =
     messageSize noData_dataSize"

section \<open>QueryVelocityStateMessage\<close>

record QueryVelocityStateMessage = JausHeader +
  queryVelocityState_presenceVector :: u16

definition queryVelocityState_dataInitialize ::
    "QueryVelocityStateMessage \<Rightarrow> QueryVelocityStateMessage" where
  "queryVelocityState_dataInitialize m =
     m\<lparr>queryVelocityState_presenceVector := newJausUnsignedShort JAUS_SHORT_PRESENCE_VECTOR_ALL_ON\<rparr>"

definition queryVelocityState_dataSize :: "QueryVelocityStateMessage \<Rightarrow> u32" where
  "queryVelocityState_dataSize m =
     2"

definition queryVelocityState_dataFromBuffer ::
    "QueryVelocityStateMessage \<Rightarrow> bytes \<Rightarrow> nat \<Rightarrow> u32 \<Rightarrow> (bool \<times> QueryVelocityStateMessage) exec" where
  "queryVelocityState_dataFromBuffer m buffer off n =
     (if n = dataSize m then finishR (runStmts
        [getUShort (\<lambda>v m. m\<lparr>queryVelocityState_presenceVector := v\<rparr>) buffer off n] (0, m))
      else Some (False, m))"

definition queryVelocityState_dataToBuffer ::
    "QueryVelocityStateMessage \<Rightarrow> bytes \<Rightarrow> nat \<Rightarrow> u32 \<Rightarrow> (nat \<times> bytes) exec" where
  "queryVelocityState_dataToBuffer m buffer off n =
     (if queryVelocityState_dataSize m \<le> n then finishW (runStmts
        [putUShort (Some (queryVelocityState_presenceVector m)) off n] (0, buffer))
      else Some (0, buffer))"

definition queryVelocityStateMessageCreate :: QueryVelocityStateMessage where
  "queryVelocityStateMessageCreate =
     (queryVelocityState_dataInitialize (JausHeader.extend (blankHeader JAUS_QUERY_VELOCITY_STATE 2)
        (QueryVelocityStateMessage.fields 0)))"

definition queryVelocityStateMessageFromBuffer ::
    "QueryVelocityStateMessage \<Rightarrow> bytes \<Rightarrow> u32 \<Rightarrow> (bool \<times> QueryVelocityStateMessage) exec" where
  "queryVelocityStateMessageFromBuffer =
     messageFromBuffer queryVelocityState_dataFromBuffer"

definition queryVelocityStateMessageSize :: "QueryVelocityStateMessage \<Rightarrow> u32" where
  "queryVelocityStateMessageSize = messageSize queryVelocityState_dataSize"

definition queryVelocityStateMessageToBuffer ::
    "QueryVelocityStateMessage \<Rightarrow> bytes \<Rightarrow> u32 \<Rightarrow> (bool \<times> QueryVelocityStateMessage \<times> bytes) exec" where
  "queryVelocityStateMessageToBuffer =
     messageToBuffer queryVelocityState_dataSize queryVelocityState_dataToBuffer"

definition queryVelocityStateMessageFromJausMessage ::
    "QueryVelocityStateMessage \<Rightarrow> JausMessage \<Rightarrow> QueryVelocityStateMessage option exec" where
  "queryVelocityStateMessageFromJausMessage =
     messageFromJausMessage JAUS_QUERY_VELOCITY_STATE queryVelocityState_dataFromBuffer"

definition queryVelocityStateMessageToJausMessage ::
    "QueryVelocityStateMessage \<Rightarrow> JausMessage exec" where
  "queryVelocityStateMessageToJausMessage =
     messageToJausMessage queryVelocityState_dataSize queryVelocityState_dataToBuffer"

definition queryVelocityState_enc :: "QueryVelocityStateMessage \<Rightarrow> bytes" where
  "queryVelocityState_enc m =
     bytesOfWord 2 (queryVelocityState_presenceVector m)"

definition queryVelocityState_withData :: "QueryVelocityStateMessage \<Rightarrow> QueryVelocityStateMessage \<Rightarrow> QueryVelocityStateMessage" where
  "queryVelocityState_withData m0 m =
     m0\<lparr>queryVelocityState_presenceVector := queryVelocityState_presenceVector m\<rparr>"

lemma queryVelocityState_size: "queryVelocityState_dataSize m = of_nat (length (queryVelocityState_enc m))"
  by (simp add: queryVelocityState_dataSize_def queryVelocityState_enc_def)

lemma queryVelocityState_small: "length (queryVelocityState_enc m) < 4096"
  unfolding queryVelocityState_enc_def by (rule enc_small, (rule length_bounds)+, simp)

lemma queryVelocityState_to:
  assumes "off + length (queryVelocityState_enc m) \<le> length buf" "length (queryVelocityState_enc m) \<le> unat n"
  shows "queryVelocityState_dataToBuffer m buf off n =
    Some (length (queryVelocityState_enc m), take off buf @ queryVelocityState_enc m @ drop (off + length (queryVelocityState_enc m)) buf)"
  unfolding queryVelocityState_dataToBuffer_def
  by (rule to_lawI [OF _ queryVelocityState_size assms], unfold queryVelocityState_enc_def,
      (rule writes_intros refl | rule writes_Cons | (rule FromDouble_total, simp)
        | simp add: codec_simps)+)

lemma queryVelocityState_from:
  assumes "dataSize m0 = queryVelocityState_dataSize m"
  shows "queryVelocityState_dataFromBuffer m0 (pre @ queryVelocityState_enc m @ post) (length pre) (queryVelocityState_dataSize m) = Some (True, queryVelocityState_withData m0 m)"
proof -
  have n: "unat (queryVelocityState_dataSize m) = length (queryVelocityState_enc m)"
    using queryVelocityState_small [of m] by (simp add: queryVelocityState_size unat_of_nat_lt)
  show ?thesis
    unfolding queryVelocityState_dataFromBuffer_def queryVelocityState_withData_def
    by (rule from_lawI [where D = "queryVelocityState_enc m"], unfold queryVelocityState_enc_def,
        (rule parses_intros refl n [unfolded queryVelocityState_enc_def] assms [symmetric] | rule parses_Cons
          | simp add: codec_simps)+)
qed

interpretation queryVelocityState: typed_message queryVelocityState_dataSize queryVelocityState_dataFromBuffer
  queryVelocityState_dataToBuffer queryVelocityState_enc queryVelocityState_withData
  by unfold_locales (fact queryVelocityState_size queryVelocityState_small queryVelocityState_to queryVelocityState_from)+

section \<open>QueryWaypointCountMessage\<close>

type_synonym QueryWaypointCountMessage = JausHeader

definition queryWaypointCountMessageCreate :: QueryWaypointCountMessage where
  "queryWaypointCountMessageCreate =
     (noData_dataInitialize (blankHeader JAUS_QUERY_WAYPOINT_COUNT 0))"

definition queryWaypointCountMessageFromBuffer ::
    "QueryWaypointCountMessage \<Rightarrow> bytes \<Rightarrow> u32 \<Rightarrow> (bool \<times> QueryWaypointCountMessage) exec" where
  "queryWaypointCountMessageFromBuffer =
     messageFromBuffer noData_dataFromBuffer"

definition queryWaypointCountMessageToBuffer ::
    "QueryWaypointCountMessage \<Rightarrow> bytes \<Rightarrow> u32 \<Rightarrow> (bool \<times> QueryWaypointCountMessage \<times> bytes) exec" where
  "queryWaypointCountMessageToBuffer =
     messageToBuffer noData_dataSize noData_dataToBuffer"

definition queryWaypointCountMessageFromJausMessage ::
    "QueryWaypointCountMessage \<Rightarrow> JausMessage \<Rightarrow> QueryWaypointCountMessage option exec" where
  "queryWaypointCountMessageFromJausMessage =
     messageFromJausMessage JAUS_QUERY_WAYPOINT_COUNT noData_dataFromBuffer"

definition queryWaypointCountMessageToJausMessage ::
    "QueryWaypointCountMessage \<Rightarrow> JausMessage exec" where
  "queryWaypointCountMessageToJausMessage =
     messageToJausMessage noData_dataSize noData_dataToBuffer"

definition queryWaypointCountMessageSize ::
    "QueryWaypointCountMessage \<Rightarrow> u32" where
  "queryWaypointCountMessageSize =
     messageSize noData_dataSize"

section \<open>QueryWrenchEffortMessage\<close>

record QueryWrenchEffortMessage = JausHeader +
  queryWrenchEffort_presenceVector :: u16

definition queryWrenchEffort_dataInitialize ::
    "QueryWrenchEffortMessage \<Rightarrow> QueryWrenchEffortMessage" where
  "queryWrenchEffort_dataInitialize m =
     m\<lparr>queryWrenchEffort_presenceVector := newJausUnsignedShort JAUS_SHORT_PRESENCE_VECTOR_ALL_ON\<rparr>"

definition queryWrenchEffort_dataSize :: "QueryWrenchEffortMessage \<Rightarrow> u32" where
  "queryWrenchEffort_dataSize m =
     2"

definition queryWrenchEffort_dataFromBuffer ::
    "QueryWrenchEffortMessage \<Rightarrow> bytes \<Rightarrow> nat \<Rightarrow> u32 \<Rightarrow> (bool \<times> QueryWrenchEffortMessage) exec" where
  "queryWrenchEffort_dataFromBuffer m buffer off n =
     (if n = dataSize m then finishR (runStmts
        [getUShort (\<lambda>v m. m\<lparr>queryWrenchEffort_presenceVector := v\<rparr>) buffer off n] (0, m))
      else Some (False, m))"

definition queryWrenchEffort_dataToBuffer ::
    "QueryWrenchEffortMessage \<Rightarrow> bytes \<Rightarrow> nat \<Rightarrow> u32 \<Rightarrow> (nat \<times> bytes) exec" where
  "queryWrenchEffort_dataToBuffer m buffer off n =
     (if queryWrenchEffort_dataSize m \<le> n then finishW (runStmts
        [putUShort (Some (queryWrenchEffort_presenceVector m)) off n] (0, buffer))
      else Some (0, buffer))"

definition queryWrenchEffortMessageCreate :: QueryWrenchEffortMessage where
  "queryWrenchEffortMessageCreate =
     (queryWrenchEffort_dataInitialize (JausHeader.extend (blankHeader JAUS_QUERY_WRENCH_EFFORT 2)
        (QueryWrenchEffortMessage.fields 0)))"

definition queryWrenchEffortMessageFromBuffer ::
    "QueryWrenchEffortMessage \<Rightarrow> bytes \<Rightarrow> u32 \<Rightarrow> (bool \<times> QueryWrenchEffortMessage) exec" where
  "queryWrenchEffortMessageFromBuffer =
     messageFromBuffer queryWrenchEffort_dataFromBuffer"

definition queryWrenchEffortMessageSize :: "QueryWrenchEffortMessage \<Rightarrow> u32" where
  "queryWrenchEffortMessageSize = messageSize queryWrenchEffort_dataSize"

definition queryWrenchEffortMessageToBuffer ::
    "QueryWrenchEffortMessage \<Rightarrow> bytes \<Rightarrow> u32 \<Rightarrow> (bool \<times> QueryWrenchEffortMessage \<times> bytes) exec" where
  "queryWrenchEffortMessageToBuffer =
     messageToBuffer queryWrenchEffort_dataSize queryWrenchEffort_dataToBuffer"

definition queryWrenchEffortMessageFromJausMessage ::
    "QueryWrenchEffortMessage \<Rightarrow> JausMessage \<Rightarrow> QueryWrenchEffortMessage option exec" where
  "queryWrenchEffortMessageFromJausMessage =
     messageFromJausMessage JAUS_QUERY_WRENCH_EFFORT queryWrenchEffort_dataFromBuffer"

definition queryWrenchEffortMessageToJausMessage ::
    "QueryWrenchEffortMessage \<Rightarrow> JausMessage exec" where
  "queryWrenchEffortMessageToJausMessage =
     messageToJausMessage queryWrenchEffort_dataSize queryWrenchEffort_dataToBuffer"

definition queryWrenchEffort_enc :: "QueryWrenchEffortMessage \<Rightarrow> bytes" where
  "queryWrenchEffort_enc m =
     bytesOfWord 2 (queryWrenchEffort_presenceVector m)"

definition queryWrenchEffort_withData :: "QueryWrenchEffortMessage \<Rightarrow> QueryWrenchEffortMessage \<Rightarrow> QueryWrenchEffortMessage" where
  "queryWrenchEffort_withData m0 m =
     m0\<lparr>queryWrenchEffort_presenceVector := queryWrenchEffort_presenceVector m\<rparr>"

lemma queryWrenchEffort_size: "queryWrenchEffort_dataSize m = of_nat (length (queryWrenchEffort_enc m))"
  by (simp add: queryWrenchEffort_dataSize_def queryWrenchEffort_enc_def)

lemma queryWrenchEffort_small: "length (queryWrenchEffort_enc m) < 4096"
  unfolding queryWrenchEffort_enc_def by (rule enc_small, (rule length_bounds)+, simp)

lemma queryWrenchEffort_to:
  assumes "off + length (queryWrenchEffort_enc m) \<le> length buf" "length (queryWrenchEffort_enc m) \<le> unat n"
  shows "queryWrenchEffort_dataToBuffer m buf off n =
    Some (length (queryWrenchEffort_enc m), take off buf @ queryWrenchEffort_enc m @ drop (off + length (queryWrenchEffort_enc m)) buf)"
  unfolding queryWrenchEffort_dataToBuffer_def
  by (rule to_lawI [OF _ queryWrenchEffort_size assms], unfold queryWrenchEffort_enc_def,
      (rule writes_intros refl | rule writes_Cons | (rule FromDouble_total, simp)
        | simp add: codec_simps)+)

lemma queryWrenchEffort_from:
  assumes "dataSize m0 = queryWrenchEffort_dataSize m"
  shows "queryWrenchEffort_dataFromBuffer m0 (pre @ queryWrenchEffort_enc m @ post) (length pre) (queryWrenchEffort_dataSize m) = Some (True, queryWrenchEffort_withData m0 m)"
proof -
  have n: "unat (queryWrenchEffort_dataSize m) = length (queryWrenchEffort_enc m)"
    using queryWrenchEffort_small [of m] by (simp add: queryWrenchEffort_size unat_of_nat_lt)
  show ?thesis
    unfolding queryWrenchEffort_dataFromBuffer_def queryWrenchEffort_withData_def
    by (rule from_lawI [where D = "queryWrenchEffort_enc m"], unfold queryWrenchEffort_enc_def,
        (rule parses_intros refl n [unfolded queryWrenchEffort_enc_def] assms [symmetric] | rule parses_Cons
          | simp add: codec_simps)+)
qed

interpretation queryWrenchEffort: typed_message queryWrenchEffort_dataSize queryWrenchEffort_dataFromBuffer
  queryWrenchEffort_dataToBuffer queryWrenchEffort_enc queryWrenchEffort_withData
  by unfold_locales (fact queryWrenchEffort_size queryWrenchEffort_small queryWrenchEffort_to queryWrenchEffort_from)+

section \<open>QueryVksBoundsMessage\<close>

record QueryVksBoundsMessage = JausHeader +
  queryVksBounds_requestId :: u8
  queryVksBounds_featureClassId :: u16

definition queryVksBounds_dataInitialize ::
    "QueryVksBoundsMessage \<Rightarrow> QueryVksBoundsMessage" where
  "queryVksBounds_dataInitialize m =
     m\<lparr>queryVksBounds_requestId := newJausByte 0,
        queryVksBounds_featureClassId := newJausUnsignedShort 0\<rparr>"

definition queryVksBounds_dataSize :: "QueryVksBoundsMessage \<Rightarrow> u32" where
  "queryVksBounds_dataSize m =
     3"

definition queryVksBounds_dataFromBuffer ::
    "QueryVksBoundsMessage \<Rightarrow> bytes \<Rightarrow> nat \<Rightarrow> u32 \<Rightarrow> (bool \<times> QueryVksBoundsMessage) exec" where
  "queryVksBounds_dataFromBuffer m buffer off n =
     (if n = dataSize m then finishR (runStmts
        [getByte (\<lambda>v m. m\<lparr>queryVksBounds_requestId := v\<rparr>) buffer off n,
         getUShort (\<lambda>v m. m\<lparr>queryVksBounds_featureClassId := v\<rparr>) buffer off n] (0, m))
      else Some (False, m))"

definition queryVksBounds_dataToBuffer ::
    "QueryVksBoundsMessage \<Rightarrow> bytes \<Rightarrow> nat \<Rightarrow> u32 \<Rightarrow> (nat \<times> bytes) exec" where
  "queryVksBounds_dataToBuffer m buffer off n =
     (if queryVksBounds_dataSize m \<le> n then finishW (runStmts
        [putByte (Some (queryVksBounds_requestId m)) off n,
         putUShort (Some (queryVksBounds_featureClassId m)) off n] (0, buffer))
      else Some (0, buffer))"

definition queryVksBoundsMessageCreate :: QueryVksBoundsMessage where
  "queryVksBoundsMessageCreate =
     (queryVksBounds_dataInitialize (JausHeader.extend (blankHeader JAUS_QUERY_VKS_BOUNDS 3)
        (QueryVksBoundsMessage.fields 0 0)))"

definition queryVksBoundsMessageFromBuffer ::
    "QueryVksBoundsMessage \<Rightarrow> bytes \<Rightarrow> u32 \<Rightarrow> (bool \<times> QueryVksBoundsMessage) exec" where
  "queryVksBoundsMessageFromBuffer =
     messageFromBuffer queryVksBounds_dataFromBuffer"

definition queryVksBoundsMessageSize :: "QueryVksBoundsMessage \<Rightarrow> u32" where
  "queryVksBoundsMessageSize = messageSize queryVksBounds_dataSize"

definition queryVksBoundsMessageToBuffer ::
    "QueryVksBoundsMessage \<Rightarrow> bytes \<Rightarrow> u32 \<Rightarrow> (bool \<times> QueryVksBoundsMessage \<times> bytes) exec" where
  "queryVksBoundsMessageToBuffer =
     messageToBuffer queryVksBounds_dataSize queryVksBounds_dataToBuffer"

definition queryVksBoundsMessageFromJausMessage ::
    "QueryVksBoundsMessage \<Rightarrow> JausMessage \<Rightarrow> QueryVksBoundsMessage option exec" where
  "queryVksBoundsMessageFromJausMessage =
     messageFromJausMessage JAUS_QUERY_VKS_BOUNDS queryVksBounds_dataFromBuffer"

definition queryVksBoundsMessageToJausMessage ::
    "QueryVksBoundsMessage \<Rightarrow> JausMessage exec" where
  "queryVksBoundsMessageToJausMessage =
     messageToJausMessage queryVksBounds_dataSize queryVksBounds_dataToBuffer"

definition queryVksBounds_enc :: "QueryVksBoundsMessage \<Rightarrow> bytes" where
  "queryVksBounds_enc m =
     [queryVksBounds_requestId m] @
     bytesOfWord 2 (queryVksBounds_featureClassId m)"

definition queryVksBounds_withData :: "QueryVksBoundsMessage \<Rightarrow> QueryVksBoundsMessage \<Rightarrow> QueryVksBoundsMessage" where
  "queryVksBounds_withData m0 m =
     m0\<lparr>queryVksBounds_requestId := queryVksBounds_requestId m,
        queryVksBounds_featureClassId := queryVksBounds_featureClassId m\<rparr>"

lemma queryVksBounds_size: "queryVksBounds_dataSize m = of_nat (length (queryVksBounds_enc m))"
  by (simp add: queryVksBounds_dataSize_def queryVksBounds_enc_def)

lemma queryVksBounds_small: "length (queryVksBounds_enc m) < 4096"
  unfolding queryVksBounds_enc_def by (rule enc_small, (rule length_bounds)+, simp)

lemma queryVksBounds_to:
  assumes "off + length (queryVksBounds_enc m) \<le> length buf" "length (queryVksBounds_enc m) \<le> unat n"
  shows "queryVksBounds_dataToBuffer m buf off n =
    Some (length (queryVksBounds_enc m), take off buf @ queryVksBounds_enc m @ drop (off + length (queryVksBounds_enc m)) buf)"
  unfolding queryVksBounds_dataToBuffer_def
  by (rule to_lawI [OF _ queryVksBounds_size assms], unfold queryVksBounds_enc_def,
      (rule writes_intros refl | rule writes_Cons | (rule FromDouble_total, simp)
        | simp add: codec_simps)+)

lemma queryVksBounds_from:
  assumes "dataSize m0 = queryVksBounds_dataSize m"
  shows "queryVksBounds_dataFromBuffer m0 (pre @ queryVksBounds_enc m @ post) (length pre) (queryVksBounds_dataSize m) = Some (True, queryVksBounds_withData m0 m)"
proof -
  have n: "unat (queryVksBounds_dataSize m) = length (queryVksBounds_enc m)"
    using queryVksBounds_small [of m] by (simp add: queryVksBounds_size unat_of_nat_lt)
  show ?thesis
    unfolding queryVksBounds_dataFromBuffer_def queryVksBounds_withData_def
    by (rule from_lawI [where D = "queryVksBounds_enc m"], unfold queryVksBounds_enc_def,
        (rule parses_intros refl n [unfolded queryVksBounds_enc_def] assms [symmetric] | rule parses_Cons
          | simp add: codec_simps)+)
qed

interpretation queryVksBounds: typed_message queryVksBounds_dataSize queryVksBounds_dataFromBuffer
  queryVksBounds_dataToBuffer queryVksBounds_enc queryVksBounds_withData
  by unfold_locales (fact queryVksBounds_size queryVksBounds_small queryVksBounds_to queryVksBounds_from)+

section \<open>QueryVksFeatureClassMetadataMessage\<close>

record QueryVksFeatureClassMetadataMessage = JausHeader +
  queryVksFeatureClassMetadata_featureClassId :: u16

definition queryVksFeatureClassMetadata_dataInitialize ::
    "QueryVksFeatureClassMetadataMessage \<Rightarrow> QueryVksFeatureClassMetadataMessage" where
  "queryVksFeatureClassMetadata_dataInitialize m =
     m\<lparr>queryVksFeatureClassMetadata_featureClassId := newJausUnsignedShort 0\<rparr>"

definition queryVksFeatureClassMetadata_dataSize :: "QueryVksFeatureClassMetadataMessage \<Rightarrow> u32" where
  "queryVksFeatureClassMetadata_dataSize m =
     2"

definition queryVksFeatureClassMetadata_dataFromBuffer ::
    "QueryVksFeatureClassMetadataMessage \<Rightarrow> bytes \<Rightarrow> nat \<Rightarrow> u32 \<Rightarrow> (bool \<times> QueryVksFeatureClassMetadataMessage) exec" where
  "queryVksFeatureClassMetadata_dataFromBuffer m buffer off n =
     (if n = dataSize m then finishR (runStmts
        [getUShort (\<lambda>v m. m\<lparr>queryVksFeatureClassMetadata_featureClassId := v\<rparr>) buffer off n] (0, m))
      else Some (False, m))"

definition queryVksFeatureClassMetadata_dataToBuffer ::
    "QueryVksFeatureClassMetadataMessage \<Rightarrow> bytes \<Rightarrow> nat \<Rightarrow> u32 \<Rightarrow> (nat \<times> bytes) exec" where
  "queryVksFeatureClassMetadata_dataToBuffer m buffer off n =
     (if queryVksFeatureClassMetadata_dataSize m \<le> n then finishW (runStmts
        [putUShort (Some (queryVksFeatureClassMetadata_featureClassId m)) off n] (0, buffer))
      else Some (0, buffer))"

definition queryVksFeatureClassMetadataMessageCreate :: QueryVksFeatureClassMetadataMessage where
  "queryVksFeatureClassMetadataMessageCreate =
     (queryVksFeatureClassMetadata_dataInitialize (JausHeader.extend (blankHeader JAUS_QUERY_VKS_FEATURE_CLASS_METADATA 2)
        (QueryVksFeatureClassMetadataMessage.fields 0)))"

definition queryVksFeatureClassMetadataMessageFromBuffer ::
    "QueryVksFeatureClassMetadataMessage \<Rightarrow> bytes \<Rightarrow> u32 \<Rightarrow> (bool \<times> QueryVksFeatureClassMetadataMessage) exec" where
  "queryVksFeatureClassMetadataMessageFromBuffer =
     messageFromBuffer queryVksFeatureClassMetadata_dataFromBuffer"

definition queryVksFeatureClassMetadataMessageSize :: "QueryVksFeatureClassMetadataMessage \<Rightarrow> u32" where
  "queryVksFeatureClassMetadataMessageSize = messageSize queryVksFeatureClassMetadata_dataSize"

definition queryVksFeatureClassMetadataMessageToBuffer ::
    "QueryVksFeatureClassMetadataMessage \<Rightarrow> bytes \<Rightarrow> u32 \<Rightarrow> (bool \<times> QueryVksFeatureClassMetadataMessage \<times> bytes) exec" where
  "queryVksFeatureClassMetadataMessageToBuffer =
     messageToBuffer queryVksFeatureClassMetadata_dataSize queryVksFeatureClassMetadata_dataToBuffer"

definition queryVksFeatureClassMetadataMessageFromJausMessage ::
    "QueryVksFeatureClassMetadataMessage \<Rightarrow> JausMessage \<Rightarrow> QueryVksFeatureClassMetadataMessage option exec" where
  "queryVksFeatureClassMetadataMessageFromJausMessage =
     messageFromJausMessage JAUS_QUERY_VKS_FEATURE_CLASS_METADATA queryVksFeatureClassMetadata_dataFromBuffer"

definition queryVksFeatureClassMetadataMessageToJausMessage ::
    "QueryVksFeatureClassMetadataMessage \<Rightarrow> JausMessage exec" where
  "queryVksFeatureClassMetadataMessageToJausMessage =
     messageToJausMessage queryVksFeatureClassMetadata_dataSize queryVksFeatureClassMetadata_dataToBuffer"

definition queryVksFeatureClassMetadata_enc :: "QueryVksFeatureClassMetadataMessage \<Rightarrow> bytes" where
  "queryVksFeatureClassMetadata_enc m =
     bytesOfWord 2 (queryVksFeatureClassMetadata_featureClassId m)"

definition queryVksFeatureClassMetadata_withData :: "QueryVksFeatureClassMetadataMessage \<Rightarrow> QueryVksFeatureClassMetadataMessage \<Rightarrow> QueryVksFeatureClassMetadataMessage" where
  "queryVksFeatureClassMetadata_withData m0 m =
     m0\<lparr>queryVksFeatureClassMetadata_featureClassId := queryVksFeatureClassMetadata_featureClassId m\<rparr>"

lemma queryVksFeatureClassMetadata_size: "queryVksFeatureClassMetadata_dataSize m = of_nat (length (queryVksFeatureClassMetadata_enc m))"
  by (simp add: queryVksFeatureClassMetadata_dataSize_def queryVksFeatureClassMetadata_enc_def)

lemma queryVksFeatureClassMetadata_small: "length (queryVksFeatureClassMetadata_enc m) < 4096"
  unfolding queryVksFeatureClassMetadata_enc_def by (rule enc_small, (rule length_bounds)+, simp)

lemma queryVksFeatureClassMetadata_to:
  assumes "off + length (queryVksFeatureClassMetadata_enc m) \<le> length buf" "length (queryVksFeatureClassMetadata_enc m) \<le> unat n"
  shows "queryVksFeatureClassMetadata_dataToBuffer m buf off n =
    Some (length (queryVksFeatureClassMetadata_enc m), take off buf @ queryVksFeatureClassMetadata_enc m @ drop (off + length (queryVksFeatureClassMetadata_enc m)) buf)"
  unfolding queryVksFeatureClassMetadata_dataToBuffer_def
  by (rule to_lawI [OF _ queryVksFeatureClassMetadata_size assms], unfold queryVksFeatureClassMetadata_enc_def,
      (rule writes_intros refl | rule writes_Cons | (rule FromDouble_total, simp)
        | simp add: codec_simps)+)

lemma queryVksFeatureClassMetadata_from:
  assumes "dataSize m0 = queryVksFeatureClassMetadata_dataSize m"
  shows "queryVksFeatureClassMetadata_dataFromBuffer m0 (pre @ queryVksFeatureClassMetadata_enc m @ post) (length pre) (queryVksFeatureClassMetadata_dataSize m) = Some (True, queryVksFeatureClassMetadata_withData m0 m)"
proof -
  have n: "unat (queryVksFeatureClassMetadata_dataSize m) = length (queryVksFeatureClassMetadata_enc m)"
    using queryVksFeatureClassMetadata_small [of m] by (simp add: queryVksFeatureClassMetadata_size unat_of_nat_lt)
  show ?thesis
    unfolding queryVksFeatureClassMetadata_dataFromBuffer_def queryVksFeatureClassMetadata_withData_def
    by (rule from_lawI [where D = "queryVksFeatureClassMetadata_enc m"], unfold queryVksFeatureClassMetadata_enc_def,
        (rule parses_intros refl n [unfolded queryVksFeatureClassMetadata_enc_def] assms [symmetric] | rule parses_Cons
          | simp add: codec_simps)+)
qed

interpretation queryVksFeatureClassMetadata: typed_message queryVksFeatureClassMetadata_dataSize queryVksFeatureClassMetadata_dataFromBuffer
  queryVksFeatureClassMetadata_dataToBuffer queryVksFeatureClassMetadata_enc queryVksFeatureClassMetadata_withData
  by unfold_locales (fact queryVksFeatureClassMetadata_size queryVksFeatureClassMetadata_small queryVksFeatureClassMetadata_to queryVksFeatureClassMetadata_from)+

end
