(* ===== verification/XgvMessages.thy ===== *)
theory XgvMessages
  imports MessageCodes
begin

text \<open>
  The experimental messages of the XGV controller client
  (\<open>xgv_controller/src/xgv_client/message\<close>).
  Each section translates one source file: the struct as a record that extends the header,
  its four message-specific routines, and the common routines applied to them. \<open>enc\<close> and
  \<open>withData\<close> are the specification, the wire image and what a receiver reconstructs from it;
  the interpretation of \<open>typed_message\<close> proves that the routines meet it, and with it the
  round trips through buffers and generic messages.
\<close>

section \<open>SetMotionProfileMessage\<close>

record SetMotionProfileMessage = JausHeader +
  setMotionProfile_version :: u8
  setMotionProfile_numberOfMotions :: u8
  setMotionProfile_desiredVelocity :: real
  setMotionProfile_maximumAcceleration :: real
  setMotionProfile_atanOfDesiredCurvature :: real
  setMotionProfile_rateOfChangeOfCurvature :: real
  setMotionProfile_timeDuration :: u16

definition setMotionProfile_dataInitialize ::
    "SetMotionProfileMessage \<Rightarrow> SetMotionProfileMessage" where
  "setMotionProfile_dataInitialize m =
     m\<lparr>properties := (properties m)\<lparr>expFlag := 1\<rparr>,
        setMotionProfile_version := newJausByte 1,
        setMotionProfile_numberOfMotions := newJausByte 1,
        setMotionProfile_desiredVelocity := 0,
        setMotionProfile_maximumAcceleration := 0,
        setMotionProfile_atanOfDesiredCurvature := 0,
        setMotionProfile_rateOfChangeOfCurvature := 0,
        setMotionProfile_timeDuration := newJausUnsignedShort 0\<rparr>"

definition setMotionProfile_dataSize :: "SetMotionProfileMessage \<Rightarrow> u32" where
  "setMotionProfile_dataSize m =
     (1 +
      1 +
      2 +
      2 +
      2 +
      2 +
      2)"

definition setMotionProfile_dataFromBuffer ::
    "SetMotionProfileMessage \<Rightarrow> bytes \<Rightarrow> nat \<Rightarrow> u32 \<Rightarrow> (bool \<times> SetMotionProfileMessage) exec" where
  "setMotionProfile_dataFromBuffer m buffer off n =
     (if n = dataSize m then finishR (runStmts
        [getByte (\<lambda>v m. m\<lparr>setMotionProfile_version := v\<rparr>) buffer off n,
         getByte (\<lambda>v m. m\<lparr>setMotionProfile_numberOfMotions := v\<rparr>) buffer off n,
         getUShort (\<lambda>v m. m\<lparr>setMotionProfile_desiredVelocity := jausUnsignedShortToDouble v (- 65.535) 65.535\<rparr>) buffer off n,
         getUShort (\<lambda>v m. m\<lparr>setMotionProfile_maximumAcceleration := jausUnsignedShortToDouble v 0 100\<rparr>) buffer off n,
         getUShort (\<lambda>v m. m\<lparr>setMotionProfile_atanOfDesiredCurvature := jausUnsignedShortToDouble v (- JAUS_HALF_PI) JAUS_HALF_PI\<rparr>) buffer off n,
         getUShort (\<lambda>v m. m\<lparr>setMotionProfile_rateOfChangeOfCurvature := jausUnsignedShortToDouble v 0 10\<rparr>) buffer off n,
         getUShort (\<lambda>v m. m\<lparr>setMotionProfile_timeDuration := v\<rparr>) buffer off n] (0, m))
      else Some (False, m))"

definition setMotionProfile_dataToBuffer ::
    "SetMotionProfileMessage \<Rightarrow> bytes \<Rightarrow> nat \<Rightarrow> u32 \<Rightarrow> (nat \<times> bytes) exec" where
  "setMotionProfile_dataToBuffer m buffer off n =
     (if setMotionProfile_dataSize m \<le> n then finishW (runStmts
        [putByte (Some (setMotionProfile_version m)) off n,
         putByte (Some (setMotionProfile_numberOfMotions m)) off n,
         putUShort (jausUnsignedShortFromDouble (setMotionProfile_desiredVelocity m) (- 65.535) 65.535) off n,
         putUShort (jausUnsignedShortFromDouble (setMotionProfile_maximumAcceleration m) 0 100) off n,
         putUShort (jausUnsignedShortFromDouble (setMotionProfile_atanOfDesiredCurvature m) (- JAUS_HALF_PI) JAUS_HALF_PI) off n,
         putUShort (jausUnsignedShortFromDouble (setMotionProfile_rateOfChangeOfCurvature m) 0 10) off n,
         putUShort (Some (setMotionProfile_timeDuration m)) off n] (0, buffer))
      else Some (0, buffer))"

definition setMotionProfileMessageCreate :: SetMotionProfileMessage where
  "setMotionProfileMessageCreate =
     (let m = setMotionProfile_dataInitialize (JausHeader.extend (blankHeader JAUS_SET_MOTION_PROFILE 12)
        (SetMotionProfileMessage.fields 0 0 0 0 0 0 0))
      in m\<lparr>dataSize := setMotionProfile_dataSize m\<rparr>)"

definition setMotionProfileMessageFromBuffer ::
    "SetMotionProfileMessage \<Rightarrow> bytes \<Rightarrow> u32 \<Rightarrow> (bool \<times> SetMotionProfileMessage) exec" where
  "setMotionProfileMessageFromBuffer =
     messageFromBuffer setMotionProfile_dataFromBuffer"

definition setMotionProfileMessageSize :: "SetMotionProfileMessage \<Rightarrow> u32" where
  "setMotionProfileMessageSize = messageSize setMotionProfile_dataSize"

definition setMotionProfileMessageToBuffer ::
    "SetMotionProfileMessage \<Rightarrow> bytes \<Rightarrow> u32 \<Rightarrow> (bool \<times> SetMotionProfileMessage \<times> bytes) exec" where
  "setMotionProfileMessageToBuffer =
     messageToBuffer setMotionProfile_dataSize setMotionProfile_dataToBuffer"

definition setMotionProfileMessageFromJausMessage ::
    "SetMotionProfileMessage \<Rightarrow> JausMessage \<Rightarrow> SetMotionProfileMessage option exec" where
  "setMotionProfileMessageFromJausMessage =
     messageFromJausMessage JAUS_SET_MOTION_PROFILE setMotionProfile_dataFromBuffer"

definition setMotionProfileMessageToJausMessage ::
    "SetMotionProfileMessage \<Rightarrow> JausMessage exec" where
  "setMotionProfileMessageToJausMessage =
     messageToJausMessage setMotionProfile_dataSize setMotionProfile_dataToBuffer"

definition setMotionProfile_enc :: "SetMotionProfileMessage \<Rightarrow> bytes" where
  "setMotionProfile_enc m =
     [setMotionProfile_version m] @
     [setMotionProfile_numberOfMotions m] @
     bytesOfWord 2 (the (jausUnsignedShortFromDouble (setMotionProfile_desiredVelocity m) (- 65.535) 65.535)) @
     bytesOfWord 2 (the (jausUnsignedShortFromDouble (setMotionProfile_maximumAcceleration m) 0 100)) @
     bytesOfWord 2 (the (jausUnsignedShortFromDouble (setMotionProfile_atanOfDesiredCurvature m) (- JAUS_HALF_PI) JAUS_HALF_PI)) @
     bytesOfWord 2 (the (jausUnsignedShortFromDouble (setMotionProfile_rateOfChangeOfCurvature m) 0 10)) @
     bytesOfWord 2 (setMotionProfile_timeDuration m)"

definition setMotionProfile_withData :: "SetMotionProfileMessage \<Rightarrow> SetMotionProfileMessage \<Rightarrow> SetMotionProfileMessage" where
  "setMotionProfile_withData m0 m =
     m0\<lparr>setMotionProfile_version := setMotionProfile_version m,
        setMotionProfile_numberOfMotions := setMotionProfile_numberOfMotions m,
        setMotionProfile_desiredVelocity := jausUnsignedShortToDouble (the (jausUnsignedShortFromDouble (setMotionProfile_desiredVelocity m) (- 65.535) 65.535)) (- 65.535) 65.535,
        setMotionProfile_maximumAcceleration := jausUnsignedShortToDouble (the (jausUnsignedShortFromDouble (setMotionProfile_maximumAcceleration m) 0 100)) 0 100,
        setMotionProfile_atanOfDesiredCurvature := jausUnsignedShortToDouble (the (jausUnsignedShortFromDouble (setMotionProfile_atanOfDesiredCurvature m) (- JAUS_HALF_PI) JAUS_HALF_PI)) (- JAUS_HALF_PI) JAUS_HALF_PI,
        setMotionProfile_rateOfChangeOfCurvature := jausUnsignedShortToDouble (the (jausUnsignedShortFromDouble (setMotionProfile_rateOfChangeOfCurvature m) 0 10)) 0 10,
        setMotionProfile_timeDuration := setMotionProfile_timeDuration m\<rparr>"

lemma setMotionProfile_size: "setMotionProfile_dataSize m = of_nat (length (setMotionProfile_enc m))"
  by (simp add: setMotionProfile_dataSize_def setMotionProfile_enc_def)

lemma setMotionProfile_small: "length (setMotionProfile_enc m) < 4096"
  unfolding setMotionProfile_enc_def by (rule enc_small, (rule length_bounds)+, simp)

lemma setMotionProfile_to:
  assumes "off + length (setMotionProfile_enc m) \<le> length buf" "length (setMotionProfile_enc m) \<le> unat n"
  shows "setMotionProfile_dataToBuffer m buf off n =
    Some (length (setMotionProfile_enc m), take off buf @ setMotionProfile_enc m @ drop (off + length (setMotionProfile_enc m)) buf)"
  unfolding setMotionProfile_dataToBuffer_def
  by (rule to_lawI [OF _ setMotionProfile_size assms], unfold setMotionProfile_enc_def,
      (rule writes_intros refl | rule writes_Cons | (rule FromDouble_total, simp)
        | simp add: codec_simps)+)

lemma setMotionProfile_from:
  assumes "dataSize m0 = setMotionProfile_dataSize m"
  shows "setMotionProfile_dataFromBuffer m0 (pre @ setMotionProfile_enc m @ post) (length pre) (setMotionProfile_dataSize m) = Some (True, setMotionProfile_withData m0 m)"
proof -
  have n: "unat (setMotionProfile_dataSize m) = length (setMotionProfile_enc m)"
    using setMotionProfile_small [of m] by (simp add: setMotionProfile_size unat_of_nat_lt)
  show ?thesis
    unfolding setMotionProfile_dataFromBuffer_def setMotionProfile_withData_def
    by (rule from_lawI [where D = "setMotionProfile_enc m"], unfold setMotionProfile_enc_def,
        (rule parses_intros refl n [unfolded setMotionProfile_enc_def] assms [symmetric] | rule parses_Cons
          | simp add: codec_simps)+)
qed

interpretation setMotionProfile: typed_message setMotionProfile_dataSize setMotionProfile_dataFromBuffer
  setMotionProfile_dataToBuffer setMotionProfile_enc setMotionProfile_withData
  by unfold_locales (fact setMotionProfile_size setMotionProfile_small setMotionProfile_to setMotionProfile_from)+

section \<open>SetSignalsMessage\<close>

record SetSignalsMessage = JausHeader +
  setSignals_version :: u8
  setSignals_presenceVector :: u8
  setSignals_turnSignal :: u8
  setSignals_hornStatus :: u8
  setSignals_hornPeriodOn :: u8
  setSignals_hornPeriodOff :: u8
  setSignals_headlightsStatus :: u8
  setSignals_lightsPeriodOn :: u8
  setSignals_lightsPeriodOff :: u8

definition setSignals_dataInitialize ::
    "SetSignalsMessage \<Rightarrow> SetSignalsMessage" where
  "setSignals_dataInitialize m =
     m\<lparr>properties := (properties m)\<lparr>expFlag := 1\<rparr>,
        setSignals_version := newJausByte 0,
        setSignals_presenceVector := newJausByte 0,
        setSignals_turnSignal := newJausByte 0,
        setSignals_hornStatus := newJausByte 0,
        setSignals_hornPeriodOn := newJausByte 0,
        setSignals_hornPeriodOff := newJausByte 0,
        setSignals_headlightsStatus := newJausByte 0,
        setSignals_lightsPeriodOn := newJausByte 0,
        setSignals_lightsPeriodOff := newJausByte 0\<rparr>"

definition setSignals_dataSize :: "SetSignalsMessage \<Rightarrow> u32" where
  "setSignals_dataSize m =
     (1 +
      1 +
      (if jausByteIsBitSet (setSignals_presenceVector m) JAUS_SIGNALS_PV_TURN_SIGNAL_BIT = Some True then 1 else 0) +
      (if jausByteIsBitSet (setSignals_presenceVector m) JAUS_SIGNALS_PV_HORN_BIT = Some True then 3 else 0) +
      (if jausByteIsBitSet (setSignals_presenceVector m) JAUS_SIGNALS_PV_HEADLIGHTS_BIT = Some True then 3 else 0))"

definition setSignals_dataFromBuffer ::
    "SetSignalsMessage \<Rightarrow> bytes \<Rightarrow> nat \<Rightarrow> u32 \<Rightarrow> (bool \<times> SetSignalsMessage) exec" where
  "setSignals_dataFromBuffer m buffer off n =
     (if n = dataSize m then finishR (runStmts
        [getByte (\<lambda>v m. m\<lparr>setSignals_version := v\<rparr>) buffer off n,
         getByte (\<lambda>v m. m\<lparr>setSignals_presenceVector := v\<rparr>) buffer off n,
         whenS (\<lambda>(i, m). jausByteIsBitSet (setSignals_presenceVector m) JAUS_SIGNALS_PV_TURN_SIGNAL_BIT)
           [getByte (\<lambda>v m. m\<lparr>setSignals_turnSignal := v\<rparr>) buffer off n],
         whenS (\<lambda>(i, m). jausByteIsBitSet (setSignals_presenceVector m) JAUS_SIGNALS_PV_HORN_BIT)
           [getByte (\<lambda>v m. m\<lparr>setSignals_hornStatus := v\<rparr>) buffer off n,
            getByte (\<lambda>v m. m\<lparr>setSignals_hornPeriodOn := v\<rparr>) buffer off n,
            getByte (\<lambda>v m. m\<lparr>setSignals_hornPeriodOff := v\<rparr>) buffer off n],
         whenS (\<lambda>(i, m). jausByteIsBitSet (setSignals_presenceVector m) JAUS_SIGNALS_PV_HEADLIGHTS_BIT)
           [getByte (\<lambda>v m. m\<lparr>setSignals_headlightsStatus := v\<rparr>) buffer off n,
            getByte (\<lambda>v m. m\<lparr>setSignals_lightsPeriodOn := v\<rparr>) buffer off n,
            getByte (\<lambda>v m. m\<lparr>setSignals_lightsPeriodOff := v\<rparr>) buffer off n]] (0, m))
      else Some (False, m))"

definition setSignals_dataToBuffer ::
    "SetSignalsMessage \<Rightarrow> bytes \<Rightarrow> nat \<Rightarrow> u32 \<Rightarrow> (nat \<times> bytes) exec" where
  "setSignals_dataToBuffer m buffer off n =
     (if setSignals_dataSize m \<le> n then finishW (runStmts
        [putByte (Some (setSignals_version m)) off n,
         putByte (Some (setSignals_presenceVector m)) off n,
         whenS (\<lambda>_. jausByteIsBitSet (setSignals_presenceVector m) JAUS_SIGNALS_PV_TURN_SIGNAL_BIT)
           [putByte (Some (setSignals_turnSignal m)) off n],
         whenS (\<lambda>_. jausByteIsBitSet (setSignals_presenceVector m) JAUS_SIGNALS_PV_HORN_BIT)
           [putByte (Some (setSignals_hornStatus m)) off n,
            putByte (Some (setSignals_hornPeriodOn m)) off n,
            putByte (Some (setSignals_hornPeriodOff m)) off n],
         whenS (\<lambda>_. jausByteIsBitSet (setSignals_presenceVector m) JAUS_SIGNALS_PV_HEADLIGHTS_BIT)
           [putByte (Some (setSignals_headlightsStatus m)) off n,
            putByte (Some (setSignals_lightsPeriodOn m)) off n,
            putByte (Some (setSignals_lightsPeriodOff m)) off n]] (0, buffer))
      else Some (0, buffer))"

definition setSignalsMessageCreate :: SetSignalsMessage where
  "setSignalsMessageCreate =
     (let m = setSignals_dataInitialize (JausHeader.extend (blankHeader JAUS_SET_SIGNALS 9)
        (SetSignalsMessage.fields 0 0 0 0 0 0 0 0 0))
      in m\<lparr>dataSize := setSignals_dataSize m\<rparr>)"

definition setSignalsMessageFromBuffer ::
    "SetSignalsMessage \<Rightarrow> bytes \<Rightarrow> u32 \<Rightarrow> (bool \<times> SetSignalsMessage) exec" where
  "setSignalsMessageFromBuffer =
     messageFromBuffer setSignals_dataFromBuffer"

definition setSignalsMessageSize :: "SetSignalsMessage \<Rightarrow> u32" where
  "setSignalsMessageSize = messageSize setSignals_dataSize"

definition setSignalsMessageToBuffer ::
    "SetSignalsMessage \<Rightarrow> bytes \<Rightarrow> u32 \<Rightarrow> (bool \<times> SetSignalsMessage \<times> bytes) exec" where
  "setSignalsMessageToBuffer =
     messageToBuffer setSignals_dataSize setSignals_dataToBuffer"

definition setSignalsMessageFromJausMessage ::
    "SetSignalsMessage \<Rightarrow> JausMessage \<Rightarrow> SetSignalsMessage option exec" where
  "setSignalsMessageFromJausMessage =
     messageFromJausMessage JAUS_SET_SIGNALS setSignals_dataFromBuffer"

definition setSignalsMessageToJausMessage ::
    "SetSignalsMessage \<Rightarrow> JausMessage exec" where
  "setSignalsMessageToJausMessage =
     messageToJausMessage setSignals_dataSize setSignals_dataToBuffer"

definition setSignals_enc :: "SetSignalsMessage \<Rightarrow> bytes" where
  "setSignals_enc m =
     [setSignals_version m] @
     [setSignals_presenceVector m] @
     (if bit (setSignals_presenceVector m) (nat JAUS_SIGNALS_PV_TURN_SIGNAL_BIT) then [setSignals_turnSignal m] else []) @
     (if bit (setSignals_presenceVector m) (nat JAUS_SIGNALS_PV_HORN_BIT) then [setSignals_hornStatus m] @ [setSignals_hornPeriodOn m] @ [setSignals_hornPeriodOff m] else []) @
     (if bit (setSignals_presenceVector m) (nat JAUS_SIGNALS_PV_HEADLIGHTS_BIT) then [setSignals_headlightsStatus m] @ [setSignals_lightsPeriodOn m] @ [setSignals_lightsPeriodOff m] else [])"

definition setSignals_withData :: "SetSignalsMessage \<Rightarrow> SetSignalsMessage \<Rightarrow> SetSignalsMessage" where
  "setSignals_withData m0 m =
     onlyIf (bit (setSignals_presenceVector m) (nat JAUS_SIGNALS_PV_HEADLIGHTS_BIT))
       (\<lambda>x. x\<lparr>setSignals_headlightsStatus := setSignals_headlightsStatus m, setSignals_lightsPeriodOn := setSignals_lightsPeriodOn m, setSignals_lightsPeriodOff := setSignals_lightsPeriodOff m\<rparr>)
       (onlyIf (bit (setSignals_presenceVector m) (nat JAUS_SIGNALS_PV_HORN_BIT))
       (\<lambda>x. x\<lparr>setSignals_hornStatus := setSignals_hornStatus m, setSignals_hornPeriodOn := setSignals_hornPeriodOn m, setSignals_hornPeriodOff := setSignals_hornPeriodOff m\<rparr>)
       (onlyIf (bit (setSignals_presenceVector m) (nat JAUS_SIGNALS_PV_TURN_SIGNAL_BIT))
       (\<lambda>x. x\<lparr>setSignals_turnSignal := setSignals_turnSignal m\<rparr>)
       (m0\<lparr>setSignals_version := setSignals_version m,
        setSignals_presenceVector := setSignals_presenceVector m\<rparr>)))"

lemma setSignals_size: "setSignals_dataSize m = of_nat (length (setSignals_enc m))"
  by (simp add: setSignals_dataSize_def setSignals_enc_def codec_simps length_if of_nat_if)

lemma setSignals_small: "length (setSignals_enc m) < 4096"
  unfolding setSignals_enc_def by (rule enc_small, (rule length_bounds)+, simp)

lemma setSignals_to:
  assumes "off + length (setSignals_enc m) \<le> length buf" "length (setSignals_enc m) \<le> unat n"
  shows "setSignals_dataToBuffer m buf off n =
    Some (length (setSignals_enc m), take off buf @ setSignals_enc m @ drop (off + length (setSignals_enc m)) buf)"
  unfolding setSignals_dataToBuffer_def
  by (rule to_lawI [OF _ setSignals_size assms], unfold setSignals_enc_def,
      (rule writes_intros refl | rule writes_Cons | (rule FromDouble_total, simp)
        | simp add: codec_simps)+)

lemma setSignals_from:
  assumes "dataSize m0 = setSignals_dataSize m"
  shows "setSignals_dataFromBuffer m0 (pre @ setSignals_enc m @ post) (length pre) (setSignals_dataSize m) = Some (True, setSignals_withData m0 m)"
proof -
  have n: "unat (setSignals_dataSize m) = length (setSignals_enc m)"
    using setSignals_small [of m] by (simp add: setSignals_size unat_of_nat_lt)
  show ?thesis
    unfolding setSignals_dataFromBuffer_def setSignals_withData_def
    by (rule from_lawI [where D = "setSignals_enc m"], unfold setSignals_enc_def,
        (rule parses_intros refl n [unfolded setSignals_enc_def] assms [symmetric] | rule parses_Cons
          | simp add: codec_simps onlyIf_def if_distrib [of setSignals_presenceVector])+)
qed

interpretation setSignals: typed_message setSignals_dataSize setSignals_dataFromBuffer
  setSignals_dataToBuffer setSignals_enc setSignals_withData
  by unfold_locales (fact setSignals_size setSignals_small setSignals_to setSignals_from)+

section \<open>ReportSignalsMessage\<close>

record ReportSignalsMessage = JausHeader +
  reportSignals_version :: u8
  reportSignals_presenceVector :: u8
  reportSignals_turnSignal :: u8
  reportSignals_hornStatus :: u8
  reportSignals_hornPeriodOn :: u8
  reportSignals_hornPeriodOff :: u8
  reportSignals_headlightsStatus :: u8
  reportSignals_lightsPeriodOn :: u8
  reportSignals_lightsPeriodOff :: u8

definition reportSignals_dataInitialize ::
    "ReportSignalsMessage \<Rightarrow> ReportSignalsMessage" where
  "reportSignals_dataInitialize m =
     m\<lparr>properties := (properties m)\<lparr>expFlag := 1\<rparr>,
        reportSignals_version := newJausByte 0,
        reportSignals_presenceVector := newJausByte 0,
        reportSignals_turnSignal := newJausByte 0,
        reportSignals_hornStatus := newJausByte 0,
        reportSignals_hornPeriodOn := newJausByte 0,
        reportSignals_hornPeriodOff := newJausByte 0,
        reportSignals_headlightsStatus := newJausByte 0,
        reportSignals_lightsPeriodOn := newJausByte 0,
        reportSignals_lightsPeriodOff := newJausByte 0\<rparr>"

definition reportSignals_dataSize :: "ReportSignalsMessage \<Rightarrow> u32" where
  "reportSignals_dataSize m =
     (1 +
      1 +
      (if jausByteIsBitSet (reportSignals_presenceVector m) JAUS_SIGNALS_PV_TURN_SIGNAL_BIT = Some True then 1 else 0) +
      (if jausByteIsBitSet (reportSignals_presenceVector m) JAUS_SIGNALS_PV_HORN_BIT = Some True then 3 else 0) +
      (if jausByteIsBitSet (reportSignals_presenceVector m) JAUS_SIGNALS_PV_HEADLIGHTS_BIT = Some True then 3 else 0))"

definition reportSignals_dataFromBuffer ::
    "ReportSignalsMessage \<Rightarrow> bytes \<Rightarrow> nat \<Rightarrow> u32 \<Rightarrow> (bool \<times> ReportSignalsMessage) exec" where
  "reportSignals_dataFromBuffer m buffer off n =
     (if n = dataSize m then finishR (runStmts
        [getByte (\<lambda>v m. m\<lparr>reportSignals_version := v\<rparr>) buffer off n,
         getByte (\<lambda>v m. m\<lparr>reportSignals_presenceVector := v\<rparr>) buffer off n,
         whenS (\<lambda>(i, m). jausByteIsBitSet (reportSignals_presenceVector m) JAUS_SIGNALS_PV_TURN_SIGNAL_BIT)
           [getByte (\<lambda>v m. m\<lparr>reportSignals_turnSignal := v\<rparr>) buffer off n],
         whenS (\<lambda>(i, m). jausByteIsBitSet (reportSignals_presenceVector m) JAUS_SIGNALS_PV_HORN_BIT)
           [getByte (\<lambda>v m. m\<lparr>reportSignals_hornStatus := v\<rparr>) buffer off n,
            getByte (\<lambda>v m. m\<lparr>reportSignals_hornPeriodOn := v\<rparr>) buffer off n,
            getByte (\<lambda>v m. m\<lparr>reportSignals_hornPeriodOff := v\<rparr>) buffer off n],
         whenS (\<lambda>(i, m). jausByteIsBitSet (reportSignals_presenceVector m) JAUS_SIGNALS_PV_HEADLIGHTS_BIT)
           [getByte (\<lambda>v m. m\<lparr>reportSignals_headlightsStatus := v\<rparr>) buffer off n,
            getByte (\<lambda>v m. m\<lparr>reportSignals_lightsPeriodOn := v\<rparr>) buffer off n,
            getByte (\<lambda>v m. m\<lparr>reportSignals_lightsPeriodOff := v\<rparr>) buffer off n]] (0, m))
      else Some (False, m))"

definition reportSignals_dataToBuffer ::
    "ReportSignalsMessage \<Rightarrow> bytes \<Rightarrow> nat \<Rightarrow> u32 \<Rightarrow> (nat \<times> bytes) exec" where
  "reportSignals_dataToBuffer m buffer off n =
     (if reportSignals_dataSize m \<le> n then finishW (runStmts
        [putByte (Some (reportSignals_version m)) off n,
         putByte (Some (reportSignals_presenceVector m)) off n,
         whenS (\<lambda>_. jausByteIsBitSet (reportSignals_presenceVector m) JAUS_SIGNALS_PV_TURN_SIGNAL_BIT)
           [putByte (Some (reportSignals_turnSignal m)) off n],
         whenS (\<lambda>_. jausByteIsBitSet (reportSignals_presenceVector m) JAUS_SIGNALS_PV_HORN_BIT)
           [putByte (Some (reportSignals_hornStatus m)) off n,
            putByte (Some (reportSignals_hornPeriodOn m)) off n,
            putByte (Some (reportSignals_hornPeriodOff m)) off n],
         whenS (\<lambda>_. jausByteIsBitSet (reportSignals_presenceVector m) JAUS_SIGNALS_PV_HEADLIGHTS_BIT)
           [putByte (Some (reportSignals_headlightsStatus m)) off n,
            putByte (Some (reportSignals_lightsPeriodOn m)) off n,
            putByte (Some (reportSignals_lightsPeriodOff m)) off n]] (0, buffer))
      else Some (0, buffer))"

definition reportSignalsMessageCreate :: ReportSignalsMessage where
  "reportSignalsMessageCreate =
     (let m = reportSignals_dataInitialize (JausHeader.extend (blankHeader JAUS_REPORT_SIGNALS 9)
        (ReportSignalsMessage.fields 0 0 0 0 0 0 0 0 0))
      in m\<lparr>dataSize := reportSignals_dataSize m\<rparr>)"

definition reportSignalsMessageFromBuffer ::
    "ReportSignalsMessage \<Rightarrow> bytes \<Rightarrow> u32 \<Rightarrow> (bool \<times> ReportSignalsMessage) exec" where
  "reportSignalsMessageFromBuffer =
     messageFromBuffer reportSignals_dataFromBuffer"

definition reportSignalsMessageSize :: "ReportSignalsMessage \<Rightarrow> u32" where
  "reportSignalsMessageSize = messageSize reportSignals_dataSize"

definition reportSignalsMessageToBuffer ::
    "ReportSignalsMessage \<Rightarrow> bytes \<Rightarrow> u32 \<Rightarrow> (bool \<times> ReportSignalsMessage \<times> bytes) exec" where
  "reportSignalsMessageToBuffer =
     messageToBuffer reportSignals_dataSize reportSignals_dataToBuffer"

definition reportSignalsMessageFromJausMessage ::
    "ReportSignalsMessage \<Rightarrow> JausMessage \<Rightarrow> ReportSignalsMessage option exec" where
  "reportSignalsMessageFromJausMessage =
     messageFromJausMessage JAUS_REPORT_SIGNALS reportSignals_dataFromBuffer"

definition reportSignalsMessageToJausMessage ::
    "ReportSignalsMessage \<Rightarrow> JausMessage exec" where
  "reportSignalsMessageToJausMessage =
     messageToJausMessage reportSignals_dataSize reportSignals_dataToBuffer"

definition reportSignals_enc :: "ReportSignalsMessage \<Rightarrow> bytes" where
  "reportSignals_enc m =
     [reportSignals_version m] @
     [reportSignals_presenceVector m] @
     (if bit (reportSignals_presenceVector m) (nat JAUS_SIGNALS_PV_TURN_SIGNAL_BIT) then [reportSignals_turnSignal m] else []) @
     (if bit (reportSignals_presenceVector m) (nat JAUS_SIGNALS_PV_HORN_BIT) then [reportSignals_hornStatus m] @ [reportSignals_hornPeriodOn m] @ [reportSignals_hornPeriodOff m] else []) @
     (if bit (reportSignals_presenceVector m) (nat JAUS_SIGNALS_PV_HEADLIGHTS_BIT) then [reportSignals_headlightsStatus m] @ [reportSignals_lightsPeriodOn m] @ [reportSignals_lightsPeriodOff m] else [])"

definition reportSignals_withData :: "ReportSignalsMessage \<Rightarrow> ReportSignalsMessage \<Rightarrow> ReportSignalsMessage" where
  "reportSignals_withData m0 m =
     onlyIf (bit (reportSignals_presenceVector m) (nat JAUS_SIGNALS_PV_HEADLIGHTS_BIT))
       (\<lambda>x. x\<lparr>reportSignals_headlightsStatus := reportSignals_headlightsStatus m, reportSignals_lightsPeriodOn := reportSignals_lightsPeriodOn m, reportSignals_lightsPeriodOff := reportSignals_lightsPeriodOff m\<rparr>)
       (onlyIf (bit (reportSignals_presenceVector m) (nat JAUS_SIGNALS_PV_HORN_BIT))
       (\<lambda>x. x\<lparr>reportSignals_hornStatus := reportSignals_hornStatus m, reportSignals_hornPeriodOn := reportSignals_hornPeriodOn m, reportSignals_hornPeriodOff := reportSignals_hornPeriodOff m\<rparr>)
       (onlyIf (bit (reportSignals_presenceVector m) (nat JAUS_SIGNALS_PV_TURN_SIGNAL_BIT))
       (\<lambda>x. x\<lparr>reportSignals_turnSignal := reportSignals_turnSignal m\<rparr>)
       (m0\<lparr>reportSignals_version := reportSignals_version m,
        reportSignals_presenceVector := reportSignals_presenceVector m\<rparr>)))"

lemma reportSignals_size: "reportSignals_dataSize m = of_nat (length (reportSignals_enc m))"
  by (simp add: reportSignals_dataSize_def reportSignals_enc_def codec_simps length_if of_nat_if)

lemma reportSignals_small: "length (reportSignals_enc m) < 4096"
  unfolding reportSignals_enc_def by (rule enc_small, (rule length_bounds)+, simp)

lemma reportSignals_to:
  assumes "off + length (reportSignals_enc m) \<le> length buf" "length (reportSignals_enc m) \<le> unat n"
  shows "reportSignals_dataToBuffer m buf off n =
    Some (length (reportSignals_enc m), take off buf @ reportSignals_enc m @ drop (off + length (reportSignals_enc m)) buf)"
  unfolding reportSignals_dataToBuffer_def
  by (rule to_lawI [OF _ reportSignals_size assms], unfold reportSignals_enc_def,
      (rule writes_intros refl | rule writes_Cons | (rule FromDouble_total, simp)
        | simp add: codec_simps)+)

lemma reportSignals_from:
  assumes "dataSize m0 = reportSignals_dataSize m"
  shows "reportSignals_dataFromBuffer m0 (pre @ reportSignals_enc m @ post) (length pre) (reportSignals_dataSize m) = Some (True, reportSignals_withData m0 m)"
proof -
  have n: "unat (reportSignals_dataSize m) = length (reportSignals_enc m)"
    using reportSignals_small [of m] by (simp add: reportSignals_size unat_of_nat_lt)
  show ?thesis
    unfolding reportSignals_dataFromBuffer_def reportSignals_withData_def
    by (rule from_lawI [where D = "reportSignals_enc m"], unfold reportSignals_enc_def,
        (rule parses_intros refl n [unfolded reportSignals_enc_def] assms [symmetric] | rule parses_Cons
          | simp add: codec_simps onlyIf_def if_distrib [of reportSignals_presenceVector])+)
qed

interpretation reportSignals: typed_message reportSignals_dataSize reportSignals_dataFromBuffer
  reportSignals_dataToBuffer reportSignals_enc reportSignals_withData
  by unfold_locales (fact reportSignals_size reportSignals_small reportSignals_to reportSignals_from)+

section \<open>ReportVehicleModeMessage\<close>

record ReportVehicleModeMessage = JausHeader +
  reportVehicleMode_version :: u8
  reportVehicleMode_controlMode :: u8
  reportVehicleMode_readyMode :: u8
  reportVehicleMode_safetyMode :: u8
  reportVehicleMode_partialModeOverrides :: u8
  reportVehicleMode_safetyDevices :: u16

definition reportVehicleMode_dataInitialize ::
    "ReportVehicleModeMessage \<Rightarrow> ReportVehicleModeMessage" where
  "reportVehicleMode_dataInitialize m =
     m\<lparr>properties := (properties m)\<lparr>expFlag := 1\<rparr>,
        reportVehicleMode_version := newJausByte 0,
        reportVehicleMode_controlMode := newJausByte 0,
        reportVehicleMode_readyMode := newJausByte 0,
        reportVehicleMode_safetyMode := newJausByte 0,
        reportVehicleMode_partialModeOverrides := newJausByte 0,
        reportVehicleMode_safetyDevices := newJausUnsignedShort 0\<rparr>"

definition reportVehicleMode_dataSize :: "ReportVehicleModeMessage \<Rightarrow> u32" where
  "reportVehicleMode_dataSize m =
     (1 +
      1 +
      1 +
      1 +
      1 +
      2)"

definition reportVehicleMode_dataFromBuffer ::
    "ReportVehicleModeMessage \<Rightarrow> bytes \<Rightarrow> nat \<Rightarrow> u32 \<Rightarrow> (bool \<times> ReportVehicleModeMessage) exec" where
  "reportVehicleMode_dataFromBuffer m buffer off n =
     (if n = dataSize m then finishR (runStmts
        [getByte (\<lambda>v m. m\<lparr>reportVehicleMode_version := v\<rparr>) buffer off n,
         getByte (\<lambda>v m. m\<lparr>reportVehicleMode_controlMode := v\<rparr>) buffer off n,
         getByte (\<lambda>v m. m\<lparr>reportVehicleMode_readyMode := v\<rparr>) buffer off n,
         getByte (\<lambda>v m. m\<lparr>reportVehicleMode_safetyMode := v\<rparr>) buffer off n,
         getByte (\<lambda>v m. m\<lparr>reportVehicleMode_partialModeOverrides := v\<rparr>) buffer off n,
         getUShort (\<lambda>v m. m\<lparr>reportVehicleMode_safetyDevices := v\<rparr>) buffer off n] (0, m))
      else Some (False, m))"

definition reportVehicleMode_dataToBuffer ::
    "ReportVehicleModeMessage \<Rightarrow> bytes \<Rightarrow> nat \<Rightarrow> u32 \<Rightarrow> (nat \<times> bytes) exec" where
  "reportVehicleMode_dataToBuffer m buffer off n =
     (if reportVehicleMode_dataSize m \<le> n then finishW (runStmts
        [putByte (Some (reportVehicleMode_version m)) off n,
         putByte (Some (reportVehicleMode_controlMode m)) off n,
         putByte (Some (reportVehicleMode_readyMode m)) off n,
         putByte (Some (reportVehicleMode_safetyMode m)) off n,
         putByte (Some (reportVehicleMode_partialModeOverrides m)) off n,
         putUShort (Some (reportVehicleMode_safetyDevices m)) off n] (0, buffer))
      else Some (0, buffer))"

definition reportVehicleModeMessageCreate :: ReportVehicleModeMessage where
  "reportVehicleModeMessageCreate =
     (let m = reportVehicleMode_dataInitialize (JausHeader.extend (blankHeader JAUS_REPORT_VEHICLE_MODE 7)
        (ReportVehicleModeMessage.fields 0 0 0 0 0 0))
      in m\<lparr>dataSize := reportVehicleMode_dataSize m\<rparr>)"

definition reportVehicleModeMessageFromBuffer ::
    "ReportVehicleModeMessage \<Rightarrow> bytes \<Rightarrow> u32 \<Rightarrow> (bool \<times> ReportVehicleModeMessage) exec" where
  "reportVehicleModeMessageFromBuffer =
     messageFromBuffer reportVehicleMode_dataFromBuffer"

definition reportVehicleModeMessageSize :: "ReportVehicleModeMessage \<Rightarrow> u32" where
  "reportVehicleModeMessageSize = messageSize reportVehicleMode_dataSize"

definition reportVehicleModeMessageToBuffer ::
    "ReportVehicleModeMessage \<Rightarrow> bytes \<Rightarrow> u32 \<Rightarrow> (bool \<times> ReportVehicleModeMessage \<times> bytes) exec" where
  "reportVehicleModeMessageToBuffer =
     messageToBuffer reportVehicleMode_dataSize reportVehicleMode_dataToBuffer"

definition reportVehicleModeMessageFromJausMessage ::
    "ReportVehicleModeMessage \<Rightarrow> JausMessage \<Rightarrow> ReportVehicleModeMessage option exec" where
  "reportVehicleModeMessageFromJausMessage =
     messageFromJausMessage JAUS_REPORT_VEHICLE_MODE reportVehicleMode_dataFromBuffer"

definition reportVehicleModeMessageToJausMessage ::
    "ReportVehicleModeMessage \<Rightarrow> JausMessage exec" where
  "reportVehicleModeMessageToJausMessage =
     messageToJausMessage reportVehicleMode_dataSize reportVehicleMode_dataToBuffer"

definition reportVehicleMode_enc :: "ReportVehicleModeMessage \<Rightarrow> bytes" where
  "reportVehicleMode_enc m =
     [reportVehicleMode_version m] @
     [reportVehicleMode_controlMode m] @
     [reportVehicleMode_readyMode m] @
     [reportVehicleMode_safetyMode m] @
     [reportVehicleMode_partialModeOverrides m] @
     bytesOfWord 2 (reportVehicleMode_safetyDevices m)"

definition reportVehicleMode_withData :: "ReportVehicleModeMessage \<Rightarrow> ReportVehicleModeMessage \<Rightarrow> ReportVehicleModeMessage" where
  "reportVehicleMode_withData m0 m =
     m0\<lparr>reportVehicleMode_version := reportVehicleMode_version m,
        reportVehicleMode_controlMode := reportVehicleMode_controlMode m,
        reportVehicleMode_readyMode := reportVehicleMode_readyMode m,
        reportVehicleMode_safetyMode := reportVehicleMode_safetyMode m,
        reportVehicleMode_partialModeOverrides := reportVehicleMode_partialModeOverrides m,
        reportVehicleMode_safetyDevices := reportVehicleMode_safetyDevices m\<rparr>"

lemma reportVehicleMode_size: "reportVehicleMode_dataSize m = of_nat (length (reportVehicleMode_enc m))"
  by (simp add: reportVehicleMode_dataSize_def reportVehicleMode_enc_def)

lemma reportVehicleMode_small: "length (reportVehicleMode_enc m) < 4096"
  unfolding reportVehicleMode_enc_def by (rule enc_small, (rule length_bounds)+, simp)

lemma reportVehicleMode_to:
  assumes "off + length (reportVehicleMode_enc m) \<le> length buf" "length (reportVehicleMode_enc m) \<le> unat n"
  shows "reportVehicleMode_dataToBuffer m buf off n =
    Some (length (reportVehicleMode_enc m), take off buf @ reportVehicleMode_enc m @ drop (off + length (reportVehicleMode_enc m)) buf)"
  unfolding reportVehicleMode_dataToBuffer_def
  by (rule to_lawI [OF _ reportVehicleMode_size assms], unfold reportVehicleMode_enc_def,
      (rule writes_intros refl | rule writes_Cons | (rule FromDouble_total, simp)
        | simp add: codec_simps)+)

lemma reportVehicleMode_from:
  assumes "dataSize m0 = reportVehicleMode_dataSize m"
  shows "reportVehicleMode_dataFromBuffer m0 (pre @ reportVehicleMode_enc m @ post) (length pre) (reportVehicleMode_dataSize m) = Some (True, reportVehicleMode_withData m0 m)"
proof -
  have n: "unat (reportVehicleMode_dataSize m) = length (reportVehicleMode_enc m)"
    using reportVehicleMode_small [of m] by (simp add: reportVehicleMode_size unat_of_nat_lt)
  show ?thesis
    unfolding reportVehicleMode_dataFromBuffer_def reportVehicleMode_withData_def
    by (rule from_lawI [where D = "reportVehicleMode_enc m"], unfold reportVehicleMode_enc_def,
        (rule parses_intros refl n [unfolded reportVehicleMode_enc_def] assms [symmetric] | rule parses_Cons
          | simp add: codec_simps)+)
qed

interpretation reportVehicleMode: typed_message reportVehicleMode_dataSize reportVehicleMode_dataFromBuffer
  reportVehicleMode_dataToBuffer reportVehicleMode_enc reportVehicleMode_withData
  by unfold_locales (fact reportVehicleMode_size reportVehicleMode_small reportVehicleMode_to reportVehicleMode_from)+

end
