(* ===== verification/WireMessages.thy ===== *)
theory WireMessages
  imports CoreMessages PlatformMessages SubsystemMessages QueryMessages XgvMessages
begin

text \<open>
  What the typed messages promise together: whatever one component puts into the fields of a message, the other one
  reads out of it. The contract is stated once over the routines of a message file and holds for every message of
  the theories \<open>CoreMessages\<close>, \<open>PlatformMessages\<close>, \<open>SubsystemMessages\<close>, \<open>QueryMessages\<close> and \<open>XgvMessages\<close>
  through its interpretation of the locale \<open>typed_message\<close>.
\<close>

text \<open>
  \<open>carries to from code size withData\<close>: a message with the code of its kind is packed into a generic message,
  and unpacking that into an object with arbitrary contents \<open>junk\<close> succeeds and yields the header of the
  sender, with the true size of the data, and the data fields \<open>withData\<close> gives: those of the sender, after scaling
  to the integers of the wire and without the fields whose presence bit is not set. \<open>carriesBytes\<close> says the same of the
  routines that write to a buffer of the message's size, \<open>carriesSized\<close> when the size field of the message is
  right already, as the constructor leaves it.
\<close>

definition carries ::
    "('a JausHeader_scheme \<Rightarrow> JausMessage exec) \<Rightarrow> ('a JausHeader_scheme \<Rightarrow> JausMessage \<Rightarrow> 'a JausHeader_scheme option exec) \<Rightarrow>
     u16 \<Rightarrow> ('a JausHeader_scheme \<Rightarrow> u32) \<Rightarrow> ('a JausHeader_scheme \<Rightarrow> 'a JausHeader_scheme \<Rightarrow> 'a JausHeader_scheme) \<Rightarrow> bool" where
  "carries pack unpack code dSize withData \<longleftrightarrow>
     (\<forall>m junk. commandCode m = code \<longrightarrow>
        (\<exists>jm. pack m = Some jm \<and> commandCode jm = code \<and>
              unpack junk jm = Some (Some (withData (copyHeader (m\<lparr>dataSize := dSize m\<rparr>) junk) m))))"

definition carriesBytes ::
    "('a JausHeader_scheme \<Rightarrow> bytes \<Rightarrow> u32 \<Rightarrow> (bool \<times> 'a JausHeader_scheme \<times> bytes) exec) \<Rightarrow>
     ('a JausHeader_scheme \<Rightarrow> bytes \<Rightarrow> u32 \<Rightarrow> (bool \<times> 'a JausHeader_scheme) exec) \<Rightarrow> ('a JausHeader_scheme \<Rightarrow> u32) \<Rightarrow>
     ('a JausHeader_scheme \<Rightarrow> u32) \<Rightarrow> ('a JausHeader_scheme \<Rightarrow> 'a JausHeader_scheme \<Rightarrow> 'a JausHeader_scheme) \<Rightarrow> bool" where
  "carriesBytes write parse whole dSize withData \<longleftrightarrow>
     (\<forall>m junk. dataFlag m < 0x10 \<longrightarrow>
        (\<exists>buf. write m (replicate (unat (whole m)) 0) (whole m) = Some (True, m\<lparr>dataSize := dSize m\<rparr>, buf) \<and>
               parse junk buf (whole m) = Some (True, withData (copyHeader (m\<lparr>dataSize := dSize m\<rparr>) junk) m)))"

definition carriesSized ::
    "('a JausHeader_scheme \<Rightarrow> bytes \<Rightarrow> u32 \<Rightarrow> (bool \<times> 'a JausHeader_scheme \<times> bytes) exec) \<Rightarrow>
     ('a JausHeader_scheme \<Rightarrow> bytes \<Rightarrow> u32 \<Rightarrow> (bool \<times> 'a JausHeader_scheme) exec) \<Rightarrow> ('a JausHeader_scheme \<Rightarrow> u32) \<Rightarrow>
     ('a JausHeader_scheme \<Rightarrow> u32) \<Rightarrow> ('a JausHeader_scheme \<Rightarrow> 'a JausHeader_scheme \<Rightarrow> 'a JausHeader_scheme) \<Rightarrow> bool" where
  "carriesSized write parse whole dSize withData \<longleftrightarrow>
     (\<forall>m junk. dataFlag m < 0x10 \<longrightarrow> dataSize m = dSize m \<longrightarrow>
        (\<exists>buf. write m (replicate (unat (whole m)) 0) (whole m) = Some (True, m, buf) \<and>
               parse junk buf (whole m) = Some (True, withData (copyHeader m junk) m)))"

context typed_message
begin

lemma carried: "carries (messageToJausMessage dSize dataTo) (messageFromJausMessage code dataFrom) code dSize withData"
  using jaus_roundtrip unfolding carries_def by blast

lemma carriedBytes: "carriesBytes (messageToBuffer dSize dataTo) (messageFromBuffer dataFrom) (messageSize dSize) dSize withData"
  unfolding carriesBytes_def
proof (intro allI impI)
  fix m junk :: "'a JausHeader_scheme" assume flag: "dataFlag m < 0x10"
  have "unat (messageSize dSize m) = unat (dSize m) + 16"
    using size_bound [of m] by (simp add: messageSize_def unat_word_ariths)
  from buffer_roundtrip [OF flag this, of "replicate (unat (messageSize dSize m)) 0" junk]
  show "\<exists>buf. messageToBuffer dSize dataTo m (replicate (unat (messageSize dSize m)) 0) (messageSize dSize m) =
          Some (True, m\<lparr>dataSize := dSize m\<rparr>, buf) \<and>
        messageFromBuffer dataFrom junk buf (messageSize dSize m) =
          Some (True, withData (copyHeader (m\<lparr>dataSize := dSize m\<rparr>) junk) m)"
    by auto
qed

end

text \<open>Writing the header first makes no difference when the size is right.\<close>

lemma header_first_sized:
  assumes "dataSize m = 0"
  shows "messageToBufferHeaderFirst noData_dataSize noData_dataToBuffer m buf n = messageToBuffer noData_dataSize noData_dataToBuffer m buf n"
proof -
  have "m\<lparr>dataSize := 0\<rparr> = m" using assms by simp
  then show ?thesis
    by (cases "headerToBuffer m buf 0 n")
      (auto simp: messageToBufferHeaderFirst_def messageToBuffer_def noData_dataToBuffer_def noData_dataSize_def Let_def)
qed

lemma noData_sized: "carriesSized (messageToBufferHeaderFirst noData_dataSize noData_dataToBuffer)
    (messageFromBuffer noData_dataFromBuffer) (messageSize noData_dataSize) noData_dataSize (\<lambda>m0 m. m0)"
  unfolding carriesSized_def
proof (intro allI impI)
  fix m junk :: JausHeader assume m: "dataFlag m < 0x10" "dataSize m = noData_dataSize m"
  then have "dataSize m = 0" "m\<lparr>dataSize := noData_dataSize m\<rparr> = m" by (simp_all add: noData_dataSize_def)
  then show "\<exists>buf. messageToBufferHeaderFirst noData_dataSize noData_dataToBuffer m (replicate (unat (messageSize noData_dataSize m)) 0)
          (messageSize noData_dataSize m) = Some (True, m, buf) \<and>
        messageFromBuffer noData_dataFromBuffer junk buf (messageSize noData_dataSize m) = Some (True, copyHeader m junk)"
    using spec [OF spec [OF noData.carriedBytes [unfolded carriesBytes_def], of m], of junk] m(1) by (simp add: header_first_sized)
qed

section \<open>Properties\<close>

text \<open>
  C18. The 101 typed messages of the library arrive as they were sent: for each of them, whatever its fields hold, packing it into
  a generic message and unpacking that in the receiver succeeds and gives the header of the sender and the data fields of its \<open>withData\<close>:
  a field that is sent as an integer or as bytes is the sender's, one that is scaled is the sender's after quantisation (for an unsigned short at most half a step from
  the limited value, \<open>scaled_quantisation_error\<close>), and an optional field that is not present stays
  what the receiver's object had. The same holds for writing to and parsing from
  a buffer of the message's size, for 98 of the messages whatever their size field held (\<open>carriesBytes\<close>). The other 3, the queries for services, for
  the list of subsystems and for the payload interface, write their header before they update the size; for them it holds
  when the size field is right already (\<open>carriesSized\<close>).
\<close>

theorem typed_messages_roundtrip:
  "carries activateServiceConnectionMessageToJausMessage activateServiceConnectionMessageFromJausMessage JAUS_ACTIVATE_SERVICE_CONNECTION activateServiceConnection_dataSize activateServiceConnection_withData \<and>
   carriesBytes activateServiceConnectionMessageToBuffer activateServiceConnectionMessageFromBuffer activateServiceConnectionMessageSize activateServiceConnection_dataSize activateServiceConnection_withData \<and>
   carries confirmComponentControlMessageToJausMessage confirmComponentControlMessageFromJausMessage JAUS_CONFIRM_COMPONENT_CONTROL confirmComponentControl_dataSize confirmComponentControl_withData \<and>
   carriesBytes confirmComponentControlMessageToBuffer confirmComponentControlMessageFromBuffer confirmComponentControlMessageSize confirmComponentControl_dataSize confirmComponentControl_withData \<and>
   carries confirmServiceConnectionMessageToJausMessage confirmServiceConnectionMessageFromJausMessage JAUS_CONFIRM_SERVICE_CONNECTION confirmServiceConnection_dataSize confirmServiceConnection_withData \<and>
   carriesBytes confirmServiceConnectionMessageToBuffer confirmServiceConnectionMessageFromBuffer confirmServiceConnectionMessageSize confirmServiceConnection_dataSize confirmServiceConnection_withData \<and>
   carries createServiceConnectionMessageToJausMessage createServiceConnectionMessageFromJausMessage JAUS_CREATE_SERVICE_CONNECTION createServiceConnection_dataSize createServiceConnection_withData \<and>
   carriesBytes createServiceConnectionMessageToBuffer createServiceConnectionMessageFromBuffer createServiceConnectionMessageSize createServiceConnection_dataSize createServiceConnection_withData \<and>
   carries rejectComponentControlMessageToJausMessage rejectComponentControlMessageFromJausMessage JAUS_REJECT_COMPONENT_CONTROL noData_dataSize (\<lambda>m0 m. m0) \<and>
   carriesBytes rejectComponentControlMessageToBuffer rejectComponentControlMessageFromBuffer rejectComponentControlMessageSize noData_dataSize (\<lambda>m0 m. m0) \<and>
   carries releaseComponentControlMessageToJausMessage releaseComponentControlMessageFromJausMessage JAUS_RELEASE_COMPONENT_CONTROL noData_dataSize (\<lambda>m0 m. m0) \<and>
   carriesBytes releaseComponentControlMessageToBuffer releaseComponentControlMessageFromBuffer releaseComponentControlMessageSize noData_dataSize (\<lambda>m0 m. m0) \<and>
   carries requestComponentControlMessageToJausMessage requestComponentControlMessageFromJausMessage JAUS_REQUEST_COMPONENT_CONTROL requestComponentControl_dataSize requestComponentControl_withData \<and>
   carriesBytes requestComponentControlMessageToBuffer requestComponentControlMessageFromBuffer requestComponentControlMessageSize requestComponentControl_dataSize requestComponentControl_withData \<and>
   carries setComponentAuthorityMessageToJausMessage setComponentAuthorityMessageFromJausMessage JAUS_SET_COMPONENT_AUTHORITY setComponentAuthority_dataSize setComponentAuthority_withData \<and>
   carriesBytes setComponentAuthorityMessageToBuffer setComponentAuthorityMessageFromBuffer setComponentAuthorityMessageSize setComponentAuthority_dataSize setComponentAuthority_withData \<and>
   carries suspendServiceConnectionMessageToJausMessage suspendServiceConnectionMessageFromJausMessage JAUS_SUSPEND_SERVICE_CONNECTION suspendServiceConnection_dataSize suspendServiceConnection_withData \<and>
   carriesBytes suspendServiceConnectionMessageToBuffer suspendServiceConnectionMessageFromBuffer suspendServiceConnectionMessageSize suspendServiceConnection_dataSize suspendServiceConnection_withData \<and>
   carries terminateServiceConnectionMessageToJausMessage terminateServiceConnectionMessageFromJausMessage JAUS_TERMINATE_SERVICE_CONNECTION terminateServiceConnection_dataSize terminateServiceConnection_withData \<and>
   carriesBytes terminateServiceConnectionMessageToBuffer terminateServiceConnectionMessageFromBuffer terminateServiceConnectionMessageSize terminateServiceConnection_dataSize terminateServiceConnection_withData \<and>
   carries reportComponentAuthorityMessageToJausMessage reportComponentAuthorityMessageFromJausMessage JAUS_REPORT_COMPONENT_AUTHORITY reportComponentAuthority_dataSize reportComponentAuthority_withData \<and>
   carriesBytes reportComponentAuthorityMessageToBuffer reportComponentAuthorityMessageFromBuffer reportComponentAuthorityMessageSize reportComponentAuthority_dataSize reportComponentAuthority_withData \<and>
   carries reportComponentControlMessageToJausMessage reportComponentControlMessageFromJausMessage JAUS_REPORT_COMPONENT_CONTROL reportComponentControl_dataSize reportComponentControl_withData \<and>
   carriesBytes reportComponentControlMessageToBuffer reportComponentControlMessageFromBuffer reportComponentControlMessageSize reportComponentControl_dataSize reportComponentControl_withData \<and>
   carries reportComponentStatusMessageToJausMessage reportComponentStatusMessageFromJausMessage JAUS_REPORT_COMPONENT_STATUS reportComponentStatus_dataSize reportComponentStatus_withData \<and>
   carriesBytes reportComponentStatusMessageToBuffer reportComponentStatusMessageFromBuffer reportComponentStatusMessageSize reportComponentStatus_dataSize reportComponentStatus_withData \<and>
   carries queryComponentAuthorityMessageToJausMessage queryComponentAuthorityMessageFromJausMessage JAUS_QUERY_COMPONENT_AUTHORITY noData_dataSize (\<lambda>m0 m. m0) \<and>
   carriesBytes queryComponentAuthorityMessageToBuffer queryComponentAuthorityMessageFromBuffer queryComponentAuthorityMessageSize noData_dataSize (\<lambda>m0 m. m0) \<and>
   carries queryComponentControlMessageToJausMessage queryComponentControlMessageFromJausMessage JAUS_QUERY_COMPONENT_CONTROL noData_dataSize (\<lambda>m0 m. m0) \<and>
   carriesBytes queryComponentControlMessageToBuffer queryComponentControlMessageFromBuffer queryComponentControlMessageSize noData_dataSize (\<lambda>m0 m. m0) \<and>
   carries queryComponentStatusMessageToJausMessage queryComponentStatusMessageFromJausMessage JAUS_QUERY_COMPONENT_STATUS noData_dataSize (\<lambda>m0 m. m0) \<and>
   carriesBytes queryComponentStatusMessageToBuffer queryComponentStatusMessageFromBuffer queryComponentStatusMessageSize noData_dataSize (\<lambda>m0 m. m0) \<and>
   carries queryTimeMessageToJausMessage queryTimeMessageFromJausMessage JAUS_QUERY_TIME queryTime_dataSize queryTime_withData \<and>
   carriesBytes queryTimeMessageToBuffer queryTimeMessageFromBuffer queryTimeMessageSize queryTime_dataSize queryTime_withData \<and>
   carries setGlobalPathSegmentMessageToJausMessage setGlobalPathSegmentMessageFromJausMessage JAUS_SET_GLOBAL_PATH_SEGMENT setGlobalPathSegment_dataSize setGlobalPathSegment_withData \<and>
   carriesBytes setGlobalPathSegmentMessageToBuffer setGlobalPathSegmentMessageFromBuffer setGlobalPathSegmentMessageSize setGlobalPathSegment_dataSize setGlobalPathSegment_withData \<and>
   carries setGlobalVectorMessageToJausMessage setGlobalVectorMessageFromJausMessage JAUS_SET_GLOBAL_VECTOR setGlobalVector_dataSize setGlobalVector_withData \<and>
   carriesBytes setGlobalVectorMessageToBuffer setGlobalVectorMessageFromBuffer setGlobalVectorMessageSize setGlobalVector_dataSize setGlobalVector_withData \<and>
   carries setGlobalWaypointMessageToJausMessage setGlobalWaypointMessageFromJausMessage JAUS_SET_GLOBAL_WAYPOINT setGlobalWaypoint_dataSize setGlobalWaypoint_withData \<and>
   carriesBytes setGlobalWaypointMessageToBuffer setGlobalWaypointMessageFromBuffer setGlobalWaypointMessageSize setGlobalWaypoint_dataSize setGlobalWaypoint_withData \<and>
   carries setLocalPathSegmentMessageToJausMessage setLocalPathSegmentMessageFromJausMessage JAUS_SET_LOCAL_PATH_SEGMENT setLocalPathSegment_dataSize setLocalPathSegment_withData \<and>
   carriesBytes setLocalPathSegmentMessageToBuffer setLocalPathSegmentMessageFromBuffer setLocalPathSegmentMessageSize setLocalPathSegment_dataSize setLocalPathSegment_withData \<and>
   carries setLocalVectorMessageToJausMessage setLocalVectorMessageFromJausMessage JAUS_SET_LOCAL_VECTOR setLocalVector_dataSize setLocalVector_withData \<and>
   carriesBytes setLocalVectorMessageToBuffer setLocalVectorMessageFromBuffer setLocalVectorMessageSize setLocalVector_dataSize setLocalVector_withData \<and>
   carries setLocalWaypointMessageToJausMessage setLocalWaypointMessageFromJausMessage JAUS_SET_LOCAL_WAYPOINT setLocalWaypoint_dataSize setLocalWaypoint_withData \<and>
   carriesBytes setLocalWaypointMessageToBuffer setLocalWaypointMessageFromBuffer setLocalWaypointMessageSize setLocalWaypoint_dataSize setLocalWaypoint_withData \<and>
   carries setTravelSpeedMessageToJausMessage setTravelSpeedMessageFromJausMessage JAUS_SET_TRAVEL_SPEED setTravelSpeed_dataSize setTravelSpeed_withData \<and>
   carriesBytes setTravelSpeedMessageToBuffer setTravelSpeedMessageFromBuffer setTravelSpeedMessageSize setTravelSpeed_dataSize setTravelSpeed_withData \<and>
   carries setVelocityStateMessageToJausMessage setVelocityStateMessageFromJausMessage JAUS_SET_VELOCITY_STATE setVelocityState_dataSize setVelocityState_withData \<and>
   carriesBytes setVelocityStateMessageToBuffer setVelocityStateMessageFromBuffer setVelocityStateMessageSize setVelocityState_dataSize setVelocityState_withData \<and>
   carries setWrenchEffortMessageToJausMessage setWrenchEffortMessageFromJausMessage JAUS_SET_WRENCH_EFFORT setWrenchEffort_dataSize setWrenchEffort_withData \<and>
   carriesBytes setWrenchEffortMessageToBuffer setWrenchEffortMessageFromBuffer setWrenchEffortMessageSize setWrenchEffort_dataSize setWrenchEffort_withData \<and>
   carries reportGlobalPathSegmentMessageToJausMessage reportGlobalPathSegmentMessageFromJausMessage JAUS_REPORT_GLOBAL_PATH_SEGMENT reportGlobalPathSegment_dataSize reportGlobalPathSegment_withData \<and>
   carriesBytes reportGlobalPathSegmentMessageToBuffer reportGlobalPathSegmentMessageFromBuffer reportGlobalPathSegmentMessageSize reportGlobalPathSegment_dataSize reportGlobalPathSegment_withData \<and>
   carries reportGlobalVectorMessageToJausMessage reportGlobalVectorMessageFromJausMessage JAUS_REPORT_GLOBAL_VECTOR reportGlobalVector_dataSize reportGlobalVector_withData \<and>
   carriesBytes reportGlobalVectorMessageToBuffer reportGlobalVectorMessageFromBuffer reportGlobalVectorMessageSize reportGlobalVector_dataSize reportGlobalVector_withData \<and>
   carries reportGlobalWaypointMessageToJausMessage reportGlobalWaypointMessageFromJausMessage JAUS_REPORT_GLOBAL_WAYPOINT reportGlobalWaypoint_dataSize reportGlobalWaypoint_withData \<and>
   carriesBytes reportGlobalWaypointMessageToBuffer reportGlobalWaypointMessageFromBuffer reportGlobalWaypointMessageSize reportGlobalWaypoint_dataSize reportGlobalWaypoint_withData \<and>
   carries reportLocalPathSegmentMessageToJausMessage reportLocalPathSegmentMessageFromJausMessage JAUS_REPORT_LOCAL_PATH_SEGMENT reportLocalPathSegment_dataSize reportLocalPathSegment_withData \<and>
   carriesBytes reportLocalPathSegmentMessageToBuffer reportLocalPathSegmentMessageFromBuffer reportLocalPathSegmentMessageSize reportLocalPathSegment_dataSize reportLocalPathSegment_withData \<and>
   carries reportLocalVectorMessageToJausMessage reportLocalVectorMessageFromJausMessage JAUS_REPORT_LOCAL_VECTOR reportLocalVector_dataSize reportLocalVector_withData \<and>
   carriesBytes reportLocalVectorMessageToBuffer reportLocalVectorMessageFromBuffer reportLocalVectorMessageSize reportLocalVector_dataSize reportLocalVector_withData \<and>
   carries reportLocalWaypointMessageToJausMessage reportLocalWaypointMessageFromJausMessage JAUS_REPORT_LOCAL_WAYPOINT reportLocalWaypoint_dataSize reportLocalWaypoint_withData \<and>
   carriesBytes reportLocalWaypointMessageToBuffer reportLocalWaypointMessageFromBuffer reportLocalWaypointMessageSize reportLocalWaypoint_dataSize reportLocalWaypoint_withData \<and>
   carries reportPathSegmentCountMessageToJausMessage reportPathSegmentCountMessageFromJausMessage JAUS_REPORT_PATH_SEGMENT_COUNT reportPathSegmentCount_dataSize reportPathSegmentCount_withData \<and>
   carriesBytes reportPathSegmentCountMessageToBuffer reportPathSegmentCountMessageFromBuffer reportPathSegmentCountMessageSize reportPathSegmentCount_dataSize reportPathSegmentCount_withData \<and>
   carries reportPlatformOperationalDataMessageToJausMessage reportPlatformOperationalDataMessageFromJausMessage JAUS_REPORT_PLATFORM_OPERATIONAL_DATA reportPlatformOperationalData_dataSize reportPlatformOperationalData_withData \<and>
   carriesBytes reportPlatformOperationalDataMessageToBuffer reportPlatformOperationalDataMessageFromBuffer reportPlatformOperationalDataMessageSize reportPlatformOperationalData_dataSize reportPlatformOperationalData_withData \<and>
   carries reportTravelSpeedMessageToJausMessage reportTravelSpeedMessageFromJausMessage JAUS_REPORT_TRAVEL_SPEED reportTravelSpeed_dataSize reportTravelSpeed_withData \<and>
   carriesBytes reportTravelSpeedMessageToBuffer reportTravelSpeedMessageFromBuffer reportTravelSpeedMessageSize reportTravelSpeed_dataSize reportTravelSpeed_withData \<and>
   carries reportWaypointCountMessageToJausMessage reportWaypointCountMessageFromJausMessage JAUS_REPORT_WAYPOINT_COUNT reportWaypointCount_dataSize reportWaypointCount_withData \<and>
   carriesBytes reportWaypointCountMessageToBuffer reportWaypointCountMessageFromBuffer reportWaypointCountMessageSize reportWaypointCount_dataSize reportWaypointCount_withData \<and>
   carries reportWrenchEffortMessageToJausMessage reportWrenchEffortMessageFromJausMessage JAUS_REPORT_WRENCH_EFFORT reportWrenchEffort_dataSize reportWrenchEffort_withData \<and>
   carriesBytes reportWrenchEffortMessageToBuffer reportWrenchEffortMessageFromBuffer reportWrenchEffortMessageSize reportWrenchEffort_dataSize reportWrenchEffort_withData \<and>
   carries setDataLinkSelectMessageToJausMessage setDataLinkSelectMessageFromJausMessage JAUS_SET_DATA_LINK_SELECT setDataLinkSelect_dataSize setDataLinkSelect_withData \<and>
   carriesBytes setDataLinkSelectMessageToBuffer setDataLinkSelectMessageFromBuffer setDataLinkSelectMessageSize setDataLinkSelect_dataSize setDataLinkSelect_withData \<and>
   carries setSelectedDataLinkStateMessageToJausMessage setSelectedDataLinkStateMessageFromJausMessage JAUS_SET_SELECTED_DATA_LINK_STATE setSelectedDataLinkState_dataSize setSelectedDataLinkState_withData \<and>
   carriesBytes setSelectedDataLinkStateMessageToBuffer setSelectedDataLinkStateMessageFromBuffer setSelectedDataLinkStateMessageSize setSelectedDataLinkState_dataSize setSelectedDataLinkState_withData \<and>
   carries selectCameraMessageToJausMessage selectCameraMessageFromJausMessage JAUS_SELECT_CAMERA selectCamera_dataSize selectCamera_withData \<and>
   carriesBytes selectCameraMessageToBuffer selectCameraMessageFromBuffer selectCameraMessageSize selectCamera_dataSize selectCamera_withData \<and>
   carries setCameraFormatOptionsMessageToJausMessage setCameraFormatOptionsMessageFromJausMessage JAUS_SET_CAMERA_FORMAT_OPTIONS setCameraFormatOptions_dataSize setCameraFormatOptions_withData \<and>
   carriesBytes setCameraFormatOptionsMessageToBuffer setCameraFormatOptionsMessageFromBuffer setCameraFormatOptionsMessageSize setCameraFormatOptions_dataSize setCameraFormatOptions_withData \<and>
   carries confirmEventRequestMessageToJausMessage confirmEventRequestMessageFromJausMessage JAUS_CONFIRM_EVENT_REQUEST confirmEventRequest_dataSize confirmEventRequest_withData \<and>
   carriesBytes confirmEventRequestMessageToBuffer confirmEventRequestMessageFromBuffer confirmEventRequestMessageSize confirmEventRequest_dataSize confirmEventRequest_withData \<and>
   carries setEndEffectorPoseMessageToJausMessage setEndEffectorPoseMessageFromJausMessage JAUS_SET_END_EFFECTOR_POSE setEndEffectorPose_dataSize setEndEffectorPose_withData \<and>
   carriesBytes setEndEffectorPoseMessageToBuffer setEndEffectorPoseMessageFromBuffer setEndEffectorPoseMessageSize setEndEffectorPose_dataSize setEndEffectorPose_withData \<and>
   carries setEndEffectorVelocityStateMessageToJausMessage setEndEffectorVelocityStateMessageFromJausMessage JAUS_SET_END_EFFECTOR_VELOCITY_STATE setEndEffectorVelocityState_dataSize setEndEffectorVelocityState_withData \<and>
   carriesBytes setEndEffectorVelocityStateMessageToBuffer setEndEffectorVelocityStateMessageFromBuffer setEndEffectorVelocityStateMessageSize setEndEffectorVelocityState_dataSize setEndEffectorVelocityState_withData \<and>
   carries setToolPointMessageToJausMessage setToolPointMessageFromJausMessage JAUS_SET_TOOL_POINT setToolPoint_dataSize setToolPoint_withData \<and>
   carriesBytes setToolPointMessageToBuffer setToolPointMessageFromBuffer setToolPointMessageSize setToolPoint_dataSize setToolPoint_withData \<and>
   carries abortMissionMessageToJausMessage abortMissionMessageFromJausMessage JAUS_ABORT_MISSION abortMission_dataSize abortMission_withData \<and>
   carriesBytes abortMissionMessageToBuffer abortMissionMessageFromBuffer abortMissionMessageSize abortMission_dataSize abortMission_withData \<and>
   carries pauseMissionMessageToJausMessage pauseMissionMessageFromJausMessage JAUS_PAUSE_MISSION pauseMission_dataSize pauseMission_withData \<and>
   carriesBytes pauseMissionMessageToBuffer pauseMissionMessageFromBuffer pauseMissionMessageSize pauseMission_dataSize pauseMission_withData \<and>
   carries resumeMissionMessageToJausMessage resumeMissionMessageFromJausMessage JAUS_RESUME_MISSION resumeMission_dataSize resumeMission_withData \<and>
   carriesBytes resumeMissionMessageToBuffer resumeMissionMessageFromBuffer resumeMissionMessageSize resumeMission_dataSize resumeMission_withData \<and>
   carries runMissionMessageToJausMessage runMissionMessageFromJausMessage JAUS_RUN_MISSION runMission_dataSize runMission_withData \<and>
   carriesBytes runMissionMessageToBuffer runMissionMessageFromBuffer runMissionMessageSize runMission_dataSize runMission_withData \<and>
   carries terminateVksDataTransferMessageToJausMessage terminateVksDataTransferMessageFromJausMessage JAUS_TERMINATE_VKS_DATA_TRANSFER noData_dataSize (\<lambda>m0 m. m0) \<and>
   carriesBytes terminateVksDataTransferMessageToBuffer terminateVksDataTransferMessageFromBuffer terminateVksDataTransferMessageSize noData_dataSize (\<lambda>m0 m. m0) \<and>
   carries reportDataLinkStatusMessageToJausMessage reportDataLinkStatusMessageFromJausMessage JAUS_REPORT_DATA_LINK_STATUS reportDataLinkStatus_dataSize reportDataLinkStatus_withData \<and>
   carriesBytes reportDataLinkStatusMessageToBuffer reportDataLinkStatusMessageFromBuffer reportDataLinkStatusMessageSize reportDataLinkStatus_dataSize reportDataLinkStatus_withData \<and>
   carries reportSelectedDataLinkStatusMessageToJausMessage reportSelectedDataLinkStatusMessageFromJausMessage JAUS_REPORT_SELECTED_DATA_LINK_STATUS reportSelectedDataLinkStatus_dataSize reportSelectedDataLinkStatus_withData \<and>
   carriesBytes reportSelectedDataLinkStatusMessageToBuffer reportSelectedDataLinkStatusMessageFromBuffer reportSelectedDataLinkStatusMessageSize reportSelectedDataLinkStatus_dataSize reportSelectedDataLinkStatus_withData \<and>
   carries reportCameraCountMessageToJausMessage reportCameraCountMessageFromJausMessage JAUS_REPORT_CAMERA_COUNT reportCameraCount_dataSize reportCameraCount_withData \<and>
   carriesBytes reportCameraCountMessageToBuffer reportCameraCountMessageFromBuffer reportCameraCountMessageSize reportCameraCount_dataSize reportCameraCount_withData \<and>
   carries reportSelectedCameraMessageToJausMessage reportSelectedCameraMessageFromJausMessage JAUS_REPORT_SELECTED_CAMERA reportSelectedCamera_dataSize reportSelectedCamera_withData \<and>
   carriesBytes reportSelectedCameraMessageToBuffer reportSelectedCameraMessageFromBuffer reportSelectedCameraMessageSize reportSelectedCamera_dataSize reportSelectedCamera_withData \<and>
   carries reportToolPointMessageToJausMessage reportToolPointMessageFromJausMessage JAUS_REPORT_TOOL_POINT reportToolPoint_dataSize reportToolPoint_withData \<and>
   carriesBytes reportToolPointMessageToBuffer reportToolPointMessageFromBuffer reportToolPointMessageSize reportToolPoint_dataSize reportToolPoint_withData \<and>
   carries reportSpoolingPreferenceMessageToJausMessage reportSpoolingPreferenceMessageFromJausMessage JAUS_REPORT_SPOOLING_PREFERENCE reportSpoolingPreference_dataSize reportSpoolingPreference_withData \<and>
   carriesBytes reportSpoolingPreferenceMessageToBuffer reportSpoolingPreferenceMessageFromBuffer reportSpoolingPreferenceMessageSize reportSpoolingPreference_dataSize reportSpoolingPreference_withData \<and>
   carries reportVksBoundsMessageToJausMessage reportVksBoundsMessageFromJausMessage JAUS_REPORT_VKS_BOUNDS reportVksBounds_dataSize reportVksBounds_withData \<and>
   carriesBytes reportVksBoundsMessageToBuffer reportVksBoundsMessageFromBuffer reportVksBoundsMessageSize reportVksBounds_dataSize reportVksBounds_withData \<and>
   carries reportVksDataTransferTerminationMessageToJausMessage reportVksDataTransferTerminationMessageFromJausMessage JAUS_REPORT_VKS_DATA_TRANSFER_TERMINATION noData_dataSize (\<lambda>m0 m. m0) \<and>
   carriesBytes reportVksDataTransferTerminationMessageToBuffer reportVksDataTransferTerminationMessageFromBuffer reportVksDataTransferTerminationMessageSize noData_dataSize (\<lambda>m0 m. m0) \<and>
   carries queryDataLinkStatusMessageToJausMessage queryDataLinkStatusMessageFromJausMessage JAUS_QUERY_DATA_LINK_STATUS queryDataLinkStatus_dataSize queryDataLinkStatus_withData \<and>
   carriesBytes queryDataLinkStatusMessageToBuffer queryDataLinkStatusMessageFromBuffer queryDataLinkStatusMessageSize queryDataLinkStatus_dataSize queryDataLinkStatus_withData \<and>
   carries queryHeartbeatPulseMessageToJausMessage queryHeartbeatPulseMessageFromJausMessage JAUS_QUERY_HEARTBEAT_PULSE noData_dataSize (\<lambda>m0 m. m0) \<and>
   carriesBytes queryHeartbeatPulseMessageToBuffer queryHeartbeatPulseMessageFromBuffer queryHeartbeatPulseMessageSize noData_dataSize (\<lambda>m0 m. m0) \<and>
   carries queryConfigurationMessageToJausMessage queryConfigurationMessageFromJausMessage JAUS_QUERY_CONFIGURATION queryConfiguration_dataSize queryConfiguration_withData \<and>
   carriesBytes queryConfigurationMessageToBuffer queryConfigurationMessageFromBuffer queryConfigurationMessageSize queryConfiguration_dataSize queryConfiguration_withData \<and>
   carries queryIdentificationMessageToJausMessage queryIdentificationMessageFromJausMessage JAUS_QUERY_IDENTIFICATION queryIdentification_dataSize queryIdentification_withData \<and>
   carriesBytes queryIdentificationMessageToBuffer queryIdentificationMessageFromBuffer queryIdentificationMessageSize queryIdentification_dataSize queryIdentification_withData \<and>
   carries queryServicesMessageToJausMessage queryServicesMessageFromJausMessage JAUS_QUERY_SERVICES noData_dataSize (\<lambda>m0 m. m0) \<and>
   carriesSized queryServicesMessageToBuffer queryServicesMessageFromBuffer queryServicesMessageSize noData_dataSize (\<lambda>m0 m. m0) \<and>
   carries querySubsystemListMessageToJausMessage querySubsystemListMessageFromJausMessage JAUS_QUERY_SUBSYSTEM_LIST noData_dataSize (\<lambda>m0 m. m0) \<and>
   carriesSized querySubsystemListMessageToBuffer querySubsystemListMessageFromBuffer querySubsystemListMessageSize noData_dataSize (\<lambda>m0 m. m0) \<and>
   carries queryCameraCapabilitiesMessageToJausMessage queryCameraCapabilitiesMessageFromJausMessage JAUS_QUERY_CAMERA_CAPABILITIES queryCameraCapabilities_dataSize queryCameraCapabilities_withData \<and>
   carriesBytes queryCameraCapabilitiesMessageToBuffer queryCameraCapabilitiesMessageFromBuffer queryCameraCapabilitiesMessageSize queryCameraCapabilities_dataSize queryCameraCapabilities_withData \<and>
   carries queryCameraCountMessageToJausMessage queryCameraCountMessageFromJausMessage JAUS_QUERY_CAMERA_COUNT noData_dataSize (\<lambda>m0 m. m0) \<and>
   carriesBytes queryCameraCountMessageToBuffer queryCameraCountMessageFromBuffer queryCameraCountMessageSize noData_dataSize (\<lambda>m0 m. m0) \<and>
   carries queryCameraFormatOptionsMessageToJausMessage queryCameraFormatOptionsMessageFromJausMessage JAUS_QUERY_CAMERA_FORMAT_OPTIONS queryCameraFormatOptions_dataSize queryCameraFormatOptions_withData \<and>
   carriesBytes queryCameraFormatOptionsMessageToBuffer queryCameraFormatOptionsMessageFromBuffer queryCameraFormatOptionsMessageSize queryCameraFormatOptions_dataSize queryCameraFormatOptions_withData \<and>
   carries queryCameraPoseMessageToJausMessage queryCameraPoseMessageFromJausMessage JAUS_QUERY_CAMERA_POSE queryCameraPose_dataSize queryCameraPose_withData \<and>
   carriesBytes queryCameraPoseMessageToBuffer queryCameraPoseMessageFromBuffer queryCameraPoseMessageSize queryCameraPose_dataSize queryCameraPose_withData \<and>
   carries queryImageMessageToJausMessage queryImageMessageFromJausMessage JAUS_QUERY_IMAGE noData_dataSize (\<lambda>m0 m. m0) \<and>
   carriesBytes queryImageMessageToBuffer queryImageMessageFromBuffer queryImageMessageSize noData_dataSize (\<lambda>m0 m. m0) \<and>
   carries queryMapMessageToJausMessage queryMapMessageFromJausMessage JAUS_QUERY_MAP queryMap_dataSize queryMap_withData \<and>
   carriesBytes queryMapMessageToBuffer queryMapMessageFromBuffer queryMapMessageSize queryMap_dataSize queryMap_withData \<and>
   carries queryRelativeObjectPositionMessageToJausMessage queryRelativeObjectPositionMessageFromJausMessage JAUS_QUERY_RELATIVE_OBJECT_POSITION queryRelativeObjectPosition_dataSize queryRelativeObjectPosition_withData \<and>
   carriesBytes queryRelativeObjectPositionMessageToBuffer queryRelativeObjectPositionMessageFromBuffer queryRelativeObjectPositionMessageSize queryRelativeObjectPosition_dataSize queryRelativeObjectPosition_withData \<and>
   carries querySelectedCameraMessageToJausMessage querySelectedCameraMessageFromJausMessage JAUS_QUERY_SELECTED_CAMERA noData_dataSize (\<lambda>m0 m. m0) \<and>
   carriesBytes querySelectedCameraMessageToBuffer querySelectedCameraMessageFromBuffer querySelectedCameraMessageSize noData_dataSize (\<lambda>m0 m. m0) \<and>
   carries queryJointEffortsMessageToJausMessage queryJointEffortsMessageFromJausMessage JAUS_QUERY_JOINT_EFFORTS noData_dataSize (\<lambda>m0 m. m0) \<and>
   carriesBytes queryJointEffortsMessageToBuffer queryJointEffortsMessageFromBuffer queryJointEffortsMessageSize noData_dataSize (\<lambda>m0 m. m0) \<and>
   carries queryJointForceTorquesMessageToJausMessage queryJointForceTorquesMessageFromJausMessage JAUS_QUERY_JOINT_FORCE_TORQUES noData_dataSize (\<lambda>m0 m. m0) \<and>
   carriesBytes queryJointForceTorquesMessageToBuffer queryJointForceTorquesMessageFromBuffer queryJointForceTorquesMessageSize noData_dataSize (\<lambda>m0 m. m0) \<and>
   carries queryJointPositionsMessageToJausMessage queryJointPositionsMessageFromJausMessage JAUS_QUERY_JOINT_POSITIONS noData_dataSize (\<lambda>m0 m. m0) \<and>
   carriesBytes queryJointPositionsMessageToBuffer queryJointPositionsMessageFromBuffer queryJointPositionsMessageSize noData_dataSize (\<lambda>m0 m. m0) \<and>
   carries queryJointVelocitiesMessageToJausMessage queryJointVelocitiesMessageFromJausMessage JAUS_QUERY_JOINT_VELOCITIES noData_dataSize (\<lambda>m0 m. m0) \<and>
   carriesBytes queryJointVelocitiesMessageToBuffer queryJointVelocitiesMessageFromBuffer queryJointVelocitiesMessageSize noData_dataSize (\<lambda>m0 m. m0) \<and>
   carries queryManipulatorSpecificationsMessageToJausMessage queryManipulatorSpecificationsMessageFromJausMessage JAUS_QUERY_MANIPULATOR_SPECIFICATIONS noData_dataSize (\<lambda>m0 m. m0) \<and>
   carriesBytes queryManipulatorSpecificationsMessageToBuffer queryManipulatorSpecificationsMessageFromBuffer queryManipulatorSpecificationsMessageSize noData_dataSize (\<lambda>m0 m. m0) \<and>
   carries queryToolPointMessageToJausMessage queryToolPointMessageFromJausMessage JAUS_QUERY_TOOL_POINT noData_dataSize (\<lambda>m0 m. m0) \<and>
   carriesBytes queryToolPointMessageToBuffer queryToolPointMessageFromBuffer queryToolPointMessageSize noData_dataSize (\<lambda>m0 m. m0) \<and>
   carries queryPayloadInterfaceMessageToJausMessage queryPayloadInterfaceMessageFromJausMessage JAUS_QUERY_PAYLOAD_INTERFACE noData_dataSize (\<lambda>m0 m. m0) \<and>
   carriesSized queryPayloadInterfaceMessageToBuffer queryPayloadInterfaceMessageFromBuffer queryPayloadInterfaceMessageSize noData_dataSize (\<lambda>m0 m. m0) \<and>
   carries querySpoolingPreferenceMessageToJausMessage querySpoolingPreferenceMessageFromJausMessage JAUS_QUERY_SPOOLING_PREFERENCE noData_dataSize (\<lambda>m0 m. m0) \<and>
   carriesBytes querySpoolingPreferenceMessageToBuffer querySpoolingPreferenceMessageFromBuffer querySpoolingPreferenceMessageSize noData_dataSize (\<lambda>m0 m. m0) \<and>
   carries queryDiscreteDevicesMessageToJausMessage queryDiscreteDevicesMessageFromJausMessage JAUS_QUERY_DISCRETE_DEVICES queryDiscreteDevices_dataSize queryDiscreteDevices_withData \<and>
   carriesBytes queryDiscreteDevicesMessageToBuffer queryDiscreteDevicesMessageFromBuffer queryDiscreteDevicesMessageSize queryDiscreteDevices_dataSize queryDiscreteDevices_withData \<and>
   carries queryGlobalPathSegmentMessageToJausMessage queryGlobalPathSegmentMessageFromJausMessage JAUS_QUERY_GLOBAL_PATH_SEGMENT queryGlobalPathSegment_dataSize queryGlobalPathSegment_withData \<and>
   carriesBytes queryGlobalPathSegmentMessageToBuffer queryGlobalPathSegmentMessageFromBuffer queryGlobalPathSegmentMessageSize queryGlobalPathSegment_dataSize queryGlobalPathSegment_withData \<and>
   carries queryGlobalPoseMessageToJausMessage queryGlobalPoseMessageFromJausMessage JAUS_QUERY_GLOBAL_POSE queryGlobalPose_dataSize queryGlobalPose_withData \<and>
   carriesBytes queryGlobalPoseMessageToBuffer queryGlobalPoseMessageFromBuffer queryGlobalPoseMessageSize queryGlobalPose_dataSize queryGlobalPose_withData \<and>
   carries queryGlobalVectorMessageToJausMessage queryGlobalVectorMessageFromJausMessage JAUS_QUERY_GLOBAL_VECTOR queryGlobalVector_dataSize queryGlobalVector_withData \<and>
   carriesBytes queryGlobalVectorMessageToBuffer queryGlobalVectorMessageFromBuffer queryGlobalVectorMessageSize queryGlobalVector_dataSize queryGlobalVector_withData \<and>
   carries queryGlobalWaypointMessageToJausMessage queryGlobalWaypointMessageFromJausMessage JAUS_QUERY_GLOBAL_WAYPOINT queryGlobalWaypoint_dataSize queryGlobalWaypoint_withData \<and>
   carriesBytes queryGlobalWaypointMessageToBuffer queryGlobalWaypointMessageFromBuffer queryGlobalWaypointMessageSize queryGlobalWaypoint_dataSize queryGlobalWaypoint_withData \<and>
   carries queryLocalPathSegmentMessageToJausMessage queryLocalPathSegmentMessageFromJausMessage JAUS_QUERY_LOCAL_PATH_SEGMENT queryLocalPathSegment_dataSize queryLocalPathSegment_withData \<and>
   carriesBytes queryLocalPathSegmentMessageToBuffer queryLocalPathSegmentMessageFromBuffer queryLocalPathSegmentMessageSize queryLocalPathSegment_dataSize queryLocalPathSegment_withData \<and>
   carries queryLocalPoseMessageToJausMessage queryLocalPoseMessageFromJausMessage JAUS_QUERY_LOCAL_POSE queryLocalPose_dataSize queryLocalPose_withData \<and>
   carriesBytes queryLocalPoseMessageToBuffer queryLocalPoseMessageFromBuffer queryLocalPoseMessageSize queryLocalPose_dataSize queryLocalPose_withData \<and>
   carries queryLocalWaypointMessageToJausMessage queryLocalWaypointMessageFromJausMessage JAUS_QUERY_LOCAL_WAYPOINT queryLocalWaypoint_dataSize queryLocalWaypoint_withData \<and>
   carriesBytes queryLocalWaypointMessageToBuffer queryLocalWaypointMessageFromBuffer queryLocalWaypointMessageSize queryLocalWaypoint_dataSize queryLocalWaypoint_withData \<and>
   carries queryPathSegmentCountMessageToJausMessage queryPathSegmentCountMessageFromJausMessage JAUS_QUERY_PATH_SEGMENT_COUNT noData_dataSize (\<lambda>m0 m. m0) \<and>
   carriesBytes queryPathSegmentCountMessageToBuffer queryPathSegmentCountMessageFromBuffer queryPathSegmentCountMessageSize noData_dataSize (\<lambda>m0 m. m0) \<and>
   carries queryPlatformOperationalDataMessageToJausMessage queryPlatformOperationalDataMessageFromJausMessage JAUS_QUERY_PLATFORM_OPERATIONAL_DATA queryPlatformOperationalData_dataSize queryPlatformOperationalData_withData \<and>
   carriesBytes queryPlatformOperationalDataMessageToBuffer queryPlatformOperationalDataMessageFromBuffer queryPlatformOperationalDataMessageSize queryPlatformOperationalData_dataSize queryPlatformOperationalData_withData \<and>
   carries queryPlatformSpecificationsMessageToJausMessage queryPlatformSpecificationsMessageFromJausMessage JAUS_QUERY_PLATFORM_SPECIFICATIONS queryPlatformSpecifications_dataSize queryPlatformSpecifications_withData \<and>
   carriesBytes queryPlatformSpecificationsMessageToBuffer queryPlatformSpecificationsMessageFromBuffer queryPlatformSpecificationsMessageSize queryPlatformSpecifications_dataSize queryPlatformSpecifications_withData \<and>
   carries queryTravelSpeedMessageToJausMessage queryTravelSpeedMessageFromJausMessage JAUS_QUERY_TRAVEL_SPEED noData_dataSize (\<lambda>m0 m. m0) \<and>
   carriesBytes queryTravelSpeedMessageToBuffer queryTravelSpeedMessageFromBuffer queryTravelSpeedMessageSize noData_dataSize (\<lambda>m0 m. m0) \<and>
   carries queryVelocityStateMessageToJausMessage queryVelocityStateMessageFromJausMessage JAUS_QUERY_VELOCITY_STATE queryVelocityState_dataSize queryVelocityState_withData \<and>
   carriesBytes queryVelocityStateMessageToBuffer queryVelocityStateMessageFromBuffer queryVelocityStateMessageSize queryVelocityState_dataSize queryVelocityState_withData \<and>
   carries queryWaypointCountMessageToJausMessage queryWaypointCountMessageFromJausMessage JAUS_QUERY_WAYPOINT_COUNT noData_dataSize (\<lambda>m0 m. m0) \<and>
   carriesBytes queryWaypointCountMessageToBuffer queryWaypointCountMessageFromBuffer queryWaypointCountMessageSize noData_dataSize (\<lambda>m0 m. m0) \<and>
   carries queryWrenchEffortMessageToJausMessage queryWrenchEffortMessageFromJausMessage JAUS_QUERY_WRENCH_EFFORT queryWrenchEffort_dataSize queryWrenchEffort_withData \<and>
   carriesBytes queryWrenchEffortMessageToBuffer queryWrenchEffortMessageFromBuffer queryWrenchEffortMessageSize queryWrenchEffort_dataSize queryWrenchEffort_withData \<and>
   carries queryVksBoundsMessageToJausMessage queryVksBoundsMessageFromJausMessage JAUS_QUERY_VKS_BOUNDS queryVksBounds_dataSize queryVksBounds_withData \<and>
   carriesBytes queryVksBoundsMessageToBuffer queryVksBoundsMessageFromBuffer queryVksBoundsMessageSize queryVksBounds_dataSize queryVksBounds_withData \<and>
   carries queryVksFeatureClassMetadataMessageToJausMessage queryVksFeatureClassMetadataMessageFromJausMessage JAUS_QUERY_VKS_FEATURE_CLASS_METADATA queryVksFeatureClassMetadata_dataSize queryVksFeatureClassMetadata_withData \<and>
   carriesBytes queryVksFeatureClassMetadataMessageToBuffer queryVksFeatureClassMetadataMessageFromBuffer queryVksFeatureClassMetadataMessageSize queryVksFeatureClassMetadata_dataSize queryVksFeatureClassMetadata_withData \<and>
   carries setMotionProfileMessageToJausMessage setMotionProfileMessageFromJausMessage JAUS_SET_MOTION_PROFILE setMotionProfile_dataSize setMotionProfile_withData \<and>
   carriesBytes setMotionProfileMessageToBuffer setMotionProfileMessageFromBuffer setMotionProfileMessageSize setMotionProfile_dataSize setMotionProfile_withData \<and>
   carries setSignalsMessageToJausMessage setSignalsMessageFromJausMessage JAUS_SET_SIGNALS setSignals_dataSize setSignals_withData \<and>
   carriesBytes setSignalsMessageToBuffer setSignalsMessageFromBuffer setSignalsMessageSize setSignals_dataSize setSignals_withData \<and>
   carries reportSignalsMessageToJausMessage reportSignalsMessageFromJausMessage JAUS_REPORT_SIGNALS reportSignals_dataSize reportSignals_withData \<and>
   carriesBytes reportSignalsMessageToBuffer reportSignalsMessageFromBuffer reportSignalsMessageSize reportSignals_dataSize reportSignals_withData \<and>
   carries reportVehicleModeMessageToJausMessage reportVehicleModeMessageFromJausMessage JAUS_REPORT_VEHICLE_MODE reportVehicleMode_dataSize reportVehicleMode_withData \<and>
   carriesBytes reportVehicleModeMessageToBuffer reportVehicleModeMessageFromBuffer reportVehicleModeMessageSize reportVehicleMode_dataSize reportVehicleMode_withData"
  unfolding
    activateServiceConnectionMessageToJausMessage_def activateServiceConnectionMessageFromJausMessage_def
    activateServiceConnectionMessageToBuffer_def activateServiceConnectionMessageFromBuffer_def
    activateServiceConnectionMessageSize_def confirmComponentControlMessageToJausMessage_def
    confirmComponentControlMessageFromJausMessage_def confirmComponentControlMessageToBuffer_def
    confirmComponentControlMessageFromBuffer_def confirmComponentControlMessageSize_def
    confirmServiceConnectionMessageToJausMessage_def confirmServiceConnectionMessageFromJausMessage_def
    confirmServiceConnectionMessageToBuffer_def confirmServiceConnectionMessageFromBuffer_def
    confirmServiceConnectionMessageSize_def createServiceConnectionMessageToJausMessage_def
    createServiceConnectionMessageFromJausMessage_def createServiceConnectionMessageToBuffer_def
    createServiceConnectionMessageFromBuffer_def createServiceConnectionMessageSize_def
    rejectComponentControlMessageToJausMessage_def rejectComponentControlMessageFromJausMessage_def
    rejectComponentControlMessageToBuffer_def rejectComponentControlMessageFromBuffer_def
    rejectComponentControlMessageSize_def releaseComponentControlMessageToJausMessage_def
    releaseComponentControlMessageFromJausMessage_def releaseComponentControlMessageToBuffer_def
    releaseComponentControlMessageFromBuffer_def releaseComponentControlMessageSize_def
    requestComponentControlMessageToJausMessage_def requestComponentControlMessageFromJausMessage_def
    requestComponentControlMessageToBuffer_def requestComponentControlMessageFromBuffer_def
    requestComponentControlMessageSize_def setComponentAuthorityMessageToJausMessage_def
    setComponentAuthorityMessageFromJausMessage_def setComponentAuthorityMessageToBuffer_def
    setComponentAuthorityMessageFromBuffer_def setComponentAuthorityMessageSize_def
    suspendServiceConnectionMessageToJausMessage_def suspendServiceConnectionMessageFromJausMessage_def
    suspendServiceConnectionMessageToBuffer_def suspendServiceConnectionMessageFromBuffer_def
    suspendServiceConnectionMessageSize_def terminateServiceConnectionMessageToJausMessage_def
    terminateServiceConnectionMessageFromJausMessage_def terminateServiceConnectionMessageToBuffer_def
    terminateServiceConnectionMessageFromBuffer_def terminateServiceConnectionMessageSize_def
    reportComponentAuthorityMessageToJausMessage_def reportComponentAuthorityMessageFromJausMessage_def
    reportComponentAuthorityMessageToBuffer_def reportComponentAuthorityMessageFromBuffer_def
    reportComponentAuthorityMessageSize_def reportComponentControlMessageToJausMessage_def
    reportComponentControlMessageFromJausMessage_def reportComponentControlMessageToBuffer_def
    reportComponentControlMessageFromBuffer_def reportComponentControlMessageSize_def
    reportComponentStatusMessageToJausMessage_def reportComponentStatusMessageFromJausMessage_def
    reportComponentStatusMessageToBuffer_def reportComponentStatusMessageFromBuffer_def
    reportComponentStatusMessageSize_def queryComponentAuthorityMessageToJausMessage_def
    queryComponentAuthorityMessageFromJausMessage_def queryComponentAuthorityMessageToBuffer_def
    queryComponentAuthorityMessageFromBuffer_def queryComponentAuthorityMessageSize_def
    queryComponentControlMessageToJausMessage_def queryComponentControlMessageFromJausMessage_def
    queryComponentControlMessageToBuffer_def queryComponentControlMessageFromBuffer_def
    queryComponentControlMessageSize_def queryComponentStatusMessageToJausMessage_def
    queryComponentStatusMessageFromJausMessage_def queryComponentStatusMessageToBuffer_def
    queryComponentStatusMessageFromBuffer_def queryComponentStatusMessageSize_def queryTimeMessageToJausMessage_def
    queryTimeMessageFromJausMessage_def queryTimeMessageToBuffer_def queryTimeMessageFromBuffer_def
    queryTimeMessageSize_def setGlobalPathSegmentMessageToJausMessage_def
    setGlobalPathSegmentMessageFromJausMessage_def setGlobalPathSegmentMessageToBuffer_def
    setGlobalPathSegmentMessageFromBuffer_def setGlobalPathSegmentMessageSize_def
    setGlobalVectorMessageToJausMessage_def setGlobalVectorMessageFromJausMessage_def
    setGlobalVectorMessageToBuffer_def setGlobalVectorMessageFromBuffer_def setGlobalVectorMessageSize_def
    setGlobalWaypointMessageToJausMessage_def setGlobalWaypointMessageFromJausMessage_def
    setGlobalWaypointMessageToBuffer_def setGlobalWaypointMessageFromBuffer_def setGlobalWaypointMessageSize_def
    setLocalPathSegmentMessageToJausMessage_def setLocalPathSegmentMessageFromJausMessage_def
    setLocalPathSegmentMessageToBuffer_def setLocalPathSegmentMessageFromBuffer_def
    setLocalPathSegmentMessageSize_def setLocalVectorMessageToJausMessage_def
    setLocalVectorMessageFromJausMessage_def setLocalVectorMessageToBuffer_def setLocalVectorMessageFromBuffer_def
    setLocalVectorMessageSize_def setLocalWaypointMessageToJausMessage_def setLocalWaypointMessageFromJausMessage_def
    setLocalWaypointMessageToBuffer_def setLocalWaypointMessageFromBuffer_def setLocalWaypointMessageSize_def
    setTravelSpeedMessageToJausMessage_def setTravelSpeedMessageFromJausMessage_def setTravelSpeedMessageToBuffer_def
    setTravelSpeedMessageFromBuffer_def setTravelSpeedMessageSize_def setVelocityStateMessageToJausMessage_def
    setVelocityStateMessageFromJausMessage_def setVelocityStateMessageToBuffer_def
    setVelocityStateMessageFromBuffer_def setVelocityStateMessageSize_def setWrenchEffortMessageToJausMessage_def
    setWrenchEffortMessageFromJausMessage_def setWrenchEffortMessageToBuffer_def setWrenchEffortMessageFromBuffer_def
    setWrenchEffortMessageSize_def reportGlobalPathSegmentMessageToJausMessage_def
    reportGlobalPathSegmentMessageFromJausMessage_def reportGlobalPathSegmentMessageToBuffer_def
    reportGlobalPathSegmentMessageFromBuffer_def reportGlobalPathSegmentMessageSize_def
    reportGlobalVectorMessageToJausMessage_def reportGlobalVectorMessageFromJausMessage_def
    reportGlobalVectorMessageToBuffer_def reportGlobalVectorMessageFromBuffer_def reportGlobalVectorMessageSize_def
    reportGlobalWaypointMessageToJausMessage_def reportGlobalWaypointMessageFromJausMessage_def
    reportGlobalWaypointMessageToBuffer_def reportGlobalWaypointMessageFromBuffer_def
    reportGlobalWaypointMessageSize_def reportLocalPathSegmentMessageToJausMessage_def
    reportLocalPathSegmentMessageFromJausMessage_def reportLocalPathSegmentMessageToBuffer_def
    reportLocalPathSegmentMessageFromBuffer_def reportLocalPathSegmentMessageSize_def
    reportLocalVectorMessageToJausMessage_def reportLocalVectorMessageFromJausMessage_def
    reportLocalVectorMessageToBuffer_def reportLocalVectorMessageFromBuffer_def reportLocalVectorMessageSize_def
    reportLocalWaypointMessageToJausMessage_def reportLocalWaypointMessageFromJausMessage_def
    reportLocalWaypointMessageToBuffer_def reportLocalWaypointMessageFromBuffer_def
    reportLocalWaypointMessageSize_def reportPathSegmentCountMessageToJausMessage_def
    reportPathSegmentCountMessageFromJausMessage_def reportPathSegmentCountMessageToBuffer_def
    reportPathSegmentCountMessageFromBuffer_def reportPathSegmentCountMessageSize_def
    reportPlatformOperationalDataMessageToJausMessage_def reportPlatformOperationalDataMessageFromJausMessage_def
    reportPlatformOperationalDataMessageToBuffer_def reportPlatformOperationalDataMessageFromBuffer_def
    reportPlatformOperationalDataMessageSize_def reportTravelSpeedMessageToJausMessage_def
    reportTravelSpeedMessageFromJausMessage_def reportTravelSpeedMessageToBuffer_def
    reportTravelSpeedMessageFromBuffer_def reportTravelSpeedMessageSize_def
    reportWaypointCountMessageToJausMessage_def reportWaypointCountMessageFromJausMessage_def
    reportWaypointCountMessageToBuffer_def reportWaypointCountMessageFromBuffer_def
    reportWaypointCountMessageSize_def reportWrenchEffortMessageToJausMessage_def
    reportWrenchEffortMessageFromJausMessage_def reportWrenchEffortMessageToBuffer_def
    reportWrenchEffortMessageFromBuffer_def reportWrenchEffortMessageSize_def
    setDataLinkSelectMessageToJausMessage_def setDataLinkSelectMessageFromJausMessage_def
    setDataLinkSelectMessageToBuffer_def setDataLinkSelectMessageFromBuffer_def setDataLinkSelectMessageSize_def
    setSelectedDataLinkStateMessageToJausMessage_def setSelectedDataLinkStateMessageFromJausMessage_def
    setSelectedDataLinkStateMessageToBuffer_def setSelectedDataLinkStateMessageFromBuffer_def
    setSelectedDataLinkStateMessageSize_def selectCameraMessageToJausMessage_def
    selectCameraMessageFromJausMessage_def selectCameraMessageToBuffer_def selectCameraMessageFromBuffer_def
    selectCameraMessageSize_def setCameraFormatOptionsMessageToJausMessage_def
    setCameraFormatOptionsMessageFromJausMessage_def setCameraFormatOptionsMessageToBuffer_def
    setCameraFormatOptionsMessageFromBuffer_def setCameraFormatOptionsMessageSize_def
    confirmEventRequestMessageToJausMessage_def confirmEventRequestMessageFromJausMessage_def
    confirmEventRequestMessageToBuffer_def confirmEventRequestMessageFromBuffer_def
    confirmEventRequestMessageSize_def setEndEffectorPoseMessageToJausMessage_def
    setEndEffectorPoseMessageFromJausMessage_def setEndEffectorPoseMessageToBuffer_def
    setEndEffectorPoseMessageFromBuffer_def setEndEffectorPoseMessageSize_def
    setEndEffectorVelocityStateMessageToJausMessage_def setEndEffectorVelocityStateMessageFromJausMessage_def
    setEndEffectorVelocityStateMessageToBuffer_def setEndEffectorVelocityStateMessageFromBuffer_def
    setEndEffectorVelocityStateMessageSize_def setToolPointMessageToJausMessage_def
    setToolPointMessageFromJausMessage_def setToolPointMessageToBuffer_def setToolPointMessageFromBuffer_def
    setToolPointMessageSize_def abortMissionMessageToJausMessage_def abortMissionMessageFromJausMessage_def
    abortMissionMessageToBuffer_def abortMissionMessageFromBuffer_def abortMissionMessageSize_def
    pauseMissionMessageToJausMessage_def pauseMissionMessageFromJausMessage_def pauseMissionMessageToBuffer_def
    pauseMissionMessageFromBuffer_def pauseMissionMessageSize_def resumeMissionMessageToJausMessage_def
    resumeMissionMessageFromJausMessage_def resumeMissionMessageToBuffer_def resumeMissionMessageFromBuffer_def
    resumeMissionMessageSize_def runMissionMessageToJausMessage_def runMissionMessageFromJausMessage_def
    runMissionMessageToBuffer_def runMissionMessageFromBuffer_def runMissionMessageSize_def
    terminateVksDataTransferMessageToJausMessage_def terminateVksDataTransferMessageFromJausMessage_def
    terminateVksDataTransferMessageToBuffer_def terminateVksDataTransferMessageFromBuffer_def
    terminateVksDataTransferMessageSize_def reportDataLinkStatusMessageToJausMessage_def
    reportDataLinkStatusMessageFromJausMessage_def reportDataLinkStatusMessageToBuffer_def
    reportDataLinkStatusMessageFromBuffer_def reportDataLinkStatusMessageSize_def
    reportSelectedDataLinkStatusMessageToJausMessage_def reportSelectedDataLinkStatusMessageFromJausMessage_def
    reportSelectedDataLinkStatusMessageToBuffer_def reportSelectedDataLinkStatusMessageFromBuffer_def
    reportSelectedDataLinkStatusMessageSize_def reportCameraCountMessageToJausMessage_def
    reportCameraCountMessageFromJausMessage_def reportCameraCountMessageToBuffer_def
    reportCameraCountMessageFromBuffer_def reportCameraCountMessageSize_def
    reportSelectedCameraMessageToJausMessage_def reportSelectedCameraMessageFromJausMessage_def
    reportSelectedCameraMessageToBuffer_def reportSelectedCameraMessageFromBuffer_def
    reportSelectedCameraMessageSize_def reportToolPointMessageToJausMessage_def
    reportToolPointMessageFromJausMessage_def reportToolPointMessageToBuffer_def reportToolPointMessageFromBuffer_def
    reportToolPointMessageSize_def reportSpoolingPreferenceMessageToJausMessage_def
    reportSpoolingPreferenceMessageFromJausMessage_def reportSpoolingPreferenceMessageToBuffer_def
    reportSpoolingPreferenceMessageFromBuffer_def reportSpoolingPreferenceMessageSize_def
    reportVksBoundsMessageToJausMessage_def reportVksBoundsMessageFromJausMessage_def
    reportVksBoundsMessageToBuffer_def reportVksBoundsMessageFromBuffer_def reportVksBoundsMessageSize_def
    reportVksDataTransferTerminationMessageToJausMessage_def
    reportVksDataTransferTerminationMessageFromJausMessage_def reportVksDataTransferTerminationMessageToBuffer_def
    reportVksDataTransferTerminationMessageFromBuffer_def reportVksDataTransferTerminationMessageSize_def
    queryDataLinkStatusMessageToJausMessage_def queryDataLinkStatusMessageFromJausMessage_def
    queryDataLinkStatusMessageToBuffer_def queryDataLinkStatusMessageFromBuffer_def
    queryDataLinkStatusMessageSize_def queryHeartbeatPulseMessageToJausMessage_def
    queryHeartbeatPulseMessageFromJausMessage_def queryHeartbeatPulseMessageToBuffer_def
    queryHeartbeatPulseMessageFromBuffer_def queryHeartbeatPulseMessageSize_def
    queryConfigurationMessageToJausMessage_def queryConfigurationMessageFromJausMessage_def
    queryConfigurationMessageToBuffer_def queryConfigurationMessageFromBuffer_def queryConfigurationMessageSize_def
    queryIdentificationMessageToJausMessage_def queryIdentificationMessageFromJausMessage_def
    queryIdentificationMessageToBuffer_def queryIdentificationMessageFromBuffer_def
    queryIdentificationMessageSize_def queryServicesMessageToJausMessage_def queryServicesMessageFromJausMessage_def
    queryServicesMessageToBuffer_def queryServicesMessageFromBuffer_def queryServicesMessageSize_def
    querySubsystemListMessageToJausMessage_def querySubsystemListMessageFromJausMessage_def
    querySubsystemListMessageToBuffer_def querySubsystemListMessageFromBuffer_def querySubsystemListMessageSize_def
    queryCameraCapabilitiesMessageToJausMessage_def queryCameraCapabilitiesMessageFromJausMessage_def
    queryCameraCapabilitiesMessageToBuffer_def queryCameraCapabilitiesMessageFromBuffer_def
    queryCameraCapabilitiesMessageSize_def queryCameraCountMessageToJausMessage_def
    queryCameraCountMessageFromJausMessage_def queryCameraCountMessageToBuffer_def
    queryCameraCountMessageFromBuffer_def queryCameraCountMessageSize_def
    queryCameraFormatOptionsMessageToJausMessage_def queryCameraFormatOptionsMessageFromJausMessage_def
    queryCameraFormatOptionsMessageToBuffer_def queryCameraFormatOptionsMessageFromBuffer_def
    queryCameraFormatOptionsMessageSize_def queryCameraPoseMessageToJausMessage_def
    queryCameraPoseMessageFromJausMessage_def queryCameraPoseMessageToBuffer_def queryCameraPoseMessageFromBuffer_def
    queryCameraPoseMessageSize_def queryImageMessageToJausMessage_def queryImageMessageFromJausMessage_def
    queryImageMessageToBuffer_def queryImageMessageFromBuffer_def queryImageMessageSize_def
    queryMapMessageToJausMessage_def queryMapMessageFromJausMessage_def queryMapMessageToBuffer_def
    queryMapMessageFromBuffer_def queryMapMessageSize_def queryRelativeObjectPositionMessageToJausMessage_def
    queryRelativeObjectPositionMessageFromJausMessage_def queryRelativeObjectPositionMessageToBuffer_def
    queryRelativeObjectPositionMessageFromBuffer_def queryRelativeObjectPositionMessageSize_def
    querySelectedCameraMessageToJausMessage_def querySelectedCameraMessageFromJausMessage_def
    querySelectedCameraMessageToBuffer_def querySelectedCameraMessageFromBuffer_def
    querySelectedCameraMessageSize_def queryJointEffortsMessageToJausMessage_def
    queryJointEffortsMessageFromJausMessage_def queryJointEffortsMessageToBuffer_def
    queryJointEffortsMessageFromBuffer_def queryJointEffortsMessageSize_def
    queryJointForceTorquesMessageToJausMessage_def queryJointForceTorquesMessageFromJausMessage_def
    queryJointForceTorquesMessageToBuffer_def queryJointForceTorquesMessageFromBuffer_def
    queryJointForceTorquesMessageSize_def queryJointPositionsMessageToJausMessage_def
    queryJointPositionsMessageFromJausMessage_def queryJointPositionsMessageToBuffer_def
    queryJointPositionsMessageFromBuffer_def queryJointPositionsMessageSize_def
    queryJointVelocitiesMessageToJausMessage_def queryJointVelocitiesMessageFromJausMessage_def
    queryJointVelocitiesMessageToBuffer_def queryJointVelocitiesMessageFromBuffer_def
    queryJointVelocitiesMessageSize_def queryManipulatorSpecificationsMessageToJausMessage_def
    queryManipulatorSpecificationsMessageFromJausMessage_def queryManipulatorSpecificationsMessageToBuffer_def
    queryManipulatorSpecificationsMessageFromBuffer_def queryManipulatorSpecificationsMessageSize_def
    queryToolPointMessageToJausMessage_def queryToolPointMessageFromJausMessage_def queryToolPointMessageToBuffer_def
    queryToolPointMessageFromBuffer_def queryToolPointMessageSize_def queryPayloadInterfaceMessageToJausMessage_def
    queryPayloadInterfaceMessageFromJausMessage_def queryPayloadInterfaceMessageToBuffer_def
    queryPayloadInterfaceMessageFromBuffer_def queryPayloadInterfaceMessageSize_def
    querySpoolingPreferenceMessageToJausMessage_def querySpoolingPreferenceMessageFromJausMessage_def
    querySpoolingPreferenceMessageToBuffer_def querySpoolingPreferenceMessageFromBuffer_def
    querySpoolingPreferenceMessageSize_def queryDiscreteDevicesMessageToJausMessage_def
    queryDiscreteDevicesMessageFromJausMessage_def queryDiscreteDevicesMessageToBuffer_def
    queryDiscreteDevicesMessageFromBuffer_def queryDiscreteDevicesMessageSize_def
    queryGlobalPathSegmentMessageToJausMessage_def queryGlobalPathSegmentMessageFromJausMessage_def
    queryGlobalPathSegmentMessageToBuffer_def queryGlobalPathSegmentMessageFromBuffer_def
    queryGlobalPathSegmentMessageSize_def queryGlobalPoseMessageToJausMessage_def
    queryGlobalPoseMessageFromJausMessage_def queryGlobalPoseMessageToBuffer_def queryGlobalPoseMessageFromBuffer_def
    queryGlobalPoseMessageSize_def queryGlobalVectorMessageToJausMessage_def
    queryGlobalVectorMessageFromJausMessage_def queryGlobalVectorMessageToBuffer_def
    queryGlobalVectorMessageFromBuffer_def queryGlobalVectorMessageSize_def
    queryGlobalWaypointMessageToJausMessage_def queryGlobalWaypointMessageFromJausMessage_def
    queryGlobalWaypointMessageToBuffer_def queryGlobalWaypointMessageFromBuffer_def
    queryGlobalWaypointMessageSize_def queryLocalPathSegmentMessageToJausMessage_def
    queryLocalPathSegmentMessageFromJausMessage_def queryLocalPathSegmentMessageToBuffer_def
    queryLocalPathSegmentMessageFromBuffer_def queryLocalPathSegmentMessageSize_def
    queryLocalPoseMessageToJausMessage_def queryLocalPoseMessageFromJausMessage_def queryLocalPoseMessageToBuffer_def
    queryLocalPoseMessageFromBuffer_def queryLocalPoseMessageSize_def queryLocalWaypointMessageToJausMessage_def
    queryLocalWaypointMessageFromJausMessage_def queryLocalWaypointMessageToBuffer_def
    queryLocalWaypointMessageFromBuffer_def queryLocalWaypointMessageSize_def
    queryPathSegmentCountMessageToJausMessage_def queryPathSegmentCountMessageFromJausMessage_def
    queryPathSegmentCountMessageToBuffer_def queryPathSegmentCountMessageFromBuffer_def
    queryPathSegmentCountMessageSize_def queryPlatformOperationalDataMessageToJausMessage_def
    queryPlatformOperationalDataMessageFromJausMessage_def queryPlatformOperationalDataMessageToBuffer_def
    queryPlatformOperationalDataMessageFromBuffer_def queryPlatformOperationalDataMessageSize_def
    queryPlatformSpecificationsMessageToJausMessage_def queryPlatformSpecificationsMessageFromJausMessage_def
    queryPlatformSpecificationsMessageToBuffer_def queryPlatformSpecificationsMessageFromBuffer_def
    queryPlatformSpecificationsMessageSize_def queryTravelSpeedMessageToJausMessage_def
    queryTravelSpeedMessageFromJausMessage_def queryTravelSpeedMessageToBuffer_def
    queryTravelSpeedMessageFromBuffer_def queryTravelSpeedMessageSize_def queryVelocityStateMessageToJausMessage_def
    queryVelocityStateMessageFromJausMessage_def queryVelocityStateMessageToBuffer_def
    queryVelocityStateMessageFromBuffer_def queryVelocityStateMessageSize_def
    queryWaypointCountMessageToJausMessage_def queryWaypointCountMessageFromJausMessage_def
    queryWaypointCountMessageToBuffer_def queryWaypointCountMessageFromBuffer_def queryWaypointCountMessageSize_def
    queryWrenchEffortMessageToJausMessage_def queryWrenchEffortMessageFromJausMessage_def
    queryWrenchEffortMessageToBuffer_def queryWrenchEffortMessageFromBuffer_def queryWrenchEffortMessageSize_def
    queryVksBoundsMessageToJausMessage_def queryVksBoundsMessageFromJausMessage_def queryVksBoundsMessageToBuffer_def
    queryVksBoundsMessageFromBuffer_def queryVksBoundsMessageSize_def
    queryVksFeatureClassMetadataMessageToJausMessage_def queryVksFeatureClassMetadataMessageFromJausMessage_def
    queryVksFeatureClassMetadataMessageToBuffer_def queryVksFeatureClassMetadataMessageFromBuffer_def
    queryVksFeatureClassMetadataMessageSize_def setMotionProfileMessageToJausMessage_def
    setMotionProfileMessageFromJausMessage_def setMotionProfileMessageToBuffer_def
    setMotionProfileMessageFromBuffer_def setMotionProfileMessageSize_def setSignalsMessageToJausMessage_def
    setSignalsMessageFromJausMessage_def setSignalsMessageToBuffer_def setSignalsMessageFromBuffer_def
    setSignalsMessageSize_def reportSignalsMessageToJausMessage_def reportSignalsMessageFromJausMessage_def
    reportSignalsMessageToBuffer_def reportSignalsMessageFromBuffer_def reportSignalsMessageSize_def
    reportVehicleModeMessageToJausMessage_def reportVehicleModeMessageFromJausMessage_def
    reportVehicleModeMessageToBuffer_def reportVehicleModeMessageFromBuffer_def reportVehicleModeMessageSize_def
  by (intro conjI noData_sized
      activateServiceConnection.carried activateServiceConnection.carriedBytes confirmComponentControl.carried
      confirmComponentControl.carriedBytes confirmServiceConnection.carried confirmServiceConnection.carriedBytes
      createServiceConnection.carried createServiceConnection.carriedBytes noData.carried noData.carriedBytes
      requestComponentControl.carried requestComponentControl.carriedBytes setComponentAuthority.carried
      setComponentAuthority.carriedBytes suspendServiceConnection.carried suspendServiceConnection.carriedBytes
      terminateServiceConnection.carried terminateServiceConnection.carriedBytes reportComponentAuthority.carried
      reportComponentAuthority.carriedBytes reportComponentControl.carried reportComponentControl.carriedBytes
      reportComponentStatus.carried reportComponentStatus.carriedBytes queryTime.carried queryTime.carriedBytes
      setGlobalPathSegment.carried setGlobalPathSegment.carriedBytes setGlobalVector.carried
      setGlobalVector.carriedBytes setGlobalWaypoint.carried setGlobalWaypoint.carriedBytes
      setLocalPathSegment.carried setLocalPathSegment.carriedBytes setLocalVector.carried setLocalVector.carriedBytes
      setLocalWaypoint.carried setLocalWaypoint.carriedBytes setTravelSpeed.carried setTravelSpeed.carriedBytes
      setVelocityState.carried setVelocityState.carriedBytes setWrenchEffort.carried setWrenchEffort.carriedBytes
      reportGlobalPathSegment.carried reportGlobalPathSegment.carriedBytes reportGlobalVector.carried
      reportGlobalVector.carriedBytes reportGlobalWaypoint.carried reportGlobalWaypoint.carriedBytes
      reportLocalPathSegment.carried reportLocalPathSegment.carriedBytes reportLocalVector.carried
      reportLocalVector.carriedBytes reportLocalWaypoint.carried reportLocalWaypoint.carriedBytes
      reportPathSegmentCount.carried reportPathSegmentCount.carriedBytes reportPlatformOperationalData.carried
      reportPlatformOperationalData.carriedBytes reportTravelSpeed.carried reportTravelSpeed.carriedBytes
      reportWaypointCount.carried reportWaypointCount.carriedBytes reportWrenchEffort.carried
      reportWrenchEffort.carriedBytes setDataLinkSelect.carried setDataLinkSelect.carriedBytes
      setSelectedDataLinkState.carried setSelectedDataLinkState.carriedBytes selectCamera.carried
      selectCamera.carriedBytes setCameraFormatOptions.carried setCameraFormatOptions.carriedBytes
      confirmEventRequest.carried confirmEventRequest.carriedBytes setEndEffectorPose.carried
      setEndEffectorPose.carriedBytes setEndEffectorVelocityState.carried setEndEffectorVelocityState.carriedBytes
      setToolPoint.carried setToolPoint.carriedBytes abortMission.carried abortMission.carriedBytes
      pauseMission.carried pauseMission.carriedBytes resumeMission.carried resumeMission.carriedBytes
      runMission.carried runMission.carriedBytes reportDataLinkStatus.carried reportDataLinkStatus.carriedBytes
      reportSelectedDataLinkStatus.carried reportSelectedDataLinkStatus.carriedBytes reportCameraCount.carried
      reportCameraCount.carriedBytes reportSelectedCamera.carried reportSelectedCamera.carriedBytes
      reportToolPoint.carried reportToolPoint.carriedBytes reportSpoolingPreference.carried
      reportSpoolingPreference.carriedBytes reportVksBounds.carried reportVksBounds.carriedBytes
      queryDataLinkStatus.carried queryDataLinkStatus.carriedBytes queryConfiguration.carried
      queryConfiguration.carriedBytes queryIdentification.carried queryIdentification.carriedBytes
      queryCameraCapabilities.carried queryCameraCapabilities.carriedBytes queryCameraFormatOptions.carried
      queryCameraFormatOptions.carriedBytes queryCameraPose.carried queryCameraPose.carriedBytes queryMap.carried
      queryMap.carriedBytes queryRelativeObjectPosition.carried queryRelativeObjectPosition.carriedBytes
      queryDiscreteDevices.carried queryDiscreteDevices.carriedBytes queryGlobalPathSegment.carried
      queryGlobalPathSegment.carriedBytes queryGlobalPose.carried queryGlobalPose.carriedBytes
      queryGlobalVector.carried queryGlobalVector.carriedBytes queryGlobalWaypoint.carried
      queryGlobalWaypoint.carriedBytes queryLocalPathSegment.carried queryLocalPathSegment.carriedBytes
      queryLocalPose.carried queryLocalPose.carriedBytes queryLocalWaypoint.carried queryLocalWaypoint.carriedBytes
      queryPlatformOperationalData.carried queryPlatformOperationalData.carriedBytes
      queryPlatformSpecifications.carried queryPlatformSpecifications.carriedBytes queryVelocityState.carried
      queryVelocityState.carriedBytes queryWrenchEffort.carried queryWrenchEffort.carriedBytes queryVksBounds.carried
      queryVksBounds.carriedBytes queryVksFeatureClassMetadata.carried queryVksFeatureClassMetadata.carriedBytes
      setMotionProfile.carried setMotionProfile.carriedBytes setSignals.carried setSignals.carriedBytes
      reportSignals.carried reportSignals.carriedBytes reportVehicleMode.carried reportVehicleMode.carriedBytes)

text \<open>A control request through a generic message, and a travel speed, which is scaled, through a buffer.\<close>

theorem typed_messages_roundtrip_witness:
  "(\<exists>jm m'. requestComponentControlMessageToJausMessage (requestComponentControlMessageCreate\<lparr>requestComponentControl_authorityCode := 5\<rparr>) = Some jm \<and>
      requestComponentControlMessageFromJausMessage requestComponentControlMessageCreate jm = Some (Some m') \<and>
      requestComponentControl_authorityCode m' = 5) \<and>
   (\<exists>m buf m'. setTravelSpeedMessageToBuffer (setTravelSpeedMessageCreate\<lparr>setTravelSpeed_speedMps := 250\<rparr>) (replicate 18 0) 18 = Some (True, m, buf) \<and>
      setTravelSpeedMessageFromBuffer setTravelSpeedMessageCreate buf 18 = Some (True, m') \<and>
      \<bar>setTravelSpeed_speedMps m' - 250\<bar> \<le> 10000 / 65535 / 2)"
proof -
  let ?r = "requestComponentControlMessageCreate\<lparr>requestComponentControl_authorityCode := 5\<rparr>"
  let ?s = "setTravelSpeedMessageCreate\<lparr>setTravelSpeed_speedMps := 250\<rparr>"
  have law: "carries requestComponentControlMessageToJausMessage requestComponentControlMessageFromJausMessage JAUS_REQUEST_COMPONENT_CONTROL
      requestComponentControl_dataSize requestComponentControl_withData"
    "carriesBytes setTravelSpeedMessageToBuffer setTravelSpeedMessageFromBuffer setTravelSpeedMessageSize setTravelSpeed_dataSize
      setTravelSpeed_withData" using typed_messages_roundtrip by blast+
  have f: "commandCode ?r = JAUS_REQUEST_COMPONENT_CONTROL" "dataFlag ?s < 0x10" "setTravelSpeedMessageSize ?s = 18"
    by (simp_all add: requestComponentControlMessageCreate_def requestComponentControl_dataInitialize_def setTravelSpeedMessageCreate_def
        setTravelSpeed_dataInitialize_def blankHeader_def JausHeader.extend_def setTravelSpeedMessageSize_def messageSize_def
        setTravelSpeed_dataSize_def Let_def)
  obtain w where w: "jausUnsignedShortFromDouble 250 0 10000 = Some w"
      "\<bar>jausUnsignedShortToDouble w 0 10000 - 250\<bar> \<le> 10000 / 65535 / 2"
    using scaled_quantisation_error [of 0 10000 250] by (auto simp: limitValue_def)
  obtain jm where jm: "requestComponentControlMessageToJausMessage ?r = Some jm"
    "requestComponentControlMessageFromJausMessage requestComponentControlMessageCreate jm = Some (Some (requestComponentControl_withData
       (copyHeader (?r\<lparr>dataSize := requestComponentControl_dataSize ?r\<rparr>) requestComponentControlMessageCreate) ?r))"
    using law(1) f(1) unfolding carries_def by blast
  obtain buf where buf: "setTravelSpeedMessageToBuffer ?s (replicate (unat (setTravelSpeedMessageSize ?s)) 0) (setTravelSpeedMessageSize ?s) =
      Some (True, ?s\<lparr>dataSize := setTravelSpeed_dataSize ?s\<rparr>, buf)"
    "setTravelSpeedMessageFromBuffer setTravelSpeedMessageCreate buf (setTravelSpeedMessageSize ?s) = Some (True, setTravelSpeed_withData
       (copyHeader (?s\<lparr>dataSize := setTravelSpeed_dataSize ?s\<rparr>) setTravelSpeedMessageCreate) ?s)"
    using law(2) f(2) unfolding carriesBytes_def by blast
  have n: "replicate (unat (18 :: u32)) (0 :: u8) = replicate 18 0" by simp
  have "\<exists>jm m'. requestComponentControlMessageToJausMessage ?r = Some jm \<and>
      requestComponentControlMessageFromJausMessage requestComponentControlMessageCreate jm = Some (Some m') \<and>
      requestComponentControl_authorityCode m' = 5"
    by (rule exI, rule exI, rule conjI [OF jm(1)], rule conjI [OF jm(2)]) (simp add: requestComponentControl_withData_def)
  moreover have "\<exists>m buf m'. setTravelSpeedMessageToBuffer ?s (replicate 18 0) 18 = Some (True, m, buf) \<and>
      setTravelSpeedMessageFromBuffer setTravelSpeedMessageCreate buf 18 = Some (True, m') \<and>
      \<bar>setTravelSpeed_speedMps m' - 250\<bar> \<le> 10000 / 65535 / 2"
    by (rule exI, rule exI, rule exI, rule conjI [OF buf(1) [unfolded f(3) n]], rule conjI [OF buf(2) [unfolded f(3)]])
      (use w in \<open>simp add: setTravelSpeed_withData_def\<close>)
  ultimately show ?thesis by blast
qed

end
