(* ===== verification/Configuration.thy ===== *)
theory Configuration
  imports NodeState
begin

text \<open>
  The description of a system as a tree of subsystem, nodes and components
  (\<open>openjaus/src/libjaus/jausSubsystem.c\<close>, \<open>jausNode.c\<close>, \<open>jausComponent.c\<close> and \<open>jausState.c\<close>) and the
  message that reports it
  (\<open>openjaus/src/libjaus/message/inform/dynamicConfiguration/reportConfigurationMessage.c\<close>).

  The arrays of nodes and components are lists (see \<open>Arrays\<close>), and the result of \<open>time\<close> is the
  argument \<open>now\<close>. The member \<open>subsystem\<close> of a node, a pointer back to the parent, is \<open>nodeParent\<close>: the
  number of the subsystem it leads to, \<^term>\<open>None\<close> for a null pointer and for a pointer to an object that
  was freed. The pointer of a component to its node is left out.
\<close>

section \<open>Components\<close>

definition jausComponentUpdateTimestamp :: "int \<Rightarrow> JausComponent \<Rightarrow> JausComponent" where
  "jausComponentUpdateTimestamp now component = component\<lparr>cmptTimeStampSec := now\<rparr>"

definition jausComponentCreate :: "int \<Rightarrow> JausComponent" where
  "jausComponentCreate now =
     jausComponentUpdateTimestamp now
       \<lparr>identification = None, cmptAddress = jausAddressCreate, cmptState = JAUS_UNDEFINED_STATE,
        cmptAuthority = 0, cmptServices = [],
        controller = \<lparr>ctrlAddress = jausAddressCreate, ctrlState = JAUS_UNDEFINED_STATE, ctrlAuthority = 0, ctrlActive = False\<rparr>,
        cmptTimeStampSec = 0\<rparr>"

text \<open>Services that cannot be cloned leave a null pointer behind, which later reads follow.\<close>

definition jausComponentClone :: "int \<Rightarrow> JausComponent \<Rightarrow> JausComponent exec" where
  "jausComponentClone now component =
     do { services \<leftarrow> jausServicesClone (cmptServices component);
          Some (jausComponentUpdateTimestamp now
            \<lparr>identification = identification component, cmptAddress = cmptAddress component,
             cmptState = cmptState component, cmptAuthority = cmptAuthority component, cmptServices = services,
             controller = \<lparr>ctrlAddress = ctrlAddress (controller component), ctrlState = ctrlState (controller component),
                           ctrlAuthority = ctrlAuthority (controller component), ctrlActive = ctrlActive (controller component)\<rparr>,
             cmptTimeStampSec = 0\<rparr>) }"

definition jausComponentIsTimedOut :: "int \<Rightarrow> JausComponent \<Rightarrow> bool" where
  "jausComponentIsTimedOut now component \<longleftrightarrow> now - cmptTimeStampSec component > 3"

definition jausComponentHasIdentification :: "JausComponent option \<Rightarrow> bool" where
  "jausComponentHasIdentification c = (case c of None \<Rightarrow> False | Some component \<Rightarrow> identification component \<noteq> None)"

definition jausComponentHasServices :: "JausComponent option \<Rightarrow> bool" where
  "jausComponentHasServices c = (case c of None \<Rightarrow> False | Some component \<Rightarrow> length (cmptServices component) > 0)"

text \<open>The names of the component types; the first entry with the number counts.\<close>

definition componentTypes :: "(u8 \<times> string) list" where
  "componentTypes =
     [(1, ''NodeManager''), (40, ''SystemCommander''), (32, ''SubsystemCommander''), (35, ''Communicator''),
      (38, ''GlobalPoseSensor''), (41, ''LocalPosSensor''), (42, ''VelocityStateSensor''),
      (33, ''PrimitiveDriver''), (43, ''ReflexiveDriver''), (34, ''GlobalVectorDriver''),
      (44, ''LocalVectorDriver''), (45, ''GlobalWaypointDriver''), (46, ''LocalWaypointDriver''),
      (47, ''GlobalPathSegmentDriver''), (48, ''LocalPathSegmentDriver''), (49, ''PrimativeManipulator''),
      (51, ''ManipulatorJointPositionSensor''), (52, ''ManipulatorJointVelocitySensor''),
      (53, ''ManipulatorJointForce/TorqueSensor''), (54, ''ManipulatorJointPositionsDriver''),
      (55, ''ManipulatorEndEffectorDriver''), (56, ''ManipulatorJointVelocitiesDriver''),
      (57, ''ManipulatorEndEffectorVelocityStateDriver''), (58, ''ManipulatorJointMoveDriver''),
      (59, ''ManipulatorEndEffectorDiscretePoseDriver''), (37, ''VisualSensor''), (50, ''RangeSensor'')]"

definition jausComponentGetTypeString :: "u8 \<Rightarrow> string" where
  "jausComponentGetTypeString componentId =
     (case map_of componentTypes componentId of None \<Rightarrow> ''Experimental/UnknownComponent'' | Some s \<Rightarrow> s)"

definition jausStateGetString :: "int \<Rightarrow> string" where
  "jausStateGetString state =
     (if state < JAUS_INITIALIZE_STATE \<or> state > JAUS_EMERGENCY_STATE then ''Undefined''
      else [''Initialize'', ''Ready'', ''Standby'', ''Shutdown'', ''Failure'', ''Emergency''] ! nat state)"

section \<open>Nodes\<close>

record JausNode =
  nodeIdentification :: "bytes option"
  nodeId :: u8
  nodeComponents :: "JausComponent list"
  nodeParent :: "int option"
  nodeTimeStampSec :: int

definition jausNodeUpdateTimestamp :: "int \<Rightarrow> JausNode \<Rightarrow> JausNode" where
  "jausNodeUpdateTimestamp now node = node\<lparr>nodeTimeStampSec := now\<rparr>"

definition jausNodeCreate :: "int \<Rightarrow> JausNode" where
  "jausNodeCreate now =
     jausNodeUpdateTimestamp now \<lparr>nodeIdentification = None, nodeId = 0, nodeComponents = [], nodeParent = None, nodeTimeStampSec = 0\<rparr>"

fun cloneComponents :: "int \<Rightarrow> JausComponent list \<Rightarrow> JausComponent list exec" where
  "cloneComponents now [] = Some []"
| "cloneComponents now (c # rest) =
     do { tempCmpt \<leftarrow> jausComponentClone now c; l \<leftarrow> cloneComponents now rest; Some (tempCmpt # l) }"

definition jausNodeClone :: "int \<Rightarrow> JausNode \<Rightarrow> JausNode exec" where
  "jausNodeClone now node =
     do { components \<leftarrow> cloneComponents now (nodeComponents node);
          Some (jausNodeUpdateTimestamp now
            \<lparr>nodeIdentification = nodeIdentification node, nodeId = nodeId node, nodeComponents = components,
             nodeParent = nodeParent node, nodeTimeStampSec = 0\<rparr>) }"

definition jausNodeIsTimedOut :: "int \<Rightarrow> JausNode \<Rightarrow> bool" where
  "jausNodeIsTimedOut now node \<longleftrightarrow> now - nodeTimeStampSec node > 5"

definition jausNodeHasIdentification :: "JausNode option \<Rightarrow> bool" where
  "jausNodeHasIdentification n = (case n of None \<Rightarrow> False | Some node \<Rightarrow> nodeIdentification node \<noteq> None)"

definition jausNodeHasConfiguration :: "JausNode option \<Rightarrow> bool" where
  "jausNodeHasConfiguration n = (case n of None \<Rightarrow> False | Some node \<Rightarrow> length (nodeComponents node) > 0)"

section \<open>Subsystems\<close>

record JausSubsystem =
  subsIdentification :: "bytes option"
  subsId :: int
  subsNodes :: "JausNode list"
  subsTimeStampSec :: int

definition jausSubsystemUpdateTimestamp :: "int \<Rightarrow> JausSubsystem \<Rightarrow> JausSubsystem" where
  "jausSubsystemUpdateTimestamp now subsystem = subsystem\<lparr>subsTimeStampSec := now\<rparr>"

definition jausSubsystemCreate :: "int \<Rightarrow> JausSubsystem" where
  "jausSubsystemCreate now =
     jausSubsystemUpdateTimestamp now \<lparr>subsIdentification = None, subsId = 0, subsNodes = [], subsTimeStampSec = 0\<rparr>"

fun cloneNodes :: "int \<Rightarrow> JausNode list \<Rightarrow> JausNode list exec" where
  "cloneNodes now [] = Some []"
| "cloneNodes now (n # rest) =
     do { tempNode \<leftarrow> jausNodeClone now n; l \<leftarrow> cloneNodes now rest; Some (tempNode # l) }"

definition jausSubsystemClone :: "int \<Rightarrow> JausSubsystem \<Rightarrow> JausSubsystem exec" where
  "jausSubsystemClone now subsystem =
     do { nodes \<leftarrow> cloneNodes now (subsNodes subsystem);
          Some (jausSubsystemUpdateTimestamp now
            \<lparr>subsIdentification = subsIdentification subsystem, subsId = subsId subsystem, subsNodes = nodes,
             subsTimeStampSec = 0\<rparr>) }"

definition jausSubsystemIsTimedOut :: "int \<Rightarrow> JausSubsystem \<Rightarrow> bool" where
  "jausSubsystemIsTimedOut now subsystem \<longleftrightarrow> now - subsTimeStampSec subsystem > 5"

definition jausSubsystemHasIdentification :: "JausSubsystem option \<Rightarrow> bool" where
  "jausSubsystemHasIdentification s = (case s of None \<Rightarrow> False | Some subs \<Rightarrow> subsIdentification subs \<noteq> None)"

definition jausSubsystemHasConfiguration :: "JausSubsystem option \<Rightarrow> bool" where
  "jausSubsystemHasConfiguration s = (case s of None \<Rightarrow> False | Some subs \<Rightarrow> length (subsNodes subs) > 0)"

section \<open>ReportConfigurationMessage\<close>

record ReportConfigurationMessage = JausHeader +
  reportConfiguration_subsystem :: JausSubsystem

definition reportConfiguration_dataInitialize ::
    "int \<Rightarrow> ReportConfigurationMessage \<Rightarrow> ReportConfigurationMessage" where
  "reportConfiguration_dataInitialize now m = m\<lparr>reportConfiguration_subsystem := jausSubsystemCreate now\<rparr>"

text \<open>The local variables of \<open>dataFromBuffer\<close>, with the subsystem of the message.\<close>

record ConfigurationLocals =
  cfSubsystem :: JausSubsystem
  cfNodeCount :: u8
  cfComponentCount :: u8
  cfNode :: JausNode
  cfAddress :: JausAddress

definition readComponent :: "int \<Rightarrow> bytes \<Rightarrow> nat \<Rightarrow> u32 \<Rightarrow> (nat \<times> ConfigurationLocals) stmt list" where
  "readComponent now buffer off n =
     [getByte (\<lambda>v l. l\<lparr>cfAddress := (cfAddress l)\<lparr>addrComponent := v\<rparr>\<rparr>) buffer off n,
      getByte (\<lambda>v l. l\<lparr>cfAddress := (cfAddress l)\<lparr>addrInstance := v\<rparr>\<rparr>) buffer off n,
      assignS (\<lambda>l. l\<lparr>cfNode := (cfNode l)\<lparr>nodeComponents :=
        nodeComponents (cfNode l) @ [(jausComponentCreate now)\<lparr>cmptAddress := cfAddress l\<rparr>]\<rparr>\<rparr>)]"

definition readNode :: "int \<Rightarrow> bytes \<Rightarrow> nat \<Rightarrow> u32 \<Rightarrow> (nat \<times> ConfigurationLocals) stmt list" where
  "readNode now buffer off n =
     [getByte (\<lambda>v l. l\<lparr>cfAddress := (cfAddress l)\<lparr>addrNode := v\<rparr>\<rparr>) buffer off n,
      assignS (\<lambda>l. l\<lparr>cfNode := (jausNodeCreate now)\<lparr>nodeId := addrNode (cfAddress l),
                                                      nodeParent := Some (subsId (cfSubsystem l))\<rparr>\<rparr>),
      getByte (\<lambda>v l. l\<lparr>cfComponentCount := v\<rparr>) buffer off n,
      repeatS cfComponentCount (readComponent now buffer off n),
      assignS (\<lambda>l. l\<lparr>cfSubsystem := (cfSubsystem l)\<lparr>subsNodes := subsNodes (cfSubsystem l) @ [cfNode l]\<rparr>\<rparr>)]"

definition reportConfiguration_dataFromBuffer ::
    "int \<Rightarrow> ReportConfigurationMessage \<Rightarrow> bytes \<Rightarrow> nat \<Rightarrow> u32 \<Rightarrow> (bool \<times> ReportConfigurationMessage) exec" where
  "reportConfiguration_dataFromBuffer now m buffer off n =
     (let subsystem = (jausSubsystemCreate now)\<lparr>subsId := uint (addrSubsystem (source m))\<rparr>
      in if n = dataSize m
         then map_option (\<lambda>(ok, l). (ok, m\<lparr>reportConfiguration_subsystem := cfSubsystem l\<rparr>))
           (finishR (runStmts
             [getByte (\<lambda>v l. l\<lparr>cfNodeCount := v\<rparr>) buffer off n,
              repeatS cfNodeCount (readNode now buffer off n)]
             (0, \<lparr>cfSubsystem = subsystem, cfNodeCount = 0, cfComponentCount = 0, cfNode = jausNodeCreate now,
                  cfAddress = jausAddressCreate\<lparr>addrSubsystem := addrSubsystem (source m)\<rparr>\<rparr>)))
         else Some (False, m))"

definition putComponent :: "nat \<Rightarrow> u32 \<Rightarrow> JausComponent \<Rightarrow> (nat \<times> bytes) stmt list" where
  "putComponent off n component =
     [putByte (Some (addrComponent (cmptAddress component))) off n,
      putByte (Some (addrInstance (cmptAddress component))) off n]"

definition putNode :: "nat \<Rightarrow> u32 \<Rightarrow> JausNode \<Rightarrow> (nat \<times> bytes) stmt list" where
  "putNode off n node =
     [putByte (Some (nodeId node)) off n, putByte (Some (of_nat (length (nodeComponents node)))) off n] @
     concat (map (putComponent off n) (nodeComponents node))"

definition reportConfiguration_dataSize :: "ReportConfigurationMessage \<Rightarrow> u32" where
  "reportConfiguration_dataSize m =
     1 + sum_list (map (\<lambda>node. 1 + 1 + of_nat (length (nodeComponents node)) * (1 + 1))
            (subsNodes (reportConfiguration_subsystem m)))"

definition reportConfiguration_dataToBuffer ::
    "ReportConfigurationMessage \<Rightarrow> bytes \<Rightarrow> nat \<Rightarrow> u32 \<Rightarrow> (nat \<times> bytes) exec" where
  "reportConfiguration_dataToBuffer m buffer off n =
     (if reportConfiguration_dataSize m \<le> n then finishW (runStmts
        ([putByte (Some (of_nat (length (subsNodes (reportConfiguration_subsystem m))))) off n] @
         concat (map (putNode off n) (subsNodes (reportConfiguration_subsystem m)))) (0, buffer))
      else Some (0, buffer))"

definition reportConfigurationMessageCreate :: "int \<Rightarrow> ReportConfigurationMessage" where
  "reportConfigurationMessageCreate now =
     (let m = reportConfiguration_dataInitialize now (JausHeader.extend (blankHeader JAUS_REPORT_CONFIGURATION 4080)
                (ReportConfigurationMessage.fields (jausSubsystemCreate now)))
      in m\<lparr>dataSize := reportConfiguration_dataSize m\<rparr>)"

definition reportConfigurationMessageFromBuffer ::
    "int \<Rightarrow> ReportConfigurationMessage \<Rightarrow> bytes \<Rightarrow> u32 \<Rightarrow> (bool \<times> ReportConfigurationMessage) exec" where
  "reportConfigurationMessageFromBuffer now = messageFromBuffer (reportConfiguration_dataFromBuffer now)"

definition reportConfigurationMessageSize :: "ReportConfigurationMessage \<Rightarrow> u32" where
  "reportConfigurationMessageSize = messageSize reportConfiguration_dataSize"

definition reportConfigurationMessageToBuffer ::
    "ReportConfigurationMessage \<Rightarrow> bytes \<Rightarrow> u32 \<Rightarrow> (bool \<times> ReportConfigurationMessage \<times> bytes) exec" where
  "reportConfigurationMessageToBuffer =
     messageToBuffer reportConfiguration_dataSize reportConfiguration_dataToBuffer"

definition reportConfigurationMessageFromJausMessage ::
    "int \<Rightarrow> ReportConfigurationMessage \<Rightarrow> JausMessage \<Rightarrow> ReportConfigurationMessage option exec" where
  "reportConfigurationMessageFromJausMessage now =
     messageFromJausMessage JAUS_REPORT_CONFIGURATION (reportConfiguration_dataFromBuffer now)"

definition reportConfigurationMessageToJausMessage :: "ReportConfigurationMessage \<Rightarrow> JausMessage exec" where
  "reportConfigurationMessageToJausMessage =
     messageToJausMessage reportConfiguration_dataSize reportConfiguration_dataToBuffer"

section \<open>The configuration on the wire\<close>

text \<open>What the report says of a subsystem: the node numbers with their components' numbers.\<close>

definition nodeConf :: "JausNode \<Rightarrow> u8 \<times> (u8 \<times> u8) list" where
  "nodeConf node = (nodeId node, map (\<lambda>c. (addrComponent (cmptAddress c), addrInstance (cmptAddress c))) (nodeComponents node))"

definition configuration :: "JausSubsystem \<Rightarrow> (u8 \<times> (u8 \<times> u8) list) list" where
  "configuration s = map nodeConf (subsNodes s)"

definition pairBytes :: "u8 \<times> u8 \<Rightarrow> bytes" where
  "pairBytes p = [fst p] @ [snd p]"

definition nodeBytes :: "u8 \<times> (u8 \<times> u8) list \<Rightarrow> bytes" where
  "nodeBytes c = [fst c] @ [of_nat (length (snd c))] @ concat (map pairBytes (snd c))"

definition configurationBytes :: "(u8 \<times> (u8 \<times> u8) list) list \<Rightarrow> bytes" where
  "configurationBytes c = [of_nat (length c)] @ concat (map nodeBytes c)"

lemma length_pairs: "length (concat (map pairBytes l)) = length l * 2"
  by (induction l) (simp_all add: pairBytes_def)

lemma reportConfiguration_size:
  "reportConfiguration_dataSize m = of_nat (length (configurationBytes (configuration (reportConfiguration_subsystem m))))"
proof -
  have "of_nat (length (nodeBytes (nodeConf node))) = (1 + 1 + of_nat (length (nodeComponents node)) * (1 + 1) :: u32)" for node
    by (simp add: nodeBytes_def nodeConf_def length_pairs del: map_map)
  then have "sum_list (map (\<lambda>node. 1 + 1 + of_nat (length (nodeComponents node)) * (1 + 1)) l) =
      (of_nat (length (concat (map nodeBytes (map nodeConf l)))) :: u32)" for l
    by (induction l) (simp_all del: of_nat_numeral)
  then show ?thesis by (simp add: reportConfiguration_dataSize_def configurationBytes_def configuration_def)
qed

lemma writes_component: "writes off n (putComponent off n c) (pairBytes (addrComponent (cmptAddress c), addrInstance (cmptAddress c)))"
  unfolding putComponent_def pairBytes_def fst_conv snd_conv by (intro writes_Cons writes_intros refl)

lemma writes_node: "writes off n (putNode off n node) (nodeBytes (nodeConf node))"
proof -
  have "writes off n [putByte (Some (nodeId node)) off n, putByte (Some (of_nat (length (nodeComponents node)))) off n]
      ([nodeId node] @ [of_nat (length (nodeComponents node))])"
    by (intro writes_Cons writes_intros refl)
  then have "writes off n (putNode off n node) (([nodeId node] @ [of_nat (length (nodeComponents node))]) @
      concat (map (\<lambda>c. pairBytes (addrComponent (cmptAddress c), addrInstance (cmptAddress c))) (nodeComponents node)))"
    unfolding putNode_def by (intro writes_append writes_concat writes_component)
  then show ?thesis by (simp add: nodeBytes_def nodeConf_def comp_def)
qed

lemma reportConfiguration_to:
  defines "bs \<equiv> \<lambda>m. configurationBytes (configuration (reportConfiguration_subsystem m))"
  assumes "off + length (bs m) \<le> length buf" "length (bs m) \<le> unat n"
  shows "reportConfiguration_dataToBuffer m buf off n =
    Some (length (bs m), take off buf @ bs m @ drop (off + length (bs m)) buf)"
proof -
  have "writes off n ([putByte (Some (of_nat (length (subsNodes (reportConfiguration_subsystem m))))) off n] @
         concat (map (putNode off n) (subsNodes (reportConfiguration_subsystem m))))
      ([of_nat (length (subsNodes (reportConfiguration_subsystem m)))] @
       concat (map (\<lambda>node. nodeBytes (nodeConf node)) (subsNodes (reportConfiguration_subsystem m))))"
    by (intro writes_append writes_concat writes_node writes_intros refl)
  then have "writes off n ([putByte (Some (of_nat (length (subsNodes (reportConfiguration_subsystem m))))) off n] @
         concat (map (putNode off n) (subsNodes (reportConfiguration_subsystem m)))) (bs m)"
    by (simp add: bs_def configurationBytes_def configuration_def comp_def)
  then show ?thesis
    unfolding reportConfiguration_dataToBuffer_def
    using assms(2,3) reportConfiguration_size [of m] by (intro to_lawI) (simp_all add: bs_def)
qed

text \<open>The tree the parser builds from a configuration.\<close>

definition parsedComponent :: "int \<Rightarrow> JausAddress \<Rightarrow> u8 \<times> u8 \<Rightarrow> JausComponent" where
  "parsedComponent now a p = (jausComponentCreate now)\<lparr>cmptAddress := a\<lparr>addrComponent := fst p, addrInstance := snd p\<rparr>\<rparr>"

definition parsedNode :: "int \<Rightarrow> JausAddress \<Rightarrow> u8 \<times> (u8 \<times> u8) list \<Rightarrow> JausNode" where
  "parsedNode now a c =
     (jausNodeCreate now)\<lparr>nodeId := fst c, nodeComponents := map (parsedComponent now (a\<lparr>addrNode := fst c\<rparr>)) (snd c),
                          nodeParent := Some (uint (addrSubsystem a))\<rparr>"

definition componentStep :: "int \<Rightarrow> u8 \<times> u8 \<Rightarrow> ConfigurationLocals \<Rightarrow> ConfigurationLocals" where
  "componentStep now p l =
     l\<lparr>cfAddress := (cfAddress l)\<lparr>addrComponent := fst p, addrInstance := snd p\<rparr>,
       cfNode := (cfNode l)\<lparr>nodeComponents := nodeComponents (cfNode l) @ [parsedComponent now (cfAddress l) p]\<rparr>\<rparr>"

definition nodeStep :: "int \<Rightarrow> u8 \<times> (u8 \<times> u8) list \<Rightarrow> ConfigurationLocals \<Rightarrow> ConfigurationLocals" where
  "nodeStep now c l =
     (let l1 = fold (componentStep now) (snd c)
                 (l\<lparr>cfAddress := (cfAddress l)\<lparr>addrNode := fst c\<rparr>,
                    cfNode := (jausNodeCreate now)\<lparr>nodeId := fst c, nodeParent := Some (subsId (cfSubsystem l))\<rparr>,
                    cfComponentCount := of_nat (length (snd c))\<rparr>)
      in l1\<lparr>cfSubsystem := (cfSubsystem l1)\<lparr>subsNodes := subsNodes (cfSubsystem l1) @ [cfNode l1]\<rparr>\<rparr>)"

lemma parsedComponent_address: "parsedComponent now (a\<lparr>addrComponent := x, addrInstance := y\<rparr>) p = parsedComponent now a p"
  by (simp add: parsedComponent_def)

lemma fold_componentStep:
  "cfSubsystem (fold (componentStep now) ps l) = cfSubsystem l"
  "cfNode (fold (componentStep now) ps l) =
     (cfNode l)\<lparr>nodeComponents := nodeComponents (cfNode l) @ map (parsedComponent now (cfAddress l)) ps\<rparr>"
  "addrSubsystem (cfAddress (fold (componentStep now) ps l)) = addrSubsystem (cfAddress l)"
  by (induction ps arbitrary: l) (simp_all add: componentStep_def parsedComponent_address)

lemma parsedNode_subsystem: "addrSubsystem a = addrSubsystem b \<Longrightarrow> parsedNode now a = parsedNode now b"
  by (auto simp: fun_eq_iff parsedNode_def parsedComponent_def intro!: map_cong)

lemma nodeStep_result:
  "addrSubsystem (cfAddress (nodeStep now c l)) = addrSubsystem (cfAddress l)"
  "subsId (cfSubsystem l) = uint (addrSubsystem (cfAddress l)) \<Longrightarrow> cfSubsystem (nodeStep now c l) =
    (cfSubsystem l)\<lparr>subsNodes := subsNodes (cfSubsystem l) @ [parsedNode now (cfAddress l) c]\<rparr>"
  by (simp_all add: nodeStep_def Let_def fold_componentStep parsedNode_def jausNodeCreate_def jausNodeUpdateTimestamp_def)

lemma fold_nodeStep:
  "subsId (cfSubsystem l) = uint (addrSubsystem (cfAddress l)) \<Longrightarrow> cfSubsystem (fold (nodeStep now) cs l) =
     (cfSubsystem l)\<lparr>subsNodes := subsNodes (cfSubsystem l) @ map (parsedNode now (cfAddress l)) cs\<rparr>"
proof (induction cs arbitrary: l)
  case Nil
  then show ?case by simp
next
  case (Cons c cs)
  then show ?case
    using parsedNode_subsystem [OF nodeStep_result(1) [of now c l], of now] by (simp add: nodeStep_result)
qed

lemma parses_component:
  assumes "off = length pre" "unat n = length D"
  shows "parses D (readComponent now (pre @ D @ post) off n) (pairBytes p @ rest) l rest (componentStep now p l)"
proof -
  let ?l = "l\<lparr>cfAddress := (cfAddress l)\<lparr>addrComponent := fst p\<rparr>\<rparr>"
  let ?m = "?l\<lparr>cfAddress := (cfAddress ?l)\<lparr>addrInstance := snd p\<rparr>\<rparr>"
  have "componentStep now p l = ?m\<lparr>cfNode := (cfNode ?m)\<lparr>nodeComponents :=
      nodeComponents (cfNode ?m) @ [(jausComponentCreate now)\<lparr>cmptAddress := cfAddress ?m\<rparr>]\<rparr>\<rparr>"
    by (simp add: componentStep_def parsedComponent_def)
  then show ?thesis
    unfolding readComponent_def pairBytes_def append_assoc
    by (simp only:) (rule parses_Cons [OF byte.parses_get [OF assms]], rule parses_Cons [OF byte.parses_get [OF assms]],
      rule parses_assign)
qed

lemma parses_node:
  assumes "off = length pre" "unat n = length D" "length (snd c) \<le> 255"
  shows "parses D (readNode now (pre @ D @ post) off n) (nodeBytes c @ rest) l rest (nodeStep now c l)"
proof -
  let ?k = "of_nat (length (snd c)) :: u8"
  let ?l = "l\<lparr>cfAddress := (cfAddress l)\<lparr>addrNode := fst c\<rparr>\<rparr>"
  let ?m = "?l\<lparr>cfNode := (jausNodeCreate now)\<lparr>nodeId := addrNode (cfAddress ?l), nodeParent := Some (subsId (cfSubsystem ?l))\<rparr>\<rparr>"
  let ?i = "?m\<lparr>cfComponentCount := ?k\<rparr>"
  let ?f = "fold (componentStep now) (snd c) ?i"
  have "unat ?k = length (snd c)" using assms(3) by (intro unat_of_nat_lt) simp
  then have k: "unat (cfComponentCount ?i) = length (snd c)" by simp
  have loop: "parses D [repeatS cfComponentCount (readComponent now (pre @ D @ post) off n)]
      (concat (map pairBytes (snd c)) @ rest) ?i rest ?f"
    by (rule parses_repeat, rule parses_component [OF assms(1,2)], rule k)
  have eq: "nodeStep now c l = ?f\<lparr>cfSubsystem := (cfSubsystem ?f)\<lparr>subsNodes := subsNodes (cfSubsystem ?f) @ [cfNode ?f]\<rparr>\<rparr>"
    by (simp add: nodeStep_def Let_def)
  show ?thesis
    unfolding readNode_def nodeBytes_def append_assoc eq
    by (rule parses_Cons, rule byte.parses_get [OF assms(1,2)], rule parses_Cons, rule parses_assign,
        rule parses_Cons, rule byte.parses_get [OF assms(1,2)], rule parses_Cons, rule loop, rule parses_assign)
qed

text \<open>A configuration the counting bytes can carry.\<close>

definition configurationOk :: "(u8 \<times> (u8 \<times> u8) list) list \<Rightarrow> bool" where
  "configurationOk c \<longleftrightarrow> length c \<le> 255 \<and> (\<forall>x \<in> set c. length (snd x) \<le> 255)"

lemma configurationBytes_bound:
  assumes "configurationOk c"
  shows "length (configurationBytes c) < 2 ^ 20"
proof -
  have "\<forall>x \<in> set c. length (snd x) \<le> 255 \<Longrightarrow> length (concat (map nodeBytes c)) \<le> length c * 512"
  proof (induction c)
    case (Cons x c)
    then show ?case using add_mono [of "length (nodeBytes x)" 512] by (simp add: nodeBytes_def length_pairs)
  qed simp
  then have "length (concat (map nodeBytes c)) \<le> 255 * 512"
    using assms unfolding configurationOk_def by (meson le_trans mult_le_mono1)
  then show ?thesis by (simp add: configurationBytes_def)
qed

lemma reportConfiguration_from:
  fixes m m0 :: ReportConfigurationMessage
  defines "c \<equiv> configuration (reportConfiguration_subsystem m)" and "n \<equiv> reportConfiguration_dataSize m"
    and "a \<equiv> jausAddressCreate\<lparr>addrSubsystem := addrSubsystem (source m0)\<rparr>"
  assumes "configurationOk c" "dataSize m0 = n"
  shows "reportConfiguration_dataFromBuffer now m0 (pre @ configurationBytes c @ post) (length pre) n =
    Some (True, m0\<lparr>reportConfiguration_subsystem :=
      (jausSubsystemCreate now)\<lparr>subsId := uint (addrSubsystem (source m0)), subsNodes := map (parsedNode now a) c\<rparr>\<rparr>)"
proof -
  let ?D = "configurationBytes c" and ?s = "(jausSubsystemCreate now)\<lparr>subsId := uint (addrSubsystem (source m0))\<rparr>"
  let ?x = "\<lparr>cfSubsystem = ?s, cfNodeCount = 0, cfComponentCount = 0, cfNode = jausNodeCreate now, cfAddress = a\<rparr>"
  let ?y = "?x\<lparr>cfNodeCount := of_nat (length c)\<rparr>" and ?b = "pre @ ?D @ post"
  have n: "unat n = length ?D"
    using configurationBytes_bound [OF assms(4)] by (simp add: n_def c_def reportConfiguration_size unat_of_nat_lt)
  have "unat (of_nat (length c) :: u8) = length c"
    using assms(4) by (intro unat_of_nat_lt) (simp add: configurationOk_def)
  then have y: "unat (cfNodeCount ?y) = length c" by simp
  have ok: "length (snd x) \<le> 255" if "x \<in> set c" for x using assms(4) that by (simp add: configurationOk_def)
  have D: "?D = [of_nat (length c)] @ concat (map nodeBytes c) @ []" by (simp add: configurationBytes_def)
  have loop: "parses ?D [repeatS cfNodeCount (readNode now ?b (length pre) n)] (concat (map nodeBytes c) @ []) ?y []
      (fold (nodeStep now) c ?y)"
    by (rule parses_repeat, rule parses_node [OF refl n ok], assumption, rule y)
  have "parses ?D [getByte (\<lambda>v l. l\<lparr>cfNodeCount := v\<rparr>) ?b (length pre) n,
      repeatS cfNodeCount (readNode now ?b (length pre) n)]
     ([of_nat (length c)] @ concat (map nodeBytes c) @ []) ?x [] (fold (nodeStep now) c ?y)"
    by (rule parses_Cons, rule byte.parses_get [OF refl n], rule loop)
  note fin = parses_finishR [OF this [folded D]]
  have "cfSubsystem (fold (nodeStep now) c ?y) = ?s\<lparr>subsNodes := map (parsedNode now a) c\<rparr>"
    by (simp add: fold_nodeStep a_def jausSubsystemCreate_def jausSubsystemUpdateTimestamp_def)
  then show ?thesis
    using assms(5) fin unfolding reportConfiguration_dataFromBuffer_def Let_def a_def by simp
qed

lemma configuration_parsed: "map nodeConf (map (parsedNode now a) c) = c"
  by (simp add: map_idI nodeConf_def parsedNode_def parsedComponent_def comp_def)

text \<open>Trees as the parser builds them are cloned exactly, up to the time stamps.\<close>

lemma clone_components:
  assumes "\<forall>c \<in> set cs. \<forall>s \<in> set (cmptServices c). serviceOk s" "\<forall>c \<in> set cs. distinct (map serviceType (cmptServices c))"
  shows "cloneComponents now cs = Some (map (jausComponentUpdateTimestamp now) cs)"
  using assms
  by (induction cs)
    (simp_all add: jausComponentClone_def jausServicesClone_ok jausComponentUpdateTimestamp_def)

lemma clone_parsed:
  "jausSubsystemClone now ((jausSubsystemCreate now)\<lparr>subsId := i, subsNodes := map (parsedNode now a) c\<rparr>) =
    Some ((jausSubsystemCreate now)\<lparr>subsId := i, subsNodes := map (parsedNode now a) c\<rparr>)"
proof -
  have "jausNodeClone now (parsedNode now a x) = Some (parsedNode now a x)" for x
  proof -
    have "cloneComponents now (nodeComponents (parsedNode now a x)) = Some (nodeComponents (parsedNode now a x))"
      using clone_components [of "nodeComponents (parsedNode now a x)" now]
      by (simp add: parsedNode_def parsedComponent_def jausComponentCreate_def jausComponentUpdateTimestamp_def comp_def)
    then show ?thesis
      by (simp add: jausNodeClone_def jausNodeUpdateTimestamp_def parsedNode_def jausNodeCreate_def)
  qed
  then have "cloneNodes now (map (parsedNode now a) c) = Some (map (parsedNode now a) c)"
    by (induction c) simp_all
  then show ?thesis
    by (simp add: jausSubsystemClone_def jausSubsystemUpdateTimestamp_def jausSubsystemCreate_def)
qed

lemma configuration_jaus:
  assumes "configurationOk (configuration (reportConfiguration_subsystem m))" "commandCode m = JAUS_REPORT_CONFIGURATION"
  shows "\<exists>jm r. reportConfigurationMessageToJausMessage m = Some jm \<and> length (dataBytes jm) = unat (dataSize jm) \<and> commandCode jm = JAUS_REPORT_CONFIGURATION \<and>
     reportConfigurationMessageFromJausMessage now junk jm = Some (Some r) \<and>
     configuration (reportConfiguration_subsystem r) = configuration (reportConfiguration_subsystem m) \<and>
     subsId (reportConfiguration_subsystem r) = uint (addrSubsystem (source m)) \<and>
     (\<forall>node \<in> set (subsNodes (reportConfiguration_subsystem r)). \<forall>c \<in> set (nodeComponents node).
        addrSubsystem (cmptAddress c) = addrSubsystem (source m) \<and> addrNode (cmptAddress c) = nodeId node) \<and>
     jausSubsystemClone now (reportConfiguration_subsystem r) = Some (reportConfiguration_subsystem r)"
proof -
  let ?c = "configuration (reportConfiguration_subsystem m)" and ?n = "reportConfiguration_dataSize m"
  let ?bs = "configurationBytes ?c"
  have n: "unat ?n = length ?bs"
    using configurationBytes_bound [OF assms(1)] by (simp add: reportConfiguration_size unat_of_nat_lt)
  have "reportConfiguration_dataToBuffer m (replicate (unat ?n) 0) 0 ?n = Some (length ?bs, ?bs)"
    using reportConfiguration_to [of 0 m "replicate (unat ?n) 0" ?n] n by simp
  note to = toJausMessage_lawI [where dSize = reportConfiguration_dataSize and dataTo = reportConfiguration_dataToBuffer and m = m,
    OF this reportConfiguration_size]
  let ?h = "copyHeader (m\<lparr>dataSize := ?n\<rparr>) junk"
  define a where "a = jausAddressCreate\<lparr>addrSubsystem := addrSubsystem (source m)\<rparr>"
  define t where "t = (jausSubsystemCreate now)\<lparr>subsId := uint (addrSubsystem (source m)), subsNodes := map (parsedNode now a) ?c\<rparr>"
  have fr: "reportConfiguration_dataFromBuffer now ?h ?bs 0 ?n = Some (True, ?h\<lparr>reportConfiguration_subsystem := t\<rparr>)"
    using reportConfiguration_from [OF assms(1), of ?h now "[]" "[]"] by (simp add: t_def a_def)
  have "configuration t = ?c" by (simp add: t_def configuration_def [of "_\<lparr>subsNodes := _\<rparr>"] configuration_parsed del: map_map)
  moreover have "subsId t = uint (addrSubsystem (source m))" by (simp add: t_def)
  moreover have "\<forall>node \<in> set (subsNodes t). \<forall>c \<in> set (nodeComponents node).
      addrSubsystem (cmptAddress c) = addrSubsystem (source m) \<and> addrNode (cmptAddress c) = nodeId node"
    by (auto simp: t_def a_def parsedNode_def parsedComponent_def)
  moreover have "jausSubsystemClone now t = Some t" unfolding t_def by (rule clone_parsed)
  ultimately show ?thesis
    using to fr n assms(2)
    by (simp add: reportConfigurationMessageToJausMessage_def reportConfigurationMessageFromJausMessage_def
        messageFromJausMessage_def)
qed

section \<open>Properties\<close>

text \<open>
  C36. A configuration report carries the tree: for a subsystem of at most 255 nodes with at most 255
  components each, the receiver of the generic message builds a subsystem with the number of the
  sender, the same node numbers and the same component and instance numbers in the same order, and
  every component it creates has the full address subsystem.node.component.instance; the clone the
  receiver keeps is equal to what was parsed.
\<close>

theorem configuration_roundtrip:
  assumes "configurationOk (configuration (reportConfiguration_subsystem m))" "commandCode m = JAUS_REPORT_CONFIGURATION"
  shows "\<exists>jm r. reportConfigurationMessageToJausMessage m = Some jm \<and> length (dataBytes jm) = unat (dataSize jm) \<and>
     reportConfigurationMessageFromJausMessage now junk jm = Some (Some r) \<and>
     configuration (reportConfiguration_subsystem r) = configuration (reportConfiguration_subsystem m) \<and>
     subsId (reportConfiguration_subsystem r) = uint (addrSubsystem (source m)) \<and>
     (\<forall>node \<in> set (subsNodes (reportConfiguration_subsystem r)). \<forall>c \<in> set (nodeComponents node).
        addrSubsystem (cmptAddress c) = addrSubsystem (source m) \<and> addrNode (cmptAddress c) = nodeId node) \<and>
     jausSubsystemClone now (reportConfiguration_subsystem r) = Some (reportConfiguration_subsystem r)"
  using configuration_jaus [OF assms, of now junk] by blast

theorem configuration_roundtrip_witness:
  "\<exists>m jm r. configuration (reportConfiguration_subsystem m) = [(2, [(33, 1), (38, 1)])] \<and>
     reportConfigurationMessageToJausMessage m = Some jm \<and>
     reportConfigurationMessageFromJausMessage 0 m jm = Some (Some r) \<and>
     configuration (reportConfiguration_subsystem r) = [(2, [(33, 1), (38, 1)])]"
proof -
  let ?s = "(jausSubsystemCreate 0)\<lparr>subsNodes := map (parsedNode 0 jausAddressCreate) [(2, [(33, 1), (38, 1)])]\<rparr>"
  let ?m = "(reportConfigurationMessageCreate 0)\<lparr>reportConfiguration_subsystem := ?s\<rparr>"
  have c: "configuration (reportConfiguration_subsystem ?m) = [(2, [(33, 1), (38, 1)])]"
    by (simp add: configuration_def nodeConf_def parsedNode_def parsedComponent_def)
  then have "configurationOk (configuration (reportConfiguration_subsystem ?m))"
    unfolding c by (simp add: configurationOk_def)
  moreover have "commandCode ?m = JAUS_REPORT_CONFIGURATION"
    by (simp add: reportConfigurationMessageCreate_def reportConfiguration_dataInitialize_def blankHeader_def
        JausHeader.extend_def Let_def)
  ultimately show ?thesis using configuration_roundtrip [of ?m 0 ?m] c by (intro exI [of _ ?m]) auto
qed

end
