(* ===== verification/ParseSafety.thy ===== *)
theory ParseSafety
  imports Configuration QueryMessages
begin

text \<open>
  Unpacking arbitrary bytes. The round trips say what the routines do with the bytes of a well-formed
  message; here is what they do with any others: as long as the claimed number of bytes is really there,
  no statement of a \<open>dataFromBuffer\<close> reads outside the buffer, because every conversion checks
  the bytes that are left and returns early.
\<close>

definition safeR :: "('m \<Rightarrow> bool) \<Rightarrow> u32 \<Rightarrow> (nat \<times> 'm) stmt list \<Rightarrow> bool" where
  "safeR I n cs \<longleftrightarrow> (\<forall>i m. i \<le> unat n \<longrightarrow> I m \<longrightarrow>
     (case runStmts cs (i, m) of Fault \<Rightarrow> False | Return (j, m') \<Rightarrow> I m' | Next (j, m') \<Rightarrow> j \<le> unat n \<and> I m'))"

lemma safeR_Nil: "safeR I n []"
  by (simp add: safeR_def)

lemma safeR_Cons:
  assumes "safeR I n [c]" "safeR I n cs"
  shows "safeR I n (c # cs)"
  unfolding safeR_def [of I n "c # cs"]
proof (intro allI impI)
  fix i m assume i: "i \<le> unat n" "I m"
  have single: "case c (i, m) of Fault \<Rightarrow> False | Return (j, m') \<Rightarrow> I m' | Next (j, m') \<Rightarrow> j \<le> unat n \<and> I m'"
    using assms(1) i unfolding safeR_def runStmts_single by blast
  show "case runStmts (c # cs) (i, m) of Fault \<Rightarrow> False | Return (j, m') \<Rightarrow> I m' | Next (j, m') \<Rightarrow> j \<le> unat n \<and> I m'"
  proof (cases "c (i, m)")
    case (Next s)
    obtain j m' where s: "s = (j, m')" by fastforce
    then have "j \<le> unat n" "I m'" using single Next by simp_all
    then show ?thesis using assms(2) Next s by (simp add: safeR_def)
  qed (use single in simp_all)
qed

lemma safeR_assign: "(\<And>m. I m \<Longrightarrow> I (f m)) \<Longrightarrow> safeR I n [assignS f]"
  by (simp add: safeR_def assignS_def)

lemma safeR_iter:
  assumes "safeR I n cs" "i \<le> unat n" "I m"
  shows "case iterS k cs (i, m) of Fault \<Rightarrow> False | Return (j, m') \<Rightarrow> I m' | Next (j, m') \<Rightarrow> j \<le> unat n \<and> I m'"
  using assms(2,3)
proof (induction k arbitrary: i m)
  case 0
  then show ?case by simp
next
  case (Suc k)
  have "case runStmts cs (i, m) of Fault \<Rightarrow> False | Return (j, m') \<Rightarrow> I m' | Next (j, m') \<Rightarrow> j \<le> unat n \<and> I m'"
    using assms(1) Suc.prems by (simp add: safeR_def)
  then show ?case using Suc.IH by (cases "runStmts cs (i, m)") auto
qed

lemma safeR_repeat: "safeR I n cs \<Longrightarrow> safeR I n [repeatS count cs]"
  unfolding safeR_def [of I n "[repeatS count cs]"] runStmts_single using safeR_iter [of I n cs] by (simp add: repeatS_def)

context wire_codec
begin

lemma safeR_get:
  assumes "off + unat n \<le> length buf" "\<And>v m. I m \<Longrightarrow> I (upd v m)"
  shows "safeR I n [getF (fromBuffer h) width upd buf off n]"
  unfolding safeR_def runStmts_single
proof (intro allI impI)
  fix i m assume i: "i \<le> unat n" and m: "I m"
  have "unat (of_nat i :: u32) = i" using i u32_bound [of n] by (intro unat_of_nat_lt) simp
  then have n: "unat (n - of_nat i) = unat n - i" using i by (simp add: unat_sub_if' word_le_nat_alt)
  show "case getF (fromBuffer h) width upd buf off n (i, m) of
      Fault \<Rightarrow> False | Return (j, m') \<Rightarrow> I m' | Next (j, m') \<Rightarrow> j \<le> unat n \<and> I m'"
  proof (cases "unat n - i < width")
    case True
    then show ?thesis using m by (simp add: getF_def from_spec n)
  next
    case False
    then have "memRead buf (off + i) width = Some (take width (drop (off + i) buf))" "i + width \<le> unat n"
      using assms(1) i by (simp_all add: memRead_def)
    then show ?thesis using False m assms(2) by (simp add: getF_def from_spec n)
  qed
qed

end

lemma safeR_all: "list_all (\<lambda>c. safeR I n [c]) cs \<Longrightarrow> safeR I n cs"
  by (induction cs) (simp_all add: safeR_Nil safeR_Cons)

lemma safeR_list: "list_all P (c # cs) = (P c \<and> list_all P cs)" "list_all P [] = True"
  by simp_all

lemmas safeR_intros = conjI TrueI byte.safeR_get ushort.safeR_get uinteger.safeR_get safeR_assign safeR_repeat

lemma safeR_finish: "safeR I n cs \<Longrightarrow> I m \<Longrightarrow> \<exists>ok m'. finishR (runStmts cs (0, m)) = Some (ok, m') \<and> I m'"
proof -
  assume a: "safeR I n cs" "I m"
  then have "case runStmts cs (0, m) of Fault \<Rightarrow> False | Return (j, m') \<Rightarrow> I m' | Next (j, m') \<Rightarrow> j \<le> unat n \<and> I m'"
    by (simp add: safeR_def)
  then show ?thesis by (cases "runStmts cs (0, m)") (auto simp: finishR_def)
qed

lemma guarded_finish: "safeR (\<lambda>m. True) n cs \<Longrightarrow> (if b then finishR (runStmts cs (0, m)) else Some (False, m)) \<noteq> None"
  using safeR_finish [of "\<lambda>m. True" n cs m] by auto

text \<open>A configuration report, whatever its bytes: the components it describes are fresh, without services.\<close>

definition bareComponents :: "ConfigurationLocals \<Rightarrow> bool" where
  "bareComponents l \<longleftrightarrow> (\<forall>node \<in> insert (cfNode l) (set (subsNodes (cfSubsystem l))).
     \<forall>c \<in> set (nodeComponents node). cmptServices c = [])"

lemma configuration_parse_safe:
  assumes "off + unat n \<le> length buf"
  shows "\<exists>ok m'. reportConfiguration_dataFromBuffer now m buf off n = Some (ok, m') \<and>
    (ok \<longrightarrow> (\<forall>node \<in> set (subsNodes (reportConfiguration_subsystem m')). \<forall>c \<in> set (nodeComponents node). cmptServices c = []))"
proof -
  have "safeR bareComponents n (readComponent now buf off n)"
    unfolding readComponent_def
    by (rule safeR_all, unfold safeR_list, intro safeR_intros assms)
      (auto simp: bareComponents_def jausComponentCreate_def jausComponentUpdateTimestamp_def)
  then have "safeR bareComponents n (readNode now buf off n)"
    unfolding readNode_def
    by (intro safeR_all, unfold safeR_list, intro safeR_intros assms)
      (auto simp: bareComponents_def jausNodeCreate_def jausNodeUpdateTimestamp_def)
  then have run: "safeR bareComponents n [getByte (\<lambda>v l. l\<lparr>cfNodeCount := v\<rparr>) buf off n, repeatS cfNodeCount (readNode now buf off n)]"
    by (intro safeR_all, unfold safeR_list, intro safeR_intros assms) (auto simp: bareComponents_def)
  have init: "bareComponents \<lparr>cfSubsystem = (jausSubsystemCreate now)\<lparr>subsId := i\<rparr>, cfNodeCount = 0, cfComponentCount = 0,
      cfNode = jausNodeCreate now, cfAddress = a\<rparr>" for i a
    by (simp add: bareComponents_def jausSubsystemCreate_def jausSubsystemUpdateTimestamp_def jausNodeCreate_def
        jausNodeUpdateTimestamp_def)
  show ?thesis
    using safeR_finish [OF run init, of "uint (addrSubsystem (source m))" "jausAddressCreate\<lparr>addrSubsystem := addrSubsystem (source m)\<rparr>"]
    by (cases "n = dataSize m")
      (auto simp: reportConfiguration_dataFromBuffer_def Let_def bareComponents_def simp del: runStmts.simps)
qed

lemma bare_clone:
  assumes "\<forall>node \<in> set (subsNodes s). \<forall>c \<in> set (nodeComponents node). cmptServices c = []"
  shows "\<exists>t. jausSubsystemClone now s = Some t"
proof -
  have "\<exists>l. cloneNodes now ns = Some l" if "\<forall>node \<in> set ns. \<forall>c \<in> set (nodeComponents node). cmptServices c = []" for ns
    using that by (induction ns) (auto simp: jausNodeClone_def clone_components)
  from this [OF assms] show ?thesis by (auto simp: jausSubsystemClone_def)
qed

text \<open>The messages the default processor unpacks.\<close>

lemma dataFromBuffer_safe:
  assumes "off + unat n \<le> length buf"
  shows "setComponentAuthority_dataFromBuffer m1 buf off n \<noteq> None"
    "requestComponentControl_dataFromBuffer m2 buf off n \<noteq> None"
    "noData_dataFromBuffer m3 buf off n \<noteq> None"
    "confirmServiceConnection_dataFromBuffer m4 buf off n \<noteq> None"
    "createServiceConnection_dataFromBuffer m5 buf off n \<noteq> None"
    "activateServiceConnection_dataFromBuffer m6 buf off n \<noteq> None"
    "suspendServiceConnection_dataFromBuffer m7 buf off n \<noteq> None"
    "terminateServiceConnection_dataFromBuffer m8 buf off n \<noteq> None"
    "reportServices_dataFromBuffer m9 buf off n \<noteq> None"
    "reportConfiguration_dataFromBuffer now m10 buf off n \<noteq> None"
proof -
  note defs = setComponentAuthority_dataFromBuffer_def requestComponentControl_dataFromBuffer_def
    confirmServiceConnection_dataFromBuffer_def createServiceConnection_dataFromBuffer_def
    activateServiceConnection_dataFromBuffer_def suspendServiceConnection_dataFromBuffer_def
    terminateServiceConnection_dataFromBuffer_def
  show "setComponentAuthority_dataFromBuffer m1 buf off n \<noteq> None"
    "requestComponentControl_dataFromBuffer m2 buf off n \<noteq> None"
    "confirmServiceConnection_dataFromBuffer m4 buf off n \<noteq> None"
    "createServiceConnection_dataFromBuffer m5 buf off n \<noteq> None"
    "activateServiceConnection_dataFromBuffer m6 buf off n \<noteq> None"
    "suspendServiceConnection_dataFromBuffer m7 buf off n \<noteq> None"
    "terminateServiceConnection_dataFromBuffer m8 buf off n \<noteq> None"
    unfolding defs
    by (rule guarded_finish [where n = n], rule safeR_all, unfold safeR_list, intro safeR_intros assms)+
  show "noData_dataFromBuffer m3 buf off n \<noteq> None" by (auto simp: noData_dataFromBuffer_def)
  have commands: "safeR (\<lambda>m. True) n [readCommands add buf off n]" for add
    unfolding readCommands_def
    by (rule safeR_repeat, rule safeR_all, unfold safeR_list, intro safeR_intros assms)
  have "safeR (\<lambda>m. True) n (readService buf off n)"
    unfolding readService_def by (rule safeR_all, unfold safeR_list, intro safeR_intros commands assms)
  then have "safeR (\<lambda>m. True) n [getByte (\<lambda>v l. l\<lparr>rsServiceCount := v\<rparr>) buf off n, assignS (\<lambda>l. l\<lparr>rsServices := []\<rparr>),
       repeatS rsServiceCount (readService buf off n)]"
    by (intro safeR_all, unfold safeR_list) (intro safeR_intros assms)
  from guarded_finish [OF this, where b = True] show "reportServices_dataFromBuffer m9 buf off n \<noteq> None"
    by (cases "n = dataSize m9") (simp_all add: reportServices_dataFromBuffer_def del: runStmts.simps not_None_eq)
  show "reportConfiguration_dataFromBuffer now m10 buf off n \<noteq> None"
    using configuration_parse_safe [OF assms, of now m10] by auto
qed

lemma fromJausMessage_safe:
  assumes "\<And>h. dataFrom h (dataBytes jm) 0 (dataSize jm) \<noteq> None"
  shows "messageFromJausMessage code dataFrom junk jm \<noteq> None"
  using assms [of "copyHeader jm junk"] by (auto simp: messageFromJausMessage_def)

end
