(* ===== verification/DefaultProcessor.thy ===== *)
theory DefaultProcessor
  imports NodeReceive ParseSafety CommandCodes
begin

text \<open>
  The default behaviour of a component towards a message
  (\<open>openjaus/src/libopenjaus/nodeManagerInterface/defaultJausMessageProcessor.c\<close>): the control
  authority, the component state, the service connections and the core queries.

  The component \<open>cmpt\<close> the processor is given is the one of the interface: every caller passes
  \<open>nmi->cmpt\<close>. The interface exists and has its manager of service connections, so the tests of
  these two pointers are left out. The subsystem behind \<open>cmpt->node\<close> is an argument of its own, \<^term>\<open>None\<close> when
  \<open>cmpt->node\<close> is a null pointer. The surroundings (the operating system's \<open>sendto\<close>, the node
  manager, the clocks and the contents of freshly allocated objects) are the record
  \<open>Surroundings\<close>.
\<close>

record Surroundings =
  envSend :: sendto
  envAsk :: "bytes \<Rightarrow> bytes"
  envNow :: real
  envClock :: int
  junkAuthority :: SetComponentAuthorityMessage
  junkRequest :: RequestComponentControlMessage
  junkRelease :: ReleaseComponentControlMessage
  junkConfirmSc :: ConfirmServiceConnectionMessage
  junkCreateSc :: CreateServiceConnectionMessage
  junkActivateSc :: ActivateServiceConnectionMessage
  junkSuspendSc :: SuspendServiceConnectionMessage
  junkTerminateSc :: TerminateServiceConnectionMessage
  junkConfiguration :: ReportConfigurationMessage
  junkQueryServices :: QueryServicesMessage

section \<open>Control of the component\<close>

abbreviation (input) JAUS_NODE_MANAGER :: u8 where "JAUS_NODE_MANAGER \<equiv> 1"

definition setState :: "NodeManagerInterface \<Rightarrow> int \<Rightarrow> NodeManagerInterface" where
  "setState nmi s = nmi\<lparr>cmpt := (cmpt nmi)\<lparr>cmptState := s\<rparr>\<rparr>"

definition setController :: "NodeManagerInterface \<Rightarrow> Controller \<Rightarrow> NodeManagerInterface" where
  "setController nmi c = nmi\<lparr>cmpt := (cmpt nmi)\<lparr>controller := c\<rparr>\<rparr>"

definition noController :: Controller where
  "noController = \<lparr>ctrlAddress = \<lparr>addrSubsystem = 0, addrNode = 0, addrComponent = 0, addrInstance = 0\<rparr>,
                   ctrlState = JAUS_UNDEFINED_STATE, ctrlAuthority = 0, ctrlActive = False\<rparr>"

definition rejectControl :: "NodeManagerInterface \<Rightarrow> JausAddress \<Rightarrow> RejectComponentControlMessage" where
  "rejectControl nmi dest =
     rejectComponentControlMessageCreate\<lparr>source := cmptAddress (cmpt nmi), destination := dest\<rparr>"

definition confirmControl :: "NodeManagerInterface \<Rightarrow> JausAddress \<Rightarrow> ConfirmComponentControlMessage" where
  "confirmControl nmi dest =
     confirmComponentControlMessageCreate\<lparr>source := cmptAddress (cmpt nmi), destination := dest,
       confirmComponentControl_responseCode := JAUS_CONTROL_ACCEPTED\<rparr>"

definition sendReject :: "sendto \<Rightarrow> NodeManagerInterface \<Rightarrow> JausAddress \<Rightarrow> NodeManagerInterface exec" where
  "sendReject os nmi dest = transmit os nmi (rejectComponentControlMessageToJausMessage (rejectControl nmi dest))"

definition sendConfirm :: "sendto \<Rightarrow> NodeManagerInterface \<Rightarrow> JausAddress \<Rightarrow> NodeManagerInterface exec" where
  "sendConfirm os nmi dest = transmit os nmi (confirmComponentControlMessageToJausMessage (confirmControl nmi dest))"

definition requestControl ::
    "sendto \<Rightarrow> NodeManagerInterface \<Rightarrow> JausAddress \<Rightarrow> u8 \<Rightarrow> NodeManagerInterface exec" where
  "requestControl os nmi src authorityCode =
     (let ctl = controller (cmpt nmi)
      in if ctrlActive ctl
         then (if authorityCode > ctrlAuthority ctl
               then do { nmi1 \<leftarrow> sendReject os nmi (ctrlAddress ctl);
                         nmi2 \<leftarrow> sendConfirm os nmi1 src;
                         Some (setController nmi2 ((controller (cmpt nmi2))\<lparr>ctrlAddress := src, ctrlAuthority := authorityCode\<rparr>)) }
               else if \<not> jausAddressEqual src (ctrlAddress ctl) then sendReject os nmi src
               else sendConfirm os nmi src)
         else do { nmi1 \<leftarrow> sendConfirm os nmi src;
                   Some (setController nmi1 ((controller (cmpt nmi1))\<lparr>ctrlAddress := src, ctrlAuthority := authorityCode,
                                                                     ctrlActive := True\<rparr>)) })"

section \<open>Answers to queries\<close>

definition answerAuthority :: "sendto \<Rightarrow> NodeManagerInterface \<Rightarrow> JausAddress \<Rightarrow> NodeManagerInterface exec" where
  "answerAuthority os nmi dest =
     transmit os nmi (reportComponentAuthorityMessageToJausMessage
       (reportComponentAuthorityMessageCreate\<lparr>source := cmptAddress (cmpt nmi), destination := dest,
          reportComponentAuthority_authorityCode := cmptAuthority (cmpt nmi)\<rparr>))"

definition answerStatus :: "sendto \<Rightarrow> NodeManagerInterface \<Rightarrow> JausAddress \<Rightarrow> NodeManagerInterface exec" where
  "answerStatus os nmi dest =
     transmit os nmi (reportComponentStatusMessageToJausMessage
       (reportComponentStatusMessageCreate\<lparr>source := cmptAddress (cmpt nmi), destination := dest,
          reportComponentStatus_primaryStatusCode := cmptState (cmpt nmi)\<rparr>))"

definition answerControl :: "sendto \<Rightarrow> NodeManagerInterface \<Rightarrow> JausAddress \<Rightarrow> NodeManagerInterface exec" where
  "answerControl os nmi dest =
     (let ctl = controller (cmpt nmi)
      in transmit os nmi (reportComponentControlMessageToJausMessage
           (reportComponentControlMessageCreate
             \<lparr>reportComponentControl_subsystemId := addrSubsystem (ctrlAddress ctl),
              reportComponentControl_nodeId := addrNode (ctrlAddress ctl),
              reportComponentControl_componentId := addrComponent (ctrlAddress ctl),
              reportComponentControl_instanceId := addrInstance (ctrlAddress ctl),
              reportComponentControl_authorityCode := ctrlAuthority ctl,
              source := cmptAddress (cmpt nmi), destination := dest\<rparr>)))"

text \<open>\<open>sprintf\<close> copies the name with its terminator into the field of 80 bytes.\<close>

definition answerIdentification :: "sendto \<Rightarrow> NodeManagerInterface \<Rightarrow> JausAddress \<Rightarrow> NodeManagerInterface exec" where
  "answerIdentification os nmi dest =
     do { name \<leftarrow> identification (cmpt nmi);
          field \<leftarrow> memWrite (reportIdentification_identification reportIdentificationMessageCreate) 0 (name @ [0]);
          transmit os nmi (reportIdentificationMessageToJausMessage
            (reportIdentificationMessageCreate\<lparr>source := cmptAddress (cmpt nmi), destination := dest,
               reportIdentification_identification := field, reportIdentification_queryType := 4\<rparr>)) }"

definition answerServices :: "sendto \<Rightarrow> NodeManagerInterface \<Rightarrow> JausAddress \<Rightarrow> NodeManagerInterface exec" where
  "answerServices os nmi dest =
     do { services \<leftarrow> jausServicesClone (cmptServices (cmpt nmi));
          transmit os nmi (reportServicesMessageToJausMessage
            (reportServicesMessageCreate\<lparr>destination := dest, source := cmptAddress (cmpt nmi),
               reportServices_jausServices := services\<rparr>)) }"

section \<open>A new configuration\<close>

definition newConfiguration ::
    "Surroundings \<Rightarrow> NodeManagerInterface \<Rightarrow> JausSubsystem option \<Rightarrow> ReportConfigurationMessage \<Rightarrow>
     (NodeManagerInterface \<times> JausSubsystem option) exec" where
  "newConfiguration env nmi subsystem reportConfMsg =
     do { old \<leftarrow> subsystem;
          clone \<leftarrow> jausSubsystemClone (envClock env) (reportConfiguration_subsystem reportConfMsg);
          nmi1 \<leftarrow> scManagerProcessUpdatedSubystem (envAsk env) nmi;
          let ctl = controller (cmpt nmi1);
          Some (if ctrlActive ctl \<and> nodeManagerVerifyAddress (envAsk env) (ctrlAddress ctl) = 0
                then setController nmi1 noController else nmi1, Some clone) }"

section \<open>The processor\<close>

text \<open>A handler that runs when the message could be unpacked.\<close>

definition onUnpacked :: "'m option exec \<Rightarrow> NodeManagerInterface \<Rightarrow> ('m \<Rightarrow> NodeManagerInterface exec) \<Rightarrow> NodeManagerInterface exec" where
  "onUnpacked m nmi f = do { r \<leftarrow> m; case r of None \<Rightarrow> Some nmi | Some x \<Rightarrow> f x }"

definition processMessage :: "Surroundings \<Rightarrow> NodeManagerInterface \<Rightarrow> JausMessage \<Rightarrow> NodeManagerInterface exec" where
  "processMessage env nmi message =
     (let code = commandCode message; os = envSend env; state = cmptState (cmpt nmi)
      in if code = JAUS_SET_COMPONENT_AUTHORITY
         then onUnpacked (setComponentAuthorityMessageFromJausMessage (junkAuthority env) message) nmi
                (\<lambda>m. Some (nmi\<lparr>cmpt := (cmpt nmi)\<lparr>cmptAuthority := setComponentAuthority_authorityCode m\<rparr>\<rparr>))
         else if code = JAUS_SHUTDOWN then Some (setState nmi JAUS_SHUTDOWN_STATE)
         else if code = JAUS_STANDBY
         then Some (if state = JAUS_READY_STATE then setState nmi JAUS_STANDBY_STATE else nmi)
         else if code = JAUS_RESUME
         then Some (if state = JAUS_STANDBY_STATE then setState nmi JAUS_READY_STATE else nmi)
         else if code = JAUS_RESET then Some (setState nmi JAUS_INITIALIZE_STATE)
         else if code = JAUS_SET_EMERGENCY then Some (setState nmi JAUS_EMERGENCY_STATE)
         else if code = JAUS_CLEAR_EMERGENCY then Some (setState nmi JAUS_STANDBY_STATE)
         else if code = JAUS_REQUEST_COMPONENT_CONTROL
         then onUnpacked (requestComponentControlMessageFromJausMessage (junkRequest env) message) nmi
                (\<lambda>m. requestControl os nmi (source message) (requestComponentControl_authorityCode m))
         else if code = JAUS_RELEASE_COMPONENT_CONTROL
         then onUnpacked (releaseComponentControlMessageFromJausMessage (junkRelease env) message) nmi
                (\<lambda>m. Some (setController nmi noController))
         else if code = JAUS_CONFIRM_SERVICE_CONNECTION
         then onUnpacked (confirmServiceConnectionMessageFromJausMessage (junkConfirmSc env) message) nmi
                (scManagerProcessConfirmScMessage os (envNow env) nmi)
         else if code = JAUS_CREATE_SERVICE_CONNECTION
         then onUnpacked (createServiceConnectionMessageFromJausMessage (junkCreateSc env) message) nmi
                (scManagerProcessCreateScMessage os True nmi)
         else if code = JAUS_ACTIVATE_SERVICE_CONNECTION
         then onUnpacked (activateServiceConnectionMessageFromJausMessage (junkActivateSc env) message) nmi
                (\<lambda>m. Some (scManagerProcessActivateScMessage True nmi m))
         else if code = JAUS_SUSPEND_SERVICE_CONNECTION
         then onUnpacked (suspendServiceConnectionMessageFromJausMessage (junkSuspendSc env) message) nmi
                (\<lambda>m. Some (scManagerProcessSuspendScMessage True nmi m))
         else if code = JAUS_TERMINATE_SERVICE_CONNECTION
         then onUnpacked (terminateServiceConnectionMessageFromJausMessage (junkTerminateSc env) message) nmi
                (\<lambda>m. Some (scManagerProcessTerminateScMessage nmi m))
         else if code = JAUS_QUERY_COMPONENT_AUTHORITY then answerAuthority os nmi (source message)
         else if code = JAUS_QUERY_COMPONENT_STATUS then answerStatus os nmi (source message)
         else if code = JAUS_QUERY_COMPONENT_CONTROL then answerControl os nmi (source message)
         else if code = JAUS_REPORT_HEARTBEAT_PULSE
         then Some (if addrSubsystem (source message) = addrSubsystem (cmptAddress (cmpt nmi)) \<and>
                       addrNode (source message) = addrNode (cmptAddress (cmpt nmi)) \<and>
                       addrComponent (source message) = JAUS_NODE_MANAGER
                    then nmi\<lparr>timestamp := envNow env\<rparr> else nmi)
         else if code = JAUS_QUERY_IDENTIFICATION then answerIdentification os nmi (source message)
         else if code = JAUS_QUERY_SERVICES
         then onUnpacked (queryServicesMessageFromJausMessage (junkQueryServices env) message) nmi
                (\<lambda>m. answerServices os nmi (source message))
         else Some nmi)"

definition defaultJausMessageProcessorNoDestroy ::
    "Surroundings \<Rightarrow> JausMessage option \<Rightarrow> NodeManagerInterface \<Rightarrow> JausSubsystem option \<Rightarrow>
     (NodeManagerInterface \<times> JausSubsystem option) exec" where
  "defaultJausMessageProcessorNoDestroy env msg nmi subsystem =
     (case msg of
        None \<Rightarrow> Some (nmi, subsystem)
      | Some message \<Rightarrow>
          if ctrlActive (controller (cmpt nmi)) \<and>
             \<not> jausAddressEqual (source message) (ctrlAddress (controller (cmpt nmi))) \<and>
             isRejectableCode (commandCode message)
          then Some (nmi, subsystem)
          else if commandCode message = JAUS_REPORT_CONFIGURATION
          then do { r \<leftarrow> reportConfigurationMessageFromJausMessage (envClock env) (junkConfiguration env) message;
                    case r of None \<Rightarrow> Some (nmi, subsystem)
                    | Some m \<Rightarrow> newConfiguration env nmi subsystem m }
          else do { nmi' \<leftarrow> processMessage env nmi message; Some (nmi', subsystem) })"

text \<open>The variant that frees the message afterwards.\<close>

definition defaultJausMessageProcessor ::
    "Surroundings \<Rightarrow> JausMessage option \<Rightarrow> NodeManagerInterface \<Rightarrow> JausSubsystem option \<Rightarrow>
     (NodeManagerInterface \<times> JausSubsystem option) exec" where
  "defaultJausMessageProcessor env msg nmi subsystem =
     defaultJausMessageProcessorNoDestroy env msg nmi subsystem"

section \<open>What sending leaves alone\<close>

lemma sendSingle_frame:
  "nodeManagerSendSingleMessage os nmi m = Some (r, nmi') \<Longrightarrow> \<exists>l. nmi' = nmi\<lparr>sent := l\<rparr>"
  by (cases nmi) (auto simp: nodeManagerSendSingleMessage_def Let_def split: if_splits Option.bind_splits prod.splits)

lemma sent_sent: "\<exists>l. nmi1 = nmi\<lparr>sent := l\<rparr> \<Longrightarrow> \<exists>l. nmi2 = nmi1\<lparr>sent := l\<rparr> \<Longrightarrow> \<exists>l. nmi2 = nmi\<lparr>sent := l\<rparr>"
  for nmi :: NodeManagerInterface
  by auto

lemma sendFragments_frame:
  "sendFragments os nmi m r b c = Some (nmi', x) \<Longrightarrow> \<exists>l. nmi' = nmi\<lparr>sent := l\<rparr>"
proof (induction os nmi m r b c arbitrary: nmi' x rule: sendFragments.induct)
  case (1 os nmi m r b c)
  show ?case
  proof (cases "r > JAUS_MAX_DATA_SIZE_BYTES")
    case True
    let ?f = "if c + 1 = 1 then JAUS_FIRST_DATA_PACKET else JAUS_NORMAL_DATA_PACKET"
    from 1(2) True obtain d s n1 where d: "memRead (dataBytes m) (unat b) 4080 = Some d"
      and n1: "nodeManagerSendSingleMessage os nmi (fragmentMessage m c ?f JAUS_MAX_DATA_SIZE_BYTES d) = Some (s, n1)"
      and rest: "sendFragments os n1 m (r - JAUS_MAX_DATA_SIZE_BYTES) (b + JAUS_MAX_DATA_SIZE_BYTES) (c + 1) = Some (nmi', x)"
      by (subst (asm) sendFragments.simps) (auto simp: Let_def split: Option.bind_splits prod.splits)
    show ?thesis using 1(1) [OF True d refl n1 refl rest] sendSingle_frame [OF n1] sent_sent by blast
  next
    case False
    then have "nmi' = nmi" using 1(2) by (subst (asm) sendFragments.simps) simp
    then show ?thesis by (intro exI [of _ "sent nmi"]) simp
  qed
qed

lemma transmit_frame:
  assumes "transmit os nmi x = Some nmi'"
  shows "\<exists>l. nmi' = nmi\<lparr>sent := l\<rparr>"
proof -
  from assms obtain m r where "nodeManagerSend os nmi m = Some (r, nmi')"
    by (auto simp: transmit_def split: Option.bind_splits prod.splits)
  then consider "nmi' = nmi" | "nodeManagerSendSingleMessage os nmi m = Some (r, nmi')"
    | n1 y d f where "sendFragments os nmi m (dataSize m) 0 0 = Some (n1, y)"
      "nodeManagerSendSingleMessage os n1 f = Some (r, nmi')"
    by (auto simp: nodeManagerSend_def lmHandlerSendLargeMessage_def split: if_splits Option.bind_splits prod.splits)
  then show ?thesis
  proof cases
    case 1
    then show ?thesis by (intro exI [of _ "sent nmi"]) simp
  qed (use sendSingle_frame sendFragments_frame sent_sent in blast)+
qed

text \<open>Everything but the connections and the datagrams.\<close>

definition sameRest :: "NodeManagerInterface \<Rightarrow> NodeManagerInterface \<Rightarrow> bool" where
  "sameRest n n' \<longleftrightarrow> cmpt n' = cmpt n \<and> isOpen n' = isOpen n \<and> receiveQueue n' = receiveQueue n \<and> lmh n' = lmh n"

lemma transmit_rest: "transmit os nmi x = Some nmi' \<Longrightarrow> sameRest nmi nmi' \<and> scm nmi' = scm nmi"
  using transmit_frame [of os nmi x nmi'] by (auto simp: sameRest_def)

lemma transmit_cmpt: "transmit os nmi x = Some nmi' \<Longrightarrow> cmpt nmi' = cmpt nmi"
  using transmit_rest by (simp add: sameRest_def)

lemma sc_rest:
  "scManagerProcessConfirmScMessage os now nmi m1 = Some nmi' \<Longrightarrow> sameRest nmi nmi'"
  "scManagerProcessCreateScMessage os ok nmi m2 = Some nmi' \<Longrightarrow> sameRest nmi nmi'"
  "sameRest nmi (scManagerProcessActivateScMessage ok nmi m3)"
  "sameRest nmi (scManagerProcessSuspendScMessage ok nmi m4)"
  "sameRest nmi (scManagerProcessTerminateScMessage nmi m5)"
  "scManagerProcessUpdatedSubystem ask nmi = Some nmi' \<Longrightarrow> sameRest nmi nmi'"
proof -
  show "sameRest nmi nmi'" if "scManagerProcessConfirmScMessage os now nmi m1 = Some nmi'"
    using that transmit_rest [of os nmi _ nmi']
    by (auto simp: scManagerProcessConfirmScMessage_def storeSc_def unlinkSc_def Let_def sameRest_def
        split: if_splits option.splits Option.bind_splits prod.splits)
  show "sameRest nmi nmi'" if "scManagerProcessCreateScMessage os ok nmi m2 = Some nmi'"
    using that
    by (auto simp: scManagerProcessCreateScMessage_def refuseSc_def Let_def sameRest_def
        split: if_splits option.splits Option.bind_splits prod.splits)
  show "sameRest nmi (scManagerProcessActivateScMessage ok nmi m3)"
    "sameRest nmi (scManagerProcessSuspendScMessage ok nmi m4)"
    by (auto simp: scManagerProcessActivateScMessage_def scManagerProcessSuspendScMessage_def setActive_def sameRest_def
        split: option.split)
  show "sameRest nmi (scManagerProcessTerminateScMessage nmi m5)"
    by (auto simp: scManagerProcessTerminateScMessage_def Let_def sameRest_def split: option.split)
  show "sameRest nmi nmi'" if "scManagerProcessUpdatedSubystem ask nmi = Some nmi'"
    using that by (auto simp: scManagerProcessUpdatedSubystem_def Let_def sameRest_def split: Option.bind_splits prod.splits)
qed

lemma sc_cmpt:
  "scManagerProcessConfirmScMessage os now nmi m1 = Some nmi' \<Longrightarrow> cmpt nmi' = cmpt nmi"
  "scManagerProcessCreateScMessage os ok nmi m2 = Some nmi' \<Longrightarrow> cmpt nmi' = cmpt nmi"
  "cmpt (scManagerProcessActivateScMessage ok nmi m3) = cmpt nmi"
  "cmpt (scManagerProcessSuspendScMessage ok nmi m4) = cmpt nmi"
  "cmpt (scManagerProcessTerminateScMessage nmi m5) = cmpt nmi"
  "scManagerProcessUpdatedSubystem ask nmi = Some nmi' \<Longrightarrow> cmpt nmi' = cmpt nmi"
  using sc_rest by (simp_all add: sameRest_def)

section \<open>The effect of a message on the component\<close>

text \<open>The transitions of the component state, and the messages a controlled component obeys.\<close>

definition stateAfter :: "u16 \<Rightarrow> int \<Rightarrow> int" where
  "stateAfter code state =
     (if code = JAUS_SHUTDOWN then JAUS_SHUTDOWN_STATE
      else if code = JAUS_STANDBY then (if state = JAUS_READY_STATE then JAUS_STANDBY_STATE else state)
      else if code = JAUS_RESUME then (if state = JAUS_STANDBY_STATE then JAUS_READY_STATE else state)
      else if code = JAUS_RESET then JAUS_INITIALIZE_STATE
      else if code = JAUS_SET_EMERGENCY then JAUS_EMERGENCY_STATE
      else if code = JAUS_CLEAR_EMERGENCY then JAUS_STANDBY_STATE
      else state)"

definition permitted :: "JausComponent \<Rightarrow> JausAddress \<Rightarrow> bool" where
  "permitted c src \<longleftrightarrow> \<not> ctrlActive (controller c) \<or> src = ctrlAddress (controller c)"

definition sameIdentity :: "JausComponent \<Rightarrow> JausComponent \<Rightarrow> bool" where
  "sameIdentity c d \<longleftrightarrow> cmptAddress d = cmptAddress c \<and> identification d = identification c \<and> cmptServices d = cmptServices c"

lemma requestControl_cmpt:
  assumes "requestControl os nmi src a = Some nmi'"
  shows "cmpt nmi' = cmpt nmi \<or> (ctrlActive (controller (cmpt nmi)) \<longrightarrow> ctrlAuthority (controller (cmpt nmi)) < a) \<and>
    cmpt nmi' = (cmpt nmi)\<lparr>controller := (controller (cmpt nmi))\<lparr>ctrlAddress := src, ctrlAuthority := a, ctrlActive := True\<rparr>\<rparr>"
proof -
  have s: "cmpt n' = cmpt n" if "sendReject os n d = Some n' \<or> sendConfirm os n d = Some n'" for n n' d
    using that transmit_cmpt by (auto simp: sendReject_def sendConfirm_def)
  show ?thesis
    using assms
    by (auto simp: requestControl_def Let_def setController_def dest!: disjI1 [THEN s] disjI2 [THEN s]
        split: if_splits Option.bind_splits)
qed

text \<open>
  What any handler does to the component: the state follows the table, the authority
  is only set by its command, the controller only changes by a request or a release.
\<close>

definition obeys :: "JausMessage \<Rightarrow> JausComponent \<Rightarrow> JausComponent \<Rightarrow> bool" where
  "obeys m c d \<longleftrightarrow>
     sameIdentity c d \<and> cmptState d = stateAfter (commandCode m) (cmptState c) \<and>
     (cmptAuthority d = cmptAuthority c \<or> commandCode m = JAUS_SET_COMPONENT_AUTHORITY) \<and>
     (controller d = controller c \<or>
      commandCode m = JAUS_REQUEST_COMPONENT_CONTROL \<and>
        (\<exists>a. (ctrlActive (controller c) \<longrightarrow> ctrlAuthority (controller c) < a) \<and>
             controller d = (controller c)\<lparr>ctrlAddress := source m, ctrlAuthority := a, ctrlActive := True\<rparr>) \<or>
      commandCode m = JAUS_RELEASE_COMPONENT_CONTROL \<and> controller d = noController)"

lemma obeys_same:
  "stateAfter (commandCode m) (cmptState c) = cmptState c \<Longrightarrow> obeys m c c"
  by (simp add: obeys_def sameIdentity_def)

lemma answers_cmpt:
  "answerAuthority os nmi d = Some nmi' \<Longrightarrow> cmpt nmi' = cmpt nmi" "answerStatus os nmi d = Some nmi' \<Longrightarrow> cmpt nmi' = cmpt nmi"
  "answerControl os nmi d = Some nmi' \<Longrightarrow> cmpt nmi' = cmpt nmi" "answerIdentification os nmi d = Some nmi' \<Longrightarrow> cmpt nmi' = cmpt nmi"
  "answerServices os nmi d = Some nmi' \<Longrightarrow> cmpt nmi' = cmpt nmi"
  by (auto simp: answerAuthority_def answerStatus_def answerControl_def answerIdentification_def answerServices_def Let_def
      split: Option.bind_splits dest: transmit_cmpt)

lemma onUnpacked_cases:
  assumes "onUnpacked x nmi f = Some nmi'"
  obtains "nmi' = nmi" | m where "x = Some (Some m)" "f m = Some nmi'"
  using assms by (auto simp: onUnpacked_def split: Option.bind_splits option.splits)

lemma processMessage_obeys:
  assumes "processMessage env nmi m = Some nmi'"
  shows "obeys m (cmpt nmi) (cmpt nmi')"
proof -
  let ?c = "commandCode m"
  consider "?c = JAUS_SET_COMPONENT_AUTHORITY" | "?c = JAUS_SHUTDOWN" | "?c = JAUS_STANDBY" | "?c = JAUS_RESUME"
    | "?c = JAUS_RESET" | "?c = JAUS_SET_EMERGENCY" | "?c = JAUS_CLEAR_EMERGENCY" | "?c = JAUS_REQUEST_COMPONENT_CONTROL"
    | "?c = JAUS_RELEASE_COMPONENT_CONTROL"
    | "?c \<notin> {JAUS_SET_COMPONENT_AUTHORITY, JAUS_SHUTDOWN, JAUS_STANDBY, JAUS_RESUME, JAUS_RESET, JAUS_SET_EMERGENCY,
         JAUS_CLEAR_EMERGENCY, JAUS_REQUEST_COMPONENT_CONTROL, JAUS_RELEASE_COMPONENT_CONTROL}"
    by blast
  then show ?thesis
  proof cases
    case 10
    then have s: "stateAfter ?c x = x" for x by (simp add: stateAfter_def)
    have "cmpt nmi' = cmpt nmi"
      using assms 10
      by (auto simp: processMessage_def Let_def sc_cmpt(3-5) elim!: onUnpacked_cases split: if_splits
          dest: sc_cmpt(1,2) answers_cmpt)
    then show ?thesis using s obeys_same by simp
  next
    case 8
    then have "onUnpacked (requestComponentControlMessageFromJausMessage (junkRequest env) m) nmi
        (\<lambda>x. requestControl (envSend env) nmi (source m) (requestComponentControl_authorityCode x)) = Some nmi'"
      using assms by (simp add: processMessage_def)
    then show ?thesis
    proof (cases rule: onUnpacked_cases)
      case 1
      then show ?thesis using 8 by (simp add: obeys_def sameIdentity_def stateAfter_def)
    next
      case (2 x)
      from requestControl_cmpt [OF 2(2)] show ?thesis using 8 by (auto simp: obeys_def sameIdentity_def stateAfter_def)
    qed
  qed (use assms in \<open>auto simp: processMessage_def Let_def obeys_def sameIdentity_def stateAfter_def setState_def setController_def
        elim!: onUnpacked_cases\<close>)
qed


lemma newConfiguration_cmpt:
  assumes "newConfiguration env nmi sub r = Some (nmi', sub')"
  shows "cmpt nmi' = cmpt nmi \<or> ctrlActive (controller (cmpt nmi)) \<and>
    nodeManagerVerifyAddress (envAsk env) (ctrlAddress (controller (cmpt nmi))) = 0 \<and>
    cmpt nmi' = (cmpt nmi)\<lparr>controller := noController\<rparr>"
  using assms
  by (auto simp: newConfiguration_def Let_def setController_def split: Option.bind_splits if_splits dest: sc_cmpt(6))

text \<open>The commands that touch the component are among those a controlled component rejects.\<close>

lemma rejectable_codes:
  "isRejectableCode JAUS_SET_COMPONENT_AUTHORITY" "isRejectableCode JAUS_SHUTDOWN" "isRejectableCode JAUS_STANDBY"
  "isRejectableCode JAUS_RESUME" "isRejectableCode JAUS_RESET" "isRejectableCode JAUS_SET_EMERGENCY"
  "isRejectableCode JAUS_CLEAR_EMERGENCY" "isRejectableCode JAUS_RELEASE_COMPONENT_CONTROL"
  by (simp_all add: isRejectableCode_def rejectableCommands_def)

lemma accepted_state: "\<not> isRejectableCode code \<Longrightarrow> stateAfter code s = s"
  using rejectable_codes by (auto simp: stateAfter_def)

section \<open>What a peer hears\<close>

text \<open>A typed message leaves as one datagram, from which the peer reads the fields back.\<close>

definition tells :: "JausMessage \<Rightarrow> JausAddress \<Rightarrow> JausAddress \<Rightarrow> u16 \<Rightarrow> bool" where
  "tells jm src dst code \<longleftrightarrow> source jm = src \<and> destination jm = dst \<and> commandCode jm = code"

definition hears :: "NodeManagerInterface \<Rightarrow> NodeManagerInterface exec \<Rightarrow> JausAddress \<Rightarrow> u16 \<Rightarrow> JausMessage \<Rightarrow> bool" where
  "hears nmi run dst code jm \<longleftrightarrow> run = Some (nmi\<lparr>sent := sent nmi @ map messageBytes (fragments jm)\<rparr>) \<and>
     tells jm (cmptAddress (cmpt nmi)) dst code"

context typed_message
begin

lemma answers:
  assumes "isOpen nmi" "dataFlag m < 0x10" "dSize m \<le> 4080" "commandCode m = code"
  shows "\<exists>jm. messageToJausMessage dSize dataTo m = Some jm \<and>
    transmit os nmi (messageToJausMessage dSize dataTo m) = Some (nmi\<lparr>sent := sent nmi @ [messageBytes jm]\<rparr>) \<and>
    tells jm (source m) (destination m) code \<and> fragments jm = [jm] \<and>
    messageFromJausMessage code dataFrom junk jm = Some (Some (withData (copyHeader (m\<lparr>dataSize := dSize m\<rparr>) junk) m))"
proof -
  obtain jm where jm: "messageToJausMessage dSize dataTo m = Some jm"
    "messageFromJausMessage code dataFrom junk jm = Some (Some (withData (copyHeader (m\<lparr>dataSize := dSize m\<rparr>) junk) m))"
    using jaus_roundtrip [OF assms(4)] by blast
  have "jm = (copyHeader m jausMessageCreate)\<lparr>dataSize := dSize m, data := Some (enc m)\<rparr>" using jm(1) toJausMessage by simp
  then show ?thesis
    using transmits [OF assms(2,3), of os nmi] jm assms
    by (intro exI [of _ jm]) (simp add: tells_def logSent_def fragments_def word_le_nat_alt)
qed

lemma heard:
  assumes "isOpen nmi" "dataFlag m < 0x10" "dSize m \<le> 4080" "commandCode m = code" "source m = cmptAddress (cmpt nmi)"
  shows "\<exists>jm. hears nmi (transmit os nmi (messageToJausMessage dSize dataTo m)) (destination m) code jm \<and>
    messageFromJausMessage code dataFrom junk jm = Some (Some (withData (copyHeader (m\<lparr>dataSize := dSize m\<rparr>) junk) m))"
proof -
  obtain jm where jm: "messageToJausMessage dSize dataTo m = Some jm"
    "transmit os nmi (messageToJausMessage dSize dataTo m) = Some (nmi\<lparr>sent := sent nmi @ [messageBytes jm]\<rparr>)"
    "tells jm (source m) (destination m) code" "fragments jm = [jm]"
    "messageFromJausMessage code dataFrom junk jm = Some (Some (withData (copyHeader (m\<lparr>dataSize := dSize m\<rparr>) junk) m))"
    using answers [OF assms(1-4), of os junk] by blast
  then show ?thesis using assms(5) by (intro exI [of _ jm]) (simp add: hears_def)
qed

end

lemma transmit_fragments:
  assumes "isOpen nmi" "dataFlag m < 0x10" "length (dataBytes m) = unat (dataSize m)"
  shows "transmit os nmi (Some m) = Some (nmi\<lparr>sent := sent nmi @ map messageBytes (fragments m)\<rparr>)"
proof (cases "4080 < unat (dataSize m)")
  case True
  then show ?thesis
    using lmHandlerSend_spec [OF assms(1) True assms(3), of os] by (auto simp: transmit_def fragments_def)
next
  case False
  then have "messageOk m" "dataSize m \<le> 4080"
    using assms by (simp_all add: messageOk_def headerFits_def word_less_nat_alt word_le_nat_alt)
  then show ?thesis using transmit_ok assms(1) False by (simp add: logSent_def fragments_def)
qed

lemma confirm_answers:
  assumes "isOpen nmi"
  shows "\<exists>jm. sendConfirm os nmi dst = Some (nmi\<lparr>sent := sent nmi @ [messageBytes jm]\<rparr>) \<and>
    tells jm (cmptAddress (cmpt nmi)) dst JAUS_CONFIRM_COMPONENT_CONTROL \<and>
    (\<exists>r. confirmComponentControlMessageFromJausMessage junk jm = Some (Some r) \<and>
         confirmComponentControl_responseCode r = JAUS_CONTROL_ACCEPTED)"
  using confirmComponentControl.answers [OF assms, of "confirmControl nmi dst" JAUS_CONFIRM_COMPONENT_CONTROL os junk]
  by (auto simp: sendConfirm_def confirmControl_def confirmComponentControlMessageCreate_def blankHeader_def
      confirmComponentControl_dataInitialize_def confirmComponentControl_dataSize_def JausHeader.extend_def
      confirmComponentControlMessageToJausMessage_def confirmComponentControlMessageFromJausMessage_def
      confirmComponentControl_withData_def ConfirmComponentControlMessage.fields_def)

lemma reject_answers:
  assumes "isOpen nmi"
  shows "\<exists>jm. sendReject os nmi dst = Some (nmi\<lparr>sent := sent nmi @ [messageBytes jm]\<rparr>) \<and>
    tells jm (cmptAddress (cmpt nmi)) dst JAUS_REJECT_COMPONENT_CONTROL"
  using noData.answers [OF assms, of "rejectControl nmi dst" JAUS_REJECT_COMPONENT_CONTROL os]
  by (auto simp: sendReject_def rejectControl_def rejectComponentControlMessageCreate_def blankHeader_def
      noData_dataInitialize_def noData_dataSize_def rejectComponentControlMessageToJausMessage_def)

lemma request_run:
  assumes "commandCode r = JAUS_REQUEST_COMPONENT_CONTROL" "requestComponentControlMessageToJausMessage r = Some m"
  shows "defaultJausMessageProcessorNoDestroy env (Some m) nmi sub =
    Option.bind (requestControl (envSend env) nmi (source r) (requestComponentControl_authorityCode r)) (\<lambda>n. Some (n, sub))"
proof -
  have "m = (copyHeader r jausMessageCreate)\<lparr>dataSize := requestComponentControl_dataSize r, data := Some (requestComponentControl_enc r)\<rparr>"
    using assms(2) requestComponentControl.toJausMessage by (simp add: requestComponentControlMessageToJausMessage_def)
  then have m: "commandCode m = JAUS_REQUEST_COMPONENT_CONTROL" "source m = source r" using assms(1) by simp_all
  obtain x where x: "requestComponentControlMessageFromJausMessage (junkRequest env) m = Some (Some x)"
    "requestComponentControl_authorityCode x = requestComponentControl_authorityCode r"
    using requestComponentControl.jaus_roundtrip [OF assms(1), of "junkRequest env"] assms(2)
    by (auto simp: requestComponentControlMessageToJausMessage_def requestComponentControlMessageFromJausMessage_def
        requestComponentControl_withData_def)
  have "\<not> isRejectableCode JAUS_REQUEST_COMPONENT_CONTROL" by (simp add: isRejectableCode_def rejectableCommands_def)
  then show ?thesis
    using x m by (simp add: defaultJausMessageProcessorNoDestroy_def processMessage_def onUnpacked_def)
qed

text \<open>The answers to queries.\<close>

lemma authority_answers:
  assumes "isOpen nmi"
  shows "\<exists>jm r. hears nmi (answerAuthority os nmi dst) dst JAUS_REPORT_COMPONENT_AUTHORITY jm \<and>
    reportComponentAuthorityMessageFromJausMessage junk jm = Some (Some r) \<and>
    reportComponentAuthority_authorityCode r = cmptAuthority (cmpt nmi)"
  using reportComponentAuthority.heard [OF assms, of "reportComponentAuthorityMessageCreate\<lparr>source := cmptAddress (cmpt nmi),
      destination := dst, reportComponentAuthority_authorityCode := cmptAuthority (cmpt nmi)\<rparr>"
      JAUS_REPORT_COMPONENT_AUTHORITY os junk]
  by (auto simp: answerAuthority_def reportComponentAuthorityMessageCreate_def reportComponentAuthority_dataInitialize_def
      blankHeader_def JausHeader.extend_def reportComponentAuthority_dataSize_def reportComponentAuthorityMessageToJausMessage_def
      reportComponentAuthorityMessageFromJausMessage_def reportComponentAuthority_withData_def
      ReportComponentAuthorityMessage.fields_def)

lemma status_answers:
  assumes "isOpen nmi"
  shows "\<exists>jm r. hears nmi (answerStatus os nmi dst) dst JAUS_REPORT_COMPONENT_STATUS jm \<and>
    reportComponentStatusMessageFromJausMessage junk jm = Some (Some r) \<and>
    reportComponentStatus_primaryStatusCode r = cmptState (cmpt nmi) mod 256"
proof -
  have "uint (word_of_int (cmptState (cmpt nmi)) :: u8) = cmptState (cmpt nmi) mod 256"
    by (simp add: uint_word_of_int)
  then show ?thesis
    using reportComponentStatus.heard [OF assms, of "reportComponentStatusMessageCreate\<lparr>source := cmptAddress (cmpt nmi),
        destination := dst, reportComponentStatus_primaryStatusCode := cmptState (cmpt nmi)\<rparr>"
        JAUS_REPORT_COMPONENT_STATUS os junk]
    by (auto simp: answerStatus_def reportComponentStatusMessageCreate_def reportComponentStatus_dataInitialize_def
        blankHeader_def JausHeader.extend_def reportComponentStatus_dataSize_def reportComponentStatusMessageToJausMessage_def
        reportComponentStatusMessageFromJausMessage_def reportComponentStatus_withData_def
        ReportComponentStatusMessage.fields_def)
qed

lemma control_answers:
  assumes "isOpen nmi"
  shows "\<exists>jm r. hears nmi (answerControl os nmi dst) dst JAUS_REPORT_COMPONENT_CONTROL jm \<and>
    reportComponentControlMessageFromJausMessage junk jm = Some (Some r) \<and>
    ctrlAddress (controller (cmpt nmi)) =
      \<lparr>addrSubsystem = reportComponentControl_subsystemId r, addrNode = reportComponentControl_nodeId r,
       addrComponent = reportComponentControl_componentId r, addrInstance = reportComponentControl_instanceId r\<rparr> \<and>
    ctrlAuthority (controller (cmpt nmi)) = reportComponentControl_authorityCode r"
proof -
  let ?ctl = "controller (cmpt nmi)"
  show ?thesis
    using reportComponentControl.heard [OF assms, of "reportComponentControlMessageCreate
             \<lparr>reportComponentControl_subsystemId := addrSubsystem (ctrlAddress ?ctl),
              reportComponentControl_nodeId := addrNode (ctrlAddress ?ctl),
              reportComponentControl_componentId := addrComponent (ctrlAddress ?ctl),
              reportComponentControl_instanceId := addrInstance (ctrlAddress ?ctl),
              reportComponentControl_authorityCode := ctrlAuthority ?ctl,
              source := cmptAddress (cmpt nmi), destination := dst\<rparr>" JAUS_REPORT_COMPONENT_CONTROL os junk]
    by (auto simp: answerControl_def Let_def reportComponentControlMessageCreate_def reportComponentControl_dataInitialize_def
        blankHeader_def JausHeader.extend_def reportComponentControl_dataSize_def reportComponentControlMessageToJausMessage_def
        reportComponentControlMessageFromJausMessage_def reportComponentControl_withData_def
        ReportComponentControlMessage.fields_def)
qed

lemma identification_answers:
  assumes "isOpen nmi" "identification (cmpt nmi) = Some name" "length name < 80" "0 \<notin> set name"
  shows "\<exists>jm. hears nmi (answerIdentification os nmi dst) dst JAUS_REPORT_IDENTIFICATION jm \<and>
    dataBytes jm = [4, 0, 0, 0] @ name @ replicate (80 - length name) 0"
proof -
  let ?f = "name @ 0 # replicate (79 - length name) 0"
  let ?m = "reportIdentificationMessageCreate\<lparr>source := cmptAddress (cmpt nmi), destination := dst,
       reportIdentification_identification := ?f, reportIdentification_queryType := 4\<rparr>"
  let ?jm = "(copyHeader ?m jausMessageCreate)\<lparr>dataSize := 84, data := Some (identificationBytes ?m name)\<rparr>"
  have create: "reportIdentification_identification reportIdentificationMessageCreate = replicate 80 0"
    "reportIdentification_authority reportIdentificationMessageCreate = 0" "reportIdentification_type reportIdentificationMessageCreate = 0"
    "commandCode reportIdentificationMessageCreate = JAUS_REPORT_IDENTIFICATION" "dataFlag reportIdentificationMessageCreate = 0"
    by (simp_all add: reportIdentificationMessageCreate_def reportIdentification_dataInitialize_def blankHeader_def
        JausHeader.extend_def ReportIdentificationMessage.fields_def)
  have "memWrite (replicate 80 0) 0 (name @ [0]) = Some ?f"
    using assms(3) by (simp add: memWrite_def)
  then have run: "answerIdentification os nmi dst = transmit os nmi (Some ?jm)"
    using identification_jaus [of ?m name "replicate (79 - length name) 0"] assms
    by (simp add: answerIdentification_def create)
  have "messageOk ?jm" "dataSize ?jm \<le> 4080"
    using assms(3) length_identificationBytes [of name ?m] create by (simp_all add: messageOk_def headerFits_def)
  moreover have "bytesOfWord 2 (0 :: u16) = [0, 0]" by (simp add: bytesOfWord_def numeral_2_eq_2)
  ultimately show ?thesis
    using transmit_ok [of ?jm os nmi] run assms(1) create
    by (intro exI [of _ ?jm]) (simp add: hears_def tells_def logSent_def fragments_def identificationBytes_def)
qed

lemma services_answers:
  assumes "isOpen nmi" "servicesOk (cmptServices (cmpt nmi))" "distinct (map serviceType (cmptServices (cmpt nmi)))"
  shows "\<exists>jm r. hears nmi (answerServices os nmi dst) dst JAUS_REPORT_SERVICES jm \<and>
    reportServicesMessageFromJausMessage junk jm = Some (Some r) \<and>
    reportServices_jausServices r = cmptServices (cmpt nmi)"
proof -
  let ?m = "reportServicesMessageCreate\<lparr>destination := dst, source := cmptAddress (cmpt nmi),
      reportServices_jausServices := cmptServices (cmpt nmi)\<rparr>"
  have create: "commandCode ?m = JAUS_REPORT_SERVICES" "dataFlag ?m = 0"
    by (simp_all add: reportServicesMessageCreate_def reportServices_dataInitialize_def blankHeader_def JausHeader.extend_def Let_def)
  obtain jm r where jm: "reportServicesMessageToJausMessage ?m = Some jm"
    "jm = (copyHeader ?m jausMessageCreate)\<lparr>dataSize := reportServices_dataSize ?m,
       data := Some (servicesBytes (reportServices_jausServices ?m))\<rparr>"
    "length (dataBytes jm) = unat (dataSize jm)"
    "reportServicesMessageFromJausMessage junk jm = Some (Some r)" "reportServices_jausServices r = cmptServices (cmpt nmi)"
    using services_jaus [of ?m junk] assms(2) create(1) by auto
  have "jausServicesClone (cmptServices (cmpt nmi)) = Some (cmptServices (cmpt nmi))"
    using assms(2,3) by (intro jausServicesClone_ok) (simp_all add: servicesOk_def)
  then have "answerServices os nmi dst = transmit os nmi (Some jm)" using jm(1) by (simp add: answerServices_def)
  moreover have "dataFlag jm < 0x10" "tells jm (cmptAddress (cmpt nmi)) dst JAUS_REPORT_SERVICES"
    using jm(2) create by (simp_all add: tells_def)
  ultimately show ?thesis
    using transmit_fragments [OF assms(1) _ jm(3), of os] jm(4,5)
    by (intro exI [of _ jm] exI [of _ r]) (simp add: hears_def)
qed

section \<open>No message can break the component\<close>

text \<open>
  What the processor relies on: a name that fits its field, and services whose counters are right and whose types
  differ.
\<close>

definition componentOk :: "JausComponent \<Rightarrow> bool" where
  "componentOk c \<longleftrightarrow> (\<exists>name. identification c = Some name \<and> length name < 80 \<and> 0 \<notin> set name) \<and>
     servicesOk (cmptServices c) \<and> distinct (map serviceType (cmptServices c))"

lemma sameIdentity_ok: "sameIdentity c d \<Longrightarrow> componentOk d = componentOk c"
  by (simp add: sameIdentity_def componentOk_def)

definition goodRun :: "NodeManagerInterface \<Rightarrow> NodeManagerInterface exec \<Rightarrow> bool" where
  "goodRun nmi run \<longleftrightarrow> (\<exists>n. run = Some n \<and> isOpen n = isOpen nmi \<and> receiveQueue n = receiveQueue nmi \<and> lmh n = lmh nmi \<and> scOk (scm n))"

lemma goodRun_if: "goodRun nmi x \<Longrightarrow> goodRun nmi y \<Longrightarrow> goodRun nmi (if b then x else y)"
  by simp

lemma goodRun_rest: "sameRest nmi n \<Longrightarrow> scOk (scm n) \<Longrightarrow> goodRun nmi (Some n)"
  by (simp add: goodRun_def sameRest_def)

lemma goodRun_unpacked:
  "x \<noteq> None \<Longrightarrow> scOk (scm nmi) \<Longrightarrow> (\<And>m. goodRun nmi (f m)) \<Longrightarrow> goodRun nmi (onUnpacked x nmi f)"
  by (auto simp: onUnpacked_def goodRun_def split: option.split)

lemma goodRun_heard: "hears nmi run dst code jm \<Longrightarrow> scOk (scm nmi) \<Longrightarrow> goodRun nmi run"
  by (simp add: hears_def goodRun_def)

lemma goodRun_answers:
  assumes "isOpen nmi" "scOk (scm nmi)"
  shows "goodRun nmi (answerAuthority os nmi dst)" "goodRun nmi (answerStatus os nmi dst)" "goodRun nmi (answerControl os nmi dst)"
    "componentOk (cmpt nmi) \<Longrightarrow> goodRun nmi (answerIdentification os nmi dst)"
    "componentOk (cmpt nmi) \<Longrightarrow> goodRun nmi (answerServices os nmi dst)"
proof -
  note heard = goodRun_heard [OF _ assms(2)]
  show "goodRun nmi (answerAuthority os nmi dst)" "goodRun nmi (answerStatus os nmi dst)" "goodRun nmi (answerControl os nmi dst)"
    using authority_answers [OF assms(1)] status_answers [OF assms(1)] control_answers [OF assms(1)] heard by meson+
  assume ok: "componentOk (cmpt nmi)"
  show "goodRun nmi (answerIdentification os nmi dst)"
    using ok identification_answers [OF assms(1)] heard unfolding componentOk_def by meson
  show "goodRun nmi (answerServices os nmi dst)"
    using ok services_answers [OF assms(1)] heard unfolding componentOk_def by meson
qed

lemma goodRun_control:
  assumes "isOpen nmi" "scOk (scm nmi)"
  shows "goodRun nmi (requestControl os nmi src a)"
proof -
  have send: "\<exists>l. sendConfirm os n d = Some (n\<lparr>sent := l\<rparr>)" "\<exists>l. sendReject os n d = Some (n\<lparr>sent := l\<rparr>)" if "isOpen n" for n d
    using confirm_answers [OF that, of os d] reject_answers [OF that, of os d] by blast+
  obtain l1 l2 l3 where l: "sendConfirm os nmi src = Some (nmi\<lparr>sent := l1\<rparr>)" "sendReject os nmi src = Some (nmi\<lparr>sent := l2\<rparr>)"
    "sendReject os nmi (ctrlAddress (controller (cmpt nmi))) = Some (nmi\<lparr>sent := l3\<rparr>)"
    using send [OF assms(1)] by meson
  obtain l4 where "sendConfirm os (nmi\<lparr>sent := l3\<rparr>) src = Some (nmi\<lparr>sent := l4\<rparr>)"
    using send(1) [of "nmi\<lparr>sent := l3\<rparr>" src] assms(1) by auto
  then show ?thesis using l assms(2) by (auto simp: requestControl_def Let_def goodRun_def setController_def)
qed

lemma goodRun_sc:
  assumes "scOk (scm nmi)"
  shows "goodRun nmi (scManagerProcessConfirmScMessage os now nmi m1)" "goodRun nmi (scManagerProcessCreateScMessage os ok nmi m2)"
    "goodRun nmi (Some (scManagerProcessActivateScMessage ok nmi m3))" "goodRun nmi (Some (scManagerProcessSuspendScMessage ok nmi m4))"
    "goodRun nmi (Some (scManagerProcessTerminateScMessage nmi m5))" "goodRun nmi (scManagerProcessUpdatedSubystem ask nmi)"
proof -
  have step: "goodRun nmi (scManagerStep os e nmi)"
    if "scEnabled e nmi" "\<And>n. scManagerStep os e nmi = Some n \<Longrightarrow> sameRest nmi n" for e
    using scManagerStep_ok [OF assms that(1), of os] that(2) by (auto simp: goodRun_def sameRest_def)
  show "goodRun nmi (scManagerProcessConfirmScMessage os now nmi m1)" "goodRun nmi (scManagerProcessCreateScMessage os ok nmi m2)"
    "goodRun nmi (Some (scManagerProcessActivateScMessage ok nmi m3))" "goodRun nmi (Some (scManagerProcessSuspendScMessage ok nmi m4))"
    "goodRun nmi (Some (scManagerProcessTerminateScMessage nmi m5))" "goodRun nmi (scManagerProcessUpdatedSubystem ask nmi)"
    using step [of "PeerConfirm now m1"] step [of "PeerCreate ok m2"] step [of "PeerActivate ok m3"] step [of "PeerSuspend ok m4"]
      step [of "PeerTerminate m5"] step [of "SubsystemUpdated ask"] sc_rest by auto
qed

lemma unpacks:
  assumes "length (dataBytes m) = unat (dataSize m)"
  shows "setComponentAuthorityMessageFromJausMessage j1 m \<noteq> None" "requestComponentControlMessageFromJausMessage j2 m \<noteq> None"
    "releaseComponentControlMessageFromJausMessage j3 m \<noteq> None" "confirmServiceConnectionMessageFromJausMessage j4 m \<noteq> None"
    "createServiceConnectionMessageFromJausMessage j5 m \<noteq> None" "activateServiceConnectionMessageFromJausMessage j6 m \<noteq> None"
    "suspendServiceConnectionMessageFromJausMessage j7 m \<noteq> None" "terminateServiceConnectionMessageFromJausMessage j8 m \<noteq> None"
    "queryServicesMessageFromJausMessage j9 m \<noteq> None"
proof -
  have len: "0 + unat (dataSize m) \<le> length (dataBytes m)" using assms by simp
  show "setComponentAuthorityMessageFromJausMessage j1 m \<noteq> None" "requestComponentControlMessageFromJausMessage j2 m \<noteq> None"
    "releaseComponentControlMessageFromJausMessage j3 m \<noteq> None" "confirmServiceConnectionMessageFromJausMessage j4 m \<noteq> None"
    "createServiceConnectionMessageFromJausMessage j5 m \<noteq> None" "activateServiceConnectionMessageFromJausMessage j6 m \<noteq> None"
    "suspendServiceConnectionMessageFromJausMessage j7 m \<noteq> None" "terminateServiceConnectionMessageFromJausMessage j8 m \<noteq> None"
    "queryServicesMessageFromJausMessage j9 m \<noteq> None"
    unfolding setComponentAuthorityMessageFromJausMessage_def requestComponentControlMessageFromJausMessage_def
      releaseComponentControlMessageFromJausMessage_def confirmServiceConnectionMessageFromJausMessage_def
      createServiceConnectionMessageFromJausMessage_def activateServiceConnectionMessageFromJausMessage_def
      suspendServiceConnectionMessageFromJausMessage_def terminateServiceConnectionMessageFromJausMessage_def
      queryServicesMessageFromJausMessage_def
    by (intro fromJausMessage_safe dataFromBuffer_safe [OF len])+
qed

lemma configuration_cloneable:
  assumes "length (dataBytes m) = unat (dataSize m)" "reportConfigurationMessageFromJausMessage now junk m = Some (Some r)"
  shows "\<exists>t. jausSubsystemClone clock (reportConfiguration_subsystem r) = Some t"
proof -
  obtain ok m' where p: "reportConfiguration_dataFromBuffer now (copyHeader m junk) (dataBytes m) 0 (dataSize m) = Some (ok, m')"
    "ok \<longrightarrow> (\<forall>node \<in> set (subsNodes (reportConfiguration_subsystem m')). \<forall>c \<in> set (nodeComponents node). cmptServices c = [])"
    using configuration_parse_safe [of 0 "dataSize m" "dataBytes m" now "copyHeader m junk"] assms(1) by auto
  then have "ok \<and> m' = r"
    using assms(2) by (simp add: reportConfigurationMessageFromJausMessage_def messageFromJausMessage_def split: if_splits)
  then show ?thesis using p(2) bare_clone by blast
qed

lemma goodRun_process:
  assumes "isOpen nmi" "scOk (scm nmi)" "componentOk (cmpt nmi)" "length (dataBytes m) = unat (dataSize m)"
  shows "goodRun nmi (processMessage env nmi m)"
proof -
  have self: "goodRun nmi (Some (setState nmi s))" "goodRun nmi (Some (setController nmi c))" "goodRun nmi (Some nmi)"
    "goodRun nmi (Some (nmi\<lparr>cmpt := d\<rparr>))" "goodRun nmi (Some (nmi\<lparr>timestamp := t\<rparr>))" for s c d t
    using assms(2) by (simp_all add: goodRun_def setState_def setController_def)
  have choose: "goodRun nmi (Some (if b then n else n'))" if "goodRun nmi (Some n)" "goodRun nmi (Some n')" for b n n'
    using that by simp
  show ?thesis
    unfolding processMessage_def Let_def
    by (intro goodRun_if choose self goodRun_unpacked unpacks [OF assms(4)] assms(2) goodRun_control [OF assms(1,2)]
        goodRun_sc [OF assms(2)] goodRun_answers [OF assms(1,2)] assms(3))
qed

lemma processor_ok:
  fixes nmi :: NodeManagerInterface
  assumes "isOpen nmi" "scOk (scm nmi)" "componentOk (cmpt nmi)" "length (dataBytes m) = unat (dataSize m)"
    "sub \<noteq> None \<or> commandCode m \<noteq> JAUS_REPORT_CONFIGURATION"
  shows "\<exists>nmi' sub'. defaultJausMessageProcessorNoDestroy env (Some m) nmi sub = Some (nmi', sub') \<and>
    isOpen nmi' \<and> scOk (scm nmi') \<and> componentOk (cmpt nmi') \<and> receiveQueue nmi' = receiveQueue nmi \<and> lmh nmi' = lmh nmi \<and>
    (sub' = None \<longleftrightarrow> sub = None)"
proof -
  have p: "\<exists>n. processMessage env nmi m = Some n \<and> isOpen n \<and> receiveQueue n = receiveQueue nmi \<and> lmh n = lmh nmi \<and>
      scOk (scm n) \<and> componentOk (cmpt n)"
    using goodRun_process [OF assms(1-4), of env] processMessage_obeys [of env nmi m] sameIdentity_ok assms(1,3)
    unfolding goodRun_def obeys_def by blast
  have c: "\<exists>n t. newConfiguration env nmi sub r = Some (n, Some t) \<and> isOpen n \<and> receiveQueue n = receiveQueue nmi \<and> lmh n = lmh nmi \<and>
      scOk (scm n) \<and> componentOk (cmpt n)"
    if parsed: "reportConfigurationMessageFromJausMessage (envClock env) (junkConfiguration env) m = Some (Some r)" "sub \<noteq> None" for r
  proof -
    obtain t where "jausSubsystemClone (envClock env) (reportConfiguration_subsystem r) = Some t"
      using configuration_cloneable [OF assms(4) parsed(1)] by blast
    moreover obtain n where "scManagerProcessUpdatedSubystem (envAsk env) nmi = Some n" "isOpen n" "receiveQueue n = receiveQueue nmi"
      "lmh n = lmh nmi" "scOk (scm n)" "cmpt n = cmpt nmi"
      using goodRun_sc(6) [OF assms(2), of "envAsk env"] assms(1) sc_cmpt(6) unfolding goodRun_def by blast
    ultimately show ?thesis
      using parsed(2) assms(3) by (auto simp: newConfiguration_def Let_def setController_def componentOk_def)
  qed
  have "reportConfigurationMessageFromJausMessage (envClock env) (junkConfiguration env) m \<noteq> None"
    unfolding reportConfigurationMessageFromJausMessage_def
    by (intro fromJausMessage_safe dataFromBuffer_safe) (simp add: assms(4))
  then show ?thesis
    using p c assms by (fastforce simp: defaultJausMessageProcessorNoDestroy_def split: option.split)
qed

text \<open>An open interface of a component with a name and the core services.\<close>

lemma interface_example:
  "\<exists>nmi :: NodeManagerInterface. isOpen nmi \<and> scOk (scm nmi) \<and> componentOk (cmpt nmi) \<and>
     identification (cmpt nmi) = Some [82] \<and> cmptState (cmpt nmi) = JAUS_READY_STATE \<and> controller (cmpt nmi) = ctl"
proof -
  obtain nmi where n: "nodeManagerOpen (\<lambda>_. [2, 1, 33, 1, 1]) 5000 0 (Some undefined) = Some (Some nmi)"
    using nodeManagerOpen_example by blast
  let ?c = "(jausComponentCreate 0)\<lparr>identification := Some [82], cmptState := JAUS_READY_STATE, controller := ctl,
      cmptServices := snd (jausServiceAddCoreServices [])\<rparr>"
  have "componentOk ?c" using core_services_ok by (simp add: componentOk_def core_services)
  moreover have "scOk (scm nmi)" "isOpen nmi" using nodeManagerOpen_reach [OF n] scReach_ok by blast+
  ultimately show ?thesis by (intro exI [of _ "nmi\<lparr>cmpt := ?c\<rparr>"]) simp
qed

section \<open>Properties\<close>

text \<open>
  C1. A component under control obeys its controller only. A message from any other source changes neither the state nor the
  authority of the component; it can take the control over only with a request of strictly higher authority, and
  the controller is dropped otherwise only by a configuration report after which the node manager does not
  know its address any more. For a permitted source the state follows the transition table (STANDBY only from
  READY, RESUME only from STANDBY, the others always), only the authority command sets the authority and
  only a request or a release changes the controller. The address, name and services never change.
\<close>

theorem control_protected:
  fixes nmi nmi' :: NodeManagerInterface
  assumes "defaultJausMessageProcessorNoDestroy env (Some m) nmi sub = Some (nmi', sub')"
  defines "c \<equiv> cmpt nmi" and "d \<equiv> cmpt nmi'"
  shows "sameIdentity c d \<and>
    cmptState d = (if permitted c (source m) then stateAfter (commandCode m) (cmptState c) else cmptState c) \<and>
    (cmptAuthority d = cmptAuthority c \<or> permitted c (source m) \<and> commandCode m = JAUS_SET_COMPONENT_AUTHORITY) \<and>
    (controller d = controller c \<or>
     commandCode m = JAUS_REQUEST_COMPONENT_CONTROL \<and>
       (\<exists>a. (ctrlActive (controller c) \<longrightarrow> ctrlAuthority (controller c) < a) \<and>
            controller d = (controller c)\<lparr>ctrlAddress := source m, ctrlAuthority := a, ctrlActive := True\<rparr>) \<or>
     permitted c (source m) \<and> commandCode m = JAUS_RELEASE_COMPONENT_CONTROL \<and> controller d = noController \<or>
     commandCode m = JAUS_REPORT_CONFIGURATION \<and> controller d = noController \<and>
       nodeManagerVerifyAddress (envAsk env) (ctrlAddress (controller c)) = 0)"
proof -
  consider (ignored) "d = c" "\<not> permitted c (source m)"
    | (configured) r where "commandCode m = JAUS_REPORT_CONFIGURATION" "newConfiguration env nmi sub r = Some (nmi', sub')"
    | (unreadable) "commandCode m = JAUS_REPORT_CONFIGURATION" "d = c"
    | (processed) "processMessage env nmi m = Some nmi'" "permitted c (source m) \<or> \<not> isRejectableCode (commandCode m)"
    using assms(1)
    by (auto simp: defaultJausMessageProcessorNoDestroy_def c_def d_def permitted_def split: if_splits Option.bind_splits option.splits)
  then show ?thesis
  proof cases
    case ignored
    then show ?thesis by (simp add: sameIdentity_def)
  next
    case configured
    then show ?thesis
      using newConfiguration_cmpt [OF configured(2)] by (auto simp: sameIdentity_def c_def d_def stateAfter_def)
  next
    case unreadable
    then show ?thesis by (simp add: sameIdentity_def stateAfter_def)
  next
    case processed
    have "obeys m c d" using processMessage_obeys [OF processed(1)] by (simp add: c_def d_def)
    then show ?thesis using processed(2) accepted_state rejectable_codes by (auto simp: obeys_def)
  qed
qed

theorem control_protected_witness:
  "\<exists>env m (nmi :: NodeManagerInterface) nmi'. commandCode m = JAUS_SHUTDOWN \<and> ctrlActive (controller (cmpt nmi)) \<and>
     defaultJausMessageProcessorNoDestroy env (Some m) nmi None = Some (nmi', None) \<and>
     cmptState (cmpt nmi') = JAUS_READY_STATE \<and> controller (cmpt nmi') = controller (cmpt nmi)"
proof -
  let ?ctl = "noController\<lparr>ctrlActive := True\<rparr>"
  obtain nmi :: NodeManagerInterface where n: "controller (cmpt nmi) = ?ctl" "cmptState (cmpt nmi) = JAUS_READY_STATE"
    using interface_example by blast
  let ?m = "jausMessageCreate\<lparr>commandCode := JAUS_SHUTDOWN, source := jausAddressCreate\<lparr>addrSubsystem := 7\<rparr>\<rparr>"
  have other: "\<not> permitted (cmpt nmi) (source ?m)" by (simp add: permitted_def n noController_def jausAddressCreate_def)
  then have run: "defaultJausMessageProcessorNoDestroy env (Some ?m) nmi None = Some (nmi, None)" for env
    using rejectable_codes by (simp add: defaultJausMessageProcessorNoDestroy_def permitted_def)
  obtain env :: Surroundings where True by blast
  from control_protected [OF run [of env]] other n show ?thesis
    by (intro exI [of _ env] exI [of _ ?m] exI [of _ nmi]) (simp add: run)
qed


text \<open>
  C20. A well-formed request for control is decided by authority, and everybody concerned is told. A free component
  accepts anyone; a controlled one hands over only to a strictly higher authority, telling the old
  controller that it lost control before confirming the new one; a request that is not higher is confirmed to the
  controller itself and rejected to anybody else, and the controller stays. Every confirmation reads back
  as accepted, and nothing else of the interface changes.
\<close>

theorem control_handover:
  fixes nmi :: NodeManagerInterface and r :: RequestComponentControlMessage
  assumes "isOpen nmi" "commandCode r = JAUS_REQUEST_COMPONENT_CONTROL" "requestComponentControlMessageToJausMessage r = Some m"
  defines "ctl \<equiv> controller (cmpt nmi)" and "a \<equiv> requestComponentControl_authorityCode r" and "self \<equiv> cmptAddress (cmpt nmi)"
  shows "\<exists>answers ctl'. defaultJausMessageProcessorNoDestroy env (Some m) nmi sub =
      Some (nmi\<lparr>cmpt := (cmpt nmi)\<lparr>controller := ctl'\<rparr>, sent := sent nmi @ map messageBytes answers\<rparr>, sub) \<and>
    (\<forall>jm \<in> set answers. commandCode jm = JAUS_CONFIRM_COMPONENT_CONTROL \<longrightarrow>
       (\<exists>k. confirmComponentControlMessageFromJausMessage junk jm = Some (Some k) \<and>
            confirmComponentControl_responseCode k = JAUS_CONTROL_ACCEPTED)) \<and>
    (if \<not> ctrlActive ctl \<or> ctrlAuthority ctl < a
     then ctl' = ctl\<lparr>ctrlAddress := source r, ctrlAuthority := a, ctrlActive := True\<rparr> \<and>
       (\<exists>confirm. tells confirm self (source r) JAUS_CONFIRM_COMPONENT_CONTROL \<and>
         (if ctrlActive ctl
          then \<exists>reject. answers = [reject, confirm] \<and> tells reject self (ctrlAddress ctl) JAUS_REJECT_COMPONENT_CONTROL
          else answers = [confirm]))
     else ctl' = ctl \<and> (\<exists>answer. answers = [answer] \<and>
       tells answer self (source r)
         (if source r = ctrlAddress ctl then JAUS_CONFIRM_COMPONENT_CONTROL else JAUS_REJECT_COMPONENT_CONTROL)))"
proof -
  let ?os = "envSend env" and ?src = "source r"
  have run: "defaultJausMessageProcessorNoDestroy env (Some m) nmi sub =
      Option.bind (requestControl ?os nmi ?src a) (\<lambda>n. Some (n, sub))"
    unfolding a_def by (rule request_run [OF assms(2,3)])
  obtain cj where cj: "sendConfirm ?os nmi ?src = Some (nmi\<lparr>sent := sent nmi @ [messageBytes cj]\<rparr>)"
    "tells cj self ?src JAUS_CONFIRM_COMPONENT_CONTROL"
    "\<exists>k. confirmComponentControlMessageFromJausMessage junk cj = Some (Some k) \<and> confirmComponentControl_responseCode k = JAUS_CONTROL_ACCEPTED"
    using confirm_answers [OF assms(1), of ?os ?src junk] by (auto simp: self_def)
  obtain rj where rj: "sendReject ?os nmi ?src = Some (nmi\<lparr>sent := sent nmi @ [messageBytes rj]\<rparr>)"
    "tells rj self ?src JAUS_REJECT_COMPONENT_CONTROL"
    using reject_answers [OF assms(1), of ?os ?src] by (auto simp: self_def)
  obtain oj where oj: "sendReject ?os nmi (ctrlAddress ctl) = Some (nmi\<lparr>sent := sent nmi @ [messageBytes oj]\<rparr>)"
    "tells oj self (ctrlAddress ctl) JAUS_REJECT_COMPONENT_CONTROL"
    using reject_answers [OF assms(1), of ?os "ctrlAddress ctl"] by (auto simp: self_def)
  let ?n = "nmi\<lparr>sent := sent nmi @ [messageBytes oj]\<rparr>"
  obtain nj where nj: "sendConfirm ?os ?n ?src = Some (nmi\<lparr>sent := sent nmi @ map messageBytes [oj, nj]\<rparr>)"
    "tells nj self ?src JAUS_CONFIRM_COMPONENT_CONTROL"
    "\<exists>k. confirmComponentControlMessageFromJausMessage junk nj = Some (Some k) \<and> confirmComponentControl_responseCode k = JAUS_CONTROL_ACCEPTED"
    using confirm_answers [of ?n ?os ?src junk] assms(1) by (auto simp: self_def)
  let ?new = "ctl\<lparr>ctrlAddress := ?src, ctrlAuthority := a, ctrlActive := True\<rparr>"
  consider "\<not> ctrlActive ctl" | "ctrlActive ctl" "ctrlAuthority ctl < a"
    | "ctrlActive ctl" "\<not> ctrlAuthority ctl < a" "?src = ctrlAddress ctl" | "ctrlActive ctl" "\<not> ctrlAuthority ctl < a" "?src \<noteq> ctrlAddress ctl"
    by blast
  then show ?thesis
  proof cases
    case 1
    then show ?thesis
      using run cj by (intro exI [of _ "[cj]"] exI [of _ ?new]) (simp add: requestControl_def ctl_def setController_def)
  next
    case 2
    then show ?thesis
      using run oj nj
      by (intro exI [of _ "[oj, nj]"] exI [of _ ?new]) (auto simp: requestControl_def ctl_def setController_def tells_def)
  next
    case 3
    then show ?thesis
      using run cj by (intro exI [of _ "[cj]"] exI [of _ ctl]) (simp add: requestControl_def ctl_def)
  next
    case 4
    then show ?thesis
      using run rj by (intro exI [of _ "[rj]"] exI [of _ ctl]) (simp add: requestControl_def ctl_def tells_def)
  qed
qed

theorem control_handover_witness:
  "\<exists>env m (nmi :: NodeManagerInterface) nmi'. defaultJausMessageProcessorNoDestroy env (Some m) nmi None = Some (nmi', None) \<and>
     \<not> ctrlActive (controller (cmpt nmi)) \<and> ctrlActive (controller (cmpt nmi')) \<and> ctrlAuthority (controller (cmpt nmi')) = 5 \<and>
     length (sent nmi') = length (sent nmi) + 1"
proof -
  obtain nmi :: NodeManagerInterface where n: "controller (cmpt nmi) = noController" "isOpen nmi" using interface_example by blast
  let ?r = "requestComponentControlMessageCreate\<lparr>requestComponentControl_authorityCode := 5\<rparr>"
  have code: "commandCode ?r = JAUS_REQUEST_COMPONENT_CONTROL"
    by (simp add: requestComponentControlMessageCreate_def requestComponentControl_dataInitialize_def blankHeader_def JausHeader.extend_def)
  obtain m where m: "requestComponentControlMessageToJausMessage ?r = Some m"
    by (simp add: requestComponentControlMessageToJausMessage_def requestComponentControl.toJausMessage)
  obtain env :: Surroundings where True by blast
  from control_handover [OF n(2) code m, of env None undefined] n(1) show ?thesis
    by - (rule exI [of _ env], rule exI [of _ m], rule exI [of _ nmi], auto simp: noController_def)
qed




text \<open>
  C26. The core queries are answered: to a query for authority, status, control, identification or services the component
  answers with the report whose code is the code of the query plus 0x2000, addressed to whoever asked, in one datagram
  or, for long lists of services, in the fragments of one message; the asker reads from it the authority, the
  state, the address and authority of the controller, the name padded with zeros to 80 bytes, or exactly the services.
  Nothing else changes.
\<close>

theorem queries_answered:
  fixes nmi :: NodeManagerInterface
  assumes "isOpen nmi" "identification (cmpt nmi) = Some name" "componentOk (cmpt nmi)" "0 \<le> cmptState (cmpt nmi)" "cmptState (cmpt nmi) < 256"
    "length (dataBytes m) = unat (dataSize m)"
    "commandCode m \<in> {JAUS_QUERY_COMPONENT_AUTHORITY, JAUS_QUERY_COMPONENT_STATUS, JAUS_QUERY_COMPONENT_CONTROL,
       JAUS_QUERY_IDENTIFICATION, JAUS_QUERY_SERVICES}"
  shows "\<exists>jm. defaultJausMessageProcessorNoDestroy env (Some m) nmi sub =
       Some (nmi\<lparr>sent := sent nmi @ map messageBytes (fragments jm)\<rparr>, sub) \<and>
     tells jm (cmptAddress (cmpt nmi)) (source m) (commandCode m + 0x2000) \<and>
     (commandCode m = JAUS_QUERY_COMPONENT_AUTHORITY \<longrightarrow>
       (\<exists>r. reportComponentAuthorityMessageFromJausMessage j1 jm = Some (Some r) \<and>
            reportComponentAuthority_authorityCode r = cmptAuthority (cmpt nmi))) \<and>
     (commandCode m = JAUS_QUERY_COMPONENT_STATUS \<longrightarrow>
       (\<exists>r. reportComponentStatusMessageFromJausMessage j2 jm = Some (Some r) \<and>
            reportComponentStatus_primaryStatusCode r = cmptState (cmpt nmi))) \<and>
     (commandCode m = JAUS_QUERY_COMPONENT_CONTROL \<longrightarrow>
       (\<exists>r. reportComponentControlMessageFromJausMessage j3 jm = Some (Some r) \<and>
            ctrlAddress (controller (cmpt nmi)) =
              \<lparr>addrSubsystem = reportComponentControl_subsystemId r, addrNode = reportComponentControl_nodeId r,
               addrComponent = reportComponentControl_componentId r, addrInstance = reportComponentControl_instanceId r\<rparr> \<and>
            ctrlAuthority (controller (cmpt nmi)) = reportComponentControl_authorityCode r)) \<and>
     (commandCode m = JAUS_QUERY_IDENTIFICATION \<longrightarrow>
       dataBytes jm = [4, 0, 0, 0] @ name @ replicate (80 - length name) 0) \<and>
     (commandCode m = JAUS_QUERY_SERVICES \<longrightarrow>
       (\<exists>r. reportServicesMessageFromJausMessage j4 jm = Some (Some r) \<and>
            reportServices_jausServices r = cmptServices (cmpt nmi)))"
proof -
  let ?os = "envSend env" and ?src = "source m"
  have name: "length name < 80" "0 \<notin> set name" and services: "servicesOk (cmptServices (cmpt nmi))" "distinct (map serviceType (cmptServices (cmpt nmi)))"
    using assms(2,3) by (auto simp: componentOk_def)
  have state: "cmptState (cmpt nmi) mod 256 = cmptState (cmpt nmi)" using assms(4,5) by simp
  have plain: "\<not> isRejectableCode (commandCode m)" "commandCode m \<noteq> JAUS_REPORT_CONFIGURATION"
    using assms(7) by (auto simp: isRejectableCode_def rejectableCommands_def)
  have run: "defaultJausMessageProcessorNoDestroy env (Some m) nmi sub = Option.bind (processMessage env nmi m) (\<lambda>n. Some (n, sub))"
    using plain by (simp add: defaultJausMessageProcessorNoDestroy_def)
  have unpack: "\<exists>x. queryServicesMessageFromJausMessage j m = Some (Some x)" if "commandCode m = JAUS_QUERY_SERVICES" for j
    using that by (simp add: queryServicesMessageFromJausMessage_def messageFromJausMessage_def noData_dataFromBuffer_def)
  consider "commandCode m = JAUS_QUERY_COMPONENT_AUTHORITY" | "commandCode m = JAUS_QUERY_COMPONENT_STATUS"
    | "commandCode m = JAUS_QUERY_COMPONENT_CONTROL" | "commandCode m = JAUS_QUERY_IDENTIFICATION" | "commandCode m = JAUS_QUERY_SERVICES"
    using assms(7) by blast
  then show ?thesis
  proof cases
    case 1
    then show ?thesis
      using authority_answers [OF assms(1), of ?os ?src j1] run by (force simp: processMessage_def hears_def)
  next
    case 2
    then show ?thesis
      using status_answers [OF assms(1), of ?os ?src j2] run state by (force simp: processMessage_def hears_def)
  next
    case 3
    then show ?thesis
      using control_answers [OF assms(1), of ?os ?src j3] run by (force simp: processMessage_def hears_def)
  next
    case 4
    then show ?thesis
      using identification_answers [OF assms(1,2) name, of ?os ?src] run by (force simp: processMessage_def hears_def)
  next
    case 5
    then show ?thesis
      using services_answers [OF assms(1) services, of ?os ?src j4] unpack [OF 5, of "junkQueryServices env"] run
      by (force simp: processMessage_def hears_def onUnpacked_def)
  qed
qed

theorem queries_answered_witness:
  "\<exists>env m (nmi :: NodeManagerInterface) nmi' jm. commandCode m = JAUS_QUERY_IDENTIFICATION \<and>
     defaultJausMessageProcessorNoDestroy env (Some m) nmi None = Some (nmi', None) \<and>
     sent nmi' = sent nmi @ map messageBytes (fragments jm) \<and> commandCode jm = JAUS_REPORT_IDENTIFICATION \<and>
     take 6 (dataBytes jm) = [4, 0, 0, 0, 82, 0]"
proof -
  obtain nmi :: NodeManagerInterface where n: "isOpen nmi" "identification (cmpt nmi) = Some [82]" "componentOk (cmpt nmi)"
    "cmptState (cmpt nmi) = JAUS_READY_STATE" using interface_example by blast
  let ?m = "jausMessageCreate\<lparr>commandCode := JAUS_QUERY_IDENTIFICATION, dataSize := 0, data := Some []\<rparr>"
  obtain env :: Surroundings where True by blast
  have m: "dataBytes ?m = []" "dataSize ?m = 0" by (simp_all add: dataBytes_def)
  obtain jm where jm: "defaultJausMessageProcessorNoDestroy env (Some ?m) nmi None =
       Some (nmi\<lparr>sent := sent nmi @ map messageBytes (fragments jm)\<rparr>, None)"
    "commandCode jm = JAUS_REPORT_IDENTIFICATION" "dataBytes jm = [4, 0, 0, 0] @ [82] @ replicate 79 0"
    using queries_answered [OF n(1-3), of ?m env None] n(4) m by (auto simp: tells_def)
  show ?thesis
    by (rule exI [of _ env], rule exI [of _ ?m], rule exI [of _ nmi],
        rule exI [of _ "nmi\<lparr>sent := sent nmi @ map messageBytes (fragments jm)\<rparr>"], rule exI [of _ jm])
      (use jm in simp)
qed

end
