(* ===== verification/OjCmpt.thy ===== *)
theory OjCmpt
  imports DefaultProcessor
begin

text \<open>
  The component library (\<open>openjaus/src/libopenjaus/componentLibrary/ojCmpt.c\<close>): a component with its
  callbacks, its inbound connections and the thread that serves it.

  The component \<open>jaus\<close> of the structure is the one of the interface (\<open>nodeManagerOpen\<close> keeps the pointer),
  and its \<open>node\<close> stays the null pointer \<open>jausComponentCreate\<close> puts there: no routine of the
  library sets it, and the structure is opaque for the application. Functions of the application are numbers; what they do is the
  record \<open>Application\<close>. Allocations succeed; the address of a new connection object is an argument.
\<close>

section \<open>The component\<close>

datatype MessageFunction = DefaultStateCallback | UserFunction nat

record OjCmpt =
  frequencyHz :: real
  rateHz :: real
  stateCallback :: "nat option list"
  mainCallback :: "nat option"
  processMessageCallback :: "nat option"
  messageCallback :: "(u16 \<times> MessageFunction option) list"
  ojState :: int
  running :: bool
  inConnection :: "nat option list"
  ojNmi :: NodeManagerInterface
  userData :: "nat option"

record Application =
  appMessage :: "nat \<Rightarrow> OjCmpt \<Rightarrow> JausMessage \<Rightarrow> OjCmpt exec"
  appState :: "nat \<Rightarrow> OjCmpt \<Rightarrow> OjCmpt exec"

abbreviation (input) OJ_CMPT_MAX_STATE_COUNT :: nat where "OJ_CMPT_MAX_STATE_COUNT \<equiv> 32"
abbreviation (input) OJ_CMPT_MAX_INCOMING_SC_COUNT :: nat where "OJ_CMPT_MAX_INCOMING_SC_COUNT \<equiv> 32"

abbreviation jaus :: "OjCmpt \<Rightarrow> JausComponent" where "jaus oj \<equiv> cmpt (ojNmi oj)"

definition onNmi :: "OjCmpt \<Rightarrow> NodeManagerInterface \<Rightarrow> OjCmpt" where
  "onNmi oj nmi = oj\<lparr>ojNmi := nmi\<rparr>"

section \<open>Settings\<close>

definition clampFrequency :: "real \<Rightarrow> real" where
  "clampFrequency hz = (if hz > 1 / 10 \<and> hz < 1000 then hz else 1)"

definition ojCmptSetFrequencyHz :: "OjCmpt \<Rightarrow> real \<Rightarrow> OjCmpt" where
  "ojCmptSetFrequencyHz oj hz = oj\<lparr>frequencyHz := clampFrequency hz\<rparr>"

text \<open>The state of the library and the state of the JAUS component that \<open>ojCmptSetState\<close> stores.\<close>

definition statePair :: "int \<Rightarrow> int \<times> int" where
  "statePair state =
     (if state < 0 \<or> state > int OJ_CMPT_MAX_STATE_COUNT then (JAUS_UNDEFINED_STATE, JAUS_UNDEFINED_STATE)
      else (state, if state > JAUS_EMERGENCY_STATE then JAUS_UNDEFINED_STATE else state))"

definition ojCmptSetState :: "OjCmpt \<Rightarrow> int \<Rightarrow> OjCmpt" where
  "ojCmptSetState oj state =
     oj\<lparr>ojState := fst (statePair state), ojNmi := setState (ojNmi oj) (snd (statePair state))\<rparr>"

definition ojCmptSetAuthority :: "OjCmpt \<Rightarrow> u8 \<Rightarrow> OjCmpt" where
  "ojCmptSetAuthority oj authority = onNmi oj ((ojNmi oj)\<lparr>cmpt := (jaus oj)\<lparr>cmptAuthority := authority\<rparr>\<rparr>)"

definition ojCmptGetAuthority :: "OjCmpt \<Rightarrow> u8" where
  "ojCmptGetAuthority oj = cmptAuthority (jaus oj)"

text \<open>The array has 32 elements; an index the test lets through and the array does not have is undefined.\<close>

definition ojCmptSetStateCallback :: "OjCmpt \<Rightarrow> int \<Rightarrow> nat option \<Rightarrow> (int \<times> OjCmpt) exec" where
  "ojCmptSetStateCallback oj state f =
     (if state < 0 \<or> state > int OJ_CMPT_MAX_STATE_COUNT then Some (-1, oj)
      else if nat state < length (stateCallback oj)
      then Some (0, oj\<lparr>stateCallback := (stateCallback oj)[nat state := f]\<rparr>)
      else None)"

text \<open>The first entry with the code is replaced, otherwise a new one is appended.\<close>

fun setCallback :: "(u16 \<times> MessageFunction option) list \<Rightarrow> u16 \<Rightarrow> MessageFunction option \<Rightarrow> (u16 \<times> MessageFunction option) list" where
  "setCallback [] code f = [(code, f)]"
| "setCallback ((c, g) # rest) code f = (if c = code then (c, f) # rest else (c, g) # setCallback rest code f)"

definition ojCmptSetMessageCallback :: "OjCmpt \<Rightarrow> u16 \<Rightarrow> MessageFunction option \<Rightarrow> OjCmpt" where
  "ojCmptSetMessageCallback oj code f = oj\<lparr>messageCallback := setCallback (messageCallback oj) code f\<rparr>"

definition ojCmptSetMessageProcessorCallback :: "OjCmpt \<Rightarrow> nat option \<Rightarrow> OjCmpt" where
  "ojCmptSetMessageProcessorCallback oj f = oj\<lparr>processMessageCallback := f\<rparr>"

definition ojCmptSetUserData :: "OjCmpt \<Rightarrow> nat option \<Rightarrow> OjCmpt" where
  "ojCmptSetUserData oj d = oj\<lparr>userData := d\<rparr>"

definition ojCmptGetUserData :: "OjCmpt \<Rightarrow> nat option" where
  "ojCmptGetUserData oj = userData oj"

definition ojCmptGetRateHz :: "OjCmpt \<Rightarrow> real" where
  "ojCmptGetRateHz oj = rateHz oj"

definition ojCmptGetName :: "OjCmpt \<Rightarrow> bytes exec" where
  "ojCmptGetName oj = identification (jaus oj)"

definition ojCmptGetAddress :: "OjCmpt \<Rightarrow> JausAddress" where
  "ojCmptGetAddress oj = jausAddressClone (cmptAddress (jaus oj))"

definition ojCmptGetState :: "OjCmpt \<Rightarrow> int" where
  "ojCmptGetState oj = ojState oj"

section \<open>Creation, start and end\<close>

definition defaultStateCodes :: "u16 list" where
  "defaultStateCodes =
     [JAUS_SHUTDOWN, JAUS_STANDBY, JAUS_RESUME, JAUS_SHUTDOWN, JAUS_RESET, JAUS_SET_EMERGENCY, JAUS_CLEAR_EMERGENCY]"

definition ojCmptCreate ::
    "(bytes \<Rightarrow> bytes) \<Rightarrow> u16 \<Rightarrow> real \<Rightarrow> int \<Rightarrow> bytes \<Rightarrow> u8 \<Rightarrow> real \<Rightarrow> OjCmpt option exec" where
  "ojCmptCreate ask port now clock name ident stateFrequencyHz =
     (let c0 = jausComponentCreate clock;
          c1 = c0\<lparr>identification := Some name, cmptAddress := (cmptAddress c0)\<lparr>addrComponent := ident\<rparr>,
                  cmptState := snd (statePair JAUS_UNDEFINED_STATE)\<rparr>;
          (ok, services) = jausServiceAddCoreServices (cmptServices c1)
      in if \<not> ok then Some None
         else do {
           r \<leftarrow> nodeManagerOpen ask port now (Some (c1\<lparr>cmptServices := services\<rparr>));
           case r of
             None \<Rightarrow> Some None
           | Some nmi \<Rightarrow>
               Some (Some (foldl (\<lambda>oj code. ojCmptSetMessageCallback oj code (Some DefaultStateCallback))
                 \<lparr>frequencyHz = clampFrequency stateFrequencyHz, rateHz = 0,
                  stateCallback = replicate OJ_CMPT_MAX_STATE_COUNT None, mainCallback = None,
                  processMessageCallback = None, messageCallback = [],
                  ojState = fst (statePair JAUS_UNDEFINED_STATE), running = False,
                  inConnection = replicate OJ_CMPT_MAX_INCOMING_SC_COUNT None, ojNmi = nmi, userData = None\<rparr>
                 defaultStateCodes)) })"

text \<open>A thread that cannot be started closes the interface and frees the component.\<close>

definition ojCmptRun :: "sendto \<Rightarrow> bool \<Rightarrow> OjCmpt \<Rightarrow> (int \<times> OjCmpt option) exec" where
  "ojCmptRun os threadOk oj =
     (if threadOk then Some (0, Some (oj\<lparr>running := True\<rparr>))
      else do { closed \<leftarrow> nodeManagerClose os (Some (ojNmi oj)); Some (-1, None) })"

text \<open>An inbound connection is terminated if it is active, destroyed, and its slot cleared.\<close>

definition dropConnection :: "sendto \<Rightarrow> OjCmpt \<Rightarrow> nat \<Rightarrow> nat \<Rightarrow> OjCmpt exec" where
  "dropConnection os oj i p =
     do { sc \<leftarrow> scStore (scm (ojNmi oj)) p;
          nmi1 \<leftarrow> (if isActive sc
                    then map_option snd (scManagerTerminateServiceConnection os (ojNmi oj) p)
                    else Some (ojNmi oj));
          m \<leftarrow> serviceConnectionDestroy p (scm nmi1);
          Some (oj\<lparr>ojNmi := nmi1\<lparr>scm := m\<rparr>, inConnection := (inConnection oj)[i := None]\<rparr>) }"

fun dropConnections :: "sendto \<Rightarrow> nat list \<Rightarrow> OjCmpt \<Rightarrow> OjCmpt exec" where
  "dropConnections os [] oj = Some oj"
| "dropConnections os (i # rest) oj =
     (case inConnection oj ! i of
        None \<Rightarrow> dropConnections os rest oj
      | Some p \<Rightarrow> do { oj' \<leftarrow> dropConnection os oj i p; dropConnections os rest oj' })"

text \<open>The datagrams sent until then and the check-out packet.\<close>

definition ojCmptDestroy :: "sendto \<Rightarrow> OjCmpt \<Rightarrow> (bytes list \<times> bytes option) exec" where
  "ojCmptDestroy os oj =
     do { nmi1 \<leftarrow> (if ctrlActive (controller (jaus oj))
                    then sendReject os (ojNmi oj) (ctrlAddress (controller (jaus oj)))
                    else Some (ojNmi oj));
          oj2 \<leftarrow> dropConnections os [0..<OJ_CMPT_MAX_INCOMING_SC_COUNT] (oj\<lparr>running := False, ojNmi := nmi1\<rparr>);
          (result, datagrams, checkOut) \<leftarrow> nodeManagerClose os (Some (ojNmi oj2));
          Some (datagrams, checkOut) }"

section \<open>The controller\<close>

definition ojCmptTerminateController :: "sendto \<Rightarrow> OjCmpt option \<Rightarrow> (bool \<times> OjCmpt option) exec" where
  "ojCmptTerminateController os ojp =
     (case ojp of
        None \<Rightarrow> Some (False, None)
      | Some oj \<Rightarrow>
          if \<not> ctrlActive (controller (jaus oj)) then Some (False, Some oj)
          else do { nmi \<leftarrow> sendReject os (ojNmi oj) (ctrlAddress (controller (jaus oj)));
                    Some (True, Some (onNmi oj (setController nmi noController))) })"

definition ojCmptHasController :: "sendto \<Rightarrow> (bytes \<Rightarrow> bytes) \<Rightarrow> OjCmpt \<Rightarrow> (bool \<times> OjCmpt) exec" where
  "ojCmptHasController os ask oj =
     (if ctrlActive (controller (jaus oj))
      then (if nodeManagerVerifyAddress ask (ctrlAddress (controller (jaus oj))) \<noteq> 0 then Some (True, oj)
            else do { (r, oj') \<leftarrow> ojCmptTerminateController os (Some oj);
                      case oj' of None \<Rightarrow> None | Some oj1 \<Rightarrow> Some (False, oj1) })
      else Some (False, oj))"

definition ojCmptGetControllerAddress :: "sendto \<Rightarrow> (bytes \<Rightarrow> bytes) \<Rightarrow> OjCmpt \<Rightarrow> (JausAddress \<times> OjCmpt) exec" where
  "ojCmptGetControllerAddress os ask oj =
     do { (has, oj') \<leftarrow> ojCmptHasController os ask oj;
          Some (if has then jausAddressClone (ctrlAddress (controller (jaus oj'))) else jausAddressCreate, oj') }"

section \<open>Messages\<close>

definition ojCmptDefaultStateCallback :: "OjCmpt \<Rightarrow> JausMessage \<Rightarrow> OjCmpt" where
  "ojCmptDefaultStateCallback oj message =
     (let code = commandCode message
      in if code = JAUS_SHUTDOWN then ojCmptSetState oj JAUS_SHUTDOWN_STATE
         else if code = JAUS_STANDBY
         then (if ojState oj = JAUS_READY_STATE then ojCmptSetState oj JAUS_STANDBY_STATE else oj)
         else if code = JAUS_RESUME
         then (if ojState oj = JAUS_STANDBY_STATE then ojCmptSetState oj JAUS_READY_STATE else oj)
         else if code = JAUS_RESET then ojCmptSetState oj JAUS_INITIALIZE_STATE
         else if code = JAUS_SET_EMERGENCY then ojCmptSetState oj JAUS_EMERGENCY_STATE
         else if code = JAUS_CLEAR_EMERGENCY then ojCmptSetState oj JAUS_STANDBY_STATE
         else oj)"

definition ojCmptDefaultMessageProcessor :: "Surroundings \<Rightarrow> OjCmpt \<Rightarrow> JausMessage \<Rightarrow> OjCmpt exec" where
  "ojCmptDefaultMessageProcessor env oj message =
     do { (nmi, sub) \<leftarrow> defaultJausMessageProcessorNoDestroy env (Some message) (ojNmi oj) None;
          Some (onNmi oj nmi) }"

text \<open>The loop over the table: the first entry with the code that holds a function.\<close>

fun findCallback :: "(u16 \<times> MessageFunction option) list \<Rightarrow> u16 \<Rightarrow> MessageFunction option" where
  "findCallback [] code = None"
| "findCallback ((c, f) # rest) code =
     (if c = code \<and> f \<noteq> None then f else findCallback rest code)"

definition runFunction :: "Application \<Rightarrow> MessageFunction \<Rightarrow> OjCmpt \<Rightarrow> JausMessage \<Rightarrow> OjCmpt exec" where
  "runFunction app f oj message =
     (case f of DefaultStateCallback \<Rightarrow> Some (ojCmptDefaultStateCallback oj message)
      | UserFunction k \<Rightarrow> appMessage app k oj message)"

definition ojCmptProcessMessage :: "Surroundings \<Rightarrow> Application \<Rightarrow> OjCmpt \<Rightarrow> JausMessage \<Rightarrow> OjCmpt exec" where
  "ojCmptProcessMessage env app oj message =
     (case findCallback (messageCallback oj) (commandCode message) of
        Some f \<Rightarrow> runFunction app f oj message
      | None \<Rightarrow>
          (case processMessageCallback oj of
             Some k \<Rightarrow> appMessage app k oj message
           | None \<Rightarrow> ojCmptDefaultMessageProcessor env oj message))"

text \<open>The result of \<open>nodeManagerSend\<close>, the component and the message with its new source.\<close>

definition ojCmptSendMessage :: "sendto \<Rightarrow> OjCmpt \<Rightarrow> JausMessage \<Rightarrow> (int \<times> OjCmpt \<times> JausMessage) exec" where
  "ojCmptSendMessage os oj message =
     (let m = message\<lparr>source := cmptAddress (jaus oj)\<rparr>
      in do { (result, nmi) \<leftarrow> nodeManagerSend os (ojNmi oj) m; Some (result, onNmi oj nmi, m) })"

section \<open>Services\<close>

definition onServices :: "OjCmpt \<Rightarrow> JausService list \<Rightarrow> OjCmpt" where
  "onServices oj l = onNmi oj ((ojNmi oj)\<lparr>cmpt := (jaus oj)\<lparr>cmptServices := l\<rparr>\<rparr>)"

text \<open>The service found is changed through the pointer: the first one of the type.\<close>

fun updateService :: "JausService list \<Rightarrow> u16 \<Rightarrow> JausService \<Rightarrow> JausService list" where
  "updateService [] t s' = []"
| "updateService (s # rest) t s' = (if serviceType s = t then s' # rest else s # updateService rest t s')"

definition ojCmptAddService :: "OjCmpt \<Rightarrow> u16 \<Rightarrow> bool \<times> OjCmpt" where
  "ojCmptAddService oj t =
     (let (ok, l) = jausServiceAddService (cmptServices (jaus oj)) (jausServiceCreate t) in (ok, onServices oj l))"

definition ojCmptAddServiceInputMessage :: "OjCmpt \<Rightarrow> u16 \<Rightarrow> u16 \<Rightarrow> u32 \<Rightarrow> bool \<times> OjCmpt" where
  "ojCmptAddServiceInputMessage oj t code pv =
     (case jausServiceRetrieveService (cmptServices (jaus oj)) t of
        None \<Rightarrow> (False, oj)
      | Some service \<Rightarrow>
          (let (ok, s') = jausServiceAddInputCommand service code pv
           in (ok, onServices oj (updateService (cmptServices (jaus oj)) t s'))))"

definition ojCmptAddServiceOutputMessage :: "OjCmpt \<Rightarrow> u16 \<Rightarrow> u16 \<Rightarrow> u32 \<Rightarrow> bool \<times> OjCmpt" where
  "ojCmptAddServiceOutputMessage oj t code pv =
     (case jausServiceRetrieveService (cmptServices (jaus oj)) t of
        None \<Rightarrow> (False, oj)
      | Some service \<Rightarrow>
          (let (ok, s') = jausServiceAddOutputCommand service code pv
           in (ok, onServices oj (updateService (cmptServices (jaus oj)) t s'))))"

section \<open>Service connections\<close>

definition ojCmptAddSupportedSc :: "OjCmpt \<Rightarrow> u16 \<Rightarrow> OjCmpt" where
  "ojCmptAddSupportedSc oj code = onNmi oj (scManagerAddSupportedMessage True (ojNmi oj) code)"

definition ojCmptRemoveSupportedSc :: "sendto \<Rightarrow> OjCmpt \<Rightarrow> u16 \<Rightarrow> OjCmpt exec" where
  "ojCmptRemoveSupportedSc os oj code = map_option (onNmi oj) (scManagerRemoveSupportedMessage os (ojNmi oj) code)"

definition ojCmptGetScSendList :: "real \<Rightarrow> OjCmpt \<Rightarrow> u16 \<Rightarrow> ServiceConnection list \<times> OjCmpt" where
  "ojCmptGetScSendList now oj code = (let (l, nmi) = scManagerGetSendList now (ojNmi oj) code in (l, onNmi oj nmi))"

definition ojCmptIsOutgoingScActive :: "OjCmpt \<Rightarrow> u16 \<Rightarrow> bool" where
  "ojCmptIsOutgoingScActive oj code = scManagerQueryActiveMessage (ojNmi oj) code"

definition ojCmptGetOutgoingScAddresses :: "OjCmpt \<Rightarrow> u16 \<Rightarrow> JausAddress list" where
  "ojCmptGetOutgoingScAddresses oj code = scManagerGetActiveAddressList (ojNmi oj) code"

definition ojCmptLookupAddress :: "(bytes \<Rightarrow> bytes) \<Rightarrow> OjCmpt \<Rightarrow> JausAddress \<Rightarrow> bool \<times> JausAddress" where
  "ojCmptLookupAddress ask oj address = nodeManagerLookupAddress ask (ojNmi oj) address"

text \<open>The first free slot.\<close>

fun freeSlot :: "nat option list \<Rightarrow> nat option" where
  "freeSlot [] = None"
| "freeSlot (s # rest) = (if s = None then Some 0 else map_option Suc (freeSlot rest))"

definition ojCmptEstablishSc ::
    "nat \<Rightarrow> OjCmpt \<Rightarrow> u16 \<Rightarrow> u32 \<Rightarrow> JausAddress \<Rightarrow> real \<Rightarrow> real \<Rightarrow> int \<Rightarrow> int \<times> OjCmpt" where
  "ojCmptEstablishSc p oj cCode pv address rate timeout qSize =
     (case freeSlot (inConnection oj) of
        None \<Rightarrow> (-1, oj)
      | Some i \<Rightarrow>
          (let sc = serviceConnectionCreate
                 \<lparr>requestedUpdateRateHz := rate, scAddress := address, scPresenceVector := pv, scCommandCode := cCode,
                  isActive := False, queueSize := word_of_int qSize, timeoutSec := timeout, nextRequestTimeSec := 0\<rparr>
           in (int i, oj\<lparr>ojNmi := storeSc (ojNmi oj) p sc, inConnection := (inConnection oj)[i := Some p]\<rparr>)))"

definition slotAt :: "OjCmpt \<Rightarrow> int \<Rightarrow> nat option" where
  "slotAt oj scIndex =
     (if scIndex < 0 \<or> scIndex \<ge> int OJ_CMPT_MAX_INCOMING_SC_COUNT then None else inConnection oj ! nat scIndex)"

definition ojCmptTerminateSc :: "sendto \<Rightarrow> OjCmpt \<Rightarrow> int \<Rightarrow> (bool \<times> OjCmpt) exec" where
  "ojCmptTerminateSc os oj scIndex =
     (case slotAt oj scIndex of
        None \<Rightarrow> Some (False, oj)
      | Some p \<Rightarrow> do { oj' \<leftarrow> dropConnection os oj (nat scIndex) p; Some (True, oj') })"

definition ojCmptIsIncomingScActive :: "OjCmpt \<Rightarrow> int \<Rightarrow> bool exec" where
  "ojCmptIsIncomingScActive oj scIndex =
     (case slotAt oj scIndex of
        None \<Rightarrow> Some False
      | Some p \<Rightarrow> do { sc \<leftarrow> scStore (scm (ojNmi oj)) p; Some (isActive sc) })"

text \<open>Connections that are not active are requested again when their time has come.\<close>

fun manageConnections :: "sendto \<Rightarrow> (bytes \<Rightarrow> bytes) \<Rightarrow> real \<Rightarrow> nat list \<Rightarrow> OjCmpt \<Rightarrow> OjCmpt exec" where
  "manageConnections os ask now [] oj = Some oj"
| "manageConnections os ask now (i # rest) oj =
     (case inConnection oj ! i of
        None \<Rightarrow> manageConnections os ask now rest oj
      | Some p \<Rightarrow>
          do { sc \<leftarrow> scStore (scm (ojNmi oj)) p;
               if \<not> isActive sc \<and> now > nextRequestTimeSec sc
               then do { (r, nmi1) \<leftarrow> scManagerCreateServiceConnection os ask (ojNmi oj) (Some p);
                         sc1 \<leftarrow> scStore (scm nmi1) p;
                         manageConnections os ask now rest
                           (onNmi oj (storeSc nmi1 p (sc1\<lparr>nextRequestTimeSec := now + timeoutSec sc1\<rparr>))) }
               else manageConnections os ask now rest oj })"

definition ojCmptManageServiceConnections :: "sendto \<Rightarrow> (bytes \<Rightarrow> bytes) \<Rightarrow> real \<Rightarrow> OjCmpt \<Rightarrow> OjCmpt exec" where
  "ojCmptManageServiceConnections os ask now oj =
     manageConnections os ask now [0..<OJ_CMPT_MAX_INCOMING_SC_COUNT] oj"

section \<open>The thread\<close>

text \<open>The local variables; the message pointer lives only within a round.\<close>

record ThreadLocals =
  prevTime :: real
  thisTime :: real
  nextStateTime :: real

fun pollConnections :: "Surroundings \<Rightarrow> Application \<Rightarrow> nat list \<Rightarrow> OjCmpt \<Rightarrow> OjCmpt exec" where
  "pollConnections env app [] oj = Some oj"
| "pollConnections env app (i # rest) oj =
     (case inConnection oj ! i of
        None \<Rightarrow> pollConnections env app rest oj
      | Some p \<Rightarrow>
          do { sc \<leftarrow> scStore (scm (ojNmi oj)) p;
               if isActive sc
               then do { (r, nmi1) \<leftarrow> scManagerReceiveServiceConnection (envNow env) (ojNmi oj) p;
                         oj2 \<leftarrow> (case r of None \<Rightarrow> Some (onNmi oj nmi1)
                                  | Some m \<Rightarrow> ojCmptProcessMessage env app (onNmi oj nmi1) m);
                         pollConnections env app rest oj2 }
               else pollConnections env app rest oj })"

definition runStateCallback :: "Application \<Rightarrow> OjCmpt \<Rightarrow> OjCmpt exec" where
  "runStateCallback app oj =
     (if ojState oj = JAUS_UNDEFINED_STATE then Some oj
      else if 0 \<le> ojState oj \<and> nat (ojState oj) < length (stateCallback oj)
      then (case stateCallback oj ! nat (ojState oj) of None \<Rightarrow> Some oj | Some k \<Rightarrow> appState app k oj)
      else None)"

definition stateRound :: "Surroundings \<Rightarrow> Application \<Rightarrow> OjCmpt \<Rightarrow> ThreadLocals \<Rightarrow> (OjCmpt \<times> ThreadLocals) exec" where
  "stateRound env app oj loc =
     (let now = envNow env;
          loc' = \<lparr>prevTime = thisTime loc, thisTime = now, nextStateTime = now + 1 / frequencyHz oj\<rparr>;
          oj1 = oj\<lparr>rateHz := 1 / (now - thisTime loc)\<rparr>
      in do { oj2 \<leftarrow> (case mainCallback oj1 of None \<Rightarrow> Some oj1 | Some k \<Rightarrow> appState app k oj1);
              oj3 \<leftarrow> runStateCallback app oj2;
              oj4 \<leftarrow> ojCmptManageServiceConnections (envSend env) (envAsk env) now oj3;
              nmi \<leftarrow> nodeManagerSendCoreServiceConnections (envSend env) now (ojNmi oj4);
              Some (onNmi oj4 nmi, loc') })"

definition threadRound ::
    "Surroundings \<Rightarrow> Application \<Rightarrow> (NodeManagerInterface \<Rightarrow> WaitResult \<times> NodeManagerInterface) \<Rightarrow> OjCmpt \<times> ThreadLocals \<Rightarrow>
     (OjCmpt \<times> ThreadLocals) exec" where
  "threadRound env app wait s =
     (case s of (oj, loc) \<Rightarrow>
        do { (code, rx, nmi1) \<leftarrow> nodeManagerTimedReceive (envNow env) wait (ojNmi oj) (nextStateTime loc);
             let oj1 = onNmi oj nmi1;
             if code = NMI_MESSAGE_RECEIVED
             then do { oj2 \<leftarrow> (case rx of Some (Some m) \<Rightarrow> ojCmptProcessMessage env app oj1 m | _ \<Rightarrow> Some oj1);
                       oj3 \<leftarrow> pollConnections env app [0..<OJ_CMPT_MAX_INCOMING_SC_COUNT] oj2;
                       Some (oj3, loc) }
             else if code = NMI_RECEIVE_TIMED_OUT then stateRound env app oj1 loc
             else Some (oj1\<lparr>running := False\<rparr>, loc) })"

text \<open>The rounds, each with its surroundings and its wait, while the component runs.\<close>

fun threadLoop ::
    "Application \<Rightarrow> (Surroundings \<times> (NodeManagerInterface \<Rightarrow> WaitResult \<times> NodeManagerInterface)) list \<Rightarrow>
     OjCmpt \<times> ThreadLocals \<Rightarrow> (OjCmpt \<times> ThreadLocals) exec" where
  "threadLoop app [] s = Some s"
| "threadLoop app ((env, wait) # rounds) s =
     (if running (fst s) then do { s' \<leftarrow> threadRound env app wait s; threadLoop app rounds s' } else Some s)"

definition ojCmptThread ::
    "Application \<Rightarrow> real \<Rightarrow> (Surroundings \<times> (NodeManagerInterface \<Rightarrow> WaitResult \<times> NodeManagerInterface)) list \<Rightarrow> OjCmpt \<Rightarrow> OjCmpt exec" where
  "ojCmptThread app now rounds oj =
     do { (oj', loc) \<leftarrow> threadLoop app rounds (oj, \<lparr>prevTime = 0, thisTime = now, nextStateTime = now\<rparr>); Some oj' }"

section \<open>The table of callbacks\<close>

definition tableOk :: "(u16 \<times> MessageFunction option) list \<Rightarrow> bool" where
  "tableOk l \<longleftrightarrow> distinct (map fst l)"

lemma setCallback_codes: "fst ` set (setCallback l code f) = insert code (fst ` set l)"
  by (induction l code f rule: setCallback.induct) (simp_all add: insert_commute)

lemma setCallback_ok: "tableOk l \<Longrightarrow> tableOk (setCallback l code f)"
  by (induction l) (auto simp: tableOk_def setCallback_codes)

lemma findCallback_absent: "c \<notin> fst ` set l \<Longrightarrow> findCallback l c = None"
  by (induction l) auto

lemma find_set:
  "tableOk l \<Longrightarrow> findCallback (setCallback l code f) c = (if c = code then f else findCallback l c)"
  by (induction l) (auto simp: tableOk_def findCallback_absent)

section \<open>The component as created\<close>

lemma addSupported_cmpt: "cmpt (scManagerAddSupportedMessage ok nmi code) = cmpt nmi"
  by (simp add: scManagerAddSupportedMessage_def split: option.split)

lemma nodeManagerOpen_cmpt:
  assumes "nodeManagerOpen ask port now (Some c) = Some (Some nmi)"
  shows "\<exists>a. cmpt nmi = c\<lparr>cmptAddress := a\<rparr>"
  using assms
  by (auto simp: nodeManagerOpen_def lmHandlerCreate_simp checkIntoNodeManager_def Let_def addSupported_cmpt split: if_splits)

lemma ojCmptCreate_spec:
  assumes "ojCmptCreate ask port now clock name ident hz = Some (Some oj)"
  shows "messageCallback oj = map (\<lambda>c. (c, Some DefaultStateCallback))
      [JAUS_SHUTDOWN, JAUS_STANDBY, JAUS_RESUME, JAUS_RESET, JAUS_SET_EMERGENCY, JAUS_CLEAR_EMERGENCY]"
    "processMessageCallback oj = None" "isOpen (ojNmi oj)" "scOk (scm (ojNmi oj))"
    "identification (jaus oj) = Some name" "cmptServices (jaus oj) = snd (jausServiceAddCoreServices [])"
    "ojState oj = JAUS_UNDEFINED_STATE" "inConnection oj = replicate 32 None" "stateCallback oj = replicate 32 None"
    "\<not> ctrlActive (controller (jaus oj))"
proof -
  let ?c = "(jausComponentCreate clock)\<lparr>identification := Some name,
      cmptAddress := (cmptAddress (jausComponentCreate clock))\<lparr>addrComponent := ident\<rparr>, cmptState := JAUS_UNDEFINED_STATE,
      cmptServices := snd (jausServiceAddCoreServices [])\<rparr>"
  have c: "cmptServices (jausComponentCreate clock) = []" "\<not> ctrlActive (controller (jausComponentCreate clock))"
    by (simp_all add: jausComponentCreate_def jausComponentUpdateTimestamp_def)
  have ok: "fst (jausServiceAddCoreServices [])" by (simp add: core_services)
  let ?o = "\<lambda>nmi. \<lparr>frequencyHz = clampFrequency hz, rateHz = 0, stateCallback = replicate 32 None, mainCallback = None,
      processMessageCallback = None,
      messageCallback = map (\<lambda>c. (c, Some DefaultStateCallback))
        [JAUS_SHUTDOWN, JAUS_STANDBY, JAUS_RESUME, JAUS_RESET, JAUS_SET_EMERGENCY, JAUS_CLEAR_EMERGENCY],
      ojState = JAUS_UNDEFINED_STATE, running = False, inConnection = replicate 32 None, ojNmi = nmi, userData = None\<rparr>"
  from assms ok c obtain nmi where n: "nodeManagerOpen ask port now (Some ?c) = Some (Some nmi)" and oj: "oj = ?o nmi"
    by (auto simp: ojCmptCreate_def statePair_def Let_def defaultStateCodes_def ojCmptSetMessageCallback_def
        split: prod.splits if_splits Option.bind_splits option.splits)
  have "\<exists>a. cmpt nmi = ?c\<lparr>cmptAddress := a\<rparr>" by (rule nodeManagerOpen_cmpt [OF n])
  then show "messageCallback oj = map (\<lambda>c. (c, Some DefaultStateCallback))
      [JAUS_SHUTDOWN, JAUS_STANDBY, JAUS_RESUME, JAUS_RESET, JAUS_SET_EMERGENCY, JAUS_CLEAR_EMERGENCY]"
    "processMessageCallback oj = None" "isOpen (ojNmi oj)" "scOk (scm (ojNmi oj))"
    "identification (jaus oj) = Some name" "cmptServices (jaus oj) = snd (jausServiceAddCoreServices [])"
    "ojState oj = JAUS_UNDEFINED_STATE" "inConnection oj = replicate 32 None" "stateCallback oj = replicate 32 None"
    "\<not> ctrlActive (controller (jaus oj))"
    using nodeManagerOpen_reach(1,2) [OF n] scReach_ok c(2) by (auto simp: oj)
qed


lemma created_find:
  assumes "messageCallback oj = map (\<lambda>c. (c, Some DefaultStateCallback))
      [JAUS_SHUTDOWN, JAUS_STANDBY, JAUS_RESUME, JAUS_RESET, JAUS_SET_EMERGENCY, JAUS_CLEAR_EMERGENCY]"
  shows "findCallback (messageCallback oj) code =
    (if code \<in> {JAUS_SHUTDOWN, JAUS_STANDBY, JAUS_RESUME, JAUS_RESET, JAUS_SET_EMERGENCY, JAUS_CLEAR_EMERGENCY}
     then Some DefaultStateCallback else None)"
  by (simp add: assms)

lemma created_component:
  assumes "identification (jaus oj) = Some name" "cmptServices (jaus oj) = snd (jausServiceAddCoreServices [])"
    "length name < 80" "0 \<notin> set name"
  shows "componentOk (jaus oj)"
  using assms core_services_ok by (simp add: componentOk_def core_services)

lemma setState_jaus:
  "0 \<le> s \<Longrightarrow> s \<le> JAUS_EMERGENCY_STATE \<Longrightarrow>
   ojCmptSetState oj s = oj\<lparr>ojState := s, ojNmi := setState (ojNmi oj) s\<rparr>"
  by (simp add: ojCmptSetState_def statePair_def)

text \<open>A component that exists, for the examples.\<close>

lemma ojCmptCreate_example: "\<exists>oj. ojCmptCreate (\<lambda>_. [2, 1, 33, 1, 1]) 5000 0 0 [82] 33 10 = Some (Some oj)"
proof -
  have "jausServiceAddCoreServices (cmptServices (jausComponentCreate 0)) = (True, snd (jausServiceAddCoreServices []))"
    by (simp add: core_services jausComponentCreate_def jausComponentUpdateTimestamp_def)
  moreover obtain nmi where "nodeManagerOpen (\<lambda>_. [2, 1, 33, 1, 1]) 5000 0 (Some ((jausComponentCreate 0)\<lparr>identification := Some [82],
      cmptAddress := (cmptAddress (jausComponentCreate 0))\<lparr>addrComponent := 33\<rparr>, cmptState := snd (statePair JAUS_UNDEFINED_STATE),
      cmptServices := snd (jausServiceAddCoreServices [])\<rparr>)) = Some (Some nmi)"
    using nodeManagerOpen_example by blast
  ultimately show ?thesis by (simp add: ojCmptCreate_def Let_def)
qed

section \<open>Slots of inbound connections\<close>

definition slotsOk :: "OjCmpt \<Rightarrow> bool" where
  "slotsOk oj \<longleftrightarrow> length (inConnection oj) = 32 \<and>
     (\<forall>i < 32. \<forall>j < 32. inConnection oj ! i \<noteq> None \<longrightarrow> inConnection oj ! i = inConnection oj ! j \<longrightarrow> i = j) \<and>
     (\<forall>i < 32. \<forall>p. inConnection oj ! i = Some p \<longrightarrow> liveSc (ojNmi oj) p) \<and> scOk (scm (ojNmi oj))"

lemma freeSlot_spec:
  "(case freeSlot l of None \<Rightarrow> None \<notin> set l | Some i \<Rightarrow> i < length l \<and> l ! i = None \<and> (\<forall>j < i. l ! j \<noteq> None))"
proof (induction l)
  case Nil
  then show ?case by simp
next
  case (Cons s l)
  then show ?case
    by (cases "freeSlot l") (auto simp: nth_Cons' less_Suc_eq_0_disj split: if_splits)
qed

lemma terminate_store:
  assumes "scOk (scm nmi)" "scManagerTerminateServiceConnection os nmi d = Some (r, nmi')"
  shows "liveSc nmi' p = liveSc nmi p"
proof -
  have live: "liveSc nmi q" if "findIncoming (scStore (scm nmi)) P (incomingSc (scm nmi)) = Some (Some (q, sc))" for P q sc
    using findIncoming_Some(2) [OF _ that] assms(1) by (simp add: scOk_def liveSc_def)
  show ?thesis
    using assms(2) live
    by (auto simp: scManagerTerminateServiceConnection_def liveSc_def unlinkSc_def split: Option.bind_splits option.splits if_splits)
qed

lemma dropConnection_ok:
  assumes "slotsOk oj" "i < 32" "inConnection oj ! i = Some p"
  shows "\<exists>oj'. dropConnection os oj i p = Some oj' \<and> slotsOk oj' \<and> inConnection oj' = (inConnection oj)[i := None] \<and>
    \<not> liveSc (ojNmi oj') p"
proof -
  have live: "liveSc (ojNmi oj) p" and ok: "scOk (scm (ojNmi oj))" using assms by (auto simp: slotsOk_def)
  then obtain sc where sc: "scStore (scm (ojNmi oj)) p = Some sc" by (auto simp: liveSc_def)
  obtain nmi1 where n1: "(if isActive sc then map_option snd (scManagerTerminateServiceConnection os (ojNmi oj) p)
      else Some (ojNmi oj)) = Some nmi1" "scOk (scm nmi1)" "\<And>q. liveSc nmi1 q = liveSc (ojNmi oj) q"
  proof (cases "isActive sc")
    case True
    obtain r n where n: "scManagerTerminateServiceConnection os (ojNmi oj) p = Some (r, n)" "scOk (scm n)"
      using closeConnection_ok [OF ok live] by blast
    then show ?thesis using that True terminate_store [OF ok n(1)] by simp
  qed (use that ok in simp)
  obtain m where m: "serviceConnectionDestroy p (scm nmi1) = Some m" "scOk m" using scOk_destroy [OF n1(2)] n1(3) live by blast
  have store: "scStore m = (scStore (scm nmi1))(p := None)"
    using m(1) by (auto simp: serviceConnectionDestroy_def split: prod.splits Option.bind_splits)
  let ?oj = "oj\<lparr>ojNmi := nmi1\<lparr>scm := m\<rparr>, inConnection := (inConnection oj)[i := None]\<rparr>"
  have l: "liveSc (ojNmi ?oj) q \<longleftrightarrow> q \<noteq> p \<and> liveSc (ojNmi oj) q" for q
    using n1(3) [of q] store by (auto simp: liveSc_def)
  have "slotsOk ?oj"
    using assms m(2) unfolding slotsOk_def l by (auto simp: nth_list_update)
  then show ?thesis
    using sc n1(1) m(1) l [of p] by (intro exI [of _ ?oj]) (simp add: dropConnection_def)
qed

lemma terminateSc_ok:
  assumes "slotsOk oj"
  shows "\<exists>oj'. ojCmptTerminateSc os oj k = Some (slotAt oj k \<noteq> None, oj') \<and> slotsOk oj' \<and>
    inConnection oj' = (if slotAt oj k = None then inConnection oj else (inConnection oj)[nat k := None]) \<and>
    (\<forall>p. slotAt oj k = Some p \<longrightarrow> \<not> liveSc (ojNmi oj') p)"
proof (cases "slotAt oj k")
  case None
  then show ?thesis using assms by (simp add: ojCmptTerminateSc_def)
next
  case (Some p)
  then have "nat k < 32" "inConnection oj ! nat k = Some p" by (auto simp: slotAt_def split: if_splits)
  from dropConnection_ok [OF assms this, of os] Some show ?thesis by (auto simp: ojCmptTerminateSc_def)
qed

lemma establish_ok:
  assumes "slotsOk oj" "\<not> liveSc (ojNmi oj) p" "freeSlot (inConnection oj) = Some i"
  shows "\<exists>oj1 sc. ojCmptEstablishSc p oj code pv a rate timeout qs = (int i, oj1) \<and> i < 32 \<and>
    inConnection oj1 = (inConnection oj)[i := Some p] \<and> slotsOk oj1 \<and>
    scStore (scm (ojNmi oj1)) p = Some sc \<and> \<not> isActive sc \<and> scCommandCode sc = code \<and> scAddress sc = a"
proof -
  let ?sc = "serviceConnectionCreate
      \<lparr>requestedUpdateRateHz := rate, scAddress := a, scPresenceVector := pv, scCommandCode := code,
       isActive := False, queueSize := word_of_int qs, timeoutSec := timeout, nextRequestTimeSec := 0\<rparr>"
  let ?oj = "oj\<lparr>ojNmi := storeSc (ojNmi oj) p ?sc, inConnection := (inConnection oj)[i := Some p]\<rparr>"
  have i: "i < 32" using freeSlot_spec [of "inConnection oj"] assms(1,3) by (simp add: slotsOk_def)
  have "scOk (scm (storeSc (ojNmi oj) p ?sc))"
    using assms(1) queueCreate_ok scOk_store [of "ojNmi oj" ?sc queueCreate p] by (simp add: slotsOk_def serviceConnectionCreate_def)
  moreover have "liveSc (storeSc (ojNmi oj) p ?sc) q \<longleftrightarrow> q = p \<or> liveSc (ojNmi oj) q" for q by (simp add: liveSc_def)
  ultimately have "slotsOk ?oj"
    using assms(1,2) i unfolding slotsOk_def by (auto simp: nth_list_update)
  then show ?thesis using i assms(3) by (intro exI [of _ ?oj] exI [of _ ?sc]) (simp add: ojCmptEstablishSc_def Let_def)
qed

section \<open>Properties\<close>

text \<open>
  C24. In a component built with the library, the state commands are obeyed whoever sends them. The callbacks that creation
  registers take SHUTDOWN, STANDBY, RESUME, RESET and the emergency commands away from the default processor
  and change the state without looking at the controller; the default processor, given the same
  message from a source that is not the active controller, would have ignored it.
\<close>

theorem state_commands_uncontrolled:
  assumes "ojCmptCreate ask port now clock name ident hz = Some (Some created)" "messageCallback oj = messageCallback created"
    "commandCode m \<in> {JAUS_SHUTDOWN, JAUS_STANDBY, JAUS_RESUME, JAUS_RESET, JAUS_SET_EMERGENCY, JAUS_CLEAR_EMERGENCY}"
  shows "(\<exists>oj'. ojCmptProcessMessage env app oj m = Some oj' \<and> ojState oj' = stateAfter (commandCode m) (ojState oj) \<and>
       (ojState oj' \<noteq> ojState oj \<longrightarrow> cmptState (jaus oj') = ojState oj') \<and>
       controller (jaus oj') = controller (jaus oj)) \<and>
     (\<not> permitted (jaus oj) (source m) \<longrightarrow> ojCmptDefaultMessageProcessor env oj m = Some oj)"
proof -
  have "findCallback (messageCallback oj) (commandCode m) = Some DefaultStateCallback"
    using created_find [of oj "commandCode m"] ojCmptCreate_spec(1) [OF assms(1)] assms(2,3) by auto
  then have run: "ojCmptProcessMessage env app oj m = Some (ojCmptDefaultStateCallback oj m)"
    by (simp add: ojCmptProcessMessage_def runFunction_def)
  have "isRejectableCode (commandCode m)" using assms(3) rejectable_codes by auto
  then have "\<not> permitted (jaus oj) (source m) \<longrightarrow> ojCmptDefaultMessageProcessor env oj m = Some oj"
    by (simp add: ojCmptDefaultMessageProcessor_def defaultJausMessageProcessorNoDestroy_def permitted_def onNmi_def)
  then show ?thesis
    using assms(3) run
    by (auto simp: ojCmptDefaultStateCallback_def Let_def stateAfter_def setState_jaus setState_def)
qed

theorem state_commands_uncontrolled_witness:
  "\<exists>env app (oj :: OjCmpt) oj' m. ctrlActive (controller (jaus oj)) \<and> source m \<noteq> ctrlAddress (controller (jaus oj)) \<and>
     commandCode m = JAUS_SHUTDOWN \<and> ojCmptProcessMessage env app oj m = Some oj' \<and> ojState oj' = JAUS_SHUTDOWN_STATE"
proof -
  obtain oj0 where c: "ojCmptCreate (\<lambda>_. [2, 1, 33, 1, 1]) 5000 0 0 [82] 33 10 = Some (Some oj0)"
    using ojCmptCreate_example by blast
  let ?oj = "oj0\<lparr>ojNmi := setController (ojNmi oj0) (noController\<lparr>ctrlActive := True\<rparr>)\<rparr>"
  let ?m = "jausMessageCreate\<lparr>commandCode := JAUS_SHUTDOWN, source := jausAddressCreate\<lparr>addrSubsystem := 7\<rparr>\<rparr>"
  obtain env :: Surroundings and app :: Application where True by blast
  have "ctrlActive (controller (jaus ?oj))" "source ?m \<noteq> ctrlAddress (controller (jaus ?oj))"
    by (simp_all add: setController_def noController_def jausAddressCreate_def)
  moreover obtain oj' where "ojCmptProcessMessage env app ?oj ?m = Some oj'" "ojState oj' = JAUS_SHUTDOWN_STATE"
    using state_commands_uncontrolled [OF c, of ?oj ?m env app] by (auto simp: stateAfter_def)
  ultimately show ?thesis
    by - (rule exI [of _ env], rule exI [of _ app], rule exI [of _ ?oj], rule exI [of _ oj'], rule exI [of _ ?m], simp)
qed


text \<open>
  C19. The component built with the library handles every message but one. As long as its callbacks are those of creation, its
  interface is open and its connections are well formed, a message with the announced amount of data and any command code
  except REPORT_CONFIGURATION is processed without fault, whatever its bytes. A well-formed configuration report, from
  anyone, makes the component follow the null pointer \<open>cmpt->node\<close>.
\<close>

theorem created_component_messages:
  assumes "ojCmptCreate ask port now clock name ident hz = Some (Some created)" "length name < 80" "0 \<notin> set name"
    "messageCallback oj = messageCallback created" "processMessageCallback oj = None"
    "sameIdentity (jaus created) (jaus oj)" "isOpen (ojNmi oj)" "scOk (scm (ojNmi oj))"
  shows "(length (dataBytes m) = unat (dataSize m) \<longrightarrow> commandCode m \<noteq> JAUS_REPORT_CONFIGURATION \<longrightarrow>
       (\<exists>oj'. ojCmptProcessMessage env app oj m = Some oj' \<and> isOpen (ojNmi oj') \<and> scOk (scm (ojNmi oj')) \<and> componentOk (jaus oj'))) \<and>
     (commandCode r = JAUS_REPORT_CONFIGURATION \<longrightarrow> configurationOk (configuration (reportConfiguration_subsystem r)) \<longrightarrow>
       reportConfigurationMessageToJausMessage r = Some report \<longrightarrow> ojCmptProcessMessage env app oj report = None)"
proof -
  note spec = ojCmptCreate_spec [OF assms(1)]
  have ok: "componentOk (jaus oj)"
    using created_component [OF spec(5,6) assms(2,3)] sameIdentity_ok [OF assms(6)] by simp
  have find: "findCallback (messageCallback oj) code = Some DefaultStateCallback \<or> findCallback (messageCallback oj) code = None" for code
    using created_find [of oj code] spec(1) assms(4) by simp
  have set: "isOpen (ojNmi (ojCmptDefaultStateCallback oj m)) \<and> scOk (scm (ojNmi (ojCmptDefaultStateCallback oj m))) \<and>
      componentOk (jaus (ojCmptDefaultStateCallback oj m))"
    using assms(7,8) ok by (simp add: ojCmptDefaultStateCallback_def Let_def ojCmptSetState_def setState_def componentOk_def)
  have "\<exists>oj'. ojCmptProcessMessage env app oj m = Some oj' \<and> isOpen (ojNmi oj') \<and> scOk (scm (ojNmi oj')) \<and> componentOk (jaus oj')"
    if "length (dataBytes m) = unat (dataSize m)" "commandCode m \<noteq> JAUS_REPORT_CONFIGURATION"
    using processor_ok [OF assms(7,8) ok that(1), of None env] that(2) find [of "commandCode m"] set
    by (auto simp: ojCmptProcessMessage_def runFunction_def assms(5) ojCmptDefaultMessageProcessor_def onNmi_def)
  moreover have "ojCmptProcessMessage env app oj report = None"
    if rep: "commandCode r = JAUS_REPORT_CONFIGURATION" "configurationOk (configuration (reportConfiguration_subsystem r))"
      "reportConfigurationMessageToJausMessage r = Some report"
  proof -
    obtain x where x: "commandCode report = JAUS_REPORT_CONFIGURATION"
      "reportConfigurationMessageFromJausMessage (envClock env) (junkConfiguration env) report = Some (Some x)"
      using configuration_jaus [OF rep(2,1), of "envClock env" "junkConfiguration env"] rep(3) by auto
    have "\<not> isRejectableCode JAUS_REPORT_CONFIGURATION" by (simp add: isRejectableCode_def rejectableCommands_def)
    then show ?thesis
      using x created_find [of oj "commandCode report"] spec(1) assms(4)
      by (simp add: ojCmptProcessMessage_def assms(5) ojCmptDefaultMessageProcessor_def
          defaultJausMessageProcessorNoDestroy_def newConfiguration_def)
  qed
  ultimately show ?thesis by blast
qed


theorem created_component_messages_witness:
  "\<exists>env app (oj :: OjCmpt) m oj' report. commandCode m = 0xBEEF \<and> ojCmptProcessMessage env app oj m = Some oj' \<and>
     commandCode report = JAUS_REPORT_CONFIGURATION \<and> ojCmptProcessMessage env app oj report = None"
proof -
  obtain oj where c: "ojCmptCreate (\<lambda>_. [2, 1, 33, 1, 1]) 5000 0 0 [82] 33 10 = Some (Some oj)"
    using ojCmptCreate_example by blast
  note spec = ojCmptCreate_spec [OF c]
  let ?m = "jausMessageCreate\<lparr>commandCode := 0xBEEF, dataSize := 3, data := Some [1, 2, 3]\<rparr>"
  have d: "length (dataBytes ?m) = unat (dataSize ?m)" by (simp add: dataBytes_def)
  let ?r = "(reportConfigurationMessageCreate 0)\<lparr>reportConfiguration_subsystem := jausSubsystemCreate 0\<rparr>"
  have r: "commandCode ?r = JAUS_REPORT_CONFIGURATION" "configurationOk (configuration (reportConfiguration_subsystem ?r))"
    by (simp_all add: reportConfigurationMessageCreate_def reportConfiguration_dataInitialize_def blankHeader_def
        JausHeader.extend_def Let_def configuration_def configurationOk_def jausSubsystemCreate_def jausSubsystemUpdateTimestamp_def)
  obtain report where rep: "reportConfigurationMessageToJausMessage ?r = Some report" "commandCode report = JAUS_REPORT_CONFIGURATION"
    using configuration_jaus [OF r(2,1), of 0 ?r] by blast
  obtain env :: Surroundings and app :: Application where True by blast
  have "length [82 :: u8] < 80" "0 \<notin> set [82 :: u8]" "sameIdentity (jaus oj) (jaus oj)" by (simp_all add: sameIdentity_def)
  note all = created_component_messages [OF c this(1,2) refl spec(2) this(3) spec(3,4), of ?m env app ?r report]
  then obtain oj' where "ojCmptProcessMessage env app oj ?m = Some oj'" using d by (simp add: dataBytes_def) blast
  moreover have "ojCmptProcessMessage env app oj report = None" using all r rep by simp
  ultimately show ?thesis
    by - (rule exI [of _ env], rule exI [of _ app], rule exI [of _ oj], rule exI [of _ ?m], rule exI [of _ oj'],
      rule exI [of _ report], simp add: rep)
qed

text \<open>
  C34. The table of inbound connections is an allocator. A request for a connection takes the first of the 32 slots that
  is free and returns its number, with a new object that is not active yet, or returns -1 and changes nothing when
  all are taken. Ending a connection never faults, succeeds exactly for a slot in use and frees that slot only.
  In between, the slots always hold different, live connections; a connection that is requested
  and ended again leaves the slots as they were and its object is destroyed.
\<close>

theorem slots_allocate:
  assumes "slotsOk oj" "\<not> liveSc (ojNmi oj) p"
  shows "(None \<notin> set (inConnection oj) \<longrightarrow> ojCmptEstablishSc p oj code pv a rate timeout qs = (-1, oj)) \<and>
     (None \<in> set (inConnection oj) \<longrightarrow>
       (\<exists>i oj1 sc. ojCmptEstablishSc p oj code pv a rate timeout qs = (int i, oj1) \<and> i < 32 \<and> inConnection oj ! i = None \<and>
          (\<forall>j < i. inConnection oj ! j \<noteq> None) \<and> inConnection oj1 = (inConnection oj)[i := Some p] \<and> slotsOk oj1 \<and>
          scStore (scm (ojNmi oj1)) p = Some sc \<and> \<not> isActive sc \<and> scCommandCode sc = code \<and> scAddress sc = a \<and>
          (\<exists>oj2. ojCmptTerminateSc os oj1 (int i) = Some (True, oj2) \<and> slotsOk oj2 \<and>
             inConnection oj2 = inConnection oj \<and> \<not> liveSc (ojNmi oj2) p))) \<and>
     (\<exists>oj'. ojCmptTerminateSc os oj k = Some (slotAt oj k \<noteq> None, oj') \<and> slotsOk oj' \<and>
        inConnection oj' = (if slotAt oj k = None then inConnection oj else (inConnection oj)[nat k := None]))"
proof (intro conjI impI)
  note free = freeSlot_spec [of "inConnection oj"]
  have len: "length (inConnection oj) = 32" using assms(1) by (simp add: slotsOk_def)
  show "ojCmptEstablishSc p oj code pv a rate timeout qs = (-1, oj)" if "None \<notin> set (inConnection oj)"
    using free that by (auto simp: ojCmptEstablishSc_def split: option.splits dest: nth_mem)
  show "\<exists>oj'. ojCmptTerminateSc os oj k = Some (slotAt oj k \<noteq> None, oj') \<and> slotsOk oj' \<and>
        inConnection oj' = (if slotAt oj k = None then inConnection oj else (inConnection oj)[nat k := None])"
    using terminateSc_ok [OF assms(1), of os k] by blast
  assume "None \<in> set (inConnection oj)"
  then obtain i where i: "freeSlot (inConnection oj) = Some i" "inConnection oj ! i = None" "\<forall>j < i. inConnection oj ! j \<noteq> None"
    using free by (auto split: option.splits)
  from establish_ok [OF assms i(1), of code pv a rate timeout qs] obtain oj1 sc where
    e: "ojCmptEstablishSc p oj code pv a rate timeout qs = (int i, oj1)" "i < 32" "inConnection oj1 = (inConnection oj)[i := Some p]"
      "slotsOk oj1" "scStore (scm (ojNmi oj1)) p = Some sc \<and> \<not> isActive sc \<and> scCommandCode sc = code \<and> scAddress sc = a"
    by blast
  have at: "slotAt oj1 (int i) = Some p" using e(2,3) len by (simp add: slotAt_def)
  obtain oj2 where "ojCmptTerminateSc os oj1 (int i) = Some (True, oj2)" "slotsOk oj2"
    "inConnection oj2 = (inConnection oj1)[i := None]" "\<not> liveSc (ojNmi oj2) p"
    using terminateSc_ok [OF e(4), of os "int i"] at by auto
  moreover have "(inConnection oj1)[i := None] = inConnection oj" using e(3) i(2) by (metis list_update_id list_update_overwrite)
  ultimately show "\<exists>i oj1 sc. ojCmptEstablishSc p oj code pv a rate timeout qs = (int i, oj1) \<and> i < 32 \<and> inConnection oj ! i = None \<and>
          (\<forall>j < i. inConnection oj ! j \<noteq> None) \<and> inConnection oj1 = (inConnection oj)[i := Some p] \<and> slotsOk oj1 \<and>
          scStore (scm (ojNmi oj1)) p = Some sc \<and> \<not> isActive sc \<and> scCommandCode sc = code \<and> scAddress sc = a \<and>
          (\<exists>oj2. ojCmptTerminateSc os oj1 (int i) = Some (True, oj2) \<and> slotsOk oj2 \<and>
             inConnection oj2 = inConnection oj \<and> \<not> liveSc (ojNmi oj2) p)"
    using e i by auto
qed

theorem slots_allocate_witness:
  "\<exists>(oj :: OjCmpt) oj1 oj2. ojCmptEstablishSc 7 oj JAUS_REPORT_COMPONENT_STATUS 0 jausAddressCreate 1 2 0 = (0, oj1) \<and>
     ojCmptTerminateSc (\<lambda>_. 0) oj1 0 = Some (True, oj2) \<and> inConnection oj2 = inConnection oj"
proof -
  obtain oj where c: "ojCmptCreate (\<lambda>_. [2, 1, 33, 1, 1]) 5000 0 0 [82] 33 10 = Some (Some oj)"
    using ojCmptCreate_example by blast
  note spec = ojCmptCreate_spec [OF c]
  let ?oj = "oj\<lparr>ojNmi := (ojNmi oj)\<lparr>scm := scManagerCreate\<rparr>\<rparr>"
  have "scOk scManagerCreate" using scReach_ok [OF scReach.init, of "(ojNmi oj)\<lparr>scm := scManagerCreate\<rparr>"] by simp
  then have ok: "slotsOk ?oj" "\<not> liveSc (ojNmi ?oj) 7" "None \<in> set (inConnection ?oj)" "inConnection ?oj ! 0 = None"
    by (simp_all add: slotsOk_def spec(8) liveSc_def scManagerCreate_def)
  from slots_allocate [OF ok(1,2), of JAUS_REPORT_COMPONENT_STATUS 0 jausAddressCreate 1 2 0 "\<lambda>_. 0" 0] ok(3,4)
  obtain i oj1 oj2 where "ojCmptEstablishSc 7 ?oj JAUS_REPORT_COMPONENT_STATUS 0 jausAddressCreate 1 2 0 = (int i, oj1)"
    "\<forall>j < i. inConnection ?oj ! j \<noteq> None" "ojCmptTerminateSc (\<lambda>_. 0) oj1 (int i) = Some (True, oj2)" "inConnection oj2 = inConnection ?oj"
    by blast
  moreover from this(2) ok(4) have "i = 0" by blast
  ultimately show ?thesis
    by - (rule exI [of _ ?oj], rule exI [of _ oj1], rule exI [of _ oj2], simp)
qed

end
