(* ===== verification/Registry.thy ===== *)
theory Registry
  imports Configuration
begin

text \<open>
  The system tree of the node manager (\<open>openjaus/src/libopenjaus/nodeManager/SystemTree.cpp\<close>): the subsystems,
  nodes and components the node manager knows, with their time stamps, identifications and services.

  The array \<open>system\<close> is a list of 255 entries; an index outside of it is undefined. A pointer into the tree
  is a position: \<open>findNode\<close> and \<open>findComponent\<close> return where they found the object, and an assignment through the
  pointer replaces the object at that place. The event handlers are the list \<open>hs\<close> of functions; a handler sees the
  tree as it is when the event is raised, and changes its own state \<open>'w\<close> only. The result of \<open>time\<close> is \<open>now\<close>.
\<close>

abbreviation (input) JAUS_MINIMUM_SUBSYSTEM_ID :: int where "JAUS_MINIMUM_SUBSYSTEM_ID \<equiv> 1"
abbreviation (input) JAUS_MAXIMUM_SUBSYSTEM_ID :: int where "JAUS_MAXIMUM_SUBSYSTEM_ID \<equiv> 254"
abbreviation (input) JAUS_MINIMUM_NODE_ID :: int where "JAUS_MINIMUM_NODE_ID \<equiv> 1"
abbreviation (input) JAUS_MAXIMUM_NODE_ID :: int where "JAUS_MAXIMUM_NODE_ID \<equiv> 254"
abbreviation (input) JAUS_MINIMUM_COMPONENT_ID :: int where "JAUS_MINIMUM_COMPONENT_ID \<equiv> 1"
abbreviation (input) JAUS_MAXIMUM_COMPONENT_ID :: int where "JAUS_MAXIMUM_COMPONENT_ID \<equiv> 254"
abbreviation (input) JAUS_MINIMUM_INSTANCE_ID :: int where "JAUS_MINIMUM_INSTANCE_ID \<equiv> 1"
abbreviation (input) JAUS_MAXIMUM_INSTANCE_ID :: int where "JAUS_MAXIMUM_INSTANCE_ID \<equiv> 254"
abbreviation (input) JAUS_ADDRESS_WILDCARD_OCTET :: int where "JAUS_ADDRESS_WILDCARD_OCTET \<equiv> 0"
abbreviation (input) JAUS_ADDRESS_BROADCAST_OCTET :: int where "JAUS_ADDRESS_BROADCAST_OCTET \<equiv> 255"

section \<open>The tree and its events\<close>

record SystemTree =
  system :: "JausSubsystem option list"
  subsystemCount :: int
  treeSubsystemId :: int
  treeNodeId :: int

abbreviation (input) MAX_SUBS_COUNT :: nat where "MAX_SUBS_COUNT \<equiv> 255"

definition newSystemTree :: "int \<Rightarrow> int \<Rightarrow> SystemTree" where
  "newSystemTree subsystem node =
     \<lparr>system = replicate MAX_SUBS_COUNT None, subsystemCount = 0, treeSubsystemId = subsystem, treeNodeId = node\<rparr>"

datatype SystemTreeEvent =
    SubsystemAdded JausSubsystem | SubsystemRemoved JausSubsystem | SubsystemTimeout JausSubsystem
  | NodeAdded JausNode | NodeRemoved JausNode | NodeTimeout JausNode
  | ComponentAdded JausComponent | ComponentRemoved JausComponent | ComponentTimeout JausComponent

text \<open>The constructor of an event and \<open>cloneEvent\<close> clone the object the event is about.\<close>

fun cloneEvent :: "int \<Rightarrow> SystemTreeEvent \<Rightarrow> SystemTreeEvent exec" where
  "cloneEvent now (SubsystemAdded s) = map_option SubsystemAdded (jausSubsystemClone now s)"
| "cloneEvent now (SubsystemRemoved s) = map_option SubsystemRemoved (jausSubsystemClone now s)"
| "cloneEvent now (SubsystemTimeout s) = map_option SubsystemTimeout (jausSubsystemClone now s)"
| "cloneEvent now (NodeAdded n) = map_option NodeAdded (jausNodeClone now n)"
| "cloneEvent now (NodeRemoved n) = map_option NodeRemoved (jausNodeClone now n)"
| "cloneEvent now (NodeTimeout n) = map_option NodeTimeout (jausNodeClone now n)"
| "cloneEvent now (ComponentAdded c) = map_option ComponentAdded (jausComponentClone now c)"
| "cloneEvent now (ComponentRemoved c) = map_option ComponentRemoved (jausComponentClone now c)"
| "cloneEvent now (ComponentTimeout c) = map_option ComponentTimeout (jausComponentClone now c)"

type_synonym 'w handler = "SystemTreeEvent \<Rightarrow> SystemTree \<Rightarrow> 'w \<Rightarrow> 'w exec"

fun notifyAll :: "'w handler list \<Rightarrow> int \<Rightarrow> SystemTreeEvent \<Rightarrow> SystemTree \<Rightarrow> 'w \<Rightarrow> 'w exec" where
  "notifyAll [] now e t w = Some w"
| "notifyAll (h # hs) now e t w =
     do { e' \<leftarrow> cloneEvent now e; w' \<leftarrow> h e' t w; notifyAll hs now e t w' }"

text \<open>\<open>new SystemTreeEvent(type, object)\<close> followed by \<open>handleEvent\<close>.\<close>

definition raiseEvent :: "'w handler list \<Rightarrow> int \<Rightarrow> SystemTreeEvent \<Rightarrow> SystemTree \<Rightarrow> 'w \<Rightarrow> 'w exec" where
  "raiseEvent hs now e t w = do { e' \<leftarrow> cloneEvent now e; notifyAll hs now e' t w }"

section \<open>Searching the tree\<close>

definition systemAt :: "SystemTree \<Rightarrow> int \<Rightarrow> JausSubsystem option exec" where
  "systemAt t i = (if 0 \<le> i \<and> i < int (length (system t)) then Some (system t ! nat i) else None)"

definition setSystemAt :: "SystemTree \<Rightarrow> int \<Rightarrow> JausSubsystem option \<Rightarrow> SystemTree exec" where
  "setSystemAt t i s =
     (if 0 \<le> i \<and> i < int (length (system t)) then Some (t\<lparr>system := (system t)[nat i := s]\<rparr>) else None)"

abbreviation (input) isNode :: "int \<Rightarrow> JausNode \<Rightarrow> bool" where
  "isNode i \<equiv> \<lambda>node. uint (nodeId node) = i"

abbreviation (input) isCmpt :: "int \<Rightarrow> int \<Rightarrow> JausComponent \<Rightarrow> bool" where
  "isCmpt c i \<equiv> \<lambda>cmpt. uint (addrComponent (cmptAddress cmpt)) = c \<and> uint (addrInstance (cmptAddress cmpt)) = i"

definition findNode :: "SystemTree \<Rightarrow> int \<Rightarrow> int \<Rightarrow> nat option exec" where
  "findNode t s n =
     do { subs \<leftarrow> systemAt t s;
          Some (case subs of None \<Rightarrow> None | Some subs \<Rightarrow> firstIdx (isNode n) (subsNodes subs)) }"

definition findComponent :: "SystemTree \<Rightarrow> int \<Rightarrow> int \<Rightarrow> int \<Rightarrow> int \<Rightarrow> (nat \<times> nat) option exec" where
  "findComponent t s n cmptId instId =
     do { subs \<leftarrow> systemAt t s;
          Some (case subs of
                  None \<Rightarrow> None
                | Some subs \<Rightarrow>
                    (case firstIdx (isNode n) (subsNodes subs) of
                       None \<Rightarrow> None
                     | Some i \<Rightarrow> map_option (Pair i) (firstIdx (isCmpt cmptId instId) (nodeComponents (subsNodes subs ! i))))) }"

text \<open>The objects behind the pointers.\<close>

definition subsAt :: "SystemTree \<Rightarrow> int \<Rightarrow> JausSubsystem" where
  "subsAt t s = the (system t ! nat s)"

definition nodeAt :: "SystemTree \<Rightarrow> int \<Rightarrow> nat \<Rightarrow> JausNode" where
  "nodeAt t s i = subsNodes (subsAt t s) ! i"

definition cmptAt :: "SystemTree \<Rightarrow> int \<Rightarrow> nat \<times> nat \<Rightarrow> JausComponent" where
  "cmptAt t s p = nodeComponents (nodeAt t s (fst p)) ! snd p"

definition updSubs :: "SystemTree \<Rightarrow> int \<Rightarrow> (JausSubsystem \<Rightarrow> JausSubsystem) \<Rightarrow> SystemTree" where
  "updSubs t s f = t\<lparr>system := (system t)[nat s := Some (f (subsAt t s))]\<rparr>"

definition updNode :: "SystemTree \<Rightarrow> int \<Rightarrow> nat \<Rightarrow> (JausNode \<Rightarrow> JausNode) \<Rightarrow> SystemTree" where
  "updNode t s i f = updSubs t s (\<lambda>subs. subs\<lparr>subsNodes := (subsNodes subs)[i := f (subsNodes subs ! i)]\<rparr>)"

definition updCmpt :: "SystemTree \<Rightarrow> int \<Rightarrow> nat \<times> nat \<Rightarrow> (JausComponent \<Rightarrow> JausComponent) \<Rightarrow> SystemTree" where
  "updCmpt t s p f =
     updNode t s (fst p) (\<lambda>node. node\<lparr>nodeComponents := (nodeComponents node)[snd p := f (nodeComponents node ! snd p)]\<rparr>)"

text \<open>The members with a \<open>JausAddress\<close> argument pass on the bytes of the address.\<close>

definition findNodeAddress :: "SystemTree \<Rightarrow> JausAddress \<Rightarrow> nat option exec" where
  "findNodeAddress t a = findNode t (uint (addrSubsystem a)) (uint (addrNode a))"

definition findComponentAddress :: "SystemTree \<Rightarrow> JausAddress \<Rightarrow> (nat \<times> nat) option exec" where
  "findComponentAddress t a =
     findComponent t (uint (addrSubsystem a)) (uint (addrNode a)) (uint (addrComponent a)) (uint (addrInstance a))"

section \<open>Questions\<close>

definition hasComponent :: "SystemTree \<Rightarrow> JausAddress \<Rightarrow> bool exec" where
  "hasComponent t a = map_option (\<lambda>cmpt. cmpt \<noteq> None) (findComponentAddress t a)"

definition hasNode :: "SystemTree \<Rightarrow> JausAddress \<Rightarrow> bool exec" where
  "hasNode t a = map_option (\<lambda>node. node \<noteq> None) (findNodeAddress t a)"

definition hasSubsystem :: "SystemTree \<Rightarrow> JausAddress \<Rightarrow> bool exec" where
  "hasSubsystem t a = map_option (\<lambda>subs. subs \<noteq> None) (systemAt t (uint (addrSubsystem a)))"

definition hasSubsystemConfiguration :: "SystemTree \<Rightarrow> JausAddress \<Rightarrow> bool exec" where
  "hasSubsystemConfiguration t a =
     map_option (\<lambda>subs. case subs of None \<Rightarrow> False | Some subs \<Rightarrow> length (subsNodes subs) > 0)
       (systemAt t (uint (addrSubsystem a)))"

definition hasSubsystemIdentification :: "SystemTree \<Rightarrow> JausAddress \<Rightarrow> bool exec" where
  "hasSubsystemIdentification t a =
     map_option (\<lambda>subs. case subs of None \<Rightarrow> False | Some subs \<Rightarrow> subsIdentification subs \<noteq> None)
       (systemAt t (uint (addrSubsystem a)))"

definition hasNodeIdentification :: "SystemTree \<Rightarrow> JausAddress \<Rightarrow> bool exec" where
  "hasNodeIdentification t a =
     map_option (\<lambda>node. case node of None \<Rightarrow> False
                        | Some i \<Rightarrow> nodeIdentification (nodeAt t (uint (addrSubsystem a)) i) \<noteq> None)
       (findNodeAddress t a)"

definition hasNodeConfiguration :: "SystemTree \<Rightarrow> JausAddress \<Rightarrow> bool exec" where
  "hasNodeConfiguration t a =
     map_option (\<lambda>node. case node of None \<Rightarrow> False
                        | Some i \<Rightarrow> length (nodeComponents (nodeAt t (uint (addrSubsystem a)) i)) > 0)
       (findNodeAddress t a)"

definition hasComponentIdentification :: "SystemTree \<Rightarrow> JausAddress \<Rightarrow> bool exec" where
  "hasComponentIdentification t a =
     map_option (\<lambda>cmpt. case cmpt of None \<Rightarrow> False
                        | Some p \<Rightarrow> identification (cmptAt t (uint (addrSubsystem a)) p) \<noteq> None)
       (findComponentAddress t a)"

definition hasComponentServices :: "SystemTree \<Rightarrow> JausAddress \<Rightarrow> bool exec" where
  "hasComponentServices t a =
     map_option (\<lambda>cmpt. case cmpt of None \<Rightarrow> False
                        | Some p \<Rightarrow> length (cmptServices (cmptAt t (uint (addrSubsystem a)) p)) > 0)
       (findComponentAddress t a)"

section \<open>Time stamps\<close>

definition updateComponentTimestamp :: "int \<Rightarrow> SystemTree \<Rightarrow> JausAddress \<Rightarrow> (bool \<times> SystemTree) exec" where
  "updateComponentTimestamp now t a =
     do { cmpt \<leftarrow> findComponentAddress t a;
          Some (case cmpt of
                  None \<Rightarrow> (False, t)
                | Some p \<Rightarrow> (True, updCmpt t (uint (addrSubsystem a)) p (jausComponentUpdateTimestamp now))) }"

definition updateNodeTimestamp :: "int \<Rightarrow> SystemTree \<Rightarrow> JausAddress \<Rightarrow> (bool \<times> SystemTree) exec" where
  "updateNodeTimestamp now t a =
     do { node \<leftarrow> findNodeAddress t a;
          Some (case node of
                  None \<Rightarrow> (False, t)
                | Some i \<Rightarrow> (True, updNode t (uint (addrSubsystem a)) i (jausNodeUpdateTimestamp now))) }"

definition updateSubsystemTimestamp :: "int \<Rightarrow> SystemTree \<Rightarrow> JausAddress \<Rightarrow> (bool \<times> SystemTree) exec" where
  "updateSubsystemTimestamp now t a =
     do { subs \<leftarrow> systemAt t (uint (addrSubsystem a));
          Some (case subs of
                  None \<Rightarrow> (False, t)
                | Some _ \<Rightarrow> (True, updSubs t (uint (addrSubsystem a)) (jausSubsystemUpdateTimestamp now))) }"

section \<open>The next instance\<close>

text \<open>
  The array \<open>instanceAvailable\<close> has 254 elements, the instances that are entered and looked up run to 254.
\<close>

fun markInstances :: "u8 \<Rightarrow> JausComponent list \<Rightarrow> bool list \<Rightarrow> bool list exec" where
  "markInstances c [] avail = Some avail"
| "markInstances c (component # rest) avail =
     (if addrComponent (cmptAddress component) = c
      then (let i = unat (addrInstance (cmptAddress component))
            in if i < length avail then markInstances c rest (avail[i := False]) else None)
      else markInstances c rest avail)"

function lowestInstance :: "bool list \<Rightarrow> nat \<Rightarrow> u8 exec" where
  "lowestInstance avail i =
     (if i \<le> nat JAUS_MAXIMUM_INSTANCE_ID
      then (if i < length avail
            then (if avail ! i then Some (of_nat i) else lowestInstance avail (i + 1))
            else None)
      else Some 0)"
  by pat_completeness auto
termination by (relation "measure (\<lambda>(avail, i). 255 - i)") auto

declare lowestInstance.simps [simp del]

definition getNextInstanceId :: "SystemTree \<Rightarrow> JausAddress \<Rightarrow> u8 exec" where
  "getNextInstanceId t a =
     do { node \<leftarrow> findNode t (uint (addrSubsystem a)) (uint (addrNode a));
          (case node of
             None \<Rightarrow> Some 0
           | Some i \<Rightarrow>
               do { avail \<leftarrow> markInstances (addrComponent a) (nodeComponents (nodeAt t (uint (addrSubsystem a)) i))
                               (replicate (nat JAUS_MAXIMUM_INSTANCE_ID) True);
                    lowestInstance avail (nat JAUS_MINIMUM_INSTANCE_ID) }) }"

section \<open>Looking up addresses\<close>

fun lookUpInComponents :: "JausComponent list \<Rightarrow> int \<Rightarrow> int \<Rightarrow> JausAddress option" where
  "lookUpInComponents [] lookupCmpt lookupInst = None"
| "lookUpInComponents (component # rest) lookupCmpt lookupInst =
     (if lookupCmpt = JAUS_ADDRESS_WILDCARD_OCTET
      then (if lookupInst = JAUS_ADDRESS_WILDCARD_OCTET then Some (jausAddressClone (cmptAddress component))
            else if uint (addrInstance (cmptAddress component)) = lookupInst then Some (jausAddressClone (cmptAddress component))
            else lookUpInComponents rest lookupCmpt lookupInst)
      else if uint (addrComponent (cmptAddress component)) = lookupCmpt
      then (if lookupInst = JAUS_ADDRESS_WILDCARD_OCTET then Some (jausAddressClone (cmptAddress component))
            else if uint (addrInstance (cmptAddress component)) = lookupInst then Some (jausAddressClone (cmptAddress component))
            else lookUpInComponents rest lookupCmpt lookupInst)
      else lookUpInComponents rest lookupCmpt lookupInst)"

definition lookUpAddressInNode :: "JausNode option \<Rightarrow> int \<Rightarrow> int \<Rightarrow> JausAddress option" where
  "lookUpAddressInNode node lookupCmpt lookupInst =
     (case node of None \<Rightarrow> None | Some node \<Rightarrow> lookUpInComponents (nodeComponents node) lookupCmpt lookupInst)"

fun lookUpInNodes :: "JausNode list \<Rightarrow> int \<Rightarrow> int \<Rightarrow> JausAddress option" where
  "lookUpInNodes [] lookupCmpt lookupInst = None"
| "lookUpInNodes (node # rest) lookupCmpt lookupInst =
     (case lookUpAddressInNode (Some node) lookupCmpt lookupInst of
        Some address \<Rightarrow> Some address
      | None \<Rightarrow> lookUpInNodes rest lookupCmpt lookupInst)"

definition lookUpAddressInSubsystem ::
    "SystemTree \<Rightarrow> JausSubsystem option \<Rightarrow> int \<Rightarrow> int \<Rightarrow> int \<Rightarrow> JausAddress option exec" where
  "lookUpAddressInSubsystem t subs lookupNode lookupCmpt lookupInst =
     (case subs of
        None \<Rightarrow> Some None
      | Some subs \<Rightarrow>
          if lookupNode = JAUS_ADDRESS_WILDCARD_OCTET
          then Some (lookUpInNodes (subsNodes subs) lookupCmpt lookupInst)
          else do { node \<leftarrow> findNode t (subsId subs) lookupNode;
                    Some (lookUpAddressInNode (map_option (nodeAt t (subsId subs)) node) lookupCmpt lookupInst) })"

fun lookUpInSystem :: "SystemTree \<Rightarrow> int list \<Rightarrow> int \<Rightarrow> int \<Rightarrow> int \<Rightarrow> JausAddress option exec" where
  "lookUpInSystem t [] lookupNode lookupCmpt lookupInst = Some None"
| "lookUpInSystem t (i # rest) lookupNode lookupCmpt lookupInst =
     do { subs \<leftarrow> systemAt t i;
          address \<leftarrow> lookUpAddressInSubsystem t subs lookupNode lookupCmpt lookupInst;
          (case address of
             Some a \<Rightarrow> Some (Some a)
           | None \<Rightarrow> lookUpInSystem t rest lookupNode lookupCmpt lookupInst) }"

text \<open>The loops over the subsystems stop one short of the largest number.\<close>

abbreviation (input) subsystemIds :: "int list" where
  "subsystemIds \<equiv> map int [nat JAUS_MINIMUM_SUBSYSTEM_ID ..< nat JAUS_MAXIMUM_SUBSYSTEM_ID]"

definition unbroadcast :: "int \<Rightarrow> int" where
  "unbroadcast x = (if x = JAUS_ADDRESS_BROADCAST_OCTET then JAUS_ADDRESS_WILDCARD_OCTET else x)"

definition lookUpAddress :: "SystemTree \<Rightarrow> int \<Rightarrow> int \<Rightarrow> int \<Rightarrow> int \<Rightarrow> JausAddress option exec" where
  "lookUpAddress t lookupSubs lookupNode lookupCmpt lookupInst =
     (let lookupSubs = unbroadcast lookupSubs; lookupNode = unbroadcast lookupNode;
          lookupCmpt = unbroadcast lookupCmpt; lookupInst = unbroadcast lookupInst
      in if lookupSubs = JAUS_ADDRESS_WILDCARD_OCTET
         then lookUpInSystem t subsystemIds lookupNode lookupCmpt lookupInst
         else do { subs \<leftarrow> systemAt t lookupSubs;
                   lookUpAddressInSubsystem t subs lookupNode lookupCmpt lookupInst })"

section \<open>Looking up services\<close>

abbreviation (input) JAUS_SERVICE_INPUT_COMMAND :: int where "JAUS_SERVICE_INPUT_COMMAND \<equiv> 0"
abbreviation (input) JAUS_SERVICE_OUTPUT_COMMAND :: int where "JAUS_SERVICE_OUTPUT_COMMAND \<equiv> 1"

text \<open>
  The result list and the variable \<open>cur\<close>: the position of the element it points to, \<^term>\<open>None\<close> when it is a null
  pointer. The first address is followed by \<open>cur = list->next\<close>, which is null.
\<close>

definition appendAddress :: "JausAddress \<Rightarrow> JausAddress list \<times> nat option \<Rightarrow> (JausAddress list \<times> nat option) exec" where
  "appendAddress address = (\<lambda>(lst, cur).
     if lst = [] then Some ([address], None)
     else (case cur of None \<Rightarrow> None | Some k \<Rightarrow> Some (take (Suc k) lst @ [address], Some (Suc k))))"

definition serviceCommands :: "int \<Rightarrow> JausService \<Rightarrow> JausCommand list" where
  "serviceCommands kind service =
     (if kind = JAUS_SERVICE_INPUT_COMMAND then inputCommandList service else outputCommandList service)"

definition offersCommand :: "int \<Rightarrow> int \<Rightarrow> JausService \<Rightarrow> bool" where
  "offersCommand code kind service \<longleftrightarrow>
     (\<exists>command \<in> set (serviceCommands kind service). uint (cmdCommandCode command) = code)"

fun lookUpInServices :: "int \<Rightarrow> int \<Rightarrow> JausAddress \<Rightarrow> JausService list \<Rightarrow> JausAddress list \<times> nat option \<Rightarrow>
    (JausAddress list \<times> nat option) exec" where
  "lookUpInServices code kind a [] st = Some st"
| "lookUpInServices code kind a (service # rest) st =
     (if offersCommand code kind service
      then do { st' \<leftarrow> appendAddress (jausAddressClone a) st; lookUpInServices code kind a rest st' }
      else lookUpInServices code kind a rest st)"

text \<open>
  All components in the order of the three outer loops. The array of every tree the constructor makes has 255 entries, so
  the index is in range.
\<close>

definition loopComponents :: "SystemTree \<Rightarrow> JausComponent list" where
  "loopComponents t =
     concat (map (\<lambda>i. case system t ! nat i of
                        None \<Rightarrow> []
                      | Some subs \<Rightarrow> concat (map nodeComponents (subsNodes subs))) subsystemIds)"

fun lookUpServices :: "int \<Rightarrow> int \<Rightarrow> JausComponent list \<Rightarrow> JausAddress list \<times> nat option \<Rightarrow>
    (JausAddress list \<times> nat option) exec" where
  "lookUpServices code kind [] st = Some st"
| "lookUpServices code kind (component # rest) st =
     do { st' \<leftarrow> lookUpInServices code kind (cmptAddress component) (cmptServices component) st;
          lookUpServices code kind rest st' }"

definition lookUpServiceInSystem :: "SystemTree \<Rightarrow> int \<Rightarrow> int \<Rightarrow> JausAddress list exec" where
  "lookUpServiceInSystem t code kind =
     (if kind \<noteq> JAUS_SERVICE_INPUT_COMMAND \<and> kind \<noteq> JAUS_SERVICE_OUTPUT_COMMAND then Some []
      else map_option fst (lookUpServices code kind (loopComponents t) ([], None)))"

section \<open>Copies\<close>

text \<open>
  \<open>getSystem\<close> returns an array with room for \<open>subsystemCount\<close> clones; an element that is not written is
  \<^term>\<open>None\<close>, the memory \<open>malloc\<close> left there.
\<close>

fun cloneInto :: "int \<Rightarrow> SystemTree \<Rightarrow> int list \<Rightarrow> nat \<Rightarrow> JausSubsystem option list \<Rightarrow> JausSubsystem option list exec" where
  "cloneInto now t [] k dst = Some dst"
| "cloneInto now t (i # rest) k dst =
     do { subs \<leftarrow> systemAt t i;
          (case subs of
             None \<Rightarrow> cloneInto now t rest k dst
           | Some subs \<Rightarrow>
               do { clone \<leftarrow> jausSubsystemClone now subs;
                    if k < length dst then cloneInto now t rest (Suc k) (dst[k := Some clone]) else None }) }"

definition getSystem :: "int \<Rightarrow> SystemTree \<Rightarrow> JausSubsystem option list option exec" where
  "getSystem now t =
     (if subsystemCount t = 0 then Some None
      else map_option Some (cloneInto now t subsystemIds 0 (replicate (nat (subsystemCount t)) None)))"

definition getSubsystem :: "int \<Rightarrow> SystemTree \<Rightarrow> int \<Rightarrow> JausSubsystem option exec" where
  "getSubsystem now t s =
     do { subs \<leftarrow> systemAt t s;
          (case subs of None \<Rightarrow> Some None | Some subs \<Rightarrow> map_option Some (jausSubsystemClone now subs)) }"

definition getNode :: "int \<Rightarrow> SystemTree \<Rightarrow> int \<Rightarrow> int \<Rightarrow> JausNode option exec" where
  "getNode now t s n =
     do { node \<leftarrow> findNode t s n;
          (case node of None \<Rightarrow> Some None | Some i \<Rightarrow> map_option Some (jausNodeClone now (nodeAt t s i))) }"

definition getComponent :: "int \<Rightarrow> SystemTree \<Rightarrow> JausAddress \<Rightarrow> JausComponent option exec" where
  "getComponent now t a =
     do { cmpt \<leftarrow> findComponentAddress t a;
          (case cmpt of
             None \<Rightarrow> Some None
           | Some p \<Rightarrow> map_option Some (jausComponentClone now (cmptAt t (uint (addrSubsystem a)) p))) }"

definition getSubsystemIdentification :: "SystemTree \<Rightarrow> JausAddress \<Rightarrow> bytes option exec" where
  "getSubsystemIdentification t a =
     map_option (\<lambda>subs. case subs of None \<Rightarrow> None | Some subs \<Rightarrow> subsIdentification subs)
       (systemAt t (uint (addrSubsystem a)))"

definition getNodeIdentification :: "SystemTree \<Rightarrow> JausAddress \<Rightarrow> bytes option exec" where
  "getNodeIdentification t a =
     map_option (\<lambda>node. case node of None \<Rightarrow> None | Some i \<Rightarrow> nodeIdentification (nodeAt t (uint (addrSubsystem a)) i))
       (findNodeAddress t a)"

section \<open>Adding\<close>

definition addComponent :: "'w handler list \<Rightarrow> int \<Rightarrow> SystemTree \<Rightarrow> 'w \<Rightarrow> JausAddress \<Rightarrow> JausComponent option \<Rightarrow>
    (bool \<times> SystemTree \<times> 'w) exec" where
  "addComponent hs now t w a given =
     do { present \<leftarrow> hasComponent t a;
          if present then Some (False, t, w)
          else do {
            node \<leftarrow> findNodeAddress t a;
            (case node of
               None \<Rightarrow> Some (False, t, w)
             | Some i \<Rightarrow>
                 if uint (addrComponent a) \<ge> JAUS_MINIMUM_COMPONENT_ID \<and> uint (addrComponent a) \<le> JAUS_MAXIMUM_COMPONENT_ID \<and>
                    uint (addrInstance a) \<ge> JAUS_MINIMUM_INSTANCE_ID \<and> uint (addrInstance a) \<le> JAUS_MAXIMUM_INSTANCE_ID
                 then do {
                   new \<leftarrow> (case given of
                              Some c \<Rightarrow> jausComponentClone now c
                            | None \<Rightarrow> Some ((jausComponentCreate now)\<lparr>cmptAddress := a\<rparr>));
                   let t' = updNode t (uint (addrSubsystem a)) i (\<lambda>node. node\<lparr>nodeComponents := nodeComponents node @ [new]\<rparr>);
                   w' \<leftarrow> raiseEvent hs now (ComponentAdded new) t' w;
                   Some (True, t', w') }
                 else Some (False, t, w)) } }"

definition addNode :: "'w handler list \<Rightarrow> int \<Rightarrow> SystemTree \<Rightarrow> 'w \<Rightarrow> JausAddress \<Rightarrow> JausNode option \<Rightarrow>
    (bool \<times> SystemTree \<times> 'w) exec" where
  "addNode hs now t w a given =
     do { present \<leftarrow> hasNode t a;
          if present then Some (False, t, w)
          else do {
            subs \<leftarrow> systemAt t (uint (addrSubsystem a));
            if subs \<noteq> None \<and> uint (addrNode a) \<ge> JAUS_MINIMUM_NODE_ID \<and> uint (addrNode a) \<le> JAUS_MAXIMUM_NODE_ID
            then do {
              node \<leftarrow> (case given of
                         Some n \<Rightarrow> jausNodeClone now n
                       | None \<Rightarrow> Some ((jausNodeCreate now)\<lparr>nodeId := addrNode a\<rparr>));
              let new = node\<lparr>nodeParent := Some (subsId (the subs))\<rparr>;
              let t' = updSubs t (uint (addrSubsystem a)) (\<lambda>s. s\<lparr>subsNodes := subsNodes s @ [new]\<rparr>);
              w' \<leftarrow> raiseEvent hs now (NodeAdded new) t' w;
              Some (True, t', w') }
            else Some (False, t, w) } }"

text \<open>
  The nodes of a subsystem that is handed to the tree keep their pointer to the original, which its owner frees
  when the call has returned: in the tree the pointer leads nowhere.
\<close>

definition orphaned :: "JausSubsystem \<Rightarrow> JausSubsystem" where
  "orphaned subs = subs\<lparr>subsNodes := map (\<lambda>n. n\<lparr>nodeParent := None\<rparr>) (subsNodes subs)\<rparr>"

definition addSubsystem :: "'w handler list \<Rightarrow> int \<Rightarrow> SystemTree \<Rightarrow> 'w \<Rightarrow> int \<Rightarrow> JausSubsystem option \<Rightarrow>
    (bool \<times> SystemTree \<times> 'w) exec" where
  "addSubsystem hs now t w s given =
     do { present \<leftarrow> systemAt t s;
          if present \<noteq> None \<or> s < JAUS_MINIMUM_SUBSYSTEM_ID \<or> s > JAUS_MAXIMUM_SUBSYSTEM_ID then Some (False, t, w)
          else do {
            new \<leftarrow> (case given of
                       Some subs \<Rightarrow> map_option orphaned (jausSubsystemClone now subs)
                     | None \<Rightarrow> Some ((jausSubsystemCreate now)\<lparr>subsId := s\<rparr>));
            t1 \<leftarrow> setSystemAt t (subsId new) (Some new);
            let t' = t1\<lparr>subsystemCount := subsystemCount t1 + 1\<rparr>;
            w' \<leftarrow> raiseEvent hs now (SubsystemAdded new) t' w;
            Some (True, t', w') } }"

section \<open>Removing\<close>

definition dropNth :: "nat \<Rightarrow> 'a list \<Rightarrow> 'a list" where
  "dropNth i xs = take i xs @ drop (Suc i) xs"

definition removeNode :: "'w handler list \<Rightarrow> int \<Rightarrow> SystemTree \<Rightarrow> 'w \<Rightarrow> int \<Rightarrow> int \<Rightarrow> (bool \<times> SystemTree \<times> 'w) exec" where
  "removeNode hs now t w s n =
     do { node \<leftarrow> findNode t s n;
          (case node of
             None \<Rightarrow> Some (False, t, w)
           | Some i \<Rightarrow>
               do { let t' = updSubs t s (\<lambda>subs. subs\<lparr>subsNodes := dropNth i (subsNodes subs)\<rparr>);
                    w' \<leftarrow> raiseEvent hs now (NodeRemoved (nodeAt t s i)) t' w;
                    Some (True, t', w') }) }"

definition removeSubsystem :: "'w handler list \<Rightarrow> int \<Rightarrow> SystemTree \<Rightarrow> 'w \<Rightarrow> int \<Rightarrow> (bool \<times> SystemTree \<times> 'w) exec" where
  "removeSubsystem hs now t w s =
     do { subs \<leftarrow> systemAt t s;
          (case subs of
             None \<Rightarrow> Some (False, t, w)
           | Some subs \<Rightarrow>
               do { let t' = t\<lparr>system := (system t)[nat s := None]\<rparr>;
                    w' \<leftarrow> raiseEvent hs now (SubsystemRemoved subs) t' w;
                    Some (True, t'\<lparr>subsystemCount := subsystemCount t' - 1\<rparr>, w') }) }"

definition removeComponent :: "'w handler list \<Rightarrow> int \<Rightarrow> SystemTree \<Rightarrow> 'w \<Rightarrow> int \<Rightarrow> int \<Rightarrow> int \<Rightarrow> int \<Rightarrow>
    (bool \<times> SystemTree \<times> 'w) exec" where
  "removeComponent hs now t w s n c inst =
     do { node \<leftarrow> findNode t s n;
          (case node of
             None \<Rightarrow> Some (False, t, w)
           | Some i \<Rightarrow>
               (case firstIdx (isCmpt c inst) (nodeComponents (nodeAt t s i)) of
                  None \<Rightarrow> Some (False, t, w)
                | Some k \<Rightarrow>
                    do { let t' = updNode t s i (\<lambda>node. node\<lparr>nodeComponents := dropNth k (nodeComponents node)\<rparr>);
                         w' \<leftarrow> raiseEvent hs now (ComponentRemoved (cmptAt t s (i, k))) t' w;
                         Some (True, t', w') })) }"

section \<open>Replacing\<close>

definition keepString :: "bytes option \<Rightarrow> bytes option \<Rightarrow> bytes option" where
  "keepString old new = (case old of Some str \<Rightarrow> Some str | None \<Rightarrow> new)"

fun keepCmptIdentifications :: "SystemTree \<Rightarrow> JausComponent list \<Rightarrow> JausComponent list exec" where
  "keepCmptIdentifications t [] = Some []"
| "keepCmptIdentifications t (cloneCmpt # rest) =
     do { p \<leftarrow> findComponentAddress t (cmptAddress cloneCmpt);
          rest' \<leftarrow> keepCmptIdentifications t rest;
          Some ((case p of
                   None \<Rightarrow> cloneCmpt
                 | Some p \<Rightarrow> cloneCmpt\<lparr>identification :=
                     keepString (identification (cmptAt t (uint (addrSubsystem (cmptAddress cloneCmpt))) p))
                       (identification cloneCmpt)\<rparr>) # rest') }"

fun keepIdentifications :: "SystemTree \<Rightarrow> JausNode list \<Rightarrow> JausNode list exec" where
  "keepIdentifications t [] = Some []"
| "keepIdentifications t (cloneNode # rest) =
     do { parent \<leftarrow> nodeParent cloneNode;
          i \<leftarrow> findNode t parent (uint (nodeId cloneNode));
          node' \<leftarrow> (case i of
                      None \<Rightarrow> Some cloneNode
                    | Some i \<Rightarrow>
                        do { cs \<leftarrow> keepCmptIdentifications t (nodeComponents cloneNode);
                             Some (cloneNode\<lparr>nodeIdentification :=
                                     keepString (nodeIdentification (nodeAt t parent i)) (nodeIdentification cloneNode),
                                   nodeComponents := cs\<rparr>) });
          rest' \<leftarrow> keepIdentifications t rest;
          Some (node' # rest') }"

definition replaceSubsystem :: "'w handler list \<Rightarrow> int \<Rightarrow> SystemTree \<Rightarrow> 'w \<Rightarrow> int \<Rightarrow> JausSubsystem \<Rightarrow>
    (bool \<times> SystemTree \<times> 'w) exec" where
  "replaceSubsystem hs now t w s newSubs =
     do { currentSubs \<leftarrow> systemAt t s;
          (case currentSubs of
             None \<Rightarrow> do { (_, t', w') \<leftarrow> addSubsystem hs now t w s (Some newSubs); Some (True, t', w') }
           | Some currentSubs \<Rightarrow>
               do { cloneSubs \<leftarrow> jausSubsystemClone now newSubs;
                    nodes \<leftarrow> keepIdentifications t (subsNodes cloneSubs);
                    let new = cloneSubs\<lparr>subsIdentification :=
                                keepString (subsIdentification currentSubs) (subsIdentification cloneSubs), subsNodes := nodes\<rparr>;
                    Some (True, t\<lparr>system := (system t)[nat s := Some (orphaned new)],
                                  subsystemCount := subsystemCount t + 1\<rparr>, w) }) }"

fun keepComponents :: "int \<Rightarrow> SystemTree \<Rightarrow> JausAddress \<Rightarrow> JausComponent list \<Rightarrow> JausComponent list exec" where
  "keepComponents now t a [] = Some []"
| "keepComponents now t a (newCmpt # rest) =
     do { p \<leftarrow> findComponentAddress t (cmptAddress newCmpt);
          addCmpt \<leftarrow> (case p of
                        Some p \<Rightarrow> jausComponentClone now (cmptAt t (uint (addrSubsystem (cmptAddress newCmpt))) p)
                      | None \<Rightarrow> Some ((jausComponentCreate now)\<lparr>cmptAddress := a\<lparr>
                          addrComponent := addrComponent (cmptAddress newCmpt),
                          addrInstance := addrInstance (cmptAddress newCmpt)\<rparr>\<rparr>));
          rest' \<leftarrow> keepComponents now t a rest;
          Some (addCmpt # rest') }"

definition replaceNode :: "'w handler list \<Rightarrow> int \<Rightarrow> SystemTree \<Rightarrow> 'w \<Rightarrow> JausAddress \<Rightarrow> JausNode \<Rightarrow>
    (bool \<times> SystemTree \<times> 'w) exec" where
  "replaceNode hs now t w a newNode =
     do { currentNode \<leftarrow> findNodeAddress t a;
          (case currentNode of
             None \<Rightarrow> do { (_, t', w') \<leftarrow> addNode hs now t w a (Some newNode); Some (True, t', w') }
           | Some i \<Rightarrow>
               do { let s = uint (addrSubsystem a);
                    cs \<leftarrow> keepComponents now t a (nodeComponents newNode);
                    let cloneNode = (jausNodeCreate now)\<lparr>nodeId := nodeId (nodeAt t s i),
                          nodeIdentification := nodeIdentification (nodeAt t s i), nodeComponents := cs,
                          nodeParent := Some (subsId (subsAt t s))\<rparr>;
                    Some (True, updSubs t s (\<lambda>subs. subs\<lparr>subsNodes := dropNth i (subsNodes subs) @ [cloneNode]\<rparr>), w) }) }"

section \<open>Identifications and services\<close>

definition setSubsystemIdentification :: "SystemTree \<Rightarrow> JausAddress \<Rightarrow> bytes \<Rightarrow> (bool \<times> SystemTree) exec" where
  "setSubsystemIdentification t a str =
     do { subs \<leftarrow> systemAt t (uint (addrSubsystem a));
          Some (case subs of
                  None \<Rightarrow> (False, t)
                | Some _ \<Rightarrow> (True, updSubs t (uint (addrSubsystem a)) (\<lambda>s. s\<lparr>subsIdentification := Some str\<rparr>))) }"

definition setNodeIdentification :: "SystemTree \<Rightarrow> JausAddress \<Rightarrow> bytes \<Rightarrow> (bool \<times> SystemTree) exec" where
  "setNodeIdentification t a str =
     do { node \<leftarrow> findNodeAddress t a;
          Some (case node of
                  None \<Rightarrow> (False, t)
                | Some i \<Rightarrow> (True, updNode t (uint (addrSubsystem a)) i (\<lambda>n. n\<lparr>nodeIdentification := Some str\<rparr>))) }"

definition setComponentIdentification :: "SystemTree \<Rightarrow> JausAddress \<Rightarrow> bytes \<Rightarrow> (bool \<times> SystemTree) exec" where
  "setComponentIdentification t a str =
     do { cmpt \<leftarrow> findComponentAddress t a;
          Some (case cmpt of
                  None \<Rightarrow> (False, t)
                | Some p \<Rightarrow> (True, updCmpt t (uint (addrSubsystem a)) p (\<lambda>c. c\<lparr>identification := Some str\<rparr>))) }"

text \<open>Services that cannot be cloned would leave a null pointer in the component.\<close>

definition setComponentServices :: "SystemTree \<Rightarrow> JausAddress \<Rightarrow> JausService list \<Rightarrow> (bool \<times> SystemTree) exec" where
  "setComponentServices t a inputServices =
     do { cmpt \<leftarrow> findComponentAddress t a;
          (case cmpt of
             None \<Rightarrow> Some (False, t)
           | Some p \<Rightarrow>
               do { services \<leftarrow> jausServicesClone inputServices;
                    Some (True, updCmpt t (uint (addrSubsystem a)) p (\<lambda>c. c\<lparr>cmptServices := services\<rparr>)) }) }"

section \<open>Timeouts\<close>

text \<open>
  \<open>refreshComponents\<close> is the loop over the components of this node: \<open>pre\<close> have been seen and stay, the rest
  is still to be seen; a component that timed out is taken out before its event is raised.
\<close>

fun refreshComponents :: "'w handler list \<Rightarrow> int \<Rightarrow> int \<Rightarrow> nat \<Rightarrow> JausComponent list \<Rightarrow> JausComponent list \<Rightarrow>
    SystemTree \<Rightarrow> 'w \<Rightarrow> (SystemTree \<times> 'w) exec" where
  "refreshComponents hs now s i pre [] t w = Some (t, w)"
| "refreshComponents hs now s i pre (component # rest) t w =
     (if jausComponentIsTimedOut now component
      then do { let t' = updNode t s i (\<lambda>node. node\<lparr>nodeComponents := pre @ rest\<rparr>);
                w' \<leftarrow> raiseEvent hs now (ComponentTimeout component) t' w;
                refreshComponents hs now s i pre rest t' w' }
      else refreshComponents hs now s i (pre @ [component]) rest t w)"

text \<open>
  The loop over the nodes of this subsystem, at position \<open>j\<close>. It makes at most as many rounds as there were nodes at
  its start (the first argument counts them), because the array never grows. After a removal the position moves on
  nevertheless.
\<close>

fun refreshNodes :: "nat \<Rightarrow> 'w handler list \<Rightarrow> int \<Rightarrow> int \<Rightarrow> nat \<Rightarrow> SystemTree \<Rightarrow> 'w \<Rightarrow> (SystemTree \<times> 'w) exec" where
  "refreshNodes 0 hs now s j t w = Some (t, w)"
| "refreshNodes (Suc rounds) hs now s j t w =
     (if j < length (subsNodes (subsAt t s))
      then (let node = nodeAt t s j
            in if uint (nodeId node) = treeNodeId t
               then do { (t', w') \<leftarrow> refreshComponents hs now s j [] (nodeComponents node) t w;
                         refreshNodes rounds hs now s (Suc j) t' w' }
               else if jausNodeIsTimedOut now node
               then do { e \<leftarrow> cloneEvent now (NodeTimeout node);
                         parent \<leftarrow> nodeParent node;
                         (_, t', w1) \<leftarrow> removeNode hs now t w parent (uint (nodeId node));
                         w' \<leftarrow> notifyAll hs now e t' w1;
                         refreshNodes rounds hs now s (Suc j) t' w' }
               else refreshNodes rounds hs now s (Suc j) t w)
      else Some (t, w))"

definition refreshSubsystem :: "'w handler list \<Rightarrow> int \<Rightarrow> int \<Rightarrow> SystemTree \<Rightarrow> 'w \<Rightarrow> (SystemTree \<times> 'w) exec" where
  "refreshSubsystem hs now i t w =
     do { entry \<leftarrow> systemAt t i;
          (case entry of
             None \<Rightarrow> Some (t, w)
           | Some subs \<Rightarrow>
               if subsId subs = treeSubsystemId t
               then refreshNodes (length (subsNodes subs)) hs now i 0 t w
               else if jausSubsystemIsTimedOut now subs
               then do { e \<leftarrow> cloneEvent now (SubsystemTimeout subs);
                         (_, t', w1) \<leftarrow> removeSubsystem hs now t w (subsId subs);
                         w' \<leftarrow> notifyAll hs now e t' w1;
                         Some (t', w') }
               else Some (t, w)) }"

fun refreshAll :: "'w handler list \<Rightarrow> int \<Rightarrow> int list \<Rightarrow> SystemTree \<Rightarrow> 'w \<Rightarrow> (SystemTree \<times> 'w) exec" where
  "refreshAll hs now [] t w = Some (t, w)"
| "refreshAll hs now (i # rest) t w =
     do { (t', w') \<leftarrow> refreshSubsystem hs now i t w; refreshAll hs now rest t' w' }"

definition refresh :: "'w handler list \<Rightarrow> int \<Rightarrow> SystemTree \<Rightarrow> 'w \<Rightarrow> (SystemTree \<times> 'w) exec" where
  "refresh hs now t w = refreshAll hs now subsystemIds t w"

end
