(* ===== verification/Routing.thy ===== *)
theory Routing
  imports Registry
begin

text \<open>
  The message router of the node manager (\<open>openjaus/src/libopenjaus/nodeManager/MessageRouter.cpp\<close>), the
  three communication managers it connects (\<open>JausSubsystemCommunicationManager.cpp\<close>,
  \<open>JausNodeCommunicationManager.cpp\<close>, \<open>JausComponentCommunicationManager.cpp\<close>) and the queues of the
  transport interfaces (\<open>JausTransportInterface.cpp\<close>, \<open>JausTransportQueue.cpp\<close>).

  A transport interface is a number, the place of its object in \<open>transports\<close>; a pointer to one is an option.
  A call that hands over a message gives up the message: the callee queues it or destroys it. What is destroyed
  is written down in \<open>destroyed\<close> and the clones are counted in \<open>clones\<close>; error events are kept in the
  order in which they are raised. A null message is \<^term>\<open>None\<close>.
\<close>

section \<open>Transport interfaces\<close>

record JausTransportInterface =
  infName :: string
  running :: bool
  infQueue :: "JausMessage list"

text \<open>\<open>interfaceMap\<close> has the entries of the hash map; an entry can be a null pointer.\<close>

record 'k CommunicationManager =
  enabled :: bool
  interfaces :: "nat list"
  interfaceMap :: "'k \<Rightarrow> nat option option"

datatype ErrorType = RoutingFailure | MemoryFailure | NullPointer | ConfigurationError | MessageError | Warning

record Router =
  mySubsystemId :: int
  myNodeId :: int
  subsComms :: "u8 CommunicationManager"
  nodeComms :: "u8 CommunicationManager"
  subsystemGatewayInterface :: "nat option"
  cmptComms :: "u32 CommunicationManager"
  transports :: "JausTransportInterface list"
  systemTree :: SystemTree
  errorEvents :: "(ErrorType \<times> string) list"
  destroyed :: "JausMessage list"
  clones :: nat

abbreviation (input) JAUS_BROADCAST :: int where "JAUS_BROADCAST \<equiv> 255"
abbreviation (input) JAUS_PRIMARY_NODE_MANAGER_NODE :: u8 where "JAUS_PRIMARY_NODE_MANAGER_NODE \<equiv> 1"
abbreviation (input) JAUS_COMMUNICATOR :: int where "JAUS_COMMUNICATOR \<equiv> 35"

definition raiseError :: "ErrorType \<Rightarrow> string \<Rightarrow> Router \<Rightarrow> Router" where
  "raiseError kind text st = st\<lparr>errorEvents := errorEvents st @ [(kind, text)]\<rparr>"

definition destroyMessage :: "JausMessage option \<Rightarrow> Router \<Rightarrow> Router" where
  "destroyMessage message st =
     (case message of None \<Rightarrow> st | Some m \<Rightarrow> st\<lparr>destroyed := destroyed st @ [m]\<rparr>)"

definition cloneMessage :: "JausMessage \<Rightarrow> Router \<Rightarrow> (JausMessage \<times> Router) exec" where
  "cloneMessage m st = do { m' \<leftarrow> jausMessageClone m; Some (m', st\<lparr>clones := clones st + 1\<rparr>) }"

text \<open>A routing error: the event, the message destroyed, the result \<open>false\<close>.\<close>

definition reject :: "string \<Rightarrow> JausMessage \<Rightarrow> Router \<Rightarrow> (bool \<times> Router) exec" where
  "reject text m st = Some (False, destroyMessage (Some m) (raiseError RoutingFailure text st))"

definition pushMessage :: "JausMessage \<Rightarrow> JausTransportInterface \<Rightarrow> JausTransportInterface" where
  "pushMessage m jt = jt\<lparr>infQueue := infQueue jt @ [m]\<rparr>"

definition popMessage :: "JausTransportInterface \<Rightarrow> JausMessage option \<times> JausTransportInterface" where
  "popMessage jt = (case infQueue jt of [] \<Rightarrow> (None, jt) | m # rest \<Rightarrow> (Some m, jt\<lparr>infQueue := rest\<rparr>))"

definition queueJausMessage :: "nat \<Rightarrow> JausMessage \<Rightarrow> Router \<Rightarrow> Router exec" where
  "queueJausMessage i m st =
     (if i < length (transports st)
      then (if running (transports st ! i)
            then Some (st\<lparr>transports := (transports st)[i := pushMessage m (transports st ! i)]\<rparr>)
            else Some (destroyMessage (Some m) st))
      else None)"

text \<open>\<open>emptyQueue\<close> destroys what is left when the thread of the interface has stopped.\<close>

definition emptyQueue :: "nat \<Rightarrow> Router \<Rightarrow> Router exec" where
  "emptyQueue i st =
     (if i < length (transports st)
      then Some (st\<lparr>destroyed := destroyed st @ infQueue (transports st ! i),
                    transports := (transports st)[i := (transports st ! i)\<lparr>infQueue := []\<rparr>]\<rparr>)
      else None)"

section \<open>The common part of the managers\<close>

definition getInterfaceCount :: "'k CommunicationManager \<Rightarrow> nat" where
  "getInterfaceCount mngr = length (interfaces mngr)"

definition getJausInterface :: "'k CommunicationManager \<Rightarrow> nat \<Rightarrow> nat option" where
  "getJausInterface mngr index = (if index < length (interfaces mngr) then Some (interfaces mngr ! index) else None)"

fun getJausInterfaceNamed :: "JausTransportInterface list \<Rightarrow> nat list \<Rightarrow> string \<Rightarrow> nat option" where
  "getJausInterfaceNamed infs [] interfaceName = None"
| "getJausInterfaceNamed infs (i # rest) interfaceName =
     (if infName (infs ! i) = interfaceName then Some i else getJausInterfaceNamed infs rest interfaceName)"

fun interfaceExists :: "JausTransportInterface list \<Rightarrow> nat list \<Rightarrow> string \<Rightarrow> bool" where
  "interfaceExists infs [] interfaceName = False"
| "interfaceExists infs (i # rest) interfaceName =
     (if infName (infs ! i) = interfaceName then True else interfaceExists infs rest interfaceName)"

definition enable :: "'k CommunicationManager \<Rightarrow> 'k CommunicationManager" where
  "enable mngr = mngr\<lparr>enabled := True\<rparr>"

definition disable :: "'k CommunicationManager \<Rightarrow> 'k CommunicationManager" where
  "disable mngr = mngr\<lparr>enabled := False\<rparr>"

text \<open>
  \<open>startInterfaces\<close> and \<open>stopInterfaces\<close>: the interfaces' own \<open>startInterface\<close> and
  \<open>stopInterface\<close> are the argument. Once one call has answered \<open>false\<close> the others are not made.
\<close>

fun eachInterface :: "(nat \<Rightarrow> Router \<Rightarrow> bool \<times> Router) \<Rightarrow> nat list \<Rightarrow> bool \<Rightarrow> Router \<Rightarrow> bool \<times> Router" where
  "eachInterface call [] retVal st = (retVal, st)"
| "eachInterface call (i # rest) retVal st =
     (if retVal then (let (b, st') = call i st in eachInterface call rest b st') else eachInterface call rest False st)"

fun queueToAll :: "nat list \<Rightarrow> JausMessage \<Rightarrow> Router \<Rightarrow> Router exec" where
  "queueToAll [] m st = Some st"
| "queueToAll (i # rest) m st =
     do { (m', st1) \<leftarrow> cloneMessage m st; st2 \<leftarrow> queueJausMessage i m' st1; queueToAll rest m st2 }"

definition sendToAllInterfaces :: "string \<Rightarrow> nat list \<Rightarrow> JausMessage option \<Rightarrow> Router \<Rightarrow> (bool \<times> Router) exec" where
  "sendToAllInterfaces text infs message st =
     (case message of
        None \<Rightarrow> Some (False, raiseError NullPointer text st)
      | Some m \<Rightarrow> do { st' \<leftarrow> queueToAll infs m st; Some (True, destroyMessage (Some m) st') })"

abbreviation (input) dstSubs :: "JausMessage \<Rightarrow> int" where "dstSubs m \<equiv> uint (addrSubsystem (destination m))"
abbreviation (input) dstNode :: "JausMessage \<Rightarrow> int" where "dstNode m \<equiv> uint (addrNode (destination m))"
abbreviation (input) dstCmpt :: "JausMessage \<Rightarrow> int" where "dstCmpt m \<equiv> uint (addrComponent (destination m))"
abbreviation (input) dstInst :: "JausMessage \<Rightarrow> int" where "dstInst m \<equiv> uint (addrInstance (destination m))"
abbreviation (input) srcSubs :: "JausMessage \<Rightarrow> int" where "srcSubs m \<equiv> uint (addrSubsystem (source m))"
abbreviation (input) srcNode :: "JausMessage \<Rightarrow> int" where "srcNode m \<equiv> uint (addrNode (source m))"

section \<open>Sending to other subsystems\<close>

text \<open>\<open>interfaceMap[key]\<close> of a hash map is a null pointer when there is no entry.\<close>

definition mapAt :: "'k CommunicationManager \<Rightarrow> 'k \<Rightarrow> nat option" where
  "mapAt mngr k = (case interfaceMap mngr k of None \<Rightarrow> None | Some p \<Rightarrow> p)"

definition subsSendToAllInterfaces :: "JausMessage option \<Rightarrow> Router \<Rightarrow> (bool \<times> Router) exec" where
  "subsSendToAllInterfaces message st =
     sendToAllInterfaces ''Invalid JausMessage.'' (interfaces (subsComms st)) message st"

definition sendToSubsystemX :: "JausMessage option \<Rightarrow> Router \<Rightarrow> (bool \<times> Router) exec" where
  "sendToSubsystemX message st =
     (case message of
        None \<Rightarrow> Some (False, raiseError NullPointer ''Invalid JausMessage.'' st)
      | Some m \<Rightarrow>
          (case mapAt (subsComms st) (addrSubsystem (destination m)) of
             Some jtInf \<Rightarrow> do { st' \<leftarrow> queueJausMessage jtInf m st; Some (True, st') }
           | None \<Rightarrow> Some (False, destroyMessage (Some m) st)))"

definition subsSendJausMessage :: "JausMessage option \<Rightarrow> Router \<Rightarrow> (bool \<times> Router) exec" where
  "subsSendJausMessage message st =
     (if \<not> enabled (subsComms st) then Some (False, destroyMessage message st)
      else (case message of
        None \<Rightarrow> Some (False, raiseError NullPointer ''Invalid JausMessage.'' st)
      | Some m \<Rightarrow>
          if srcSubs m \<noteq> mySubsystemId st
          then reject ''Message from another Subs coming in from MsgRouter'' m st
          else if dstSubs m = mySubsystemId st
          then reject ''Message for this Subs coming in from MsgRouter'' m st
          else if dstSubs m = JAUS_BROADCAST then subsSendToAllInterfaces (Some m) st
          else sendToSubsystemX (Some m) st))"

section \<open>Sending to other nodes\<close>

definition nodeSendToAllInterfaces :: "JausMessage option \<Rightarrow> Router \<Rightarrow> (bool \<times> Router) exec" where
  "nodeSendToAllInterfaces message st =
     sendToAllInterfaces ''Invalid JausMessage.'' (interfaces (nodeComms st)) message st"

definition sendToNodeX :: "JausMessage option \<Rightarrow> Router \<Rightarrow> (bool \<times> Router) exec" where
  "sendToNodeX message st =
     (case message of
        None \<Rightarrow> Some (False, raiseError NullPointer ''Invalid JausMessage.'' st)
      | Some m \<Rightarrow>
          (case mapAt (nodeComms st) (addrNode (destination m)) of
             Some jtInf \<Rightarrow> do { st' \<leftarrow> queueJausMessage jtInf m st; Some (True, st') }
           | None \<Rightarrow> Some (False, destroyMessage (Some m) st)))"

definition sendToSubsystemGateway :: "JausMessage option \<Rightarrow> Router \<Rightarrow> (bool \<times> Router) exec" where
  "sendToSubsystemGateway message st =
     (case message of
        None \<Rightarrow> Some (False, raiseError NullPointer ''Invalid JausMessage.'' st)
      | Some m \<Rightarrow>
          if enabled (subsComms st)
          then reject ''Message received in Node Communication Manager which should have gone out the Subsystem Communication manager.'' m st
          else (case subsystemGatewayInterface st of
             Some jtInf \<Rightarrow> do { st' \<leftarrow> queueJausMessage jtInf m st; Some (True, st') }
           | None \<Rightarrow>
               if myNodeId st \<noteq> uint JAUS_PRIMARY_NODE_MANAGER_NODE
               then (case mapAt (nodeComms st) JAUS_PRIMARY_NODE_MANAGER_NODE of
                       Some jtInf \<Rightarrow> do { st' \<leftarrow> queueJausMessage jtInf m st; Some (True, st') }
                     | None \<Rightarrow> Some (False, destroyMessage (Some m) st))
               else Some (False, destroyMessage (Some m) st)))"

text \<open>
  A broadcast to one node \<open>X\<close> of every subsystem: to node \<open>X\<close> of this one and, unless the communicator
  runs there or it is the primary node, to the gateway.
\<close>

definition sendToNodeXEverywhere :: "JausMessage \<Rightarrow> Router \<Rightarrow> (bool \<times> Router) exec" where
  "sendToNodeXEverywhere m st =
     do { (m1, st1) \<leftarrow> cloneMessage m st;
          (_, st2) \<leftarrow> sendToNodeX (Some m1) st1;
          commAddress \<leftarrow> lookUpAddress (systemTree st2) (mySubsystemId st2) JAUS_ADDRESS_WILDCARD_OCTET JAUS_COMMUNICATOR
                           JAUS_ADDRESS_WILDCARD_OCTET;
          st3 \<leftarrow> (case commAddress of
                     None \<Rightarrow> Some st2
                   | Some a \<Rightarrow>
                       if uint (addrNode a) \<noteq> dstNode m \<and> dstNode m \<noteq> uint JAUS_PRIMARY_NODE_MANAGER_NODE
                       then do { (m2, st') \<leftarrow> cloneMessage m st2; (_, st'') \<leftarrow> sendToSubsystemGateway (Some m2) st'; Some st'' }
                       else Some st2);
          Some (True, destroyMessage (Some m) st3) }"

definition nodeSendJausMessage :: "JausMessage option \<Rightarrow> Router \<Rightarrow> (bool \<times> Router) exec" where
  "nodeSendJausMessage message st =
     (if \<not> enabled (nodeComms st) then Some (False, destroyMessage message st)
      else (case message of
        None \<Rightarrow> Some (False, raiseError NullPointer ''Invalid JausMessage.'' st)
      | Some m \<Rightarrow>
          if srcSubs m \<noteq> mySubsystemId st
          then (if dstSubs m = JAUS_BROADCAST \<or> dstSubs m = mySubsystemId st
                then (if dstNode m = JAUS_BROADCAST then nodeSendToAllInterfaces (Some m) st
                      else if dstNode m \<noteq> myNodeId st then sendToNodeX (Some m) st
                      else reject ''Message received from MsgRouter that is not from this subs is for this node'' m st)
                else reject ''Message received from MsgRouter that is not from this subs and not for this subs!'' m st)
          else if srcNode m \<noteq> myNodeId st
          then reject ''Message received from MsgRouter that has address of another node on this system'' m st
          else if dstSubs m \<noteq> mySubsystemId st \<and> dstSubs m \<noteq> JAUS_BROADCAST then sendToSubsystemGateway (Some m) st
          else if dstSubs m = JAUS_BROADCAST
          then (if dstNode m = JAUS_BROADCAST then nodeSendToAllInterfaces (Some m) st
                else if dstNode m = myNodeId st then sendToSubsystemGateway (Some m) st
                else sendToNodeXEverywhere m st)
          else if dstNode m = myNodeId st
          then reject ''Message received from MsgRouter that is for my Node!'' m st
          else if dstNode m = JAUS_BROADCAST then nodeSendToAllInterfaces (Some m) st
          else sendToNodeX (Some m) st))"

section \<open>Sending to the components of this node\<close>

definition cmptSendToAllInterfaces :: "JausMessage option \<Rightarrow> Router \<Rightarrow> (bool \<times> Router) exec" where
  "cmptSendToAllInterfaces message st =
     sendToAllInterfaces ''Invalid message pointer'' (interfaces (cmptComms st)) message st"

text \<open>The entry found in the map is followed without a look whether it is null.\<close>

definition sendToComponentX :: "JausMessage option \<Rightarrow> Router \<Rightarrow> (bool \<times> Router) exec" where
  "sendToComponentX message st =
     (case message of
        None \<Rightarrow> Some (False, raiseError NullPointer ''Invalid message pointer'' st)
      | Some m \<Rightarrow>
          if dstInst m = JAUS_BROADCAST then cmptSendToAllInterfaces (Some m) st
          else let lookupAddress =
                     (if dstSubs m = JAUS_BROADCAST \<or> dstNode m = JAUS_BROADCAST
                      then (jausAddressClone (destination m))\<lparr>addrSubsystem := of_int (mySubsystemId st),
                                                             addrNode := of_int (myNodeId st)\<rparr>
                      else destination m)
               in (case interfaceMap (cmptComms st) (jausAddressHash lookupAddress) of
                     Some entry \<Rightarrow> do { jtInf \<leftarrow> entry; st' \<leftarrow> queueJausMessage jtInf m st; Some (True, st') }
                   | None \<Rightarrow> Some (False, destroyMessage (Some m) st)))"

definition cmptSendJausMessage :: "JausMessage option \<Rightarrow> Router \<Rightarrow> (bool \<times> Router) exec" where
  "cmptSendJausMessage message st =
     (case message of
        None \<Rightarrow> Some (False, raiseError NullPointer ''Invalid message pointer'' st)
      | Some m \<Rightarrow>
          if dstSubs m \<noteq> mySubsystemId st \<and> dstSubs m \<noteq> JAUS_BROADCAST
          then reject ''Message not for this subsystem has been routed from the MsgRouter'' m st
          else if srcSubs m = mySubsystemId st \<and> srcNode m = myNodeId st
          then reject ''Message from this node has been routed from the MsgRouter'' m st
          else if dstSubs m = mySubsystemId st \<or> dstSubs m = JAUS_BROADCAST
          then (if dstCmpt m = JAUS_BROADCAST \<or> dstInst m = JAUS_BROADCAST then cmptSendToAllInterfaces (Some m) st
                else sendToComponentX (Some m) st)
          else reject ''Message not for components on this node received'' m st)"

section \<open>The router\<close>

text \<open>The router ignores what the managers answer and returns \<open>true\<close> itself.\<close>

definition sent :: "(bool \<times> Router) exec \<Rightarrow> (bool \<times> Router) exec" where
  "sent r = do { (_, st) \<leftarrow> r; Some (True, st) }"

text \<open>A message that goes two ways: the clone first, then the message itself.\<close>

definition sendBoth :: "(JausMessage option \<Rightarrow> Router \<Rightarrow> (bool \<times> Router) exec) \<Rightarrow>
    (JausMessage option \<Rightarrow> Router \<Rightarrow> (bool \<times> Router) exec) \<Rightarrow> JausMessage \<Rightarrow> Router \<Rightarrow> (bool \<times> Router) exec" where
  "sendBoth first second m st =
     do { (m', st1) \<leftarrow> cloneMessage m st; (_, st2) \<leftarrow> first (Some m') st1; sent (second (Some m) st2) }"

definition routeSubsystemSourceMessage :: "JausMessage option \<Rightarrow> Router \<Rightarrow> (bool \<times> Router) exec" where
  "routeSubsystemSourceMessage message st =
     (case message of
        None \<Rightarrow> Some (False, raiseError NullPointer ''Invalid JausMessage'' st)
      | Some m \<Rightarrow>
          if srcSubs m = mySubsystemId st
          then reject ''Message from this Subsystem has entered the SubsystemSource method.'' m st
          else if dstSubs m \<noteq> mySubsystemId st \<and> dstSubs m \<noteq> JAUS_BROADCAST
          then reject ''Message not for this Subsystem has entered the SubsystemSource method.'' m st
          else if dstNode m = JAUS_BROADCAST then sendBoth nodeSendJausMessage cmptSendJausMessage m st
          else if dstNode m = myNodeId st then sent (cmptSendJausMessage (Some m) st)
          else sent (nodeSendJausMessage (Some m) st))"

definition routeNodeSourceMessage :: "JausMessage option \<Rightarrow> Router \<Rightarrow> (bool \<times> Router) exec" where
  "routeNodeSourceMessage message st =
     (case message of
        None \<Rightarrow> Some (False, raiseError NullPointer ''Invalid JausMessage'' st)
      | Some m \<Rightarrow>
          if srcSubs m = mySubsystemId st
          then (if srcNode m = myNodeId st
                then reject ''Message from a local component has entered through the NodeSource method'' m st
                else if dstSubs m = JAUS_BROADCAST
                then (if dstNode m = JAUS_BROADCAST \<or> dstNode m = myNodeId st
                      then sendBoth subsSendJausMessage cmptSendJausMessage m st
                      else sent (subsSendJausMessage (Some m) st))
                else if dstSubs m = mySubsystemId st
                then (if dstNode m \<noteq> myNodeId st \<and> dstNode m \<noteq> JAUS_BROADCAST
                      then reject ''Message for another Node on this Subsystem recv'd through NodeComms'' m st
                      else sent (cmptSendJausMessage (Some m) st))
                else sent (subsSendJausMessage (Some m) st))
          else if dstSubs m = JAUS_BROADCAST \<or> dstSubs m = mySubsystemId st
          then (if dstNode m = JAUS_BROADCAST \<or> dstNode m = myNodeId st then sent (cmptSendJausMessage (Some m) st)
                else reject ''Message not for this Node recv'd through NodeComms'' m st)
          else reject ''Message not for this Subs recv'd through NodeComms'' m st)"

definition sendToCommunicator :: "JausMessage option \<Rightarrow> Router \<Rightarrow> (bool \<times> Router) exec" where
  "sendToCommunicator message st =
     (case message of
        None \<Rightarrow> Some (False, raiseError NullPointer ''Invalid JausMessage'' st)
      | Some m \<Rightarrow>
          if srcSubs m \<noteq> mySubsystemId st
          then reject ''Messages not from mySubs should not go through this method!'' m st
          else if dstSubs m = mySubsystemId st
          then reject ''Messages for mySubs should not go through this method!'' m st
          else if enabled (subsComms st)
          then (if dstSubs m = JAUS_BROADCAST
                then (if dstNode m = myNodeId st then sent (subsSendJausMessage (Some m) st)
                      else sendBoth subsSendJausMessage nodeSendJausMessage m st)
                else sent (subsSendJausMessage (Some m) st))
          else sent (nodeSendJausMessage (Some m) st))"

definition routeComponentSourceMessage :: "JausMessage option \<Rightarrow> Router \<Rightarrow> (bool \<times> Router) exec" where
  "routeComponentSourceMessage message st =
     (case message of
        None \<Rightarrow> Some (False, raiseError NullPointer ''Invalid JausMessage'' st)
      | Some m \<Rightarrow>
          if srcSubs m \<noteq> mySubsystemId st
          then reject ''Message with a different source subsystem has come in through cmptComms'' m st
          else if srcNode m \<noteq> myNodeId st
          then reject ''Message with a different source node has come in through cmptComms'' m st
          else if dstSubs m = mySubsystemId st
          then (if dstNode m = myNodeId st
                then reject ''Message for this node has escaped cmptComms'' m st
                else sent (nodeSendJausMessage (Some m) st))
          else sent (sendToCommunicator (Some m) st))"

section \<open>Receiving\<close>

definition subsReceiveJausMessage :: "JausMessage option \<Rightarrow> nat option \<Rightarrow> Router \<Rightarrow> (bool \<times> Router) exec" where
  "subsReceiveJausMessage message srcInf st =
     (if \<not> enabled (subsComms st) then Some (False, destroyMessage message st)
      else (case message of
        None \<Rightarrow> Some (False, raiseError NullPointer ''Invalid JausMessage.'' st)
      | Some m \<Rightarrow>
          if srcInf = None
          then Some (False, destroyMessage (Some m) (raiseError NullPointer ''srcInf is invalid'' st))
          else if srcSubs m = mySubsystemId st
          then reject ''Message received from MsgRouter that is not from this subs is for this node'' m st
          else let st1 = st\<lparr>subsComms := (subsComms st)\<lparr>interfaceMap :=
                             (interfaceMap (subsComms st))(addrSubsystem (source m) \<mapsto> srcInf)\<rparr>\<rparr>
               in if dstSubs m = mySubsystemId st \<or> dstSubs m = JAUS_BROADCAST
                  then sent (routeSubsystemSourceMessage (Some m) st1)
                  else reject ''Message received on my Subsystem Interface for another subsystem ID!'' m st1))"

text \<open>The assignment to the gateway stands in a branch of its own condition's negation.\<close>

definition nodeReceiveJausMessage :: "JausMessage option \<Rightarrow> nat option \<Rightarrow> Router \<Rightarrow> (bool \<times> Router) exec" where
  "nodeReceiveJausMessage message srcInf st =
     (if \<not> enabled (nodeComms st) then Some (False, destroyMessage message st)
      else (case message of
        None \<Rightarrow> Some (False, raiseError NullPointer ''Invalid JausMessage.'' st)
      | Some m \<Rightarrow>
          if srcSubs m = mySubsystemId st
          then (if srcNode m = myNodeId st
                then reject ''Message received from NodeInterface that is from my Node!'' m st
                else let st1 = (if srcSubs m = mySubsystemId st
                                then st\<lparr>nodeComms := (nodeComms st)\<lparr>interfaceMap :=
                                         (interfaceMap (nodeComms st))(addrNode (source m) \<mapsto> srcInf)\<rparr>\<rparr>
                                else st\<lparr>subsystemGatewayInterface := srcInf\<rparr>)
                     in if dstSubs m = mySubsystemId st
                        then (if dstNode m = myNodeId st \<or> dstNode m = JAUS_BROADCAST
                              then sent (routeNodeSourceMessage (Some m) st1)
                              else reject ''Message not for this node recv'd from another node'' m st1)
                        else sent (routeNodeSourceMessage (Some m) st1))
          else if dstSubs m = JAUS_BROADCAST \<or> dstSubs m = mySubsystemId st
          then (if dstNode m = myNodeId st \<or> dstNode m = JAUS_BROADCAST
                then sent (routeNodeSourceMessage (Some m) st)
                else reject ''Message not for this node recv'd from another node'' m st)
          else reject ''Message not for this subsystem and not from this subsystem recv'd from another node'' m st))"

text \<open>The last part of \<open>receiveJausMessage\<close>: delivery on this node.\<close>

definition deliverLocally :: "JausMessage \<Rightarrow> Router \<Rightarrow> (bool \<times> Router) exec" where
  "deliverLocally m st =
     (if dstCmpt m = JAUS_BROADCAST then cmptSendToAllInterfaces (Some m) st else sendToComponentX (Some m) st)"

definition cmptReceiveJausMessage :: "JausMessage option \<Rightarrow> nat option \<Rightarrow> Router \<Rightarrow> (bool \<times> Router) exec" where
  "cmptReceiveJausMessage message srcInf st =
     (case message of
        None \<Rightarrow> Some (False, raiseError NullPointer ''Invalid message pointer'' st)
      | Some m \<Rightarrow>
          if srcSubs m \<noteq> mySubsystemId st
          then reject ''Received a message from a component that is not from my subsystem!'' m st
          else if srcNode m \<noteq> myNodeId st
          then reject ''Received a message from a component with a source node that is not my node ID!'' m st
          else let st1 = st\<lparr>cmptComms := (cmptComms st)\<lparr>interfaceMap :=
                             (interfaceMap (cmptComms st))(jausAddressHash (source m) \<mapsto> srcInf)\<rparr>\<rparr>
               in if dstSubs m = mySubsystemId st
                  then (if dstNode m = myNodeId st then deliverLocally m st1
                        else do { (m', st2) \<leftarrow> cloneMessage m st1;
                                  (_, st3) \<leftarrow> routeComponentSourceMessage (Some m') st2;
                                  deliverLocally m st3 })
                  else if dstSubs m = JAUS_BROADCAST
                  then do { (m', st2) \<leftarrow> cloneMessage m st1;
                            (_, st3) \<leftarrow> routeComponentSourceMessage (Some m') st2;
                            deliverLocally m st3 }
                  else do { (_, st2) \<leftarrow> routeComponentSourceMessage (Some m) st1; Some (False, st2) })"

end
