(* ===== verification/RegistryLaws.thy ===== *)
theory RegistryLaws
  imports Registry
begin

text \<open>
  What the system tree promises: it stays well formed, it is three registries (of subsystems, nodes and components)
  with the laws of a set, it hands out fresh instance numbers, and it forgets what timed out.
\<close>

section \<open>The tree as a map\<close>

lemma uint_byte_eq [simp]: "uint (x :: u8) = uint y \<longleftrightarrow> x = y"
  by (simp only: word_uint_eq_iff)

definition sub :: "SystemTree \<Rightarrow> int \<Rightarrow> JausSubsystem option" where
  "sub t s = (if 0 \<le> s \<and> s < int (length (system t)) then system t ! nat s else None)"

named_theorems tree_simps "the entries of a tree after an update"

lemma systemAt_sub [tree_simps]: "0 \<le> s \<Longrightarrow> s < int (length (system t)) \<Longrightarrow> systemAt t s = Some (sub t s)"
  by (simp add: systemAt_def sub_def)

lemma subsAt_sub: "sub t s = Some subs \<Longrightarrow> subsAt t s = subs"
  by (auto simp: sub_def subsAt_def split: if_splits)

lemma sub_range: "sub t s = Some subs \<Longrightarrow> 0 \<le> s \<and> s < int (length (system t))"
  by (auto simp: sub_def split: if_splits)

lemma length_updSubs [simp]: "length (system (updSubs t s f)) = length (system t)"
  by (simp add: updSubs_def)

lemma length_updNode [simp]: "length (system (updNode t s i f)) = length (system t)"
  by (simp add: updNode_def)

lemma length_updCmpt [simp]: "length (system (updCmpt t s p f)) = length (system t)"
  by (simp add: updCmpt_def)

lemma same_ids [simp]:
  "treeSubsystemId (updSubs t s f) = treeSubsystemId t" "treeNodeId (updSubs t s f) = treeNodeId t"
  "treeSubsystemId (updNode t s i g) = treeSubsystemId t" "treeNodeId (updNode t s i g) = treeNodeId t"
  "subsystemCount (updSubs t s f) = subsystemCount t" "subsystemCount (updNode t s i g) = subsystemCount t"
  by (simp_all add: updSubs_def updNode_def)

lemma sub_put: "0 \<le> s \<Longrightarrow> s < int (length (system t)) \<Longrightarrow>
    sub (t\<lparr>system := (system t)[nat s := x]\<rparr>) = (sub t)(s := x)"
  by (auto simp: sub_def fun_eq_iff nth_list_update split: if_splits)

lemma sub_count [simp]: "sub (t\<lparr>subsystemCount := n\<rparr>) = sub t"
  by (simp add: sub_def fun_eq_iff)

lemma sub_updSubs [tree_simps]: "sub t s = Some subs \<Longrightarrow> sub (updSubs t s f) = (sub t)(s \<mapsto> f subs)"
  using sub_put [of s t "Some (f subs)"] sub_range [of t s subs]
  by (simp add: updSubs_def subsAt_sub)

lemma sub_updNode [tree_simps]:
  "sub t s = Some subs \<Longrightarrow>
     sub (updNode t s i f) = (sub t)(s \<mapsto> subs\<lparr>subsNodes := (subsNodes subs)[i := f (subsNodes subs ! i)]\<rparr>)"
  by (simp add: updNode_def sub_updSubs)

lemma nodeAt_sub: "sub t s = Some subs \<Longrightarrow> nodeAt t s i = subsNodes subs ! i"
  by (simp add: nodeAt_def subsAt_sub)

section \<open>Well-formed trees\<close>

definition clonable :: "JausComponent \<Rightarrow> bool" where
  "clonable c \<longleftrightarrow> (\<forall>s \<in> set (cmptServices c). serviceOk s) \<and> distinct (map serviceType (cmptServices c))"

definition clonableNode :: "JausNode \<Rightarrow> bool" where
  "clonableNode n \<longleftrightarrow> (\<forall>c \<in> set (nodeComponents n). clonable c)"

definition clonableSubs :: "JausSubsystem \<Rightarrow> bool" where
  "clonableSubs s \<longleftrightarrow> (\<forall>n \<in> set (subsNodes s). clonableNode n)"

text \<open>A component belongs where it stands, and the numbers are unique.\<close>

definition okNode :: "int \<Rightarrow> JausNode \<Rightarrow> bool" where
  "okNode s n \<longleftrightarrow> clonableNode n \<and> distinct (map cmptAddress (nodeComponents n)) \<and>
     (\<forall>c \<in> set (nodeComponents n). uint (addrSubsystem (cmptAddress c)) = s \<and> addrNode (cmptAddress c) = nodeId n)"

definition okSubs :: "int \<Rightarrow> JausSubsystem \<Rightarrow> bool" where
  "okSubs s subs \<longleftrightarrow> subsId subs = s \<and> 1 \<le> s \<and> distinct (map nodeId (subsNodes subs)) \<and>
     (\<forall>n \<in> set (subsNodes subs). okNode s n)"

definition treeOk :: "SystemTree \<Rightarrow> bool" where
  "treeOk t \<longleftrightarrow> length (system t) = 255 \<and> (\<forall>s subs. sub t s = Some subs \<longrightarrow> okSubs s subs)"

lemma treeOkD: "treeOk t \<Longrightarrow> sub t s = Some subs \<Longrightarrow> okSubs s subs"
  by (simp add: treeOk_def)

lemma treeOk_length: "treeOk t \<Longrightarrow> length (system t) = 255"
  by (simp add: treeOk_def)

lemma treeOk_upd: "treeOk t \<Longrightarrow> sub t s = Some subs \<Longrightarrow> okSubs s (f subs) \<Longrightarrow> treeOk (updSubs t s f)"
  by (auto simp: treeOk_def sub_updSubs)

lemma sub_new [simp]: "sub (newSystemTree s n) i = None"
  by (simp add: sub_def newSystemTree_def nat_less_iff)

lemma treeOk_new: "treeOk (newSystemTree s n)"
  by (simp add: treeOk_def) (simp add: newSystemTree_def)

lemma okSubsD:
  assumes "okSubs s subs" "n \<in> set (subsNodes subs)"
  shows "okNode s n"
  using assms by (simp add: okSubs_def)

text \<open>Numbers from an address are positions of the array unless the address is a broadcast.\<close>

abbreviation (input) properAddress :: "JausAddress \<Rightarrow> bool" where
  "properAddress a \<equiv> addrSubsystem a \<noteq> 255"

lemma proper_range: "addrSubsystem a \<noteq> 255 \<Longrightarrow> uint (addrSubsystem a) < 255"
proof -
  assume "addrSubsystem a \<noteq> 255"
  then have "uint (addrSubsystem a) \<noteq> uint (255 :: u8)" by (simp only: word_uint_eq_iff [symmetric] not_False_eq_True)
  moreover have "uint (addrSubsystem a) < 256" using uint_lt2p [of "addrSubsystem a"] by simp
  ultimately show ?thesis by simp
qed

lemma at_proper [tree_simps]:
  "treeOk t \<Longrightarrow> addrSubsystem a \<noteq> 255 \<Longrightarrow> systemAt t (uint (addrSubsystem a)) = Some (sub t (uint (addrSubsystem a)))"
  using proper_range [of a] by (simp add: systemAt_sub treeOk_length)

section \<open>Clones\<close>

lemma clone_cmpt: "clonable c \<Longrightarrow> jausComponentClone now c = Some (jausComponentUpdateTimestamp now c)"
  using clone_components [of "[c]" now] by (auto simp: clonable_def split: Option.bind_splits)

lemma clone_cmpts: "\<forall>c \<in> set cs. clonable c \<Longrightarrow> cloneComponents now cs = Some (map (jausComponentUpdateTimestamp now) cs)"
  by (rule clone_components) (auto simp: clonable_def)

definition stampNode :: "int \<Rightarrow> JausNode \<Rightarrow> JausNode" where
  "stampNode now n = n\<lparr>nodeComponents := map (jausComponentUpdateTimestamp now) (nodeComponents n), nodeTimeStampSec := now\<rparr>"

definition stampSubs :: "int \<Rightarrow> JausSubsystem \<Rightarrow> JausSubsystem" where
  "stampSubs now s = s\<lparr>subsNodes := map (stampNode now) (subsNodes s), subsTimeStampSec := now\<rparr>"

lemma clone_node: "clonableNode n \<Longrightarrow> jausNodeClone now n = Some (stampNode now n)"
  by (simp add: jausNodeClone_def clonableNode_def clone_cmpts jausNodeUpdateTimestamp_def stampNode_def)

lemma clone_nodes: "\<forall>n \<in> set ns. clonableNode n \<Longrightarrow> cloneNodes now ns = Some (map (stampNode now) ns)"
  by (induction ns) (simp_all add: clone_node)

lemma clone_subs: "clonableSubs s \<Longrightarrow> jausSubsystemClone now s = Some (stampSubs now s)"
  by (simp add: jausSubsystemClone_def clonableSubs_def clone_nodes jausSubsystemUpdateTimestamp_def stampSubs_def)

lemma clonable_stamp [simp]:
  "clonable (jausComponentUpdateTimestamp now c) = clonable c"
  "clonableNode (stampNode now n) = clonableNode n"
  "clonableSubs (stampSubs now s) = clonableSubs s"
  by (auto simp: clonable_def jausComponentUpdateTimestamp_def clonableNode_def stampNode_def clonableSubs_def stampSubs_def)

lemma clonable_create [simp]:
  "clonable ((jausComponentCreate now)\<lparr>cmptAddress := a\<rparr>)"
  by (simp add: clonable_def jausComponentCreate_def jausComponentUpdateTimestamp_def)

lemma okSubs_clonable: "okSubs s subs \<Longrightarrow> clonableSubs subs"
  by (simp add: okSubs_def okNode_def clonableSubs_def)

text \<open>What an event is about can be cloned; handlers that do not fault see every event.\<close>

fun clonableEvent :: "SystemTreeEvent \<Rightarrow> bool" where
  "clonableEvent (SubsystemAdded s) = clonableSubs s"
| "clonableEvent (SubsystemRemoved s) = clonableSubs s"
| "clonableEvent (SubsystemTimeout s) = clonableSubs s"
| "clonableEvent (NodeAdded n) = clonableNode n"
| "clonableEvent (NodeRemoved n) = clonableNode n"
| "clonableEvent (NodeTimeout n) = clonableNode n"
| "clonableEvent (ComponentAdded c) = clonable c"
| "clonableEvent (ComponentRemoved c) = clonable c"
| "clonableEvent (ComponentTimeout c) = clonable c"

fun stampEvent :: "int \<Rightarrow> SystemTreeEvent \<Rightarrow> SystemTreeEvent" where
  "stampEvent now (SubsystemAdded s) = SubsystemAdded (stampSubs now s)"
| "stampEvent now (SubsystemRemoved s) = SubsystemRemoved (stampSubs now s)"
| "stampEvent now (SubsystemTimeout s) = SubsystemTimeout (stampSubs now s)"
| "stampEvent now (NodeAdded n) = NodeAdded (stampNode now n)"
| "stampEvent now (NodeRemoved n) = NodeRemoved (stampNode now n)"
| "stampEvent now (NodeTimeout n) = NodeTimeout (stampNode now n)"
| "stampEvent now (ComponentAdded c) = ComponentAdded (jausComponentUpdateTimestamp now c)"
| "stampEvent now (ComponentRemoved c) = ComponentRemoved (jausComponentUpdateTimestamp now c)"
| "stampEvent now (ComponentTimeout c) = ComponentTimeout (jausComponentUpdateTimestamp now c)"

lemma cloneEvent_stamp: "clonableEvent e \<Longrightarrow> cloneEvent now e = Some (stampEvent now e)"
  by (cases e) (simp_all add: clone_subs clone_node clone_cmpt)

lemma clonableEvent_stamp [simp]: "clonableEvent (stampEvent now e) = clonableEvent e"
  by (cases e) simp_all

lemma stampEvent_stamp [simp]: "stampEvent now (stampEvent now e) = stampEvent now e"
  by (cases e)
    (simp_all add: stampSubs_def stampNode_def jausComponentUpdateTimestamp_def comp_def)

definition keeps :: "('w \<Rightarrow> bool) \<Rightarrow> 'w handler list \<Rightarrow> bool" where
  "keeps W hs \<longleftrightarrow> (\<forall>h \<in> set hs. \<forall>e t w. treeOk t \<longrightarrow> W w \<longrightarrow> (\<exists>w'. h e t w = Some w' \<and> W w'))"

lemma notifyAll_keeps:
  assumes "keeps W hs" "clonableEvent e" "treeOk t" "W w"
  shows "\<exists>w'. notifyAll hs now e t w = Some w' \<and> W w'"
  using assms(1,4)
proof (induction hs arbitrary: w)
  case Nil
  then show ?case by simp
next
  case (Cons h hs)
  obtain w1 where "h (stampEvent now e) t w = Some w1" "W w1"
    using Cons.prems assms(3) unfolding keeps_def by (meson list.set_intros(1))
  moreover have "keeps W hs" using Cons.prems(1) by (simp add: keeps_def)
  ultimately show ?case using Cons.IH [of w1] assms(2) by (simp add: cloneEvent_stamp)
qed

lemma raiseEvent_keeps:
  "keeps W hs \<Longrightarrow> clonableEvent e \<Longrightarrow> treeOk t \<Longrightarrow> W w \<Longrightarrow> \<exists>w'. raiseEvent hs now e t w = Some w' \<and> W w'"
  using notifyAll_keeps [of W hs "stampEvent now e" t w now] by (simp add: raiseEvent_def cloneEvent_stamp)

section \<open>What the tree knows\<close>

definition subsKeys :: "SystemTree \<Rightarrow> int set" where
  "subsKeys t = dom (sub t)"

definition nodeKeys :: "SystemTree \<Rightarrow> (int \<times> u8) set" where
  "nodeKeys t = {(s, n). \<exists>subs. sub t s = Some subs \<and> n \<in> nodeId ` set (subsNodes subs)}"

definition cmptKeys :: "SystemTree \<Rightarrow> JausAddress set" where
  "cmptKeys t = {a. \<exists>s subs n. sub t s = Some subs \<and> n \<in> set (subsNodes subs) \<and> a \<in> cmptAddress ` set (nodeComponents n)}"

abbreviation (input) nodeKey :: "JausAddress \<Rightarrow> int \<times> u8" where
  "nodeKey a \<equiv> (uint (addrSubsystem a), addrNode a)"

lemma findNode_idx:
  assumes "treeOk t" "addrSubsystem a \<noteq> 255"
  shows "findNodeAddress t a = Some (case sub t (uint (addrSubsystem a)) of
    None \<Rightarrow> None | Some subs \<Rightarrow> firstIdx (\<lambda>n. nodeId n = addrNode a) (subsNodes subs))"
  using assms by (simp add: findNodeAddress_def findNode_def at_proper split: option.split)

lemma firstIdx_key:
  assumes "distinct (map f xs)" "firstIdx (\<lambda>x. f x = k) xs = Some i" "x \<in> set xs" "f x = k"
  shows "xs ! i = x"
  using firstIdx_Some [OF assms(2)] assms by (metis distinct_map in_set_conv_nth inj_onD nth_mem)

lemma findNode_node:
  assumes "treeOk t" "addrSubsystem a \<noteq> 255"
  obtains (unknown) "findNodeAddress t a = Some None" "nodeKey a \<notin> nodeKeys t"
  | (found) i subs where "findNodeAddress t a = Some (Some i)" "sub t (uint (addrSubsystem a)) = Some subs"
      "i < length (subsNodes subs)" "nodeId (subsNodes subs ! i) = addrNode a" "nodeKey a \<in> nodeKeys t"
proof (cases "sub t (uint (addrSubsystem a))")
  case None
  then show ?thesis using unknown findNode_idx [OF assms] by (simp add: nodeKeys_def)
next
  case (Some subs)
  show ?thesis
  proof (cases "firstIdx (\<lambda>n. nodeId n = addrNode a) (subsNodes subs)")
    case None
    then have "nodeKey a \<notin> nodeKeys t" using Some by (auto simp: nodeKeys_def firstIdx_None)
    then show ?thesis using unknown findNode_idx [OF assms] Some None by simp
  next
    case (Some i)
    note i = firstIdx_Some [OF Some]
    then have "nodeKey a \<in> nodeKeys t"
      using \<open>sub t _ = Some subs\<close> by (auto simp: nodeKeys_def intro!: image_eqI [of _ _ "subsNodes subs ! i"])
    then show ?thesis
      using found [of i subs] findNode_idx [OF assms] \<open>sub t _ = Some subs\<close> Some i by simp
  qed
qed

lemma okNode_address:
  assumes "okNode s n" "c \<in> set (nodeComponents n)" "uint (addrSubsystem a) = s" "nodeId n = addrNode a"
  shows "addrComponent (cmptAddress c) = addrComponent a \<and> addrInstance (cmptAddress c) = addrInstance a \<longleftrightarrow> cmptAddress c = a"
  using assms by (auto simp: okNode_def intro!: JausAddress.equality)

lemma findComponent_idx:
  assumes "treeOk t" "addrSubsystem a \<noteq> 255"
  shows "findComponentAddress t a = Some (case sub t (uint (addrSubsystem a)) of
      None \<Rightarrow> None
    | Some subs \<Rightarrow> (case firstIdx (\<lambda>n. nodeId n = addrNode a) (subsNodes subs) of
        None \<Rightarrow> None
      | Some i \<Rightarrow> map_option (Pair i) (firstIdx (\<lambda>c. cmptAddress c = a) (nodeComponents (subsNodes subs ! i)))))"
proof (cases "sub t (uint (addrSubsystem a))")
  case None
  then show ?thesis using assms by (simp add: findComponentAddress_def findComponent_def at_proper)
next
  case (Some subs)
  have "firstIdx (\<lambda>c. addrComponent (cmptAddress c) = addrComponent a \<and> addrInstance (cmptAddress c) = addrInstance a)
          (nodeComponents (subsNodes subs ! i)) =
        firstIdx (\<lambda>c. cmptAddress c = a) (nodeComponents (subsNodes subs ! i))"
    if "firstIdx (\<lambda>n. nodeId n = addrNode a) (subsNodes subs) = Some i" for i
  proof (rule firstIdx_cong, rule ballI)
    fix c assume c: "c \<in> set (nodeComponents (subsNodes subs ! i))"
    note i = firstIdx_Some [OF that]
    then have "okNode (uint (addrSubsystem a)) (subsNodes subs ! i)"
      by (intro okSubsD [OF treeOkD [OF assms(1) Some]]) simp
    from okNode_address [OF this c refl] i
    show "(addrComponent (cmptAddress c) = addrComponent a \<and> addrInstance (cmptAddress c) = addrInstance a) = (cmptAddress c = a)"
      by simp
  qed
  then show ?thesis
    using assms Some by (auto simp: findComponentAddress_def findComponent_def at_proper split: option.splits)
qed

lemma cmptKeys_node:
  assumes "treeOk t" "sub t (uint (addrSubsystem a)) = Some subs" "i < length (subsNodes subs)"
    "nodeId (subsNodes subs ! i) = addrNode a"
  shows "a \<in> cmptKeys t \<longleftrightarrow> a \<in> cmptAddress ` set (nodeComponents (subsNodes subs ! i))"
proof
  assume "a \<in> cmptKeys t"
  then obtain s subs' n c where c: "sub t s = Some subs'" "n \<in> set (subsNodes subs')" "c \<in> set (nodeComponents n)" "a = cmptAddress c"
    by (auto simp: cmptKeys_def)
  have "okNode s n" using okSubsD [OF treeOkD [OF assms(1) c(1)] c(2)] .
  then have s: "uint (addrSubsystem a) = s" "addrNode a = nodeId n" using c by (auto simp: okNode_def)
  then have "subs' = subs" using assms(2) c(1) by simp
  moreover have "distinct (map nodeId (subsNodes subs))" using treeOkD [OF assms(1,2)] by (simp add: okSubs_def)
  ultimately have "n = subsNodes subs ! i"
    using assms(3,4) s c(2) by (metis distinct_map inj_onD nth_mem)
  then show "a \<in> cmptAddress ` set (nodeComponents (subsNodes subs ! i))" using c by simp
next
  assume "a \<in> cmptAddress ` set (nodeComponents (subsNodes subs ! i))"
  then show "a \<in> cmptKeys t" unfolding cmptKeys_def using assms(2,3) nth_mem by blast
qed

lemma cmptKeys_nodeKeys: "treeOk t \<Longrightarrow> a \<in> cmptKeys t \<Longrightarrow> nodeKey a \<in> nodeKeys t"
  unfolding cmptKeys_def nodeKeys_def
  by (auto simp: okNode_def dest!: treeOkD dest: okSubsD)

lemma findComponent_cmpt:
  assumes "treeOk t" "addrSubsystem a \<noteq> 255"
  obtains (unknown) "findComponentAddress t a = Some None" "a \<notin> cmptKeys t"
  | (found) i k subs where "findComponentAddress t a = Some (Some (i, k))" "sub t (uint (addrSubsystem a)) = Some subs"
      "i < length (subsNodes subs)" "nodeId (subsNodes subs ! i) = addrNode a" "findNodeAddress t a = Some (Some i)"
      "k < length (nodeComponents (subsNodes subs ! i))" "cmptAddress (nodeComponents (subsNodes subs ! i) ! k) = a"
      "a \<in> cmptKeys t"
  using assms
proof (cases rule: findNode_node)
  case unknown
  then have "findComponentAddress t a = Some None"
    using findComponent_idx [OF assms] findNode_idx [OF assms] by (auto split: option.splits)
  then show ?thesis using that(1) cmptKeys_nodeKeys [OF assms(1)] unknown(2) by blast
next
  case (found i subs)
  then have idx: "firstIdx (\<lambda>n. nodeId n = addrNode a) (subsNodes subs) = Some i"
    using findNode_idx [OF assms] by simp
  let ?cs = "nodeComponents (subsNodes subs ! i)"
  show ?thesis
  proof (cases "firstIdx (\<lambda>c. cmptAddress c = a) ?cs")
    case None
    then have "a \<notin> cmptKeys t"
      using cmptKeys_node [OF assms(1) found(2,3,4)] by (auto simp: firstIdx_None)
    then show ?thesis using that(1) findComponent_idx [OF assms] found(2) idx None by simp
  next
    case (Some k)
    note k = firstIdx_Some [OF Some]
    then have "a \<in> cmptAddress ` set ?cs" by (auto intro!: image_eqI [of _ _ "?cs ! k"])
    then show ?thesis
      using that(2) [of i k subs] k found findComponent_idx [OF assms] idx Some cmptKeys_node [OF assms(1) found(2,3,4)]
      by simp
  qed
qed

lemma has_keys:
  assumes "treeOk t" "addrSubsystem a \<noteq> 255"
  shows "hasComponent t a = Some (a \<in> cmptKeys t)" "hasNode t a = Some (nodeKey a \<in> nodeKeys t)"
    "hasSubsystem t a = Some (uint (addrSubsystem a) \<in> subsKeys t)"
proof -
  show "hasComponent t a = Some (a \<in> cmptKeys t)"
    using assms by (cases rule: findComponent_cmpt) (simp_all add: hasComponent_def)
  show "hasNode t a = Some (nodeKey a \<in> nodeKeys t)"
    using assms by (cases rule: findNode_node) (simp_all add: hasNode_def)
  show "hasSubsystem t a = Some (uint (addrSubsystem a) \<in> subsKeys t)"
    using assms by (auto simp: hasSubsystem_def at_proper subsKeys_def)
qed

section \<open>Changing one node\<close>

abbreviation (input) addresses :: "JausNode \<Rightarrow> JausAddress set" where
  "addresses n \<equiv> cmptAddress ` set (nodeComponents n)"

lemma okNode_in: "okNode s n \<Longrightarrow> a \<in> addresses n \<Longrightarrow> uint (addrSubsystem a) = s \<and> addrNode a = nodeId n"
  by (auto simp: okNode_def)

lemma cmptKeysI: "sub t s = Some subs \<Longrightarrow> n \<in> set (subsNodes subs) \<Longrightarrow> a \<in> addresses n \<Longrightarrow> a \<in> cmptKeys t"
  unfolding cmptKeys_def by blast

lemma cmptKeysE:
  assumes "a \<in> cmptKeys t"
  obtains s subs n where "sub t s = Some subs" "n \<in> set (subsNodes subs)" "a \<in> addresses n"
  using assms unfolding cmptKeys_def by blast

lemma addresses_known:
  "sub t s = Some subs \<Longrightarrow> i < length (subsNodes subs) \<Longrightarrow> addresses (subsNodes subs ! i) \<subseteq> cmptKeys t"
  by (rule subsetI, erule cmptKeysI, erule nth_mem)

definition known :: "SystemTree \<Rightarrow> int set \<times> (int \<times> u8) set \<times> JausAddress set" where
  "known t = (subsKeys t, nodeKeys t, cmptKeys t)"

lemma okSubs_update:
  assumes "okSubs s subs" "i < length (subsNodes subs)" "okNode s n" "nodeId n = nodeId (subsNodes subs ! i)"
  shows "okSubs s (subs\<lparr>subsNodes := (subsNodes subs)[i := n]\<rparr>)"
proof -
  have "map nodeId ((subsNodes subs)[i := n]) = map nodeId (subsNodes subs)"
    using assms(2,4) by (simp add: map_update list_update_same_conv)
  then show ?thesis using assms(1,3) by (auto simp: okSubs_def dest!: subsetD [OF set_update_subset_insert])
qed

lemma treeOk_updNode:
  assumes "treeOk t" "sub t s = Some subs" "i < length (subsNodes subs)"
    "okNode s (f (subsNodes subs ! i))" "nodeId (f (subsNodes subs ! i)) = nodeId (subsNodes subs ! i)"
  shows "treeOk (updNode t s i f)"
  unfolding updNode_def
  by (rule treeOk_upd [OF assms(1,2)], rule okSubs_update [OF treeOkD [OF assms(1,2)] assms(3-5)])

lemma nodeKeys_updNode:
  assumes "sub t s = Some subs" "i < length (subsNodes subs)" "nodeId (f (subsNodes subs ! i)) = nodeId (subsNodes subs ! i)"
  shows "nodeKeys (updNode t s i f) = nodeKeys t" "subsKeys (updNode t s i f) = subsKeys t"
proof -
  have "map nodeId ((subsNodes subs)[i := f (subsNodes subs ! i)]) = map nodeId (subsNodes subs)"
    using assms(2,3) by (simp add: map_update list_update_same_conv)
  then have "nodeId ` set ((subsNodes subs)[i := f (subsNodes subs ! i)]) = nodeId ` set (subsNodes subs)"
    by (metis list.set_map)
  then have "(s', n) \<in> nodeKeys (updNode t s i f) \<longleftrightarrow> (s', n) \<in> nodeKeys t" for s' n
    using assms(1) by (cases "s' = s") (simp_all add: nodeKeys_def sub_updNode)
  then show "nodeKeys (updNode t s i f) = nodeKeys t" by auto
  show "subsKeys (updNode t s i f) = subsKeys t"
    using assms(1) by (auto simp: subsKeys_def sub_updNode)
qed

lemma cmptKeys_updNode:
  assumes "treeOk t" "sub t s = Some subs" "i < length (subsNodes subs)"
    "okNode s (f (subsNodes subs ! i))" "nodeId (f (subsNodes subs ! i)) = nodeId (subsNodes subs ! i)"
  shows "cmptKeys (updNode t s i f) = cmptKeys t - addresses (subsNodes subs ! i) \<union> addresses (f (subsNodes subs ! i))"
proof -
  let ?n = "subsNodes subs ! i" and ?ns = "subsNodes subs"
  have dis: "addresses n \<inter> addresses ?n = {}" if "n \<in> set ?ns" "n \<noteq> ?n" for n
  proof -
    have "nodeId n \<noteq> nodeId ?n"
      using treeOkD [OF assms(1,2)] that assms(3) by (metis okSubs_def distinct_map inj_onD nth_mem)
    moreover have "okNode s n" "okNode s ?n"
      using okSubsD [OF treeOkD [OF assms(1,2)]] that assms(3) by auto
    ultimately show ?thesis using okNode_in by (metis disjoint_iff)
  qed
  have other: "addresses n \<inter> addresses ?n = {}" if "sub t s' = Some subs'" "n \<in> set (subsNodes subs')" "s' \<noteq> s" for s' subs' n
  proof -
    have "okNode s' n" "okNode s ?n"
      using okSubsD [OF treeOkD [OF assms(1) that(1)] that(2)] okSubsD [OF treeOkD [OF assms(1,2)]] assms(3) by auto
    then show ?thesis using that(3) okNode_in by (metis disjoint_iff)
  qed
  have set: "set (?ns[i := f ?n]) = insert (f ?n) (set ?ns - {?n})"
  proof -
    have "distinct ?ns" using treeOkD [OF assms(1,2)] by (simp add: okSubs_def distinct_map)
    then show ?thesis using assms(3) by (simp add: set_update_distinct)
  qed
  have mem: "?n \<in> set ?ns" using assms(3) by simp
  show ?thesis
  proof (intro set_eqI iffI)
    fix a assume "a \<in> cmptKeys (updNode t s i f)"
    then obtain s' subs' n where n: "sub (updNode t s i f) s' = Some subs'" "n \<in> set (subsNodes subs')" "a \<in> addresses n"
      by (rule cmptKeysE)
    show "a \<in> cmptKeys t - addresses ?n \<union> addresses (f ?n)"
    proof (cases "s' = s")
      case True
      then have "subs' = subs\<lparr>subsNodes := ?ns[i := f ?n]\<rparr>" using n(1) assms(2) by (simp add: sub_updNode)
      then have "n \<in> insert (f ?n) (set ?ns - {?n})" using n(2) set by simp
      then show ?thesis using dis [of n] n(3) cmptKeysI [OF assms(2), of n a] by blast
    next
      case False
      then have "sub t s' = Some subs'" using n(1) assms(2) by (simp add: sub_updNode)
      then show ?thesis using other [OF _ n(2) False] cmptKeysI [OF _ n(2,3)] n(3) by blast
    qed
  next
    fix a assume "a \<in> cmptKeys t - addresses ?n \<union> addresses (f ?n)"
    then consider "a \<in> addresses (f ?n)" | "a \<in> cmptKeys t" "a \<notin> addresses ?n" by blast
    then show "a \<in> cmptKeys (updNode t s i f)"
    proof cases
      case 1
      have "sub (updNode t s i f) s = Some (subs\<lparr>subsNodes := ?ns[i := f ?n]\<rparr>)" using assms(2) by (simp add: sub_updNode)
      then show ?thesis by (rule cmptKeysI [OF _ _ 1]) (simp add: set)
    next
      case 2
      from 2(1) obtain s' subs' n where n: "sub t s' = Some subs'" "n \<in> set (subsNodes subs')" "a \<in> addresses n"
        by (rule cmptKeysE)
      show ?thesis
      proof (cases "s' = s")
        case True
        then have "n \<in> set (?ns[i := f ?n])" using n 2 assms(2) set by auto
        then show ?thesis
          by (intro cmptKeysI [OF _ _ n(3), of _ s "subs\<lparr>subsNodes := ?ns[i := f ?n]\<rparr>"]) (simp_all add: sub_updNode assms(2))
      next
        case False
        then show ?thesis using n(1) by (intro cmptKeysI [OF _ n(2,3), of _ s']) (simp add: sub_updNode assms(2))
      qed
    qed
  qed
qed

section \<open>Components\<close>

lemma set_dropNth: "distinct xs \<Longrightarrow> k < length xs \<Longrightarrow> set (dropNth k xs) = set xs - {xs ! k}"
proof -
  assume d: "distinct xs" "k < length xs"
  have xs: "xs = take k xs @ xs ! k # drop (Suc k) xs" using d(2) by (simp add: id_take_nth_drop)
  then have "distinct (take k xs @ xs ! k # drop (Suc k) xs)" using d(1) by simp
  then show ?thesis unfolding dropNth_def by (subst (3) xs) auto
qed

lemma dropNth_subset: "set (dropNth k xs) \<subseteq> set xs"
  by (auto simp: dropNth_def dest: in_set_takeD in_set_dropD)

lemma distinct_dropNth: "distinct (map f xs) \<Longrightarrow> distinct (map f (dropNth k xs))"
proof -
  assume d: "distinct (map f xs)"
  have "map f (dropNth k xs) = nths (map f xs) (- {k})"
    unfolding dropNth_def
    by (induction xs arbitrary: k)
      (auto simp: nths_Cons take_Cons' drop_Cons' gr0_conv_Suc nths_all intro!: arg_cong2 [where f = nths] split: nat.splits)
  then show ?thesis using d by simp
qed

definition validIds :: "JausAddress \<Rightarrow> bool" where
  "validIds a \<longleftrightarrow> addrComponent a \<notin> {0, 255} \<and> addrInstance a \<notin> {0, 255}"

lemma byte_range: "1 \<le> uint (x :: u8) \<and> uint x \<le> 254 \<longleftrightarrow> x \<notin> {0, 255}"
proof -
  have "x = 0 \<longleftrightarrow> uint x = 0" "x = 255 \<longleftrightarrow> uint x = 255" by (simp_all add: word_uint_eq_iff)
  moreover have "uint x = 0 \<or> 1 \<le> uint x" using uint_ge_0 [of x] by linarith
  moreover have "uint x = 255 \<or> uint x \<le> 254" using uint_lt2p [of x] by simp linarith
  ultimately show ?thesis by auto
qed

text \<open>The component that is added: a clone of the one that is given, or a fresh one.\<close>

definition newComponent :: "int \<Rightarrow> JausAddress \<Rightarrow> JausComponent option \<Rightarrow> JausComponent" where
  "newComponent now a given =
     (case given of Some c \<Rightarrow> jausComponentUpdateTimestamp now c | None \<Rightarrow> (jausComponentCreate now)\<lparr>cmptAddress := a\<rparr>)"

definition givenOk :: "JausAddress \<Rightarrow> JausComponent option \<Rightarrow> bool" where
  "givenOk a given \<longleftrightarrow> (\<forall>c. given = Some c \<longrightarrow> clonable c \<and> cmptAddress c = a)"

lemma newComponent_ok: "givenOk a given \<Longrightarrow> clonable (newComponent now a given) \<and> cmptAddress (newComponent now a given) = a"
  by (auto simp: givenOk_def newComponent_def jausComponentUpdateTimestamp_def clonable_def jausComponentCreate_def split: option.split)

lemma newComponent_eq:
  "givenOk a given \<Longrightarrow> (case given of Some c \<Rightarrow> jausComponentClone now c
     | None \<Rightarrow> Some ((jausComponentCreate now)\<lparr>cmptAddress := a\<rparr>)) = Some (newComponent now a given)"
  by (auto simp: givenOk_def newComponent_def clone_cmpt split: option.split)

lemma addComponent_unfold:
  assumes "treeOk t" "addrSubsystem a \<noteq> 255" "givenOk a given"
  shows "addComponent hs now t w a given =
    (case (if a \<in> cmptKeys t \<or> \<not> validIds a then None else the (findNodeAddress t a)) of
       None \<Rightarrow> Some (False, t, w)
     | Some i \<Rightarrow>
         (let t' = updNode t (uint (addrSubsystem a)) i
                     (\<lambda>node. node\<lparr>nodeComponents := nodeComponents node @ [newComponent now a given]\<rparr>)
          in map_option (\<lambda>w'. (True, t', w')) (raiseEvent hs now (ComponentAdded (newComponent now a given)) t' w)))"
proof -
  have ids: "validIds a \<longleftrightarrow> uint (addrComponent a) \<ge> 1 \<and> uint (addrComponent a) \<le> 254 \<and>
      uint (addrInstance a) \<ge> 1 \<and> uint (addrInstance a) \<le> 254"
    using byte_range [of "addrComponent a"] byte_range [of "addrInstance a"] by (auto simp: validIds_def)
  obtain r where "findNodeAddress t a = Some r" using findNode_idx [OF assms(1,2)] by blast
  then show ?thesis
    using newComponent_eq [OF assms(3), of now]
    unfolding addComponent_def has_keys(1) [OF assms(1,2)] ids
    by (auto simp: Let_def map_conv_bind_option comp_def split: option.split)
qed

lemma addComponent_law:
  assumes "treeOk t" "addrSubsystem a \<noteq> 255" "givenOk a given" "keeps W hs" "W w"
  defines "ok \<equiv> a \<notin> cmptKeys t \<and> nodeKey a \<in> nodeKeys t \<and> validIds a"
  shows "\<exists>t' w'. addComponent hs now t w a given = Some (ok, t', w') \<and> treeOk t' \<and> W w' \<and>
    known t' = (subsKeys t, nodeKeys t, if ok then insert a (cmptKeys t) else cmptKeys t) \<and> (\<not> ok \<longrightarrow> t' = t) \<and>
    treeSubsystemId t' = treeSubsystemId t \<and> treeNodeId t' = treeNodeId t"
  using assms(1,2)
proof (cases rule: findNode_node)
  case unknown
  then show ?thesis using assms by (simp add: addComponent_unfold ok_def known_def)
next
  case (found i subs)
  let ?c = "newComponent now a given" and ?s = "uint (addrSubsystem a)" and ?n = "subsNodes subs ! i"
  let ?f = "\<lambda>node. node\<lparr>nodeComponents := nodeComponents node @ [newComponent now a given]\<rparr>"
  let ?t = "updNode t ?s i ?f"
  show ?thesis
  proof (cases ok)
    case False
    then show ?thesis using assms found by (auto simp: addComponent_unfold ok_def known_def)
  next
    case True
    have c: "clonable ?c" "cmptAddress ?c = a" using newComponent_ok [OF assms(3)] by auto
    have n: "okNode ?s ?n" by (rule okSubsD [OF treeOkD [OF assms(1) found(2)]]) (simp add: found(3))
    have "a \<notin> addresses ?n" using True cmptKeysI [OF found(2), of ?n a] found(3) by (auto simp: ok_def)
    then have fn: "okNode ?s (?f ?n)"
      using n c found(4) by (auto simp: okNode_def clonableNode_def)
    have ok': "treeOk ?t" using treeOk_updNode [OF assms(1) found(2,3), of ?f] fn by simp
    obtain w' where w: "raiseEvent hs now (ComponentAdded ?c) ?t w = Some w'" "W w'"
      using raiseEvent_keeps [OF assms(4) _ ok' assms(5), of "ComponentAdded ?c" now] c by auto
    have "cmptKeys ?t = cmptKeys t - addresses ?n \<union> addresses (?f ?n)"
      by (rule cmptKeys_updNode [OF assms(1) found(2,3)]) (simp_all add: fn)
    moreover have "addresses ?n \<subseteq> cmptKeys t" by (rule addresses_known [OF found(2,3)])
    ultimately have "cmptKeys ?t = insert a (cmptKeys t)" using c(2) by auto
    then have "known ?t = (subsKeys t, nodeKeys t, insert a (cmptKeys t))"
      using nodeKeys_updNode [OF found(2,3), of ?f] by (simp add: known_def)
    then show ?thesis
      using assms(1,2,3) found(1) True ok' w by (simp add: addComponent_unfold ok_def)
  qed
qed

lemma findComponent_findNode:
  "findComponent t s n c inst =
     do { r \<leftarrow> findNode t s n;
          Some (case r of None \<Rightarrow> None
                | Some i \<Rightarrow> map_option (Pair i) (firstIdx (isCmpt c inst) (nodeComponents (nodeAt t s i)))) }"
  by (auto simp: findComponent_def findNode_def systemAt_def nodeAt_def subsAt_def split: option.split)

lemma removeComponent_law:
  assumes "treeOk t" "addrSubsystem a \<noteq> 255" "keeps W hs" "W w"
  shows "\<exists>t' w'. removeComponent hs now t w (uint (addrSubsystem a)) (uint (addrNode a)) (uint (addrComponent a))
      (uint (addrInstance a)) = Some (a \<in> cmptKeys t, t', w') \<and> treeOk t' \<and> W w' \<and>
    known t' = (subsKeys t, nodeKeys t, cmptKeys t - {a}) \<and> (a \<notin> cmptKeys t \<longrightarrow> t' = t) \<and>
    treeSubsystemId t' = treeSubsystemId t \<and> treeNodeId t' = treeNodeId t"
  using assms(1,2)
proof (cases rule: findComponent_cmpt)
  case unknown
  then have "removeComponent hs now t w (uint (addrSubsystem a)) (uint (addrNode a)) (uint (addrComponent a))
      (uint (addrInstance a)) = Some (False, t, w)"
    unfolding removeComponent_def findComponentAddress_def findComponent_findNode
    by (auto split: option.splits Option.bind_splits)
  then show ?thesis using unknown assms by (simp add: known_def)
next
  case (found i k subs)
  let ?s = "uint (addrSubsystem a)" and ?n = "subsNodes subs ! i"
  let ?cs = "nodeComponents ?n"
  let ?f = "\<lambda>node. node\<lparr>nodeComponents := dropNth k (nodeComponents node)\<rparr>"
  let ?t = "updNode t ?s i ?f"
  have n: "okNode ?s ?n" by (rule okSubsD [OF treeOkD [OF assms(1) found(2)]]) (simp add: found(3))
  have fn: "okNode ?s (?f ?n)"
    using n dropNth_subset [of k ?cs] distinct_dropNth [of cmptAddress ?cs k] by (auto simp: okNode_def clonableNode_def)
  have ok': "treeOk ?t" using treeOk_updNode [OF assms(1) found(2,3), of ?f] fn by simp
  have "clonable (?cs ! k)" using n found(6) by (simp add: okNode_def clonableNode_def)
  then obtain w' where w: "raiseEvent hs now (ComponentRemoved (?cs ! k)) ?t w = Some w'" "W w'"
    using raiseEvent_keeps [OF assms(3) _ ok' assms(4), of "ComponentRemoved (?cs ! k)" now] by auto
  have inj: "distinct ?cs" "inj_on cmptAddress (set ?cs)" using n by (simp_all add: okNode_def distinct_map)
  have "cmptKeys ?t = cmptKeys t - addresses ?n \<union> addresses (?f ?n)"
    by (rule cmptKeys_updNode [OF assms(1) found(2,3)]) (simp_all add: fn)
  moreover have "addresses (?f ?n) = addresses ?n - {a}"
    using set_dropNth [OF inj(1) found(6)] inj_on_image_set_diff [OF inj(2), of "set ?cs" "{?cs ! k}"] found(6,7)
    by simp
  moreover have "addresses ?n \<subseteq> cmptKeys t" by (rule addresses_known [OF found(2,3)])
  moreover have "a \<in> addresses ?n" using found(7) nth_mem [OF found(6)] by (metis image_eqI)
  ultimately have "cmptKeys ?t = cmptKeys t - {a}" by blast
  then have "known ?t = (subsKeys t, nodeKeys t, cmptKeys t - {a})"
    using nodeKeys_updNode [OF found(2,3), of ?f] by (simp add: known_def)
  moreover have "removeComponent hs now t w ?s (uint (addrNode a)) (uint (addrComponent a)) (uint (addrInstance a)) =
      Some (True, ?t, w')"
    using found(1,5) w(1) unfolding removeComponent_def findComponentAddress_def findComponent_findNode findNodeAddress_def
    by (simp add: nodeAt_sub [OF found(2)] cmptAt_def)
  ultimately show ?thesis using found ok' w by simp
qed

section \<open>Nodes and subsystems\<close>

definition subsAddresses :: "JausSubsystem \<Rightarrow> JausAddress set" where
  "subsAddresses subs = \<Union> (addresses ` set (subsNodes subs))"

lemma okSubs_in: "okSubs s subs \<Longrightarrow> a \<in> subsAddresses subs \<Longrightarrow> uint (addrSubsystem a) = s"
  unfolding subsAddresses_def using okNode_in okSubsD by blast

lemma cmptKeys_sub:
  "treeOk t \<Longrightarrow> a \<in> cmptKeys t \<longleftrightarrow>
     (case sub t (uint (addrSubsystem a)) of None \<Rightarrow> False | Some subs \<Rightarrow> a \<in> subsAddresses subs)"
proof
  assume ok: "treeOk t" and "a \<in> cmptKeys t"
  from this(2) obtain s subs n where n: "sub t s = Some subs" "n \<in> set (subsNodes subs)" "a \<in> addresses n"
    by (rule cmptKeysE)
  then have "a \<in> subsAddresses subs" unfolding subsAddresses_def by blast
  then show "case sub t (uint (addrSubsystem a)) of None \<Rightarrow> False | Some subs \<Rightarrow> a \<in> subsAddresses subs"
    using okSubs_in [OF treeOkD [OF ok n(1)]] n(1) by simp
next
  assume "case sub t (uint (addrSubsystem a)) of None \<Rightarrow> False | Some subs \<Rightarrow> a \<in> subsAddresses subs"
  then show "a \<in> cmptKeys t" unfolding subsAddresses_def using cmptKeysI [of t "uint (addrSubsystem a)"]
    by (auto split: option.splits)
qed

lemma nodeKeys_sub:
  "(s, n) \<in> nodeKeys t \<longleftrightarrow> (case sub t s of None \<Rightarrow> False | Some subs \<Rightarrow> n \<in> nodeId ` set (subsNodes subs))"
  by (simp add: nodeKeys_def split: option.split)

text \<open>A change of one entry of the array.\<close>

lemma known_change:
  assumes "treeOk t" "treeOk t'" "sub t' = (sub t)(s := x)"
  shows "subsKeys t' = (if x = None then subsKeys t - {s} else insert s (subsKeys t))"
    "nodeKeys t' = {k \<in> nodeKeys t. fst k \<noteq> s} \<union> (case x of None \<Rightarrow> {} | Some subs \<Rightarrow> Pair s ` nodeId ` set (subsNodes subs))"
    "cmptKeys t' = {a \<in> cmptKeys t. uint (addrSubsystem a) \<noteq> s} \<union> (case x of None \<Rightarrow> {} | Some subs \<Rightarrow> subsAddresses subs)"
proof -
  show "subsKeys t' = (if x = None then subsKeys t - {s} else insert s (subsKeys t))"
    using assms(3) by (auto simp: subsKeys_def)
  have "(i, n) \<in> nodeKeys t' \<longleftrightarrow> (i, n) \<in> {k \<in> nodeKeys t. fst k \<noteq> s} \<union>
      (case x of None \<Rightarrow> {} | Some subs \<Rightarrow> Pair s ` nodeId ` set (subsNodes subs))" for i n
    using assms(3) by (cases "i = s") (auto simp: nodeKeys_sub split: option.split)
  then show "nodeKeys t' = {k \<in> nodeKeys t. fst k \<noteq> s} \<union>
      (case x of None \<Rightarrow> {} | Some subs \<Rightarrow> Pair s ` nodeId ` set (subsNodes subs))" by auto
  have x: "uint (addrSubsystem a) = s" if "x = Some subs" "a \<in> subsAddresses subs" for a subs
    by (rule okSubs_in [OF treeOkD [OF assms(2)] that(2)]) (simp add: assms(3) that(1))
  have "a \<in> cmptKeys t' \<longleftrightarrow> a \<in> {a \<in> cmptKeys t. uint (addrSubsystem a) \<noteq> s} \<union>
      (case x of None \<Rightarrow> {} | Some subs \<Rightarrow> subsAddresses subs)" for a
  proof (cases "uint (addrSubsystem a) = s")
    case True
    then show ?thesis using cmptKeys_sub [OF assms(2), of a] assms(3) by (simp split: option.split)
  next
    case False
    then have "a \<in> cmptKeys t' \<longleftrightarrow> a \<in> cmptKeys t"
      using cmptKeys_sub [OF assms(2), of a] cmptKeys_sub [OF assms(1), of a] assms(3) by simp
    then show ?thesis using False x [of _ a] by (auto split: option.split)
  qed
  then show "cmptKeys t' = {a \<in> cmptKeys t. uint (addrSubsystem a) \<noteq> s} \<union>
      (case x of None \<Rightarrow> {} | Some subs \<Rightarrow> subsAddresses subs)" by blast
qed

lemma known_same:
  assumes "treeOk t" "sub t s = Some subs"
  shows "{a \<in> cmptKeys t. uint (addrSubsystem a) \<noteq> s} \<union> subsAddresses subs = cmptKeys t"
    "{k \<in> nodeKeys t. fst k \<noteq> s} \<union> Pair s ` nodeId ` set (subsNodes subs) = nodeKeys t"
  using known_change(2,3) [OF assms(1,1), of s "Some subs"] assms(2) by (simp_all add: fun_upd_idem)

definition newNode :: "int \<Rightarrow> JausAddress \<Rightarrow> JausNode option \<Rightarrow> JausNode" where
  "newNode now a given =
     (case given of Some n \<Rightarrow> stampNode now n | None \<Rightarrow> (jausNodeCreate now)\<lparr>nodeId := addrNode a\<rparr>)
     \<lparr>nodeParent := Some (uint (addrSubsystem a))\<rparr>"

definition givenNodeOk :: "JausAddress \<Rightarrow> JausNode option \<Rightarrow> bool" where
  "givenNodeOk a given \<longleftrightarrow> (\<forall>n. given = Some n \<longrightarrow> okNode (uint (addrSubsystem a)) n \<and> nodeId n = addrNode a)"

lemma okNode_stamp [simp]: "okNode s (stampNode now n) = okNode s n"
proof -
  have "map cmptAddress (map (jausComponentUpdateTimestamp now) cs) = map cmptAddress cs" for cs
    by (simp add: jausComponentUpdateTimestamp_def)
  then show ?thesis
    by (simp add: okNode_def clonableNode_def stampNode_def comp_def) (simp add: jausComponentUpdateTimestamp_def)
qed

lemma okNode_parent [simp]: "okNode s (n\<lparr>nodeParent := p\<rparr>) = okNode s n"
  by (simp add: okNode_def clonableNode_def)

lemma newNode_ok:
  "givenNodeOk a given \<Longrightarrow> okNode (uint (addrSubsystem a)) (newNode now a given) \<and> nodeId (newNode now a given) = addrNode a"
  by (cases given)
    (auto simp: newNode_def givenNodeOk_def jausNodeCreate_def jausNodeUpdateTimestamp_def okNode_def [of _ "\<lparr>nodeIdentification = _, nodeId = _, nodeComponents = [], nodeParent = _, nodeTimeStampSec = _\<rparr>"] clonableNode_def, simp_all add: stampNode_def)

lemma addNode_law:
  assumes "treeOk t" "addrSubsystem a \<noteq> 255" "givenNodeOk a given" "keeps W hs" "W w"
  defines "ok \<equiv> nodeKey a \<notin> nodeKeys t \<and> uint (addrSubsystem a) \<in> subsKeys t \<and> addrNode a \<notin> {0, 255}"
  shows "\<exists>t' w'. addNode hs now t w a given = Some (ok, t', w') \<and> treeOk t' \<and> W w' \<and>
    known t' = (if ok then (subsKeys t, insert (nodeKey a) (nodeKeys t), cmptKeys t \<union> addresses (newNode now a given))
                else known t) \<and> (\<not> ok \<longrightarrow> t' = t) \<and>
    treeSubsystemId t' = treeSubsystemId t \<and> treeNodeId t' = treeNodeId t"
proof -
  let ?s = "uint (addrSubsystem a)" and ?n = "newNode now a given"
  have n: "okNode ?s ?n" "nodeId ?n = addrNode a" using newNode_ok [OF assms(3)] by auto
  have range: "uint (addrNode a) \<ge> 1 \<and> uint (addrNode a) \<le> 254 \<longleftrightarrow> addrNode a \<notin> {0, 255}" by (rule byte_range)
  show ?thesis
  proof (cases ok)
    case False
    then show ?thesis
      using assms(1,5) range has_keys(2) [OF assms(1,2)] at_proper [OF assms(1,2)]
      by (auto simp: addNode_def ok_def subsKeys_def)
  next
    case True
    then obtain subs where subs: "sub t ?s = Some subs" by (auto simp: ok_def subsKeys_def)
    note so = treeOkD [OF assms(1) subs]
    let ?f = "\<lambda>s. s\<lparr>subsNodes := subsNodes s @ [?n]\<rparr>"
    let ?t = "updSubs t ?s ?f"
    have "addrNode a \<notin> nodeId ` set (subsNodes subs)" using True subs by (simp add: ok_def nodeKeys_sub)
    then have "okSubs ?s (?f subs)" using so n by (auto simp: okSubs_def)
    then have ok': "treeOk ?t" using treeOk_upd [OF assms(1) subs, of ?f] by simp
    have "clonableNode ?n" using n(1) by (simp add: okNode_def)
    then obtain w' where w: "raiseEvent hs now (NodeAdded ?n) ?t w = Some w'" "W w'"
      using raiseEvent_keeps [OF assms(4) _ ok' assms(5), of "NodeAdded ?n" now] by auto
    have given: "(case given of Some n \<Rightarrow> jausNodeClone now n | None \<Rightarrow> Some ((jausNodeCreate now)\<lparr>nodeId := addrNode a\<rparr>)) =
        Some (case given of Some n \<Rightarrow> stampNode now n | None \<Rightarrow> (jausNodeCreate now)\<lparr>nodeId := addrNode a\<rparr>)"
      using assms(3) by (auto simp: givenNodeOk_def okNode_def clone_node split: option.split)
    have "addNode hs now t w a given = Some (True, ?t, w')"
      using True range has_keys(2) [OF assms(1,2)] at_proper [OF assms(1,2)] subs so w(1) given
      by (simp add: addNode_def ok_def newNode_def okSubs_def)
    moreover have "known ?t = (subsKeys t, insert (nodeKey a) (nodeKeys t), cmptKeys t \<union> addresses ?n)"
    proof -
      note ch = known_change [OF assms(1) ok' sub_updSubs [OF subs]]
      have "subsKeys ?t = subsKeys t" using ch(1) subs by (auto simp: subsKeys_def)
      moreover have "nodeKeys ?t = insert (nodeKey a) (nodeKeys t)"
        using ch(2) known_same(2) [OF assms(1) subs] n(2) by auto
      moreover have "subsAddresses (?f subs) = subsAddresses subs \<union> addresses ?n"
        unfolding subsAddresses_def by auto
      then have "cmptKeys ?t = cmptKeys t \<union> addresses ?n"
        using ch(3) known_same(1) [OF assms(1) subs] by auto
      ultimately show ?thesis by (simp add: known_def)
    qed
    ultimately show ?thesis using True ok' w by auto
  qed
qed

lemma removeNode_law:
  assumes "treeOk t" "0 \<le> s" "s < 255" "keeps W hs" "W w"
  shows "\<exists>t' w'. removeNode hs now t w s (uint n) = Some ((s, n) \<in> nodeKeys t, t', w') \<and> treeOk t' \<and> W w' \<and>
    known t' = (subsKeys t, nodeKeys t - {(s, n)}, {a \<in> cmptKeys t. nodeKey a \<noteq> (s, n)}) \<and>
    ((s, n) \<notin> nodeKeys t \<longrightarrow> t' = t) \<and>
    treeSubsystemId t' = treeSubsystemId t \<and> treeNodeId t' = treeNodeId t \<and> subsystemCount t' = subsystemCount t"
proof -
  have at: "systemAt t s = Some (sub t s)" using assms by (simp add: systemAt_sub treeOk_length)
  show ?thesis
  proof (cases "(s, n) \<in> nodeKeys t")
    case False
    then have "{a \<in> cmptKeys t. nodeKey a \<noteq> (s, n)} = cmptKeys t" using cmptKeys_nodeKeys [OF assms(1)] by blast
    moreover have "findNode t s (uint n) = Some None"
      using False at by (auto simp: findNode_def nodeKeys_sub firstIdx_None split: option.splits)
    ultimately show ?thesis using False assms by (simp add: removeNode_def known_def)
  next
    case True
    then obtain subs where subs: "sub t s = Some subs" "n \<in> nodeId ` set (subsNodes subs)"
      by (auto simp: nodeKeys_sub split: option.splits)
    note so = treeOkD [OF assms(1) subs(1)]
    let ?ns = "subsNodes subs"
    obtain i where i: "firstIdx (\<lambda>x. nodeId x = n) ?ns = Some i"
      using subs(2) firstIdx_None [of "\<lambda>x. nodeId x = n" ?ns] by (cases "firstIdx (\<lambda>x. nodeId x = n) ?ns") auto
    note fi = firstIdx_Some [OF i]
    let ?f = "\<lambda>s. s\<lparr>subsNodes := dropNth i (subsNodes s)\<rparr>"
    let ?t = "updSubs t s ?f" and ?x = "?ns ! i"
    have d: "distinct ?ns" "inj_on nodeId (set ?ns)" using so by (simp_all add: okSubs_def distinct_map)
    have ns: "set (dropNth i ?ns) = set ?ns - {?x}" using set_dropNth [OF d(1)] fi by simp
    have "okSubs s (?f subs)"
      using so distinct_dropNth [of nodeId ?ns i] ns by (auto simp: okSubs_def)
    then have ok': "treeOk ?t" using treeOk_upd [OF assms(1) subs(1), of ?f] by simp
    have x: "okNode s ?x" by (rule okSubsD [OF so]) (simp add: fi)
    then have "clonableNode ?x" by (simp add: okNode_def)
    then obtain w' where w: "raiseEvent hs now (NodeRemoved ?x) ?t w = Some w'" "W w'"
      using raiseEvent_keeps [OF assms(4) _ ok' assms(5), of "NodeRemoved ?x" now] by auto
    have "findNode t s (uint n) = Some (Some i)" using at subs(1) i by (simp add: findNode_def)
    then have "removeNode hs now t w s (uint n) = Some (True, ?t, w')"
      using w(1) by (simp add: removeNode_def nodeAt_sub [OF subs(1)])
    moreover have "known ?t = (subsKeys t, nodeKeys t - {(s, n)}, {a \<in> cmptKeys t. nodeKey a \<noteq> (s, n)})"
    proof -
      note ch = known_change [OF assms(1) ok' sub_updSubs [OF subs(1)]]
      have "subsKeys ?t = subsKeys t" using ch(1) subs(1) by (auto simp: subsKeys_def)
      moreover have "nodeId ` set (dropNth i ?ns) = nodeId ` set ?ns - {n}"
        using ns inj_on_image_set_diff [OF d(2), of "set ?ns" "{?x}"] fi by simp
      then have "nodeKeys ?t = nodeKeys t - {(s, n)}"
        using ch(2) known_same(2) [OF assms(1) subs(1)] by auto
      moreover have "a \<in> cmptKeys ?t \<longleftrightarrow> a \<in> cmptKeys t \<and> nodeKey a \<noteq> (s, n)" for a
      proof (cases "uint (addrSubsystem a) = s")
        case False
        then show ?thesis
          using cmptKeys_sub [OF ok', of a] cmptKeys_sub [OF assms(1), of a] by (simp add: sub_updSubs [OF subs(1)])
      next
        case True
        have y: "y = ?x \<longleftrightarrow> addrNode a = n" if "y \<in> set ?ns" "a \<in> addresses y" for y
        proof -
          have "addrNode a = nodeId y" using okNode_in [OF okSubsD [OF so that(1)] that(2)] by simp
          moreover have "nodeId ?x = n" "?x \<in> set ?ns" using fi by simp_all
          ultimately show ?thesis using that(1) d(2) by (metis inj_onD)
        qed
        have "set (subsNodes (?f subs)) = set ?ns - {?x}" using ns by simp
        then have "a \<in> subsAddresses (?f subs) \<longleftrightarrow> a \<in> subsAddresses subs \<and> addrNode a \<noteq> n"
          unfolding subsAddresses_def using y by blast
        then show ?thesis
          using cmptKeys_sub [OF ok', of a] cmptKeys_sub [OF assms(1), of a] True subs(1)
          by (simp add: sub_updSubs [OF subs(1)])
      qed
      then have "cmptKeys ?t = {a \<in> cmptKeys t. nodeKey a \<noteq> (s, n)}" by auto
      ultimately show ?thesis by (simp add: known_def)
    qed
    ultimately show ?thesis using True ok' w by simp
  qed
qed

lemma sub_setSystem:
  "sub t s = y \<Longrightarrow> 0 \<le> s \<Longrightarrow> s < int (length (system t)) \<Longrightarrow> setSystemAt t s x = Some (t\<lparr>system := (system t)[nat s := x]\<rparr>)"
  by (simp add: setSystemAt_def)

definition newSubsystem :: "int \<Rightarrow> int \<Rightarrow> JausSubsystem option \<Rightarrow> JausSubsystem" where
  "newSubsystem now s given =
     (case given of Some subs \<Rightarrow> orphaned (stampSubs now subs) | None \<Rightarrow> (jausSubsystemCreate now)\<lparr>subsId := s\<rparr>)"

lemma okSubs_stamp [simp]: "okSubs s (stampSubs now subs) = okSubs s subs"
proof -
  have "nodeId (stampNode now n) = nodeId n" for n by (simp add: stampNode_def)
  then show ?thesis by (simp add: okSubs_def stampSubs_def comp_def)
qed

lemma okSubs_orphaned [simp]: "okSubs s (orphaned subs) = okSubs s subs"
  by (simp add: okSubs_def orphaned_def comp_def)

lemma okSubs_empty: "1 \<le> s \<Longrightarrow> subsId subs = s \<Longrightarrow> subsNodes subs = [] \<Longrightarrow> okSubs s subs"
  by (simp add: okSubs_def)

lemma newSubsystem_ok: "(\<forall>subs. given = Some subs \<longrightarrow> okSubs s subs) \<Longrightarrow> 1 \<le> s \<Longrightarrow> okSubs s (newSubsystem now s given)"
  by (cases given) (simp_all add: newSubsystem_def okSubs_empty jausSubsystemCreate_def jausSubsystemUpdateTimestamp_def)

lemma addSubsystem_law:
  assumes "treeOk t" "0 \<le> s" "s < 255" "\<forall>subs. given = Some subs \<longrightarrow> okSubs s subs" "keeps W hs" "W w"
  defines "ok \<equiv> s \<notin> subsKeys t \<and> s \<noteq> 0"
  shows "\<exists>t' w'. addSubsystem hs now t w s given = Some (ok, t', w') \<and> treeOk t' \<and> W w' \<and>
    known t' = (if ok then (insert s (subsKeys t), nodeKeys t \<union> Pair s ` nodeId ` set (subsNodes (newSubsystem now s given)),
                  cmptKeys t \<union> subsAddresses (newSubsystem now s given)) else known t) \<and> (\<not> ok \<longrightarrow> t' = t) \<and>
    treeSubsystemId t' = treeSubsystemId t \<and> treeNodeId t' = treeNodeId t"
proof -
  have at: "systemAt t s = Some (sub t s)" using assms by (simp add: systemAt_sub treeOk_length)
  show ?thesis
  proof (cases ok)
    case False
    then show ?thesis using assms at by (auto simp: addSubsystem_def ok_def subsKeys_def)
  next
    case True
    let ?n = "newSubsystem now s given" and ?x = "\<lambda>t. (t\<lparr>system := (system t)[nat s := Some (newSubsystem now s given)]\<rparr>)"
    let ?t = "(?x t)\<lparr>subsystemCount := subsystemCount t + 1\<rparr>"
    have none: "sub t s = None" using True by (auto simp: ok_def subsKeys_def)
    have n: "okSubs s ?n" using newSubsystem_ok [OF assms(4)] True assms(2) by (simp add: ok_def)
    have sub: "sub ?t = (sub t)(s := Some ?n)"
      using sub_put [of s t "Some ?n"] assms(2,3) treeOk_length [OF assms(1)] by simp
    have ok': "treeOk ?t" using assms(1) n by (auto simp: treeOk_def sub simp del: sub_count)
    have "clonableSubs ?n" using okSubs_clonable [OF n] .
    then obtain w' where w: "raiseEvent hs now (SubsystemAdded ?n) ?t w = Some w'" "W w'"
      using raiseEvent_keeps [OF assms(5) _ ok' assms(6), of "SubsystemAdded ?n" now] by auto
    have given: "(case given of Some subs \<Rightarrow> map_option orphaned (jausSubsystemClone now subs)
        | None \<Rightarrow> Some ((jausSubsystemCreate now)\<lparr>subsId := s\<rparr>)) = Some ?n"
      using assms(4) okSubs_clonable by (auto simp: newSubsystem_def clone_subs split: option.split)
    have "setSystemAt t (subsId ?n) (Some ?n) = Some (?x t)"
      using n assms(2,3) treeOk_length [OF assms(1)] by (simp add: setSystemAt_def okSubs_def)
    then have "addSubsystem hs now t w s given = Some (True, ?t, w')"
      using True at none given w(1) assms(2,3) by (auto simp: addSubsystem_def ok_def)
    moreover have "known ?t = (insert s (subsKeys t), nodeKeys t \<union> Pair s ` nodeId ` set (subsNodes ?n),
        cmptKeys t \<union> subsAddresses ?n)"
    proof -
      note ch = known_change [OF assms(1) ok' sub]
      have "{a \<in> cmptKeys t. uint (addrSubsystem a) \<noteq> s} = cmptKeys t"
        using none by (auto simp: cmptKeys_sub [OF assms(1)])
      moreover have "{k \<in> nodeKeys t. fst k \<noteq> s} = nodeKeys t"
        using none by (auto simp: nodeKeys_sub)
      ultimately show ?thesis using ch by (simp add: known_def)
    qed
    ultimately show ?thesis using True ok' w by simp
  qed
qed

lemma removeSubsystem_law:
  assumes "treeOk t" "0 \<le> s" "s < 255" "keeps W hs" "W w"
  shows "\<exists>t' w'. removeSubsystem hs now t w s = Some (s \<in> subsKeys t, t', w') \<and> treeOk t' \<and> W w' \<and>
    known t' = (subsKeys t - {s}, {k \<in> nodeKeys t. fst k \<noteq> s}, {a \<in> cmptKeys t. uint (addrSubsystem a) \<noteq> s}) \<and>
    (s \<notin> subsKeys t \<longrightarrow> t' = t) \<and> sub t' = (sub t)(s := None) \<and>
    treeSubsystemId t' = treeSubsystemId t \<and> treeNodeId t' = treeNodeId t"
proof -
  have at: "systemAt t s = Some (sub t s)" using assms by (simp add: systemAt_sub treeOk_length)
  show ?thesis
  proof (cases "sub t s")
    case None
    have "{a \<in> cmptKeys t. uint (addrSubsystem a) \<noteq> s} = cmptKeys t"
      using None by (auto simp: cmptKeys_sub [OF assms(1)])
    moreover have "{k \<in> nodeKeys t. fst k \<noteq> s} = nodeKeys t"
      using None by (auto simp: nodeKeys_sub)
    ultimately show ?thesis
      using None assms at by (auto simp: removeSubsystem_def subsKeys_def known_def)
  next
    case (Some subs)
    let ?t = "t\<lparr>system := (system t)[nat s := None]\<rparr>"
    have sub: "sub ?t = (sub t)(s := None)" using sub_put [of s t None] assms(2,3) treeOk_length [OF assms(1)] by simp
    have ok': "treeOk ?t" using assms(1) by (auto simp: treeOk_def sub)
    then have ok2: "treeOk (?t\<lparr>subsystemCount := c\<rparr>)" for c by (simp add: treeOk_def)
    have "clonableSubs subs" using okSubs_clonable [OF treeOkD [OF assms(1) Some]] .
    then obtain w' where w: "raiseEvent hs now (SubsystemRemoved subs) ?t w = Some w'" "W w'"
      using raiseEvent_keeps [OF assms(4) _ ok' assms(5), of "SubsystemRemoved subs" now] by auto
    have "removeSubsystem hs now t w s = Some (True, ?t\<lparr>subsystemCount := subsystemCount ?t - 1\<rparr>, w')"
      using at Some w(1) by (simp add: removeSubsystem_def)
    moreover have "known (?t\<lparr>subsystemCount := c\<rparr>) = (subsKeys t - {s}, {k \<in> nodeKeys t. fst k \<noteq> s},
        {a \<in> cmptKeys t. uint (addrSubsystem a) \<noteq> s})" for c
      using known_change [OF assms(1) ok2 [of c], where s = s and x = None] sub by (simp add: known_def)
    ultimately show ?thesis using Some ok2 w sub by (auto simp: subsKeys_def)
  qed
qed

section \<open>Three registries in one tree\<close>

text \<open>
  The tree registers subsystems, nodes and components at once: the abstract state is three sets, and each operation
  says whether it did something. A subsystem and a node may come with what stands below them, and a removal takes
  with it what stands below.
\<close>

type_synonym registers = "int set \<times> (int \<times> u8) set \<times> JausAddress set"

datatype treeOp =
    AddSubsystem int "JausSubsystem option"
  | RemoveSubsystem int
  | AddNode JausAddress "JausNode option"
  | RemoveNode int u8
  | AddComponent JausAddress "JausComponent option"
  | RemoveComponent JausAddress

definition belowNode :: "JausNode \<Rightarrow> JausAddress set" where
  "belowNode n = cmptAddress ` set (nodeComponents n)"

fun registersStep :: "treeOp \<Rightarrow> registers \<Rightarrow> bool \<times> registers" where
  "registersStep (AddSubsystem s given) (S, N, C) =
     (let ns = (case given of None \<Rightarrow> [] | Some subs \<Rightarrow> subsNodes subs)
      in if s \<notin> S \<and> s \<noteq> 0
         then (True, insert s S, N \<union> {(s, nodeId n) | n. n \<in> set ns}, C \<union> \<Union> (belowNode ` set ns))
         else (False, S, N, C))"
| "registersStep (RemoveSubsystem s) (S, N, C) =
     (s \<in> S, S - {s}, {k \<in> N. fst k \<noteq> s}, {a \<in> C. uint (addrSubsystem a) \<noteq> s})"
| "registersStep (AddNode a given) (S, N, C) =
     (if nodeKey a \<notin> N \<and> uint (addrSubsystem a) \<in> S \<and> addrNode a \<notin> {0, 255}
      then (True, S, insert (nodeKey a) N, C \<union> (case given of None \<Rightarrow> {} | Some n \<Rightarrow> belowNode n))
      else (False, S, N, C))"
| "registersStep (RemoveNode s n) (S, N, C) = ((s, n) \<in> N, S, N - {(s, n)}, {a \<in> C. nodeKey a \<noteq> (s, n)})"
| "registersStep (AddComponent a given) (S, N, C) =
     (if a \<notin> C \<and> nodeKey a \<in> N \<and> addrComponent a \<notin> {0, 255} \<and> addrInstance a \<notin> {0, 255}
      then (True, S, N, insert a C) else (False, S, N, C))"
| "registersStep (RemoveComponent a) (S, N, C) = (a \<in> C, S, N, C - {a})"

text \<open>The calls of the code, at a time and with the handlers of the tree.\<close>

fun treeStep :: "'w handler list \<Rightarrow> int \<times> treeOp \<Rightarrow> SystemTree \<times> 'w \<Rightarrow> (bool \<times> SystemTree \<times> 'w) exec" where
  "treeStep hs (now, AddSubsystem s given) (t, w) = addSubsystem hs now t w s given"
| "treeStep hs (now, RemoveSubsystem s) (t, w) = removeSubsystem hs now t w s"
| "treeStep hs (now, AddNode a given) (t, w) = addNode hs now t w a given"
| "treeStep hs (now, RemoveNode s n) (t, w) = removeNode hs now t w s (uint n)"
| "treeStep hs (now, AddComponent a given) (t, w) = addComponent hs now t w a given"
| "treeStep hs (now, RemoveComponent a) (t, w) =
     removeComponent hs now t w (uint (addrSubsystem a)) (uint (addrNode a)) (uint (addrComponent a)) (uint (addrInstance a))"

text \<open>
  The operations name a subsystem the array has an entry for, and what is added is well formed and belongs where it is
  put.
\<close>

fun opOk :: "treeOp \<Rightarrow> bool" where
  "opOk (AddSubsystem s given) \<longleftrightarrow> 0 \<le> s \<and> s < 255 \<and> (\<forall>subs. given = Some subs \<longrightarrow> okSubs s subs)"
| "opOk (RemoveSubsystem s) \<longleftrightarrow> 0 \<le> s \<and> s < 255"
| "opOk (AddNode a given) \<longleftrightarrow> addrSubsystem a \<noteq> 255 \<and> givenNodeOk a given"
| "opOk (RemoveNode s n) \<longleftrightarrow> 0 \<le> s \<and> s < 255"
| "opOk (AddComponent a given) \<longleftrightarrow> addrSubsystem a \<noteq> 255 \<and> givenOk a given"
| "opOk (RemoveComponent a) \<longleftrightarrow> addrSubsystem a \<noteq> 255"

lemma stampNode_parts: "nodeId (stampNode now n) = nodeId n" "belowNode (stampNode now n) = belowNode n"
  "belowNode (n\<lparr>nodeParent := x\<rparr>) = belowNode n"
  by (simp_all add: stampNode_def belowNode_def image_image jausComponentUpdateTimestamp_def)

lemma newNode_addresses: "addresses (newNode now a given) = (case given of None \<Rightarrow> {} | Some n \<Rightarrow> belowNode n)"
proof (cases given)
  case None
  then show ?thesis by (simp add: newNode_def jausNodeCreate_def jausNodeUpdateTimestamp_def)
next
  case (Some n)
  then show ?thesis using stampNode_parts(2) [of now n] by (simp add: newNode_def belowNode_def)
qed

lemma newSubsystem_contents:
  "Pair s ` nodeId ` set (subsNodes (newSubsystem now s given)) =
     {(s, nodeId n) | n. n \<in> set (case given of None \<Rightarrow> [] | Some subs \<Rightarrow> subsNodes subs)}"
  "subsAddresses (newSubsystem now s given) =
     \<Union> (belowNode ` set (case given of None \<Rightarrow> [] | Some subs \<Rightarrow> subsNodes subs))"
proof -
  let ?nds = "case given of None \<Rightarrow> [] | Some subs \<Rightarrow> subsNodes subs"
  have "nodeId ` set (subsNodes (newSubsystem now s given)) = nodeId ` set ?nds"
    by (cases given)
      (simp_all add: newSubsystem_def jausSubsystemCreate_def jausSubsystemUpdateTimestamp_def orphaned_def stampSubs_def
        image_image stampNode_parts)
  then show "Pair s ` nodeId ` set (subsNodes (newSubsystem now s given)) = {(s, nodeId n) | n. n \<in> set ?nds}"
    by (simp only: image_image) blast
  have "belowNode ` set (subsNodes (newSubsystem now s given)) = belowNode ` set ?nds"
    by (cases given)
      (simp_all add: newSubsystem_def jausSubsystemCreate_def jausSubsystemUpdateTimestamp_def orphaned_def stampSubs_def
        image_image stampNode_parts)
  then show "subsAddresses (newSubsystem now s given) = \<Union> (belowNode ` set ?nds)"
    by (simp add: subsAddresses_def belowNode_def)
qed

text \<open>Operations that answer, run one after the other, in the code and on the abstract state.\<close>

fun specRun :: "('o \<Rightarrow> 'v \<Rightarrow> bool \<times> 'v) \<Rightarrow> 'o list \<Rightarrow> 'v \<Rightarrow> bool list \<times> 'v" where
  "specRun spec [] v = ([], v)"
| "specRun spec (op # ops) v =
     (let (b, v') = spec op v; (bs, v'') = specRun spec ops v' in (b # bs, v''))"

fun codeRun :: "('o \<Rightarrow> 't \<Rightarrow> (bool \<times> 't) exec) \<Rightarrow> 'o list \<Rightarrow> 't \<Rightarrow> (bool list \<times> 't) exec" where
  "codeRun code [] t = Some ([], t)"
| "codeRun code (op # ops) t =
     do { (b, t') \<leftarrow> code op t; (bs, t'') \<leftarrow> codeRun code ops t'; Some (b # bs, t'') }"

locale registry =
  fixes inv :: "'t \<Rightarrow> bool" and valid :: "'o \<Rightarrow> bool" and view :: "'t \<Rightarrow> 'v"
    and code :: "'o \<Rightarrow> 't \<Rightarrow> (bool \<times> 't) exec" and spec :: "'o \<Rightarrow> 'v \<Rightarrow> bool \<times> 'v"
  assumes step: "inv t \<Longrightarrow> valid op \<Longrightarrow>
    \<exists>t'. code op t = Some (fst (spec op (view t)), t') \<and> inv t' \<and> view t' = snd (spec op (view t))"
begin

lemma run:
  assumes "inv t" "\<forall>op \<in> set ops. valid op"
  shows "\<exists>t'. codeRun code ops t = Some (fst (specRun spec ops (view t)), t') \<and> inv t' \<and>
    view t' = snd (specRun spec ops (view t))"
  using assms
proof (induction ops arbitrary: t)
  case Nil
  then show ?case by simp
next
  case (Cons op ops)
  obtain t1 where t1: "code op t = Some (fst (spec op (view t)), t1)" "inv t1" "view t1 = snd (spec op (view t))"
    using step [OF Cons.prems(1), of op] Cons.prems(2) by auto
  obtain t2 where "codeRun code ops t1 = Some (fst (specRun spec ops (view t1)), t2)" "inv t2"
    "view t2 = snd (specRun spec ops (view t1))"
    using Cons.IH [OF t1(2)] Cons.prems(2) by auto
  then show ?case using t1 by (simp add: split_beta Let_def)
qed

end

interpretation tree_ops: registry "\<lambda>x. treeOk (fst x) \<and> W (snd x)" "\<lambda>x. opOk (snd x) \<and> keeps W hs" "\<lambda>x. known (fst x)"
  "treeStep hs" "\<lambda>x. registersStep (snd x)" for W :: "'w \<Rightarrow> bool" and hs
proof (unfold_locales, goal_cases)
  case (1 x op)
  obtain now o' where op: "op = (now, o')" by (cases op)
  obtain t w where x: "x = (t, w)" by (cases x)
  have inv: "treeOk t" "W w" "keeps W hs" and ok: "opOk o'" using 1 op x by auto
  show ?case
  proof (cases o')
    case (AddSubsystem s given)
    then show ?thesis
      using addSubsystem_law [OF inv(1) _ _ _ inv(3,2), of s given now] ok
      by (auto simp: op x known_def newSubsystem_contents Let_def)
  next
    case (RemoveSubsystem s)
    then show ?thesis
      using removeSubsystem_law [OF inv(1) _ _ inv(3,2), of s now] ok by (auto simp: op x known_def)
  next
    case (AddNode a given)
    then show ?thesis
      using addNode_law [OF inv(1) _ _ inv(3,2), of a given now] ok
      by (auto simp: op x known_def newNode_addresses)
  next
    case (RemoveNode s n)
    then show ?thesis
      using removeNode_law [OF inv(1) _ _ inv(3,2), of s now n] ok by (auto simp: op x known_def)
  next
    case (AddComponent a given)
    then show ?thesis
      using addComponent_law [OF inv(1) _ _ inv(3,2), of a given now] ok
      by (auto simp: op x known_def validIds_def)
  next
    case (RemoveComponent a)
    then show ?thesis
      using removeComponent_law [OF inv(1) _ inv(3,2), of a now] ok by (auto simp: op x known_def)
  qed
qed

text \<open>A handler that writes down the events.\<close>

definition observe :: "SystemTreeEvent list handler" where
  "observe e t w = Some (w @ [e])"

lemma keeps_observe: "keeps (\<lambda>_. True) [observe]"
  by (simp add: keeps_def observe_def)

text \<open>The array has no entry for subsystem 255.\<close>

lemma has_broadcast:
  assumes "treeOk t" "addrSubsystem a = 255"
  shows "hasSubsystem t a = None" "hasNode t a = None" "hasComponent t a = None"
proof -
  have "systemAt t (uint (addrSubsystem a)) = None" using assms by (simp add: systemAt_def treeOk_def)
  then show "hasSubsystem t a = None" "hasNode t a = None" "hasComponent t a = None"
    by (simp_all add: hasSubsystem_def hasNode_def hasComponent_def findNodeAddress_def findComponentAddress_def
        findNode_def findComponent_def)
qed

section \<open>Instances\<close>

definition usedInstances :: "SystemTree \<Rightarrow> JausAddress \<Rightarrow> u8 set" where
  "usedInstances t a = {i. a\<lparr>addrInstance := i\<rparr> \<in> cmptKeys t}"

lemma markInstances_eq:
  "markInstances c cs avail =
     (if \<forall>x \<in> set cs. addrComponent (cmptAddress x) = c \<longrightarrow> unat (addrInstance (cmptAddress x)) < length avail
      then Some (map (\<lambda>i. avail ! i \<and> (\<forall>x \<in> set cs. addrComponent (cmptAddress x) = c \<longrightarrow> unat (addrInstance (cmptAddress x)) \<noteq> i))
                   [0..<length avail])
      else None)"
proof (induction cs arbitrary: avail)
  case Nil
  then show ?case by (simp add: map_nth)
next
  case (Cons x cs)
  show ?case
    by (auto simp: Cons.IH Let_def nth_list_update)
qed

lemma lowestInstance_eq:
  assumes "length avail = 254" "i \<le> 254"
  shows "lowestInstance avail i =
    (if \<exists>j. i \<le> j \<and> j < 254 \<and> avail ! j then Some (of_nat (LEAST j. i \<le> j \<and> j < 254 \<and> avail ! j)) else None)"
  using assms(2)
proof (induction "254 - i" arbitrary: i)
  case 0
  then have "i = 254" by simp
  then show ?case using assms(1) by (auto simp: lowestInstance.simps [of _ 254])
next
  case (Suc k)
  then have i: "i < 254" by simp
  let ?P = "\<lambda>i j. i \<le> j \<and> j < 254 \<and> avail ! j"
  show ?case
  proof (cases "avail ! i")
    case True
    then have "(LEAST j. ?P i j) = i" using i by (intro Least_equality) auto
    then show ?thesis using True i assms(1) by (auto simp: lowestInstance.simps [of _ i])
  next
    case False
    then have "?P i j \<longleftrightarrow> ?P (Suc i) j" for j using i by (auto simp: le_less Suc_le_eq)
    then show ?thesis
      using Suc(1) [of "Suc i"] Suc(2) i False assms(1) by (auto simp: lowestInstance.simps [of _ i])
  qed
qed

lemma usedInstances_node:
  assumes "treeOk t" "sub t (uint (addrSubsystem a)) = Some subs" "i < length (subsNodes subs)"
    "nodeId (subsNodes subs ! i) = addrNode a"
  shows "k \<in> usedInstances t a \<longleftrightarrow>
    (\<exists>c \<in> set (nodeComponents (subsNodes subs ! i)). addrComponent (cmptAddress c) = addrComponent a \<and> addrInstance (cmptAddress c) = k)"
proof -
  let ?a = "a\<lparr>addrInstance := k\<rparr>" and ?n = "subsNodes subs ! i"
  have n: "okNode (uint (addrSubsystem ?a)) ?n"
    using okSubsD [OF treeOkD [OF assms(1,2)], of ?n] assms(3) by simp
  have "k \<in> usedInstances t a \<longleftrightarrow> ?a \<in> addresses ?n"
    using cmptKeys_node [OF assms(1), of ?a subs i] assms(2-4) by (simp add: usedInstances_def)
  also have "\<dots> \<longleftrightarrow> (\<exists>c \<in> set (nodeComponents ?n). cmptAddress c = ?a)" by (auto simp: eq_commute)
  also have "\<dots> \<longleftrightarrow> (\<exists>c \<in> set (nodeComponents ?n). addrComponent (cmptAddress c) = addrComponent a \<and> addrInstance (cmptAddress c) = k)"
    using okNode_address [OF n _ refl, of _ ] assms(4) by fastforce
  finally show ?thesis .
qed

lemma u8_nat: "x < 256 \<Longrightarrow> unat (of_nat x :: u8) = x"
  by (rule unat_of_nat_lt) simp

lemma getNextInstanceId_eq:
  assumes "treeOk t" "addrSubsystem a \<noteq> 255" "nodeKey a \<in> nodeKeys t"
  shows "getNextInstanceId t a =
    (if (\<forall>i \<in> usedInstances t a. i < 254) \<and> (\<exists>j. 1 \<le> j \<and> j < 254 \<and> of_nat j \<notin> usedInstances t a)
     then Some (of_nat (LEAST j. 1 \<le> j \<and> j < 254 \<and> of_nat j \<notin> usedInstances t a)) else None)"
  using assms(1,2)
proof (cases rule: findNode_node)
  case unknown
  then show ?thesis using assms(3) by simp
next
  case (found i subs)
  let ?n = "subsNodes subs ! i" and ?c = "addrComponent a"
  note used = usedInstances_node [OF assms(1) found(2-4)]
  have lt: "(\<forall>x \<in> set (nodeComponents ?n). addrComponent (cmptAddress x) = ?c \<longrightarrow> unat (addrInstance (cmptAddress x)) < 254)
      \<longleftrightarrow> (\<forall>i \<in> usedInstances t a. i < 254)"
    using used by (auto simp: word_less_nat_alt)
  have free: "(\<forall>x \<in> set (nodeComponents ?n). addrComponent (cmptAddress x) = ?c \<longrightarrow> unat (addrInstance (cmptAddress x)) \<noteq> j)
      \<longleftrightarrow> of_nat j \<notin> usedInstances t a" if "j < 254" for j
  proof -
    have "unat x = j \<longleftrightarrow> x = of_nat j" for x :: u8 using u8_nat [of j] that by auto
    then show ?thesis using used by auto
  qed
  let ?avail = "map (\<lambda>i. replicate 254 True ! i \<and> (\<forall>x \<in> set (nodeComponents ?n). addrComponent (cmptAddress x) = ?c \<longrightarrow>
      unat (addrInstance (cmptAddress x)) \<noteq> i)) [0..<254]"
  have av: "?avail ! j \<longleftrightarrow> of_nat j \<notin> usedInstances t a" if "j < 254" for j
    using free [OF that] that by simp
  have eq: "(\<lambda>j. 1 \<le> j \<and> j < 254 \<and> ?avail ! j) = (\<lambda>j. 1 \<le> j \<and> j < 254 \<and> of_nat j \<notin> usedInstances t a)"
    by (rule ext) (use av in blast)
  have "length ?avail = 254" "(1 :: nat) \<le> 254" by simp_all
  note low = lowestInstance_eq [OF this, unfolded eq]
  have mark: "markInstances ?c (nodeComponents ?n) (replicate 254 True) =
      (if \<forall>i \<in> usedInstances t a. i < 254 then Some ?avail else None)"
    unfolding markInstances_eq length_replicate lt ..
  have "findNode t (uint (addrSubsystem a)) (uint (addrNode a)) = Some (Some i)"
    using found(1) by (simp add: findNodeAddress_def)
  then show ?thesis
    using low unfolding getNextInstanceId_def nodeAt_sub [OF found(2)]
    by (auto simp: nodeAt_sub [OF found(2)] mark)
qed

lemma nextInstance_free:
  assumes "treeOk t" "addrSubsystem a \<noteq> 255" "nodeKey a \<in> nodeKeys t" "getNextInstanceId t a = Some i"
  shows "1 \<le> i \<and> i < 254 \<and> i \<notin> usedInstances t a \<and> (\<forall>j. 1 \<le> j \<and> j < i \<longrightarrow> j \<in> usedInstances t a)"
proof -
  let ?free = "\<lambda>j. 1 \<le> j \<and> j < 254 \<and> of_nat j \<notin> usedInstances t a"
  let ?k = "LEAST j. ?free j"
  have ex: "\<exists>j. ?free j" and i: "i = of_nat ?k"
    using assms(4) unfolding getNextInstanceId_eq [OF assms(1-3)] by (auto split: if_splits)
  have k: "?free ?k" by (rule LeastI_ex [OF ex])
  then have "unat i = ?k" using i by (simp add: unat_of_nat_lt)
  moreover have "j \<in> usedInstances t a" if "1 \<le> j" "unat j < ?k" for j
    using not_less_Least [OF that(2)] that k by (auto simp: word_le_nat_alt)
  ultimately show ?thesis using k i by (auto simp: word_le_nat_alt word_less_nat_alt)
qed

section \<open>Timeouts\<close>

text \<open>
  The pass over the components of this node keeps exactly those that are not timed out, in their order, and raises
  one event for each of the others.
\<close>

lemma filter_okNode: "okNode s n \<Longrightarrow> okNode s (n\<lparr>nodeComponents := filter P (nodeComponents n)\<rparr>)"
  by (auto simp: okNode_def clonableNode_def distinct_map_filter)

lemma refreshComponents_law:
  assumes "treeOk t" "sub t s = Some subs" "i < length (subsNodes subs)" "subsNodes subs ! i = n"
    "nodeComponents n = pre @ cs" "keeps W hs" "W w"
  shows "\<exists>w'. refreshComponents hs now s i pre cs t w =
      Some (updNode t s i (\<lambda>n. n\<lparr>nodeComponents := pre @ filter (\<lambda>c. \<not> jausComponentIsTimedOut now c) cs\<rparr>), w') \<and> W w'"
  using assms
proof (induction cs arbitrary: t subs n pre w)
  case Nil
  have "updNode t s i (\<lambda>n. n\<lparr>nodeComponents := pre\<rparr>) = t"
  proof -
    have "n\<lparr>nodeComponents := pre\<rparr> = n" using Nil.prems(5) by simp
    then have "(subsNodes subs)[i := (subsNodes subs ! i)\<lparr>nodeComponents := pre\<rparr>] = subsNodes subs"
      using Nil.prems(4) list_update_id [of "subsNodes subs" i] by simp
    then have "subs\<lparr>subsNodes := (subsNodes subs)[i := (subsNodes subs ! i)\<lparr>nodeComponents := pre\<rparr>]\<rparr> = subs" by simp
    moreover have "(system t)[nat s := Some subs] = system t"
      using Nil.prems(2) by (auto simp: sub_def list_update_same_conv split: if_splits)
    ultimately show ?thesis by (simp add: updNode_def updSubs_def subsAt_sub [OF Nil.prems(2)])
  qed
  then show ?case using Nil.prems by simp
next
  case (Cons c cs)
  note ok = Cons.prems(1) and subs = Cons.prems(2) and i = Cons.prems(3) and n = Cons.prems(4,5)
  show ?case
  proof (cases "jausComponentIsTimedOut now c")
    case False
    then show ?thesis using Cons.IH [OF ok subs i n(1), of "pre @ [c]"] Cons.prems by simp
  next
    case True
    let ?f = "\<lambda>n. n\<lparr>nodeComponents := pre @ cs\<rparr>"
    let ?t = "updNode t s i ?f" and ?subs = "subs\<lparr>subsNodes := (subsNodes subs)[i := ?f n]\<rparr>"
    have okn: "okNode s n" using okSubsD [OF treeOkD [OF ok subs], of n] i n by (metis nth_mem)
    then have "okNode s (?f n)" using n(2) by (auto simp: okNode_def clonableNode_def)
    then have ok': "treeOk ?t" using treeOk_updNode [OF ok subs i, of ?f] n(1) by simp
    have subs': "sub ?t s = Some ?subs" using subs n(1) by (simp add: sub_updNode)
    have "clonable c" using okn n(2) by (simp add: okNode_def clonableNode_def)
    then obtain w1 where w1: "raiseEvent hs now (ComponentTimeout c) ?t w = Some w1" "W w1"
      using raiseEvent_keeps [OF Cons.prems(6) _ ok' Cons.prems(7), of "ComponentTimeout c" now] by auto
    obtain w' where w': "refreshComponents hs now s i pre cs ?t w1 =
        Some (updNode ?t s i (\<lambda>n. n\<lparr>nodeComponents := pre @ filter (\<lambda>c. \<not> jausComponentIsTimedOut now c) cs\<rparr>), w')" "W w'"
      using Cons.IH [OF ok' subs', of "?f n" pre w1] i w1(2) Cons.prems(6) by auto
    have "updNode ?t s i (\<lambda>n. n\<lparr>nodeComponents := x\<rparr>) = updNode t s i (\<lambda>n. n\<lparr>nodeComponents := x\<rparr>)" for x
      using i n(1) subsAt_sub [OF subs] subsAt_sub [OF subs'] by (simp add: updNode_def updSubs_def)
    then show ?thesis using True w1 w' by simp
  qed
qed

text \<open>
  A subsystem other than this one is kept or dropped as a whole.
\<close>

lemma refreshSubsystem_other:
  assumes "treeOk t" "0 \<le> i" "i < 255" "i \<noteq> treeSubsystemId t" "keeps W hs" "W w"
  shows "\<exists>t' w'. refreshSubsystem hs now i t w = Some (t', w') \<and> treeOk t' \<and> W w' \<and>
    sub t' = (case sub t i of None \<Rightarrow> sub t
              | Some subs \<Rightarrow> if jausSubsystemIsTimedOut now subs then (sub t)(i := None) else sub t) \<and>
    treeSubsystemId t' = treeSubsystemId t \<and> treeNodeId t' = treeNodeId t"
proof (cases "sub t i")
  case None
  then show ?thesis using assms by (simp add: refreshSubsystem_def systemAt_sub treeOk_length)
next
  case (Some subs)
  note so = treeOkD [OF assms(1) Some]
  have id: "subsId subs = i" using so by (simp add: okSubs_def)
  show ?thesis
  proof (cases "jausSubsystemIsTimedOut now subs")
    case False
    then show ?thesis using assms Some id by (simp add: refreshSubsystem_def systemAt_sub treeOk_length)
  next
    case True
    from removeSubsystem_law [OF assms(1,2,3,5,6), of now] obtain t' w1 where
      r: "removeSubsystem hs now t w i = Some (i \<in> subsKeys t, t', w1)" "treeOk t'" "W w1" "sub t' = (sub t)(i := None)"
        "treeSubsystemId t' = treeSubsystemId t" "treeNodeId t' = treeNodeId t" by blast
    have e: "cloneEvent now (SubsystemTimeout subs) = Some (SubsystemTimeout (stampSubs now subs))"
      using okSubs_clonable [OF so] by (simp add: clone_subs)
    obtain w' where "notifyAll hs now (SubsystemTimeout (stampSubs now subs)) t' w1 = Some w'" "W w'"
      using notifyAll_keeps [OF assms(5) _ r(2,3), of "SubsystemTimeout (stampSubs now subs)" now] okSubs_clonable [OF so] by auto
    then show ?thesis
      using assms Some id True e r by (simp add: refreshSubsystem_def systemAt_sub treeOk_length)
  qed
qed

end
