(* ===== verification/TreeQueries.thy ===== *)
theory TreeQueries
  imports RegistryLaws
begin

text \<open>
  The pass that forgets what timed out (\<open>SystemTree::refresh\<close>), the search for addresses and for services, and the
  properties of the system tree.
\<close>

section \<open>The nodes of this subsystem\<close>

lemma okSubs_drop: "okSubs s subs \<Longrightarrow> okSubs s (subs\<lparr>subsNodes := dropNth j (subsNodes subs)\<rparr>)"
  using dropNth_subset [of j "subsNodes subs"] distinct_dropNth [of nodeId "subsNodes subs" j]
  by (auto simp: okSubs_def)

lemma removeNode_nth:
  assumes "treeOk t" "sub t s = Some subs" "j < length (subsNodes subs)" "keeps W hs" "W w"
  defines "t' \<equiv> updSubs t s (\<lambda>subs. subs\<lparr>subsNodes := dropNth j (subsNodes subs)\<rparr>)"
  shows "\<exists>w'. removeNode hs now t w s (uint (nodeId (subsNodes subs ! j))) = Some (True, t', w') \<and> treeOk t' \<and> W w'"
proof -
  let ?n = "subsNodes subs ! j"
  note so = treeOkD [OF assms(1,2)]
  have d: "distinct (map nodeId (subsNodes subs))" using so by (simp add: okSubs_def)
  obtain i where i: "firstIdx (\<lambda>x. nodeId x = nodeId ?n) (subsNodes subs) = Some i"
    using firstIdx_None [of "\<lambda>x. nodeId x = nodeId ?n" "subsNodes subs"] assms(3)
    by (cases "firstIdx (\<lambda>x. nodeId x = nodeId ?n) (subsNodes subs)") auto
  have "i = j" using firstIdx_Some [OF i] nth_eq_iff_index_eq [OF d, of i j] assms(3) by simp
  then have f: "findNode t s (uint (nodeId ?n)) = Some (Some j)"
    using i assms(1,2) sub_range [OF assms(2)] by (simp add: findNode_def systemAt_sub)
  have ok': "treeOk t'" unfolding t'_def by (rule treeOk_upd [OF assms(1,2)]) (rule okSubs_drop [OF so])
  have "clonableNode ?n" using okSubsD [OF so, of ?n] assms(3) by (simp add: okNode_def)
  then obtain w' where "raiseEvent hs now (NodeRemoved ?n) t' w = Some w'" "W w'"
    using raiseEvent_keeps [OF assms(4) _ ok' assms(5), of "NodeRemoved ?n" now] by auto
  then show ?thesis using f ok' by (simp add: removeNode_def nodeAt_sub [OF assms(2)] t'_def)
qed

text \<open>
  What one pass makes of the list of nodes: this node loses its components that timed out; of the others, one that
  timed out is dropped and the node behind it is not looked at.
\<close>

definition freshComponents :: "int \<Rightarrow> JausNode \<Rightarrow> JausNode" where
  "freshComponents now n = n\<lparr>nodeComponents := filter (\<lambda>c. \<not> jausComponentIsTimedOut now c) (nodeComponents n)\<rparr>"

fun sweepNodes :: "int \<Rightarrow> int \<Rightarrow> JausNode list \<Rightarrow> JausNode list" where
  "sweepNodes own now [] = []"
| "sweepNodes own now [n] =
     (if uint (nodeId n) = own then [freshComponents now n] else if jausNodeIsTimedOut now n then [] else [n])"
| "sweepNodes own now (n # m # ns) =
     (if uint (nodeId n) = own then freshComponents now n # sweepNodes own now (m # ns)
      else if jausNodeIsTimedOut now n then m # sweepNodes own now ns
      else n # sweepNodes own now (m # ns))"

lemma sweepNodes_Cons:
  "sweepNodes own now (n # ns) =
     (if uint (nodeId n) = own then freshComponents now n # sweepNodes own now ns
      else if jausNodeIsTimedOut now n then (case ns of [] \<Rightarrow> [] | m # ns' \<Rightarrow> m # sweepNodes own now ns')
      else n # sweepNodes own now ns)"
  by (cases ns) simp_all

lemma sweepNodes_parent: "\<forall>n \<in> set ns. nodeParent n = p \<Longrightarrow> \<forall>n \<in> set (sweepNodes own now ns). nodeParent n = p"
  by (induction own now ns rule: sweepNodes.induct) (simp_all add: freshComponents_def)

lemma dropNth_append: "dropNth (length xs) (xs @ y # ys) = xs @ ys"
  by (simp add: dropNth_def)

lemma refreshNodes_law:
  assumes "treeOk t" "sub t s = Some subs" "subsNodes subs = pre @ ns" "length ns \<le> rounds"
    "\<forall>n \<in> set ns. nodeParent n = Some s" "keeps W hs" "W w"
  shows "\<exists>t' w'. refreshNodes rounds hs now s (length pre) t w = Some (t', w') \<and> treeOk t' \<and> W w' \<and>
    sub t' = (sub t)(s \<mapsto> subs\<lparr>subsNodes := pre @ sweepNodes (treeNodeId t) now ns\<rparr>) \<and>
    treeSubsystemId t' = treeSubsystemId t \<and> treeNodeId t' = treeNodeId t"
  using assms
proof (induction rounds arbitrary: t subs pre ns w)
  case 0
  then have "sub t = (sub t)(s \<mapsto> subs\<lparr>subsNodes := pre\<rparr>)" by (auto simp: fun_eq_iff)
  then show ?case using 0 by simp
next
  case (Suc rounds)
  note ok = Suc.prems(1) and subs = Suc.prems(2) and nodes = Suc.prems(3) and hs = Suc.prems(6)
  have at: "subsAt t s = subs" by (rule subsAt_sub [OF subs])
  show ?case
  proof (cases ns)
    case Nil
    then have "sub t = (sub t)(s \<mapsto> subs\<lparr>subsNodes := pre\<rparr>)" using subs nodes by (auto simp: fun_eq_iff)
    then show ?thesis using Suc.prems Nil at by simp
  next
    case (Cons n rest)
    have i: "length pre < length (subsNodes subs)" "subsNodes subs ! length pre = n" using nodes Cons by simp_all
    have rest: "length rest \<le> rounds" "\<forall>n \<in> set rest. nodeParent n = Some s" "nodeParent n = Some s"
      using Suc.prems(4,5) Cons by auto
    consider (own) "uint (nodeId n) = treeNodeId t"
      | (gone) "uint (nodeId n) \<noteq> treeNodeId t" "jausNodeIsTimedOut now n"
      | (kept) "uint (nodeId n) \<noteq> treeNodeId t" "\<not> jausNodeIsTimedOut now n" by blast
    then show ?thesis
    proof cases
      case own
      let ?f = "\<lambda>n. n\<lparr>nodeComponents := filter (\<lambda>c. \<not> jausComponentIsTimedOut now c) (nodeComponents n)\<rparr>"
      let ?t = "updNode t s (length pre) (\<lambda>n'. n'\<lparr>nodeComponents := [] @ filter (\<lambda>c. \<not> jausComponentIsTimedOut now c) (nodeComponents n)\<rparr>)"
      let ?subs = "subs\<lparr>subsNodes := pre @ freshComponents now n # rest\<rparr>"
      obtain w1 where w1: "refreshComponents hs now s (length pre) [] (nodeComponents n) t w = Some (?t, w1)" "W w1"
        using refreshComponents_law [OF ok subs i, of "[]" "nodeComponents n" W hs w now] hs Suc.prems(7) by auto
      have subs': "sub ?t = (sub t)(s \<mapsto> ?subs)"
        using sub_updNode [OF subs] i nodes Cons by (simp add: freshComponents_def)
      have "okNode s (subsNodes subs ! length pre)" using okSubsD [OF treeOkD [OF ok subs]] i(1) by simp
      then have ok': "treeOk ?t" using treeOk_updNode [OF ok subs i(1)] filter_okNode [of s n] i(2) by simp
      have len: "length (pre @ [freshComponents now n]) = Suc (length pre)" by simp
      have id: "treeNodeId ?t = treeNodeId t" "treeSubsystemId ?t = treeSubsystemId t" by simp_all
      from Suc.IH [OF ok', of ?subs "pre @ [freshComponents now n]" rest w1, unfolded len subs' fun_upd_upd] rest hs w1(2)
      obtain t' w' where "refreshNodes rounds hs now s (Suc (length pre)) ?t w1 = Some (t', w')" "treeOk t'" "W w'"
        "sub t' = (sub t)(s \<mapsto> subs\<lparr>subsNodes := pre @ freshComponents now n # sweepNodes (treeNodeId t) now rest\<rparr>)"
        "treeSubsystemId t' = treeSubsystemId t" "treeNodeId t' = treeNodeId t" by (auto simp: fun_upd_def)
      then show ?thesis using own w1 at i Cons by (simp add: nodeAt_def sweepNodes_Cons fun_upd_def)
    next
      case gone
      let ?t = "updSubs t s (\<lambda>subs. subs\<lparr>subsNodes := dropNth (length pre) (subsNodes subs)\<rparr>)"
      let ?subs = "subs\<lparr>subsNodes := pre @ rest\<rparr>" and ?e = "NodeTimeout (stampNode now n)"
      obtain w1 where w1: "removeNode hs now t w s (uint (nodeId n)) = Some (True, ?t, w1)" "treeOk ?t" "W w1"
        using removeNode_nth [OF ok subs i(1) hs Suc.prems(7), of now] i(2) by auto
      have subs': "sub ?t = (sub t)(s \<mapsto> ?subs)"
        using sub_updSubs [OF subs, of "\<lambda>subs. subs\<lparr>subsNodes := dropNth (length pre) (subsNodes subs)\<rparr>"] nodes Cons dropNth_append [of pre n rest] by simp
      have cl: "clonableNode n" using okSubsD [OF treeOkD [OF ok subs], of n] i nodes Cons by (simp add: okNode_def)
      obtain w2 where w2: "notifyAll hs now ?e ?t w1 = Some w2" "W w2"
        using notifyAll_keeps [OF hs _ w1(2,3), of ?e now] cl by auto
      have step: "refreshNodes (Suc rounds) hs now s (length pre) t w = refreshNodes rounds hs now s (Suc (length pre)) ?t w2"
        using gone at i rest(3) w1(1) w2(1) cl by (simp add: nodeAt_def clone_node)
      show ?thesis
      proof (cases rest)
        case Nil
        then have "refreshNodes rounds hs now s (Suc (length pre)) ?t w2 = Some (?t, w2)"
          using subs' by (cases rounds) (simp_all add: subsAt_sub [of _ s ?subs])
        then show ?thesis
          unfolding step using w1(2) w2(2) subs' Nil gone Cons by (simp add: fun_upd_def)
      next
        case (Cons m rest')
        have len: "length (pre @ [m]) = Suc (length pre)" by simp
        from Suc.IH [OF w1(2), of ?subs "pre @ [m]" rest' w2, unfolded len subs' fun_upd_upd] rest hs w2(2) Cons
        obtain t' w' where "refreshNodes rounds hs now s (Suc (length pre)) ?t w2 = Some (t', w')" "treeOk t'" "W w'"
          "sub t' = (sub t)(s \<mapsto> subs\<lparr>subsNodes := pre @ m # sweepNodes (treeNodeId t) now rest'\<rparr>)"
          "treeSubsystemId t' = treeSubsystemId t" "treeNodeId t' = treeNodeId t" by (auto simp: fun_upd_def)
        then show ?thesis unfolding step using gone Cons \<open>ns = n # rest\<close> by (simp add: fun_upd_def)
      qed
    next
      case kept
      have len: "length (pre @ [n]) = Suc (length pre)" by simp
      from Suc.IH [OF ok subs, of "pre @ [n]" rest w, unfolded len] rest hs Suc.prems(7) nodes Cons
      obtain t' w' where "refreshNodes rounds hs now s (Suc (length pre)) t w = Some (t', w')" "treeOk t'" "W w'"
        "sub t' = (sub t)(s \<mapsto> subs\<lparr>subsNodes := pre @ n # sweepNodes (treeNodeId t) now rest\<rparr>)"
        "treeSubsystemId t' = treeSubsystemId t" "treeNodeId t' = treeNodeId t" by (auto simp: fun_upd_def)
      then show ?thesis using kept at i Cons by (simp add: nodeAt_def sweepNodes_Cons fun_upd_def)
    qed
  qed
qed

section \<open>One pass\<close>

definition sweep :: "int \<Rightarrow> int \<Rightarrow> int \<Rightarrow> JausSubsystem option \<Rightarrow> JausSubsystem option" where
  "sweep ownSubs ownNode now entry =
     (case entry of
        None \<Rightarrow> None
      | Some subs \<Rightarrow>
          if subsId subs = ownSubs then Some (subs\<lparr>subsNodes := sweepNodes ownNode now (subsNodes subs)\<rparr>)
          else if jausSubsystemIsTimedOut now subs then None else Some subs)"

definition parentsOk :: "SystemTree \<Rightarrow> bool" where
  "parentsOk t \<longleftrightarrow> (\<forall>subs. sub t (treeSubsystemId t) = Some subs \<longrightarrow>
     (\<forall>n \<in> set (subsNodes subs). nodeParent n = Some (treeSubsystemId t)))"

lemma refreshSubsystem_law:
  assumes "treeOk t" "0 \<le> i" "i < 255" "parentsOk t" "keeps W hs" "W w"
  shows "\<exists>t' w'. refreshSubsystem hs now i t w = Some (t', w') \<and> treeOk t' \<and> W w' \<and>
    sub t' = (sub t)(i := sweep (treeSubsystemId t) (treeNodeId t) now (sub t i)) \<and>
    treeSubsystemId t' = treeSubsystemId t \<and> treeNodeId t' = treeNodeId t"
proof (cases "i = treeSubsystemId t")
  case False
  have "(case sub t i of None \<Rightarrow> sub t | Some subs \<Rightarrow> if jausSubsystemIsTimedOut now subs then (sub t)(i := None) else sub t) =
      (sub t)(i := sweep (treeSubsystemId t) (treeNodeId t) now (sub t i))"
    using False treeOkD [OF assms(1), of i] by (auto simp: sweep_def okSubs_def fun_eq_iff split: option.split)
  then show ?thesis using refreshSubsystem_other [OF assms(1-3) False assms(5,6), of now] by simp
next
  case True
  show ?thesis
  proof (cases "sub t i")
    case None
    then show ?thesis
      using assms by (simp add: refreshSubsystem_def systemAt_sub treeOk_length sweep_def fun_upd_idem)
  next
    case (Some subs)
    have "subsId subs = i" using treeOkD [OF assms(1) Some] by (simp add: okSubs_def)
    then show ?thesis
      using refreshNodes_law [OF assms(1) Some, of "[]" "subsNodes subs" _ W hs w now] assms Some True
      by (auto simp: refreshSubsystem_def systemAt_sub treeOk_length sweep_def parentsOk_def)
  qed
qed

text \<open>
  Whatever the nodes say of their parents: when a pass returns, the tree is well formed and the handlers have kept what
  they keep. Only the parent of a node that timed out is looked at, and a node without one is a null pointer.
\<close>

lemma refreshNodes_returned:
  assumes "refreshNodes rounds hs now s j t w = Some (t', w')" "treeOk t" "s \<in> subsKeys t" "keeps W hs" "W w"
  shows "treeOk t' \<and> W w'"
  using assms
proof (induction rounds arbitrary: j t w)
  case 0
  then show ?case by simp
next
  case (Suc rounds)
  note ok = Suc.prems(2) and hs = Suc.prems(4)
  obtain subs where subs: "sub t s = Some subs" using Suc.prems(3) by (auto simp: subsKeys_def)
  have at: "subsAt t s = subs" by (rule subsAt_sub [OF subs])
  show ?case
  proof (cases "j < length (subsNodes subs)")
    case False
    then show ?thesis using Suc.prems at by simp
  next
    case True
    define n where "n = subsNodes subs ! j"
    have node: "nodeAt t s j = n" by (simp add: nodeAt_def at n_def)
    have okn: "okNode s n" using okSubsD [OF treeOkD [OF ok subs]] True by (simp add: n_def)
    consider (own) "uint (nodeId n) = treeNodeId t"
      | (gone) "uint (nodeId n) \<noteq> treeNodeId t" "jausNodeIsTimedOut now n"
      | (kept) "uint (nodeId n) \<noteq> treeNodeId t" "\<not> jausNodeIsTimedOut now n" by blast
    then show ?thesis
    proof cases
      case own
      let ?t = "updNode t s j (\<lambda>n'. n'\<lparr>nodeComponents := [] @ filter (\<lambda>c. \<not> jausComponentIsTimedOut now c) (nodeComponents n)\<rparr>)"
      obtain w1 where w1: "refreshComponents hs now s j [] (nodeComponents n) t w = Some (?t, w1)" "W w1"
        using refreshComponents_law [OF ok subs True, of n "[]" "nodeComponents n" W hs w now] hs Suc.prems(5) by (auto simp: n_def)
      have "treeOk ?t" using treeOk_updNode [OF ok subs True] filter_okNode [of s n] okn by (simp add: n_def)
      moreover have "s \<in> subsKeys ?t" using sub_updNode [OF subs] by (simp add: subsKeys_def dom_def)
      ultimately show ?thesis using Suc.IH [of "Suc j" ?t w1] Suc.prems(1) True at node own w1 hs by (simp add: Let_def)
    next
      case gone
      have cl: "clonableNode n" using okn by (simp add: okNode_def)
      obtain p b t1 w1 w2 where r: "nodeParent n = Some p" "removeNode hs now t w p (uint (nodeId n)) = Some (b, t1, w1)"
        "notifyAll hs now (NodeTimeout (stampNode now n)) t1 w1 = Some w2" "refreshNodes rounds hs now s (Suc j) t1 w2 = Some (t', w')"
        using Suc.prems(1) True at node gone cl by (auto simp: Let_def bind_eq_Some_conv clone_node)
      have "0 \<le> p \<and> p < 255"
        using r(2) treeOk_length [OF ok] by (auto simp: removeNode_def findNode_def systemAt_def split: if_splits)
      then have t1: "treeOk t1" "W w1" "subsKeys t1 = subsKeys t"
        using removeNode_law [OF ok _ _ hs Suc.prems(5), of p now "nodeId n"] r(2) by (auto simp: known_def)
      have "W w2" using notifyAll_keeps [OF hs _ t1(1,2), of "NodeTimeout (stampNode now n)" now] cl r(3) by auto
      then show ?thesis using Suc.IH [OF r(4) t1(1) _ hs] t1(3) Suc.prems(3) by simp
    next
      case kept
      then show ?thesis using Suc.IH [of "Suc j" t w] Suc.prems True at node by (simp add: Let_def)
    qed
  qed
qed

lemma refreshAll_returned:
  assumes "refreshAll hs now is t w = Some (t', w')" "treeOk t" "\<forall>i \<in> set is. 0 \<le> i \<and> i < 255" "keeps W hs" "W w"
  shows "treeOk t' \<and> W w'"
  using assms
proof (induction "is" arbitrary: t w)
  case Nil
  then show ?case by simp
next
  case (Cons i "is")
  have range: "0 \<le> i" "i < 255" and ok: "treeOk t" and hs: "keeps W hs" using Cons.prems by simp_all
  obtain t1 w1 where r: "refreshSubsystem hs now i t w = Some (t1, w1)" "refreshAll hs now is t1 w1 = Some (t', w')"
    using Cons.prems(1) by (auto simp: bind_eq_Some_conv)
  have "treeOk t1 \<and> W w1"
  proof (cases "i = treeSubsystemId t \<and> sub t i \<noteq> None")
    case True
    then obtain subs where subs: "sub t i = Some subs" by blast
    have "subsId subs = i" using treeOkD [OF ok subs] by (simp add: okSubs_def)
    then have "refreshNodes (length (subsNodes subs)) hs now i 0 t w = Some (t1, w1)"
      using r(1) subs True range treeOk_length [OF ok] by (simp add: refreshSubsystem_def systemAt_sub)
    from refreshNodes_returned [OF this ok _ hs Cons.prems(5)] subs show ?thesis by (simp add: subsKeys_def dom_def)
  next
    case False
    show ?thesis
    proof (cases "sub t i")
      case None
      then show ?thesis using r(1) range treeOk_length [OF ok] ok Cons.prems(5) by (simp add: refreshSubsystem_def systemAt_sub)
    next
      case (Some subs)
      then show ?thesis using False refreshSubsystem_other [OF ok range _ hs Cons.prems(5), of now] r(1) by auto
    qed
  qed
  then show ?case using Cons.IH [OF r(2)] Cons.prems by simp
qed

lemma refreshAll_law:
  assumes "treeOk t" "\<forall>i \<in> set is. 0 \<le> i \<and> i < 255" "distinct is" "parentsOk t" "keeps W hs" "W w"
  shows "\<exists>t' w'. refreshAll hs now is t w = Some (t', w') \<and> treeOk t' \<and> W w' \<and>
    sub t' = (\<lambda>i. if i \<in> set is then sweep (treeSubsystemId t) (treeNodeId t) now (sub t i) else sub t i) \<and>
    treeSubsystemId t' = treeSubsystemId t \<and> treeNodeId t' = treeNodeId t"
  using assms
proof (induction "is" arbitrary: t w)
  case Nil
  then show ?case by simp
next
  case (Cons i "is")
  from refreshSubsystem_law [OF Cons.prems(1) _ _ Cons.prems(4,5,6), of i now] Cons.prems(2)
  obtain t1 w1 where t1: "refreshSubsystem hs now i t w = Some (t1, w1)" "treeOk t1" "W w1"
    "sub t1 = (sub t)(i := sweep (treeSubsystemId t) (treeNodeId t) now (sub t i))"
    "treeSubsystemId t1 = treeSubsystemId t" "treeNodeId t1 = treeNodeId t" by auto
  have i: "i \<notin> set is" using Cons.prems(3) by simp
  have "parentsOk t1"
  proof (cases "i = treeSubsystemId t")
    case True
    show ?thesis
    proof (cases "sub t i")
      case None
      then show ?thesis using True t1(4,5) by (simp add: parentsOk_def sweep_def)
    next
      case (Some subs)
      then have "\<forall>n \<in> set (subsNodes subs). nodeParent n = Some i" using Cons.prems(4) True by (simp add: parentsOk_def)
      moreover have "subsId subs = i" using treeOkD [OF Cons.prems(1) Some] by (simp add: okSubs_def)
      ultimately show ?thesis using Some True t1(4,5) sweepNodes_parent by (simp add: parentsOk_def sweep_def)
    qed
  next
    case False
    then show ?thesis using Cons.prems(4) t1(4,5) by (simp add: parentsOk_def)
  qed
  from Cons.IH [OF t1(2) _ _ this Cons.prems(5) t1(3), unfolded t1(5,6)] Cons.prems(2,3)
  obtain t' w' where "refreshAll hs now is t1 w1 = Some (t', w')" "treeOk t'" "W w'"
    "sub t' = (\<lambda>i. if i \<in> set is then sweep (treeSubsystemId t) (treeNodeId t) now (sub t1 i) else sub t1 i)"
    "treeSubsystemId t' = treeSubsystemId t" "treeNodeId t' = treeNodeId t" by auto
  moreover from this(4) have
    "sub t' = (\<lambda>j. if j \<in> set (i # is) then sweep (treeSubsystemId t) (treeNodeId t) now (sub t j) else sub t j)"
    using i t1(4) by (auto simp: fun_eq_iff)
  ultimately show ?case using t1(1) by simp
qed

section \<open>Looking up addresses\<close>

text \<open>A number of a pattern fits every number when it is the wildcard or the broadcast.\<close>

definition fits :: "int \<Rightarrow> u8 \<Rightarrow> bool" where
  "fits pat x \<longleftrightarrow> pat \<in> {0, 255} \<or> uint x = pat"

abbreviation (input) wild :: "int \<Rightarrow> u8 \<Rightarrow> bool" where
  "wild pat x \<equiv> pat = 0 \<or> uint x = pat"

definition cmptFits :: "int \<Rightarrow> int \<Rightarrow> JausAddress \<Rightarrow> bool" where
  "cmptFits c i a \<longleftrightarrow> wild c (addrComponent a) \<and> wild i (addrInstance a)"

definition finds :: "'a option \<Rightarrow> 'a set \<Rightarrow> bool" where
  "finds r S \<longleftrightarrow> (case r of None \<Rightarrow> S = {} | Some a \<Rightarrow> a \<in> S)"

lemma finds_else:
  "finds r S \<Longrightarrow> finds r' S' \<Longrightarrow> finds (case r of Some a \<Rightarrow> Some a | None \<Rightarrow> r') (S \<union> S')"
  by (auto simp: finds_def split: option.splits)

lemma lookUpInComponents_finds:
  "finds (lookUpInComponents cs c i) {a \<in> cmptAddress ` set cs. cmptFits c i a}"
  by (induction cs) (auto simp: finds_def cmptFits_def jausAddressClone_def split: option.splits)

lemma lookUpInNodes_finds:
  "finds (lookUpInNodes ns c i) {a. \<exists>n \<in> set ns. a \<in> addresses n \<and> cmptFits c i a}"
proof (induction ns)
  case Nil
  then show ?case by (simp add: finds_def)
next
  case (Cons n ns)
  have "{a. \<exists>n \<in> set (n # ns). a \<in> addresses n \<and> cmptFits c i a} =
      {a \<in> addresses n. cmptFits c i a} \<union> {a. \<exists>n \<in> set ns. a \<in> addresses n \<and> cmptFits c i a}" by auto
  then show ?case
    using finds_else [OF lookUpInComponents_finds [of "nodeComponents n" c i] Cons.IH] by (simp add: lookUpAddressInNode_def)
qed

lemma lookUpAddressInSubsystem_finds:
  assumes "treeOk t" "sub t s = Some subs" "0 \<le> n" "n < 255"
  shows "\<exists>r. lookUpAddressInSubsystem t (Some subs) n c i = Some r \<and>
    finds r {a \<in> subsAddresses subs. wild n (addrNode a) \<and> cmptFits c i a}"
proof (cases "n = 0")
  case True
  have "{a \<in> subsAddresses subs. wild 0 (addrNode a) \<and> cmptFits c i a} =
      {a. \<exists>n \<in> set (subsNodes subs). a \<in> addresses n \<and> cmptFits c i a}" by (auto simp: subsAddresses_def)
  then show ?thesis using True lookUpInNodes_finds [of "subsNodes subs" c i] by (simp add: lookUpAddressInSubsystem_def)
next
  case False
  note so = treeOkD [OF assms(1,2)]
  have id: "subsId subs = s" using so by (simp add: okSubs_def)
  have at: "findNode t s n = Some (firstIdx (isNode n) (subsNodes subs))"
    using assms(1,2) sub_range [OF assms(2)] by (simp add: findNode_def systemAt_sub)
  have node: "addrNode a = nodeId x" if "x \<in> set (subsNodes subs)" "a \<in> addresses x" for a x
    using okNode_in [OF okSubsD [OF so that(1)] that(2)] by simp
  show ?thesis
  proof (cases "firstIdx (isNode n) (subsNodes subs)")
    case None
    then have none: "\<forall>x \<in> set (subsNodes subs). uint (nodeId x) \<noteq> n" by (simp add: firstIdx_None)
    have "uint (addrNode a) \<noteq> n" if "a \<in> subsAddresses subs" for a
      using that none node unfolding subsAddresses_def by (metis (no_types, lifting) UN_E)
    then have "{a \<in> subsAddresses subs. wild n (addrNode a) \<and> cmptFits c i a} = {}" using False by auto
    then show ?thesis using False None at id by (simp add: lookUpAddressInSubsystem_def lookUpAddressInNode_def finds_def)
  next
    case (Some k)
    note k = firstIdx_Some [OF Some]
    let ?x = "subsNodes subs ! k"
    have "y = ?x \<longleftrightarrow> uint (nodeId y) = n" if "y \<in> set (subsNodes subs)" for y
    proof -
      have "inj_on nodeId (set (subsNodes subs))" using so by (simp add: okSubs_def distinct_map)
      moreover have "uint (nodeId y) = n \<longleftrightarrow> nodeId y = nodeId ?x" using k by auto
      ultimately show ?thesis using that k nth_mem [of k "subsNodes subs"] by (metis inj_onD)
    qed
    then have "a \<in> subsAddresses subs \<and> uint (addrNode a) = n \<longleftrightarrow> a \<in> addresses ?x" for a
      using node [of _ a] nth_mem [OF conjunct1 [OF k]] unfolding subsAddresses_def by (metis (no_types, lifting) UN_iff)
    then have "{a \<in> subsAddresses subs. wild n (addrNode a) \<and> cmptFits c i a} = {a \<in> addresses ?x. cmptFits c i a}"
      using False by blast
    then show ?thesis
      using False Some at id lookUpInComponents_finds [of "nodeComponents ?x" c i]
      by (simp add: lookUpAddressInSubsystem_def lookUpAddressInNode_def nodeAt_sub [OF assms(2)])
  qed
qed

lemma lookUp_entry:
  assumes "treeOk t" "0 \<le> s" "s < 255" "0 \<le> n" "n < 255"
  shows "\<exists>r. do { subs \<leftarrow> systemAt t s; lookUpAddressInSubsystem t subs n c i } = Some r \<and>
    finds r {a \<in> cmptKeys t. uint (addrSubsystem a) = s \<and> wild n (addrNode a) \<and> cmptFits c i a}"
proof (cases "sub t s")
  case None
  then have "{a \<in> cmptKeys t. uint (addrSubsystem a) = s \<and> wild n (addrNode a) \<and> cmptFits c i a} = {}"
    by (auto simp: cmptKeys_sub [OF assms(1)])
  then show ?thesis using None assms by (simp add: systemAt_sub treeOk_length lookUpAddressInSubsystem_def finds_def)
next
  case (Some subs)
  have "a \<in> cmptKeys t \<and> uint (addrSubsystem a) = s \<longleftrightarrow> a \<in> subsAddresses subs" for a
    using Some okSubs_in [OF treeOkD [OF assms(1) Some], of a] cmptKeys_sub [OF assms(1), of a] by auto
  then have "{a \<in> cmptKeys t. uint (addrSubsystem a) = s \<and> wild n (addrNode a) \<and> cmptFits c i a} =
      {a \<in> subsAddresses subs. wild n (addrNode a) \<and> cmptFits c i a}" by blast
  then show ?thesis
    using Some assms lookUpAddressInSubsystem_finds [OF assms(1) Some assms(4,5), of c i]
    by (simp add: systemAt_sub treeOk_length)
qed

lemma lookUpInSystem_finds:
  assumes "treeOk t" "\<forall>s \<in> set is. 0 \<le> s \<and> s < 255" "0 \<le> n" "n < 255"
  shows "\<exists>r. lookUpInSystem t is n c i = Some r \<and>
    finds r {a \<in> cmptKeys t. uint (addrSubsystem a) \<in> set is \<and> wild n (addrNode a) \<and> cmptFits c i a}"
  using assms(2)
proof (induction "is")
  case Nil
  then show ?case by (simp add: finds_def)
next
  case (Cons s "is")
  let ?S = "\<lambda>P. {a \<in> cmptKeys t. P (uint (addrSubsystem a)) \<and> wild n (addrNode a) \<and> cmptFits c i a}"
  obtain r where r: "do { subs \<leftarrow> systemAt t s; lookUpAddressInSubsystem t subs n c i } = Some r" "finds r (?S (\<lambda>x. x = s))"
    using lookUp_entry [OF assms(1) _ _ assms(3,4), of s c i] Cons.prems by auto
  obtain r' where r': "lookUpInSystem t is n c i = Some r'" "finds r' (?S (\<lambda>x. x \<in> set is))" using Cons by auto
  have "?S (\<lambda>x. x \<in> set (s # is)) = ?S (\<lambda>x. x = s) \<union> ?S (\<lambda>x. x \<in> set is)" by auto
  moreover have "lookUpInSystem t (s # is) n c i = Some (case r of Some a \<Rightarrow> Some a | None \<Rightarrow> r')"
    using r(1) r'(1) by (auto simp: bind_eq_Some_conv split: option.split)
  ultimately show ?case using finds_else [OF r(2) r'(2)] by simp
qed

lemma wild_fits: "wild (unbroadcast p) x \<longleftrightarrow> fits p x" if "0 \<le> p" "p \<le> 255" "x \<noteq> 255 \<or> p \<noteq> 255"
  using that by (auto simp: unbroadcast_def fits_def)

lemma lookUpAddress_finds:
  assumes "treeOk t" "0 \<le> s" "s \<le> 255" "0 \<le> n" "n \<le> 255"
  shows "\<exists>r. lookUpAddress t s n c i = Some r \<and>
    finds r {a \<in> cmptKeys t. fits s (addrSubsystem a) \<and> fits n (addrNode a) \<and> fits c (addrComponent a) \<and> fits i (addrInstance a) \<and>
             (s \<in> {0, 255} \<longrightarrow> addrSubsystem a < 254)}"
proof -
  have fit: "wild (unbroadcast p) x \<longleftrightarrow> fits p x" for p x by (auto simp: unbroadcast_def fits_def)
  have n: "0 \<le> unbroadcast n" "unbroadcast n < 255" using assms by (auto simp: unbroadcast_def)
  show ?thesis
  proof (cases "s \<in> {0, 255}")
    case True
    have "a \<in> cmptKeys t \<Longrightarrow> uint (addrSubsystem a) \<in> set subsystemIds \<longleftrightarrow> addrSubsystem a < 254" for a
    proof -
      assume "a \<in> cmptKeys t"
      then obtain subs where "sub t (uint (addrSubsystem a)) = Some subs" by (auto simp: cmptKeys_sub [OF assms(1)] split: option.splits)
      then have "1 \<le> uint (addrSubsystem a)" using treeOkD [OF assms(1)] by (force simp: okSubs_def)
      then show ?thesis by (simp add: word_less_def image_int_atLeastLessThan)
    qed
    then have "{a \<in> cmptKeys t. uint (addrSubsystem a) \<in> set subsystemIds \<and> wild (unbroadcast n) (addrNode a) \<and> cmptFits (unbroadcast c) (unbroadcast i) a} =
        {a \<in> cmptKeys t. fits s (addrSubsystem a) \<and> fits n (addrNode a) \<and> fits c (addrComponent a) \<and> fits i (addrInstance a) \<and>
             (s \<in> {0, 255} \<longrightarrow> addrSubsystem a < 254)}"
      using True unfolding cmptFits_def fit by (auto simp: fits_def)
    moreover have "lookUpAddress t s n c i = lookUpInSystem t subsystemIds (unbroadcast n) (unbroadcast c) (unbroadcast i)"
      using True by (auto simp: lookUpAddress_def Let_def unbroadcast_def)
    ultimately show ?thesis
      using lookUpInSystem_finds [OF assms(1) _ n, of subsystemIds "unbroadcast c" "unbroadcast i"] by simp
  next
    case False
    then have "unbroadcast s = s" "0 \<le> s" "s < 255" "s \<noteq> 0" using assms by (auto simp: unbroadcast_def)
    moreover from this have "{a \<in> cmptKeys t. uint (addrSubsystem a) = s \<and> wild (unbroadcast n) (addrNode a) \<and> cmptFits (unbroadcast c) (unbroadcast i) a} =
        {a \<in> cmptKeys t. fits s (addrSubsystem a) \<and> fits n (addrNode a) \<and> fits c (addrComponent a) \<and> fits i (addrInstance a) \<and>
             (s \<in> {0, 255} \<longrightarrow> addrSubsystem a < 254)}"
      using False unfolding cmptFits_def fit by (auto simp: fits_def)
    ultimately show ?thesis
      using lookUp_entry [OF assms(1) _ _ n, of s "unbroadcast c" "unbroadcast i"] by (simp add: lookUpAddress_def Let_def)
  qed
qed

section \<open>Looking up services\<close>

text \<open>The addresses of the services that offer a command, in the order of the loops.\<close>

definition offering :: "int \<Rightarrow> int \<Rightarrow> JausComponent list \<Rightarrow> JausAddress list" where
  "offering code kind cs =
     concat (map (\<lambda>c. map (\<lambda>_. cmptAddress c) (filter (offersCommand code kind) (cmptServices c))) cs)"

fun found :: "JausAddress list \<Rightarrow> (JausAddress list \<times> nat option) exec" where
  "found [] = Some ([], None)"
| "found [a] = Some ([a], None)"
| "found (a # b # as) = None"

lemma found_append:
  "do { st \<leftarrow> found as; appendAddress a st } = found (as @ [a])"
  by (cases "as" rule: found.cases) (simp_all add: appendAddress_def)

lemma found_None: "found as = None \<Longrightarrow> found (as @ bs) = None"
  by (cases "as" rule: found.cases) simp_all

lemma lookUpInServices_found:
  "do { st \<leftarrow> found as; lookUpInServices code kind a ss st } =
     found (as @ map (\<lambda>_. a) (filter (offersCommand code kind) ss))"
proof (induction ss arbitrary: "as")
  case Nil
  then show ?case by simp
next
  case (Cons s ss)
  show ?case
  proof (cases "offersCommand code kind s")
    case True
    have "do { st \<leftarrow> found as; lookUpInServices code kind a (s # ss) st } =
        do { st \<leftarrow> do { st \<leftarrow> found as; appendAddress a st }; lookUpInServices code kind a ss st }"
      using True by (simp add: jausAddressClone_def)
    also have "\<dots> = found ((as @ [a]) @ map (\<lambda>_. a) (filter (offersCommand code kind) ss))"
      unfolding found_append by (rule Cons.IH)
    finally show ?thesis using True by simp
  next
    case False
    then show ?thesis using Cons.IH by simp
  qed
qed

lemma lookUpServices_found:
  "do { st \<leftarrow> found as; lookUpServices code kind cs st } = found (as @ offering code kind cs)"
proof (induction cs arbitrary: "as")
  case Nil
  then show ?case by (simp add: offering_def)
next
  case (Cons c cs)
  have "do { st \<leftarrow> found as; lookUpServices code kind (c # cs) st } =
      do { st \<leftarrow> do { st \<leftarrow> found as; lookUpInServices code kind (cmptAddress c) (cmptServices c) st };
           lookUpServices code kind cs st }"
    by simp
  also have "\<dots> = found ((as @ map (\<lambda>_. cmptAddress c) (filter (offersCommand code kind) (cmptServices c))) @ offering code kind cs)"
    unfolding lookUpInServices_found by (rule Cons.IH)
  finally show ?case by (simp add: offering_def)
qed

text \<open>
  What a service offers, with the lists of commands named: how many services offer a command in the subsystems 1 to 253,
  and the addresses of their components.
\<close>

definition offerCount :: "(JausService \<Rightarrow> JausCommand list) \<Rightarrow> SystemTree \<Rightarrow> int \<Rightarrow> nat" where
  "offerCount commands t code =
     (\<Sum>s \<in> {1..253}. case sub t s of None \<Rightarrow> 0 | Some subs \<Rightarrow>
        \<Sum>n \<leftarrow> subsNodes subs. \<Sum>c \<leftarrow> nodeComponents n.
          length (filter (\<lambda>v. code \<in> uint ` cmdCommandCode ` set (commands v)) (cmptServices c)))"

definition offerers :: "(JausService \<Rightarrow> JausCommand list) \<Rightarrow> SystemTree \<Rightarrow> int \<Rightarrow> JausAddress set" where
  "offerers commands t code =
     {a. \<exists>s subs n c v. 1 \<le> s \<and> s \<le> 253 \<and> sub t s = Some subs \<and> n \<in> set (subsNodes subs) \<and>
        c \<in> set (nodeComponents n) \<and> v \<in> set (cmptServices c) \<and> code \<in> uint ` cmdCommandCode ` set (commands v) \<and>
        a = cmptAddress c}"

lemma offersCommand_eq: "offersCommand code kind v \<longleftrightarrow>
    code \<in> uint ` cmdCommandCode ` set ((if kind = 0 then inputCommandList else outputCommandList) v)"
  by (auto simp: offersCommand_def serviceCommands_def)

text \<open>The components of one subsystem, and of all that the loop visits.\<close>

definition subsComponents :: "SystemTree \<Rightarrow> int \<Rightarrow> JausComponent list" where
  "subsComponents t s = (case sub t s of None \<Rightarrow> [] | Some subs \<Rightarrow> concat (map nodeComponents (subsNodes subs)))"

lemma loopComponents_eq:
  assumes "treeOk t"
  shows "loopComponents t = concat (map (subsComponents t) (map int [1..<254]))"
proof -
  have "sub t (int i) = system t ! i" if "i < 254" for i
    using that treeOk_length [OF assms] by (simp add: sub_def)
  then show ?thesis unfolding loopComponents_def subsComponents_def map_map
    by (intro arg_cong [where f = concat] map_cong) (auto split: option.split)
qed

lemma offering_concat: "offering code kind (concat css) = concat (map (offering code kind) css)"
  by (induction css) (simp_all add: offering_def)

lemma offering_nodes:
  "length (offering code kind (concat (map nodeComponents ns))) =
     (\<Sum>n \<leftarrow> ns. \<Sum>c \<leftarrow> nodeComponents n. length (filter (offersCommand code kind) (cmptServices c)))"
  by (induction ns) (simp_all add: offering_def length_concat comp_def)

lemma offering_count:
  assumes "treeOk t"
  shows "length (offering code kind (loopComponents t)) = offerCount (if kind = 0 then inputCommandList else outputCommandList) t code"
proof -
  let ?l = "\<lambda>s. length (offering code kind (subsComponents t s))"
  have "length (offering code kind (loopComponents t)) = sum_list (map ?l (map int [1..<254]))"
    unfolding loopComponents_eq [OF assms] offering_concat length_concat by (simp add: comp_def del: upt_Suc)
  also have "\<dots> = sum ?l (set (map int [1..<254]))"
    by (rule sum_list_distinct_conv_sum_set) (simp add: distinct_map del: upt_Suc)
  also have "set (map int [1..<254]) = {1..253}" using image_int_atLeastLessThan [of 1 254] by auto
  also have "sum ?l {1..253} = offerCount (if kind = 0 then inputCommandList else outputCommandList) t code"
    unfolding offerCount_def
  proof (rule sum.cong [OF refl])
    fix s :: int
    show "?l s = (case sub t s of None \<Rightarrow> 0 | Some subs \<Rightarrow> \<Sum>n \<leftarrow> subsNodes subs. \<Sum>c \<leftarrow> nodeComponents n.
        length (filter (\<lambda>v. code \<in> uint ` cmdCommandCode ` set ((if kind = 0 then inputCommandList else outputCommandList) v))
          (cmptServices c)))"
      unfolding offersCommand_eq [symmetric] by (simp add: subsComponents_def offering_nodes offering_def [of _ _ "[]"] split: option.split)
  qed
  finally show ?thesis .
qed

lemma offering_set:
  assumes "treeOk t"
  shows "set (offering code kind (loopComponents t)) = offerers (if kind = 0 then inputCommandList else outputCommandList) t code"
proof -
  have ids: "set (map int [1..<254]) = {1..253}" using image_int_atLeastLessThan [of 1 254] by auto
  have "set (loopComponents t) = {c. \<exists>s subs n. 1 \<le> s \<and> s \<le> 253 \<and> sub t s = Some subs \<and> n \<in> set (subsNodes subs) \<and>
      c \<in> set (nodeComponents n)}"
    unfolding loopComponents_eq [OF assms] set_concat set_map [of "subsComponents t"] ids
    by (force simp: subsComponents_def split: option.splits)
  then show ?thesis
    unfolding offerers_def offersCommand_eq [symmetric] by (auto simp: offering_def) blast
qed

lemma found_eq: "found as = (if length as \<le> 1 then Some (as, None) else None)"
  by (cases "as" rule: found.cases) simp_all

section \<open>A small tree\<close>

text \<open>
  This subsystem 1 with its node 1, on which the node manager and component 40 run, and the foreign subsystem 2; the
  component and the subsystem were last heard of at time 0.
\<close>

definition smallOwn :: JausSubsystem where
  "smallOwn = \<lparr>subsIdentification = None, subsId = 1, subsNodes =
     [\<lparr>nodeIdentification = None, nodeId = 1, nodeComponents =
         [(jausComponentCreate 10)\<lparr>cmptAddress := \<lparr>addrSubsystem = 1, addrNode = 1, addrComponent = 1, addrInstance = 1\<rparr>\<rparr>,
          (jausComponentCreate 0)\<lparr>cmptAddress := \<lparr>addrSubsystem = 1, addrNode = 1, addrComponent = 40, addrInstance = 1\<rparr>\<rparr>],
       nodeParent = Some 1, nodeTimeStampSec = 10\<rparr>], subsTimeStampSec = 10\<rparr>"

definition smallOther :: JausSubsystem where
  "smallOther = \<lparr>subsIdentification = None, subsId = 2, subsNodes = [], subsTimeStampSec = 0\<rparr>"

definition smallTree :: SystemTree where
  "smallTree = \<lparr>system = (replicate 255 None)[1 := Some smallOwn, 2 := Some smallOther], subsystemCount = 2,
     treeSubsystemId = 1, treeNodeId = 1\<rparr>"

lemma sub_small: "sub smallTree = [1 \<mapsto> smallOwn, 2 \<mapsto> smallOther]"
proof
  show "sub smallTree s = [1 \<mapsto> smallOwn, 2 \<mapsto> smallOther] s" for s
    by (cases "s = 1"; cases "s = 2") (auto simp: sub_def smallTree_def nth_list_update)
qed

lemma treeOk_small: "treeOk smallTree"
proof -
  have "okSubs 1 smallOwn"
    by (simp add: okSubs_def okNode_def clonableNode_def clonable_def smallOwn_def jausComponentCreate_def
        jausComponentUpdateTimestamp_def)
  moreover have "okSubs 2 smallOther" by (simp add: okSubs_def smallOther_def)
  ultimately show ?thesis by (auto simp: treeOk_def sub_small split: if_splits) (simp add: smallTree_def)
qed

lemma known_small:
  "cmptKeys smallTree = {\<lparr>addrSubsystem = 1, addrNode = 1, addrComponent = 1, addrInstance = 1\<rparr>,
                         \<lparr>addrSubsystem = 1, addrNode = 1, addrComponent = 40, addrInstance = 1\<rparr>}"
  "nodeKeys smallTree = {(1, 1)}" "subsKeys smallTree = {1, 2}"
proof -
  show "cmptKeys smallTree = {\<lparr>addrSubsystem = 1, addrNode = 1, addrComponent = 1, addrInstance = 1\<rparr>,
                         \<lparr>addrSubsystem = 1, addrNode = 1, addrComponent = 40, addrInstance = 1\<rparr>}"
    unfolding cmptKeys_def sub_small
    by (auto simp: smallOwn_def smallOther_def split: if_splits)
  show "nodeKeys smallTree = {(1, 1)}"
    unfolding nodeKeys_def sub_small by (auto simp: smallOwn_def smallOther_def split: if_splits)
  show "subsKeys smallTree = {1, 2}" by (auto simp: subsKeys_def sub_small)
qed

lemma parents_small: "parentsOk smallTree"
  unfolding parentsOk_def sub_small by (simp add: smallTree_def smallOwn_def)

section \<open>Properties\<close>

text \<open>
  C5. The system tree is three registries in one: let additions and removals of subsystems, nodes and components, with
  well-formed contents or bare, run in any mixed order on a well-formed tree, at any times and with any
  handlers that keep an invariant \<open>W\<close>, where each names one of the subsystems 0 to 254 that the array has an entry for. Then the
  calls return without a fault, they answer as the
  sets of subsystem numbers, of node numbers and of component addresses answer (\<open>registersStep\<close>: a node needs its subsystem, a
  component its node, and a removal takes with it what stands below), the tree stays well formed, and \<open>hasSubsystem\<close>, \<open>hasNode\<close> and
  \<open>hasComponent\<close> afterwards know exactly those sets. Asked for subsystem 255, which has no entry, they read past the array.
\<close>

theorem system_tree_registries:
  assumes "treeOk t" "keeps W hs" "W w" "\<forall>x \<in> set ops. opOk (snd x)"
  shows "\<exists>bs S N C t' w'.
     specRun (\<lambda>x. registersStep (snd x)) ops (subsKeys t, nodeKeys t, cmptKeys t) = (bs, S, N, C) \<and>
     codeRun (treeStep hs) ops (t, w) = Some (bs, t', w') \<and> treeOk t' \<and> W w' \<and>
     (\<forall>a. hasSubsystem t' a = (if addrSubsystem a = 255 then None else Some (uint (addrSubsystem a) \<in> S)) \<and>
          hasNode t' a = (if addrSubsystem a = 255 then None else Some (nodeKey a \<in> N)) \<and>
          hasComponent t' a = (if addrSubsystem a = 255 then None else Some (a \<in> C)))"
proof -
  obtain bs S N C where spec: "specRun (\<lambda>x. registersStep (snd x)) ops (known t) = (bs, S, N, C)" by (metis prod.collapse)
  obtain t' w' where run: "codeRun (treeStep hs) ops (t, w) = Some (bs, t', w')" "treeOk t'" "W w'" "known t' = (S, N, C)"
    using tree_ops.run [of "(t, w)" W ops hs] assms spec by auto
  have "hasSubsystem t' a = (if addrSubsystem a = 255 then None else Some (uint (addrSubsystem a) \<in> S)) \<and>
      hasNode t' a = (if addrSubsystem a = 255 then None else Some (nodeKey a \<in> N)) \<and>
      hasComponent t' a = (if addrSubsystem a = 255 then None else Some (a \<in> C))" for a
    using has_broadcast [OF run(2), of a] has_keys [OF run(2), of a] run(4) by (simp add: known_def)
  then show ?thesis using spec run(1-3) unfolding known_def
    by (intro exI [of _ bs] exI [of _ S] exI [of _ N] exI [of _ C] exI [of _ t'] exI [of _ w'] conjI allI) simp_all
qed

abbreviation (input) cmptAddr :: "u8 \<Rightarrow> u8 \<Rightarrow> JausAddress" where
  "cmptAddr c i \<equiv> \<lparr>addrSubsystem = 1, addrNode = 1, addrComponent = c, addrInstance = i\<rparr>"

theorem system_tree_registries_witness:
  "\<exists>t' es'. codeRun (treeStep [observe])
      [(10, AddComponent (cmptAddr 41 1) None), (11, AddComponent (cmptAddr 41 1) None), (12, RemoveNode 1 1),
       (13, AddComponent (cmptAddr 40 1) None), (14, AddNode (cmptAddr 0 0) None), (15, AddComponent (cmptAddr 42 1) None),
       (16, RemoveSubsystem 2), (17, AddSubsystem 0 None)]
      (smallTree, []) = Some ([True, False, True, False, True, True, True, False], t', es') \<and>
     hasComponent t' (cmptAddr 42 1) = Some True \<and> hasComponent t' (cmptAddr 41 1) = Some False \<and>
     hasSubsystem t' (\<lparr>addrSubsystem = 2, addrNode = 1, addrComponent = 1, addrInstance = 1\<rparr>) = Some False"
proof -
  let ?ops = "[(10, AddComponent (cmptAddr 41 1) None), (11, AddComponent (cmptAddr 41 1) None), (12, RemoveNode 1 1),
       (13, AddComponent (cmptAddr 40 1) None), (14, AddNode (cmptAddr 0 0) None), (15, AddComponent (cmptAddr 42 1) None),
       (16, RemoveSubsystem 2), (17, AddSubsystem 0 None)] :: (int \<times> treeOp) list"
  have ok: "\<forall>x \<in> set ?ops. opOk (snd x)" by (simp add: givenOk_def givenNodeOk_def)
  have spec: "specRun (\<lambda>x. registersStep (snd x)) ?ops (subsKeys smallTree, nodeKeys smallTree, cmptKeys smallTree) =
      ([True, False, True, False, True, True, True, False], {1}, {(1, 1)}, {cmptAddr 42 1})"
    unfolding known_small by (simp add: Let_def) auto
  from system_tree_registries [OF treeOk_small keeps_observe TrueI ok, of "[]"] obtain t' es' where
    "codeRun (treeStep [observe]) ?ops (smallTree, []) = Some ([True, False, True, False, True, True, True, False], t', es')"
    "\<And>a. hasSubsystem t' a = (if addrSubsystem a = 255 then None else Some (uint (addrSubsystem a) \<in> {1}))"
    "\<And>a. hasComponent t' a = (if addrSubsystem a = 255 then None else Some (a \<in> {cmptAddr 42 1}))"
    unfolding spec by blast
  then show ?thesis by (intro exI [of _ t'] exI [of _ es']) simp
qed

text \<open>
  C32. \<open>getNextInstanceId\<close> and \<open>addComponent\<close> together allocate addresses. On a known node the
  call returns exactly when none of the component's instances is numbered 254 or above and an instance below 254 is
  free (otherwise the array of 254 entries is left); it then returns the lowest free instance, and adding the
  component under it succeeds, so that the address is known afterwards and no other changes.
\<close>

theorem instance_allocation:
  assumes "treeOk t" "addrSubsystem a \<noteq> 255" "nodeKey a \<in> nodeKeys t" "addrComponent a \<notin> {0, 255}" "keeps W hs" "W w"
  shows "(getNextInstanceId t a = None \<longleftrightarrow>
      (\<exists>i \<in> usedInstances t a. i \<ge> 254) \<or> (\<forall>j. 1 \<le> j \<and> j < 254 \<longrightarrow> j \<in> usedInstances t a)) \<and>
    (\<forall>i. getNextInstanceId t a = Some i \<longrightarrow>
       1 \<le> i \<and> i < 254 \<and> i \<notin> usedInstances t a \<and> (\<forall>j. 1 \<le> j \<and> j < i \<longrightarrow> j \<in> usedInstances t a) \<and>
       (\<exists>t' w'. addComponent hs now t w (a\<lparr>addrInstance := i\<rparr>) None = Some (True, t', w') \<and> treeOk t' \<and> W w' \<and>
          cmptKeys t' = insert (a\<lparr>addrInstance := i\<rparr>) (cmptKeys t)))"
proof -
  let ?free = "\<lambda>j. 1 \<le> j \<and> j < 254 \<and> of_nat j \<notin> usedInstances t a"
  note nxt = getNextInstanceId_eq [OF assms(1-3)]
  have word: "(\<exists>j. ?free j) \<longleftrightarrow> (\<exists>j :: u8. 1 \<le> j \<and> j < 254 \<and> j \<notin> usedInstances t a)"
  proof
    assume "\<exists>j. ?free j"
    then obtain j where "?free j" by blast
    then show "\<exists>j :: u8. 1 \<le> j \<and> j < 254 \<and> j \<notin> usedInstances t a"
      by (intro exI [of _ "of_nat j"]) (simp add: word_le_nat_alt word_less_nat_alt u8_nat)
  next
    assume "\<exists>j :: u8. 1 \<le> j \<and> j < 254 \<and> j \<notin> usedInstances t a"
    then obtain j :: u8 where "1 \<le> j" "j < 254" "j \<notin> usedInstances t a" by blast
    then show "\<exists>j. ?free j" by (intro exI [of _ "unat j"]) (simp add: word_le_nat_alt word_less_nat_alt)
  qed
  have none: "getNextInstanceId t a = None \<longleftrightarrow>
      (\<exists>i \<in> usedInstances t a. i \<ge> 254) \<or> (\<forall>j. 1 \<le> j \<and> j < 254 \<longrightarrow> j \<in> usedInstances t a)"
  proof -
    have "getNextInstanceId t a = None \<longleftrightarrow> \<not> ((\<forall>i \<in> usedInstances t a. i < 254) \<and> (\<exists>j. ?free j))"
      unfolding nxt by auto
    moreover have "(\<exists>i \<in> usedInstances t a. i \<ge> 254) \<longleftrightarrow> \<not> (\<forall>i \<in> usedInstances t a. i < 254)"
      by (simp only: linorder_not_less [symmetric]) simp
    ultimately show ?thesis unfolding word by (simp only: de_Morgan_conj not_ex not_not de_Morgan_disj) blast
  qed
  note some = nextInstance_free [OF assms(1-3)]
  have "\<exists>t' w'. addComponent hs now t w (a\<lparr>addrInstance := i\<rparr>) None = Some (True, t', w') \<and> treeOk t' \<and> W w' \<and>
      cmptKeys t' = insert (a\<lparr>addrInstance := i\<rparr>) (cmptKeys t)" if "getNextInstanceId t a = Some i" for i
  proof -
    have "i \<noteq> 0" "i \<noteq> 255" using some [OF that] by (auto simp: word_le_nat_alt word_less_nat_alt)
    moreover have "givenOk (a\<lparr>addrInstance := i\<rparr>) None" by (simp add: givenOk_def)
    ultimately show ?thesis
      using addComponent_law [OF assms(1) _ _ assms(5,6), of "a\<lparr>addrInstance := i\<rparr>" None now] some [OF that] assms(2-4)
      by (auto simp: known_def usedInstances_def validIds_def)
  qed
  with none some show ?thesis by blast
qed

theorem instance_allocation_witness:
  "usedInstances smallTree (cmptAddr 40 0) = {1} \<and>
   (\<exists>i t' es'. getNextInstanceId smallTree (cmptAddr 40 0) = Some i \<and>
      addComponent [observe] 10 smallTree [] (cmptAddr 40 i) None = Some (True, t', es') \<and> i = 2)"
proof -
  have used: "usedInstances smallTree (cmptAddr 40 0) = {1}" by (auto simp: usedInstances_def known_small)
  note law = instance_allocation [OF treeOk_small, of "cmptAddr 40 0", OF _ _ _ keeps_observe TrueI, unfolded used known_small, of 10 "[]"]
  have "\<not> (254 :: u8) \<le> 1" "\<not> (\<forall>j :: u8. 1 \<le> j \<and> j < 254 \<longrightarrow> j \<in> {1})"
    by (simp_all add: word_le_nat_alt) (auto simp: word_le_nat_alt word_less_nat_alt intro!: exI [of _ 2])
  then have "getNextInstanceId smallTree (cmptAddr 40 0) \<noteq> None" using law by auto
  then obtain i where i: "getNextInstanceId smallTree (cmptAddr 40 0) = Some i" by blast
  then have p: "1 \<le> i" "i \<notin> {1}" "\<forall>j. 1 \<le> j \<and> j < i \<longrightarrow> j \<in> {1}"
    "\<exists>t' es'. addComponent [observe] 10 smallTree [] (cmptAddr 40 i) None = Some (True, t', es')" using law by auto
  have "i = 2"
  proof (rule ccontr)
    assume "i \<noteq> 2"
    then have "2 < i" using p(1,2) by (auto simp: word_le_nat_alt word_less_nat_alt word_unat_eq_iff)
    then show False using p(3) by (auto dest: spec [of _ 2])
  qed
  then show ?thesis using used i p(4) by blast
qed

text \<open>
  C29. \<open>refresh\<close> forgets what timed out. On a well-formed tree whose own nodes know their subsystem the pass
  ends without a fault; of a foreign subsystem numbered below 254 nothing is left when it timed out and everything
  otherwise; of this subsystem, this node loses exactly the components that timed out, and the other nodes are
  swept as \<open>sweepNodes\<close> says (a node behind one that is removed waits for the next pass); subsystem 254 is
  never looked at. The tree stays well formed.
\<close>

theorem refresh_forgets:
  assumes "treeOk t" "parentsOk t" "keeps W hs" "W w"
  shows "\<exists>t' w'. refresh hs now t w = Some (t', w') \<and> treeOk t' \<and> W w' \<and>
    (\<forall>s. sub t' s = (if 1 \<le> s \<and> s < 254 then sweep (treeSubsystemId t) (treeNodeId t) now (sub t s) else sub t s))"
proof -
  have "set subsystemIds = {1..<254}" by (simp add: image_int_atLeastLessThan)
  moreover have "distinct subsystemIds" by (simp add: distinct_map)
  ultimately show ?thesis
    using refreshAll_law [OF assms(1) _ _ assms(2-4), of subsystemIds now] by (auto simp: refresh_def)
qed

theorem refresh_forgets_witness:
  "\<exists>t' es'. refresh [observe] 10 smallTree [] = Some (t', es') \<and> treeOk t' \<and> sub t' 2 = None \<and>
     map_option (\<lambda>s. map (map cmptAddress \<circ> nodeComponents) (subsNodes s)) (sub t' 1) = Some [[cmptAddr 1 1]]"
proof -
  obtain t' es' where t': "refresh [observe] 10 smallTree [] = Some (t', es')" "treeOk t'"
    "\<And>s. sub t' s = (if 1 \<le> s \<and> s < 254 then sweep 1 1 10 (sub smallTree s) else sub smallTree s)"
    using refresh_forgets [OF treeOk_small parents_small keeps_observe TrueI, of 10 "[]"]
    by (auto simp: smallTree_def)
  have "sub t' 2 = None"
    unfolding t'(3) sub_small by (simp add: sweep_def smallOther_def jausSubsystemIsTimedOut_def)
  moreover have "map_option (\<lambda>s. map (map cmptAddress \<circ> nodeComponents) (subsNodes s)) (sub t' 1) = Some [[cmptAddr 1 1]]"
    unfolding t'(3) sub_small
    by (simp add: sweep_def smallOwn_def freshComponents_def jausComponentIsTimedOut_def jausComponentCreate_def
        jausComponentUpdateTimestamp_def)
  ultimately show ?thesis using t'(1,2) by (intro exI conjI)
qed

text \<open>
  C38. \<open>lookUpAddress\<close> is sound and complete. For numbers from 0 to 255, of which 0 and 255 stand for any, it
  returns a known address that fits whenever there is one, and an invalid address only when there is none, except
  that a search over all subsystems passes over subsystem 254.
\<close>

theorem address_lookup:
  assumes "treeOk t" "0 \<le> s" "s \<le> 255" "0 \<le> n" "n \<le> 255"
  shows "\<exists>r. lookUpAddress t s n c i = Some r \<and>
    finds r {a \<in> cmptKeys t. fits s (addrSubsystem a) \<and> fits n (addrNode a) \<and> fits c (addrComponent a) \<and> fits i (addrInstance a) \<and>
             (s \<in> {0, 255} \<longrightarrow> addrSubsystem a < 254)}"
  by (rule lookUpAddress_finds [OF assms])

theorem address_lookup_witness:
  "lookUpAddress smallTree 255 1 40 0 = Some (Some (cmptAddr 40 1)) \<and> lookUpAddress smallTree 1 0 41 255 = Some None"
proof -
  have "{a \<in> cmptKeys smallTree. fits 255 (addrSubsystem a) \<and> fits 1 (addrNode a) \<and> fits 40 (addrComponent a) \<and>
      fits 0 (addrInstance a) \<and> (255 \<in> {0, 255 :: int} \<longrightarrow> addrSubsystem a < 254)} = {cmptAddr 40 1}"
    unfolding known_small by (auto simp: fits_def)
  moreover have "{a \<in> cmptKeys smallTree. fits 1 (addrSubsystem a) \<and> fits 0 (addrNode a) \<and> fits 41 (addrComponent a) \<and>
      fits 255 (addrInstance a) \<and> (1 \<in> {0, 255 :: int} \<longrightarrow> addrSubsystem a < 254)} = {}"
    unfolding known_small by (auto simp: fits_def)
  ultimately show ?thesis
    using address_lookup [OF treeOk_small, of 255 1 40 0] address_lookup [OF treeOk_small, of 1 0 41 255]
    by (auto simp: finds_def split: option.splits)
qed

text \<open>
  C39. \<open>lookUpServiceInSystem\<close> considers the services of the components of all subsystems but 254, the
  largest number, which its loop leaves out. A service counts when the command is in its list of input commands (kind 0) or of output commands
  (kind 1). When there is no such service the call returns no address, when there is one it returns the address of its component, and with a second
  one it follows a null pointer. For any other kind it returns no address.
\<close>

theorem service_lookup:
  assumes "treeOk t"
  shows "(if offerCount inputCommandList t code \<le> 1
      then \<exists>found. lookUpServiceInSystem t code 0 = Some found \<and> length found = offerCount inputCommandList t code \<and>
             set found = offerers inputCommandList t code
      else lookUpServiceInSystem t code 0 = None) \<and>
    (if offerCount outputCommandList t code \<le> 1
      then \<exists>found. lookUpServiceInSystem t code 1 = Some found \<and> length found = offerCount outputCommandList t code \<and>
             set found = offerers outputCommandList t code
      else lookUpServiceInSystem t code 1 = None) \<and>
    (kind \<notin> {0, 1} \<longrightarrow> lookUpServiceInSystem t code kind = Some [])"
proof -
  have "lookUpServices code k (loopComponents t) ([], None) = found (offering code k (loopComponents t))" for k
    using lookUpServices_found [of "[]" code k "loopComponents t"] by simp
  then show ?thesis
    using offering_count [OF assms, of code 0] offering_count [OF assms, of code 1]
      offering_set [OF assms, of code 0] offering_set [OF assms, of code 1]
    by (simp add: lookUpServiceInSystem_def found_eq)
qed

text \<open>The small tree, with the same service at component 40 and at a component of subsystem 254.\<close>

definition serviceSubs :: "u8 \<Rightarrow> JausSubsystem" where
  "serviceSubs s = \<lparr>subsIdentification = None, subsId = uint s, subsNodes =
     [\<lparr>nodeIdentification = None, nodeId = 1, nodeComponents =
         [(jausComponentCreate 0)\<lparr>cmptAddress := \<lparr>addrSubsystem = s, addrNode = 1, addrComponent = 40, addrInstance = 1\<rparr>,
            cmptServices := [\<lparr>serviceType = 1, inputCommandList = [\<lparr>cmdCommandCode = 0x2301, cmdPresenceVector = 0\<rparr>],
              inputCommandCount = 1, outputCommandList = [], outputCommandCount = 0\<rparr>]\<rparr>],
       nodeParent = Some (uint s), nodeTimeStampSec = 0\<rparr>], subsTimeStampSec = 0\<rparr>"

definition serviceTree :: SystemTree where
  "serviceTree = \<lparr>system = (replicate 255 None)[1 := Some (serviceSubs 1), 254 := Some (serviceSubs 254)], subsystemCount = 2,
     treeSubsystemId = 1, treeNodeId = 1\<rparr>"

lemma sub_service: "sub serviceTree = [1 \<mapsto> serviceSubs 1, 254 \<mapsto> serviceSubs 254]"
proof
  show "sub serviceTree s = [1 \<mapsto> serviceSubs 1, 254 \<mapsto> serviceSubs 254] s" for s
    by (cases "s = 1"; cases "s = 254") (auto simp: sub_def serviceTree_def nth_list_update)
qed

lemma treeOk_service: "treeOk serviceTree"
proof -
  have "okSubs (uint s) (serviceSubs s)" if "s \<noteq> 0" for s
    using that word_gt_0 [of s]
    by (simp add: okSubs_def okNode_def clonableNode_def clonable_def serviceSubs_def jausComponentCreate_def
        jausComponentUpdateTimestamp_def word_less_def serviceOk_def)
  from this [of 1] this [of 254] show ?thesis
    by (auto simp: treeOk_def sub_service split: if_splits) (simp add: serviceTree_def)
qed

theorem service_lookup_witness:
  "lookUpServiceInSystem serviceTree 0x2301 0 = Some [cmptAddr 40 1] \<and> lookUpServiceInSystem serviceTree 0x2301 1 = Some [] \<and>
   lookUpServiceInSystem serviceTree 0x2301 2 = Some []"
proof -
  have count: "offerCount commands serviceTree 0x2301 =
      (\<Sum>n \<leftarrow> subsNodes (serviceSubs 1). \<Sum>c \<leftarrow> nodeComponents n.
          length (filter (\<lambda>v. 0x2301 \<in> uint ` cmdCommandCode ` set (commands v)) (cmptServices c)))" for commands
    unfolding offerCount_def sub_service
    by (subst sum.remove [of _ 1]) (auto intro!: sum.neutral)
  have "offerers inputCommandList serviceTree 0x2301 = {cmptAddr 40 1}"
    by (auto simp: offerers_def sub_service serviceSubs_def split: if_splits)
  moreover have "offerCount inputCommandList serviceTree 0x2301 = 1" "offerCount outputCommandList serviceTree 0x2301 = 0"
    by (simp_all add: count serviceSubs_def)
  ultimately show ?thesis using service_lookup [OF treeOk_service, of "0x2301" 2]
    by (auto simp: length_Suc_conv)
qed

end
