(* ===== verification/RoutingLaws.thy ===== *)
theory RoutingLaws
  imports Routing TreeQueries
begin

text \<open>
  What the router does with a message: where the copies go, that each copy is queued or destroyed once, that a
  message never goes back where it came from, and that the managers learn where the others are.
\<close>

section \<open>Effects\<close>

lemma ex_bool [simp]: "\<exists>b. b" "\<exists>b. \<not> b" by blast+

text \<open>
  Every operation takes up one message. \<open>happen m is d c es\<close> is what it can do to the state: queue copies of the
  message at the interfaces \<open>is\<close> (an interface that does not run destroys its copy), destroy \<open>d\<close> copies, make
  \<open>c\<close> clones and raise the errors \<open>es\<close>.
\<close>

fun pushAll :: "JausMessage \<Rightarrow> nat list \<Rightarrow> JausTransportInterface list \<Rightarrow> JausTransportInterface list" where
  "pushAll m [] ts = ts"
| "pushAll m (i # is) ts = pushAll m is (if running (ts ! i) then ts[i := pushMessage m (ts ! i)] else ts)"

definition stopped :: "JausTransportInterface list \<Rightarrow> nat list \<Rightarrow> nat" where
  "stopped ts is = length (filter (\<lambda>i. \<not> running (ts ! i)) is)"

definition happen :: "JausMessage \<Rightarrow> nat list \<Rightarrow> nat \<Rightarrow> nat \<Rightarrow> (ErrorType \<times> string) list \<Rightarrow> Router \<Rightarrow> Router" where
  "happen m is d c es st =
     st\<lparr>transports := pushAll m is (transports st), errorEvents := errorEvents st @ es,
        destroyed := destroyed st @ replicate (d + stopped (transports st) is) m, clones := clones st + c\<rparr>"

lemma length_pushAll [simp]: "length (pushAll m is ts) = length ts"
  by (induction "is" arbitrary: ts) simp_all

lemma running_update: "i < length ts \<Longrightarrow> running (ts[k := pushMessage m (ts ! k)] ! i) = running (ts ! i)"
  by (cases "i = k") (simp_all add: pushMessage_def)

lemma running_pushAll [simp]: "i < length ts \<Longrightarrow> running (pushAll m is ts ! i) = running (ts ! i)"
  by (induction "is" arbitrary: ts) (simp_all add: running_update)

lemma pushAll_append: "pushAll m (is @ js) ts = pushAll m js (pushAll m is ts)"
  by (induction "is" arbitrary: ts) simp_all

lemma pushAll_queue:
  assumes "\<forall>k \<in> set is. k < length ts" "i < length ts"
  shows "pushAll m is ts ! i = (ts ! i)\<lparr>infQueue := infQueue (ts ! i) @ replicate (if running (ts ! i) then count_list is i else 0) m\<rparr>"
  using assms
proof (induction "is" arbitrary: ts)
  case Nil
  then show ?case by simp
next
  case (Cons k "is")
  let ?ts = "if running (ts ! k) then ts[k := pushMessage m (ts ! k)] else ts"
  have "pushAll m is ?ts ! i =
      (?ts ! i)\<lparr>infQueue := infQueue (?ts ! i) @ replicate (if running (?ts ! i) then count_list is i else 0) m\<rparr>"
    using Cons.prems by (intro Cons.IH) simp_all
  then show ?case
    using Cons.prems by (cases "k = i") (auto simp: pushMessage_def replicate_app_Cons_same)
qed

lemma pushAll_other: "i \<notin> set is \<Longrightarrow> pushAll m is ts ! i = ts ! i"
  by (induction "is" arbitrary: ts) auto

lemma stopped_pushAll [simp]: "\<forall>i \<in> set js. i < length ts \<Longrightarrow> stopped (pushAll m is ts) js = stopped ts js"
  by (simp add: stopped_def cong: filter_cong)

lemma happen_happen:
  assumes "\<forall>i \<in> set js. i < length (transports st)"
  shows "happen m js d' c' es' (happen m is d c es st) = happen m (is @ js) (d + d') (c + c') (es @ es') st"
  using assms
  by (simp add: happen_def pushAll_append stopped_def replicate_add [symmetric] ac_simps cong: filter_cong)

lemma happen_frame [simp]:
  "mySubsystemId (happen m is d c es st) = mySubsystemId st" "myNodeId (happen m is d c es st) = myNodeId st"
  "subsComms (happen m is d c es st) = subsComms st" "nodeComms (happen m is d c es st) = nodeComms st"
  "cmptComms (happen m is d c es st) = cmptComms st" "systemTree (happen m is d c es st) = systemTree st"
  "subsystemGatewayInterface (happen m is d c es st) = subsystemGatewayInterface st"
  "length (transports (happen m is d c es st)) = length (transports st)"
  by (simp_all add: happen_def)

text \<open>One message is taken up: the copies that are queued or destroyed are this one and the clones.\<close>

definition routed :: "JausMessage \<Rightarrow> nat list \<Rightarrow> (ErrorType \<times> string) list \<Rightarrow> Router \<Rightarrow> Router \<Rightarrow> bool" where
  "routed m is es st st' \<longleftrightarrow> (\<exists>d c. st' = happen m is d c es st \<and> length is + d = Suc c)"

lemma routed_frame:
  assumes "routed m is es st st'"
  shows "mySubsystemId st' = mySubsystemId st" "myNodeId st' = myNodeId st" "subsComms st' = subsComms st"
    "nodeComms st' = nodeComms st" "cmptComms st' = cmptComms st" "systemTree st' = systemTree st"
    "subsystemGatewayInterface st' = subsystemGatewayInterface st" "length (transports st') = length (transports st)"
  using assms by (auto simp: routed_def)

lemma routedI: "st' = happen m is d c es st \<Longrightarrow> length is + d = Suc c \<Longrightarrow> routed m is es st st'"
  by (auto simp: routed_def)

definition msgOk :: "JausMessage \<Rightarrow> bool" where
  "msgOk m \<longleftrightarrow> jausMessageClone m = Some m"

abbreviation (input) inRange :: "Router \<Rightarrow> nat list \<Rightarrow> bool" where
  "inRange st is \<equiv> \<forall>i \<in> set is. i < length (transports st)"

lemma destroy_happen: "destroyMessage (Some m) st = happen m [] (Suc 0) 0 [] st"
  by (simp add: destroyMessage_def happen_def stopped_def)

lemma error_happen: "raiseError k text st = happen m [] 0 0 [(k, text)] st"
  by (simp add: raiseError_def happen_def stopped_def)

lemma reject_happen: "reject text m st = Some (False, happen m [] (Suc 0) 0 [(RoutingFailure, text)] st)"
  by (simp add: reject_def error_happen [of _ _ _ m] destroy_happen happen_happen)

lemma clone_happen: "msgOk m \<Longrightarrow> cloneMessage m st = Some (m, happen m [] 0 (Suc 0) [] st)"
  by (simp add: cloneMessage_def msgOk_def happen_def stopped_def)

lemma queue_happen: "i < length (transports st) \<Longrightarrow> queueJausMessage i m st = Some (happen m [i] 0 0 [] st)"
  by (simp add: queueJausMessage_def happen_def stopped_def destroyMessage_def)

lemma queueToAll_happen:
  assumes "msgOk m" "inRange st is"
  shows "queueToAll is m st = Some (happen m is 0 (length is) [] st)"
  using assms(2)
proof (induction "is" arbitrary: st)
  case Nil
  then show ?case by (simp add: happen_def stopped_def)
next
  case (Cons i "is")
  then show ?case by (simp add: clone_happen [OF assms(1)] queue_happen happen_happen)
qed

named_theorems route_simps "the effects of the single steps"

lemma sendToAll_routed:
  assumes "msgOk m" "inRange st is"
  shows "\<exists>st'. sendToAllInterfaces why is (Some m) st = Some (True, st') \<and> routed m is [] st st'"
  using assms
  by (auto simp: sendToAllInterfaces_def queueToAll_happen destroy_happen happen_happen intro!: routedI)

lemma queue_routed: "i < length (transports st) \<Longrightarrow> \<exists>st'. queueJausMessage i m st = Some st' \<and> routed m [i] [] st st'"
  by (auto simp: queue_happen intro!: routedI)

lemma destroy_routed: "routed m [] [] st (destroyMessage (Some m) st)"
  by (rule routedI [of _ m "[]" "Suc 0" 0]) (simp_all add: destroy_happen)

lemma reject_routed: "\<exists>st'. reject text m st = Some (False, st') \<and> routed m [] [(RoutingFailure, text)] st st'"
  by (auto simp: reject_happen intro!: routedI)

lemma routed_clone:
  assumes "routed m is es (happen m [] 0 (Suc 0) [] st) st1" "routed m js fs st1 st2" "inRange st is" "inRange st js"
  shows "routed m (is @ js) (es @ fs) st st2"
proof -
  obtain d c where 1: "st1 = happen m is d c es (happen m [] 0 (Suc 0) [] st)" "length is + d = Suc c"
    using assms(1) by (auto simp: routed_def)
  obtain d' c' where 2: "st2 = happen m js d' c' fs st1" "length js + d' = Suc c'"
    using assms(2) by (auto simp: routed_def)
  have "st2 = happen m (is @ js) (d + d') (Suc (c + c')) (es @ fs) st"
    using assms(3,4) 1(1) 2(1) by (simp add: happen_happen)
  then show ?thesis using 1(2) 2(2) by (auto intro!: routedI)
qed

section \<open>Well-formed routers\<close>

definition mngrOk :: "Router \<Rightarrow> 'k CommunicationManager \<Rightarrow> bool" where
  "mngrOk st mngr \<longleftrightarrow> inRange st (interfaces mngr) \<and>
     (\<forall>k i. interfaceMap mngr k = Some (Some i) \<longrightarrow> i \<in> set (interfaces mngr))"

text \<open>The components' map knows components of this node only, and their interfaces.\<close>

definition cmptMapOk :: "Router \<Rightarrow> bool" where
  "cmptMapOk st \<longleftrightarrow> (\<forall>a p. interfaceMap (cmptComms st) (jausAddressHash a) = Some p \<longrightarrow>
     p \<noteq> None \<and> uint (addrSubsystem a) = mySubsystemId st \<and> uint (addrNode a) = myNodeId st)"

definition routerOk :: "Router \<Rightarrow> bool" where
  "routerOk st \<longleftrightarrow> 1 \<le> mySubsystemId st \<and> mySubsystemId st \<le> 254 \<and> 1 \<le> myNodeId st \<and> myNodeId st \<le> 254 \<and>
     mngrOk st (subsComms st) \<and> mngrOk st (nodeComms st) \<and> mngrOk st (cmptComms st) \<and> cmptMapOk st \<and>
     (\<forall>i. subsystemGatewayInterface st = Some i \<longrightarrow> i < length (transports st)) \<and> treeOk (systemTree st)"

lemma routerOk_same:
  assumes "mySubsystemId st' = mySubsystemId st" "myNodeId st' = myNodeId st" "subsComms st' = subsComms st"
    "nodeComms st' = nodeComms st" "cmptComms st' = cmptComms st" "systemTree st' = systemTree st"
    "subsystemGatewayInterface st' = subsystemGatewayInterface st" "length (transports st') = length (transports st)"
  shows "routerOk st' = routerOk st"
  by (simp add: routerOk_def mngrOk_def cmptMapOk_def assms)

lemma routerOk_happen [simp]: "routerOk (happen m is d c es st) = routerOk st"
  by (rule routerOk_same) simp_all

lemma routed_ok: "routed m is es st st' \<Longrightarrow> routerOk st' = routerOk st"
  by (auto simp: routed_def)

definition mapTargets :: "'k CommunicationManager \<Rightarrow> 'k \<Rightarrow> nat list" where
  "mapTargets mngr k = (case mapAt mngr k of None \<Rightarrow> [] | Some i \<Rightarrow> [i])"

lemma mapTargets_sub: "mngrOk st mngr \<Longrightarrow> set (mapTargets mngr k) \<subseteq> set (interfaces mngr)"
  by (auto simp: mapTargets_def mapAt_def mngrOk_def split: option.splits)

lemma mapAt_range: "mngrOk st mngr \<Longrightarrow> mapAt mngr k = Some i \<Longrightarrow> i < length (transports st)"
  by (auto simp: mapAt_def mngrOk_def split: option.splits)

section \<open>Where the managers send\<close>

text \<open>
  The three layers a message can be for: other subsystems, other nodes of this subsystem, components of this node;
  and the interfaces of a layer that lead to the destination as far as they are known.
\<close>

datatype Layer = SubsLayer | NodeLayer | CmptLayer

fun covers :: "Router \<Rightarrow> JausMessage \<Rightarrow> Layer \<Rightarrow> bool" where
  "covers st m SubsLayer \<longleftrightarrow> dstSubs m \<noteq> mySubsystemId st"
| "covers st m NodeLayer \<longleftrightarrow> dstSubs m \<in> {mySubsystemId st, 255} \<and> dstNode m \<noteq> myNodeId st"
| "covers st m CmptLayer \<longleftrightarrow> dstSubs m \<in> {mySubsystemId st, 255} \<and> dstNode m \<in> {myNodeId st, 255}"

definition hereAddress :: "Router \<Rightarrow> JausAddress \<Rightarrow> JausAddress" where
  "hereAddress st a = a\<lparr>addrSubsystem := of_int (mySubsystemId st), addrNode := of_int (myNodeId st)\<rparr>"

fun layerTargets :: "Router \<Rightarrow> JausMessage \<Rightarrow> Layer \<Rightarrow> nat list" where
  "layerTargets st m SubsLayer =
     (if dstSubs m = 255 then interfaces (subsComms st) else mapTargets (subsComms st) (addrSubsystem (destination m)))"
| "layerTargets st m NodeLayer =
     (if dstNode m = 255 then interfaces (nodeComms st) else mapTargets (nodeComms st) (addrNode (destination m)))"
| "layerTargets st m CmptLayer =
     (if dstCmpt m = 255 \<or> dstInst m = 255 then interfaces (cmptComms st)
      else mapTargets (cmptComms st) (jausAddressHash (hereAddress st (destination m))))"

fun layerInterfaces :: "Router \<Rightarrow> Layer \<Rightarrow> nat list" where
  "layerInterfaces st SubsLayer = interfaces (subsComms st)"
| "layerInterfaces st NodeLayer = interfaces (nodeComms st)"
| "layerInterfaces st CmptLayer = interfaces (cmptComms st)"

lemma routerOk_mngrs:
  assumes "routerOk st"
  shows "mngrOk st (subsComms st)" "mngrOk st (nodeComms st)" "mngrOk st (cmptComms st)"
  using assms by (simp_all add: routerOk_def)

lemma layerTargets_sub: "routerOk st \<Longrightarrow> set (layerTargets st m L) \<subseteq> set (layerInterfaces st L)"
  using routerOk_mngrs [of st] by (cases L) (auto dest: subsetD [OF mapTargets_sub])

lemma layerInterfaces_range: "routerOk st \<Longrightarrow> inRange st (layerInterfaces st L)"
  using routerOk_mngrs [of st] by (cases L) (auto simp: mngrOk_def)

lemma layerTargets_range: "routerOk st \<Longrightarrow> inRange st (layerTargets st m L)"
  using layerTargets_sub [of st m L] layerInterfaces_range [of st L] by blast

lemma layerTargets_happen [simp]:
  "layerTargets (happen m' is d c es st) m L = layerTargets st m L" "covers (happen m' is d c es st) m L = covers st m L"
  by (cases L; simp add: hereAddress_def)+

lemma mapped_routed:
  assumes "mngrOk st mngr"
  shows "\<exists>b st'. (case mapAt mngr k of
       Some jtInf \<Rightarrow> do { st' \<leftarrow> queueJausMessage jtInf m st; Some (True, st') }
     | None \<Rightarrow> Some (False, destroyMessage (Some m) st)) = Some (b, st') \<and> routed m (mapTargets mngr k) [] st st'"
proof (cases "mapAt mngr k")
  case None
  then show ?thesis by (auto simp: mapTargets_def destroy_routed)
next
  case (Some i)
  then show ?thesis using queue_routed [OF mapAt_range [OF assms Some], of m] by (auto simp: mapTargets_def)
qed

lemma subsSend_routed:
  assumes "routerOk st" "msgOk m"
  shows "\<exists>b st' es. subsSendJausMessage (Some m) st = Some (b, st') \<and>
    routed m (if enabled (subsComms st) \<and> srcSubs m = mySubsystemId st \<and> covers st m SubsLayer then layerTargets st m SubsLayer else [])
      es st st' \<and> (enabled (subsComms st) \<and> srcSubs m = mySubsystemId st \<and> covers st m SubsLayer \<longrightarrow> es = [])"
proof -
  note mngr = routerOk_mngrs(1) [OF assms(1)]
  have "inRange st (interfaces (subsComms st))" using mngr by (simp add: mngrOk_def)
  from sendToAll_routed [OF assms(2) this, of "''Invalid JausMessage.''"] mapped_routed [OF mngr, where k = "addrSubsystem (destination m)" and m = m]
  show ?thesis
    using reject_routed [of "''Message from another Subs coming in from MsgRouter''" m st]
      reject_routed [of "''Message for this Subs coming in from MsgRouter''" m st] destroy_routed [of m st]
    unfolding subsSendJausMessage_def subsSendToAllInterfaces_def sendToSubsystemX_def by auto
qed

definition gatewayTargets :: "Router \<Rightarrow> nat list" where
  "gatewayTargets st =
     (if enabled (subsComms st) then []
      else (case subsystemGatewayInterface st of
              Some i \<Rightarrow> [i]
            | None \<Rightarrow> if myNodeId st \<noteq> 1 then mapTargets (nodeComms st) 1 else []))"

lemma gateway_routed:
  assumes "routerOk st"
  shows "\<exists>b st' es. sendToSubsystemGateway (Some m) st = Some (b, st') \<and> routed m (gatewayTargets st) es st st'"
proof -
  note rej = reject_routed [of "''Message received in Node Communication Manager which should have gone out the Subsystem Communication manager.''" m st]
  show ?thesis
  proof (cases "subsystemGatewayInterface st")
    case None
    then show ?thesis
      using mapped_routed [OF routerOk_mngrs(2) [OF assms], where k = 1 and m = m] destroy_routed [of m st] rej
      unfolding sendToSubsystemGateway_def gatewayTargets_def by (cases "myNodeId st = 1") auto
  next
    case (Some i)
    then have "\<exists>st'. queueJausMessage i m st = Some st' \<and> routed m [i] [] st st'"
      using queue_routed [of i st m] assms by (simp add: routerOk_def)
    then show ?thesis using Some rej unfolding sendToSubsystemGateway_def gatewayTargets_def by auto
  qed
qed

lemma gateway_range: "routerOk st \<Longrightarrow> inRange st (gatewayTargets st)"
  using mapTargets_sub [OF routerOk_mngrs(2), of st 1] routerOk_mngrs(2) [of st]
  by (auto simp: gatewayTargets_def routerOk_def mngrOk_def split: option.splits if_splits)

text \<open>The second copy of a broadcast to node \<open>X\<close> of every subsystem.\<close>

definition copyToGateway :: "Router \<Rightarrow> JausMessage \<Rightarrow> bool" where
  "copyToGateway st m \<longleftrightarrow>
     (case lookUpAddress (systemTree st) (mySubsystemId st) 0 35 0 of
        Some (Some a) \<Rightarrow> uint (addrNode a) \<noteq> dstNode m \<and> dstNode m \<noteq> 1
      | _ \<Rightarrow> False)"

lemma everywhere_routed:
  assumes "routerOk st" "msgOk m"
  shows "\<exists>st' es. sendToNodeXEverywhere m st = Some (True, st') \<and>
    routed m (mapTargets (nodeComms st) (addrNode (destination m)) @ (if copyToGateway st m then gatewayTargets st else [])) es st st'"
proof -
  let ?st = "happen m [] 0 (Suc 0) [] st" and ?X = "mapTargets (nodeComms st) (addrNode (destination m))"
  have ok: "routerOk ?st" using assms(1) by simp
  obtain b st2 where st2: "sendToNodeX (Some m) ?st = Some (b, st2)" "routed m ?X [] ?st st2"
    using mapped_routed [OF routerOk_mngrs(2) [OF ok], where k = "addrNode (destination m)" and m = m] by (auto simp: sendToNodeX_def)
  note same = routed_frame [OF st2(2)]
  have rX: "inRange st ?X"
    using mapTargets_sub [OF routerOk_mngrs(2) [OF assms(1)]] routerOk_mngrs(2) [OF assms(1)] by (fastforce simp: mngrOk_def)
  have "treeOk (systemTree st)" "0 \<le> mySubsystemId st" "mySubsystemId st \<le> 255" using assms(1) by (simp_all add: routerOk_def)
  then obtain r where r: "lookUpAddress (systemTree st) (mySubsystemId st) 0 35 0 = Some r"
    using lookUpAddress_finds [of "systemTree st" "mySubsystemId st" 0 35 0] by auto
  show ?thesis
  proof (cases "copyToGateway st m")
    case False
    have "routed m (?X @ []) ([] @ []) st (destroyMessage (Some m) st2)"
      by (rule routed_clone [OF st2(2) destroy_routed rX]) simp
    then show ?thesis
      using False st2 r same clone_happen [OF assms(2), of st]
      by (auto simp: sendToNodeXEverywhere_def copyToGateway_def split: option.splits)
  next
    case True
    then obtain a where a: "r = Some a" "uint (addrNode a) \<noteq> dstNode m \<and> dstNode m \<noteq> 1"
      using r by (auto simp: copyToGateway_def split: option.splits)
    let ?st2 = "happen m [] 0 (Suc 0) [] st2"
    have ok2: "routerOk ?st2" using ok routed_ok [OF st2(2)] by simp
    obtain b' st3 es where st3: "sendToSubsystemGateway (Some m) ?st2 = Some (b', st3)" "routed m (gatewayTargets ?st2) es ?st2 st3"
      using gateway_routed [OF ok2] by blast
    have g: "gatewayTargets ?st2 = gatewayTargets st" unfolding gatewayTargets_def happen_frame same ..
    have "routed m (gatewayTargets st @ []) (es @ []) st2 (destroyMessage (Some m) st3)"
      using routed_clone [OF st3(2) [unfolded g] destroy_routed] gateway_range [OF assms(1)] same by simp
    then have "routed m (?X @ gatewayTargets st) ([] @ es) st (destroyMessage (Some m) st3)"
      using routed_clone [OF st2(2) _ rX gateway_range [OF assms(1)]] by simp
    then show ?thesis
      using True st2 st3 a r same clone_happen [OF assms(2)]
      by (auto simp: sendToNodeXEverywhere_def split: option.splits)
  qed
qed

section \<open>Senders\<close>

text \<open>
  A sender takes up a message and queues its copies at the interfaces \<open>T\<close>, which depend on the addresses and
  on what the managers have learned only.
\<close>

definition sameFrame :: "Router \<Rightarrow> Router \<Rightarrow> bool" where
  "sameFrame st st' \<longleftrightarrow> mySubsystemId st' = mySubsystemId st \<and> myNodeId st' = myNodeId st \<and> subsComms st' = subsComms st \<and>
     nodeComms st' = nodeComms st \<and> cmptComms st' = cmptComms st \<and> systemTree st' = systemTree st \<and>
     subsystemGatewayInterface st' = subsystemGatewayInterface st \<and> length (transports st') = length (transports st)"

lemma sameFrame_happen: "sameFrame st (happen m is d c es st)"
  by (simp add: sameFrame_def)

lemma sameFrame_routed: "routed m is es st st' \<Longrightarrow> sameFrame st st'"
  by (auto simp: routed_def sameFrame_happen)

lemma sameFrame_trans: "sameFrame st st' \<Longrightarrow> sameFrame st' st'' \<Longrightarrow> sameFrame st st''"
  by (simp add: sameFrame_def)

definition framed :: "(Router \<Rightarrow> 'b) \<Rightarrow> bool" where
  "framed f \<longleftrightarrow> (\<forall>st st'. sameFrame st st' \<longrightarrow> f st' = f st)"

lemma framedI:
  "(\<And>st st'. mySubsystemId st' = mySubsystemId st \<Longrightarrow> myNodeId st' = myNodeId st \<Longrightarrow> subsComms st' = subsComms st \<Longrightarrow>
     nodeComms st' = nodeComms st \<Longrightarrow> cmptComms st' = cmptComms st \<Longrightarrow> systemTree st' = systemTree st \<Longrightarrow>
     subsystemGatewayInterface st' = subsystemGatewayInterface st \<Longrightarrow> f st' = f st) \<Longrightarrow> framed f"
  unfolding framed_def sameFrame_def by blast

definition routes :: "JausMessage \<Rightarrow> nat list \<Rightarrow> (bool \<times> Router) exec \<Rightarrow> Router \<Rightarrow> bool" where
  "routes m is r st \<longleftrightarrow> (\<exists>b st' es. r = Some (b, st') \<and> routed m is es st st')"

lemma routes_reject: "routes m [] (reject text m st) st"
  using reject_routed [of "text" m st] by (auto simp: routes_def)

lemma routes_destroy: "routes m [] (Some (b, destroyMessage (Some m) st)) st"
  using destroy_routed [of m st] by (auto simp: routes_def)

lemma routes_all: "msgOk m \<Longrightarrow> inRange st is \<Longrightarrow> routes m is (sendToAllInterfaces why is (Some m) st) st"
  using sendToAll_routed [where m = m and st = st and ?is = "is" and why = why] by (auto simp: routes_def)

lemma routes_sent: "routes m is r st \<Longrightarrow> routes m is (sent r) st"
  by (auto simp: routes_def sent_def)

locale sender =
  fixes f :: "JausMessage \<Rightarrow> Router \<Rightarrow> (bool \<times> Router) exec" and T :: "JausMessage \<Rightarrow> Router \<Rightarrow> nat list"
  assumes framed: "framed (T m)"
    and range: "routerOk st \<Longrightarrow> msgOk m \<Longrightarrow> inRange st (T m st)"
    and routes: "routerOk st \<Longrightarrow> msgOk m \<Longrightarrow> routes m (T m st) (f m st) st"
begin

lemma same: "sameFrame st st' \<Longrightarrow> T m st' = T m st"
  using framed [of m] by (simp add: framed_def)

end

text \<open>Two senders after each other, the first with a clone.\<close>

locale two_ways = first: sender f T + second: sender g U for f T g U
begin

lemma in_turn:
  assumes "routerOk st" "msgOk m"
  shows "routes m (T m st @ U m st)
    (do { (m', st1) \<leftarrow> cloneMessage m st; (_, st2) \<leftarrow> f m' st1; g m st2 }) st"
proof -
  let ?st = "happen m [] 0 (Suc 0) [] st"
  have fr: "sameFrame st ?st" by (rule sameFrame_happen)
  obtain b st1 es where st1: "f m ?st = Some (b, st1)" "routed m (T m st) es ?st st1"
    using first.routes [of ?st m] first.same [OF fr, of m] assms by (auto simp: routes_def)
  have fr1: "sameFrame st st1" by (rule sameFrame_trans [OF fr sameFrame_routed [OF st1(2)]])
  have "routerOk st1" using routed_ok [OF st1(2)] assms(1) by simp
  then obtain b' st2 fs where st2: "g m st1 = Some (b', st2)" "routed m (U m st) fs st1 st2"
    using second.routes [of st1 m] second.same [OF fr1, of m] assms(2) by (auto simp: routes_def)
  have "routed m (T m st @ U m st) (es @ fs) st st2"
    by (rule routed_clone [OF st1(2) st2(2) first.range [OF assms] second.range [OF assms]])
  then show ?thesis using st1(1) st2(1) clone_happen [OF assms(2), of st] by (auto simp: routes_def)
qed

end

lemma sendBoth_then:
  "sendBoth f g m st = sent (do { (m', st1) \<leftarrow> cloneMessage m st; (_, st2) \<leftarrow> f (Some m') st1; g (Some m) st2 })"
  by (simp add: sendBoth_def sent_def split_def)

lemma both_routes:
  assumes "two_ways (\<lambda>m. f (Some m)) T (\<lambda>m. g (Some m)) U" "routerOk st" "msgOk m"
  shows "routes m (T m st @ U m st) (sendBoth f g m st) st"
  unfolding sendBoth_then by (rule routes_sent) (rule two_ways.in_turn [OF assms])

definition subsT :: "JausMessage \<Rightarrow> Router \<Rightarrow> nat list" where
  "subsT m st = (if enabled (subsComms st) \<and> srcSubs m = mySubsystemId st \<and> covers st m SubsLayer then layerTargets st m SubsLayer else [])"

interpretation to_subs: sender "\<lambda>m. subsSendJausMessage (Some m)" subsT
proof
  show "framed (subsT m)" for m by (rule framedI) (simp add: subsT_def)
next
  fix m st assume *: "routerOk st" "msgOk m"
  show "inRange st (subsT m st)" using layerTargets_range [OF *(1), of m SubsLayer] by (simp add: subsT_def)
  show "routes m (subsT m st) (subsSendJausMessage (Some m) st) st"
    using subsSend_routed [OF *] by (auto simp: routes_def subsT_def)
qed

definition nodeT :: "JausMessage \<Rightarrow> Router \<Rightarrow> nat list" where
  "nodeT m st =
     (if \<not> enabled (nodeComms st) then []
      else if srcSubs m \<noteq> mySubsystemId st then (if covers st m NodeLayer then layerTargets st m NodeLayer else [])
      else if srcNode m \<noteq> myNodeId st then []
      else if dstSubs m \<notin> {mySubsystemId st, 255} then gatewayTargets st
      else if dstSubs m = 255
      then (if dstNode m = myNodeId st then gatewayTargets st
            else layerTargets st m NodeLayer @ (if dstNode m \<noteq> 255 \<and> copyToGateway st m then gatewayTargets st else []))
      else if dstNode m = myNodeId st then [] else layerTargets st m NodeLayer)"

interpretation to_nodes: sender "\<lambda>m. nodeSendJausMessage (Some m)" nodeT
proof
  show "framed (nodeT m)" for m
    by (rule framedI) (simp only: nodeT_def gatewayTargets_def copyToGateway_def covers.simps layerTargets.simps)
next
  fix m st assume *: "routerOk st" "msgOk m"
  show "inRange st (nodeT m st)"
    using layerTargets_range [OF *(1), of m NodeLayer] gateway_range [OF *(1)] by (auto simp: nodeT_def)
  have "inRange st (interfaces (nodeComms st))" using routerOk_mngrs(2) [OF *(1)] by (simp add: mngrOk_def)
  then have all: "routes m (interfaces (nodeComms st)) (nodeSendToAllInterfaces (Some m) st) st"
    unfolding nodeSendToAllInterfaces_def by (rule routes_all [OF *(2)])
  have one: "routes m (mapTargets (nodeComms st) (addrNode (destination m))) (sendToNodeX (Some m) st) st"
    using mapped_routed [OF routerOk_mngrs(2) [OF *(1)], where k = "addrNode (destination m)" and m = m]
    by (auto simp: routes_def sendToNodeX_def)
  have gate: "routes m (gatewayTargets st) (sendToSubsystemGateway (Some m) st) st"
    using gateway_routed [OF *(1)] by (auto simp: routes_def)
  have every: "routes m (mapTargets (nodeComms st) (addrNode (destination m)) @ (if copyToGateway st m then gatewayTargets st else []))
      (sendToNodeXEverywhere m st) st"
    using everywhere_routed [OF *] by (auto simp: routes_def)
  have ids: "myNodeId st \<noteq> 255" "mySubsystemId st \<noteq> 255" using *(1) by (auto simp: routerOk_def)
  show "routes m (nodeT m st) (nodeSendJausMessage (Some m) st) st"
    using all one gate every routes_reject routes_destroy ids unfolding nodeSendJausMessage_def nodeT_def by simp
qed

text \<open>Delivery on this node: by broadcast, or to one component if it is known.\<close>

definition localT :: "JausMessage \<Rightarrow> Router \<Rightarrow> nat list" where
  "localT m st =
     (if dstCmpt m = 255 \<or> dstInst m = 255 then interfaces (cmptComms st)
      else if dstSubs m = 255 \<or> dstNode m \<in> {myNodeId st, 255}
      then mapTargets (cmptComms st) (jausAddressHash (hereAddress st (destination m))) else [])"

lemma localT_sub: "routerOk st \<Longrightarrow> set (localT m st) \<subseteq> set (interfaces (cmptComms st))"
  using mapTargets_sub [OF routerOk_mngrs(3), of st] by (auto simp: localT_def)

lemma localT_range: "routerOk st \<Longrightarrow> inRange st (localT m st)"
  using localT_sub [of st m] routerOk_mngrs(3) [of st] by (auto simp: mngrOk_def)

lemma localT_covers: "covers st m CmptLayer \<Longrightarrow> localT m st = layerTargets st m CmptLayer"
  by (auto simp: localT_def)

lemma here_same:
  assumes "uint (addrSubsystem a) = mySubsystemId st" "uint (addrNode a) = myNodeId st"
  shows "hereAddress st a = a"
  by (simp add: hereAddress_def assms [symmetric])

lemma cmptAll_routes:
  assumes "routerOk st" "msgOk m"
  shows "routes m (interfaces (cmptComms st)) (cmptSendToAllInterfaces (Some m) st) st"
  unfolding cmptSendToAllInterfaces_def
  using routerOk_mngrs(3) [OF assms(1)] by (intro routes_all [OF assms(2)]) (simp add: mngrOk_def)

lemma sendToComponentX_routes:
  assumes "routerOk st" "msgOk m" "dstSubs m \<in> {mySubsystemId st, 255}" "dstCmpt m \<noteq> 255"
  shows "routes m (localT m st) (sendToComponentX (Some m) st) st"
proof (cases "dstInst m = 255")
  case True
  then show ?thesis using cmptAll_routes [OF assms(1,2)] by (simp add: sendToComponentX_def localT_def)
next
  case False
  let ?a = "if dstSubs m = 255 \<or> dstNode m = 255 then hereAddress st (destination m) else destination m"
  have eq: "localT m st = mapTargets (cmptComms st) (jausAddressHash ?a)"
  proof (cases "dstSubs m = 255 \<or> dstNode m \<in> {myNodeId st, 255}")
    case True
    have "?a = hereAddress st (destination m)"
      using True assms(3) here_same [of "destination m" st] by auto
    then show ?thesis using True False assms(4) by (simp add: localT_def)
  next
    case other: False
    then have "interfaceMap (cmptComms st) (jausAddressHash (destination m)) = None"
      using assms(1) by (cases "interfaceMap (cmptComms st) (jausAddressHash (destination m))") (auto simp: routerOk_def cmptMapOk_def)
    then show ?thesis using False other assms(4) by (auto simp: localT_def mapTargets_def mapAt_def)
  qed
  show ?thesis
  proof (cases "interfaceMap (cmptComms st) (jausAddressHash ?a)")
    case None
    then show ?thesis
      using False routes_destroy [of m False st] unfolding eq
      by (auto simp: sendToComponentX_def Let_def mapTargets_def mapAt_def hereAddress_def [symmetric])
  next
    case (Some p)
    then obtain i where i: "p = Some i" using assms(1) by (cases p) (auto simp: routerOk_def cmptMapOk_def)
    have "i < length (transports st)"
      using Some i by (intro mapAt_range [OF routerOk_mngrs(3) [OF assms(1)], of "jausAddressHash ?a"]) (simp add: mapAt_def)
    then have "\<exists>st'. queueJausMessage i m st = Some st' \<and> routed m [i] [] st st'" by (rule queue_routed)
    then show ?thesis
      using False Some i unfolding eq
      by (auto simp: routes_def sendToComponentX_def Let_def mapTargets_def mapAt_def hereAddress_def [symmetric])
  qed
qed

definition cmptT :: "JausMessage \<Rightarrow> Router \<Rightarrow> nat list" where
  "cmptT m st =
     (if dstSubs m \<in> {mySubsystemId st, 255} \<and> \<not> (srcSubs m = mySubsystemId st \<and> srcNode m = myNodeId st)
      then localT m st else [])"

interpretation to_cmpts: sender "\<lambda>m. cmptSendJausMessage (Some m)" cmptT
proof
  show "framed (cmptT m)" for m
    by (rule framedI) (simp add: cmptT_def localT_def hereAddress_def)
next
  fix m st assume *: "routerOk st" "msgOk m"
  show "inRange st (cmptT m st)" using localT_range [OF *(1), of m] by (auto simp: cmptT_def)
  have "localT m st = interfaces (cmptComms st)" if "dstCmpt m = 255 \<or> dstInst m = 255" using that by (auto simp: localT_def)
  then show "routes m (cmptT m st) (cmptSendJausMessage (Some m) st) st"
    using cmptAll_routes [OF *] sendToComponentX_routes [OF *] routes_reject
    unfolding cmptSendJausMessage_def cmptT_def by auto
qed

section \<open>Entering the router\<close>

text \<open>A layer's interfaces, when the message is for that layer.\<close>

abbreviation (input) ifCovers :: "Router \<Rightarrow> JausMessage \<Rightarrow> Layer \<Rightarrow> nat list \<Rightarrow> nat list" where
  "ifCovers st m L is \<equiv> (if covers st m L then is else [])"

definition subsEntryT :: "JausMessage \<Rightarrow> Router \<Rightarrow> nat list" where
  "subsEntryT m st =
     (if srcSubs m = mySubsystemId st then [] else ifCovers st m NodeLayer (nodeT m st) @ ifCovers st m CmptLayer (cmptT m st))"

lemma routerOk_ids: "routerOk st \<Longrightarrow> myNodeId st \<noteq> 255 \<and> mySubsystemId st \<noteq> 255"
  by (auto simp: routerOk_def)

lemmas single_routes = to_subs.routes to_nodes.routes to_cmpts.routes

interpretation nodes_cmpts: two_ways "\<lambda>m. nodeSendJausMessage (Some m)" nodeT "\<lambda>m. cmptSendJausMessage (Some m)" cmptT
  by unfold_locales

interpretation subs_cmpts: two_ways "\<lambda>m. subsSendJausMessage (Some m)" subsT "\<lambda>m. cmptSendJausMessage (Some m)" cmptT
  by unfold_locales

interpretation subs_nodes: two_ways "\<lambda>m. subsSendJausMessage (Some m)" subsT "\<lambda>m. nodeSendJausMessage (Some m)" nodeT
  by unfold_locales

lemma subsEntry_routes:
  assumes "routerOk st" "msgOk m"
  shows "routes m (subsEntryT m st) (routeSubsystemSourceMessage (Some m) st) st"
  using both_routes [OF nodes_cmpts.two_ways_axioms assms] single_routes [OF assms] routes_reject [of m] routerOk_ids [OF assms(1)]
  unfolding routeSubsystemSourceMessage_def subsEntryT_def by (auto intro!: routes_sent)

definition nodeEntryT :: "JausMessage \<Rightarrow> Router \<Rightarrow> nat list" where
  "nodeEntryT m st =
     (if srcSubs m = mySubsystemId st
      then (if srcNode m = myNodeId st then [] else ifCovers st m SubsLayer (subsT m st) @ ifCovers st m CmptLayer (cmptT m st))
      else ifCovers st m CmptLayer (cmptT m st))"

lemma nodeEntry_routes:
  assumes "routerOk st" "msgOk m"
  shows "routes m (nodeEntryT m st) (routeNodeSourceMessage (Some m) st) st"
  using both_routes [OF subs_cmpts.two_ways_axioms assms] single_routes [OF assms] routes_reject [of m] routerOk_ids [OF assms(1)]
  unfolding routeNodeSourceMessage_def nodeEntryT_def by (auto intro!: routes_sent)

definition cmptEntryT :: "JausMessage \<Rightarrow> Router \<Rightarrow> nat list" where
  "cmptEntryT m st =
     (if srcSubs m \<noteq> mySubsystemId st \<or> srcNode m \<noteq> myNodeId st then []
      else if dstSubs m = mySubsystemId st then (if dstNode m = myNodeId st then [] else nodeT m st)
      else if enabled (subsComms st) then subsT m st @ ifCovers st m NodeLayer (nodeT m st) else nodeT m st)"

lemma communicator_routes:
  assumes "routerOk st" "msgOk m" "srcSubs m = mySubsystemId st" "dstSubs m \<noteq> mySubsystemId st"
  shows "routes m (if enabled (subsComms st) then subsT m st @ ifCovers st m NodeLayer (nodeT m st) else nodeT m st)
    (sendToCommunicator (Some m) st) st"
  using both_routes [OF subs_nodes.two_ways_axioms assms(1,2)] single_routes [OF assms(1,2)] assms(3,4) routerOk_ids [OF assms(1)]
  unfolding sendToCommunicator_def by (auto intro!: routes_sent)

interpretation to_router: sender "\<lambda>m. routeComponentSourceMessage (Some m)" cmptEntryT
proof
  fix m
  have "cmptEntryT m st' = cmptEntryT m st" if "sameFrame st st'" for st st'
  proof -
    have "mySubsystemId st' = mySubsystemId st" "myNodeId st' = myNodeId st" "subsComms st' = subsComms st"
      using that by (simp_all add: sameFrame_def)
    then show ?thesis
      using to_subs.same [OF that, of m] to_nodes.same [OF that, of m] by (simp add: cmptEntryT_def)
  qed
  then show "framed (cmptEntryT m)" by (simp add: framed_def)
next
  fix m st assume *: "routerOk st" "msgOk m"
  show "inRange st (cmptEntryT m st)"
    using to_subs.range [OF *] to_nodes.range [OF *] by (auto simp: cmptEntryT_def)
  show "routes m (cmptEntryT m st) (routeComponentSourceMessage (Some m) st) st"
    using communicator_routes [OF *] single_routes(2) [OF *] routes_reject [of m]
    unfolding routeComponentSourceMessage_def cmptEntryT_def by (auto intro!: routes_sent)
qed

lemma deliver_routes:
  assumes "routerOk st" "msgOk m" "dstSubs m \<in> {mySubsystemId st, 255}"
  shows "routes m (localT m st) (deliverLocally m st) st"
  using sendToComponentX_routes [OF assms] cmptAll_routes [OF assms(1,2)]
  by (cases "dstCmpt m = 255") (simp_all add: deliverLocally_def localT_def)

text \<open>Delivery on this node as a sender; a message for another subsystem does not get here.\<close>

interpretation to_here: sender "\<lambda>m st. if dstSubs m \<in> {mySubsystemId st, 255} then deliverLocally m st else reject [] m st"
  "\<lambda>m st. if dstSubs m \<in> {mySubsystemId st, 255} then localT m st else []"
proof
  show "framed (\<lambda>st. if dstSubs m \<in> {mySubsystemId st, 255} then localT m st else [])" for m
    by (rule framedI) (simp add: localT_def hereAddress_def)
next
  fix m st assume *: "routerOk st" "msgOk m"
  show "inRange st (if dstSubs m \<in> {mySubsystemId st, 255} then localT m st else [])"
    using localT_range [OF *(1), of m] by auto
  show "routes m (if dstSubs m \<in> {mySubsystemId st, 255} then localT m st else [])
      (if dstSubs m \<in> {mySubsystemId st, 255} then deliverLocally m st else reject [] m st) st"
    using deliver_routes [OF *] routes_reject [of m] by simp
qed

interpretation router_here: two_ways "\<lambda>m. routeComponentSourceMessage (Some m)" cmptEntryT
  "\<lambda>m st. if dstSubs m \<in> {mySubsystemId st, 255} then deliverLocally m st else reject [] m st"
  "\<lambda>m st. if dstSubs m \<in> {mySubsystemId st, 255} then localT m st else []"
  by unfold_locales

section \<open>Receiving\<close>

fun receiveAt :: "Layer \<Rightarrow> JausMessage option \<Rightarrow> nat option \<Rightarrow> Router \<Rightarrow> (bool \<times> Router) exec" where
  "receiveAt SubsLayer = subsReceiveJausMessage"
| "receiveAt NodeLayer = nodeReceiveJausMessage"
| "receiveAt CmptLayer = cmptReceiveJausMessage"

text \<open>What a manager learns from a message it accepts: the interface that leads to the source.\<close>

fun learns :: "Router \<Rightarrow> JausMessage \<Rightarrow> Layer \<Rightarrow> bool" where
  "learns st m SubsLayer \<longleftrightarrow> enabled (subsComms st) \<and> srcSubs m \<noteq> mySubsystemId st"
| "learns st m NodeLayer \<longleftrightarrow> enabled (nodeComms st) \<and> srcSubs m = mySubsystemId st \<and> srcNode m \<noteq> myNodeId st"
| "learns st m CmptLayer \<longleftrightarrow> srcSubs m = mySubsystemId st \<and> srcNode m = myNodeId st"

fun learn :: "Layer \<Rightarrow> JausMessage \<Rightarrow> nat \<Rightarrow> Router \<Rightarrow> Router" where
  "learn SubsLayer m i st = (if \<not> learns st m SubsLayer then st else st\<lparr>subsComms := (subsComms st)\<lparr>interfaceMap :=
     (interfaceMap (subsComms st))(addrSubsystem (source m) \<mapsto> Some i)\<rparr>\<rparr>)"
| "learn NodeLayer m i st = (if \<not> learns st m NodeLayer then st else st\<lparr>nodeComms := (nodeComms st)\<lparr>interfaceMap :=
     (interfaceMap (nodeComms st))(addrNode (source m) \<mapsto> Some i)\<rparr>\<rparr>)"
| "learn CmptLayer m i st = (if \<not> learns st m CmptLayer then st else st\<lparr>cmptComms := (cmptComms st)\<lparr>interfaceMap :=
     (interfaceMap (cmptComms st))(jausAddressHash (source m) \<mapsto> Some i)\<rparr>\<rparr>)"

lemma learn_same [simp]:
  "mySubsystemId (learn L m i st) = mySubsystemId st" "myNodeId (learn L m i st) = myNodeId st"
  "transports (learn L m i st) = transports st" "destroyed (learn L m i st) = destroyed st" "clones (learn L m i st) = clones st"
  "systemTree (learn L m i st) = systemTree st" "subsystemGatewayInterface (learn L m i st) = subsystemGatewayInterface st"
  "layerInterfaces (learn L m i st) L' = layerInterfaces st L'"
  "enabled (subsComms (learn L m i st)) = enabled (subsComms st)" "enabled (nodeComms (learn L m i st)) = enabled (nodeComms st)"
  "covers (learn L m i st) m' L' = covers st m' L'" "errorEvents (learn L m i st) = errorEvents st"
  by (cases L; cases L'; simp)+

lemma routerOk_learn:
  assumes "routerOk st" "i \<in> set (layerInterfaces st L)"
  shows "routerOk (learn L m i st)"
proof (cases L)
  case CmptLayer
  then show ?thesis
    using assms by (auto simp: routerOk_def mngrOk_def cmptMapOk_def dest!: jausAddressHash_inj)
qed (use assms in \<open>auto simp: routerOk_def mngrOk_def cmptMapOk_def\<close>)

text \<open>Where the copies of a received message go.\<close>

fun entryT :: "Layer \<Rightarrow> JausMessage \<Rightarrow> Router \<Rightarrow> nat list" where
  "entryT SubsLayer m st = (if enabled (subsComms st) then subsEntryT m st else [])"
| "entryT NodeLayer m st = (if enabled (nodeComms st) then nodeEntryT m st else [])"
| "entryT CmptLayer m st =
     (if learns st m CmptLayer
      then cmptEntryT m st @ (if dstSubs m \<in> {mySubsystemId st, 255} then localT m st else []) else [])"

lemma subsReceive_routes:
  assumes "routerOk st" "msgOk m" "i \<in> set (interfaces (subsComms st))"
  defines "st1 \<equiv> learn SubsLayer m i st"
  shows "routes m (entryT SubsLayer m st1) (subsReceiveJausMessage (Some m) (Some i) st) st1"
proof -
  have "routerOk st1" unfolding st1_def using assms(1,3) by (intro routerOk_learn) simp_all
  from subsEntry_routes [OF this assms(2)] show ?thesis
    using routes_reject [of m] routes_destroy [of m False st]
    unfolding subsReceiveJausMessage_def st1_def by (auto simp: subsEntryT_def Let_def intro: routes_sent)
qed

lemma nodeReceive_routes:
  assumes "routerOk st" "msgOk m" "i \<in> set (interfaces (nodeComms st))"
  defines "st1 \<equiv> learn NodeLayer m i st"
  shows "routes m (entryT NodeLayer m st1) (nodeReceiveJausMessage (Some m) (Some i) st) st1"
proof -
  have "routerOk st1" unfolding st1_def using assms(1,3) by (intro routerOk_learn) simp_all
  from nodeEntry_routes [OF this assms(2)] show ?thesis
    using routes_reject [of m] routes_destroy [of m False st] routerOk_ids [OF assms(1)]
    unfolding nodeReceiveJausMessage_def st1_def by (auto simp: nodeEntryT_def Let_def intro: routes_sent)
qed

lemma cmptReceive_routes:
  assumes "routerOk st" "msgOk m" "i \<in> set (interfaces (cmptComms st))"
  defines "st1 \<equiv> learn CmptLayer m i st"
  shows "routes m (entryT CmptLayer m st1) (cmptReceiveJausMessage (Some m) (Some i) st) st1"
proof (cases "learns st m CmptLayer")
  case False
  then show ?thesis using routes_reject [of m] unfolding cmptReceiveJausMessage_def st1_def by auto
next
  case True
  have ok: "routerOk st1" unfolding st1_def using assms(1,3) by (intro routerOk_learn) simp_all
  have st1: "st1 = st\<lparr>cmptComms := (cmptComms st)\<lparr>interfaceMap :=
     (interfaceMap (cmptComms st))(jausAddressHash (source m) \<mapsto> Some i)\<rparr>\<rparr>" using True by (simp add: st1_def)
  have ids: "mySubsystemId st1 = mySubsystemId st" "myNodeId st1 = myNodeId st" by (simp_all add: st1_def)
  consider (here) "dstSubs m = mySubsystemId st" "dstNode m = myNodeId st"
    | (both) "dstSubs m \<in> {mySubsystemId st, 255}" "\<not> (dstSubs m = mySubsystemId st \<and> dstNode m = myNodeId st)"
    | (away) "dstSubs m \<notin> {mySubsystemId st, 255}" by blast
  then show ?thesis
  proof cases
    case here
    then have "cmptReceiveJausMessage (Some m) (Some i) st = deliverLocally m st1"
      using True by (simp add: cmptReceiveJausMessage_def st1)
    moreover have "entryT CmptLayer m st1 = localT m st1" using here True ids by (simp add: cmptEntryT_def)
    ultimately show ?thesis using deliver_routes [OF ok assms(2)] here ids by simp
  next
    case both
    let ?d = "\<lambda>m st. if dstSubs m \<in> {mySubsystemId st, 255} then deliverLocally m st else reject [] m st"
    let ?D = "\<lambda>m st. if dstSubs m \<in> {mySubsystemId st, 255} then localT m st else []"
    have out: "routes m (cmptEntryT m st1 @ ?D m st1)
        (do { (m', st2) \<leftarrow> cloneMessage m st1; (_, st3) \<leftarrow> routeComponentSourceMessage (Some m') st2; ?d m st3 }) st1"
      by (rule router_here.in_turn [OF ok assms(2)])
    have "(do { (m', st2) \<leftarrow> cloneMessage m st1; (_, st3) \<leftarrow> routeComponentSourceMessage (Some m') st2; ?d m st3 }) =
        cmptReceiveJausMessage (Some m) (Some i) st"
    proof -
      have same: "?d m st3 = deliverLocally m st3" if "routeComponentSourceMessage (Some m) (happen m [] 0 (Suc 0) [] st1) = Some (b, st3)" for b st3
      proof -
        have "sameFrame (happen m [] 0 (Suc 0) [] st1) st3"
          using to_router.routes [OF _ assms(2), of "happen m [] 0 (Suc 0) [] st1"] ok that
          by (auto simp: routes_def dest: sameFrame_routed)
        then show ?thesis using both ids by (simp add: sameFrame_def)
      qed
      have "cmptReceiveJausMessage (Some m) (Some i) st =
          (do { (m', st2) \<leftarrow> cloneMessage m st1; (_, st3) \<leftarrow> routeComponentSourceMessage (Some m') st2; deliverLocally m st3 })"
        using True both by (auto simp: cmptReceiveJausMessage_def st1 Let_def)
      then show ?thesis
        using same by (cases "routeComponentSourceMessage (Some m) (happen m [] 0 (Suc 0) [] st1)")
          (auto simp: clone_happen [OF assms(2)])
    qed
    then show ?thesis using out both True ids by simp
  next
    case away
    have "cmptReceiveJausMessage (Some m) (Some i) st =
        do { (_, st2) \<leftarrow> routeComponentSourceMessage (Some m) st1; Some (False, st2) }"
      using True away by (auto simp: cmptReceiveJausMessage_def st1)
    then show ?thesis
      using to_router.routes [OF ok assms(2)] True away ids by (auto simp: routes_def)
  qed
qed

lemma receive_routes:
  assumes "routerOk st" "msgOk m" "i \<in> set (layerInterfaces st L)"
  shows "routes m (entryT L m (learn L m i st)) (receiveAt L (Some m) (Some i) st) (learn L m i st)"
  using assms subsReceive_routes nodeReceive_routes cmptReceive_routes by (cases L) simp_all

end
