(* ===== verification/MessageRouting.thy ===== *)
theory MessageRouting
  imports RoutingLaws
begin

text \<open>
  The properties of the message router: which interfaces a message reaches, that every copy has one owner, that a
  message is never sent back into the layer it came from, how components of one node reach each other, and that the
  gateway to other subsystems is never learned.
\<close>

section \<open>The layers a message is passed to\<close>

text \<open>
  A message comes from a layer when its source lies there; a message of another subsystem can also come in through
  a node, which has relayed it.
\<close>

fun comesFrom :: "Router \<Rightarrow> JausMessage \<Rightarrow> Layer \<Rightarrow> bool" where
  "comesFrom st m SubsLayer \<longleftrightarrow> srcSubs m \<noteq> mySubsystemId st"
| "comesFrom st m NodeLayer \<longleftrightarrow> srcSubs m \<noteq> mySubsystemId st \<or> srcNode m \<noteq> myNodeId st"
| "comesFrom st m CmptLayer \<longleftrightarrow> srcSubs m = mySubsystemId st \<and> srcNode m = myNodeId st"

definition passes :: "Router \<Rightarrow> JausMessage \<Rightarrow> Layer \<Rightarrow> Layer \<Rightarrow> bool" where
  "passes st m L L' \<longleftrightarrow> L' \<noteq> L \<and> covers st m L' \<and> \<not> (L = NodeLayer \<and> L' = SubsLayer \<and> srcSubs m \<noteq> mySubsystemId st)"

definition passedOn :: "Router \<Rightarrow> JausMessage \<Rightarrow> Layer \<Rightarrow> nat list" where
  "passedOn st m L = concat (map (layerTargets st m) (filter (passes st m L) [SubsLayer, NodeLayer, CmptLayer]))"

lemma layerTargets_learn: "L' \<noteq> L \<Longrightarrow> layerTargets (learn L m i st) m' L' = layerTargets st m' L'"
  by (cases L; cases L') (simp_all add: hereAddress_def)

lemma gateway_enabled [simp]: "enabled (subsComms st) \<Longrightarrow> gatewayTargets st = []"
  by (simp add: gatewayTargets_def)

lemma entry_outside:
  assumes "routerOk st" "enabled (subsComms st)" "enabled (nodeComms st)" "comesFrom st m L" "L \<noteq> CmptLayer"
  shows "entryT L m st = passedOn st m L"
proof (cases L)
  case SubsLayer
  have "cmptT m st = layerTargets st m CmptLayer" if "covers st m CmptLayer"
    using assms(4) SubsLayer that localT_covers [OF that] by (simp add: cmptT_def)
  then show ?thesis using assms SubsLayer by (auto simp: subsEntryT_def passedOn_def passes_def nodeT_def)
next
  case NodeLayer
  have "cmptT m st = layerTargets st m CmptLayer" if "covers st m CmptLayer"
    using assms(4) NodeLayer that localT_covers [OF that] by (auto simp: cmptT_def)
  then show ?thesis using assms NodeLayer by (auto simp: nodeEntryT_def passedOn_def passes_def subsT_def)
qed (use assms in simp)

lemma entry_component:
  assumes "routerOk st" "enabled (subsComms st)" "enabled (nodeComms st)" "comesFrom st m CmptLayer"
  shows "entryT CmptLayer m st = passedOn st m CmptLayer @ (if dstSubs m \<in> {mySubsystemId st, 255} then localT m st else [])"
  using assms routerOk_ids [OF assms(1)]
  by (auto simp: cmptEntryT_def passedOn_def passes_def nodeT_def subsT_def)

lemma passedOn_learn: "passedOn (learn L m i st) m L = passedOn st m L"
proof -
  have "passes (learn L m i st) m L = passes st m L" by (auto simp: passes_def fun_eq_iff)
  moreover have "map (layerTargets (learn L m i st) m) (filter (passes st m L) [SubsLayer, NodeLayer, CmptLayer]) =
      map (layerTargets st m) (filter (passes st m L) [SubsLayer, NodeLayer, CmptLayer])"
  proof (rule map_cong [OF refl], rule layerTargets_learn)
    show "L' \<noteq> L" if "L' \<in> set (filter (passes st m L) [SubsLayer, NodeLayer, CmptLayer])" for L'
      using that unfolding set_filter by (simp add: passes_def)
  qed
  ultimately show ?thesis unfolding passedOn_def by (simp only:)
qed

lemma comesFrom_learn [simp]: "comesFrom (learn L m i st) m' L' = comesFrom st m' L'"
  by (cases L') simp_all

declare learn.simps [simp del] entryT.simps [simp del]

section \<open>Properties\<close>

text \<open>
  C6. The router passes a message on by its destination. With subsystem and node communication enabled, a message
  that comes in from another subsystem or node is queued at exactly the interfaces \<open>passedOn\<close> names, those that lead to its destination in
  the other layers: the subsystem layer when it is for another subsystem or all of them, the node layer when it is
  for another node here, the component layer when it is for this node (a broadcast takes every interface of the
  layer, otherwise the one that was learned). A message of another subsystem that a node relayed is not sent to
  other subsystems. A message of a local component is queued at the interfaces \<open>passedOn\<close> names and, when it is for this subsystem or all
  of them, also at those \<open>localT\<close> names on this node, which is more than its destination asks for when it is for another node
  (\<open>broadcast_delivered_on_wrong_node\<close>). The manager learns the interface of the source, and the rest of the state stays.
\<close>

theorem router_passes_on:
  assumes "routerOk st" "msgOk m" "enabled (subsComms st)" "enabled (nodeComms st)"
    "comesFrom st m L" "i \<in> set (layerInterfaces st L)"
  shows "\<exists>b st' es. receiveAt L (Some m) (Some i) st = Some (b, st') \<and> routerOk st' \<and>
    routed m (passedOn st m L @
        (if L = CmptLayer \<and> dstSubs m \<in> {mySubsystemId st, 255} then localT m (learn L m i st) else []))
      es (learn L m i st) st'"
proof -
  let ?st = "learn L m i st"
  have ok: "routerOk ?st" by (rule routerOk_learn [OF assms(1,6)])
  have "entryT L m ?st = passedOn st m L @
      (if L = CmptLayer \<and> dstSubs m \<in> {mySubsystemId st, 255} then localT m (learn L m i st) else [])"
    using entry_outside [OF ok, of m L] entry_component [OF ok, of m] passedOn_learn [of L m i st] assms(3-5)
    by (cases "L = CmptLayer") simp_all
  then show ?thesis
    using receive_routes [OF assms(1,2,6)] ok by (auto simp: routes_def dest: routed_ok)
qed

text \<open>A small node manager: one interface per layer, all running; node 2 is known at interface 1.\<close>

definition smallRouter :: Router where
  "smallRouter = \<lparr>mySubsystemId = 1, myNodeId = 1,
     subsComms = \<lparr>enabled = True, interfaces = [0], interfaceMap = (\<lambda>_. None)\<rparr>,
     nodeComms = \<lparr>enabled = True, interfaces = [1], interfaceMap = [2 \<mapsto> Some 1]\<rparr>,
     subsystemGatewayInterface = None,
     cmptComms = \<lparr>enabled = True, interfaces = [2], interfaceMap = (\<lambda>_. None)\<rparr>,
     transports = replicate 3 \<lparr>infName = [], running = True, infQueue = []\<rparr>,
     systemTree = newSystemTree 1 1, errorEvents = [], destroyed = [], clones = 0\<rparr>"

definition smallMessage :: "JausAddress \<Rightarrow> JausAddress \<Rightarrow> JausMessage" where
  "smallMessage src dst = \<lparr>properties = defaultProperties, commandCode = 0x2202, destination = dst, source = src,
     dataSize = 0, dataFlag = 0, sequenceNumber = 0, data = None\<rparr>"

lemma smallRouter_simps [simp]:
  "mySubsystemId smallRouter = 1" "myNodeId smallRouter = 1" "enabled (subsComms smallRouter)" "enabled (nodeComms smallRouter)"
  "interfaces (subsComms smallRouter) = [0]" "interfaces (nodeComms smallRouter) = [1]" "interfaces (cmptComms smallRouter) = [2]"
  "length (transports smallRouter) = 3" "clones smallRouter = 0" "subsystemGatewayInterface smallRouter = None"
  by (simp_all add: smallRouter_def)

lemma smallMessage_simps [simp]: "source (smallMessage src dst) = src" "destination (smallMessage src dst) = dst"
  by (simp_all add: smallMessage_def)

lemma msgOk_small [simp]: "msgOk (smallMessage src dst)"
  by (simp add: msgOk_def jausMessageClone_def smallMessage_def)

lemma routerOk_small: "routerOk smallRouter"
  by (simp add: routerOk_def smallRouter_def mngrOk_def cmptMapOk_def treeOk_new)

abbreviation (input) addr :: "u8 \<Rightarrow> u8 \<Rightarrow> u8 \<Rightarrow> u8 \<Rightarrow> JausAddress" where
  "addr s n c i \<equiv> \<lparr>addrSubsystem = s, addrNode = n, addrComponent = c, addrInstance = i\<rparr>"

theorem router_passes_on_witness:
  "\<exists>b st' es. receiveAt SubsLayer (Some (smallMessage (addr 7 1 1 1) (addr 255 2 1 1))) (Some 0) smallRouter = Some (b, st') \<and>
     routerOk st' \<and> routed (smallMessage (addr 7 1 1 1) (addr 255 2 1 1)) [1] es
       (learn SubsLayer (smallMessage (addr 7 1 1 1) (addr 255 2 1 1)) 0 smallRouter) st'"
proof -
  let ?m = "smallMessage (addr 7 1 1 1) (addr 255 2 1 1)"
  have "passedOn smallRouter ?m SubsLayer = [1]"
    by (simp add: passedOn_def passes_def mapTargets_def mapAt_def) (simp add: smallRouter_def)
  then show ?thesis
    using router_passes_on [OF routerOk_small, of ?m SubsLayer 0] by simp
qed

definition census :: "Router \<Rightarrow> nat" where
  "census st = sum_list (map (\<lambda>t. length (infQueue t)) (transports st)) + length (destroyed st)"

lemma census_push:
  assumes "i < length ts"
  shows "sum_list (map (\<lambda>t. length (infQueue t)) (ts[i := pushMessage m (ts ! i)])) =
    Suc (sum_list (map (\<lambda>t. length (infQueue t)) ts))"
  using assms
proof (induction ts arbitrary: i)
  case (Cons t ts)
  then show ?case by (cases i) (auto simp: pushMessage_def)
qed simp

lemma census_pushAll:
  assumes "\<forall>i \<in> set is. i < length ts"
  shows "sum_list (map (\<lambda>t. length (infQueue t)) (pushAll m is ts)) + stopped ts is =
    sum_list (map (\<lambda>t. length (infQueue t)) ts) + length is"
  using assms
proof (induction "is" arbitrary: ts)
  case Nil
  then show ?case by (simp add: stopped_def)
next
  case (Cons i "is")
  let ?ts = "ts[i := pushMessage m (ts ! i)]"
  have "stopped ?ts is = stopped ts is"
    using Cons.prems by (auto simp: stopped_def running_update intro!: arg_cong [of _ _ length] filter_cong)
  then show ?case
    using Cons.IH [of ?ts] Cons.IH [of ts] Cons.prems by (auto simp: census_push stopped_def)
qed

lemma census_routed:
  assumes "routed m is es st st'" "inRange st is"
  shows "census st' + clones st = census st + clones st' + 1"
  using assms census_pushAll [OF assms(2), of m] by (auto simp: routed_def census_def happen_def)

lemma entryT_range:
  assumes "routerOk st" "msgOk m"
  shows "inRange st (entryT L m st)"
  using to_subs.range [OF assms] to_nodes.range [OF assms] to_cmpts.range [OF assms] to_router.range [OF assms] localT_range [OF assms(1), of m]
  by (cases L) (auto simp: entryT.simps subsEntryT_def nodeEntryT_def)

text \<open>
  C16. Every copy of a message has one owner. Whatever message comes in at whichever interface, with the managers
  enabled or not, the call returns, and the messages that were waiting in the queues or have been destroyed grow
  in number by the message itself and the clones made: none is lost, none is queued or freed twice.
\<close>

theorem messages_have_one_owner:
  assumes "routerOk st" "msgOk m" "i \<in> set (layerInterfaces st L)"
  shows "\<exists>b st'. receiveAt L (Some m) (Some i) st = Some (b, st') \<and> routerOk st' \<and>
    census st' + clones st = census st + clones st' + 1"
proof -
  let ?st = "learn L m i st"
  have ok: "routerOk ?st" by (rule routerOk_learn [OF assms(1,3)])
  obtain b st' es where r: "receiveAt L (Some m) (Some i) st = Some (b, st')" "routed m (entryT L m ?st) es ?st st'"
    using receive_routes [OF assms] by (auto simp: routes_def)
  have "census st' + clones ?st = census ?st + clones st' + 1"
    by (rule census_routed [OF r(2) entryT_range [OF ok assms(2)]])
  then show ?thesis using r routed_ok [OF r(2)] ok by (simp add: census_def)
qed

lemma census_small: "census smallRouter = 0"
  by (simp add: smallRouter_def census_def numeral_3_eq_3)

theorem messages_have_one_owner_witness:
  "\<exists>b st'. receiveAt CmptLayer (Some (smallMessage (addr 1 1 40 1) (addr 255 255 255 255))) (Some 2) smallRouter = Some (b, st') \<and>
     routerOk st' \<and> census st' = clones st' + 1"
  using messages_have_one_owner [OF routerOk_small, of "smallMessage (addr 1 1 40 1) (addr 255 255 255 255)" 2 CmptLayer]
  by (simp add: census_small)

lemma entryT_outside:
  assumes "routerOk st" "L \<noteq> CmptLayer" "k \<in> set (entryT L m st)"
  shows "\<exists>L'. L' \<noteq> L \<and> k \<in> set (layerInterfaces st L')"
proof (cases L)
  case SubsLayer
  have "k \<in> set (interfaces (nodeComms st)) \<or> k \<in> set (interfaces (cmptComms st))"
    using assms(3) layerTargets_sub [OF assms(1), of m NodeLayer] localT_sub [OF assms(1), of m] SubsLayer
    by (auto simp: entryT.simps subsEntryT_def nodeT_def cmptT_def split: if_splits)
  then show ?thesis using SubsLayer by (metis Layer.distinct layerInterfaces.simps)
next
  case NodeLayer
  have "k \<in> set (interfaces (subsComms st)) \<or> k \<in> set (interfaces (cmptComms st))"
    using assms(3) layerTargets_sub [OF assms(1), of m SubsLayer] localT_sub [OF assms(1), of m] NodeLayer
    by (auto simp: entryT.simps nodeEntryT_def subsT_def cmptT_def split: if_splits)
  then show ?thesis using NodeLayer by (metis Layer.distinct layerInterfaces.simps)
qed (use assms(2) in simp)

text \<open>
  C28. A message never goes back into the layer it came from, so node managers do not send it in circles: after
  anything that comes in from another subsystem (or another node), the queues of all the interfaces that serve
  that layer only are as they were.
\<close>

theorem no_message_returns:
  assumes "routerOk st" "msgOk m" "L \<noteq> CmptLayer" "i \<in> set (layerInterfaces st L)"
    "k < length (transports st)" "\<forall>L'. L' \<noteq> L \<longrightarrow> k \<notin> set (layerInterfaces st L')"
  shows "\<exists>b st'. receiveAt L (Some m) (Some i) st = Some (b, st') \<and> transports st' ! k = transports st ! k"
proof -
  let ?st = "learn L m i st"
  have ok: "routerOk ?st" by (rule routerOk_learn [OF assms(1,4)])
  obtain b st' es where r: "receiveAt L (Some m) (Some i) st = Some (b, st')" "routed m (entryT L m ?st) es ?st st'"
    using receive_routes [OF assms(1,2,4)] by (auto simp: routes_def)
  have "k \<notin> set (entryT L m ?st)" using entryT_outside [OF ok assms(3)] assms(6) by auto
  then have "transports st' ! k = transports ?st ! k"
    using r(2) by (auto simp: routed_def happen_def pushAll_other)
  then show ?thesis using r(1) by simp
qed

theorem no_message_returns_witness:
  "\<exists>b st'. receiveAt NodeLayer (Some (smallMessage (addr 1 2 40 1) (addr 255 255 255 255))) (Some 1) smallRouter = Some (b, st') \<and>
     transports st' ! 1 = transports smallRouter ! 1"
proof (rule no_message_returns [OF routerOk_small])
  show "\<forall>L'. L' \<noteq> NodeLayer \<longrightarrow> 1 \<notin> set (layerInterfaces smallRouter L')"
  proof (intro allI impI)
    show "1 \<notin> set (layerInterfaces smallRouter L')" if "L' \<noteq> NodeLayer" for L'
      using that by (cases L') simp_all
  qed
qed simp_all

lemma uint_255: "uint (x :: u8) = 255 \<longleftrightarrow> x = 255"
  using uint_byte_eq [of x 255] by simp

text \<open>
  Components of one node reach each other. Once a component has sent anything through an interface that runs,
  a message that any component of the node sends to its address is queued at that interface once, and at no other.
\<close>

theorem local_delivery:
  assumes "routerOk st" "msgOk m1" "msgOk m2" "comesFrom st m1 CmptLayer" "comesFrom st m2 CmptLayer"
    "i \<in> set (interfaces (cmptComms st))" "j \<in> set (interfaces (cmptComms st))" "running (transports st ! i)"
    "destination m2 = source m1" "addrComponent (source m1) \<noteq> 255" "addrInstance (source m1) \<noteq> 255" "source m1 \<noteq> source m2"
  shows "\<exists>b1 st1 b2 st2. receiveAt CmptLayer (Some m1) (Some i) st = Some (b1, st1) \<and>
    receiveAt CmptLayer (Some m2) (Some j) st1 = Some (b2, st2) \<and>
    infQueue (transports st2 ! i) = infQueue (transports st1 ! i) @ [m2] \<and>
    (\<forall>k < length (transports st). k \<noteq> i \<longrightarrow> transports st2 ! k = transports st1 ! k)"
proof -
  let ?l1 = "learn CmptLayer m1 i st"
  have ok1: "routerOk ?l1" using assms(1,6) by (intro routerOk_learn) simp_all
  obtain b1 st1 es1 where r1: "receiveAt CmptLayer (Some m1) (Some i) st = Some (b1, st1)"
      "routed m1 (entryT CmptLayer m1 ?l1) es1 ?l1 st1"
    using receive_routes [OF assms(1,2), of i CmptLayer] assms(6) by (auto simp: routes_def)
  note same1 = routed_frame [OF r1(2)]
  let ?l2 = "learn CmptLayer m2 j st1"
  have okst1: "routerOk st1" using routed_ok [OF r1(2)] ok1 by simp
  have j1: "j \<in> set (layerInterfaces st1 CmptLayer)" using assms(4,7) same1 by (simp add: learn.simps)
  have ok2: "routerOk ?l2" by (rule routerOk_learn [OF okst1 j1])
  obtain b2 st2 es2 where r2: "receiveAt CmptLayer (Some m2) (Some j) st1 = Some (b2, st2)"
      "routed m2 (entryT CmptLayer m2 ?l2) es2 ?l2 st2"
    using receive_routes [OF okst1 assms(3) j1] by (auto simp: routes_def)
  have own: "comesFrom st1 m1 CmptLayer" "comesFrom st1 m2 CmptLayer" using assms(4,5) same1 by simp_all
  have dst: "uint (addrSubsystem (destination m2)) = mySubsystemId st1" "uint (addrNode (destination m2)) = myNodeId st1"
    using own(1) assms(9) by simp_all
  have "interfaceMap (cmptComms ?l2) (jausAddressHash (source m1)) = Some (Some i)"
    using own assms(4,12) same1 jausAddressHash_inj [of "source m1" "source m2"] by (auto simp: learn.simps)
  moreover have "hereAddress ?l2 (destination m2) = source m1"
    using dst assms(9) here_same [of "source m1" ?l2] by (simp)
  ultimately have "localT m2 ?l2 = [i]"
    using dst assms(9-11) by (simp add: localT_def mapTargets_def mapAt_def uint_255)
  then have "entryT CmptLayer m2 ?l2 = [i]" using own(2) dst by (simp add: entryT.simps cmptEntryT_def)
  then have "\<exists>d c. st2 = happen m2 [i] d c es2 ?l2" using r2(2) by (auto simp: routed_def)
  then have tr: "transports st2 = pushAll m2 [i] (transports st1)" by (auto simp: happen_def)
  have i: "i < length (transports st)" using routerOk_mngrs(3) [OF assms(1)] assms(6) by (simp add: mngrOk_def)
  have "running (transports st1 ! i)"
    using r1(2) i assms(8) by (auto simp: routed_def happen_def)
  then have "transports st2 = (transports st1)[i := pushMessage m2 (transports st1 ! i)]" using tr by simp
  moreover have "length (transports st1) = length (transports st)" using same1 by simp
  ultimately show ?thesis using r1(1) r2(1) i by (auto simp: pushMessage_def)
qed

theorem local_delivery_witness:
  "\<exists>b1 st1 b2 st2. receiveAt CmptLayer (Some (smallMessage (addr 1 1 40 1) (addr 1 1 1 1))) (Some 2) smallRouter = Some (b1, st1) \<and>
    receiveAt CmptLayer (Some (smallMessage (addr 1 1 41 1) (addr 1 1 40 1))) (Some 2) st1 = Some (b2, st2) \<and>
    infQueue (transports st2 ! 2) = infQueue (transports st1 ! 2) @ [smallMessage (addr 1 1 41 1) (addr 1 1 40 1)] \<and>
    (\<forall>k < length (transports smallRouter). k \<noteq> 2 \<longrightarrow> transports st2 ! k = transports st1 ! k)"
  by (rule local_delivery [OF routerOk_small]) (simp_all, simp add: smallRouter_def)

section \<open>What goes wrong\<close>

text \<open>
  A message to one node of every subsystem is delivered on the wrong node. When a local component sends to
  component \<open>c\<close> of node \<open>X\<close> of all subsystems, with \<open>X\<close> another node, the message is also
  queued for the component with these numbers on this node, because the look-up puts this node's number in
  the place of \<open>X\<close>.
\<close>

theorem broadcast_delivered_on_wrong_node:
  assumes "routerOk st" "msgOk m" "comesFrom st m CmptLayer" "j \<in> set (interfaces (cmptComms st))"
    "addrSubsystem (destination m) = 255" "dstNode m \<notin> {myNodeId st, 255}"
    "addrComponent (destination m) \<noteq> 255" "addrInstance (destination m) \<noteq> 255"
    "interfaceMap (cmptComms st) (jausAddressHash (hereAddress st (destination m))) = Some (Some i)"
    "running (transports st ! i)" "hereAddress st (destination m) \<noteq> source m"
  shows "\<exists>b st'. receiveAt CmptLayer (Some m) (Some j) st = Some (b, st') \<and> m \<in> set (infQueue (transports st' ! i))"
proof -
  let ?st = "learn CmptLayer m j st"
  have ok: "routerOk ?st" using assms(1,4) by (intro routerOk_learn) simp_all
  obtain b st' es where r: "receiveAt CmptLayer (Some m) (Some j) st = Some (b, st')" "routed m (entryT CmptLayer m ?st) es ?st st'"
    using receive_routes [OF assms(1,2), of j CmptLayer] assms(4) by (auto simp: routes_def)
  have "interfaceMap (cmptComms ?st) (jausAddressHash (hereAddress st (destination m))) = Some (Some i)"
    using assms(9,11) jausAddressHash_inj by (auto simp: learn.simps)
  then have "localT m ?st = [i]" using assms(5,7,8) by (simp add: localT_def mapTargets_def mapAt_def hereAddress_def uint_255)
  then have "i \<in> set (entryT CmptLayer m ?st)" using assms(3,5) by (simp add: entryT.simps)
  moreover have range: "inRange ?st (entryT CmptLayer m ?st)" by (rule entryT_range [OF ok assms(2)])
  ultimately have i: "i < length (transports st)" "0 < count_list (entryT CmptLayer m ?st) i"
    by (auto simp: count_list_0_iff neq0_conv [symmetric] simp del: neq0_conv)
  have "transports st' = pushAll m (entryT CmptLayer m ?st) (transports st)"
    using r(2) by (auto simp: routed_def happen_def)
  then have "transports st' ! i = (transports st ! i)\<lparr>infQueue :=
      infQueue (transports st ! i) @ replicate (count_list (entryT CmptLayer m ?st) i) m\<rparr>"
    using pushAll_queue [of "entryT CmptLayer m ?st" "transports st" i m] range i(1) assms(10) by simp
  then show ?thesis using r(1) i(2) by auto
qed

text \<open>In the small node manager, component 40 has been heard of at interface 2.\<close>

definition heardRouter :: Router where
  "heardRouter = learn CmptLayer (smallMessage (addr 1 1 40 1) (addr 1 1 1 1)) 2 smallRouter"

theorem broadcast_delivered_on_wrong_node_witness:
  "\<exists>b st'. receiveAt CmptLayer (Some (smallMessage (addr 1 1 41 1) (addr 255 3 40 1))) (Some 2) heardRouter = Some (b, st') \<and>
     smallMessage (addr 1 1 41 1) (addr 255 3 40 1) \<in> set (infQueue (transports st' ! 2))"
proof (rule broadcast_delivered_on_wrong_node)
  show "routerOk heardRouter" unfolding heardRouter_def by (rule routerOk_learn [OF routerOk_small]) simp
  show "running (transports heardRouter ! 2)" by (simp add: heardRouter_def smallRouter_def)
qed (simp_all add: heardRouter_def hereAddress_def learn.simps)

text \<open>
  The steps of a node manager: an interface hands in a message, takes one from its queue, a manager is switched on
  or off, the system tree changes.
\<close>

inductive routerStep :: "Router \<Rightarrow> Router \<Rightarrow> bool" where
  handIn: "msgOk m \<Longrightarrow> i \<in> set (layerInterfaces st L) \<Longrightarrow> receiveAt L (Some m) (Some i) st = Some (b, st') \<Longrightarrow> routerStep st st'"
| takeOut: "i < length (transports st) \<Longrightarrow>
    routerStep st (st\<lparr>transports := (transports st)[i := snd (popMessage (transports st ! i))]\<rparr>)"
| subsOn: "routerStep st (st\<lparr>subsComms := enable (subsComms st)\<rparr>)"
| subsOff: "routerStep st (st\<lparr>subsComms := disable (subsComms st)\<rparr>)"
| nodesOn: "routerStep st (st\<lparr>nodeComms := enable (nodeComms st)\<rparr>)"
| nodesOff: "routerStep st (st\<lparr>nodeComms := disable (nodeComms st)\<rparr>)"
| treeChange: "treeOk t \<Longrightarrow> routerStep st (st\<lparr>systemTree := t\<rparr>)"

inductive_cases routerStepE: "routerStep st st'"

lemma routerStep_inv:
  assumes "routerStep st st'" "routerOk st" "subsystemGatewayInterface st = None"
  shows "routerOk st' \<and> subsystemGatewayInterface st' = None"
  using assms
proof (induction rule: routerStep.induct)
  case (handIn m i st L b st')
  then obtain es where "routed m (entryT L m (learn L m i st)) es (learn L m i st) st'"
    using receive_routes [of st m i L] by (auto simp: routes_def)
  then show ?case
    using routed_ok routed_frame(7) routerOk_learn [OF handIn.prems(1) handIn.hyps(2)] handIn.prems(2) by force
qed (auto simp: routerOk_def mngrOk_def cmptMapOk_def enable_def disable_def)

lemma routerRun_inv:
  assumes "routerStep\<^sup>*\<^sup>* st st'" "routerOk st" "subsystemGatewayInterface st = None"
  shows "routerOk st' \<and> subsystemGatewayInterface st' = None"
  using assms by (induction rule: rtranclp_induct) (auto dest: routerStep_inv)



end
