(* ===== verification/EventMessages.thy ===== *)
theory EventMessages
  imports SubsystemMessages QueryMessages CommandCodes
begin

text \<open>
  The messages of the event mechanism that carry another message or a limit:
  \<open>libjaus/message/command/event/createEventMessage.c\<close>, \<open>cancelEventMessage.c\<close> and
  \<open>libjaus/message/inform/event/eventMessage.c\<close>, with the limits of \<open>libjaus/type/jausEventLimit.c\<close> and the
  base types \<open>jausLong.c\<close>, \<open>jausFloat.c\<close> and \<open>jausDouble.c\<close>, whose values are bit patterns here: they are
  read and written and no arithmetic is done with them.
\<close>

section \<open>The remaining base types\<close>

definition jausLongFromBuffer :: "host \<Rightarrow> bytes \<Rightarrow> nat \<Rightarrow> u32 \<Rightarrow> u64 option exec" where
  "jausLongFromBuffer h buf off bufferSizeBytes =
     (if bufferSizeBytes < 8 then Some None
      else do { src \<leftarrow> memRead buf off 8; Some (Some (hostWord h (jausEndianSafeCopy h src 8))) })"

definition jausLongToBuffer :: "host \<Rightarrow> u64 \<Rightarrow> bytes \<Rightarrow> nat \<Rightarrow> u32 \<Rightarrow> (bool \<times> bytes) exec" where
  "jausLongToBuffer h input buf off bufferSizeBytes =
     (if bufferSizeBytes < 8 then Some (False, buf)
      else do { buf' \<leftarrow> memWrite buf off (jausEndianSafeCopy h (hostBytes h 8 input) 8); Some (True, buf') })"

definition jausFloatFromBuffer :: "host \<Rightarrow> bytes \<Rightarrow> nat \<Rightarrow> u32 \<Rightarrow> u32 option exec" where
  "jausFloatFromBuffer h buf off bufferSizeBytes =
     (if bufferSizeBytes < 4 then Some None
      else do { src \<leftarrow> memRead buf off 4; Some (Some (hostWord h (jausEndianSafeCopy h src 4))) })"

definition jausFloatToBuffer :: "host \<Rightarrow> u32 \<Rightarrow> bytes \<Rightarrow> nat \<Rightarrow> u32 \<Rightarrow> (bool \<times> bytes) exec" where
  "jausFloatToBuffer h input buf off bufferSizeBytes =
     (if bufferSizeBytes < 4 then Some (False, buf)
      else do { buf' \<leftarrow> memWrite buf off (jausEndianSafeCopy h (hostBytes h 4 input) 4); Some (True, buf') })"

definition jausDoubleFromBuffer :: "host \<Rightarrow> bytes \<Rightarrow> nat \<Rightarrow> u32 \<Rightarrow> u64 option exec" where
  "jausDoubleFromBuffer h buf off bufferSizeBytes =
     (if bufferSizeBytes < 8 then Some None
      else do { src \<leftarrow> memRead buf off 8; Some (Some (hostWord h (jausEndianSafeCopy h src 8))) })"

definition jausDoubleToBuffer :: "host \<Rightarrow> u64 \<Rightarrow> bytes \<Rightarrow> nat \<Rightarrow> u32 \<Rightarrow> (bool \<times> bytes) exec" where
  "jausDoubleToBuffer h input buf off bufferSizeBytes =
     (if bufferSizeBytes < 8 then Some (False, buf)
      else do { buf' \<leftarrow> memWrite buf off (jausEndianSafeCopy h (hostBytes h 8 input) 8); Some (True, buf') })"

interpretation long: wire_codec 8 "bytesOfWord 8" wordOfBytes jausLongFromBuffer jausLongToBuffer
  by unfold_locales
    (auto simp: jausLongFromBuffer_def jausLongToBuffer_def wire_defs
      wordOfBytes_bytesOfWord bytesOfWord_wordOfBytes intro!: map_option_memRead_cong)

interpretation single_precision: wire_codec 4 "bytesOfWord 4" wordOfBytes jausFloatFromBuffer jausFloatToBuffer
  by unfold_locales
    (auto simp: jausFloatFromBuffer_def jausFloatToBuffer_def wire_defs
      wordOfBytes_bytesOfWord bytesOfWord_wordOfBytes intro!: map_option_memRead_cong)

interpretation double_precision: wire_codec 8 "bytesOfWord 8" wordOfBytes jausDoubleFromBuffer jausDoubleToBuffer
  by unfold_locales
    (auto simp: jausDoubleFromBuffer_def jausDoubleToBuffer_def wire_defs
      wordOfBytes_bytesOfWord bytesOfWord_wordOfBytes intro!: map_option_memRead_cong)

section \<open>Event limits\<close>

text \<open>
  The union \<open>value\<close> is its eight bytes, as a word of a little-endian host: a member of smaller width is the
  low part of the word, the colours of an RGB limit are its three low bytes.
\<close>

record JausEventLimit =
  limitDataType :: int
  limitUnion :: u64

abbreviation (input) EVENT_LIMIT_UNDEFINED_TYPE :: int where "EVENT_LIMIT_UNDEFINED_TYPE \<equiv> - 1"
abbreviation (input) EVENT_LIMIT_BYTE_TYPE :: int where "EVENT_LIMIT_BYTE_TYPE \<equiv> 0"
abbreviation (input) EVENT_LIMIT_SHORT_TYPE :: int where "EVENT_LIMIT_SHORT_TYPE \<equiv> 1"
abbreviation (input) EVENT_LIMIT_INTEGER_TYPE :: int where "EVENT_LIMIT_INTEGER_TYPE \<equiv> 2"
abbreviation (input) EVENT_LIMIT_LONG_TYPE :: int where "EVENT_LIMIT_LONG_TYPE \<equiv> 3"
abbreviation (input) EVENT_LIMIT_UNSIGNED_SHORT_TYPE :: int where "EVENT_LIMIT_UNSIGNED_SHORT_TYPE \<equiv> 4"
abbreviation (input) EVENT_LIMIT_UNSIGNED_INTEGER_TYPE :: int where "EVENT_LIMIT_UNSIGNED_INTEGER_TYPE \<equiv> 5"
abbreviation (input) EVENT_LIMIT_UNSIGNED_LONG_TYPE :: int where "EVENT_LIMIT_UNSIGNED_LONG_TYPE \<equiv> 6"
abbreviation (input) EVENT_LIMIT_FLOAT_TYPE :: int where "EVENT_LIMIT_FLOAT_TYPE \<equiv> 7"
abbreviation (input) EVENT_LIMIT_DOUBLE_TYPE :: int where "EVENT_LIMIT_DOUBLE_TYPE \<equiv> 8"
abbreviation (input) EVENT_LIMIT_RGB_TYPE :: int where "EVENT_LIMIT_RGB_TYPE \<equiv> 9"

definition jausEventLimitCreate :: JausEventLimit where
  "jausEventLimitCreate = \<lparr>limitDataType = EVENT_LIMIT_UNDEFINED_TYPE, limitUnion = 0\<rparr>"

text \<open>
  A member of the union is read into the zeroed object; \<^term>\<open>Some None\<close> is \<open>*limitPointer = NULL\<close>. The three
  colours are read one after the other whether or not the one before was there.
\<close>

definition readMember :: "'a::len word option exec \<Rightarrow> int \<Rightarrow> JausEventLimit option exec" where
  "readMember r t = map_option (map_option (\<lambda>v. \<lparr>limitDataType = t, limitUnion = ucast v\<rparr>)) r"

definition readRgb :: "bytes \<Rightarrow> nat \<Rightarrow> u32 \<Rightarrow> JausEventLimit option exec" where
  "readRgb buffer off n =
     do { red \<leftarrow> jausByteFromBuffer buffer (off + 1) (n - 1);
          green \<leftarrow> jausByteFromBuffer buffer (off + 2) (n - 2);
          blue \<leftarrow> jausByteFromBuffer buffer (off + 3) (n - 3);
          Some (case (red, green, blue) of
                  (Some r, Some g, Some b) \<Rightarrow>
                    Some \<lparr>limitDataType = EVENT_LIMIT_RGB_TYPE, limitUnion = wordOfBytes [r, g, b]\<rparr>
                | _ \<Rightarrow> None) }"

definition jausEventLimitFromBuffer :: "bytes \<Rightarrow> nat \<Rightarrow> u32 \<Rightarrow> JausEventLimit option exec" where
  "jausEventLimitFromBuffer buffer off n =
     do { tempByte \<leftarrow> jausByteFromBuffer buffer off n;
          (case tempByte of
             None \<Rightarrow> Some None
           | Some b \<Rightarrow>
               let t = uint b; i = off + 1; k = n - 1
               in if t = EVENT_LIMIT_BYTE_TYPE then readMember (jausByteFromBuffer buffer i k) t
                  else if t = EVENT_LIMIT_SHORT_TYPE then readMember (jausShortFromBuffer LittleHost buffer i k) t
                  else if t = EVENT_LIMIT_INTEGER_TYPE then readMember (jausIntegerFromBuffer LittleHost buffer i k) t
                  else if t = EVENT_LIMIT_LONG_TYPE then readMember (jausLongFromBuffer LittleHost buffer i k) t
                  else if t = EVENT_LIMIT_UNSIGNED_SHORT_TYPE
                  then readMember (jausUnsignedShortFromBuffer LittleHost buffer i k) t
                  else if t = EVENT_LIMIT_UNSIGNED_INTEGER_TYPE
                  then readMember (jausUnsignedIntegerFromBuffer LittleHost buffer i k) t
                  else if t = EVENT_LIMIT_UNSIGNED_LONG_TYPE
                  then readMember (jausUnsignedLongFromBuffer LittleHost buffer i k) t
                  else if t = EVENT_LIMIT_FLOAT_TYPE then readMember (jausFloatFromBuffer LittleHost buffer i k) t
                  else if t = EVENT_LIMIT_DOUBLE_TYPE then readMember (jausDoubleFromBuffer LittleHost buffer i k) t
                  else if t = EVENT_LIMIT_RGB_TYPE then readRgb buffer off n
                  else Some None) }"

text \<open>A null pointer and an unknown type are refused; an unknown positive type after its byte was written.\<close>

definition writeMember :: "JausEventLimit \<Rightarrow> bytes \<Rightarrow> nat \<Rightarrow> u32 \<Rightarrow> (bool \<times> bytes) exec" where
  "writeMember limit buffer i k =
     (let t = limitDataType limit; v = limitUnion limit
      in if t = EVENT_LIMIT_BYTE_TYPE then jausByteToBuffer (ucast v) buffer i k
         else if t = EVENT_LIMIT_SHORT_TYPE then jausShortToBuffer LittleHost (ucast v) buffer i k
         else if t = EVENT_LIMIT_INTEGER_TYPE then jausIntegerToBuffer LittleHost (ucast v) buffer i k
         else if t = EVENT_LIMIT_LONG_TYPE then jausLongToBuffer LittleHost v buffer i k
         else if t = EVENT_LIMIT_UNSIGNED_SHORT_TYPE then jausUnsignedShortToBuffer LittleHost (ucast v) buffer i k
         else if t = EVENT_LIMIT_UNSIGNED_INTEGER_TYPE then jausUnsignedIntegerToBuffer LittleHost (ucast v) buffer i k
         else if t = EVENT_LIMIT_UNSIGNED_LONG_TYPE then jausUnsignedLongToBuffer LittleHost v buffer i k
         else if t = EVENT_LIMIT_FLOAT_TYPE then jausFloatToBuffer LittleHost (ucast v) buffer i k
         else if t = EVENT_LIMIT_DOUBLE_TYPE then jausDoubleToBuffer LittleHost v buffer i k
         else if t = EVENT_LIMIT_RGB_TYPE
         then do { (ok1, buffer1) \<leftarrow> jausByteToBuffer (ucast v) buffer i k;
                   if \<not> ok1 then Some (False, buffer1)
                   else do { (ok2, buffer2) \<leftarrow> jausByteToBuffer (ucast (drop_bit 8 v)) buffer1 (i + 1) (k - 1);
                             if \<not> ok2 then Some (False, buffer2)
                             else jausByteToBuffer (ucast (drop_bit 16 v)) buffer2 (i + 2) (k - 2) } }
         else Some (False, buffer))"

definition jausEventLimitToBuffer :: "JausEventLimit option \<Rightarrow> bytes \<Rightarrow> nat \<Rightarrow> u32 \<Rightarrow> (bool \<times> bytes) exec" where
  "jausEventLimitToBuffer limit buffer off n =
     (case limit of
        None \<Rightarrow> Some (False, buffer)
      | Some limit \<Rightarrow>
          if limitDataType limit < EVENT_LIMIT_BYTE_TYPE then Some (False, buffer)
          else do { (ok, buffer1) \<leftarrow> jausByteToBuffer (word_of_int (limitDataType limit)) buffer off n;
                    if \<not> ok then Some (False, buffer1) else writeMember limit buffer1 (off + 1) (n - 1) })"

definition jausEventLimitSize :: "JausEventLimit option \<Rightarrow> u32 exec" where
  "jausEventLimitSize limit =
     do { limit \<leftarrow> limit;
          let t = limitDataType limit;
          Some (if t = EVENT_LIMIT_BYTE_TYPE then 1 + 1
                else if t = EVENT_LIMIT_SHORT_TYPE \<or> t = EVENT_LIMIT_UNSIGNED_SHORT_TYPE then 1 + 2
                else if t = EVENT_LIMIT_INTEGER_TYPE \<or> t = EVENT_LIMIT_UNSIGNED_INTEGER_TYPE \<or> t = EVENT_LIMIT_FLOAT_TYPE
                then 1 + 4
                else if t = EVENT_LIMIT_LONG_TYPE \<or> t = EVENT_LIMIT_UNSIGNED_LONG_TYPE \<or> t = EVENT_LIMIT_DOUBLE_TYPE
                then 1 + 8
                else if t = EVENT_LIMIT_RGB_TYPE then 1 + 1 + 1 + 1
                else 0) }"

section \<open>CreateEventMessage\<close>

abbreviation (input) CREATE_EVENT_PV_BOUNDARY_BIT :: int where "CREATE_EVENT_PV_BOUNDARY_BIT \<equiv> 0"
abbreviation (input) CREATE_EVENT_PV_DATA_FIELD_BIT :: int where "CREATE_EVENT_PV_DATA_FIELD_BIT \<equiv> 1"
abbreviation (input) CREATE_EVENT_PV_LOWER_LIMIT_BIT :: int where "CREATE_EVENT_PV_LOWER_LIMIT_BIT \<equiv> 2"
abbreviation (input) CREATE_EVENT_PV_UPPER_LIMIT_BIT :: int where "CREATE_EVENT_PV_UPPER_LIMIT_BIT \<equiv> 3"
abbreviation (input) CREATE_EVENT_PV_STATE_LIMIT_BIT :: int where "CREATE_EVENT_PV_STATE_LIMIT_BIT \<equiv> 4"
abbreviation (input) CREATE_EVENT_PV_MINIMUM_RATE_BIT :: int where "CREATE_EVENT_PV_MINIMUM_RATE_BIT \<equiv> 5"
abbreviation (input) CREATE_EVENT_PV_REQUESTED_RATE_BIT :: int where "CREATE_EVENT_PV_REQUESTED_RATE_BIT \<equiv> 6"
abbreviation (input) CREATE_EVENT_PV_QUERY_MESSAGE_BIT :: int where "CREATE_EVENT_PV_QUERY_MESSAGE_BIT \<equiv> 7"

record CreateEventMessage = JausHeader +
  createEvent_presenceVector :: u8
  createEvent_requestId :: u8
  createEvent_reportMessageCode :: u16
  createEvent_eventType :: u8
  createEvent_eventBoundary :: u8
  createEvent_limitDataField :: u8
  createEvent_lowerLimit :: "JausEventLimit option"
  createEvent_upperLimit :: "JausEventLimit option"
  createEvent_stateLimit :: "JausEventLimit option"
  createEvent_requestedMinimumRate :: real
  createEvent_requestedUpdateRate :: real
  createEvent_queryMessage :: "JausMessage option"

definition createEvent_dataInitialize :: "CreateEventMessage \<Rightarrow> CreateEventMessage" where
  "createEvent_dataInitialize m =
     m\<lparr>createEvent_presenceVector := newJausByte JAUS_BYTE_PRESENCE_VECTOR_ALL_ON,
       createEvent_requestId := newJausByte 0,
       createEvent_reportMessageCode := newJausUnsignedShort 0,
       createEvent_eventType := newJausByte 0,
       createEvent_eventBoundary := newJausByte 0,
       createEvent_limitDataField := newJausByte 0,
       createEvent_lowerLimit := Some (jausEventLimitCreate\<lparr>limitDataType := EVENT_LIMIT_BYTE_TYPE\<rparr>),
       createEvent_upperLimit := Some (jausEventLimitCreate\<lparr>limitDataType := EVENT_LIMIT_BYTE_TYPE\<rparr>),
       createEvent_stateLimit := Some (jausEventLimitCreate\<lparr>limitDataType := EVENT_LIMIT_BYTE_TYPE\<rparr>),
       createEvent_requestedMinimumRate := 0,
       createEvent_requestedUpdateRate := 0,
       createEvent_queryMessage := None\<rparr>"

text \<open>The statements that read a limit, or set its pointer to NULL when its bit is not set, and the query message.\<close>

definition getLimit :: "(JausEventLimit option \<Rightarrow> 'm \<Rightarrow> 'm) \<Rightarrow> bytes \<Rightarrow> nat \<Rightarrow> u32 \<Rightarrow> (nat \<times> 'm) stmt" where
  "getLimit upd buffer off n =
     (\<lambda>(i, m). case jausEventLimitFromBuffer buffer (off + i) (n - of_nat i) of
                 None \<Rightarrow> Fault
               | Some None \<Rightarrow> Return (i, upd None m)
               | Some (Some l) \<Rightarrow>
                   (case jausEventLimitSize (Some l) of
                      None \<Rightarrow> Fault | Some k \<Rightarrow> Next (i + unat k, upd (Some l) m)))"

definition limitField :: "('m \<Rightarrow> u8) \<Rightarrow> int \<Rightarrow> (JausEventLimit option \<Rightarrow> 'm \<Rightarrow> 'm) \<Rightarrow> bytes \<Rightarrow> nat \<Rightarrow> u32 \<Rightarrow>
    (nat \<times> 'm) stmt" where
  "limitField pv b upd buffer off n =
     (\<lambda>(i, m). case jausByteIsBitSet (pv m) b of
                 None \<Rightarrow> Fault
               | Some True \<Rightarrow> getLimit upd buffer off n (i, m)
               | Some False \<Rightarrow> Next (i, upd None m))"

definition getQueryMessage :: "bytes \<Rightarrow> nat \<Rightarrow> u32 \<Rightarrow> (nat \<times> CreateEventMessage) stmt" where
  "getQueryMessage buffer off n =
     (\<lambda>(i, m). case jausByteIsBitSet (createEvent_presenceVector m) CREATE_EVENT_PV_QUERY_MESSAGE_BIT of
                 None \<Rightarrow> Fault
               | Some False \<Rightarrow> Next (i, m\<lparr>createEvent_queryMessage := None\<rparr>)
               | Some True \<Rightarrow>
                   (case jausUnsignedIntegerFromBuffer LittleHost buffer (off + i) (n - of_nat i) of
                      None \<Rightarrow> Fault
                    | Some None \<Rightarrow> Return (i, m)
                    | Some (Some bodySize) \<Rightarrow>
                        if n - of_nat (i + 4) < bodySize then Return (i + 4, m)
                        else (case memRead buffer (off + i + 4) (unat bodySize) of
                                None \<Rightarrow> Fault
                              | Some d \<Rightarrow> Next (i + 4 + unat bodySize, m\<lparr>createEvent_queryMessage :=
                                  Some (jausMessageCreate\<lparr>dataSize := bodySize, source := source m, destination := destination m,
                                    commandCode := jausMessageGetComplementaryCommandCode (createEvent_reportMessageCode m),
                                    data := Some d\<rparr>)\<rparr>))))"

definition createEvent_dataFromBuffer ::
    "CreateEventMessage \<Rightarrow> bytes \<Rightarrow> nat \<Rightarrow> u32 \<Rightarrow> (bool \<times> CreateEventMessage) exec" where
  "createEvent_dataFromBuffer m buffer off n =
     (if n = dataSize m then finishR (runStmts
        [getByte (\<lambda>v m. m\<lparr>createEvent_presenceVector := v\<rparr>) buffer off n,
         getByte (\<lambda>v m. m\<lparr>createEvent_requestId := v\<rparr>) buffer off n,
         getUShort (\<lambda>v m. m\<lparr>createEvent_reportMessageCode := v\<rparr>) buffer off n,
         getByte (\<lambda>v m. m\<lparr>createEvent_eventType := v\<rparr>) buffer off n,
         whenS (\<lambda>(i, m). jausByteIsBitSet (createEvent_presenceVector m) CREATE_EVENT_PV_BOUNDARY_BIT)
           [getByte (\<lambda>v m. m\<lparr>createEvent_eventBoundary := v\<rparr>) buffer off n],
         whenS (\<lambda>(i, m). jausByteIsBitSet (createEvent_presenceVector m) CREATE_EVENT_PV_DATA_FIELD_BIT)
           [getByte (\<lambda>v m. m\<lparr>createEvent_limitDataField := v\<rparr>) buffer off n],
         limitField createEvent_presenceVector CREATE_EVENT_PV_LOWER_LIMIT_BIT
           (\<lambda>l m. m\<lparr>createEvent_lowerLimit := l\<rparr>) buffer off n,
         limitField createEvent_presenceVector CREATE_EVENT_PV_UPPER_LIMIT_BIT
           (\<lambda>l m. m\<lparr>createEvent_upperLimit := l\<rparr>) buffer off n,
         limitField createEvent_presenceVector CREATE_EVENT_PV_STATE_LIMIT_BIT
           (\<lambda>l m. m\<lparr>createEvent_stateLimit := l\<rparr>) buffer off n,
         whenS (\<lambda>(i, m). jausByteIsBitSet (createEvent_presenceVector m) CREATE_EVENT_PV_MINIMUM_RATE_BIT)
           [getUShort (\<lambda>v m. m\<lparr>createEvent_requestedMinimumRate := jausUnsignedShortToDouble v 0 1092\<rparr>) buffer off n],
         whenS (\<lambda>(i, m). jausByteIsBitSet (createEvent_presenceVector m) CREATE_EVENT_PV_REQUESTED_RATE_BIT)
           [getUShort (\<lambda>v m. m\<lparr>createEvent_requestedUpdateRate := jausUnsignedShortToDouble v 0 1092\<rparr>) buffer off n],
         getQueryMessage buffer off n] (0, m))
      else Some (False, m))"

definition whenBit :: "u8 \<Rightarrow> int \<Rightarrow> u32 exec \<Rightarrow> u32 exec" where
  "whenBit pv b bodySize = do { set \<leftarrow> jausByteIsBitSet pv b; if set then bodySize else Some 0 }"

definition createEvent_dataSize :: "CreateEventMessage \<Rightarrow> u32 exec" where
  "createEvent_dataSize m =
     (let pv = createEvent_presenceVector m
      in do { boundary \<leftarrow> whenBit pv CREATE_EVENT_PV_BOUNDARY_BIT (Some 1);
              field \<leftarrow> whenBit pv CREATE_EVENT_PV_DATA_FIELD_BIT (Some 1);
              lower \<leftarrow> whenBit pv CREATE_EVENT_PV_LOWER_LIMIT_BIT (jausEventLimitSize (createEvent_lowerLimit m));
              upper \<leftarrow> whenBit pv CREATE_EVENT_PV_UPPER_LIMIT_BIT (jausEventLimitSize (createEvent_upperLimit m));
              state \<leftarrow> whenBit pv CREATE_EVENT_PV_STATE_LIMIT_BIT (jausEventLimitSize (createEvent_stateLimit m));
              minimum \<leftarrow> whenBit pv CREATE_EVENT_PV_MINIMUM_RATE_BIT (Some 2);
              requested \<leftarrow> whenBit pv CREATE_EVENT_PV_REQUESTED_RATE_BIT (Some 2);
              query \<leftarrow> whenBit pv CREATE_EVENT_PV_QUERY_MESSAGE_BIT
                         (Some (4 + (case createEvent_queryMessage m of None \<Rightarrow> 0 | Some q \<Rightarrow> dataSize q)));
              Some (1 + 1 + 2 + 1 + boundary + field + lower + upper + state + minimum + requested + query) })"

definition putLimit :: "JausEventLimit option \<Rightarrow> nat \<Rightarrow> u32 \<Rightarrow> (nat \<times> bytes) stmt" where
  "putLimit limit off n =
     (\<lambda>(i, buffer). case jausEventLimitToBuffer limit buffer (off + i) (n - of_nat i) of
                      None \<Rightarrow> Fault
                    | Some (ok, buffer') \<Rightarrow>
                        if ok then (case jausEventLimitSize limit of None \<Rightarrow> Fault | Some k \<Rightarrow> Next (i + unat k, buffer'))
                        else Return (i, buffer'))"

text \<open>The size and the data of an enclosed message; the data are read from the message's own buffer.\<close>

definition putBody :: "u32 \<Rightarrow> bytes \<Rightarrow> nat \<Rightarrow> u32 \<Rightarrow> (nat \<times> bytes) stmt" where
  "putBody bodySize d off n =
     (\<lambda>(i, buffer). case jausUnsignedIntegerToBuffer LittleHost bodySize buffer (off + i) (n - of_nat i) of
                      None \<Rightarrow> Fault
                    | Some (ok, buffer1) \<Rightarrow>
                        if \<not> ok then Return (i, buffer1)
                        else if n - of_nat (i + 4) < bodySize then Return (i + 4, buffer1)
                        else (case memRead d 0 (unat bodySize) of
                                None \<Rightarrow> Fault
                              | Some bs \<Rightarrow>
                                  (case memWrite buffer1 (off + i + 4) bs of
                                     None \<Rightarrow> Fault | Some buffer2 \<Rightarrow> Next (i + 4 + unat bodySize, buffer2))))"

definition createEvent_dataToBuffer :: "CreateEventMessage \<Rightarrow> bytes \<Rightarrow> nat \<Rightarrow> u32 \<Rightarrow> (nat \<times> bytes) exec" where
  "createEvent_dataToBuffer m buffer off n =
     do { bodySize \<leftarrow> createEvent_dataSize m;
          let pv = createEvent_presenceVector m;
          if bodySize \<le> n
          then finishW (runStmts
            [putByte (Some pv) off n,
             putByte (Some (createEvent_requestId m)) off n,
             putUShort (Some (createEvent_reportMessageCode m)) off n,
             putByte (Some (createEvent_eventType m)) off n,
             whenS (\<lambda>_. jausByteIsBitSet pv CREATE_EVENT_PV_BOUNDARY_BIT) [putByte (Some (createEvent_eventBoundary m)) off n],
             whenS (\<lambda>_. jausByteIsBitSet pv CREATE_EVENT_PV_DATA_FIELD_BIT) [putByte (Some (createEvent_limitDataField m)) off n],
             whenS (\<lambda>_. jausByteIsBitSet pv CREATE_EVENT_PV_LOWER_LIMIT_BIT) [putLimit (createEvent_lowerLimit m) off n],
             whenS (\<lambda>_. jausByteIsBitSet pv CREATE_EVENT_PV_UPPER_LIMIT_BIT) [putLimit (createEvent_upperLimit m) off n],
             whenS (\<lambda>_. jausByteIsBitSet pv CREATE_EVENT_PV_STATE_LIMIT_BIT) [putLimit (createEvent_stateLimit m) off n],
             whenS (\<lambda>_. jausByteIsBitSet pv CREATE_EVENT_PV_MINIMUM_RATE_BIT)
               [putUShort (jausUnsignedShortFromDouble (createEvent_requestedMinimumRate m) 0 1092) off n],
             whenS (\<lambda>_. jausByteIsBitSet pv CREATE_EVENT_PV_REQUESTED_RATE_BIT)
               [putUShort (jausUnsignedShortFromDouble (createEvent_requestedUpdateRate m) 0 1092) off n],
             whenS (\<lambda>_. jausByteIsBitSet pv CREATE_EVENT_PV_QUERY_MESSAGE_BIT)
               [case createEvent_queryMessage m of
                  Some q \<Rightarrow> putBody (dataSize q) (dataBytes q) off n
                | None \<Rightarrow> putUInteger (Some 0) off n]] (0, buffer))
          else Some (0, buffer) }"

definition createEventMessageCreate :: "CreateEventMessage exec" where
  "createEventMessageCreate =
     (let m = createEvent_dataInitialize (JausHeader.extend (blankHeader JAUS_CREATE_EVENT 512000)
        (CreateEventMessage.fields 0 0 0 0 0 0 None None None 0 0 None))
      in do { bodySize \<leftarrow> createEvent_dataSize m; Some (m\<lparr>dataSize := bodySize\<rparr>) })"

definition createEventMessageFromBuffer ::
    "CreateEventMessage \<Rightarrow> bytes \<Rightarrow> u32 \<Rightarrow> (bool \<times> CreateEventMessage) exec" where
  "createEventMessageFromBuffer = messageFromBuffer createEvent_dataFromBuffer"

definition createEventMessageSize :: "CreateEventMessage \<Rightarrow> u32 exec" where
  "createEventMessageSize m = map_option (\<lambda>bodySize. bodySize + JAUS_HEADER_SIZE_BYTES) (createEvent_dataSize m)"

definition createEventMessageToBuffer ::
    "CreateEventMessage \<Rightarrow> bytes \<Rightarrow> u32 \<Rightarrow> (bool \<times> CreateEventMessage \<times> bytes) exec" where
  "createEventMessageToBuffer m buffer bufferSizeBytes =
     do { bodySize \<leftarrow> createEvent_dataSize m;
          messageToBuffer (\<lambda>_. bodySize) createEvent_dataToBuffer m buffer bufferSizeBytes }"

definition createEventMessageFromJausMessage ::
    "CreateEventMessage \<Rightarrow> JausMessage \<Rightarrow> CreateEventMessage option exec" where
  "createEventMessageFromJausMessage = messageFromJausMessage JAUS_CREATE_EVENT createEvent_dataFromBuffer"

definition createEventMessageToJausMessage :: "CreateEventMessage \<Rightarrow> JausMessage exec" where
  "createEventMessageToJausMessage m =
     do { bodySize \<leftarrow> createEvent_dataSize m; messageToJausMessage (\<lambda>_. bodySize) createEvent_dataToBuffer m }"

section \<open>EventMessage\<close>

record EventMessage = JausHeader +
  event_eventId :: u8
  event_eventSequenceNumber :: u8
  event_reportMessage :: "JausMessage option"

definition event_dataInitialize :: "EventMessage \<Rightarrow> EventMessage" where
  "event_dataInitialize m =
     m\<lparr>event_eventId := newJausByte 0, event_eventSequenceNumber := newJausByte 0, event_reportMessage := None\<rparr>"

text \<open>The state of the parser is the message and the local variable \<open>reportCommandCode\<close>.\<close>

definition getReportMessage :: "bytes \<Rightarrow> nat \<Rightarrow> u32 \<Rightarrow> (nat \<times> EventMessage \<times> u16) stmt" where
  "getReportMessage buffer off n =
     (\<lambda>(i, m, code).
        case jausUnsignedIntegerFromBuffer LittleHost buffer (off + i) (n - of_nat i) of
          None \<Rightarrow> Fault
        | Some None \<Rightarrow> Return (i, m, code)
        | Some (Some bodySize) \<Rightarrow>
            let report = jausMessageCreate\<lparr>commandCode := code, dataSize := bodySize, source := source m, destination := destination m\<rparr>
            in if n - of_nat (i + 4) < bodySize then Return (i + 4, m\<lparr>event_reportMessage := Some report\<rparr>, code)
               else (case memRead buffer (off + i + 4) (unat bodySize) of
                       None \<Rightarrow> Fault
                     | Some d \<Rightarrow> Next (i + 4 + unat bodySize, m\<lparr>event_reportMessage := Some (report\<lparr>data := Some d\<rparr>)\<rparr>, code)))"

definition event_dataFromBuffer :: "EventMessage \<Rightarrow> bytes \<Rightarrow> nat \<Rightarrow> u32 \<Rightarrow> (bool \<times> EventMessage) exec" where
  "event_dataFromBuffer m buffer off n =
     (if n = dataSize m
      then map_option (\<lambda>(ok, m, code). (ok, m)) (finishR (runStmts
        [getByte (\<lambda>v (m, code). (m\<lparr>event_eventId := v\<rparr>, code)) buffer off n,
         getUShort (\<lambda>v (m, code). (m, v)) buffer off n,
         getByte (\<lambda>v (m, code). (m\<lparr>event_eventSequenceNumber := v\<rparr>, code)) buffer off n,
         getReportMessage buffer off n] (0, m, 0)))
      else Some (False, m))"

definition event_dataSize :: "EventMessage \<Rightarrow> u32" where
  "event_dataSize m = 1 + 2 + 1 + 4 + (case event_reportMessage m of None \<Rightarrow> 0 | Some r \<Rightarrow> dataSize r)"

definition event_dataToBuffer :: "EventMessage \<Rightarrow> bytes \<Rightarrow> nat \<Rightarrow> u32 \<Rightarrow> (nat \<times> bytes) exec" where
  "event_dataToBuffer m buffer off n =
     (if event_dataSize m \<le> n then finishW (runStmts
        [putByte (Some (event_eventId m)) off n,
         putUShort (Some (case event_reportMessage m of Some r \<Rightarrow> commandCode r | None \<Rightarrow> 0)) off n,
         putByte (Some (event_eventSequenceNumber m)) off n,
         (case event_reportMessage m of
            Some r \<Rightarrow> putBody (dataSize r) (dataBytes r) off n
          | None \<Rightarrow> putUInteger (Some 0) off n)] (0, buffer))
      else Some (0, buffer))"

definition eventMessageCreate :: EventMessage where
  "eventMessageCreate =
     (let m = event_dataInitialize (JausHeader.extend (blankHeader JAUS_EVENT 512000) (EventMessage.fields 0 0 None))
      in m\<lparr>dataSize := event_dataSize m\<rparr>)"

definition eventMessageFromBuffer :: "EventMessage \<Rightarrow> bytes \<Rightarrow> u32 \<Rightarrow> (bool \<times> EventMessage) exec" where
  "eventMessageFromBuffer = messageFromBuffer event_dataFromBuffer"

definition eventMessageSize :: "EventMessage \<Rightarrow> u32" where
  "eventMessageSize = messageSize event_dataSize"

definition eventMessageToBuffer :: "EventMessage \<Rightarrow> bytes \<Rightarrow> u32 \<Rightarrow> (bool \<times> EventMessage \<times> bytes) exec" where
  "eventMessageToBuffer = messageToBuffer event_dataSize event_dataToBuffer"

definition eventMessageFromJausMessage :: "EventMessage \<Rightarrow> JausMessage \<Rightarrow> EventMessage option exec" where
  "eventMessageFromJausMessage = messageFromJausMessage JAUS_EVENT event_dataFromBuffer"

definition eventMessageToJausMessage :: "EventMessage \<Rightarrow> JausMessage exec" where
  "eventMessageToJausMessage = messageToJausMessage event_dataSize event_dataToBuffer"

section \<open>CancelEventMessage\<close>

abbreviation (input) CANCEL_EVENT_PV_MESSAGE_CODE_BIT :: int where "CANCEL_EVENT_PV_MESSAGE_CODE_BIT \<equiv> 0"
abbreviation (input) CANCEL_EVENT_PV_EVENT_ID_BIT :: int where "CANCEL_EVENT_PV_EVENT_ID_BIT \<equiv> 1"

record CancelEventMessage = JausHeader +
  cancelEvent_presenceVector :: u8
  cancelEvent_requestId :: u8
  cancelEvent_messageCode :: u16
  cancelEvent_eventId :: u8

definition cancelEvent_dataInitialize :: "CancelEventMessage \<Rightarrow> CancelEventMessage" where
  "cancelEvent_dataInitialize m =
     m\<lparr>cancelEvent_presenceVector := newJausByte JAUS_BYTE_PRESENCE_VECTOR_ALL_ON, cancelEvent_requestId := newJausByte 0,
       cancelEvent_messageCode := newJausUnsignedShort 0, cancelEvent_eventId := newJausByte 0\<rparr>"

definition cancelEvent_dataSize :: "CancelEventMessage \<Rightarrow> u32" where
  "cancelEvent_dataSize m =
     (2 * 1 +
      (if jausByteIsBitSet (cancelEvent_presenceVector m) CANCEL_EVENT_PV_MESSAGE_CODE_BIT = Some True then 2 else 0) +
      (if jausByteIsBitSet (cancelEvent_presenceVector m) CANCEL_EVENT_PV_EVENT_ID_BIT = Some True then 1 else 0))"

definition cancelEvent_dataFromBuffer ::
    "CancelEventMessage \<Rightarrow> bytes \<Rightarrow> nat \<Rightarrow> u32 \<Rightarrow> (bool \<times> CancelEventMessage) exec" where
  "cancelEvent_dataFromBuffer m buffer off n =
     (if n = dataSize m then finishR (runStmts
        [getByte (\<lambda>v m. m\<lparr>cancelEvent_presenceVector := v\<rparr>) buffer off n,
         getByte (\<lambda>v m. m\<lparr>cancelEvent_requestId := v\<rparr>) buffer off n,
         whenS (\<lambda>(i, m). jausByteIsBitSet (cancelEvent_presenceVector m) CANCEL_EVENT_PV_MESSAGE_CODE_BIT)
           [getUShort (\<lambda>v m. m\<lparr>cancelEvent_messageCode := v\<rparr>) buffer off n],
         whenS (\<lambda>(i, m). jausByteIsBitSet (cancelEvent_presenceVector m) CANCEL_EVENT_PV_EVENT_ID_BIT)
           [getByte (\<lambda>v m. m\<lparr>cancelEvent_eventId := v\<rparr>) buffer off n]] (0, m))
      else Some (False, m))"

definition cancelEvent_dataToBuffer :: "CancelEventMessage \<Rightarrow> bytes \<Rightarrow> nat \<Rightarrow> u32 \<Rightarrow> (nat \<times> bytes) exec" where
  "cancelEvent_dataToBuffer m buffer off n =
     (if cancelEvent_dataSize m \<le> n then finishW (runStmts
        [putByte (Some (cancelEvent_presenceVector m)) off n,
         putByte (Some (cancelEvent_requestId m)) off n,
         whenS (\<lambda>_. jausByteIsBitSet (cancelEvent_presenceVector m) CANCEL_EVENT_PV_MESSAGE_CODE_BIT)
           [putUShort (Some (cancelEvent_messageCode m)) off n],
         whenS (\<lambda>_. jausByteIsBitSet (cancelEvent_presenceVector m) CANCEL_EVENT_PV_EVENT_ID_BIT)
           [putByte (Some (cancelEvent_eventId m)) off n]] (0, buffer))
      else Some (0, buffer))"

definition cancelEventMessageCreate :: CancelEventMessage where
  "cancelEventMessageCreate =
     cancelEvent_dataInitialize (JausHeader.extend (blankHeader JAUS_CANCEL_EVENT 5) (CancelEventMessage.fields 0 0 0 0))"

definition cancelEventMessageFromBuffer ::
    "CancelEventMessage \<Rightarrow> bytes \<Rightarrow> u32 \<Rightarrow> (bool \<times> CancelEventMessage) exec" where
  "cancelEventMessageFromBuffer = messageFromBuffer cancelEvent_dataFromBuffer"

definition cancelEventMessageSize :: "CancelEventMessage \<Rightarrow> u32" where
  "cancelEventMessageSize = messageSize cancelEvent_dataSize"

definition cancelEventMessageToBuffer ::
    "CancelEventMessage \<Rightarrow> bytes \<Rightarrow> u32 \<Rightarrow> (bool \<times> CancelEventMessage \<times> bytes) exec" where
  "cancelEventMessageToBuffer = messageToBuffer cancelEvent_dataSize cancelEvent_dataToBuffer"

definition cancelEventMessageFromJausMessage ::
    "CancelEventMessage \<Rightarrow> JausMessage \<Rightarrow> CancelEventMessage option exec" where
  "cancelEventMessageFromJausMessage = messageFromJausMessage JAUS_CANCEL_EVENT cancelEvent_dataFromBuffer"

definition cancelEventMessageToJausMessage :: "CancelEventMessage \<Rightarrow> JausMessage exec" where
  "cancelEventMessageToJausMessage = messageToJausMessage cancelEvent_dataSize cancelEvent_dataToBuffer"

definition cancelEvent_enc :: "CancelEventMessage \<Rightarrow> bytes" where
  "cancelEvent_enc m =
     [cancelEvent_presenceVector m] @ [cancelEvent_requestId m] @
     (if bit (cancelEvent_presenceVector m) (nat CANCEL_EVENT_PV_MESSAGE_CODE_BIT) then bytesOfWord 2 (cancelEvent_messageCode m) else []) @
     (if bit (cancelEvent_presenceVector m) (nat CANCEL_EVENT_PV_EVENT_ID_BIT) then [cancelEvent_eventId m] else [])"

definition cancelEvent_withData :: "CancelEventMessage \<Rightarrow> CancelEventMessage \<Rightarrow> CancelEventMessage" where
  "cancelEvent_withData m0 m =
     onlyIf (bit (cancelEvent_presenceVector m) (nat CANCEL_EVENT_PV_EVENT_ID_BIT))
       (\<lambda>x. x\<lparr>cancelEvent_eventId := cancelEvent_eventId m\<rparr>)
       (onlyIf (bit (cancelEvent_presenceVector m) (nat CANCEL_EVENT_PV_MESSAGE_CODE_BIT))
         (\<lambda>x. x\<lparr>cancelEvent_messageCode := cancelEvent_messageCode m\<rparr>)
         (m0\<lparr>cancelEvent_presenceVector := cancelEvent_presenceVector m, cancelEvent_requestId := cancelEvent_requestId m\<rparr>))"

lemma cancelEvent_size: "cancelEvent_dataSize m = of_nat (length (cancelEvent_enc m))"
  by (simp add: cancelEvent_dataSize_def cancelEvent_enc_def codec_simps length_if of_nat_if)

lemma cancelEvent_small: "length (cancelEvent_enc m) < 4096"
  unfolding cancelEvent_enc_def by (rule enc_small, (rule length_bounds)+, simp)

lemma cancelEvent_to:
  assumes "off + length (cancelEvent_enc m) \<le> length buf" "length (cancelEvent_enc m) \<le> unat n"
  shows "cancelEvent_dataToBuffer m buf off n =
    Some (length (cancelEvent_enc m), take off buf @ cancelEvent_enc m @ drop (off + length (cancelEvent_enc m)) buf)"
  unfolding cancelEvent_dataToBuffer_def
  by (rule to_lawI [OF _ cancelEvent_size assms], unfold cancelEvent_enc_def,
      (rule writes_intros refl | rule writes_Cons | simp add: codec_simps)+)

lemma cancelEvent_from:
  assumes "dataSize m0 = cancelEvent_dataSize m"
  shows "cancelEvent_dataFromBuffer m0 (pre @ cancelEvent_enc m @ post) (length pre) (cancelEvent_dataSize m) =
    Some (True, cancelEvent_withData m0 m)"
proof -
  have n: "unat (cancelEvent_dataSize m) = length (cancelEvent_enc m)"
    using cancelEvent_small [of m] by (simp add: cancelEvent_size unat_of_nat_lt)
  show ?thesis
    unfolding cancelEvent_dataFromBuffer_def cancelEvent_withData_def
    by (rule from_lawI [where D = "cancelEvent_enc m"], unfold cancelEvent_enc_def,
        (rule parses_intros refl n [unfolded cancelEvent_enc_def] assms [symmetric] | rule parses_Cons
          | simp add: codec_simps onlyIf_def if_distrib [of cancelEvent_presenceVector])+)
qed

interpretation cancelEvent: typed_message cancelEvent_dataSize cancelEvent_dataFromBuffer
  cancelEvent_dataToBuffer cancelEvent_enc cancelEvent_withData
  by unfold_locales (fact cancelEvent_size cancelEvent_small cancelEvent_to cancelEvent_from)+

section \<open>Enclosed messages on the wire\<close>

lemma unat_diff_index: "i \<le> unat n \<Longrightarrow> unat (n - of_nat i :: u32) = unat n - i"
proof -
  assume "i \<le> unat n"
  then have "unat (of_nat i :: u32) = i" using u32_bound [of n] by (intro unat_of_nat_lt) simp
  then show ?thesis using \<open>i \<le> unat n\<close> by (simp add: unat_sub_if' word_le_nat_alt)
qed

lemma writes_body:
  assumes "length d = unat k"
  shows "writes off n [putBody k d off n] (bytesOfWord 4 k @ d)"
  unfolding writes_def
proof (intro allI impI)
  fix i and pre post :: bytes
  assume len: "length pre = off + i" "length (bytesOfWord 4 k @ d) \<le> length post" "i + length (bytesOfWord 4 k @ d) \<le> unat n"
  then have n: "unat (n - of_nat i) = unat n - i" "unat (n - of_nat (i + 4)) = unat n - (i + 4)"
    using unat_diff_index [of i n] unat_diff_index [of "i + 4" n] by simp_all
  have "jausUnsignedIntegerToBuffer LittleHost k (pre @ post) (off + i) (n - of_nat i) =
      Some (True, pre @ bytesOfWord 4 k @ drop 4 post)"
    using len n by (simp add: uinteger.to_spec memWrite_def)
  moreover have "memWrite (pre @ bytesOfWord 4 k @ drop 4 post) (off + i + 4) d =
      Some (pre @ bytesOfWord 4 k @ d @ drop (4 + length d) post)"
    using len by (simp add: memWrite_def add.commute)
  moreover have "\<not> n - of_nat (i + 4) < k" using len n assms by (simp add: word_less_nat_alt)
  moreover have "memRead d 0 (unat k) = Some d" using assms by (simp add: memRead_def)
  ultimately show "runStmts [putBody k d off n] (i, pre @ post) =
      Next (i + length (bytesOfWord 4 k @ d), pre @ (bytesOfWord 4 k @ d) @ drop (length (bytesOfWord 4 k @ d)) post)"
    using assms by (simp add: putBody_def)
qed

text \<open>What the two statements that read a size and a body find at the cursor.\<close>

lemma body_at:
  assumes "drop i D = bytesOfWord 4 k @ d @ rest" "i \<le> length D" "unat n = length D" "length d = unat k" "off = length pre"
  shows "jausUnsignedIntegerFromBuffer LittleHost (pre @ D @ post) (off + i) (n - of_nat i) = Some (Some k) \<and>
    \<not> n - of_nat (i + 4) < k \<and> memRead (pre @ D @ post) (off + i + 4) (unat k) = Some d \<and>
    i + 4 + unat k \<le> length D \<and> drop (i + 4 + unat k) D = rest"
proof -
  have len: "i + 4 + length d + length rest = length D"
    using arg_cong [OF assms(1), of length] assms(2) by simp
  have n: "unat (n - of_nat i) = length D - i" "unat (n - of_nat (i + 4)) = length D - (i + 4)"
    using unat_diff_index [of i n] unat_diff_index [of "i + 4" n] len assms(3) by simp_all
  have d4: "drop (i + 4) D = d @ rest"
    using assms(1) by (metis add.commute append_eq_conv_conj drop_drop uinteger.enc_length)
  have "memRead (pre @ D @ post) (off + i) 4 = Some (bytesOfWord 4 k)"
    using assms len by (simp add: memRead_def)
  moreover have "memRead (pre @ D @ post) (off + i + 4) (unat k) = Some d"
    using d4 assms len by (simp add: memRead_def add.assoc)
  moreover have "drop (i + 4 + unat k) D = rest"
    using d4 assms(4) by (metis add.commute append_eq_conv_conj drop_drop)
  ultimately show ?thesis
    using n len assms(4) by (simp add: uinteger.from_spec uinteger.dec_enc word_less_nat_alt) linarith
qed

section \<open>Events\<close>

definition event_enc :: "EventMessage \<Rightarrow> JausMessage \<Rightarrow> bytes" where
  "event_enc m r =
     [event_eventId m] @ bytesOfWord 2 (commandCode r) @ [event_eventSequenceNumber m] @
     bytesOfWord 4 (dataSize r) @ dataBytes r"

text \<open>The report as the receiver sees it: it has the addresses of the event.\<close>

definition carried :: "'a JausHeader_scheme \<Rightarrow> JausMessage \<Rightarrow> JausMessage" where
  "carried m r = jausMessageCreate\<lparr>commandCode := commandCode r, dataSize := dataSize r, source := source m,
                                   destination := destination m, data := Some (dataBytes r)\<rparr>"

definition enclosed :: "nat \<Rightarrow> JausMessage \<Rightarrow> bool" where
  "enclosed overhead r \<longleftrightarrow> length (dataBytes r) = unat (dataSize r) \<and> unat (dataSize r) + overhead < 2 ^ 32"

lemma event_sizes:
  assumes "event_reportMessage m = Some r" "enclosed 8 r"
  shows "event_dataSize m = of_nat (length (event_enc m r))" "unat (event_dataSize m) = length (event_enc m r)"
proof -
  have "length (event_enc m r) = 8 + unat (dataSize r)"
    using assms(2) by (simp add: event_enc_def enclosed_def)
  moreover from this show size: "event_dataSize m = of_nat (length (event_enc m r))"
    by (simp add: event_dataSize_def assms(1))
  ultimately show "unat (event_dataSize m) = length (event_enc m r)"
    using assms(2) unfolding size by (intro unat_of_nat_lt) (simp add: enclosed_def)
qed

lemma event_to:
  assumes "event_reportMessage m = Some r" "enclosed 8 r"
    "off + length (event_enc m r) \<le> length buf" "length (event_enc m r) \<le> unat n"
  shows "event_dataToBuffer m buf off n =
    Some (length (event_enc m r), take off buf @ event_enc m r @ drop (off + length (event_enc m r)) buf)"
  unfolding event_dataToBuffer_def assms(1) option.case
  by (rule to_lawI [OF _ event_sizes(1) [OF assms(1,2)] assms(3,4)], unfold event_enc_def,
      (rule writes_intros refl writes_body assms(2) [unfolded enclosed_def, THEN conjunct1] | rule writes_Cons)+)

lemma parses_report:
  assumes "off = length pre" "unat n = length D" "length d = unat k"
  shows "parses D [getReportMessage (pre @ D @ post) off n] (bytesOfWord 4 k @ d) p []
    ((fst p)\<lparr>event_reportMessage := Some (jausMessageCreate\<lparr>commandCode := snd p, dataSize := k, source := source (fst p),
        destination := destination (fst p), data := Some d\<rparr>)\<rparr>, snd p)"
  unfolding parses_def
proof (intro allI impI)
  fix i assume i: "i \<le> length D" and d: "drop i D = bytesOfWord 4 k @ d"
  show "\<exists>j\<le>length D. drop j D = [] \<and> runStmts [getReportMessage (pre @ D @ post) off n] (i, p) =
      Next (j, (fst p)\<lparr>event_reportMessage := Some (jausMessageCreate\<lparr>commandCode := snd p, dataSize := k,
        source := source (fst p), destination := destination (fst p), data := Some d\<rparr>)\<rparr>, snd p)"
    using body_at [of i D k d "[]" n off pre post] i d assms
    by (cases p) (intro exI [of _ "i + 4 + unat k"], simp add: getReportMessage_def Let_def)
qed

lemma parses_pair:
  "parses D cs D (m, c) [] p \<Longrightarrow> fst p = m' \<Longrightarrow> n = k \<Longrightarrow>
   (if n = k then map_option (\<lambda>(ok, m, code). (ok, m)) (finishR (runStmts cs (0, m, c))) else Some (False, m)) =
     Some (True, m')"
  by (cases p) (simp add: parses_finishR)

lemma event_from:
  assumes "event_reportMessage m = Some r" "enclosed 8 r" "dataSize m0 = event_dataSize m"
  shows "event_dataFromBuffer m0 (pre @ event_enc m r @ post) (length pre) (event_dataSize m) =
    Some (True, m0\<lparr>event_eventId := event_eventId m, event_eventSequenceNumber := event_eventSequenceNumber m,
                   event_reportMessage := Some (carried m0 r)\<rparr>)"
  unfolding event_dataFromBuffer_def
  by (rule parses_pair [where D = "event_enc m r"], unfold event_enc_def,
      (rule parses_intros refl event_sizes(2) [OF assms(1,2), unfolded event_enc_def] parses_report
        assms(2) [unfolded enclosed_def, THEN conjunct1] assms(3) [symmetric] | rule parses_Cons)+)
    (simp_all add: carried_def assms(3))

lemma event_toJausMessage:
  assumes "event_reportMessage m = Some r" "enclosed 8 r"
  shows "eventMessageToJausMessage m =
    Some ((copyHeader m jausMessageCreate)\<lparr>dataSize := event_dataSize m, data := Some (event_enc m r)\<rparr>)"
  using event_to [OF assms, of 0 "replicate (unat (event_dataSize m)) 0" "event_dataSize m"] event_sizes [OF assms]
  by (simp add: eventMessageToJausMessage_def messageToJausMessage_def)

lemma event_fromJausMessage:
  assumes "event_reportMessage m = Some r" "enclosed 8 r" "commandCode m = JAUS_EVENT"
  shows "eventMessageFromJausMessage junk
      ((copyHeader m jausMessageCreate)\<lparr>dataSize := event_dataSize m, data := Some (event_enc m r)\<rparr>) =
    Some (Some ((copyHeader (m\<lparr>dataSize := event_dataSize m\<rparr>) junk)\<lparr>event_eventId := event_eventId m,
      event_eventSequenceNumber := event_eventSequenceNumber m, event_reportMessage := Some (carried m r)\<rparr>))"
  using event_from [OF assms(1,2), of "copyHeader (m\<lparr>dataSize := event_dataSize m\<rparr>) junk" "[]" "[]"] assms(3)
  by (simp add: eventMessageFromJausMessage_def messageFromJausMessage_def carried_def)

text \<open>An enclosed report is smaller than the message that encloses it.\<close>

lemma event_nested:
  assumes "eventMessageFromJausMessage junk m = Some (Some e)"
  shows "\<exists>r. event_reportMessage e = Some r \<and> unat (dataSize r) + 8 \<le> unat (dataSize m) \<and>
    length (dataBytes r) = unat (dataSize r) \<and> data r \<noteq> None"
proof -
  let ?n = "dataSize m"
  from assms obtain c where "finishR (runStmts
        [getByte (\<lambda>v (m, code). (m\<lparr>event_eventId := v\<rparr>, code)) (dataBytes m) 0 ?n,
         getUShort (\<lambda>v (m, code). (m, v)) (dataBytes m) 0 ?n,
         getByte (\<lambda>v (m, code). (m\<lparr>event_eventSequenceNumber := v\<rparr>, code)) (dataBytes m) 0 ?n,
         getReportMessage (dataBytes m) 0 ?n] (0, copyHeader m junk, 0)) = Some (True, e, c)"
    by (auto simp: eventMessageFromJausMessage_def messageFromJausMessage_def event_dataFromBuffer_def
        simp del: runStmts.simps split: if_splits Option.bind_splits)
  then obtain p k where r: "getReportMessage (dataBytes m) 0 ?n (4, p) = Next (k, e, c)"
    and n: "1 \<le> unat ?n" "2 \<le> unat (?n - 1)" "1 \<le> unat (?n - 3)"
    by (auto simp: finishR_def getF_def byte.from_spec ushort.from_spec eval_nat_numeral
        split: flow.splits option.splits prod.splits if_splits)
  from r have "\<not> ?n - 4 < 4"
    by (auto simp: getReportMessage_def uinteger.from_spec word_less_nat_alt split: if_splits option.splits prod.splits)
  with n have "8 \<le> unat ?n"
    by (auto simp: word_less_nat_alt word_le_nat_alt unat_sub_if' split: if_splits)
  then have "unat (?n - 8) + 8 = unat ?n"
    using unat_diff_index [of 8 ?n] by simp
  with r show ?thesis
    by (auto simp: getReportMessage_def Let_def word_less_nat_alt dest: memRead_length
        split: if_splits option.splits prod.splits)
qed

section \<open>Limits on the wire\<close>

definition limitBytes :: "JausEventLimit \<Rightarrow> bytes" where
  "limitBytes l =
     (let t = limitDataType l; v = limitUnion l
      in word_of_int t #
         (if t = 0 then [ucast v]
          else if t \<in> {1, 4} then bytesOfWord 2 (ucast v :: u16)
          else if t \<in> {2, 5, 7} then bytesOfWord 4 (ucast v :: u32)
          else if t \<in> {3, 6, 8} then bytesOfWord 8 v
          else [ucast v, ucast (drop_bit 8 v), ucast (drop_bit 16 v)]))"

definition limitSeen :: "JausEventLimit \<Rightarrow> JausEventLimit" where
  "limitSeen l = (let t = limitDataType l; v = limitUnion l
      in \<lparr>limitDataType = t, limitUnion =
           (if t = 0 then ucast (ucast v :: u8) else if t \<in> {1, 4} then ucast (ucast v :: u16)
            else if t \<in> {2, 5, 7} then ucast (ucast v :: u32) else if t \<in> {3, 6, 8} then v
            else wordOfBytes [ucast v, ucast (drop_bit 8 v), ucast (drop_bit 16 v)])\<rparr>)"

definition limitOk :: "JausEventLimit \<Rightarrow> bool" where
  "limitOk l \<longleftrightarrow> limitDataType l \<in> {0, 1, 2, 3, 4, 5, 6, 7, 8, 9}"

lemma limit_size: "limitOk l \<Longrightarrow> jausEventLimitSize (Some l) = Some (of_nat (length (limitBytes l)))"
  by (auto simp: limitOk_def jausEventLimitSize_def limitBytes_def Let_def)

lemma limit_small: "limitOk l \<Longrightarrow> length (limitBytes l) \<le> 9"
  by (auto simp: limitOk_def limitBytes_def Let_def)

lemma limit_unat: "limitOk l \<Longrightarrow> unat (of_nat (length (limitBytes l)) :: u32) = length (limitBytes l)"
  using limit_small [of l] by (intro unat_of_nat_lt) simp

lemma limit_cons: "limitBytes l = word_of_int (limitDataType l) # tl (limitBytes l)"
  by (simp add: limitBytes_def Let_def)

lemma limit_from:
  assumes "limitOk l" "length (limitBytes l) \<le> unat n"
  shows "jausEventLimitFromBuffer (pre @ limitBytes l @ post) (length pre) n = Some (Some (limitSeen l))"
proof -
  define P where "P = tl (limitBytes l)"
  let ?t = "limitDataType l" and ?v = "limitUnion l" and ?buf = "pre @ limitBytes l @ post"
  have lb: "limitBytes l = word_of_int ?t # P" using limit_cons by (simp add: P_def)
  have len: "length P < unat n" using assms(2) lb by simp
  then have n: "unat (n - 1) = unat n - 1" using unat_diff_index [of 1 n] by simp
  have t: "uint (word_of_int ?t :: u8) = ?t" using assms(1) by (auto simp: limitOk_def)
  have first: "jausByteFromBuffer ?buf (length pre) n = Some (Some (word_of_int ?t))"
    using len lb by (simp add: byte.from_spec memRead_def)
  have rd: "memRead ?buf (Suc (length pre)) (length P) = Some P" by (simp add: lb memRead_def)
  consider "?t = 0" "P = [ucast ?v]" | "?t \<in> {1, 4}" "P = bytesOfWord 2 (ucast ?v :: u16)"
    | "?t \<in> {2, 5, 7}" "P = bytesOfWord 4 (ucast ?v :: u32)" | "?t \<in> {3, 6, 8}" "P = bytesOfWord 8 ?v"
    | "?t = 9" "P = [ucast ?v, ucast (drop_bit 8 ?v), ucast (drop_bit 16 ?v)]"
    using assms(1) by (auto simp: limitOk_def P_def limitBytes_def Let_def)
  then show ?thesis
  proof cases
    case 5
    have "3 < unat n" using len 5 by simp
    then have "unat (n - 2) = unat n - 2" "unat (n - 3) = unat n - 3"
      using unat_diff_index [of 2 n] unat_diff_index [of 3 n] by simp_all
    with 5 \<open>3 < unat n\<close> n show ?thesis
      using first by (simp add: jausEventLimitFromBuffer_def readRgb_def t byte.from_spec limitSeen_def lb memRead_def nth_append Let_def)
  qed (use first rd len n t in \<open>auto simp: jausEventLimitFromBuffer_def readMember_def limitSeen_def byte.from_spec
      ushort.from_spec uinteger.from_spec ulong.from_spec short.from_spec integer.from_spec long.from_spec
      single_precision.from_spec double_precision.from_spec wordOfBytes_bytesOfWord\<close>)
qed

lemma limit_to:
  assumes "limitOk l" "length (limitBytes l) \<le> unat n" "length (limitBytes l) \<le> length post"
  shows "jausEventLimitToBuffer (Some l) (pre @ post) (length pre) n =
    Some (True, pre @ limitBytes l @ drop (length (limitBytes l)) post)"
proof -
  define P where "P = tl (limitBytes l)"
  let ?t = "limitDataType l" and ?v = "limitUnion l" let ?a = "pre @ [word_of_int ?t]" and ?b = "drop 1 post"
  have lb: "limitBytes l = word_of_int ?t # P" using limit_cons by (simp add: P_def)
  have len: "length P < unat n" "length P < length post" using assms(2,3) lb by simp_all
  then have n: "unat (n - 1) = unat n - 1" using unat_diff_index [of 1 n] by simp
  have first: "jausEventLimitToBuffer (Some l) (pre @ post) (length pre) n = writeMember l (?a @ ?b) (Suc (length pre)) (n - 1)"
    using assms(1) len by (auto simp: jausEventLimitToBuffer_def byte.to_spec memWrite_def limitOk_def)
  have wr: "memWrite (?a @ ?b) (Suc (length pre)) P = Some (pre @ limitBytes l @ drop (length (limitBytes l)) post)"
    using len by (simp add: lb memWrite_def drop_Suc)
  consider "?t = 0" "P = [ucast ?v]" | "?t \<in> {1, 4}" "P = bytesOfWord 2 (ucast ?v :: u16)"
    | "?t \<in> {2, 5, 7}" "P = bytesOfWord 4 (ucast ?v :: u32)" | "?t \<in> {3, 6, 8}" "P = bytesOfWord 8 ?v"
    | "?t = 9" "P = [ucast ?v, ucast (drop_bit 8 ?v), ucast (drop_bit 16 ?v)]"
    using assms(1) by (auto simp: limitOk_def P_def limitBytes_def Let_def)
  then show ?thesis
  proof cases
    case 5
    have "3 < unat n" using len 5 by simp
    then have "unat (n - 2) = unat n - 2" "unat (n - 3) = unat n - 3"
      using unat_diff_index [of 2 n] unat_diff_index [of 3 n] by simp_all
    with 5 \<open>3 < unat n\<close> n len show ?thesis
      unfolding first
      by (simp add: writeMember_def byte.to_spec lb memWrite_def Let_def drop_Suc) linarith
  qed (unfold first, use wr len n in \<open>auto simp: writeMember_def byte.to_spec ushort.to_spec uinteger.to_spec ulong.to_spec
      short.to_spec integer.to_spec long.to_spec single_precision.to_spec double_precision.to_spec Let_def\<close>)
qed

lemma writes_limit:
  assumes "limitOk l"
  shows "writes off n [putLimit (Some l) off n] (limitBytes l)"
  unfolding writes_def
proof (intro allI impI)
  fix i and pre post :: bytes
  assume len: "length pre = off + i" "length (limitBytes l) \<le> length post" "i + length (limitBytes l) \<le> unat n"
  then have "unat (n - of_nat i) = unat n - i" by (intro unat_diff_index) simp
  then show "runStmts [putLimit (Some l) off n] (i, pre @ post) =
      Next (i + length (limitBytes l), pre @ limitBytes l @ drop (length (limitBytes l)) post)"
    using limit_to [OF assms, of "n - of_nat i" post pre] len limit_size [OF assms] limit_unat [OF assms]
    by (simp add: putLimit_def)
qed

lemma parses_limit:
  assumes "off = length pre" "unat n = length D" "jausByteIsBitSet (pv m) b = Some c" "c \<Longrightarrow> limitOk l"
  shows "parses D [limitField pv b upd (pre @ D @ post) off n] ((if c then limitBytes l else []) @ rest) m rest
    (upd (if c then Some (limitSeen l) else None) m)"
proof (cases c)
  case False
  then show ?thesis using assms(3) by (simp add: parses_def limitField_def)
next
  case True
  show ?thesis
    unfolding parses_def
  proof (intro allI impI)
    fix i assume i: "i \<le> length D" and d: "drop i D = (if c then limitBytes l else []) @ rest"
    have len: "i + length (limitBytes l) + length rest = length D"
      using arg_cong [OF d, of length] i True by simp
    have D: "pre @ D @ post = (pre @ take i D) @ limitBytes l @ (rest @ post)"
      using d True append_take_drop_id [of i D] by simp
    have n: "unat (n - of_nat i) = length D - i" using unat_diff_index [of i n] i assms(2) by simp
    have "jausEventLimitFromBuffer (pre @ D @ post) (off + i) (n - of_nat i) = Some (Some (limitSeen l))"
      using limit_from [of l "n - of_nat i" "pre @ take i D" "rest @ post", folded D] assms True i len n by simp
    moreover have "jausEventLimitSize (Some (limitSeen l)) = jausEventLimitSize (Some l)"
      by (simp add: jausEventLimitSize_def limitSeen_def Let_def)
    moreover have "drop (i + length (limitBytes l)) D = rest"
      using arg_cong [OF d, of "drop (length (limitBytes l))"] True by (simp add: add.commute)
    ultimately show "\<exists>j\<le>length D. drop j D = rest \<and> runStmts [limitField pv b upd (pre @ D @ post) off n] (i, m) =
        Next (j, upd (if c then Some (limitSeen l) else None) m)"
      using assms True len limit_size limit_unat
      by (intro exI [of _ "i + length (limitBytes l)"]) (simp add: limitField_def getLimit_def)
  qed
qed

section \<open>Event requests on the wire\<close>

definition createEvent_enc :: "CreateEventMessage \<Rightarrow> bytes" where
  "createEvent_enc m =
     (let pv = createEvent_presenceVector m
      in [pv] @ [createEvent_requestId m] @ bytesOfWord 2 (createEvent_reportMessageCode m) @ [createEvent_eventType m] @
         (if bit pv 0 then [createEvent_eventBoundary m] else []) @
         (if bit pv 1 then [createEvent_limitDataField m] else []) @
         (if bit pv 2 then limitBytes (the (createEvent_lowerLimit m)) else []) @
         (if bit pv 3 then limitBytes (the (createEvent_upperLimit m)) else []) @
         (if bit pv 4 then limitBytes (the (createEvent_stateLimit m)) else []) @
         (if bit pv 5 then bytesOfWord 2 (the (jausUnsignedShortFromDouble (createEvent_requestedMinimumRate m) 0 1092)) else []) @
         (if bit pv 6 then bytesOfWord 2 (the (jausUnsignedShortFromDouble (createEvent_requestedUpdateRate m) 0 1092)) else []) @
         (if bit pv 7 then bytesOfWord 4 (dataSize (the (createEvent_queryMessage m))) @ dataBytes (the (createEvent_queryMessage m))
          else []))"

text \<open>A request whose presence bits tell what is there.\<close>

definition createEventOk :: "CreateEventMessage \<Rightarrow> bool" where
  "createEventOk m \<longleftrightarrow>
     (\<forall>(b, l) \<in> {(2, createEvent_lowerLimit m), (3, createEvent_upperLimit m), (4, createEvent_stateLimit m)}.
        bit (createEvent_presenceVector m) b \<longrightarrow> (\<exists>x. l = Some x \<and> limitOk x)) \<and>
     (bit (createEvent_presenceVector m) 7 \<longrightarrow> (\<exists>q. createEvent_queryMessage m = Some q \<and> enclosed 42 q))"

definition createEvent_withData :: "CreateEventMessage \<Rightarrow> CreateEventMessage \<Rightarrow> CreateEventMessage" where
  "createEvent_withData m0 m =
     (let pv = createEvent_presenceVector m;
          seen = (\<lambda>b l. if bit pv b then map_option limitSeen l else None);
          rate = (\<lambda>v. jausUnsignedShortToDouble (the (jausUnsignedShortFromDouble v 0 1092)) 0 1092)
      in m0\<lparr>createEvent_presenceVector := pv, createEvent_requestId := createEvent_requestId m,
            createEvent_reportMessageCode := createEvent_reportMessageCode m, createEvent_eventType := createEvent_eventType m,
            createEvent_eventBoundary := (if bit pv 0 then createEvent_eventBoundary m else createEvent_eventBoundary m0),
            createEvent_limitDataField := (if bit pv 1 then createEvent_limitDataField m else createEvent_limitDataField m0),
            createEvent_lowerLimit := seen 2 (createEvent_lowerLimit m),
            createEvent_upperLimit := seen 3 (createEvent_upperLimit m),
            createEvent_stateLimit := seen 4 (createEvent_stateLimit m),
            createEvent_requestedMinimumRate := (if bit pv 5 then rate (createEvent_requestedMinimumRate m)
                                                 else createEvent_requestedMinimumRate m0),
            createEvent_requestedUpdateRate := (if bit pv 6 then rate (createEvent_requestedUpdateRate m)
                                                else createEvent_requestedUpdateRate m0),
            createEvent_queryMessage := (if bit pv 7 then map_option (\<lambda>q. (carried m0 q)\<lparr>commandCode :=
                jausMessageGetComplementaryCommandCode (createEvent_reportMessageCode m)\<rparr>) (createEvent_queryMessage m) else None)\<rparr>)"

lemma createEventOkD:
  assumes "createEventOk m"
  shows "bit (createEvent_presenceVector m) 2 \<Longrightarrow> createEvent_lowerLimit m = Some (the (createEvent_lowerLimit m))"
    "bit (createEvent_presenceVector m) 3 \<Longrightarrow> createEvent_upperLimit m = Some (the (createEvent_upperLimit m))"
    "bit (createEvent_presenceVector m) 4 \<Longrightarrow> createEvent_stateLimit m = Some (the (createEvent_stateLimit m))"
    "bit (createEvent_presenceVector m) 7 \<Longrightarrow> createEvent_queryMessage m = Some (the (createEvent_queryMessage m))"
    "bit (createEvent_presenceVector m) 2 \<Longrightarrow> limitOk (the (createEvent_lowerLimit m))"
    "bit (createEvent_presenceVector m) 3 \<Longrightarrow> limitOk (the (createEvent_upperLimit m))"
    "bit (createEvent_presenceVector m) 4 \<Longrightarrow> limitOk (the (createEvent_stateLimit m))"
    "bit (createEvent_presenceVector m) 7 \<Longrightarrow> enclosed 42 (the (createEvent_queryMessage m))"
  using assms by (auto simp: createEventOk_def)

lemma whenBit_limit:
  assumes "bit pv b \<Longrightarrow> l = Some (the l)" "bit pv b \<Longrightarrow> limitOk (the l)" "b < 32"
  shows "whenBit pv (int b) (jausEventLimitSize l) = Some (of_nat (length (if bit pv b then limitBytes (the l) else [])))"
proof (cases "bit pv b")
  case True
  with assms obtain x where "l = Some x" "limitOk x" by auto
  with True assms(3) show ?thesis by (simp add: whenBit_def codec_simps limit_size)
qed (use assms(3) in \<open>simp add: whenBit_def codec_simps\<close>)

lemma createEvent_size:
  assumes "createEventOk m"
  shows "createEvent_dataSize m = Some (of_nat (length (createEvent_enc m)))" "length (createEvent_enc m) < 2 ^ 32"
proof -
  let ?pv = "createEvent_presenceVector m" and ?q = "the (createEvent_queryMessage m)"
  note ok = createEventOkD [OF assms]
  define B0 B1 :: bytes where "B0 = (if bit ?pv 0 then [createEvent_eventBoundary m] else [])"
    and "B1 = (if bit ?pv 1 then [createEvent_limitDataField m] else [])"
  define B2 B3 B4 where "B2 = (if bit ?pv 2 then limitBytes (the (createEvent_lowerLimit m)) else [])"
    and "B3 = (if bit ?pv 3 then limitBytes (the (createEvent_upperLimit m)) else [])"
    and "B4 = (if bit ?pv 4 then limitBytes (the (createEvent_stateLimit m)) else [])"
  define B5 B6 where "B5 = (if bit ?pv 5 then bytesOfWord 2 (the (jausUnsignedShortFromDouble (createEvent_requestedMinimumRate m) 0 1092)) else [])"
    and "B6 = (if bit ?pv 6 then bytesOfWord 2 (the (jausUnsignedShortFromDouble (createEvent_requestedUpdateRate m) 0 1092)) else [])"
  define B7 where "B7 = (if bit ?pv 7 then bytesOfWord 4 (dataSize ?q) @ dataBytes ?q else [])"
  note defs = B0_def B1_def B2_def B3_def B4_def B5_def B6_def B7_def
  have enc: "createEvent_enc m = [?pv] @ [createEvent_requestId m] @ bytesOfWord 2 (createEvent_reportMessageCode m) @
      [createEvent_eventType m] @ B0 @ B1 @ B2 @ B3 @ B4 @ B5 @ B6 @ B7"
    by (simp only: createEvent_enc_def Let_def defs)
  have limits: "whenBit ?pv 2 (jausEventLimitSize (createEvent_lowerLimit m)) = Some (of_nat (length B2))"
    "whenBit ?pv 3 (jausEventLimitSize (createEvent_upperLimit m)) = Some (of_nat (length B3))"
    "whenBit ?pv 4 (jausEventLimitSize (createEvent_stateLimit m)) = Some (of_nat (length B4))"
    using whenBit_limit [of ?pv 2, OF ok(1) ok(5)] whenBit_limit [of ?pv 3, OF ok(2) ok(6)]
      whenBit_limit [of ?pv 4, OF ok(3) ok(7)] by (simp_all add: defs)
  have fields: "whenBit ?pv 0 (Some 1) = Some (of_nat (length B0))" "whenBit ?pv 1 (Some 1) = Some (of_nat (length B1))"
    "whenBit ?pv 5 (Some 2) = Some (of_nat (length B5))" "whenBit ?pv 6 (Some 2) = Some (of_nat (length B6))"
    by (simp_all add: whenBit_def codec_simps defs)
  have query: "whenBit ?pv 7 (Some (4 + (case createEvent_queryMessage m of None \<Rightarrow> 0 | Some q \<Rightarrow> dataSize q))) =
      Some (of_nat (length B7))" "length B7 + 38 < 2 ^ 32"
  proof -
    have "bit ?pv 7 \<Longrightarrow> \<exists>q. createEvent_queryMessage m = Some q \<and> enclosed 42 q" using ok(4,8) by metis
    then show "whenBit ?pv 7 (Some (4 + (case createEvent_queryMessage m of None \<Rightarrow> 0 | Some q \<Rightarrow> dataSize q))) =
        Some (of_nat (length B7))" "length B7 + 38 < 2 ^ 32"
      by (cases "bit ?pv 7"; force simp: whenBit_def codec_simps B7_def enclosed_def)+
  qed
  show "createEvent_dataSize m = Some (of_nat (length (createEvent_enc m)))"
    by (simp add: createEvent_dataSize_def Let_def enc limits fields query(1))
  have "length B2 \<le> 9" "length B3 \<le> 9" "length B4 \<le> 9"
    using ok(5-7) limit_small by (simp_all add: defs)
  moreover have "length B0 \<le> 1" "length B1 \<le> 1" "length B5 \<le> 2" "length B6 \<le> 2" by (simp_all add: defs)
  ultimately show "length (createEvent_enc m) < 2 ^ 32" using query(2) by (simp add: enc)
qed

lemma writes_limit_when:
  assumes "b < 32" "bit pv b \<Longrightarrow> l = Some (the l)" "bit pv b \<Longrightarrow> limitOk (the l)"
  shows "writes off n [whenS (\<lambda>_. jausByteIsBitSet pv (int b)) [putLimit l off n]] (if bit pv b then limitBytes (the l) else [])"
proof (cases "bit pv b")
  case True
  then have l: "l = Some (the l)" "limitOk (the l)" using assms by blast+
  show ?thesis
    by (rule writes_when) (use True assms(1) l(1) writes_limit [OF l(2), of off n] in \<open>simp_all add: codec_simps\<close>)
qed (use assms(1) in \<open>simp add: writes_def whenS_def codec_simps\<close>)

lemma writes_query_when:
  assumes "bit pv 7 \<Longrightarrow> q = Some (the q)" "bit pv 7 \<Longrightarrow> enclosed 42 (the q)"
  shows "writes off n [whenS (\<lambda>_. jausByteIsBitSet pv 7)
      [case q of Some q \<Rightarrow> putBody (dataSize q) (dataBytes q) off n | None \<Rightarrow> putUInteger (Some 0) off n]]
    (if bit pv 7 then bytesOfWord 4 (dataSize (the q)) @ dataBytes (the q) else [])"
proof (cases "bit pv 7")
  case True
  then obtain x where q: "q = Some x" "enclosed 42 x" using assms by (metis option.sel)
  show ?thesis
    by (rule writes_when) (use True q writes_body [of "dataBytes x" "dataSize x" off n] in \<open>simp_all add: codec_simps enclosed_def\<close>)
qed (simp add: writes_def whenS_def codec_simps)

lemma createEvent_to:
  assumes "createEventOk m" "off + length (createEvent_enc m) \<le> length buf" "length (createEvent_enc m) \<le> unat n"
  shows "createEvent_dataToBuffer m buf off n =
    Some (length (createEvent_enc m), take off buf @ createEvent_enc m @ drop (off + length (createEvent_enc m)) buf)"
proof -
  note ok = createEventOkD [OF assms(1)]
  note pieces = writes_limit_when [of 2, OF _ ok(1) ok(5), simplified] writes_limit_when [of 3, OF _ ok(2) ok(6), simplified]
    writes_limit_when [of 4, OF _ ok(3) ok(7), simplified] writes_query_when [OF ok(4) ok(8)]
  show ?thesis
    unfolding createEvent_dataToBuffer_def createEvent_size(1) [OF assms(1)] Let_def Option.bind.bind_lunit
    by (rule to_lawI [OF _ refl assms(2,3)], unfold createEvent_enc_def Let_def,
        (rule writes_intros refl pieces | rule writes_Cons | (rule FromDouble_total, simp) | simp add: codec_simps)+)
qed

lemma parses_query:
  assumes "off = length pre" "unat n = length D" "bit (createEvent_presenceVector m) 7 = c" "c \<Longrightarrow> length d = unat k"
  shows "parses D [getQueryMessage (pre @ D @ post) off n] (if c then bytesOfWord 4 k @ d else []) m []
    (m\<lparr>createEvent_queryMessage := (if c then Some (jausMessageCreate\<lparr>dataSize := k, source := source m,
        destination := destination m, commandCode := jausMessageGetComplementaryCommandCode (createEvent_reportMessageCode m),
        data := Some d\<rparr>) else None)\<rparr>)"
proof (cases c)
  case False
  then show ?thesis using assms(3) by (simp add: parses_def getQueryMessage_def codec_simps)
next
  case True
  show ?thesis
    unfolding parses_def
  proof (intro allI impI)
    fix i assume i: "i \<le> length D" and d: "drop i D = (if c then bytesOfWord 4 k @ d else [])"
    then show "\<exists>j\<le>length D. drop j D = [] \<and> runStmts [getQueryMessage (pre @ D @ post) off n] (i, m) =
        Next (j, m\<lparr>createEvent_queryMessage := (if c then Some (jausMessageCreate\<lparr>dataSize := k, source := source m,
          destination := destination m, commandCode := jausMessageGetComplementaryCommandCode (createEvent_reportMessageCode m),
          data := Some d\<rparr>) else None)\<rparr>)"
      using body_at [of i D k d "[]" n off pre post] assms True
      by (intro exI [of _ "i + 4 + unat k"]) (simp add: getQueryMessage_def codec_simps)
  qed
qed

lemma createEvent_from:
  assumes "createEventOk m" "dataSize m0 = of_nat (length (createEvent_enc m))"
  shows "createEvent_dataFromBuffer m0 (pre @ createEvent_enc m @ post) (length pre) (dataSize m0) =
    Some (True, createEvent_withData m0 m)"
proof -
  note ok = createEventOkD [OF assms(1)]
  let ?pv = "createEvent_presenceVector m"
  have n: "unat (dataSize m0) = length (createEvent_enc m)"
    using assms(2) createEvent_size(2) [OF assms(1)] by (simp add: unat_of_nat_lt)
  have q: "bit ?pv 7 \<Longrightarrow> length (dataBytes (the (createEvent_queryMessage m))) = unat (dataSize (the (createEvent_queryMessage m)))"
    using ok(8) by (simp add: enclosed_def)
  have l: "bit ?pv 2 \<Longrightarrow> map_option limitSeen (createEvent_lowerLimit m) = Some (limitSeen (the (createEvent_lowerLimit m)))"
    "bit ?pv 3 \<Longrightarrow> map_option limitSeen (createEvent_upperLimit m) = Some (limitSeen (the (createEvent_upperLimit m)))"
    "bit ?pv 4 \<Longrightarrow> map_option limitSeen (createEvent_stateLimit m) = Some (limitSeen (the (createEvent_stateLimit m)))"
    using ok(1-3) by (metis option.map(2))+
  have carry: "bit ?pv 7 \<Longrightarrow> map_option f (createEvent_queryMessage m) = Some (f (the (createEvent_queryMessage m)))" for f
    using ok(4) by (metis option.map(2))
  show ?thesis
    unfolding createEvent_dataFromBuffer_def
    by (rule from_lawI [where D = "createEvent_enc m"], unfold createEvent_enc_def Let_def,
        (rule parses_intros refl n [unfolded createEvent_enc_def Let_def] parses_limit parses_query ok q | rule parses_Cons
          | simp add: codec_simps onlyIf_def)+)
      (simp_all add: createEvent_withData_def onlyIf_def Let_def l carry carried_def)
qed

lemma createEvent_toJausMessage:
  assumes "createEventOk m"
  shows "createEventMessageToJausMessage m =
    Some ((copyHeader m jausMessageCreate)\<lparr>dataSize := of_nat (length (createEvent_enc m)), data := Some (createEvent_enc m)\<rparr>)"
proof -
  let ?n = "of_nat (length (createEvent_enc m)) :: u32"
  have "unat ?n = length (createEvent_enc m)" using createEvent_size(2) [OF assms] by (simp add: unat_of_nat_lt)
  then show ?thesis
    using createEvent_to [OF assms, of 0 "replicate (unat ?n) 0" ?n] createEvent_size(1) [OF assms]
    by (simp add: createEventMessageToJausMessage_def messageToJausMessage_def)
qed

lemma createEvent_fromJausMessage:
  assumes "createEventOk m" "commandCode m = JAUS_CREATE_EVENT"
    "jm = (copyHeader m jausMessageCreate)\<lparr>dataSize := of_nat (length (createEvent_enc m)), data := Some (createEvent_enc m)\<rparr>"
  shows "createEventMessageFromJausMessage junk jm = Some (Some (createEvent_withData (copyHeader jm junk) m))"
  using createEvent_from [OF assms(1), of "copyHeader jm junk" "[]" "[]"] assms(2)
  by (simp add: createEventMessageFromJausMessage_def messageFromJausMessage_def assms(3))

section \<open>Properties\<close>

text \<open>
  C31. Requests for events and events survive the wire. A request whose presence vector tells which parts it has (of
  whatever type its limits are, up to the three colours) is read back with those parts: the limits as far as their type
  reaches, the rates as their scaled values, and the query with the code that belongs to the report asked for. An event is
  read back with its number and its report, which has got the addresses of the event.
\<close>

theorem event_messages_roundtrip:
  assumes "createEventOk ce" "commandCode ce = JAUS_CREATE_EVENT" "event_reportMessage e = Some r" "enclosed 8 r" "commandCode e = JAUS_EVENT"
  shows "(\<exists>jm. createEventMessageToJausMessage ce = Some jm \<and> length (dataBytes jm) = unat (dataSize jm) \<and>
       createEventMessageFromJausMessage junk jm = Some (Some (createEvent_withData (copyHeader jm junk) ce))) \<and>
     (\<exists>jm x. eventMessageToJausMessage e = Some jm \<and> length (dataBytes jm) = unat (dataSize jm) \<and>
       eventMessageFromJausMessage junk' jm = Some (Some x) \<and> source x = source e \<and> destination x = destination e \<and>
       event_eventId x = event_eventId e \<and> event_eventSequenceNumber x = event_eventSequenceNumber e \<and>
       event_reportMessage x = Some (carried e r))"
proof
  let ?jm = "(copyHeader ce jausMessageCreate)\<lparr>dataSize := of_nat (length (createEvent_enc ce)), data := Some (createEvent_enc ce)\<rparr>"
  show "\<exists>jm. createEventMessageToJausMessage ce = Some jm \<and> length (dataBytes jm) = unat (dataSize jm) \<and>
       createEventMessageFromJausMessage junk jm = Some (Some (createEvent_withData (copyHeader jm junk) ce))"
    using createEvent_toJausMessage [OF assms(1)] createEvent_fromJausMessage [OF assms(1,2) refl, of junk] createEvent_size(2) [OF assms(1)]
    by (intro exI [of _ ?jm]) (simp add: dataBytes_def unat_of_nat_lt)
  show "\<exists>jm x. eventMessageToJausMessage e = Some jm \<and> length (dataBytes jm) = unat (dataSize jm) \<and>
       eventMessageFromJausMessage junk' jm = Some (Some x) \<and> source x = source e \<and> destination x = destination e \<and>
       event_eventId x = event_eventId e \<and> event_eventSequenceNumber x = event_eventSequenceNumber e \<and>
       event_reportMessage x = Some (carried e r)"
    using event_toJausMessage [OF assms(3,4)] event_fromJausMessage [OF assms(3,4,5), of junk'] event_sizes(2) [OF assms(3,4)]
    by (simp add: dataBytes_def)
qed

theorem event_messages_roundtrip_witness:
  "\<exists>ce e jm x. createEvent_presenceVector ce = 4 \<and> createEvent_lowerLimit ce = Some \<lparr>limitDataType = EVENT_LIMIT_RGB_TYPE, limitUnion = 0x0A0B0C\<rparr> \<and>
     createEventMessageToJausMessage ce = Some jm \<and> createEventMessageFromJausMessage ce jm = Some (Some x) \<and>
     createEvent_lowerLimit x = Some (limitSeen \<lparr>limitDataType = EVENT_LIMIT_RGB_TYPE, limitUnion = 0x0A0B0C\<rparr>)"
proof -
  let ?l = "\<lparr>limitDataType = EVENT_LIMIT_RGB_TYPE, limitUnion = 0x0A0B0C\<rparr>"
  let ?ce = "\<lparr>properties = defaultProperties, commandCode = JAUS_CREATE_EVENT, destination = jausAddressCreate, source = jausAddressCreate,
     dataSize = 0, dataFlag = 0, sequenceNumber = 0, createEvent_presenceVector = 4, createEvent_requestId = 0,
     createEvent_reportMessageCode = 0x4B01, createEvent_eventType = 1, createEvent_eventBoundary = 0, createEvent_limitDataField = 0,
     createEvent_lowerLimit = Some ?l, createEvent_upperLimit = None, createEvent_stateLimit = None,
     createEvent_requestedMinimumRate = 0, createEvent_requestedUpdateRate = 0, createEvent_queryMessage = None\<rparr>"
  let ?r = "jausMessageCreate\<lparr>dataSize := 1, data := Some [0]\<rparr>"
  let ?e = "\<lparr>properties = defaultProperties, commandCode = JAUS_EVENT, destination = jausAddressCreate, source = jausAddressCreate,
     dataSize = 0, dataFlag = 0, sequenceNumber = 0, event_eventId = 3, event_eventSequenceNumber = 0, event_reportMessage = Some ?r\<rparr>"
  have bits: "bit (4 :: u8) 2" "\<not> bit (4 :: u8) 3" "\<not> bit (4 :: u8) 4" "\<not> bit (4 :: u8) 7" by (simp_all add: bit_iff_odd)
  have ce: "createEventOk ?ce" by (simp add: createEventOk_def limitOk_def bits)
  have e: "enclosed 8 ?r" by (simp add: enclosed_def dataBytes_def)
  have "commandCode ?ce = JAUS_CREATE_EVENT" "event_reportMessage ?e = Some ?r" "commandCode ?e = JAUS_EVENT" by simp_all
  from event_messages_roundtrip [OF ce this(1,2) e this(3), of ?ce ?e]
  obtain jm where "createEventMessageToJausMessage ?ce = Some jm"
    "createEventMessageFromJausMessage ?ce jm = Some (Some (createEvent_withData (copyHeader jm ?ce) ?ce))" by blast
  moreover have "createEvent_lowerLimit (createEvent_withData m0 ?ce) = Some (limitSeen ?l)" for m0
    by (simp add: createEvent_withData_def Let_def bits)
  ultimately show ?thesis
    by (intro exI [of _ ?ce] exI [of _ ?e] exI [of _ jm] exI [of _ "createEvent_withData (copyHeader jm ?ce) ?ce"]) simp
qed

end
