(* ===== verification/NodeManager.thy ===== *)
theory NodeManager
  imports EventMessages NodeMessages MessageRouting
begin

text \<open>
  The component of the node manager process that every node has under the number 1
  (\<open>openjaus/src/libopenjaus/nodeManager/NodeManagerComponent.cpp\<close>). It keeps the system tree up to date with the
  heartbeats and reports it receives, answers queries about this node and subsystem, and tells subscribers when the
  configuration changes.

  A local component has the router (with the system tree) behind it: what it sends it hands to the component
  communication manager as a message of its own interface. The static variables of the functions are fields of the
  state. The two change lists are hash maps from event numbers to addresses; here they are lists in the order of
  entry, since the order of iteration of the container is not specified. The clocks and the contents of memory
  fresh from \<open>malloc\<close> are the record \<open>NmEnv\<close>; the clock does not advance within one call. A message the component
  makes is counted in \<open>created\<close>. Debug events are not kept.
\<close>

section \<open>State\<close>

record LocalComponent =
  router :: Router
  localCmpt :: JausComponent
  localInf :: nat
  eventIds :: "bool list"
  subsystemChangeList :: "(nat \<times> JausAddress) list"
  nodeChangeList :: "(nat \<times> JausAddress) list"
  created :: nat

record NodeManagerComponent = LocalComponent +
  nextSendTime :: "real option"
  refreshTime :: real
  reconfigureTime :: real

record NmEnv =
  nmClock :: int
  nmTime :: real
  junkNmRequest :: RequestComponentControlMessage
  junkNmQueryConf :: QueryConfigurationMessage
  junkNmQueryId :: QueryIdentificationMessage
  junkNmQueryServices :: QueryServicesMessage
  junkNmReportConf :: ReportConfigurationMessage
  junkNmReportId :: ReportIdentificationMessage
  junkNmReportServices :: ReportServicesMessage
  junkNmCreateEvent :: CreateEventMessage
  junkNmCancelEvent :: CancelEventMessage
  junkNmEvent :: EventMessage

abbreviation (input) MAXIMUM_EVENT_ID :: nat where "MAXIMUM_EVENT_ID \<equiv> 255"
abbreviation (input) REFRESH_TIME_SEC :: real where "REFRESH_TIME_SEC \<equiv> 1"
abbreviation (input) JAUS_NODE_MANAGER_COMPONENT :: u8 where "JAUS_NODE_MANAGER_COMPONENT \<equiv> 1"
abbreviation (input) JAUS_NODE_MANAGER :: u8 where "JAUS_NODE_MANAGER \<equiv> 1"
abbreviation (input) JAUS_SUBSYSTEM_CONFIGURATION :: u8 where "JAUS_SUBSYSTEM_CONFIGURATION \<equiv> 2"
abbreviation (input) JAUS_NODE_CONFIGURATION :: u8 where "JAUS_NODE_CONFIGURATION \<equiv> 3"
abbreviation (input) JAUS_QUERY_FIELD_SYSTEM_IDENTITY :: u8 where "JAUS_QUERY_FIELD_SYSTEM_IDENTITY \<equiv> 1"
abbreviation (input) JAUS_QUERY_FIELD_SS_IDENTITY :: u8 where "JAUS_QUERY_FIELD_SS_IDENTITY \<equiv> 2"
abbreviation (input) JAUS_QUERY_FIELD_NODE_IDENTITY :: u8 where "JAUS_QUERY_FIELD_NODE_IDENTITY \<equiv> 3"
abbreviation (input) JAUS_QUERY_FIELD_COMPONENT_IDENTITY :: u8 where "JAUS_QUERY_FIELD_COMPONENT_IDENTITY \<equiv> 4"
abbreviation (input) SUCCESSFUL_RESPONSE :: u8 where "SUCCESSFUL_RESPONSE \<equiv> 0"
abbreviation (input) CONNECTION_REFUSED_RESPONSE :: u8 where "CONNECTION_REFUSED_RESPONSE \<equiv> 3"
abbreviation (input) INVALID_EVENT_RESPONSE :: u8 where "INVALID_EVENT_RESPONSE \<equiv> 4"
abbreviation (input) MESSAGE_UNSUPPORTED_RESPONSE :: u8 where "MESSAGE_UNSUPPORTED_RESPONSE \<equiv> 5"
abbreviation (input) EVENT_EVERY_CHANGE_TYPE :: u8 where "EVENT_EVERY_CHANGE_TYPE \<equiv> 1"

abbreviation treeOf :: "'a LocalComponent_scheme \<Rightarrow> SystemTree" where "treeOf nm \<equiv> systemTree (router nm)"
abbreviation ownAddress :: "'a LocalComponent_scheme \<Rightarrow> JausAddress" where "ownAddress nm \<equiv> cmptAddress (localCmpt nm)"

definition withTree :: "SystemTree \<Rightarrow> 'a LocalComponent_scheme \<Rightarrow> 'a LocalComponent_scheme" where
  "withTree t nm = nm\<lparr>router := (router nm)\<lparr>systemTree := t\<rparr>\<rparr>"

definition nmError :: "ErrorType \<Rightarrow> string \<Rightarrow> 'a LocalComponent_scheme \<Rightarrow> 'a LocalComponent_scheme" where
  "nmError kind why nm = nm\<lparr>router := raiseError kind why (router nm)\<rparr>"

text \<open>\<open>jausMessageDestroy(message); return b;\<close>\<close>

definition finishWith :: "bool \<Rightarrow> JausMessage \<Rightarrow> 'a LocalComponent_scheme \<Rightarrow> (bool \<times> 'a LocalComponent_scheme) exec" where
  "finishWith b message nm = Some (b, nm\<lparr>router := destroyMessage (Some message) (router nm)\<rparr>)"

section \<open>Sending\<close>

text \<open>\<open>this->commMngr->receiveJausMessage(message, this)\<close>\<close>

definition handOver :: "JausMessage \<Rightarrow> 'a LocalComponent_scheme \<Rightarrow> 'a LocalComponent_scheme exec" where
  "handOver message nm =
     do { (_, r) \<leftarrow> cmptReceiveJausMessage (Some message) (Some (localInf nm)) (router nm); Some (nm\<lparr>router := r\<rparr>) }"

text \<open>A message that is made and sent at once.\<close>

definition transmitNew :: "JausMessage exec \<Rightarrow> 'a LocalComponent_scheme \<Rightarrow> 'a LocalComponent_scheme exec" where
  "transmitNew tx nm = do { message \<leftarrow> tx; handOver message (nm\<lparr>created := created nm + 1\<rparr>) }"

text \<open>\<open>jausAddressCopy\<close> of destination and source into the message that was just made.\<close>

definition addressed :: "JausAddress \<Rightarrow> JausAddress \<Rightarrow> JausMessage exec \<Rightarrow> JausMessage exec" where
  "addressed dst src tx = map_option (\<lambda>m. m\<lparr>destination := dst, source := src\<rparr>) tx"

definition sendQueryNodeIdentification :: "JausAddress \<Rightarrow> 'a LocalComponent_scheme \<Rightarrow> (bool \<times> 'a LocalComponent_scheme) exec" where
  "sendQueryNodeIdentification a nm =
     do { known \<leftarrow> hasNode (treeOf nm) a;
          ident \<leftarrow> (if known then hasNodeIdentification (treeOf nm) a else Some False);
          if known \<and> \<not> ident
          then do { nm' \<leftarrow> transmitNew (addressed a (ownAddress nm) (queryIdentificationMessageToJausMessage
                      (queryIdentificationMessageCreate\<lparr>queryIdentification_queryField := JAUS_QUERY_FIELD_NODE_IDENTITY\<rparr>))) nm;
                    Some (True, nm') }
          else Some (False, nm) }"

definition sendQuerySubsystemIdentification :: "JausAddress \<Rightarrow> 'a LocalComponent_scheme \<Rightarrow> (bool \<times> 'a LocalComponent_scheme) exec" where
  "sendQuerySubsystemIdentification a nm =
     do { known \<leftarrow> hasSubsystem (treeOf nm) a;
          ident \<leftarrow> (if known then hasSubsystemIdentification (treeOf nm) a else Some False);
          if known \<and> \<not> ident
          then do { nm' \<leftarrow> transmitNew (addressed a (ownAddress nm) (queryIdentificationMessageToJausMessage
                      (queryIdentificationMessageCreate\<lparr>queryIdentification_queryField := JAUS_QUERY_FIELD_SS_IDENTITY\<rparr>))) nm;
                    Some (True, nm') }
          else Some (False, nm) }"

definition sendQueryComponentIdentification :: "JausAddress \<Rightarrow> 'a LocalComponent_scheme \<Rightarrow> (bool \<times> 'a LocalComponent_scheme) exec" where
  "sendQueryComponentIdentification a nm =
     do { known \<leftarrow> hasComponent (treeOf nm) a;
          ident \<leftarrow> (if known then hasComponentIdentification (treeOf nm) a else Some False);
          if known \<and> \<not> ident
          then do { nm' \<leftarrow> transmitNew (addressed a (ownAddress nm) (queryIdentificationMessageToJausMessage
                      (queryIdentificationMessageCreate\<lparr>queryIdentification_queryField := JAUS_QUERY_FIELD_COMPONENT_IDENTITY\<rparr>))) nm;
                    Some (True, nm') }
          else Some (False, nm) }"

definition sendQueryComponentServices :: "JausAddress \<Rightarrow> 'a LocalComponent_scheme \<Rightarrow> (bool \<times> 'a LocalComponent_scheme) exec" where
  "sendQueryComponentServices a nm =
     do { known \<leftarrow> hasComponent (treeOf nm) a;
          served \<leftarrow> (if known then hasComponentServices (treeOf nm) a else Some False);
          if known \<and> \<not> served
          then do { nm' \<leftarrow> transmitNew (addressed a (ownAddress nm)
                      (queryServicesMessageToJausMessage queryServicesMessageCreate)) nm;
                    Some (True, nm') }
          else Some (False, nm) }"

text \<open>The request for a configuration and, with \<open>createEvent\<close>, the request to be told of every change of it.\<close>

definition configurationQuery :: "u8 \<Rightarrow> QueryConfigurationMessage" where
  "configurationQuery queryField = queryConfigurationMessageCreate\<lparr>queryConfiguration_queryField := queryField\<rparr>"

definition configurationEvent :: "u8 \<Rightarrow> CreateEventMessage exec" where
  "configurationEvent queryField =
     do { createEventMsg \<leftarrow> createEventMessageCreate;
          (_, pv) \<leftarrow> jausByteSetBit 0 CREATE_EVENT_PV_QUERY_MESSAGE_BIT;
          queryMessage \<leftarrow> queryConfigurationMessageToJausMessage (configurationQuery queryField);
          Some (createEventMsg\<lparr>createEvent_presenceVector := pv,
            createEvent_reportMessageCode := jausMessageGetComplementaryCommandCode (commandCode (configurationQuery queryField)),
            createEvent_eventType := EVENT_EVERY_CHANGE_TYPE, createEvent_queryMessage := Some queryMessage\<rparr>) }"

definition queryConfigurationOf ::
    "u8 \<Rightarrow> JausAddress \<Rightarrow> bool \<Rightarrow> 'a LocalComponent_scheme \<Rightarrow> (bool \<times> 'a LocalComponent_scheme) exec" where
  "queryConfigurationOf queryField a createEvent nm =
     do { nm1 \<leftarrow> transmitNew (addressed a (ownAddress nm) (queryConfigurationMessageToJausMessage (configurationQuery queryField))) nm;
          if createEvent
          then do { createEventMsg \<leftarrow> configurationEvent queryField;
                    nm2 \<leftarrow> transmitNew (addressed a (ownAddress nm1) (createEventMessageToJausMessage createEventMsg)) nm1;
                    Some (True, nm2) }
          else Some (True, nm1) }"

definition sendQueryNodeConfiguration ::
    "JausAddress \<Rightarrow> bool \<Rightarrow> 'a LocalComponent_scheme \<Rightarrow> (bool \<times> 'a LocalComponent_scheme) exec" where
  "sendQueryNodeConfiguration a createEvent nm =
     do { known \<leftarrow> hasNode (treeOf nm) a;
          conf \<leftarrow> (if known then hasNodeConfiguration (treeOf nm) a else Some False);
          if known \<and> \<not> conf then queryConfigurationOf JAUS_NODE_CONFIGURATION a createEvent nm else Some (False, nm) }"

definition sendQuerySubsystemConfiguration ::
    "JausAddress \<Rightarrow> bool \<Rightarrow> 'a LocalComponent_scheme \<Rightarrow> (bool \<times> 'a LocalComponent_scheme) exec" where
  "sendQuerySubsystemConfiguration a createEvent nm =
     do { known \<leftarrow> hasSubsystem (treeOf nm) a;
          conf \<leftarrow> (if known then hasSubsystemConfiguration (treeOf nm) a else Some False);
          if known \<and> \<not> conf then queryConfigurationOf JAUS_SUBSYSTEM_CONFIGURATION a createEvent nm else Some (False, nm) }"

section \<open>Events\<close>

fun sendEvents :: "EventMessage \<Rightarrow> (nat \<times> JausAddress) list \<Rightarrow> 'a LocalComponent_scheme \<Rightarrow> 'a LocalComponent_scheme exec" where
  "sendEvents eventMessage [] nm = Some nm"
| "sendEvents eventMessage ((k, a) # rest) nm =
     do { txMessage \<leftarrow> eventMessageToJausMessage (eventMessage\<lparr>event_eventId := of_nat k, destination := a\<rparr>);
          (clone, r) \<leftarrow> cloneMessage txMessage (router nm);
          nm1 \<leftarrow> handOver clone (nm\<lparr>router := r, created := created nm + 1\<rparr>);
          sendEvents eventMessage rest (nm1\<lparr>router := destroyMessage (Some txMessage) (router nm1)\<rparr>) }"

text \<open>The event that carries a configuration, and its way to the subscribers of a list.\<close>

definition configurationReport :: "int \<Rightarrow> JausSubsystem \<Rightarrow> ReportConfigurationMessage" where
  "configurationReport now subs = (reportConfigurationMessageCreate now)\<lparr>reportConfiguration_subsystem := subs\<rparr>"

definition sendConfigurationEvents ::
    "int \<Rightarrow> JausSubsystem \<Rightarrow> (nat \<times> JausAddress) list \<Rightarrow> 'a LocalComponent_scheme \<Rightarrow> 'a LocalComponent_scheme exec" where
  "sendConfigurationEvents now subs subscribers nm =
     do { report \<leftarrow> reportConfigurationMessageToJausMessage (configurationReport now subs);
          sendEvents (eventMessageCreate\<lparr>event_reportMessage := Some report, source := ownAddress nm\<rparr>) subscribers nm }"

definition sendNodeChangedEvents :: "NmEnv \<Rightarrow> 'a LocalComponent_scheme \<Rightarrow> 'a LocalComponent_scheme exec" where
  "sendNodeChangedEvents env nm =
     do { thisNode \<leftarrow> getNode (nmClock env) (treeOf nm) (uint (addrSubsystem (ownAddress nm))) (uint (addrNode (ownAddress nm)));
          (case thisNode of
             None \<Rightarrow> Some nm
           | Some node \<Rightarrow>
               let empty = reportConfiguration_subsystem (reportConfigurationMessageCreate (nmClock env))
               in sendConfigurationEvents (nmClock env) (empty\<lparr>subsNodes := subsNodes empty @ [node]\<rparr>) (nodeChangeList nm) nm) }"

definition sendSubsystemChangedEvents :: "NmEnv \<Rightarrow> 'a LocalComponent_scheme \<Rightarrow> 'a LocalComponent_scheme exec" where
  "sendSubsystemChangedEvents env nm =
     do { thisSubs \<leftarrow> getSubsystem (nmClock env) (treeOf nm) (uint (addrSubsystem (ownAddress nm)));
          (case thisSubs of
             None \<Rightarrow> Some nm
           | Some subs \<Rightarrow> sendConfigurationEvents (nmClock env) subs (subsystemChangeList nm) nm) }"

definition sendNodeShutdownEvents :: "NmEnv \<Rightarrow> 'a LocalComponent_scheme \<Rightarrow> 'a LocalComponent_scheme exec" where
  "sendNodeShutdownEvents env nm =
     (let empty = reportConfiguration_subsystem (reportConfigurationMessageCreate (nmClock env));
          emptyNode = (jausNodeCreate (nmClock env))\<lparr>nodeId := addrNode (ownAddress nm)\<rparr>
      in sendConfigurationEvents (nmClock env) (empty\<lparr>subsNodes := subsNodes empty @ [emptyNode]\<rparr>) (nodeChangeList nm) nm)"

definition sendSubsystemShutdownEvents :: "NmEnv \<Rightarrow> 'a LocalComponent_scheme \<Rightarrow> 'a LocalComponent_scheme exec" where
  "sendSubsystemShutdownEvents env nm =
     (let emptySubs = (jausSubsystemCreate (nmClock env))\<lparr>subsId := uint (addrSubsystem (ownAddress nm))\<rparr>
      in sendConfigurationEvents (nmClock env) emptySubs (subsystemChangeList nm) nm)"

text \<open>The component is the event handler of the tree; it sees the tree as it is when the event is raised.\<close>

definition handleEvent :: "NmEnv \<Rightarrow> 'a LocalComponent_scheme handler" where
  "handleEvent env e t nm =
     (case e of
        NodeTimeout _ \<Rightarrow> sendSubsystemChangedEvents env (withTree t nm)
      | ComponentTimeout _ \<Rightarrow>
          do { nm1 \<leftarrow> sendSubsystemChangedEvents env (withTree t nm); sendNodeChangedEvents env nm1 }
      | _ \<Rightarrow> Some nm)"

text \<open>Operations of the tree, called by the component.\<close>

definition changeTree :: "NmEnv \<Rightarrow>
    ('a LocalComponent_scheme handler list \<Rightarrow> int \<Rightarrow> SystemTree \<Rightarrow> 'a LocalComponent_scheme \<Rightarrow>
      (bool \<times> SystemTree \<times> 'a LocalComponent_scheme) exec) \<Rightarrow>
    'a LocalComponent_scheme \<Rightarrow> (bool \<times> 'a LocalComponent_scheme) exec" where
  "changeTree env operation nm =
     do { (b, t, nm') \<leftarrow> operation [handleEvent env] (nmClock env) (treeOf nm) nm; Some (b, withTree t nm') }"

definition setTree :: "(SystemTree \<Rightarrow> (bool \<times> SystemTree) exec) \<Rightarrow> 'a LocalComponent_scheme \<Rightarrow>
    'a LocalComponent_scheme exec" where
  "setTree operation nm = do { (_, t) \<leftarrow> operation (treeOf nm); Some (withTree t nm) }"

section \<open>Reports\<close>

text \<open>The queries for what is not known of a component, a list of components and a list of nodes.\<close>

fun queryComponents :: "JausComponent list \<Rightarrow> 'a LocalComponent_scheme \<Rightarrow> 'a LocalComponent_scheme exec" where
  "queryComponents [] nm = Some nm"
| "queryComponents (c # rest) nm =
     do { (_, nm1) \<leftarrow> (if jausComponentHasIdentification (Some c) then Some (False, nm)
                       else sendQueryComponentIdentification (cmptAddress c) nm);
          (_, nm2) \<leftarrow> (if jausComponentHasServices (Some c) then Some (False, nm1)
                       else sendQueryComponentServices (cmptAddress c) nm1);
          queryComponents rest nm2 }"

fun queryNodes :: "(JausNode \<Rightarrow> JausAddress) \<Rightarrow> JausNode list \<Rightarrow> 'a LocalComponent_scheme \<Rightarrow>
    'a LocalComponent_scheme exec" where
  "queryNodes address [] nm = Some nm"
| "queryNodes address (node # rest) nm =
     do { (_, nm1) \<leftarrow> (if jausNodeHasIdentification (Some node) then Some (False, nm)
                       else sendQueryNodeIdentification (address node) nm);
          nm2 \<leftarrow> queryComponents (nodeComponents node) nm1;
          queryNodes address rest nm2 }"

definition nodeManagerAt :: "u8 \<Rightarrow> u8 \<Rightarrow> JausAddress" where
  "nodeManagerAt subs node = \<lparr>addrSubsystem = subs, addrNode = node, addrComponent = JAUS_NODE_MANAGER, addrInstance = 1\<rparr>"

text \<open>The report of another subsystem.\<close>

definition foreignConfiguration :: "NmEnv \<Rightarrow> JausAddress \<Rightarrow> JausSubsystem \<Rightarrow> JausMessage \<Rightarrow>
    'a LocalComponent_scheme \<Rightarrow> (bool \<times> 'a LocalComponent_scheme) exec" where
  "foreignConfiguration env src reported message nm =
     (let s = uint (addrSubsystem src)
      in if length (subsNodes reported) = 0
         then do { (_, nm1) \<leftarrow> changeTree env (\<lambda>hs now t w. removeSubsystem hs now t w s) nm;
                   finishWith True message nm1 }
         else do { (_, nm1) \<leftarrow> changeTree env (\<lambda>hs now t w. replaceSubsystem hs now t w s reported) nm;
                   got \<leftarrow> getSubsystem (nmClock env) (treeOf nm1) s;
                   subs \<leftarrow> got;
                   nm2 \<leftarrow> queryNodes (\<lambda>_. nodeManagerAt (addrSubsystem src) (addrNode src)) (subsNodes subs) nm1;
                   finishWith True message nm2 })"

text \<open>The report of a node of this subsystem; the first node of an empty list is read past the end of the array.\<close>

definition nodeConfiguration :: "NmEnv \<Rightarrow> JausAddress \<Rightarrow> JausSubsystem \<Rightarrow> JausMessage \<Rightarrow>
    'a LocalComponent_scheme \<Rightarrow> (bool \<times> 'a LocalComponent_scheme) exec" where
  "nodeConfiguration env src reported message nm =
     (case subsNodes reported of
        [] \<Rightarrow> None
      | node # others \<Rightarrow>
          let nm0 = (if others \<noteq> []
                     then nmError Warning ''Node-level Report Conf with more than 1 node included. Ignoring other nodes.'' nm
                     else nm)
          in if length (nodeComponents node) = 0
             then do { (_, nm1) \<leftarrow> changeTree env (\<lambda>hs now t w. removeNode hs now t w
                                     (uint (addrSubsystem src)) (uint (addrNode src))) nm0;
                       finishWith True message nm1 }
             else do { (_, nm1) \<leftarrow> changeTree env (\<lambda>hs now t w. replaceNode hs now t w src node) nm0;
                       nm2 \<leftarrow> queryComponents (nodeComponents node) nm1;
                       nm3 \<leftarrow> sendSubsystemChangedEvents env nm2;
                       finishWith True message nm3 })"

definition processReportConfiguration :: "NmEnv \<Rightarrow> JausMessage \<Rightarrow> 'a LocalComponent_scheme \<Rightarrow>
    (bool \<times> 'a LocalComponent_scheme) exec" where
  "processReportConfiguration env message nm =
     do { unpacked \<leftarrow> reportConfigurationMessageFromJausMessage (nmClock env) (junkNmReportConf env) message;
          (case unpacked of
             None \<Rightarrow> finishWith False message (nmError MemoryFailure ''Cannot unpack ReportConf'' nm)
           | Some reportConf \<Rightarrow>
               do { let src = source reportConf;
                    known \<leftarrow> hasSubsystem (treeOf nm) src;
                    if \<not> known
                    then finishWith False message (nmError MessageError ''Received ReportConf from unknown subsystem'' nm)
                    else if addrSubsystem src \<noteq> addrSubsystem (ownAddress nm)
                    then foreignConfiguration env src (reportConfiguration_subsystem reportConf) message nm
                    else do {
                      present \<leftarrow> hasNode (treeOf nm) src;
                      if \<not> present
                      then finishWith True message
                             (nmError MessageError ''Report Conf from unknown node! This is an unsolicited report'' nm)
                      else nodeConfiguration env src (reportConfiguration_subsystem reportConf) message nm } }) }"

text \<open>The tree copies the identification as a string.\<close>

definition cString :: "bytes \<Rightarrow> bytes exec" where
  "cString field = map_option (\<lambda>k. take k field) (strlen field)"

definition processReportIdentification :: "NmEnv \<Rightarrow> JausMessage \<Rightarrow> 'a LocalComponent_scheme \<Rightarrow>
    (bool \<times> 'a LocalComponent_scheme) exec" where
  "processReportIdentification env message nm =
     do { unpacked \<leftarrow> reportIdentificationMessageFromJausMessage (junkNmReportId env) message;
          (case unpacked of
             None \<Rightarrow> finishWith False message nm
           | Some reportId \<Rightarrow>
               let src = source reportId; queryType = reportIdentification_queryType reportId;
                   name = cString (reportIdentification_identification reportId)
               in if queryType = JAUS_QUERY_FIELD_SYSTEM_IDENTITY then finishWith True message nm
                  else if queryType = JAUS_QUERY_FIELD_SS_IDENTITY
                  then do { known \<leftarrow> hasSubsystem (treeOf nm) src;
                            if \<not> known then finishWith False message nm
                            else do { str \<leftarrow> name;
                                      nm1 \<leftarrow> setTree (\<lambda>t. setSubsystemIdentification t src str) nm;
                                      (_, nm2) \<leftarrow> sendQuerySubsystemConfiguration src True nm1;
                                      finishWith True message nm2 } }
                  else if queryType = JAUS_QUERY_FIELD_NODE_IDENTITY
                  then do { known \<leftarrow> hasNode (treeOf nm) src;
                            if \<not> known then finishWith False message nm
                            else do { str \<leftarrow> name;
                                      nm1 \<leftarrow> setTree (\<lambda>t. setNodeIdentification t src str) nm;
                                      (_, nm2) \<leftarrow> sendQueryNodeConfiguration src True nm1;
                                      finishWith True message nm2 } }
                  else if queryType = JAUS_QUERY_FIELD_COMPONENT_IDENTITY
                  then do { known \<leftarrow> hasComponent (treeOf nm) src;
                            if \<not> known then finishWith False message nm
                            else do { str \<leftarrow> name;
                                      nm1 \<leftarrow> setTree (\<lambda>t. setComponentIdentification t src str) nm;
                                      finishWith True message nm1 } }
                  else finishWith True message nm) }"

definition processReportServices :: "NmEnv \<Rightarrow> JausMessage \<Rightarrow> 'a LocalComponent_scheme \<Rightarrow>
    (bool \<times> 'a LocalComponent_scheme) exec" where
  "processReportServices env message nm =
     do { unpacked \<leftarrow> reportServicesMessageFromJausMessage (junkNmReportServices env) message;
          (case unpacked of
             None \<Rightarrow> finishWith False message nm
           | Some reportServices \<Rightarrow>
               do { known \<leftarrow> hasComponent (treeOf nm) (source reportServices);
                    nm1 \<leftarrow> (if known
                            then setTree (\<lambda>t. setComponentServices t (source reportServices)
                                            (reportServices_jausServices reportServices)) nm
                            else Some nm);
                    finishWith True message nm1 }) }"

section \<open>Heartbeats\<close>

text \<open>A heartbeat of a subsystem that has an identification: another subsystem, another node, a component of this node.\<close>

definition foreignHeartbeat :: "NmEnv \<Rightarrow> JausMessage \<Rightarrow> 'a LocalComponent_scheme \<Rightarrow> (bool \<times> 'a LocalComponent_scheme) exec" where
  "foreignHeartbeat env message nm =
     do { let src = source message;
          conf \<leftarrow> hasSubsystemConfiguration (treeOf nm) src;
          if \<not> conf
          then do { (_, nm1) \<leftarrow> sendQuerySubsystemConfiguration src True nm; finishWith True message nm1 }
          else do {
            got \<leftarrow> getSubsystem (nmClock env) (treeOf nm) (uint (addrSubsystem src));
            (case got of
               None \<Rightarrow> finishWith False message nm
             | Some subs \<Rightarrow>
                 do { nm1 \<leftarrow> queryNodes (\<lambda>node. nodeManagerAt (addrSubsystem src) (nodeId node)) (subsNodes subs) nm;
                      finishWith True message nm1 }) } }"

definition neighbourHeartbeat :: "NmEnv \<Rightarrow> JausMessage \<Rightarrow> 'a LocalComponent_scheme \<Rightarrow> (bool \<times> 'a LocalComponent_scheme) exec" where
  "neighbourHeartbeat env message nm =
     do { let src = source message;
          conf \<leftarrow> hasNodeConfiguration (treeOf nm) src;
          if \<not> conf
          then do { (_, nm1) \<leftarrow> sendQueryNodeConfiguration (nodeManagerAt (addrSubsystem src) (addrNode src)) True nm;
                    finishWith True message nm1 }
          else do { got \<leftarrow> getNode (nmClock env) (treeOf nm) (uint (addrSubsystem src)) (uint (addrNode src));
                    node \<leftarrow> got;
                    nm1 \<leftarrow> queryComponents (nodeComponents node) nm;
                    finishWith False message nm1 } }"

definition componentHeartbeat :: "NmEnv \<Rightarrow> JausMessage \<Rightarrow> 'a LocalComponent_scheme \<Rightarrow> (bool \<times> 'a LocalComponent_scheme) exec" where
  "componentHeartbeat env message nm =
     do { let src = source message;
          known \<leftarrow> hasComponent (treeOf nm) src;
          nm1 \<leftarrow> (if \<not> known
                  then map_option snd (changeTree env (\<lambda>hs now t w. addComponent hs now t w src None) nm)
                  else setTree (\<lambda>t. updateComponentTimestamp (nmClock env) t src) nm);
          ident \<leftarrow> hasComponentIdentification (treeOf nm1) src;
          (_, nm2) \<leftarrow> (if \<not> ident then sendQueryComponentIdentification src nm1 else Some (False, nm1));
          served \<leftarrow> hasComponentServices (treeOf nm2) src;
          (_, nm3) \<leftarrow> (if \<not> served then sendQueryComponentServices src nm2 else Some (False, nm2));
          finishWith True message nm3 }"

definition processReportHeartbeatPulse :: "NmEnv \<Rightarrow> JausMessage \<Rightarrow> 'a LocalComponent_scheme \<Rightarrow>
    (bool \<times> 'a LocalComponent_scheme) exec" where
  "processReportHeartbeatPulse env message nm =
     do { let src = source message;
          known \<leftarrow> hasSubsystem (treeOf nm) src;
          if \<not> known
          then do { (_, nm1) \<leftarrow> changeTree env (\<lambda>hs now t w. addSubsystem hs now t w (uint (addrSubsystem src)) None) nm;
                    (_, nm2) \<leftarrow> sendQuerySubsystemIdentification src nm1;
                    finishWith True message nm2 }
          else do {
            nm1 \<leftarrow> setTree (\<lambda>t. updateSubsystemTimestamp (nmClock env) t src) nm;
            ident \<leftarrow> hasSubsystemIdentification (treeOf nm1) src;
            if \<not> ident
            then do { (_, nm2) \<leftarrow> sendQuerySubsystemIdentification src nm1; finishWith True message nm2 }
            else if addrSubsystem src \<noteq> addrSubsystem (ownAddress nm1) then foreignHeartbeat env message nm1
            else do {
              present \<leftarrow> hasNode (treeOf nm1) src;
              if \<not> present
              then do { (_, nm2) \<leftarrow> changeTree env (\<lambda>hs now t w. addNode hs now t w src None) nm1;
                        (_, nm3) \<leftarrow> sendQueryNodeIdentification (nodeManagerAt (addrSubsystem src) (addrNode src)) nm2;
                        finishWith True message nm3 }
              else do {
                nm2 \<leftarrow> setTree (\<lambda>t. updateNodeTimestamp (nmClock env) t src) nm1;
                named \<leftarrow> hasNodeIdentification (treeOf nm2) src;
                if \<not> named
                then do { (_, nm3) \<leftarrow> sendQueryNodeIdentification (nodeManagerAt (addrSubsystem src) (addrNode src)) nm2;
                          finishWith True message nm3 }
                else if addrNode src \<noteq> addrNode (ownAddress nm2) then neighbourHeartbeat env message nm2
                else componentHeartbeat env message nm2 } } } }"

section \<open>Subscriptions\<close>

definition getNextEventId :: "'a LocalComponent_scheme \<Rightarrow> nat option" where
  "getNextEventId nm = firstIdx (\<lambda>used. \<not> used) (eventIds nm)"

text \<open>\<open>list[id] = address\<close> on a hash map: the entry is replaced or added.\<close>

fun mapStore :: "nat \<Rightarrow> JausAddress \<Rightarrow> (nat \<times> JausAddress) list \<Rightarrow> (nat \<times> JausAddress) list" where
  "mapStore k a [] = [(k, a)]"
| "mapStore k a ((k', a') # rest) = (if k' = k then (k, a) # rest else (k', a') # mapStore k a rest)"

definition mapErase :: "nat \<Rightarrow> (nat \<times> JausAddress) list \<Rightarrow> (nat \<times> JausAddress) list" where
  "mapErase k = filter (\<lambda>(k', a). k' \<noteq> k)"

text \<open>
  The loop in front of \<open>getNextEventId\<close> finds an entry of the same subscriber and fills in the response; the
  \<open>break\<close> leaves the loop only, and what follows overwrites the response.
\<close>

definition existingSubscription ::
    "JausAddress \<Rightarrow> (nat \<times> JausAddress) list \<Rightarrow> ConfirmEventRequestMessage \<Rightarrow> ConfirmEventRequestMessage" where
  "existingSubscription src subscribers confirm =
     (case find (\<lambda>(k, a). jausAddressEqual src a) subscribers of
        None \<Rightarrow> confirm
      | Some (k, a) \<Rightarrow> confirm\<lparr>confirmEventRequest_responseCode := SUCCESSFUL_RESPONSE, confirmEventRequest_eventId := of_nat k\<rparr>)"

definition subscribe ::
    "((nat \<times> JausAddress) list \<Rightarrow> 'a LocalComponent_scheme \<Rightarrow> 'a LocalComponent_scheme) \<Rightarrow>
     ('a LocalComponent_scheme \<Rightarrow> (nat \<times> JausAddress) list) \<Rightarrow> JausAddress \<Rightarrow> ConfirmEventRequestMessage \<Rightarrow>
     'a LocalComponent_scheme \<Rightarrow> ConfirmEventRequestMessage \<times> 'a LocalComponent_scheme" where
  "subscribe put get src confirm nm =
     (let confirm1 = existingSubscription src (get nm) confirm
      in case getNextEventId nm of
           Some k \<Rightarrow>
             (confirm1\<lparr>confirmEventRequest_eventId := of_nat k, confirmEventRequest_responseCode := SUCCESSFUL_RESPONSE\<rparr>,
              put (mapStore k src (get nm)) (nm\<lparr>eventIds := (eventIds nm)[k := True]\<rparr>))
         | None \<Rightarrow>
             (confirm1\<lparr>confirmEventRequest_responseCode := CONNECTION_REFUSED_RESPONSE, confirmEventRequest_eventId := 0\<rparr>, nm))"

definition sendConfirmation :: "ConfirmEventRequestMessage \<Rightarrow> 'a LocalComponent_scheme \<Rightarrow> 'a LocalComponent_scheme exec" where
  "sendConfirmation confirm nm = transmitNew (confirmEventRequestMessageToJausMessage confirm) nm"

definition processCreateEvent :: "NmEnv \<Rightarrow> JausMessage \<Rightarrow> 'a LocalComponent_scheme \<Rightarrow>
    (bool \<times> 'a LocalComponent_scheme) exec" where
  "processCreateEvent env message nm =
     do { let confirm = confirmEventRequestMessageCreate\<lparr>destination := source message, source := ownAddress nm\<rparr>;
          let refuse = (\<lambda>code confirm. do { nm1 \<leftarrow> sendConfirmation (confirm\<lparr>confirmEventRequest_responseCode := code\<rparr>) nm;
                                            finishWith False message nm1 });
          unpacked \<leftarrow> createEventMessageFromJausMessage (junkNmCreateEvent env) message;
          (case unpacked of
             None \<Rightarrow> refuse INVALID_EVENT_RESPONSE confirm
           | Some createEvent \<Rightarrow>
               if createEvent_reportMessageCode createEvent \<noteq> JAUS_REPORT_CONFIGURATION
               then refuse MESSAGE_UNSUPPORTED_RESPONSE confirm
               else do {
                 let confirm1 = confirm\<lparr>confirmEventRequest_messageCode := JAUS_REPORT_CONFIGURATION\<rparr>;
                 queryMessage \<leftarrow> createEvent_queryMessage createEvent;
                 query \<leftarrow> queryConfigurationMessageFromJausMessage (junkNmQueryConf env) queryMessage;
                 (case query of
                    None \<Rightarrow> refuse INVALID_EVENT_RESPONSE confirm1
                  | Some queryConf \<Rightarrow>
                      if queryConfiguration_queryField queryConf = JAUS_SUBSYSTEM_CONFIGURATION
                      then do { let (confirm2, nm1) = subscribe (\<lambda>l n. n\<lparr>subsystemChangeList := l\<rparr>) subsystemChangeList
                                                        (source createEvent) confirm1 nm;
                                nm2 \<leftarrow> sendConfirmation confirm2 nm1;
                                finishWith True message nm2 }
                      else if queryConfiguration_queryField queryConf = JAUS_NODE_CONFIGURATION
                      then do { let (confirm2, nm1) = subscribe (\<lambda>l n. n\<lparr>nodeChangeList := l\<rparr>) nodeChangeList
                                                        (source createEvent) confirm1 nm;
                                nm2 \<leftarrow> sendConfirmation confirm2 nm1;
                                finishWith True message nm2 }
                      else refuse INVALID_EVENT_RESPONSE confirm1) }) }"

text \<open>The array has an element for each number up to 254; the number of the message can be 255.\<close>

definition processCancelEvent :: "NmEnv \<Rightarrow> JausMessage \<Rightarrow> 'a LocalComponent_scheme \<Rightarrow>
    (bool \<times> 'a LocalComponent_scheme) exec" where
  "processCancelEvent env message nm =
     do { unpacked \<leftarrow> cancelEventMessageFromJausMessage (junkNmCancelEvent env) message;
          (case unpacked of
             None \<Rightarrow> finishWith False message nm
           | Some cancelEvent \<Rightarrow>
               let k = unat (cancelEvent_eventId cancelEvent)
               in if cancelEvent_messageCode cancelEvent = JAUS_QUERY_CONFIGURATION
                  then (if k < length (eventIds nm)
                        then (if eventIds nm ! k
                              then let nm1 = nm\<lparr>eventIds := (eventIds nm)[k := False]\<rparr>
                                   in finishWith True message
                                        (if k \<in> fst ` set (subsystemChangeList nm1)
                                         then nm1\<lparr>subsystemChangeList := mapErase k (subsystemChangeList nm1)\<rparr>
                                         else if k \<in> fst ` set (nodeChangeList nm1)
                                         then nm1\<lparr>nodeChangeList := mapErase k (nodeChangeList nm1)\<rparr>
                                         else nm1)
                              else finishWith True message nm)
                        else None)
                  else finishWith True message nm) }"

section \<open>Control and queries\<close>

definition nmReject :: "JausAddress \<Rightarrow> 'a LocalComponent_scheme \<Rightarrow> 'a LocalComponent_scheme exec" where
  "nmReject dest nm = transmitNew (rejectComponentControlMessageToJausMessage
     (rejectComponentControlMessageCreate\<lparr>source := ownAddress nm, destination := dest\<rparr>)) nm"

definition nmConfirm :: "JausAddress \<Rightarrow> 'a LocalComponent_scheme \<Rightarrow> 'a LocalComponent_scheme exec" where
  "nmConfirm dest nm = transmitNew (confirmComponentControlMessageToJausMessage
     (confirmComponentControlMessageCreate\<lparr>source := ownAddress nm, destination := dest,
        confirmComponentControl_responseCode := JAUS_CONTROL_ACCEPTED\<rparr>)) nm"

definition setLocalController :: "(Controller \<Rightarrow> Controller) \<Rightarrow> 'a LocalComponent_scheme \<Rightarrow> 'a LocalComponent_scheme" where
  "setLocalController f nm = nm\<lparr>localCmpt := (localCmpt nm)\<lparr>controller := f (controller (localCmpt nm))\<rparr>\<rparr>"

definition processRequestComponentControl :: "NmEnv \<Rightarrow> JausMessage \<Rightarrow> 'a LocalComponent_scheme \<Rightarrow>
    (bool \<times> 'a LocalComponent_scheme) exec" where
  "processRequestComponentControl env message nm =
     do { unpacked \<leftarrow> requestComponentControlMessageFromJausMessage (junkNmRequest env) message;
          (case unpacked of
             None \<Rightarrow> finishWith False message nm
           | Some request \<Rightarrow>
               do { let ctl = controller (localCmpt nm);
                    let authorityCode = requestComponentControl_authorityCode request;
                    nm' \<leftarrow>
                      (if ctrlActive ctl
                       then (if authorityCode > ctrlAuthority ctl
                             then do { nm1 \<leftarrow> nmReject (ctrlAddress ctl) nm;
                                       nm2 \<leftarrow> nmConfirm (source message) nm1;
                                       Some (setLocalController (\<lambda>c. c\<lparr>ctrlAddress := source message,
                                               ctrlAuthority := authorityCode\<rparr>) nm2) }
                             else if \<not> jausAddressEqual (source message) (ctrlAddress ctl) then nmReject (source message) nm
                             else nmConfirm (source message) nm)
                       else do { nm1 \<leftarrow> nmConfirm (source message) nm;
                                 Some (setLocalController (\<lambda>c. c\<lparr>ctrlAddress := source message,
                                         ctrlAuthority := authorityCode, ctrlActive := True\<rparr>) nm1) });
                    finishWith True message nm' }) }"

definition processQueryComponentAuthority :: "JausMessage \<Rightarrow> 'a LocalComponent_scheme \<Rightarrow>
    (bool \<times> 'a LocalComponent_scheme) exec" where
  "processQueryComponentAuthority message nm =
     do { nm1 \<leftarrow> transmitNew (reportComponentAuthorityMessageToJausMessage
            (reportComponentAuthorityMessageCreate\<lparr>source := ownAddress nm, destination := source message,
               reportComponentAuthority_authorityCode := cmptAuthority (localCmpt nm)\<rparr>)) nm;
          finishWith True message nm1 }"

definition processQueryComponentStatus :: "JausMessage \<Rightarrow> 'a LocalComponent_scheme \<Rightarrow>
    (bool \<times> 'a LocalComponent_scheme) exec" where
  "processQueryComponentStatus message nm =
     do { nm1 \<leftarrow> transmitNew (reportComponentStatusMessageToJausMessage
            (reportComponentStatusMessageCreate\<lparr>source := ownAddress nm, destination := source message,
               reportComponentStatus_primaryStatusCode := cmptState (localCmpt nm)\<rparr>)) nm;
          finishWith True message nm1 }"

definition processQueryHeartbeatPulse :: "JausMessage \<Rightarrow> 'a LocalComponent_scheme \<Rightarrow>
    (bool \<times> 'a LocalComponent_scheme) exec" where
  "processQueryHeartbeatPulse message nm =
     do { nm1 \<leftarrow> transmitNew (reportHeartbeatPulseMessageToJausMessage
            (reportHeartbeatPulseMessageCreate\<lparr>source := ownAddress nm, destination := source message\<rparr>)) nm;
          finishWith True message nm1 }"

definition processQueryConfiguration :: "NmEnv \<Rightarrow> JausMessage \<Rightarrow> 'a LocalComponent_scheme \<Rightarrow>
    (bool \<times> 'a LocalComponent_scheme) exec" where
  "processQueryConfiguration env message nm =
     do { unpacked \<leftarrow> queryConfigurationMessageFromJausMessage (junkNmQueryConf env) message;
          (case unpacked of
             None \<Rightarrow> finishWith False message nm
           | Some queryConf \<Rightarrow>
               let send = (\<lambda>subs. transmitNew (addressed (source queryConf) (ownAddress nm)
                             (reportConfigurationMessageToJausMessage (configurationReport (nmClock env) subs))) nm)
               in if queryConfiguration_queryField queryConf = JAUS_SUBSYSTEM_CONFIGURATION
                  then (if enabled (subsComms (router nm))
                        then do { got \<leftarrow> getSubsystem (nmClock env) (treeOf nm) (uint (addrSubsystem (ownAddress nm)));
                                  nm1 \<leftarrow> (case got of None \<Rightarrow> Some nm | Some subs \<Rightarrow> send subs);
                                  finishWith True message nm1 }
                        else finishWith False message nm)
                  else if queryConfiguration_queryField queryConf = JAUS_NODE_CONFIGURATION
                  then do { got \<leftarrow> getNode (nmClock env) (treeOf nm) (uint (addrSubsystem (ownAddress nm)))
                                    (uint (addrNode (ownAddress nm)));
                            let empty = reportConfiguration_subsystem (reportConfigurationMessageCreate (nmClock env));
                            nm1 \<leftarrow> send (case got of None \<Rightarrow> empty | Some node \<Rightarrow> empty\<lparr>subsNodes := subsNodes empty @ [node]\<rparr>);
                            finishWith True message nm1 }
                  else finishWith False message nm) }"

text \<open>The identification is copied with its terminator, or its first 79 bytes with a terminator.\<close>

definition identificationField :: "bytes \<Rightarrow> bytes exec" where
  "identificationField name =
     memWrite (reportIdentification_identification reportIdentificationMessageCreate) 0
       ((if length name < 80 then name else take 79 name) @ [0])"

definition reportIdentificationTo :: "JausAddress \<Rightarrow> u8 \<Rightarrow> bytes option \<Rightarrow> 'a LocalComponent_scheme \<Rightarrow>
    'a LocalComponent_scheme exec" where
  "reportIdentificationTo dest queryType stored nm =
     do { name \<leftarrow> stored;
          field \<leftarrow> identificationField name;
          transmitNew (addressed dest (ownAddress nm) (reportIdentificationMessageToJausMessage
            (reportIdentificationMessageCreate\<lparr>reportIdentification_identification := field,
               reportIdentification_queryType := queryType\<rparr>))) nm }"

definition processQueryIdentification :: "NmEnv \<Rightarrow> JausMessage \<Rightarrow> 'a LocalComponent_scheme \<Rightarrow>
    (bool \<times> 'a LocalComponent_scheme) exec" where
  "processQueryIdentification env message nm =
     do { unpacked \<leftarrow> queryIdentificationMessageFromJausMessage (junkNmQueryId env) message;
          (case unpacked of
             None \<Rightarrow> finishWith False message nm
           | Some queryId \<Rightarrow>
               if queryIdentification_queryField queryId = JAUS_QUERY_FIELD_SS_IDENTITY
               then (if enabled (subsComms (router nm))
                     then do { stored \<leftarrow> getSubsystemIdentification (treeOf nm) (ownAddress nm);
                               nm1 \<leftarrow> reportIdentificationTo (source queryId) JAUS_QUERY_FIELD_SS_IDENTITY stored nm;
                               finishWith True message nm1 }
                     else finishWith False message nm)
               else if queryIdentification_queryField queryId = JAUS_QUERY_FIELD_NODE_IDENTITY
               then do { stored \<leftarrow> getNodeIdentification (treeOf nm) (ownAddress nm);
                         nm1 \<leftarrow> reportIdentificationTo (source queryId) JAUS_QUERY_FIELD_NODE_IDENTITY stored nm;
                         finishWith True message nm1 }
               else if queryIdentification_queryField queryId = JAUS_QUERY_FIELD_COMPONENT_IDENTITY
               then do { nm1 \<leftarrow> reportIdentificationTo (source queryId) JAUS_QUERY_FIELD_COMPONENT_IDENTITY
                                  (identification (localCmpt nm)) nm;
                         finishWith True message nm1 }
               else finishWith False message nm) }"

definition processQueryServices :: "NmEnv \<Rightarrow> JausMessage \<Rightarrow> 'a LocalComponent_scheme \<Rightarrow>
    (bool \<times> 'a LocalComponent_scheme) exec" where
  "processQueryServices env message nm =
     do { unpacked \<leftarrow> queryServicesMessageFromJausMessage (junkNmQueryServices env) message;
          (case unpacked of
             None \<Rightarrow> finishWith False message nm
           | Some _ \<Rightarrow>
               do { services \<leftarrow> jausServicesClone (cmptServices (localCmpt nm));
                    nm1 \<leftarrow> transmitNew (reportServicesMessageToJausMessage
                      (reportServicesMessageCreate\<lparr>destination := source message, source := ownAddress nm,
                         reportServices_jausServices := services\<rparr>)) nm;
                    finishWith True message nm1 }) }"

section \<open>The dispatcher\<close>

lemma clone_dataSize: "jausMessageClone m = Some c \<Longrightarrow> dataSize c = dataSize m"
  by (auto simp: jausMessageClone_def Let_def bind_eq_Some_conv split: if_splits)

text \<open>
  An event carries a message, which is processed as if it had been sent by itself: it can be an event again. The
  recursion ends, because a message inside an event is shorter than the event.
\<close>

function nmProcessMessage :: "NmEnv \<Rightarrow> JausMessage option \<Rightarrow> 'a LocalComponent_scheme \<Rightarrow>
    (bool \<times> 'a LocalComponent_scheme) exec" where
  "nmProcessMessage env None nm = Some (False, nmError NullPointer ''Invalid JausMessage.'' nm)"
| "nmProcessMessage env (Some message) nm =
     (let code = commandCode message
      in if code \<in> {JAUS_SET_COMPONENT_AUTHORITY, JAUS_SHUTDOWN, JAUS_STANDBY, JAUS_RESUME, JAUS_RESET,
                     JAUS_SET_EMERGENCY, JAUS_CLEAR_EMERGENCY} then finishWith True message nm
         else if code = JAUS_CREATE_SERVICE_CONNECTION then finishWith True message nm
         else if code = JAUS_ACTIVATE_SERVICE_CONNECTION then finishWith True message nm
         else if code = JAUS_SUSPEND_SERVICE_CONNECTION then finishWith True message nm
         else if code = JAUS_TERMINATE_SERVICE_CONNECTION then finishWith True message nm
         else if code = JAUS_REQUEST_COMPONENT_CONTROL then processRequestComponentControl env message nm
         else if code = JAUS_QUERY_COMPONENT_AUTHORITY then processQueryComponentAuthority message nm
         else if code = JAUS_QUERY_COMPONENT_STATUS then processQueryComponentStatus message nm
         else if code = JAUS_QUERY_HEARTBEAT_PULSE then processQueryHeartbeatPulse message nm
         else if code = JAUS_REPORT_HEARTBEAT_PULSE then processReportHeartbeatPulse env message nm
         else if code = JAUS_QUERY_CONFIGURATION then processQueryConfiguration env message nm
         else if code = JAUS_QUERY_IDENTIFICATION then processQueryIdentification env message nm
         else if code = JAUS_QUERY_SERVICES then processQueryServices env message nm
         else if code = JAUS_REPORT_CONFIGURATION then processReportConfiguration env message nm
         else if code = JAUS_REPORT_IDENTIFICATION then processReportIdentification env message nm
         else if code = JAUS_REPORT_SERVICES then processReportServices env message nm
         else if code = JAUS_CANCEL_EVENT then processCancelEvent env message nm
         else if code = JAUS_CONFIRM_EVENT_REQUEST then finishWith True message nm
         else if code = JAUS_CREATE_EVENT then processCreateEvent env message nm
         else if code = JAUS_EVENT
         then (case eventMessageFromJausMessage (junkNmEvent env) message of
                 None \<Rightarrow> None
               | Some None \<Rightarrow> finishWith False message (nmError MemoryFailure ''Cannot unpack EventMessage!'' nm)
               | Some (Some eventMessage) \<Rightarrow>
                   (case event_reportMessage eventMessage of
                      None \<Rightarrow> None
                    | Some report \<Rightarrow>
                        (case jausMessageClone report of
                           None \<Rightarrow> None
                         | Some clone \<Rightarrow>
                             do { (_, nm1) \<leftarrow> nmProcessMessage env (Some clone)
                                    (nm\<lparr>router := (router nm)\<lparr>clones := clones (router nm) + 1\<rparr>\<rparr>);
                                  finishWith True message nm1 })))
         else finishWith False message nm)"
  by pat_completeness auto

termination
proof (relation "measure (\<lambda>(env, m, nm). case m of None \<Rightarrow> 0 | Some m \<Rightarrow> unat (dataSize m))", goal_cases)
  case (2 env message nm code x y report clone)
  then show ?case
    using event_nested [of "junkNmEvent env" message] by (fastforce dest: clone_dataSize)
qed simp

declare nmProcessMessage.simps(2) [simp del]

section \<open>Check-in of local components\<close>

definition checkInLocalComponent :: "NmEnv \<Rightarrow> int \<Rightarrow> 'a LocalComponent_scheme \<Rightarrow>
    (JausAddress option \<times> 'a LocalComponent_scheme) exec" where
  "checkInLocalComponent env cmptId nm =
     do { let query = \<lparr>addrSubsystem = addrSubsystem (ownAddress nm), addrNode = addrNode (ownAddress nm),
                       addrComponent = of_int cmptId, addrInstance = 0\<rparr>;
          inst \<leftarrow> getNextInstanceId (treeOf nm) query;
          if inst = 0 then Some (None, nm)
          else do {
            let address = query\<lparr>addrInstance := inst\<rparr>;
            let component = (jausComponentCreate (nmClock env))\<lparr>cmptAddress := address\<rparr>;
            (added, nm1) \<leftarrow> changeTree env (\<lambda>hs now t w. addComponent hs now t w address (Some component)) nm;
            if added
            then do { nm2 \<leftarrow> sendNodeChangedEvents env nm1;
                      nm3 \<leftarrow> sendSubsystemChangedEvents env nm2;
                      Some (Some address, nm3) }
            else Some (None, nm1) } }"

definition checkOutLocalComponent :: "NmEnv \<Rightarrow> int \<Rightarrow> int \<Rightarrow> int \<Rightarrow> int \<Rightarrow> 'a LocalComponent_scheme \<Rightarrow>
    'a LocalComponent_scheme exec" where
  "checkOutLocalComponent env s n c i nm =
     do { (removed, nm1) \<leftarrow> changeTree env (\<lambda>hs now t w. removeComponent hs now t w s n c i) nm;
          if removed
          then do { nm2 \<leftarrow> sendNodeChangedEvents env nm1; sendSubsystemChangedEvents env nm2 }
          else Some nm1 }"

section \<open>Start and stop\<close>

definition nodeManagerCoreInputs :: "u16 list" where
  "nodeManagerCoreInputs =
     [JAUS_SET_COMPONENT_AUTHORITY, JAUS_SHUTDOWN, JAUS_STANDBY, JAUS_RESUME, JAUS_RESET,
      JAUS_SET_EMERGENCY, JAUS_CLEAR_EMERGENCY, JAUS_CREATE_SERVICE_CONNECTION,
      JAUS_ACTIVATE_SERVICE_CONNECTION, JAUS_SUSPEND_SERVICE_CONNECTION, JAUS_TERMINATE_SERVICE_CONNECTION,
      JAUS_REQUEST_COMPONENT_CONTROL, JAUS_QUERY_COMPONENT_AUTHORITY, JAUS_QUERY_COMPONENT_STATUS,
      JAUS_QUERY_HEARTBEAT_PULSE]"

definition nodeManagerCoreOutputs :: "u16 list" where
  "nodeManagerCoreOutputs =
     [JAUS_CREATE_SERVICE_CONNECTION, JAUS_CONFIRM_SERVICE_CONNECTION, JAUS_TERMINATE_SERVICE_CONNECTION,
      JAUS_CONFIRM_COMPONENT_CONTROL, JAUS_REJECT_COMPONENT_CONTROL, JAUS_REPORT_COMPONENT_AUTHORITY,
      JAUS_REPORT_COMPONENT_STATUS, JAUS_REPORT_HEARTBEAT_PULSE, JAUS_QUERY_COMPONENT_STATUS]"

definition nodeManagerInputs :: "u16 list" where
  "nodeManagerInputs =
     [JAUS_QUERY_CONFIGURATION, JAUS_QUERY_IDENTIFICATION, JAUS_QUERY_SERVICES, JAUS_REPORT_CONFIGURATION,
      JAUS_REPORT_IDENTIFICATION, JAUS_REPORT_SERVICES, JAUS_CANCEL_EVENT, JAUS_CONFIRM_EVENT_REQUEST, JAUS_CREATE_EVENT]"

definition nodeManagerOutputs :: "u16 list" where
  "nodeManagerOutputs =
     [JAUS_QUERY_CONFIGURATION, JAUS_QUERY_IDENTIFICATION, JAUS_QUERY_SERVICES, JAUS_REPORT_CONFIGURATION,
      JAUS_REPORT_IDENTIFICATION, JAUS_REPORT_SERVICES, JAUS_CANCEL_EVENT, JAUS_CONFIRM_EVENT_REQUEST, JAUS_CREATE_EVENT]"

definition serviceOf :: "u16 \<Rightarrow> u16 list \<Rightarrow> u16 list \<Rightarrow> JausService" where
  "serviceOf kind inputs outputs =
     fold (\<lambda>c s. snd (jausServiceAddOutputCommand s c NO_PRESENCE_VECTOR)) outputs
       (fold (\<lambda>c s. snd (jausServiceAddInputCommand s c NO_PRESENCE_VECTOR)) inputs (jausServiceCreate kind))"

definition setupJausServices :: "JausComponent \<Rightarrow> JausComponent" where
  "setupJausServices c =
     (let services1 = snd (jausServiceAddService (cmptServices c)
            (serviceOf 0 nodeManagerCoreInputs nodeManagerCoreOutputs));
          services2 = snd (jausServiceAddService services1
            (serviceOf (ucast JAUS_NODE_MANAGER) nodeManagerInputs nodeManagerOutputs))
      in c\<lparr>cmptServices := services2\<rparr>)"

text \<open>
  The constructor. The two numbers come from the configuration file; a number out of range is an exception
  (\<open>Inl\<close>). The router exists before the component, which becomes interface \<open>k\<close> of it.
\<close>

definition newNodeManagerComponent :: "int \<Rightarrow> int \<Rightarrow> int \<Rightarrow> nat \<Rightarrow> Router \<Rightarrow> string + NodeManagerComponent" where
  "newNodeManagerComponent now subsystem node k r =
     (if subsystem < JAUS_MINIMUM_SUBSYSTEM_ID \<or> subsystem > JAUS_MAXIMUM_SUBSYSTEM_ID
      then Inl ''NodeManagerComponent: Invalid SubsystemId''
      else if node < JAUS_MINIMUM_NODE_ID \<or> node > JAUS_MAXIMUM_NODE_ID
      then Inl ''NodeManagerComponent: Invalid NodeId''
      else let c = (jausComponentCreate now)\<lparr>cmptAddress :=
                     \<lparr>addrSubsystem = of_int subsystem, addrNode = of_int node,
                      addrComponent = JAUS_NODE_MANAGER, addrInstance = 1\<rparr>\<rparr>
           in Inr \<lparr>router = r,
                   localCmpt = (setupJausServices c)\<lparr>identification := Some (map (\<lambda>ch. of_char ch) ''OpenJAUS Node Manager'')\<rparr>,
                   localInf = k, eventIds = replicate MAXIMUM_EVENT_ID False, subsystemChangeList = [],
                   nodeChangeList = [], created = 0, nextSendTime = None, refreshTime = 0, reconfigureTime = 0\<rparr>)"

definition setRunning :: "bool \<Rightarrow> 'a LocalComponent_scheme \<Rightarrow> 'a LocalComponent_scheme" where
  "setRunning b nm = nm\<lparr>router := (router nm)\<lparr>transports := (transports (router nm))[localInf nm :=
     (transports (router nm) ! localInf nm)\<lparr>running := b\<rparr>]\<rparr>\<rparr>"

definition nmStartInterface :: "NmEnv \<Rightarrow> 'a LocalComponent_scheme \<Rightarrow> (bool \<times> 'a LocalComponent_scheme) exec" where
  "nmStartInterface env nm =
     do { let nm0 = setRunning True nm;
          (added, nm1) \<leftarrow> changeTree env (\<lambda>hs now t w. addComponent hs now t w (ownAddress nm0) (Some (localCmpt nm0))) nm0;
          if added then Some (True, nm1)
          else Some (False, nmError ConfigurationError ''Cannot add Node Manager component'' nm1) }"

definition nmStopInterface :: "NmEnv \<Rightarrow> 'a LocalComponent_scheme \<Rightarrow> (bool \<times> 'a LocalComponent_scheme) exec" where
  "nmStopInterface env nm =
     do { nm1 \<leftarrow> sendNodeShutdownEvents env nm;
          nm2 \<leftarrow> sendSubsystemShutdownEvents env nm1;
          Some (True, setRunning False nm2) }"

section \<open>Periodic work\<close>

definition heartbeatTo :: "JausAddress \<Rightarrow> JausAddress \<Rightarrow> JausMessage exec" where
  "heartbeatTo dest src =
     map_option (\<lambda>m. m\<lparr>destination := dest\<rparr>)
       (reportHeartbeatPulseMessageToJausMessage (reportHeartbeatPulseMessageCreate\<lparr>source := src\<rparr>))"

definition nmGenerateHeartbeats :: "NmEnv \<Rightarrow> NodeManagerComponent \<Rightarrow> NodeManagerComponent exec" where
  "nmGenerateHeartbeats env nm =
     (let sendTime = (case nextSendTime nm of None \<Rightarrow> nmTime env | Some t \<Rightarrow> t);
          own = ownAddress nm
      in if nmTime env \<ge> sendTime
         then do { nm1 \<leftarrow> transmitNew (heartbeatTo (own\<lparr>addrNode := 255, addrComponent := JAUS_NODE_MANAGER_COMPONENT,
                             addrInstance := 1\<rparr>) own) nm;
                   nm2 \<leftarrow> transmitNew (heartbeatTo (own\<lparr>addrComponent := 255, addrInstance := 255\<rparr>) own) nm1;
                   Some (nm2\<lparr>nextSendTime := Some (nmTime env + 1)\<rparr>) }
         else Some (nm\<lparr>nextSendTime := Some sendTime\<rparr>))"

fun reconfigureNodes :: "u8 \<Rightarrow> JausNode list \<Rightarrow> 'a LocalComponent_scheme \<Rightarrow> 'a LocalComponent_scheme exec" where
  "reconfigureNodes subs [] nm = Some nm"
| "reconfigureNodes subs (node # rest) nm =
     do { (_, nm1) \<leftarrow> sendQueryNodeConfiguration (nodeManagerAt subs (nodeId node)) True nm;
          reconfigureNodes subs rest nm1 }"

definition nmAllState :: "NmEnv \<Rightarrow> NodeManagerComponent \<Rightarrow> NodeManagerComponent exec" where
  "nmAllState env nm =
     do { nm1 \<leftarrow> nmGenerateHeartbeats env nm;
          nm2 \<leftarrow> (if nmTime env \<ge> refreshTime nm1
                  then do { (t, nm') \<leftarrow> refresh [handleEvent env] (nmClock env) (treeOf nm1) nm1;
                            Some ((withTree t nm')\<lparr>refreshTime := nmTime env + REFRESH_TIME_SEC\<rparr>) }
                  else Some nm1);
          if nmTime env \<ge> reconfigureTime nm2
          then do { got \<leftarrow> getSubsystem (nmClock env) (treeOf nm2) (uint (addrSubsystem (ownAddress nm2)));
                    thisSubs \<leftarrow> got;
                    nm3 \<leftarrow> reconfigureNodes (of_int (subsId thisSubs)) (subsNodes thisSubs) nm2;
                    Some (nm3\<lparr>reconfigureTime := nmTime env + 30\<rparr>) }
          else Some nm2 }"

section \<open>The thread\<close>

text \<open>
  \<open>LocalComponent::run\<close>: a signal makes the thread work through its queue, a timeout makes it run the state
  method and \<open>allState\<close> first. The loop over the queue can be left after each message, when the next period has
  begun: the number of messages it takes is a parameter.
\<close>

fun drainQueue :: "nat \<Rightarrow> NmEnv \<Rightarrow> NodeManagerComponent \<Rightarrow> NodeManagerComponent exec" where
  "drainQueue 0 env nm = Some nm"
| "drainQueue (Suc k) env nm =
     (if localInf nm < length (transports (router nm))
      then (case popMessage (transports (router nm) ! localInf nm) of
              (None, _) \<Rightarrow> Some nm
            | (Some m, jt) \<Rightarrow>
                do { (_, nm1) \<leftarrow> nmProcessMessage env (Some m)
                       (nm\<lparr>router := (router nm)\<lparr>transports := (transports (router nm))[localInf nm := jt]\<rparr>\<rparr>);
                     drainQueue k env nm1 })
      else None)"

definition nmStateMethod :: "NodeManagerComponent \<Rightarrow> NodeManagerComponent" where
  "nmStateMethod nm =
     (if cmptState (localCmpt nm) = JAUS_INITIALIZE_STATE
      then nm\<lparr>localCmpt := (localCmpt nm)\<lparr>cmptState := JAUS_READY_STATE\<rparr>\<rparr> else nm)"

definition nmPeriod :: "nat \<Rightarrow> NmEnv \<Rightarrow> NodeManagerComponent \<Rightarrow> NodeManagerComponent exec" where
  "nmPeriod k env nm = do { nm1 \<leftarrow> nmAllState env (nmStateMethod nm); drainQueue k env nm1 }"

end
