(* ===== verification/Communicator.thy ===== *)
theory Communicator
  imports NodeManager
begin

text \<open>
  The communicator of a subsystem (\<open>openjaus/src/libopenjaus/nodeManager/CommunicatorComponent.cpp\<close>): the local
  component 35 of the node manager process that speaks with other subsystems. It keeps what the heartbeats and reports
  of other subsystems say in the system tree, subscribes to the configuration events of the node manager's
  component of its own node, and passes the changes on to its subscribers, which are other communicators.

  It is the same kind of local component as the node manager's (\<open>LocalComponent\<close>), and where the two files have the
  same text the definitions of \<open>NodeManager\<close> stand for both: the queries for nodes, components and services, the
  answers to the simple queries, the shutdown events and the numbers of events. Here are the functions that differ.
  Nothing the tree reports to its handlers in these functions is a timeout, so no handler acts.
\<close>

section \<open>State\<close>

record CommunicatorComponent = LocalComponent +
  nodeManagerSubsystemEventConfirmed :: bool
  readySendTime :: real
  beatSendTime :: "real option"

record CmEnv =
  nmEnv :: NmEnv
  junkCmConfirm :: ConfirmEventRequestMessage

definition ignoreEvent :: "'w handler" where
  "ignoreEvent e t w = Some w"

definition cmChangeTree :: "NmEnv \<Rightarrow>
    ('a LocalComponent_scheme handler list \<Rightarrow> int \<Rightarrow> SystemTree \<Rightarrow> 'a LocalComponent_scheme \<Rightarrow>
      (bool \<times> SystemTree \<times> 'a LocalComponent_scheme) exec) \<Rightarrow>
    'a LocalComponent_scheme \<Rightarrow> (bool \<times> 'a LocalComponent_scheme) exec" where
  "cmChangeTree env operation cm =
     do { (b, t, cm') \<leftarrow> operation [ignoreEvent] (nmClock env) (treeOf cm) cm; Some (b, withTree t cm') }"

text \<open>
  Where only the unpacking differs: the communicator reports an error when a message cannot be unpacked, and goes on
  as the node manager's component otherwise.
\<close>

definition orError :: "ErrorType \<Rightarrow> string \<Rightarrow> 'm option exec \<Rightarrow>
    (JausMessage \<Rightarrow> 'a LocalComponent_scheme \<Rightarrow> (bool \<times> 'a LocalComponent_scheme) exec) \<Rightarrow>
    JausMessage \<Rightarrow> 'a LocalComponent_scheme \<Rightarrow> (bool \<times> 'a LocalComponent_scheme) exec" where
  "orError kind why unpacked process message cm =
     (case unpacked of
        None \<Rightarrow> None
      | Some None \<Rightarrow> finishWith False message (nmError kind why cm)
      | Some (Some _) \<Rightarrow> process message cm)"

section \<open>Sending\<close>

text \<open>
  The query is handed over and destroyed all the same. By then it has been destroyed or waits in a queue, so it
  has two owners.
\<close>

definition cmSendQuerySubsystemConfiguration ::
    "JausAddress \<Rightarrow> bool \<Rightarrow> 'a LocalComponent_scheme \<Rightarrow> (bool \<times> 'a LocalComponent_scheme) exec" where
  "cmSendQuerySubsystemConfiguration a createEvent cm =
     do { known \<leftarrow> hasSubsystem (treeOf cm) a;
          conf \<leftarrow> (if known then hasSubsystemConfiguration (treeOf cm) a else Some False);
          if known \<and> \<not> conf
          then do {
            txMessage \<leftarrow> addressed a (ownAddress cm) (queryConfigurationMessageToJausMessage (configurationQuery JAUS_SUBSYSTEM_CONFIGURATION));
            cm1 \<leftarrow> handOver txMessage (cm\<lparr>created := created cm + 1\<rparr>);
            let cm2 = cm1\<lparr>router := destroyMessage (Some txMessage) (router cm1)\<rparr>;
            if createEvent
            then do { createEventMsg \<leftarrow> configurationEvent JAUS_SUBSYSTEM_CONFIGURATION;
                      cm3 \<leftarrow> transmitNew (addressed a (ownAddress cm2) (createEventMessageToJausMessage createEventMsg)) cm2;
                      Some (True, cm3) }
            else Some (True, cm2) }
          else Some (False, cm) }"

definition cmSendSubsystemChangedEvents :: "NmEnv \<Rightarrow> 'a LocalComponent_scheme \<Rightarrow> 'a LocalComponent_scheme exec" where
  "cmSendSubsystemChangedEvents env cm =
     do { thisSubs \<leftarrow> getSubsystem (nmClock env) (treeOf cm) (uint (addrSubsystem (ownAddress cm)));
          (case thisSubs of
             None \<Rightarrow> Some (nmError MemoryFailure ''Cannot get my subsystem from System Tree'' cm)
           | Some subs \<Rightarrow> sendConfigurationEvents (nmClock env) subs (subsystemChangeList cm) cm) }"

section \<open>Reports\<close>

definition cmProcessReportIdentification :: "NmEnv \<Rightarrow> JausMessage \<Rightarrow> 'a LocalComponent_scheme \<Rightarrow>
    (bool \<times> 'a LocalComponent_scheme) exec" where
  "cmProcessReportIdentification env message cm =
     do { unpacked \<leftarrow> reportIdentificationMessageFromJausMessage (junkNmReportId env) message;
          (case unpacked of
             None \<Rightarrow> finishWith False message (nmError MemoryFailure ''Cannot unpack ReportId message'' cm)
           | Some reportId \<Rightarrow>
               let src = source reportId; queryType = reportIdentification_queryType reportId;
                   name = cString (reportIdentification_identification reportId)
               in if queryType = JAUS_QUERY_FIELD_SYSTEM_IDENTITY then finishWith True message cm
                  else if queryType = JAUS_QUERY_FIELD_SS_IDENTITY
                  then do { known \<leftarrow> hasSubsystem (treeOf cm) src;
                            if \<not> known
                            then finishWith False message (nmError MessageError ''Recieved ReportID from an unknown Subsystem'' cm)
                            else do { str \<leftarrow> name;
                                      cm1 \<leftarrow> setTree (\<lambda>t. setSubsystemIdentification t src str) cm;
                                      (_, cm2) \<leftarrow> cmSendQuerySubsystemConfiguration src True cm1;
                                      finishWith True message cm2 } }
                  else if queryType = JAUS_QUERY_FIELD_NODE_IDENTITY
                  then do { known \<leftarrow> hasNode (treeOf cm) src;
                            if \<not> known
                            then finishWith False message (nmError MessageError ''Recieved ReportID from an unknown Node'' cm)
                            else do { str \<leftarrow> name;
                                      cm1 \<leftarrow> setTree (\<lambda>t. setNodeIdentification t src str) cm;
                                      (_, cm2) \<leftarrow> sendQueryNodeConfiguration src True cm1;
                                      finishWith True message cm2 } }
                  else if queryType = JAUS_QUERY_FIELD_COMPONENT_IDENTITY
                  then do { known \<leftarrow> hasComponent (treeOf cm) src;
                            if \<not> known
                            then finishWith False message (nmError MessageError ''Recieved ReportID from an unknown Component'' cm)
                            else do { str \<leftarrow> name;
                                      cm1 \<leftarrow> setTree (\<lambda>t. setComponentIdentification t src str) cm;
                                      finishWith True message cm1 } }
                  else finishWith True message (nmError MessageError ''Recieved ReportID with undefined queryType'' cm)) }"

text \<open>
  A report of a node manager's component of this subsystem means that the tree has changed. Any other report is that of
  a subsystem, as in \<open>foreignConfiguration\<close>.
\<close>

definition cmProcessReportConfiguration :: "NmEnv \<Rightarrow> JausMessage \<Rightarrow> 'a LocalComponent_scheme \<Rightarrow>
    (bool \<times> 'a LocalComponent_scheme) exec" where
  "cmProcessReportConfiguration env message cm =
     (if addrSubsystem (source message) = addrSubsystem (ownAddress cm) \<and>
         addrComponent (source message) = JAUS_NODE_MANAGER_COMPONENT
      then do { cm1 \<leftarrow> cmSendSubsystemChangedEvents env cm; finishWith True message cm1 }
      else do {
        unpacked \<leftarrow> reportConfigurationMessageFromJausMessage (nmClock env) (junkNmReportConf env) message;
        (case unpacked of
           None \<Rightarrow> finishWith False message (nmError MemoryFailure ''Cannot unpack reportConf'' cm)
         | Some reportConf \<Rightarrow>
             do { let src = source reportConf; let reported = reportConfiguration_subsystem reportConf; let s = uint (addrSubsystem src);
                  known \<leftarrow> hasSubsystem (treeOf cm) src;
                  if \<not> known
                  then finishWith False message (nmError MessageError ''Report Configuration from unknown Subsystem'' cm)
                  else if length (subsNodes reported) = 0
                  then do { (_, cm1) \<leftarrow> cmChangeTree env (\<lambda>hs now t w. removeSubsystem hs now t w s) cm;
                            finishWith True message cm1 }
                  else do { (_, cm1) \<leftarrow> cmChangeTree env (\<lambda>hs now t w. replaceSubsystem hs now t w s reported) cm;
                            got \<leftarrow> getSubsystem (nmClock env) (treeOf cm1) s;
                            subs \<leftarrow> got;
                            cm2 \<leftarrow> queryNodes (\<lambda>_. nodeManagerAt (addrSubsystem src) (addrNode src)) (subsNodes subs) cm1;
                            finishWith True message cm2 } }) })"

definition cmProcessReportServices :: "NmEnv \<Rightarrow> JausMessage \<Rightarrow> 'a LocalComponent_scheme \<Rightarrow>
    (bool \<times> 'a LocalComponent_scheme) exec" where
  "cmProcessReportServices env message cm =
     orError MemoryFailure ''Cannot unpack reportServices''
       (reportServicesMessageFromJausMessage (junkNmReportServices env) message) (processReportServices env) message cm"

definition cmProcessReportHeartbeatPulse :: "NmEnv \<Rightarrow> JausMessage \<Rightarrow> 'a LocalComponent_scheme \<Rightarrow>
    (bool \<times> 'a LocalComponent_scheme) exec" where
  "cmProcessReportHeartbeatPulse env message cm =
     (let src = source message
      in if jausAddressEqual src (ownAddress cm)
         then finishWith False message (nmError MessageError ''Received Heartbeat message from myself!'' cm)
         else do {
           known \<leftarrow> hasSubsystem (treeOf cm) src;
           if \<not> known
           then do { (_, cm1) \<leftarrow> cmChangeTree env (\<lambda>hs now t w. addSubsystem hs now t w (uint (addrSubsystem src)) None) cm;
                     (_, cm2) \<leftarrow> sendQuerySubsystemIdentification src cm1;
                     finishWith True message cm2 }
           else do {
             cm1 \<leftarrow> setTree (\<lambda>t. updateSubsystemTimestamp (nmClock env) t src) cm;
             ident \<leftarrow> hasSubsystemIdentification (treeOf cm1) src;
             if \<not> ident
             then do { (_, cm2) \<leftarrow> sendQuerySubsystemIdentification src cm1; finishWith True message cm2 }
             else do {
               conf \<leftarrow> hasSubsystemConfiguration (treeOf cm1) src;
               if \<not> conf
               then do { (_, cm2) \<leftarrow> cmSendQuerySubsystemConfiguration src True cm1; finishWith True message cm2 }
               else do {
                 got \<leftarrow> getSubsystem (nmClock env) (treeOf cm1) (uint (addrSubsystem src));
                 (case got of
                    None \<Rightarrow> finishWith False message
                              (nmError MemoryFailure ''Could not retrieve Subsystem pointer from System Tree'' cm1)
                  | Some subs \<Rightarrow>
                      do { cm2 \<leftarrow> queryNodes (\<lambda>node. nodeManagerAt (addrSubsystem src) (nodeId node)) (subsNodes subs) cm1;
                           finishWith True message cm2 }) } } } })"

section \<open>Subscriptions\<close>

definition cmProcessCreateEvent :: "NmEnv \<Rightarrow> JausMessage \<Rightarrow> 'a LocalComponent_scheme \<Rightarrow>
    (bool \<times> 'a LocalComponent_scheme) exec" where
  "cmProcessCreateEvent env message cm =
     do { let confirm = confirmEventRequestMessageCreate\<lparr>destination := source message, source := ownAddress cm\<rparr>;
          let refuse = (\<lambda>code confirm cm. do { cm1 \<leftarrow> sendConfirmation (confirm\<lparr>confirmEventRequest_responseCode := code\<rparr>) cm;
                                               finishWith False message cm1 });
          unpacked \<leftarrow> createEventMessageFromJausMessage (junkNmCreateEvent env) message;
          (case unpacked of
             None \<Rightarrow> refuse INVALID_EVENT_RESPONSE confirm (nmError MessageError ''Cannot unpack Create Event Message'' cm)
           | Some createEvent \<Rightarrow>
               if createEvent_reportMessageCode createEvent \<noteq> JAUS_REPORT_CONFIGURATION
               then refuse MESSAGE_UNSUPPORTED_RESPONSE confirm cm
               else do {
                 let confirm1 = confirm\<lparr>confirmEventRequest_messageCode := JAUS_REPORT_CONFIGURATION\<rparr>;
                 queryMessage \<leftarrow> createEvent_queryMessage createEvent;
                 query \<leftarrow> queryConfigurationMessageFromJausMessage (junkNmQueryConf env) queryMessage;
                 (case query of
                    None \<Rightarrow> refuse INVALID_EVENT_RESPONSE confirm1
                              (nmError MessageError ''Cannot unpack Query Configuration Message'' cm)
                  | Some queryConf \<Rightarrow>
                      if queryConfiguration_queryField queryConf = JAUS_SUBSYSTEM_CONFIGURATION
                      then do { let (confirm2, cm1) = subscribe (\<lambda>l n. n\<lparr>subsystemChangeList := l\<rparr>) subsystemChangeList
                                                        (source createEvent) confirm1 cm;
                                cm2 \<leftarrow> sendConfirmation confirm2 cm1;
                                finishWith True message cm2 }
                      else refuse INVALID_EVENT_RESPONSE confirm1 (nmError MessageError ''Create Event: Invalid Query Type'' cm)) }) }"

definition cmProcessCancelEvent :: "NmEnv \<Rightarrow> JausMessage \<Rightarrow> 'a LocalComponent_scheme \<Rightarrow>
    (bool \<times> 'a LocalComponent_scheme) exec" where
  "cmProcessCancelEvent env message cm =
     orError MessageError ''Cannot unpack Cancel Event Message''
       (cancelEventMessageFromJausMessage (junkNmCancelEvent env) message) (processCancelEvent env) message cm"

text \<open>The answer to the subscription at the node manager's component.\<close>

definition processConfirmEvent :: "CmEnv \<Rightarrow> JausMessage \<Rightarrow> CommunicatorComponent \<Rightarrow> (bool \<times> CommunicatorComponent) exec" where
  "processConfirmEvent env message cm =
     do { unpacked \<leftarrow> confirmEventRequestMessageFromJausMessage (junkCmConfirm env) message;
          (case unpacked of
             None \<Rightarrow> finishWith False message cm
           | Some confirm \<Rightarrow>
               finishWith True message
                 (if addrNode (source confirm) = addrNode (ownAddress cm) \<and>
                     addrComponent (source confirm) = JAUS_NODE_MANAGER_COMPONENT \<and>
                     confirmEventRequest_messageCode confirm = JAUS_REPORT_CONFIGURATION \<and>
                     confirmEventRequest_responseCode confirm = SUCCESSFUL_RESPONSE
                  then cm\<lparr>nodeManagerSubsystemEventConfirmed := True\<rparr> else cm)) }"

section \<open>Control and queries\<close>

definition cmProcessRequestComponentControl :: "NmEnv \<Rightarrow> JausMessage \<Rightarrow> 'a LocalComponent_scheme \<Rightarrow>
    (bool \<times> 'a LocalComponent_scheme) exec" where
  "cmProcessRequestComponentControl env message cm =
     orError MessageError ''Cannot unpack Request Comp. Control Message''
       (requestComponentControlMessageFromJausMessage (junkNmRequest env) message)
       (processRequestComponentControl env) message cm"

definition cmProcessQueryConfiguration :: "NmEnv \<Rightarrow> JausMessage \<Rightarrow> 'a LocalComponent_scheme \<Rightarrow>
    (bool \<times> 'a LocalComponent_scheme) exec" where
  "cmProcessQueryConfiguration env message cm =
     do { unpacked \<leftarrow> queryConfigurationMessageFromJausMessage (junkNmQueryConf env) message;
          (case unpacked of
             None \<Rightarrow> finishWith False message (nmError MessageError ''Cannot unpack Query Configuration Message'' cm)
           | Some queryConf \<Rightarrow>
               let send = (\<lambda>subs. transmitNew (addressed (source queryConf) (ownAddress cm)
                             (reportConfigurationMessageToJausMessage (configurationReport (nmClock env) subs))) cm)
               in if queryConfiguration_queryField queryConf = JAUS_SUBSYSTEM_CONFIGURATION
                  then do { got \<leftarrow> getSubsystem (nmClock env) (treeOf cm) (uint (addrSubsystem (ownAddress cm)));
                            cm1 \<leftarrow> (case got of None \<Rightarrow> Some cm | Some subs \<Rightarrow> send subs);
                            finishWith True message cm1 }
                  else if queryConfiguration_queryField queryConf = JAUS_NODE_CONFIGURATION
                  then do { got \<leftarrow> getNode (nmClock env) (treeOf cm) (uint (addrSubsystem (ownAddress cm)))
                                    (uint (addrNode (ownAddress cm)));
                            let empty = reportConfiguration_subsystem (reportConfigurationMessageCreate (nmClock env));
                            cm1 \<leftarrow> send (case got of None \<Rightarrow> empty | Some node \<Rightarrow> empty\<lparr>subsNodes := subsNodes empty @ [node]\<rparr>);
                            finishWith True message cm1 }
                  else finishWith False message
                         (nmError MessageError ''Invalid queryField in Query Configuration Message'' cm)) }"

definition cmProcessQueryIdentification :: "NmEnv \<Rightarrow> JausMessage \<Rightarrow> 'a LocalComponent_scheme \<Rightarrow>
    (bool \<times> 'a LocalComponent_scheme) exec" where
  "cmProcessQueryIdentification env message cm =
     do { unpacked \<leftarrow> queryIdentificationMessageFromJausMessage (junkNmQueryId env) message;
          (case unpacked of
             None \<Rightarrow> finishWith False message (nmError MessageError ''Cannot unpack Query Identification Message'' cm)
           | Some queryId \<Rightarrow>
               if queryIdentification_queryField queryId = JAUS_QUERY_FIELD_SS_IDENTITY
               then do { stored \<leftarrow> getSubsystemIdentification (treeOf cm) (ownAddress cm);
                         cm1 \<leftarrow> reportIdentificationTo (source queryId) JAUS_QUERY_FIELD_SS_IDENTITY stored cm;
                         finishWith True message cm1 }
               else if queryIdentification_queryField queryId = JAUS_QUERY_FIELD_NODE_IDENTITY
               then do { stored \<leftarrow> getNodeIdentification (treeOf cm) (ownAddress cm);
                         cm1 \<leftarrow> reportIdentificationTo (source queryId) JAUS_QUERY_FIELD_NODE_IDENTITY stored cm;
                         finishWith True message cm1 }
               else if queryIdentification_queryField queryId = JAUS_QUERY_FIELD_COMPONENT_IDENTITY
               then do { cm1 \<leftarrow> reportIdentificationTo (source queryId) JAUS_QUERY_FIELD_COMPONENT_IDENTITY
                                  (identification (localCmpt cm)) cm;
                         finishWith True message cm1 }
               else finishWith False message
                      (nmError MessageError ''Unknown queryField in Query Identification Message'' cm)) }"

definition cmProcessQueryServices :: "NmEnv \<Rightarrow> JausMessage \<Rightarrow> 'a LocalComponent_scheme \<Rightarrow>
    (bool \<times> 'a LocalComponent_scheme) exec" where
  "cmProcessQueryServices env message cm =
     orError MessageError ''Cannot unpack Query Services Message''
       (queryServicesMessageFromJausMessage (junkNmQueryServices env) message) (processQueryServices env) message cm"

section \<open>The dispatcher\<close>

function cmProcessMessage :: "CmEnv \<Rightarrow> JausMessage option \<Rightarrow> CommunicatorComponent \<Rightarrow>
    (bool \<times> CommunicatorComponent) exec" where
  "cmProcessMessage env None cm = Some (False, nmError NullPointer ''Invalid JausMessage.'' cm)"
| "cmProcessMessage env (Some message) cm =
     (let code = commandCode message; nenv = nmEnv env
      in if code \<in> {JAUS_SET_COMPONENT_AUTHORITY, JAUS_SHUTDOWN, JAUS_STANDBY, JAUS_RESUME, JAUS_RESET,
                     JAUS_SET_EMERGENCY, JAUS_CLEAR_EMERGENCY} then finishWith True message cm
         else if code = JAUS_CREATE_SERVICE_CONNECTION then finishWith True message cm
         else if code = JAUS_ACTIVATE_SERVICE_CONNECTION then finishWith True message cm
         else if code = JAUS_SUSPEND_SERVICE_CONNECTION then finishWith True message cm
         else if code = JAUS_TERMINATE_SERVICE_CONNECTION then finishWith True message cm
         else if code = JAUS_REQUEST_COMPONENT_CONTROL then cmProcessRequestComponentControl nenv message cm
         else if code = JAUS_QUERY_COMPONENT_AUTHORITY then processQueryComponentAuthority message cm
         else if code = JAUS_QUERY_COMPONENT_STATUS then processQueryComponentStatus message cm
         else if code = JAUS_QUERY_HEARTBEAT_PULSE then processQueryHeartbeatPulse message cm
         else if code = JAUS_REPORT_HEARTBEAT_PULSE then cmProcessReportHeartbeatPulse nenv message cm
         else if code = JAUS_QUERY_CONFIGURATION then cmProcessQueryConfiguration nenv message cm
         else if code = JAUS_QUERY_IDENTIFICATION then cmProcessQueryIdentification nenv message cm
         else if code = JAUS_QUERY_SERVICES then cmProcessQueryServices nenv message cm
         else if code = JAUS_REPORT_CONFIGURATION then cmProcessReportConfiguration nenv message cm
         else if code = JAUS_REPORT_IDENTIFICATION then cmProcessReportIdentification nenv message cm
         else if code = JAUS_REPORT_SERVICES then cmProcessReportServices nenv message cm
         else if code = JAUS_CANCEL_EVENT then cmProcessCancelEvent nenv message cm
         else if code = JAUS_CONFIRM_EVENT_REQUEST then processConfirmEvent env message cm
         else if code = JAUS_CREATE_EVENT then cmProcessCreateEvent nenv message cm
         else if code = JAUS_EVENT
         then (case eventMessageFromJausMessage (junkNmEvent nenv) message of
                 None \<Rightarrow> None
               | Some None \<Rightarrow> finishWith False message (nmError MemoryFailure ''Cannot unpack EventMessage!'' cm)
               | Some (Some eventMessage) \<Rightarrow>
                   (case event_reportMessage eventMessage of
                      None \<Rightarrow> None
                    | Some report \<Rightarrow>
                        (case jausMessageClone report of
                           None \<Rightarrow> None
                         | Some clone \<Rightarrow>
                             do { (_, cm1) \<leftarrow> cmProcessMessage env (Some clone)
                                    (cm\<lparr>router := (router cm)\<lparr>clones := clones (router cm) + 1\<rparr>\<rparr>);
                                  finishWith True message cm1 })))
         else finishWith False message cm)"
  by pat_completeness auto

termination
proof (relation "measure (\<lambda>(env, m, cm). case m of None \<Rightarrow> 0 | Some m \<Rightarrow> unat (dataSize m))", goal_cases)
  case (2 env message cm code nenv x y report clone)
  then show ?case
    using event_nested [of "junkNmEvent (nmEnv env)" message] by (fastforce dest: clone_dataSize)
qed simp

declare cmProcessMessage.simps(2) [simp del]

section \<open>Start and stop\<close>

definition setupCommunicatorServices :: "JausComponent \<Rightarrow> JausComponent" where
  "setupCommunicatorServices c =
     (let services1 = snd (jausServiceAddService (cmptServices c)
            (serviceOf 0 nodeManagerCoreInputs nodeManagerCoreOutputs));
          services2 = snd (jausServiceAddService services1
            (serviceOf (of_int JAUS_COMMUNICATOR) nodeManagerInputs nodeManagerOutputs))
      in c\<lparr>cmptServices := services2\<rparr>)"

definition newCommunicatorComponent :: "int \<Rightarrow> int \<Rightarrow> int \<Rightarrow> nat \<Rightarrow> Router \<Rightarrow> string + CommunicatorComponent" where
  "newCommunicatorComponent now subsystem node k r =
     (if subsystem < JAUS_MINIMUM_SUBSYSTEM_ID \<or> subsystem > JAUS_MAXIMUM_SUBSYSTEM_ID
      then Inl ''CommunicatorComponent: Config file [JAUS] SubsystemId is invalid''
      else if node < JAUS_MINIMUM_NODE_ID \<or> node > JAUS_MAXIMUM_NODE_ID
      then Inl ''CommunicatorComponent: Config file [JAUS] NodeId is invalid''
      else let c = (jausComponentCreate now)\<lparr>cmptAddress :=
                     \<lparr>addrSubsystem = of_int subsystem, addrNode = of_int node,
                      addrComponent = of_int JAUS_COMMUNICATOR, addrInstance = 1\<rparr>\<rparr>
           in Inr \<lparr>router = r,
                   localCmpt = (setupCommunicatorServices c)\<lparr>identification := Some (map (\<lambda>ch. of_char ch) ''OpenJAUS Communicator'')\<rparr>,
                   localInf = k, eventIds = replicate MAXIMUM_EVENT_ID False, subsystemChangeList = [],
                   nodeChangeList = [], created = 0, nodeManagerSubsystemEventConfirmed = False, readySendTime = 0,
                   beatSendTime = None\<rparr>)"

definition cmStartInterface :: "NmEnv \<Rightarrow> 'a LocalComponent_scheme \<Rightarrow> (bool \<times> 'a LocalComponent_scheme) exec" where
  "cmStartInterface env cm =
     do { let cm0 = setRunning True cm;
          (added, cm1) \<leftarrow> cmChangeTree env (\<lambda>hs now t w. addComponent hs now t w (ownAddress cm0) (Some (localCmpt cm0))) cm0;
          if added then Some (True, cm1)
          else Some (False, nmError ConfigurationError ''Cannot add Communicator component'' cm1) }"

definition cmStopInterface :: "NmEnv \<Rightarrow> 'a LocalComponent_scheme \<Rightarrow> (bool \<times> 'a LocalComponent_scheme) exec" where
  "cmStopInterface env cm =
     do { cm1 \<leftarrow> sendSubsystemShutdownEvents env cm; Some (True, setRunning False cm1) }"

section \<open>Periodic work\<close>

definition cmGenerateHeartbeats :: "NmEnv \<Rightarrow> CommunicatorComponent \<Rightarrow> CommunicatorComponent exec" where
  "cmGenerateHeartbeats env cm =
     (let sendTime = (case beatSendTime cm of None \<Rightarrow> nmTime env | Some t \<Rightarrow> t)
      in if nmTime env \<ge> sendTime
         then do { cm1 \<leftarrow> transmitNew (heartbeatTo \<lparr>addrSubsystem = 255, addrNode = 255,
                             addrComponent = JAUS_NODE_MANAGER_COMPONENT, addrInstance = 1\<rparr> (ownAddress cm)) cm;
                   Some (cm1\<lparr>beatSendTime := Some (nmTime env + 1)\<rparr>) }
         else Some (cm\<lparr>beatSendTime := Some sendTime\<rparr>))"

text \<open>
  In its ready state the communicator asks the node manager's component of its node for the events of the subsystem
  configuration, once a second until it has been confirmed.
\<close>

definition readyState :: "NmEnv \<Rightarrow> CommunicatorComponent \<Rightarrow> CommunicatorComponent exec" where
  "readyState env cm =
     (if \<not> nodeManagerSubsystemEventConfirmed cm \<and> nmTime env > readySendTime cm
      then do { createEventMsg \<leftarrow> configurationEvent JAUS_SUBSYSTEM_CONFIGURATION;
                cm1 \<leftarrow> transmitNew (addressed (nodeManagerAt (addrSubsystem (ownAddress cm)) (addrNode (ownAddress cm)))
                         (ownAddress cm) (createEventMessageToJausMessage createEventMsg)) cm;
                Some (cm1\<lparr>readySendTime := nmTime env + 1\<rparr>) }
      else Some cm)"

definition cmStateMethod :: "NmEnv \<Rightarrow> CommunicatorComponent \<Rightarrow> CommunicatorComponent exec" where
  "cmStateMethod env cm =
     (if cmptState (localCmpt cm) = JAUS_INITIALIZE_STATE
      then Some (cm\<lparr>localCmpt := (localCmpt cm)\<lparr>cmptState := JAUS_READY_STATE\<rparr>\<rparr>)
      else if cmptState (localCmpt cm) = JAUS_READY_STATE then readyState env cm
      else Some cm)"

definition cmAllState :: "NmEnv \<Rightarrow> CommunicatorComponent \<Rightarrow> CommunicatorComponent exec" where
  "cmAllState env cm = cmGenerateHeartbeats env cm"

fun cmDrainQueue :: "nat \<Rightarrow> CmEnv \<Rightarrow> CommunicatorComponent \<Rightarrow> CommunicatorComponent exec" where
  "cmDrainQueue 0 env cm = Some cm"
| "cmDrainQueue (Suc k) env cm =
     (if localInf cm < length (transports (router cm))
      then (case popMessage (transports (router cm) ! localInf cm) of
              (None, _) \<Rightarrow> Some cm
            | (Some m, jt) \<Rightarrow>
                do { (_, cm1) \<leftarrow> cmProcessMessage env (Some m)
                       (cm\<lparr>router := (router cm)\<lparr>transports := (transports (router cm))[localInf cm := jt]\<rparr>\<rparr>);
                     cmDrainQueue k env cm1 })
      else None)"

definition cmPeriod :: "nat \<Rightarrow> CmEnv \<Rightarrow> CommunicatorComponent \<Rightarrow> CommunicatorComponent exec" where
  "cmPeriod k env cm =
     do { cm1 \<leftarrow> cmStateMethod (nmEnv env) cm; cm2 \<leftarrow> cmAllState (nmEnv env) cm1; cmDrainQueue k env cm2 }"

end
