(* ===== verification/Ownership.thy ===== *)
theory Ownership
  imports MessageRouting
begin

text \<open>
  The account of messages for every message that can be cloned. The laws of \<open>RoutingLaws\<close> are about messages
  that are equal to their clones; a message without data made by \<open>...ToJausMessage\<close> points to an empty block
  while its clone has a null pointer, so heartbeats are not among them. Here only the numbers count: how many
  messages wait or have been destroyed, and how many clones were made.
\<close>

definition cloneOk :: "JausMessage \<Rightarrow> bool" where
  "cloneOk m \<longleftrightarrow> jausMessageClone m \<noteq> None"

lemma cloneOk_iff: "cloneOk m \<longleftrightarrow> unat (dataSize m) \<le> length (dataBytes m)"
proof (cases "dataSize m = 0")
  case False
  then have "unat (dataSize m) \<noteq> 0" by (simp add: unat_eq_0)
  then show ?thesis by (auto simp: cloneOk_def jausMessageClone_def memRead_def Let_def)
qed (simp add: cloneOk_def jausMessageClone_def)

lemma cloneOk_clone:
  assumes "cloneOk m"
  obtains m' where "jausMessageClone m = Some m'" "cloneOk m'" "source m' = source m" "destination m' = destination m"
    "commandCode m' = commandCode m" "dataSize m' = dataSize m"
proof -
  obtain m' where m': "jausMessageClone m = Some m'" using assms by (auto simp: cloneOk_def)
  have "dataSize m' = dataSize m \<and> unat (dataSize m') \<le> length (dataBytes m') \<and> source m' = source m \<and>
      destination m' = destination m \<and> commandCode m' = commandCode m"
    using m' by (auto simp: jausMessageClone_def Let_def dataBytes_def memRead_def bind_eq_Some_conv split: if_splits)
  then show ?thesis using that m' cloneOk_iff [of m'] by blast
qed

definition counts :: "(bool \<times> Router) exec \<Rightarrow> Router \<Rightarrow> bool" where
  "counts r st \<longleftrightarrow> (\<exists>b st'. r = Some (b, st') \<and> sameFrame st st' \<and> census st' + clones st = census st + clones st' + 1)"

lemma routerOk_sameFrame: "sameFrame st st' \<Longrightarrow> routerOk st' = routerOk st"
  unfolding sameFrame_def by (intro routerOk_same) blast+

lemma sameFrame_refl [simp]: "sameFrame st st"
  by (simp add: sameFrame_def)

lemma counts_destroy: "counts (Some (b, destroyMessage (Some m) st)) st"
  by (simp add: counts_def destroyMessage_def sameFrame_def census_def)

lemma counts_reject: "counts (reject why m st) st"
  by (simp add: counts_def reject_def raiseError_def destroyMessage_def sameFrame_def census_def)

lemma queue_counts:
  assumes "i < length (transports st)"
  shows "\<exists>st'. queueJausMessage i m st = Some st' \<and> sameFrame st st' \<and> census st' = census st + 1 \<and> clones st' = clones st"
  using assms by (auto simp: queueJausMessage_def destroyMessage_def sameFrame_def census_def census_push)

lemma counts_queue: "i < length (transports st) \<Longrightarrow> counts (do { st' \<leftarrow> queueJausMessage i m st; Some (b, st') }) st"
  using queue_counts [of i st m] by (auto simp: counts_def)

lemma counts_sent: "counts r st \<Longrightarrow> counts (sent r) st"
  by (auto simp: counts_def sent_def)

lemma counts_all:
  assumes "cloneOk m" "inRange st is"
  shows "counts (sendToAllInterfaces why is (Some m) st) st"
proof -
  have "\<exists>st'. queueToAll is m st = Some st' \<and> sameFrame st st' \<and> census st' + clones st = census st + clones st'"
    using assms(2)
  proof (induction "is" arbitrary: st)
    case (Cons i "is")
    obtain m' where m': "jausMessageClone m = Some m'" using assms(1) by (auto simp: cloneOk_def)
    let ?st = "st\<lparr>clones := clones st + 1\<rparr>"
    obtain st1 where st1: "queueJausMessage i m' ?st = Some st1" "sameFrame ?st st1" "census st1 = census ?st + 1"
      "clones st1 = clones ?st"
      using queue_counts [of i ?st m'] Cons.prems by auto
    then obtain st2 where "queueToAll is m st1 = Some st2" "sameFrame st1 st2" "census st2 + clones st1 = census st1 + clones st2"
      using Cons.IH [of st1] Cons.prems by (auto simp: sameFrame_def)
    then show ?case using st1 m' by (auto simp: cloneMessage_def sameFrame_def census_def)
  qed simp
  then show ?thesis
    by (auto simp: sendToAllInterfaces_def counts_def destroyMessage_def sameFrame_def census_def)
qed

lemma counts_two:
  assumes "cloneOk m"
    "\<And>m' st'. sameFrame st st' \<Longrightarrow> cloneOk m' \<Longrightarrow> source m' = source m \<Longrightarrow> destination m' = destination m \<Longrightarrow> counts (f m' st') st'"
    "\<And>st'. sameFrame st st' \<Longrightarrow> counts (g st') st'"
  shows "counts (do { (m', st1) \<leftarrow> cloneMessage m st; (_, st2) \<leftarrow> f m' st1; g st2 }) st"
proof -
  obtain m' where m': "jausMessageClone m = Some m'" "cloneOk m'" "source m' = source m" "destination m' = destination m"
    using cloneOk_clone [OF assms(1)] by metis
  let ?st = "st\<lparr>clones := clones st + 1\<rparr>"
  have fr: "sameFrame st ?st" by (simp add: sameFrame_def)
  obtain b st1 where st1: "f m' ?st = Some (b, st1)" "sameFrame ?st st1" "census st1 + clones ?st = census ?st + clones st1 + 1"
    using assms(2) [OF fr m'(2-4)] by (auto simp: counts_def)
  have fr1: "sameFrame st st1" using sameFrame_trans [OF fr st1(2)] .
  obtain b' st2 where st2: "g st1 = Some (b', st2)" "sameFrame st1 st2" "census st2 + clones st1 = census st1 + clones st2 + 1"
    using assms(3) [OF fr1] by (auto simp: counts_def)
  have "sameFrame st st2" using sameFrame_trans [OF fr1 st2(2)] .
  moreover have "census ?st = census st" by (simp add: census_def)
  ultimately show ?thesis using m'(1) st1 st2 by (simp add: counts_def cloneMessage_def)
qed

lemma counts_both:
  assumes "cloneOk m"
    "\<And>m' st'. sameFrame st st' \<Longrightarrow> cloneOk m' \<Longrightarrow> source m' = source m \<Longrightarrow> destination m' = destination m \<Longrightarrow> counts (f (Some m') st') st'"
    "\<And>st'. sameFrame st st' \<Longrightarrow> counts (g (Some m) st') st'"
  shows "counts (sendBoth f g m st) st"
  unfolding sendBoth_then by (rule counts_sent) (rule counts_two [OF assms])

section \<open>The single senders\<close>

lemma mapped_counts:
  assumes "mngrOk st mngr"
  shows "counts (case mapAt mngr k of
       Some jtInf \<Rightarrow> do { st' \<leftarrow> queueJausMessage jtInf m st; Some (True, st') }
     | None \<Rightarrow> Some (False, destroyMessage (Some m) st)) st"
  using counts_destroy counts_queue mapAt_range [OF assms, of k] by (cases "mapAt mngr k") auto

lemma subsSend_counts:
  assumes "routerOk st" "cloneOk m"
  shows "counts (subsSendJausMessage (Some m) st) st"
proof -
  note mngr = routerOk_mngrs(1) [OF assms(1)]
  have "inRange st (interfaces (subsComms st))" using mngr by (simp add: mngrOk_def)
  then show ?thesis
    unfolding subsSendJausMessage_def subsSendToAllInterfaces_def sendToSubsystemX_def
    using mapped_counts [OF mngr] counts_all [OF assms(2)] counts_reject counts_destroy by simp
qed

lemma gateway_counts:
  assumes "routerOk st"
  shows "counts (sendToSubsystemGateway (Some m) st) st"
proof -
  have "i < length (transports st)" if "subsystemGatewayInterface st = Some i" for i
    using assms that by (simp add: routerOk_def)
  then show ?thesis
    unfolding sendToSubsystemGateway_def
    using mapped_counts [OF routerOk_mngrs(2) [OF assms]] counts_queue counts_reject counts_destroy
    by (cases "subsystemGatewayInterface st") auto
qed

lemma everywhere_counts:
  assumes "routerOk st" "cloneOk m"
  shows "counts (sendToNodeXEverywhere m st) st"
proof -
  define g where "g st2 = do { commAddress \<leftarrow> lookUpAddress (systemTree st2) (mySubsystemId st2) 0 JAUS_COMMUNICATOR 0;
          st3 \<leftarrow> (case commAddress of
                     None \<Rightarrow> Some st2
                   | Some a \<Rightarrow>
                       if uint (addrNode a) \<noteq> dstNode m \<and> dstNode m \<noteq> uint JAUS_PRIMARY_NODE_MANAGER_NODE
                       then do { (m2, st') \<leftarrow> cloneMessage m st2; (_, st'') \<leftarrow> sendToSubsystemGateway (Some m2) st'; Some st'' }
                       else Some st2);
          Some (True, destroyMessage (Some m) st3) }" for st2
  have "counts (g st2) st2" if "sameFrame st st2" for st2
  proof -
    have ok: "routerOk st2" using assms(1) routerOk_sameFrame [OF that] by simp
    then have "treeOk (systemTree st2)" "0 \<le> mySubsystemId st2" "mySubsystemId st2 \<le> 255" by (simp_all add: routerOk_def)
    then obtain r where r: "lookUpAddress (systemTree st2) (mySubsystemId st2) 0 35 0 = Some r"
      using lookUpAddress_finds [of "systemTree st2" "mySubsystemId st2" 0 35 0] by auto
    have gate: "counts (do { (m2, st') \<leftarrow> cloneMessage m st2; (_, st'') \<leftarrow> sendToSubsystemGateway (Some m2) st';
        Some (True, destroyMessage (Some m) st'') }) st2"
      by (rule counts_two [OF assms(2)]) (use gateway_counts ok routerOk_sameFrame counts_destroy in blast)+
    then show ?thesis
      using r counts_destroy [of True m st2] by (auto simp: g_def split_def split: option.split)
  qed
  moreover have "sendToNodeXEverywhere m st =
      do { (m1, st1) \<leftarrow> cloneMessage m st; (_, st2) \<leftarrow> sendToNodeX (Some m1) st1; g st2 }"
    by (simp add: sendToNodeXEverywhere_def g_def)
  moreover have "counts (sendToNodeX (Some m') st') st'" if "sameFrame st st'" for m' st'
    using mapped_counts [OF routerOk_mngrs(2)] routerOk_sameFrame [OF that] assms(1) by (simp add: sendToNodeX_def)
  ultimately show ?thesis using counts_two [OF assms(2), of st "\<lambda>m'. sendToNodeX (Some m')" g] by simp
qed

lemma nodeSend_counts:
  assumes "routerOk st" "cloneOk m"
  shows "counts (nodeSendJausMessage (Some m) st) st"
proof -
  note mngr = routerOk_mngrs(2) [OF assms(1)]
  have "inRange st (interfaces (nodeComms st))" using mngr by (simp add: mngrOk_def)
  then show ?thesis
    unfolding nodeSendJausMessage_def nodeSendToAllInterfaces_def sendToNodeX_def
    using mapped_counts [OF mngr] counts_all [OF assms(2)] counts_reject counts_destroy gateway_counts [OF assms(1)]
      everywhere_counts [OF assms]
    by simp
qed

lemma sendToComponentX_counts:
  assumes "routerOk st" "cloneOk m"
  shows "counts (sendToComponentX (Some m) st) st"
proof -
  note mngr = routerOk_mngrs(3) [OF assms(1)]
  have all: "counts (cmptSendToAllInterfaces (Some m) st) st"
    unfolding cmptSendToAllInterfaces_def using mngr by (intro counts_all [OF assms(2)]) (simp add: mngrOk_def)
  have "counts (case interfaceMap (cmptComms st) (jausAddressHash a) of
      Some entry \<Rightarrow> do { jtInf \<leftarrow> entry; st' \<leftarrow> queueJausMessage jtInf m st; Some (True, st') }
    | None \<Rightarrow> Some (False, destroyMessage (Some m) st)) st" for a
  proof (cases "interfaceMap (cmptComms st) (jausAddressHash a)")
    case (Some p)
    then obtain i where i: "p = Some i" using assms(1) by (cases p) (auto simp: routerOk_def cmptMapOk_def)
    have "i < length (transports st)"
      using Some i by (intro mapAt_range [OF mngr, of "jausAddressHash a"]) (simp add: mapAt_def)
    then show ?thesis using Some i counts_queue [of i st] by simp
  qed (simp add: counts_destroy)
  then show ?thesis using all by (simp add: sendToComponentX_def Let_def)
qed

lemma cmptAll_counts:
  assumes "routerOk st" "cloneOk m"
  shows "counts (cmptSendToAllInterfaces (Some m) st) st"
  unfolding cmptSendToAllInterfaces_def using routerOk_mngrs(3) [OF assms(1)]
  by (intro counts_all [OF assms(2)]) (simp add: mngrOk_def)

section \<open>From a component\<close>

lemma communicator_counts:
  assumes "routerOk st" "cloneOk m"
  shows "counts (sendToCommunicator (Some m) st) st"
proof -
  have "counts (sendBoth subsSendJausMessage nodeSendJausMessage m st) st"
    by (rule counts_both [OF assms(2)])
      (use subsSend_counts nodeSend_counts assms routerOk_sameFrame in blast)+
  then show ?thesis
    unfolding sendToCommunicator_def
    using counts_reject counts_sent subsSend_counts [OF assms] nodeSend_counts [OF assms] by simp
qed

lemma routeComponent_counts:
  assumes "routerOk st" "cloneOk m"
  shows "counts (routeComponentSourceMessage (Some m) st) st"
  unfolding routeComponentSourceMessage_def
  using counts_reject counts_sent communicator_counts [OF assms] nodeSend_counts [OF assms] by simp

lemma deliver_counts:
  assumes "routerOk st" "cloneOk m"
  shows "counts (deliverLocally m st) st"
  using cmptAll_counts [OF assms] sendToComponentX_counts [OF assms] by (simp add: deliverLocally_def)

lemma cmptReceive_counts:
  assumes "routerOk st" "cloneOk m" "i \<in> set (interfaces (cmptComms st))"
  shows "counts (cmptReceiveJausMessage (Some m) (Some i) st) (learn CmptLayer m i st)"
proof (cases "learns st m CmptLayer")
  case False
  then have "learn CmptLayer m i st = st" by (simp add: learn.simps)
  then show ?thesis using False counts_reject unfolding cmptReceiveJausMessage_def by auto
next
  case True
  let ?st = "learn CmptLayer m i st"
  have ok: "routerOk ?st" using assms(1,3) by (intro routerOk_learn) simp_all
  have both: "counts (do { (m', st2) \<leftarrow> cloneMessage m ?st; (_, st3) \<leftarrow> routeComponentSourceMessage (Some m') st2;
      deliverLocally m st3 }) ?st"
    by (rule counts_two [OF assms(2)]) (use routeComponent_counts deliver_counts ok routerOk_sameFrame assms(2) in blast)+
  have out: "counts (do { (_, st2) \<leftarrow> routeComponentSourceMessage (Some m) ?st; Some (False, st2) }) ?st"
    using routeComponent_counts [OF ok assms(2)] by (auto simp: counts_def)
  show ?thesis
    using True both out deliver_counts [OF ok assms(2)] unfolding cmptReceiveJausMessage_def by (simp add: learn.simps Let_def)
qed

text \<open>
  A message a component hands in: the call returns, the router stays well-formed, the tree is as it was, and the
  account is settled.
\<close>

lemma handed_in:
  assumes "routerOk st" "cloneOk m" "i \<in> set (interfaces (cmptComms st))"
  shows "\<exists>b st'. cmptReceiveJausMessage (Some m) (Some i) st = Some (b, st') \<and> routerOk st' \<and>
    census st' + clones st = census st + clones st' + 1 \<and> systemTree st' = systemTree st \<and>
    mySubsystemId st' = mySubsystemId st \<and> myNodeId st' = myNodeId st \<and>
    interfaces (cmptComms st') = interfaces (cmptComms st) \<and> length (transports st') = length (transports st) \<and>
    enabled (subsComms st') = enabled (subsComms st)"
proof -
  let ?st = "learn CmptLayer m i st"
  obtain b st' where r: "cmptReceiveJausMessage (Some m) (Some i) st = Some (b, st')" "sameFrame ?st st'"
      "census st' + clones ?st = census ?st + clones st' + 1"
    using cmptReceive_counts [OF assms] by (auto simp: counts_def)
  have "routerOk st'" using routerOk_sameFrame [OF r(2)] routerOk_learn [OF assms(1), of i CmptLayer m] assms(3) by simp
  moreover have "census ?st = census st" by (simp add: census_def)
  moreover have "interfaces (cmptComms ?st) = interfaces (cmptComms st)" using layerInterfaces.simps(3) learn_same(8) [of CmptLayer m i st CmptLayer] by simp
  moreover have "enabled (subsComms ?st) = enabled (subsComms st)" by simp
  ultimately show ?thesis using r by (auto simp: sameFrame_def)
qed

end
