(* ===== verification/TreeUpdates.thy ===== *)
theory TreeUpdates
  imports RegistryLaws
begin

text \<open>
  The operations of the system tree that the reports of other components lead to: time stamps, identifications,
  services, and the replacement of a node or a subsystem by what it reports of itself. They keep the tree
  well-formed, and all but the last two leave what it knows as it is.
\<close>

definition refines :: "SystemTree \<Rightarrow> (bool \<times> SystemTree) exec \<Rightarrow> bool" where
  "refines t r \<longleftrightarrow> (\<exists>b t'. r = Some (b, t') \<and> treeOk t' \<and> known t' = known t \<and>
     treeSubsystemId t' = treeSubsystemId t \<and> treeNodeId t' = treeNodeId t)"

lemma refinesI:
  "treeOk t' \<Longrightarrow> known t' = known t \<Longrightarrow> treeSubsystemId t' = treeSubsystemId t \<Longrightarrow> treeNodeId t' = treeNodeId t \<Longrightarrow>
   refines t (Some (b, t'))"
  by (simp add: refines_def)

lemma refines_same: "treeOk t \<Longrightarrow> refines t (Some (b, t))"
  by (simp add: refinesI)

lemma updSubs_refines:
  assumes "treeOk t" "sub t s = Some subs" "subsId (f subs) = subsId subs" "subsNodes (f subs) = subsNodes subs"
  shows "refines t (Some (b, updSubs t s f))"
proof -
  have "okSubs s (f subs)" using treeOkD [OF assms(1,2)] assms(3,4) by (simp add: okSubs_def)
  then have ok: "treeOk (updSubs t s f)" by (rule treeOk_upd [where f = f, OF assms(1,2)])
  note ch = known_change [OF assms(1) ok sub_updSubs [OF assms(2)]]
  have "subsAddresses (f subs) = subsAddresses subs" using assms(4) by (simp add: subsAddresses_def)
  then have "known (updSubs t s f) = known t"
    using ch known_same [OF assms(1,2)] assms(2,4) by (auto simp: known_def subsKeys_def)
  then show ?thesis using ok by (intro refinesI) simp_all
qed

lemma updNode_refines:
  assumes "treeOk t" "sub t s = Some subs" "i < length (subsNodes subs)" "okNode s (f (subsNodes subs ! i))"
    "nodeId (f (subsNodes subs ! i)) = nodeId (subsNodes subs ! i)" "addresses (f (subsNodes subs ! i)) = addresses (subsNodes subs ! i)"
  shows "refines t (Some (b, updNode t s i f))"
proof -
  have "cmptKeys (updNode t s i f) = cmptKeys t"
    using cmptKeys_updNode [where f = f, OF assms(1-5)] addresses_known [OF assms(2,3)] assms(6) by auto
  then have "known (updNode t s i f) = known t"
    using nodeKeys_updNode [where f = f, OF assms(2,3,5)] by (simp add: known_def)
  then show ?thesis using treeOk_updNode [where f = f, OF assms(1-5)] by (intro refinesI) simp_all
qed

lemma updCmpt_refines:
  assumes "treeOk t" "sub t s = Some subs" "i < length (subsNodes subs)" "k < length (nodeComponents (subsNodes subs ! i))"
    "clonable (f (nodeComponents (subsNodes subs ! i) ! k))"
    "cmptAddress (f (nodeComponents (subsNodes subs ! i) ! k)) = cmptAddress (nodeComponents (subsNodes subs ! i) ! k)"
  shows "refines t (Some (b, updCmpt t s (i, k) f))"
proof -
  let ?n = "subsNodes subs ! i"
  let ?cs = "nodeComponents ?n"
  let ?g = "\<lambda>node. node\<lparr>nodeComponents := (nodeComponents node)[k := f (nodeComponents node ! k)]\<rparr>"
  have n: "okNode s ?n" by (rule okSubsD [OF treeOkD [OF assms(1,2)]]) (simp add: assms(3))
  have ad: "map cmptAddress (?cs[k := f (?cs ! k)]) = map cmptAddress ?cs"
    using assms(4,6) by (simp add: map_update list_update_same_conv)
  have "okNode s (?g ?n)"
  proof -
    have "clonableNode (?g ?n)" using n assms(5) unfolding okNode_def clonableNode_def
      by (auto dest!: subsetD [OF set_update_subset_insert])
    moreover have "\<forall>c \<in> set (?cs[k := f (?cs ! k)]). uint (addrSubsystem (cmptAddress c)) = s \<and> addrNode (cmptAddress c) = nodeId ?n"
      using n assms(4,6) nth_mem [OF assms(4)] by (auto simp: okNode_def dest!: subsetD [OF set_update_subset_insert])
    moreover have "distinct (map cmptAddress ?cs)" using n by (simp add: okNode_def)
    ultimately show ?thesis unfolding okNode_def using ad by simp
  qed
  moreover have "addresses (?g ?n) = addresses ?n"
    using arg_cong [OF ad, of set] by simp
  ultimately have "refines t (Some (b, updNode t s i ?g))" using assms(1-3) by (intro updNode_refines) simp_all
  moreover have "updCmpt t s (i, k) f = updNode t s i ?g" by (simp add: updCmpt_def)
  ultimately show ?thesis by simp
qed

section \<open>Time stamps, identifications, services\<close>

lemma subsystem_refines:
  assumes "treeOk t" "addrSubsystem a \<noteq> 255" "\<And>subs. subsId (f subs) = subsId subs" "\<And>subs. subsNodes (f subs) = subsNodes subs"
  shows "refines t (do { subs \<leftarrow> systemAt t (uint (addrSubsystem a));
    Some (case subs of None \<Rightarrow> (False, t) | Some _ \<Rightarrow> (True, updSubs t (uint (addrSubsystem a)) f)) })"
  using assms updSubs_refines [OF assms(1), where f = f] refines_same
  by (cases "sub t (uint (addrSubsystem a))") (auto simp: at_proper)

lemma node_refines:
  assumes "treeOk t" "addrSubsystem a \<noteq> 255" "\<And>n. nodeId (f n) = nodeId n" "\<And>n. nodeComponents (f n) = nodeComponents n"
  shows "refines t (do { node \<leftarrow> findNodeAddress t a;
    Some (case node of None \<Rightarrow> (False, t) | Some i \<Rightarrow> (True, updNode t (uint (addrSubsystem a)) i f)) })"
  using assms(1,2)
proof (cases rule: findNode_node)
  case unknown
  then show ?thesis using refines_same [OF assms(1)] by simp
next
  case (found i subs)
  have "okNode (uint (addrSubsystem a)) (subsNodes subs ! i)"
    by (rule okSubsD [OF treeOkD [OF assms(1) found(2)]]) (simp add: found(3))
  then show ?thesis
    using found assms(3,4) updNode_refines [OF assms(1) found(2,3), of f]
    by (simp add: okNode_def clonableNode_def)
qed

lemma component_refines:
  assumes "treeOk t" "addrSubsystem a \<noteq> 255" "\<And>c. clonable c \<Longrightarrow> clonable (f c)" "\<And>c. cmptAddress (f c) = cmptAddress c"
  shows "refines t (do { cmpt \<leftarrow> findComponentAddress t a;
    Some (case cmpt of None \<Rightarrow> (False, t) | Some p \<Rightarrow> (True, updCmpt t (uint (addrSubsystem a)) p f)) })"
  using assms(1,2)
proof (cases rule: findComponent_cmpt)
  case unknown
  then show ?thesis using refines_same [OF assms(1)] by simp
next
  case (found i k subs)
  have "okNode (uint (addrSubsystem a)) (subsNodes subs ! i)"
    by (rule okSubsD [OF treeOkD [OF assms(1) found(2)]]) (simp add: found(3))
  then have "clonable (nodeComponents (subsNodes subs ! i) ! k)" using found(6) by (simp add: okNode_def clonableNode_def)
  then show ?thesis
    using found assms(3,4) updCmpt_refines [OF assms(1) found(2,3,6), of f] by simp
qed

lemma timestamps_refine:
  assumes "treeOk t" "addrSubsystem a \<noteq> 255"
  shows "refines t (updateSubsystemTimestamp now t a)" "refines t (updateNodeTimestamp now t a)"
    "refines t (updateComponentTimestamp now t a)"
  unfolding updateSubsystemTimestamp_def updateNodeTimestamp_def updateComponentTimestamp_def
    by (rule subsystem_refines [OF assms] node_refines [OF assms] component_refines [OF assms];
      simp add: jausSubsystemUpdateTimestamp_def jausNodeUpdateTimestamp_def jausComponentUpdateTimestamp_def clonable_def)+

lemma identifications_refine:
  assumes "treeOk t" "addrSubsystem a \<noteq> 255"
  shows "refines t (setSubsystemIdentification t a str)" "refines t (setNodeIdentification t a str)"
    "refines t (setComponentIdentification t a str)"
  unfolding setSubsystemIdentification_def setNodeIdentification_def setComponentIdentification_def
  by (rule subsystem_refines [OF assms] node_refines [OF assms] component_refines [OF assms]; simp add: clonable_def)+

lemma services_refine:
  assumes "treeOk t" "addrSubsystem a \<noteq> 255" "\<forall>s \<in> set services. serviceOk s" "distinct (map serviceType services)"
  shows "refines t (setComponentServices t a services)"
proof -
  have "jausServicesClone services = Some services" using assms(3,4) by (simp add: jausServicesClone_ok)
  then have "setComponentServices t a services = do { cmpt \<leftarrow> findComponentAddress t a;
      Some (case cmpt of None \<Rightarrow> (False, t)
            | Some p \<Rightarrow> (True, updCmpt t (uint (addrSubsystem a)) p (\<lambda>c. c\<lparr>cmptServices := services\<rparr>))) }"
    unfolding setComponentServices_def by (intro Option.bind_cong refl) (simp split: option.split)
  also have "refines t \<dots>"
    by (rule component_refines [OF assms(1,2)]) (simp_all add: clonable_def assms(3,4))
  finally show ?thesis .
qed

section \<open>Replacements\<close>

lemma keepComponents_addresses:
  assumes "treeOk t" "addrSubsystem a \<noteq> 255"
    "\<forall>c \<in> set cs. addrSubsystem (cmptAddress c) = addrSubsystem a \<and> addrNode (cmptAddress c) = addrNode a"
  shows "\<exists>cs'. keepComponents now t a cs = Some cs' \<and> map cmptAddress cs' = map cmptAddress cs \<and> (\<forall>c \<in> set cs'. clonable c)"
  using assms(3)
proof (induction cs)
  case (Cons c cs)
  let ?b = "cmptAddress c"
  have b: "addrSubsystem ?b \<noteq> 255" "a\<lparr>addrComponent := addrComponent ?b, addrInstance := addrInstance ?b\<rparr> = ?b"
    using Cons.prems assms(2) by simp_all
  have "\<exists>c'. do { p \<leftarrow> findComponentAddress t ?b;
      (case p of Some p \<Rightarrow> jausComponentClone now (cmptAt t (uint (addrSubsystem ?b)) p)
       | None \<Rightarrow> Some ((jausComponentCreate now)\<lparr>cmptAddress := ?b\<rparr>)) } = Some c' \<and> cmptAddress c' = ?b \<and> clonable c'"
    using assms(1) b(1)
  proof (cases rule: findComponent_cmpt)
    case unknown
    then show ?thesis by (simp add: clonable_def jausComponentCreate_def jausComponentUpdateTimestamp_def)
  next
    case (found i k subs)
    have "okNode (uint (addrSubsystem ?b)) (subsNodes subs ! i)"
      by (rule okSubsD [OF treeOkD [OF assms(1) found(2)]]) (simp add: found(3))
    then have "clonable (nodeComponents (subsNodes subs ! i) ! k)" using found(6) by (simp add: okNode_def clonableNode_def)
    then show ?thesis
      using found by (simp add: cmptAt_def nodeAt_sub clone_cmpt jausComponentUpdateTimestamp_def clonable_def)
  qed
  then obtain p c' where c': "findComponentAddress t ?b = Some p" "cmptAddress c' = ?b" "clonable c'"
      "(case p of Some p \<Rightarrow> jausComponentClone now (cmptAt t (uint (addrSubsystem ?b)) p)
       | None \<Rightarrow> Some ((jausComponentCreate now)\<lparr>cmptAddress := ?b\<rparr>)) = Some c'"
    by (auto simp: bind_eq_Some_conv)
  obtain cs' where cs': "keepComponents now t a cs = Some cs'" "map cmptAddress cs' = map cmptAddress cs" "\<forall>c \<in> set cs'. clonable c"
    using Cons by auto
  have "keepComponents now t a (c # cs) = Some (c' # cs')"
    unfolding keepComponents.simps b(2) by (simp only: c' cs' bind.bind_lunit)
  then show ?case using c' cs' by simp
qed simp

lemma distinct_dropped: "distinct (map f xs) \<Longrightarrow> k < length xs \<Longrightarrow> f (xs ! k) \<notin> f ` set (dropNth k xs)"
  using distinct_dropNth [of f xs k]
  by (metis distinct_map inj_on_image_mem_iff nth_mem set_dropNth dropNth_subset Diff_iff insertI1)

lemma replaceNode_law:
  assumes "treeOk t" "addrSubsystem a \<noteq> 255" "nodeKey a \<in> nodeKeys t" "okNode (uint (addrSubsystem a)) new"
    "nodeId new = addrNode a"
  shows "\<exists>t'. replaceNode hs now t w a new = Some (True, t', w) \<and> treeOk t' \<and>
    known t' = (subsKeys t, nodeKeys t, {b \<in> cmptKeys t. nodeKey b \<noteq> nodeKey a} \<union> addresses new) \<and>
    treeSubsystemId t' = treeSubsystemId t \<and> treeNodeId t' = treeNodeId t"
  using assms(1,2)
proof (cases rule: findNode_node)
  case unknown
  then show ?thesis using assms(3) by simp
next
  case (found i subs)
  let ?s = "uint (addrSubsystem a)" and ?n = "subsNodes subs ! i"
  have sub_a: "\<forall>c \<in> set (nodeComponents new). addrSubsystem (cmptAddress c) = addrSubsystem a \<and> addrNode (cmptAddress c) = addrNode a"
    using assms(4,5) by (auto simp: okNode_def)
  from keepComponents_addresses [OF assms(1,2) this] obtain cs where cs:
    "keepComponents now t a (nodeComponents new) = Some cs" "map cmptAddress cs = map cmptAddress (nodeComponents new)"
    "\<forall>c \<in> set cs. clonable c" by blast
  let ?c = "(jausNodeCreate now)\<lparr>nodeId := nodeId (nodeAt t ?s i), nodeIdentification := nodeIdentification (nodeAt t ?s i),
    nodeComponents := cs, nodeParent := Some (subsId (subsAt t ?s))\<rparr>"
  let ?f = "\<lambda>subs. subs\<lparr>subsNodes := dropNth i (subsNodes subs) @ [?c]\<rparr>"
  let ?t = "updSubs t ?s ?f"
  note so = treeOkD [OF assms(1) found(2)]
  have id: "nodeId ?c = addrNode a" using found by (simp add: nodeAt_sub)
  have ad: "cmptAddress ` set cs = addresses new" using arg_cong [OF cs(2), of set] by simp
  have okc: "okNode ?s ?c"
    unfolding okNode_def
  proof (intro conjI)
    show "clonableNode ?c" using cs(3) by (simp add: clonableNode_def)
    show "distinct (map cmptAddress (nodeComponents ?c))" using cs(2) assms(4) by (simp add: okNode_def)
    have in_a: "uint (addrSubsystem b) = ?s \<and> addrNode b = addrNode a" if "b \<in> cmptAddress ` set cs" for b
      using that sub_a unfolding ad by auto
    show "\<forall>c \<in> set (nodeComponents ?c). uint (addrSubsystem (cmptAddress c)) = ?s \<and> addrNode (cmptAddress c) = nodeId ?c"
      unfolding id by (intro ballI in_a imageI) simp
  qed
  have rest: "addrNode a \<notin> nodeId ` set (dropNth i (subsNodes subs))"
    using distinct_dropped [of nodeId "subsNodes subs" i] so found(3,4) by (simp add: okSubs_def)
  then have "okSubs ?s (?f subs)"
    using so okc id distinct_dropNth [of nodeId "subsNodes subs" i] dropNth_subset [of i "subsNodes subs"] by (auto simp: okSubs_def)
  then have ok': "treeOk ?t" by (rule treeOk_upd [where f = ?f, OF assms(1) found(2)])
  note ch = known_change [OF assms(1) ok' sub_updSubs [OF found(2)]]
  have dis: "distinct (subsNodes subs)" using so by (simp add: okSubs_def distinct_map)
  note dr = set_dropNth [OF dis found(3)]
  have "known ?t = (subsKeys t, nodeKeys t, {b \<in> cmptKeys t. nodeKey b \<noteq> nodeKey a} \<union> addresses new)"
  proof -
    have "subsKeys ?t = subsKeys t" using ch(1) found(2) by (auto simp: subsKeys_def)
    moreover have "nodeId ` set (subsNodes (?f subs)) = nodeId ` set (subsNodes subs)"
      using dr id imageI [OF nth_mem [OF found(3)], of nodeId] found(4) by (auto simp: image_iff)
    then have "nodeKeys ?t = nodeKeys t" using ch(2) known_same(2) [OF assms(1) found(2)] by simp
    moreover have "subsAddresses (?f subs) = {b \<in> subsAddresses subs. addrNode b \<noteq> addrNode a} \<union> addresses new"
    proof -
      have "addrNode b = nodeId n" if "n \<in> set (subsNodes subs)" "b \<in> addresses n" for n b
        using okNode_in [OF okSubsD [OF so that(1)] that(2)] by simp
      note of_node = this
      have "nodeId n \<noteq> addrNode a" if "n \<in> set (dropNth i (subsNodes subs))" for n using rest that by (metis imageI)
      moreover have "n \<in> set (dropNth i (subsNodes subs))" if "n \<in> set (subsNodes subs)" "nodeId n \<noteq> addrNode a" for n
        using dr that found(4) by auto
      ultimately have others: "n \<in> set (dropNth i (subsNodes subs)) \<longleftrightarrow> n \<in> set (subsNodes subs) \<and> nodeId n \<noteq> addrNode a" for n
        using dropNth_subset [of i "subsNodes subs"] by blast
      have "\<Union> (addresses ` set (dropNth i (subsNodes subs))) = {b \<in> subsAddresses subs. addrNode b \<noteq> addrNode a}"
      proof (intro set_eqI iffI)
        fix b assume "b \<in> \<Union> (addresses ` set (dropNth i (subsNodes subs)))"
        then obtain n where n: "n \<in> set (dropNth i (subsNodes subs))" "b \<in> addresses n" by (rule UN_E)
        then have "n \<in> set (subsNodes subs)" "nodeId n \<noteq> addrNode a" unfolding others by simp_all
        then show "b \<in> {b \<in> subsAddresses subs. addrNode b \<noteq> addrNode a}"
          using of_node [OF _ n(2)] n(2) unfolding subsAddresses_def by (simp only: mem_Collect_eq) (rule conjI, rule UN_I, simp_all)
      next
        fix b assume "b \<in> {b \<in> subsAddresses subs. addrNode b \<noteq> addrNode a}"
        then have b: "b \<in> \<Union> (addresses ` set (subsNodes subs))" "addrNode b \<noteq> addrNode a" unfolding subsAddresses_def by simp_all
        from b(1) obtain n where n: "n \<in> set (subsNodes subs)" "b \<in> addresses n" by (rule UN_E)
        then have "n \<in> set (dropNth i (subsNodes subs))" unfolding others using of_node [OF n] b(2) by simp
        then show "b \<in> \<Union> (addresses ` set (dropNth i (subsNodes subs)))" using n(2) by (rule UN_I)
      qed
      then show ?thesis using ad unfolding subsAddresses_def by (simp add: Un_commute)
    qed
    then have "cmptKeys ?t = {b \<in> cmptKeys t. nodeKey b \<noteq> nodeKey a} \<union> addresses new"
      using ch(3) known_same(1) [OF assms(1) found(2)] okSubs_in [OF so] by auto
    ultimately show ?thesis by (simp add: known_def)
  qed
  moreover have "replaceNode hs now t w a new = Some (True, ?t, w)" using found(1) cs(1) by (simp add: replaceNode_def Let_def)
  ultimately show ?thesis using ok' by simp
qed

text \<open>What a replaced subsystem keeps of the old one are names only.\<close>

lemma keepCmptIdentifications_same:
  assumes "treeOk t" "s < 255" "\<forall>c \<in> set cs. uint (addrSubsystem (cmptAddress c)) = s \<and> clonable c"
  shows "\<exists>cs'. keepCmptIdentifications t cs = Some cs' \<and> map cmptAddress cs' = map cmptAddress cs \<and> (\<forall>c \<in> set cs'. clonable c)"
  using assms(3)
proof (induction cs)
  case (Cons c cs)
  then have "addrSubsystem (cmptAddress c) \<noteq> 255" using assms(2) by auto
  then obtain p where "findComponentAddress t (cmptAddress c) = Some p" using findComponent_idx [OF assms(1)] by blast
  then show ?case using Cons by (auto simp: clonable_def split: option.split)
qed simp

lemma keepIdentifications_same:
  assumes "treeOk t" "0 \<le> s" "s < 255" "\<forall>n \<in> set ns. okNode s n \<and> nodeParent n = Some s"
  shows "\<exists>ns'. keepIdentifications t ns = Some ns' \<and> map nodeConf ns' = map nodeConf ns \<and>
    map (\<lambda>n. cmptAddress ` set (nodeComponents n)) ns' = map (\<lambda>n. cmptAddress ` set (nodeComponents n)) ns \<and> (\<forall>n \<in> set ns'. okNode s n)"
  using assms(4)
proof (induction ns)
  case (Cons n ns)
  have n: "okNode s n" "nodeParent n = Some s" using Cons.prems by simp_all
  obtain i where i: "findNode t s (uint (nodeId n)) = Some i"
    using assms(1-3) by (auto simp: findNode_def systemAt_sub treeOk_length split: option.split)
  have "\<forall>c \<in> set (nodeComponents n). uint (addrSubsystem (cmptAddress c)) = s \<and> clonable c"
    using n(1) by (simp add: okNode_def clonableNode_def)
  from keepCmptIdentifications_same [OF assms(1,3) this] obtain cs where cs:
    "keepCmptIdentifications t (nodeComponents n) = Some cs" "map cmptAddress cs = map cmptAddress (nodeComponents n)"
    "\<forall>c \<in> set cs. clonable c" by blast
  have same: "map (g \<circ> cmptAddress) cs = map (g \<circ> cmptAddress) (nodeComponents n)" for g :: "JausAddress \<Rightarrow> u8 \<times> u8"
    using arg_cong [OF cs(2), of "map g"] by simp
  have ad: "cmptAddress ` set cs = cmptAddress ` set (nodeComponents n)" using arg_cong [OF cs(2), of set] by simp
  let ?n = "\<lambda>x. n\<lparr>nodeIdentification := x, nodeComponents := cs\<rparr>"
  have "okNode s (?n x)" for x
  proof -
    have "\<forall>c \<in> set cs. uint (addrSubsystem (cmptAddress c)) = s \<and> addrNode (cmptAddress c) = nodeId n"
      using n(1) ad unfolding okNode_def by (metis (no_types, lifting) image_iff)
    then show ?thesis using n(1) cs(2,3) by (simp add: okNode_def clonableNode_def)
  qed
  moreover have "nodeConf (?n x) = nodeConf n" for x
    using same [of "\<lambda>a. (addrComponent a, addrInstance a)"] by (simp add: nodeConf_def comp_def)
  ultimately show ?case using Cons i cs(1) n ad by (auto split: option.split)
qed simp

lemma stampNode_simps [simp]:
  "nodeConf (stampNode now n) = nodeConf n" "nodeParent (stampNode now n) = nodeParent n"
  "cmptAddress ` set (nodeComponents (stampNode now n)) = cmptAddress ` set (nodeComponents n)"
  by (simp_all add: stampNode_def nodeConf_def comp_def jausComponentUpdateTimestamp_def image_image)

lemma nodeConf_parent: "nodeConf (n\<lparr>nodeParent := p\<rparr>) = nodeConf n"
  by (simp add: nodeConf_def)

lemma replaceSubsystem_law:
  assumes "treeOk t" "0 \<le> s" "s < 255" "sub t s = Some old" "okSubs s new" "\<forall>n \<in> set (subsNodes new). nodeParent n = Some s"
  shows "\<exists>t' subs. replaceSubsystem hs now t w s new = Some (True, t', w) \<and> treeOk t' \<and>
    sub t' = (sub t)(s \<mapsto> subs) \<and> configuration subs = configuration new \<and>
    known t' = (subsKeys t, {k \<in> nodeKeys t. fst k \<noteq> s} \<union> Pair s ` nodeId ` set (subsNodes new),
                {a \<in> cmptKeys t. uint (addrSubsystem a) \<noteq> s} \<union> subsAddresses new) \<and>
    treeSubsystemId t' = treeSubsystemId t \<and> treeNodeId t' = treeNodeId t"
proof -
  have at: "systemAt t s = Some (Some old)" using assms by (simp add: systemAt_sub treeOk_length)
  have clone: "jausSubsystemClone now new = Some (stampSubs now new)" by (rule clone_subs [OF okSubs_clonable [OF assms(5)]])
  have st: "subsNodes (stampSubs now new) = map (stampNode now) (subsNodes new)" by (simp add: stampSubs_def)
  have "\<forall>n \<in> set (subsNodes (stampSubs now new)). okNode s n \<and> nodeParent n = Some s"
    using assms(5,6) by (simp add: st okSubs_def)
  from keepIdentifications_same [OF assms(1-3) this] obtain ns where ns:
    "keepIdentifications t (subsNodes (stampSubs now new)) = Some ns" "map nodeConf ns = map nodeConf (subsNodes new)"
    "map (\<lambda>n. cmptAddress ` set (nodeComponents n)) ns = map (\<lambda>n. cmptAddress ` set (nodeComponents n)) (subsNodes new)"
    "\<forall>n \<in> set ns. okNode s n"
    by (auto simp: st comp_def)
  let ?new = "orphaned ((stampSubs now new)\<lparr>subsIdentification := keepString (subsIdentification old) (subsIdentification (stampSubs now new)),
    subsNodes := ns\<rparr>)"
  have ids: "map nodeId ns = map nodeId (subsNodes new)"
    using arg_cong [OF ns(2), of "map fst"] by (simp add: nodeConf_def comp_def)
  have ok: "okSubs s ?new"
    unfolding okSubs_orphaned using assms(5) ids ns(4) by (simp add: okSubs_def stampSubs_def)
  have conf: "configuration ?new = configuration new"
    using ns(2) by (simp add: configuration_def orphaned_def comp_def nodeConf_parent)
  let ?t = "t\<lparr>system := (system t)[nat s := Some ?new], subsystemCount := subsystemCount t + 1\<rparr>"
  have sub: "sub ?t = (sub t)(s := Some ?new)"
    using sub_put [of s t "Some ?new"] assms(2,3) treeOk_length [OF assms(1)] by simp
  have ok': "treeOk ?t" using assms(1) ok by (auto simp: treeOk_def sub simp del: sub_count)
  have ad: "subsAddresses ?new = subsAddresses new"
  proof -
    have "\<Union> (set (map (\<lambda>n. cmptAddress ` set (nodeComponents n)) ns)) = \<Union> (set (map (\<lambda>n. cmptAddress ` set (nodeComponents n)) (subsNodes new)))"
      using ns(3) by simp
    then show ?thesis by (simp add: subsAddresses_def orphaned_def image_image)
  qed
  have nid: "nodeId ` set (subsNodes ?new) = nodeId ` set (subsNodes new)"
    using arg_cong [OF ids, of set] by (simp add: orphaned_def image_image)
  note ch = known_change [OF assms(1) ok' sub]
  have "insert s (subsKeys t) = subsKeys t" using assms(4) by (auto simp: subsKeys_def)
  then have "known ?t = (subsKeys t, {k \<in> nodeKeys t. fst k \<noteq> s} \<union> Pair s ` nodeId ` set (subsNodes new),
      {a \<in> cmptKeys t. uint (addrSubsystem a) \<noteq> s} \<union> subsAddresses new)"
    using ch ad nid by (simp add: known_def)
  moreover have "replaceSubsystem hs now t w s new = Some (True, ?t, w)"
    using at clone ns(1) by (simp add: replaceSubsystem_def Let_def)
  ultimately show ?thesis using ok' sub conf by (intro exI [of _ ?t] exI [of _ ?new]) simp
qed

end
