(* ===== verification/NodeManagerSafety.thy ===== *)
theory NodeManagerSafety
  imports NodeManager Ownership TreeUpdates ParseSafety
begin

text \<open>
  The account of the node manager's component: which operations return, what they leave unchanged, and who owns
  the messages. An operation is described by two relations between the states before and after it. \<open>balance d\<close>
  says that the router is still well-formed and that, apart from \<open>d\<close> messages that were taken over from a queue,
  the messages that wait or were destroyed are those there were before, those that were made and their clones.
  \<open>quiet\<close> says that nothing but the router has changed.
\<close>

definition nmOk :: "'a LocalComponent_scheme \<Rightarrow> bool" where
  "nmOk nm \<longleftrightarrow> routerOk (router nm) \<and> localInf nm \<in> set (interfaces (cmptComms (router nm))) \<and>
     uint (addrSubsystem (ownAddress nm)) = mySubsystemId (router nm) \<and> uint (addrNode (ownAddress nm)) = myNodeId (router nm)"

definition balance :: "nat \<Rightarrow> 'a LocalComponent_scheme \<Rightarrow> 'a LocalComponent_scheme \<Rightarrow> bool" where
  "balance d nm nm' \<longleftrightarrow> nmOk nm' \<and> localInf nm' = localInf nm \<and> ownAddress nm' = ownAddress nm \<and>
     length (transports (router nm')) = length (transports (router nm)) \<and>
     census (router nm') + clones (router nm) + created nm = census (router nm) + clones (router nm') + created nm' + d"

definition quiet :: "'a LocalComponent_scheme \<Rightarrow> 'a LocalComponent_scheme \<Rightarrow> bool" where
  "quiet nm nm' \<longleftrightarrow> localCmpt nm' = localCmpt nm \<and> localInf nm' = localInf nm \<and> eventIds nm' = eventIds nm \<and>
     subsystemChangeList nm' = subsystemChangeList nm \<and> nodeChangeList nm' = nodeChangeList nm \<and>
     LocalComponent.more nm' = LocalComponent.more nm"

lemma balance_refl [simp]: "nmOk nm \<Longrightarrow> balance 0 nm nm"
  by (simp add: balance_def)

lemma balance_ok: "balance d nm nm' \<Longrightarrow> nmOk nm'"
  by (simp add: balance_def)

lemma balance_trans: "balance d nm nm1 \<Longrightarrow> balance e nm1 nm2 \<Longrightarrow> balance (d + e) nm nm2"
  by (simp add: balance_def)

lemma quiet_refl [simp]: "quiet nm nm"
  by (simp add: quiet_def)

lemma quiet_trans: "quiet nm nm1 \<Longrightarrow> quiet nm1 nm2 \<Longrightarrow> quiet nm nm2"
  by (simp add: quiet_def)

lemma quiet_same:
  assumes "quiet nm nm'"
  shows "localCmpt nm' = localCmpt nm" "localInf nm' = localInf nm" "eventIds nm' = eventIds nm"
    "subsystemChangeList nm' = subsystemChangeList nm" "nodeChangeList nm' = nodeChangeList nm"
    "LocalComponent.more nm' = LocalComponent.more nm"
  using assms by (simp_all add: quiet_def)

lemma withTree_simps [simp]:
  "treeOf (withTree t nm) = t" "localCmpt (withTree t nm) = localCmpt nm" "localInf (withTree t nm) = localInf nm"
  "created (withTree t nm) = created nm" "clones (router (withTree t nm)) = clones (router nm)"
  "census (router (withTree t nm)) = census (router nm)" "transports (router (withTree t nm)) = transports (router nm)"
  "subsystemChangeList (withTree t nm) = subsystemChangeList nm" "nodeChangeList (withTree t nm) = nodeChangeList nm"
  by (simp_all add: withTree_def census_def)

lemma nmOk_tree: "nmOk nm \<Longrightarrow> treeOk (treeOf nm)"
  by (simp add: nmOk_def routerOk_def)

lemma nmOk_withTree: "nmOk nm \<Longrightarrow> treeOk t \<Longrightarrow> nmOk (withTree t nm)"
  by (simp add: nmOk_def withTree_def routerOk_def mngrOk_def cmptMapOk_def)

lemma balance_withTree: "balance d nm0 nm \<Longrightarrow> treeOk t \<Longrightarrow> balance d nm0 (withTree t nm)"
  using nmOk_withTree [of nm t] by (simp add: balance_def)

lemma quiet_withTree [simp]: "quiet nm0 (withTree t nm) \<longleftrightarrow> quiet nm0 nm"
  by (simp add: quiet_def withTree_def)

section \<open>Sending\<close>

definition sends :: "'a LocalComponent_scheme \<Rightarrow> 'a LocalComponent_scheme \<Rightarrow> bool" where
  "sends nm nm' \<longleftrightarrow> balance 0 nm nm' \<and> quiet nm nm' \<and> treeOf nm' = treeOf nm"

definition posts :: "'a LocalComponent_scheme \<Rightarrow> 'a LocalComponent_scheme exec \<Rightarrow> bool" where
  "posts nm r \<longleftrightarrow> (\<exists>nm'. r = Some nm' \<and> sends nm nm')"

definition asks :: "'a LocalComponent_scheme \<Rightarrow> ('b \<times> 'a LocalComponent_scheme) exec \<Rightarrow> bool" where
  "asks nm r \<longleftrightarrow> (\<exists>b nm'. r = Some (b, nm') \<and> sends nm nm')"

definition sendable :: "JausMessage exec \<Rightarrow> bool" where
  "sendable tx \<longleftrightarrow> (\<exists>m. tx = Some m \<and> cloneOk m)"

lemma sends_refl [simp]: "nmOk nm \<Longrightarrow> sends nm nm"
  by (simp add: sends_def)

lemma sends_trans: "sends nm nm1 \<Longrightarrow> sends nm1 nm2 \<Longrightarrow> sends nm nm2"
  using balance_trans [of 0 nm nm1 0 nm2] quiet_trans [of nm nm1 nm2] by (simp add: sends_def)

lemma sendsD:
  assumes "sends nm nm'"
  shows "nmOk nm'" "treeOf nm' = treeOf nm" "ownAddress nm' = ownAddress nm"
  using assms by (simp_all add: sends_def balance_def quiet_def)

lemma asks_none: "nmOk nm \<Longrightarrow> asks nm (Some (b, nm))"
  by (simp add: asks_def)

lemma posts_none: "nmOk nm \<Longrightarrow> posts nm (Some nm)"
  by (simp add: posts_def)

lemma posts_bind:
  assumes "posts nm r" "\<And>nm'. sends nm nm' \<Longrightarrow> posts nm' (f nm')"
  shows "posts nm (do { nm' \<leftarrow> r; f nm' })"
  using assms sends_trans by (fastforce simp: posts_def)

lemma asks_bind:
  assumes "asks nm r" "\<And>b nm'. sends nm nm' \<Longrightarrow> posts nm' (f b nm')"
  shows "posts nm (do { (b, nm') \<leftarrow> r; f b nm' })"
  using assms sends_trans by (fastforce simp: posts_def asks_def)

lemma posts_asks:
  assumes "posts nm r"
  shows "asks nm (do { nm' \<leftarrow> r; Some (b, nm') })"
  using assms by (auto simp: posts_def asks_def)

lemma handOver_posts:
  assumes "nmOk nm" "cloneOk m"
  shows "\<exists>nm'. handOver m nm = Some nm' \<and> balance 1 nm nm' \<and> quiet nm nm' \<and> treeOf nm' = treeOf nm"
proof -
  have "routerOk (router nm)" "localInf nm \<in> set (interfaces (cmptComms (router nm)))" using assms(1) by (simp_all add: nmOk_def)
  from handed_in [OF this(1) assms(2) this(2)] assms(1) show ?thesis
    by (auto simp: handOver_def balance_def quiet_def nmOk_def)
qed

lemma transmit_posts:
  assumes "nmOk nm" "sendable tx"
  shows "posts nm (transmitNew tx nm)"
proof -
  obtain m where m: "tx = Some m" "cloneOk m" using assms(2) by (auto simp: sendable_def)
  have "nmOk (nm\<lparr>created := created nm + 1\<rparr>)" using assms(1) by (simp add: nmOk_def)
  from handOver_posts [OF this m(2)] m(1) show ?thesis
    by (auto simp: transmitNew_def posts_def sends_def balance_def quiet_def)
qed

lemma sendable_addressed: "sendable tx \<Longrightarrow> sendable (addressed dst src tx)"
  by (auto simp: sendable_def addressed_def cloneOk_iff dataBytes_def)

context typed_message
begin

lemma sendable_toJausMessage: "sendable (messageToJausMessage dSize dataTo m)"
  using enc_size [of m] by (simp add: sendable_def toJausMessage cloneOk_iff dataBytes_def)

end

lemma sendable_noData: "sendable (messageToJausMessage noData_dataSize noData_dataToBuffer m)"
  by (simp add: sendable_def messageToJausMessage_def noData_dataSize_def noData_dataToBuffer_def cloneOk_iff dataBytes_def)

lemma sendable_messages:
  "sendable (queryIdentificationMessageToJausMessage m1)" "sendable (queryConfigurationMessageToJausMessage m2)"
  "sendable (queryServicesMessageToJausMessage m3)" "sendable (confirmEventRequestMessageToJausMessage m4)"
  "sendable (rejectComponentControlMessageToJausMessage m5)" "sendable (confirmComponentControlMessageToJausMessage m6)"
  "sendable (reportComponentAuthorityMessageToJausMessage m7)" "sendable (reportComponentStatusMessageToJausMessage m8)"
  "sendable (reportHeartbeatPulseMessageToJausMessage m9)"
  unfolding queryIdentificationMessageToJausMessage_def queryConfigurationMessageToJausMessage_def
    queryServicesMessageToJausMessage_def confirmEventRequestMessageToJausMessage_def rejectComponentControlMessageToJausMessage_def
    confirmComponentControlMessageToJausMessage_def reportComponentAuthorityMessageToJausMessage_def
    reportComponentStatusMessageToJausMessage_def reportHeartbeatPulseMessageToJausMessage_def
  by (rule queryIdentification.sendable_toJausMessage queryConfiguration.sendable_toJausMessage sendable_noData
      confirmEventRequest.sendable_toJausMessage confirmComponentControl.sendable_toJausMessage
      reportComponentAuthority.sendable_toJausMessage reportComponentStatus.sendable_toJausMessage
      reportHeartbeatPulse.sendable_toJausMessage)+

section \<open>Queries of the component\<close>

lemma has_total:
  assumes "treeOk t" "addrSubsystem a \<noteq> 255"
  shows "\<exists>b. hasSubsystem t a = Some b" "\<exists>b. hasNode t a = Some b" "\<exists>b. hasComponent t a = Some b"
    "\<exists>b. hasSubsystemIdentification t a = Some b" "\<exists>b. hasSubsystemConfiguration t a = Some b"
    "\<exists>b. hasNodeIdentification t a = Some b" "\<exists>b. hasNodeConfiguration t a = Some b"
    "\<exists>b. hasComponentIdentification t a = Some b" "\<exists>b. hasComponentServices t a = Some b"
  using has_keys [OF assms] at_proper [OF assms] findNode_idx [OF assms] findComponent_idx [OF assms]
  by (simp_all add: hasSubsystemIdentification_def hasSubsystemConfiguration_def hasNodeIdentification_def
      hasNodeConfiguration_def hasComponentIdentification_def hasComponentServices_def)

lemma queryConfiguration_event_sendable:
  "\<exists>ce. configurationEvent queryField = Some ce \<and> sendable (createEventMessageToJausMessage ce)"
proof -
  obtain q where q: "queryConfigurationMessageToJausMessage (configurationQuery queryField) = Some q" "cloneOk q"
    using sendable_messages(2) by (auto simp: sendable_def)
  have "q = (copyHeader (configurationQuery queryField) jausMessageCreate)\<lparr>dataSize := queryConfiguration_dataSize (configurationQuery queryField),
      data := Some (queryConfiguration_enc (configurationQuery queryField))\<rparr>"
    using q(1) queryConfiguration.toJausMessage by (simp add: queryConfigurationMessageToJausMessage_def)
  then have enc: "enclosed 42 q"
    using queryConfiguration.enc_size [of "configurationQuery queryField"] queryConfiguration.size_bound [of "configurationQuery queryField"]
    by (simp add: enclosed_def dataBytes_def)
  have "\<exists>k. createEvent_dataSize (createEvent_dataInitialize m) = Some k" for m
    by (simp add: createEvent_dataSize_def whenBit_def byteIsBitSet createEvent_dataInitialize_def jausEventLimitSize_def Let_def)
  from this [of "JausHeader.extend (blankHeader JAUS_CREATE_EVENT 512000) (CreateEventMessage.fields 0 0 0 0 0 0 None None None 0 0 None)"]
  obtain c where c: "createEventMessageCreate = Some c" by (auto simp: createEventMessageCreate_def Let_def)
  obtain pv where pv: "jausByteSetBit 0 7 = Some (True, pv)" "\<forall>k. bit pv k \<longleftrightarrow> k = 7 \<and> k < 8"
    using byteSetBit_spec [of 7 0] by auto
  let ?ce = "c\<lparr>createEvent_presenceVector := pv,
    createEvent_reportMessageCode := jausMessageGetComplementaryCommandCode (commandCode (configurationQuery queryField)),
    createEvent_eventType := EVENT_EVERY_CHANGE_TYPE, createEvent_queryMessage := Some q\<rparr>"
  have "createEventOk ?ce" using enc pv(2) by (simp add: createEventOk_def)
  note to = createEvent_toJausMessage [OF this] and sz = createEvent_size [OF this]
  have "cloneOk ((copyHeader ?ce jausMessageCreate)\<lparr>dataSize := of_nat (length (createEvent_enc ?ce)), data := Some (createEvent_enc ?ce)\<rparr>)"
    using sz(2) by (simp add: cloneOk_iff dataBytes_def unat_of_nat_lt)
  then have "sendable (createEventMessageToJausMessage ?ce)" unfolding to by (simp add: sendable_def)
  moreover have "configurationEvent queryField = Some ?ce" by (simp add: configurationEvent_def c q(1) pv(1))
  ultimately show ?thesis by blast
qed

lemma transmit_asks: "nmOk nm \<Longrightarrow> sendable tx \<Longrightarrow> asks nm (do { nm' \<leftarrow> transmitNew tx nm; Some (b, nm') })"
  by (intro posts_asks transmit_posts)

lemma queryConfigurationOf_asks:
  assumes "nmOk nm"
  shows "asks nm (queryConfigurationOf queryField a createEvent nm)"
proof -
  obtain ce where ce: "configurationEvent queryField = Some ce" "sendable (createEventMessageToJausMessage ce)"
    using queryConfiguration_event_sendable by blast
  have "posts nm (transmitNew (addressed a (ownAddress nm) (queryConfigurationMessageToJausMessage (configurationQuery queryField))) nm)"
    by (intro transmit_posts assms sendable_addressed sendable_messages)
  then obtain nm1 where nm1: "transmitNew (addressed a (ownAddress nm) (queryConfigurationMessageToJausMessage (configurationQuery queryField))) nm = Some nm1"
    "sends nm nm1" by (auto simp: posts_def)
  have "asks nm1 (do { nm2 \<leftarrow> transmitNew (addressed a (ownAddress nm1) (createEventMessageToJausMessage ce)) nm1; Some (True, nm2) })"
    by (intro transmit_asks sendsD [OF nm1(2)] sendable_addressed ce(2))
  then show ?thesis
    using nm1 ce(1) sends_trans [OF nm1(2)] by (auto simp: queryConfigurationOf_def asks_def)
qed

lemma queries_ask:
  assumes "nmOk nm" "addrSubsystem a \<noteq> 255"
  shows "asks nm (sendQueryNodeIdentification a nm)" "asks nm (sendQuerySubsystemIdentification a nm)"
    "asks nm (sendQueryComponentIdentification a nm)" "asks nm (sendQueryComponentServices a nm)"
    "asks nm (sendQueryNodeConfiguration a createEvent nm)" "asks nm (sendQuerySubsystemConfiguration a createEvent nm)"
  using has_total [OF nmOk_tree [OF assms(1)] assms(2)] asks_none [OF assms(1)] queryConfigurationOf_asks [OF assms(1)]
    transmit_asks [OF assms(1) sendable_addressed [OF sendable_messages(1)]] transmit_asks [OF assms(1) sendable_addressed [OF sendable_messages(3)]]
  by (auto simp: sendQueryNodeIdentification_def sendQuerySubsystemIdentification_def sendQueryComponentIdentification_def
      sendQueryComponentServices_def sendQueryNodeConfiguration_def sendQuerySubsystemConfiguration_def)

lemma queryComponents_post:
  assumes "nmOk nm" "\<forall>c \<in> set cs. addrSubsystem (cmptAddress c) \<noteq> 255"
  shows "posts nm (queryComponents cs nm)"
  using assms
proof (induction cs arbitrary: nm)
  case (Cons c cs)
  have "asks nm' (sendQueryComponentServices (cmptAddress c) nm')" if "nmOk nm'" for nm' :: "'a LocalComponent_scheme"
    using queries_ask(4) [OF that] Cons.prems(2) by simp
  moreover have "asks nm (sendQueryComponentIdentification (cmptAddress c) nm)" using queries_ask(3) [OF Cons.prems(1), of "cmptAddress c"] Cons.prems(2) by simp
  ultimately show ?case
    using Cons by (auto intro!: asks_bind simp: asks_none sendsD(1))
qed (simp add: posts_none)

lemma queryNodes_post:
  assumes "nmOk nm" "\<forall>n. addrSubsystem (address n) \<noteq> 255"
    "\<forall>n \<in> set ns. \<forall>c \<in> set (nodeComponents n). addrSubsystem (cmptAddress c) \<noteq> 255"
  shows "posts nm (queryNodes address ns nm)"
  using assms
proof (induction ns arbitrary: nm)
  case (Cons n ns)
  have "asks nm (sendQueryNodeIdentification (address n) nm)" using queries_ask(1) [OF Cons.prems(1), of "address n"] Cons.prems(2) by simp
  then show ?case
    using Cons by (auto intro!: asks_bind posts_bind queryComponents_post simp: asks_none sendsD(1))
qed (simp add: posts_none)

section \<open>Events to subscribers\<close>

lemma sendEvents_post:
  assumes "nmOk nm" "event_reportMessage e = Some r" "enclosed 8 r"
  shows "posts nm (sendEvents e subscribers nm)"
  using assms(1)
proof (induction subscribers arbitrary: nm)
  case (Cons ka rest)
  obtain k a where ka: "ka = (k, a)" by fastforce
  let ?e = "e\<lparr>event_eventId := of_nat k, destination := a\<rparr>"
  have r: "event_reportMessage ?e = Some r" using assms(2) by simp
  define tx where "tx = (copyHeader ?e jausMessageCreate)\<lparr>dataSize := event_dataSize ?e, data := Some (event_enc ?e r)\<rparr>"
  have tx: "eventMessageToJausMessage ?e = Some tx" unfolding tx_def by (rule event_toJausMessage [OF r assms(3)])
  have "cloneOk tx" using event_sizes(2) [OF r assms(3)] by (simp add: tx_def cloneOk_iff dataBytes_def)
  then obtain m where m: "jausMessageClone tx = Some m" "cloneOk m" by (rule cloneOk_clone) blast
  let ?nm = "nm\<lparr>router := (router nm)\<lparr>clones := clones (router nm) + 1\<rparr>, created := created nm + 1\<rparr>"
  have "routerOk ((router nm)\<lparr>clones := clones (router nm) + 1\<rparr>) = routerOk (router nm)" by (rule routerOk_same) simp_all
  then have "nmOk ?nm" using Cons.prems by (simp add: nmOk_def)
  from handOver_posts [OF this m(2)] obtain nm1 where nm1: "handOver m ?nm = Some nm1" "balance 1 ?nm nm1" "quiet ?nm nm1"
    "treeOf nm1 = treeOf ?nm" by blast
  let ?nm1 = "nm1\<lparr>router := destroyMessage (Some tx) (router nm1)\<rparr>"
  have "routerOk (destroyMessage (Some tx) (router nm1)) = routerOk (router nm1)" by (rule routerOk_same) (simp_all add: destroyMessage_def)
  then have "sends nm ?nm1"
    using nm1(2-4) by (auto simp: sends_def balance_def quiet_def nmOk_def destroyMessage_def census_def)
  moreover have "posts ?nm1 (sendEvents e rest ?nm1)" by (rule Cons.IH) (rule sendsD(1) [OF calculation])
  ultimately show ?case
    using ka tx m(1) nm1(1) sends_trans by (fastforce simp: cloneMessage_def posts_def)
qed (simp add: posts_none)

text \<open>A well-formed tree has a configuration that a message can carry: the numbers are distinct.\<close>

lemma distinct_u8: "distinct (xs :: u8 list) \<Longrightarrow> length xs \<le> 256"
  using card_mono [of UNIV "set xs"] by (simp add: distinct_card card_word)

lemma distinct_u8_pairs: "distinct (xs :: (u8 \<times> u8) list) \<Longrightarrow> length xs \<le> 65536"
  using card_mono [of UNIV "set xs"] by (simp add: distinct_card card_prod card_word)

lemma length_configurationBytes:
  assumes "length c \<le> 256" "\<forall>x \<in> set c. length (snd x) \<le> 65536"
  shows "length (configurationBytes c) < 2 ^ 26"
proof -
  have "length (concat (map nodeBytes c)) \<le> length c * 131074" using assms(2)
  proof (induction c)
    case (Cons x c)
    then show ?case using add_mono [of "length (nodeBytes x)" 131074] by (simp add: nodeBytes_def length_pairs)
  qed simp
  also have "\<dots> \<le> 256 * 131074" using assms(1) by (intro mult_le_mono1)
  finally show ?thesis by (simp add: configurationBytes_def)
qed

lemma okNode_small:
  assumes "okNode s n"
  shows "length (nodeComponents n) \<le> 65536"
proof -
  let ?g = "\<lambda>c. (addrComponent (cmptAddress c), addrInstance (cmptAddress c))"
  have "inj_on (\<lambda>a. (addrComponent a, addrInstance a)) (cmptAddress ` set (nodeComponents n))"
    using assms by (auto simp: okNode_def inj_on_def intro!: JausAddress.equality) (metis uint_byte_eq)
  then have "distinct (map (\<lambda>a. (addrComponent a, addrInstance a)) (map cmptAddress (nodeComponents n)))"
    using assms by (simp add: okNode_def distinct_map comp_inj_on)
  from distinct_u8_pairs [OF this] show ?thesis by simp
qed

definition fitsReport :: "JausSubsystem \<Rightarrow> bool" where
  "fitsReport subs \<longleftrightarrow> length (configurationBytes (configuration subs)) < 2 ^ 26"

lemma okSubs_fits: "okSubs s subs \<Longrightarrow> fitsReport subs"
  unfolding fitsReport_def
  using distinct_u8 [of "map nodeId (subsNodes subs)"] okNode_small [of s]
  by (intro length_configurationBytes) (auto simp: okSubs_def configuration_def nodeConf_def)

lemma single_node_fits:
  assumes "okNode s n" "subsNodes subs = [n]"
  shows "fitsReport subs"
  unfolding fitsReport_def using okNode_small [OF assms(1)] assms(2)
  by (intro length_configurationBytes) (simp_all add: configuration_def nodeConf_def)

lemma report_enclosed:
  assumes "fitsReport subs"
  shows "\<exists>r. reportConfigurationMessageToJausMessage (configurationReport now subs) = Some r \<and> enclosed 8 r \<and> cloneOk r"
proof -
  let ?m = "configurationReport now subs" and ?bs = "configurationBytes (configuration subs)"
  have sub: "reportConfiguration_subsystem ?m = subs" by (simp add: configurationReport_def)
  have n: "unat (reportConfiguration_dataSize ?m) = length ?bs"
    using assms unfolding fitsReport_def by (simp add: reportConfiguration_size sub unat_of_nat_lt)
  have "reportConfiguration_dataToBuffer ?m (replicate (unat (reportConfiguration_dataSize ?m)) 0) 0 (reportConfiguration_dataSize ?m) =
      Some (length ?bs, ?bs)"
    using reportConfiguration_to [of 0 ?m "replicate (unat (reportConfiguration_dataSize ?m)) 0" "reportConfiguration_dataSize ?m"] n sub by simp
  then show ?thesis
    using n assms unfolding fitsReport_def
    by (simp add: reportConfigurationMessageToJausMessage_def messageToJausMessage_def enclosed_def cloneOk_iff dataBytes_def
        unat_of_nat_lt)
qed

lemma configurationEvents_post:
  assumes "nmOk nm" "fitsReport subs"
  shows "posts nm (sendConfigurationEvents now subs subscribers nm)"
proof -
  obtain r where r: "reportConfigurationMessageToJausMessage (configurationReport now subs) = Some r" "enclosed 8 r"
    using report_enclosed [OF assms(2)] by blast
  then show ?thesis
    using sendEvents_post [OF assms(1) _ r(2), of "eventMessageCreate\<lparr>event_reportMessage := Some r, source := ownAddress nm\<rparr>" subscribers]
    by (simp add: sendConfigurationEvents_def)
qed

lemma okSubs_stamped: "okSubs s subs \<Longrightarrow> okSubs s (stampSubs now subs)"
  by simp

lemma getSubsystem_ok:
  assumes "treeOk t" "0 \<le> s" "s < 255"
  shows "getSubsystem now t s = Some (map_option (stampSubs now) (sub t s))"
  using assms clone_subs [OF okSubs_clonable [OF treeOkD [OF assms(1)]], of s]
  by (auto simp: getSubsystem_def systemAt_sub treeOk_length split: option.split)

lemma getNode_ok:
  assumes "treeOk t" "addrSubsystem a \<noteq> 255"
  shows "\<exists>r. getNode now t (uint (addrSubsystem a)) (uint (addrNode a)) = Some r \<and>
    (nodeKey a \<notin> nodeKeys t \<longrightarrow> r = None) \<and> (nodeKey a \<in> nodeKeys t \<longrightarrow>
      (\<exists>n. r = Some (stampNode now n) \<and> okNode (uint (addrSubsystem a)) n \<and> nodeId n = addrNode a \<and>
        n \<in> set (subsNodes (the (sub t (uint (addrSubsystem a)))))))"
  using assms
proof (cases rule: findNode_node)
  case unknown
  then show ?thesis by (simp add: getNode_def findNodeAddress_def)
next
  case (found i subs)
  have n: "okNode (uint (addrSubsystem a)) (subsNodes subs ! i)"
    by (rule okSubsD [OF treeOkD [OF assms(1) found(2)]]) (simp add: found(3))
  then have "jausNodeClone now (subsNodes subs ! i) = Some (stampNode now (subsNodes subs ! i))"
    by (intro clone_node) (simp add: okNode_def)
  then show ?thesis using found n by (auto simp: getNode_def findNodeAddress_def nodeAt_sub)
qed

lemma nmOk_own:
  assumes "nmOk nm"
  shows "addrSubsystem (ownAddress nm) \<noteq> 255" "uint (addrSubsystem (ownAddress nm)) < 255"
proof -
  have "uint (addrSubsystem (ownAddress nm)) \<le> 254" using assms by (simp add: nmOk_def routerOk_def)
  then show "addrSubsystem (ownAddress nm) \<noteq> 255" "uint (addrSubsystem (ownAddress nm)) < 255" by auto
qed

lemma changedEvents_post:
  assumes "nmOk nm"
  shows "posts nm (sendNodeChangedEvents env nm)" "posts nm (sendSubsystemChangedEvents env nm)"
    "posts nm (sendNodeShutdownEvents env nm)" "posts nm (sendSubsystemShutdownEvents env nm)"
proof -
  note tree = nmOk_tree [OF assms] and own = nmOk_own [OF assms]
  have empty: "subsNodes (reportConfiguration_subsystem (reportConfigurationMessageCreate now)) = []" for now
    by (simp add: reportConfigurationMessageCreate_def reportConfiguration_dataInitialize_def Let_def jausSubsystemCreate_def
        jausSubsystemUpdateTimestamp_def)
  obtain r where r: "getNode (nmClock env) (treeOf nm) (uint (addrSubsystem (ownAddress nm))) (uint (addrNode (ownAddress nm))) = Some r"
      "r = None \<or> (\<exists>n. r = Some n \<and> okNode (uint (addrSubsystem (ownAddress nm))) n)"
    using getNode_ok [OF tree own(1), of "nmClock env"] by fastforce
  show "posts nm (sendNodeChangedEvents env nm)"
    using r posts_none [OF assms] configurationEvents_post [OF assms single_node_fits]
    by (auto simp: sendNodeChangedEvents_def empty Let_def)
  have "fitsReport (stampSubs (nmClock env) subs)" if "sub (treeOf nm) s = Some subs" for s subs
    using okSubs_fits [OF okSubs_stamped [OF treeOkD [OF tree that]]] .
  then show "posts nm (sendSubsystemChangedEvents env nm)"
    using getSubsystem_ok [OF tree _ own(2), of "nmClock env"] posts_none [OF assms] configurationEvents_post [OF assms]
    by (auto simp: sendSubsystemChangedEvents_def split: option.split)
  have "okNode s ((jausNodeCreate (nmClock env))\<lparr>nodeId := i\<rparr>)" for s i
    by (simp add: okNode_def clonableNode_def jausNodeCreate_def jausNodeUpdateTimestamp_def)
  from configurationEvents_post [OF assms single_node_fits [OF this]] show "posts nm (sendNodeShutdownEvents env nm)"
    by (simp add: sendNodeShutdownEvents_def empty Let_def)
  show "posts nm (sendSubsystemShutdownEvents env nm)"
    using configurationEvents_post [OF assms]
    by (simp add: sendSubsystemShutdownEvents_def Let_def fitsReport_def configuration_def configurationBytes_def
        jausSubsystemCreate_def jausSubsystemUpdateTimestamp_def)
qed

section \<open>Changes of the tree\<close>

text \<open>The component's handler, called by the tree, sends only.\<close>

abbreviation (input) since :: "'a LocalComponent_scheme \<Rightarrow> 'a LocalComponent_scheme \<Rightarrow> bool" where
  "since nm w \<equiv> balance 0 nm w \<and> quiet nm w"

lemma handler_keeps: "keeps (since nm) [handleEvent env]"
proof -
  have "\<exists>w'. handleEvent env e t w = Some w' \<and> since nm w'" if "treeOk t" "since nm w" for e t w
  proof -
    have ok: "nmOk (withTree t w)" using that nmOk_withTree [of w t] balance_ok [of 0 nm w] by simp
    have w: "since nm (withTree t w)" using that balance_withTree [of 0 nm w t] by simp
    have step: "since nm w'" if "sends (withTree t w) w'" for w'
      using w that balance_trans [of 0 nm "withTree t w" 0] quiet_trans by (auto simp: sends_def simp del: quiet_withTree)
    have both: "posts (withTree t w) (do { nm1 \<leftarrow> sendSubsystemChangedEvents env (withTree t w); sendNodeChangedEvents env nm1 })"
      by (rule posts_bind [OF changedEvents_post(2) [OF ok]]) (rule changedEvents_post(1), erule sendsD(1))
    show ?thesis
      using both changedEvents_post(2) [OF ok, of env] that(2) step by (cases e) (auto simp: handleEvent_def posts_def)
  qed
  then show ?thesis by (simp add: keeps_def)
qed

definition changes :: "'a LocalComponent_scheme \<Rightarrow> ('b \<times> 'a LocalComponent_scheme) exec \<Rightarrow> bool" where
  "changes nm r \<longleftrightarrow> (\<exists>b nm'. r = Some (b, nm') \<and> since nm nm')"

lemma changeTree_changes:
  assumes "\<exists>b t' w'. operation [handleEvent env] (nmClock env) (treeOf nm) nm = Some (b, t', w') \<and> treeOk t' \<and> since nm w'"
  shows "changes nm (changeTree env operation nm)"
  using assms balance_withTree by (fastforce simp: changeTree_def changes_def)

lemma tree_changes:
  assumes "nmOk nm" "addrSubsystem a \<noteq> 255"
  shows "changes nm (changeTree env (\<lambda>hs now t w. addSubsystem hs now t w (uint (addrSubsystem a)) None) nm)"
    "changes nm (changeTree env (\<lambda>hs now t w. removeSubsystem hs now t w (uint (addrSubsystem a))) nm)"
    "changes nm (changeTree env (\<lambda>hs now t w. addNode hs now t w a None) nm)"
    "changes nm (changeTree env (\<lambda>hs now t w. removeNode hs now t w (uint (addrSubsystem a)) (uint (addrNode a))) nm)"
    "changes nm (changeTree env (\<lambda>hs now t w. addComponent hs now t w a None) nm)"
    "changes nm (changeTree env (\<lambda>hs now t w. removeComponent hs now t w (uint (addrSubsystem a)) (uint (addrNode a))
       (uint (addrComponent a)) (uint (addrInstance a))) nm)"
proof -
  note tree = nmOk_tree [OF assms(1)] and range = proper_range [OF assms(2)] and kept = handler_keeps [of nm env]
  have here: "since nm nm" using assms(1) by simp
  show "changes nm (changeTree env (\<lambda>hs now t w. addSubsystem hs now t w (uint (addrSubsystem a)) None) nm)"
    using addSubsystem_law [OF tree _ range _ kept here, of None "nmClock env"] by (intro changeTree_changes) auto
  show "changes nm (changeTree env (\<lambda>hs now t w. removeSubsystem hs now t w (uint (addrSubsystem a))) nm)"
    using removeSubsystem_law [OF tree _ range kept here, of "nmClock env"] by (intro changeTree_changes) auto
  show "changes nm (changeTree env (\<lambda>hs now t w. addNode hs now t w a None) nm)"
    using addNode_law [OF tree assms(2) _ kept here, of None "nmClock env"] by (intro changeTree_changes) (auto simp: givenNodeOk_def)
  show "changes nm (changeTree env (\<lambda>hs now t w. removeNode hs now t w (uint (addrSubsystem a)) (uint (addrNode a))) nm)"
    using removeNode_law [OF tree _ range kept here, of "nmClock env" "addrNode a"] by (intro changeTree_changes) auto
  show "changes nm (changeTree env (\<lambda>hs now t w. addComponent hs now t w a None) nm)"
    using addComponent_law [OF tree assms(2) _ kept here, of None "nmClock env"] by (intro changeTree_changes) (auto simp: givenOk_def)
  show "changes nm (changeTree env (\<lambda>hs now t w. removeComponent hs now t w (uint (addrSubsystem a)) (uint (addrNode a))
       (uint (addrComponent a)) (uint (addrInstance a))) nm)"
    using removeComponent_law [OF tree assms(2) kept here, of "nmClock env"] by (intro changeTree_changes) auto
qed

lemma setTree_since:
  assumes "nmOk nm" "refines (treeOf nm) (operation (treeOf nm))"
  shows "\<exists>nm'. setTree operation nm = Some nm' \<and> since nm nm'"
  using assms balance_withTree [OF balance_refl [OF assms(1)]] by (auto simp: setTree_def refines_def)

section \<open>Handlers\<close>

definition handles :: "'a LocalComponent_scheme \<Rightarrow> (bool \<times> 'a LocalComponent_scheme) exec \<Rightarrow> bool" where
  "handles nm r \<longleftrightarrow> (\<exists>b nm'. r = Some (b, nm') \<and> balance 1 nm nm' \<and> quiet nm nm')"

lemma since_trans: "since nm nm1 \<Longrightarrow> since nm1 nm2 \<Longrightarrow> since nm nm2"
  using balance_trans [of 0 nm nm1 0 nm2] quiet_trans [of nm nm1 nm2] by simp

lemma since_sends: "sends nm nm1 \<Longrightarrow> since nm nm1"
  by (simp add: sends_def)

lemma since_ok: "since nm nm' \<Longrightarrow> nmOk nm'"
  using balance_ok by blast

lemma finish_balance: "nmOk nm \<Longrightarrow> \<exists>nm'. finishWith b m nm = Some (b, nm') \<and> balance 1 nm nm' \<and> quiet nm nm' \<and> treeOf nm' = treeOf nm"
proof -
  assume ok: "nmOk nm"
  have "routerOk (destroyMessage (Some m) (router nm)) = routerOk (router nm)" by (rule routerOk_same) (simp_all add: destroyMessage_def)
  then show ?thesis
    using ok by (auto simp: finishWith_def balance_def quiet_def nmOk_def destroyMessage_def census_def)
qed

lemma finish_handles: "nmOk nm \<Longrightarrow> handles nm (finishWith b m nm)"
  using finish_balance [of nm b m] by (auto simp: handles_def)

lemma since_handles:
  assumes "since nm nm1" "handles nm1 r"
  shows "handles nm r"
  using assms balance_trans [of 0 nm nm1 1] quiet_trans by (fastforce simp: handles_def)

lemma handles_posts:
  assumes "posts nm r" "\<And>nm'. sends nm nm' \<Longrightarrow> handles nm' (f nm')"
  shows "handles nm (do { nm' \<leftarrow> r; f nm' })"
  using assms since_handles [OF since_sends] by (fastforce simp: posts_def)

lemma handles_asks:
  assumes "asks nm r" "\<And>b nm'. sends nm nm' \<Longrightarrow> handles nm' (f b nm')"
  shows "handles nm (do { (b, nm') \<leftarrow> r; f b nm' })"
  using assms since_handles [OF since_sends] by (fastforce simp: asks_def)

lemma handles_changes:
  assumes "changes nm r" "\<And>b nm'. since nm nm' \<Longrightarrow> handles nm' (f b nm')"
  shows "handles nm (do { (b, nm') \<leftarrow> r; f b nm' })"
  using assms since_handles by (fastforce simp: changes_def)

lemma handles_set:
  assumes "nmOk nm" "refines (treeOf nm) (operation (treeOf nm))" "\<And>nm'. since nm nm' \<Longrightarrow> handles nm' (f nm')"
  shows "handles nm (do { nm' \<leftarrow> setTree operation nm; f nm' })"
  using setTree_since [where operation = operation, OF assms(1,2)] assms(3) since_handles by fastforce

lemma nmError_ok: "nmOk nm \<Longrightarrow> since nm (nmError kind why nm)"
proof -
  assume ok: "nmOk nm"
  have "routerOk (raiseError kind why (router nm)) = routerOk (router nm)" by (rule routerOk_same) (simp_all add: raiseError_def)
  then show ?thesis using ok by (simp add: nmError_def balance_def quiet_def nmOk_def raiseError_def census_def)
qed

lemma error_handles: "nmOk nm \<Longrightarrow> handles nm (finishWith b m (nmError kind why nm))"
  using since_handles [OF nmError_ok finish_handles [OF since_ok [OF nmError_ok]]] by blast

lemma asks_finish: "nmOk nm \<Longrightarrow> asks nm r \<Longrightarrow> handles nm (do { (_, nm1) \<leftarrow> r; finishWith b m nm1 })"
  by (rule handles_asks) (auto intro: finish_handles dest: sendsD(1))

lemma posts_finish: "nmOk nm \<Longrightarrow> posts nm r \<Longrightarrow> handles nm (do { nm1 \<leftarrow> r; finishWith b m nm1 })"
  by (rule handles_posts) (auto intro: finish_handles dest: sendsD(1))

lemma simple_queries_handled:
  assumes "nmOk nm"
  shows "handles nm (processQueryComponentAuthority m nm)" "handles nm (processQueryComponentStatus m nm)"
    "handles nm (processQueryHeartbeatPulse m nm)"
  unfolding processQueryComponentAuthority_def processQueryComponentStatus_def processQueryHeartbeatPulse_def
  by (intro posts_finish transmit_posts assms sendable_messages)+

subsection \<open>Heartbeats\<close>

lemma of_tree_proper:
  assumes "treeOk t" "sub t s = Some subs" "s < 255" "n \<in> set (subsNodes subs)" "c \<in> set (nodeComponents n)"
  shows "addrSubsystem (cmptAddress c) \<noteq> 255"
  using okSubsD [OF treeOkD [OF assms(1,2)] assms(4)] assms(3,5) by (auto simp: okNode_def)

lemma heartbeats_handled:
  assumes "nmOk nm" "addrSubsystem (source m) \<noteq> 255"
  shows "handles nm (foreignHeartbeat env m nm)" "nodeKey (source m) \<in> nodeKeys (treeOf nm) \<Longrightarrow> handles nm (neighbourHeartbeat env m nm)"
    "handles nm (componentHeartbeat env m nm)"
proof -
  let ?src = "source m"
  note tree = nmOk_tree [OF assms(1)] and range = proper_range [OF assms(2)]
  note has = has_total [OF tree assms(2)]
  show "handles nm (foreignHeartbeat env m nm)"
  proof (cases "hasSubsystemConfiguration (treeOf nm) ?src = Some False")
    case True
    then show ?thesis
      using asks_finish [OF assms(1) queries_ask(6) [OF assms]] by (simp add: foreignHeartbeat_def Let_def)
  next
    case False
    have "posts nm (queryNodes (\<lambda>node. nodeManagerAt (addrSubsystem ?src) (nodeId node)) (subsNodes (stampSubs (nmClock env) subs)) nm)"
      if "sub (treeOf nm) (uint (addrSubsystem ?src)) = Some subs" for subs
      using of_tree_proper [OF tree that range] assms(2)
      by (intro queryNodes_post assms(1)) (auto simp: nodeManagerAt_def stampSubs_def stampNode_def jausComponentUpdateTimestamp_def)
    then show ?thesis
      using False has(5) getSubsystem_ok [OF tree _ range, of "nmClock env"] posts_finish [OF assms(1)] finish_handles [OF assms(1)]
      by (auto simp: foreignHeartbeat_def Let_def split: option.split)
  qed
  show "handles nm (neighbourHeartbeat env m nm)" if key: "nodeKey ?src \<in> nodeKeys (treeOf nm)"
  proof (cases "hasNodeConfiguration (treeOf nm) ?src = Some False")
    case True
    have "addrSubsystem (nodeManagerAt (addrSubsystem ?src) (addrNode ?src)) \<noteq> 255" using assms(2) by (simp add: nodeManagerAt_def)
    then show ?thesis
      using True asks_finish [OF assms(1) queries_ask(5) [OF assms(1)]] by (simp add: neighbourHeartbeat_def Let_def)
  next
    case False
    obtain n where n: "getNode (nmClock env) (treeOf nm) (uint (addrSubsystem ?src)) (uint (addrNode ?src)) = Some (Some (stampNode (nmClock env) n))"
        "okNode (uint (addrSubsystem ?src)) n"
      using getNode_ok [OF tree assms(2), of "nmClock env"] key by auto
    have "posts nm (queryComponents (nodeComponents (stampNode (nmClock env) n)) nm)"
      using n(2) range by (intro queryComponents_post assms(1)) (auto simp: okNode_def stampNode_def jausComponentUpdateTimestamp_def)
    then show ?thesis using False has(7) n(1) posts_finish [OF assms(1)] by (auto simp: neighbourHeartbeat_def Let_def)
  qed
  have rest: "handles nm1 (do { ident \<leftarrow> hasComponentIdentification (treeOf nm1) ?src;
          (_, nm2) \<leftarrow> (if \<not> ident then sendQueryComponentIdentification ?src nm1 else Some (False, nm1));
          served \<leftarrow> hasComponentServices (treeOf nm2) ?src;
          (_, nm3) \<leftarrow> (if \<not> served then sendQueryComponentServices ?src nm2 else Some (False, nm2));
          finishWith True m nm3 })" if ok: "nmOk nm1" for nm1 :: "'a LocalComponent_scheme"
  proof -
    have second: "handles nm2 (do { served \<leftarrow> hasComponentServices (treeOf nm2) ?src;
          (_, nm3) \<leftarrow> (if \<not> served then sendQueryComponentServices ?src nm2 else Some (False, nm2));
          finishWith True m nm3 })" if "nmOk nm2" for nm2 :: "'a LocalComponent_scheme"
      using has_total(9) [OF nmOk_tree [OF that] assms(2)] asks_finish [OF that queries_ask(4) [OF that assms(2)]] finish_handles [OF that]
      by auto
    obtain ident where ident: "hasComponentIdentification (treeOf nm1) ?src = Some ident"
      using has_total(8) [OF nmOk_tree [OF ok] assms(2)] by blast
    have "asks nm1 (if \<not> ident then sendQueryComponentIdentification ?src nm1 else Some (False, nm1))"
      using queries_ask(3) [OF ok assms(2)] asks_none [OF ok, of False] by simp
    then show ?thesis unfolding ident bind.bind_lunit
      by (rule handles_asks) (rule second, erule sendsD(1))
  qed
  show "handles nm (componentHeartbeat env m nm)"
  proof (cases "hasComponent (treeOf nm) ?src = Some False")
    case True
    obtain b nm1 where nm1: "changeTree env (\<lambda>hs now t w. addComponent hs now t w ?src None) nm = Some (b, nm1)" "since nm nm1"
      using tree_changes(5) [OF assms, of env] by (auto simp: changes_def)
    from since_handles [OF nm1(2) rest [OF since_ok [OF nm1(2)]]] show ?thesis
      using True nm1(1) by (simp add: componentHeartbeat_def Let_def)
  next
    case False
    have "refines (treeOf nm) (updateComponentTimestamp (nmClock env) (treeOf nm) ?src)" by (rule timestamps_refine [OF tree assms(2)])
    from setTree_since [where operation = "\<lambda>t. updateComponentTimestamp (nmClock env) t ?src", OF assms(1) this]
    obtain nm1 where nm1: "setTree (\<lambda>t. updateComponentTimestamp (nmClock env) t ?src) nm = Some nm1" "since nm nm1" by blast
    from since_handles [OF nm1(2) rest [OF since_ok [OF nm1(2)]]] show ?thesis
      using False has(3) nm1(1) by (auto simp: componentHeartbeat_def Let_def)
  qed
qed

lemma setTree_ok:
  assumes "nmOk nm" "refines (treeOf nm) (operation (treeOf nm))"
  obtains nm' where "setTree operation nm = Some nm'" "since nm nm'" "known (treeOf nm') = known (treeOf nm)"
  using assms balance_withTree [OF balance_refl [OF assms(1)]] by (auto simp: setTree_def refines_def)

lemma processReportHeartbeatPulse_handled:
  assumes "nmOk nm" "addrSubsystem (source m) \<noteq> 255"
  shows "handles nm (processReportHeartbeatPulse env m nm)"
proof -
  let ?src = "source m"
  have manager: "addrSubsystem (nodeManagerAt (addrSubsystem ?src) (addrNode ?src)) \<noteq> 255" using assms(2) by (simp add: nodeManagerAt_def)
  have node: "handles nm2 (do { (_, nm3) \<leftarrow> sendQueryNodeIdentification (nodeManagerAt (addrSubsystem ?src) (addrNode ?src)) nm2;
      finishWith True m nm3 })" if "nmOk nm2" for nm2 :: "'a LocalComponent_scheme"
    by (rule asks_finish [OF that queries_ask(1) [OF that manager]])
  have subs: "handles nm2 (do { (_, nm3) \<leftarrow> sendQuerySubsystemIdentification ?src nm2; finishWith True m nm3 })"
    if "nmOk nm2" for nm2 :: "'a LocalComponent_scheme"
    by (rule asks_finish [OF that queries_ask(2) [OF that assms(2)]])
  show ?thesis
  proof (cases "hasSubsystem (treeOf nm) ?src = Some False")
    case True
    have "handles nm (do { (_, nm1) \<leftarrow> changeTree env (\<lambda>hs now t w. addSubsystem hs now t w (uint (addrSubsystem ?src)) None) nm;
        (_, nm2) \<leftarrow> sendQuerySubsystemIdentification ?src nm1; finishWith True m nm2 })"
      by (rule handles_changes [OF tree_changes(1) [OF assms]]) (rule subs, erule since_ok)
    then show ?thesis using True by (simp add: processReportHeartbeatPulse_def Let_def)
  next
    case False
    then have known: "hasSubsystem (treeOf nm) ?src = Some True" using has_total(1) [OF nmOk_tree [OF assms(1)] assms(2)] by auto
    obtain nm1 where nm1: "setTree (\<lambda>t. updateSubsystemTimestamp (nmClock env) t ?src) nm = Some nm1" "since nm nm1"
      using setTree_ok [where operation = "\<lambda>t. updateSubsystemTimestamp (nmClock env) t ?src", OF assms(1)]
        timestamps_refine(1) [OF nmOk_tree [OF assms(1)] assms(2)] by blast
    note ok1 = since_ok [OF nm1(2)]
    obtain ident where ident: "hasSubsystemIdentification (treeOf nm1) ?src = Some ident"
      using has_total(4) [OF nmOk_tree [OF ok1] assms(2)] by blast
    have own: "handles nm1 (do {
              present \<leftarrow> hasNode (treeOf nm1) ?src;
              if \<not> present
              then do { (_, nm2) \<leftarrow> changeTree env (\<lambda>hs now t w. addNode hs now t w ?src None) nm1;
                        (_, nm3) \<leftarrow> sendQueryNodeIdentification (nodeManagerAt (addrSubsystem ?src) (addrNode ?src)) nm2;
                        finishWith True m nm3 }
              else do {
                nm2 \<leftarrow> setTree (\<lambda>t. updateNodeTimestamp (nmClock env) t ?src) nm1;
                named \<leftarrow> hasNodeIdentification (treeOf nm2) ?src;
                if \<not> named
                then do { (_, nm3) \<leftarrow> sendQueryNodeIdentification (nodeManagerAt (addrSubsystem ?src) (addrNode ?src)) nm2;
                          finishWith True m nm3 }
                else if addrNode ?src \<noteq> addrNode (ownAddress nm2) then neighbourHeartbeat env m nm2
                else componentHeartbeat env m nm2 } })"
    proof (cases "nodeKey ?src \<in> nodeKeys (treeOf nm1)")
      case False
      have "handles nm1 (do { (_, nm2) \<leftarrow> changeTree env (\<lambda>hs now t w. addNode hs now t w ?src None) nm1;
          (_, nm3) \<leftarrow> sendQueryNodeIdentification (nodeManagerAt (addrSubsystem ?src) (addrNode ?src)) nm2; finishWith True m nm3 })"
        by (rule handles_changes [OF tree_changes(3) [OF ok1 assms(2)]]) (rule node, erule since_ok)
      then show ?thesis
        using False has_keys(2) [OF nmOk_tree [OF ok1] assms(2)] by simp
    next
      case True
      obtain nm2 where nm2: "setTree (\<lambda>t. updateNodeTimestamp (nmClock env) t ?src) nm1 = Some nm2" "since nm1 nm2"
          "known (treeOf nm2) = known (treeOf nm1)"
        using setTree_ok [where operation = "\<lambda>t. updateNodeTimestamp (nmClock env) t ?src", OF ok1]
          timestamps_refine(2) [OF nmOk_tree [OF ok1] assms(2)] by blast
      note ok2 = since_ok [OF nm2(2)]
      have key: "nodeKey ?src \<in> nodeKeys (treeOf nm2)" using True nm2(3) by (simp add: known_def)
      obtain named where "hasNodeIdentification (treeOf nm2) ?src = Some named"
        using has_total(6) [OF nmOk_tree [OF ok2] assms(2)] by blast
      then show ?thesis
        using True has_keys(2) [OF nmOk_tree [OF ok1] assms(2)] nm2(1) node [OF ok2] heartbeats_handled(2) [OF ok2 assms(2) key]
          heartbeats_handled(3) [OF ok2 assms(2)] since_handles [OF nm2(2)]
        by simp
    qed
    from since_handles [OF nm1(2)] show ?thesis
      using known nm1(1) ident subs [OF ok1] heartbeats_handled(1) [OF ok1 assms(2)] own
      by (simp add: processReportHeartbeatPulse_def Let_def)
  qed
qed

subsection \<open>Unpacking\<close>

lemma safeR_when:
  assumes "\<And>i m. g (i, m) \<noteq> None" "safeR I n cs"
  shows "safeR I n [whenS g cs]"
  unfolding safeR_def runStmts_single
proof (intro allI impI)
  fix i m assume im: "i \<le> unat n" "I m"
  obtain b where "g (i, m) = Some b" using assms(1) by blast
  then show "case whenS g cs (i, m) of Fault \<Rightarrow> False | Return (j, m') \<Rightarrow> I m' | Next (j, m') \<Rightarrow> j \<le> unat n \<and> I m'"
    using assms(2) im by (cases b) (auto simp: whenS_def safeR_def)
qed

lemma safeR_identification:
  assumes "off + unat n \<le> length buf"
  shows "safeR (\<lambda>m. length (reportIdentification_identification m) = 80 \<and> source m = src) n [getIdentification buf off n]"
  unfolding safeR_def runStmts_single
proof (intro allI impI)
  fix i and m :: ReportIdentificationMessage
  assume i: "i \<le> unat n" and m: "length (reportIdentification_identification m) = 80 \<and> source m = src"
  have "unat (of_nat i :: u32) = i" using i u32_bound [of n] by (intro unat_of_nat_lt) simp
  then have n: "unat (n - of_nat i) = unat n - i" using i by (simp add: unat_sub_if' word_le_nat_alt)
  let ?k = "min (unat n - i) 80"
  have "memRead buf (off + i) ?k = Some (take ?k (drop (off + i) buf))" using assms i by (simp add: memRead_def)
  then show "case getIdentification buf off n (i, m) of Fault \<Rightarrow> False
      | Return (j, m') \<Rightarrow> length (reportIdentification_identification m') = 80 \<and> source m' = src
      | Next (j, m') \<Rightarrow> j \<le> unat n \<and> length (reportIdentification_identification m') = 80 \<and> source m' = src"
    using i m assms by (auto simp: getIdentification_def Let_def n memWrite_def min_def split: if_splits)
qed

lemma identification_unpacked:
  assumes "cloneOk m" "length (reportIdentification_identification junk) = 80"
  shows "\<exists>r. reportIdentificationMessageFromJausMessage junk m = Some r \<and> (\<forall>x. r = Some x \<longrightarrow> source x = source m)"
proof -
  have len: "0 + unat (dataSize m) \<le> length (dataBytes m)" using assms(1) by (simp add: cloneOk_iff)
  let ?I = "\<lambda>x. length (reportIdentification_identification x) = 80 \<and> source x = source m"
  let ?b = "dataBytes m" and ?n = "dataSize m"
  have "safeR ?I ?n
        [getByte (\<lambda>v m. m\<lparr>reportIdentification_queryType := v\<rparr>) ?b 0 ?n,
         getByte (\<lambda>v m. m\<lparr>reportIdentification_authority := v\<rparr>) ?b 0 ?n,
         getUShort (\<lambda>v m. m\<lparr>reportIdentification_type := v\<rparr>) ?b 0 ?n,
         getIdentification ?b 0 ?n]"
    by (rule safeR_all, unfold safeR_list, intro safeR_intros safeR_identification len) simp_all
  from safeR_finish [OF this, of "copyHeader m junk"]
  have "\<exists>ok x. reportIdentification_dataFromBuffer (copyHeader m junk) ?b 0 ?n = Some (ok, x) \<and> source x = source m"
    using assms(2) by (auto simp: reportIdentification_dataFromBuffer_def copyHeader_def simp del: runStmts.simps)
  then show ?thesis
    by (auto simp: reportIdentificationMessageFromJausMessage_def messageFromJausMessage_def)
qed

lemma configuration_unpacked:
  assumes "cloneOk m"
  shows "\<exists>r. reportConfigurationMessageFromJausMessage now junk m = Some r \<and> (\<forall>x. r = Some x \<longrightarrow> source x = source m)"
proof -
  have len: "0 + unat (dataSize m) \<le> length (dataBytes m)" using assms by (simp add: cloneOk_iff)
  from configuration_parse_safe [OF len, of now "copyHeader m junk"] obtain ok x where
    x: "reportConfiguration_dataFromBuffer now (copyHeader m junk) (dataBytes m) 0 (dataSize m) = Some (ok, x)" by blast
  have "source x = source m"
    using x by (auto simp: reportConfiguration_dataFromBuffer_def Let_def simp del: runStmts.simps split: prod.splits)
  then show ?thesis
    using x by (auto simp: reportConfigurationMessageFromJausMessage_def messageFromJausMessage_def)
qed

lemma services_unpacked:
  assumes "cloneOk m"
  shows "\<exists>r. reportServicesMessageFromJausMessage junk m = Some r \<and> (\<forall>x. r = Some x \<longrightarrow> source x = source m)"
proof -
  have len: "0 + unat (dataSize m) \<le> length (dataBytes m)" using assms by (simp add: cloneOk_iff)
  from dataFromBuffer_safe(9) [OF len, of "copyHeader m junk"] obtain ok x where
    x: "reportServices_dataFromBuffer (copyHeader m junk) (dataBytes m) 0 (dataSize m) = Some (ok, x)" by auto
  have "source x = source m"
    using x by (auto simp: reportServices_dataFromBuffer_def Let_def simp del: runStmts.simps split: prod.splits if_splits)
  then show ?thesis
    using x by (auto simp: reportServicesMessageFromJausMessage_def messageFromJausMessage_def)
qed

lemma getReportMessage_safe:
  assumes "off + unat n \<le> length buf"
  shows "safeR (\<lambda>m. True) n [getReportMessage buf off n]"
  unfolding safeR_def runStmts_single
proof (intro allI impI)
  fix i and m :: "EventMessage \<times> u16"
  assume i: "i \<le> unat n"
  obtain e code where m: "m = (e, code)" by fastforce
  have k: "unat (n - of_nat k) = unat n - k" if "k \<le> unat n" for k
  proof -
    have "unat (of_nat k :: u32) = k" using that u32_bound [of n] by (intro unat_of_nat_lt) simp
    then show ?thesis using that by (simp add: unat_sub_if' word_le_nat_alt)
  qed
  show "case getReportMessage buf off n (i, m) of Fault \<Rightarrow> False | Return (j, m') \<Rightarrow> True | Next (j, m') \<Rightarrow> j \<le> unat n \<and> True"
  proof (cases "unat n - i < 4")
    case True
    then show ?thesis using i by (simp add: getReportMessage_def m uinteger.from_spec k)
  next
    case False
    then have rd: "memRead buf (off + i) 4 = Some (take 4 (drop (off + i) buf))" "i + 4 \<le> unat n"
      using assms i by (simp_all add: memRead_def)
    have "memRead buf (off + i + 4) b = Some (take b (drop (off + i + 4) buf))" if "b \<le> unat n - (i + 4)" for b
      using assms rd(2) that by (simp add: memRead_def)
    then show ?thesis
      using False i rd k [OF rd(2)] by (auto simp: getReportMessage_def m uinteger.from_spec k Let_def word_less_nat_alt not_less)
  qed
qed

lemma unpack_total:
  assumes "cloneOk m"
  shows "\<exists>r. queryConfigurationMessageFromJausMessage j1 m = Some r" "\<exists>r. queryIdentificationMessageFromJausMessage j2 m = Some r"
    "\<exists>r. queryServicesMessageFromJausMessage j3 m = Some r" "\<exists>r. requestComponentControlMessageFromJausMessage j4 m = Some r"
    "\<exists>r. cancelEventMessageFromJausMessage j5 m = Some r" "\<exists>r. eventMessageFromJausMessage j6 m = Some r"
proof -
  have len: "0 + unat (dataSize m) \<le> length (dataBytes m)" using assms by (simp add: cloneOk_iff)
  have field: "queryConfiguration_dataFromBuffer h1 (dataBytes m) 0 (dataSize m) \<noteq> None"
    "queryIdentification_dataFromBuffer h2 (dataBytes m) 0 (dataSize m) \<noteq> None" for h1 h2
    unfolding queryConfiguration_dataFromBuffer_def queryIdentification_dataFromBuffer_def
    by (rule guarded_finish [where n = "dataSize m"], rule safeR_all, unfold safeR_list, intro safeR_intros len)+
  have cancel: "cancelEvent_dataFromBuffer h (dataBytes m) 0 (dataSize m) \<noteq> None" for h
    unfolding cancelEvent_dataFromBuffer_def
    by (rule guarded_finish [where n = "dataSize m"], rule safeR_all, unfold safeR_list,
        intro safeR_intros safeR_when safeR_Cons safeR_Nil len) (simp_all add: byteIsBitSet)
  have "safeR (\<lambda>m. True) (dataSize m) [getByte (\<lambda>v (m, code). (m\<lparr>event_eventId := v\<rparr>, code)) (dataBytes m) 0 (dataSize m),
      getUShort (\<lambda>v (m, code). (m, v)) (dataBytes m) 0 (dataSize m),
      getByte (\<lambda>v (m, code). (m\<lparr>event_eventSequenceNumber := v\<rparr>, code)) (dataBytes m) 0 (dataSize m),
      getReportMessage (dataBytes m) 0 (dataSize m)]"
    by (rule safeR_all, unfold safeR_list, intro safeR_intros getReportMessage_safe len)
  from safeR_finish [OF this] have event: "event_dataFromBuffer h (dataBytes m) 0 (dataSize m) \<noteq> None" for h
    by (fastforce simp: event_dataFromBuffer_def simp del: runStmts.simps)
  show "\<exists>r. queryConfigurationMessageFromJausMessage j1 m = Some r" "\<exists>r. queryIdentificationMessageFromJausMessage j2 m = Some r"
    "\<exists>r. queryServicesMessageFromJausMessage j3 m = Some r" "\<exists>r. requestComponentControlMessageFromJausMessage j4 m = Some r"
    "\<exists>r. cancelEventMessageFromJausMessage j5 m = Some r" "\<exists>r. eventMessageFromJausMessage j6 m = Some r"
    unfolding queryConfigurationMessageFromJausMessage_def queryIdentificationMessageFromJausMessage_def
      queryServicesMessageFromJausMessage_def requestComponentControlMessageFromJausMessage_def cancelEventMessageFromJausMessage_def
      eventMessageFromJausMessage_def not_None_eq [symmetric]
    by (intro fromJausMessage_safe field cancel event dataFromBuffer_safe [OF len])+
qed

subsection \<open>Reports\<close>

text \<open>What a subsystem or a node may report of itself: its own number, and every number once.\<close>

definition reportedOk :: "int \<Rightarrow> JausSubsystem \<Rightarrow> bool" where
  "reportedOk s subs \<longleftrightarrow> okSubs s subs \<and> (\<forall>n \<in> set (subsNodes subs). nodeParent n = Some s)"

definition configurationAccepted :: "'a LocalComponent_scheme \<Rightarrow> JausAddress \<Rightarrow> JausSubsystem \<Rightarrow> bool" where
  "configurationAccepted nm src subs \<longleftrightarrow>
     (if addrSubsystem src \<noteq> addrSubsystem (ownAddress nm)
      then subsNodes subs = [] \<or> reportedOk (uint (addrSubsystem src)) subs
      else (case subsNodes subs of
              [] \<Rightarrow> False
            | n # _ \<Rightarrow> nodeComponents n = [] \<or> okNode (uint (addrSubsystem src)) n \<and> nodeId n = addrNode src))"

lemma foreignConfiguration_handled:
  assumes "nmOk nm" "addrSubsystem src \<noteq> 255" "uint (addrSubsystem src) \<in> subsKeys (treeOf nm)"
    "subsNodes subs = [] \<or> reportedOk (uint (addrSubsystem src)) subs"
  shows "handles nm (foreignConfiguration env src subs m nm)"
proof (cases "subsNodes subs = []")
  case True
  have "handles nm (do { (_, nm1) \<leftarrow> changeTree env (\<lambda>hs now t w. removeSubsystem hs now t w (uint (addrSubsystem src))) nm;
      finishWith True m nm1 })"
    by (rule handles_changes [OF tree_changes(2) [OF assms(1,2)]]) (rule finish_handles, erule since_ok)
  then show ?thesis using True by (simp add: foreignConfiguration_def Let_def)
next
  case False
  let ?s = "uint (addrSubsystem src)"
  note tree = nmOk_tree [OF assms(1)] and range = proper_range [OF assms(2)]
  obtain old where "sub (treeOf nm) ?s = Some old" using assms(3) by (auto simp: subsKeys_def)
  from replaceSubsystem_law [OF tree _ range this, of subs "[handleEvent env]" "nmClock env" nm] False assms(4)
  obtain t new where t: "replaceSubsystem [handleEvent env] (nmClock env) (treeOf nm) nm ?s subs = Some (True, t, nm)" "treeOk t"
      "sub t = (sub (treeOf nm))(?s \<mapsto> new)"
    by (auto simp: reportedOk_def)
  let ?nm = "withTree t nm"
  have ok: "nmOk ?nm" by (rule nmOk_withTree [OF assms(1) t(2)])
  have here: "since nm ?nm" using balance_withTree [OF balance_refl [OF assms(1)] t(2)] by simp
  have new: "sub t ?s = Some new" using t(3) by simp
  have "posts ?nm (queryNodes (\<lambda>_. nodeManagerAt (addrSubsystem src) (addrNode src)) (subsNodes (stampSubs (nmClock env) new)) ?nm)"
    using of_tree_proper [OF t(2) new range] assms(2)
    by (intro queryNodes_post ok) (auto simp: nodeManagerAt_def stampSubs_def stampNode_def jausComponentUpdateTimestamp_def)
  from since_handles [OF here posts_finish [OF ok this]] show ?thesis
    using False t(1) getSubsystem_ok [OF t(2) _ range, of "nmClock env"] new
    by (simp add: foreignConfiguration_def Let_def changeTree_def)
qed

lemma nodeConfiguration_handled:
  assumes "nmOk nm" "addrSubsystem src \<noteq> 255" "nodeKey src \<in> nodeKeys (treeOf nm)" "subsNodes subs = n # others"
    "nodeComponents n = [] \<or> okNode (uint (addrSubsystem src)) n \<and> nodeId n = addrNode src"
  shows "handles nm (nodeConfiguration env src subs m nm)"
proof -
  let ?w = "nmError Warning ''Node-level Report Conf with more than 1 node included. Ignoring other nodes.'' nm"
  define nm0 where "nm0 = (if others \<noteq> [] then ?w else nm)"
  have here: "since nm nm0" using nmError_ok [OF assms(1)] assms(1) by (simp add: nm0_def)
  have same: "treeOf nm0 = treeOf nm" by (simp add: nm0_def nmError_def raiseError_def)
  note ok = since_ok [OF here]
  show ?thesis
  proof (cases "nodeComponents n = []")
    case True
    have "handles nm0 (do { (_, nm1) \<leftarrow> changeTree env (\<lambda>hs now t w. removeNode hs now t w (uint (addrSubsystem src)) (uint (addrNode src))) nm0;
        finishWith True m nm1 })"
      by (rule handles_changes [OF tree_changes(4) [OF ok assms(2)]]) (rule finish_handles, erule since_ok)
    from since_handles [OF here this] show ?thesis
      using True assms(4) by (simp add: nodeConfiguration_def nm0_def Let_def)
  next
    case False
    then have n: "okNode (uint (addrSubsystem src)) n" "nodeId n = addrNode src" using assms(5) by auto
    from replaceNode_law [OF nmOk_tree [OF ok] assms(2) _ n, of "[handleEvent env]" "nmClock env" nm0] assms(3) same
    obtain t where t: "replaceNode [handleEvent env] (nmClock env) (treeOf nm0) nm0 src n = Some (True, t, nm0)" "treeOk t" by auto
    let ?nm = "withTree t nm0"
    have ok1: "nmOk ?nm" by (rule nmOk_withTree [OF ok t(2)])
    have here1: "since nm0 ?nm" using balance_withTree [OF balance_refl [OF ok] t(2)] by simp
    have "\<forall>c \<in> set (nodeComponents n). addrSubsystem (cmptAddress c) \<noteq> 255"
      using n(1) proper_range [OF assms(2)] by (auto simp: okNode_def)
    then have "posts ?nm (queryComponents (nodeComponents n) ?nm)" by (rule queryComponents_post [OF ok1])
    then have "handles ?nm (do { nm2 \<leftarrow> queryComponents (nodeComponents n) ?nm; nm3 \<leftarrow> sendSubsystemChangedEvents env nm2; finishWith True m nm3 })"
      by (rule handles_posts) (intro posts_finish changedEvents_post; erule sendsD(1))
    from since_handles [OF here since_handles [OF here1 this]] show ?thesis
      using False t(1) assms(4) by (simp add: nodeConfiguration_def nm0_def Let_def changeTree_def)
  qed
qed

lemma processReportConfiguration_handled:
  assumes "nmOk nm" "cloneOk m" "addrSubsystem (source m) \<noteq> 255"
    "\<And>r. reportConfigurationMessageFromJausMessage (nmClock env) (junkNmReportConf env) m = Some (Some r) \<Longrightarrow>
       configurationAccepted nm (source m) (reportConfiguration_subsystem r)"
  shows "handles nm (processReportConfiguration env m nm)"
proof -
  obtain r where r: "reportConfigurationMessageFromJausMessage (nmClock env) (junkNmReportConf env) m = Some r"
      "\<forall>x. r = Some x \<longrightarrow> source x = source m"
    using configuration_unpacked [OF assms(2)] by blast
  show ?thesis
  proof (cases r)
    case None
    then show ?thesis using r error_handles [OF assms(1)] by (simp add: processReportConfiguration_def)
  next
    case (Some x)
    have acc: "configurationAccepted nm (source m) (reportConfiguration_subsystem x)" using assms(4) r(1) Some by simp
    note keys = has_keys(2,3) [OF nmOk_tree [OF assms(1)] assms(3)]
    show ?thesis
    proof (cases "addrSubsystem (source m) = addrSubsystem (ownAddress nm)")
      case True
      then obtain n others where "subsNodes (reportConfiguration_subsystem x) = n # others"
          "nodeComponents n = [] \<or> okNode (uint (addrSubsystem (source m))) n \<and> nodeId n = addrNode (source m)"
        using acc by (auto simp: configurationAccepted_def split: list.splits)
      from nodeConfiguration_handled [OF assms(1,3) _ this] show ?thesis
        using True r Some keys error_handles [OF assms(1)] by (simp add: processReportConfiguration_def Let_def)
    next
      case False
      then have "subsNodes (reportConfiguration_subsystem x) = [] \<or> reportedOk (uint (addrSubsystem (source m))) (reportConfiguration_subsystem x)"
        using acc by (simp add: configurationAccepted_def)
      from foreignConfiguration_handled [OF assms(1,3) _ this] show ?thesis
        using False r Some keys error_handles [OF assms(1)] by (simp add: processReportConfiguration_def Let_def)
    qed
  qed
qed

lemma processReportIdentification_handled:
  assumes "nmOk nm" "cloneOk m" "addrSubsystem (source m) \<noteq> 255" "length (reportIdentification_identification (junkNmReportId env)) = 80"
    "\<And>r. reportIdentificationMessageFromJausMessage (junkNmReportId env) m = Some (Some r) \<Longrightarrow>
       strlen (reportIdentification_identification r) \<noteq> None"
  shows "handles nm (processReportIdentification env m nm)"
proof -
  obtain r where r: "reportIdentificationMessageFromJausMessage (junkNmReportId env) m = Some r" "\<forall>x. r = Some x \<longrightarrow> source x = source m"
    using identification_unpacked [OF assms(2,4)] by blast
  note tree = nmOk_tree [OF assms(1)]
  show ?thesis
  proof (cases r)
    case None
    then show ?thesis using r finish_handles [OF assms(1)] by (simp add: processReportIdentification_def)
  next
    case (Some x)
    obtain str where str: "cString (reportIdentification_identification x) = Some str"
      using assms(5) r(1) Some by (auto simp: cString_def)
    note keys = has_keys [OF tree assms(3)] and fin = finish_handles [OF assms(1)]
    have "handles nm (do { nm1 \<leftarrow> setTree (\<lambda>t. setSubsystemIdentification t (source m) str) nm;
        (_, nm2) \<leftarrow> sendQuerySubsystemConfiguration (source m) True nm1; finishWith True m nm2 })"
      using identifications_refine(1) [OF tree assms(3)]
      by (rule handles_set [OF assms(1)]) (intro asks_finish queries_ask assms(3); erule since_ok)
    moreover have "handles nm (do { nm1 \<leftarrow> setTree (\<lambda>t. setNodeIdentification t (source m) str) nm;
        (_, nm2) \<leftarrow> sendQueryNodeConfiguration (source m) True nm1; finishWith True m nm2 })"
      using identifications_refine(2) [OF tree assms(3)]
      by (rule handles_set [OF assms(1)]) (intro asks_finish queries_ask assms(3); erule since_ok)
    moreover have "handles nm (do { nm1 \<leftarrow> setTree (\<lambda>t. setComponentIdentification t (source m) str) nm; finishWith True m nm1 })"
      using identifications_refine(3) [OF tree assms(3)]
      by (rule handles_set [OF assms(1)]) (intro finish_handles; erule since_ok)
    ultimately show ?thesis
      using r Some str keys fin by (simp add: processReportIdentification_def Let_def)
  qed
qed

lemma processReportServices_handled:
  assumes "nmOk nm" "cloneOk m" "addrSubsystem (source m) \<noteq> 255"
    "\<And>r. reportServicesMessageFromJausMessage (junkNmReportServices env) m = Some (Some r) \<Longrightarrow>
       (\<forall>s \<in> set (reportServices_jausServices r). serviceOk s) \<and> distinct (map serviceType (reportServices_jausServices r))"
  shows "handles nm (processReportServices env m nm)"
proof -
  obtain r where r: "reportServicesMessageFromJausMessage (junkNmReportServices env) m = Some r" "\<forall>x. r = Some x \<longrightarrow> source x = source m"
    using services_unpacked [OF assms(2)] by blast
  note tree = nmOk_tree [OF assms(1)]
  show ?thesis
  proof (cases r)
    case None
    then show ?thesis using r finish_handles [OF assms(1)] by (simp add: processReportServices_def)
  next
    case (Some x)
    have "refines (treeOf nm) (setComponentServices (treeOf nm) (source m) (reportServices_jausServices x))"
      using assms(4) r(1) Some by (intro services_refine tree assms(3)) auto
    then have "handles nm (do { nm1 \<leftarrow> setTree (\<lambda>t. setComponentServices t (source m) (reportServices_jausServices x)) nm; finishWith True m nm1 })"
      by (rule handles_set [OF assms(1)]) (intro finish_handles; erule since_ok)
    then show ?thesis
      using r Some has_keys(1) [OF tree assms(3)] finish_handles [OF assms(1)] by (simp add: processReportServices_def)
  qed
qed

end
