(* ===== verification/NodeManagerLaws.thy ===== *)
theory NodeManagerLaws
  imports NodeManagerSafety "HOL-Library.Multiset"
begin

text \<open>
  What the node manager's component does with a message, whatever the message is: the invariants of its state,
  the account of messages, the subscriptions and the events that go to the subscribers.
\<close>

section \<open>The component's own state\<close>

text \<open>The numbers in use are those of the entries of the two lists, and no number is used twice.\<close>

definition subscriptions :: "'a LocalComponent_scheme \<Rightarrow> (nat \<times> JausAddress) list" where
  "subscriptions nm = subsystemChangeList nm @ nodeChangeList nm"

definition subscriptionsOk :: "'a LocalComponent_scheme \<Rightarrow> bool" where
  "subscriptionsOk nm \<longleftrightarrow> length (eventIds nm) = MAXIMUM_EVENT_ID \<and> distinct (map fst (subscriptions nm)) \<and>
     (\<forall>k. k \<in> fst ` set (subscriptions nm) \<longleftrightarrow> k < MAXIMUM_EVENT_ID \<and> eventIds nm ! k)"

definition localOk :: "'a LocalComponent_scheme \<Rightarrow> bool" where
  "localOk nm \<longleftrightarrow> servicesOk (cmptServices (localCmpt nm)) \<and> distinct (map serviceType (cmptServices (localCmpt nm))) \<and>
     identification (localCmpt nm) \<noteq> None"

definition nmInv :: "'a LocalComponent_scheme \<Rightarrow> bool" where
  "nmInv nm \<longleftrightarrow> nmOk nm \<and> subscriptionsOk nm \<and> localOk nm"

lemma quiet_inv: "quiet nm nm' \<Longrightarrow> subscriptionsOk nm' = subscriptionsOk nm \<and> localOk nm' = localOk nm"
  by (simp add: quiet_def subscriptionsOk_def subscriptions_def localOk_def)

definition serves :: "'a LocalComponent_scheme \<Rightarrow> (bool \<times> 'a LocalComponent_scheme) exec \<Rightarrow> bool" where
  "serves nm r \<longleftrightarrow> (\<exists>b nm'. r = Some (b, nm') \<and> balance 1 nm nm' \<and> nmInv nm')"

lemma handles_serves: "nmInv nm \<Longrightarrow> handles nm r \<Longrightarrow> serves nm r"
  using quiet_inv balance_ok by (fastforce simp: handles_def serves_def nmInv_def)

lemma balance_serves:
  assumes "balance 0 nm nm1" "nmInv nm1" "handles nm1 r"
  shows "serves nm r"
  using handles_serves [OF assms(2,3)] balance_trans [OF assms(1)] by (fastforce simp: serves_def)

section \<open>Queries and control\<close>

lemma identificationField_ok:
  "\<exists>str rest. identificationField name = Some (str @ 0 # rest) \<and> 0 \<notin> set str \<and> length str < 80"
proof -
  let ?n = "if length name < 80 then name else take 79 name"
  have len: "length ?n < 80" by simp
  obtain str rest where s: "?n @ [0] = str @ 0 # rest" "0 \<notin> set str"
    using split_list_first [of 0 "?n @ [0]"] by auto
  have "length str \<le> length ?n" using arg_cong [OF s(1), of length] by simp
  then have "length str < 80" using len by simp
  moreover have "identificationField name = Some (?n @ [0] @ drop (length ?n + 1) (replicate 80 0))"
    using len by (simp add: identificationField_def memWrite_def reportIdentificationMessageCreate_def reportIdentification_dataInitialize_def)
  ultimately show ?thesis using s by (metis append.assoc append_Cons)
qed

lemma reportIdentification_posts:
  assumes "nmOk nm"
  shows "posts nm (reportIdentificationTo dest queryType (Some name) nm)"
proof -
  obtain str rest where f: "identificationField name = Some (str @ 0 # rest)" "0 \<notin> set str" "length str < 80"
    using identificationField_ok by blast
  let ?m = "reportIdentificationMessageCreate\<lparr>reportIdentification_identification := str @ 0 # rest, reportIdentification_queryType := queryType\<rparr>"
  have "sendable (reportIdentificationMessageToJausMessage ?m)"
    using identification_jaus [of ?m str rest] length_identificationBytes [of str ?m] f(2,3)
    by (simp add: sendable_def cloneOk_iff dataBytes_def)
  from transmit_posts [OF assms sendable_addressed [OF this]] show ?thesis using f(1) by (simp add: reportIdentificationTo_def)
qed

lemma processQueryIdentification_handled:
  assumes "nmOk nm" "cloneOk m" "localOk nm"
    "\<And>q. queryIdentificationMessageFromJausMessage (junkNmQueryId env) m = Some (Some q) \<Longrightarrow>
       (queryIdentification_queryField q = JAUS_QUERY_FIELD_SS_IDENTITY \<longrightarrow> enabled (subsComms (router nm)) \<longrightarrow>
          getSubsystemIdentification (treeOf nm) (ownAddress nm) \<noteq> Some None) \<and>
       (queryIdentification_queryField q = JAUS_QUERY_FIELD_NODE_IDENTITY \<longrightarrow>
          getNodeIdentification (treeOf nm) (ownAddress nm) \<noteq> Some None)"
  shows "handles nm (processQueryIdentification env m nm)"
proof -
  note tree = nmOk_tree [OF assms(1)] and own = nmOk_own(1) [OF assms(1)]
  obtain r where r: "queryIdentificationMessageFromJausMessage (junkNmQueryId env) m = Some r" using unpack_total(2) [OF assms(2)] by blast
  obtain a b where ab: "getSubsystemIdentification (treeOf nm) (ownAddress nm) = Some a" "getNodeIdentification (treeOf nm) (ownAddress nm) = Some b"
    using at_proper [OF tree own] findNode_idx [OF tree own] by (simp add: getSubsystemIdentification_def getNodeIdentification_def)
  have post: "handles nm (do { nm1 \<leftarrow> reportIdentificationTo dest k stored nm; finishWith True m nm1 })" if "stored \<noteq> None" for stored dest k
    using that posts_finish [OF assms(1) reportIdentification_posts [OF assms(1)]] by auto
  show ?thesis
  proof (cases r)
    case None
    then show ?thesis using r finish_handles [OF assms(1)] by (simp add: processQueryIdentification_def)
  next
    case (Some q)
    then show ?thesis
      using r assms(3) assms(4) [of q] ab post [of a] post [of b] post [of "identification (localCmpt nm)"] finish_handles [OF assms(1)]
      by (simp add: processQueryIdentification_def localOk_def)
  qed
qed

text \<open>The answers to the two questions for a configuration.\<close>

lemma configuration_answered:
  assumes "nmOk nm"
  shows "handles nm (do { got \<leftarrow> getSubsystem (nmClock env) (treeOf nm) (uint (addrSubsystem (ownAddress nm)));
      nm1 \<leftarrow> (case got of None \<Rightarrow> Some nm | Some subs \<Rightarrow> transmitNew (addressed dst (ownAddress nm)
        (reportConfigurationMessageToJausMessage (configurationReport (nmClock env) subs))) nm);
      finishWith True m nm1 })"
    "handles nm (do { got \<leftarrow> getNode (nmClock env) (treeOf nm) (uint (addrSubsystem (ownAddress nm))) (uint (addrNode (ownAddress nm)));
      let empty = reportConfiguration_subsystem (reportConfigurationMessageCreate (nmClock env));
      nm1 \<leftarrow> transmitNew (addressed dst (ownAddress nm) (reportConfigurationMessageToJausMessage (configurationReport (nmClock env)
        (case got of None \<Rightarrow> empty | Some node \<Rightarrow> empty\<lparr>subsNodes := subsNodes empty @ [node]\<rparr>)))) nm;
      finishWith True m nm1 })"
proof -
  note tree = nmOk_tree [OF assms] and own = nmOk_own [OF assms]
  have send: "handles nm (do { nm1 \<leftarrow> transmitNew (addressed dst (ownAddress nm) (reportConfigurationMessageToJausMessage
      (configurationReport (nmClock env) subs))) nm; finishWith True m nm1 })" if "fitsReport subs" for subs dst
    using report_enclosed [OF that, of "nmClock env"]
    by (intro posts_finish transmit_posts sendable_addressed assms) (auto simp: sendable_def)
  show "handles nm (do { got \<leftarrow> getSubsystem (nmClock env) (treeOf nm) (uint (addrSubsystem (ownAddress nm)));
      nm1 \<leftarrow> (case got of None \<Rightarrow> Some nm | Some subs \<Rightarrow> transmitNew (addressed dst (ownAddress nm)
        (reportConfigurationMessageToJausMessage (configurationReport (nmClock env) subs))) nm);
      finishWith True m nm1 })"
    using getSubsystem_ok [OF tree _ own(2), of "nmClock env"] send [OF okSubs_fits [OF okSubs_stamped [OF treeOkD [OF tree]]]]
      finish_handles [OF assms]
    by (cases "sub (treeOf nm) (uint (addrSubsystem (ownAddress nm)))") auto
  obtain node where node: "getNode (nmClock env) (treeOf nm) (uint (addrSubsystem (ownAddress nm))) (uint (addrNode (ownAddress nm))) = Some node"
      "node = None \<or> (\<exists>n. node = Some n \<and> okNode (uint (addrSubsystem (ownAddress nm))) n)"
    using getNode_ok [OF tree own(1), of "nmClock env"] by fastforce
  let ?empty = "reportConfiguration_subsystem (reportConfigurationMessageCreate (nmClock env))"
  have empty: "subsNodes ?empty = []"
    by (simp add: reportConfigurationMessageCreate_def reportConfiguration_dataInitialize_def Let_def jausSubsystemCreate_def
        jausSubsystemUpdateTimestamp_def)
  have "fitsReport (case node of None \<Rightarrow> ?empty | Some n \<Rightarrow> ?empty\<lparr>subsNodes := subsNodes ?empty @ [n]\<rparr>)"
  proof (cases node)
    case None
    then show ?thesis by (simp add: fitsReport_def configuration_def configurationBytes_def empty)
  next
    case (Some n)
    then show ?thesis using node(2) single_node_fits [of _ n "?empty\<lparr>subsNodes := subsNodes ?empty @ [n]\<rparr>"] by (auto simp: empty)
  qed
  from send [OF this] show "handles nm (do { got \<leftarrow> getNode (nmClock env) (treeOf nm) (uint (addrSubsystem (ownAddress nm))) (uint (addrNode (ownAddress nm)));
      let empty = reportConfiguration_subsystem (reportConfigurationMessageCreate (nmClock env));
      nm1 \<leftarrow> transmitNew (addressed dst (ownAddress nm) (reportConfigurationMessageToJausMessage (configurationReport (nmClock env)
        (case got of None \<Rightarrow> empty | Some node \<Rightarrow> empty\<lparr>subsNodes := subsNodes empty @ [node]\<rparr>)))) nm;
      finishWith True m nm1 })"
    using node(1) by (simp add: Let_def)
qed

lemma processQueryConfiguration_handled:
  assumes "nmOk nm" "cloneOk m"
  shows "handles nm (processQueryConfiguration env m nm)"
proof -
  obtain r where "queryConfigurationMessageFromJausMessage (junkNmQueryConf env) m = Some r" using unpack_total(1) [OF assms(2)] by blast
  then show ?thesis
    using configuration_answered [OF assms(1), of env _ m] finish_handles [OF assms(1)]
    by (simp add: processQueryConfiguration_def Let_def split: option.split)
qed

lemma processQueryServices_handled:
  assumes "nmOk nm" "cloneOk m" "localOk nm"
  shows "handles nm (processQueryServices env m nm)"
proof -
  obtain r where r: "queryServicesMessageFromJausMessage (junkNmQueryServices env) m = Some r" using unpack_total(3) [OF assms(2)] by blast
  let ?l = "cmptServices (localCmpt nm)"
  have clone: "jausServicesClone ?l = Some ?l" using assms(3) by (simp add: localOk_def servicesOk_def jausServicesClone_ok)
  let ?m = "reportServicesMessageCreate\<lparr>destination := source m, source := ownAddress nm, reportServices_jausServices := ?l\<rparr>"
  have "unat (reportServices_dataSize ?m) = length (servicesBytes ?l)"
    using servicesBytes_bound [of ?l] assms(3) by (simp add: localOk_def reportServices_size unat_of_nat_lt)
  then have "sendable (reportServicesMessageToJausMessage ?m)"
    using reportServices_to [of 0 ?m "replicate (unat (reportServices_dataSize ?m)) 0" "reportServices_dataSize ?m"]
      servicesBytes_bound [of ?l] assms(3)
    by (simp add: sendable_def reportServicesMessageToJausMessage_def messageToJausMessage_def cloneOk_iff dataBytes_def unat_of_nat_lt localOk_def)
  from posts_finish [OF assms(1) transmit_posts [OF assms(1) this]] show ?thesis
    using r clone finish_handles [OF assms(1)] by (simp add: processQueryServices_def split: option.split)
qed

lemma setLocalController_inv:
  "nmOk (setLocalController f nm) = nmOk nm" "subscriptionsOk (setLocalController f nm) = subscriptionsOk nm"
  "localOk (setLocalController f nm) = localOk nm" "balance d nm0 (setLocalController f nm) = balance d nm0 nm"
  by (simp_all add: setLocalController_def nmOk_def subscriptionsOk_def subscriptions_def localOk_def balance_def)

lemma processRequestComponentControl_serves:
  assumes "nmInv nm" "cloneOk m"
  shows "serves nm (processRequestComponentControl env m nm)"
proof -
  have ok: "nmOk nm" using assms(1) by (simp add: nmInv_def)
  obtain r where r: "requestComponentControlMessageFromJausMessage (junkNmRequest env) m = Some r" using unpack_total(4) [OF assms(2)] by blast
  have post: "posts nm (nmReject dest nm)" "posts nm (nmConfirm dest nm)" if "nmOk nm" for nm :: "'a LocalComponent_scheme" and dest
    unfolding nmReject_def nmConfirm_def by (intro transmit_posts that sendable_messages)+
  have both: "posts nm (do { nm1 \<leftarrow> nmReject a nm; nmConfirm b nm1 })" for a b
    by (rule posts_bind [OF post(1) [OF ok]]) (rule post(2), erule sendsD(1))
  have set: "serves nm (do { nm1 \<leftarrow> x; finishWith True m (setLocalController f nm1) })" if x: "posts nm x" for x f
  proof -
    obtain nm1 where nm1: "x = Some nm1" "sends nm nm1" using x by (auto simp: posts_def)
    have inv: "nmInv nm1" using assms(1) nm1(2) sendsD(1) [OF nm1(2)] quiet_inv [of nm nm1] by (auto simp: nmInv_def sends_def)
    have "serves nm (finishWith True m (setLocalController f nm1))"
      using inv nm1(2) by (intro balance_serves [of nm "setLocalController f nm1"] finish_handles)
        (simp_all add: setLocalController_inv nmInv_def sends_def)
    then show ?thesis using nm1(1) by simp
  qed
  have plain: "serves nm (do { nm1 \<leftarrow> x; finishWith True m nm1 })" if "posts nm x" for x
    by (rule handles_serves [OF assms(1) posts_finish [OF ok that]])
  show ?thesis
    using r set [OF post(2) [OF ok]] plain [OF post(1) [OF ok]] plain [OF post(2) [OF ok]] set [OF both]
      handles_serves [OF assms(1) finish_handles [OF ok]]
    by (auto simp: processRequestComponentControl_def Let_def bind_assoc split: option.split)
qed

section \<open>Subscriptions\<close>

lemma u8_bound: "unat (n :: u8) < 256"
  by (rule order.strict_trans2 [OF unsigned_less]) simp

lemma mapStore_new: "k \<notin> fst ` set l \<Longrightarrow> mapStore k a l = l @ [(k, a)]"
  by (induction k a l rule: mapStore.induct) auto

lemma getNextEventId_free:
  assumes "subscriptionsOk nm" "getNextEventId nm = Some k"
  shows "k < MAXIMUM_EVENT_ID" "k \<notin> fst ` set (subscriptions nm)" "\<forall>j < k. j \<in> fst ` set (subscriptions nm)"
  using firstIdx_Some [OF assms(2) [unfolded getNextEventId_def]] assms(1) unfolding subscriptionsOk_def by auto

lemma getNextEventId_full:
  assumes "subscriptionsOk nm" "getNextEventId nm = None"
  shows "fst ` set (subscriptions nm) = {..< MAXIMUM_EVENT_ID}"
proof -
  have "eventIds nm ! k" if "k < MAXIMUM_EVENT_ID" for k
  proof -
    have "\<forall>x \<in> set (eventIds nm). x" "eventIds nm ! k \<in> set (eventIds nm)"
      using assms that by (simp_all add: getNextEventId_def firstIdx_None subscriptionsOk_def)
    then show ?thesis by blast
  qed
  then show ?thesis using assms(1) unfolding subscriptionsOk_def by auto
qed

text \<open>The two lists a subscriber can be entered in.\<close>

definition entered :: "('a LocalComponent_scheme \<Rightarrow> (nat \<times> JausAddress) list) \<Rightarrow>
    ((nat \<times> JausAddress) list \<Rightarrow> 'a LocalComponent_scheme \<Rightarrow> 'a LocalComponent_scheme) \<Rightarrow> bool" where
  "entered get put \<longleftrightarrow> (get = subsystemChangeList \<and> put = (\<lambda>l n. n\<lparr>subsystemChangeList := l\<rparr>)) \<or>
     (get = nodeChangeList \<and> put = (\<lambda>l n. n\<lparr>nodeChangeList := l\<rparr>))"

lemma subscribe_entry:
  assumes "entered get put" "subscriptionsOk nm" "getNextEventId nm = Some k" "subscribe put get src confirm nm = (confirm', nm')"
  shows "get nm' = get nm @ [(k, src)]" "mset (subscriptions nm') = add_mset (k, src) (mset (subscriptions nm))"
    "eventIds nm' = (eventIds nm)[k := True]" "router nm' = router nm" "created nm' = created nm" "localCmpt nm' = localCmpt nm" "localInf nm' = localInf nm"
    "confirmEventRequest_eventId confirm' = of_nat k" "confirmEventRequest_responseCode confirm' = SUCCESSFUL_RESPONSE"
proof -
  have "k \<notin> fst ` set (get nm)" using getNextEventId_free(2) [OF assms(2,3)] assms(1) by (auto simp: entered_def subscriptions_def)
  note new = mapStore_new [OF this, of src]
  show "get nm' = get nm @ [(k, src)]" "mset (subscriptions nm') = add_mset (k, src) (mset (subscriptions nm))"
    "eventIds nm' = (eventIds nm)[k := True]" "router nm' = router nm" "created nm' = created nm" "localCmpt nm' = localCmpt nm" "localInf nm' = localInf nm"
    "confirmEventRequest_eventId confirm' = of_nat k" "confirmEventRequest_responseCode confirm' = SUCCESSFUL_RESPONSE"
    using assms(1,3,4) new by (auto simp: subscribe_def entered_def Let_def subscriptions_def)
qed

lemma subscriptionsOk_mset:
  assumes "subscriptionsOk nm" "mset (subscriptions nm') = add_mset (k, a) (mset (subscriptions nm))"
    "k < MAXIMUM_EVENT_ID" "k \<notin> fst ` set (subscriptions nm)" "eventIds nm' = (eventIds nm)[k := True]"
  shows "subscriptionsOk nm'"
proof -
  have keys: "mset (map fst (subscriptions nm')) = add_mset k (mset (map fst (subscriptions nm)))" using assms(2) by simp
  then have "distinct (map fst (subscriptions nm'))"
    using assms(1,4) mset_eq_imp_distinct_iff [of "map fst (subscriptions nm')" "k # map fst (subscriptions nm)"]
    by (simp add: subscriptionsOk_def)
  moreover have "fst ` set (subscriptions nm') = insert k (fst ` set (subscriptions nm))"
    using arg_cong [OF keys, of set_mset] by simp
  ultimately show ?thesis
    using assms(1,3,5) unfolding subscriptionsOk_def by (auto simp: nth_list_update split: if_splits)
qed

lemma subscribe_inv:
  assumes "entered get put" "nmInv nm" "subscribe put get src confirm nm = (confirm', nm')"
  shows "nmInv nm' \<and> balance 0 nm nm'"
proof -
  have inv: "nmOk nm" "subscriptionsOk nm" "localOk nm" using assms(2) by (simp_all add: nmInv_def)
  show ?thesis
  proof (cases "getNextEventId nm")
    case None
    then show ?thesis using assms(2,3) inv(1) by (simp add: subscribe_def Let_def)
  next
    case (Some k)
    note e = subscribe_entry [OF assms(1) inv(2) Some assms(3)]
    have "subscriptionsOk nm'"
      by (rule subscriptionsOk_mset [OF inv(2) e(2) getNextEventId_free(1,2) [OF inv(2) Some] e(3)])
    then show ?thesis using inv(1,3) e by (simp add: nmInv_def nmOk_def localOk_def balance_def)
  qed
qed

lemma processCreateEvent_serves:
  assumes "nmInv nm" "\<exists>r. createEventMessageFromJausMessage (junkNmCreateEvent env) m = Some r"
    "\<And>ce. createEventMessageFromJausMessage (junkNmCreateEvent env) m = Some (Some ce) \<Longrightarrow>
       createEvent_reportMessageCode ce = JAUS_REPORT_CONFIGURATION \<Longrightarrow> \<exists>q. createEvent_queryMessage ce = Some q \<and> cloneOk q"
  shows "serves nm (processCreateEvent env m nm)"
proof -
  have ok: "nmOk nm" using assms(1) by (simp add: nmInv_def)
  let ?c = "confirmEventRequestMessageCreate\<lparr>destination := source m, source := ownAddress nm\<rparr>"
  let ?d = "?c\<lparr>confirmEventRequest_messageCode := JAUS_REPORT_CONFIGURATION\<rparr>"
  have reply: "handles nm1 (do { nm2 \<leftarrow> sendConfirmation c nm1; finishWith b m nm2 })" if "nmOk nm1" for nm1 :: "'a LocalComponent_scheme" and c b
    unfolding sendConfirmation_def by (intro posts_finish transmit_posts that sendable_messages)
  note refuse = handles_serves [OF assms(1) reply [OF ok]]
  have enter: "serves nm (case subscribe put get src c nm of (confirm2, nm1) \<Rightarrow> do { nm2 \<leftarrow> sendConfirmation confirm2 nm1; finishWith True m nm2 })"
    if "entered get put" for get put src c
  proof -
    obtain confirm2 nm1 where s: "subscribe put get src c nm = (confirm2, nm1)" by fastforce
    note i = subscribe_inv [OF that assms(1) s]
    then have "handles nm1 (do { nm2 \<leftarrow> sendConfirmation confirm2 nm1; finishWith True m nm2 })" by (intro reply) (simp add: nmInv_def)
    then show ?thesis using i balance_serves [of nm nm1] s by simp
  qed
  have lists: "entered subsystemChangeList (\<lambda>l n. n\<lparr>subsystemChangeList := l\<rparr>)" "entered nodeChangeList (\<lambda>l n. n\<lparr>nodeChangeList := l\<rparr>)"
    by (simp_all add: entered_def)
  obtain r where r: "createEventMessageFromJausMessage (junkNmCreateEvent env) m = Some r" using assms(2) by blast
  show ?thesis
  proof (cases r)
    case None
    then show ?thesis using r refuse by (simp add: processCreateEvent_def Let_def)
  next
    case (Some ce)
    show ?thesis
    proof (cases "createEvent_reportMessageCode ce = JAUS_REPORT_CONFIGURATION")
      case False
      then show ?thesis using r Some refuse by (simp add: processCreateEvent_def Let_def)
    next
      case True
      obtain q where q: "createEvent_queryMessage ce = Some q" "cloneOk q" using assms(3) r Some True by blast
      obtain x where x: "queryConfigurationMessageFromJausMessage (junkNmQueryConf env) q = Some x" using unpack_total(1) [OF q(2)] by blast
      show ?thesis
        using r Some True q(1) x refuse enter [OF lists(1)] enter [OF lists(2)]
        by (cases x) (simp_all add: processCreateEvent_def Let_def)
    qed
  qed
qed

lemma cancel_subscriptions:
  assumes "subscriptionsOk nm" "k < MAXIMUM_EVENT_ID" "eventIds nm ! k"
    "nm' = (let nm1 = nm\<lparr>eventIds := (eventIds nm)[k := False]\<rparr>
            in if k \<in> fst ` set (subsystemChangeList nm1) then nm1\<lparr>subsystemChangeList := mapErase k (subsystemChangeList nm1)\<rparr>
               else if k \<in> fst ` set (nodeChangeList nm1) then nm1\<lparr>nodeChangeList := mapErase k (nodeChangeList nm1)\<rparr> else nm1)"
  shows "subscriptionsOk nm'" "subscriptions nm' = filter (\<lambda>(j, a). j \<noteq> k) (subscriptions nm)"
proof -
  let ?s = "subsystemChangeList nm" and ?n = "nodeChangeList nm"
  have "k \<in> fst ` set (subscriptions nm)" using assms(1-3) unfolding subscriptionsOk_def by blast
  then have k: "k \<in> fst ` set ?s \<or> k \<in> fst ` set ?n" by (auto simp: subscriptions_def)
  have disj: "fst ` set ?s \<inter> fst ` set ?n = {}" using assms(1) by (simp add: subscriptionsOk_def subscriptions_def)
  have keep: "filter (\<lambda>(j, a). j \<noteq> k) l = l" if "k \<notin> fst ` set l" for l :: "(nat \<times> JausAddress) list"
    using that by (force simp: filter_id_conv)
  show f: "subscriptions nm' = filter (\<lambda>(j, a). j \<noteq> k) (subscriptions nm)"
  proof (cases "k \<in> fst ` set ?s")
    case True
    then have "k \<notin> fst ` set ?n" using disj by blast
    then show ?thesis using True keep [of ?n] assms(4) by (simp add: subscriptions_def mapErase_def Let_def)
  next
    case False
    then show ?thesis using k keep [of ?s] assms(4) by (simp add: subscriptions_def mapErase_def Let_def)
  qed
  have keys: "fst ` set (subscriptions nm') = fst ` set (subscriptions nm) - {k}" unfolding f by force
  have "distinct (map fst (subscriptions nm'))" unfolding f using assms(1) by (simp add: subscriptionsOk_def distinct_map_filter)
  moreover have "eventIds nm' = (eventIds nm)[k := False]" using assms(4) by (simp add: Let_def)
  ultimately show "subscriptionsOk nm'"
    using assms(1,2) keys unfolding subscriptionsOk_def by (auto simp: nth_list_update split: if_splits)
qed

lemma processCancelEvent_serves:
  assumes "nmInv nm" "cloneOk m"
    "\<And>c. cancelEventMessageFromJausMessage (junkNmCancelEvent env) m = Some (Some c) \<Longrightarrow>
       cancelEvent_messageCode c = JAUS_QUERY_CONFIGURATION \<Longrightarrow> cancelEvent_eventId c \<noteq> 255"
  shows "serves nm (processCancelEvent env m nm)"
proof -
  have ok: "nmOk nm" and sub: "subscriptionsOk nm" using assms(1) by (simp_all add: nmInv_def)
  note fin = handles_serves [OF assms(1) finish_handles [OF ok]]
  obtain r where r: "cancelEventMessageFromJausMessage (junkNmCancelEvent env) m = Some r" using unpack_total(5) [OF assms(2)] by blast
  show ?thesis
  proof (cases r)
    case None
    then show ?thesis using r fin by (simp add: processCancelEvent_def)
  next
    case (Some c)
    let ?k = "unat (cancelEvent_eventId c)"
    show ?thesis
    proof (cases "cancelEvent_messageCode c = JAUS_QUERY_CONFIGURATION")
      case False
      then show ?thesis using r Some fin by (simp add: processCancelEvent_def Let_def)
    next
      case True
      have "unat (cancelEvent_eventId c) \<noteq> unat (255 :: u8)" using assms(3) r Some True by (metis word_unat_eq_iff)
      then have k: "?k < 255" using u8_bound [of "cancelEvent_eventId c"] by simp
      show ?thesis
      proof (cases "eventIds nm ! ?k")
        case False
        then show ?thesis using r Some True k sub fin by (simp add: processCancelEvent_def Let_def subscriptionsOk_def)
      next
        case used: True
        define nm' where "nm' = (let nm1 = nm\<lparr>eventIds := (eventIds nm)[?k := False]\<rparr>
            in if ?k \<in> fst ` set (subsystemChangeList nm1) then nm1\<lparr>subsystemChangeList := mapErase ?k (subsystemChangeList nm1)\<rparr>
               else if ?k \<in> fst ` set (nodeChangeList nm1) then nm1\<lparr>nodeChangeList := mapErase ?k (nodeChangeList nm1)\<rparr> else nm1)"
        have "subscriptionsOk nm'" by (rule cancel_subscriptions [OF sub k used nm'_def])
        then have inv: "nmInv nm'" "balance 0 nm nm'"
          using assms(1) by (simp_all add: nmInv_def nm'_def Let_def nmOk_def localOk_def balance_def)
        have "processCancelEvent env m nm = finishWith True m nm'"
          using r Some True k sub used by (simp add: processCancelEvent_def Let_def subscriptionsOk_def nm'_def)
        then show ?thesis using balance_serves [OF inv(2,1) finish_handles] inv(1) by (simp add: nmInv_def)
      qed
    qed
  qed
qed

section \<open>Any message\<close>

text \<open>
  The messages the component can take. The exceptions are those that make the program read or write outside its
  memory: a report or heartbeat from subsystem 255, a report of a configuration that names a number twice or has
  no node, an identification without terminator, services that cannot be copied, a request for events without a
  query, the cancellation of event 255, the question for an identification that is not known.
\<close>

definition nmAccepts :: "NmEnv \<Rightarrow> 'a LocalComponent_scheme \<Rightarrow> JausMessage \<Rightarrow> bool" where
  "nmAccepts env nm m \<longleftrightarrow> cloneOk m \<and>
     (commandCode m \<in> {JAUS_REPORT_HEARTBEAT_PULSE, JAUS_REPORT_CONFIGURATION, JAUS_REPORT_IDENTIFICATION, JAUS_REPORT_SERVICES} \<longrightarrow>
        addrSubsystem (source m) \<noteq> 255) \<and>
     (commandCode m = JAUS_REPORT_CONFIGURATION \<longrightarrow>
        (case reportConfigurationMessageFromJausMessage (nmClock env) (junkNmReportConf env) m of
           Some (Some r) \<Rightarrow> configurationAccepted nm (source m) (reportConfiguration_subsystem r) | _ \<Rightarrow> True)) \<and>
     (commandCode m = JAUS_REPORT_IDENTIFICATION \<longrightarrow>
        (case reportIdentificationMessageFromJausMessage (junkNmReportId env) m of
           Some (Some r) \<Rightarrow> strlen (reportIdentification_identification r) \<noteq> None | _ \<Rightarrow> True)) \<and>
     (commandCode m = JAUS_REPORT_SERVICES \<longrightarrow>
        (case reportServicesMessageFromJausMessage (junkNmReportServices env) m of
           Some (Some r) \<Rightarrow> list_all serviceOk (reportServices_jausServices r) \<and> distinct (map serviceType (reportServices_jausServices r))
         | _ \<Rightarrow> True)) \<and>
     (commandCode m = JAUS_CREATE_EVENT \<longrightarrow>
        (case createEventMessageFromJausMessage (junkNmCreateEvent env) m of
           None \<Rightarrow> False | Some None \<Rightarrow> True
         | Some (Some ce) \<Rightarrow> createEvent_reportMessageCode ce = JAUS_REPORT_CONFIGURATION \<longrightarrow>
             (case createEvent_queryMessage ce of None \<Rightarrow> False | Some q \<Rightarrow> cloneOk q))) \<and>
     (commandCode m = JAUS_CANCEL_EVENT \<longrightarrow>
        (case cancelEventMessageFromJausMessage (junkNmCancelEvent env) m of
           Some (Some c) \<Rightarrow> cancelEvent_messageCode c = JAUS_QUERY_CONFIGURATION \<longrightarrow> cancelEvent_eventId c \<noteq> 255 | _ \<Rightarrow> True)) \<and>
     (commandCode m = JAUS_QUERY_IDENTIFICATION \<longrightarrow>
        (case queryIdentificationMessageFromJausMessage (junkNmQueryId env) m of
           Some (Some q) \<Rightarrow>
             (queryIdentification_queryField q = JAUS_QUERY_FIELD_SS_IDENTITY \<longrightarrow> enabled (subsComms (router nm)) \<longrightarrow>
                getSubsystemIdentification (treeOf nm) (ownAddress nm) \<noteq> Some None) \<and>
             (queryIdentification_queryField q = JAUS_QUERY_FIELD_NODE_IDENTITY \<longrightarrow>
                getNodeIdentification (treeOf nm) (ownAddress nm) \<noteq> Some None)
         | _ \<Rightarrow> True))"

text \<open>The message an event carries.\<close>

definition carriedBy :: "NmEnv \<Rightarrow> JausMessage \<Rightarrow> JausMessage option" where
  "carriedBy env m =
     (case eventMessageFromJausMessage (junkNmEvent env) m of
        Some (Some e) \<Rightarrow> Option.bind (event_reportMessage e) jausMessageClone | _ \<Rightarrow> None)"

definition envOk :: "NmEnv \<Rightarrow> bool" where
  "envOk env \<longleftrightarrow> length (reportIdentification_identification (junkNmReportId env)) = 80"

lemma plain_messages_served:
  assumes "nmInv nm" "envOk env" "nmAccepts env nm m" "commandCode m \<noteq> JAUS_EVENT"
  shows "serves nm (nmProcessMessage env (Some m) nm)"
proof -
  have inv: "nmOk nm" "localOk nm" using assms(1) by (simp_all add: nmInv_def)
  have m: "cloneOk m" using assms(3) by (simp add: nmAccepts_def)
  note h = handles_serves [OF assms(1)] and acc = assms(3) [unfolded nmAccepts_def]
  consider (heartbeat) "commandCode m = JAUS_REPORT_HEARTBEAT_PULSE" | (conf) "commandCode m = JAUS_REPORT_CONFIGURATION"
    | (ident) "commandCode m = JAUS_REPORT_IDENTIFICATION" | (services) "commandCode m = JAUS_REPORT_SERVICES"
    | (create) "commandCode m = JAUS_CREATE_EVENT" | (cancel) "commandCode m = JAUS_CANCEL_EVENT"
    | (query) "commandCode m = JAUS_QUERY_IDENTIFICATION"
    | (rest) "commandCode m \<notin> {JAUS_REPORT_HEARTBEAT_PULSE, JAUS_REPORT_CONFIGURATION, JAUS_REPORT_IDENTIFICATION,
        JAUS_REPORT_SERVICES, JAUS_CREATE_EVENT, JAUS_CANCEL_EVENT, JAUS_QUERY_IDENTIFICATION}" by blast
  then show ?thesis
  proof cases
    case heartbeat
    then have "serves nm (processReportHeartbeatPulse env m nm)" using acc inv by (intro h processReportHeartbeatPulse_handled) simp_all
    then show ?thesis using heartbeat by (simp add: nmProcessMessage.simps(2))
  next
    case conf
    then have "serves nm (processReportConfiguration env m nm)" using acc inv m by (intro h processReportConfiguration_handled) simp_all
    then show ?thesis using conf by (simp add: nmProcessMessage.simps(2))
  next
    case ident
    then have "serves nm (processReportIdentification env m nm)"
      using acc inv m assms(2) by (intro h processReportIdentification_handled) (simp_all add: envOk_def)
    then show ?thesis using ident by (simp add: nmProcessMessage.simps(2))
  next
    case services
    then have "serves nm (processReportServices env m nm)"
      using acc inv m by (intro h processReportServices_handled) (simp_all add: list_all_iff)
    then show ?thesis using services by (simp add: nmProcessMessage.simps(2))
  next
    case create
    then have "serves nm (processCreateEvent env m nm)"
      using acc by (intro processCreateEvent_serves assms(1)) (auto split: option.splits)
    then show ?thesis using create by (simp add: nmProcessMessage.simps(2))
  next
    case cancel
    then have "serves nm (processCancelEvent env m nm)" using acc m by (intro processCancelEvent_serves assms(1)) simp_all
    then show ?thesis using cancel by (simp add: nmProcessMessage.simps(2))
  next
    case query
    then have "serves nm (processQueryIdentification env m nm)"
      using acc inv m by (intro h processQueryIdentification_handled) simp_all
    then show ?thesis using query by (simp add: nmProcessMessage.simps(2))
  next
    case rest
    then show ?thesis
      using assms(4) h [OF finish_handles [OF inv(1)]] processRequestComponentControl_serves [OF assms(1) m]
        h [OF simple_queries_handled(1) [OF inv(1)]] h [OF simple_queries_handled(2) [OF inv(1)]] h [OF simple_queries_handled(3) [OF inv(1)]]
        h [OF processQueryConfiguration_handled [OF inv(1) m]] h [OF processQueryServices_handled [OF inv(1) m inv(2)]]
      by (simp add: nmProcessMessage.simps(2) Let_def)
  qed
qed

text \<open>Events are taken if what they carry is taken, or if they cannot be unpacked.\<close>

inductive acceptable :: "NmEnv \<Rightarrow> 'a LocalComponent_scheme \<Rightarrow> JausMessage \<Rightarrow> bool" for env nm where
  plain: "nmAccepts env nm m \<Longrightarrow> commandCode m \<noteq> JAUS_EVENT \<Longrightarrow> acceptable env nm m"
| malformed: "cloneOk m \<Longrightarrow> commandCode m = JAUS_EVENT \<Longrightarrow> eventMessageFromJausMessage (junkNmEvent env) m = Some None \<Longrightarrow>
    acceptable env nm m"
| event: "commandCode m = JAUS_EVENT \<Longrightarrow> carriedBy env m = Some c \<Longrightarrow> acceptable env nm c \<Longrightarrow> acceptable env nm m"

definition cloned :: "nat \<Rightarrow> 'a LocalComponent_scheme \<Rightarrow> 'a LocalComponent_scheme" where
  "cloned k nm = nm\<lparr>router := (router nm)\<lparr>clones := clones (router nm) + k\<rparr>\<rparr>"

lemma cloned_views [simp]:
  "treeOf (cloned k nm) = treeOf nm" "ownAddress (cloned k nm) = ownAddress nm"
  "enabled (subsComms (router (cloned k nm))) = enabled (subsComms (router nm))"
  "configurationAccepted (cloned k nm) a ss = configurationAccepted nm a ss"
  by (simp_all add: cloned_def configurationAccepted_def)

lemma nmAccepts_cloned: "nmAccepts env (cloned k nm) m = nmAccepts env nm m"
  by (simp add: nmAccepts_def cong: option.case_cong)

lemma nmInv_cloned: "nmInv (cloned k nm) = nmInv nm"
proof -
  have "routerOk ((router nm)\<lparr>clones := clones (router nm) + k\<rparr>) = routerOk (router nm)" by (rule routerOk_same) simp_all
  then show ?thesis by (simp add: nmInv_def nmOk_def subscriptionsOk_def subscriptions_def localOk_def cloned_def)
qed

lemma processEvent_unfold:
  assumes "commandCode m = JAUS_EVENT" "carriedBy env m = Some c"
  shows "nmProcessMessage env (Some m) nm =
    do { (_, nm1) \<leftarrow> nmProcessMessage env (Some c) (cloned 1 nm); finishWith True m nm1 }"
proof -
  obtain e r where "eventMessageFromJausMessage (junkNmEvent env) m = Some (Some e)" "event_reportMessage e = Some r" "jausMessageClone r = Some c"
    using assms(2) by (auto simp: carriedBy_def bind_eq_Some_conv split: option.splits)
  then show ?thesis using assms(1) by (simp add: nmProcessMessage.simps(2) [of env m] cloned_def)
qed

lemma acceptable_served:
  assumes "acceptable env nm m" "nmInv nm" "envOk env"
  shows "serves (cloned k nm) (nmProcessMessage env (Some m) (cloned k nm))"
  using assms(1)
proof (induction arbitrary: k rule: acceptable.induct)
  case (plain m)
  then show ?case using assms(2,3) by (intro plain_messages_served) (simp_all add: nmInv_cloned nmAccepts_cloned)
next
  case (malformed m)
  have inv: "nmInv (cloned k nm)" using assms(2) by (simp add: nmInv_cloned)
  then have "handles (cloned k nm) (finishWith False m (nmError MemoryFailure ''Cannot unpack EventMessage!'' (cloned k nm)))"
    by (intro error_handles) (simp add: nmInv_def)
  from handles_serves [OF inv this] show ?case using malformed by (simp add: nmProcessMessage.simps(2) [of env m])
next
  case (event m c)
  have "cloned 1 (cloned k nm) = cloned (Suc k) nm" by (simp add: cloned_def)
  then obtain b nm1 where nm1: "nmProcessMessage env (Some c) (cloned 1 (cloned k nm)) = Some (b, nm1)" "balance 1 (cloned (Suc k) nm) nm1" "nmInv nm1"
    using event.IH [of "Suc k"] by (auto simp: serves_def)
  have "balance 0 (cloned k nm) nm1" using nm1(2) by (simp add: balance_def cloned_def census_def)
  from balance_serves [OF this nm1(3) finish_handles, of True m] nm1 event.hyps show ?case
    by (simp add: processEvent_unfold nmInv_def)
qed

end
