(* ===== verification/NodeManagerRuns.thy ===== *)
theory NodeManagerRuns
  imports NodeManagerLaws
begin

text \<open>
  The life of the node manager's component: its constructor, the check-in and check-out of local components, its
  periodic work, and the runs these make up with the messages that arrive.
\<close>

section \<open>Construction\<close>

lemma serviceOf_eq:
  assumes "length inputs \<le> 255" "length outputs \<le> 255"
  shows "serviceOf kind inputs outputs =
    \<lparr>serviceType = kind, inputCommandList = map plainCommand inputs, inputCommandCount = of_nat (length inputs),
     outputCommandList = map plainCommand outputs, outputCommandCount = of_nat (length outputs)\<rparr>"
proof -
  have f: "fold (\<lambda>c s. snd (add s c NO_PRESENCE_VECTOR)) cs s =
      fold (\<lambda>c s. snd (add s (cmdCommandCode c) (cmdPresenceVector c))) (map plainCommand cs) s"
    for cs :: "u16 list" and s and add :: "JausService \<Rightarrow> u16 \<Rightarrow> u32 \<Rightarrow> bool \<times> JausService"
    by (simp add: fold_map comp_def plainCommand_def)
  let ?s = "withInputs (jausServiceCreate kind) (map plainCommand inputs)"
  have s: "fold (\<lambda>c s. snd (jausServiceAddInputCommand s c NO_PRESENCE_VECTOR)) inputs (jausServiceCreate kind) = ?s"
    using fold_inputs [OF jausServiceCreate_ok, of kind "map plainCommand inputs"] assms(1) by (simp add: f jausServiceCreate_def)
  have "serviceOk ?s" using assms(1) by (simp add: serviceOk_def withInputs_def jausServiceCreate_def unat_of_nat_lt)
  then have "fold (\<lambda>c s. snd (jausServiceAddOutputCommand s c NO_PRESENCE_VECTOR)) outputs ?s =
      withOutputs ?s (map plainCommand outputs)"
    using fold_outputs [of ?s "map plainCommand outputs"] assms(2) by (simp add: f withInputs_def jausServiceCreate_def)
  then show ?thesis using s by (simp add: serviceOf_def withOutputs_def withInputs_def jausServiceCreate_def)
qed

lemma serviceOf_ok: "length inputs \<le> 255 \<Longrightarrow> length outputs \<le> 255 \<Longrightarrow> serviceOk (serviceOf kind inputs outputs)"
  by (simp add: serviceOf_eq serviceOk_def unat_of_nat_lt)

lemma own_services:
  "cmptServices (setupJausServices ((jausComponentCreate now)\<lparr>cmptAddress := a\<rparr>)) =
     [serviceOf 0 nodeManagerCoreInputs nodeManagerCoreOutputs, serviceOf 1 nodeManagerInputs nodeManagerOutputs]"
  by (simp add: setupJausServices_def jausServiceAddService_def jausComponentCreate_def jausComponentUpdateTimestamp_def
      serviceOf_eq nodeManagerCoreInputs_def nodeManagerCoreOutputs_def nodeManagerInputs_def nodeManagerOutputs_def)

lemma constructed_inv:
  assumes "newNodeManagerComponent now (mySubsystemId r) (myNodeId r) k r = Inr nm"
    "routerOk r" "k \<in> set (interfaces (cmptComms r))"
  shows "nmInv nm"
proof -
  have ids: "1 \<le> mySubsystemId r" "mySubsystemId r \<le> 254" "1 \<le> myNodeId r" "myNodeId r \<le> 254"
    using assms(1) by (auto simp: newNodeManagerComponent_def Let_def split: if_splits)
  let ?l = "[serviceOf 0 nodeManagerCoreInputs nodeManagerCoreOutputs, serviceOf 1 nodeManagerInputs nodeManagerOutputs]"
  have "servicesOk ?l" "distinct (map serviceType ?l)"
    by (simp_all add: servicesOk_def serviceOk_def serviceOf_eq nodeManagerCoreInputs_def nodeManagerCoreOutputs_def
        nodeManagerInputs_def nodeManagerOutputs_def)
  moreover have "uint (of_int (mySubsystemId r) :: u8) = mySubsystemId r" "uint (of_int (myNodeId r) :: u8) = myNodeId r"
    using ids by (simp_all add: uint_word_of_int take_bit_int_eq_self)
  moreover have "cmptAddress (setupJausServices c) = cmptAddress c" for c by (simp add: setupJausServices_def Let_def)
  ultimately show ?thesis
    using assms ids
    by (auto simp: newNodeManagerComponent_def Let_def nmInv_def nmOk_def localOk_def own_services subscriptionsOk_def
        subscriptions_def)
qed

lemma since_inv: "nmInv nm \<Longrightarrow> since nm nm' \<Longrightarrow> nmInv nm'"
  using quiet_inv [of nm nm'] balance_ok [of 0 nm nm'] by (simp add: nmInv_def)

section \<open>Start and stop\<close>

lemma setRunning_since:
  assumes "nmOk nm"
  shows "since nm (setRunning b nm)"
proof -
  have "routerOk (router (setRunning b nm)) = routerOk (router nm)" by (rule routerOk_same) (simp_all add: setRunning_def)
  then have "nmOk (setRunning b nm)" using assms by (simp add: nmOk_def setRunning_def)
  moreover have "localInf nm < length (transports (router nm))"
    using assms by (auto simp: nmOk_def routerOk_def mngrOk_def)
  moreover have "map (\<lambda>t. length (infQueue t)) (ts[i := (ts ! i)\<lparr>running := b\<rparr>]) = map (\<lambda>t. length (infQueue t)) ts"
    if "i < length ts" for ts :: "JausTransportInterface list" and i
    using that list_update_id [of "map (\<lambda>t. length (infQueue t)) ts" i] by (simp add: map_update)
  ultimately show ?thesis by (simp add: balance_def quiet_def setRunning_def census_def)
qed

lemma start_ok:
  assumes "nmInv nm"
  shows "\<exists>b nm'. nmStartInterface env nm = Some (b, nm') \<and> since nm nm'"
proof -
  let ?nm = "setRunning True nm"
  have s: "since nm ?nm" using assms by (intro setRunning_since) (simp add: nmInv_def)
  have inv: "nmInv ?nm" by (rule since_inv [OF assms s])
  have ok: "nmOk ?nm" using inv by (simp add: nmInv_def)
  have "givenOk (ownAddress ?nm) (Some (localCmpt ?nm))"
    using inv by (simp add: givenOk_def clonable_def nmInv_def localOk_def servicesOk_def)
  from addComponent_law [OF nmOk_tree [OF ok] nmOk_own(1) [OF ok] this handler_keeps [of ?nm env], of ?nm "nmClock env"] ok
  have "changes ?nm (changeTree env (\<lambda>hs now t w. addComponent hs now t w (ownAddress ?nm) (Some (localCmpt ?nm))) ?nm)"
    by (intro changeTree_changes) auto
  then obtain b nm1 where nm1: "changeTree env (\<lambda>hs now t w. addComponent hs now t w (ownAddress ?nm) (Some (localCmpt ?nm))) ?nm = Some (b, nm1)"
    "since ?nm nm1" by (auto simp: changes_def)
  have "since nm nm1" by (rule since_trans [OF s nm1(2)])
  moreover have "since nm (nmError kind why nm1)" for kind why
    by (rule since_trans [OF calculation nmError_ok]) (rule since_ok [OF nm1(2)])
  ultimately show ?thesis using nm1(1) by (simp add: nmStartInterface_def Let_def)
qed

lemma stop_ok:
  assumes "nmOk nm"
  shows "\<exists>nm'. nmStopInterface env nm = Some (True, nm') \<and> since nm nm'"
proof -
  have "posts nm (do { nm1 \<leftarrow> sendNodeShutdownEvents env nm; sendSubsystemShutdownEvents env nm1 })"
    by (rule posts_bind [OF changedEvents_post(3) [OF assms]]) (rule changedEvents_post(4), erule sendsD(1))
  then obtain nm1 nm2 where n: "sendNodeShutdownEvents env nm = Some nm1" "sendSubsystemShutdownEvents env nm1 = Some nm2" "sends nm nm2"
    by (auto simp: posts_def bind_eq_Some_conv)
  have s: "since nm nm2" by (rule since_sends [OF n(3)])
  have "since nm (setRunning False nm2)" by (rule since_trans [OF s setRunning_since]) (rule since_ok [OF s])
  then show ?thesis using n(1,2) by (simp add: nmStopInterface_def)
qed

section \<open>Check-in and check-out\<close>

definition checkInQuery :: "int \<Rightarrow> 'a LocalComponent_scheme \<Rightarrow> JausAddress" where
  "checkInQuery cmptId nm = \<lparr>addrSubsystem = addrSubsystem (ownAddress nm), addrNode = addrNode (ownAddress nm),
     addrComponent = of_int cmptId, addrInstance = 0\<rparr>"

lemma tellBoth_posts:
  assumes "nmOk nm"
  shows "posts nm (do { nm1 \<leftarrow> sendNodeChangedEvents env nm; sendSubsystemChangedEvents env nm1 })"
  by (rule posts_bind [OF changedEvents_post(1) [OF assms]]) (rule changedEvents_post(2), erule sendsD(1))

lemma checkIn_known:
  assumes "nmOk nm" "nodeKey (ownAddress nm) \<in> nodeKeys (treeOf nm)" "of_int cmptId \<notin> {0, 255 :: u8}"
    "getNextInstanceId (treeOf nm) (checkInQuery cmptId nm) = Some i"
  shows "\<exists>nm'. checkInLocalComponent env cmptId nm = Some (Some ((checkInQuery cmptId nm)\<lparr>addrInstance := i\<rparr>), nm') \<and> since nm nm' \<and>
    known (treeOf nm') = (subsKeys (treeOf nm), nodeKeys (treeOf nm), insert ((checkInQuery cmptId nm)\<lparr>addrInstance := i\<rparr>) (cmptKeys (treeOf nm)))"
proof -
  let ?q = "checkInQuery cmptId nm" and ?t = "treeOf nm"
  let ?a = "?q\<lparr>addrInstance := i\<rparr>"
  let ?c = "(jausComponentCreate (nmClock env))\<lparr>cmptAddress := ?a\<rparr>"
  note tree = nmOk_tree [OF assms(1)]
  have q: "addrSubsystem ?q \<noteq> 255" "nodeKey ?q = nodeKey (ownAddress nm)" using nmOk_own(1) [OF assms(1)] by (simp_all add: checkInQuery_def)
  have i: "1 \<le> i \<and> i < 254 \<and> i \<notin> usedInstances ?t ?q" using nextInstance_free [OF tree q(1)] assms(2,4) q(2) by simp
  then have "i \<noteq> 0" "i \<noteq> 255" by (auto simp: word_le_nat_alt word_less_nat_alt)
  then have ok: "?a \<notin> cmptKeys ?t \<and> nodeKey ?a \<in> nodeKeys ?t \<and> validIds ?a" "addrSubsystem ?a \<noteq> 255"
    using i q assms(2,3) by (simp_all add: usedInstances_def validIds_def checkInQuery_def)
  have "givenOk ?a (Some ?c)" by (simp add: givenOk_def clonable_def jausComponentCreate_def jausComponentUpdateTimestamp_def)
  from addComponent_law [OF tree ok(2) this handler_keeps [of nm env], of nm "nmClock env"] ok(1) assms(1)
  obtain t' w' where t': "addComponent [handleEvent env] (nmClock env) ?t nm ?a (Some ?c) = Some (True, t', w')" "treeOk t'" "since nm w'"
    "known t' = (subsKeys ?t, nodeKeys ?t, insert ?a (cmptKeys ?t))" by auto
  have s: "since nm (withTree t' w')" using t'(2,3) balance_withTree [of 0 nm w' t'] by simp
  obtain nm2 nm3 where n: "sendNodeChangedEvents env (withTree t' w') = Some nm2" "sendSubsystemChangedEvents env nm2 = Some nm3"
      "sends (withTree t' w') nm3"
    using tellBoth_posts [OF since_ok [OF s], of env] by (auto simp: posts_def bind_eq_Some_conv)
  have "since nm nm3" by (rule since_trans [OF s since_sends [OF n(3)]])
  moreover have "treeOf nm3 = t'" using n(3) by (simp add: sends_def)
  ultimately show ?thesis
    using assms(4) \<open>i \<noteq> 0\<close> t'(1,4) n(1,2) by (simp add: checkInLocalComponent_def checkInQuery_def changeTree_def)
qed

lemma checkIn_ok:
  assumes "nmOk nm" "getNextInstanceId (treeOf nm) (checkInQuery cmptId nm) \<noteq> None" "of_int cmptId \<notin> {0, 255 :: u8}"
  shows "\<exists>a nm'. checkInLocalComponent env cmptId nm = Some (a, nm') \<and> since nm nm'"
proof -
  obtain i where i: "getNextInstanceId (treeOf nm) (checkInQuery cmptId nm) = Some i" using assms(2) by blast
  show ?thesis
  proof (cases "nodeKey (ownAddress nm) \<in> nodeKeys (treeOf nm)")
    case True
    then show ?thesis using checkIn_known [OF assms(1) True assms(3) i, of env] by blast
  next
    case False
    have "findNodeAddress (treeOf nm) (ownAddress nm) = Some None"
      using nmOk_tree [OF assms(1)] nmOk_own(1) [OF assms(1)] by (cases rule: findNode_node) (use False in auto)
    then have "i = 0" using i by (simp add: getNextInstanceId_def checkInQuery_def findNodeAddress_def)
    then show ?thesis using i assms(1) by (simp add: checkInLocalComponent_def checkInQuery_def)
  qed
qed

lemma checkOut_ok:
  assumes "nmOk nm" "addrSubsystem a \<noteq> 255"
  shows "\<exists>nm'. checkOutLocalComponent env (uint (addrSubsystem a)) (uint (addrNode a)) (uint (addrComponent a)) (uint (addrInstance a)) nm =
      Some nm' \<and> since nm nm' \<and> known (treeOf nm') = (subsKeys (treeOf nm), nodeKeys (treeOf nm), cmptKeys (treeOf nm) - {a})"
proof -
  let ?t = "treeOf nm"
  from removeComponent_law [OF nmOk_tree [OF assms(1)] assms(2) handler_keeps [of nm env], of nm "nmClock env"] assms(1)
  obtain t' w' where t': "removeComponent [handleEvent env] (nmClock env) ?t nm (uint (addrSubsystem a)) (uint (addrNode a))
      (uint (addrComponent a)) (uint (addrInstance a)) = Some (a \<in> cmptKeys ?t, t', w')" "treeOk t'" "since nm w'"
    "known t' = (subsKeys ?t, nodeKeys ?t, cmptKeys ?t - {a})" by auto
  have s: "since nm (withTree t' w')" using t'(2,3) balance_withTree [of 0 nm w' t'] by simp
  obtain nm2 nm3 where n: "sendNodeChangedEvents env (withTree t' w') = Some nm2" "sendSubsystemChangedEvents env nm2 = Some nm3"
      "sends (withTree t' w') nm3"
    using tellBoth_posts [OF since_ok [OF s], of env] by (auto simp: posts_def bind_eq_Some_conv)
  have "since nm nm3" by (rule since_trans [OF s since_sends [OF n(3)]])
  moreover have "treeOf nm3 = t'" using n(3) by (simp add: sends_def)
  ultimately show ?thesis
    using s t'(1,4) n(1,2) by (simp add: checkOutLocalComponent_def changeTree_def)
qed

section \<open>Periodic work\<close>

definition works :: "'a LocalComponent_scheme \<Rightarrow> 'a LocalComponent_scheme exec \<Rightarrow> bool" where
  "works nm r \<longleftrightarrow> (\<exists>nm'. r = Some nm' \<and> balance 0 nm nm' \<and> nmInv nm')"

lemma worksI: "r = Some nm' \<Longrightarrow> balance 0 nm nm' \<Longrightarrow> nmInv nm' \<Longrightarrow> works nm r"
  by (auto simp: works_def)

lemma times_inv [simp]:
  "nmInv (nm\<lparr>nextSendTime := x\<rparr>) = nmInv nm" "nmInv (nm\<lparr>refreshTime := y\<rparr>) = nmInv nm" "nmInv (nm\<lparr>reconfigureTime := y\<rparr>) = nmInv nm"
  "balance d nm0 (nm\<lparr>nextSendTime := x\<rparr>) = balance d nm0 nm" "balance d nm0 (nm\<lparr>refreshTime := y\<rparr>) = balance d nm0 nm"
  "balance d nm0 (nm\<lparr>reconfigureTime := y\<rparr>) = balance d nm0 nm"
  by (simp_all add: nmInv_def nmOk_def subscriptionsOk_def subscriptions_def localOk_def balance_def)

lemma heartbeatTo_sendable: "sendable (heartbeatTo dest src)"
  using sendable_messages(9) [of "reportHeartbeatPulseMessageCreate\<lparr>source := src\<rparr>"]
  by (auto simp: sendable_def heartbeatTo_def cloneOk_iff dataBytes_def)

lemma generateHeartbeats_works:
  assumes "nmInv nm"
  shows "\<exists>nm'. nmGenerateHeartbeats env nm = Some nm' \<and> balance 0 nm nm' \<and> nmInv nm' \<and> treeOf nm' = treeOf nm"
proof -
  let ?own = "ownAddress nm"
  have ok: "nmOk nm" using assms by (simp add: nmInv_def)
  have p: "posts nm (do { nm1 \<leftarrow> transmitNew (heartbeatTo d1 s1) nm; transmitNew (heartbeatTo d2 s2) nm1 })" for d1 s1 d2 s2
    by (rule posts_bind [OF transmit_posts [OF ok heartbeatTo_sendable]]) (rule transmit_posts [OF sendsD(1) heartbeatTo_sendable])
  have "\<exists>nm1 nm2. transmitNew (heartbeatTo d1 s1) nm = Some nm1 \<and> transmitNew (heartbeatTo d2 s2) nm1 = Some nm2 \<and> sends nm nm2" for d1 s1 d2 s2
    using p [of d1 s1 d2 s2] by (auto simp: posts_def bind_eq_Some_conv)
  then obtain nm1 nm2 where n: "transmitNew (heartbeatTo (?own\<lparr>addrNode := 255, addrComponent := JAUS_NODE_MANAGER_COMPONENT, addrInstance := 1\<rparr>) ?own) nm = Some nm1"
    "transmitNew (heartbeatTo (?own\<lparr>addrComponent := 255, addrInstance := 255\<rparr>) ?own) nm1 = Some nm2" "sends nm nm2" by meson
  have "nmInv nm2" by (rule since_inv [OF assms since_sends [OF n(3)]])
  then show ?thesis using n assms ok by (simp add: nmGenerateHeartbeats_def Let_def sends_def)
qed

lemma reconfigureNodes_post:
  assumes "nmOk nm" "subs \<noteq> 255"
  shows "posts nm (reconfigureNodes subs ns nm)"
  using assms(1)
proof (induction ns arbitrary: nm)
  case (Cons n ns)
  have "addrSubsystem (nodeManagerAt subs (nodeId n)) \<noteq> 255" using assms(2) by (simp add: nodeManagerAt_def)
  from asks_bind [OF queries_ask(5) [OF Cons.prems this] Cons.IH, OF sendsD(1)] show ?case by simp
qed (simp add: posts_none)

lemma allState_works:
  assumes "nmInv nm" "parentsOk (treeOf nm)" "mySubsystemId (router nm) \<in> subsKeys (treeOf nm)"
    "treeSubsystemId (treeOf nm) = mySubsystemId (router nm)"
  shows "works nm (nmAllState env nm)"
proof -
  obtain nm1 where nm1: "nmGenerateHeartbeats env nm = Some nm1" "balance 0 nm nm1" "nmInv nm1" "treeOf nm1 = treeOf nm"
    using generateHeartbeats_works [OF assms(1)] by blast
  have ok1: "nmOk nm1" using nm1(3) by (simp add: nmInv_def)
  have own: "uint (addrSubsystem (ownAddress n)) = mySubsystemId (router nm)" if "balance 0 nm n" for n
    using that assms(1) by (simp add: balance_def nmInv_def nmOk_def)
  let ?t = "treeOf nm1"
  have "\<forall>i \<in> set subsystemIds. 0 \<le> i \<and> i < 255" "distinct subsystemIds" by (auto simp: distinct_map)
  then obtain t' w' where t': "refresh [handleEvent env] (nmClock env) (treeOf nm1) nm1 = Some (t', w')" "treeOk t'" "since nm1 w'"
    "sub t' = (\<lambda>i. if i \<in> set subsystemIds then sweep (treeSubsystemId ?t) (treeNodeId ?t) (nmClock env) (sub ?t i) else sub ?t i)"
    using refreshAll_law [OF nmOk_tree [OF ok1] _ _ _ handler_keeps [of nm1 env], of subsystemIds nm1 "nmClock env"] assms(2) nm1(4) ok1
    by (auto simp: refresh_def)
  have known: "mySubsystemId (router nm) \<in> subsKeys t'"
  proof -
    obtain s where s: "sub ?t (mySubsystemId (router nm)) = Some s" using assms(3) nm1(4) by (auto simp: subsKeys_def)
    moreover have "subsId s = mySubsystemId (router nm)"
      using treeOkD [OF nmOk_tree [OF ok1] s] by (simp add: okSubs_def)
    ultimately show ?thesis using assms(4) nm1(4) by (simp add: subsKeys_def dom_def t'(4) sweep_def)
  qed
  have s: "since nm1 (withTree t' w')" using t'(2,3) balance_withTree [of 0 nm1 w' t'] by simp
  define nm2 where "nm2 = (if nmTime env \<ge> refreshTime nm1 then (withTree t' w')\<lparr>refreshTime := nmTime env + REFRESH_TIME_SEC\<rparr> else nm1)"
  have nm2: "balance 0 nm nm2" "nmInv nm2" "mySubsystemId (router nm) \<in> subsKeys (treeOf nm2)"
    using nm1 s known assms(3) since_inv [OF nm1(3) s] balance_trans [OF nm1(2), of 0 "withTree t' w'"] by (simp_all add: nm2_def)
  have ok2: "nmOk nm2" using nm2(2) by (simp add: nmInv_def)
  obtain subs where subs: "sub (treeOf nm2) (mySubsystemId (router nm)) = Some subs" using nm2(3) by (auto simp: subsKeys_def)
  have id: "subsId subs = mySubsystemId (router nm)" using treeOkD [OF nmOk_tree [OF ok2] subs] by (simp add: okSubs_def)
  have "of_int (subsId subs) = addrSubsystem (ownAddress nm2)" using own [OF nm2(1)] id by (metis word_of_int_uint)
  then have "posts nm2 (reconfigureNodes (of_int (subsId (stampSubs (nmClock env) subs))) (subsNodes (stampSubs (nmClock env) subs)) nm2)"
    using nmOk_own(1) [OF ok2] by (intro reconfigureNodes_post [OF ok2]) (simp add: stampSubs_def)
  then obtain nm3 where nm3: "reconfigureNodes (of_int (subsId (stampSubs (nmClock env) subs))) (subsNodes (stampSubs (nmClock env) subs)) nm2 = Some nm3"
    "sends nm2 nm3" by (auto simp: posts_def)
  have "nmInv nm3" "balance 0 nm nm3"
    using since_inv [OF nm2(2) since_sends [OF nm3(2)]] balance_trans [OF nm2(1), of 0 nm3] nm3(2) by (simp_all add: sends_def)
  moreover have "getSubsystem (nmClock env) (treeOf nm2) (uint (addrSubsystem (ownAddress nm2))) = Some (Some (stampSubs (nmClock env) subs))"
    using getSubsystem_ok [OF nmOk_tree [OF ok2] unsigned_greater_eq [of "addrSubsystem (ownAddress nm2)"], of "nmClock env"] own [OF nm2(1)] subs nmOk_own(2) [OF ok2]
      unsigned_greater_eq [of "addrSubsystem (ownAddress nm2)"] by simp
  moreover have "nmAllState env nm = (if nmTime env \<ge> reconfigureTime nm2
      then do { got \<leftarrow> getSubsystem (nmClock env) (treeOf nm2) (uint (addrSubsystem (ownAddress nm2)));
                thisSubs \<leftarrow> got;
                nm3 \<leftarrow> reconfigureNodes (of_int (subsId thisSubs)) (subsNodes thisSubs) nm2;
                Some (nm3\<lparr>reconfigureTime := nmTime env + 30\<rparr>) }
      else Some nm2)"
    by (simp add: nmAllState_def nm1(1) t'(1) nm2_def)
  ultimately show ?thesis using nm2(1,2) nm3(1) by (simp add: works_def)
qed

text \<open>
  The periodic work in any state: when it returns, the state is well formed and the account holds. It follows null
  pointers when this subsystem is not in the tree, or when a node of it that timed out has no parent.
\<close>

lemma allState_returned:
  assumes "nmInv nm" "nmAllState env nm = Some nm'"
  shows "balance 0 nm nm' \<and> nmInv nm'"
proof -
  obtain nm1 where nm1: "nmGenerateHeartbeats env nm = Some nm1" "balance 0 nm nm1" "nmInv nm1"
    using generateHeartbeats_works [OF assms(1)] by blast
  have ok1: "nmOk nm1" using nm1(3) by (simp add: nmInv_def)
  obtain nm2 where nm2: "(if nmTime env \<ge> refreshTime nm1
      then do { (t, nm') \<leftarrow> refresh [handleEvent env] (nmClock env) (treeOf nm1) nm1;
                Some ((withTree t nm')\<lparr>refreshTime := nmTime env + REFRESH_TIME_SEC\<rparr>) }
      else Some nm1) = Some nm2"
    and rest: "(if nmTime env \<ge> reconfigureTime nm2
      then do { got \<leftarrow> getSubsystem (nmClock env) (treeOf nm2) (uint (addrSubsystem (ownAddress nm2)));
                thisSubs \<leftarrow> got;
                nm3 \<leftarrow> reconfigureNodes (of_int (subsId thisSubs)) (subsNodes thisSubs) nm2;
                Some (nm3\<lparr>reconfigureTime := nmTime env + 30\<rparr>) }
      else Some nm2) = Some nm'"
    using assms(2) unfolding nmAllState_def nm1(1) by (auto simp: bind_eq_Some_conv simp del: if_split split: option.splits)
  have two: "balance 0 nm nm2 \<and> nmInv nm2"
  proof (cases "nmTime env \<ge> refreshTime nm1")
    case True
    then obtain t w where t: "refresh [handleEvent env] (nmClock env) (treeOf nm1) nm1 = Some (t, w)"
      "nm2 = (withTree t w)\<lparr>refreshTime := nmTime env + REFRESH_TIME_SEC\<rparr>"
      using nm2 by (auto simp: bind_eq_Some_conv)
    have "\<forall>i \<in> set subsystemIds. 0 \<le> i \<and> i < 255" by auto
    then have "treeOk t \<and> since nm1 w"
      using refreshAll_returned [OF t(1) [unfolded refresh_def] nmOk_tree [OF ok1] _ handler_keeps [of nm1 env]] ok1 by simp
    then have "since nm1 (withTree t w)" using balance_withTree [of 0 nm1 w t] by simp
    then show ?thesis using t(2) since_inv [OF nm1(3)] balance_trans [OF nm1(2), of 0 "withTree t w"] by simp
  next
    case False
    then show ?thesis using nm1 nm2 by simp
  qed
  show ?thesis
  proof (cases "nmTime env \<ge> reconfigureTime nm2")
    case False
    then show ?thesis using two rest by simp
  next
    case True
    then obtain subs nm3 where subs: "getSubsystem (nmClock env) (treeOf nm2) (uint (addrSubsystem (ownAddress nm2))) = Some (Some subs)"
      and nm3: "reconfigureNodes (of_int (subsId subs)) (subsNodes subs) nm2 = Some nm3" "nm' = nm3\<lparr>reconfigureTime := nmTime env + 30\<rparr>"
      using rest by (auto simp: bind_eq_Some_conv)
    have ok2: "nmOk nm2" using two by (simp add: nmInv_def)
    let ?s = "uint (addrSubsystem (ownAddress nm2))"
    obtain x where x: "sub (treeOf nm2) ?s = Some x" "subs = stampSubs (nmClock env) x"
      using subs getSubsystem_ok [OF nmOk_tree [OF ok2] unsigned_greater_eq [of "addrSubsystem (ownAddress nm2)"] nmOk_own(2) [OF ok2], of "nmClock env"]
      by (auto split: option.splits)
    have "subsId subs = ?s" using treeOkD [OF nmOk_tree [OF ok2] x(1)] x(2) by (simp add: okSubs_def stampSubs_def)
    then have "posts nm2 (reconfigureNodes (of_int (subsId subs)) (subsNodes subs) nm2)"
      using nmOk_own(1) [OF ok2] by (intro reconfigureNodes_post [OF ok2]) simp
    then have "sends nm2 nm3" using nm3(1) by (auto simp: posts_def)
    then show ?thesis
      using nm3(2) two since_inv [OF _ since_sends, of nm2 nm3] balance_trans [of 0 nm nm2 0 nm3] by (simp add: sends_def)
  qed
qed

lemma stateMethod_works:
  assumes "nmInv nm"
  shows "balance 0 nm (nmStateMethod nm) \<and> nmInv (nmStateMethod nm)"
  using assms by (simp add: nmStateMethod_def nmInv_def nmOk_def localOk_def subscriptionsOk_def subscriptions_def balance_def)

section \<open>Runs\<close>

text \<open>What is left of the component when the first message of its own queue has been taken.\<close>

definition popped :: "'a LocalComponent_scheme \<Rightarrow> (JausMessage \<times> 'a LocalComponent_scheme) option" where
  "popped nm =
     (case popMessage (transports (router nm) ! localInf nm) of
        (None, _) \<Rightarrow> None
      | (Some m, jt) \<Rightarrow> Some (m, nm\<lparr>router := (router nm)\<lparr>transports := (transports (router nm))[localInf nm := jt]\<rparr>\<rparr>))"

text \<open>
  A run of the component, from its construction on router \<open>r0\<close> as interface \<open>k\<close>, with the number of messages that
  came in from outside: messages arrive at the interfaces of the three layers, the component takes messages that are
  acceptable from its queue, runs its state method and its periodic work (heartbeats, the refresh of the tree and the reconfiguration), starts and stops,
  and local components check in and out. The loop of the thread, \<open>nmPeriod\<close>, is made of these steps.
\<close>

inductive nmRun :: "Router \<Rightarrow> nat \<Rightarrow> nat \<Rightarrow> NodeManagerComponent \<Rightarrow> bool" for r0 k where
  constructed: "newNodeManagerComponent now (mySubsystemId r0) (myNodeId r0) k r0 = Inr nm \<Longrightarrow> nmRun r0 k 0 nm"
| arrives: "nmRun r0 k n nm \<Longrightarrow> msgOk m \<Longrightarrow> i \<in> set (layerInterfaces (router nm) L) \<Longrightarrow>
    receiveAt L (Some m) (Some i) (router nm) = Some (b, r) \<Longrightarrow> nmRun r0 k (Suc n) (nm\<lparr>router := r\<rparr>)"
| takes: "nmRun r0 k n nm \<Longrightarrow> popped nm = Some (m, nm1) \<Longrightarrow> envOk env \<Longrightarrow> acceptable env nm1 m \<Longrightarrow>
    nmProcessMessage env (Some m) nm1 = Some (b, nm2) \<Longrightarrow> nmRun r0 k n nm2"
| starts: "nmRun r0 k n nm \<Longrightarrow> nmStartInterface env nm = Some (b, nm') \<Longrightarrow> nmRun r0 k n nm'"
| stops: "nmRun r0 k n nm \<Longrightarrow> nmStopInterface env nm = Some (b, nm') \<Longrightarrow> nmRun r0 k n nm'"
| beats: "nmRun r0 k n nm \<Longrightarrow> nmGenerateHeartbeats env nm = Some nm' \<Longrightarrow> nmRun r0 k n nm'"
| works: "nmRun r0 k n nm \<Longrightarrow> nmAllState env nm = Some nm' \<Longrightarrow> nmRun r0 k n nm'"
| state: "nmRun r0 k n nm \<Longrightarrow> nmRun r0 k n (nmStateMethod nm)"
| checksIn: "nmRun r0 k n nm \<Longrightarrow> of_int c \<notin> {0, 255 :: u8} \<Longrightarrow> checkInLocalComponent env c nm = Some (a, nm') \<Longrightarrow> nmRun r0 k n nm'"
| checksOut: "nmRun r0 k n nm \<Longrightarrow> addrSubsystem (a :: JausAddress) \<noteq> 255 \<Longrightarrow>
    checkOutLocalComponent env (uint (addrSubsystem a)) (uint (addrNode a)) (uint (addrComponent a)) (uint (addrInstance a)) nm = Some nm' \<Longrightarrow>
    nmRun r0 k n nm'"

definition account :: "Router \<Rightarrow> nat \<Rightarrow> 'a LocalComponent_scheme \<Rightarrow> bool" where
  "account r0 n nm \<longleftrightarrow> census (router nm) + clones r0 = census r0 + n + created nm + clones (router nm)"

lemma account_balance: "account r0 n nm \<Longrightarrow> balance d nm nm' \<Longrightarrow> account r0 (n + d) nm'"
  by (simp add: account_def balance_def)

lemma received:
  assumes "nmOk nm" "msgOk m" "i \<in> set (layerInterfaces (router nm) L)"
  shows "\<exists>b r. receiveAt L (Some m) (Some i) (router nm) = Some (b, r) \<and> balance 1 nm (nm\<lparr>router := r\<rparr>)"
proof -
  let ?st = "learn L m i (router nm)"
  have st: "routerOk (router nm)" using assms(1) by (simp add: nmOk_def)
  have ok: "routerOk ?st" by (rule routerOk_learn [OF st assms(3)])
  obtain b r es where r: "receiveAt L (Some m) (Some i) (router nm) = Some (b, r)" "routed m (entryT L m ?st) es ?st r"
    using receive_routes [OF st assms(2,3)] by (auto simp: routes_def)
  have "census r + clones ?st = census ?st + clones r + 1"
    by (rule census_routed [OF r(2) entryT_range [OF ok assms(2)]])
  moreover have "routerOk r" using routed_ok [OF r(2)] ok by simp
  moreover have "interfaces (cmptComms r) = interfaces (cmptComms (router nm))" "mySubsystemId r = mySubsystemId (router nm)"
      "myNodeId r = myNodeId (router nm)" "length (transports r) = length (transports (router nm))"
    using r(2) learn_same(8) [of L m i "router nm" CmptLayer] by (auto simp: routed_def)
  ultimately show ?thesis using r(1) assms(1) by (simp add: balance_def nmOk_def census_def)
qed

lemma popped_inv:
  assumes "nmInv nm" "popped nm = Some (m, nm1)"
  shows "nmInv nm1" "census (router nm) = Suc (census (router nm1))" "clones (router nm1) = clones (router nm)" "created nm1 = created nm"
    "balance 1 nm1 nm' \<Longrightarrow> balance 0 nm nm'"
proof -
  let ?i = "localInf nm" and ?ts = "transports (router nm)"
  obtain rest where q: "infQueue (?ts ! ?i) = m # rest"
    and nm1: "nm1 = nm\<lparr>router := (router nm)\<lparr>transports := ?ts[?i := (?ts ! ?i)\<lparr>infQueue := rest\<rparr>]\<rparr>\<rparr>"
    using assms(2) by (auto simp: popped_def popMessage_def split: list.splits)
  have i: "?i < length ?ts" using assms(1) by (auto simp: nmInv_def nmOk_def routerOk_def mngrOk_def)
  have "routerOk (router nm1) = routerOk (router nm)" unfolding nm1 by (rule routerOk_same) simp_all
  then show inv: "nmInv nm1"
    using assms(1) by (simp add: nm1 nmInv_def nmOk_def subscriptionsOk_def subscriptions_def localOk_def)
  have "sum_list (map (\<lambda>t. length (infQueue t)) ?ts) = Suc (sum_list (map (\<lambda>t. length (infQueue t)) (?ts[?i := (?ts ! ?i)\<lparr>infQueue := rest\<rparr>])))"
    using i q elem_le_sum_list [of ?i "map (\<lambda>t. length (infQueue t)) ?ts"] by (simp add: map_update sum_list_update)
  then show c: "census (router nm) = Suc (census (router nm1))" "clones (router nm1) = clones (router nm)" "created nm1 = created nm"
    by (simp_all add: nm1 census_def)
  show "balance 0 nm nm'" if "balance 1 nm1 nm'" using that c by (simp add: balance_def nm1)
qed

lemma run_invariant:
  assumes "nmRun r0 k n nm" "routerOk r0" "k \<in> set (interfaces (cmptComms r0))"
  shows "nmInv nm \<and> account r0 n nm"
  using assms(1)
proof induction
  case (constructed now nm)
  then have "router nm = r0" "created nm = 0" by (auto simp: newNodeManagerComponent_def Let_def split: if_splits)
  then show ?case using constructed_inv [OF constructed assms(2,3)] by (simp add: account_def)
next
  case (arrives n nm m i L b r)
  then have "balance 1 nm (nm\<lparr>router := r\<rparr>)" using received [of nm m i L] by (auto simp: nmInv_def)
  moreover have "nmInv (nm\<lparr>router := r\<rparr>)"
    using arrives.IH balance_ok [OF calculation] by (simp add: nmInv_def subscriptionsOk_def subscriptions_def localOk_def)
  ultimately show ?case using account_balance [of r0 n nm 1] arrives.IH by simp
next
  case (takes n nm m nm1 env b nm2)
  have p: "nmInv nm" "account r0 n nm" using takes.IH by simp_all
  note q = popped_inv [OF p(1) takes.hyps(2)]
  have "serves nm1 (nmProcessMessage env (Some m) nm1)"
    using acceptable_served [OF takes.hyps(4) q(1) takes.hyps(3), of 0] by (simp add: cloned_def)
  then have "balance 1 nm1 nm2" "nmInv nm2" using takes.hyps(5) by (auto simp: serves_def)
  then show ?case using account_balance [OF p(2) q(5)] by auto
next
  case (starts n nm env b nm')
  then have "since nm nm'" using start_ok [of nm env] by auto
  then show ?case using starts.IH since_inv [of nm nm'] account_balance [of r0 n nm 0 nm'] by auto
next
  case (stops n nm env b nm')
  then have "since nm nm'" using stop_ok [of nm env] by (auto simp: nmInv_def)
  then show ?case using stops.IH since_inv [of nm nm'] account_balance [of r0 n nm 0 nm'] by auto
next
  case (beats n nm env nm')
  then show ?case using generateHeartbeats_works [of nm env] account_balance [of r0 n nm 0 nm'] by auto
next
  case (works n nm env nm')
  then show ?case using allState_returned [of nm env nm'] account_balance [of r0 n nm 0 nm'] by auto
next
  case (state n nm)
  then show ?case using stateMethod_works [of nm] account_balance [of r0 n nm 0 "nmStateMethod nm"] by auto
next
  case (checksIn n nm c env a nm')
  have "getNextInstanceId (treeOf nm) (checkInQuery c nm) \<noteq> None"
    using checksIn.hyps(3) by (auto simp: checkInLocalComponent_def checkInQuery_def Let_def bind_eq_Some_conv)
  then have "since nm nm'" using checksIn checkIn_ok [of nm c env] by (auto simp: nmInv_def)
  then show ?case using checksIn.IH since_inv [of nm nm'] account_balance [of r0 n nm 0 nm'] by auto
next
  case (checksOut n nm a env nm')
  then have "since nm nm'" using checkOut_ok [of nm a env] by (auto simp: nmInv_def)
  then show ?case using checksOut.IH since_inv [of nm nm'] account_balance [of r0 n nm 0 nm'] by auto
qed

end
