(* ===== verification/CommunicatorLaws.thy ===== *)
theory CommunicatorLaws
  imports Communicator NodeManagerRuns
begin

text \<open>
  What the communicator does with any message, in the terms of the node manager's component: its state stays well formed
  (\<open>nmInv\<close>), and the account of messages is settled, except that a query for the configuration of a subsystem counts
  twice, because the program frees it twice. \<open>settles\<close> states the excess exactly: it is one for a message that makes the
  communicator ask for a configuration (\<open>asks\<close>), and none for any other.
\<close>

section \<open>Accounts with an excess\<close>

definition settles :: "nat \<Rightarrow> 'a LocalComponent_scheme \<Rightarrow> (bool \<times> 'a LocalComponent_scheme) exec \<Rightarrow> bool" where
  "settles d cm r \<longleftrightarrow> (\<exists>b cm'. r = Some (b, cm') \<and> balance (Suc d) cm cm' \<and> nmInv cm')"

lemma serves_settles: "serves cm r \<Longrightarrow> settles 0 cm r"
  unfolding serves_def settles_def One_nat_def by blast

lemma handles_settles: "nmInv cm \<Longrightarrow> handles cm r \<Longrightarrow> settles 0 cm r"
  by (rule serves_settles [OF handles_serves])

lemma balance_settles: "balance 0 cm cm1 \<Longrightarrow> settles d cm1 r \<Longrightarrow> settles d cm r"
  using balance_trans [of 0 cm cm1 "Suc d"] by (fastforce simp: settles_def)

lemma error_settles: "nmInv cm \<Longrightarrow> settles 0 cm (finishWith b m (nmError kind why cm))"
  by (rule handles_settles) (simp_all add: error_handles nmInv_def)

lemma finish_settles: "nmInv cm \<Longrightarrow> settles 0 cm (finishWith b m cm)"
  by (rule handles_settles) (simp_all add: finish_handles nmInv_def)

lemma nmError_inv: "nmInv cm \<Longrightarrow> nmInv (nmError kind why cm)"
  using since_inv [of cm] nmError_ok [of cm] by (simp add: nmInv_def)

text \<open>The query for the configuration of a subsystem: one message more is destroyed than was made.\<close>

lemma cmSendQuery_settled:
  assumes "nmOk cm" "addrSubsystem a \<noteq> 255"
  shows "\<exists>b cm'. cmSendQuerySubsystemConfiguration a createEvent cm = Some (b, cm') \<and> quiet cm cm' \<and> treeOf cm' = treeOf cm \<and>
    (b \<longleftrightarrow> hasSubsystem (treeOf cm) a = Some True \<and> hasSubsystemConfiguration (treeOf cm) a = Some False) \<and>
    balance (if b then 1 else 0) cm cm'"
proof -
  note tree = nmOk_tree [OF assms(1)]
  obtain known conf where has: "hasSubsystem (treeOf cm) a = Some known" "hasSubsystemConfiguration (treeOf cm) a = Some conf"
    using has_total(1,5) [OF tree assms(2)] by blast
  show ?thesis
  proof (cases "known \<and> \<not> conf")
    case False
    then show ?thesis using has assms(1) by (auto simp: cmSendQuerySubsystemConfiguration_def)
  next
    case True
    obtain q where q: "addressed a (ownAddress cm) (queryConfigurationMessageToJausMessage (configurationQuery JAUS_SUBSYSTEM_CONFIGURATION)) = Some q"
        "cloneOk q"
      using sendable_addressed [OF sendable_messages(2)] by (metis sendable_def)
    let ?cm = "cm\<lparr>created := created cm + 1\<rparr>"
    have "nmOk ?cm" using assms(1) by (simp add: nmOk_def)
    from handOver_posts [OF this q(2)] obtain cm1 where cm1: "handOver q ?cm = Some cm1" "balance 1 ?cm cm1" "quiet ?cm cm1"
        "treeOf cm1 = treeOf ?cm" by blast
    define cm2 where "cm2 = cm1\<lparr>router := destroyMessage (Some q) (router cm1)\<rparr>"
    have b1: "balance 0 cm cm1" "quiet cm cm1" "treeOf cm1 = treeOf cm" using cm1(2-4) by (simp_all add: balance_def quiet_def)
    have b2: "balance 1 cm cm2" "quiet cm cm2" "treeOf cm2 = treeOf cm"
      using finish_balance [OF balance_ok [OF b1(1)], of True q] b1 balance_trans [OF b1(1), of 1] quiet_trans [OF b1(2)]
      by (simp_all add: finishWith_def cm2_def)
    obtain ce where ce: "configurationEvent JAUS_SUBSYSTEM_CONFIGURATION = Some ce" "sendable (createEventMessageToJausMessage ce)"
      using queryConfiguration_event_sendable by blast
    obtain cm3 where cm3: "transmitNew (addressed a (ownAddress cm2) (createEventMessageToJausMessage ce)) cm2 = Some cm3" "sends cm2 cm3"
      using transmit_posts [OF balance_ok [OF b2(1)] sendable_addressed [OF ce(2)]] by (auto simp: posts_def)
    have "balance 1 cm cm3" "quiet cm cm3" "treeOf cm3 = treeOf cm"
      using cm3(2) b2 balance_trans [OF b2(1), of 0] quiet_trans [OF b2(2)] by (simp_all add: sends_def)
    moreover have "cmSendQuerySubsystemConfiguration a createEvent cm = Some (True, if createEvent then cm3 else cm2)"
      using True has q(1) cm1(1) ce(1) cm3(1) by (simp add: cmSendQuerySubsystemConfiguration_def Let_def flip: cm2_def)
    ultimately show ?thesis using True has b2 by (intro exI [of _ True] exI [of _ "if createEvent then cm3 else cm2"]) simp
  qed
qed

lemma cmSendQuery_settles:
  assumes "nmInv cm" "addrSubsystem a \<noteq> 255"
  shows "settles (of_bool (hasSubsystem (treeOf cm) a = Some True \<and> hasSubsystemConfiguration (treeOf cm) a = Some False)) cm
    (do { (_, cm1) \<leftarrow> cmSendQuerySubsystemConfiguration a createEvent cm; finishWith b m cm1 })"
proof -
  have ok: "nmOk cm" using assms(1) by (simp add: nmInv_def)
  obtain c cm1 where cm1: "cmSendQuerySubsystemConfiguration a createEvent cm = Some (c, cm1)" "quiet cm cm1"
      "balance (if c then 1 else 0) cm cm1"
      "c \<longleftrightarrow> hasSubsystem (treeOf cm) a = Some True \<and> hasSubsystemConfiguration (treeOf cm) a = Some False"
    using cmSendQuery_settled [OF ok assms(2)] by blast
  note b = balance_ok [OF cm1(3)]
  obtain cm2 where cm2: "finishWith b m cm1 = Some (b, cm2)" "balance 1 cm1 cm2" "quiet cm1 cm2" using finish_balance [OF b] by blast
  have "nmInv cm2"
    using assms(1) quiet_inv [OF quiet_trans [OF cm1(2) cm2(3)]] balance_ok [OF cm2(2)] by (simp add: nmInv_def)
  moreover have "balance (Suc (if c then 1 else 0)) cm cm2" using balance_trans [OF cm1(3) cm2(2)] by simp
  ultimately show ?thesis using cm1(1) cm2(1) unfolding settles_def cm1(4) [symmetric] by (cases c) force+
qed

section \<open>Changes of the tree\<close>

lemma ignore_keeps: "keeps P [ignoreEvent]"
  by (simp add: keeps_def ignoreEvent_def)

lemma cmChangeTree_changes:
  assumes "\<exists>b t' w'. operation [ignoreEvent] (nmClock env) (treeOf cm) cm = Some (b, t', w') \<and> treeOk t' \<and> since cm w'"
  shows "changes cm (cmChangeTree env operation cm)"
  using assms balance_withTree by (fastforce simp: cmChangeTree_def changes_def)

lemma cm_tree_changes:
  assumes "nmOk cm" "addrSubsystem a \<noteq> 255"
  shows "changes cm (cmChangeTree env (\<lambda>hs now t w. addSubsystem hs now t w (uint (addrSubsystem a)) None) cm)"
    "changes cm (cmChangeTree env (\<lambda>hs now t w. removeSubsystem hs now t w (uint (addrSubsystem a))) cm)"
proof -
  note tree = nmOk_tree [OF assms(1)] and range = proper_range [OF assms(2)]
  have here: "since cm cm" and kept: "keeps (since cm) [ignoreEvent]" using assms(1) by (simp_all add: ignore_keeps)
  show "changes cm (cmChangeTree env (\<lambda>hs now t w. addSubsystem hs now t w (uint (addrSubsystem a)) None) cm)"
    using addSubsystem_law [OF tree _ range _ kept here, of None "nmClock env"] by (intro cmChangeTree_changes) auto
  show "changes cm (cmChangeTree env (\<lambda>hs now t w. removeSubsystem hs now t w (uint (addrSubsystem a))) cm)"
    using removeSubsystem_law [OF tree _ range kept here, of "nmClock env"] by (intro cmChangeTree_changes) auto
qed

lemma cm_changedEvents:
  assumes "nmOk cm"
  shows "\<exists>cm'. cmSendSubsystemChangedEvents env cm = Some cm' \<and> since cm cm'"
proof (cases "sub (treeOf cm) (uint (addrSubsystem (ownAddress cm)))")
  case None
  then show ?thesis
    using getSubsystem_ok [OF nmOk_tree [OF assms] _ nmOk_own(2) [OF assms], of "nmClock env"] nmError_ok [OF assms]
    by (simp add: cmSendSubsystemChangedEvents_def)
next
  case (Some subs)
  then have "cmSendSubsystemChangedEvents env cm = sendSubsystemChangedEvents env cm"
    using getSubsystem_ok [OF nmOk_tree [OF assms] _ nmOk_own(2) [OF assms], of "nmClock env"]
    by (simp add: cmSendSubsystemChangedEvents_def sendSubsystemChangedEvents_def)
  then show ?thesis using changedEvents_post(2) [OF assms, of env] since_sends by (auto simp: posts_def)
qed

section \<open>Messages\<close>

text \<open>
  The messages that make the communicator ask: a heartbeat of a known subsystem that is identified, and the
  identification of a known subsystem, when the subsystem has no configuration yet.
\<close>

definition asksConfiguration :: "NmEnv \<Rightarrow> 'a LocalComponent_scheme \<Rightarrow> JausMessage \<Rightarrow> bool" where
  "asksConfiguration env cm m \<longleftrightarrow>
     hasSubsystem (treeOf cm) (source m) = Some True \<and> hasSubsystemConfiguration (treeOf cm) (source m) = Some False \<and>
     (commandCode m = JAUS_REPORT_HEARTBEAT_PULSE \<and> \<not> jausAddressEqual (source m) (ownAddress cm) \<and>
        hasSubsystemIdentification (treeOf cm) (source m) = Some True \<or>
      commandCode m = JAUS_REPORT_IDENTIFICATION \<and>
        (\<exists>r. reportIdentificationMessageFromJausMessage (junkNmReportId env) m = Some (Some r) \<and>
             reportIdentification_queryType r = JAUS_QUERY_FIELD_SS_IDENTITY))"

lemma set_same:
  assumes "treeOk t" "addrSubsystem a \<noteq> 255"
    "operation = updateSubsystemTimestamp now \<or> operation = (\<lambda>t a. setSubsystemIdentification t a str)" "operation t a = Some (b, t')"
  shows "hasSubsystem t' a = hasSubsystem t a" "hasSubsystemConfiguration t' a = hasSubsystemConfiguration t a"
    "operation = updateSubsystemTimestamp now \<Longrightarrow> hasSubsystemIdentification t' a = hasSubsystemIdentification t a"
proof -
  let ?s = "uint (addrSubsystem a)"
  note at = at_proper [OF assms(1,2)]
  obtain f where t': "t' = (case sub t ?s of None \<Rightarrow> t | Some _ \<Rightarrow> updSubs t ?s f)" "\<And>x. subsNodes (f x) = subsNodes x"
    "operation = updateSubsystemTimestamp now \<Longrightarrow> \<forall>x. subsIdentification (f x) = subsIdentification x"
  proof (cases "operation = updateSubsystemTimestamp now")
    case True
    show ?thesis
      by (rule that [of "jausSubsystemUpdateTimestamp now"])
        (use True assms(4) at in \<open>auto simp: updateSubsystemTimestamp_def jausSubsystemUpdateTimestamp_def split: option.splits\<close>)
  next
    case False
    then have "setSubsystemIdentification t a str = Some (b, t')" using assms(3,4) by simp
    then show ?thesis
      by (intro that [of "\<lambda>s. s\<lparr>subsIdentification := Some str\<rparr>"])
        (use False at in \<open>auto simp: setSubsystemIdentification_def split: option.splits\<close>)
  qed
  have len: "length (system t') = length (system t)" by (simp add: t'(1) updSubs_def split: option.split)
  have sub: "sub t' ?s = map_option f (sub t ?s)" using t'(1) by (auto simp: sub_updSubs split: option.split)
  have "systemAt t' ?s = Some (sub t' ?s)" using at len by (simp add: systemAt_def sub_def split: if_splits)
  then show "hasSubsystem t' a = hasSubsystem t a" "hasSubsystemConfiguration t' a = hasSubsystemConfiguration t a"
    "operation = updateSubsystemTimestamp now \<Longrightarrow> hasSubsystemIdentification t' a = hasSubsystemIdentification t a"
    using at sub t'(2,3)
    by (auto simp: hasSubsystem_def hasSubsystemConfiguration_def hasSubsystemIdentification_def split: option.splits)
qed

lemma orError_settles:
  assumes "nmInv cm" "\<exists>r. unpacked = Some r" "settles 0 cm (process m cm)"
  shows "settles 0 cm (orError kind why unpacked process m cm)"
  using assms error_settles [OF assms(1)] by (auto simp: orError_def split: option.split)

lemma cmReportHeartbeat_settles:
  assumes "nmInv cm" "addrSubsystem (source m) \<noteq> 255" "commandCode m = JAUS_REPORT_HEARTBEAT_PULSE"
  shows "settles (of_bool (asksConfiguration env cm m)) cm (cmProcessReportHeartbeatPulse env m cm)"
proof -
  let ?src = "source m"
  have ok: "nmOk cm" using assms(1) by (simp add: nmInv_def)
  note tree = nmOk_tree [OF ok] and range = proper_range [OF assms(2)]
  have ask: "handles cm1 (do { (_, cm2) \<leftarrow> sendQuerySubsystemIdentification ?src cm1; finishWith True m cm2 })"
    if "nmOk cm1" for cm1 :: "'a LocalComponent_scheme" by (rule asks_finish [OF that queries_ask(2) [OF that assms(2)]])
  show ?thesis
  proof (cases "hasSubsystem (treeOf cm) ?src = Some False")
    case True
    have "handles cm (do { (_, cm1) \<leftarrow> cmChangeTree env (\<lambda>hs now t w. addSubsystem hs now t w (uint (addrSubsystem ?src)) None) cm;
        (_, cm2) \<leftarrow> sendQuerySubsystemIdentification ?src cm1; finishWith True m cm2 })"
      by (rule handles_changes [OF cm_tree_changes(1) [OF ok assms(2)]]) (rule ask, erule since_ok)
    moreover have "\<not> asksConfiguration env cm m" using True by (simp add: asksConfiguration_def)
    ultimately show ?thesis
      using handles_settles [OF assms(1)] True error_settles [OF assms(1)] by (simp add: cmProcessReportHeartbeatPulse_def Let_def)
  next
    case False
    then have known: "hasSubsystem (treeOf cm) ?src = Some True" using has_total(1) [OF tree assms(2)] by auto
    obtain cm1 where cm1: "setTree (\<lambda>t. updateSubsystemTimestamp (nmClock env) t ?src) cm = Some cm1" "since cm cm1"
      using setTree_ok [where operation = "\<lambda>t. updateSubsystemTimestamp (nmClock env) t ?src", OF ok] timestamps_refine(1) [OF tree assms(2)] by blast
    have inv: "nmInv cm1" by (rule since_inv [OF assms(1) cm1(2)])
    note ok1 = since_ok [OF cm1(2)] and tree1 = nmOk_tree [OF since_ok [OF cm1(2)]]
    obtain ident conf where has: "hasSubsystemIdentification (treeOf cm1) ?src = Some ident" "hasSubsystemConfiguration (treeOf cm1) ?src = Some conf"
      using has_total(4,5) [OF tree1 assms(2)] by blast
    obtain b where "updateSubsystemTimestamp (nmClock env) (treeOf cm) ?src = Some (b, treeOf cm1)"
      using cm1(1) by (auto simp: setTree_def bind_eq_Some_conv)
    note same = set_same [OF tree assms(2) disjI1 [OF refl] this]
    have asks: "asksConfiguration env cm m \<longleftrightarrow> \<not> jausAddressEqual ?src (ownAddress cm) \<and> ident \<and> \<not> conf"
      using assms(3) known has same by (auto simp: asksConfiguration_def)
    have known1: "hasSubsystem (treeOf cm1) ?src = Some True" using known same(1) by simp
    have "posts cm1 (queryNodes (\<lambda>node. nodeManagerAt (addrSubsystem ?src) (nodeId node)) (subsNodes (stampSubs (nmClock env) subs)) cm1)"
      if "sub (treeOf cm1) (uint (addrSubsystem ?src)) = Some subs" for subs
      using of_tree_proper [OF tree1 that range] assms(2)
      by (intro queryNodes_post ok1) (auto simp: nodeManagerAt_def stampSubs_def stampNode_def jausComponentUpdateTimestamp_def)
    then have "settles 0 cm1 (do { got \<leftarrow> getSubsystem (nmClock env) (treeOf cm1) (uint (addrSubsystem ?src));
                 (case got of
                    None \<Rightarrow> finishWith False m (nmError MemoryFailure ''Could not retrieve Subsystem pointer from System Tree'' cm1)
                  | Some subs \<Rightarrow>
                      do { cm2 \<leftarrow> queryNodes (\<lambda>node. nodeManagerAt (addrSubsystem ?src) (nodeId node)) (subsNodes subs) cm1;
                           finishWith True m cm2 }) })"
      using getSubsystem_ok [OF tree1 _ range, of "nmClock env"] handles_settles [OF inv posts_finish [OF ok1]] error_settles [OF inv]
      by (auto split: option.split)
    then have "settles (of_bool (ident \<and> \<not> conf)) cm1 (cmProcessReportHeartbeatPulse env m cm)"
      if "\<not> jausAddressEqual ?src (ownAddress cm)"
      using that known cm1(1) has handles_settles [OF inv ask [OF ok1]] cmSendQuery_settles [OF inv assms(2), of True True m] known1
      by (cases ident; cases conf) (simp_all add: cmProcessReportHeartbeatPulse_def Let_def)
    then show ?thesis
      using balance_settles [of cm cm1] cm1(2) error_settles [OF assms(1)]
      by (cases "jausAddressEqual ?src (ownAddress cm)") (simp_all add: asks cmProcessReportHeartbeatPulse_def Let_def)
  qed
qed


definition cmConfigurationAccepted :: "'a LocalComponent_scheme \<Rightarrow> JausAddress \<Rightarrow> JausSubsystem \<Rightarrow> bool" where
  "cmConfigurationAccepted cm src subs \<longleftrightarrow>
     (addrSubsystem src = addrSubsystem (ownAddress cm) \<and> addrComponent src = JAUS_NODE_MANAGER_COMPONENT) \<or>
     subsNodes subs = [] \<or> reportedOk (uint (addrSubsystem src)) subs"

lemma cmReportConfiguration_settles:
  assumes "nmInv cm" "cloneOk m" "addrSubsystem (source m) \<noteq> 255"
    "\<And>r. reportConfigurationMessageFromJausMessage (nmClock env) (junkNmReportConf env) m = Some (Some r) \<Longrightarrow>
       cmConfigurationAccepted cm (source m) (reportConfiguration_subsystem r)"
  shows "settles 0 cm (cmProcessReportConfiguration env m cm)"
proof (cases "addrSubsystem (source m) = addrSubsystem (ownAddress cm) \<and> addrComponent (source m) = JAUS_NODE_MANAGER_COMPONENT")
  case True
  obtain cm1 where cm1: "cmSendSubsystemChangedEvents env cm = Some cm1" "since cm cm1"
    using cm_changedEvents [of cm env] assms(1) by (auto simp: nmInv_def)
  have "settles 0 cm (finishWith True m cm1)"
    using cm1(2) by (intro balance_settles [of cm cm1] finish_settles since_inv [OF assms(1)]) simp_all
  then show ?thesis using True cm1(1) by (simp add: cmProcessReportConfiguration_def)
next
  case False
  have ok: "nmOk cm" using assms(1) by (simp add: nmInv_def)
  note tree = nmOk_tree [OF ok] and range = proper_range [OF assms(3)]
  obtain r where r: "reportConfigurationMessageFromJausMessage (nmClock env) (junkNmReportConf env) m = Some r"
      "\<forall>x. r = Some x \<longrightarrow> source x = source m"
    using configuration_unpacked [OF assms(2)] by blast
  show ?thesis
  proof (cases r)
    case None
    then show ?thesis using False r error_settles [OF assms(1)] by (simp add: cmProcessReportConfiguration_def del: de_Morgan_conj)
  next
    case (Some x)
    let ?s = "uint (addrSubsystem (source m))" and ?reported = "reportConfiguration_subsystem x"
    have src: "source x = source m" using r(2) Some by simp
    have removed: "handles cm (do { (_, cm1) \<leftarrow> cmChangeTree env (\<lambda>hs now t w. removeSubsystem hs now t w ?s) cm; finishWith True m cm1 })"
      by (rule handles_changes [OF cm_tree_changes(2) [OF ok assms(3)]]) (rule finish_handles, erule since_ok)
    have replaced: "handles cm (do { (_, cm1) \<leftarrow> cmChangeTree env (\<lambda>hs now t w. replaceSubsystem hs now t w ?s ?reported) cm;
        got \<leftarrow> getSubsystem (nmClock env) (treeOf cm1) ?s;
        subs \<leftarrow> got;
        cm2 \<leftarrow> queryNodes (\<lambda>_. nodeManagerAt (addrSubsystem (source m)) (addrNode (source m))) (subsNodes subs) cm1;
        finishWith True m cm2 })" if nodes: "subsNodes ?reported \<noteq> []" and key: "?s \<in> subsKeys (treeOf cm)"
    proof -
      have new: "reportedOk ?s ?reported" using assms(4) r(1) Some nodes False by (auto simp: cmConfigurationAccepted_def)
      obtain old where "sub (treeOf cm) ?s = Some old" using key by (auto simp: subsKeys_def)
      from replaceSubsystem_law [OF tree _ range this, of ?reported "[ignoreEvent]" "nmClock env" cm] new
      obtain t subs where t: "replaceSubsystem [ignoreEvent] (nmClock env) (treeOf cm) cm ?s ?reported = Some (True, t, cm)" "treeOk t"
          "sub t = (sub (treeOf cm))(?s \<mapsto> subs)"
        by (auto simp: reportedOk_def)
      let ?cm = "withTree t cm"
      have ok1: "nmOk ?cm" by (rule nmOk_withTree [OF ok t(2)])
      have here: "since cm ?cm" using balance_withTree [OF balance_refl [OF ok] t(2)] by simp
      have at: "sub t ?s = Some subs" using t(3) by simp
      have "posts ?cm (queryNodes (\<lambda>_. nodeManagerAt (addrSubsystem (source m)) (addrNode (source m))) (subsNodes (stampSubs (nmClock env) subs)) ?cm)"
        using of_tree_proper [OF t(2) at range] assms(3)
        by (intro queryNodes_post ok1) (auto simp: nodeManagerAt_def stampSubs_def stampNode_def jausComponentUpdateTimestamp_def)
      from since_handles [OF here posts_finish [OF ok1 this]] show ?thesis
        using t(1) getSubsystem_ok [OF t(2) _ range, of "nmClock env"] at by (simp add: cmChangeTree_def)
    qed
    show ?thesis
      using False r Some src has_keys(3) [OF tree assms(3)] error_settles [OF assms(1)] handles_settles [OF assms(1) removed]
        handles_settles [OF assms(1) replaced]
      by (simp add: cmProcessReportConfiguration_def Let_def del: de_Morgan_conj)
  qed
qed

lemma cmReportIdentification_settles:
  assumes "nmInv cm" "cloneOk m" "addrSubsystem (source m) \<noteq> 255" "length (reportIdentification_identification (junkNmReportId env)) = 80"
    "\<And>r. reportIdentificationMessageFromJausMessage (junkNmReportId env) m = Some (Some r) \<Longrightarrow>
       strlen (reportIdentification_identification r) \<noteq> None"
    "commandCode m = JAUS_REPORT_IDENTIFICATION"
  shows "settles (of_bool (asksConfiguration env cm m)) cm (cmProcessReportIdentification env m cm)"
proof -
  have ok: "nmOk cm" using assms(1) by (simp add: nmInv_def)
  obtain r where r: "reportIdentificationMessageFromJausMessage (junkNmReportId env) m = Some r" "\<forall>x. r = Some x \<longrightarrow> source x = source m"
    using identification_unpacked [OF assms(2,4)] by blast
  note tree = nmOk_tree [OF ok] and err = error_settles [OF assms(1)]
  show ?thesis
  proof (cases r)
    case None
    then show ?thesis using r err assms(6) by (simp add: cmProcessReportIdentification_def asksConfiguration_def)
  next
    case (Some x)
    obtain str where str: "cString (reportIdentification_identification x) = Some str"
      using assms(5) r(1) Some by (auto simp: cString_def)
    let ?ask = "hasSubsystem (treeOf cm) (source m) = Some True \<and> hasSubsystemConfiguration (treeOf cm) (source m) = Some False"
    have asks: "asksConfiguration env cm m \<longleftrightarrow> ?ask \<and> reportIdentification_queryType x = JAUS_QUERY_FIELD_SS_IDENTITY"
      using assms(6) r(1) Some by (simp add: asksConfiguration_def conj_assoc)
    have "settles (of_bool ?ask) cm (do { cm1 \<leftarrow> setTree (\<lambda>t. setSubsystemIdentification t (source m) str) cm;
        (_, cm2) \<leftarrow> cmSendQuerySubsystemConfiguration (source m) True cm1; finishWith True m cm2 })"
    proof -
      obtain cm1 where cm1: "setTree (\<lambda>t. setSubsystemIdentification t (source m) str) cm = Some cm1" "since cm cm1"
        using setTree_since [where operation = "\<lambda>t. setSubsystemIdentification t (source m) str", OF ok identifications_refine(1) [OF tree assms(3)]]
        by blast
      obtain b where "setSubsystemIdentification (treeOf cm) (source m) str = Some (b, treeOf cm1)"
        using cm1(1) by (auto simp: setTree_def bind_eq_Some_conv)
      then have same: "hasSubsystem (treeOf cm1) (source m) = hasSubsystem (treeOf cm) (source m)"
          "hasSubsystemConfiguration (treeOf cm1) (source m) = hasSubsystemConfiguration (treeOf cm) (source m)"
        using set_same(1,2) [OF tree assms(3), of "\<lambda>t a. setSubsystemIdentification t a str" undefined str b "treeOf cm1"] by simp_all
      have "settles (of_bool ?ask) cm (do { (_, cm2) \<leftarrow> cmSendQuerySubsystemConfiguration (source m) True cm1; finishWith True m cm2 })"
        unfolding same [symmetric]
        using cm1(2) by (intro balance_settles [of cm cm1] cmSendQuery_settles since_inv [OF assms(1)] assms(3)) simp_all
      then show ?thesis using cm1(1) by simp
    qed
    moreover have "handles cm (do { cm1 \<leftarrow> setTree (\<lambda>t. setNodeIdentification t (source m) str) cm;
        (_, cm2) \<leftarrow> sendQueryNodeConfiguration (source m) True cm1; finishWith True m cm2 })"
      using identifications_refine(2) [OF tree assms(3)]
      by (rule handles_set [OF ok]) (intro asks_finish queries_ask assms(3); erule since_ok)
    moreover have "handles cm (do { cm1 \<leftarrow> setTree (\<lambda>t. setComponentIdentification t (source m) str) cm; finishWith True m cm1 })"
      using identifications_refine(3) [OF tree assms(3)]
      by (rule handles_set [OF ok]) (intro finish_handles; erule since_ok)
    ultimately show ?thesis
      using r Some str has_keys [OF tree assms(3)] err finish_settles [OF assms(1)] handles_settles [OF assms(1)]
      by (auto simp: cmProcessReportIdentification_def Let_def asks)
  qed
qed

lemma cmCreateEvent_settles:
  assumes "nmInv cm" "\<exists>r. createEventMessageFromJausMessage (junkNmCreateEvent env) m = Some r"
    "\<And>ce. createEventMessageFromJausMessage (junkNmCreateEvent env) m = Some (Some ce) \<Longrightarrow>
       createEvent_reportMessageCode ce = JAUS_REPORT_CONFIGURATION \<Longrightarrow> \<exists>q. createEvent_queryMessage ce = Some q \<and> cloneOk q"
  shows "settles 0 cm (cmProcessCreateEvent env m cm)"
proof -
  have reply: "settles 0 cm1 (do { cm2 \<leftarrow> sendConfirmation c cm1; finishWith b m cm2 })" if inv: "nmInv cm1" for cm1 :: "'a LocalComponent_scheme" and c b
    unfolding sendConfirmation_def using inv
    by (intro handles_settles [OF inv] posts_finish transmit_posts sendable_messages) (simp_all add: nmInv_def)
  have refuse: "settles 0 cm (do { cm2 \<leftarrow> sendConfirmation c (nmError kind why cm); finishWith b m cm2 })" for c b kind why
    using nmError_ok [of cm] assms(1)
    by (intro balance_settles [of cm "nmError kind why cm"] reply nmError_inv) (simp_all add: nmInv_def)
  have enter: "settles 0 cm (case subscribe put get src c cm of (confirm2, cm1) \<Rightarrow> do { cm2 \<leftarrow> sendConfirmation confirm2 cm1; finishWith True m cm2 })"
    if "entered get put" for get put src c
  proof -
    obtain confirm2 cm1 where s: "subscribe put get src c cm = (confirm2, cm1)" by fastforce
    then show ?thesis using subscribe_inv [OF that assms(1) s] reply balance_settles [of cm cm1] by simp
  qed
  have list: "entered subsystemChangeList (\<lambda>l n. n\<lparr>subsystemChangeList := l\<rparr>)" by (simp add: entered_def)
  obtain r where r: "createEventMessageFromJausMessage (junkNmCreateEvent env) m = Some r" using assms(2) by blast
  show ?thesis
  proof (cases r)
    case None
    then show ?thesis using r refuse by (simp add: cmProcessCreateEvent_def Let_def)
  next
    case (Some ce)
    show ?thesis
    proof (cases "createEvent_reportMessageCode ce = JAUS_REPORT_CONFIGURATION")
      case False
      then show ?thesis using r Some reply [OF assms(1)] by (simp add: cmProcessCreateEvent_def Let_def)
    next
      case True
      obtain q where q: "createEvent_queryMessage ce = Some q" "cloneOk q" using assms(3) r Some True by blast
      obtain x where x: "queryConfigurationMessageFromJausMessage (junkNmQueryConf env) q = Some x" using unpack_total(1) [OF q(2)] by blast
      show ?thesis
        using r Some True q(1) x refuse enter [OF list] by (cases x) (simp_all add: cmProcessCreateEvent_def Let_def)
    qed
  qed
qed


lemma confirm_total: "cloneOk m \<Longrightarrow> \<exists>r. confirmEventRequestMessageFromJausMessage junk m = Some r"
proof -
  assume "cloneOk m"
  then have len: "0 + unat (dataSize m) \<le> length (dataBytes m)" by (simp add: cloneOk_iff)
  have "confirmEventRequest_dataFromBuffer h (dataBytes m) 0 (dataSize m) \<noteq> None" for h
    unfolding confirmEventRequest_dataFromBuffer_def
    by (rule guarded_finish [where n = "dataSize m"], rule safeR_all, unfold safeR_list,
        intro safeR_intros safeR_when safeR_Cons safeR_Nil len) (simp_all add: byteIsBitSet)
  then show ?thesis unfolding confirmEventRequestMessageFromJausMessage_def not_None_eq [symmetric] by (intro fromJausMessage_safe)
qed

lemma confirmed_inv [simp]:
  "nmInv (cm\<lparr>nodeManagerSubsystemEventConfirmed := b\<rparr>) = nmInv cm" "nmInv (cm\<lparr>readySendTime := x\<rparr>) = nmInv cm"
  "nmInv (cm\<lparr>beatSendTime := y\<rparr>) = nmInv cm"
  "balance d cm0 (cm\<lparr>nodeManagerSubsystemEventConfirmed := b\<rparr>) = balance d cm0 cm"
  "balance d cm0 (cm\<lparr>readySendTime := x\<rparr>) = balance d cm0 cm" "balance d cm0 (cm\<lparr>beatSendTime := y\<rparr>) = balance d cm0 cm"
  by (simp_all add: nmInv_def nmOk_def subscriptionsOk_def subscriptions_def localOk_def balance_def)

lemma processConfirmEvent_settles:
  assumes "nmInv cm" "cloneOk m"
  shows "settles 0 cm (processConfirmEvent env m cm)"
proof -
  obtain r where r: "confirmEventRequestMessageFromJausMessage (junkCmConfirm env) m = Some r" using confirm_total [OF assms(2)] by blast
  have ok: "nmOk cm" using assms(1) by (simp add: nmInv_def)
  have "settles 0 cm (finishWith True m (cm\<lparr>nodeManagerSubsystemEventConfirmed := True\<rparr>))"
    using assms(1) ok by (intro balance_settles [of cm "cm\<lparr>nodeManagerSubsystemEventConfirmed := True\<rparr>"] finish_settles) simp_all
  then show ?thesis
    using r finish_settles [OF assms(1)] by (simp add: processConfirmEvent_def split: option.split)
qed

lemma cmQueryConfiguration_settles:
  assumes "nmInv cm" "cloneOk m"
  shows "settles 0 cm (cmProcessQueryConfiguration env m cm)"
proof -
  have ok: "nmOk cm" using assms(1) by (simp add: nmInv_def)
  obtain r where "queryConfigurationMessageFromJausMessage (junkNmQueryConf env) m = Some r" using unpack_total(1) [OF assms(2)] by blast
  then show ?thesis
    using handles_settles [OF assms(1) configuration_answered(1) [OF ok, of env _ m]]
      handles_settles [OF assms(1) configuration_answered(2) [OF ok, of env _ m]] error_settles [OF assms(1)]
    by (simp add: cmProcessQueryConfiguration_def Let_def split: option.split)
qed

lemma cmQueryIdentification_settles:
  assumes "nmInv cm" "cloneOk m"
    "\<And>q. queryIdentificationMessageFromJausMessage (junkNmQueryId env) m = Some (Some q) \<Longrightarrow>
       (queryIdentification_queryField q = JAUS_QUERY_FIELD_SS_IDENTITY \<longrightarrow> getSubsystemIdentification (treeOf cm) (ownAddress cm) \<noteq> Some None) \<and>
       (queryIdentification_queryField q = JAUS_QUERY_FIELD_NODE_IDENTITY \<longrightarrow> getNodeIdentification (treeOf cm) (ownAddress cm) \<noteq> Some None)"
  shows "settles 0 cm (cmProcessQueryIdentification env m cm)"
proof -
  have inv: "nmOk cm" "localOk cm" using assms(1) by (simp_all add: nmInv_def)
  note tree = nmOk_tree [OF inv(1)] and own = nmOk_own(1) [OF inv(1)]
  obtain r where r: "queryIdentificationMessageFromJausMessage (junkNmQueryId env) m = Some r" using unpack_total(2) [OF assms(2)] by blast
  obtain a b where ab: "getSubsystemIdentification (treeOf cm) (ownAddress cm) = Some a" "getNodeIdentification (treeOf cm) (ownAddress cm) = Some b"
    using at_proper [OF tree own] findNode_idx [OF tree own] by (simp add: getSubsystemIdentification_def getNodeIdentification_def)
  have post: "settles 0 cm (do { cm1 \<leftarrow> reportIdentificationTo dest k stored cm; finishWith True m cm1 })" if "stored \<noteq> None" for stored dest k
    using that handles_settles [OF assms(1) posts_finish [OF inv(1) reportIdentification_posts [OF inv(1)]]] by auto
  show ?thesis
  proof (cases r)
    case None
    then show ?thesis using r error_settles [OF assms(1)] by (simp add: cmProcessQueryIdentification_def)
  next
    case (Some q)
    then show ?thesis
      using r assms(3) [of q] ab inv(2) post [of a] post [of b] post [of "identification (localCmpt cm)"] error_settles [OF assms(1)]
      by (simp add: cmProcessQueryIdentification_def localOk_def)
  qed
qed

section \<open>Any message\<close>

text \<open>
  The messages the communicator can take. Reports of configurations are judged as those of subsystems, and the subsystem
  identification is asked for whether or not subsystem communication is enabled; otherwise it takes what the node
  manager's component takes.
\<close>

definition cmAccepts :: "NmEnv \<Rightarrow> 'a LocalComponent_scheme \<Rightarrow> JausMessage \<Rightarrow> bool" where
  "cmAccepts env cm m \<longleftrightarrow>
     (if commandCode m = JAUS_REPORT_CONFIGURATION
      then cloneOk m \<and> addrSubsystem (source m) \<noteq> 255 \<and>
        (case reportConfigurationMessageFromJausMessage (nmClock env) (junkNmReportConf env) m of
           Some (Some r) \<Rightarrow> cmConfigurationAccepted cm (source m) (reportConfiguration_subsystem r) | _ \<Rightarrow> True)
      else if commandCode m = JAUS_QUERY_IDENTIFICATION
      then cloneOk m \<and>
        (case queryIdentificationMessageFromJausMessage (junkNmQueryId env) m of
           Some (Some q) \<Rightarrow>
             (queryIdentification_queryField q = JAUS_QUERY_FIELD_SS_IDENTITY \<longrightarrow>
                getSubsystemIdentification (treeOf cm) (ownAddress cm) \<noteq> Some None) \<and>
             (queryIdentification_queryField q = JAUS_QUERY_FIELD_NODE_IDENTITY \<longrightarrow>
                getNodeIdentification (treeOf cm) (ownAddress cm) \<noteq> Some None)
         | _ \<Rightarrow> True)
      else nmAccepts env cm m)"

lemma cm_plain_settled:
  assumes "nmInv cm" "envOk (nmEnv env)" "cmAccepts (nmEnv env) cm m" "commandCode m \<noteq> JAUS_EVENT"
  shows "settles (of_bool (asksConfiguration (nmEnv env) cm m)) cm (cmProcessMessage env (Some m) cm)"
proof -
  let ?env = "nmEnv env"
  have quiet: "asksConfiguration ?env cm m = False" if "commandCode m \<notin> {JAUS_REPORT_HEARTBEAT_PULSE, JAUS_REPORT_IDENTIFICATION}"
    using that by (simp add: asksConfiguration_def)
  have inv: "nmOk cm" "localOk cm" using assms(1) by (simp_all add: nmInv_def)
  have m: "cloneOk m" using assms(3) by (auto simp: cmAccepts_def nmAccepts_def split: if_splits)
  note acc = assms(3) [unfolded cmAccepts_def nmAccepts_def] and h = handles_settles [OF assms(1)]
  note total = unpack_total [OF m] services_unpacked [OF m]
  consider (heartbeat) "commandCode m = JAUS_REPORT_HEARTBEAT_PULSE" | (conf) "commandCode m = JAUS_REPORT_CONFIGURATION"
    | (ident) "commandCode m = JAUS_REPORT_IDENTIFICATION" | (services) "commandCode m = JAUS_REPORT_SERVICES"
    | (create) "commandCode m = JAUS_CREATE_EVENT" | (cancel) "commandCode m = JAUS_CANCEL_EVENT"
    | (query) "commandCode m = JAUS_QUERY_IDENTIFICATION"
    | (rest) "commandCode m \<notin> {JAUS_REPORT_HEARTBEAT_PULSE, JAUS_REPORT_CONFIGURATION, JAUS_REPORT_IDENTIFICATION,
        JAUS_REPORT_SERVICES, JAUS_CREATE_EVENT, JAUS_CANCEL_EVENT, JAUS_QUERY_IDENTIFICATION}" by blast
  then show ?thesis
  proof cases
    case heartbeat
    then have "settles (of_bool (asksConfiguration ?env cm m)) cm (cmProcessReportHeartbeatPulse ?env m cm)"
      using acc by (intro cmReportHeartbeat_settles assms(1)) simp_all
    then show ?thesis using heartbeat by (simp add: cmProcessMessage.simps(2))
  next
    case conf
    then have "settles 0 cm (cmProcessReportConfiguration ?env m cm)" using acc m by (intro cmReportConfiguration_settles assms(1)) simp_all
    then show ?thesis using conf quiet by (simp add: cmProcessMessage.simps(2))
  next
    case ident
    then have "settles (of_bool (asksConfiguration ?env cm m)) cm (cmProcessReportIdentification ?env m cm)"
      using acc m assms(2) by (intro cmReportIdentification_settles assms(1)) (simp_all add: envOk_def)
    then show ?thesis using ident by (simp add: cmProcessMessage.simps(2))
  next
    case services
    then have "settles 0 cm (processReportServices ?env m cm)"
      using acc inv m by (intro h processReportServices_handled) (simp_all add: list_all_iff)
    then have "settles 0 cm (cmProcessReportServices ?env m cm)"
      unfolding cmProcessReportServices_def using total by (intro orError_settles assms(1)) blast+
    then show ?thesis using services quiet by (simp add: cmProcessMessage.simps(2))
  next
    case create
    then have "settles 0 cm (cmProcessCreateEvent ?env m cm)"
      using acc by (intro cmCreateEvent_settles assms(1)) (auto split: option.splits)
    then show ?thesis using create quiet by (simp add: cmProcessMessage.simps(2))
  next
    case cancel
    then have "serves cm (processCancelEvent ?env m cm)" using acc m by (intro processCancelEvent_serves assms(1)) simp_all
    then have "settles 0 cm (cmProcessCancelEvent ?env m cm)"
      unfolding cmProcessCancelEvent_def using total by (intro orError_settles assms(1) serves_settles) blast+
    then show ?thesis using cancel quiet by (simp add: cmProcessMessage.simps(2))
  next
    case query
    then have "settles 0 cm (cmProcessQueryIdentification ?env m cm)"
      using acc m by (intro cmQueryIdentification_settles assms(1)) simp_all
    then show ?thesis using query quiet by (simp add: cmProcessMessage.simps(2))
  next
    case rest
    have "settles 0 cm (cmProcessRequestComponentControl ?env m cm)"
      unfolding cmProcessRequestComponentControl_def
      by (intro orError_settles assms(1) serves_settles processRequestComponentControl_serves m total(4))
    moreover have "settles 0 cm (cmProcessQueryServices ?env m cm)"
      unfolding cmProcessQueryServices_def
      by (intro orError_settles assms(1) h processQueryServices_handled inv m total(3))
    ultimately show ?thesis
      using rest assms(4) quiet finish_settles [OF assms(1)] h [OF simple_queries_handled(1) [OF inv(1)]] h [OF simple_queries_handled(2) [OF inv(1)]]
        h [OF simple_queries_handled(3) [OF inv(1)]] cmQueryConfiguration_settles [OF assms(1) m] processConfirmEvent_settles [OF assms(1) m]
      by (simp add: cmProcessMessage.simps(2) Let_def)
  qed
qed

inductive cmAcceptable :: "NmEnv \<Rightarrow> 'a LocalComponent_scheme \<Rightarrow> JausMessage \<Rightarrow> bool" for env cm where
  plain: "cmAccepts env cm m \<Longrightarrow> commandCode m \<noteq> JAUS_EVENT \<Longrightarrow> cmAcceptable env cm m"
| malformed: "cloneOk m \<Longrightarrow> commandCode m = JAUS_EVENT \<Longrightarrow> eventMessageFromJausMessage (junkNmEvent env) m = Some None \<Longrightarrow>
    cmAcceptable env cm m"
| event: "commandCode m = JAUS_EVENT \<Longrightarrow> carriedBy env m = Some c \<Longrightarrow> cmAcceptable env cm c \<Longrightarrow> cmAcceptable env cm m"

text \<open>An event asks when the message it carries does.\<close>

inductive asks :: "NmEnv \<Rightarrow> 'a LocalComponent_scheme \<Rightarrow> JausMessage \<Rightarrow> bool" for env cm where
  plain: "asksConfiguration env cm m \<Longrightarrow> asks env cm m"
| event: "commandCode m = JAUS_EVENT \<Longrightarrow> carriedBy env m = Some c \<Longrightarrow> asks env cm c \<Longrightarrow> asks env cm m"

inductive_simps asks_simps: "asks env cm m"

lemma asks_plain: "commandCode m \<noteq> JAUS_EVENT \<Longrightarrow> asks env cm m \<longleftrightarrow> asksConfiguration env cm m"
  by (subst asks_simps) simp

lemma asks_event: "commandCode m = JAUS_EVENT \<Longrightarrow> asks env cm m \<longleftrightarrow> (\<exists>c. carriedBy env m = Some c \<and> asks env cm c)"
  by (subst asks_simps) (auto simp: asksConfiguration_def)

lemma asksConfiguration_cloned [simp]: "asksConfiguration env (cloned k cm) m = asksConfiguration env cm m"
  by (simp add: asksConfiguration_def cloned_def)

lemma cmAccepts_cloned: "cmAccepts env (cloned k cm) m = cmAccepts env cm m"
  by (simp add: cmAccepts_def nmAccepts_cloned cmConfigurationAccepted_def cong: option.case_cong)

lemma cmProcessEvent_unfold:
  assumes "commandCode m = JAUS_EVENT" "carriedBy (nmEnv env) m = Some c"
  shows "cmProcessMessage env (Some m) cm =
    do { (_, cm1) \<leftarrow> cmProcessMessage env (Some c) (cloned 1 cm); finishWith True m cm1 }"
proof -
  obtain e r where "eventMessageFromJausMessage (junkNmEvent (nmEnv env)) m = Some (Some e)" "event_reportMessage e = Some r" "jausMessageClone r = Some c"
    using assms(2) by (auto simp: carriedBy_def bind_eq_Some_conv split: option.splits)
  then show ?thesis using assms(1) by (simp add: cmProcessMessage.simps(2) [of env m] cloned_def)
qed

lemma cmAcceptable_settled:
  assumes "cmAcceptable (nmEnv env) cm m" "nmInv cm" "envOk (nmEnv env)"
  shows "settles (of_bool (asks (nmEnv env) cm m)) (cloned k cm) (cmProcessMessage env (Some m) (cloned k cm))"
  using assms(1)
proof (induction arbitrary: k rule: cmAcceptable.induct)
  case (plain m)
  then show ?case
    using cm_plain_settled [of "cloned k cm" env m] assms(2,3) by (simp add: nmInv_cloned cmAccepts_cloned asks_plain)
next
  case (malformed m)
  have "settles 0 (cloned k cm) (finishWith False m (nmError MemoryFailure ''Cannot unpack EventMessage!'' (cloned k cm)))"
    using assms(2) by (intro error_settles) (simp add: nmInv_cloned)
  moreover have "\<not> asks (nmEnv env) cm m" using malformed by (simp add: asks_event carriedBy_def)
  ultimately show ?case using malformed by (simp add: cmProcessMessage.simps(2) [of env m])
next
  case (event m c)
  have "cloned 1 (cloned k cm) = cloned (Suc k) cm" by (simp add: cloned_def)
  moreover define d where "d = (of_bool (asks (nmEnv env) cm c) :: nat)"
  ultimately obtain b cm1 where cm1: "cmProcessMessage env (Some c) (cloned 1 (cloned k cm)) = Some (b, cm1)"
      "balance (Suc d) (cloned (Suc k) cm) cm1" "nmInv cm1"
    using event.IH [of "Suc k"] by (auto simp: settles_def)
  have "balance d (cloned k cm) cm1" using cm1(2) by (simp add: balance_def cloned_def census_def)
  moreover obtain cm2 where cm2: "finishWith True m cm1 = Some (True, cm2)" "balance 1 cm1 cm2" "quiet cm1 cm2"
    using finish_balance [of cm1 True m] cm1(3) by (auto simp: nmInv_def)
  ultimately have "balance (Suc d) (cloned k cm) cm2" using balance_trans [of d "cloned k cm" cm1 1 cm2] by simp
  moreover have "nmInv cm2" using cm1(3) cm2(3) balance_ok [OF cm2(2)] quiet_inv [of cm1 cm2] by (simp add: nmInv_def)
  ultimately show ?case
    using cm1(1) cm2(1) event.hyps cmProcessEvent_unfold [of m env c "cloned k cm"] asks_event [of m "nmEnv env" cm]
    unfolding settles_def d_def by auto
qed


section \<open>Construction, start and stop\<close>

lemma communicator_services:
  "cmptServices (setupCommunicatorServices ((jausComponentCreate now)\<lparr>cmptAddress := a\<rparr>)) =
     [serviceOf 0 nodeManagerCoreInputs nodeManagerCoreOutputs, serviceOf 35 nodeManagerInputs nodeManagerOutputs]"
  by (simp add: setupCommunicatorServices_def jausServiceAddService_def jausComponentCreate_def jausComponentUpdateTimestamp_def
      serviceOf_eq nodeManagerCoreInputs_def nodeManagerCoreOutputs_def nodeManagerInputs_def nodeManagerOutputs_def)

lemma communicator_fields:
  assumes "newCommunicatorComponent now subsystem node k r = Inr cm"
  shows "router cm = r" "created cm = 0" "subsystemChangeList cm = []" "nodeChangeList cm = []" "localInf cm = k"
    "eventIds cm = replicate 255 False" "ownAddress cm = \<lparr>addrSubsystem = of_int subsystem, addrNode = of_int node,
      addrComponent = 35, addrInstance = 1\<rparr>" "nodeManagerSubsystemEventConfirmed cm = False" "readySendTime cm = 0"
    "1 \<le> subsystem" "subsystem \<le> 254" "1 \<le> node" "node \<le> 254"
  using assms by (auto simp: newCommunicatorComponent_def setupCommunicatorServices_def Let_def split: if_splits)

lemma communicator_constructed_inv:
  assumes "newCommunicatorComponent now (mySubsystemId r) (myNodeId r) k r = Inr cm"
    "routerOk r" "k \<in> set (interfaces (cmptComms r))"
  shows "nmInv cm"
proof -
  note f = communicator_fields [OF assms(1)]
  let ?l = "[serviceOf 0 nodeManagerCoreInputs nodeManagerCoreOutputs, serviceOf 35 nodeManagerInputs nodeManagerOutputs]"
  have "servicesOk ?l" "distinct (map serviceType ?l)"
    by (simp_all add: servicesOk_def serviceOk_def serviceOf_eq nodeManagerCoreInputs_def nodeManagerCoreOutputs_def
        nodeManagerInputs_def nodeManagerOutputs_def)
  then have "localOk cm"
    using assms(1) f(10-13) by (auto simp: newCommunicatorComponent_def Let_def localOk_def communicator_services)
  moreover have "uint (of_int (mySubsystemId r) :: u8) = mySubsystemId r" "uint (of_int (myNodeId r) :: u8) = myNodeId r"
    using f(10-13) by (simp_all add: uint_word_of_int take_bit_int_eq_self)
  ultimately show ?thesis
    using assms(2,3) f by (simp add: nmInv_def nmOk_def subscriptionsOk_def subscriptions_def)
qed

lemma cm_start_ok:
  assumes "nmInv cm"
  shows "\<exists>b cm'. cmStartInterface env cm = Some (b, cm') \<and> since cm cm'"
proof -
  let ?cm = "setRunning True cm"
  have s: "since cm ?cm" using assms by (intro setRunning_since) (simp add: nmInv_def)
  have inv: "nmInv ?cm" by (rule since_inv [OF assms s])
  have ok: "nmOk ?cm" using inv by (simp add: nmInv_def)
  have kept: "keeps (since ?cm) [ignoreEvent]" by (rule ignore_keeps)
  have "givenOk (ownAddress ?cm) (Some (localCmpt ?cm))"
    using inv by (simp add: givenOk_def clonable_def nmInv_def localOk_def servicesOk_def)
  from addComponent_law [OF nmOk_tree [OF ok] nmOk_own(1) [OF ok] this kept, of ?cm "nmClock env"] ok
  have "changes ?cm (cmChangeTree env (\<lambda>hs now t w. addComponent hs now t w (ownAddress ?cm) (Some (localCmpt ?cm))) ?cm)"
    by (intro cmChangeTree_changes) auto
  then obtain b cm1 where cm1: "cmChangeTree env (\<lambda>hs now t w. addComponent hs now t w (ownAddress ?cm) (Some (localCmpt ?cm))) ?cm = Some (b, cm1)"
    "since ?cm cm1" by (auto simp: changes_def)
  have "since cm cm1" by (rule since_trans [OF s cm1(2)])
  moreover have "since cm (nmError kind why cm1)" for kind why
    by (rule since_trans [OF calculation nmError_ok]) (rule since_ok [OF cm1(2)])
  ultimately show ?thesis using cm1(1) by (simp add: cmStartInterface_def Let_def)
qed

lemma cm_stop_ok:
  assumes "nmOk cm"
  shows "\<exists>cm'. cmStopInterface env cm = Some (True, cm') \<and> since cm cm'"
proof -
  obtain cm1 where cm1: "sendSubsystemShutdownEvents env cm = Some cm1" "sends cm cm1"
    using changedEvents_post(4) [OF assms, of env] by (auto simp: posts_def)
  have s: "since cm cm1" by (rule since_sends [OF cm1(2)])
  have "since cm (setRunning False cm1)" by (rule since_trans [OF s setRunning_since]) (rule since_ok [OF s])
  then show ?thesis using cm1(1) by (simp add: cmStopInterface_def)
qed

section \<open>Periodic work\<close>

lemma transmit_works:
  assumes "nmInv cm" "sendable tx"
  shows "\<exists>cm'. transmitNew tx cm = Some cm' \<and> balance 0 cm cm' \<and> nmInv cm' \<and> treeOf cm' = treeOf cm"
  using transmit_posts [of cm tx] since_inv [OF assms(1) since_sends] assms by (auto simp: posts_def sends_def nmInv_def)

lemma cm_heartbeats_work:
  assumes "nmInv cm"
  shows "works cm (cmGenerateHeartbeats env cm)"
proof -
  obtain cm1 where "transmitNew (heartbeatTo \<lparr>addrSubsystem = 255, addrNode = 255, addrComponent = JAUS_NODE_MANAGER_COMPONENT,
      addrInstance = 1\<rparr> (ownAddress cm)) cm = Some cm1" "balance 0 cm cm1" "nmInv cm1"
    using transmit_works [OF assms heartbeatTo_sendable] by blast
  moreover have "nmOk cm" using assms by (simp add: nmInv_def)
  ultimately show ?thesis using assms by (simp add: cmGenerateHeartbeats_def works_def Let_def)
qed

lemma cm_stateMethod_works:
  assumes "nmInv cm"
  shows "works cm (cmStateMethod env cm)"
proof -
  obtain ce where ce: "configurationEvent JAUS_SUBSYSTEM_CONFIGURATION = Some ce" "sendable (createEventMessageToJausMessage ce)"
    using queryConfiguration_event_sendable by blast
  obtain cm1 where "transmitNew (addressed (nodeManagerAt (addrSubsystem (ownAddress cm)) (addrNode (ownAddress cm)))
      (ownAddress cm) (createEventMessageToJausMessage ce)) cm = Some cm1" "balance 0 cm cm1" "nmInv cm1"
    using transmit_works [OF assms sendable_addressed [OF ce(2)]] by blast
  moreover have "nmOk cm" using assms by (simp add: nmInv_def)
  ultimately have "works cm (readyState env cm)" using assms ce(1) by (simp add: readyState_def works_def)
  moreover have "nmInv (cm\<lparr>localCmpt := (localCmpt cm)\<lparr>cmptState := s\<rparr>\<rparr>)" "balance 0 cm (cm\<lparr>localCmpt := (localCmpt cm)\<lparr>cmptState := s\<rparr>\<rparr>)" for s
    using assms by (simp_all add: nmInv_def nmOk_def localOk_def subscriptionsOk_def subscriptions_def balance_def)
  ultimately show ?thesis using assms by (auto simp: cmStateMethod_def works_def nmInv_def)
qed

section \<open>Runs\<close>

text \<open>
  A run of the communicator, from its construction on router \<open>r0\<close> as interface \<open>k\<close>, with the number of messages that came
  in from outside and of those it has taken that made it ask for a configuration, whose query is freed twice.
\<close>

inductive cmRun :: "Router \<Rightarrow> nat \<Rightarrow> nat \<Rightarrow> nat \<Rightarrow> CommunicatorComponent \<Rightarrow> bool" for r0 k where
  constructed: "newCommunicatorComponent now (mySubsystemId r0) (myNodeId r0) k r0 = Inr cm \<Longrightarrow> cmRun r0 k 0 0 cm"
| arrives: "cmRun r0 k n j cm \<Longrightarrow> msgOk m \<Longrightarrow> i \<in> set (layerInterfaces (router cm) L) \<Longrightarrow>
    receiveAt L (Some m) (Some i) (router cm) = Some (b, r) \<Longrightarrow> cmRun r0 k (Suc n) j (cm\<lparr>router := r\<rparr>)"
| takes: "cmRun r0 k n j cm \<Longrightarrow> popped cm = Some (m, cm1) \<Longrightarrow> envOk (nmEnv env) \<Longrightarrow> cmAcceptable (nmEnv env) cm1 m \<Longrightarrow>
    cmProcessMessage env (Some m) cm1 = Some (b, cm2) \<Longrightarrow> cmRun r0 k n (j + of_bool (asks (nmEnv env) cm1 m)) cm2"
| starts: "cmRun r0 k n j cm \<Longrightarrow> cmStartInterface env cm = Some (b, cm') \<Longrightarrow> cmRun r0 k n j cm'"
| stops: "cmRun r0 k n j cm \<Longrightarrow> cmStopInterface env cm = Some (b, cm') \<Longrightarrow> cmRun r0 k n j cm'"
| works: "cmRun r0 k n j cm \<Longrightarrow> cmStateMethod env cm = Some cm' \<Longrightarrow> cmRun r0 k n j cm'"
| beats: "cmRun r0 k n j cm \<Longrightarrow> cmAllState env cm = Some cm' \<Longrightarrow> cmRun r0 k n j cm'"

lemma cm_run_invariant:
  assumes "cmRun r0 k n j cm" "routerOk r0" "k \<in> set (interfaces (cmptComms r0))"
  shows "nmInv cm \<and> account r0 (n + j) cm"
  using assms(1)
proof induction
  case (constructed now cm)
  note f = communicator_fields [OF constructed]
  show ?case using communicator_constructed_inv [OF constructed assms(2,3)] f(1,2) by (simp add: account_def)
next
  case (arrives n j cm m i L b r)
  then have "balance 1 cm (cm\<lparr>router := r\<rparr>)" using received [of cm m i L] by (auto simp: nmInv_def)
  moreover have "nmInv (cm\<lparr>router := r\<rparr>)"
    using arrives.IH balance_ok [OF calculation] by (simp add: nmInv_def subscriptionsOk_def subscriptions_def localOk_def)
  ultimately show ?case using arrives.IH account_balance [of r0 "n + j" cm 1] by simp
next
  case (takes n j cm m cm1 env b cm2)
  have p: "nmInv cm" "account r0 (n + j) cm" using takes.IH by simp_all
  note q = popped_inv [OF p(1) takes.hyps(2)]
  let ?d = "of_bool (asks (nmEnv env) cm1 m) :: nat"
  have "settles ?d cm1 (cmProcessMessage env (Some m) cm1)"
    using cmAcceptable_settled [OF takes.hyps(4) q(1) takes.hyps(3), of 0] by (simp add: cloned_def)
  then have e: "balance (Suc ?d) cm1 cm2" "nmInv cm2" using takes.hyps(5) by (auto simp: settles_def)
  then show ?case using p(2) q(2-4) by (simp add: account_def balance_def)
next
  case (starts n j cm env b cm')
  then have "since cm cm'" using cm_start_ok [of cm env] by auto
  then show ?case using starts.IH since_inv [of cm cm'] account_balance [of r0 _ cm 0 cm'] by auto
next
  case (stops n j cm env b cm')
  then have "since cm cm'" using cm_stop_ok [of cm env] by (auto simp: nmInv_def)
  then show ?case using stops.IH since_inv [of cm cm'] account_balance [of r0 _ cm 0 cm'] by auto
next
  case (works n j cm env cm')
  then have "balance 0 cm cm' \<and> nmInv cm'" using cm_stateMethod_works [of cm env] by (auto simp: works_def)
  then show ?case using works.IH account_balance [of r0 _ cm 0 cm'] by auto
next
  case (beats n j cm env cm')
  then have "balance 0 cm cm' \<and> nmInv cm'" using cm_heartbeats_work [of cm env] by (auto simp: works_def cmAllState_def)
  then show ?case using beats.IH account_balance [of r0 _ cm 0 cm'] by auto
qed

end
