(* ===== verification/NodeManagerProps.thy ===== *)
theory NodeManagerProps
  imports NodeManagerRuns TreeQueries
begin

text \<open>
  The properties of the node manager's component: its state and its account of messages in every run, what it does
  with any message, subscriptions, the events that go to subscribers, check-in, and what makes it fail.
\<close>

section \<open>An example\<close>

definition exampleEnv :: NmEnv where
  "exampleEnv = \<lparr>nmClock = 0, nmTime = 0, junkNmRequest = requestComponentControlMessageCreate,
     junkNmQueryConf = queryConfigurationMessageCreate, junkNmQueryId = queryIdentificationMessageCreate,
     junkNmQueryServices = queryServicesMessageCreate, junkNmReportConf = reportConfigurationMessageCreate 0,
     junkNmReportId = reportIdentificationMessageCreate, junkNmReportServices = reportServicesMessageCreate,
     junkNmCreateEvent = JausHeader.extend (blankHeader JAUS_CREATE_EVENT 512000)
       (CreateEventMessage.fields 0 0 0 0 0 0 None None None 0 0 None),
     junkNmCancelEvent = cancelEventMessageCreate, junkNmEvent = eventMessageCreate\<rparr>"

lemma envOk_example: "envOk exampleEnv"
  by (simp add: envOk_def exampleEnv_def reportIdentificationMessageCreate_def reportIdentification_dataInitialize_def)

lemma small_manager:
  obtains nm where "newNodeManagerComponent 0 (mySubsystemId smallRouter) (myNodeId smallRouter) 2 smallRouter = Inr nm"
    "router nm = smallRouter" "created nm = 0" "subsystemChangeList nm = []" "nodeChangeList nm = []" "ownAddress nm = addr 1 1 1 1"
    "eventIds nm = replicate 255 False" "localInf nm = 2"
proof -
  have "cmptAddress (setupJausServices c) = cmptAddress c" for c by (simp add: setupJausServices_def Let_def)
  then show ?thesis by (intro that) (simp add: newNodeManagerComponent_def Let_def, simp_all)
qed

section \<open>Properties\<close>

text \<open>
  C21. The state of the node manager's component is well formed in every run of \<open>nmRun\<close>: whatever messages arrive
  at the interfaces of the three layers, whichever acceptable ones the component takes from its queue (\<open>acceptable\<close>; others can end
  it or spoil its tree), and however
  starts, stops, check-ins, check-outs, state methods and periodic work (heartbeats, the refresh of the tree and the reconfiguration) lie between them, the tree, the router and the component's
  interface are well formed, the numbers in use are exactly those of the two subscriber lists and none is used twice,
  and the component's own services and identification can be reported.
\<close>

theorem node_manager_state:
  assumes "nmRun r0 k n nm" "routerOk r0" "k \<in> set (interfaces (cmptComms r0))"
  shows "nmInv nm"
  using run_invariant [OF assms] by blast

text \<open>
  An example: on a router that knows the node manager's component as interface 2, a query of component 40 arrives and
  is taken; then the component starts.
\<close>

definition ownRouter :: Router where
  "ownRouter = learn CmptLayer (smallMessage (addr 1 1 1 1) (addr 1 1 40 1)) 2 smallRouter"

lemma own_interfaces: "interfaces (cmptComms ownRouter) = [2]"
  by (simp add: ownRouter_def learn.simps)

lemma routerOk_own: "routerOk ownRouter"
  unfolding ownRouter_def by (rule routerOk_learn [OF routerOk_small]) simp

lemma own_query_arrives:
  defines "m \<equiv> smallMessage (addr 1 1 40 1) (addr 1 1 1 1)"
  obtains b r where "receiveAt CmptLayer (Some m) (Some 2) ownRouter = Some (b, r)" "infQueue (transports r ! 2) = [m]"
proof -
  let ?l = "learn CmptLayer m 2 ownRouter"
  have i: "2 \<in> set (layerInterfaces ownRouter CmptLayer)" by (simp add: own_interfaces)
  obtain b r es where r: "receiveAt CmptLayer (Some m) (Some 2) ownRouter = Some (b, r)" "routed m (entryT CmptLayer m ?l) es ?l r"
    using receive_routes [OF routerOk_own _ i, of m] by (auto simp: routes_def m_def)
  have "interfaceMap (cmptComms ?l) (jausAddressHash (addr 1 1 1 1)) = Some (Some 2)"
    using jausAddressHash_inj [of "addr 1 1 1 1" "addr 1 1 40 1"] by (auto simp: learn.simps ownRouter_def m_def)
  moreover have "hereAddress ?l (addr 1 1 1 1) = addr 1 1 1 1" by (simp add: hereAddress_def ownRouter_def)
  ultimately have "localT m ?l = [2]" by (simp add: localT_def mapTargets_def mapAt_def m_def ownRouter_def)
  then have "entryT CmptLayer m ?l = [2]" by (simp add: entryT.simps cmptEntryT_def m_def ownRouter_def)
  then have "transports r = pushAll m [2] (transports ownRouter)" using r(2) by (auto simp: routed_def happen_def)
  then have "infQueue (transports r ! 2) = [m]" by (simp add: pushMessage_def ownRouter_def) (simp add: smallRouter_def)
  then show ?thesis using r(1) that by blast
qed

theorem node_manager_state_witness:
  "\<exists>nm0 b r nm1 b' nm2 b'' nm3. newNodeManagerComponent 0 (mySubsystemId ownRouter) (myNodeId ownRouter) 2 ownRouter = Inr nm0 \<and>
     receiveAt CmptLayer (Some (smallMessage (addr 1 1 40 1) (addr 1 1 1 1))) (Some 2) ownRouter = Some (b, r) \<and>
     popped (nm0\<lparr>router := r\<rparr>) = Some (smallMessage (addr 1 1 40 1) (addr 1 1 1 1), nm1) \<and>
     nmProcessMessage exampleEnv (Some (smallMessage (addr 1 1 40 1) (addr 1 1 1 1))) nm1 = Some (b', nm2) \<and>
     nmStartInterface exampleEnv nm2 = Some (b'', nm3) \<and> nmRun ownRouter 2 1 nm3 \<and> nmInv nm3"
proof -
  let ?m = "smallMessage (addr 1 1 40 1) (addr 1 1 1 1)"
  have two: "2 \<in> set (interfaces (cmptComms ownRouter))" by (simp add: own_interfaces)
  obtain nm0 :: NodeManagerComponent where nm0: "newNodeManagerComponent 0 (mySubsystemId ownRouter) (myNodeId ownRouter) 2 ownRouter = Inr nm0"
    "router nm0 = ownRouter" "localInf nm0 = 2"
    by (simp add: newNodeManagerComponent_def Let_def ownRouter_def)
  obtain b r where r: "receiveAt CmptLayer (Some ?m) (Some 2) ownRouter = Some (b, r)" "infQueue (transports r ! 2) = [?m]"
    by (rule own_query_arrives)
  have run0: "nmRun ownRouter 2 0 nm0" by (rule nmRun.constructed [OF nm0(1)])
  have run1: "nmRun ownRouter 2 1 (nm0\<lparr>router := r\<rparr>)"
    using nmRun.arrives [OF run0, of ?m 2 CmptLayer b r] nm0(2) two r(1) by simp
  obtain nm1 where pop: "popped (nm0\<lparr>router := r\<rparr>) = Some (?m, nm1)"
    using nm0(3) r(2) by (simp add: popped_def popMessage_def)
  have acc: "acceptable exampleEnv nm1 ?m"
    by (rule acceptable.plain) (simp_all add: nmAccepts_def cloneOk_iff smallMessage_def)
  have inv1: "nmInv nm1" by (rule popped_inv(1) [OF node_manager_state [OF run1 routerOk_own two] pop])
  obtain b' nm2 where p: "nmProcessMessage exampleEnv (Some ?m) nm1 = Some (b', nm2)"
    using acceptable_served [OF acc inv1 envOk_example, of 0] by (auto simp: serves_def cloned_def)
  have run2: "nmRun ownRouter 2 1 nm2" by (rule nmRun.takes [OF run1 pop envOk_example acc p])
  obtain b'' nm3 where s: "nmStartInterface exampleEnv nm2 = Some (b'', nm3)"
    using start_ok [OF node_manager_state [OF run2 routerOk_own two], of exampleEnv] by auto
  have run3: "nmRun ownRouter 2 1 nm3" by (rule nmRun.starts [OF run2 s])
  show ?thesis using nm0(1) r(1) pop p s run3 node_manager_state [OF run3 routerOk_own two] by blast
qed

text \<open>
  C7. In every run of \<open>nmRun\<close> the component goes on, and every message has one owner. What waits in the queues or has been
  destroyed is what came in from outside, what the
  component made, and the clones; and every operation returns without leaving its memory under the condition it needs: taking a message when that is
  acceptable, the check-in of a component when a number between 1 and 254 is asked for and the search for a free instance does
  not run off its array (\<open>instance_allocation\<close> says when), the check-out of a component of subsystems 0 to 254, and the periodic work when
  this subsystem is in the tree and its nodes have it as their parent. Starting, stopping, beating and the state method need none.
  Messages that are not acceptable can end the component (\<open>one_message_ends_node_manager\<close>).
\<close>

theorem node_manager_goes_on:
  assumes "nmRun r0 k n nm" "routerOk r0" "k \<in> set (interfaces (cmptComms r0))"
  shows "census (router nm) + clones r0 = census r0 + n + created nm + clones (router nm) \<and>
     (\<forall>env m. envOk env \<longrightarrow> acceptable env nm m \<longrightarrow> nmProcessMessage env (Some m) nm \<noteq> None) \<and>
     (\<forall>env. nmStartInterface env nm \<noteq> None \<and> nmStopInterface env nm \<noteq> None \<and> nmGenerateHeartbeats env nm \<noteq> None) \<and>
     (\<forall>env c. of_int c \<notin> {0, 255 :: u8} \<longrightarrow> getNextInstanceId (treeOf nm) (checkInQuery c nm) \<noteq> None \<longrightarrow>
        checkInLocalComponent env c nm \<noteq> None) \<and>
     (\<forall>env a. addrSubsystem (a :: JausAddress) \<noteq> 255 \<longrightarrow> checkOutLocalComponent env (uint (addrSubsystem a)) (uint (addrNode a))
        (uint (addrComponent a)) (uint (addrInstance a)) nm \<noteq> None) \<and>
     (\<forall>env. parentsOk (treeOf nm) \<longrightarrow> mySubsystemId (router nm) \<in> subsKeys (treeOf nm) \<longrightarrow>
        treeSubsystemId (treeOf nm) = mySubsystemId (router nm) \<longrightarrow> nmAllState env nm \<noteq> None)"
proof (intro conjI allI impI)
  have inv: "nmInv nm" "nmOk nm" "account r0 n nm" using run_invariant [OF assms] by (simp_all add: nmInv_def)
  show "census (router nm) + clones r0 = census r0 + n + created nm + clones (router nm)"
    using inv(3) by (simp add: account_def)
  show "nmProcessMessage env (Some m) nm \<noteq> None" if "envOk env" "acceptable env nm m" for env m
    using acceptable_served [OF that(2) inv(1) that(1), of 0] by (auto simp: serves_def cloned_def)
  show "nmStartInterface env nm \<noteq> None" for env using start_ok [OF inv(1), of env] by auto
  show "nmStopInterface env nm \<noteq> None" for env using stop_ok [OF inv(2), of env] by auto
  show "nmGenerateHeartbeats env nm \<noteq> None" for env using generateHeartbeats_works [OF inv(1), of env] by auto
  show "checkInLocalComponent env c nm \<noteq> None"
    if "of_int c \<notin> {0, 255 :: u8}" "getNextInstanceId (treeOf nm) (checkInQuery c nm) \<noteq> None" for env c
    using checkIn_ok [OF inv(2) that(2,1), of env] by auto
  show "checkOutLocalComponent env (uint (addrSubsystem a)) (uint (addrNode a)) (uint (addrComponent a)) (uint (addrInstance a)) nm \<noteq> None"
    if "addrSubsystem a \<noteq> 255" for env and a :: JausAddress using checkOut_ok [OF inv(2) that, of env] by auto
  show "nmAllState env nm \<noteq> None" if "parentsOk (treeOf nm)" "mySubsystemId (router nm) \<in> subsKeys (treeOf nm)"
    "treeSubsystemId (treeOf nm) = mySubsystemId (router nm)" for env
    using allState_works [OF inv(1) that, of env] by (auto simp: works_def)
qed

theorem node_manager_goes_on_witness:
  "\<exists>(nm :: NodeManagerComponent) b nm'. nmRun smallRouter 2 0 nm \<and> census (router nm) = created nm + clones (router nm) \<and>
     nmProcessMessage exampleEnv (Some (smallMessage (addr 1 1 40 1) (addr 1 1 1 1))) nm = Some (b, nm') \<and>
     checkInLocalComponent exampleEnv 40 nm \<noteq> None"
proof -
  obtain nm where nm: "newNodeManagerComponent 0 (mySubsystemId smallRouter) (myNodeId smallRouter) 2 smallRouter = Inr nm"
    "ownAddress nm = addr 1 1 1 1" "router nm = smallRouter"
    by (rule small_manager)
  have run: "nmRun smallRouter 2 0 nm" by (rule nmRun.constructed [OF nm(1)])
  have two: "2 \<in> set (interfaces (cmptComms smallRouter))" by simp
  note law = node_manager_goes_on [OF run routerOk_small two]
  let ?m = "smallMessage (addr 1 1 40 1) (addr 1 1 1 1)"
  have "acceptable exampleEnv nm ?m"
    by (rule acceptable.plain) (simp_all add: nmAccepts_def cloneOk_iff smallMessage_def)
  then have "nmProcessMessage exampleEnv (Some ?m) nm \<noteq> None"
    using conjunct1 [OF conjunct2 [OF law]] envOk_example by simp
  then obtain x where "nmProcessMessage exampleEnv (Some ?m) nm = Some x" by blast
  moreover have "census (router nm) = created nm + clones (router nm)" using law census_small by simp
  moreover have "findNodeAddress (newSystemTree 1 1) (addr 1 1 1 1) = Some None"
    by (simp add: findNodeAddress_def findNode_def systemAt_sub treeOk_length [OF treeOk_new])
  then have "getNextInstanceId (treeOf nm) (checkInQuery 40 nm) = Some 0"
    using nm(2,3) by (simp add: getNextInstanceId_def checkInQuery_def findNodeAddress_def smallRouter_def)
  then have "checkInLocalComponent exampleEnv 40 nm \<noteq> None" using law by auto
  ultimately show ?thesis using run by (cases x) blast
qed

text \<open>
  C8. Processing ends and settles the account for every acceptable message, however deeply the events in it are
  nested: the call returns, the component's state is well formed as before, and of the messages that wait or have
  been destroyed there are more by the message itself, the replies, queries and events made and the clones taken.
\<close>

theorem acceptable_message_processed:
  assumes "nmInv nm" "envOk env" "acceptable env nm m"
  shows "\<exists>b nm'. nmProcessMessage env (Some m) nm = Some (b, nm') \<and> nmInv nm' \<and> ownAddress nm' = ownAddress nm \<and>
    census (router nm') + clones (router nm) + created nm = census (router nm) + clones (router nm') + created nm' + 1"
  using acceptable_served [OF assms(3,1,2), of 0] by (auto simp: serves_def cloned_def balance_def)

text \<open>The example is an event around a query.\<close>

definition wrapped :: "JausMessage \<Rightarrow> JausMessage" where
  "wrapped r = (let e = eventMessageCreate\<lparr>event_reportMessage := Some r\<rparr>
    in (copyHeader e jausMessageCreate)\<lparr>dataSize := event_dataSize e, data := Some (event_enc e r)\<rparr>)"

lemma wrapped_event:
  assumes "length (dataBytes r) = unat (dataSize r)" "unat (dataSize r) < 100" "dataSize r \<noteq> 0"
  shows "commandCode (wrapped r) = JAUS_EVENT" "carriedBy env (wrapped r) = Some (carried (wrapped r) r)"
    "length (dataBytes (wrapped r)) = unat (dataSize (wrapped r))" "unat (dataSize (wrapped r)) = unat (dataSize r) + 8"
proof -
  let ?e = "eventMessageCreate\<lparr>event_reportMessage := Some r\<rparr>"
  have enc: "enclosed 8 r" using assms by (simp add: enclosed_def)
  have e: "event_reportMessage ?e = Some r" "commandCode ?e = JAUS_EVENT"
    by (simp_all add: eventMessageCreate_def event_dataInitialize_def blankHeader_def JausHeader.extend_def Let_def)
  show code: "commandCode (wrapped r) = JAUS_EVENT" using e(2) by (simp add: wrapped_def Let_def)
  have c: "carried (wrapped r) r = carried ?e r" by (simp add: wrapped_def carried_def Let_def)
  have clone: "jausMessageClone (carried ?e r) = Some (carried ?e r)"
    using assms(1,3) by (simp add: carried_def jausMessageClone_def dataBytes_def memRead_def jausMessageCreate_def)
  show "carriedBy env (wrapped r) = Some (carried (wrapped r) r)"
    using event_fromJausMessage [OF e(1) enc e(2), of "junkNmEvent env", folded wrapped_def [of r, unfolded Let_def]] clone
    by (simp add: carriedBy_def c)
  show "length (dataBytes (wrapped r)) = unat (dataSize (wrapped r))" "unat (dataSize (wrapped r)) = unat (dataSize r) + 8"
    using event_sizes(2) [OF e(1) enc] assms(1) by (simp_all add: wrapped_def Let_def dataBytes_def event_enc_def)
qed

theorem acceptable_message_processed_witness:
  "\<exists>nm b nm'. nmRun smallRouter 2 0 nm \<and>
     nmProcessMessage exampleEnv (Some (wrapped ((smallMessage (addr 1 1 40 1) (addr 1 1 1 1))\<lparr>dataSize := 1, data := Some [0]\<rparr>))) nm =
       Some (b, nm') \<and> nmInv nm'"
proof -
  obtain nm where nm: "newNodeManagerComponent 0 (mySubsystemId smallRouter) (myNodeId smallRouter) 2 smallRouter = Inr nm"
    by (rule small_manager)
  have run: "nmRun smallRouter 2 0 nm" by (rule nmRun.constructed [OF nm])
  have inv: "nmInv nm" using run_invariant [OF run routerOk_small] by simp
  let ?m = "(smallMessage (addr 1 1 40 1) (addr 1 1 1 1))\<lparr>dataSize := 1, data := Some [0]\<rparr>"
  have m: "length (dataBytes ?m) = unat (dataSize ?m)" "unat (dataSize ?m) < 100" "dataSize ?m \<noteq> 0" by (simp_all add: dataBytes_def)
  have "acceptable exampleEnv nm (carried (wrapped ?m) ?m)"
    by (rule acceptable.plain) (simp_all add: nmAccepts_def cloneOk_iff smallMessage_def carried_def dataBytes_def)
  from acceptable.event [OF wrapped_event(1,2) [OF m] this]
  have "acceptable exampleEnv nm (wrapped ?m)" .
  from acceptable_message_processed [OF inv envOk_example this] show ?thesis using run by blast
qed

text \<open>What the manager of another node sends to be told of a configuration (\<open>sendQueryNodeConfiguration\<close> and its fellow).\<close>

lemma request_understood:
  obtains ce jm where "configurationEvent field = Some ce" "createEventMessageToJausMessage ce = Some jm" "cloneOk jm"
    "commandCode jm = JAUS_CREATE_EVENT"
    "\<forall>junk junkQuery dst src. \<exists>ce' q qc. createEventMessageFromJausMessage junk (jm\<lparr>destination := dst, source := src\<rparr>) = Some (Some ce') \<and>
       source ce' = src \<and> createEvent_reportMessageCode ce' = JAUS_REPORT_CONFIGURATION \<and> createEvent_queryMessage ce' = Some q \<and>
       queryConfigurationMessageFromJausMessage junkQuery q = Some (Some qc) \<and> queryConfiguration_queryField qc = field"
proof -
  let ?base = "configurationQuery field"
  have q0: "commandCode ?base = JAUS_QUERY_CONFIGURATION" "queryConfiguration_queryField ?base = field"
    by (simp_all add: configurationQuery_def queryConfigurationMessageCreate_def queryConfiguration_dataInitialize_def
        blankHeader_def JausHeader.extend_def Let_def)
  define q where "q = (copyHeader ?base jausMessageCreate)\<lparr>dataSize := queryConfiguration_dataSize ?base, data := Some (queryConfiguration_enc ?base)\<rparr>"
  have q: "queryConfigurationMessageToJausMessage ?base = Some q"
    using queryConfiguration.toJausMessage by (simp add: queryConfigurationMessageToJausMessage_def q_def)
  have enc: "enclosed 42 q"
    using queryConfiguration.enc_size [of ?base] queryConfiguration.size_bound [of ?base] by (simp add: enclosed_def dataBytes_def q_def)
  have code: "jausMessageGetComplementaryCommandCode JAUS_QUERY_CONFIGURATION = JAUS_REPORT_CONFIGURATION"
    "jausMessageGetComplementaryCommandCode JAUS_REPORT_CONFIGURATION = JAUS_QUERY_CONFIGURATION"
    by (simp_all add: jausMessageGetComplementaryCommandCode_def queryToReport_def reportToQuery_def)
  obtain ce where ce: "configurationEvent field = Some ce" using queryConfiguration_event_sendable by blast
  obtain pv where set: "jausByteSetBit 0 7 = Some (True, pv)" and bits: "\<forall>k. bit pv k \<longleftrightarrow> k = 7 \<and> k < 8"
    using byteSetBit_spec [of 7 0] by auto
  have pv: "bit pv k \<longleftrightarrow> k = 7" for k using bits [rule_format, of k] by auto
  obtain c where c: "createEventMessageCreate = Some c"
    and ce_def: "ce = c\<lparr>createEvent_presenceVector := pv, createEvent_reportMessageCode := JAUS_REPORT_CONFIGURATION,
      createEvent_eventType := EVENT_EVERY_CHANGE_TYPE, createEvent_queryMessage := Some q\<rparr>"
    using ce by (auto simp: configurationEvent_def bind_eq_Some_conv q q0(1) code(1) set)
  have cc: "commandCode ce = JAUS_CREATE_EVENT"
    using c by (auto simp: ce_def createEventMessageCreate_def createEvent_dataInitialize_def blankHeader_def JausHeader.extend_def Let_def
      bind_eq_Some_conv)
  have ok: "createEventOk ce" using enc pv by (simp add: createEventOk_def ce_def)
  let ?jm = "(copyHeader ce jausMessageCreate)\<lparr>dataSize := of_nat (length (createEvent_enc ce)), data := Some (createEvent_enc ce)\<rparr>"
  have to: "createEventMessageToJausMessage ce = Some ?jm" by (rule createEvent_toJausMessage [OF ok])
  have "cloneOk ?jm" using createEvent_size(2) [OF ok] by (simp add: cloneOk_iff dataBytes_def unat_of_nat_lt)
  moreover have "\<exists>ce' q' qc. createEventMessageFromJausMessage junk (?jm\<lparr>destination := dst, source := src\<rparr>) = Some (Some ce') \<and>
       source ce' = src \<and> createEvent_reportMessageCode ce' = JAUS_REPORT_CONFIGURATION \<and> createEvent_queryMessage ce' = Some q' \<and>
       queryConfigurationMessageFromJausMessage junkQuery q' = Some (Some qc) \<and> queryConfiguration_queryField qc = field" for junk junkQuery dst src
  proof -
    let ?m = "ce\<lparr>destination := dst, source := src\<rparr>" and ?j = "?jm\<lparr>destination := dst, source := src\<rparr>"
    have "createEvent_enc ?m = createEvent_enc ce" by (simp add: createEvent_enc_def Let_def)
    then have j: "?j = (copyHeader ?m jausMessageCreate)\<lparr>dataSize := of_nat (length (createEvent_enc ?m)), data := Some (createEvent_enc ?m)\<rparr>"
      by (simp add: copyHeader_def)
    have "createEventOk ?m" "commandCode ?m = JAUS_CREATE_EVENT" using ok cc by (simp_all add: createEventOk_def)
    note from_j = createEvent_fromJausMessage [OF this j, of junk]
    let ?ce = "createEvent_withData (copyHeader ?j junk) ?m"
    let ?q = "(carried (copyHeader ?j junk) q)\<lparr>commandCode := JAUS_QUERY_CONFIGURATION\<rparr>"
    have parts: "source ?ce = src" "createEvent_reportMessageCode ?ce = JAUS_REPORT_CONFIGURATION" "createEvent_queryMessage ?ce = Some ?q"
      using pv by (simp_all add: createEvent_withData_def Let_def ce_def code(2))
    let ?fresh = "copyHeader ?q junkQuery"
    have "queryConfigurationMessageFromJausMessage junkQuery ?q = Some (Some (queryConfiguration_withData ?fresh ?base))"
      using queryConfiguration.from_law [where ?m0.0 = ?fresh and m = ?base and pre = "[]" and post = "[]"]
      by (simp add: queryConfigurationMessageFromJausMessage_def messageFromJausMessage_def carried_def q_def dataBytes_def)
    moreover have "queryConfiguration_queryField (queryConfiguration_withData ?fresh ?base) = field" by (simp add: queryConfiguration_withData_def q0(2))
    ultimately show ?thesis using from_j parts by blast
  qed
  ultimately show ?thesis using that [OF ce to] cc by simp
qed

text \<open>
  C12. The numbers of subscriptions. A request for the events of a configuration gets the lowest number that is not in
  use, and its sender is entered under it at the end of the list of the configuration it asked for, also when the
  sender is in the list already (each request adds an entry, and every change is then sent that many times). When
  the 255 numbers are in use the request is refused and nothing changes. The confirmation goes to the sender of the request.
\<close>

theorem subscription_numbers:
  assumes "nmInv nm" "createEventMessageFromJausMessage (junkNmCreateEvent env) m = Some (Some ce)"
    "createEvent_reportMessageCode ce = JAUS_REPORT_CONFIGURATION" "createEvent_queryMessage ce = Some q"
    "queryConfigurationMessageFromJausMessage (junkNmQueryConf env) q = Some (Some qc)"
    "queryConfiguration_queryField qc \<in> {JAUS_SUBSYSTEM_CONFIGURATION, JAUS_NODE_CONFIGURATION}"
  defines "used \<equiv> fst ` set (subscriptions nm)"
  shows "\<exists>c nm1. processCreateEvent env m nm = do { nm2 \<leftarrow> sendConfirmation c nm1; finishWith True m nm2 } \<and>
    nmInv nm1 \<and> router nm1 = router nm \<and> source c = ownAddress nm \<and> destination c = source m \<and>
    confirmEventRequest_messageCode c = JAUS_REPORT_CONFIGURATION \<and>
    (used = {..< 255} \<longrightarrow> nm1 = nm \<and> confirmEventRequest_responseCode c = CONNECTION_REFUSED_RESPONSE) \<and>
    (used \<noteq> {..< 255} \<longrightarrow> (\<exists>k < 255. k \<notin> used \<and> (\<forall>j < k. j \<in> used) \<and>
       unat (confirmEventRequest_eventId c) = k \<and> confirmEventRequest_responseCode c = SUCCESSFUL_RESPONSE \<and>
       (if queryConfiguration_queryField qc = JAUS_SUBSYSTEM_CONFIGURATION
        then subsystemChangeList nm1 = subsystemChangeList nm @ [(k, source ce)] \<and> nodeChangeList nm1 = nodeChangeList nm
        else nodeChangeList nm1 = nodeChangeList nm @ [(k, source ce)] \<and> subsystemChangeList nm1 = subsystemChangeList nm)))"
proof -
  have ok: "subscriptionsOk nm" using assms(1) by (simp add: nmInv_def)
  let ?field = "queryConfiguration_queryField qc"
  let ?c = "confirmEventRequestMessageCreate\<lparr>destination := source m, source := ownAddress nm, confirmEventRequest_messageCode := JAUS_REPORT_CONFIGURATION\<rparr>"
  define put where "put = (if ?field = JAUS_SUBSYSTEM_CONFIGURATION then (\<lambda>l n. n\<lparr>subsystemChangeList := l\<rparr>) else (\<lambda>l n. n\<lparr>nodeChangeList := l\<rparr> :: 'a LocalComponent_scheme))"
  define get where "get = (if ?field = JAUS_SUBSYSTEM_CONFIGURATION then subsystemChangeList else nodeChangeList :: 'a LocalComponent_scheme \<Rightarrow> _)"
  have list: "entered get put" by (simp add: entered_def get_def put_def)
  obtain c nm1 where s: "subscribe put get (source ce) ?c nm = (c, nm1)" by fastforce
  have run: "processCreateEvent env m nm = do { nm2 \<leftarrow> sendConfirmation c nm1; finishWith True m nm2 }"
    using assms(2-6) s by (auto simp: processCreateEvent_def Let_def put_def get_def)
  have inv: "nmInv nm1" "router nm1 = router nm" "source c = ownAddress nm" "destination c = source m" "confirmEventRequest_messageCode c = JAUS_REPORT_CONFIGURATION"
    using subscribe_inv [OF list assms(1) s] s
    by (auto simp: subscribe_def Let_def existingSubscription_def put_def split: option.splits prod.splits if_splits)
  show ?thesis
  proof (cases "getNextEventId nm")
    case None
    then show ?thesis
      using run inv s getNextEventId_full [OF ok None] by (intro exI [of _ c] exI [of _ nm1]) (auto simp: subscribe_def Let_def used_def)
  next
    case (Some k)
    note free = getNextEventId_free [OF ok Some] and e = subscribe_entry [OF list ok Some s]
    have "unat (of_nat k :: u8) = k" using free(1) by (simp add: unat_of_nat_lt)
    moreover have "used \<noteq> {..< 255}" using free(1,2) by (auto simp: used_def)
    moreover have "if ?field = JAUS_SUBSYSTEM_CONFIGURATION then nodeChangeList nm1 = nodeChangeList nm else subsystemChangeList nm1 = subsystemChangeList nm"
      using s Some by (auto simp: subscribe_def Let_def put_def)
    ultimately show ?thesis
      using run inv e(1,8,9) free by (intro exI [of _ c] exI [of _ nm1]) (auto simp: used_def get_def)
  qed
qed

theorem subscription_numbers_witness:
  "\<exists>(nm :: NodeManagerComponent) m ce c nm1. nmInv nm \<and> subscriptions nm = [] \<and>
     createEventMessageFromJausMessage (junkNmCreateEvent exampleEnv) m = Some (Some ce) \<and>
     processCreateEvent exampleEnv m nm = do { nm2 \<leftarrow> sendConfirmation c nm1; finishWith True m nm2 } \<and>
     nodeChangeList nm1 = [(0, addr 1 2 1 1)]"
proof -
  obtain nm where nm: "newNodeManagerComponent 0 (mySubsystemId smallRouter) (myNodeId smallRouter) 2 smallRouter = Inr nm"
      "subsystemChangeList nm = []" "nodeChangeList nm = []" by (rule small_manager)
  have inv: "nmInv nm" by (rule constructed_inv [OF nm(1) routerOk_small]) simp
  have none: "subscriptions nm = []" using nm by (simp add: subscriptions_def)
  obtain jm where "\<forall>junk junkQuery dst src. \<exists>ce' q qc. createEventMessageFromJausMessage junk (jm\<lparr>destination := dst, source := src\<rparr>) = Some (Some ce') \<and>
       source ce' = src \<and> createEvent_reportMessageCode ce' = JAUS_REPORT_CONFIGURATION \<and> createEvent_queryMessage ce' = Some q \<and>
       queryConfigurationMessageFromJausMessage junkQuery q = Some (Some qc) \<and> queryConfiguration_queryField qc = JAUS_NODE_CONFIGURATION"
    by (rule request_understood [of JAUS_NODE_CONFIGURATION])
  from this [rule_format, of "junkNmCreateEvent exampleEnv" "addr 1 2 1 1" "addr 1 1 1 1" "junkNmQueryConf exampleEnv"]
  obtain ce q qc where m: "createEventMessageFromJausMessage (junkNmCreateEvent exampleEnv) (jm\<lparr>destination := addr 1 1 1 1, source := addr 1 2 1 1\<rparr>) = Some (Some ce)"
      "source ce = addr 1 2 1 1" "createEvent_reportMessageCode ce = JAUS_REPORT_CONFIGURATION" "createEvent_queryMessage ce = Some q"
      "queryConfigurationMessageFromJausMessage (junkNmQueryConf exampleEnv) q = Some (Some qc)" "queryConfiguration_queryField qc = JAUS_NODE_CONFIGURATION"
    by blast
  have "(0 :: nat) \<in> {..< 255}" by simp
  then have "{..< 255 :: nat} \<noteq> {}" by blast
  moreover have "queryConfiguration_queryField qc \<in> {JAUS_SUBSYSTEM_CONFIGURATION, JAUS_NODE_CONFIGURATION}" using m(6) by simp
  note law = subscription_numbers [OF inv m(1,3,4,5) this]
  ultimately obtain c nm1 k where c: "processCreateEvent exampleEnv (jm\<lparr>destination := addr 1 1 1 1, source := addr 1 2 1 1\<rparr>) nm =
      do { nm2 \<leftarrow> sendConfirmation c nm1; finishWith True (jm\<lparr>destination := addr 1 1 1 1, source := addr 1 2 1 1\<rparr>) nm2 }"
    "\<forall>j < k. j \<in> fst ` set (subscriptions nm)" "nodeChangeList nm1 = nodeChangeList nm @ [(k, source ce)]"
    using none m(6) by auto
  have "k = 0" using c(2) none by auto
  then show ?thesis
    using inv none m(1) c(1,3) m(2) nm(3)
    by (intro exI [of _ nm] exI [of _ "jm\<lparr>destination := addr 1 1 1 1, source := addr 1 2 1 1\<rparr>"] exI [of _ ce] exI [of _ c] exI [of _ nm1]) simp
qed

text \<open>
  C22. A subscription is cancelled under the code of the query only. With that code and a number in use exactly the
  entry of that number is removed; with any other code nothing is removed, also with the code of the report, which
  is the one the confirmation of the request gives; and number 255, which a message can carry, is read past the
  end of the array of numbers.
\<close>

theorem cancel_frees_query_code_only:
  assumes "nmInv nm" "cancelEventMessageFromJausMessage (junkNmCancelEvent env) m = Some (Some c)"
  defines "k \<equiv> unat (cancelEvent_eventId c)"
  shows "if cancelEvent_messageCode c = JAUS_QUERY_CONFIGURATION
    then (if k = 255 then processCancelEvent env m nm = None
          else \<exists>nm1. processCancelEvent env m nm = finishWith True m nm1 \<and> nmInv nm1 \<and>
            subscriptions nm1 = filter (\<lambda>(j, a). j \<noteq> k) (subscriptions nm))
    else processCancelEvent env m nm = finishWith True m nm"
proof -
  have ok: "nmOk nm" "subscriptionsOk nm" "localOk nm" using assms(1) by (simp_all add: nmInv_def)
  have len: "length (eventIds nm) = 255" using ok(2) by (simp add: subscriptionsOk_def)
  have bound: "k \<le> 255" using u8_bound [of "cancelEvent_eventId c"] by (simp add: k_def)
  consider "cancelEvent_messageCode c \<noteq> JAUS_QUERY_CONFIGURATION" | "k = 255" | "k < 255" "\<not> eventIds nm ! k" | "k < 255" "eventIds nm ! k"
    using bound by linarith
  then show ?thesis
  proof cases
    case 3
    then have "k \<notin> fst ` set (subscriptions nm)" using ok(2) by (simp add: subscriptionsOk_def)
    then have "filter (\<lambda>(j, a). j \<noteq> k) (subscriptions nm) = subscriptions nm" by (force simp: filter_id_conv)
    then show ?thesis using 3 assms(1,2) len by (auto simp: processCancelEvent_def Let_def k_def [symmetric])
  next
    case 4
    define nm1 where "nm1 = (let nm1 = nm\<lparr>eventIds := (eventIds nm)[k := False]\<rparr>
            in if k \<in> fst ` set (subsystemChangeList nm1) then nm1\<lparr>subsystemChangeList := mapErase k (subsystemChangeList nm1)\<rparr>
               else if k \<in> fst ` set (nodeChangeList nm1) then nm1\<lparr>nodeChangeList := mapErase k (nodeChangeList nm1)\<rparr> else nm1)"
    note s = cancel_subscriptions [OF ok(2) _ 4(2) nm1_def]
    have "nmInv nm1" using s(1) 4(1) ok(1,3) by (simp add: nmInv_def nm1_def Let_def nmOk_def localOk_def)
    moreover have "processCancelEvent env m nm = (if cancelEvent_messageCode c = JAUS_QUERY_CONFIGURATION then finishWith True m nm1 else finishWith True m nm)"
      using 4 assms(2) len by (simp add: processCancelEvent_def Let_def k_def [symmetric] nm1_def)
    ultimately show ?thesis using s(2) 4(1) by auto
  qed (use assms(2) len in \<open>simp_all add: processCancelEvent_def Let_def k_def [symmetric]\<close>)
qed

text \<open>A cancellation on the wire, with code and number.\<close>

lemma cancel_message:
  obtains m where "source m = src" "cloneOk m" "commandCode m = JAUS_CANCEL_EVENT"
    "\<forall>junk. \<exists>c. cancelEventMessageFromJausMessage junk m = Some (Some c) \<and> cancelEvent_messageCode c = code \<and> cancelEvent_eventId c = k"
proof -
  let ?c = "cancelEventMessageCreate\<lparr>source := src, cancelEvent_messageCode := code, cancelEvent_eventId := k\<rparr>"
  have c: "commandCode ?c = JAUS_CANCEL_EVENT" "cancelEvent_presenceVector ?c = 255"
    by (simp_all add: cancelEventMessageCreate_def cancelEvent_dataInitialize_def blankHeader_def JausHeader.extend_def Let_def)
  define m where "m = (copyHeader ?c jausMessageCreate)\<lparr>dataSize := cancelEvent_dataSize ?c, data := Some (cancelEvent_enc ?c)\<rparr>"
  have "cancelEventMessageFromJausMessage junk m =
      Some (Some (cancelEvent_withData (copyHeader (?c\<lparr>dataSize := cancelEvent_dataSize ?c\<rparr>) junk) ?c))" for junk
    using cancelEvent.jaus_roundtrip [OF c(1), of junk] cancelEvent.toJausMessage [of ?c]
    by (simp add: m_def cancelEventMessageFromJausMessage_def)
  moreover have "cloneOk m" using cancelEvent.enc_size [of ?c] by (simp add: m_def cloneOk_iff dataBytes_def)
  moreover have "bit (255 :: u8) 0" "bit (255 :: u8) 1" by (simp_all add: bit_iff_odd)
  ultimately show ?thesis
    using c by (intro that [of m]) (simp_all add: m_def cancelEvent_withData_def onlyIf_def)
qed

theorem cancel_frees_query_code_only_witness:
  "\<exists>(nm :: NodeManagerComponent) m c. nmInv nm \<and> cancelEventMessageFromJausMessage (junkNmCancelEvent exampleEnv) m = Some (Some c) \<and>
     cancelEvent_messageCode c = JAUS_REPORT_CONFIGURATION \<and> processCancelEvent exampleEnv m nm = finishWith True m nm"
proof -
  obtain nm where nm: "newNodeManagerComponent 0 (mySubsystemId smallRouter) (myNodeId smallRouter) 2 smallRouter = Inr nm" by (rule small_manager)
  have inv: "nmInv nm" by (rule constructed_inv [OF nm(1) routerOk_small]) simp
  obtain m c where m: "cancelEventMessageFromJausMessage (junkNmCancelEvent exampleEnv) m = Some (Some c)"
    "cancelEvent_messageCode c = JAUS_REPORT_CONFIGURATION"
    using cancel_message [of "addr 1 2 1 1" JAUS_REPORT_CONFIGURATION 0] by metis
  then show ?thesis using cancel_frees_query_code_only [OF inv m(1)] inv
    by (intro exI [of _ nm] exI [of _ m] exI [of _ c]) simp
qed

text \<open>
  C14. One message from anywhere ends the node manager. Whatever the well-formed state of the component, for each source
  there is a well-formed request for the events of a configuration (without the query, which the presence vector
  makes optional) that makes it follow a null pointer, and a well-formed cancellation (of event 255) that makes it
  read and write outside its array.
\<close>

theorem one_message_ends_node_manager:
  assumes "nmInv nm"
  shows "(\<exists>m. source m = src \<and> cloneOk m \<and> commandCode m = JAUS_CREATE_EVENT \<and> nmProcessMessage env (Some m) nm = None) \<and>
    (\<exists>m. source m = src \<and> cloneOk m \<and> commandCode m = JAUS_CANCEL_EVENT \<and> nmProcessMessage env (Some m) nm = None)"
proof
  let ?ce = "(junkNmCreateEvent exampleEnv)\<lparr>source := src, createEvent_reportMessageCode := JAUS_REPORT_CONFIGURATION\<rparr>"
  have ce: "createEventOk ?ce" "commandCode ?ce = JAUS_CREATE_EVENT" "createEvent_presenceVector ?ce = 0"
    by (simp_all add: createEventOk_def exampleEnv_def blankHeader_def JausHeader.extend_def Let_def CreateEventMessage.defs)
  define m where "m = (copyHeader ?ce jausMessageCreate)\<lparr>dataSize := of_nat (length (createEvent_enc ?ce)), data := Some (createEvent_enc ?ce)\<rparr>"
  have c: "createEventMessageFromJausMessage junk m = Some (Some (createEvent_withData (copyHeader m junk) ?ce))" for junk
    by (rule createEvent_fromJausMessage [OF ce(1,2) m_def])
  have "createEvent_queryMessage (createEvent_withData m0 ?ce) = None"
    "createEvent_reportMessageCode (createEvent_withData m0 ?ce) = JAUS_REPORT_CONFIGURATION" for m0
    using ce(3) by (simp_all add: createEvent_withData_def Let_def)
  then have "processCreateEvent env m nm = None" by (simp add: processCreateEvent_def c Let_def)
  moreover have "commandCode m = JAUS_CREATE_EVENT" "source m = src" using ce(2) by (simp_all add: m_def)
  moreover have "cloneOk m" using createEvent_size(2) [OF ce(1)] by (simp add: m_def cloneOk_iff dataBytes_def unat_of_nat_lt)
  ultimately show "\<exists>m. source m = src \<and> cloneOk m \<and> commandCode m = JAUS_CREATE_EVENT \<and> nmProcessMessage env (Some m) nm = None"
    by (intro exI [of _ m]) (simp add: nmProcessMessage.simps(2))
  obtain m where m: "source m = src" "cloneOk m" "commandCode m = JAUS_CANCEL_EVENT"
    "\<forall>junk. \<exists>c. cancelEventMessageFromJausMessage junk m = Some (Some c) \<and> cancelEvent_messageCode c = JAUS_QUERY_CONFIGURATION \<and> cancelEvent_eventId c = 255"
    using cancel_message by metis
  have "length (eventIds nm) = 255" using assms by (simp add: nmInv_def subscriptionsOk_def)
  then have "processCancelEvent env m nm = None"
    using m(4) [rule_format, of "junkNmCancelEvent env"] by (auto simp: processCancelEvent_def Let_def)
  then show "\<exists>m. source m = src \<and> cloneOk m \<and> commandCode m = JAUS_CANCEL_EVENT \<and> nmProcessMessage env (Some m) nm = None"
    using m(1-3) by (intro exI [of _ m]) (simp add: nmProcessMessage.simps(2))
qed

theorem one_message_ends_node_manager_witness:
  "\<exists>(nm :: NodeManagerComponent) m. nmRun smallRouter 2 0 nm \<and> source m = addr 7 1 40 1 \<and> cloneOk m \<and> nmProcessMessage exampleEnv (Some m) nm = None"
proof -
  obtain nm where nm: "newNodeManagerComponent 0 (mySubsystemId smallRouter) (myNodeId smallRouter) 2 smallRouter = Inr nm" by (rule small_manager)
  have inv: "nmInv nm" by (rule constructed_inv [OF nm(1) routerOk_small]) simp
  show ?thesis using one_message_ends_node_manager [OF inv, of "addr 7 1 40 1" exampleEnv] nmRun.constructed [OF nm] by blast
qed

section \<open>Events to subscribers\<close>

text \<open>The messages that are handed over one after the other, each as a clone of one that is then freed.\<close>

fun handAll :: "JausMessage list \<Rightarrow> 'a LocalComponent_scheme \<Rightarrow> 'a LocalComponent_scheme exec" where
  "handAll [] nm = Some nm"
| "handAll (m # ms) nm =
     do { nm1 \<leftarrow> handOver m (nm\<lparr>router := (router nm)\<lparr>clones := clones (router nm) + 1\<rparr>, created := created nm + 1\<rparr>);
          handAll ms (nm1\<lparr>router := destroyMessage (Some m) (router nm1)\<rparr>) }"

definition eventFor :: "EventMessage \<Rightarrow> JausMessage \<Rightarrow> nat \<times> JausAddress \<Rightarrow> JausMessage" where
  "eventFor e r = (\<lambda>(k, a). let m = e\<lparr>event_eventId := of_nat k, destination := a\<rparr>
     in (copyHeader m jausMessageCreate)\<lparr>dataSize := event_dataSize m, data := Some (event_enc m r)\<rparr>)"

lemma sendEvents_handAll:
  assumes "event_reportMessage e = Some r" "enclosed 8 r"
  shows "sendEvents e subscribers nm = handAll (map (eventFor e r) subscribers) nm"
proof (induction subscribers arbitrary: nm)
  case (Cons ka rest)
  obtain k a where ka: "ka = (k, a)" by fastforce
  let ?m = "e\<lparr>event_eventId := of_nat k, destination := a\<rparr>"
  have r: "event_reportMessage ?m = Some r" using assms(1) by simp
  have to: "eventMessageToJausMessage ?m = Some (eventFor e r ka)"
    using event_toJausMessage [OF r assms(2)] by (simp add: eventFor_def ka Let_def)
  have "unat (dataSize (eventFor e r ka)) = length (dataBytes (eventFor e r ka))" "dataBytes (eventFor e r ka) \<noteq> []"
    using event_sizes(2) [OF r assms(2)] by (simp_all add: eventFor_def ka Let_def dataBytes_def event_enc_def)
  then have "jausMessageClone (eventFor e r ka) = Some (eventFor e r ka)"
    by (auto simp: jausMessageClone_def eventFor_def ka Let_def memRead_def dataBytes_def)
  then show ?case using to Cons.IH by (simp add: ka cloneMessage_def)
qed simp

lemma carried_configuration:
  assumes "configurationOk (configuration subs)" "reportConfigurationMessageToJausMessage (configurationReport now subs) = Some report"
  shows "\<exists>rc. reportConfigurationMessageFromJausMessage now' junk (carried e report) = Some (Some rc) \<and> source rc = source e \<and>
    configuration (reportConfiguration_subsystem rc) = configuration subs \<and>
    subsId (reportConfiguration_subsystem rc) = uint (addrSubsystem (source e)) \<and> commandCode report = JAUS_REPORT_CONFIGURATION"
proof -
  let ?m = "configurationReport now subs" and ?bs = "configurationBytes (configuration subs)"
  have sub: "reportConfiguration_subsystem ?m = subs" and code: "commandCode ?m = JAUS_REPORT_CONFIGURATION"
    by (simp_all add: configurationReport_def reportConfigurationMessageCreate_def reportConfiguration_dataInitialize_def
        blankHeader_def JausHeader.extend_def Let_def)
  have n: "unat (reportConfiguration_dataSize ?m) = length ?bs"
    using configurationBytes_bound [OF assms(1)] by (simp add: reportConfiguration_size sub unat_of_nat_lt)
  have "reportConfiguration_dataToBuffer ?m (replicate (unat (reportConfiguration_dataSize ?m)) 0) 0 (reportConfiguration_dataSize ?m) =
      Some (length ?bs, ?bs)"
    using reportConfiguration_to [of 0 ?m "replicate (unat (reportConfiguration_dataSize ?m)) 0" "reportConfiguration_dataSize ?m"] n sub by simp
  then have report: "commandCode report = JAUS_REPORT_CONFIGURATION" "dataBytes report = ?bs" "dataSize report = reportConfiguration_dataSize ?m"
    using assms(2) code
    by (auto simp: reportConfigurationMessageToJausMessage_def messageToJausMessage_def dataBytes_def reportConfiguration_size sub)
  let ?h = "copyHeader (carried e report) junk"
  note fr = reportConfiguration_from [of ?m ?h now' "[]" "[]", unfolded sub, OF assms(1)]
  have "dataSize ?h = reportConfiguration_dataSize ?m" using report(3) by (simp add: carried_def)
  from fr [OF this] show ?thesis
    using report by (simp add: reportConfigurationMessageFromJausMessage_def messageFromJausMessage_def carried_def dataBytes_def
        configuration_def [of "_\<lparr>subsNodes := _\<rparr>"] configuration_parsed del: map_map)
qed

text \<open>The message \<open>m\<close> tells its receiver the configuration \<open>c\<close> of the sender's subsystem, under the number \<open>k\<close> of its subscription.\<close>

definition tells :: "JausAddress \<Rightarrow> (u8 \<times> (u8 \<times> u8) list) list \<Rightarrow> nat \<times> JausAddress \<Rightarrow> JausMessage \<Rightarrow> bool" where
  "tells own c = (\<lambda>(k, a) m. destination m = a \<and> source m = own \<and> commandCode m = JAUS_EVENT \<and>
     (\<forall>junk junk' now. \<exists>e r rc. eventMessageFromJausMessage junk m = Some (Some e) \<and> event_eventId e = of_nat k \<and>
        event_reportMessage e = Some r \<and> commandCode r = JAUS_REPORT_CONFIGURATION \<and>
        reportConfigurationMessageFromJausMessage now junk' r = Some (Some rc) \<and> source rc = own \<and>
        configuration (reportConfiguration_subsystem rc) = c \<and>
        subsId (reportConfiguration_subsystem rc) = uint (addrSubsystem own)))"

lemma configurationEvents_tell:
  assumes "fitsReport subs" "configurationOk (configuration subs)"
  shows "\<exists>ms. sendConfigurationEvents now subs l nm = handAll ms nm \<and> list_all2 (tells (ownAddress nm) (configuration subs)) l ms"
proof -
  obtain r where r: "reportConfigurationMessageToJausMessage (configurationReport now subs) = Some r" "enclosed 8 r"
    using report_enclosed [OF assms(1)] by blast
  let ?e = "eventMessageCreate\<lparr>event_reportMessage := Some r, source := ownAddress nm\<rparr>"
  have e: "event_reportMessage ?e = Some r" "commandCode ?e = JAUS_EVENT"
    by (simp_all add: eventMessageCreate_def event_dataInitialize_def blankHeader_def JausHeader.extend_def Let_def)
  have code: "commandCode r = JAUS_REPORT_CONFIGURATION" using carried_configuration [OF assms(2) r(1)] by blast
  have "tells (ownAddress nm) (configuration subs) (k, a) (eventFor ?e r (k, a))" for k a
  proof -
    let ?m = "?e\<lparr>event_eventId := of_nat k, destination := a\<rparr>"
    have m: "event_reportMessage ?m = Some r" "commandCode ?m = JAUS_EVENT" using e by simp_all
    note fr = event_fromJausMessage [OF m(1) r(2) m(2)] and rc = carried_configuration [OF assms(2) r(1), of _ _ ?m]
    show ?thesis
      unfolding tells_def eventFor_def using fr rc m(2) code by (auto simp: Let_def) (simp add: carried_def)
  qed
  then have "list_all2 (tells (ownAddress nm) (configuration subs)) l (map (eventFor ?e r) l)"
    by (auto simp: list_all2_conv_all_nth split: prod.splits intro: list.rel_refl) (metis prod.collapse)
  moreover have "sendConfigurationEvents now subs l nm = handAll (map (eventFor ?e r) l) nm"
    using sendEvents_handAll [OF e(1) r(2)] by (simp add: sendConfigurationEvents_def r(1))
  ultimately show ?thesis by blast
qed

text \<open>
  C10. Every subscriber is told the new configuration. When the configuration of the subsystem changes, the component
  hands one message per entry of the subscriber list to the router, in the order of the list: an event with the
  number of the subscription, addressed to the subscriber, from which the receiver unpacks a report of exactly the nodes,
  components and instances the tree holds for this subsystem.
\<close>

theorem subscribers_told:
  assumes "nmInv nm" "sub (treeOf nm) (mySubsystemId (router nm)) = Some subs" "configurationOk (configuration subs)"
  shows "\<exists>ms. sendSubsystemChangedEvents env nm = handAll ms nm \<and>
    list_all2 (tells (ownAddress nm) (configuration subs)) (subsystemChangeList nm) ms"
proof -
  have ok: "nmOk nm" using assms(1) by (simp add: nmInv_def)
  have own: "uint (addrSubsystem (ownAddress nm)) = mySubsystemId (router nm)" using ok by (simp add: nmOk_def)
  have "configuration (stampSubs now subs) = configuration subs" for now
    by (simp add: configuration_def stampSubs_def comp_def nodeConf_def stampNode_def jausComponentUpdateTimestamp_def)
  moreover have "fitsReport (stampSubs (nmClock env) subs)"
    by (rule okSubs_fits [OF okSubs_stamped [OF treeOkD [OF nmOk_tree [OF ok] assms(2)]]])
  moreover have "getSubsystem (nmClock env) (treeOf nm) (uint (addrSubsystem (ownAddress nm))) = Some (Some (stampSubs (nmClock env) subs))"
    using getSubsystem_ok [OF nmOk_tree [OF ok] unsigned_greater_eq [of "addrSubsystem (ownAddress nm)"], of "nmClock env"]
      nmOk_own(2) [OF ok] own assms(2) by simp
  ultimately show ?thesis
    using configurationEvents_tell [of "stampSubs (nmClock env) subs" "nmClock env" "subsystemChangeList nm" nm] assms(3)
    by (simp add: sendSubsystemChangedEvents_def)
qed

text \<open>A manager whose tree holds this subsystem with two components, and another subsystem.\<close>

lemma tree_manager:
  obtains nm :: NodeManagerComponent where "nmInv nm" "treeOf nm = smallTree" "ownAddress nm = addr 1 1 1 1" "mySubsystemId (router nm) = 1"
    "subsystemChangeList nm = [(0, addr 2 1 1 1)]"
proof -
  let ?r = "smallRouter\<lparr>systemTree := smallTree\<rparr>"
  have r: "routerOk ?r" using routerOk_small treeOk_small by (simp add: routerOk_def mngrOk_def cmptMapOk_def)
  obtain nm where nm: "newNodeManagerComponent 0 (mySubsystemId ?r) (myNodeId ?r) 2 ?r = Inr nm"
    by (simp add: newNodeManagerComponent_def Let_def)
  have p: "router nm = ?r" "ownAddress nm = addr 1 1 1 1" "eventIds nm = replicate 255 False" "nodeChangeList nm = []"
    using nm by (auto simp: newNodeManagerComponent_def Let_def setupJausServices_def)
  let ?nm = "nm\<lparr>eventIds := (eventIds nm)[0 := True], subsystemChangeList := [(0, addr 2 1 1 1)]\<rparr>"
  have "nmInv nm" by (rule constructed_inv [OF nm r]) simp
  then have "nmInv ?nm"
    using p by (auto simp: nmInv_def nmOk_def localOk_def subscriptionsOk_def subscriptions_def nth_list_update)
  then show ?thesis using that [of ?nm] p by simp
qed

theorem subscribers_told_witness:
  "\<exists>(nm :: NodeManagerComponent) m. nmInv nm \<and> sendSubsystemChangedEvents exampleEnv nm = handAll [m] nm \<and> destination m = addr 2 1 1 1"
proof -
  obtain nm :: NodeManagerComponent where nm: "nmInv nm" "treeOf nm = smallTree" "mySubsystemId (router nm) = 1"
    "subsystemChangeList nm = [(0, addr 2 1 1 1)]" using tree_manager by metis
  have "configurationOk (configuration smallOwn)"
    by (simp add: configurationOk_def configuration_def nodeConf_def smallOwn_def)
  then have "\<exists>ms. sendSubsystemChangedEvents exampleEnv nm = handAll ms nm \<and>
      list_all2 (tells (ownAddress nm) (configuration smallOwn)) [(0, addr 2 1 1 1)] ms"
    using subscribers_told [OF nm(1), of smallOwn exampleEnv] nm by (simp add: sub_small)
  then obtain m where "sendSubsystemChangedEvents exampleEnv nm = handAll [m] nm" "destination m = addr 2 1 1 1"
    by (auto simp: list_all2_Cons1 tells_def simp del: handAll.simps)
  then show ?thesis using nm(1) by blast
qed

text \<open>
  C23. Check-in and check-out. A local component gets the lowest free instance of its number, the tree then holds it and
  everything it held before, and every subscriber has been told; after its check-out the tree knows the same
  subsystems, nodes and components as before.
\<close>

theorem check_in_and_out:
  assumes "nmInv nm" "nodeKey (ownAddress nm) \<in> nodeKeys (treeOf nm)" "of_int c \<notin> {0, 255 :: u8}"
    "getNextInstanceId (treeOf nm) (checkInQuery c nm) = Some i"
  defines "a \<equiv> (checkInQuery c nm)\<lparr>addrInstance := i\<rparr>"
  shows "a \<notin> cmptKeys (treeOf nm) \<and> (\<forall>j. 1 \<le> j \<and> j < i \<longrightarrow> a\<lparr>addrInstance := j\<rparr> \<in> cmptKeys (treeOf nm)) \<and>
    (\<exists>nm1. checkInLocalComponent env c nm = Some (Some a, nm1) \<and> nmInv nm1 \<and>
       known (treeOf nm1) = (subsKeys (treeOf nm), nodeKeys (treeOf nm), insert a (cmptKeys (treeOf nm))) \<and>
       (\<exists>nm2. checkOutLocalComponent env' (uint (addrSubsystem a)) (uint (addrNode a)) (uint (addrComponent a)) (uint (addrInstance a)) nm1 =
          Some nm2 \<and> nmInv nm2 \<and> known (treeOf nm2) = known (treeOf nm)))"
proof -
  have ok: "nmOk nm" using assms(1) by (simp add: nmInv_def)
  have q: "addrSubsystem (checkInQuery c nm) \<noteq> 255" "nodeKey (checkInQuery c nm) = nodeKey (ownAddress nm)"
    using nmOk_own(1) [OF ok] by (simp_all add: checkInQuery_def)
  have i: "i \<notin> usedInstances (treeOf nm) (checkInQuery c nm) \<and> (\<forall>j. 1 \<le> j \<and> j < i \<longrightarrow> j \<in> usedInstances (treeOf nm) (checkInQuery c nm))"
    using nextInstance_free [OF nmOk_tree [OF ok] q(1)] q(2) assms(2,4) by simp
  then have free: "a \<notin> cmptKeys (treeOf nm)" by (simp add: usedInstances_def a_def)
  obtain nm1 where nm1: "checkInLocalComponent env c nm = Some (Some a, nm1)" "since nm nm1"
    "known (treeOf nm1) = (subsKeys (treeOf nm), nodeKeys (treeOf nm), insert a (cmptKeys (treeOf nm)))"
    using checkIn_known [OF ok assms(2,3,4), of env] unfolding a_def by blast
  have inv1: "nmInv nm1" by (rule since_inv [OF assms(1) nm1(2)])
  then have ok1: "nmOk nm1" by (simp add: nmInv_def)
  have "addrSubsystem a \<noteq> 255" using q(1) by (simp add: a_def)
  from checkOut_ok [OF ok1 this, of env'] obtain nm2 where nm2: "checkOutLocalComponent env' (uint (addrSubsystem a)) (uint (addrNode a))
      (uint (addrComponent a)) (uint (addrInstance a)) nm1 = Some nm2" "since nm1 nm2"
    "known (treeOf nm2) = (subsKeys (treeOf nm1), nodeKeys (treeOf nm1), cmptKeys (treeOf nm1) - {a})" by blast
  have "nmInv nm2" by (rule since_inv [OF inv1 nm2(2)])
  moreover have "known (treeOf nm2) = known (treeOf nm)" using nm1(3) nm2(3) free by (simp add: known_def)
  ultimately show ?thesis using i free nm1(1,3) inv1 nm2(1) by (auto simp: usedInstances_def a_def)
qed

theorem check_in_and_out_witness:
  "\<exists>(nm :: NodeManagerComponent) i nm1. treeOf nm = smallTree \<and> checkInLocalComponent exampleEnv 40 nm = Some (Some (addr 1 1 40 i), nm1) \<and>
     addr 1 1 40 i \<notin> cmptKeys smallTree \<and> addr 1 1 40 i \<in> cmptKeys (treeOf nm1)"
proof -
  obtain nm :: NodeManagerComponent where nm: "nmInv nm" "treeOf nm = smallTree" "ownAddress nm = addr 1 1 1 1" using tree_manager by metis
  have q: "checkInQuery 40 nm = addr 1 1 40 0" by (simp add: checkInQuery_def nm(3))
  have key: "nodeKey (ownAddress nm) \<in> nodeKeys (treeOf nm)" by (simp add: nm known_small)
  have "usedInstances smallTree (addr 1 1 40 0) = {1}" by (auto simp: usedInstances_def known_small)
  then have "getNextInstanceId smallTree (addr 1 1 40 0) \<noteq> None"
    by (subst getNextInstanceId_eq [OF treeOk_small]) (auto simp: known_small word_less_nat_alt intro!: exI [of _ 2])
  then obtain i where i: "getNextInstanceId (treeOf nm) (checkInQuery 40 nm) = Some i" by (auto simp: nm(2) q)
  from check_in_and_out [OF nm(1) key _ i, of exampleEnv exampleEnv] show ?thesis
    using nm(2) by (auto simp: q known_def)
qed

end
