(* ===== verification/CommunicatorProps.thy ===== *)
theory CommunicatorProps
  imports CommunicatorLaws NodeManagerProps
begin

text \<open>
  The properties of the communicator: its runs, its subscription at the node manager's component, the way of a change of
  the configuration through both components, and the query it frees twice.
\<close>

section \<open>Examples\<close>

definition exampleCmEnv :: CmEnv where
  "exampleCmEnv = \<lparr>nmEnv = exampleEnv, junkCmConfirm = confirmEventRequestMessageCreate\<rparr>"

lemma small_communicator:
  obtains cm where "newCommunicatorComponent 0 (mySubsystemId smallRouter) (myNodeId smallRouter) 2 smallRouter = Inr cm"
    "ownAddress cm = addr 1 1 35 1" "nmInv cm" "nodeManagerSubsystemEventConfirmed cm = False" "readySendTime cm = 0"
proof -
  obtain cm where cm: "newCommunicatorComponent 0 (mySubsystemId smallRouter) (myNodeId smallRouter) 2 smallRouter = Inr cm"
    by (simp add: newCommunicatorComponent_def Let_def)
  have "nmInv cm" by (rule communicator_constructed_inv [OF cm routerOk_small]) simp
  then show ?thesis using that [OF cm] communicator_fields [OF cm] by simp
qed

section \<open>Properties\<close>

text \<open>
  C9. In every run of \<open>cmRun\<close> the state of the communicator is well formed and the component goes on. Starting, stopping, beating
  and the work of its state return, and so does taking an acceptable message (\<open>cmAcceptable\<close>; others can end it). The account of
  messages is exact, with an excess: it counts the query twice for each message that makes the communicator ask for a
  configuration (\<open>asks\<close>: a heartbeat or an identification of a subsystem without one, or an event around such a
  message), because the program frees that query twice. So for any other acceptable message the memory is in order when the call returns; for one of these the
  return is that of the model, in which the second free is only counted, while in the program what it does is undefined.
\<close>

theorem communicator_goes_on:
  assumes "cmRun r0 k n j cm" "routerOk r0" "k \<in> set (interfaces (cmptComms r0))"
  shows "nmInv cm \<and>
     census (router cm) + clones r0 = census r0 + n + j + created cm + clones (router cm) \<and>
     (\<forall>env m. envOk (nmEnv env) \<longrightarrow> cmAcceptable (nmEnv env) cm m \<longrightarrow>
        (\<exists>b cm'. cmProcessMessage env (Some m) cm = Some (b, cm') \<and> nmInv cm' \<and>
           census (router cm') + clones (router cm) + created cm =
             census (router cm) + clones (router cm') + created cm' + 1 + (if asks (nmEnv env) cm m then 1 else 0))) \<and>
     (\<forall>env. cmStartInterface env cm \<noteq> None \<and> cmStopInterface env cm \<noteq> None \<and> cmAllState env cm \<noteq> None \<and>
        cmStateMethod env cm \<noteq> None)"
proof (intro conjI allI impI)
  have inv: "nmInv cm" "nmOk cm" "account r0 (n + j) cm" using cm_run_invariant [OF assms] by (simp_all add: nmInv_def)
  show "nmInv cm" by (rule inv(1))
  show "census (router cm) + clones r0 = census r0 + n + j + created cm + clones (router cm)"
    using inv(3) by (simp add: account_def ac_simps)
  show "\<exists>b cm'. cmProcessMessage env (Some m) cm = Some (b, cm') \<and> nmInv cm' \<and>
           census (router cm') + clones (router cm) + created cm =
             census (router cm) + clones (router cm') + created cm' + 1 + (if asks (nmEnv env) cm m then 1 else 0)"
    if "envOk (nmEnv env)" "cmAcceptable (nmEnv env) cm m" for env m
    using cmAcceptable_settled [OF that(2) inv(1) that(1), of 0] by (auto simp: settles_def cloned_def balance_def)
  show "cmStartInterface env cm \<noteq> None" for env using cm_start_ok [OF inv(1), of env] by auto
  show "cmStopInterface env cm \<noteq> None" for env using cm_stop_ok [OF inv(2), of env] by auto
  show "cmAllState env cm \<noteq> None" for env using cm_heartbeats_work [OF inv(1), of env] by (auto simp: cmAllState_def works_def)
  show "cmStateMethod env cm \<noteq> None" for env using cm_stateMethod_works [OF inv(1), of env] by (auto simp: works_def)
qed

theorem communicator_goes_on_witness:
  "\<exists>cm b cm'. cmRun smallRouter 2 0 0 cm \<and> census (router cm) = created cm + clones (router cm) \<and>
     cmProcessMessage exampleCmEnv (Some (smallMessage (addr 2 1 35 1) (addr 1 1 35 1))) cm = Some (b, cm') \<and>
     census (router cm') + clones (router cm) + created cm = census (router cm) + clones (router cm') + created cm' + 1"
proof -
  obtain cm where cm: "newCommunicatorComponent 0 (mySubsystemId smallRouter) (myNodeId smallRouter) 2 smallRouter = Inr cm"
    by (rule small_communicator)
  have run: "cmRun smallRouter 2 0 0 cm" by (rule cmRun.constructed [OF cm])
  have two: "2 \<in> set (interfaces (cmptComms smallRouter))" by simp
  note law = communicator_goes_on [OF run routerOk_small two]
  let ?m = "smallMessage (addr 2 1 35 1) (addr 1 1 35 1)"
  have "cmAcceptable (nmEnv exampleCmEnv) cm ?m"
    by (rule cmAcceptable.plain) (simp_all add: cmAccepts_def nmAccepts_def cloneOk_iff smallMessage_def)
  moreover have "envOk (nmEnv exampleCmEnv)" using envOk_example by (simp add: exampleCmEnv_def)
  ultimately obtain b cm' where "cmProcessMessage exampleCmEnv (Some ?m) cm = Some (b, cm')"
      "census (router cm') + clones (router cm) + created cm =
         census (router cm) + clones (router cm') + created cm' + 1 + (if asks (nmEnv exampleCmEnv) cm ?m then 1 else 0)"
    using conjunct1 [OF conjunct2 [OF conjunct2 [OF law]]] by blast
  moreover have "\<not> asks (nmEnv exampleCmEnv) cm ?m"
    by (simp add: asks_plain asksConfiguration_def smallMessage_def)
  moreover have "census (router cm) = created cm + clones (router cm)" using law census_small by simp
  ultimately show ?thesis using run
    by (intro exI [of _ cm] exI [of _ b] exI [of _ cm'] conjI) simp_all
qed


text \<open>
  C15. The query for a configuration is freed twice. A heartbeat of another subsystem that has given its identification and
  not its configuration makes the communicator ask for it; afterwards the messages that wait or were destroyed are
  one more than those there were, the heartbeat, those it made and the clones, so one of them has two owners. The
  subsystem is as before, and each further heartbeat does the same.
\<close>

theorem configuration_query_freed_twice:
  assumes "nmInv cm" "commandCode m = JAUS_REPORT_HEARTBEAT_PULSE" "addrSubsystem (source m) \<notin> {255, addrSubsystem (ownAddress cm)}"
    "sub (treeOf cm) (uint (addrSubsystem (source m))) = Some subs" "subsIdentification subs = Some name" "subsNodes subs = []"
  shows "\<exists>cm' subs'. cmProcessMessage env (Some m) cm = Some (True, cm') \<and> nmInv cm' \<and>
    census (router cm') + clones (router cm) + created cm = census (router cm) + clones (router cm') + created cm' + 2 \<and>
    sub (treeOf cm') (uint (addrSubsystem (source m))) = Some subs' \<and> subsIdentification subs' = Some name \<and> subsNodes subs' = []"
proof -
  let ?src = "source m" and ?now = "nmClock (nmEnv env)"
  let ?s = "uint (addrSubsystem ?src)"
  have ok: "nmOk cm" and proper: "addrSubsystem ?src \<noteq> 255" using assms(1,3) by (simp_all add: nmInv_def)
  note tree = nmOk_tree [OF ok]
  have other: "\<not> jausAddressEqual ?src (ownAddress cm)" using assms(3) by (auto simp: jausAddressEqual_def)
  let ?t = "updSubs (treeOf cm) ?s (jausSubsystemUpdateTimestamp ?now)"
  have t: "updateSubsystemTimestamp ?now (treeOf cm) ?src = Some (True, ?t)"
    using assms(4) at_proper [OF tree proper] by (simp add: updateSubsystemTimestamp_def)
  let ?cm = "withTree ?t cm" and ?subs = "jausSubsystemUpdateTimestamp ?now subs"
  have set: "setTree (\<lambda>t. updateSubsystemTimestamp ?now t ?src) cm = Some ?cm" using t by (simp add: setTree_def)
  then have here: "since cm ?cm" using setTree_since [where operation = "\<lambda>t. updateSubsystemTimestamp ?now t ?src", OF ok timestamps_refine(1) [OF tree proper]] by auto
  have sub1: "sub ?t ?s = Some ?subs" using assms(4) by (simp add: sub_updSubs)
  note ok1 = since_ok [OF here]
  have tree1: "treeOk ?t" using nmOk_tree [OF ok1] by simp
  have has: "hasSubsystem ?t ?src = Some True" "hasSubsystemIdentification ?t ?src = Some True" "hasSubsystemConfiguration ?t ?src = Some False"
    using at_proper [OF tree1 proper] sub1 assms(5,6) has_keys(3) [OF tree1 proper]
    by (simp_all add: hasSubsystemIdentification_def hasSubsystemConfiguration_def jausSubsystemUpdateTimestamp_def subsKeys_def dom_def)
  obtain cm1 where cm1: "cmSendQuerySubsystemConfiguration ?src True ?cm = Some (True, cm1)" "quiet ?cm cm1" "treeOf cm1 = ?t" "balance 1 ?cm cm1"
    using cmSendQuery_settled [OF ok1 proper, of True] has by auto
  obtain cm2 where cm2: "finishWith True m cm1 = Some (True, cm2)" "balance 1 cm1 cm2" "quiet cm1 cm2" "treeOf cm2 = treeOf cm1"
    using finish_balance [OF balance_ok [OF cm1(4)]] by blast
  have "hasSubsystem (treeOf cm) ?src = Some True" using assms(4) has_keys(3) [OF tree proper] by (auto simp: subsKeys_def)
  then have "cmProcessMessage env (Some m) cm = Some (True, cm2)"
    using assms(2) other set has cm1(1) cm2(1) by (simp add: cmProcessMessage.simps(2) cmProcessReportHeartbeatPulse_def Let_def)
  moreover have "balance 2 cm cm2"
    using here balance_trans [OF _ balance_trans [OF cm1(4) cm2(2)], of 0 cm] by (simp add: numeral_2_eq_2)
  moreover have "nmInv cm2"
    using assms(1) here cm1(2) cm2(3) quiet_inv [of cm cm2] quiet_trans balance_ok [OF cm2(2)] by (metis nmInv_def)
  ultimately show ?thesis
    using sub1 cm1(3) cm2(4) assms(5,6) by (auto simp: balance_def jausSubsystemUpdateTimestamp_def)
qed


text \<open>A communicator whose tree holds this subsystem, with the node manager's component and component 40, and subsystem 2.\<close>

lemma tree_communicator:
  assumes "treeOk t"
  obtains cm :: CommunicatorComponent where "nmInv cm" "treeOf cm = t" "ownAddress cm = addr 1 1 35 1" "subsystemChangeList cm = [(0, addr 2 1 35 1)]"
    "clones (router cm) = 0" "created cm = 0" "census (router cm) = 0"
proof -
  let ?r = "smallRouter\<lparr>systemTree := t\<rparr>"
  have r: "routerOk ?r" using routerOk_small assms by (simp add: routerOk_def mngrOk_def cmptMapOk_def)
  obtain cm where cm: "newCommunicatorComponent 0 (mySubsystemId ?r) (myNodeId ?r) 2 ?r = Inr cm"
    by (simp add: newCommunicatorComponent_def Let_def)
  note p = communicator_fields [OF cm]
  let ?cm = "cm\<lparr>eventIds := (eventIds cm)[0 := True], subsystemChangeList := [(0, addr 2 1 35 1)]\<rparr>"
  have "nmInv cm" by (rule communicator_constructed_inv [OF cm r]) simp
  then have "nmInv ?cm"
    using p(4,6) by (auto simp: nmInv_def nmOk_def localOk_def subscriptionsOk_def subscriptions_def nth_list_update)
  moreover have "census ?r = 0" using census_small by (simp add: census_def)
  ultimately show ?thesis using that [of ?cm] p by simp
qed

theorem configuration_query_freed_twice_witness:
  "\<exists>cm m cm'. nmInv cm \<and> census (router cm) = 0 \<and> created cm = 0 \<and> cmProcessMessage exampleCmEnv (Some m) cm = Some (True, cm') \<and>
     census (router cm') = created cm' + clones (router cm') + 2"
proof -
  let ?t = "updSubs smallTree 2 (\<lambda>s. s\<lparr>subsIdentification := Some [65]\<rparr>)"
  have other: "sub smallTree 2 = Some smallOther" by (simp add: sub_small)
  have "okSubs 2 smallOther" by (rule treeOkD) (rule treeOk_small, rule other)
  then have "okSubs 2 (smallOther\<lparr>subsIdentification := Some [65]\<rparr>)" by (simp add: okSubs_def)
  then have "treeOk ?t" using treeOk_small sub_updSubs [OF other] by (auto simp: treeOk_def split: if_splits)
  then obtain cm :: CommunicatorComponent where cm: "nmInv cm" "treeOf cm = ?t" "ownAddress cm = addr 1 1 35 1" "clones (router cm) = 0" "created cm = 0" "census (router cm) = 0"
    by (rule tree_communicator)
  let ?m = "(smallMessage (addr 2 1 35 1) (addr 255 255 1 1))\<lparr>commandCode := JAUS_REPORT_HEARTBEAT_PULSE\<rparr>"
  have "sub (treeOf cm) (uint (addrSubsystem (source ?m))) = Some (smallOther\<lparr>subsIdentification := Some [65]\<rparr>)"
    using sub_updSubs [OF other] by (simp add: cm(2))
  from configuration_query_freed_twice [OF cm(1) _ _ this, of "[65]" exampleCmEnv] cm show ?thesis
    by (fastforce simp: smallOther_def)
qed

section \<open>The subscription\<close>

lemma confirm_message:
  assumes "commandCode c = JAUS_CONFIRM_EVENT_REQUEST"
  obtains jm where "confirmEventRequestMessageToJausMessage c = Some jm" "source jm = source c" "destination jm = destination c"
    "commandCode jm = JAUS_CONFIRM_EVENT_REQUEST"
    "\<And>junk. \<exists>c'. confirmEventRequestMessageFromJausMessage junk jm = Some (Some c') \<and> source c' = source c \<and>
       confirmEventRequest_messageCode c' = confirmEventRequest_messageCode c \<and>
       confirmEventRequest_responseCode c' = confirmEventRequest_responseCode c \<and>
       confirmEventRequest_eventId c' = confirmEventRequest_eventId c"
proof -
  let ?jm = "(copyHeader c jausMessageCreate)\<lparr>dataSize := confirmEventRequest_dataSize c, data := Some (confirmEventRequest_enc c)\<rparr>"
  have to: "confirmEventRequestMessageToJausMessage c = Some ?jm"
    using confirmEventRequest.toJausMessage [of c] by (simp add: confirmEventRequestMessageToJausMessage_def)
  have fr: "confirmEventRequestMessageFromJausMessage junk ?jm =
      Some (Some (confirmEventRequest_withData (copyHeader (c\<lparr>dataSize := confirmEventRequest_dataSize c\<rparr>) junk) c))" for junk
    using confirmEventRequest.jaus_roundtrip [OF assms, of junk] confirmEventRequest.toJausMessage [of c]
    by (simp add: confirmEventRequestMessageFromJausMessage_def)
  show ?thesis
    by (rule that [OF to]) (use assms fr in \<open>simp_all add: confirmEventRequest_withData_def onlyIf_def\<close>)
qed


text \<open>
  C13. The communicator subscribes at the node manager. In its ready state, not yet confirmed and after its second, it
  hands over one request to component 1 of its node. The node manager's component, if it has a number left, enters it
  among the subscribers of the subsystem with the lowest free number and hands over one confirmation, addressed to the
  communicator; when that has taken it, whatever it did in between, it is confirmed and does not ask again.
\<close>

theorem communicator_subscribes:
  assumes "nmInv cm" "\<not> nodeManagerSubsystemEventConfirmed cm" "nmTime env > readySendTime cm"
    "nmInv nm" "ownAddress nm = nodeManagerAt (addrSubsystem (ownAddress cm)) (addrNode (ownAddress cm))"
    "fst ` set (subscriptions nm) \<noteq> {..< 255}"
  shows "\<exists>request cm1 reply nm1 k. handOver request (cm\<lparr>created := created cm + 1\<rparr>) = Some cm1 \<and>
    readyState env cm = Some (cm1\<lparr>readySendTime := nmTime env + 1\<rparr>) \<and> destination request = ownAddress nm \<and>
    nmProcessMessage env' (Some request) nm =
      do { nm2 \<leftarrow> handOver reply (nm1\<lparr>created := created nm1 + 1\<rparr>); finishWith True request nm2 } \<and>
    k \<notin> fst ` set (subscriptions nm) \<and> (\<forall>j < k. j \<in> fst ` set (subscriptions nm)) \<and>
    subsystemChangeList nm1 = subsystemChangeList nm @ [(k, ownAddress cm)] \<and> nodeChangeList nm1 = nodeChangeList nm \<and>
    destination reply = ownAddress cm \<and>
    (\<forall>cenv later. ownAddress later = ownAddress cm \<longrightarrow>
       cmProcessMessage cenv (Some reply) later = finishWith True reply (later\<lparr>nodeManagerSubsystemEventConfirmed := True\<rparr>) \<and>
       (\<forall>env'' b rest. finishWith True reply (later\<lparr>nodeManagerSubsystemEventConfirmed := True\<rparr>) = Some (b, rest) \<longrightarrow>
          readyState env'' rest = Some rest))"
proof -
  have ok: "nmOk cm" "nmOk nm" "subscriptionsOk nm" using assms(1,4) by (simp_all add: nmInv_def)
  let ?to = "nodeManagerAt (addrSubsystem (ownAddress cm)) (addrNode (ownAddress cm))"
  obtain ce jm where jm: "configurationEvent JAUS_SUBSYSTEM_CONFIGURATION = Some ce" "createEventMessageToJausMessage ce = Some jm"
      "cloneOk jm" "commandCode jm = JAUS_CREATE_EVENT"
    and read: "\<forall>junk junkQuery dst src. \<exists>ce' q qc. createEventMessageFromJausMessage junk (jm\<lparr>destination := dst, source := src\<rparr>) = Some (Some ce') \<and>
       source ce' = src \<and> createEvent_reportMessageCode ce' = JAUS_REPORT_CONFIGURATION \<and> createEvent_queryMessage ce' = Some q \<and>
       queryConfigurationMessageFromJausMessage junkQuery q = Some (Some qc) \<and> queryConfiguration_queryField qc = JAUS_SUBSYSTEM_CONFIGURATION"
    by (rule request_understood)
  let ?request = "jm\<lparr>destination := ?to, source := ownAddress cm\<rparr>"
  have "cloneOk ?request" "nmOk (cm\<lparr>created := created cm + 1\<rparr>)" using jm(3) ok(1) by (simp_all add: cloneOk_iff dataBytes_def nmOk_def)
  then obtain cm1 where cm1: "handOver ?request (cm\<lparr>created := created cm + 1\<rparr>) = Some cm1" using handOver_posts by blast
  have ready: "readyState env cm = Some (cm1\<lparr>readySendTime := nmTime env + 1\<rparr>)"
    using assms(2,3) jm(1,2) cm1 by (simp add: readyState_def transmitNew_def addressed_def)
  obtain k where k: "getNextEventId nm = Some k" using getNextEventId_full [OF ok(3)] assms(6) by (cases "getNextEventId nm") auto
  obtain ce' q qc where ce': "createEventMessageFromJausMessage (junkNmCreateEvent env') ?request = Some (Some ce')" "source ce' = ownAddress cm"
      "createEvent_reportMessageCode ce' = JAUS_REPORT_CONFIGURATION" "createEvent_queryMessage ce' = Some q"
      "queryConfigurationMessageFromJausMessage (junkNmQueryConf env') q = Some (Some qc)" "queryConfiguration_queryField qc = JAUS_SUBSYSTEM_CONFIGURATION"
    using read by blast
  let ?c = "confirmEventRequestMessageCreate\<lparr>destination := ownAddress cm, source := ownAddress nm, confirmEventRequest_messageCode := JAUS_REPORT_CONFIGURATION\<rparr>"
  obtain c nm1 where s: "subscribe (\<lambda>l n. n\<lparr>subsystemChangeList := l\<rparr>) subsystemChangeList (ownAddress cm) ?c nm = (c, nm1)" by fastforce
  have list: "entered subsystemChangeList (\<lambda>l n. n\<lparr>subsystemChangeList := l\<rparr>)" by (simp add: entered_def)
  note entry = subscribe_entry [OF list ok(3) k s]
  have c: "commandCode c = JAUS_CONFIRM_EVENT_REQUEST" "source c = ownAddress nm" "destination c = ownAddress cm"
      "confirmEventRequest_messageCode c = JAUS_REPORT_CONFIGURATION" "nodeChangeList nm1 = nodeChangeList nm"
    using s k by (auto simp: subscribe_def Let_def existingSubscription_def confirmEventRequestMessageCreate_def
      confirmEventRequest_dataInitialize_def blankHeader_def JausHeader.extend_def split: option.splits prod.splits)
  obtain reply where reply: "confirmEventRequestMessageToJausMessage c = Some reply" "source reply = source c" "destination reply = destination c"
      "commandCode reply = JAUS_CONFIRM_EVENT_REQUEST"
    and reread: "\<And>junk. \<exists>c'. confirmEventRequestMessageFromJausMessage junk reply = Some (Some c') \<and> source c' = source c \<and>
       confirmEventRequest_messageCode c' = confirmEventRequest_messageCode c \<and>
       confirmEventRequest_responseCode c' = confirmEventRequest_responseCode c \<and>
       confirmEventRequest_eventId c' = confirmEventRequest_eventId c"
    using confirm_message [OF c(1)] by metis
  have served: "nmProcessMessage env' (Some ?request) nm =
      do { nm2 \<leftarrow> handOver reply (nm1\<lparr>created := created nm1 + 1\<rparr>); finishWith True ?request nm2 }"
    using jm(4) ce' s reply(1)
    by (simp add: nmProcessMessage.simps(2) processCreateEvent_def sendConfirmation_def transmitNew_def Let_def)
  have "cmProcessMessage cenv (Some reply) later = finishWith True reply (later\<lparr>nodeManagerSubsystemEventConfirmed := True\<rparr>)"
    if "ownAddress later = ownAddress cm" for cenv later
  proof -
    obtain c' where "confirmEventRequestMessageFromJausMessage (junkCmConfirm cenv) reply = Some (Some c')" "source c' = ownAddress nm"
        "confirmEventRequest_messageCode c' = JAUS_REPORT_CONFIGURATION" "confirmEventRequest_responseCode c' = SUCCESSFUL_RESPONSE"
      using reread [of "junkCmConfirm cenv"] c entry(9) by auto
    then show ?thesis
      using reply(4) that assms(5) by (simp add: cmProcessMessage.simps(2) processConfirmEvent_def nodeManagerAt_def)
  qed
  moreover have "readyState env'' rest = Some rest"
    if "finishWith True reply (later\<lparr>nodeManagerSubsystemEventConfirmed := True\<rparr>) = Some (b, rest)" for env'' b rest later
    using that by (auto simp: finishWith_def readyState_def)
  ultimately show ?thesis
    using cm1 ready served getNextEventId_free [OF ok(3) k] entry(1) c(3,5) reply(3) assms(5)
    by (intro exI [of _ ?request] exI [of _ cm1] exI [of _ reply] exI [of _ nm1] exI [of _ k]) auto
qed

theorem communicator_subscribes_witness:
  "\<exists>cm request cm1 (nm :: NodeManagerComponent) (nm1 :: NodeManagerComponent). nmInv cm \<and> nmInv nm \<and> handOver request (cm\<lparr>created := created cm + 1\<rparr>) = Some cm1 \<and>
     readyState (exampleEnv\<lparr>nmTime := 1\<rparr>) cm = Some (cm1\<lparr>readySendTime := 2\<rparr>) \<and> subsystemChangeList nm1 = [(0, addr 1 1 35 1)]"
proof -
  obtain cm where "newCommunicatorComponent 0 (mySubsystemId smallRouter) (myNodeId smallRouter) 2 smallRouter = Inr cm"
    and cm: "ownAddress cm = addr 1 1 35 1" "nmInv cm" "nodeManagerSubsystemEventConfirmed cm = False" "readySendTime cm = 0"
    by (rule small_communicator)
  obtain nm where nm: "newNodeManagerComponent 0 (mySubsystemId smallRouter) (myNodeId smallRouter) 2 smallRouter = Inr nm"
      "subsystemChangeList nm = []" "nodeChangeList nm = []" "ownAddress nm = addr 1 1 1 1" by (rule small_manager)
  have inv: "nmInv nm" by (rule constructed_inv [OF nm(1) routerOk_small]) simp
  have "(0 :: nat) \<in> {..< 255}" by simp
  then have "{} \<noteq> {..< 255 :: nat}" by blast
  then have none: "fst ` set (subscriptions nm) \<noteq> {..< 255}" using nm(2,3) by (simp add: subscriptions_def)
  have "ownAddress nm = nodeManagerAt (addrSubsystem (ownAddress cm)) (addrNode (ownAddress cm))"
    using nm(4) cm(1) by (simp add: nodeManagerAt_def)
  note there = this
  let ?env = "exampleEnv\<lparr>nmTime := 1\<rparr>"
  have "\<not> nodeManagerSubsystemEventConfirmed cm" "readySendTime cm < nmTime ?env" using cm(3,4) by simp_all
  note law = communicator_subscribes [OF cm(2) this inv there none, of exampleEnv]
  then obtain request cm1 k and nm1 :: NodeManagerComponent where r: "handOver request (cm\<lparr>created := created cm + 1\<rparr>) = Some cm1"
    "readyState ?env cm = Some (cm1\<lparr>readySendTime := nmTime ?env + 1\<rparr>)" "\<forall>j < k. j \<in> fst ` set (subscriptions nm)"
    "subsystemChangeList nm1 = subsystemChangeList nm @ [(k, ownAddress cm)]" by blast
  have "k = 0" using r(3) nm(2,3) by (auto simp: subscriptions_def)
  then show ?thesis using r cm(1,2) nm(2) inv by (intro exI [of _ cm] exI [of _ request] exI [of _ cm1] exI [of _ nm] exI [of _ nm1]) simp
qed


section \<open>The way of a change\<close>

lemma own_subsystem_told:
  assumes "nmInv nm" "sub (treeOf nm) (mySubsystemId (router nm)) = Some subs" "configurationOk (configuration subs)"
  shows "\<exists>ms. sendSubsystemChangedEvents env nm = handAll ms nm \<and> cmSendSubsystemChangedEvents env nm = handAll ms nm \<and>
    list_all2 (tells (ownAddress nm) (configuration subs)) (subsystemChangeList nm) ms"
proof -
  have ok: "nmOk nm" using assms(1) by (simp add: nmInv_def)
  have own: "uint (addrSubsystem (ownAddress nm)) = mySubsystemId (router nm)" using ok by (simp add: nmOk_def)
  let ?subs = "stampSubs (nmClock env) subs"
  have same: "configuration ?subs = configuration subs"
    by (simp add: configuration_def stampSubs_def comp_def nodeConf_def stampNode_def jausComponentUpdateTimestamp_def)
  have fits: "fitsReport ?subs" by (rule okSubs_fits [OF okSubs_stamped [OF treeOkD [OF nmOk_tree [OF ok] assms(2)]]])
  have got: "getSubsystem (nmClock env) (treeOf nm) (uint (addrSubsystem (ownAddress nm))) = Some (Some ?subs)"
    using getSubsystem_ok [OF nmOk_tree [OF ok] unsigned_greater_eq [of "addrSubsystem (ownAddress nm)"], of "nmClock env"]
      nmOk_own(2) [OF ok] own assms(2) by simp
  show ?thesis
    using configurationEvents_tell [OF fits, of "nmClock env" "subsystemChangeList nm" nm] assms(3) same got
    by (simp add: sendSubsystemChangedEvents_def cmSendSubsystemChangedEvents_def)
qed

text \<open>A report of the node manager of this subsystem that comes in an event.\<close>

lemma told_relayed:
  assumes "nmInv cm" "tells own c (k, a) m" "addrSubsystem own = addrSubsystem (ownAddress cm)" "addrComponent own = JAUS_NODE_MANAGER_COMPONENT"
    "sub (treeOf cm) (mySubsystemId (router cm)) = Some subs" "configurationOk (configuration subs)"
  shows "\<exists>r ms. cmProcessMessage env (Some m) cm =
      do { cm1 \<leftarrow> handAll ms (cloned 1 cm); (_, cm2) \<leftarrow> finishWith True r cm1; finishWith True m cm2 } \<and>
    list_all2 (tells (ownAddress cm) (configuration subs)) (subsystemChangeList cm) ms"
proof -
  let ?env = "nmEnv env"
  have code: "commandCode m = JAUS_EVENT" using assms(2) by (simp add: tells_def)
  obtain e r rc where e: "eventMessageFromJausMessage (junkNmEvent ?env) m = Some (Some e)" "event_reportMessage e = Some r"
      "commandCode r = JAUS_REPORT_CONFIGURATION" "source rc = own"
      "reportConfigurationMessageFromJausMessage (nmClock ?env) (junkNmReportConf ?env) r = Some (Some rc)"
    using assms(2) unfolding tells_def by blast
  have "cloneOk r" using event_nested [OF e(1)] e(2) by (auto simp: cloneOk_iff)
  then obtain r' where r': "jausMessageClone r = Some r'" "source r' = source r" "commandCode r' = commandCode r" by (rule cloneOk_clone)
  have src: "source r = own" using configuration_unpacked [OF \<open>cloneOk r\<close>, of "nmClock ?env" "junkNmReportConf ?env"] e(4,5) by auto
  have carried: "carriedBy ?env m = Some r'" using e(1,2) r'(1) by (simp add: carriedBy_def)
  have inv: "nmInv (cloned 1 cm)" using assms(1) by (simp add: nmInv_cloned)
  have "sub (treeOf (cloned 1 cm)) (mySubsystemId (router (cloned 1 cm))) = Some subs" using assms(5) by (simp add: cloned_def)
  from own_subsystem_told [OF inv this assms(6), of ?env]
  obtain ms where ms: "cmSendSubsystemChangedEvents ?env (cloned 1 cm) = handAll ms (cloned 1 cm)"
      "list_all2 (tells (ownAddress cm) (configuration subs)) (subsystemChangeList cm) ms" by (auto simp: cloned_def)
  have "cmProcessMessage env (Some r') (cloned 1 cm) = do { cm1 \<leftarrow> handAll ms (cloned 1 cm); finishWith True r' cm1 }"
    using r'(2,3) e(3) src assms(3,4) ms(1) by (simp add: cmProcessMessage.simps(2) cmProcessReportConfiguration_def)
  then show ?thesis
    using cmProcessEvent_unfold [OF code carried, of cm] ms(2) by (auto simp: bind_assoc)
qed

text \<open>
  C11. A change of the configuration passes through both components. When the communicator is subscribed at the node manager's
  component and both see the same tree, the events the node manager's component hands over at a change contain one for the
  communicator; taking it, the communicator hands over one event per entry of its own list, in the order of the list, from
  which its subscribers, the communicators of other subsystems, unpack exactly the nodes, components and instances
  the tree holds for this subsystem.
\<close>

theorem change_relayed:
  assumes "nmInv nm" "nmInv cm" "treeOf cm = treeOf nm" "addrSubsystem (ownAddress cm) = addrSubsystem (ownAddress nm)"
    "addrComponent (ownAddress nm) = JAUS_NODE_MANAGER_COMPONENT" "(k, ownAddress cm) \<in> set (subsystemChangeList nm)"
    "sub (treeOf nm) (mySubsystemId (router nm)) = Some subs" "configurationOk (configuration subs)"
  shows "\<exists>ms m r ms'. sendSubsystemChangedEvents env nm = handAll ms nm \<and>
    list_all2 (tells (ownAddress nm) (configuration subs)) (subsystemChangeList nm) ms \<and> m \<in> set ms \<and> destination m = ownAddress cm \<and>
    cmProcessMessage cenv (Some m) cm =
      do { cm1 \<leftarrow> handAll ms' (cloned 1 cm); (_, cm2) \<leftarrow> finishWith True r cm1; finishWith True m cm2 } \<and>
    list_all2 (tells (ownAddress cm) (configuration subs)) (subsystemChangeList cm) ms'"
proof -
  have same: "mySubsystemId (router cm) = mySubsystemId (router nm)" using assms(1,2,4) by (simp add: nmInv_def nmOk_def)
  obtain ms where ms: "sendSubsystemChangedEvents env nm = handAll ms nm"
      "list_all2 (tells (ownAddress nm) (configuration subs)) (subsystemChangeList nm) ms"
    using own_subsystem_told [OF assms(1,7,8)] by blast
  obtain i where i: "i < length ms" "subsystemChangeList nm ! i = (k, ownAddress cm)"
    using assms(6) list_all2_lengthD [OF ms(2)] by (auto simp: in_set_conv_nth)
  have told: "tells (ownAddress nm) (configuration subs) (k, ownAddress cm) (ms ! i)"
    using list_all2_nthD2 [OF ms(2) i(1)] i(2) by simp
  have "sub (treeOf cm) (mySubsystemId (router cm)) = Some subs" using assms(3,7) same by simp
  from told_relayed [OF assms(2) told assms(4) [symmetric] assms(5) this assms(8), of cenv]
  obtain r ms' where "cmProcessMessage cenv (Some (ms ! i)) cm =
      do { cm1 \<leftarrow> handAll ms' (cloned 1 cm); (_, cm2) \<leftarrow> finishWith True r cm1; finishWith True (ms ! i) cm2 }"
    "list_all2 (tells (ownAddress cm) (configuration subs)) (subsystemChangeList cm) ms'" by blast
  moreover have "destination (ms ! i) = ownAddress cm" using told by (simp add: tells_def)
  ultimately show ?thesis using ms i(1) nth_mem by blast
qed

theorem change_relayed_witness:
  "\<exists>(nm :: NodeManagerComponent) cm m m'. nmInv nm \<and> nmInv cm \<and> sendSubsystemChangedEvents exampleEnv nm = handAll [m] nm \<and>
     destination m = addr 1 1 35 1 \<and> destination m' = addr 2 1 35 1 \<and>
     (\<exists>r. cmProcessMessage exampleCmEnv (Some m) cm =
        do { cm1 \<leftarrow> handAll [m'] (cloned 1 cm); (_, cm2) \<leftarrow> finishWith True r cm1; finishWith True m cm2 })"
proof -
  obtain cm :: CommunicatorComponent where cm: "nmInv cm" "treeOf cm = smallTree" "ownAddress cm = addr 1 1 35 1"
      "subsystemChangeList cm = [(0, addr 2 1 35 1)]"
    by (rule tree_communicator [OF treeOk_small])
  obtain nm0 :: NodeManagerComponent where nm0: "nmInv nm0" "treeOf nm0 = smallTree" "ownAddress nm0 = addr 1 1 1 1"
      "mySubsystemId (router nm0) = 1" "subsystemChangeList nm0 = [(0, addr 2 1 1 1)]" by (rule tree_manager)
  let ?nm = "nm0\<lparr>subsystemChangeList := [(0, addr 1 1 35 1)]\<rparr>"
  have inv: "nmInv ?nm" using nm0(1,5) by (simp add: nmInv_def nmOk_def localOk_def subscriptionsOk_def subscriptions_def)
  have conf: "configurationOk (configuration smallOwn)"
    by (simp add: configurationOk_def configuration_def nodeConf_def smallOwn_def)
  have "\<exists>ms m r ms'. sendSubsystemChangedEvents exampleEnv ?nm = handAll ms ?nm \<and>
      list_all2 (tells (ownAddress ?nm) (configuration smallOwn)) (subsystemChangeList ?nm) ms \<and> m \<in> set ms \<and> destination m = ownAddress cm \<and>
      cmProcessMessage exampleCmEnv (Some m) cm =
        do { cm1 \<leftarrow> handAll ms' (cloned 1 cm); (_, cm2) \<leftarrow> finishWith True r cm1; finishWith True m cm2 } \<and>
      list_all2 (tells (ownAddress cm) (configuration smallOwn)) (subsystemChangeList cm) ms'"
    by (rule change_relayed [OF inv cm(1)]) (simp_all add: cm nm0 sub_small conf)
  then obtain ms m r ms' where r: "sendSubsystemChangedEvents exampleEnv ?nm = handAll ms ?nm"
      "list_all2 (tells (ownAddress ?nm) (configuration smallOwn)) (subsystemChangeList ?nm) ms" "m \<in> set ms" "destination m = ownAddress cm"
      "cmProcessMessage exampleCmEnv (Some m) cm =
        do { cm1 \<leftarrow> handAll ms' (cloned 1 cm); (_, cm2) \<leftarrow> finishWith True r cm1; finishWith True m cm2 }"
      "list_all2 (tells (ownAddress cm) (configuration smallOwn)) (subsystemChangeList cm) ms'" by blast
  have "ms = [m]" using r(2,3) by (auto simp: list_all2_Cons1)
  moreover obtain m' where m': "ms' = [m']" "destination m' = addr 2 1 35 1" using r(6) by (auto simp: cm(4) list_all2_Cons1 tells_def)
  ultimately show ?thesis
    using r(1,4,5) inv cm(1,3) by (intro exI [of _ ?nm] exI [of _ cm] exI [of _ m] exI [of _ m'] conjI exI [of _ r]) (simp_all del: handAll.simps)
qed

end
